(* ===== verification/Errors.thy ===== *)
theory Errors
  imports Prelude
begin

text \<open>
  The error type of the server (\<^verbatim>\<open>error.rs\<close>): the OCI error codes, the HTTP status each one is sent
  with, and the JSON error body with its \<^verbatim>\<open>WWW-Authenticate\<close> challenge.  An HTTP status is its number.
\<close>

datatype layerhouse_error =
    BlobUnknown msg
  | BlobUploadInvalid msg
  | BlobUploadUnknown msg
  | DigestInvalid msg
  | ManifestBlobUnknown msg
  | ManifestInvalid msg
  | ManifestUnknown msg
  | NameInvalid msg
  | NameUnknown msg
  | SizeInvalid msg
  | Unauthorized msg "string option" "string option" "string option"
  | Denied msg
  | Unsupported msg
  | TooManyRequests msg
  | Conflict msg
  | S3 msg
  | Io msg
  | Serialization msg
  | Upstream msg
  | NotLeader msg
  | Consensus msg
  | Internal msg

type_synonym 'a lh_result = "('a, layerhouse_error) result"

fun error_display :: "layerhouse_error \<Rightarrow> msg" where
  "error_display (BlobUnknown m) = Lit ''BLOB_UNKNOWN: '' # m"
| "error_display (BlobUploadInvalid m) = Lit ''BLOB_UPLOAD_INVALID: '' # m"
| "error_display (BlobUploadUnknown m) = Lit ''BLOB_UPLOAD_UNKNOWN: '' # m"
| "error_display (DigestInvalid m) = Lit ''DIGEST_INVALID: '' # m"
| "error_display (ManifestBlobUnknown m) = Lit ''MANIFEST_BLOB_UNKNOWN: '' # m"
| "error_display (ManifestInvalid m) = Lit ''MANIFEST_INVALID: '' # m"
| "error_display (ManifestUnknown m) = Lit ''MANIFEST_UNKNOWN: '' # m"
| "error_display (NameInvalid m) = Lit ''NAME_INVALID: '' # m"
| "error_display (NameUnknown m) = Lit ''NAME_UNKNOWN: '' # m"
| "error_display (SizeInvalid m) = Lit ''SIZE_INVALID: '' # m"
| "error_display (Unauthorized m _ _ _) = Lit ''UNAUTHORIZED: '' # m"
| "error_display (Denied m) = Lit ''DENIED: '' # m"
| "error_display (Unsupported m) = Lit ''UNSUPPORTED: '' # m"
| "error_display (TooManyRequests m) = Lit ''TOOMANYREQUESTS: '' # m"
| "error_display (Conflict m) = Lit ''CONFLICT: '' # m"
| "error_display (S3 m) = Lit ''S3 error: '' # m"
| "error_display (Io m) = Lit ''IO error: '' # m"
| "error_display (Serialization m) = Lit ''serialization error: '' # m"
| "error_display (Upstream m) = Lit ''upstream error: '' # m"
| "error_display (NotLeader m) = Lit ''not leader, redirect to: '' # m"
| "error_display (Consensus m) = Lit ''consensus error: '' # m"
| "error_display (Internal m) = Lit ''internal error: '' # m"

fun oci_code :: "layerhouse_error \<Rightarrow> string" where
  "oci_code (BlobUnknown _) = ''BLOB_UNKNOWN''"
| "oci_code (BlobUploadInvalid _) = ''BLOB_UPLOAD_INVALID''"
| "oci_code (BlobUploadUnknown _) = ''BLOB_UPLOAD_UNKNOWN''"
| "oci_code (DigestInvalid _) = ''DIGEST_INVALID''"
| "oci_code (ManifestBlobUnknown _) = ''MANIFEST_BLOB_UNKNOWN''"
| "oci_code (ManifestInvalid _) = ''MANIFEST_INVALID''"
| "oci_code (ManifestUnknown _) = ''MANIFEST_UNKNOWN''"
| "oci_code (NameInvalid _) = ''NAME_INVALID''"
| "oci_code (NameUnknown _) = ''NAME_UNKNOWN''"
| "oci_code (SizeInvalid _) = ''SIZE_INVALID''"
| "oci_code (Unauthorized _ _ _ _) = ''UNAUTHORIZED''"
| "oci_code (Denied _) = ''DENIED''"
| "oci_code (Unsupported _) = ''UNSUPPORTED''"
| "oci_code (TooManyRequests _) = ''TOOMANYREQUESTS''"
| "oci_code (Conflict _) = ''CONFLICT''"
| "oci_code _ = ''UNKNOWN''"

fun status_code :: "layerhouse_error \<Rightarrow> nat" where
  "status_code (BlobUnknown _) = 404"
| "status_code (ManifestUnknown _) = 404"
| "status_code (NameUnknown _) = 404"
| "status_code (BlobUploadUnknown _) = 404"
| "status_code (BlobUploadInvalid _) = 400"
| "status_code (DigestInvalid _) = 400"
| "status_code (ManifestBlobUnknown _) = 400"
| "status_code (ManifestInvalid _) = 400"
| "status_code (NameInvalid _) = 400"
| "status_code (SizeInvalid _) = 400"
| "status_code (Unauthorized _ _ _ _) = 401"
| "status_code (Denied _) = 403"
| "status_code (Unsupported _) = 405"
| "status_code (TooManyRequests _) = 429"
| "status_code (Conflict _) = 409"
| "status_code (Upstream _) = 502"
| "status_code (NotLeader _) = 503"
| "status_code (Consensus _) = 503"
| "status_code (S3 _) = 500"
| "status_code (Io _) = 500"
| "status_code (Serialization _) = 500"
| "status_code (Internal _) = 500"

definition auth_required :: "string \<Rightarrow> string \<Rightarrow> string \<Rightarrow> layerhouse_error" where
  "auth_required realm service scope =
     Unauthorized [Lit ''authentication required''] (Some realm) (Some service) (Some scope)"

text \<open>
  The response of \<^verbatim>\<open>IntoResponse\<close>.  Whether the challenge text is accepted as a header value is
  decided by the \<^verbatim>\<open>http\<close> crate: \<open>header_ok\<close>.
\<close>

record error_response =
  er_status :: nat
  er_code :: string
  er_message :: msg
  er_www_authenticate :: "string option"

definition challenge_part :: "string \<Rightarrow> string option \<Rightarrow> string" where
  "challenge_part pre x = (case x of None \<Rightarrow> '''' | Some v \<Rightarrow> pre @ [CHR 0x22] @ v @ [CHR 0x22])"

definition challenge_value :: "string option \<Rightarrow> string option \<Rightarrow> string option \<Rightarrow> string" where
  "challenge_value realm service scope =
     ''Bearer'' @ challenge_part '' realm='' realm
       @ challenge_part '',service='' service @ challenge_part '',scope='' scope"

definition into_response :: "(string \<Rightarrow> bool) \<Rightarrow> layerhouse_error \<Rightarrow> error_response" where
  "into_response header_ok e =
     \<lparr>er_status = status_code e, er_code = oci_code e, er_message = error_display e,
      er_www_authenticate =
        (case e of
           Unauthorized _ realm service scope \<Rightarrow>
             (let v = challenge_value realm service scope in if header_ok v then Some v else None)
         | _ \<Rightarrow> None)\<rparr>"

lemma oci_code_UNKNOWN_iff: "oci_code e = ''UNKNOWN'' \<longleftrightarrow> 500 \<le> status_code e"
  by (cases e) simp_all

lemma status_code_401_iff: "status_code e = 401 \<longleftrightarrow> (\<exists>m r s c. e = Unauthorized m r s c)"
  by (cases e) simp_all

end
