(* ===== verification/Ordered_Map.thy ===== *)
theory Ordered_Map
  imports Prelude "HOL-Library.Multiset"
begin

text \<open>
  \<^verbatim>\<open>std::collections::BTreeMap\<close>, the container of every collection of the metadata index.  A map is
  a list of entries with strictly increasing keys, which is also the order in which \<^verbatim>\<open>iter\<close>,
  \<^verbatim>\<open>keys\<close> and \<^verbatim>\<open>values\<close> visit it.  The locale \<open>ordered_map\<close> states the laws the components rely on;
  they are proved for the list operations here and used through \<^verbatim>\<open>bt\<close> everywhere else.
\<close>

section \<open>Strictly sorted entry lists\<close>

lemma sorted_fst_unique:
  fixes xs ys :: "('k::linorder \<times> 'v) list"
  assumes "sorted_wrt (<) (map fst xs)" and "sorted_wrt (<) (map fst ys)" and "set xs = set ys"
  shows "xs = ys"
  using assms
proof (induction xs arbitrary: ys)
  case Nil
  then show ?case by simp
next
  case (Cons x xs)
  from Cons.prems(3) obtain y ys' where ys: "ys = y # ys'"
    by (cases ys) auto
  have x_min: "\<forall>z \<in> set xs. fst x < fst z" and y_min: "\<forall>z \<in> set ys'. fst y < fst z"
    using Cons.prems(1,2) ys by auto
  have "x \<in> insert y (set ys')" "y \<in> insert x (set xs)"
    using Cons.prems(3) ys by auto
  then have xy: "x = y"
    using x_min y_min by (metis insertE order_less_asym)
  have "set xs = set ys'"
    using Cons.prems(3) ys xy x_min y_min by (metis insert_ident list.simps(15) order_less_irrefl)
  then show ?case
    using Cons.IH [of ys'] Cons.prems(1,2) ys xy by simp
qed

fun al_insert :: "'k::linorder \<Rightarrow> 'v \<Rightarrow> ('k \<times> 'v) list \<Rightarrow> ('k \<times> 'v) list" where
  "al_insert k v [] = [(k, v)]"
| "al_insert k v ((k', v') # es) =
     (if k < k' then (k, v) # (k', v') # es
      else if k = k' then (k, v) # es
      else (k', v') # al_insert k v es)"

definition al_remove :: "'k \<Rightarrow> ('k \<times> 'v) list \<Rightarrow> ('k \<times> 'v) list" where
  "al_remove k es = filter (\<lambda>(k', _). k' \<noteq> k) es"

lemma set_al_insert:
  "sorted_wrt (<) (map fst es) \<Longrightarrow>
    set (al_insert k v es) = insert (k, v) {e \<in> set es. fst e \<noteq> k}"
  by (induction k v es rule: al_insert.induct) (auto simp: image_iff)

lemma fst_set_al_insert: "fst ` set (al_insert k v es) = insert k (fst ` set es)"
  by (induction k v es rule: al_insert.induct) auto

lemma sorted_al_insert:
  "sorted_wrt (<) (map fst es) \<Longrightarrow> sorted_wrt (<) (map fst (al_insert k v es))"
proof (induction k v es rule: al_insert.induct)
  case (2 k v k' v' es)
  then show ?case
    using fst_set_al_insert [of k v es] by (auto intro: less_trans)
qed simp

lemma sorted_map_fst_filter:
  "sorted_wrt (<) (map fst es) \<Longrightarrow> sorted_wrt (<) (map fst (filter P es))"
  by (induction es) auto

lemma map_of_al_insert: "map_of (al_insert k v es) = (map_of es)(k \<mapsto> v)"
  by (induction k v es rule: al_insert.induct) auto

lemma map_of_al_remove: "map_of (al_remove k es) = (map_of es)(k := None)"
  by (induction es) (auto simp: al_remove_def)

lemma map_of_filter_entries:
  "distinct (map fst es) \<Longrightarrow>
    map_of (filter (\<lambda>(k, v). P k v) es) k =
      (case map_of es k of None \<Rightarrow> None | Some v \<Rightarrow> if P k v then Some v else None)"
proof (induction es)
  case (Cons e es)
  then show ?case
    by (cases e) (auto simp: map_of_eq_None_iff split: option.splits)
qed simp

lemma map_of_map_entries:
  "map_of (map (\<lambda>(k, v). (k, f k v)) es) k = map_option (f k) (map_of es k)"
  by (induction es) auto

text \<open>The values as a multiset: insertion replaces the value under the key, removal takes it away.\<close>

abbreviation opt_mset :: "'v option \<Rightarrow> 'v multiset" where
  "opt_mset x \<equiv> (case x of None \<Rightarrow> {#} | Some v \<Rightarrow> {#v#})"

lemma mset_values_al_insert:
  "sorted_wrt (<) (map fst es) \<Longrightarrow>
    mset (map snd (al_insert k v es)) + opt_mset (map_of es k) = add_mset v (mset (map snd es))"
proof (induction k v es rule: al_insert.induct)
  case (2 k v k' v' es)
  have "map_of es k = None" if "k < k'"
    using that "2.prems" by (auto simp: map_of_eq_None_iff)
  then show ?case
    using 2 by auto
qed simp

lemma al_remove_absent: "k \<notin> fst ` set es \<Longrightarrow> al_remove k es = es"
  by (force simp: al_remove_def intro: filter_True)

lemma mset_values_al_remove:
  "distinct (map fst es) \<Longrightarrow>
    mset (map snd (al_remove k es)) + opt_mset (map_of es k) = mset (map snd es)"
proof (induction es)
  case (Cons e es)
  obtain k' v where e: "e = (k', v)" by (cases e)
  show ?case
  proof (cases "k' = k")
    case True
    with Cons.prems e have "k \<notin> fst ` set es" by simp
    then show ?thesis
      using al_remove_absent [of k es] e True by (simp add: al_remove_def)
  next
    case False
    with Cons e show ?thesis by (simp add: al_remove_def)
  qed
qed (simp add: al_remove_def)

section \<open>The interface\<close>

locale ordered_map =
  fixes empty :: "'m"
    and get :: "'m \<Rightarrow> 'k::linorder \<Rightarrow> 'v option"
    and insert :: "'k \<Rightarrow> 'v \<Rightarrow> 'm \<Rightarrow> 'm"
    and remove :: "'k \<Rightarrow> 'm \<Rightarrow> 'm"
    and entries :: "'m \<Rightarrow> ('k \<times> 'v) list"
  assumes get_empty: "get empty k = None"
    and get_insert: "get (insert k v m) k' = (if k' = k then Some v else get m k')"
    and get_remove: "get (remove k m) k' = (if k' = k then None else get m k')"
    and entries_sorted: "sorted_wrt (<) (map fst (entries m))"
    and entries_get: "(k, v) \<in> set (entries m) \<longleftrightarrow> get m k = Some v"
begin

text \<open>Iteration visits each key once, in increasing order, and two maps that look up alike iterate alike.\<close>

lemma entries_distinct: "distinct (map fst (entries m))"
  using entries_sorted by (simp add: strict_sorted_iff)

lemma entries_ext:
  assumes "\<And>k. get m k = get m' k"
  shows "entries m = entries m'"
proof (rule sorted_fst_unique)
  show "sorted_wrt (<) (map fst (entries m))" "sorted_wrt (<) (map fst (entries m'))"
    by (rule entries_sorted)+
  show "set (entries m) = set (entries m')"
    using assms by (auto simp: entries_get)
qed

lemma keys_dom: "fst ` set (entries m) = {k. get m k \<noteq> None}"
proof -
  have "k \<in> fst ` set (entries m) \<longleftrightarrow> (\<exists>v. (k, v) \<in> set (entries m))" for k
    by force
  then show ?thesis
    by (auto simp: entries_get)
qed

lemma finite_dom: "finite {k. get m k \<noteq> None}"
  using keys_dom [of m] by (metis List.finite_set finite_imageI)

lemma insert_overwrite:
  "entries (insert k v (insert k w m)) = entries (insert k v m)"
  by (rule entries_ext) (simp add: get_insert)

lemma insert_commute_entries:
  "k \<noteq> k' \<Longrightarrow> entries (insert k v (insert k' w m)) = entries (insert k' w (insert k v m))"
  by (rule entries_ext) (simp add: get_insert)

lemma remove_insert_entries: "entries (remove k (insert k v m)) = entries (remove k m)"
  by (rule entries_ext) (simp add: get_insert get_remove)

end

section \<open>The map type\<close>

typedef (overloaded) ('k::linorder, 'v) btmap =
  "{es :: ('k \<times> 'v) list. sorted_wrt (<) (map fst es)}"
  morphisms bt_entries Abs_btmap
  by (rule exI [of _ "[]"]) simp

setup_lifting type_definition_btmap

lift_definition bt_empty :: "('k::linorder, 'v) btmap" is "[]"
  by simp

lift_definition bt_get :: "('k::linorder, 'v) btmap \<Rightarrow> 'k \<Rightarrow> 'v option" is map_of .

lift_definition bt_insert :: "'k::linorder \<Rightarrow> 'v \<Rightarrow> ('k, 'v) btmap \<Rightarrow> ('k, 'v) btmap" is al_insert
  by (rule sorted_al_insert)

lift_definition bt_remove :: "'k::linorder \<Rightarrow> ('k, 'v) btmap \<Rightarrow> ('k, 'v) btmap" is al_remove
  unfolding al_remove_def by (rule sorted_map_fst_filter)

text \<open>\<^verbatim>\<open>retain\<close> with a predicate on entries, and an in-place update of every value (\<^verbatim>\<open>values_mut\<close>).\<close>

lift_definition bt_retain :: "('k \<Rightarrow> 'v \<Rightarrow> bool) \<Rightarrow> ('k::linorder, 'v) btmap \<Rightarrow> ('k, 'v) btmap"
  is "\<lambda>P. filter (\<lambda>(k, v). P k v)"
  by (rule sorted_map_fst_filter)

lift_definition bt_map :: "('k \<Rightarrow> 'v \<Rightarrow> 'w) \<Rightarrow> ('k::linorder, 'v) btmap \<Rightarrow> ('k, 'w) btmap"
  is "\<lambda>f. map (\<lambda>(k, v). (k, f k v))"
  by (simp add: comp_def split_beta)

definition bt_keys :: "('k::linorder, 'v) btmap \<Rightarrow> 'k list" where
  "bt_keys m = map fst (bt_entries m)"

definition bt_values :: "('k::linorder, 'v) btmap \<Rightarrow> 'v list" where
  "bt_values m = map snd (bt_entries m)"

definition bt_len :: "('k::linorder, 'v) btmap \<Rightarrow> nat" where
  "bt_len m = length (bt_entries m)"

definition bt_is_empty :: "('k::linorder, 'v) btmap \<Rightarrow> bool" where
  "bt_is_empty m \<longleftrightarrow> bt_entries m = []"

definition bt_contains :: "('k::linorder, 'v) btmap \<Rightarrow> 'k \<Rightarrow> bool" where
  "bt_contains m k \<longleftrightarrow> bt_get m k \<noteq> None"

text \<open>\<^verbatim>\<open>entry(k).or_default()\<close>: the value under a key, the default when it is absent.\<close>

definition bt_get_or :: "'v \<Rightarrow> ('k::linorder, 'v) btmap \<Rightarrow> 'k \<Rightarrow> 'v" where
  "bt_get_or d m k = (case bt_get m k of None \<Rightarrow> d | Some v \<Rightarrow> v)"

section \<open>The laws\<close>

interpretation bt: ordered_map bt_empty bt_get bt_insert bt_remove bt_entries
proof unfold_locales
  fix k k' :: "'k::linorder" and v :: 'v and m :: "('k, 'v) btmap"
  show "bt_get (bt_empty :: ('k, 'v) btmap) k = None"
    by transfer simp
  show "bt_get (bt_insert k v m) k' = (if k' = k then Some v else bt_get m k')"
    by transfer (simp add: map_of_al_insert)
  show "bt_get (bt_remove k m) k' = (if k' = k then None else bt_get m k')"
    by transfer (simp add: map_of_al_remove)
  show "sorted_wrt (<) (map fst (bt_entries m))"
    using bt_entries by simp
  show "(k, v) \<in> set (bt_entries m) \<longleftrightarrow> bt_get m k = Some v"
    by transfer (simp add: strict_sorted_iff map_of_eq_Some_iff)
qed

lemmas bt_get_simps [simp] = bt.get_empty bt.get_insert bt.get_remove

lemma bt_ext: "(\<And>k. bt_get m k = bt_get m' k) \<Longrightarrow> m = m'"
  by (metis bt.entries_ext bt_entries_inject)

lemma bt_eq_iff: "m = m' \<longleftrightarrow> (\<forall>k. bt_get m k = bt_get m' k)"
  using bt_ext by blast

lemma bt_get_retain [simp]:
  "bt_get (bt_retain P m) k =
    (case bt_get m k of None \<Rightarrow> None | Some v \<Rightarrow> if P k v then Some v else None)"
  by transfer (simp add: strict_sorted_iff map_of_filter_entries)

lemma bt_get_map [simp]: "bt_get (bt_map f m) k = map_option (f k) (bt_get m k)"
  by transfer (rule map_of_map_entries)

lemma bt_contains_simps [simp]:
  "\<not> bt_contains bt_empty k"
  "bt_contains (bt_insert k v m) k' \<longleftrightarrow> k' = k \<or> bt_contains m k'"
  "bt_contains (bt_remove k m) k' \<longleftrightarrow> k' \<noteq> k \<and> bt_contains m k'"
  by (auto simp: bt_contains_def)

lemma bt_contains_iff: "bt_contains m k \<longleftrightarrow> (\<exists>v. bt_get m k = Some v)"
  by (auto simp: bt_contains_def)

lemma bt_entries_simps [simp]:
  "bt_entries bt_empty = []"
  "bt_entries (bt_insert k v m) = al_insert k v (bt_entries m)"
  "bt_entries (bt_remove k m) = al_remove k (bt_entries m)"
  "bt_entries (bt_retain P m) = filter (\<lambda>(k, v). P k v) (bt_entries m)"
  "bt_entries (bt_map f m) = map (\<lambda>(k, v). (k, f k v)) (bt_entries m)"
  by (simp_all add: bt_empty.rep_eq bt_insert.rep_eq bt_remove.rep_eq bt_retain.rep_eq bt_map.rep_eq)

lemma bt_keys_sorted: "sorted_wrt (<) (bt_keys m)"
  by (simp add: bt_keys_def bt.entries_sorted)

lemma bt_keys_distinct [simp]: "distinct (bt_keys m)"
  by (simp add: bt_keys_def bt.entries_distinct)

lemma set_bt_keys: "k \<in> set (bt_keys m) \<longleftrightarrow> bt_contains m k"
  using bt.keys_dom [of m] by (auto simp: bt_keys_def bt_contains_def)

lemma set_bt_values: "v \<in> set (bt_values m) \<longleftrightarrow> (\<exists>k. bt_get m k = Some v)"
proof -
  have "v \<in> set (bt_values m) \<longleftrightarrow> (\<exists>k. (k, v) \<in> set (bt_entries m))"
    by (force simp: bt_values_def)
  then show ?thesis
    by (simp add: bt.entries_get)
qed

lemma bt_is_empty_iff: "bt_is_empty m \<longleftrightarrow> m = bt_empty"
  by (metis bt_entries_inject bt_entries_simps(1) bt_is_empty_def)

lemma bt_is_empty_get: "bt_is_empty m \<longleftrightarrow> (\<forall>k. bt_get m k = None)"
  by (simp add: bt_is_empty_iff bt_eq_iff)

lemma bt_len_keys: "bt_len m = card {k. bt_contains m k}"
proof -
  have "bt_len m = length (bt_keys m)"
    by (simp add: bt_len_def bt_keys_def)
  also have "\<dots> = card (set (bt_keys m))"
    by (simp add: distinct_card)
  also have "set (bt_keys m) = {k. bt_contains m k}"
    by (auto simp: set_bt_keys)
  finally show ?thesis .
qed

lemma bt_get_or_simps [simp]:
  "bt_get m k = None \<Longrightarrow> bt_get_or d m k = d"
  "bt_get m k = Some v \<Longrightarrow> bt_get_or d m k = v"
  by (simp_all add: bt_get_or_def)

lemma bt_remove_absent: "bt_get m k = None \<Longrightarrow> bt_remove k m = m"
  by (rule bt_ext) simp

lemma bt_insert_same: "bt_get m k = Some v \<Longrightarrow> bt_insert k v m = m"
  by (rule bt_ext) simp

lemma mset_bt_values_insert:
  "mset (bt_values (bt_insert k v m)) + opt_mset (bt_get m k) = add_mset v (mset (bt_values m))"
  using mset_values_al_insert [OF bt.entries_sorted, of k v m]
  by (simp add: bt_values_def bt_get.rep_eq)

lemma mset_bt_values_remove:
  "mset (bt_values (bt_remove k m)) + opt_mset (bt_get m k) = mset (bt_values m)"
  using mset_values_al_remove [OF bt.entries_distinct, of k m]
  by (simp add: bt_values_def bt_get.rep_eq)

end
