(* ===== verification/Oci_Digest.thy ===== *)
theory Oci_Digest
  imports Errors Ordered_Map
begin

text \<open>
  Content digests (\<^verbatim>\<open>oci/digest.rs\<close>): the checked parser, the printed form, the S3 key of a blob and
  the serde string form.  SHA-256 with hex encoding comes from the \<^verbatim>\<open>sha2\<close> and \<^verbatim>\<open>hex\<close> crates and is
  the parameter \<open>sha_hex\<close>; its documented shape (64 lowercase hex digits) is \<open>sha_hex_ok\<close>.
\<close>

record digest =
  algorithm :: string
  hex :: string

definition from_str_checked :: "string \<Rightarrow> digest option" where
  "from_str_checked s =
     (case split_once (CHR '':'') s of
        None \<Rightarrow> None
      | Some (algo, hx) \<Rightarrow>
          if algo \<noteq> ''sha256'' \<and> algo \<noteq> ''sha512'' then None
          else
            let expected_len = (if algo = ''sha256'' then 64 else 128) in
            if length hx \<noteq> expected_len then None
            else if \<not> list_all is_ascii_hexdigit hx then None
            else Some \<lparr>algorithm = algo, hex = hx\<rparr>)"

definition digest_to_string :: "digest \<Rightarrow> string" where
  "digest_to_string d = algorithm d @ '':'' @ hex d"

definition digest_sha256 :: "(string \<Rightarrow> string) \<Rightarrow> string \<Rightarrow> digest" where
  "digest_sha256 sha_hex data = \<lparr>algorithm = ''sha256'', hex = sha_hex data\<rparr>"

definition from_sha256_bytes :: "(string \<Rightarrow> string) \<Rightarrow> string \<Rightarrow> digest" where
  "from_sha256_bytes hex_encode hash = \<lparr>algorithm = ''sha256'', hex = hex_encode hash\<rparr>"

text \<open>\<^verbatim>\<open>s3_key\<close> slices the first two bytes of the hex part; a shorter hex part is a panic, \<^const>\<open>None\<close>.\<close>

definition s3_key :: "digest \<Rightarrow> string option" where
  "s3_key d =
     (if length (hex d) < 2 then None
      else Some (''blobs/'' @ algorithm d @ ''/'' @ take 2 (hex d) @ ''/'' @ hex d))"

definition digest_from_str :: "string \<Rightarrow> (digest, msg) result" where
  "digest_from_str s = ok_or (from_str_checked s) [Lit ''invalid digest: '', Disp s]"

definition digest_try_from :: "string \<Rightarrow> digest lh_result" where
  "digest_try_from s = ok_or (from_str_checked s) (DigestInvalid [Disp s])"

text \<open>The serde helpers: a digest travels as its printed form.\<close>

definition serde_string_serialize :: "digest \<Rightarrow> string" where
  "serde_string_serialize d = digest_to_string d"

definition serde_string_deserialize :: "string \<Rightarrow> (digest, msg) result" where
  "serde_string_deserialize s = digest_from_str s"

definition serde_string_opt_serialize :: "digest option \<Rightarrow> string option" where
  "serde_string_opt_serialize d = map_option digest_to_string d"

definition serde_string_opt_deserialize :: "string option \<Rightarrow> (digest option, msg) result" where
  "serde_string_opt_deserialize s =
     (case s of None \<Rightarrow> Ok None
      | Some t \<Rightarrow> res_bind (digest_from_str t) (\<lambda>d. Ok (Some d)))"

definition serde_string_vec_serialize :: "digest list \<Rightarrow> string list" where
  "serde_string_vec_serialize ds = map digest_to_string ds"

fun serde_string_vec_deserialize :: "string list \<Rightarrow> (digest list, msg) result" where
  "serde_string_vec_deserialize [] = Ok []"
| "serde_string_vec_deserialize (s # ss) =
     res_bind (digest_from_str s) (\<lambda>d.
       res_bind (serde_string_vec_deserialize ss) (\<lambda>ds. Ok (d # ds)))"

section \<open>Well-formed digests\<close>

definition digest_wf :: "digest \<Rightarrow> bool" where
  "digest_wf d \<longleftrightarrow>
     (algorithm d = ''sha256'' \<and> length (hex d) = 64 \<or> algorithm d = ''sha512'' \<and> length (hex d) = 128)
     \<and> list_all is_ascii_hexdigit (hex d)"

definition sha_hex_ok :: "(string \<Rightarrow> string) \<Rightarrow> bool" where
  "sha_hex_ok sha_hex \<longleftrightarrow>
     (\<forall>b. length (sha_hex b) = 64 \<and> list_all is_ascii_hexdigit (sha_hex b))"

text \<open>The parser accepts exactly the printed forms of the well-formed digests.\<close>

lemma from_str_checked_iff:
  "from_str_checked s = Some d \<longleftrightarrow> s = digest_to_string d \<and> digest_wf d"
proof
  assume "from_str_checked s = Some d"
  then show "s = digest_to_string d \<and> digest_wf d"
    by (auto simp: from_str_checked_def digest_to_string_def digest_wf_def split_once_Some Let_def
        split: option.splits if_splits)
next
  assume d: "s = digest_to_string d \<and> digest_wf d"
  then have algo: "CHR '':'' \<notin> set (algorithm d)"
    by (auto simp: digest_wf_def)
  from d have "split_once (CHR '':'') s = Some (algorithm d, hex d)"
    by (simp add: digest_to_string_def split_once_append [OF algo])
  with d show "from_str_checked s = Some d"
    by (auto simp: from_str_checked_def digest_wf_def Let_def)
qed

lemma from_str_checked_wf: "from_str_checked s = Some d \<Longrightarrow> digest_wf d"
  by (simp add: from_str_checked_iff)

lemma from_str_checked_to_string [simp]:
  "digest_wf d \<Longrightarrow> from_str_checked (digest_to_string d) = Some d"
  by (simp add: from_str_checked_iff)

lemma digest_to_string_inj:
  "digest_wf d \<Longrightarrow> digest_wf d' \<Longrightarrow> digest_to_string d = digest_to_string d' \<longleftrightarrow> d = d'"
  by (metis from_str_checked_to_string option.inject)

lemma digest_sha256_wf: "sha_hex_ok sha_hex \<Longrightarrow> digest_wf (digest_sha256 sha_hex b)"
  by (simp add: digest_wf_def digest_sha256_def sha_hex_ok_def)

lemma digest_to_string_colon [simp]: "CHR '':'' \<in> set (digest_to_string d)"
  by (simp add: digest_to_string_def)

lemma serde_string_vec_roundtrip:
  "list_all digest_wf ds \<Longrightarrow>
    serde_string_vec_deserialize (serde_string_vec_serialize ds) = Ok ds"
  by (induction ds) (simp_all add: serde_string_vec_serialize_def digest_from_str_def)

end
