(* ===== verification/Oci_Manifest.thy ===== *)
theory Oci_Manifest
  imports Oci_Digest
begin

text \<open>
  OCI manifests (\<^verbatim>\<open>oci/manifest.rs\<close>): what a parsed manifest references, how large its content is,
  and the fields copied into the index.  \<^verbatim>\<open>serde_json::Value\<close> is the datatype \<open>json\<close>; an object is its
  entry list in key order.  Sums of \<^verbatim>\<open>u64\<close> sizes are word sums, as in a release build.
\<close>

datatype json_num = PosInt u64 | NegInt u64 | Float u64

datatype json =
    JNull
  | JBool bool
  | JNumber json_num
  | JString string
  | JArray "json list"
  | JObject "(string \<times> json) list"

fun json_get :: "string \<Rightarrow> json \<Rightarrow> json option" where
  "json_get k (JObject es) = map_of es k"
| "json_get k _ = None"

fun as_str :: "json \<Rightarrow> string option" where
  "as_str (JString s) = Some s"
| "as_str _ = None"

fun as_array :: "json \<Rightarrow> json list option" where
  "as_array (JArray xs) = Some xs"
| "as_array _ = None"

fun as_object :: "json \<Rightarrow> (string \<times> json) list option" where
  "as_object (JObject es) = Some es"
| "as_object _ = None"

fun as_u64 :: "json \<Rightarrow> u64 option" where
  "as_u64 (JNumber (PosInt n)) = Some n"
| "as_u64 _ = None"

definition json_u64 :: "u64 \<Rightarrow> json" where
  "json_u64 n = JNumber (PosInt n)"

section \<open>Definitions\<close>

record sized_descriptor =
  sd_digest :: digest
  sd_size :: u64

definition is_manifest_media_type :: "string \<Rightarrow> bool" where
  "is_manifest_media_type media_type \<longleftrightarrow>
     media_type \<in> {''application/vnd.oci.image.manifest.v1+json'',
       ''application/vnd.oci.image.index.v1+json'',
       ''application/vnd.oci.artifact.manifest.v1+json'',
       ''application/vnd.docker.distribution.manifest.v2+json'',
       ''application/vnd.docker.distribution.manifest.list.v2+json''}"

definition descriptor_digest :: "json \<Rightarrow> digest option" where
  "descriptor_digest v =
     Option.bind (Option.bind (json_get ''digest'' v) as_str) from_str_checked"

definition sized_descriptor_of :: "json \<Rightarrow> sized_descriptor option" where
  "sized_descriptor_of v =
     Option.bind (descriptor_digest v) (\<lambda>d.
       Option.bind (Option.bind (json_get ''size'' v) as_u64) (\<lambda>n.
         Some \<lparr>sd_digest = d, sd_size = n\<rparr>))"

definition array_field :: "string \<Rightarrow> json \<Rightarrow> json list" where
  "array_field k v = (case Option.bind (json_get k v) as_array of None \<Rightarrow> [] | Some xs \<Rightarrow> xs)"

definition extract_referenced_digests :: "json \<Rightarrow> digest list" where
  "extract_referenced_digests v =
     (case Option.bind (json_get ''config'' v) descriptor_digest of None \<Rightarrow> [] | Some d \<Rightarrow> [d])
     @ List.map_filter descriptor_digest (array_field ''layers'' v)
     @ List.map_filter descriptor_digest (array_field ''blobs'' v)"

definition extract_sized_referenced_descriptors :: "json \<Rightarrow> sized_descriptor list" where
  "extract_sized_referenced_descriptors v =
     (case Option.bind (json_get ''config'' v) sized_descriptor_of of None \<Rightarrow> [] | Some d \<Rightarrow> [d])
     @ List.map_filter sized_descriptor_of (array_field ''layers'' v)
     @ List.map_filter sized_descriptor_of (array_field ''blobs'' v)"

text \<open>\<^verbatim>\<open>entry(digest).and_modify(|s| *s = max(*s, size)).or_insert(size)\<close>\<close>

definition note_size :: "sized_descriptor \<Rightarrow> (string, u64) btmap \<Rightarrow> (string, u64) btmap" where
  "note_size d m =
     (let k = digest_to_string (sd_digest d) in
      case bt_get m k of
        None \<Rightarrow> bt_insert k (sd_size d) m
      | Some sz \<Rightarrow> bt_insert k (max sz (sd_size d)) m)"

definition sizes_by_digest :: "sized_descriptor list \<Rightarrow> (string, u64) btmap" where
  "sizes_by_digest ds = fold note_size ds bt_empty"

definition stored_size_from_descriptors :: "sized_descriptor list \<Rightarrow> u64" where
  "stored_size_from_descriptors ds = sum_list (bt_values (sizes_by_digest ds))"

definition stored_size_bytes :: "json \<Rightarrow> u64" where
  "stored_size_bytes v = stored_size_from_descriptors (extract_sized_referenced_descriptors v)"

definition extract_subject_digest :: "json \<Rightarrow> digest option" where
  "extract_subject_digest v =
     Option.bind (json_get ''subject'' v) (\<lambda>s.
       Option.bind (json_get ''digest'' s) (\<lambda>d.
         Option.bind (as_str d) from_str_checked))"

definition extract_artifact_type :: "json \<Rightarrow> string option" where
  "extract_artifact_type v =
     (case Option.bind (json_get ''artifactType'' v) as_str of
        Some a \<Rightarrow> Some a
      | None \<Rightarrow>
          Option.bind (json_get ''config'' v) (\<lambda>c.
            Option.bind (json_get ''mediaType'' c) (\<lambda>m.
              Option.bind (as_str m) (\<lambda>mt.
                if mt \<noteq> ''application/vnd.oci.empty.v1+json'' then Some mt else None))))"

definition extract_annotations :: "json \<Rightarrow> json option" where
  "extract_annotations v = json_get ''annotations'' v"

definition sum_sizes :: "json list \<Rightarrow> u64" where
  "sum_sizes xs = sum_list (List.map_filter (\<lambda>l. Option.bind (json_get ''size'' l) as_u64) xs)"

definition opt_field :: "string \<Rightarrow> json option \<Rightarrow> (string \<times> json) list \<Rightarrow> (string \<times> json) list" where
  "opt_field k v es = (case v of None \<Rightarrow> es | Some j \<Rightarrow> al_insert k j es)"

definition summarize_config :: "json \<Rightarrow> (string \<times> json) list \<Rightarrow> (string \<times> json) list" where
  "summarize_config manifest summary =
     (case Option.bind (json_get ''config'' manifest) as_object of
        None \<Rightarrow> summary
      | Some config \<Rightarrow>
          opt_field ''config_size'' (map_option json_u64 (Option.bind (map_of config ''size'') as_u64))
           (opt_field ''config_digest'' (map_option JString (Option.bind (map_of config ''digest'') as_str))
            (opt_field ''mediaType'' (map_option JString (Option.bind (map_of config ''mediaType'') as_str))
              summary)))"

definition summarize_counted ::
  "string \<Rightarrow> string \<Rightarrow> string \<Rightarrow> json \<Rightarrow> (string \<times> json) list \<Rightarrow> (string \<times> json) list" where
  "summarize_counted field count_key size_key manifest summary =
     (case Option.bind (json_get field manifest) as_array of
        None \<Rightarrow> summary
      | Some xs \<Rightarrow>
          al_insert size_key (json_u64 (sum_sizes xs))
            (al_insert count_key (json_u64 (of_nat (length xs))) summary))"

definition summarize_manifests :: "json \<Rightarrow> (string \<times> json) list \<Rightarrow> (string \<times> json) list" where
  "summarize_manifests manifest summary =
     (case Option.bind (json_get ''manifests'' manifest) as_array of
        None \<Rightarrow> summary
      | Some ms \<Rightarrow>
          let s = al_insert ''manifest_count'' (json_u64 (of_nat (length ms))) summary;
              platforms = List.map_filter (json_get ''platform'') ms
          in if platforms = [] then s else al_insert ''platforms'' (JArray platforms) s)"

definition extract_config_summary :: "json \<Rightarrow> json option" where
  "extract_config_summary manifest =
     (let s1 = summarize_config manifest [];
          s2 = summarize_counted ''layers'' ''layer_count'' ''layer_size_bytes'' manifest s1;
          s3 = summarize_counted ''blobs'' ''blob_count'' ''blob_size_bytes'' manifest s2;
          s4 = summarize_manifests manifest s3;
          s5 = opt_field ''artifactType''
                 (map_option JString (Option.bind (json_get ''artifactType'' manifest) as_str)) s4
      in if s5 = [] then None else Some (JObject s5))"

section \<open>What the extractors return\<close>

lemma descriptor_digest_wf: "descriptor_digest v = Some d \<Longrightarrow> digest_wf d"
  by (auto simp: descriptor_digest_def bind_Some_convs intro: from_str_checked_wf)

lemma extract_referenced_digests_wf: "d \<in> set (extract_referenced_digests v) \<Longrightarrow> digest_wf d"
  by (auto simp: extract_referenced_digests_def bind_Some_convs intro: descriptor_digest_wf)

lemma sized_descriptor_digest:
  "sized_descriptor_of v = Some d \<Longrightarrow> descriptor_digest v = Some (sd_digest d)"
  by (auto simp: sized_descriptor_of_def bind_Some_convs)

lemma sized_descriptors_referenced:
  assumes "d \<in> set (extract_sized_referenced_descriptors v)"
  shows "sd_digest d \<in> set (extract_referenced_digests v)"
  using assms
  by (auto simp: extract_sized_referenced_descriptors_def extract_referenced_digests_def
      bind_Some_convs dest: sized_descriptor_digest)

section \<open>Sizes count every blob once\<close>

definition sizes_of :: "string \<Rightarrow> sized_descriptor list \<Rightarrow> u64 set" where
  "sizes_of k ds = {sd_size d | d. d \<in> set ds \<and> digest_to_string (sd_digest d) = k}"

lemma finite_sizes_of [simp]: "finite (sizes_of k ds)"
proof -
  have "sizes_of k ds \<subseteq> sd_size ` set ds"
    by (auto simp: sizes_of_def)
  then show ?thesis by (rule finite_subset) simp
qed

lemma sizes_of_Nil [simp]: "sizes_of k [] = {}"
  by (simp add: sizes_of_def)

lemma sizes_of_snoc:
  "sizes_of k (ds @ [d]) =
    (if digest_to_string (sd_digest d) = k then insert (sd_size d) (sizes_of k ds) else sizes_of k ds)"
  by (auto simp: sizes_of_def)

lemma sizes_by_digest_get:
  "bt_get (sizes_by_digest ds) k = (if sizes_of k ds = {} then None else Some (Max (sizes_of k ds)))"
proof (induction ds rule: rev_induct)
  case Nil
  then show ?case by (simp add: sizes_by_digest_def)
next
  case (snoc d ds)
  then show ?case
    by (auto simp: sizes_by_digest_def note_size_def Let_def sizes_of_snoc max.commute
        split: option.splits)
qed

lemma sum_list_bt_values: "sum_list (bt_values m) = (\<Sum>k \<in> {k. bt_contains m k}. the (bt_get m k))"
  for m :: "('k::linorder, 'v::comm_monoid_add) btmap"
proof -
  have vals: "bt_values m = map (\<lambda>k. the (bt_get m k)) (bt_keys m)"
    by (auto simp: bt_values_def bt_keys_def bt.entries_get)
  have keys: "set (bt_keys m) = {k. bt_contains m k}"
    by (auto simp: set_bt_keys)
  show ?thesis
    unfolding vals by (simp add: sum_list_distinct_conv_sum_set keys)
qed

lemma stored_size_spec:
  "stored_size_from_descriptors ds =
     (\<Sum>k \<in> (\<lambda>d. digest_to_string (sd_digest d)) ` set ds. Max (sizes_of k ds))"
proof -
  have "{k. bt_contains (sizes_by_digest ds) k} = (\<lambda>d. digest_to_string (sd_digest d)) ` set ds"
    by (auto simp: bt_contains_def sizes_by_digest_get) (auto simp: sizes_of_def)
  moreover have "the (bt_get (sizes_by_digest ds) k) = Max (sizes_of k ds)"
    if "k \<in> (\<lambda>d. digest_to_string (sd_digest d)) ` set ds" for k
    using that by (auto simp: sizes_by_digest_get sizes_of_def)
  ultimately show ?thesis
    by (simp add: stored_size_from_descriptors_def sum_list_bt_values)
qed

end
