(* ===== verification/Handles.thy ===== *)
theory Handles
  imports Errors
begin

text \<open>
  Handles and repository paths (\<^verbatim>\<open>store/metadata/handle.rs\<close>) and the typed identifiers
  (\<^verbatim>\<open>store/metadata/typed_id.rs\<close>): the byte loops of the validators, the handle of a repository path,
  and the grammar they accept.
\<close>

section \<open>Definitions\<close>

definition HANDLE_MIN_LEN :: nat where "HANDLE_MIN_LEN = 3"

definition HANDLE_MAX_LEN :: nat where "HANDLE_MAX_LEN = 39"

definition RESERVED_HANDLES :: "string list" where "RESERVED_HANDLES = [''users'']"

definition is_handle_reserved :: "string \<Rightarrow> bool" where
  "is_handle_reserved handle \<longleftrightarrow> handle \<in> set RESERVED_HANDLES"

fun handle_loop :: "string \<Rightarrow> nat \<Rightarrow> bool \<Rightarrow> string \<Rightarrow> unit lh_result" where
  "handle_loop s idx prev_dash [] = Ok ()"
| "handle_loop s idx prev_dash (b # bs) =
     (let is_alnum = is_ascii_lowercase b \<or> is_ascii_digit b;
          is_dash = (b = CHR ''-'')
      in if \<not> is_alnum \<and> \<not> is_dash then
           Err (NameInvalid [Lit ''handle '', Dbg s, Lit '' contains illegal character '', Dbg [b]])
         else if idx = 0 \<and> is_dash then
           Err (NameInvalid [Lit ''handle '', Dbg s, Lit '' cannot start with a dash''])
         else if idx = length s - 1 \<and> is_dash then
           Err (NameInvalid [Lit ''handle '', Dbg s, Lit '' cannot end with a dash''])
         else if is_dash \<and> prev_dash then
           Err (NameInvalid [Lit ''handle '', Dbg s, Lit '' cannot contain consecutive dashes''])
         else handle_loop s (Suc idx) is_dash bs)"

definition validate_handle :: "string \<Rightarrow> unit lh_result" where
  "validate_handle s =
     (if length s < HANDLE_MIN_LEN \<or> length s > HANDLE_MAX_LEN then
        Err (NameInvalid [Lit ''handle '', Dbg s, Lit '' has invalid length: must be '',
          DispNum HANDLE_MIN_LEN, Lit ''..='', DispNum HANDLE_MAX_LEN, Lit '' chars''])
      else handle_loop s 0 False s)"

definition is_path_byte :: "char \<Rightarrow> bool" where
  "is_path_byte b \<longleftrightarrow>
     is_ascii_lowercase b \<or> is_ascii_digit b \<or> b = CHR ''-'' \<or> b = CHR ''_'' \<or> b = CHR ''.''"

fun path_segment_loop :: "string \<Rightarrow> string \<Rightarrow> unit lh_result" where
  "path_segment_loop seg [] = Ok ()"
| "path_segment_loop seg (b # bs) =
     (if \<not> is_path_byte b then
        Err (NameInvalid [Lit ''repository path segment '', Dbg seg,
          Lit '' contains illegal character '', Dbg [b]])
      else path_segment_loop seg bs)"

definition validate_path_segment :: "string \<Rightarrow> unit lh_result" where
  "validate_path_segment seg =
     (if seg = [] then Err (NameInvalid [Lit ''repository path contains an empty segment''])
      else path_segment_loop seg seg)"

fun validate_segments :: "string list \<Rightarrow> unit lh_result" where
  "validate_segments [] = Ok ()"
| "validate_segments (seg # segs) =
     res_bind (validate_path_segment seg) (\<lambda>_. validate_segments segs)"

definition validate_repository_path :: "string \<Rightarrow> unit lh_result" where
  "validate_repository_path s =
     (if s = [] then Err (NameInvalid [Lit ''repository path is empty''])
      else if starts_with ''/'' s \<or> ends_with ''/'' s then
        Err (NameInvalid [Lit ''repository path '', Dbg s, 
          Lit ('' cannot start or end with '' @ [CHR 0x27] @ ''/'' @ [CHR 0x27])])
      else if contains_str ''//'' s then
        Err (NameInvalid [Lit ''repository path '', Dbg s, Lit '' contains an empty segment''])
      else (case split_char (CHR ''/'') s of
          [] \<Rightarrow> Ok ()
        | first # segments \<Rightarrow>
            res_bind (validate_handle first) (\<lambda>_.
            res_bind (validate_segments segments) (\<lambda>_.
              if segments = [] then
                Err (NameInvalid [Lit ''repository path '', Dbg s,
                  Lit '' requires at least two segments (<handle>/<name>)''])
              else Ok ()))))"

definition handle_of :: "string \<Rightarrow> string lh_result" where
  "handle_of repository =
     (case split_once (CHR ''/'') repository of
        None \<Rightarrow> Err (NameInvalid [Lit ''repository '', Dbg repository,
          Lit '' is missing a namespace handle prefix''])
      | Some (head, rest) \<Rightarrow>
          if rest = [] then Err (NameInvalid [Lit ''repository '', Dbg repository,
            Lit '' is missing the name segment after the handle''])
          else Ok head)"

text \<open>Typed identifiers: \<^verbatim>\<open>lhsorg-\<close> and 32 lowercase hex digits; \<open>uuid\<close> is the simple form of a v7 UUID.\<close>

definition ID_HEX_LEN :: nat where "ID_HEX_LEN = 32"

definition is_lower_hex :: "char \<Rightarrow> bool" where
  "is_lower_hex b \<longleftrightarrow> is_ascii_digit b \<or> (97 \<le> byte b \<and> byte b \<le> 102)"

definition validate_id :: "string \<Rightarrow> string \<Rightarrow> string lh_result" where
  "validate_id s pre =
     (case strip_prefix pre s of
        None \<Rightarrow> Err (Internal [Lit ''expected id prefix '', Dbg pre, Lit '', got '', Dbg s])
      | Some suffix \<Rightarrow>
          if length suffix \<noteq> ID_HEX_LEN then
            Err (Internal [Lit ''id '', Dbg s, Lit '' has wrong hex length: expected '', DispNum ID_HEX_LEN])
          else if \<not> list_all is_lower_hex suffix then
            Err (Internal [Lit ''id '', Dbg s, Lit '' contains non-lowercase-hex characters''])
          else Ok s)"

datatype org_id = OrgId string

definition org_prefix :: string where "org_prefix = ''lhsorg-''"

definition org_generate :: "string \<Rightarrow> org_id" where
  "org_generate uuid = OrgId (org_prefix @ uuid)"

definition org_parse :: "string \<Rightarrow> org_id lh_result" where
  "org_parse s = res_bind (validate_id s org_prefix) (\<lambda>t. Ok (OrgId t))"

fun org_as_str :: "org_id \<Rightarrow> string" where
  "org_as_str (OrgId s) = s"

section \<open>The accepted grammar\<close>

fun no_double_dash :: "bool \<Rightarrow> string \<Rightarrow> bool" where
  "no_double_dash prev [] = True"
| "no_double_dash prev (c # s) = (\<not> (prev \<and> c = CHR ''-'') \<and> no_double_dash (c = CHR ''-'') s)"

definition is_handle_byte :: "char \<Rightarrow> bool" where
  "is_handle_byte c \<longleftrightarrow> is_ascii_lowercase c \<or> is_ascii_digit c \<or> c = CHR ''-''"

text \<open>3 to 39 lowercase letters, digits and single inner dashes.\<close>

definition handle_grammar :: "string \<Rightarrow> bool" where
  "handle_grammar s \<longleftrightarrow>
     3 \<le> length s \<and> length s \<le> 39 \<and> list_all is_handle_byte s \<and>
     hd s \<noteq> CHR ''-'' \<and> last s \<noteq> CHR ''-'' \<and> no_double_dash False s"

lemma handle_loop_Ok:
  assumes "idx + length bs = length s"
  shows "handle_loop s idx prev bs = Ok () \<longleftrightarrow>
    list_all is_handle_byte bs \<and> no_double_dash prev bs \<and>
    (bs \<noteq> [] \<longrightarrow> (idx = 0 \<longrightarrow> hd bs \<noteq> CHR ''-'') \<and> last bs \<noteq> CHR ''-'')"
  using assms
proof (induction bs arbitrary: idx prev)
  case Nil
  then show ?case by simp
next
  case (Cons b bs)
  then show ?case
    by (cases bs) (auto simp: Let_def is_handle_byte_def)
qed

lemma validate_handle_iff: "validate_handle s = Ok () \<longleftrightarrow> handle_grammar s"
  by (cases "s = []")
    (auto simp: validate_handle_def handle_grammar_def HANDLE_MIN_LEN_def HANDLE_MAX_LEN_def
      handle_loop_Ok)

lemma handle_of_iff: "handle_of r = Ok h \<longleftrightarrow> (\<exists>rest. r = h @ ''/'' @ rest \<and> rest \<noteq> [] \<and> CHR ''/'' \<notin> set h)"
proof
  assume "handle_of r = Ok h"
  then show "\<exists>rest. r = h @ ''/'' @ rest \<and> rest \<noteq> [] \<and> CHR ''/'' \<notin> set h"
    by (auto simp: handle_of_def split_once_Some split: option.splits if_splits)
next
  assume "\<exists>rest. r = h @ ''/'' @ rest \<and> rest \<noteq> [] \<and> CHR ''/'' \<notin> set h"
  then show "handle_of r = Ok h"
    by (auto simp: handle_of_def split_once_append)
qed

lemma handle_of_starts_with: "handle_of r = Ok h \<Longrightarrow> starts_with (h @ ''/'') r"
  by (auto simp: handle_of_iff starts_with_iff)

lemma path_segment_loop_Ok: "path_segment_loop seg bs = Ok () \<longleftrightarrow> list_all is_path_byte bs"
  by (induction bs) auto

lemma validate_segments_Ok:
  "validate_segments segs = Ok () \<longleftrightarrow> (\<forall>seg \<in> set segs. seg \<noteq> [] \<and> list_all is_path_byte seg)"
  by (induction segs) (auto simp: validate_path_segment_def path_segment_loop_Ok)

lemma handle_grammar_no_slash: "handle_grammar h \<Longrightarrow> CHR ''/'' \<notin> set h"
  by (auto simp: handle_grammar_def list_all_iff is_handle_byte_def byte_class_defs byte_def)

lemma org_parse_generate:
  assumes "length uuid = 32" and "list_all is_lower_hex uuid"
  shows "org_parse (org_as_str (org_generate uuid)) = Ok (org_generate uuid)"
  using assms by (simp add: org_parse_def org_generate_def validate_id_def ID_HEX_LEN_def)

end
