(* ===== verification/Permissions.thy ===== *)
theory Permissions
  imports Errors "HOL-Library.Product_Lexorder"
begin

text \<open>
  Repository permissions (\<^verbatim>\<open>auth/permissions.rs\<close>): the action ladder, the scope strings of tokens, the
  repository patterns of grants and the personal namespaces.  \<open>oci_action\<close> gets the order that
  \<^verbatim>\<open>derive(PartialOrd, Ord)\<close> gives the enum.
\<close>

section \<open>Definitions\<close>

datatype grant_source = Personal | GroupGrant | PublicGrant

datatype repo_kind = Image | Helm | Wasm | Artifact | UnknownKind

datatype oci_action = Pull | Create | Update | Delete | Admin

datatype http_method = GET | HEAD | DELETE | OtherMethod string

fun from_method :: "http_method \<Rightarrow> oci_action" where
  "from_method GET = Pull"
| "from_method HEAD = Pull"
| "from_method DELETE = Delete"
| "from_method (OtherMethod _) = Create"

fun scope_token :: "oci_action \<Rightarrow> string" where
  "scope_token Pull = ''pull''"
| "scope_token Create = ''create''"
| "scope_token Update = ''update''"
| "scope_token Delete = ''delete''"
| "scope_token Admin = ''admin''"

fun action_rank :: "oci_action \<Rightarrow> nat" where
  "action_rank Pull = 0"
| "action_rank Create = 1"
| "action_rank Update = 2"
| "action_rank Delete = 3"
| "action_rank Admin = 4"

instantiation oci_action :: linorder
begin

definition less_eq_oci_action :: "oci_action \<Rightarrow> oci_action \<Rightarrow> bool" where
  "less_eq_oci_action a b \<longleftrightarrow> action_rank a \<le> action_rank b"

definition less_oci_action :: "oci_action \<Rightarrow> oci_action \<Rightarrow> bool" where
  "less_oci_action a b \<longleftrightarrow> action_rank a < action_rank b"

instance
proof
  fix a b c :: oci_action
  show "a < b \<longleftrightarrow> a \<le> b \<and> \<not> b \<le> a"
    by (auto simp: less_eq_oci_action_def less_oci_action_def)
  show "a \<le> a"
    by (simp add: less_eq_oci_action_def)
  show "a \<le> b \<Longrightarrow> b \<le> c \<Longrightarrow> a \<le> c"
    by (simp add: less_eq_oci_action_def)
  show "a \<le> b \<Longrightarrow> b \<le> a \<Longrightarrow> a = b"
    by (cases a; cases b) (simp_all add: less_eq_oci_action_def)
  show "a \<le> b \<or> b \<le> a"
    by (auto simp: less_eq_oci_action_def)
qed

end

definition parse_action_token :: "string \<Rightarrow> oci_action option" where
  "parse_action_token token =
     (let t = trim token in
      if t = ''*'' \<or> t = ''delete'' then Some Delete
      else if t = ''push'' \<or> t = ''update'' then Some Update
      else if t = ''create'' then Some Create
      else if t = ''pull'' then Some Pull
      else None)"

text \<open>\<^verbatim>\<open>max_by_key(action_rank)\<close>: the last of the maximal elements.\<close>

fun max_by_rank :: "oci_action list \<Rightarrow> oci_action option" where
  "max_by_rank [] = None"
| "max_by_rank (a # as) =
     (case max_by_rank as of
        None \<Rightarrow> Some a
      | Some b \<Rightarrow> if action_rank a > action_rank b then Some a else Some b)"

definition parse_scope :: "string \<Rightarrow> (string \<times> oci_action) option" where
  "parse_scope scope =
     (let parts = splitn 4 (CHR '':'') scope in
      if length parts < 3 \<or> hd parts \<noteq> ''repository'' then None
      else
        let repo = join '':'' (butlast (tl parts));
            action_str = last parts
        in map_option (\<lambda>a. (repo, a))
             (max_by_rank (List.map_filter parse_action_token (split_char (CHR '','') action_str))))"

definition match_repository :: "string \<Rightarrow> string \<Rightarrow> bool" where
  "match_repository pattern repo =
     (if pattern = ''*'' then True
      else (case strip_suffix ''/*'' pattern of
          Some pre \<Rightarrow> repo = pre \<or> starts_with (pre @ ''/'') repo
        | None \<Rightarrow> pattern = repo))"

definition action_matches :: "oci_action \<Rightarrow> oci_action \<Rightarrow> bool" where
  "action_matches allowed requested =
     (if allowed = Admin \<or> requested = Admin then allowed = requested
      else action_rank allowed \<ge> action_rank requested)"

definition is_repository_action :: "oci_action \<Rightarrow> bool" where
  "is_repository_action action \<longleftrightarrow> action \<noteq> Admin"

fun matching_scope :: "string list \<Rightarrow> string \<Rightarrow> oci_action \<Rightarrow> (string \<times> oci_action) option" where
  "matching_scope [] repository action = None"
| "matching_scope (scope # scopes) repository action =
     (case parse_scope scope of
        None \<Rightarrow> matching_scope scopes repository action
      | Some (repo_pattern, allowed_action) \<Rightarrow>
          if match_repository repo_pattern repository \<and> action_matches allowed_action action
          then Some (repo_pattern, allowed_action)
          else matching_scope scopes repository action)"

definition in_personal_namespace :: "string option \<Rightarrow> string \<Rightarrow> bool" where
  "in_personal_namespace username repository =
     (case username of
        None \<Rightarrow> False
      | Some u \<Rightarrow> u \<noteq> [] \<and> starts_with (''users/'' @ u @ ''/'') repository)"

definition in_personal_namespace_of :: "string \<Rightarrow> string option" where
  "in_personal_namespace_of repository =
     (case strip_prefix ''users/'' repository of
        None \<Rightarrow> None
      | Some rest \<Rightarrow>
          (case split_char (CHR ''/'') rest of
             [] \<Rightarrow> None
           | username # _ \<Rightarrow> if username = [] then None else Some username))"

definition pat_scope_allowed_for_identity :: "string \<Rightarrow> string option \<Rightarrow> unit lh_result" where
  "pat_scope_allowed_for_identity scope username =
     (case parse_scope scope of
        None \<Rightarrow> Ok ()
      | Some (repo_pattern0, _) \<Rightarrow>
          let repo_pattern = (case strip_suffix ''/*'' repo_pattern0 of None \<Rightarrow> repo_pattern0 | Some p \<Rightarrow> p) in
          (case in_personal_namespace_of repo_pattern of
             None \<Rightarrow> Ok ()
           | Some target_user \<Rightarrow>
               (case username of
                  None \<Rightarrow> Err (Denied [Lit ''scope '', Dbg scope,
                    Lit '' targets a personal namespace but your session has no username''])
                | Some my_username \<Rightarrow>
                    if my_username = [] then
                      Err (Denied [Lit ''scope '', Dbg scope,
                        Lit '' targets a personal namespace but your session has no username''])
                    else if target_user \<noteq> my_username then
                      Err (Denied [Lit ''scope '', Dbg scope,
                        Lit (('' targets another user'' @ [CHR 0x27]) @ ''s personal namespace'')])
                    else Ok ())))"

text \<open>One iteration of the loop of \<^verbatim>\<open>derive_namespace_patterns\<close>, then \<^verbatim>\<open>sort\<close> and \<^verbatim>\<open>dedup\<close>.\<close>

definition namespace_pattern :: "string \<Rightarrow> string \<Rightarrow> (string \<times> oci_action) option" where
  "namespace_pattern search_prefix scope =
     (case parse_scope scope of
        None \<Rightarrow> None
      | Some (repo_pattern, action) \<Rightarrow>
          (case strip_suffix ''/*'' repo_pattern of
             None \<Rightarrow> None
           | Some pre \<Rightarrow>
               if pre \<noteq> [] \<and> pre \<noteq> ''*'' \<and> (search_prefix = [] \<or> starts_with search_prefix pre)
               then Some (''repository:'' @ pre @ ''/*'', action) else None))"

definition derive_namespace_patterns :: "string list \<Rightarrow> string \<Rightarrow> (string \<times> oci_action) list" where
  "derive_namespace_patterns scopes search_prefix =
     remdups_adj (sort (List.map_filter (namespace_pattern search_prefix) scopes))"

section \<open>The ladder\<close>

lemma action_rank_inj: "action_rank a = action_rank b \<longleftrightarrow> a = b"
  by (cases a; cases b) simp_all

lemma action_matches_refl: "action_matches a a"
  by (simp add: action_matches_def)

lemma action_matches_trans:
  "action_matches a b \<Longrightarrow> action_matches b c \<Longrightarrow> action_matches a c"
  by (auto simp: action_matches_def split: if_splits)

lemma action_matches_antisym:
  "action_matches a b \<Longrightarrow> action_matches b a \<Longrightarrow> a = b"
  by (auto simp: action_matches_def action_rank_inj [symmetric] split: if_splits)

lemma max_by_rank_Some:
  "max_by_rank as = Some m \<Longrightarrow> m \<in> set as \<and> (\<forall>a \<in> set as. action_rank a \<le> action_rank m)"
proof (induction as arbitrary: m)
  case (Cons a as)
  show ?case
  proof (cases "max_by_rank as")
    case None
    then have "as = []" by (cases as) (auto split: option.splits if_splits)
    with Cons.prems show ?thesis by simp
  next
    case (Some b)
    with Cons.IH [OF Some] Cons.prems show ?thesis
      by (auto split: if_splits intro: order_trans less_imp_le)
  qed
qed simp

lemma max_by_rank_None: "max_by_rank as = None \<longleftrightarrow> as = []"
  by (cases as) (auto split: option.splits)

section \<open>Scope strings\<close>

lemma scope_token_graphic: "list_all is_graphic (scope_token a)"
  by (cases a) (simp_all add: is_graphic_def byte_def)

lemma parse_action_scope_token:
  "parse_action_token (scope_token a) = (if a = Admin then None else Some a)"
  by (cases a) (simp_all add: parse_action_token_def trim_all_graphic [OF scope_token_graphic, simplified]
      Let_def, simp_all add: trim_all_graphic is_graphic_def byte_def)

lemma at_most_one_sep:
  assumes "count_list s c \<le> 1"
  shows "c \<notin> set s \<or> (\<exists>a b. s = a @ c # b \<and> c \<notin> set a \<and> c \<notin> set b)"
proof (cases "c \<in> set s")
  case True
  then obtain a b where s: "s = a @ c # b" and a: "c \<notin> set a"
    by (meson split_list_first)
  with assms have "count_list b c = 0" by simp
  with s a show ?thesis by (auto simp: count_list_0_iff)
qed simp

lemma scope_token_no_sep: "CHR '':'' \<notin> set (scope_token a)" "CHR '','' \<notin> set (scope_token a)"
  by (cases a; simp)+

lemma parse_scope_roundtrip:
  assumes "count_list repo (CHR '':'') \<le> 1" and "a \<noteq> Admin"
  shows "parse_scope (''repository:'' @ repo @ '':'' @ scope_token a) = Some (repo, a)"
proof -
  have tok: "List.map_filter parse_action_token (split_char (CHR '','') (scope_token a)) = [a]"
    using assms(2) by (simp add: split_char_no_sep scope_token_no_sep parse_action_scope_token
        List.map_filter_def)
  have head: "split_once (CHR '':'') (''repository:'' @ repo @ '':'' @ scope_token a)
      = Some (''repository'', repo @ CHR '':'' # scope_token a)"
    by (simp add: split_once_Some)
  note last = split_once_None [THEN iffD2, OF scope_token_no_sep(1) [of a]]
  from at_most_one_sep [OF assms(1)] show ?thesis
  proof (elim disjE exE conjE)
    assume r: "CHR '':'' \<notin> set repo"
    have "splitn 4 (CHR '':'') (''repository:'' @ repo @ '':'' @ scope_token a)
        = [''repository'', repo, scope_token a]"
      using head last split_once_append [OF r] by (simp add: numeral_eq_Suc)
    then show ?thesis
      using tok by (simp add: parse_scope_def)
  next
    fix x y assume r: "repo = x @ CHR '':'' # y" "CHR '':'' \<notin> set x" "CHR '':'' \<notin> set y"
    have "splitn 4 (CHR '':'') (''repository:'' @ repo @ '':'' @ scope_token a)
        = [''repository'', x, y, scope_token a]"
      using head last split_once_append [OF r(2)] split_once_append [OF r(3)] r(1)
      by (simp add: numeral_eq_Suc)
    then show ?thesis
      using tok r(1) by (simp add: parse_scope_def)
  qed
qed

lemma matching_scope_Some:
  "matching_scope scopes repo action = Some (p, a) \<Longrightarrow>
    (\<exists>scope \<in> set scopes. parse_scope scope = Some (p, a)) \<and> match_repository p repo \<and> action_matches a action"
  by (induction scopes) (auto split: option.splits if_splits)

lemma matching_scope_None:
  "matching_scope scopes repo action = None \<longleftrightarrow>
    (\<forall>scope \<in> set scopes. \<forall>p a. parse_scope scope = Some (p, a) \<longrightarrow>
      \<not> (match_repository p repo \<and> action_matches a action))"
  by (induction scopes) (auto split: option.splits)

section \<open>Patterns and personal namespaces\<close>

text \<open>A prefix pattern covers the prefix itself and the paths below it, never a longer first name.\<close>

lemma match_repository_prefix:
  "pre \<noteq> [] \<Longrightarrow> match_repository (pre @ ''/*'') repo \<longleftrightarrow> repo = pre \<or> (\<exists>rest. repo = pre @ ''/'' @ rest)"
  by (auto simp: match_repository_def starts_with_iff)

lemma in_personal_namespace_of_iff:
  "in_personal_namespace_of r = Some u \<longleftrightarrow>
    u \<noteq> [] \<and> CHR ''/'' \<notin> set u \<and> (r = ''users/'' @ u \<or> (\<exists>rest. r = ''users/'' @ u @ ''/'' @ rest))"
proof -
  have split: "(case split_char (CHR ''/'') t of [] \<Rightarrow> None | x # _ \<Rightarrow> if x = [] then None else Some x) = Some u
      \<longleftrightarrow> u \<noteq> [] \<and> CHR ''/'' \<notin> set u \<and> (t = u \<or> (\<exists>rest. t = u @ ''/'' @ rest))" for t
  proof (cases "CHR ''/'' \<in> set t")
    case True
    then obtain a b where "t = a @ CHR ''/'' # b" "CHR ''/'' \<notin> set a"
      by (meson split_list_first)
    then show ?thesis
      by (cases "a = []") (auto simp: split_char_append sep_unique Cons_eq_append_conv)
  next
    case False
    then show ?thesis by (auto simp: split_char_no_sep)
  qed
  show ?thesis
  proof (cases "strip_prefix ''users/'' r")
    case None
    then have "r \<noteq> ''users/'' @ t" for t
      by (simp only: strip_prefix_None starts_with_iff) blast
    with None show ?thesis
      by (simp add: in_personal_namespace_of_def)
  next
    case (Some t)
    then have "r = ''users/'' @ t" by (simp only: strip_prefix_iff)
    then show ?thesis
      using split [of t] Some by (simp add: in_personal_namespace_of_def)
  qed
qed

end
