(* ===== verification/Principals.thy ===== *)
theory Principals
  imports Errors
begin

text \<open>
  Principals (\<^verbatim>\<open>auth/principal.rs\<close>, \<^verbatim>\<open>auth/identity.rs\<close>): provider-qualified ids
  \<^verbatim>\<open>provider:kind:escaped-id\<close>, their escaping and parsing.  The newtypes over \<^verbatim>\<open>String\<close> are strings.
  The accessors \<^verbatim>\<open>kind\<close> and \<^verbatim>\<open>local_id\<close> panic on a string that no constructor built; a panic is \<^const>\<open>None\<close>.
\<close>

section \<open>Definitions\<close>

type_synonym subject = string
type_synonym provider_qualified_id = string

datatype principal_kind = PKUser | PKGroup

fun kind_as_str :: "principal_kind \<Rightarrow> string" where
  "kind_as_str PKUser = ''user''"
| "kind_as_str PKGroup = ''group''"

definition kind_from_str :: "string \<Rightarrow> principal_kind lh_result" where
  "kind_from_str value =
     (if value = ''user'' then Ok PKUser
      else if value = ''group'' then Ok PKGroup
      else Err (NameInvalid [Lit ''invalid principal kind '', Dbg value]))"

definition is_provider_byte :: "char \<Rightarrow> bool" where
  "is_provider_byte ch \<longleftrightarrow>
     is_ascii_lowercase ch \<or> is_ascii_digit ch \<or> ch = CHR ''_'' \<or> ch = CHR ''-''"

definition provider_id_new :: "string \<Rightarrow> string lh_result" where
  "provider_id_new value0 =
     (let value = trim value0 in
      if value = [] then Err (NameInvalid [Lit ''principal provider must not be empty''])
      else if length value > 64 then
        Err (NameInvalid [Lit ''principal provider must be at most 64 characters: '', Dbg value])
      else if \<not> is_ascii_lowercase (hd value) then
        Err (NameInvalid [Lit ''principal provider must start with a lowercase ASCII letter: '', Dbg value])
      else if \<not> list_all is_provider_byte (tl value) then
        Err (NameInvalid [Lit ''principal provider contains invalid characters: '', Dbg value])
      else Ok value)"

definition local_id_new :: "string \<Rightarrow> string lh_result" where
  "local_id_new value =
     (if value = [] then Err (NameInvalid [Lit ''principal id must not be empty'']) else Ok value)"

definition HEX :: string where "HEX = ''0123456789ABCDEF''"

definition is_unreserved :: "char \<Rightarrow> bool" where
  "is_unreserved b \<longleftrightarrow>
     is_ascii_alphanumeric b \<or> b = CHR ''.'' \<or> b = CHR ''_'' \<or> b = CHR ''-'' \<or> b = CHR ''~''"

definition escape_byte :: "char \<Rightarrow> string" where
  "escape_byte b =
     (if is_unreserved b then [b]
      else [CHR ''%'', HEX ! (byte b div 16), HEX ! (byte b mod 16)])"

definition escape_local_id :: "string \<Rightarrow> string" where
  "escape_local_id value = concat (map escape_byte value)"

definition hex_value :: "char \<Rightarrow> nat option" where
  "hex_value b =
     (if 48 \<le> byte b \<and> byte b \<le> 57 then Some (byte b - 48)
      else if 97 \<le> byte b \<and> byte b \<le> 102 then Some (byte b - 97 + 10)
      else if 65 \<le> byte b \<and> byte b \<le> 70 then Some (byte b - 65 + 10)
      else None)"

fun unescape_loop :: "string \<Rightarrow> string \<Rightarrow> string lh_result" where
  "unescape_loop value [] = Ok []"
| "unescape_loop value (c # bytes) =
     (if c \<noteq> CHR ''%'' then res_bind (unescape_loop value bytes) (\<lambda>t. Ok (c # t))
      else (case bytes of
          h # l # rest \<Rightarrow>
            res_bind (ok_or (hex_value h)
              (NameInvalid [Lit ''principal id contains invalid escape: '', Dbg value])) (\<lambda>high.
            res_bind (ok_or (hex_value l)
              (NameInvalid [Lit ''principal id contains invalid escape: '', Dbg value])) (\<lambda>low.
            res_bind (unescape_loop value rest) (\<lambda>t. Ok (char_of (high * 16 + low) # t))))
        | _ \<Rightarrow> Err (NameInvalid [Lit ''principal id contains truncated escape: '', Dbg value])))"

text \<open>The text of the UTF-8 error of the standard library is left out of the message.\<close>

definition unescape_local_id :: "string \<Rightarrow> string lh_result" where
  "unescape_local_id value =
     res_bind (unescape_loop value value) (\<lambda>decoded.
       if utf8_valid decoded then Ok decoded
       else Err (NameInvalid [Lit ''principal id is not valid UTF-8: '']))"

definition pq_new :: "string \<Rightarrow> principal_kind \<Rightarrow> string \<Rightarrow> provider_qualified_id lh_result" where
  "pq_new provider0 kind id0 =
     res_bind (provider_id_new provider0) (\<lambda>provider.
     res_bind (local_id_new id0) (\<lambda>i.
       Ok (provider @ '':'' @ kind_as_str kind @ '':'' @ escape_local_id i)))"

definition pq_parse :: "string \<Rightarrow> provider_qualified_id lh_result" where
  "pq_parse value0 =
     (let value = trim value0 in
      case split_char (CHR '':'') value of
        [p, k, i] \<Rightarrow>
          res_bind (kind_from_str k) (\<lambda>kind.
          res_bind (unescape_local_id i) (\<lambda>u.
          res_bind (local_id_new u) (\<lambda>i'.
            pq_new p kind i')))
      | _ \<Rightarrow> Err (NameInvalid [Lit ''principal id must have provider:kind:id shape: '', Dbg value]))"

text \<open>\<^verbatim>\<open>split(':').nth(n).unwrap_or_default()\<close>\<close>

definition pq_part :: "nat \<Rightarrow> provider_qualified_id \<Rightarrow> string" where
  "pq_part n s = (let ps = split_char (CHR '':'') s in if n < length ps then ps ! n else [])"

definition pq_provider :: "provider_qualified_id \<Rightarrow> string" where
  "pq_provider s = pq_part 0 s"

definition pq_kind :: "provider_qualified_id \<Rightarrow> principal_kind option" where
  "pq_kind s = (case kind_from_str (pq_part 1 s) of Inl _ \<Rightarrow> None | Inr k \<Rightarrow> Some k)"

definition pq_local_id :: "provider_qualified_id \<Rightarrow> string option" where
  "pq_local_id s = (case unescape_local_id (pq_part 2 s) of Inl _ \<Rightarrow> None | Inr i \<Rightarrow> Some i)"

datatype principal_ref = RefUser provider_qualified_id | RefGroup provider_qualified_id | RefPublic

definition ensure_kind :: "provider_qualified_id \<Rightarrow> principal_kind \<Rightarrow> unit lh_result option" where
  "ensure_kind i kind =
     map_option (\<lambda>k. if k \<noteq> kind
        then Err (NameInvalid [Lit ''principal id '', Disp i, Lit '' is not a '', Disp (kind_as_str kind)])
        else Ok ()) (pq_kind i)"

definition ref_user :: "provider_qualified_id \<Rightarrow> principal_ref lh_result option" where
  "ref_user i = map_option (\<lambda>r. res_bind r (\<lambda>_. Ok (RefUser i))) (ensure_kind i PKUser)"

definition ref_group :: "provider_qualified_id \<Rightarrow> principal_ref lh_result option" where
  "ref_group i = map_option (\<lambda>r. res_bind r (\<lambda>_. Ok (RefGroup i))) (ensure_kind i PKGroup)"

fun ref_stable_key :: "principal_ref \<Rightarrow> string" where
  "ref_stable_key (RefUser i) = ''user:'' @ i"
| "ref_stable_key (RefGroup i) = ''group:'' @ i"
| "ref_stable_key RefPublic = ''public''"

text \<open>\<open>is_uuid\<close> is \<^verbatim>\<open>uuid::Uuid::parse_str(..).is_ok()\<close>; the \<^verbatim>\<open>BTreeSet\<close> is iterated in order.\<close>

definition stable_group_ids :: "(string \<Rightarrow> bool) \<Rightarrow> string \<Rightarrow> string list \<Rightarrow> provider_qualified_id list" where
  "stable_group_ids is_uuid provider groups =
     remdups_adj (sort (List.map_filter (\<lambda>group.
       let trimmed = trim group in
       if is_uuid trimmed then
         (case pq_new provider PKGroup trimmed of Inl _ \<Rightarrow> None | Inr i \<Rightarrow> Some i)
       else None) groups))"

section \<open>Escaping\<close>

definition canonical_pq :: "provider_qualified_id \<Rightarrow> bool" where
  "canonical_pq s \<longleftrightarrow> (\<exists>p k i. pq_new p k i = Ok s \<and> utf8_valid i)"

lemma hex_value_HEX: "n < 16 \<Longrightarrow> hex_value (HEX ! n) = Some n"
proof -
  have "\<forall>n \<in> set [0..<16]. hex_value (HEX ! n) = Some n"
    by (simp add: HEX_def hex_value_def byte_def upt_conv_Cons numeral_eq_Suc)
  then show "n < 16 \<Longrightarrow> hex_value (HEX ! n) = Some n" by simp
qed

lemma HEX_nth_graphic: "n < 16 \<Longrightarrow> is_graphic (HEX ! n) \<and> HEX ! n \<noteq> CHR '':''"
proof -
  have "\<forall>n \<in> set [0..<16]. is_graphic (HEX ! n) \<and> HEX ! n \<noteq> CHR '':''"
    by (simp add: HEX_def is_graphic_def byte_def upt_conv_Cons numeral_eq_Suc)
  then show "n < 16 \<Longrightarrow> is_graphic (HEX ! n) \<and> HEX ! n \<noteq> CHR '':''" by simp
qed

lemma unreserved_not_percent: "is_unreserved b \<Longrightarrow> b \<noteq> CHR ''%'' \<and> b \<noteq> CHR '':'' \<and> is_graphic b"
  by (auto simp: is_unreserved_def byte_class_defs is_graphic_def byte_def)

lemma byte_div_16: "byte b div 16 < 16"
  using byte_less_256 [of b] by arith

lemma unescape_escape_byte:
  "unescape_loop v (escape_byte b @ s) = res_bind (unescape_loop v s) (\<lambda>t. Ok (b # t))"
proof (cases "is_unreserved b")
  case True
  then show ?thesis
    using unreserved_not_percent [OF True] by (simp add: escape_byte_def)
next
  case False
  have "char_of (byte b div 16 * 16 + byte b mod 16) = b"
    by (simp add: byte_def)
  with False show ?thesis
    by (simp add: escape_byte_def hex_value_HEX byte_div_16)
qed

lemma unescape_escape: "unescape_loop v (escape_local_id i) = Ok i"
  by (induction i) (simp_all add: escape_local_id_def unescape_escape_byte)

lemma unescape_local_id_escape [simp]:
  "utf8_valid i \<Longrightarrow> unescape_local_id (escape_local_id i) = Ok i"
  by (simp add: unescape_local_id_def unescape_escape)

lemma escape_byte_graphic: "c \<in> set (escape_byte b) \<Longrightarrow> is_graphic c \<and> c \<noteq> CHR '':''"
  using unreserved_not_percent [of b] HEX_nth_graphic [OF byte_div_16 [of b]]
    HEX_nth_graphic [of "byte b mod 16"]
  by (auto simp: escape_byte_def is_graphic_def byte_def split: if_splits)

lemma escape_graphic: "c \<in> set (escape_local_id i) \<Longrightarrow> is_graphic c \<and> c \<noteq> CHR '':''"
  by (auto simp: escape_local_id_def dest: escape_byte_graphic)

lemma escape_nonempty: "i \<noteq> [] \<Longrightarrow> escape_local_id i \<noteq> []"
  by (cases i) (auto simp: escape_local_id_def escape_byte_def)

section \<open>Parsing what was built\<close>

lemma provider_id_new_Ok:
  assumes "provider_id_new p0 = Ok p"
  shows "p = trim p0" and "p \<noteq> []" and "\<forall>c \<in> set p. is_graphic c \<and> c \<noteq> CHR '':''"
    and "provider_id_new p = Ok p"
proof -
  show p: "p = trim p0" "p \<noteq> []"
    using assms by (auto simp: provider_id_new_def Let_def split: if_splits)
  have cond: "length p \<le> 64" "is_ascii_lowercase (hd p)" "list_all is_provider_byte (tl p)"
    using assms by (auto simp: provider_id_new_def Let_def split: if_splits)
  from cond(2,3) p(2) show g: "\<forall>c \<in> set p. is_graphic c \<and> c \<noteq> CHR '':''"
    by (cases p) (auto simp: list_all_iff is_provider_byte_def byte_class_defs is_graphic_def byte_def)
  have "trim p = p"
    by (rule trim_all_graphic) (use g in \<open>auto simp: list_all_iff\<close>)
  then show "provider_id_new p = Ok p"
    unfolding provider_id_new_def Let_def using p(2) cond by simp
qed

lemma pq_new_parts:
  assumes "pq_new p0 k i = Ok s"
  shows "split_char (CHR '':'') s = [trim p0, kind_as_str k, escape_local_id i]"
    and "trim s = s" and "i \<noteq> []" and "provider_id_new (trim p0) = Ok (trim p0)"
proof -
  from assms obtain p where p: "provider_id_new p0 = Ok p"
    and s: "s = p @ '':'' @ kind_as_str k @ '':'' @ escape_local_id i" and i: "i \<noteq> []"
    by (auto simp: pq_new_def local_id_new_def split: if_splits)
  note prov = provider_id_new_Ok [OF p]
  show "i \<noteq> []" by (rule i)
  show "provider_id_new (trim p0) = Ok (trim p0)" using prov(1,4) by simp
  have colon: "CHR '':'' \<notin> set p" "CHR '':'' \<notin> set (escape_local_id i)"
    using prov(3) escape_graphic by blast+
  have colon_kind: "CHR '':'' \<notin> set (kind_as_str k)"
    by (cases k) simp_all
  show "split_char (CHR '':'') s = [trim p0, kind_as_str k, escape_local_id i]"
    unfolding s using colon colon_kind prov(1) by (simp add: split_char_append split_char_no_sep)
  have "is_graphic (hd s)"
    unfolding s using prov(2,3) by (simp add: hd_append)
  moreover have "is_graphic (last s)"
    unfolding s using escape_graphic [OF last_in_set [OF escape_nonempty [OF i]]] escape_nonempty [OF i]
    by simp
  ultimately show "trim s = s" by (intro trim_graphic) simp
qed

lemma kind_from_as_str [simp]: "kind_from_str (kind_as_str k) = Ok k"
  by (cases k) (simp_all add: kind_from_str_def)

lemma pq_accessors:
  assumes "pq_new p k i = Ok s" and "utf8_valid i"
  shows "pq_provider s = trim p" and "pq_kind s = Some k" and "pq_local_id s = Some i"
  using pq_new_parts [OF assms(1)] assms(2)
  by (simp_all add: pq_provider_def pq_kind_def pq_local_id_def pq_part_def)

lemma pq_parse_new:
  assumes "pq_new p k i = Ok s" and "utf8_valid i"
  shows "pq_parse s = Ok s"
proof -
  note parts = pq_new_parts [OF assms(1)]
  have "pq_new (trim p) k i = Ok s"
    using assms(1) parts(4) by (auto simp: pq_new_def dest: provider_id_new_Ok(1))
  then show ?thesis
    using parts assms(2) by (simp add: pq_parse_def local_id_new_def)
qed

lemma canonical_kind: "canonical_pq s \<Longrightarrow> \<exists>k. pq_kind s = Some k"
  by (auto simp: canonical_pq_def dest: pq_accessors)

lemma ensure_kind_canonical: "canonical_pq s \<Longrightarrow> ensure_kind s k \<noteq> None"
  by (auto simp: ensure_kind_def dest: canonical_kind)

end
