(* ===== verification/Metadata_Types.thy ===== *)
theory Metadata_Types
  imports Oci_Manifest Handles Permissions Principals
begin

text \<open>
  The domain types of the metadata index (\<^verbatim>\<open>store/metadata/types.rs\<close>), in the order of the source, with
  their conversions.  A field \<^verbatim>\<open>f\<close> of a struct is the record field with a short prefix of the struct.
  Every reading of the wall clock (\<^verbatim>\<open>now_epoch()\<close>) is an argument \<open>now\<close>.
\<close>

section \<open>Decimal numbers\<close>

fun show_nat :: "nat \<Rightarrow> string" where
  "show_nat n = (if n < 10 then [char_of (48 + n)] else show_nat (n div 10) @ [char_of (48 + n mod 10)])"

declare show_nat.simps [simp del]

definition show_u64 :: "u64 \<Rightarrow> string" where
  "show_u64 w = show_nat (unat w)"

definition show_u32 :: "u32 \<Rightarrow> string" where
  "show_u32 w = show_nat (unat w)"

definition read_nat :: "string \<Rightarrow> nat" where
  "read_nat s = foldl (\<lambda>n c. n * 10 + (byte c - 48)) 0 s"

lemma byte_char_of: "n < 256 \<Longrightarrow> byte (char_of n) = n"
  by (simp add: byte_def)

lemma read_show_nat: "read_nat (show_nat n) = n"
proof (induction n rule: show_nat.induct)
  case (1 n)
  show ?case
  proof (cases "n < 10")
    case True
    then show ?thesis by (subst show_nat.simps) (simp add: read_nat_def byte_char_of)
  next
    case False
    have "read_nat (show_nat (n div 10) @ [char_of (48 + n mod 10)])
        = read_nat (show_nat (n div 10)) * 10 + n mod 10"
      by (simp add: read_nat_def byte_char_of)
    with 1 False show ?thesis by (subst show_nat.simps) simp
  qed
qed

lemma show_nat_inject [simp]: "show_nat m = show_nat n \<longleftrightarrow> m = n"
  by (metis read_show_nat)

lemma show_nat_digits: "c \<in> set (show_nat n) \<Longrightarrow> is_ascii_digit c"
proof (induction n rule: show_nat.induct)
  case (1 n)
  then show ?case
    by (cases "n < 10") (subst (asm) show_nat.simps, auto simp: is_ascii_digit_def byte_char_of)+
qed

lemma show_u64_inject [simp]: "show_u64 a = show_u64 b \<longleftrightarrow> a = b"
  by (simp add: show_u64_def word_unat_eq_iff)

section \<open>Manifests\<close>

record manifest_entry =
  me_digest :: digest
  me_content_type :: string
  me_body :: string
  me_referenced_blobs :: "digest list"
  me_subject :: "digest option"
  me_artifact_type :: "string option"
  me_annotations :: "json option"
  me_stored_size_bytes :: u64
  me_manifest_size_bytes :: u64
  me_created_at :: u64
  me_last_modified :: u64
  me_config_summary :: "json option"

definition entry_from_parsed_json ::
  "(string \<Rightarrow> string) \<Rightarrow> u64 \<Rightarrow> json \<Rightarrow> string \<Rightarrow> string \<Rightarrow> digest list \<Rightarrow> manifest_entry" where
  "entry_from_parsed_json sha_hex now parsed content_type body referenced_blobs =
     \<lparr>me_digest = digest_sha256 sha_hex body, me_content_type = content_type, me_body = body,
      me_referenced_blobs = referenced_blobs, me_subject = extract_subject_digest parsed,
      me_artifact_type = extract_artifact_type parsed, me_annotations = extract_annotations parsed,
      me_stored_size_bytes = stored_size_bytes parsed,
      me_manifest_size_bytes = of_nat (length body), me_created_at = now, me_last_modified = now,
      me_config_summary = extract_config_summary parsed\<rparr>"

section \<open>Mirror configuration\<close>

datatype mirror_direction = DirPull | DirPush

datatype mirror_strategy = StrategyAll | StrategyLatest u32 | StrategyPattern string

datatype outbound_proxy_protocol = ProxyNone | ProxyHttp | ProxyHttps | ProxySocks4 | ProxySocks5

record outbound_proxy =
  op_protocol :: outbound_proxy_protocol
  op_url :: "string option"
  op_username :: "string option"
  op_password :: "string option"

record outbound_proxy_public =
  opp_protocol :: outbound_proxy_protocol
  opp_url :: "string option"
  opp_username_configured :: bool
  opp_password_configured :: bool

definition configured :: "string option \<Rightarrow> bool" where
  "configured v = (case v of None \<Rightarrow> False | Some s \<Rightarrow> s \<noteq> [])"

definition outbound_proxy_public_from :: "outbound_proxy \<Rightarrow> outbound_proxy_public" where
  "outbound_proxy_public_from proxy =
     \<lparr>opp_protocol = op_protocol proxy, opp_url = op_url proxy,
      opp_username_configured = configured (op_username proxy),
      opp_password_configured = configured (op_password proxy)\<rparr>"

section \<open>Tokens, owners, namespaces\<close>

record namespace_epoch =
  ep_handle :: string
  ep_generation :: u64

record personal_access_token =
  pat_id :: string
  pat_subject :: string
  pat_username :: "string option"
  pat_name :: string
  pat_token_hash :: string
  pat_token_prefix :: string
  pat_scopes :: "string list"
  pat_namespace_epochs :: "namespace_epoch list"
  pat_created_at :: u64
  pat_last_used_at :: "u64 option"
  pat_expires_at :: "u64 option"

datatype visibility = Private | PublicPull

datatype owner = OwnerUser subject | OwnerOrg org_id

record namespace =
  ns_handle :: string
  ns_generation :: u64
  ns_owner :: owner
  ns_owner_label :: string
  ns_created_at :: u64

definition epoch_new :: "string \<Rightarrow> u64 \<Rightarrow> namespace_epoch" where
  "epoch_new handle generation = \<lparr>ep_handle = handle, ep_generation = generation\<rparr>"

definition epoch_from_namespace :: "namespace \<Rightarrow> namespace_epoch" where
  "epoch_from_namespace ns = epoch_new (ns_handle ns) (ns_generation ns)"

definition epoch_entity_id :: "namespace_epoch \<Rightarrow> string" where
  "epoch_entity_id e = ep_handle e @ ''#'' @ show_u64 (ep_generation e)"

datatype namespace_grant_grantee =
    GranteeGroup provider_qualified_id
  | GranteeUser provider_qualified_id
  | GranteePublic

fun grantee_label :: "namespace_grant_grantee \<Rightarrow> string" where
  "grantee_label (GranteeGroup i) = i"
| "grantee_label (GranteeUser i) = i"
| "grantee_label GranteePublic = ''Public''"

text \<open>\<^verbatim>\<open>expect\<close> on the kind check: a panic, \<^const>\<open>None\<close>, for an id of the other kind.\<close>

fun grantee_stable_key :: "namespace_grant_grantee \<Rightarrow> string option" where
  "grantee_stable_key (GranteeGroup i) =
     (case ref_group i of Some (Inr r) \<Rightarrow> Some (ref_stable_key r) | _ \<Rightarrow> None)"
| "grantee_stable_key (GranteeUser i) =
     (case ref_user i of Some (Inr r) \<Rightarrow> Some (ref_stable_key r) | _ \<Rightarrow> None)"
| "grantee_stable_key GranteePublic = Some ''public''"

record namespace_grant =
  ng_id :: string
  ng_namespace :: string
  ng_grantee :: namespace_grant_grantee
  ng_action :: oci_action
  ng_label :: string
  ng_created_by :: subject
  ng_created_at :: u64
  ng_updated_by :: subject
  ng_updated_at :: u64

record observed_identity =
  oi_subject :: subject
  oi_principal :: provider_qualified_id
  oi_username :: "string option"
  oi_display_name :: "string option"
  oi_email :: "string option"
  oi_groups :: "string list"
  oi_group_ids :: "provider_qualified_id list"
  oi_last_seen_at :: u64

record observed_identity_wire =
  ow_subject :: subject
  ow_principal :: "provider_qualified_id option"
  ow_username :: "string option"
  ow_display_name :: "string option"
  ow_email :: "string option"
  ow_groups :: "string list"
  ow_group_ids :: "provider_qualified_id list"
  ow_last_seen_at :: u64

definition observed_identity_from_wire :: "observed_identity_wire \<Rightarrow> observed_identity lh_result" where
  "observed_identity_from_wire wire =
     res_bind (case ow_principal wire of
         Some p \<Rightarrow> Ok p
       | None \<Rightarrow> pq_new ''oidc'' PKUser (ow_subject wire)) (\<lambda>p.
     Ok \<lparr>oi_subject = ow_subject wire, oi_principal = p, oi_username = ow_username wire,
         oi_display_name = ow_display_name wire, oi_email = ow_email wire, oi_groups = ow_groups wire,
         oi_group_ids = ow_group_ids wire, oi_last_seen_at = ow_last_seen_at wire\<rparr>)"

datatype namespace_grant_audit_operation = AuditCreate | AuditUpdate | AuditDelete

record namespace_grant_audit_event =
  ae_id :: string
  ae_namespace :: string
  ae_grant_id :: "string option"
  ae_operation :: namespace_grant_audit_operation
  ae_actor :: subject
  ae_actor_label :: string
  ae_reason :: string
  ae_before :: "namespace_grant option"
  ae_after :: "namespace_grant option"
  ae_created_at :: u64

datatype release_reason = OwnerDeleted | AdminRevoked | Renamed string

record released_handle =
  rh_handle :: string
  rh_prior_owner :: owner
  rh_prior_generation :: u64
  rh_prior_owner_label :: string
  rh_released_at :: u64
  rh_released_by :: subject
  rh_release_reason :: release_reason

section \<open>Repositories and policies\<close>

record repository =
  repo_name :: string
  repo_description :: string
  repo_created_by :: "subject option"
  repo_visibility :: visibility
  repo_created_at :: u64

datatype policy_source = Builtin | Config | Raft

record policy_set =
  ps_id :: string
  ps_name :: string
  ps_source :: policy_source
  ps_cedar_text :: string
  ps_enabled :: bool
  ps_created_by :: subject
  ps_updated_by :: subject
  ps_created_at :: u64
  ps_updated_at :: u64

section \<open>Mirror rules, proxy caches, warm images\<close>

record mirror_rule =
  mr_id :: string
  mr_direction :: mirror_direction
  mr_local_prefix :: string
  mr_upstream_registry :: string
  mr_upstream_prefix :: "string option"
  mr_schedule :: "string option"
  mr_strategy :: mirror_strategy
  mr_plain_http :: bool
  mr_insecure_tls :: bool
  mr_outbound_proxy :: outbound_proxy
  mr_username :: "string option"
  mr_password :: "string option"
  mr_created_at :: u64

record mirror_rule_public =
  mrp_id :: string
  mrp_direction :: mirror_direction
  mrp_local_prefix :: string
  mrp_upstream_registry :: string
  mrp_upstream_prefix :: "string option"
  mrp_schedule :: "string option"
  mrp_strategy :: mirror_strategy
  mrp_plain_http :: bool
  mrp_insecure_tls :: bool
  mrp_outbound_proxy :: outbound_proxy_public
  mrp_username_configured :: bool
  mrp_password_configured :: bool
  mrp_created_at :: u64

definition mirror_rule_public_from :: "mirror_rule \<Rightarrow> mirror_rule_public" where
  "mirror_rule_public_from r =
     \<lparr>mrp_id = mr_id r, mrp_direction = mr_direction r, mrp_local_prefix = mr_local_prefix r,
      mrp_upstream_registry = mr_upstream_registry r, mrp_upstream_prefix = mr_upstream_prefix r,
      mrp_schedule = mr_schedule r, mrp_strategy = mr_strategy r, mrp_plain_http = mr_plain_http r,
      mrp_insecure_tls = mr_insecure_tls r,
      mrp_outbound_proxy = outbound_proxy_public_from (mr_outbound_proxy r),
      mrp_username_configured = configured (mr_username r),
      mrp_password_configured = configured (mr_password r), mrp_created_at = mr_created_at r\<rparr>"

datatype warm_sort_by = SortCreated | SortPushed | SortPulled

datatype warm_filter = WarmNone | WarmAll | WarmLatest u32 warm_sort_by | WarmPattern string

record proxy_cache =
  pc_id :: string
  pc_local_prefix :: string
  pc_upstream_registry :: string
  pc_upstream_prefix :: "string option"
  pc_warm_filters :: "warm_filter list"
  pc_warm_schedule :: "string option"
  pc_plain_http :: bool
  pc_insecure_tls :: bool
  pc_outbound_proxy :: outbound_proxy
  pc_username :: "string option"
  pc_password :: "string option"
  pc_created_at :: u64

record proxy_cache_public =
  pcp_id :: string
  pcp_local_prefix :: string
  pcp_upstream_registry :: string
  pcp_upstream_prefix :: "string option"
  pcp_warm_filters :: "warm_filter list"
  pcp_warm_schedule :: "string option"
  pcp_plain_http :: bool
  pcp_insecure_tls :: bool
  pcp_outbound_proxy :: outbound_proxy_public
  pcp_username_configured :: bool
  pcp_password_configured :: bool
  pcp_created_at :: u64

definition proxy_cache_public_from :: "proxy_cache \<Rightarrow> proxy_cache_public" where
  "proxy_cache_public_from c =
     \<lparr>pcp_id = pc_id c, pcp_local_prefix = pc_local_prefix c,
      pcp_upstream_registry = pc_upstream_registry c, pcp_upstream_prefix = pc_upstream_prefix c,
      pcp_warm_filters = pc_warm_filters c, pcp_warm_schedule = pc_warm_schedule c,
      pcp_plain_http = pc_plain_http c, pcp_insecure_tls = pc_insecure_tls c,
      pcp_outbound_proxy = outbound_proxy_public_from (pc_outbound_proxy c),
      pcp_username_configured = configured (pc_username c),
      pcp_password_configured = configured (pc_password c), pcp_created_at = pc_created_at c\<rparr>"

record proxy_cache_tag_validation =
  tv_cache_id :: string
  tv_repository :: string
  tv_tag :: string
  tv_upstream_digest :: string
  tv_last_validated_at :: u64

record warm_image =
  wi_id :: string
  wi_image :: string
  wi_tags :: "string list"
  wi_interval_secs :: u64

definition default_warm_interval :: u64 where "default_warm_interval = 3600"

section \<open>Charts, summaries and counts\<close>

record helm_chart =
  hc_name :: string
  hc_description :: string
  hc_latest_version :: string
  hc_versions :: "string list"

record helm_chart_version =
  hv_name :: string
  hv_version :: string
  hv_app_version :: "string option"
  hv_description :: string
  hv_created :: string

record repository_summary =
  rs_name :: string
  rs_tag_count :: nat
  rs_manifest_count :: nat
  rs_stored_size_bytes :: u64
  rs_manifest_size_bytes :: u64
  rs_last_modified :: u64
  rs_description :: string
  rs_created_by :: "subject option"
  rs_visibility :: visibility

record manifest_summary =
  ms_digest :: string
  ms_media_type :: string
  ms_artifact_type :: "string option"
  ms_stored_size_bytes :: u64
  ms_manifest_size_bytes :: u64
  ms_created_at :: u64
  ms_last_modified :: u64
  ms_tags :: "string list"
  ms_subject :: "string option"
  ms_annotations :: "json option"
  ms_config_summary :: "json option"
  ms_body :: json

record delete_counts =
  deleted_manifests :: nat
  deleted_tags :: nat

record blob_delete_status =
  bd_digest :: string
  bd_referenced :: bool
  bd_ref_count :: u64

record blob_lifecycle_status =
  bl_digest :: string
  bl_referenced :: bool
  bl_ref_count :: u64
  bl_delete_requested :: bool

text \<open>The entry of the referrers listing (\<^verbatim>\<open>store/metadata/traits.rs\<close>).\<close>

record referrer_entry =
  re_digest :: digest
  re_media_type :: string
  re_size :: u64
  re_artifact_type :: "string option"
  re_annotations :: "json option"

section \<open>Epoch identities\<close>

text \<open>
  The Cedar entity id of a namespace names its generation: handles contain no \<^verbatim>\<open>#\<close>, so two epochs
  with the same id are the same epoch.
\<close>

lemma handle_grammar_no_hash: "handle_grammar h \<Longrightarrow> CHR ''#'' \<notin> set h"
  by (auto simp: handle_grammar_def list_all_iff is_handle_byte_def byte_class_defs byte_def)

lemma epoch_entity_id_inject:
  assumes "handle_grammar (ep_handle a)" and "handle_grammar (ep_handle b)"
    and "epoch_entity_id a = epoch_entity_id b"
  shows "a = b"
proof -
  have "ep_handle a @ CHR ''#'' # show_u64 (ep_generation a)
      = ep_handle b @ CHR ''#'' # show_u64 (ep_generation b)"
    using assms(3) by (simp add: epoch_entity_id_def)
  then have "ep_handle a = ep_handle b \<and> show_u64 (ep_generation a) = show_u64 (ep_generation b)"
    using sep_unique handle_grammar_no_hash assms(1,2) by metis
  then show ?thesis by simp
qed

end
