(* ===== verification/Tag_Validations.thy ===== *)
theory Tag_Validations
  imports Metadata_Types
begin

text \<open>
  The proxy-cache tag validations (\<^verbatim>\<open>store/metadata/types.rs\<close>): a three-level map from cache, repository
  and tag to the last upstream check.  The locale \<open>validation_index\<close> states what the state machine
  relies on; inside it the loops that clear a list of tags are treated once.
\<close>

type_synonym proxy_cache_tag_validations =
  "(string, (string, (string, proxy_cache_tag_validation) btmap) btmap) btmap"

definition get_proxy_cache_tag_validation ::
  "proxy_cache_tag_validations \<Rightarrow> string \<Rightarrow> string \<Rightarrow> string \<Rightarrow> proxy_cache_tag_validation option" where
  "get_proxy_cache_tag_validation validations cache_id repository tag =
     Option.bind (bt_get validations cache_id) (\<lambda>repos.
       Option.bind (bt_get repos repository) (\<lambda>tags. bt_get tags tag))"

definition put_proxy_cache_tag_validation ::
  "proxy_cache_tag_validation \<Rightarrow> proxy_cache_tag_validations \<Rightarrow> proxy_cache_tag_validations" where
  "put_proxy_cache_tag_validation validation validations =
     (let repos = bt_get_or bt_empty validations (tv_cache_id validation);
          tags = bt_get_or bt_empty repos (tv_repository validation)
      in bt_insert (tv_cache_id validation)
           (bt_insert (tv_repository validation)
             (bt_insert (tv_tag validation) validation tags) repos) validations)"

definition clear_proxy_cache_tag_validations_for_cache ::
  "string \<Rightarrow> proxy_cache_tag_validations \<Rightarrow> proxy_cache_tag_validations" where
  "clear_proxy_cache_tag_validations_for_cache cache_id validations = bt_remove cache_id validations"

definition clear_proxy_cache_tag_validations_for_repository ::
  "string \<Rightarrow> proxy_cache_tag_validations \<Rightarrow> proxy_cache_tag_validations" where
  "clear_proxy_cache_tag_validations_for_repository repository validations =
     bt_retain (\<lambda>_ repos. \<not> bt_is_empty repos)
       (bt_map (\<lambda>_ repos. bt_remove repository repos) validations)"

definition clear_tag_in_repos ::
  "string \<Rightarrow> string \<Rightarrow> (string, (string, proxy_cache_tag_validation) btmap) btmap
    \<Rightarrow> (string, (string, proxy_cache_tag_validation) btmap) btmap" where
  "clear_tag_in_repos repository tag repos =
     (case bt_get repos repository of
        None \<Rightarrow> repos
      | Some tags \<Rightarrow>
          let tags' = bt_remove tag tags in
          if bt_is_empty tags' then bt_remove repository repos
          else bt_insert repository tags' repos)"

definition clear_proxy_cache_tag_validations_for_tag ::
  "string \<Rightarrow> string \<Rightarrow> proxy_cache_tag_validations \<Rightarrow> proxy_cache_tag_validations" where
  "clear_proxy_cache_tag_validations_for_tag repository tag validations =
     bt_retain (\<lambda>_ repos. \<not> bt_is_empty repos)
       (bt_map (\<lambda>_ repos. clear_tag_in_repos repository tag repos) validations)"

text \<open>The loop over removed tags in the manifest deletions.\<close>

definition clear_tags :: "string \<Rightarrow> string list \<Rightarrow> proxy_cache_tag_validations \<Rightarrow> proxy_cache_tag_validations" where
  "clear_tags repository tags validations =
     fold (clear_proxy_cache_tag_validations_for_tag repository) tags validations"

text \<open>No level is left empty: the clearing operations drop a map they emptied.\<close>

definition validations_pruned :: "proxy_cache_tag_validations \<Rightarrow> bool" where
  "validations_pruned v \<longleftrightarrow>
     (\<forall>c repos. bt_get v c = Some repos \<longrightarrow>
       \<not> bt_is_empty repos \<and> (\<forall>r tags. bt_get repos r = Some tags \<longrightarrow> \<not> bt_is_empty tags))"

section \<open>The interface\<close>

locale validation_index =
  fixes get :: "'i \<Rightarrow> 'c \<Rightarrow> 'r \<Rightarrow> 't \<Rightarrow> 'v option"
    and put :: "'v \<Rightarrow> 'i \<Rightarrow> 'i"
    and clear_cache :: "'c \<Rightarrow> 'i \<Rightarrow> 'i"
    and clear_repository :: "'r \<Rightarrow> 'i \<Rightarrow> 'i"
    and clear_tag :: "'r \<Rightarrow> 't \<Rightarrow> 'i \<Rightarrow> 'i"
    and key :: "'v \<Rightarrow> 'c \<times> 'r \<times> 't"
    and invar :: "'i \<Rightarrow> bool"
  assumes get_put: "get (put v i) c r t = (if key v = (c, r, t) then Some v else get i c r t)"
    and get_clear_cache: "get (clear_cache c' i) c r t = (if c = c' then None else get i c r t)"
    and get_clear_repository:
      "get (clear_repository r' i) c r t = (if r = r' then None else get i c r t)"
    and get_clear_tag:
      "get (clear_tag r' t' i) c r t = (if r = r' \<and> t = t' then None else get i c r t)"
    and invar_put: "invar i \<Longrightarrow> invar (put v i)"
    and invar_clear_cache: "invar i \<Longrightarrow> invar (clear_cache c i)"
    and invar_clear_repository: "invar i \<Longrightarrow> invar (clear_repository r i)"
    and invar_clear_tag: "invar i \<Longrightarrow> invar (clear_tag r t i)"
begin

lemma get_clear_tag_list:
  "get (fold (clear_tag r') ts i) c r t = (if r = r' \<and> t \<in> set ts then None else get i c r t)"
  by (induction ts arbitrary: i) (auto simp: get_clear_tag)

lemma invar_clear_tag_list: "invar i \<Longrightarrow> invar (fold (clear_tag r) ts i)"
  by (induction ts arbitrary: i) (auto simp: invar_clear_tag)

lemma put_then_clear_tag: "key v = (c, r, t) \<Longrightarrow> get (clear_tag r t (put v i)) c r t = None"
  by (simp add: get_clear_tag)

end

section \<open>The laws hold for the nested maps\<close>

lemma get_clear_tag_in_repos:
  "Option.bind (bt_get (clear_tag_in_repos r' t' repos) r) (\<lambda>tags. bt_get tags t) =
     (if r = r' \<and> t = t' then None else Option.bind (bt_get repos r) (\<lambda>tags. bt_get tags t))"
proof (cases "bt_get repos r'")
  case None
  then show ?thesis by (simp add: clear_tag_in_repos_def)
next
  case (Some tags)
  show ?thesis
  proof (cases "bt_is_empty (bt_remove t' tags)")
    case True
    then have "bt_get tags t = None" if "t \<noteq> t'"
      using that unfolding bt_is_empty_get by (metis bt.get_remove)
    with True Some show ?thesis by (simp add: clear_tag_in_repos_def)
  next
    case False
    with Some show ?thesis by (simp add: clear_tag_in_repos_def)
  qed
qed

lemma get_retain_nonempty:
  "Option.bind (bt_get (bt_retain (\<lambda>_ repos. \<not> bt_is_empty repos) m) c) (\<lambda>repos. Option.bind (bt_get repos r) f)
    = Option.bind (bt_get m c) (\<lambda>repos. Option.bind (bt_get repos r) f)"
  by (cases "bt_get m c") (auto simp: bt_is_empty_get)

interpretation tv: validation_index get_proxy_cache_tag_validation put_proxy_cache_tag_validation
  clear_proxy_cache_tag_validations_for_cache clear_proxy_cache_tag_validations_for_repository
  clear_proxy_cache_tag_validations_for_tag
  "\<lambda>v. (tv_cache_id v, tv_repository v, tv_tag v)" validations_pruned
proof unfold_locales
  fix v i c c' r r' t t'
  show "get_proxy_cache_tag_validation (put_proxy_cache_tag_validation v i) c r t =
      (if (tv_cache_id v, tv_repository v, tv_tag v) = (c, r, t) then Some v
       else get_proxy_cache_tag_validation i c r t)"
    by (auto simp: get_proxy_cache_tag_validation_def put_proxy_cache_tag_validation_def Let_def
        bt_get_or_def split: option.splits)
  show "get_proxy_cache_tag_validation (clear_proxy_cache_tag_validations_for_cache c' i) c r t =
      (if c = c' then None else get_proxy_cache_tag_validation i c r t)"
    by (simp add: get_proxy_cache_tag_validation_def clear_proxy_cache_tag_validations_for_cache_def)
  show "get_proxy_cache_tag_validation (clear_proxy_cache_tag_validations_for_repository r' i) c r t =
      (if r = r' then None else get_proxy_cache_tag_validation i c r t)"
    unfolding get_proxy_cache_tag_validation_def clear_proxy_cache_tag_validations_for_repository_def
      get_retain_nonempty
    by (cases "bt_get i c") simp_all
  show "get_proxy_cache_tag_validation (clear_proxy_cache_tag_validations_for_tag r' t' i) c r t =
      (if r = r' \<and> t = t' then None else get_proxy_cache_tag_validation i c r t)"
    unfolding get_proxy_cache_tag_validation_def clear_proxy_cache_tag_validations_for_tag_def
      get_retain_nonempty
    by (cases "bt_get i c") (simp_all add: get_clear_tag_in_repos)
next
  fix v i assume i: "validations_pruned i"
  show "validations_pruned (put_proxy_cache_tag_validation v i)"
    using i by (auto simp: validations_pruned_def put_proxy_cache_tag_validation_def Let_def
        bt_get_or_def bt_is_empty_get split: option.splits if_splits)
next
  fix i c assume i: "validations_pruned i"
  show "validations_pruned (clear_proxy_cache_tag_validations_for_cache c i)"
    using i by (auto simp: validations_pruned_def clear_proxy_cache_tag_validations_for_cache_def
        split: if_splits)
next
  fix i r assume i: "validations_pruned i"
  show "validations_pruned (clear_proxy_cache_tag_validations_for_repository r i)"
    using i by (auto simp: validations_pruned_def clear_proxy_cache_tag_validations_for_repository_def
        split: if_splits option.splits)
next
  fix i r t assume i: "validations_pruned i"
  show "validations_pruned (clear_proxy_cache_tag_validations_for_tag r t i)"
    using i by (auto simp: validations_pruned_def clear_proxy_cache_tag_validations_for_tag_def
        clear_tag_in_repos_def Let_def split: if_splits option.splits)
qed

lemmas clear_tags_get = tv.get_clear_tag_list [folded clear_tags_def]
lemmas clear_tags_pruned = tv.invar_clear_tag_list [folded clear_tags_def]

end
