(* ===== verification/Sync_Jobs.thy ===== *)
theory Sync_Jobs
  imports Metadata_Types
begin

text \<open>
  Mirror jobs and their runs (\<^verbatim>\<open>store/metadata/types.rs\<close>): the job a rule or a proxy cache asks for, the
  test that keeps a second job from being queued, and the progress record of a run with its bounded
  event list.
\<close>

section \<open>Definitions\<close>

datatype sync_job_kind = LegacyWarm | Mirror | ProxyCache

datatype sync_job_status = Idle | Running

record sync_job =
  sj_id :: string
  sj_kind :: sync_job_kind
  sj_rule_id :: "string option"
  sj_rule_name :: "string option"
  sj_image :: string
  sj_tags :: "string list"
  sj_interval_secs :: u64
  sj_status :: sync_job_status
  sj_claimed_by :: "string option"
  sj_claimed_at :: "u64 option"
  sj_last_run_at :: "u64 option"
  sj_next_run_at :: u64
  sj_last_error :: "string option"

datatype sync_run_status = RunRunning | RunSucceeded | RunPartialFailure | RunFailed

datatype sync_run_event_kind = EvInfo | EvSuccess | EvWarning | EvError

record sync_run_event =
  ev_at :: u64
  ev_kind :: sync_run_event_kind
  ev_tag :: "string option"
  ev_message :: string

record sync_job_run =
  run_id :: string
  run_job_id :: string
  run_node_id :: string
  run_started_at :: u64
  run_finished_at :: "u64 option"
  run_status :: sync_run_status
  run_phase :: string
  run_total_tags :: nat
  run_completed_tags :: nat
  run_current_tag :: "string option"
  run_updated_at :: u64
  run_recent_events :: "sync_run_event list"
  run_tags_synced :: "string list"
  run_tags_failed :: "(string \<times> string) list"

definition MAX_SYNC_RUN_EVENTS :: nat where "MAX_SYNC_RUN_EVENTS = 50"

definition default_sync_run_phase :: string where "default_sync_run_phase = ''Queued''"

definition run_running :: "string \<Rightarrow> string \<Rightarrow> string \<Rightarrow> u64 \<Rightarrow> sync_job_run" where
  "run_running i job_id node_id started_at =
     \<lparr>run_id = i, run_job_id = job_id, run_node_id = node_id, run_started_at = started_at,
      run_finished_at = None, run_status = RunRunning, run_phase = default_sync_run_phase,
      run_total_tags = 0, run_completed_tags = 0, run_current_tag = None,
      run_updated_at = started_at, run_recent_events = [], run_tags_synced = [], run_tags_failed = []\<rparr>"

text \<open>Append the event, then drop the oldest ones beyond the bound (\<^verbatim>\<open>drain(..excess)\<close>).\<close>

definition push_event ::
  "sync_run_event_kind \<Rightarrow> string option \<Rightarrow> string \<Rightarrow> u64 \<Rightarrow> sync_job_run \<Rightarrow> sync_job_run" where
  "push_event kind tag message at run =
     (let events = run_recent_events run @
            [\<lparr>ev_at = at, ev_kind = kind, ev_tag = tag, ev_message = message\<rparr>]
      in run\<lparr>run_recent_events :=
           (if length events > MAX_SYNC_RUN_EVENTS
            then drop (length events - MAX_SYNC_RUN_EVENTS) events else events)\<rparr>)"

definition mark_resolution_started :: "u64 \<Rightarrow> sync_job_run \<Rightarrow> sync_job_run" where
  "mark_resolution_started now run =
     push_event EvInfo None ''Resolving job target'' now
       (run\<lparr>run_phase := ''Resolving tags'', run_current_tag := None, run_updated_at := now\<rparr>)"

definition mark_resolution_finished :: "nat \<Rightarrow> u64 \<Rightarrow> sync_job_run \<Rightarrow> sync_job_run" where
  "mark_resolution_finished total_tags now run =
     push_event EvInfo None (''Resolved '' @ show_nat total_tags @ '' tags'') now
       (run\<lparr>run_total_tags := total_tags, run_completed_tags := 0, run_current_tag := None,
            run_phase := (if total_tags = 0 then ''No tags resolved'' else ''Syncing tags''),
            run_updated_at := now\<rparr>)"

definition mark_resolution_failed :: "string \<Rightarrow> u64 \<Rightarrow> sync_job_run \<Rightarrow> sync_job_run" where
  "mark_resolution_failed message now run =
     push_event EvError None message now
       (run\<lparr>run_total_tags := 0, run_completed_tags := 0, run_current_tag := None,
            run_phase := ''Resolve failed'', run_updated_at := now\<rparr>)"

definition mark_tag_started :: "string \<Rightarrow> string \<Rightarrow> u64 \<Rightarrow> sync_job_run \<Rightarrow> sync_job_run" where
  "mark_tag_started tag phase now run =
     push_event EvInfo (Some tag) ''Started tag sync'' now
       (run\<lparr>run_phase := phase, run_current_tag := Some tag, run_updated_at := now\<rparr>)"

definition mark_tag_finished ::
  "string \<Rightarrow> sync_run_event_kind \<Rightarrow> string \<Rightarrow> nat \<Rightarrow> u64 \<Rightarrow> sync_job_run \<Rightarrow> sync_job_run" where
  "mark_tag_finished tag kind message completed_tags now run =
     push_event kind (Some tag) message now
       (run\<lparr>run_completed_tags := min completed_tags (run_total_tags run),
            run_current_tag := Some tag, run_updated_at := now\<rparr>)"

fun finished_phase :: "sync_run_status \<Rightarrow> string" where
  "finished_phase RunRunning = ''Running''"
| "finished_phase RunSucceeded = ''Succeeded''"
| "finished_phase RunPartialFailure = ''Partial failure''"
| "finished_phase RunFailed = ''Failed''"

fun finished_kind :: "sync_run_status \<Rightarrow> sync_run_event_kind" where
  "finished_kind RunSucceeded = EvSuccess"
| "finished_kind RunPartialFailure = EvWarning"
| "finished_kind RunFailed = EvError"
| "finished_kind RunRunning = EvInfo"

definition mark_finished ::
  "sync_run_status \<Rightarrow> string list \<Rightarrow> (string \<times> string) list \<Rightarrow> u64 \<Rightarrow> sync_job_run \<Rightarrow> sync_job_run" where
  "mark_finished status tags_synced tags_failed now run =
     push_event (finished_kind status) None (finished_phase status) now
       (run\<lparr>run_finished_at := Some now, run_status := status, run_phase := finished_phase status,
            run_current_tag := None, run_updated_at := now,
            run_completed_tags :=
              (if run_total_tags run = 0 then 0
               else min (length tags_synced + length tags_failed) (run_total_tags run)),
            run_tags_synced := tags_synced, run_tags_failed := tags_failed\<rparr>)"

fun mirror_strategy_labels :: "mirror_strategy \<Rightarrow> string list" where
  "mirror_strategy_labels StrategyAll = [''all'']"
| "mirror_strategy_labels (StrategyLatest n) = [''latest '' @ show_u32 n]"
| "mirror_strategy_labels (StrategyPattern pattern) = [pattern]"

fun warm_filter_label :: "warm_filter \<Rightarrow> string option" where
  "warm_filter_label WarmNone = None"
| "warm_filter_label WarmAll = Some ''all''"
| "warm_filter_label (WarmLatest n _) = Some (''latest '' @ show_u32 n)"
| "warm_filter_label (WarmPattern pattern) = Some pattern"

definition warm_filter_labels :: "warm_filter list \<Rightarrow> string list" where
  "warm_filter_labels filters = List.map_filter warm_filter_label filters"

definition proxy_cache_warm_job :: "proxy_cache \<Rightarrow> u64 \<Rightarrow> sync_job" where
  "proxy_cache_warm_job cache now =
     \<lparr>sj_id = pc_id cache @ ''-warm-'' @ show_u64 now, sj_kind = ProxyCache,
      sj_rule_id = Some (pc_id cache), sj_rule_name = Some (pc_id cache),
      sj_image = pc_local_prefix cache, sj_tags = warm_filter_labels (pc_warm_filters cache),
      sj_interval_secs = 0, sj_status = Idle, sj_claimed_by = None, sj_claimed_at = None,
      sj_last_run_at = None, sj_next_run_at = now, sj_last_error = None\<rparr>"

definition mirror_rule_job :: "mirror_rule \<Rightarrow> string \<Rightarrow> u64 \<Rightarrow> u64 \<Rightarrow> sync_job" where
  "mirror_rule_job rule i now interval_secs =
     \<lparr>sj_id = i, sj_kind = Mirror, sj_rule_id = Some (mr_id rule), sj_rule_name = Some (mr_id rule),
      sj_image = mr_local_prefix rule, sj_tags = mirror_strategy_labels (mr_strategy rule),
      sj_interval_secs = interval_secs, sj_status = Idle, sj_claimed_by = None, sj_claimed_at = None,
      sj_last_run_at = None, sj_next_run_at = now, sj_last_error = None\<rparr>"

definition sync_job_blocks_trigger :: "sync_job \<Rightarrow> sync_job_kind \<Rightarrow> string \<Rightarrow> u64 \<Rightarrow> bool" where
  "sync_job_blocks_trigger job kind rule_id now \<longleftrightarrow>
     sj_kind job = kind \<and> sj_rule_id job = Some rule_id \<and>
     (sj_status job = Running \<or> (sj_interval_secs job = 0 \<and> sj_next_run_at job \<le> now))"

section \<open>Progress of a run\<close>

text \<open>A run never reports more completed tags than it has and keeps at most fifty events.\<close>

definition run_wf :: "sync_job_run \<Rightarrow> bool" where
  "run_wf run \<longleftrightarrow>
     run_completed_tags run \<le> run_total_tags run \<and>
     length (run_recent_events run) \<le> MAX_SYNC_RUN_EVENTS"

lemma run_running_wf: "run_wf (run_running i j n t)"
  by (simp add: run_wf_def run_running_def)

lemma push_event_frame [simp]:
  "run_completed_tags (push_event k t m a run) = run_completed_tags run"
  "run_total_tags (push_event k t m a run) = run_total_tags run"
  "run_phase (push_event k t m a run) = run_phase run"
  "run_status (push_event k t m a run) = run_status run"
  by (simp_all add: push_event_def Let_def)

lemma push_event_bound [simp]:
  "length (run_recent_events (push_event k t m a run)) \<le> MAX_SYNC_RUN_EVENTS"
  by (simp add: push_event_def Let_def MAX_SYNC_RUN_EVENTS_def)

lemma push_event_wf:
  "run_wf (push_event k t m a run) \<longleftrightarrow> run_completed_tags run \<le> run_total_tags run"
  by (simp add: run_wf_def)

text \<open>The newest event is always kept, after as many of the older ones as fit.\<close>

lemma push_event_events:
  "run_recent_events (push_event k t m a run) =
     drop (Suc (length (run_recent_events run)) - MAX_SYNC_RUN_EVENTS) (run_recent_events run) @
       [\<lparr>ev_at = a, ev_kind = k, ev_tag = t, ev_message = m\<rparr>]"
  by (auto simp: push_event_def Let_def MAX_SYNC_RUN_EVENTS_def)

datatype run_update =
    ResolutionStarted u64
  | ResolutionFinished nat u64
  | ResolutionFailed string u64
  | TagStarted string string u64
  | TagFinished string sync_run_event_kind string nat u64
  | Finished sync_run_status "string list" "(string \<times> string) list" u64

fun run_step :: "run_update \<Rightarrow> sync_job_run \<Rightarrow> sync_job_run" where
  "run_step (ResolutionStarted now) = mark_resolution_started now"
| "run_step (ResolutionFinished n now) = mark_resolution_finished n now"
| "run_step (ResolutionFailed m now) = mark_resolution_failed m now"
| "run_step (TagStarted t p now) = mark_tag_started t p now"
| "run_step (TagFinished t k m n now) = mark_tag_finished t k m n now"
| "run_step (Finished s ok bad now) = mark_finished s ok bad now"

lemma run_step_wf [step_invs]: "run_wf run \<Longrightarrow> run_wf (run_step u run)"
  by (cases u)
    (auto simp: push_event_wf mark_resolution_started_def mark_resolution_finished_def
      mark_resolution_failed_def mark_tag_started_def mark_tag_finished_def mark_finished_def run_wf_def)

lemma run_steps_wf: "run_wf run \<Longrightarrow> run_wf (fold run_step us run)"
  by (induction us arbitrary: run) (auto simp: run_step_wf)

text \<open>A freshly built job of a rule blocks a second trigger of that rule until it was run.\<close>

lemma mirror_rule_job_blocks:
  "sync_job_blocks_trigger (mirror_rule_job rule i now 0) Mirror (mr_id rule) now' \<longleftrightarrow> now \<le> now'"
  by (simp add: sync_job_blocks_trigger_def mirror_rule_job_def)

lemma proxy_cache_warm_job_blocks:
  "sync_job_blocks_trigger (proxy_cache_warm_job cache now) ProxyCache (pc_id cache) now' \<longleftrightarrow> now \<le> now'"
  by (simp add: sync_job_blocks_trigger_def proxy_cache_warm_job_def)

end
