(* ===== verification/Index_Summaries.thy ===== *)
theory Index_Summaries
  imports Metadata_Types
begin

text \<open>
  Listings computed from a repository's manifests (\<^verbatim>\<open>store/metadata/types.rs\<close>): manifest summaries with
  their tags, and the sizes shown for a manifest and for a repository.  \<open>from_slice\<close> is
  \<^verbatim>\<open>serde_json::from_slice\<close>, which parses a body or fails.
\<close>

section \<open>Definitions\<close>

definition sized_descriptors_from_entry ::
  "(string \<Rightarrow> json option) \<Rightarrow> manifest_entry \<Rightarrow> sized_descriptor list" where
  "sized_descriptors_from_entry from_slice entry =
     (case from_slice (me_body entry) of
        None \<Rightarrow> []
      | Some value \<Rightarrow> extract_sized_referenced_descriptors value)"

definition manifest_stored_size_bytes :: "(string \<Rightarrow> json option) \<Rightarrow> manifest_entry \<Rightarrow> u64" where
  "manifest_stored_size_bytes from_slice entry =
     (let descriptors = sized_descriptors_from_entry from_slice entry in
      if descriptors = [] then
        (if me_stored_size_bytes entry > 0 then me_stored_size_bytes entry
         else me_manifest_size_bytes entry)
      else stored_size_from_descriptors descriptors)"

definition repository_manifest_size_bytes :: "(string, manifest_entry) btmap \<Rightarrow> u64" where
  "repository_manifest_size_bytes repo_manifests =
     sum_list (map me_manifest_size_bytes (bt_values repo_manifests))"

fun repository_size_loop ::
  "(string \<Rightarrow> json option) \<Rightarrow> manifest_entry list \<Rightarrow> (string, u64) btmap \<Rightarrow> u64 \<Rightarrow> (string, u64) btmap \<times> u64" where
  "repository_size_loop from_slice [] by_digest fallback_size = (by_digest, fallback_size)"
| "repository_size_loop from_slice (entry # entries) by_digest fallback_size =
     (let descriptors = sized_descriptors_from_entry from_slice entry in
      if descriptors = [] then
        repository_size_loop from_slice entries by_digest
          (fallback_size + max (me_stored_size_bytes entry) (me_manifest_size_bytes entry))
      else repository_size_loop from_slice entries (fold note_size descriptors by_digest) fallback_size)"

definition repository_stored_size_bytes ::
  "(string \<Rightarrow> json option) \<Rightarrow> (string, manifest_entry) btmap \<Rightarrow> u64" where
  "repository_stored_size_bytes from_slice repo_manifests =
     (case repository_size_loop from_slice (bt_values repo_manifests) bt_empty 0 of
        (by_digest, fallback_size) \<Rightarrow> sum_list (bt_values by_digest) + fallback_size)"

text \<open>The index from digest to its tags, filled in tag order.\<close>

definition note_tag :: "string \<times> string \<Rightarrow> (string, string list) btmap \<Rightarrow> (string, string list) btmap" where
  "note_tag td m = bt_insert (snd td) (bt_get_or [] m (snd td) @ [fst td]) m"

definition tags_by_digest :: "(string, string) btmap option \<Rightarrow> (string, string list) btmap" where
  "tags_by_digest repo_tags =
     (case repo_tags of None \<Rightarrow> bt_empty | Some tags \<Rightarrow> fold note_tag (bt_entries tags) bt_empty)"

definition manifest_summary_of ::
  "(string \<Rightarrow> json option) \<Rightarrow> string \<Rightarrow> manifest_entry \<Rightarrow> string list \<Rightarrow> manifest_summary" where
  "manifest_summary_of from_slice dig entry tags =
     \<lparr>ms_digest = dig, ms_media_type = me_content_type entry, ms_artifact_type = me_artifact_type entry,
      ms_stored_size_bytes = manifest_stored_size_bytes from_slice entry,
      ms_manifest_size_bytes = me_manifest_size_bytes entry, ms_created_at = me_created_at entry,
      ms_last_modified = me_last_modified entry, ms_tags = sort tags,
      ms_subject = map_option digest_to_string (me_subject entry),
      ms_annotations = me_annotations entry, ms_config_summary = me_config_summary entry,
      ms_body = (case from_slice (me_body entry) of None \<Rightarrow> JNull | Some b \<Rightarrow> b)\<rparr>"

fun summaries_loop ::
  "(string \<Rightarrow> json option) \<Rightarrow> (string \<times> manifest_entry) list \<Rightarrow> (string, string list) btmap \<Rightarrow> manifest_summary list" where
  "summaries_loop from_slice [] by_digest = []"
| "summaries_loop from_slice ((dig, entry) # es) by_digest =
     manifest_summary_of from_slice dig entry (bt_get_or [] by_digest dig)
       # summaries_loop from_slice es (bt_remove dig by_digest)"

definition build_manifest_summaries ::
  "(string \<Rightarrow> json option) \<Rightarrow> (string, manifest_entry) btmap \<Rightarrow> (string, string) btmap option
    \<Rightarrow> manifest_summary list" where
  "build_manifest_summaries from_slice repo_manifests repo_tags =
     summaries_loop from_slice (bt_entries repo_manifests) (tags_by_digest repo_tags)"

section \<open>Summaries list each manifest once, with exactly its tags\<close>

definition tags_pointing_to :: "(string, string) btmap option \<Rightarrow> string \<Rightarrow> string list" where
  "tags_pointing_to repo_tags dig =
     (case repo_tags of None \<Rightarrow> []
      | Some tags \<Rightarrow> map fst (filter (\<lambda>td. snd td = dig) (bt_entries tags)))"

lemma fold_note_tag:
  "bt_get_or [] (fold note_tag tds m) dig = bt_get_or [] m dig @ map fst (filter (\<lambda>td. snd td = dig) tds)"
  by (induction tds arbitrary: m) (auto simp: note_tag_def bt_get_or_def split: option.splits)

lemma tags_by_digest_get: "bt_get_or [] (tags_by_digest repo_tags) dig = tags_pointing_to repo_tags dig"
  by (cases repo_tags) (simp_all add: tags_by_digest_def tags_pointing_to_def fold_note_tag)

lemma bt_get_or_remove: "bt_get_or d (bt_remove k m) k' = (if k' = k then d else bt_get_or d m k')"
  by (simp add: bt_get_or_def)

lemma summaries_loop_map:
  "distinct (map fst es) \<Longrightarrow>
    summaries_loop f es m = map (\<lambda>(dig, entry). manifest_summary_of f dig entry (bt_get_or [] m dig)) es"
proof (induction es arbitrary: m)
  case (Cons e es)
  obtain dig entry where e: "e = (dig, entry)" by (cases e)
  have "\<forall>x \<in> set es. fst x \<noteq> dig"
    using Cons.prems e by force
  with Cons e show ?case
    by (auto simp: bt_get_or_remove)
qed simp

lemma sorted_tags_pointing_to: "sorted (tags_pointing_to repo_tags dig)"
proof (cases repo_tags)
  case (Some tags)
  have "sorted_wrt (<) (map fst (filter (\<lambda>td. snd td = dig) (bt_entries tags)))"
    by (rule sorted_map_fst_filter [OF bt.entries_sorted])
  then show ?thesis
    using Some by (simp add: tags_pointing_to_def strict_sorted_iff)
qed (simp add: tags_pointing_to_def)

lemma build_manifest_summaries_spec:
  "build_manifest_summaries f ms tags =
    map (\<lambda>(dig, entry). manifest_summary_of f dig entry (tags_pointing_to tags dig)) (bt_entries ms)"
  by (simp add: build_manifest_summaries_def summaries_loop_map bt.entries_distinct tags_by_digest_get)

section \<open>A repository counts a shared blob once\<close>

definition described :: "(string \<Rightarrow> json option) \<Rightarrow> manifest_entry list \<Rightarrow> sized_descriptor list" where
  "described f es = concat (map (sized_descriptors_from_entry f) es)"

definition fallback_entries :: "(string \<Rightarrow> json option) \<Rightarrow> manifest_entry list \<Rightarrow> manifest_entry list" where
  "fallback_entries f es = filter (\<lambda>e. sized_descriptors_from_entry f e = []) es"

lemma repository_size_loop_spec:
  "repository_size_loop f es m n =
    (fold note_size (described f es) m,
     n + sum_list (map (\<lambda>e. max (me_stored_size_bytes e) (me_manifest_size_bytes e)) (fallback_entries f es)))"
  by (induction es arbitrary: m n) (auto simp: described_def fallback_entries_def Let_def)

lemma repository_stored_size_spec:
  "repository_stored_size_bytes f ms =
     stored_size_from_descriptors (described f (bt_values ms)) +
     sum_list (map (\<lambda>e. max (me_stored_size_bytes e) (me_manifest_size_bytes e))
       (fallback_entries f (bt_values ms)))"
  by (simp add: repository_stored_size_bytes_def repository_size_loop_spec
      stored_size_from_descriptors_def sizes_by_digest_def)

end
