(* ===== verification/Raft_Types.thy ===== *)
theory Raft_Types
  imports Tag_Validations Sync_Jobs Index_Summaries
begin

text \<open>
  The replicated commands and the replicated state (\<^verbatim>\<open>raft/mod.rs\<close> and the struct of
  \<^verbatim>\<open>raft/state_machine.rs\<close>): one datatype per request domain, the responses, and \<open>state_machine_data\<close> with
  the collections of the index.  Log ids and memberships are OpenRaft's.
\<close>

section \<open>Requests and responses\<close>

record put_manifest_request =
  pm_name :: string
  pm_expected_namespace :: "namespace_epoch option"
  pm_reference :: string
  pm_require_reference_absent :: bool
  pm_digest :: string
  pm_content_type :: string
  pm_body :: string
  pm_subject :: "string option"
  pm_artifact_type :: "string option"
  pm_annotations :: "json option"
  pm_stored_size_bytes :: u64
  pm_manifest_size_bytes :: u64
  pm_created_at :: u64
  pm_last_modified :: u64
  pm_config_summary :: "json option"
  pm_referenced_blobs :: "string list"

datatype manifest_request =
    PutManifest put_manifest_request
  | DeleteManifest string "namespace_epoch option" string
  | DeleteTag string "namespace_epoch option" string string
  | DeleteRepositoryContent string "namespace_epoch option"
  | DeleteManifests string "namespace_epoch option" "string list"
  | MountBlob string string "namespace_epoch option" string
  | RecordBlobDelete string u64
  | ClearBlobDelete string

datatype manifest_response =
    ManifestOk
  | ManifestBool bool
  | ManifestDeleteCounts delete_counts
  | ManifestBlobDeleteStatus blob_delete_status

datatype mirror_config_request =
    PutMirrorRule mirror_rule
  | DeleteMirrorRule string
  | TriggerMirrorRule string
  | PutProxyCache proxy_cache
  | DeleteProxyCache string
  | TriggerProxyCacheWarm string
  | PutProxyCacheTagValidation proxy_cache_tag_validation
  | PutWarmImage warm_image
  | DeleteWarmImage string

datatype mirror_config_response =
    MirrorConfigOk
  | MirrorConfigBool bool
  | MirrorConfigSyncJob "sync_job option"

datatype job_request =
    PutSyncJob sync_job
  | DeleteSyncJob string
  | ClaimSyncJob string string
  | TriggerSyncJob string
  | PutSyncJobRun sync_job_run

datatype job_response = JobOk | JobBool bool

datatype token_request =
    PutPersonalAccessToken personal_access_token
  | DeletePersonalAccessToken string string

datatype token_response = TokenOk | TokenBool bool

datatype policy_request = PutPolicySet policy_set | DeletePolicySet string

datatype policy_response = PolicyOk | PolicyBool bool

datatype repository_request =
    PutRepository repository "namespace_epoch option"
  | DeleteRepository string "namespace_epoch option"

datatype repository_response = RepositoryOk | RepositoryBool bool

record claim_request =
  cl_handle :: string
  cl_owner :: owner
  cl_owner_label :: string
  cl_actor :: subject
  cl_admin_override :: bool
  cl_now :: u64

record delete_grant_request =
  dg_handle :: string
  dg_grant_id :: string
  dg_actor :: subject
  dg_actor_label :: string
  dg_reason :: string
  dg_now :: u64
  dg_audit_id :: string

datatype namespace_request =
    NamespaceClaim claim_request
  | NamespaceDelete string subject release_reason u64
  | NamespaceAdminRevoke string subject u64
  | NamespacePutGrant namespace_grant string string string
  | NamespaceDeleteGrant delete_grant_request
  | NamespacePutObservedIdentity observed_identity

datatype namespace_response = NamespaceOk | NamespaceGrantResp namespace_grant | NamespaceBool bool

datatype request =
    ReqManifest manifest_request
  | ReqMirrorConfig mirror_config_request
  | ReqJob job_request
  | ReqToken token_request
  | ReqPolicy policy_request
  | ReqRepository repository_request
  | ReqNamespace namespace_request

datatype response =
    RespManifest manifest_response
  | RespMirrorConfig mirror_config_response
  | RespJob job_response
  | RespToken token_response
  | RespPolicy policy_response
  | RespRepository repository_response
  | RespNamespace namespace_response
  | RespNameUnknown msg
  | RespDenied msg
  | RespConflict msg
  | RespNameInvalid msg
  | RespInternalError msg

section \<open>The replicated state\<close>

record log_id =
  li_term :: u64
  li_node :: u64
  li_index :: u64

record membership =
  mb_configs :: "u64 list list"
  mb_nodes :: "(u64 \<times> string) list"

record stored_membership =
  sm_log_id :: "log_id option"
  sm_membership :: membership

type_synonym manifest_map = "(string, (string, manifest_entry) btmap) btmap"
type_synonym tag_map = "(string, (string, string) btmap) btmap"

record state_machine_data =
  last_applied_log :: "log_id option"
  last_membership :: stored_membership
  manifests :: manifest_map
  tags :: tag_map
  blob_ref_counts :: "(string, u64) btmap"
  blob_delete_requests :: "(string, u64) btmap"
  mirror_rules :: "(string, mirror_rule) btmap"
  proxy_caches :: "(string, proxy_cache) btmap"
  proxy_cache_tag_validations :: proxy_cache_tag_validations
  warm_images :: "(string, warm_image) btmap"
  sync_jobs :: "(string, sync_job) btmap"
  sync_job_runs :: "(string, sync_job_run list) btmap"
  helm_charts :: "(string, helm_chart) btmap"
  helm_chart_versions :: "(string, helm_chart_version list) btmap"
  personal_access_tokens :: "(string, personal_access_token) btmap"
  repositories :: "(string, repository) btmap"
  policy_sets :: "(string, policy_set) btmap"
  namespaces :: "(string, namespace) btmap"
  released_handles :: "(string, released_handle) btmap"
  namespace_grants :: "(string, (string, namespace_grant) btmap) btmap"
  observed_identities :: "(string, observed_identity) btmap"
  namespace_grant_audit :: "(string, namespace_grant_audit_event list) btmap"

definition empty_state :: state_machine_data where
  "empty_state =
     \<lparr>last_applied_log = None,
      last_membership = \<lparr>sm_log_id = None, sm_membership = \<lparr>mb_configs = [], mb_nodes = []\<rparr>\<rparr>,
      manifests = bt_empty, tags = bt_empty, blob_ref_counts = bt_empty,
      blob_delete_requests = bt_empty, mirror_rules = bt_empty, proxy_caches = bt_empty,
      proxy_cache_tag_validations = bt_empty, warm_images = bt_empty, sync_jobs = bt_empty,
      sync_job_runs = bt_empty, helm_charts = bt_empty, helm_chart_versions = bt_empty,
      personal_access_tokens = bt_empty, repositories = bt_empty, policy_sets = bt_empty,
      namespaces = bt_empty, released_handles = bt_empty, namespace_grants = bt_empty,
      observed_identities = bt_empty, namespace_grant_audit = bt_empty\<rparr>"

text \<open>
  The code the state machine calls outside this crate's sources: SHA-256 in hex, the JSON parser, the
  Cedar validator and Unicode lower-casing.
\<close>

record env =
  env_sha_hex :: "string \<Rightarrow> string"
  env_from_slice :: "string \<Rightarrow> json option"
  env_validate_policy_text :: "string \<Rightarrow> (unit, msg) result"
  env_to_lowercase :: "string \<Rightarrow> string"

end
