(* ===== verification/State_Machine.thy ===== *)
theory State_Machine
  imports Raft_Types
begin

text \<open>
  The deterministic core of the registry (\<^verbatim>\<open>raft/state_machine.rs\<close>): one definition per request, composed
  by \<open>apply_request\<close> and folded over the committed log by \<open>apply_entries\<close>.  Every arm that can fail
  fails before its first mutation, so an arm returns either an error or the new state with its
  response.  The clock read inside an arm (\<^verbatim>\<open>now_epoch()\<close>) is the argument \<open>now\<close> of the node that applies
  the entry.  A panic of an arm is \<^const>\<open>None\<close>.
\<close>

section \<open>Guards\<close>

definition require_expected_namespace ::
  "state_machine_data \<Rightarrow> string \<Rightarrow> namespace_epoch option \<Rightarrow> unit lh_result" where
  "require_expected_namespace data repo expected =
     res_bind (handle_of repo) (\<lambda>handle.
       if is_handle_reserved handle then Ok ()
       else (case expected of
           None \<Rightarrow> Err (Denied [Lit ''namespace '', Dbg handle, Lit '' was not live when request was authorized''])
         | Some ex \<Rightarrow>
             if ep_handle ex \<noteq> handle then
               Err (NameInvalid [Lit ''expected namespace '', Dbg (ep_handle ex),
                 Lit '' does not match repository '', Dbg repo])
             else (case bt_get (namespaces data) handle of
                 None \<Rightarrow> Err (NameUnknown [Lit ''namespace '', Dbg handle,
                   Lit '' does not exist (referenced by '', Dbg repo, Lit '')''])
               | Some current \<Rightarrow>
                   if ns_generation current \<noteq> ep_generation ex then
                     Err (Conflict [Lit ''namespace '', Dbg handle, Lit '' changed generation from '',
                       DispNum (unat (ep_generation ex)), Lit '' to '', DispNum (unat (ns_generation current))])
                   else Ok ())))"

definition any_key_with_prefix :: "(string, 'v) btmap \<Rightarrow> string \<Rightarrow> bool" where
  "any_key_with_prefix m pre \<longleftrightarrow> list_ex (\<lambda>k. starts_with pre k) (bt_keys m)"

definition has_content :: "state_machine_data \<Rightarrow> string \<Rightarrow> bool" where
  "has_content data handle \<longleftrightarrow>
     (let pre = handle @ ''/'' in
      any_key_with_prefix (manifests data) pre \<or> any_key_with_prefix (tags data) pre
        \<or> any_key_with_prefix (repositories data) pre)"

section \<open>Reference counts\<close>

definition inc_ref :: "digest \<Rightarrow> (string, u64) btmap \<Rightarrow> (string, u64) btmap" where
  "inc_ref d counts =
     (let key = digest_to_string d in bt_insert key (bt_get_or 0 counts key + 1) counts)"

definition dec_ref :: "digest \<Rightarrow> (string, u64) btmap \<Rightarrow> (string, u64) btmap" where
  "dec_ref d counts =
     (let key = digest_to_string d in
      case bt_get counts key of
        None \<Rightarrow> counts
      | Some n \<Rightarrow>
          let n' = saturating_sub_u64 n 1 in
          if n' = 0 then bt_remove key counts else bt_insert key n' counts)"

definition increment_blob_refs :: "manifest_entry \<Rightarrow> (string, u64) btmap \<Rightarrow> (string, u64) btmap" where
  "increment_blob_refs entry counts = fold inc_ref (me_referenced_blobs entry) counts"

definition decrement_blob_refs :: "manifest_entry \<Rightarrow> (string, u64) btmap \<Rightarrow> (string, u64) btmap" where
  "decrement_blob_refs entry counts = fold dec_ref (me_referenced_blobs entry) counts"

definition rebuild_blob_ref_counts :: "state_machine_data \<Rightarrow> state_machine_data" where
  "rebuild_blob_ref_counts data =
     data\<lparr>blob_ref_counts :=
       fold (\<lambda>repo counts. fold increment_blob_refs (bt_values repo) counts)
         (bt_values (manifests data)) bt_empty\<rparr>"

definition blob_ref_count_str :: "state_machine_data \<Rightarrow> string \<Rightarrow> u64" where
  "blob_ref_count_str data dig = bt_get_or 0 (blob_ref_counts data) dig"

section \<open>Manifest requests\<close>

definition get_manifest :: "state_machine_data \<Rightarrow> string \<Rightarrow> string \<Rightarrow> manifest_entry option" where
  "get_manifest data name reference =
     (if starts_with ''sha256:'' reference \<or> starts_with ''sha512:'' reference then
        Option.bind (bt_get (manifests data) name) (\<lambda>repo. bt_get repo reference)
      else
        Option.bind (bt_get (tags data) name) (\<lambda>repo_tags.
          Option.bind (bt_get repo_tags reference) (\<lambda>dig.
            Option.bind (bt_get (manifests data) name) (\<lambda>repo. bt_get repo dig))))"

text \<open>\<^verbatim>\<open>dedup_by\<close> keeps the first element of every run with equal keys.\<close>

fun dedup_by :: "('a \<Rightarrow> 'b) \<Rightarrow> 'a list \<Rightarrow> 'a list" where
  "dedup_by f [] = []"
| "dedup_by f [x] = [x]"
| "dedup_by f (x # y # xs) = (if f x = f y then dedup_by f (x # xs) else x # dedup_by f (y # xs))"

definition sort_dedup_digests :: "digest list \<Rightarrow> digest list" where
  "sort_dedup_digests refs = dedup_by digest_to_string (sort_key digest_to_string refs)"

definition put_manifest_refs :: "env \<Rightarrow> string \<Rightarrow> string list \<Rightarrow> digest list" where
  "put_manifest_refs env body referenced_blobs =
     (let refs = List.map_filter from_str_checked referenced_blobs;
          refs' = (if refs = [] then
              (case env_from_slice env body of None \<Rightarrow> refs | Some v \<Rightarrow> extract_referenced_digests v)
            else refs)
      in sort_dedup_digests refs')"

definition put_manifest_entry :: "env \<Rightarrow> put_manifest_request \<Rightarrow> manifest_entry" where
  "put_manifest_entry env r =
     \<lparr>me_digest = (case from_str_checked (pm_digest r) of
          Some d \<Rightarrow> d | None \<Rightarrow> digest_sha256 (env_sha_hex env) (pm_body r)),
      me_content_type = pm_content_type r, me_body = pm_body r,
      me_referenced_blobs = put_manifest_refs env (pm_body r) (pm_referenced_blobs r),
      me_subject = Option.bind (pm_subject r) from_str_checked,
      me_artifact_type = pm_artifact_type r, me_annotations = pm_annotations r,
      me_stored_size_bytes = pm_stored_size_bytes r, me_manifest_size_bytes = pm_manifest_size_bytes r,
      me_created_at = pm_created_at r, me_last_modified = pm_last_modified r,
      me_config_summary = pm_config_summary r\<rparr>"

text \<open>The mutation of \<^verbatim>\<open>PutManifest\<close>, after its guards: index the entry, move the counts, set the tag.\<close>

definition store_manifest :: "state_machine_data \<Rightarrow> string \<Rightarrow> string \<Rightarrow> manifest_entry \<Rightarrow> state_machine_data" where
  "store_manifest data name reference entry =
     (let entry_key = digest_to_string (me_digest entry);
          repo = bt_get_or bt_empty (manifests data) name;
          previous = bt_get repo entry_key;
          counts = (case previous of None \<Rightarrow> blob_ref_counts data
                    | Some p \<Rightarrow> decrement_blob_refs p (blob_ref_counts data));
          data1 = data\<lparr>manifests := bt_insert name (bt_insert entry_key entry repo) (manifests data),
                       blob_ref_counts := increment_blob_refs entry counts\<rparr>
      in if contains_char (CHR '':'') reference then data1
         else data1\<lparr>
           proxy_cache_tag_validations :=
             clear_proxy_cache_tag_validations_for_tag name reference (proxy_cache_tag_validations data),
           tags := bt_insert name
             (bt_insert reference entry_key (bt_get_or bt_empty (tags data) name)) (tags data)\<rparr>)"

definition put_manifest ::
  "env \<Rightarrow> state_machine_data \<Rightarrow> put_manifest_request \<Rightarrow> (state_machine_data \<times> manifest_response) lh_result" where
  "put_manifest env data r =
     res_bind (require_expected_namespace data (pm_name r) (pm_expected_namespace r)) (\<lambda>_.
       if pm_require_reference_absent r \<and> \<not> contains_char (CHR '':'') (pm_reference r)
          \<and> get_manifest data (pm_name r) (pm_reference r) \<noteq> None
       then Err (Conflict [Lit ''manifest reference '', Dbg (pm_reference r), Lit '' in repository '',
              Dbg (pm_name r), Lit '' was created before commit''])
       else Ok (store_manifest data (pm_name r) (pm_reference r) (put_manifest_entry env r), ManifestOk))"

text \<open>
  Dropping a set of digests from a repository, as \<^verbatim>\<open>DeleteManifest\<close> (one digest) and \<^verbatim>\<open>DeleteManifests\<close>
  do it: remove the entries, give back their references, retain the tags that point elsewhere and
  clear the validations of the removed tags.
\<close>

definition drop_entries :: "string list \<Rightarrow> (string, manifest_entry) btmap \<Rightarrow> (string, manifest_entry) btmap" where
  "drop_entries digs repo = fold bt_remove digs repo"

definition dropped_entries :: "string list \<Rightarrow> (string, manifest_entry) btmap \<Rightarrow> manifest_entry list" where
  "dropped_entries digs repo = List.map_filter (bt_get repo) digs"

definition drop_digests :: "state_machine_data \<Rightarrow> string \<Rightarrow> string list \<Rightarrow> state_machine_data" where
  "drop_digests data name digs =
     (let repo = bt_get (manifests data) name;
          removed = (case repo of None \<Rightarrow> [] | Some r \<Rightarrow> dropped_entries digs r);
          repo_tags = bt_get (tags data) name;
          removed_tags = (case repo_tags of None \<Rightarrow> []
            | Some ts \<Rightarrow> bt_keys (bt_retain (\<lambda>_ d. d \<in> set digs) ts))
      in data\<lparr>
        manifests := (case repo of None \<Rightarrow> manifests data
          | Some r \<Rightarrow> bt_insert name (drop_entries digs r) (manifests data)),
        blob_ref_counts := fold decrement_blob_refs removed (blob_ref_counts data),
        tags := (case repo_tags of None \<Rightarrow> tags data
          | Some ts \<Rightarrow> bt_insert name (bt_retain (\<lambda>_ d. d \<notin> set digs) ts) (tags data)),
        proxy_cache_tag_validations :=
          clear_tags name removed_tags (proxy_cache_tag_validations data)\<rparr>)"

definition delete_manifest ::
  "state_machine_data \<Rightarrow> string \<Rightarrow> namespace_epoch option \<Rightarrow> string
    \<Rightarrow> (state_machine_data \<times> manifest_response) lh_result" where
  "delete_manifest data name expected dig =
     res_bind (require_expected_namespace data name expected) (\<lambda>_.
       Ok (drop_digests data name [dig], ManifestOk))"

definition delete_tag ::
  "state_machine_data \<Rightarrow> string \<Rightarrow> namespace_epoch option \<Rightarrow> string \<Rightarrow> string
    \<Rightarrow> (state_machine_data \<times> manifest_response) lh_result" where
  "delete_tag data name expected dig tag =
     res_bind (require_expected_namespace data name expected) (\<lambda>_.
       case bt_get (tags data) name of
         None \<Rightarrow> Ok (data, ManifestBool False)
       | Some repo_tags \<Rightarrow>
           if bt_get repo_tags tag = Some dig then
             Ok (data\<lparr>tags := bt_insert name (bt_remove tag repo_tags) (tags data),
                      proxy_cache_tag_validations :=
                        clear_proxy_cache_tag_validations_for_tag name tag (proxy_cache_tag_validations data)\<rparr>,
                 ManifestBool True)
           else Ok (data, ManifestBool False))"

definition delete_repository_content ::
  "state_machine_data \<Rightarrow> string \<Rightarrow> namespace_epoch option \<Rightarrow> (state_machine_data \<times> manifest_response) lh_result" where
  "delete_repository_content data name expected =
     res_bind (require_expected_namespace data name expected) (\<lambda>_.
       let removed = bt_get (manifests data) name;
           removed_tags = bt_get (tags data) name
       in Ok (data\<lparr>
           manifests := bt_remove name (manifests data),
           blob_ref_counts := (case removed of None \<Rightarrow> blob_ref_counts data
             | Some ms \<Rightarrow> fold decrement_blob_refs (bt_values ms) (blob_ref_counts data)),
           tags := bt_remove name (tags data),
           proxy_cache_tag_validations :=
             clear_proxy_cache_tag_validations_for_repository name (proxy_cache_tag_validations data)\<rparr>,
         ManifestDeleteCounts
           \<lparr>deleted_manifests = (case removed of None \<Rightarrow> 0 | Some ms \<Rightarrow> bt_len ms),
            deleted_tags = (case removed_tags of None \<Rightarrow> 0 | Some ts \<Rightarrow> bt_len ts)\<rparr>))"

definition delete_manifests ::
  "state_machine_data \<Rightarrow> string \<Rightarrow> namespace_epoch option \<Rightarrow> string list
    \<Rightarrow> (state_machine_data \<times> manifest_response) lh_result" where
  "delete_manifests data name expected digs =
     res_bind (require_expected_namespace data name expected) (\<lambda>_.
       let digest_set = remdups_adj (sort digs);
           data' = drop_digests data name digest_set
       in Ok (data', ManifestDeleteCounts
           \<lparr>deleted_manifests = (case bt_get (manifests data) name of None \<Rightarrow> 0
              | Some r \<Rightarrow> length (dropped_entries digest_set r)),
            deleted_tags = (case bt_get (tags data) name of None \<Rightarrow> 0
              | Some ts \<Rightarrow> bt_len ts - bt_len (bt_retain (\<lambda>_ d. d \<notin> set digest_set) ts))\<rparr>))"

definition mount_blob ::
  "state_machine_data \<Rightarrow> string \<Rightarrow> namespace_epoch option \<Rightarrow> (state_machine_data \<times> manifest_response) lh_result" where
  "mount_blob data dest_repo expected =
     res_bind (require_expected_namespace data dest_repo expected) (\<lambda>_. Ok (data, ManifestOk))"

definition record_blob_delete ::
  "state_machine_data \<Rightarrow> string \<Rightarrow> u64 \<Rightarrow> state_machine_data \<times> manifest_response" where
  "record_blob_delete data dig requested_at =
     (let ref_count = blob_ref_count_str data dig in
      (data\<lparr>blob_delete_requests := bt_insert dig requested_at (blob_delete_requests data)\<rparr>,
       ManifestBlobDeleteStatus
         \<lparr>bd_digest = dig, bd_referenced = (ref_count > 0), bd_ref_count = ref_count\<rparr>))"

definition clear_blob_delete :: "state_machine_data \<Rightarrow> string \<Rightarrow> state_machine_data \<times> manifest_response" where
  "clear_blob_delete data dig =
     (data\<lparr>blob_delete_requests := bt_remove dig (blob_delete_requests data)\<rparr>, ManifestOk)"

fun apply_manifest ::
  "env \<Rightarrow> state_machine_data \<Rightarrow> manifest_request \<Rightarrow> (state_machine_data \<times> manifest_response) lh_result" where
  "apply_manifest env data (PutManifest r) = put_manifest env data r"
| "apply_manifest env data (DeleteManifest name expected dig) = delete_manifest data name expected dig"
| "apply_manifest env data (DeleteTag name expected dig tag) = delete_tag data name expected dig tag"
| "apply_manifest env data (DeleteRepositoryContent name expected) =
     delete_repository_content data name expected"
| "apply_manifest env data (DeleteManifests name expected digs) = delete_manifests data name expected digs"
| "apply_manifest env data (MountBlob source_repo dest_repo expected dig) = mount_blob data dest_repo expected"
| "apply_manifest env data (RecordBlobDelete dig requested_at) = Ok (record_blob_delete data dig requested_at)"
| "apply_manifest env data (ClearBlobDelete dig) = Ok (clear_blob_delete data dig)"

section \<open>Mirror configuration and jobs\<close>

definition trigger_mirror_rule ::
  "u64 \<Rightarrow> state_machine_data \<Rightarrow> string \<Rightarrow> state_machine_data \<times> mirror_config_response" where
  "trigger_mirror_rule now data i =
     (case bt_get (mirror_rules data) i of
        None \<Rightarrow> (data, MirrorConfigSyncJob None)
      | Some rule \<Rightarrow>
          if list_ex (\<lambda>job. sync_job_blocks_trigger job Mirror i now) (bt_values (sync_jobs data)) then
            (data, MirrorConfigBool False)
          else
            let job = mirror_rule_job rule (i @ ''-'' @ show_u64 now) now 0 in
            (data\<lparr>sync_jobs := bt_insert (sj_id job) job (sync_jobs data)\<rparr>, MirrorConfigSyncJob (Some job)))"

definition trigger_proxy_cache_warm ::
  "u64 \<Rightarrow> state_machine_data \<Rightarrow> string \<Rightarrow> state_machine_data \<times> mirror_config_response" where
  "trigger_proxy_cache_warm now data i =
     (case bt_get (proxy_caches data) i of
        None \<Rightarrow> (data, MirrorConfigSyncJob None)
      | Some cache \<Rightarrow>
          if list_ex (\<lambda>job. sync_job_blocks_trigger job ProxyCache i now) (bt_values (sync_jobs data)) then
            (data, MirrorConfigBool False)
          else
            let job = proxy_cache_warm_job cache now in
            (data\<lparr>sync_jobs := bt_insert (sj_id job) job (sync_jobs data)\<rparr>, MirrorConfigSyncJob (Some job)))"

fun apply_mirror_config ::
  "u64 \<Rightarrow> state_machine_data \<Rightarrow> mirror_config_request \<Rightarrow> state_machine_data \<times> mirror_config_response" where
  "apply_mirror_config now data (PutMirrorRule rule) =
     (data\<lparr>mirror_rules := bt_insert (mr_id rule) rule (mirror_rules data)\<rparr>, MirrorConfigOk)"
| "apply_mirror_config now data (DeleteMirrorRule i) =
     (data\<lparr>mirror_rules := bt_remove i (mirror_rules data)\<rparr>, MirrorConfigOk)"
| "apply_mirror_config now data (TriggerMirrorRule i) = trigger_mirror_rule now data i"
| "apply_mirror_config now data (PutProxyCache cache) =
     (data\<lparr>proxy_cache_tag_validations :=
             clear_proxy_cache_tag_validations_for_cache (pc_id cache) (proxy_cache_tag_validations data),
           proxy_caches := bt_insert (pc_id cache) cache (proxy_caches data)\<rparr>, MirrorConfigOk)"
| "apply_mirror_config now data (DeleteProxyCache i) =
     (data\<lparr>proxy_caches := bt_remove i (proxy_caches data),
           proxy_cache_tag_validations :=
             clear_proxy_cache_tag_validations_for_cache i (proxy_cache_tag_validations data)\<rparr>, MirrorConfigOk)"
| "apply_mirror_config now data (TriggerProxyCacheWarm i) = trigger_proxy_cache_warm now data i"
| "apply_mirror_config now data (PutProxyCacheTagValidation validation) =
     (data\<lparr>proxy_cache_tag_validations :=
             put_proxy_cache_tag_validation validation (proxy_cache_tag_validations data)\<rparr>, MirrorConfigOk)"
| "apply_mirror_config now data (PutWarmImage img) =
     (data\<lparr>warm_images := bt_insert (wi_id img) img (warm_images data)\<rparr>, MirrorConfigOk)"
| "apply_mirror_config now data (DeleteWarmImage i) =
     (data\<lparr>warm_images := bt_remove i (warm_images data)\<rparr>, MirrorConfigOk)"

definition claim_sync_job ::
  "u64 \<Rightarrow> state_machine_data \<Rightarrow> string \<Rightarrow> string \<Rightarrow> state_machine_data \<times> job_response" where
  "claim_sync_job now data i node_id =
     (case bt_get (sync_jobs data) i of
        None \<Rightarrow> (data, JobBool False)
      | Some job \<Rightarrow>
          if sj_status job \<noteq> Idle then (data, JobBool False)
          else (data\<lparr>sync_jobs := bt_insert i
                 (job\<lparr>sj_status := Running, sj_claimed_by := Some node_id, sj_claimed_at := Some now\<rparr>)
                 (sync_jobs data)\<rparr>, JobBool True))"

definition trigger_sync_job ::
  "u64 \<Rightarrow> state_machine_data \<Rightarrow> string \<Rightarrow> state_machine_data \<times> job_response" where
  "trigger_sync_job now data i =
     (case bt_get (sync_jobs data) i of
        None \<Rightarrow> (data, JobBool False)
      | Some job \<Rightarrow>
          if sj_status job = Running then (data, JobBool False)
          else (data\<lparr>sync_jobs := bt_insert i
                 (job\<lparr>sj_status := Idle, sj_claimed_by := None, sj_claimed_at := None,
                      sj_last_error := None, sj_next_run_at := now\<rparr>)
                 (sync_jobs data)\<rparr>, JobBool True))"

text \<open>Replace the run with the same id, or append it and keep the last fifty.\<close>

definition put_run :: "sync_job_run \<Rightarrow> sync_job_run list \<Rightarrow> sync_job_run list" where
  "put_run run runs =
     (case find_index (\<lambda>r. run_id r = run_id run) runs of
        Some pos \<Rightarrow> runs[pos := run]
      | None \<Rightarrow>
          let pushed = runs @ [run] in
          if length pushed > 50 then drop (length pushed - 50) pushed else pushed)"

fun apply_job :: "u64 \<Rightarrow> state_machine_data \<Rightarrow> job_request \<Rightarrow> state_machine_data \<times> job_response" where
  "apply_job now data (PutSyncJob job) =
     (data\<lparr>sync_jobs := bt_insert (sj_id job) job (sync_jobs data)\<rparr>, JobOk)"
| "apply_job now data (DeleteSyncJob i) =
     (data\<lparr>sync_jobs := bt_remove i (sync_jobs data), sync_job_runs := bt_remove i (sync_job_runs data)\<rparr>, JobOk)"
| "apply_job now data (ClaimSyncJob i node_id) = claim_sync_job now data i node_id"
| "apply_job now data (TriggerSyncJob i) = trigger_sync_job now data i"
| "apply_job now data (PutSyncJobRun run) =
     (data\<lparr>sync_job_runs := bt_insert (run_job_id run)
        (put_run run (bt_get_or [] (sync_job_runs data) (run_job_id run))) (sync_job_runs data)\<rparr>, JobOk)"

section \<open>Tokens, policies, repositories\<close>

definition delete_personal_access_token ::
  "state_machine_data \<Rightarrow> string \<Rightarrow> string \<Rightarrow> state_machine_data \<times> token_response" where
  "delete_personal_access_token data i sub =
     (let should_delete = (case bt_get (personal_access_tokens data) i of
          None \<Rightarrow> False | Some t \<Rightarrow> pat_subject t = sub)
      in (if should_delete
          then data\<lparr>personal_access_tokens := bt_remove i (personal_access_tokens data)\<rparr> else data,
          TokenBool should_delete))"

fun apply_token :: "state_machine_data \<Rightarrow> token_request \<Rightarrow> state_machine_data \<times> token_response" where
  "apply_token data (PutPersonalAccessToken token) =
     (data\<lparr>personal_access_tokens := bt_insert (pat_id token) token (personal_access_tokens data)\<rparr>, TokenOk)"
| "apply_token data (DeletePersonalAccessToken i sub) = delete_personal_access_token data i sub"

definition validate_policy_set :: "env \<Rightarrow> policy_set \<Rightarrow> unit lh_result" where
  "validate_policy_set env policy =
     (if trim (ps_id policy) = [] then Err (NameInvalid [Lit ''policy id is required''])
      else if trim (ps_name policy) = [] then Err (NameInvalid [Lit ''policy name is required''])
      else if trim (ps_cedar_text policy) = [] then
        Err (NameInvalid [Lit ''policy cedar_text is required''])
      else (case env_validate_policy_text env (ps_cedar_text policy) of
          Inl m \<Rightarrow> Err (NameInvalid m) | Inr u \<Rightarrow> Ok u))"

fun apply_policy ::
  "env \<Rightarrow> state_machine_data \<Rightarrow> policy_request \<Rightarrow> (state_machine_data \<times> policy_response) lh_result" where
  "apply_policy env data (PutPolicySet policy) =
     res_bind (validate_policy_set env policy) (\<lambda>_.
       Ok (data\<lparr>policy_sets := bt_insert (ps_id policy) policy (policy_sets data)\<rparr>, PolicyOk))"
| "apply_policy env data (DeletePolicySet i) =
     Ok (data\<lparr>policy_sets := bt_remove i (policy_sets data)\<rparr>, PolicyBool (bt_contains (policy_sets data) i))"

fun apply_repository ::
  "state_machine_data \<Rightarrow> repository_request \<Rightarrow> (state_machine_data \<times> repository_response) lh_result" where
  "apply_repository data (PutRepository repo expected) =
     res_bind (require_expected_namespace data (repo_name repo) expected) (\<lambda>_.
       Ok (data\<lparr>repositories := bt_insert (repo_name repo) repo (repositories data)\<rparr>, RepositoryOk))"
| "apply_repository data (DeleteRepository name expected) =
     res_bind (require_expected_namespace data name expected) (\<lambda>_.
       Ok (data\<lparr>repositories := bt_remove name (repositories data)\<rparr>,
           RepositoryBool (bt_contains (repositories data) name)))"

section \<open>Namespaces\<close>

fun release_reason_label :: "release_reason \<Rightarrow> string" where
  "release_reason_label OwnerDeleted = ''owner-deleted''"
| "release_reason_label AdminRevoked = ''admin-revoked''"
| "release_reason_label (Renamed _) = ''renamed''"

fun owner_kind :: "owner \<Rightarrow> string" where
  "owner_kind (OwnerUser _) = ''user''"
| "owner_kind (OwnerOrg _) = ''org''"

definition claim_generation :: "state_machine_data \<Rightarrow> string \<Rightarrow> bool \<Rightarrow> u64 lh_result" where
  "claim_generation data handle admin_override =
     (case bt_get (released_handles data) handle of
        Some tomb \<Rightarrow>
          if \<not> admin_override then
            Err (Denied [Lit ''handle '', Dbg handle, Lit '' was previously released ('',
              Disp (release_reason_label (rh_release_reason tomb)), Lit ''); reclaim requires admin override''])
          else ok_or (checked_add_u64 (rh_prior_generation tomb) 1)
            (Conflict [Lit ''handle '', Dbg handle,
              Lit '' cannot be reclaimed because its namespace generation is exhausted''])
      | None \<Rightarrow> Ok 1)"

definition namespace_claim ::
  "state_machine_data \<Rightarrow> claim_request \<Rightarrow> (state_machine_data \<times> namespace_response) lh_result" where
  "namespace_claim data r =
     (let handle = cl_handle r in
      res_bind (validate_handle handle) (\<lambda>_.
        if is_handle_reserved handle then
          Err (Denied [Lit ''handle '', Dbg handle, Lit '' is reserved by the system and cannot be claimed''])
        else (case bt_get (namespaces data) handle of
            Some n \<Rightarrow> Err (Conflict [Lit ''handle '', Dbg handle, Lit '' is already claimed by a '',
              Disp (owner_kind (ns_owner n))])
          | None \<Rightarrow>
              res_bind (claim_generation data handle (cl_admin_override r)) (\<lambda>generation.
                Ok (data\<lparr>
                    released_handles := bt_remove handle (released_handles data),
                    namespaces := bt_insert handle
                      \<lparr>ns_handle = handle, ns_generation = generation, ns_owner = cl_owner r,
                       ns_owner_label = cl_owner_label r, ns_created_at = cl_now r\<rparr> (namespaces data)\<rparr>,
                  NamespaceOk)))))"

text \<open>The tombstone both ways of giving a handle up leave behind.\<close>

definition release_namespace ::
  "state_machine_data \<Rightarrow> string \<Rightarrow> namespace \<Rightarrow> subject \<Rightarrow> release_reason \<Rightarrow> u64 \<Rightarrow> state_machine_data" where
  "release_namespace data handle ns actor reason now =
     data\<lparr>
       namespaces := bt_remove handle (namespaces data),
       namespace_grants := bt_remove handle (namespace_grants data),
       released_handles := bt_insert handle
         \<lparr>rh_handle = handle, rh_prior_owner = ns_owner ns, rh_prior_generation = ns_generation ns,
          rh_prior_owner_label = ns_owner_label ns, rh_released_at = now, rh_released_by = actor,
          rh_release_reason = reason\<rparr> (released_handles data)\<rparr>"

fun is_namespace_owner :: "subject \<Rightarrow> owner \<Rightarrow> bool" where
  "is_namespace_owner actor (OwnerUser sub) = (actor = sub)"
| "is_namespace_owner actor (OwnerOrg _) = False"

definition namespace_delete ::
  "state_machine_data \<Rightarrow> string \<Rightarrow> subject \<Rightarrow> release_reason \<Rightarrow> u64
    \<Rightarrow> (state_machine_data \<times> namespace_response) lh_result" where
  "namespace_delete data handle actor reason now =
     (case bt_get (namespaces data) handle of
        None \<Rightarrow> Err (NameUnknown [Lit ''handle '', Dbg handle, Lit '' is not currently claimed''])
      | Some ns \<Rightarrow>
          if \<not> is_namespace_owner actor (ns_owner ns) then
            Err (Denied [Lit ''handle '', Dbg handle, Lit '' is not owned by the caller''])
          else if has_content data handle then
            Err (Conflict [Lit ''handle '', Dbg handle,
              Lit '' still owns repositories or manifests; delete them before releasing''])
          else Ok (release_namespace data handle ns actor reason now, NamespaceOk))"

definition namespace_admin_revoke ::
  "state_machine_data \<Rightarrow> string \<Rightarrow> subject \<Rightarrow> u64 \<Rightarrow> (state_machine_data \<times> namespace_response) lh_result" where
  "namespace_admin_revoke data handle actor now =
     (if has_content data handle then
        Err (Conflict [Lit ''handle '', Dbg handle,
          Lit '' still owns repositories or manifests; delete them before revoking''])
      else (case bt_get (namespaces data) handle of
          None \<Rightarrow> Err (NameUnknown [Lit ''handle '', Dbg handle, Lit '' is not currently claimed''])
        | Some ns \<Rightarrow> Ok (release_namespace data handle ns actor AdminRevoked now, NamespaceOk)))"

definition validate_namespace_grant ::
  "(string, namespace) btmap \<Rightarrow> namespace_grant \<Rightarrow> unit lh_result option" where
  "validate_namespace_grant live grant =
     (case validate_handle (ng_namespace grant) of
        Inl e \<Rightarrow> Some (Err e)
      | Inr _ \<Rightarrow>
          if \<not> bt_contains live (ng_namespace grant) then
            Some (Err (NameUnknown [Lit ''namespace '', Dbg (ng_namespace grant), Lit '' is not currently claimed'']))
          else (case ng_grantee grant of
              GranteeGroup i \<Rightarrow> map_option (\<lambda>r. res_bind r (\<lambda>_. Ok ())) (ref_group i)
            | GranteeUser i \<Rightarrow> map_option (\<lambda>r. res_bind r (\<lambda>_. Ok ())) (ref_user i)
            | GranteePublic \<Rightarrow>
                if ng_action grant \<noteq> Pull then
                  Some (Err (Denied [Lit ''public namespace grants are pull-only'']))
                else Some (Ok ())))"

definition namespace_put_grant ::
  "state_machine_data \<Rightarrow> namespace_grant \<Rightarrow> string \<Rightarrow> string \<Rightarrow> string
    \<Rightarrow> (state_machine_data \<times> namespace_response) lh_result option" where
  "namespace_put_grant data grant0 actor_label reason audit_id =
     map_option (\<lambda>valid. res_bind valid (\<lambda>_.
       let grants = bt_get_or bt_empty (namespace_grants data) (ng_namespace grant0);
           before = bt_get grants (ng_id grant0);
           grant = (case before of None \<Rightarrow> grant0
             | Some existing \<Rightarrow> grant0\<lparr>ng_created_by := ng_created_by existing,
                                      ng_created_at := ng_created_at existing\<rparr>);
           operation = (if before \<noteq> None then AuditUpdate else AuditCreate)
       in Ok (data\<lparr>
           namespace_grants := bt_insert (ng_namespace grant) (bt_insert (ng_id grant) grant grants)
             (namespace_grants data),
           namespace_grant_audit := bt_insert (ng_namespace grant)
             (bt_get_or [] (namespace_grant_audit data) (ng_namespace grant) @
               [\<lparr>ae_id = audit_id, ae_namespace = ng_namespace grant, ae_grant_id = Some (ng_id grant),
                 ae_operation = operation, ae_actor = ng_updated_by grant, ae_actor_label = actor_label,
                 ae_reason = reason, ae_before = before, ae_after = Some grant,
                 ae_created_at = ng_updated_at grant\<rparr>])
             (namespace_grant_audit data)\<rparr>,
         NamespaceGrantResp grant)))
     (validate_namespace_grant (namespaces data) grant0)"

definition namespace_delete_grant ::
  "state_machine_data \<Rightarrow> delete_grant_request \<Rightarrow> (state_machine_data \<times> namespace_response) lh_result" where
  "namespace_delete_grant data r =
     (let handle = dg_handle r in
      res_bind (validate_handle handle) (\<lambda>_.
        if \<not> bt_contains (namespaces data) handle then
          Err (NameUnknown [Lit ''namespace '', Dbg handle, Lit '' is not currently claimed''])
        else
          let before = Option.bind (bt_get (namespace_grants data) handle) (\<lambda>grants. bt_get grants (dg_grant_id r));
              grants1 = (case bt_get (namespace_grants data) handle of
                  None \<Rightarrow> namespace_grants data
                | Some grants \<Rightarrow> bt_insert handle (bt_remove (dg_grant_id r) grants) (namespace_grants data));
              grants2 = (case bt_get grants1 handle of
                  None \<Rightarrow> grants1
                | Some grants \<Rightarrow> if bt_is_empty grants then bt_remove handle grants1 else grants1)
          in (case before of
              Some b \<Rightarrow>
                Ok (data\<lparr>
                    namespace_grants := grants2,
                    namespace_grant_audit := bt_insert handle
                      (bt_get_or [] (namespace_grant_audit data) handle @
                        [\<lparr>ae_id = dg_audit_id r, ae_namespace = handle, ae_grant_id = Some (dg_grant_id r),
                          ae_operation = AuditDelete, ae_actor = dg_actor r,
                          ae_actor_label = dg_actor_label r, ae_reason = dg_reason r,
                          ae_before = Some b, ae_after = None, ae_created_at = dg_now r\<rparr>])
                      (namespace_grant_audit data)\<rparr>, NamespaceBool True)
            | None \<Rightarrow> Ok (data\<lparr>namespace_grants := grants2\<rparr>, NamespaceBool False))))"

fun apply_namespace ::
  "state_machine_data \<Rightarrow> namespace_request \<Rightarrow> (state_machine_data \<times> namespace_response) lh_result option" where
  "apply_namespace data (NamespaceClaim r) = Some (namespace_claim data r)"
| "apply_namespace data (NamespaceDelete handle actor reason now) =
     Some (namespace_delete data handle actor reason now)"
| "apply_namespace data (NamespaceAdminRevoke handle actor now) =
     Some (namespace_admin_revoke data handle actor now)"
| "apply_namespace data (NamespacePutGrant grant actor_label reason audit_id) =
     namespace_put_grant data grant actor_label reason audit_id"
| "apply_namespace data (NamespaceDeleteGrant r) = Some (namespace_delete_grant data r)"
| "apply_namespace data (NamespacePutObservedIdentity identity) =
     Some (Ok (data\<lparr>observed_identities :=
       bt_insert (oi_subject identity) identity (observed_identities data)\<rparr>, NamespaceOk))"

section \<open>Requests and log entries\<close>

fun error_to_response :: "layerhouse_error \<Rightarrow> response" where
  "error_to_response (NameUnknown m) = RespNameUnknown m"
| "error_to_response (Denied m) = RespDenied m"
| "error_to_response (Conflict m) = RespConflict m"
| "error_to_response (NameInvalid m) = RespNameInvalid m"
| "error_to_response (BlobUnknown m) = RespInternalError m"
| "error_to_response (BlobUploadInvalid m) = RespInternalError m"
| "error_to_response (BlobUploadUnknown m) = RespInternalError m"
| "error_to_response (DigestInvalid m) = RespInternalError m"
| "error_to_response (ManifestBlobUnknown m) = RespInternalError m"
| "error_to_response (ManifestInvalid m) = RespInternalError m"
| "error_to_response (ManifestUnknown m) = RespInternalError m"
| "error_to_response (SizeInvalid m) = RespInternalError m"
| "error_to_response (Unsupported m) = RespInternalError m"
| "error_to_response (TooManyRequests m) = RespInternalError m"
| "error_to_response (S3 m) = RespInternalError m"
| "error_to_response (Serialization m) = RespInternalError m"
| "error_to_response (Upstream m) = RespInternalError m"
| "error_to_response (NotLeader m) = RespInternalError m"
| "error_to_response (Consensus m) = RespInternalError m"
| "error_to_response (Internal m) = RespInternalError m"
| "error_to_response (Unauthorized m _ _ _) = RespInternalError m"
| "error_to_response (Io m) = RespInternalError m"

text \<open>
  The arms change \<^verbatim>\<open>data\<close> in place, and each of them returns its error before its first change: the epoch, the
  absent reference, the policy set, the handle, the grant, the owner and the content are checked first, and
  \<^verbatim>\<open>namespaces.remove(..)\<close> of a handle that is not claimed removes nothing.  So the state an error leaves behind
  is the state before, and the arms return the new state with success only.
\<close>

definition settle ::
  "state_machine_data \<Rightarrow> ('r \<Rightarrow> response) \<Rightarrow> (state_machine_data \<times> 'r) lh_result \<Rightarrow> state_machine_data \<times> response" where
  "settle data wrap r =
     (case r of Inl e \<Rightarrow> (data, error_to_response e) | Inr (data', x) \<Rightarrow> (data', wrap x))"

fun apply_request ::
  "env \<Rightarrow> u64 \<Rightarrow> state_machine_data \<Rightarrow> request \<Rightarrow> (state_machine_data \<times> response) option" where
  "apply_request env now data (ReqManifest r) = Some (settle data RespManifest (apply_manifest env data r))"
| "apply_request env now data (ReqMirrorConfig r) =
     (case apply_mirror_config now data r of (data', x) \<Rightarrow> Some (data', RespMirrorConfig x))"
| "apply_request env now data (ReqJob r) =
     (case apply_job now data r of (data', x) \<Rightarrow> Some (data', RespJob x))"
| "apply_request env now data (ReqToken r) =
     (case apply_token data r of (data', x) \<Rightarrow> Some (data', RespToken x))"
| "apply_request env now data (ReqPolicy r) = Some (settle data RespPolicy (apply_policy env data r))"
| "apply_request env now data (ReqRepository r) = Some (settle data RespRepository (apply_repository data r))"
| "apply_request env now data (ReqNamespace r) = map_option (settle data RespNamespace) (apply_namespace data r)"

datatype entry_payload = Blank | EntryMembership membership | Normal request

record log_entry =
  le_log_id :: log_id
  le_payload :: entry_payload

definition apply_entry ::
  "env \<Rightarrow> u64 \<Rightarrow> state_machine_data \<Rightarrow> log_entry \<Rightarrow> (state_machine_data \<times> response) option" where
  "apply_entry env now data0 entry =
     (let data = data0\<lparr>last_applied_log := Some (le_log_id entry)\<rparr> in
      case le_payload entry of
        Blank \<Rightarrow> Some (data, RespManifest ManifestOk)
      | EntryMembership m \<Rightarrow>
          Some (data\<lparr>last_membership := \<lparr>sm_log_id = Some (le_log_id entry), sm_membership = m\<rparr>\<rparr>,
                RespManifest ManifestOk)
      | Normal req \<Rightarrow> apply_request env now data req)"

text \<open>The loop of \<^verbatim>\<open>RaftStateMachine::apply\<close>; each entry comes with the node's clock at that moment.\<close>

fun apply_entries ::
  "env \<Rightarrow> state_machine_data \<Rightarrow> (u64 \<times> log_entry) list \<Rightarrow> (state_machine_data \<times> response list) option" where
  "apply_entries env data [] = Some (data, [])"
| "apply_entries env data ((now, entry) # es) =
     Option.bind (apply_entry env now data entry) (\<lambda>(data', resp).
       map_option (\<lambda>(data'', resps). (data'', resp # resps)) (apply_entries env data' es))"

end
