(* ===== verification/Replication.thy ===== *)
theory Replication
  imports State_Machine
begin

text \<open>
  The replicated machine as an interface: what an invariant of one applied entry gives for a whole
  committed log.  The state machine of \<^verbatim>\<open>raft/state_machine.rs\<close> is the machine \<open>entry_step env\<close>; the
  component theories interpret the locales below with their invariants.
\<close>

section \<open>Machines and runs\<close>

fun run_steps :: "('s \<Rightarrow> 'e \<Rightarrow> ('s \<times> 'r) option) \<Rightarrow> 's \<Rightarrow> 'e list \<Rightarrow> ('s \<times> 'r list) option" where
  "run_steps step s [] = Some (s, [])"
| "run_steps step s (e # es) =
     Option.bind (step s e) (\<lambda>(s', r). map_option (\<lambda>(s'', rs). (s'', r # rs)) (run_steps step s' es))"

lemma run_steps_Cons:
  "run_steps step s (e # es) = Some (s'', rs) \<longleftrightarrow>
    (\<exists>s' r rs'. step s e = Some (s', r) \<and> run_steps step s' es = Some (s'', rs') \<and> rs = r # rs')"
  by (auto simp: bind_eq_Some_conv)

text \<open>An invariant that may grow by one with every entry, such as a bound on a counter.\<close>

locale counted_machine =
  fixes step :: "'s \<Rightarrow> 'e \<Rightarrow> ('s \<times> 'r) option"
    and good :: "nat \<Rightarrow> 's \<Rightarrow> bool"
  assumes good_step: "good n s \<Longrightarrow> step s e = Some (s', r) \<Longrightarrow> good (Suc n) s'"
begin

lemma good_run: "good n s \<Longrightarrow> run_steps step s es = Some (s', rs) \<Longrightarrow> good (n + length es) s'"
proof (induction es arbitrary: n s rs)
  case (Cons e es)
  then show ?case
    unfolding run_steps_Cons using good_step by fastforce
qed simp

end

text \<open>An invariant of every applied entry.\<close>

locale invariant_machine =
  fixes step :: "'s \<Rightarrow> 'e \<Rightarrow> ('s \<times> 'r) option"
    and inv :: "'s \<Rightarrow> bool"
  assumes inv_step: "inv s \<Longrightarrow> step s e = Some (s', r) \<Longrightarrow> inv s'"

sublocale invariant_machine \<subseteq> counted: counted_machine step "\<lambda>_. inv"
  by unfold_locales (rule inv_step)

context invariant_machine
begin

lemma inv_run: "inv s \<Longrightarrow> run_steps step s es = Some (s', rs) \<Longrightarrow> inv s'"
  by (rule counted.good_run)

end

section \<open>The state machine as a machine\<close>

definition entry_step ::
  "env \<Rightarrow> state_machine_data \<Rightarrow> u64 \<times> log_entry \<Rightarrow> (state_machine_data \<times> response) option" where
  "entry_step env data ne = apply_entry env (fst ne) data (snd ne)"

lemma apply_entries_run: "apply_entries env data es = run_steps (entry_step env) data es"
proof (induction env data es rule: apply_entries.induct)
  case (2 env data now entry es)
  then show ?case
    by (cases "apply_entry env now data entry") (auto simp: entry_step_def)
qed simp

text \<open>
  A property of the replicated data that neither the log position nor the membership touches is kept
  by an entry as soon as every request keeps it.
\<close>

definition ignores_log :: "(state_machine_data \<Rightarrow> bool) \<Rightarrow> bool" where
  "ignores_log P \<longleftrightarrow>
     (\<forall>d l m. P (d\<lparr>last_applied_log := l\<rparr>) = P d \<and> P (d\<lparr>last_membership := m\<rparr>) = P d)"

lemma ignores_logD:
  assumes "ignores_log P"
  shows "P (d\<lparr>last_applied_log := l\<rparr>) \<longleftrightarrow> P d" "P (d\<lparr>last_membership := m\<rparr>) \<longleftrightarrow> P d"
  using assms by (simp_all add: ignores_log_def)

lemma entry_step_cases:
  assumes "entry_step env data ne = Some (data', resp)"
  obtains (Blank) "data' = data\<lparr>last_applied_log := Some (le_log_id (snd ne))\<rparr>"
    | (Membership) m where
        "data' = data\<lparr>last_applied_log := Some (le_log_id (snd ne)), last_membership := m\<rparr>"
    | (Normal) req where "le_payload (snd ne) = Normal req"
        "apply_request env (fst ne) (data\<lparr>last_applied_log := Some (le_log_id (snd ne))\<rparr>) req = Some (data', resp)"
  using assms by (auto simp: entry_step_def apply_entry_def Let_def split: entry_payload.splits)

lemma request_inv_entry:
  assumes P: "ignores_log P" and Q: "ignores_log Q" and PQ: "\<And>d. P d \<Longrightarrow> Q d"
    and req: "\<And>now d req d' resp. P d \<Longrightarrow> apply_request env now d req = Some (d', resp) \<Longrightarrow> Q d'"
    and data: "P data" and step: "entry_step env data ne = Some (data', resp)"
  shows "Q data'"
  using step
proof (cases rule: entry_step_cases)
  case Blank
  with data show ?thesis by (simp add: ignores_logD [OF Q] PQ)
next
  case (Membership m)
  with data show ?thesis by (simp add: ignores_logD [OF Q] PQ)
next
  case (Normal r)
  from data have "P (data\<lparr>last_applied_log := Some (le_log_id (snd ne))\<rparr>)"
    by (simp add: ignores_logD [OF P])
  from req [OF this Normal(2)] show ?thesis .
qed

lemma request_invariant_machine:
  assumes "ignores_log P"
    and "\<And>now d req d' resp. P d \<Longrightarrow> apply_request env now d req = Some (d', resp) \<Longrightarrow> P d'"
  shows "invariant_machine (entry_step env) P"
  by unfold_locales (rule request_inv_entry [of P P], use assms in auto)

section \<open>Case analysis of a request\<close>

lemma settle_eq:
  "settle data wrap r = (data', resp) \<longleftrightarrow>
    (\<exists>e. r = Err e \<and> data' = data \<and> resp = error_to_response e) \<or>
    (\<exists>x. r = Ok (data', x) \<and> resp = wrap x)"
  by (auto simp: settle_def split: sum.splits)

text \<open>Every request either leaves the data alone or performs the mutation of one arm.\<close>

lemma apply_request_cases:
  assumes "apply_request env now data req = Some (data', resp)"
  obtains (Unchanged) "data' = data"
    | (Manifest) r x where "req = ReqManifest r" "apply_manifest env data r = Ok (data', x)"
    | (MirrorConfig) r x where "req = ReqMirrorConfig r" "apply_mirror_config now data r = (data', x)"
    | (Job) r x where "req = ReqJob r" "apply_job now data r = (data', x)"
    | (Token) r x where "req = ReqToken r" "apply_token data r = (data', x)"
    | (Policy) r x where "req = ReqPolicy r" "apply_policy env data r = Ok (data', x)"
    | (Repository) r x where "req = ReqRepository r" "apply_repository data r = Ok (data', x)"
    | (Namespace) r x where "req = ReqNamespace r" "apply_namespace data r = Some (Ok (data', x))"
  using assms by (cases req) (auto simp: settle_eq split: prod.splits)

text \<open>The fields each request domain writes; an invariant over the others survives the domain.\<close>

lemma manifest_frame:
  assumes "apply_manifest env data r = Ok (data', x)"
  obtains ms ts rc bd tv where
    "data' = data\<lparr>manifests := ms, tags := ts, blob_ref_counts := rc, blob_delete_requests := bd,
       proxy_cache_tag_validations := tv\<rparr>"
proof -
  have "data' = data\<lparr>manifests := manifests data', tags := tags data', blob_ref_counts := blob_ref_counts data',
      blob_delete_requests := blob_delete_requests data',
      proxy_cache_tag_validations := proxy_cache_tag_validations data'\<rparr>"
    using assms
    by (cases r)
      (auto simp: put_manifest_def store_manifest_def delete_manifest_def delete_tag_def drop_digests_def
        delete_repository_content_def delete_manifests_def mount_blob_def record_blob_delete_def
        clear_blob_delete_def Let_def
        split: if_splits option.splits)
  then show ?thesis using that by blast
qed

lemma mirror_config_frame:
  assumes "apply_mirror_config now data r = (data', x)"
  obtains mr pc tv wi js where
    "data' = data\<lparr>mirror_rules := mr, proxy_caches := pc, proxy_cache_tag_validations := tv,
       warm_images := wi, sync_jobs := js\<rparr>"
proof -
  have "data' = data\<lparr>mirror_rules := mirror_rules data', proxy_caches := proxy_caches data',
      proxy_cache_tag_validations := proxy_cache_tag_validations data',
      warm_images := warm_images data', sync_jobs := sync_jobs data'\<rparr>"
    using assms
    by (cases r) (auto simp: trigger_mirror_rule_def trigger_proxy_cache_warm_def Let_def
      split: option.splits if_splits)
  then show ?thesis using that by blast
qed

lemma job_frame:
  assumes "apply_job now data r = (data', x)"
  obtains js rs where "data' = data\<lparr>sync_jobs := js, sync_job_runs := rs\<rparr>"
proof -
  have "data' = data\<lparr>sync_jobs := sync_jobs data', sync_job_runs := sync_job_runs data'\<rparr>"
    using assms
    by (cases r) (auto simp: claim_sync_job_def trigger_sync_job_def split: option.splits if_splits)
  then show ?thesis using that by blast
qed

lemma token_frame:
  assumes "apply_token data r = (data', x)"
  obtains ts where "data' = data\<lparr>personal_access_tokens := ts\<rparr>"
proof -
  have "data' = data\<lparr>personal_access_tokens := personal_access_tokens data'\<rparr>"
    using assms by (cases r) (auto simp: delete_personal_access_token_def Let_def)
  then show ?thesis using that by blast
qed

lemma policy_frame:
  assumes "apply_policy env data r = Ok (data', x)"
  obtains ps where "data' = data\<lparr>policy_sets := ps\<rparr>"
  using assms that by (cases r) auto

lemma repository_frame:
  assumes "apply_repository data r = Ok (data', x)"
  obtains rs where "data' = data\<lparr>repositories := rs\<rparr>"
  using assms that by (cases r) auto

lemma namespace_frame:
  assumes "apply_namespace data r = Some (Ok (data', x))"
  obtains ns rh ng oi ga where
    "data' = data\<lparr>namespaces := ns, released_handles := rh, namespace_grants := ng,
       observed_identities := oi, namespace_grant_audit := ga\<rparr>"
proof -
  have "data' = data\<lparr>namespaces := namespaces data', released_handles := released_handles data',
      namespace_grants := namespace_grants data', observed_identities := observed_identities data',
      namespace_grant_audit := namespace_grant_audit data'\<rparr>"
    using assms
    by (cases r)
      (auto simp: namespace_claim_def namespace_delete_def namespace_admin_revoke_def release_namespace_def
        namespace_put_grant_def namespace_delete_grant_def Let_def
        split: if_splits option.splits)
  then show ?thesis using that by blast
qed

section \<open>The clock\<close>

text \<open>The requests whose arms read the clock of the node that applies them.\<close>

fun reads_clock :: "request \<Rightarrow> bool" where
  "reads_clock (ReqMirrorConfig (TriggerMirrorRule _)) = True"
| "reads_clock (ReqMirrorConfig (TriggerProxyCacheWarm _)) = True"
| "reads_clock (ReqJob (ClaimSyncJob _ _)) = True"
| "reads_clock (ReqJob (TriggerSyncJob _)) = True"
| "reads_clock _ = False"

fun entry_reads_clock :: "log_entry \<Rightarrow> bool" where
  "entry_reads_clock e = (case le_payload e of Normal req \<Rightarrow> reads_clock req | _ \<Rightarrow> False)"

lemma apply_request_clock: "\<not> reads_clock req \<Longrightarrow> apply_request env now data req = apply_request env now' data req"
  by (induction req rule: reads_clock.induct) auto

lemma apply_entry_clock: "\<not> entry_reads_clock e \<Longrightarrow> apply_entry env now data e = apply_entry env now' data e"
  by (auto simp: apply_entry_def Let_def split: entry_payload.splits intro: apply_request_clock)

lemma apply_entries_clock:
  assumes "map snd es = map snd es'" and "\<forall>ne \<in> set es. \<not> entry_reads_clock (snd ne)"
  shows "apply_entries env data es = apply_entries env data es'"
  using assms
proof (induction es es' arbitrary: data rule: list_induct2')
  case (4 ne es ne' es')
  obtain now e now' where ne: "ne = (now, e)" "ne' = (now', e)"
    using 4(2) by (cases ne; cases ne') auto
  have "apply_entry env now data e = apply_entry env now' data e"
    using 4(3) ne by (intro apply_entry_clock) auto
  with 4 ne show ?case
    by (cases "apply_entry env now' data e") auto
qed simp_all

end
