(* ===== verification/Ref_Counts.thy ===== *)
theory Ref_Counts
  imports Replication "HOL-Library.Multiset"
begin

text \<open>
  The blob reference counts of the index.  \<open>index_refs\<close> is the specification, the multiset of all
  references held by stored manifests; the counter map implements it (\<open>counts_match\<close>), and every
  request keeps the two in step as long as fewer than \<open>2 ^ 64\<close> entries were applied.
\<close>

section \<open>The interface of a reference counter\<close>

locale ref_counter =
  fixes inc :: "'d \<Rightarrow> 'c \<Rightarrow> 'c"
    and dec :: "'d \<Rightarrow> 'c \<Rightarrow> 'c"
    and key :: "'d \<Rightarrow> 'k"
    and repr :: "'c \<Rightarrow> 'k multiset \<Rightarrow> bool"
    and limit :: nat
  assumes inc_repr:
      "repr c M \<Longrightarrow> Suc (count M (key d)) < limit \<Longrightarrow> repr (inc d c) (add_mset (key d) M)"
    and dec_repr:
      "repr c (add_mset (key d) M) \<Longrightarrow> Suc (count M (key d)) < limit \<Longrightarrow> repr (dec d c) M"
begin

lemma fold_inc:
  assumes "repr c M" and "\<And>k. count (M + mset (map key ds)) k < limit"
  shows "repr (fold inc ds c) (M + mset (map key ds))"
  using assms
proof (induction ds arbitrary: c M)
  case (Cons d ds)
  have "Suc (count M (key d)) < limit"
    using Cons.prems(2) [of "key d"] by simp
  with Cons.prems(1) have "repr (inc d c) (add_mset (key d) M)"
    by (rule inc_repr)
  moreover have "count (add_mset (key d) M + mset (map key ds)) k < limit" for k
    using Cons.prems(2) [of k] by simp
  ultimately have "repr (fold inc ds (inc d c)) (add_mset (key d) M + mset (map key ds))"
    by (rule Cons.IH)
  then show ?case by simp
qed simp

lemma fold_dec:
  assumes "repr c (M + mset (map key ds))" and "\<And>k. count (M + mset (map key ds)) k < limit"
  shows "repr (fold dec ds c) M"
  using assms
proof (induction ds arbitrary: c)
  case (Cons d ds)
  have "Suc (count (M + mset (map key ds)) (key d)) < limit"
    using Cons.prems(2) [of "key d"] by simp
  with Cons.prems(1) have "repr (dec d c) (M + mset (map key ds))"
    by (intro dec_repr) simp_all
  moreover have "count (M + mset (map key ds)) k < limit" for k
    using Cons.prems(2) [of k] by (auto split: if_splits)
  ultimately have "repr (fold dec ds (dec d c)) M"
    by (rule Cons.IH)
  then show ?case by simp
qed simp

lemma fold_inc_lists:
  assumes "repr c M" and "\<And>k. count (M + (\<Sum>x \<leftarrow> xs. mset (map key (f x)))) k < limit"
  shows "repr (fold (\<lambda>x. fold inc (f x)) xs c) (M + (\<Sum>x \<leftarrow> xs. mset (map key (f x))))"
  using assms
proof (induction xs arbitrary: c M)
  case (Cons x xs)
  have "count (M + mset (map key (f x))) k < limit" for k
    using Cons.prems(2) [of k] by simp
  with Cons.prems(1) have "repr (fold inc (f x) c) (M + mset (map key (f x)))"
    by (rule fold_inc)
  moreover have "count (M + mset (map key (f x)) + (\<Sum>x \<leftarrow> xs. mset (map key (f x)))) k < limit" for k
    using Cons.prems(2) [of k] by (simp add: add.assoc)
  ultimately have "repr (fold (\<lambda>x. fold inc (f x)) xs (fold inc (f x) c))
      (M + mset (map key (f x)) + (\<Sum>x \<leftarrow> xs. mset (map key (f x))))"
    by (rule Cons.IH)
  then show ?case by (simp add: add.assoc)
qed simp

lemma fold_dec_lists:
  assumes "repr c (M + (\<Sum>x \<leftarrow> xs. mset (map key (f x))))"
    and "\<And>k. count (M + (\<Sum>x \<leftarrow> xs. mset (map key (f x)))) k < limit"
  shows "repr (fold (\<lambda>x. fold dec (f x)) xs c) M"
  using assms
proof (induction xs arbitrary: c)
  case (Cons x xs)
  let ?R = "M + (\<Sum>x \<leftarrow> xs. mset (map key (f x)))"
  have eq: "M + (\<Sum>x \<leftarrow> x # xs. mset (map key (f x))) = ?R + mset (map key (f x))"
    by (simp add: ac_simps)
  have "repr (fold dec (f x) c) ?R"
    using Cons.prems unfolding eq by (rule fold_dec)
  moreover have "count ?R k < limit" for k
    using Cons.prems(2) [of k] by simp
  ultimately show ?case
    using Cons.IH by simp
qed simp

end

section \<open>The counter map\<close>

definition counts_match :: "(string, u64) btmap \<Rightarrow> string multiset \<Rightarrow> bool" where
  "counts_match counts M \<longleftrightarrow>
     (\<forall>k. bt_get counts k = (if count M k = 0 then None else Some (of_nat (count M k))))"

lemma counts_match_empty [simp]: "counts_match bt_empty {#}"
  by (simp add: counts_match_def)

lemma counts_match_unique: "counts_match c M \<Longrightarrow> counts_match c' M \<Longrightarrow> c = c'"
  by (rule bt_ext) (simp add: counts_match_def)

interpretation rc: ref_counter inc_ref dec_ref digest_to_string counts_match "2 ^ 64"
proof unfold_locales
  fix c M d assume c: "counts_match c M"
  have get: "bt_get_or 0 c (digest_to_string d) = of_nat (count M (digest_to_string d))"
    using c by (simp add: counts_match_def bt_get_or_def)
  show "counts_match (inc_ref d c) (add_mset (digest_to_string d) M)"
    using c get by (auto simp: counts_match_def inc_ref_def Let_def ac_simps dest: not_in_iff [THEN iffD2])
next
  fix c d M
  let ?k = "digest_to_string d" and ?n = "count M (digest_to_string d)"
  assume c: "counts_match c (add_mset ?k M)" and lim: "Suc ?n < 2 ^ 64"
  have get: "bt_get c ?k = Some (of_nat (Suc ?n))"
    using c by (simp add: counts_match_def)
  have sub: "saturating_sub_u64 (of_nat (Suc ?n)) 1 = of_nat ?n"
    using saturating_sub_of_nat [OF lim] by simp
  have zero: "(of_nat ?n :: u64) = 0 \<longleftrightarrow> ?n = 0"
    using lim by (intro of_nat_u64_eq_0) simp
  show "counts_match (dec_ref d c) M"
    using c lim by (auto simp: counts_match_def dec_ref_def Let_def get sub zero simp del: of_nat_Suc
        dest: not_in_iff [THEN iffD2])
qed

section \<open>The references held by the index\<close>

definition entry_refs :: "manifest_entry \<Rightarrow> string multiset" where
  "entry_refs entry = mset (map digest_to_string (me_referenced_blobs entry))"

definition repo_refs :: "(string, manifest_entry) btmap \<Rightarrow> string multiset" where
  "repo_refs repo = (\<Sum>e \<in># mset (bt_values repo). entry_refs e)"

definition index_refs :: "manifest_map \<Rightarrow> string multiset" where
  "index_refs ms = (\<Sum>r \<in># mset (bt_values ms). repo_refs r)"

definition opt_refs :: "('a \<Rightarrow> string multiset) \<Rightarrow> 'a option \<Rightarrow> string multiset" where
  "opt_refs f x = (case x of None \<Rightarrow> {#} | Some a \<Rightarrow> f a)"

lemma opt_refs_simps [simp]: "opt_refs f None = {#}" "opt_refs f (Some a) = f a"
  by (simp_all add: opt_refs_def)

lemma sum_values_insert:
  "(\<Sum>v \<in># mset (bt_values (bt_insert k v m)). f v) + opt_refs f (bt_get m k)
    = (\<Sum>v \<in># mset (bt_values m). f v) + f v"
proof -
  have "(\<Sum>v \<in># mset (bt_values (bt_insert k v m)) + opt_mset (bt_get m k). f v)
      = (\<Sum>v \<in># add_mset v (mset (bt_values m)). f v)"
    by (simp only: mset_bt_values_insert)
  then show ?thesis
    by (cases "bt_get m k") (simp_all add: ac_simps)
qed

lemma sum_values_remove:
  "(\<Sum>v \<in># mset (bt_values (bt_remove k m)). f v) + opt_refs f (bt_get m k)
    = (\<Sum>v \<in># mset (bt_values m). f v)"
proof -
  have "(\<Sum>v \<in># mset (bt_values (bt_remove k m)) + opt_mset (bt_get m k). f v)
      = (\<Sum>v \<in># mset (bt_values m). f v)"
    by (simp only: mset_bt_values_remove)
  then show ?thesis
    by (cases "bt_get m k") (simp_all add: ac_simps)
qed

lemma repo_refs_insert:
  "repo_refs (bt_insert k e r) + opt_refs entry_refs (bt_get r k) = repo_refs r + entry_refs e"
  unfolding repo_refs_def by (rule sum_values_insert)

lemma repo_refs_remove: "repo_refs (bt_remove k r) + opt_refs entry_refs (bt_get r k) = repo_refs r"
  unfolding repo_refs_def by (rule sum_values_remove)

lemma index_refs_insert:
  "index_refs (bt_insert k r ms) + opt_refs repo_refs (bt_get ms k) = index_refs ms + repo_refs r"
  unfolding index_refs_def by (rule sum_values_insert)

lemma index_refs_remove: "index_refs (bt_remove k ms) + opt_refs repo_refs (bt_get ms k) = index_refs ms"
  unfolding index_refs_def by (rule sum_values_remove)

lemma refs_empty [simp]: "repo_refs bt_empty = {#}" "index_refs bt_empty = {#}"
  by (simp_all add: repo_refs_def index_refs_def bt_values_def)

lemma opt_refs_get_or: "opt_refs repo_refs (bt_get ms name) = repo_refs (bt_get_or bt_empty ms name)"
  by (cases "bt_get ms name") simp_all

text \<open>Replacing a repository by one that holds \<open>X\<close> less and \<open>Y\<close> more.\<close>

lemma index_refs_exchange:
  assumes "repo_refs (bt_get_or bt_empty ms name) = R + X" and "repo_refs repo' = R + Y"
  obtains B where "index_refs ms = B + X" and "index_refs (bt_insert name repo' ms) = B + Y"
proof -
  let ?B = "index_refs (bt_remove name ms) + R"
  have rem: "index_refs (bt_remove name ms) + repo_refs (bt_get_or bt_empty ms name) = index_refs ms"
    using index_refs_remove [of name ms] by (simp add: opt_refs_get_or)
  have "index_refs (bt_insert name repo' ms) + repo_refs (bt_get_or bt_empty ms name)
      = index_refs (bt_remove name ms) + repo_refs (bt_get_or bt_empty ms name) + repo_refs repo'"
    using index_refs_insert [of name repo' ms] rem by (simp add: opt_refs_get_or)
  then have "index_refs (bt_insert name repo' ms) = ?B + Y"
    using assms(2) by (simp add: ac_simps)
  moreover have "index_refs ms = ?B + X"
    using rem assms(1) by (simp add: ac_simps)
  ultimately show ?thesis using that by blast
qed

section \<open>The list operations of the requests\<close>

lemma set_dedup_by: "set (dedup_by f xs) \<subseteq> set xs"
  by (induction f xs rule: dedup_by.induct) (auto split: if_splits)

lemma set_map_dedup_by: "set (map f (dedup_by f xs)) = set (map f xs)"
  by (induction f xs rule: dedup_by.induct) auto

lemma dedup_by_sorted:
  fixes f :: "'a \<Rightarrow> 'b::linorder"
  assumes "sorted (map f xs)"
  shows "sorted_wrt (<) (map f (dedup_by f xs))"
  using assms
proof (induction f xs rule: dedup_by.induct)
  case (3 f x y xs)
  show ?case
  proof (cases "f x = f y")
    case True
    with 3 show ?thesis by simp
  next
    case False
    with 3 have IH: "sorted_wrt (<) (map f (dedup_by f (y # xs)))" by simp
    have "f x < f z" if "z \<in> set (dedup_by f (y # xs))" for z
    proof -
      have "z \<in> set (y # xs)" using set_dedup_by that by (rule subsetD)
      with 3(3) have "f y \<le> f z" by auto
      moreover have "f x < f y" using 3(3) False by auto
      ultimately show ?thesis by simp
    qed
    with IH False show ?thesis by simp
  qed
qed simp_all

lemma dedup_by_id: "sorted_wrt (<) (map f xs) \<Longrightarrow> dedup_by f xs = xs"
  for f :: "'a \<Rightarrow> 'b::linorder"
proof (induction f xs rule: dedup_by.induct)
  case (3 f x y xs)
  from 3(3) have "f x < f y" by simp
  then have "f x \<noteq> f y" by (rule less_imp_neq)
  with 3 show ?case by simp
qed simp_all

lemma sort_dedup_digests_sorted: "sorted_wrt (<) (map digest_to_string (sort_dedup_digests refs))"
  unfolding sort_dedup_digests_def by (rule dedup_by_sorted) simp

lemma sort_dedup_digests_set: "digest_to_string ` set (sort_dedup_digests refs) = digest_to_string ` set refs"
  using set_map_dedup_by [of digest_to_string "sort_key digest_to_string refs"]
  by (simp add: sort_dedup_digests_def)

lemma sort_dedup_digests_subset: "set (sort_dedup_digests refs) \<subseteq> set refs"
  using set_dedup_by [of digest_to_string "sort_key digest_to_string refs"]
  by (simp add: sort_dedup_digests_def)

lemma sort_dedup_digests_id:
  assumes "sorted_wrt (<) (map digest_to_string refs)"
  shows "sort_dedup_digests refs = refs"
proof -
  have "sorted (map digest_to_string refs)"
    using assms by (simp add: strict_sorted_iff)
  then have "sort_key digest_to_string refs = refs"
    by (rule sort_key_id_if_sorted)
  with assms show ?thesis
    by (simp add: sort_dedup_digests_def dedup_by_id)
qed

lemma count_entry_refs_le:
  assumes "sorted_wrt (<) (map digest_to_string (me_referenced_blobs e))"
  shows "count (entry_refs e) k \<le> 1"
proof -
  have "distinct (map digest_to_string (me_referenced_blobs e))"
    using assms by (simp add: strict_sorted_iff)
  then show ?thesis
    unfolding entry_refs_def by (metis distinct_count_atmost_1 order_refl zero_le_one)
qed

lemma distinct_remdups_adj_sort: "distinct (remdups_adj (sort xs))"
  for xs :: "'a::linorder list"
proof -
  have "sorted ys \<Longrightarrow> distinct (remdups_adj ys)" for ys :: "'a list"
    by (induction ys rule: remdups_adj.induct) auto
  then show ?thesis by simp
qed

lemma repo_refs_drop:
  "distinct digs \<Longrightarrow>
    repo_refs r = repo_refs (drop_entries digs r) + (\<Sum>e \<leftarrow> dropped_entries digs r. entry_refs e)"
proof (induction digs arbitrary: r)
  case (Cons d digs)
  have same: "List.map_filter (bt_get (bt_remove d r)) digs = List.map_filter (bt_get r) digs"
    using Cons.prems by (induction digs) (auto simp: List.map_filter_simps split: option.splits)
  have "repo_refs (bt_remove d r) = repo_refs (drop_entries (d # digs) r)
      + (\<Sum>e \<leftarrow> dropped_entries digs r. entry_refs e)"
    using Cons.IH [of "bt_remove d r"] Cons.prems by (simp add: drop_entries_def dropped_entries_def same)
  then show ?case
    using repo_refs_remove [of d r]
    by (cases "bt_get r d") (simp_all add: dropped_entries_def List.map_filter_simps ac_simps)
qed (simp_all add: drop_entries_def dropped_entries_def List.map_filter_simps)

section \<open>The counts follow the index\<close>

definition refs_exact :: "state_machine_data \<Rightarrow> bool" where
  "refs_exact data \<longleftrightarrow> counts_match (blob_ref_counts data) (index_refs (manifests data))"

text \<open>After \<open>n\<close> entries no blob has more than \<open>n\<close> references, so the 64-bit counter cannot have wrapped.\<close>

definition refs_inv :: "nat \<Rightarrow> state_machine_data \<Rightarrow> bool" where
  "refs_inv n data \<longleftrightarrow>
     (\<forall>k. count (index_refs (manifests data)) k \<le> n) \<and> (n < 2 ^ 64 \<longrightarrow> refs_exact data)"

lemma refs_inv_le: "refs_inv n data \<Longrightarrow> count (index_refs (manifests data)) k \<le> n"
  by (simp add: refs_inv_def)

lemma refs_inv_frame [frame_simps]:
  "manifests data' = manifests data \<Longrightarrow> blob_ref_counts data' = blob_ref_counts data \<Longrightarrow>
    refs_inv n data \<Longrightarrow> refs_inv (Suc n) data'"
  by (auto simp: refs_inv_def refs_exact_def intro: le_SucI)

lemma increment_blob_refs_match:
  "counts_match c M \<Longrightarrow> (\<And>k. count (M + entry_refs e) k < 2 ^ 64) \<Longrightarrow>
    counts_match (increment_blob_refs e c) (M + entry_refs e)"
  unfolding increment_blob_refs_def entry_refs_def by (rule rc.fold_inc)

lemma decrement_blob_refs_match:
  "counts_match c (M + entry_refs e) \<Longrightarrow> (\<And>k. count (M + entry_refs e) k < 2 ^ 64) \<Longrightarrow>
    counts_match (decrement_blob_refs e c) M"
  unfolding decrement_blob_refs_def entry_refs_def by (rule rc.fold_dec)

lemma decrement_list_match:
  "counts_match c (M + (\<Sum>e \<leftarrow> es. entry_refs e)) \<Longrightarrow>
    (\<And>k. count (M + (\<Sum>e \<leftarrow> es. entry_refs e)) k < 2 ^ 64) \<Longrightarrow>
    counts_match (fold decrement_blob_refs es c) M"
  using rc.fold_dec_lists [of c M me_referenced_blobs es]
  by (simp add: decrement_blob_refs_def [abs_def] entry_refs_def [abs_def])

lemma store_manifest_fields:
  "manifests (store_manifest data name reference e) =
     (let repo = bt_get_or bt_empty (manifests data) name
      in bt_insert name (bt_insert (digest_to_string (me_digest e)) e repo) (manifests data))"
  "blob_ref_counts (store_manifest data name reference e) =
     increment_blob_refs e
       (case bt_get (bt_get_or bt_empty (manifests data) name) (digest_to_string (me_digest e)) of
          None \<Rightarrow> blob_ref_counts data | Some p \<Rightarrow> decrement_blob_refs p (blob_ref_counts data))"
  by (simp_all add: store_manifest_def Let_def)

lemma store_manifest_refs:
  assumes inv: "refs_inv n data" and refs: "sorted_wrt (<) (map digest_to_string (me_referenced_blobs e))"
  shows "refs_inv (Suc n) (store_manifest data name reference e)"
proof -
  let ?ms = "manifests data" and ?key = "digest_to_string (me_digest e)"
  let ?repo = "bt_get_or bt_empty ?ms name"
  let ?prev = "opt_refs entry_refs (bt_get ?repo ?key)"
  obtain B where old: "index_refs ?ms = B + ?prev"
    and new: "index_refs (bt_insert name (bt_insert ?key e ?repo) ?ms) = B + entry_refs e"
  proof (rule index_refs_exchange)
    show "repo_refs ?repo = repo_refs (bt_remove ?key ?repo) + ?prev"
      by (rule repo_refs_remove [symmetric])
    then show "repo_refs (bt_insert ?key e ?repo) = repo_refs (bt_remove ?key ?repo) + entry_refs e"
      using repo_refs_insert [of ?key e ?repo] by (simp add: ac_simps)
  qed
  have le: "count (B + entry_refs e) k \<le> Suc n" for k
    using refs_inv_le [OF inv, of k] old count_entry_refs_le [OF refs, of k] by simp
  have "counts_match (blob_ref_counts (store_manifest data name reference e)) (B + entry_refs e)"
    if lim: "Suc n < 2 ^ 64"
  proof -
    have bounded: "count (B + ?prev) k < 2 ^ 64" for k
      using refs_inv_le [OF inv, of k] old lim by simp
    have "counts_match (blob_ref_counts data) (B + ?prev)"
      using inv lim old by (simp add: refs_inv_def refs_exact_def)
    then have "counts_match (case bt_get ?repo ?key of None \<Rightarrow> blob_ref_counts data
        | Some p \<Rightarrow> decrement_blob_refs p (blob_ref_counts data)) B"
      using bounded by (cases "bt_get ?repo ?key") (auto intro: decrement_blob_refs_match)
    then show ?thesis
      unfolding store_manifest_fields by (rule increment_blob_refs_match) (rule le_less_trans [OF le lim])
  qed
  with new le show ?thesis
    by (simp add: refs_inv_def refs_exact_def store_manifest_fields(1) Let_def)
qed

lemma shrink_refs:
  assumes inv: "refs_inv n data" and old: "index_refs (manifests data) = M + (\<Sum>e \<leftarrow> es. entry_refs e)"
    and new: "index_refs (manifests data') = M"
    and counts: "blob_ref_counts data' = fold decrement_blob_refs es (blob_ref_counts data)"
  shows "refs_inv (Suc n) data'"
proof -
  have "counts_match (blob_ref_counts data') M" if "Suc n < 2 ^ 64"
    unfolding counts using inv that refs_inv_le [OF inv]
    by (intro decrement_list_match) (auto simp: refs_inv_def refs_exact_def old intro: le_less_trans)
  moreover have "count M k \<le> Suc n" for k
    using refs_inv_le [OF inv, of k] by (simp add: old)
  ultimately show ?thesis
    by (simp add: refs_inv_def refs_exact_def new)
qed

lemma drop_digests_refs:
  assumes inv: "refs_inv n data" and digs: "distinct digs"
  shows "refs_inv (Suc n) (drop_digests data name digs)"
proof (cases "bt_get (manifests data) name")
  case None
  with inv show ?thesis by (intro refs_inv_frame) (auto simp: drop_digests_def Let_def)
next
  case (Some r)
  obtain B where "index_refs (manifests data) = B + (\<Sum>e \<leftarrow> dropped_entries digs r. entry_refs e)"
    and "index_refs (bt_insert name (drop_entries digs r) (manifests data)) = B + {#}"
  proof (rule index_refs_exchange)
    show "repo_refs (bt_get_or bt_empty (manifests data) name)
        = repo_refs (drop_entries digs r) + (\<Sum>e \<leftarrow> dropped_entries digs r. entry_refs e)"
      unfolding bt_get_or_simps(2) [OF Some] by (rule repo_refs_drop [OF digs])
    show "repo_refs (drop_entries digs r) = repo_refs (drop_entries digs r) + {#}" by simp
  qed
  then show ?thesis
    using Some by (intro shrink_refs [OF inv, where M = B and es = "dropped_entries digs r"])
      (simp_all add: drop_digests_def Let_def)
qed

lemma delete_repository_content_refs:
  assumes inv: "refs_inv n data" and del: "delete_repository_content data name expected = Ok (data', x)"
  shows "refs_inv (Suc n) data'"
proof (cases "bt_get (manifests data) name")
  case None
  with inv del show ?thesis
    by (intro refs_inv_frame [OF _ _ inv]) (auto simp: delete_repository_content_def Let_def bt_remove_absent)
next
  case (Some r)
  have "index_refs (manifests data) = index_refs (bt_remove name (manifests data))
      + (\<Sum>e \<leftarrow> bt_values r. entry_refs e)"
    using index_refs_remove [of name "manifests data"] Some
    by (simp add: repo_refs_def sum_mset_sum_list [symmetric])
  then show ?thesis
    using Some del by (intro shrink_refs [OF inv, where es = "bt_values r"])
      (auto simp: delete_repository_content_def Let_def)
qed

lemma put_manifest_refs_sorted:
  "sorted_wrt (<) (map digest_to_string (me_referenced_blobs (put_manifest_entry env r)))"
  by (simp add: put_manifest_entry_def put_manifest_refs_def Let_def sort_dedup_digests_sorted)

lemma apply_manifest_refs:
  assumes inv: "refs_inv n data" and req: "apply_manifest env data r = Ok (data', x)"
  shows "refs_inv (Suc n) data'"
proof (cases r)
  case (PutManifest p)
  with req store_manifest_refs [OF inv put_manifest_refs_sorted] show ?thesis
    by (auto simp: put_manifest_def split: if_splits)
next
  case (DeleteManifest name expected dig)
  with req drop_digests_refs [OF inv, of "[dig]"] show ?thesis
    by (auto simp: delete_manifest_def)
next
  case (DeleteTag name expected dig tag)
  with req show ?thesis
    by (intro refs_inv_frame [OF _ _ inv]) (auto simp: delete_tag_def split: if_splits option.splits)
next
  case (DeleteRepositoryContent name expected)
  with req delete_repository_content_refs [OF inv] show ?thesis by simp
next
  case (DeleteManifests name expected digs)
  with req drop_digests_refs [OF inv distinct_remdups_adj_sort] show ?thesis
    by (auto simp: delete_manifests_def Let_def)
next
  case (MountBlob source_repo dest_repo expected dig)
  with req show ?thesis
    by (intro refs_inv_frame [OF _ _ inv]) (auto simp: mount_blob_def)
next
  case (RecordBlobDelete dig at)
  with req show ?thesis
    by (intro refs_inv_frame [OF _ _ inv]) (auto simp: record_blob_delete_def Let_def)
next
  case (ClearBlobDelete dig)
  with req show ?thesis
    by (intro refs_inv_frame [OF _ _ inv]) (auto simp: clear_blob_delete_def)
qed

lemma apply_request_refs:
  assumes inv: "refs_inv n data" and req: "apply_request env now data req = Some (data', resp)"
  shows "refs_inv (Suc n) data'"
  using req
proof (cases rule: apply_request_cases)
  case Unchanged
  then show ?thesis by (intro refs_inv_frame [OF _ _ inv]) simp_all
next
  case (Manifest r x)
  with inv show ?thesis by (blast intro: apply_manifest_refs)
next
  case (MirrorConfig r x)
  from this(2) show ?thesis by (rule mirror_config_frame) (intro refs_inv_frame [OF _ _ inv], simp_all)
next
  case (Job r x)
  from this(2) show ?thesis by (rule job_frame) (intro refs_inv_frame [OF _ _ inv], simp_all)
next
  case (Token r x)
  from this(2) show ?thesis by (rule token_frame) (intro refs_inv_frame [OF _ _ inv], simp_all)
next
  case (Policy r x)
  from this(2) show ?thesis by (rule policy_frame) (intro refs_inv_frame [OF _ _ inv], simp_all)
next
  case (Repository r x)
  from this(2) show ?thesis by (rule repository_frame) (intro refs_inv_frame [OF _ _ inv], simp_all)
next
  case (Namespace r x)
  from this(2) show ?thesis by (rule namespace_frame) (intro refs_inv_frame [OF _ _ inv], simp_all)
qed

lemma ignores_log_refs_inv: "ignores_log (refs_inv n)"
  by (simp add: ignores_log_def refs_inv_def refs_exact_def)

interpretation refs: counted_machine "entry_step env" refs_inv for env
proof unfold_locales
  fix n data ne data' resp
  assume inv: "refs_inv n data" and step: "entry_step env data ne = Some (data', resp)"
  show "refs_inv (Suc n) data'"
    by (rule request_inv_entry [OF ignores_log_refs_inv ignores_log_refs_inv _ _ inv step])
      (auto intro: apply_request_refs refs_inv_frame)
qed

lemma refs_inv_empty: "refs_inv 0 empty_state"
  by (simp add: refs_inv_def refs_exact_def empty_state_def)

lemma refs_reachable: "apply_entries env empty_state es = Some (data, rs) \<Longrightarrow> refs_inv (length es) data"
  using refs.good_run [OF refs_inv_empty] by (simp add: apply_entries_run)

text \<open>The rebuild after a restore computes the counts from the index alone.\<close>

lemma rebuild_refs_exact:
  assumes "\<And>k. count (index_refs (manifests data)) k < 2 ^ 64"
  shows "refs_exact (rebuild_blob_ref_counts data)"
proof -
  let ?es = "concat (map bt_values (bt_values (manifests data)))"
  have flat: "(\<Sum>r \<leftarrow> rs. \<Sum>e \<leftarrow> bt_values r. entry_refs e) = (\<Sum>e \<leftarrow> concat (map bt_values rs). entry_refs e)"
    for rs :: "(string, manifest_entry) btmap list"
    by (induction rs) simp_all
  have "fold (\<lambda>repo. fold increment_blob_refs (bt_values repo)) rs c
      = fold increment_blob_refs (concat (map bt_values rs)) c" for rs :: "(string, manifest_entry) btmap list" and c
    by (induction rs arbitrary: c) simp_all
  moreover have idx: "index_refs (manifests data) = {#} + (\<Sum>e \<leftarrow> ?es. entry_refs e)"
    using flat [of "bt_values (manifests data)"]
    by (simp add: index_refs_def repo_refs_def [abs_def] sum_mset_sum_list [symmetric])
  moreover have "counts_match (fold increment_blob_refs ?es bt_empty) ({#} + (\<Sum>e \<leftarrow> ?es. entry_refs e))"
    using rc.fold_inc_lists [of bt_empty "{#}" me_referenced_blobs ?es] assms
    by (simp add: idx increment_blob_refs_def [abs_def] entry_refs_def [abs_def])
  ultimately show ?thesis
    by (simp add: refs_exact_def rebuild_blob_ref_counts_def)
qed

end
