(* ===== verification/Manifest_Index.thy ===== *)
theory Manifest_Index
  imports Ref_Counts
begin

text \<open>
  The manifest and tag index.  \<open>manifest_at\<close> and \<open>tag_at\<close> are the abstract view: two finite functions
  from a repository and a digest or a tag.  Each request acts on that view by a closed formula, and the
  index invariant (keys are digests of their entries, tags point to stored manifests) follows.
\<close>

section \<open>The abstract view\<close>

definition manifest_at :: "state_machine_data \<Rightarrow> string \<Rightarrow> string \<Rightarrow> manifest_entry option" where
  "manifest_at data n k = Option.bind (bt_get (manifests data) n) (\<lambda>repo. bt_get repo k)"

definition tag_at :: "state_machine_data \<Rightarrow> string \<Rightarrow> string \<Rightarrow> string option" where
  "tag_at data n t = Option.bind (bt_get (tags data) n) (\<lambda>ts. bt_get ts t)"

definition validation_at :: "state_machine_data \<Rightarrow> string \<Rightarrow> string \<Rightarrow> string \<Rightarrow> proxy_cache_tag_validation option" where
  "validation_at data c n t = get_proxy_cache_tag_validation (proxy_cache_tag_validations data) c n t"

lemma get_manifest_view:
  "get_manifest data n reference =
     (if starts_with ''sha256:'' reference \<or> starts_with ''sha512:'' reference then manifest_at data n reference
      else Option.bind (tag_at data n reference) (manifest_at data n))"
  by (cases "bt_get (tags data) n")
    (auto simp: get_manifest_def manifest_at_def tag_at_def bind_eq_Some_conv split: bind_splits)

lemma view_frame [frame_simps]:
  "manifests data' = manifests data \<Longrightarrow> manifest_at data' = manifest_at data"
  "tags data' = tags data \<Longrightarrow> tag_at data' = tag_at data"
  by (simp_all add: manifest_at_def tag_at_def fun_eq_iff)

lemma view_get_or:
  "bt_get (bt_get_or bt_empty (manifests data) n) k = manifest_at data n k"
  "bt_get (bt_get_or bt_empty (tags data) n) t = tag_at data n t"
  by (simp_all add: manifest_at_def tag_at_def bt_get_or_def split: option.splits)

section \<open>The requests on the view\<close>

lemma store_manifest_view:
  "manifest_at (store_manifest data name reference e) n k =
     (if n = name \<and> k = digest_to_string (me_digest e) then Some e else manifest_at data n k)"
  "tag_at (store_manifest data name reference e) n t =
     (if \<not> contains_char (CHR '':'') reference \<and> n = name \<and> t = reference
      then Some (digest_to_string (me_digest e)) else tag_at data n t)"
  "validation_at (store_manifest data name reference e) c n t =
     (if \<not> contains_char (CHR '':'') reference \<and> n = name \<and> t = reference
      then None else validation_at data c n t)"
  by (auto simp: manifest_at_def tag_at_def validation_at_def store_manifest_def Let_def bt_get_or_def
      tv.get_clear_tag split: option.splits)

text \<open>A stored manifest is found again.\<close>

lemma put_manifest_found:
  assumes "put_manifest env data r = Ok (data', x)" and "sha_hex_ok (env_sha_hex env)"
  shows "get_manifest data' (pm_name r) (digest_to_string (me_digest (put_manifest_entry env r)))
      = Some (put_manifest_entry env r)
    \<and> (\<not> contains_char (CHR '':'') (pm_reference r) \<longrightarrow>
      get_manifest data' (pm_name r) (pm_reference r) = Some (put_manifest_entry env r)
      \<and> validation_at data' c (pm_name r) (pm_reference r) = None)"
proof -
  let ?e = "put_manifest_entry env r"
  have data': "data' = store_manifest data (pm_name r) (pm_reference r) ?e"
    using assms(1) by (auto simp: put_manifest_def split: if_splits)
  have "digest_wf (me_digest ?e)"
    using assms(2) by (auto simp: put_manifest_entry_def digest_sha256_wf dest: from_str_checked_wf split: option.splits)
  then have "starts_with ''sha256:'' (digest_to_string (me_digest ?e))
      \<or> starts_with ''sha512:'' (digest_to_string (me_digest ?e))"
    by (auto simp: digest_wf_def digest_to_string_def starts_with_def)
  moreover have "\<not> contains_char (CHR '':'') (pm_reference r) \<Longrightarrow>
      \<not> starts_with ''sha256:'' (pm_reference r) \<and> \<not> starts_with ''sha512:'' (pm_reference r)"
    by (auto simp: contains_char_def starts_with_iff)
  ultimately show ?thesis
    by (simp add: data' get_manifest_view store_manifest_view)
qed

lemma get_drop_entries: "bt_get (drop_entries digs r) k = (if k \<in> set digs then None else bt_get r k)"
  by (induction digs arbitrary: r) (auto simp: drop_entries_def)

lemma removed_tags_iff:
  "t \<in> set (bt_keys (bt_retain (\<lambda>_ d. d \<in> D) ts)) \<longleftrightarrow> (\<exists>d \<in> D. bt_get ts t = Some d)"
  by (auto simp: set_bt_keys bt_contains_def split: option.splits if_splits)

lemma drop_digests_view:
  "manifest_at (drop_digests data name digs) n k =
     (if n = name \<and> k \<in> set digs then None else manifest_at data n k)"
  "tag_at (drop_digests data name digs) n t =
     (if n = name \<and> (\<exists>d \<in> set digs. tag_at data name t = Some d) then None else tag_at data n t)"
  "validation_at (drop_digests data name digs) c n t =
     (if n = name \<and> (\<exists>d \<in> set digs. tag_at data name t = Some d) then None else validation_at data c n t)"
  by (cases "bt_get (manifests data) name"; cases "bt_get (tags data) name";
      auto simp: manifest_at_def tag_at_def validation_at_def drop_digests_def Let_def get_drop_entries
        clear_tags_get removed_tags_iff split: option.splits)+

lemma delete_tag_view:
  assumes "delete_tag data name expected dig tag = Ok (data', x)"
  shows "manifest_at data' n k = manifest_at data n k"
    and "tag_at data' n t =
      (if n = name \<and> t = tag \<and> tag_at data name tag = Some dig then None else tag_at data n t)"
    and "validation_at data' c n t =
      (if n = name \<and> t = tag \<and> tag_at data name tag = Some dig then None else validation_at data c n t)"
    and "x = ManifestBool (tag_at data name tag = Some dig)"
  using assms
  by (auto simp: delete_tag_def manifest_at_def tag_at_def validation_at_def tv.get_clear_tag
      split: option.splits if_splits)

lemma delete_repository_content_view:
  assumes "delete_repository_content data name expected = Ok (data', x)"
  shows "manifest_at data' n k = (if n = name then None else manifest_at data n k)"
    and "tag_at data' n t = (if n = name then None else tag_at data n t)"
    and "validation_at data' c n t = (if n = name then None else validation_at data c n t)"
  using assms
  by (auto simp: delete_repository_content_def manifest_at_def tag_at_def validation_at_def Let_def
      tv.get_clear_repository)

section \<open>The index invariant\<close>

definition entry_wf :: "string \<Rightarrow> manifest_entry \<Rightarrow> bool" where
  "entry_wf k e \<longleftrightarrow>
     k = digest_to_string (me_digest e) \<and> sorted_wrt (<) (map digest_to_string (me_referenced_blobs e)) \<and>
     (\<forall>d \<in> set (me_referenced_blobs e). digest_wf d)"

definition index_wf :: "state_machine_data \<Rightarrow> bool" where
  "index_wf data \<longleftrightarrow>
     (\<forall>n k e. manifest_at data n k = Some e \<longrightarrow> entry_wf k e) \<and>
     (\<forall>n t d. tag_at data n t = Some d \<longrightarrow> \<not> contains_char (CHR '':'') t \<and> manifest_at data n d \<noteq> None) \<and>
     validations_pruned (proxy_cache_tag_validations data)"

lemma index_wf_frame [frame_simps]:
  "index_wf data \<Longrightarrow> manifests data' = manifests data \<Longrightarrow> tags data' = tags data \<Longrightarrow>
    validations_pruned (proxy_cache_tag_validations data') \<Longrightarrow> index_wf data'"
  by (simp add: index_wf_def manifest_at_def tag_at_def)

lemma index_wf_pruned: "index_wf data \<Longrightarrow> validations_pruned (proxy_cache_tag_validations data)"
  by (simp add: index_wf_def)

lemma store_manifest_index_wf:
  assumes "index_wf data" and "entry_wf (digest_to_string (me_digest e)) e"
  shows "index_wf (store_manifest data name reference e)"
proof -
  have "validations_pruned (proxy_cache_tag_validations (store_manifest data name reference e))"
    using assms(1) by (simp add: store_manifest_def Let_def index_wf_def tv.invar_clear_tag)
  with assms show ?thesis
    unfolding index_wf_def store_manifest_view by (auto split: if_splits)
qed

lemma drop_digests_index_wf:
  assumes "index_wf data"
  shows "index_wf (drop_digests data name digs)"
proof -
  have "validations_pruned (proxy_cache_tag_validations (drop_digests data name digs))"
    using assms by (simp add: drop_digests_def Let_def index_wf_def clear_tags_pruned)
  with assms show ?thesis
    unfolding index_wf_def drop_digests_view by (auto split: if_splits)
qed

lemma sort_dedup_wf: "(\<And>d. d \<in> set ds \<Longrightarrow> digest_wf d) \<Longrightarrow> d \<in> set (sort_dedup_digests ds) \<Longrightarrow> digest_wf d"
  using sort_dedup_digests_subset [of ds] by blast

lemma put_manifest_refs_wf: "d \<in> set (put_manifest_refs env body refs) \<Longrightarrow> digest_wf d"
  unfolding put_manifest_refs_def Let_def
  by (erule sort_dedup_wf [rotated])
    (auto split: if_splits option.splits dest: from_str_checked_wf extract_referenced_digests_wf)

lemma put_manifest_entry_wf: "entry_wf (digest_to_string (me_digest (put_manifest_entry env r))) (put_manifest_entry env r)"
  using put_manifest_refs_wf
  by (auto simp: entry_wf_def put_manifest_refs_sorted) (simp add: put_manifest_entry_def)

lemma delete_tag_index_wf:
  assumes inv: "index_wf data" and del: "delete_tag data name expected dig tag = Ok (data', x)"
  shows "index_wf data'"
proof -
  have "validations_pruned (proxy_cache_tag_validations data')"
    using assms by (auto simp: delete_tag_def index_wf_def tv.invar_clear_tag split: option.splits if_splits)
  with inv show ?thesis
    unfolding index_wf_def delete_tag_view [OF del] by (auto split: if_splits)
qed

lemma delete_repository_content_index_wf:
  assumes inv: "index_wf data" and del: "delete_repository_content data name expected = Ok (data', x)"
  shows "index_wf data'"
proof -
  have "validations_pruned (proxy_cache_tag_validations data')"
    using assms by (auto simp: delete_repository_content_def index_wf_def tv.invar_clear_repository Let_def)
  with inv show ?thesis
    unfolding index_wf_def delete_repository_content_view [OF del] by (auto split: if_splits)
qed

lemma apply_manifest_index_wf:
  assumes inv: "index_wf data" and req: "apply_manifest env data r = Ok (data', x)"
  shows "index_wf data'"
proof (cases r)
  case (PutManifest p)
  with req store_manifest_index_wf [OF inv put_manifest_entry_wf] show ?thesis
    by (auto simp: put_manifest_def split: if_splits)
next
  case (DeleteTag name expected dig tag)
  with req delete_tag_index_wf [OF inv] show ?thesis by auto
next
  case (DeleteRepositoryContent name expected)
  with req delete_repository_content_index_wf [OF inv] show ?thesis by auto
next
  case (RecordBlobDelete dig at)
  with req inv show ?thesis
    by (intro index_wf_frame [OF inv]) (auto simp: record_blob_delete_def Let_def index_wf_def)
next
  case (ClearBlobDelete dig)
  with req inv show ?thesis
    by (intro index_wf_frame [OF inv]) (auto simp: clear_blob_delete_def index_wf_def)
qed (use req inv in \<open>auto simp: delete_manifest_def delete_manifests_def mount_blob_def Let_def
      intro: drop_digests_index_wf\<close>)

lemma apply_mirror_config_pruned:
  assumes "validations_pruned (proxy_cache_tag_validations data)"
    and "apply_mirror_config now data r = (data', x)"
  shows "validations_pruned (proxy_cache_tag_validations data')"
  using assms
  by (cases r)
    (auto simp: trigger_mirror_rule_def trigger_proxy_cache_warm_def Let_def tv.invar_put tv.invar_clear_cache
      split: option.splits if_splits)

lemma apply_request_index_wf:
  assumes inv: "index_wf data" and req: "apply_request env now data req = Some (data', resp)"
  shows "index_wf data'"
  using req
proof (cases rule: apply_request_cases)
  case Unchanged
  with inv show ?thesis by simp
next
  case (Manifest r x)
  with inv show ?thesis by (blast intro: apply_manifest_index_wf)
next
  case (MirrorConfig r x)
  have pruned: "validations_pruned (proxy_cache_tag_validations data')"
    using inv MirrorConfig(2) by (rule apply_mirror_config_pruned [OF index_wf_pruned])
  from MirrorConfig(2) show ?thesis
    by (rule mirror_config_frame) (rule index_wf_frame [OF inv _ _ pruned], simp_all)
next
  case (Job r x)
  from this(2) show ?thesis by (rule job_frame) (intro index_wf_frame [OF inv], simp_all add: index_wf_pruned [OF inv])
next
  case (Token r x)
  from this(2) show ?thesis by (rule token_frame) (intro index_wf_frame [OF inv], simp_all add: index_wf_pruned [OF inv])
next
  case (Policy r x)
  from this(2) show ?thesis by (rule policy_frame) (intro index_wf_frame [OF inv], simp_all add: index_wf_pruned [OF inv])
next
  case (Repository r x)
  from this(2) show ?thesis by (rule repository_frame) (intro index_wf_frame [OF inv], simp_all add: index_wf_pruned [OF inv])
next
  case (Namespace r x)
  from this(2) show ?thesis by (rule namespace_frame) (intro index_wf_frame [OF inv], simp_all add: index_wf_pruned [OF inv])
qed

lemma ignores_log_index_wf: "ignores_log index_wf"
  by (simp add: ignores_log_def index_wf_def manifest_at_def tag_at_def)

interpretation index: invariant_machine "entry_step env" index_wf for env
  by (rule request_invariant_machine [OF ignores_log_index_wf apply_request_index_wf])

lemma index_wf_empty: "index_wf empty_state"
  by (simp add: index_wf_def manifest_at_def tag_at_def empty_state_def validations_pruned_def)

lemma index_reachable: "apply_entries env empty_state es = Some (data, rs) \<Longrightarrow> index_wf data"
  unfolding apply_entries_run by (rule index.inv_run [OF index_wf_empty])

text \<open>A reference of a stored manifest is one of the references of the index.\<close>

lemma manifest_ref_in_index:
  assumes "manifest_at data n k = Some e" and "d \<in> set (me_referenced_blobs e)"
  shows "digest_to_string d \<in># index_refs (manifests data)"
proof -
  from assms(1) obtain repo where "bt_get (manifests data) n = Some repo" "bt_get repo k = Some e"
    by (auto simp: manifest_at_def bind_eq_Some_conv)
  then have "repo \<in> set (bt_values (manifests data))" "e \<in> set (bt_values repo)"
    by (auto simp: set_bt_values)
  with assms(2) show ?thesis
    by (auto simp: index_refs_def repo_refs_def entry_refs_def)
qed

text \<open>A manifest request touches the index of the repository it names and of no other.\<close>

fun manifest_target :: "manifest_request \<Rightarrow> string option" where
  "manifest_target (PutManifest r) = Some (pm_name r)"
| "manifest_target (DeleteManifest name _ _) = Some name"
| "manifest_target (DeleteTag name _ _ _) = Some name"
| "manifest_target (DeleteRepositoryContent name _) = Some name"
| "manifest_target (DeleteManifests name _ _) = Some name"
| "manifest_target (MountBlob _ _ _ _) = None"
| "manifest_target (RecordBlobDelete _ _) = None"
| "manifest_target (ClearBlobDelete _) = None"

lemma apply_manifest_elsewhere:
  assumes "apply_manifest env data r = Ok (data', x)" and "manifest_target r \<noteq> Some n"
  shows "manifest_at data' n = manifest_at data n" and "tag_at data' n = tag_at data n"
    and "validation_at data' c n = validation_at data c n"
proof -
  have "manifest_at data' n k = manifest_at data n k \<and> tag_at data' n k = tag_at data n k
      \<and> validation_at data' c n k = validation_at data c n k" for k
  proof (cases r)
    case (PutManifest p)
    with assms show ?thesis by (auto simp: put_manifest_def store_manifest_view split: if_splits)
  next
    case (DeleteTag name expected dig tag)
    with assms show ?thesis by (auto simp: delete_tag_view)
  next
    case (DeleteRepositoryContent name expected)
    with assms show ?thesis by (auto simp: delete_repository_content_view)
  next
    case (DeleteManifest name expected dig)
    with assms show ?thesis by (auto simp: delete_manifest_def drop_digests_view)
  next
    case (DeleteManifests name expected digs)
    with assms show ?thesis by (auto simp: delete_manifests_def drop_digests_view Let_def)
  qed (use assms in \<open>auto simp: mount_blob_def record_blob_delete_def clear_blob_delete_def Let_def
      manifest_at_def tag_at_def validation_at_def\<close>)
  then show "manifest_at data' n = manifest_at data n" "tag_at data' n = tag_at data n"
    "validation_at data' c n = validation_at data c n" by (simp_all add: fun_eq_iff)
qed

end
