(* ===== verification/Namespaces.thy ===== *)
theory Namespaces
  imports Replication
begin

text \<open>
  Tenancy: who may own a handle, and which writes reach the repositories under it.  The life of a
  handle is an abstract transition system (\<open>handle_step\<close>) that the claim, release and revoke requests
  refine; the tenancy invariant ties the content of the index to the live namespaces.
\<close>

section \<open>The life of a handle\<close>

datatype handle_state =
    HFree
  | HLive u64 owner
  | HReleased u64 owner

inductive handle_step :: "handle_state \<Rightarrow> handle_state \<Rightarrow> bool" where
  Claim: "handle_step HFree (HLive 1 w)"
| Reclaim: "checked_add_u64 g 1 = Some g' \<Longrightarrow> handle_step (HReleased g w) (HLive g' w')"
| Release: "handle_step (HLive g w) (HReleased g w)"

inductive_cases handle_stepE: "handle_step s s'"

inductive_simps handle_step_simps [simp]:
  "handle_step HFree s'"
  "handle_step (HLive g w) s'"
  "handle_step (HReleased g w) s'"

text \<open>Generation \<open>g\<close> is over: whatever is live or released now is a later generation, or \<open>g\<close> is released.\<close>

fun outdated :: "u64 \<Rightarrow> handle_state \<Rightarrow> bool" where
  "outdated g HFree = False"
| "outdated g (HLive g' w) = (g < g')"
| "outdated g (HReleased g' w) = (g \<le> g')"

lemma outdated_step: "outdated g s \<Longrightarrow> handle_step s s' \<Longrightarrow> outdated g s'"
  by (cases s) (auto dest: checked_add_one_less)

lemma outdated_steps: "handle_step\<^sup>*\<^sup>* s s' \<Longrightarrow> outdated g s \<Longrightarrow> outdated g s'"
  by (induction rule: rtranclp_induct) (auto intro: outdated_step)

text \<open>A generation belongs to one owner: it stays live with that owner until it is outdated.\<close>

lemma live_steps:
  "handle_step\<^sup>*\<^sup>* (HLive g w) s \<Longrightarrow> s = HLive g w \<or> outdated g s"
proof (induction rule: rtranclp_induct)
  case (step s s')
  then show ?case using outdated_step by auto
qed simp

fun hs_generation :: "handle_state \<Rightarrow> nat" where
  "hs_generation HFree = 0"
| "hs_generation (HLive g w) = unat g"
| "hs_generation (HReleased g w) = unat g"

lemma generation_steps: "handle_step\<^sup>*\<^sup>* s s' \<Longrightarrow> hs_generation s \<le> hs_generation s'"
proof (induction rule: rtranclp_induct)
  case (step s s')
  from step(2) have "hs_generation s \<le> hs_generation s'"
    by (auto elim!: handle_stepE dest: unat_checked_add_u64)
  with step(3) show ?case by simp
qed simp

section \<open>The requests refine it\<close>

definition handle_state_of :: "state_machine_data \<Rightarrow> string \<Rightarrow> handle_state" where
  "handle_state_of data h =
     (case bt_get (namespaces data) h of
        Some ns \<Rightarrow> HLive (ns_generation ns) (ns_owner ns)
      | None \<Rightarrow>
          (case bt_get (released_handles data) h of
             Some t \<Rightarrow> HReleased (rh_prior_generation t) (rh_prior_owner t)
           | None \<Rightarrow> HFree))"

lemma handle_state_of_frame [frame_simps]:
  "namespaces data' = namespaces data \<Longrightarrow> released_handles data' = released_handles data \<Longrightarrow>
    handle_state_of data' h = handle_state_of data h"
  unfolding handle_state_of_def by (simp split: option.splits)

lemma handle_state_of_log [simp]:
  "handle_state_of (data\<lparr>last_applied_log := l\<rparr>) h = handle_state_of data h"
  "handle_state_of (data\<lparr>last_membership := m\<rparr>) h = handle_state_of data h"
  by (rule handle_state_of_frame; simp)+

lemma claim_refines:
  assumes "namespace_claim data r = Ok (data', x)"
  shows "handle_step (handle_state_of data (cl_handle r)) (handle_state_of data' (cl_handle r))"
    and "h \<noteq> cl_handle r \<Longrightarrow> handle_state_of data' h = handle_state_of data h"
  using assms
  by (auto simp: namespace_claim_def handle_state_of_def claim_generation_def Let_def
      split: if_splits option.splits)

lemma release_refines:
  assumes "bt_get (namespaces data) k = Some ns"
  shows "handle_step (handle_state_of data k) (handle_state_of (release_namespace data k ns actor reason now) k)"
    and "h \<noteq> k \<Longrightarrow> handle_state_of (release_namespace data k ns actor reason now) h = handle_state_of data h"
  using assms by (simp_all add: handle_state_of_def release_namespace_def split: option.splits)

lemma namespace_delete_Ok:
  "namespace_delete data h actor reason now = Ok (data', x) \<longleftrightarrow>
    (\<exists>ns. bt_get (namespaces data) h = Some ns \<and> ns_owner ns = OwnerUser actor \<and> \<not> has_content data h
      \<and> data' = release_namespace data h ns actor reason now \<and> x = NamespaceOk)"
proof -
  have "is_namespace_owner actor w \<longleftrightarrow> w = OwnerUser actor" for w
    by (cases w) auto
  then show ?thesis
    by (auto simp: namespace_delete_def split: option.splits)
qed

lemma namespace_admin_revoke_Ok:
  "namespace_admin_revoke data h actor now = Ok (data', x) \<longleftrightarrow>
    (\<exists>ns. bt_get (namespaces data) h = Some ns \<and> \<not> has_content data h
      \<and> data' = release_namespace data h ns actor AdminRevoked now \<and> x = NamespaceOk)"
  by (auto simp: namespace_admin_revoke_def split: option.splits)

lemma apply_namespace_refines:
  assumes "apply_namespace data r = Some (Ok (data', x))"
  shows "handle_state_of data' h = handle_state_of data h \<or> handle_step (handle_state_of data h) (handle_state_of data' h)"
proof (cases r)
  case (NamespaceClaim c)
  with assms claim_refines show ?thesis by (cases "h = cl_handle c") auto
next
  case (NamespaceDelete k actor reason now)
  with assms release_refines show ?thesis by (cases "h = k") (auto simp: namespace_delete_Ok)
next
  case (NamespaceAdminRevoke k actor now)
  with assms release_refines show ?thesis by (cases "h = k") (auto simp: namespace_admin_revoke_Ok)
next
  case (NamespacePutGrant grant actor_label reason audit_id)
  with assms show ?thesis
    by (intro disjI1 handle_state_of_frame) (auto simp: namespace_put_grant_def Let_def)
next
  case (NamespaceDeleteGrant d)
  with assms show ?thesis
    by (intro disjI1 handle_state_of_frame)
      (auto simp: namespace_delete_grant_def Let_def split: if_splits option.splits)
next
  case (NamespacePutObservedIdentity identity)
  with assms show ?thesis by (intro disjI1 handle_state_of_frame) auto
qed

lemma apply_request_refines:
  assumes "apply_request env now data req = Some (data', resp)"
  shows "handle_state_of data' h = handle_state_of data h \<or> handle_step (handle_state_of data h) (handle_state_of data' h)"
  using assms
proof (cases rule: apply_request_cases)
  case Unchanged
  then show ?thesis by simp
next
  case (Manifest r x)
  from this(2) show ?thesis by (rule manifest_frame) (intro disjI1 handle_state_of_frame, simp_all)
next
  case (MirrorConfig r x)
  from this(2) show ?thesis by (rule mirror_config_frame) (intro disjI1 handle_state_of_frame, simp_all)
next
  case (Job r x)
  from this(2) show ?thesis by (rule job_frame) (intro disjI1 handle_state_of_frame, simp_all)
next
  case (Token r x)
  from this(2) show ?thesis by (rule token_frame) (intro disjI1 handle_state_of_frame, simp_all)
next
  case (Policy r x)
  from this(2) show ?thesis by (rule policy_frame) (intro disjI1 handle_state_of_frame, simp_all)
next
  case (Repository r x)
  from this(2) show ?thesis by (rule repository_frame) (intro disjI1 handle_state_of_frame, simp_all)
next
  case (Namespace r x)
  from this(2) show ?thesis by (rule apply_namespace_refines)
qed

interpretation handle_life: invariant_machine "entry_step env"
  "\<lambda>data. handle_step\<^sup>*\<^sup>* s (handle_state_of data h)" for env s h
proof (rule request_invariant_machine)
  show "ignores_log (\<lambda>data. handle_step\<^sup>*\<^sup>* s (handle_state_of data h))"
    by (simp add: ignores_log_def)
next
  fix now d req d' resp
  assume "handle_step\<^sup>*\<^sup>* s (handle_state_of d h)" and "apply_request env now d req = Some (d', resp)"
  then show "handle_step\<^sup>*\<^sup>* s (handle_state_of d' h)"
    using apply_request_refines [of env now d req d' resp h] by (auto intro: rtranclp.rtrancl_into_rtrancl)
qed

lemma run_refines:
  "apply_entries env data es = Some (data', rs) \<Longrightarrow>
    handle_step\<^sup>*\<^sup>* (handle_state_of data h) (handle_state_of data' h)"
  unfolding apply_entries_run by (rule handle_life.inv_run [OF rtranclp.rtrancl_refl])

section \<open>Which writes are accepted\<close>

lemma eq_epoch_new: "e = epoch_new h g \<longleftrightarrow> ep_handle e = h \<and> ep_generation e = g"
  by (cases e) (auto simp: epoch_new_def)

lemma require_expected_namespace_Ok:
  "require_expected_namespace data repo expected = Ok () \<longleftrightarrow>
    (\<exists>h. handle_of repo = Ok h \<and>
      (is_handle_reserved h \<or>
       (\<exists>ns. bt_get (namespaces data) h = Some ns \<and> expected = Some (epoch_new h (ns_generation ns)))))"
  by (cases "handle_of repo")
    (auto simp: require_expected_namespace_def eq_epoch_new split: option.splits)

text \<open>The repository a content request writes to and the epoch it was authorized against.\<close>

fun content_target :: "request \<Rightarrow> (string \<times> namespace_epoch option) option" where
  "content_target (ReqManifest (PutManifest r)) = Some (pm_name r, pm_expected_namespace r)"
| "content_target (ReqManifest (DeleteManifest name expected _)) = Some (name, expected)"
| "content_target (ReqManifest (DeleteTag name expected _ _)) = Some (name, expected)"
| "content_target (ReqManifest (DeleteRepositoryContent name expected)) = Some (name, expected)"
| "content_target (ReqManifest (DeleteManifests name expected _)) = Some (name, expected)"
| "content_target (ReqManifest (MountBlob _ dest_repo expected _)) = Some (dest_repo, expected)"
| "content_target (ReqRepository (PutRepository repo expected)) = Some (repo_name repo, expected)"
| "content_target (ReqRepository (DeleteRepository name expected)) = Some (name, expected)"
| "content_target _ = None"

lemma content_rejected:
  assumes "content_target req = Some (name, expected)" and "require_expected_namespace data name expected = Err e"
  shows "apply_request env now data req = Some (data, error_to_response e)"
  using assms
  by (induction req rule: content_target.induct)
    (auto simp: put_manifest_def delete_manifest_def delete_tag_def delete_repository_content_def
      delete_manifests_def mount_blob_def settle_def)

section \<open>The tenancy invariant\<close>

definition namespace_wf :: "string \<Rightarrow> namespace \<Rightarrow> bool" where
  "namespace_wf h ns \<longleftrightarrow>
     handle_grammar h \<and> \<not> is_handle_reserved h \<and> ns_handle ns = h \<and> 0 < ns_generation ns"

definition tombstone_wf :: "string \<Rightarrow> released_handle \<Rightarrow> bool" where
  "tombstone_wf h t \<longleftrightarrow> handle_grammar h \<and> rh_handle t = h \<and> 0 < rh_prior_generation t"

definition namespaces_wf :: "state_machine_data \<Rightarrow> bool" where
  "namespaces_wf data \<longleftrightarrow>
     (\<forall>h ns. bt_get (namespaces data) h = Some ns \<longrightarrow>
        namespace_wf h ns \<and> bt_get (released_handles data) h = None) \<and>
     (\<forall>h t. bt_get (released_handles data) h = Some t \<longrightarrow> tombstone_wf h t)"

definition content_key :: "state_machine_data \<Rightarrow> string \<Rightarrow> bool" where
  "content_key data k \<longleftrightarrow>
     bt_contains (manifests data) k \<or> bt_contains (tags data) k \<or> bt_contains (repositories data) k"

definition key_owned :: "state_machine_data \<Rightarrow> string \<Rightarrow> bool" where
  "key_owned data k \<longleftrightarrow>
     (\<exists>h. handle_of k = Ok h \<and> (is_handle_reserved h \<or> bt_contains (namespaces data) h))"

definition content_owned :: "state_machine_data \<Rightarrow> bool" where
  "content_owned data \<longleftrightarrow> (\<forall>k. content_key data k \<longrightarrow> key_owned data k)"

definition grantee_wf :: "namespace_grant \<Rightarrow> bool" where
  "grantee_wf g \<longleftrightarrow>
     (case ng_grantee g of
        GranteeGroup i \<Rightarrow> pq_kind i = Some PKGroup
      | GranteeUser i \<Rightarrow> pq_kind i = Some PKUser
      | GranteePublic \<Rightarrow> ng_action g = Pull)"

definition grants_wf :: "state_machine_data \<Rightarrow> bool" where
  "grants_wf data \<longleftrightarrow>
     (\<forall>h gs. bt_get (namespace_grants data) h = Some gs \<longrightarrow>
        bt_contains (namespaces data) h \<and> \<not> bt_is_empty gs \<and>
        (\<forall>i g. bt_get gs i = Some g \<longrightarrow> ng_id g = i \<and> ng_namespace g = h \<and> grantee_wf g))"

definition tenancy_inv :: "state_machine_data \<Rightarrow> bool" where
  "tenancy_inv data \<longleftrightarrow> namespaces_wf data \<and> content_owned data \<and> grants_wf data"

lemma has_content_iff: "has_content data h \<longleftrightarrow> (\<exists>k. content_key data k \<and> starts_with (h @ ''/'') k)"
  by (auto simp: has_content_def any_key_with_prefix_def content_key_def list_ex_iff set_bt_keys Let_def)

text \<open>A key under a handle has that handle, so an empty handle can be let go.\<close>

lemma content_owned_release:
  assumes "content_owned data" and "\<not> has_content data h"
  shows "content_owned (release_namespace data h ns actor reason now)"
proof -
  let ?data' = "release_namespace data h ns actor reason now"
  have "key_owned ?data' k" if "content_key ?data' k" for k
  proof -
    have k: "content_key data k"
      using that by (simp add: content_key_def release_namespace_def)
    with assms(1) obtain h' where h': "handle_of k = Ok h'"
        "is_handle_reserved h' \<or> bt_contains (namespaces data) h'"
      by (auto simp: content_owned_def key_owned_def)
    from k assms(2) handle_of_starts_with [OF h'(1)] have "h' \<noteq> h"
      by (auto simp: has_content_iff)
    with h' show ?thesis by (simp add: key_owned_def release_namespace_def)
  qed
  then show ?thesis by (simp add: content_owned_def)
qed

lemma content_owned_grow:
  assumes "content_owned data"
    and "\<And>k. content_key data' k \<Longrightarrow> content_key data k \<or> key_owned data k"
    and "\<And>h. bt_contains (namespaces data) h \<Longrightarrow> bt_contains (namespaces data') h"
  shows "content_owned data'"
  using assms unfolding content_owned_def key_owned_def by blast

lemma require_Ok_owned: "require_expected_namespace data k expected = Ok () \<Longrightarrow> key_owned data k"
  by (auto simp: require_expected_namespace_Ok key_owned_def bt_contains_def)

lemma drop_digests_keys: "content_key (drop_digests data name digs) k \<longleftrightarrow> content_key data k"
  by (auto simp: content_key_def drop_digests_def Let_def bt_contains_def split: option.splits)

lemma store_manifest_keys:
  "content_key (store_manifest data name reference e) k \<Longrightarrow> content_key data k \<or> k = name"
  by (auto simp: content_key_def store_manifest_def Let_def split: if_splits)

lemma apply_manifest_keys:
  assumes "apply_manifest env data r = Ok (data', x)" and "content_key data' k"
  shows "content_key data k \<or> key_owned data k"
proof (cases r)
  case (PutManifest p)
  with assms show ?thesis
    by (auto simp: put_manifest_def split: if_splits dest!: store_manifest_keys require_Ok_owned)
next
  case (DeleteRepositoryContent name expected)
  with assms show ?thesis
    by (auto simp: delete_repository_content_def content_key_def Let_def)
next
  case (DeleteTag name expected dig tag)
  with assms show ?thesis
    by (auto simp: delete_tag_def content_key_def bt_contains_def split: if_splits option.splits)
qed (use assms in \<open>auto simp: delete_manifest_def delete_manifests_def drop_digests_keys Let_def mount_blob_def
      record_blob_delete_def clear_blob_delete_def content_key_def [of "blob_delete_requests_update _ _"]
      content_key_def [of data]\<close>)

lemma apply_repository_keys:
  assumes "apply_repository data r = Ok (data', x)" and "content_key data' k"
  shows "content_key data k \<or> key_owned data k"
  using assms by (cases r) (auto simp: content_key_def dest: require_Ok_owned)

lemma tenancy_inv_frame [frame_simps]:
  assumes "tenancy_inv data" and "namespaces data' = namespaces data"
    and "released_handles data' = released_handles data" and "namespace_grants data' = namespace_grants data"
    and "\<And>k. content_key data' k \<Longrightarrow> content_key data k \<or> key_owned data k"
  shows "tenancy_inv data'"
  using assms content_owned_grow [of data data']
  by (auto simp: tenancy_inv_def namespaces_wf_def grants_wf_def)

lemma tenancy_inv_frame_content:
  assumes "tenancy_inv data" and "namespaces data' = namespaces data"
    and "released_handles data' = released_handles data" and "namespace_grants data' = namespace_grants data"
    and "manifests data' = manifests data" and "tags data' = tags data" and "repositories data' = repositories data"
  shows "tenancy_inv data'"
  using assms by (intro tenancy_inv_frame [OF assms(1)]) (simp_all add: content_key_def)

lemma claim_tenancy:
  assumes inv: "tenancy_inv data" and claim: "namespace_claim data r = Ok (data', x)"
  shows "tenancy_inv data'"
proof -
  let ?h = "cl_handle r"
  obtain g where g: "claim_generation data ?h (cl_admin_override r) = Ok g"
    and h: "handle_grammar ?h" "\<not> is_handle_reserved ?h"
    and data': "data' = data\<lparr>released_handles := bt_remove ?h (released_handles data),
      namespaces := bt_insert ?h \<lparr>ns_handle = ?h, ns_generation = g, ns_owner = cl_owner r,
        ns_owner_label = cl_owner_label r, ns_created_at = cl_now r\<rparr> (namespaces data)\<rparr>"
    using claim by (auto simp: namespace_claim_def Let_def validate_handle_iff [symmetric]
      split: if_splits option.splits)
  have "0 < g"
    using g by (auto simp: claim_generation_def word_neq_0_conv [symmetric]
      dest: unat_checked_add_u64 split: option.splits if_splits)
  with inv h have "namespaces_wf data'"
    by (auto simp: tenancy_inv_def namespaces_wf_def namespace_wf_def data' split: if_splits)
  moreover have "content_owned data'"
  proof (rule content_owned_grow)
    show "content_owned data" using inv by (simp add: tenancy_inv_def)
  qed (simp_all add: data' content_key_def)
  moreover have "grants_wf data'"
    using inv by (auto simp: tenancy_inv_def grants_wf_def data')
  ultimately show ?thesis by (simp add: tenancy_inv_def)
qed

lemma release_tenancy:
  assumes inv: "tenancy_inv data" and ns: "bt_get (namespaces data) h = Some ns" and "\<not> has_content data h"
  shows "tenancy_inv (release_namespace data h ns actor reason now)"
proof -
  let ?data' = "release_namespace data h ns actor reason now"
  have "namespaces_wf ?data'"
    using inv ns by (auto simp: tenancy_inv_def namespaces_wf_def namespace_wf_def tombstone_wf_def
      release_namespace_def split: if_splits)
  moreover have "grants_wf ?data'"
    using inv by (auto simp: tenancy_inv_def grants_wf_def release_namespace_def split: if_splits)
  moreover have "content_owned ?data'"
    using inv assms(3) by (intro content_owned_release) (simp_all add: tenancy_inv_def)
  ultimately show ?thesis by (simp add: tenancy_inv_def)
qed

lemma validate_namespace_grant_Ok:
  "validate_namespace_grant live g = Some (Ok ()) \<longleftrightarrow>
    handle_grammar (ng_namespace g) \<and> bt_contains live (ng_namespace g) \<and> grantee_wf g"
  by (cases "validate_handle (ng_namespace g)"; cases "ng_grantee g")
    (auto simp: validate_namespace_grant_def validate_handle_iff [symmetric] grantee_wf_def ref_group_def
      ref_user_def ensure_kind_def)

lemma grantee_wf_cong:
  "ng_grantee g = ng_grantee g' \<Longrightarrow> ng_action g = ng_action g' \<Longrightarrow> grantee_wf g = grantee_wf g'"
  by (simp add: grantee_wf_def split: namespace_grant_grantee.splits)

lemma put_grant_Ok:
  assumes "namespace_put_grant data g0 actor_label reason audit_id = Some (Ok (data', x))"
  obtains g where "bt_contains (namespaces data) (ng_namespace g0)" and "grantee_wf g"
    and "ng_id g = ng_id g0" and "ng_namespace g = ng_namespace g0"
    and "namespaces data' = namespaces data" and "released_handles data' = released_handles data"
    and "\<And>k. content_key data' k = content_key data k"
    and "namespace_grants data' = bt_insert (ng_namespace g0)
      (bt_insert (ng_id g0) g (bt_get_or bt_empty (namespace_grants data) (ng_namespace g0))) (namespace_grants data)"
proof -
  have valid: "validate_namespace_grant (namespaces data) g0 = Some (Ok ())"
    using assms by (auto simp: namespace_put_grant_def)
  let ?g = "case bt_get (bt_get_or bt_empty (namespace_grants data) (ng_namespace g0)) (ng_id g0) of
      None \<Rightarrow> g0 | Some e \<Rightarrow> g0\<lparr>ng_created_by := ng_created_by e, ng_created_at := ng_created_at e\<rparr>"
  have g: "ng_id ?g = ng_id g0" "ng_namespace ?g = ng_namespace g0"
      "ng_grantee ?g = ng_grantee g0" "ng_action ?g = ng_action g0"
    by (simp_all split: option.splits)
  show ?thesis
  proof (rule that [of ?g])
    show "bt_contains (namespaces data) (ng_namespace g0)" "grantee_wf ?g"
      using valid grantee_wf_cong [OF g(3,4)] by (simp_all add: validate_namespace_grant_Ok)
  qed (use assms g in \<open>auto simp: namespace_put_grant_def Let_def content_key_def\<close>)
qed

lemma put_grant_tenancy:
  assumes inv: "tenancy_inv data"
    and put: "namespace_put_grant data g0 actor_label reason audit_id = Some (Ok (data', x))"
  shows "tenancy_inv data'"
proof (rule put_grant_Ok [OF put])
  fix g
  let ?h = "ng_namespace g0"
  assume live: "bt_contains (namespaces data) ?h" and g: "grantee_wf g" "ng_id g = ng_id g0" "ng_namespace g = ?h"
    and same: "namespaces data' = namespaces data" "released_handles data' = released_handles data"
      "\<And>k. content_key data' k = content_key data k"
    and grants: "namespace_grants data' = bt_insert ?h
      (bt_insert (ng_id g0) g (bt_get_or bt_empty (namespace_grants data) ?h)) (namespace_grants data)"
  have old: "bt_get (bt_get_or bt_empty (namespace_grants data) ?h) i = Some g' \<Longrightarrow>
      ng_id g' = i \<and> ng_namespace g' = ?h \<and> grantee_wf g'" for i g'
    using inv by (cases "bt_get (namespace_grants data) ?h") (auto simp: tenancy_inv_def grants_wf_def)
  have "grants_wf data'"
    unfolding grants_wf_def
  proof (intro allI impI)
    fix h gs assume gs: "bt_get (namespace_grants data') h = Some gs"
    show "bt_contains (namespaces data') h \<and> \<not> bt_is_empty gs \<and>
      (\<forall>i g. bt_get gs i = Some g \<longrightarrow> ng_id g = i \<and> ng_namespace g = h \<and> grantee_wf g)"
    proof (cases "h = ?h")
      case True
      with gs have get: "bt_get gs i = (if i = ng_id g0 then Some g
          else bt_get (bt_get_or bt_empty (namespace_grants data) ?h) i)" for i
        by (auto simp: grants)
      then have "\<not> bt_is_empty gs"
        by (auto simp: bt_is_empty_get)
      moreover have "ng_id g' = i \<and> ng_namespace g' = h \<and> grantee_wf g'" if "bt_get gs i = Some g'" for i g'
        using that old [of i g'] g unfolding get True by (metis option.inject)
      ultimately show ?thesis
        using live by (simp add: True same(1))
    next
      case False
      with gs inv show ?thesis by (simp add: grants same(1) tenancy_inv_def grants_wf_def)
    qed
  qed
  with inv same show ?thesis
    by (simp add: tenancy_inv_def namespaces_wf_def content_owned_def key_owned_def)
qed

lemma delete_grant_tenancy:
  assumes inv: "tenancy_inv data" and del: "namespace_delete_grant data r = Ok (data', x)"
  shows "tenancy_inv data'"
proof -
  have same: "namespaces data' = namespaces data" "released_handles data' = released_handles data"
      "\<And>k. content_key data' k = content_key data k"
    using del by (auto simp: namespace_delete_grant_def Let_def content_key_def split: if_splits option.splits)
  have get: "bt_get (namespace_grants data') h = Some gs' \<Longrightarrow>
      \<not> bt_is_empty gs' \<and> (\<exists>gs. bt_get (namespace_grants data) h = Some gs \<and>
        (\<forall>i g. bt_get gs' i = Some g \<longrightarrow> bt_get gs i = Some g))" for h gs'
    using del inv
    by (auto simp: namespace_delete_grant_def Let_def tenancy_inv_def grants_wf_def
        split: if_splits option.splits)
  have "grants_wf data'"
    using inv get unfolding grants_wf_def tenancy_inv_def same(1) by blast
  with inv same show ?thesis
    by (simp add: tenancy_inv_def namespaces_wf_def content_owned_def key_owned_def)
qed

lemma apply_namespace_tenancy:
  assumes inv: "tenancy_inv data" and req: "apply_namespace data r = Some (Ok (data', x))"
  shows "tenancy_inv data'"
proof (cases r)
  case (NamespaceClaim c)
  with inv req show ?thesis by (auto intro: claim_tenancy)
next
  case (NamespaceDelete h actor reason now)
  with inv req show ?thesis by (auto simp: namespace_delete_Ok intro: release_tenancy)
next
  case (NamespaceAdminRevoke h actor now)
  with inv req show ?thesis by (auto simp: namespace_admin_revoke_Ok intro: release_tenancy)
next
  case (NamespacePutGrant grant actor_label reason audit_id)
  with inv req show ?thesis by (auto intro: put_grant_tenancy)
next
  case (NamespaceDeleteGrant d)
  with inv req show ?thesis by (auto intro: delete_grant_tenancy)
next
  case (NamespacePutObservedIdentity identity)
  with req show ?thesis by (intro tenancy_inv_frame_content [OF inv]) auto
qed

lemma apply_request_tenancy:
  assumes inv: "tenancy_inv data" and req: "apply_request env now data req = Some (data', resp)"
  shows "tenancy_inv data'"
  using req
proof (cases rule: apply_request_cases)
  case Unchanged
  with inv show ?thesis by simp
next
  case (Manifest r x)
  from this(2) show ?thesis
  proof (rule manifest_frame)
    fix ms ts rc bd tv
    assume "data' = data\<lparr>manifests := ms, tags := ts, blob_ref_counts := rc, blob_delete_requests := bd,
      proxy_cache_tag_validations := tv\<rparr>"
    then show ?thesis
      using apply_manifest_keys [OF Manifest(2)] by (intro tenancy_inv_frame [OF inv]) simp_all
  qed
next
  case (Repository r x)
  from this(2) show ?thesis
  proof (rule repository_frame)
    fix rs assume "data' = data\<lparr>repositories := rs\<rparr>"
    then show ?thesis
      using apply_repository_keys [OF Repository(2)] by (intro tenancy_inv_frame [OF inv]) simp_all
  qed
next
  case (MirrorConfig r x)
  from this(2) show ?thesis by (rule mirror_config_frame) (intro tenancy_inv_frame_content [OF inv], simp_all)
next
  case (Job r x)
  from this(2) show ?thesis by (rule job_frame) (intro tenancy_inv_frame_content [OF inv], simp_all)
next
  case (Token r x)
  from this(2) show ?thesis by (rule token_frame) (intro tenancy_inv_frame_content [OF inv], simp_all)
next
  case (Policy r x)
  from this(2) show ?thesis by (rule policy_frame) (intro tenancy_inv_frame_content [OF inv], simp_all)
next
  case (Namespace r x)
  from inv this(2) show ?thesis by (rule apply_namespace_tenancy)
qed

lemma ignores_log_tenancy: "ignores_log tenancy_inv"
  by (simp add: ignores_log_def tenancy_inv_def namespaces_wf_def content_owned_def content_key_def
      key_owned_def grants_wf_def)

interpretation tenancy: invariant_machine "entry_step env" tenancy_inv for env
  by (rule request_invariant_machine [OF ignores_log_tenancy apply_request_tenancy])

lemma tenancy_inv_empty: "tenancy_inv empty_state"
  by (simp add: tenancy_inv_def namespaces_wf_def content_owned_def content_key_def grants_wf_def
      empty_state_def)

lemma tenancy_reachable: "apply_entries env empty_state es = Some (data, rs) \<Longrightarrow> tenancy_inv data"
  unfolding apply_entries_run by (rule tenancy.inv_run [OF tenancy_inv_empty])

text \<open>A handle that was free or released owns nothing.\<close>

lemma unclaimed_has_no_content:
  assumes "tenancy_inv data" and "handle_grammar h" and "\<not> is_handle_reserved h"
    and "bt_get (namespaces data) h = None"
  shows "\<not> has_content data h" and "bt_get (namespace_grants data) h = None"
proof -
  show "\<not> has_content data h"
  proof
    assume "has_content data h"
    then obtain k t where k: "content_key data k" "k = h @ ''/'' @ t"
      by (auto simp: has_content_iff starts_with_iff)
    with assms(1) obtain h' where h': "handle_of k = Ok h'"
        "is_handle_reserved h' \<or> bt_contains (namespaces data) h'"
      by (auto simp: tenancy_inv_def content_owned_def key_owned_def)
    from h'(1) obtain t' where "k = h' @ ''/'' @ t'" "CHR ''/'' \<notin> set h'"
      by (auto simp: handle_of_iff)
    with k(2) handle_grammar_no_slash [OF assms(2)] have "h' = h"
      using sep_unique [of "CHR ''/''" h' h t' t] by simp
    with h'(2) assms(3,4) show False by (simp add: bt_contains_def)
  qed
  show "bt_get (namespace_grants data) h = None"
    using assms(1,4) by (cases "bt_get (namespace_grants data) h")
      (force simp: tenancy_inv_def grants_wf_def bt_contains_def)+
qed

section \<open>The grant audit\<close>

definition audit_of :: "state_machine_data \<Rightarrow> string \<Rightarrow> namespace_grant_audit_event list" where
  "audit_of data h = bt_get_or [] (namespace_grant_audit data) h"

definition grant_at :: "state_machine_data \<Rightarrow> string \<Rightarrow> string \<Rightarrow> namespace_grant option" where
  "grant_at data h i = Option.bind (bt_get (namespace_grants data) h) (\<lambda>gs. bt_get gs i)"

text \<open>What one audit event records of a change of the grants of a namespace.\<close>

definition event_explains ::
  "state_machine_data \<Rightarrow> state_machine_data \<Rightarrow> string \<Rightarrow> namespace_grant_audit_event \<Rightarrow> bool" where
  "event_explains data data' h ev \<longleftrightarrow>
     (\<exists>i. ae_grant_id ev = Some i \<and> ae_namespace ev = h \<and> ae_before ev = grant_at data h i \<and>
          ae_after ev = grant_at data' h i \<and> (\<forall>j. j \<noteq> i \<longrightarrow> grant_at data' h j = grant_at data h j))"

lemma put_grant_audit:
  assumes put: "namespace_put_grant data g0 actor_label reason audit_id = Some (Ok (data', x))"
  shows "\<exists>ev. audit_of data' (ng_namespace g0) = audit_of data (ng_namespace g0) @ [ev]
      \<and> event_explains data data' (ng_namespace g0) ev"
    and "h \<noteq> ng_namespace g0 \<Longrightarrow> audit_of data' h = audit_of data h \<and> (\<forall>i. grant_at data' h i = grant_at data h i)"
  using put
  by (auto simp: namespace_put_grant_def Let_def audit_of_def event_explains_def grant_at_def bt_get_or_def
      split: option.splits)

lemma delete_grant_at:
  assumes del: "namespace_delete_grant data r = Ok (data', x)"
  shows "grant_at data' h i = (if h = dg_handle r \<and> i = dg_grant_id r then None else grant_at data h i)"
  using del
  by (auto simp: namespace_delete_grant_def Let_def grant_at_def bt_is_empty_get
      split: option.splits if_splits)

lemma delete_grant_audit:
  assumes del: "namespace_delete_grant data r = Ok (data', x)"
  shows "audit_of data' h = audit_of data h @
    (if h = dg_handle r \<and> grant_at data h (dg_grant_id r) \<noteq> None
     then [\<lparr>ae_id = dg_audit_id r, ae_namespace = h, ae_grant_id = Some (dg_grant_id r),
            ae_operation = AuditDelete, ae_actor = dg_actor r, ae_actor_label = dg_actor_label r,
            ae_reason = dg_reason r, ae_before = grant_at data h (dg_grant_id r), ae_after = None,
            ae_created_at = dg_now r\<rparr>]
     else [])"
  using del
  by (auto simp: namespace_delete_grant_def Let_def audit_of_def grant_at_def bt_get_or_def
      split: option.splits if_splits)

text \<open>One entry leaves the grants of a namespace alone, explains a change, or releases the namespace.\<close>

definition audit_step :: "state_machine_data \<Rightarrow> state_machine_data \<Rightarrow> string \<Rightarrow> bool" where
  "audit_step data data' h \<longleftrightarrow>
     (audit_of data' h = audit_of data h \<and> (\<forall>i. grant_at data' h i = grant_at data h i)) \<or>
     (\<exists>ev. audit_of data' h = audit_of data h @ [ev] \<and> event_explains data data' h ev) \<or>
     (audit_of data' h = audit_of data h \<and> bt_contains (namespaces data) h \<and>
      \<not> bt_contains (namespaces data') h \<and> (\<forall>i. grant_at data' h i = None))"

lemma audit_step_frame [frame_simps]:
  "namespace_grants data' = namespace_grants data \<Longrightarrow> namespace_grant_audit data' = namespace_grant_audit data \<Longrightarrow>
    audit_step data data' h"
  by (simp add: audit_step_def audit_of_def grant_at_def)

lemma release_audit:
  assumes "bt_get (namespaces data) k = Some ns"
  shows "audit_step data (release_namespace data k ns actor reason now) h"
  using assms by (cases "h = k")
    (auto simp: audit_step_def audit_of_def grant_at_def release_namespace_def bt_contains_def bt_get_or_def)

lemma delete_grant_step:
  assumes del: "namespace_delete_grant data r = Ok (data', x)"
  shows "audit_step data data' h"
proof (cases "h = dg_handle r \<and> grant_at data h (dg_grant_id r) \<noteq> None")
  case True
  then have "\<exists>ev. audit_of data' h = audit_of data h @ [ev] \<and> event_explains data data' h ev"
    unfolding event_explains_def by (auto simp: delete_grant_at [OF del] delete_grant_audit [OF del])
  then show ?thesis by (simp add: audit_step_def)
next
  case False
  then show ?thesis
    unfolding audit_step_def
    by (intro disjI1) (auto simp: delete_grant_at [OF del] delete_grant_audit [OF del])
qed

lemma apply_namespace_audit:
  assumes "apply_namespace data r = Some (Ok (data', x))"
  shows "audit_step data data' h"
proof (cases r)
  case (NamespaceClaim c)
  with assms show ?thesis
    by (intro audit_step_frame) (auto simp: namespace_claim_def Let_def split: if_splits option.splits)
next
  case (NamespaceDelete k actor reason now)
  with assms release_audit show ?thesis by (auto simp: namespace_delete_Ok)
next
  case (NamespaceAdminRevoke k actor now)
  with assms release_audit show ?thesis by (auto simp: namespace_admin_revoke_Ok)
next
  case (NamespacePutGrant grant actor_label reason audit_id)
  with assms put_grant_audit [of data grant actor_label reason audit_id data' x] show ?thesis
    unfolding audit_step_def by (cases "h = ng_namespace grant") auto
next
  case (NamespaceDeleteGrant d)
  with assms delete_grant_step show ?thesis by auto
next
  case (NamespacePutObservedIdentity identity)
  with assms show ?thesis by (intro audit_step_frame) auto
qed

lemma apply_request_audit:
  assumes "apply_request env now data req = Some (data', resp)"
  shows "audit_step data data' h"
  using assms
proof (cases rule: apply_request_cases)
  case Unchanged
  then show ?thesis by (intro audit_step_frame) simp_all
next
  case (Manifest r x)
  from this(2) show ?thesis by (rule manifest_frame) (intro audit_step_frame, simp_all)
next
  case (MirrorConfig r x)
  from this(2) show ?thesis by (rule mirror_config_frame) (intro audit_step_frame, simp_all)
next
  case (Job r x)
  from this(2) show ?thesis by (rule job_frame) (intro audit_step_frame, simp_all)
next
  case (Token r x)
  from this(2) show ?thesis by (rule token_frame) (intro audit_step_frame, simp_all)
next
  case (Policy r x)
  from this(2) show ?thesis by (rule policy_frame) (intro audit_step_frame, simp_all)
next
  case (Repository r x)
  from this(2) show ?thesis by (rule repository_frame) (intro audit_step_frame, simp_all)
next
  case (Namespace r x)
  from this(2) show ?thesis by (rule apply_namespace_audit)
qed

end
