(* ===== verification/Stores.thy ===== *)
theory Stores
  imports Replication
begin

text \<open>
  The keyed stores of the state machine: jobs and their run history, tokens, policies, mirror
  configuration.  Every record is stored under its own id, the run history of a job is bounded, stored
  policies were validated, and a job is claimed by one node at a time.
\<close>

section \<open>Keyed stores\<close>

definition keyed :: "('v \<Rightarrow> 'k::linorder) \<Rightarrow> ('k, 'v) btmap \<Rightarrow> bool" where
  "keyed f m \<longleftrightarrow> (\<forall>k v. bt_get m k = Some v \<longrightarrow> f v = k)"

lemma keyed_simps [simp]:
  "keyed f bt_empty"
  "keyed f m \<Longrightarrow> f v = k \<Longrightarrow> keyed f (bt_insert k v m)"
  "keyed f m \<Longrightarrow> keyed f (bt_remove k m)"
  by (auto simp: keyed_def)

lemma keyed_update: "keyed f m \<Longrightarrow> bt_get m k = Some v \<Longrightarrow> f v' = f v \<Longrightarrow> keyed f (bt_insert k v' m)"
  by (simp add: keyed_def)

section \<open>The run history\<close>

definition run_history_wf :: "string \<Rightarrow> sync_job_run list \<Rightarrow> bool" where
  "run_history_wf i runs \<longleftrightarrow>
     length runs \<le> 50 \<and> distinct (map run_id runs) \<and> (\<forall>r \<in> set runs. run_job_id r = i)"

lemma put_run_known:
  assumes "find_index (\<lambda>r. run_id r = run_id run) runs = Some pos"
  shows "put_run run runs = runs[pos := run]" and "map run_id (put_run run runs) = map run_id runs"
proof -
  have pos: "pos < length runs" "run_id (runs ! pos) = run_id run"
    using find_index_Some [OF assms] by simp_all
  show "put_run run runs = runs[pos := run]"
    using assms by (simp add: put_run_def)
  with pos show "map run_id (put_run run runs) = map run_id runs"
    by (metis list_update_id map_update nth_map)
qed

lemma put_run_new:
  assumes "find_index (\<lambda>r. run_id r = run_id run) runs = None"
  shows "put_run run runs = drop (Suc (length runs) - 50) runs @ [run]"
  using assms by (auto simp: put_run_def Let_def)

lemma put_run_wf:
  assumes "run_history_wf (run_job_id run) runs"
  shows "run_history_wf (run_job_id run) (put_run run runs)"
proof (cases "find_index (\<lambda>r. run_id r = run_id run) runs")
  case None
  then have new: "run_id run \<notin> run_id ` set runs"
    by (auto simp: find_index_None)
  have sub: "x \<in> set runs" if "x \<in> set (drop n runs)" for n x
    using that by (rule in_set_dropD)
  have "distinct (map run_id (drop n runs))" for n
    using assms by (simp add: run_history_wf_def drop_map [symmetric])
  with new assms show ?thesis
    unfolding run_history_wf_def put_run_new [OF None] by (auto dest: sub)
next
  case (Some pos)
  have "set (runs[pos := run]) \<subseteq> insert run (set runs)"
    by (rule set_update_subset_insert)
  with assms Some show ?thesis
    unfolding run_history_wf_def put_run_known(2) [OF Some] by (auto simp: put_run_known(1) [OF Some])
qed

text \<open>The run just written is in the history, in the place of its earlier version if it had one.\<close>

lemma put_run_in: "run \<in> set (put_run run runs)"
proof (cases "find_index (\<lambda>r. run_id r = run_id run) runs")
  case None
  then show ?thesis by (simp add: put_run_new)
next
  case (Some pos)
  then show ?thesis
    using find_index_Some [OF Some] by (simp add: put_run_known(1) set_update_memI)
qed

section \<open>The invariant\<close>

definition stores_wf :: "env \<Rightarrow> state_machine_data \<Rightarrow> bool" where
  "stores_wf env data \<longleftrightarrow>
     keyed sj_id (sync_jobs data) \<and>
     (\<forall>i runs. bt_get (sync_job_runs data) i = Some runs \<longrightarrow> run_history_wf i runs) \<and>
     keyed pat_id (personal_access_tokens data) \<and>
     keyed ps_id (policy_sets data) \<and>
     (\<forall>i p. bt_get (policy_sets data) i = Some p \<longrightarrow> validate_policy_set env p = Ok ()) \<and>
     keyed mr_id (mirror_rules data) \<and> keyed pc_id (proxy_caches data) \<and> keyed wi_id (warm_images data) \<and>
     keyed repo_name (repositories data) \<and> keyed oi_subject (observed_identities data)"

lemma apply_mirror_config_stores:
  assumes "stores_wf env data" and "apply_mirror_config now data r = (data', x)"
  shows "stores_wf env data'"
  using assms
  by (cases r)
    (auto simp: stores_wf_def trigger_mirror_rule_def trigger_proxy_cache_warm_def Let_def
      split: option.splits if_splits)

lemma apply_job_stores:
  assumes inv: "stores_wf env data" and req: "apply_job now data r = (data', x)"
  shows "stores_wf env data'"
proof (cases r)
  case (PutSyncJobRun run)
  have "run_history_wf (run_job_id run) (bt_get_or [] (sync_job_runs data) (run_job_id run))"
    using inv by (auto simp: stores_wf_def bt_get_or_def run_history_wf_def split: option.splits)
  from put_run_wf [OF this] req inv PutSyncJobRun show ?thesis
    by (auto simp: stores_wf_def split: if_splits)
next
  case (ClaimSyncJob i node)
  with inv req show ?thesis
    by (auto simp: stores_wf_def claim_sync_job_def split: option.splits if_splits intro!: keyed_update)
next
  case (TriggerSyncJob i)
  with inv req show ?thesis
    by (auto simp: stores_wf_def trigger_sync_job_def split: option.splits if_splits intro!: keyed_update)
qed (use inv req in \<open>auto simp: stores_wf_def split: if_splits\<close>)

lemma stores_wf_frame [frame_simps]:
  assumes "stores_wf env data"
  shows "stores_wf env (data\<lparr>manifests := ms, tags := ts, blob_ref_counts := rc, blob_delete_requests := bd,
       proxy_cache_tag_validations := tv\<rparr>)"
    and "stores_wf env (data\<lparr>last_applied_log := l\<rparr>) \<longleftrightarrow> stores_wf env data"
    and "stores_wf env (data\<lparr>last_membership := m\<rparr>) \<longleftrightarrow> stores_wf env data"
  using assms by (simp_all add: stores_wf_def)

lemma apply_namespace_observed:
  assumes "keyed oi_subject (observed_identities data)" and "apply_namespace data r = Some (Ok (data', x))"
  shows "keyed oi_subject (observed_identities data')"
  using assms
  by (cases r)
    (auto simp: namespace_claim_def namespace_delete_def namespace_admin_revoke_def release_namespace_def
      namespace_put_grant_def namespace_delete_grant_def Let_def split: if_splits option.splits)

lemma apply_request_stores:
  assumes inv: "stores_wf env data" and req: "apply_request env now data req = Some (data', resp)"
  shows "stores_wf env data'"
  using req
proof (cases rule: apply_request_cases)
  case Unchanged
  with inv show ?thesis by simp
next
  case (Manifest r x)
  from this(2) show ?thesis by (rule manifest_frame) (simp add: stores_wf_frame(1) [OF inv])
next
  case (MirrorConfig r x)
  from inv this(2) show ?thesis by (rule apply_mirror_config_stores)
next
  case (Job r x)
  from inv this(2) show ?thesis by (rule apply_job_stores)
next
  case (Token r x)
  with inv show ?thesis by (cases r) (auto simp: stores_wf_def delete_personal_access_token_def Let_def split: if_splits)
next
  case (Policy r x)
  with inv show ?thesis by (cases r) (auto simp: stores_wf_def split: if_splits)
next
  case (Repository r x)
  with inv show ?thesis by (cases r) (auto simp: stores_wf_def)
next
  case (Namespace r x)
  have "keyed oi_subject (observed_identities data)"
    using inv by (simp add: stores_wf_def)
  then have obs: "keyed oi_subject (observed_identities data')"
    using Namespace(2) by (rule apply_namespace_observed)
  from Namespace(2) show ?thesis
  proof (rule namespace_frame)
    fix ns rh ng oi ga
    assume "data' = data\<lparr>namespaces := ns, released_handles := rh, namespace_grants := ng,
      observed_identities := oi, namespace_grant_audit := ga\<rparr>"
    with inv obs show ?thesis by (simp add: stores_wf_def)
  qed
qed

interpretation stores: invariant_machine "entry_step env" "stores_wf env" for env
  by (rule request_invariant_machine [OF _ apply_request_stores])
    (simp_all add: ignores_log_def stores_wf_def)

lemma stores_reachable: "apply_entries env empty_state es = Some (data, rs) \<Longrightarrow> stores_wf env data"
  unfolding apply_entries_run
  by (rule stores.inv_run) (simp_all add: stores_wf_def empty_state_def)

section \<open>One claim at a time\<close>

text \<open>The requests that may store a new version of job \<open>i\<close> without looking at its status.\<close>

fun job_writer :: "string \<Rightarrow> request \<Rightarrow> bool" where
  "job_writer i (ReqJob (PutSyncJob job)) = (sj_id job = i)"
| "job_writer i (ReqJob (DeleteSyncJob k)) = (k = i)"
| "job_writer i (ReqMirrorConfig (TriggerMirrorRule _)) = True"
| "job_writer i (ReqMirrorConfig (TriggerProxyCacheWarm _)) = True"
| "job_writer i _ = False"

fun entry_writes_job :: "string \<Rightarrow> log_entry \<Rightarrow> bool" where
  "entry_writes_job i e = (case le_payload e of Normal req \<Rightarrow> job_writer i req | _ \<Rightarrow> False)"

fun is_claim :: "string \<Rightarrow> entry_payload \<Rightarrow> bool" where
  "is_claim i (Normal (ReqJob (ClaimSyncJob k _))) = (k = i)"
| "is_claim i _ = False"

definition claim_won :: "string \<Rightarrow> (u64 \<times> log_entry) \<times> response \<Rightarrow> bool" where
  "claim_won i er \<longleftrightarrow> is_claim i (le_payload (snd (fst er))) \<and> snd er = RespJob (JobBool True)"

definition job_running :: "state_machine_data \<Rightarrow> string \<Rightarrow> bool" where
  "job_running data i \<longleftrightarrow> (\<exists>j. bt_get (sync_jobs data) i = Some j \<and> sj_status j = Running)"

lemma job_running_log [simp]:
  "job_running (data\<lparr>last_applied_log := l\<rparr>) i = job_running data i"
  "job_running (data\<lparr>last_membership := m\<rparr>) i = job_running data i"
  by (simp_all add: job_running_def)

lemma other_domain_jobs:
  assumes "apply_request env now data req = Some (data', resp)" and "\<And>r. req \<noteq> ReqJob r"
    and "\<not> job_writer i req"
  shows "job_running data' i = job_running data i"
  using assms(1)
proof (cases rule: apply_request_cases)
  case (Manifest r x)
  from this(2) show ?thesis by (rule manifest_frame) (simp add: job_running_def)
next
  case (MirrorConfig r x)
  with assms(3) show ?thesis by (cases r) (auto simp: job_running_def)
next
  case (Token r x)
  from this(2) show ?thesis by (rule token_frame) (simp add: job_running_def)
next
  case (Policy r x)
  from this(2) show ?thesis by (rule policy_frame) (simp add: job_running_def)
next
  case (Repository r x)
  from this(2) show ?thesis by (rule repository_frame) (simp add: job_running_def)
next
  case (Namespace r x)
  from this(2) show ?thesis by (rule namespace_frame) (simp add: job_running_def)
qed (use assms(2) in simp_all)

lemma job_request_running:
  assumes "apply_job now data r = (data', x)" and "\<not> job_writer i (ReqJob r)"
  shows "job_running data i \<Longrightarrow> job_running data' i"
    and "r = ClaimSyncJob i node \<Longrightarrow> x = JobBool True \<longleftrightarrow> \<not> job_running data i \<and> bt_contains (sync_jobs data) i"
    and "r = ClaimSyncJob i node \<Longrightarrow> x = JobBool True \<Longrightarrow> job_running data' i"
proof -
  have idle: "s \<noteq> Idle \<longleftrightarrow> s = Running" for s by (cases s) auto
  show "job_running data i \<Longrightarrow> job_running data' i"
    using assms
    by (cases r) (auto simp: job_running_def claim_sync_job_def trigger_sync_job_def split: option.splits if_splits)
  show "r = ClaimSyncJob i node \<Longrightarrow> x = JobBool True \<longleftrightarrow> \<not> job_running data i \<and> bt_contains (sync_jobs data) i"
    using assms
    by (auto simp: job_running_def claim_sync_job_def bt_contains_def idle split: option.splits if_splits)
  show "r = ClaimSyncJob i node \<Longrightarrow> x = JobBool True \<Longrightarrow> job_running data' i"
    using assms by (auto simp: job_running_def claim_sync_job_def split: option.splits if_splits)
qed

lemma is_claim_payload: "is_claim i p \<longleftrightarrow> (\<exists>node. p = Normal (ReqJob (ClaimSyncJob i node)))"
  by (induction i p rule: is_claim.induct) auto

lemma entry_claim_step:
  assumes step: "entry_step env data ne = Some (data', resp)" and keep: "\<not> entry_writes_job i (snd ne)"
  shows "(job_running data i \<longrightarrow> job_running data' i \<and> \<not> claim_won i (ne, resp)) \<and>
    (claim_won i (ne, resp) \<longrightarrow> job_running data' i)"
proof (cases "\<exists>r. le_payload (snd ne) = Normal (ReqJob r)")
  case True
  then obtain r where r: "le_payload (snd ne) = Normal (ReqJob r)" ..
  let ?data = "data\<lparr>last_applied_log := Some (le_log_id (snd ne))\<rparr>"
  obtain x where x: "apply_job (fst ne) ?data r = (data', x)" "resp = RespJob x"
    using step r by (auto simp: entry_step_def apply_entry_def Let_def split: prod.splits)
  have keep': "\<not> job_writer i (ReqJob r)" using keep r by simp
  show ?thesis
    using job_request_running [OF x(1) keep'] r x(2) by (auto simp: claim_won_def is_claim_payload)
next
  case False
  then have "\<not> claim_won i (ne, resp)" by (auto simp: claim_won_def is_claim_payload)
  moreover from step have "job_running data' i = job_running data i"
  proof (cases rule: entry_step_cases)
    case (Normal req)
    with False keep have "job_running data' i
        = job_running (data\<lparr>last_applied_log := Some (le_log_id (snd ne))\<rparr>) i"
      by (intro other_domain_jobs) auto
    then show ?thesis by simp
  qed simp_all
  ultimately show ?thesis by simp
qed

lemma claims_won_run:
  assumes "run_steps (entry_step env) data es = Some (data', rs)"
    and "\<forall>ne \<in> set es. \<not> entry_writes_job i (snd ne)"
  shows "length (filter (claim_won i) (zip es rs)) \<le> (if job_running data i then 0 else 1)"
  using assms
proof (induction es arbitrary: data rs)
  case (Cons ne es)
  then obtain d1 r rs' where step: "entry_step env data ne = Some (d1, r)"
    and run: "run_steps (entry_step env) d1 es = Some (data', rs')" and rs: "rs = r # rs'"
    unfolding run_steps_Cons by blast
  from entry_claim_step [OF step, of i] Cons.IH [OF run] Cons.prems(2) show ?case
    by (auto simp: rs split: if_splits)
qed simp

end
