(* ===== verification/Queries.thy ===== *)
theory Queries
  imports Manifest_Index Namespaces Stores "HOL-Library.Product_Lexorder"
begin

text \<open>
  The read-only helpers of \<^verbatim>\<open>StateMachineData\<close> the router answers from: listings with cursor
  pagination, summaries, referrers, the lookups by key, and the search over observed identities.
\<close>

section \<open>Definitions\<close>

definition blob_lifecycle_status :: "state_machine_data \<Rightarrow> digest \<Rightarrow> blob_lifecycle_status" where
  "blob_lifecycle_status data d =
     (let dig = digest_to_string d; ref_count = blob_ref_count_str data dig in
      \<lparr>bl_digest = dig, bl_referenced = (ref_count > 0), bl_ref_count = ref_count,
       bl_delete_requested = bt_contains (blob_delete_requests data) dig\<rparr>)"

text \<open>The body \<^verbatim>\<open>list_tags\<close> and \<^verbatim>\<open>list_repositories\<close> share: keys after the cursor, sorted, truncated.\<close>

definition page_of :: "string list \<Rightarrow> nat option \<Rightarrow> string option \<Rightarrow> string list" where
  "page_of ks n lst =
     (let after = (case lst of None \<Rightarrow> ks | Some l \<Rightarrow> filter (\<lambda>k. k > l) ks);
          sorted_keys = sort after
      in case n of None \<Rightarrow> sorted_keys | Some m \<Rightarrow> take m sorted_keys)"

definition list_tags :: "state_machine_data \<Rightarrow> string \<Rightarrow> nat option \<Rightarrow> string option \<Rightarrow> string list" where
  "list_tags data name n lst =
     (case bt_get (tags data) name of
        None \<Rightarrow> []
      | Some repo_tags \<Rightarrow> page_of (bt_keys repo_tags) n lst)"

definition list_repositories :: "state_machine_data \<Rightarrow> nat option \<Rightarrow> string option \<Rightarrow> string list" where
  "list_repositories data n lst = page_of (bt_keys (manifests data)) n lst"

definition pushed_summary :: "env \<Rightarrow> state_machine_data \<Rightarrow> string \<times> (string, manifest_entry) btmap \<Rightarrow> repository_summary" where
  "pushed_summary env data nr =
     (let name = fst nr; repo_manifests = snd nr; meta = bt_get (repositories data) name in
      \<lparr>rs_name = name,
       rs_tag_count = (case bt_get (tags data) name of None \<Rightarrow> 0 | Some t \<Rightarrow> bt_len t),
       rs_manifest_count = bt_len repo_manifests,
       rs_stored_size_bytes = repository_stored_size_bytes (env_from_slice env) repo_manifests,
       rs_manifest_size_bytes = repository_manifest_size_bytes repo_manifests,
       rs_last_modified = fold max (map me_last_modified (bt_values repo_manifests)) 0,
       rs_description = (case meta of None \<Rightarrow> [] | Some r \<Rightarrow> repo_description r),
       rs_created_by = Option.bind meta repo_created_by,
       rs_visibility = (case meta of None \<Rightarrow> Private | Some r \<Rightarrow> repo_visibility r)\<rparr>)"

definition shadow_summary :: "string \<times> repository \<Rightarrow> repository_summary" where
  "shadow_summary nr =
     \<lparr>rs_name = fst nr, rs_tag_count = 0, rs_manifest_count = 0, rs_stored_size_bytes = 0,
      rs_manifest_size_bytes = 0, rs_last_modified = repo_created_at (snd nr),
      rs_description = repo_description (snd nr), rs_created_by = repo_created_by (snd nr),
      rs_visibility = repo_visibility (snd nr)\<rparr>"

definition list_repository_summaries :: "env \<Rightarrow> state_machine_data \<Rightarrow> repository_summary list" where
  "list_repository_summaries env data =
     map (pushed_summary env data) (bt_entries (manifests data)) @
     map shadow_summary (filter (\<lambda>nr. \<not> bt_contains (manifests data) (fst nr)) (bt_entries (repositories data)))"

definition list_manifest_summaries :: "env \<Rightarrow> state_machine_data \<Rightarrow> string \<Rightarrow> manifest_summary list" where
  "list_manifest_summaries env data name =
     (case bt_get (manifests data) name of
        None \<Rightarrow> []
      | Some repo_manifests \<Rightarrow>
          build_manifest_summaries (env_from_slice env) repo_manifests (bt_get (tags data) name))"

definition referrer_of :: "manifest_entry \<Rightarrow> referrer_entry" where
  "referrer_of entry =
     \<lparr>re_digest = me_digest entry, re_media_type = me_content_type entry,
      re_size = of_nat (length (me_body entry)), re_artifact_type = me_artifact_type entry,
      re_annotations = me_annotations entry\<rparr>"

definition list_referrers ::
  "state_machine_data \<Rightarrow> string \<Rightarrow> string \<Rightarrow> string option \<Rightarrow> referrer_entry list" where
  "list_referrers data name subject_digest artifact_type =
     (case bt_get (manifests data) name of
        None \<Rightarrow> []
      | Some repo_manifests \<Rightarrow>
          List.map_filter (\<lambda>entry.
            if map_option digest_to_string (me_subject entry) = Some subject_digest then
              let re = referrer_of entry in
              (case artifact_type of
                 Some flt \<Rightarrow> if re_artifact_type re = Some flt then Some re else None
               | None \<Rightarrow> Some re)
            else None) (bt_values repo_manifests))"

definition list_mirror_rules :: "state_machine_data \<Rightarrow> mirror_rule list" where
  "list_mirror_rules data = bt_values (mirror_rules data)"

definition get_mirror_rule :: "state_machine_data \<Rightarrow> string \<Rightarrow> mirror_rule option" where
  "get_mirror_rule data i = bt_get (mirror_rules data) i"

definition get_repository :: "state_machine_data \<Rightarrow> string \<Rightarrow> repository option" where
  "get_repository data name = bt_get (repositories data) name"

definition list_policy_sets :: "state_machine_data \<Rightarrow> policy_set list" where
  "list_policy_sets data = bt_values (policy_sets data)"

definition get_policy_set :: "state_machine_data \<Rightarrow> string \<Rightarrow> policy_set option" where
  "get_policy_set data i = bt_get (policy_sets data) i"

definition get_namespace :: "state_machine_data \<Rightarrow> string \<Rightarrow> namespace option" where
  "get_namespace data handle = bt_get (namespaces data) handle"

definition list_namespaces :: "state_machine_data \<Rightarrow> namespace list" where
  "list_namespaces data = bt_values (namespaces data)"

definition list_namespace_grants :: "state_machine_data \<Rightarrow> string \<Rightarrow> namespace_grant list" where
  "list_namespace_grants data handle =
     (case bt_get (namespace_grants data) handle of None \<Rightarrow> [] | Some grants \<Rightarrow> bt_values grants)"

definition get_namespace_grant :: "state_machine_data \<Rightarrow> string \<Rightarrow> string \<Rightarrow> namespace_grant option" where
  "get_namespace_grant data handle grant_id =
     Option.bind (bt_get (namespace_grants data) handle) (\<lambda>grants. bt_get grants grant_id)"

definition list_namespace_grant_audit :: "state_machine_data \<Rightarrow> string \<Rightarrow> namespace_grant_audit_event list" where
  "list_namespace_grant_audit data handle = bt_get_or [] (namespace_grant_audit data) handle"

definition identity_matches :: "env \<Rightarrow> string \<Rightarrow> observed_identity \<Rightarrow> bool" where
  "identity_matches env q i \<longleftrightarrow>
     q = [] \<or> contains_str q (env_to_lowercase env (oi_subject i)) \<or>
     (case oi_username i of None \<Rightarrow> False | Some v \<Rightarrow> contains_str q (env_to_lowercase env v)) \<or>
     (case oi_display_name i of None \<Rightarrow> False | Some v \<Rightarrow> contains_str q (env_to_lowercase env v)) \<or>
     (case oi_email i of None \<Rightarrow> False | Some v \<Rightarrow> contains_str q (env_to_lowercase env v))"

definition search_observed_identities :: "env \<Rightarrow> state_machine_data \<Rightarrow> string \<Rightarrow> nat \<Rightarrow> observed_identity list" where
  "search_observed_identities env data query limit =
     (let q = env_to_lowercase env (trim query);
          found = filter (identity_matches env q) (bt_values (observed_identities data));
          ordered = sort_key (\<lambda>i. (- int (unat (oi_last_seen_at i)), oi_subject i)) found
      in take limit ordered)"

definition get_released_handle :: "state_machine_data \<Rightarrow> string \<Rightarrow> released_handle option" where
  "get_released_handle data handle = bt_get (released_handles data) handle"

definition list_proxy_caches :: "state_machine_data \<Rightarrow> proxy_cache list" where
  "list_proxy_caches data = bt_values (proxy_caches data)"

definition get_proxy_cache :: "state_machine_data \<Rightarrow> string \<Rightarrow> proxy_cache option" where
  "get_proxy_cache data i = bt_get (proxy_caches data) i"

definition list_warm_images :: "state_machine_data \<Rightarrow> warm_image list" where
  "list_warm_images data = bt_values (warm_images data)"

definition get_warm_image :: "state_machine_data \<Rightarrow> string \<Rightarrow> warm_image option" where
  "get_warm_image data i = bt_get (warm_images data) i"

definition list_sync_jobs :: "state_machine_data \<Rightarrow> sync_job list" where
  "list_sync_jobs data = bt_values (sync_jobs data)"

definition get_sync_job :: "state_machine_data \<Rightarrow> string \<Rightarrow> sync_job option" where
  "get_sync_job data i = bt_get (sync_jobs data) i"

definition list_sync_job_runs :: "state_machine_data \<Rightarrow> string \<Rightarrow> nat \<Rightarrow> sync_job_run list" where
  "list_sync_job_runs data job_id limit =
     (let runs = bt_get_or [] (sync_job_runs data) job_id in drop (length runs - limit) runs)"

definition list_helm_charts :: "state_machine_data \<Rightarrow> helm_chart list" where
  "list_helm_charts data = bt_values (helm_charts data)"

definition list_helm_chart_versions :: "state_machine_data \<Rightarrow> string \<Rightarrow> helm_chart_version list option" where
  "list_helm_chart_versions data name = bt_get (helm_chart_versions data) name"

definition list_personal_access_tokens :: "state_machine_data \<Rightarrow> string \<Rightarrow> personal_access_token list" where
  "list_personal_access_tokens data sub =
     filter (\<lambda>t. pat_subject t = sub) (bt_values (personal_access_tokens data))"

definition get_personal_access_token_by_hash ::
  "state_machine_data \<Rightarrow> string \<Rightarrow> personal_access_token option" where
  "get_personal_access_token_by_hash data token_hash =
     find (\<lambda>t. pat_token_hash t = token_hash) (bt_values (personal_access_tokens data))"

section \<open>Pagination\<close>

lemma page_of_unbounded:
  "sorted_wrt (<) ks \<Longrightarrow> page_of ks None lst = (case lst of None \<Rightarrow> ks | Some l \<Rightarrow> filter (\<lambda>k. l < k) ks)"
  by (auto simp: page_of_def strict_sorted_iff sort_key_id_if_sorted sorted_filter [of id, simplified]
      split: option.splits)

lemma page_of_bounded: "page_of ks (Some m) lst = take m (page_of ks None lst)"
  by (simp add: page_of_def Let_def)

lemma sorted_le_last: "sorted ys \<Longrightarrow> x \<in> set ys \<Longrightarrow> x \<le> last ys"
  for x :: "'a::linorder"
  by (induction ys) auto

lemma filter_greater_take:
  fixes xs :: "'a::linorder list"
  assumes "sorted_wrt (<) xs" and "take m xs \<noteq> []"
  shows "filter (\<lambda>k. last (take m xs) < k) xs = drop m xs"
proof -
  have xs: "xs = take m xs @ drop m xs" by simp
  have lt: "x < y" if "x \<in> set (take m xs)" "y \<in> set (drop m xs)" for x y
    using assms(1) that by (metis sorted_wrt_append append_take_drop_id)
  have le: "x \<le> last (take m xs)" if "x \<in> set (take m xs)" for x
  proof -
    have "sorted (take m xs)"
      using assms(1) by (simp add: strict_sorted_iff sorted_wrt_take)
    with that show ?thesis by (intro sorted_le_last)
  qed
  have "last (take m xs) \<in> set (take m xs)" using assms(2) by simp
  then have "filter (\<lambda>k. last (take m xs) < k) (drop m xs) = drop m xs"
    by (intro filter_True) (auto dest: lt)
  moreover have "filter (\<lambda>k. last (take m xs) < k) (take m xs) = []"
    using le by (auto simp: filter_empty_conv not_less)
  ultimately show ?thesis
    by (metis xs filter_append append_Nil)
qed

text \<open>The page after a page continues exactly where it stopped.\<close>

lemma page_continues:
  assumes "sorted_wrt (<) ks" and "page_of ks (Some m) l \<noteq> []"
  shows "page_of ks (Some m) l @ page_of ks None (Some (last (page_of ks (Some m) l))) = page_of ks None l"
proof -
  let ?xs = "page_of ks None l"
  have xs: "sorted_wrt (<) ?xs"
    using assms(1) by (auto simp: page_of_unbounded sorted_wrt_filter split: option.splits)
  have page: "page_of ks (Some m) l = take m ?xs" by (rule page_of_bounded)
  have "last (take m ?xs) \<in> set ?xs"
    using assms(2) in_set_takeD [of _ m ?xs] by (simp add: page)
  then have after: "l = Some l' \<Longrightarrow> l' < last (take m ?xs)" for l'
    using assms(1) by (auto simp: page_of_unbounded)
  have "page_of ks None (Some (last (take m ?xs))) = filter (\<lambda>k. last (take m ?xs) < k) ?xs"
    using assms(1) after by (cases l) (auto simp: page_of_unbounded intro!: filter_cong dest: less_trans)
  also have "\<dots> = drop m ?xs"
    using filter_greater_take [OF xs] assms(2) by (simp add: page)
  finally show ?thesis by (simp add: page)
qed

text \<open>A client that asks for the next page until it gets an empty one.\<close>

fun crawl :: "(string option \<Rightarrow> string list) \<Rightarrow> nat \<Rightarrow> string option \<Rightarrow> string list" where
  "crawl fetch 0 l = []"
| "crawl fetch (Suc fuel) l =
     (let p = fetch l in if p = [] then [] else p @ crawl fetch fuel (Some (last p)))"

lemma crawl_all:
  assumes "sorted_wrt (<) ks" and "0 < m" and "length (page_of ks None l) \<le> fuel"
  shows "crawl (page_of ks (Some m)) fuel l = page_of ks None l"
  using assms(3)
proof (induction fuel arbitrary: l)
  case (Suc fuel)
  let ?p = "page_of ks (Some m) l"
  show ?case
  proof (cases "?p = []")
    case True
    with \<open>0 < m\<close> have "page_of ks None l = []" by (simp add: page_of_bounded)
    with True show ?thesis by simp
  next
    case False
    note split = page_continues [OF assms(1) False]
    have "length (page_of ks None (Some (last ?p))) < length (page_of ks None l)"
      using False by (subst split [symmetric]) simp
    with Suc.prems have "length (page_of ks None (Some (last ?p))) \<le> fuel" by simp
    from Suc.IH [OF this] False split show ?thesis by (simp add: Let_def)
  qed
qed simp

end
