(* ===== verification/Snapshots.thy ===== *)
theory Snapshots
  imports Queries
begin

text \<open>
  Snapshots of the state machine: the versioned byte format, building one from the data, installing one
  received from the leader, and the normalization of restored metadata.  The JSON codec of the payload
  (\<^verbatim>\<open>serde_json\<close>) is the parameter pair \<open>to_vec\<close>, \<open>from_payload\<close>; \<open>show_leader\<close> prints OpenRaft's leader id.
\<close>

section \<open>Definitions\<close>

definition SNAPSHOT_VERSION :: u32 where "SNAPSHOT_VERSION = 1"

definition to_le_bytes :: "u32 \<Rightarrow> string" where
  "to_le_bytes w = map (\<lambda>i. char_of (unat w div 256 ^ i mod 256)) [0, 1, 2, 3]"

fun from_le_bytes :: "string \<Rightarrow> u32" where
  "from_le_bytes [] = 0"
| "from_le_bytes (c # cs) = of_nat (byte c) + 256 * from_le_bytes cs"

record snapshot_meta =
  meta_last_log_id :: "log_id option"
  meta_last_membership :: stored_membership
  meta_snapshot_id :: string

record state_machine =
  sm_data :: state_machine_data
  sm_snapshot :: "(snapshot_meta \<times> string) option"

datatype storage_error =
    ReadTooShort
  | ReadUnsupportedVersion u32
  | ReadPayload msg
  | WritePayload msg

definition state_machine_new :: "state_machine_data \<Rightarrow> state_machine" where
  "state_machine_new data = \<lparr>sm_data = data, sm_snapshot = None\<rparr>"

definition new_with_snapshot :: "state_machine_data \<Rightarrow> snapshot_meta \<Rightarrow> string \<Rightarrow> state_machine" where
  "new_with_snapshot data meta bytes = \<lparr>sm_data = data, sm_snapshot = Some (meta, bytes)\<rparr>"

definition applied_state :: "state_machine \<Rightarrow> log_id option \<times> stored_membership" where
  "applied_state sm = (last_applied_log (sm_data sm), last_membership (sm_data sm))"

definition snapshot_id_of :: "(u64 \<Rightarrow> u64 \<Rightarrow> string) \<Rightarrow> log_id option \<Rightarrow> string" where
  "snapshot_id_of show_leader l =
     (case l of None \<Rightarrow> ''empty''
      | Some i \<Rightarrow> show_leader (li_term i) (li_node i) @ ''-'' @ show_u64 (li_index i))"

definition build_snapshot ::
  "(u64 \<Rightarrow> u64 \<Rightarrow> string) \<Rightarrow> (state_machine_data \<Rightarrow> (string, msg) result) \<Rightarrow> state_machine_data
    \<Rightarrow> (snapshot_meta \<times> string, storage_error) result" where
  "build_snapshot show_leader to_vec data =
     (case to_vec data of
        Inl e \<Rightarrow> Err (WritePayload e)
      | Inr payload \<Rightarrow>
          Ok (\<lparr>meta_last_log_id = last_applied_log data, meta_last_membership = last_membership data,
               meta_snapshot_id = snapshot_id_of show_leader (last_applied_log data)\<rparr>,
              to_le_bytes SNAPSHOT_VERSION @ payload))"

definition normalize_entry :: "env \<Rightarrow> u64 \<Rightarrow> manifest_entry \<Rightarrow> manifest_entry" where
  "normalize_entry env now entry =
     (let value = env_from_slice env (me_body entry);
          refs = (if me_referenced_blobs entry = [] then
              (case value of None \<Rightarrow> [] | Some v \<Rightarrow> extract_referenced_digests v)
            else me_referenced_blobs entry);
          manifest_size = (if me_manifest_size_bytes entry = 0 then of_nat (length (me_body entry))
            else me_manifest_size_bytes entry);
          stored_size = (if me_stored_size_bytes entry = 0 then
              (case value of None \<Rightarrow> 0 | Some v \<Rightarrow> stored_size_bytes v)
            else me_stored_size_bytes entry);
          created = (if me_created_at entry = 0 then now else me_created_at entry);
          modified = (if me_last_modified entry = 0 then created else me_last_modified entry)
      in entry\<lparr>me_referenced_blobs := sort_dedup_digests refs, me_manifest_size_bytes := manifest_size,
               me_stored_size_bytes := stored_size, me_created_at := created, me_last_modified := modified\<rparr>)"

definition normalize_restored_metadata :: "env \<Rightarrow> u64 \<Rightarrow> state_machine_data \<Rightarrow> state_machine_data" where
  "normalize_restored_metadata env now data =
     rebuild_blob_ref_counts
       (data\<lparr>manifests := bt_map (\<lambda>_ repo. bt_map (\<lambda>_ entry. normalize_entry env now entry) repo)
          (manifests data)\<rparr>)"

definition install_snapshot ::
  "env \<Rightarrow> (string \<Rightarrow> (state_machine_data, msg) result) \<Rightarrow> u64 \<Rightarrow> snapshot_meta \<Rightarrow> string \<Rightarrow> state_machine
    \<Rightarrow> (state_machine, storage_error) result" where
  "install_snapshot env from_payload now meta bytes sm =
     (if length bytes < 4 then Err ReadTooShort
      else
        let version = from_le_bytes (take 4 bytes); payload = drop 4 bytes in
        if version \<noteq> SNAPSHOT_VERSION then Err (ReadUnsupportedVersion version)
        else (case from_payload payload of
            Inl e \<Rightarrow> Err (ReadPayload e)
          | Inr restored \<Rightarrow>
              let new_data = normalize_restored_metadata env now restored in
              Ok \<lparr>sm_data = new_data\<lparr>last_applied_log := meta_last_log_id meta,
                                  last_membership := meta_last_membership meta\<rparr>,
                  sm_snapshot = Some (meta, bytes)\<rparr>))"

definition get_current_snapshot :: "state_machine \<Rightarrow> (snapshot_meta \<times> string) option" where
  "get_current_snapshot sm = sm_snapshot sm"

section \<open>The byte format\<close>

lemma length_to_le_bytes [simp]: "length (to_le_bytes w) = 4"
  by (simp add: to_le_bytes_def)

lemma from_le_bytes_digits:
  "from_le_bytes (map (\<lambda>i. char_of (n div 256 ^ i mod 256)) [0..<k]) = of_nat (n mod 256 ^ k)"
proof (induction k arbitrary: n)
  case (Suc k)
  have "map (\<lambda>i. char_of (n div 256 ^ i mod 256)) [0..<Suc k] =
      char_of (n mod 256) # map (\<lambda>i. char_of (n div 256 div 256 ^ i mod 256) :: char) [0..<k]"
    by (simp add: map_upt_Suc div_mult2_eq del: upt_Suc)
  moreover have "n mod 256 ^ Suc k = 256 * (n div 256 mod 256 ^ k) + n mod 256"
    by (simp add: mod_mult2_eq)
  moreover have "byte (char_of (n mod 256)) = n mod 256"
    by (simp add: byte_def of_char_of)
  ultimately show ?case using Suc.IH [of "n div 256"] by (simp add: ac_simps)
qed simp

lemma from_to_le_bytes: "from_le_bytes (to_le_bytes w) = w"
proof -
  have "to_le_bytes w = map (\<lambda>i. char_of (unat w div 256 ^ i mod 256)) [0..<4]"
    by (simp add: to_le_bytes_def upt_conv_Cons)
  moreover have "unat w mod 256 ^ 4 = unat w"
  proof -
    have "unat w < 2 ^ LENGTH(32)" by (rule unsigned_less)
    then show ?thesis by simp
  qed
  ultimately show ?thesis
    using from_le_bytes_digits [of "unat w" 4] by simp
qed

lemma from_le_bytes_inject:
  assumes "length a = 4" and "length b = 4" and "from_le_bytes a = from_le_bytes b"
  shows "a = b"
proof -
  have four: "\<exists>w x y z. s = [w, x, y, z]" if "length s = 4" for s :: string
    using that by (auto simp: numeral_eq_Suc length_Suc_conv)
  have val: "from_le_bytes [w, x, y, z] = of_nat (byte w + 256 * (byte x + 256 * (byte y + 256 * byte z)))" for w x y z
    by simp
  have limit: "2 ^ LENGTH(32) = (4294967296 :: nat)" by simp
  have bound: "byte w + 256 * (byte x + 256 * (byte y + 256 * byte z)) < 2 ^ LENGTH(32)" for w x y z
  proof -
    have le: "byte c \<le> 255" for c using byte_less_256 [of c] by linarith
    have y: "byte y + 256 * byte z \<le> 65535" using le [of y] le [of z] by linarith
    have x: "byte x + 256 * (byte y + 256 * byte z) \<le> 16777215"
      using le [of x] mult_le_mono2 [OF y, of 256] by linarith
    show ?thesis unfolding limit using le [of w] mult_le_mono2 [OF x, of 256] by linarith
  qed
  have digit: "a' = b' \<and> m = n" if "a' + 256 * m = b' + 256 * n" "a' < 256" "b' < 256" for a' b' m n :: nat
    using that by (metis mod_mult_self2 mod_less add_left_cancel mult_cancel1 zero_neq_numeral)
  obtain w x y z w' x' y' z' where ab: "a = [w, x, y, z]" "b = [w', x', y', z']"
    using four [OF assms(1)] four [OF assms(2)] by blast
  have "byte w + 256 * (byte x + 256 * (byte y + 256 * byte z))
      = byte w' + 256 * (byte x' + 256 * (byte y' + 256 * byte z'))"
    using assms(3) bound [of w x y z] bound [of w' x' y' z']
    unfolding ab val by (metis unat_of_nat mod_less)
  then have w: "byte w = byte w'" and r1: "byte x + 256 * (byte y + 256 * byte z) = byte x' + 256 * (byte y' + 256 * byte z')"
    using digit byte_less_256 by blast+
  from r1 have x: "byte x = byte x'" and r2: "byte y + 256 * byte z = byte y' + 256 * byte z'"
    using digit byte_less_256 by blast+
  from r2 have "byte y = byte y'" and "byte z = byte z'"
    using digit byte_less_256 by blast+
  with w x show ?thesis unfolding ab byte_inject by simp
qed

section \<open>Normalization\<close>

lemma normalize_manifest_at:
  "manifest_at (normalize_restored_metadata env now data) n k =
     map_option (normalize_entry env now) (manifest_at data n k)"
  "tag_at (normalize_restored_metadata env now data) n t = tag_at data n t"
  by (cases "bt_get (manifests data) n";
      simp add: manifest_at_def tag_at_def normalize_restored_metadata_def rebuild_blob_ref_counts_def)+

lemma normalize_refs_sorted:
  "sorted_wrt (<) (map digest_to_string (me_referenced_blobs (normalize_entry env now e)))"
  by (simp add: normalize_entry_def Let_def sort_dedup_digests_sorted)

lemma normalize_digest [simp]: "me_digest (normalize_entry env now e) = me_digest e"
  by (simp add: normalize_entry_def Let_def)

lemma normalize_refs_wf:
  assumes "\<And>d. d \<in> set (me_referenced_blobs e) \<Longrightarrow> digest_wf d"
    and "d \<in> set (me_referenced_blobs (normalize_entry env now e))"
  shows "digest_wf d"
proof (rule sort_dedup_wf)
  let ?refs = "if me_referenced_blobs e = [] then
    (case env_from_slice env (me_body e) of None \<Rightarrow> [] | Some v \<Rightarrow> extract_referenced_digests v)
    else me_referenced_blobs e"
  show "d \<in> set (sort_dedup_digests ?refs)"
    using assms(2) by (simp add: normalize_entry_def Let_def)
  show "digest_wf d'" if "d' \<in> set ?refs" for d'
    using that assms(1) by (auto split: if_splits option.splits dest: extract_referenced_digests_wf)
qed

lemma normalize_entry_wf: "entry_wf k e \<Longrightarrow> entry_wf k (normalize_entry env now e)"
  using normalize_refs_wf [of e] by (auto simp: entry_wf_def normalize_refs_sorted)

lemma normalize_index_wf: "index_wf data \<Longrightarrow> index_wf (normalize_restored_metadata env now data)"
  unfolding index_wf_def normalize_manifest_at
  by (auto simp: normalize_entry_wf) (simp_all add: normalize_restored_metadata_def rebuild_blob_ref_counts_def)

text \<open>An entry that already has its fields is left alone.\<close>

definition entry_normal :: "env \<Rightarrow> manifest_entry \<Rightarrow> bool" where
  "entry_normal env e \<longleftrightarrow>
     sorted_wrt (<) (map digest_to_string (me_referenced_blobs e)) \<and>
     (me_referenced_blobs e = [] \<longrightarrow>
        (case env_from_slice env (me_body e) of None \<Rightarrow> True | Some v \<Rightarrow> extract_referenced_digests v = [])) \<and>
     (me_manifest_size_bytes e = 0 \<longrightarrow> of_nat (length (me_body e)) = (0 :: u64)) \<and>
     (me_stored_size_bytes e = 0 \<longrightarrow>
        (case env_from_slice env (me_body e) of None \<Rightarrow> True | Some v \<Rightarrow> stored_size_bytes v = 0)) \<and>
     me_created_at e \<noteq> 0 \<and> me_last_modified e \<noteq> 0"

lemma sort_dedup_Nil [simp]: "sort_dedup_digests xs = [] \<longleftrightarrow> xs = []"
proof
  assume "sort_dedup_digests xs = []"
  with sort_dedup_digests_set [of xs] show "xs = []" by simp
qed (simp add: sort_dedup_digests_def)

lemma normalize_entry_id: "entry_normal env e \<Longrightarrow> normalize_entry env now e = e"
  by (auto simp: entry_normal_def normalize_entry_def Let_def sort_dedup_digests_id
      split: option.splits)

lemma normalize_entry_normal: "now \<noteq> 0 \<Longrightarrow> entry_normal env (normalize_entry env now e)"
  unfolding entry_normal_def
  by (auto simp: normalize_refs_sorted) (auto simp: normalize_entry_def Let_def split: option.splits if_splits)

definition index_normal :: "env \<Rightarrow> state_machine_data \<Rightarrow> bool" where
  "index_normal env data \<longleftrightarrow> (\<forall>n k e. manifest_at data n k = Some e \<longrightarrow> entry_normal env e)"

lemma index_normal_entries:
  "index_normal env data \<longleftrightarrow>
    list_all (\<lambda>nr. list_all (\<lambda>ke. entry_normal env (snd ke)) (bt_entries (snd nr))) (bt_entries (manifests data))"
proof
  assume normal: "index_normal env data"
  have "entry_normal env (snd ke)" if "nr \<in> set (bt_entries (manifests data))" "ke \<in> set (bt_entries (snd nr))" for nr ke
  proof -
    have "bt_get (manifests data) (fst nr) = Some (snd nr)" "bt_get (snd nr) (fst ke) = Some (snd ke)"
      using that by (simp_all add: bt.entries_get [symmetric])
    with normal show ?thesis by (auto simp: index_normal_def manifest_at_def bind_eq_Some_conv)
  qed
  then show "list_all (\<lambda>nr. list_all (\<lambda>ke. entry_normal env (snd ke)) (bt_entries (snd nr))) (bt_entries (manifests data))"
    by (simp add: list_all_iff)
next
  assume all: "list_all (\<lambda>nr. list_all (\<lambda>ke. entry_normal env (snd ke)) (bt_entries (snd nr))) (bt_entries (manifests data))"
  have "entry_normal env e" if "bt_get (manifests data) n = Some r" "bt_get r k = Some e" for n r k e
    using all that bt.entries_get [of n r "manifests data"] bt.entries_get [of k e r]
    by (fastforce simp: list_all_iff)
  then show "index_normal env data" by (auto simp: index_normal_def manifest_at_def bind_eq_Some_conv)
qed

lemma normalize_index_normal: "now \<noteq> 0 \<Longrightarrow> index_normal env (normalize_restored_metadata env now data)"
  by (auto simp: index_normal_def normalize_manifest_at normalize_entry_normal)

lemma rebuild_id:
  assumes "refs_exact data" and "\<And>k. count (index_refs (manifests data)) k < 2 ^ 64"
  shows "rebuild_blob_ref_counts data = data"
proof -
  have "blob_ref_counts (rebuild_blob_ref_counts data) = blob_ref_counts data"
    using rebuild_refs_exact [OF assms(2)] assms(1)
    by (auto simp: refs_exact_def rebuild_blob_ref_counts_def intro: counts_match_unique)
  then show ?thesis by (simp add: rebuild_blob_ref_counts_def)
qed

lemma normalize_id:
  assumes "index_normal env data" and "refs_exact data"
    and "\<And>k. count (index_refs (manifests data)) k < 2 ^ 64"
  shows "normalize_restored_metadata env now data = data"
proof -
  have "bt_map (\<lambda>_. bt_map (\<lambda>_. normalize_entry env now)) (manifests data) = manifests data"
  proof (rule bt_ext)
    fix n
    have "bt_map (\<lambda>_. normalize_entry env now) repo = repo" if "bt_get (manifests data) n = Some repo" for repo
    proof (rule bt_ext)
      fix k show "bt_get (bt_map (\<lambda>_. normalize_entry env now) repo) k = bt_get repo k"
        using assms(1) that by (cases "bt_get repo k")
          (auto simp: index_normal_def manifest_at_def bind_eq_Some_conv intro!: normalize_entry_id)
    qed
    then show "bt_get (bt_map (\<lambda>_. bt_map (\<lambda>_. normalize_entry env now)) (manifests data)) n = bt_get (manifests data) n"
      by (cases "bt_get (manifests data) n") simp_all
  qed
  then show ?thesis
    using rebuild_id [OF assms(2,3)] by (simp add: normalize_restored_metadata_def)
qed

section \<open>Complete logs\<close>

text \<open>
  The manifests a server commits are built with \<^const>\<open>entry_from_parsed_json\<close>, which fills in the sizes and the
  times; \<^verbatim>\<open>apply\<close> fills in the references.  So the entries of a log of such requests have all their fields.
\<close>

definition put_complete :: "env \<Rightarrow> put_manifest_request \<Rightarrow> bool" where
  "put_complete env r \<longleftrightarrow>
     (pm_manifest_size_bytes r = 0 \<longrightarrow> of_nat (length (pm_body r)) = (0 :: u64)) \<and>
     (pm_stored_size_bytes r = 0 \<longrightarrow> (case env_from_slice env (pm_body r) of None \<Rightarrow> True | Some v \<Rightarrow> stored_size_bytes v = 0)) \<and>
     pm_created_at r \<noteq> 0 \<and> pm_last_modified r \<noteq> 0"

definition log_complete :: "env \<Rightarrow> (u64 \<times> log_entry) list \<Rightarrow> bool" where
  "log_complete env es \<longleftrightarrow>
     list_all (\<lambda>ne. case le_payload (snd ne) of Normal (ReqManifest (PutManifest r)) \<Rightarrow> put_complete env r | _ \<Rightarrow> True) es"

lemma put_entry_normal: "put_complete env r \<Longrightarrow> entry_normal env (put_manifest_entry env r)"
proof -
  assume r: "put_complete env r"
  have "me_referenced_blobs (put_manifest_entry env r) = put_manifest_refs env (pm_body r) (pm_referenced_blobs r)"
    by (simp add: put_manifest_entry_def)
  moreover have "put_manifest_refs env (pm_body r) (pm_referenced_blobs r) = [] \<Longrightarrow>
      (case env_from_slice env (pm_body r) of None \<Rightarrow> True | Some v \<Rightarrow> extract_referenced_digests v = [])"
    by (auto simp: put_manifest_refs_def Let_def split: if_splits option.splits)
  ultimately show ?thesis
    using r put_manifest_refs_sorted [of env r] by (simp add: entry_normal_def put_complete_def) (simp add: put_manifest_entry_def)
qed

lemma apply_manifest_entries:
  assumes "apply_manifest env data r = Ok (data', x)" and "manifest_at data' n k = Some e"
  shows "manifest_at data n k = Some e \<or> (\<exists>p. r = PutManifest p \<and> e = put_manifest_entry env p)"
proof (cases r)
  case (PutManifest p)
  with assms show ?thesis by (auto simp: put_manifest_def store_manifest_view split: if_splits)
next
  case (DeleteTag name expected dig tag)
  with assms delete_tag_view [of data name expected dig tag data' x] show ?thesis by auto
next
  case (DeleteRepositoryContent name expected)
  with assms delete_repository_content_view [of data name expected data' x] show ?thesis by (auto split: if_splits)
next
  case (RecordBlobDelete dig requested_at)
  with assms show ?thesis by (auto simp: record_blob_delete_def Let_def manifest_at_def)
next
  case (ClearBlobDelete dig)
  with assms show ?thesis by (auto simp: clear_blob_delete_def manifest_at_def)
qed (use assms in \<open>auto simp: delete_manifest_def delete_manifests_def mount_blob_def Let_def drop_digests_view split: if_splits\<close>)

lemma apply_request_entries:
  assumes "apply_request env now data req = Some (data', resp)" and at: "manifest_at data' n k = Some e"
  shows "manifest_at data n k = Some e \<or> (\<exists>p. req = ReqManifest (PutManifest p) \<and> e = put_manifest_entry env p)"
proof -
  have frame: "manifests data' = manifests data \<Longrightarrow> ?thesis" using at by (simp add: manifest_at_def)
  from assms(1) show ?thesis
  proof (cases rule: apply_request_cases)
    case (Manifest r x)
    then show ?thesis using apply_manifest_entries [OF Manifest(2) at] by blast
  next
    case (MirrorConfig r x)
    from this(2) show ?thesis by (rule mirror_config_frame) (rule frame, simp)
  next
    case (Job r x)
    from this(2) show ?thesis by (rule job_frame) (rule frame, simp)
  next
    case (Token r x)
    from this(2) show ?thesis by (rule token_frame) (rule frame, simp)
  next
    case (Policy r x)
    from this(2) show ?thesis by (rule policy_frame) (rule frame, simp)
  next
    case (Repository r x)
    from this(2) show ?thesis by (rule repository_frame) (rule frame, simp)
  next
    case (Namespace r x)
    from this(2) show ?thesis by (rule namespace_frame) (rule frame, simp)
  qed (use frame in simp_all)
qed

text \<open>The machine that takes only complete entries.\<close>

definition complete_step ::
  "env \<Rightarrow> state_machine_data \<Rightarrow> u64 \<times> log_entry \<Rightarrow> (state_machine_data \<times> response) option" where
  "complete_step env data ne = (if log_complete env [ne] then entry_step env data ne else None)"

interpretation complete: invariant_machine "complete_step env" "index_normal env" for env
proof
  fix data data' :: state_machine_data and ne r
  assume inv: "index_normal env data" and "complete_step env data ne = Some (data', r)"
  then have ok: "log_complete env [ne]" and "entry_step env data ne = Some (data', r)"
    by (simp_all add: complete_step_def split: if_splits)
  from this(2) show "index_normal env data'"
  proof (cases rule: entry_step_cases)
    case (Normal req)
    show ?thesis
      unfolding index_normal_def
    proof (intro allI impI)
      fix n k e assume "manifest_at data' n k = Some e"
      from apply_request_entries [OF Normal(2) this] show "entry_normal env e"
        using inv ok Normal(1) put_entry_normal by (auto simp: index_normal_def log_complete_def manifest_at_def)
    qed
  qed (use inv in \<open>simp_all add: index_normal_def manifest_at_def\<close>)
qed

lemma complete_run: "log_complete env es \<Longrightarrow> run_steps (complete_step env) data es = run_steps (entry_step env) data es"
  by (induction es arbitrary: data) (auto simp: log_complete_def complete_step_def)

lemma index_normal_reachable:
  assumes "apply_entries env empty_state es = Some (data, rs)" and "log_complete env es"
  shows "index_normal env data"
proof (rule complete.inv_run)
  show "index_normal env empty_state" by (simp add: index_normal_def manifest_at_def empty_state_def)
  show "run_steps (complete_step env) empty_state es = Some (data, rs)"
    using assms by (simp add: complete_run apply_entries_run)
qed

text \<open>So a state that a log of complete entries leads to is restored as it was.\<close>

lemma normalize_reachable:
  assumes "apply_entries env empty_state es = Some (data, rs)" and "log_complete env es" and "length es < 2 ^ 64"
  shows "normalize_restored_metadata env now data = data"
proof (rule normalize_id)
  have inv: "refs_inv (length es) data" by (rule refs_reachable [OF assms(1)])
  show "index_normal env data" using assms(1,2) by (rule index_normal_reachable)
  show "refs_exact data" using inv assms(3) by (simp add: refs_inv_def)
  show "count (index_refs (manifests data)) k < 2 ^ 64" for k
    using refs_inv_le [OF inv, of k] assms(3) by simp
qed

end
