(* ===== verification/Gc.thy ===== *)
theory Gc
  imports Manifest_Index
begin

text \<open>
  Garbage collection of blobs (\<^verbatim>\<open>gc.rs\<close>).  A sweep lists the stored objects, drops those the index
  references or that are younger than the grace period, reads the counts a second time, and deletes the
  rest in batches while the node stays leader.

  S3 is outside the sources: a listing page is the answer of \<open>list_page\<close> to a continuation token and a
  deletion is the answer of \<open>delete_objects\<close> to a list of keys (the number of per-key errors).  The two
  readings of the shared counts are the arguments \<open>counts\<close> and \<open>fresh\<close>, the answers of \<^verbatim>\<open>still_leader\<close> the
  function \<open>leader\<close> from the number of the call.  Times are nanoseconds since the epoch.
\<close>

section \<open>Definitions\<close>

record gc_blob_object =
  go_key :: string
  go_digest :: string
  go_last_modified :: "nat option"

record gc_delete_outcome =
  gd_deleted :: nat
  gd_errors :: nat

record gc_config =
  gc_interval_secs :: u64
  gc_grace_period_secs :: u64
  gc_dry_run :: bool

definition gc_config_default :: gc_config where
  "gc_config_default = \<lparr>gc_interval_secs = 3600, gc_grace_period_secs = 3600, gc_dry_run = False\<rparr>"

record gc_status =
  gs_last_run_at :: u64
  gs_duration_ms :: u64
  gs_scanned :: nat
  gs_candidates :: nat
  gs_deleted :: nat
  gs_skipped_referenced :: nat
  gs_skipped_young :: nat
  gs_delete_errors :: nat
  gs_dry_run :: bool
  gs_leadership_lost :: bool
  gs_last_error :: "msg option"

definition gc_status_default :: gc_status where
  "gc_status_default =
     \<lparr>gs_last_run_at = 0, gs_duration_ms = 0, gs_scanned = 0, gs_candidates = 0, gs_deleted = 0,
      gs_skipped_referenced = 0, gs_skipped_young = 0, gs_delete_errors = 0, gs_dry_run = False,
      gs_leadership_lost = False, gs_last_error = None\<rparr>"

definition s3_key_to_digest :: "string \<Rightarrow> string option" where
  "s3_key_to_digest key =
     (case splitn 4 (CHR ''/'') key of
        [a, b, c, d] \<Rightarrow> if a = ''blobs'' \<and> starts_with c d then Some (b @ '':'' @ d) else None
      | _ \<Rightarrow> None)"

text \<open>One page of \<^verbatim>\<open>list_objects_v2\<close>: keys with their modification time in seconds.\<close>

record object_page =
  op_contents :: "(string option \<times> int option) list"
  op_is_truncated :: "bool option"
  op_next_token :: "string option"

definition object_of :: "string option \<times> int option \<Rightarrow> gc_blob_object option" where
  "object_of obj =
     Option.bind (fst obj) (\<lambda>key.
       map_option (\<lambda>dig.
         \<lparr>go_key = key, go_digest = dig,
          go_last_modified = Option.bind (snd obj) (\<lambda>secs. if secs < 0 then None else Some (nat secs * 10 ^ 9))\<rparr>)
       (s3_key_to_digest key))"

partial_function (option) list_blob_loop ::
  "(string option \<Rightarrow> (object_page, msg) result) \<Rightarrow> string option \<Rightarrow> gc_blob_object list
    \<Rightarrow> gc_blob_object list lh_result option" where
  "list_blob_loop list_page token objects =
     (case list_page token of
        Inl m \<Rightarrow> Some (Err (S3 m))
      | Inr page \<Rightarrow>
          let objects' = objects @ List.map_filter object_of (op_contents page) in
          if op_is_truncated page = Some True then list_blob_loop list_page (op_next_token page) objects'
          else Some (Ok objects'))"

definition list_blob_objects ::
  "(string option \<Rightarrow> (object_page, msg) result) \<Rightarrow> gc_blob_object list lh_result option" where
  "list_blob_objects list_page = list_blob_loop list_page None []"

definition delete_blob_batch ::
  "(string list \<Rightarrow> (nat, layerhouse_error) result) \<Rightarrow> string list \<Rightarrow> gc_delete_outcome lh_result" where
  "delete_blob_batch delete_objects ks =
     res_bind (delete_objects ks) (\<lambda>errors. Ok \<lparr>gd_deleted = length ks - errors, gd_errors = errors\<rparr>)"

definition count_of :: "(string, u64) btmap \<Rightarrow> string \<Rightarrow> u64" where
  "count_of counts dig = bt_get_or 0 counts dig"

definition old_enough :: "nat \<Rightarrow> u64 \<Rightarrow> gc_blob_object \<Rightarrow> bool" where
  "old_enough now grace obj =
     (case go_last_modified obj of
        None \<Rightarrow> False
      | Some modified \<Rightarrow> if now < modified then False else now - modified \<ge> unat grace * 10 ^ 9)"

fun select_loop ::
  "(string, u64) btmap \<Rightarrow> nat \<Rightarrow> u64 \<Rightarrow> gc_blob_object list \<Rightarrow> gc_status \<Rightarrow> gc_status \<times> gc_blob_object list" where
  "select_loop counts now grace [] stats = (stats, [])"
| "select_loop counts now grace (obj # objs) stats =
     (if count_of counts (go_digest obj) > 0 then
        select_loop counts now grace objs (stats\<lparr>gs_skipped_referenced := gs_skipped_referenced stats + 1\<rparr>)
      else if \<not> old_enough now grace obj then
        select_loop counts now grace objs (stats\<lparr>gs_skipped_young := gs_skipped_young stats + 1\<rparr>)
      else
        (case select_loop counts now grace objs stats of (stats', keep) \<Rightarrow> (stats', obj # keep)))"

function chunks :: "nat \<Rightarrow> 'a list \<Rightarrow> 'a list list" where
  "chunks k xs = (if xs = [] \<or> k = 0 then [] else take k xs # chunks k (drop k xs))"
  by pat_completeness auto
termination
  by (relation "measure (\<lambda>(k, xs). length xs)") auto

declare chunks.simps [simp del]

text \<open>
  The deletion loop; it returns the batches it sent, in order, next to the statistics or the error that
  ended the sweep.
\<close>

fun delete_loop ::
  "(string list \<Rightarrow> gc_delete_outcome lh_result) \<Rightarrow> (nat \<Rightarrow> bool) \<Rightarrow> nat \<Rightarrow> gc_blob_object list list \<Rightarrow> gc_status
    \<Rightarrow> string list list \<times> gc_status lh_result" where
  "delete_loop delete_batch leader i [] stats = ([], Ok stats)"
| "delete_loop delete_batch leader i (chunk # rest) stats =
     (if \<not> leader i then ([], Ok (stats\<lparr>gs_leadership_lost := True\<rparr>))
      else
        let ks = map go_key chunk in
        (case delete_batch ks of
           Inl e \<Rightarrow> ([ks], Err e)
         | Inr outcome \<Rightarrow>
             (case delete_loop delete_batch leader (Suc i) rest
                (stats\<lparr>gs_deleted := gs_deleted stats + gd_deleted outcome,
                       gs_delete_errors := gs_delete_errors stats + gd_errors outcome\<rparr>) of
                (sent, r) \<Rightarrow> (ks # sent, r))))"

record gc_inputs =
  gi_epoch :: u64
  gi_now :: nat
  gi_elapsed_ms :: u64
  gi_objects :: "gc_blob_object list lh_result"
  gi_counts :: "(string, u64) btmap"
  gi_fresh :: "(string, u64) btmap"

definition run_gc_sweep ::
  "(string list \<Rightarrow> gc_delete_outcome lh_result) \<Rightarrow> gc_config \<Rightarrow> (nat \<Rightarrow> bool) \<Rightarrow> gc_inputs
    \<Rightarrow> string list list \<times> gc_status lh_result" where
  "run_gc_sweep delete_batch config leader inp =
     (let stats0 = gc_status_default\<lparr>gs_last_run_at := gi_epoch inp, gs_dry_run := gc_dry_run config\<rparr> in
      case gi_objects inp of
        Inl e \<Rightarrow> ([], Err e)
      | Inr objects \<Rightarrow>
          let stats1 = stats0\<lparr>gs_scanned := length objects\<rparr>;
              (stats2, selected) = select_loop (gi_counts inp) (gi_now inp) (gc_grace_period_secs config) objects stats1;
              to_delete = filter (\<lambda>obj. count_of (gi_fresh inp) (go_digest obj) = 0) selected;
              stats3 = stats2\<lparr>
                gs_skipped_referenced := gs_skipped_referenced stats2 + (length selected - length to_delete),
                gs_candidates := length to_delete\<rparr>
          in if gc_dry_run config then ([], Ok (stats3\<lparr>gs_duration_ms := gi_elapsed_ms inp\<rparr>))
             else
               (case delete_loop delete_batch leader 0 (chunks 1000 to_delete) stats3 of
                  (sent, r) \<Rightarrow>
                    (sent, res_bind r (\<lambda>stats. Ok (stats\<lparr>gs_duration_ms := gi_elapsed_ms inp\<rparr>)))))"

text \<open>One iteration of \<^verbatim>\<open>run_gc_loop\<close> after its sleep: a follower skips, a failed sweep records its error.\<close>

definition gc_tick ::
  "(string list \<Rightarrow> gc_delete_outcome lh_result) \<Rightarrow> gc_config \<Rightarrow> bool \<Rightarrow> (nat \<Rightarrow> bool) \<Rightarrow> gc_inputs \<Rightarrow> gc_status
    \<Rightarrow> string list list \<times> gc_status" where
  "gc_tick delete_batch config is_leader leader inp status =
     (if \<not> is_leader then ([], status)
      else (case run_gc_sweep delete_batch config leader inp of
          (sent, Inr stats) \<Rightarrow> (sent, stats)
        | (sent, Inl e) \<Rightarrow> (sent, status\<lparr>gs_last_error := Some (error_display e)\<rparr>)))"

section \<open>Selection and batches\<close>

definition candidates :: "gc_config \<Rightarrow> gc_inputs \<Rightarrow> gc_blob_object list \<Rightarrow> gc_blob_object list" where
  "candidates config inp objects =
     filter (\<lambda>obj. count_of (gi_counts inp) (go_digest obj) = 0 \<and>
       old_enough (gi_now inp) (gc_grace_period_secs config) obj \<and>
       count_of (gi_fresh inp) (go_digest obj) = 0) objects"

lemma select_loop_snd:
  "snd (select_loop counts now grace objs stats) =
     filter (\<lambda>obj. count_of counts (go_digest obj) = 0 \<and> old_enough now grace obj) objs"
  by (induction objs arbitrary: stats) (auto simp: word_neq_0_conv [symmetric] split_beta)

lemma select_loop_fst:
  "select_loop counts now grace objs stats = (stats', keep) \<Longrightarrow>
    gs_skipped_referenced stats' + gs_skipped_young stats' + length keep =
      gs_skipped_referenced stats + gs_skipped_young stats + length objs \<and>
    gs_scanned stats' = gs_scanned stats \<and> gs_deleted stats' = gs_deleted stats \<and>
    gs_delete_errors stats' = gs_delete_errors stats \<and> gs_leadership_lost stats' = gs_leadership_lost stats"
  by (induction objs arbitrary: stats stats' keep) (fastforce split: if_splits prod.splits)+

lemma concat_chunks: "0 < k \<Longrightarrow> concat (chunks k xs) = xs"
  by (induction k xs rule: chunks.induct) (subst chunks.simps, simp)

lemma chunks_length: "c \<in> set (chunks k xs) \<Longrightarrow> c \<noteq> [] \<and> length c \<le> k"
  by (induction k xs rule: chunks.induct) (subst (asm) chunks.simps, auto split: if_splits)

lemma delete_loop_prefix:
  "delete_loop del leader i cs stats = (sent, r) \<Longrightarrow> \<exists>rest. map (map go_key) cs = sent @ rest"
proof (induction cs arbitrary: i stats sent r)
  case (Cons c cs)
  then show ?case
    by (fastforce simp: Let_def split: if_splits sum.splits prod.splits)
qed simp

lemma delete_loop_stats:
  "delete_loop del leader i cs stats = (sent, Ok stats') \<Longrightarrow>
    gs_scanned stats' = gs_scanned stats \<and> gs_candidates stats' = gs_candidates stats \<and>
    gs_skipped_referenced stats' = gs_skipped_referenced stats \<and> gs_skipped_young stats' = gs_skipped_young stats"
proof (induction cs arbitrary: i stats sent)
  case (Cons c cs)
  then show ?case
    by (fastforce simp: Let_def split: if_splits sum.splits prod.splits)
qed simp

lemma delete_loop_all:
  assumes "\<And>j. leader j" and "\<And>ks. \<exists>o1. del ks = Ok o1"
  shows "\<exists>stats'. delete_loop del leader i cs stats = (map (map go_key) cs, Ok stats')
    \<and> gs_leadership_lost stats' = gs_leadership_lost stats"
proof (induction cs arbitrary: i stats)
  case (Cons c cs)
  obtain o1 where "del (map go_key c) = Ok o1" using assms(2) by blast
  with Cons [of "Suc i" "stats\<lparr>gs_deleted := gs_deleted stats + gd_deleted o1,
      gs_delete_errors := gs_delete_errors stats + gd_errors o1\<rparr>"] assms(1)
  show ?case by auto
qed simp

lemma sweep_candidates:
  assumes "gi_objects inp = Ok objects"
  obtains stats where "gs_candidates stats = length (candidates config inp objects)"
    and "gs_scanned stats = length objects"
    and "gs_skipped_referenced stats + gs_skipped_young stats + gs_candidates stats = gs_scanned stats"
    and "\<not> gs_leadership_lost stats"
    and "run_gc_sweep del config leader inp =
      (if gc_dry_run config then ([], Ok (stats\<lparr>gs_duration_ms := gi_elapsed_ms inp\<rparr>))
       else (case delete_loop del leader 0 (chunks 1000 (candidates config inp objects)) stats of
          (sent, r) \<Rightarrow> (sent, res_bind r (\<lambda>s. Ok (s\<lparr>gs_duration_ms := gi_elapsed_ms inp\<rparr>)))))"
proof -
  let ?stats1 = "gc_status_default\<lparr>gs_last_run_at := gi_epoch inp, gs_dry_run := gc_dry_run config,
    gs_scanned := length objects\<rparr>"
  obtain stats2 sel where sel: "select_loop (gi_counts inp) (gi_now inp) (gc_grace_period_secs config) objects ?stats1
      = (stats2, sel)" by (cases "select_loop (gi_counts inp) (gi_now inp) (gc_grace_period_secs config) objects ?stats1")
  have cand: "filter (\<lambda>obj. count_of (gi_fresh inp) (go_digest obj) = 0) sel = candidates config inp objects"
    using select_loop_snd [of "gi_counts inp" "gi_now inp" "gc_grace_period_secs config" objects ?stats1] sel
    by (simp add: candidates_def conj_assoc) 
  have le: "length (candidates config inp objects) \<le> length sel"
    unfolding cand [symmetric] by (rule length_filter_le)
  let ?stats = "stats2\<lparr>gs_skipped_referenced := gs_skipped_referenced stats2 + (length sel - length (candidates config inp objects)),
    gs_candidates := length (candidates config inp objects)\<rparr>"
  show ?thesis
  proof (rule that [of ?stats])
    show "gs_skipped_referenced ?stats + gs_skipped_young ?stats + gs_candidates ?stats = gs_scanned ?stats"
      "gs_scanned ?stats = length objects" "\<not> gs_leadership_lost ?stats"
      using select_loop_fst [OF sel] le by (simp_all add: gc_status_default_def)
  qed (simp_all add: run_gc_sweep_def assms sel cand Let_def)
qed

lemma sweep_sent:
  assumes "run_gc_sweep del config leader inp = (sent, r)" and "key \<in> set (concat sent)"
  obtains objects obj where "gi_objects inp = Ok objects" and "obj \<in> set objects" and "go_key obj = key"
    and "count_of (gi_fresh inp) (go_digest obj) = 0" and "count_of (gi_counts inp) (go_digest obj) = 0"
    and "old_enough (gi_now inp) (gc_grace_period_secs config) obj" and "\<not> gc_dry_run config"
proof (cases "gi_objects inp")
  case (Inl e)
  with assms show ?thesis by (simp add: run_gc_sweep_def)
next
  case (Inr objects)
  show ?thesis
  proof (rule sweep_candidates [OF Inr, of config del leader])
    fix stats
    assume sweep: "run_gc_sweep del config leader inp =
      (if gc_dry_run config then ([], Ok (stats\<lparr>gs_duration_ms := gi_elapsed_ms inp\<rparr>))
       else (case delete_loop del leader 0 (chunks 1000 (candidates config inp objects)) stats of
          (sent, r) \<Rightarrow> (sent, res_bind r (\<lambda>s. Ok (s\<lparr>gs_duration_ms := gi_elapsed_ms inp\<rparr>)))))"
    have dry: "\<not> gc_dry_run config"
      using sweep assms by auto
    with sweep assms(1) obtain r' where
      "delete_loop del leader 0 (chunks 1000 (candidates config inp objects)) stats = (sent, r')"
      by (auto split: prod.splits)
    from delete_loop_prefix [OF this] obtain rest
      where "map (map go_key) (chunks 1000 (candidates config inp objects)) = sent @ rest" ..
    then have "concat (map (map go_key) (chunks 1000 (candidates config inp objects))) = concat sent @ concat rest"
      by simp
    then have "map go_key (candidates config inp objects) = concat sent @ concat rest"
      by (simp add: concat_chunks flip: map_concat)
    with assms(2) have "key \<in> go_key ` set (candidates config inp objects)"
      by (metis Un_iff image_set set_append)
    then obtain obj where "obj \<in> set (candidates config inp objects)" "go_key obj = key" by auto
    with dry Inr show ?thesis by (intro that) (auto simp: candidates_def)
  qed
qed

section \<open>Object keys\<close>

lemma s3_key_roundtrip:
  assumes "digest_wf d"
  shows "\<exists>key. s3_key d = Some key \<and> s3_key_to_digest key = Some (digest_to_string d)"
proof -
  have algo: "CHR ''/'' \<notin> set (algorithm d)"
    using assms by (auto simp: digest_wf_def)
  have hx: "list_all is_ascii_hexdigit (hex d)" "2 \<le> length (hex d)"
    using assms by (auto simp: digest_wf_def)
  have slash: "CHR ''/'' \<notin> set (take 2 (hex d))"
    using hx(1) by (auto simp: list_all_iff byte_class_defs byte_def dest!: in_set_takeD)
  have "splitn 4 (CHR ''/'') (''blobs/'' @ algorithm d @ ''/'' @ take 2 (hex d) @ ''/'' @ hex d)
      = [''blobs'', algorithm d, take 2 (hex d), hex d]"
    using split_once_append [OF algo, of "take 2 (hex d) @ ''/'' @ hex d"] split_once_append [OF slash, of "hex d"]
    by (simp add: numeral_eq_Suc)
  moreover have "starts_with (take 2 (hex d)) (hex d)"
    using hx(2) by (simp add: starts_with_def)
  ultimately show ?thesis
    using hx(2) by (simp add: s3_key_def s3_key_to_digest_def digest_to_string_def)
qed

section \<open>The listing\<close>

text \<open>A service whose pages end: the tokens lead to a last page.\<close>

inductive page_chain ::
  "(string option \<Rightarrow> (object_page, msg) result) \<Rightarrow> string option \<Rightarrow> gc_blob_object list \<Rightarrow> bool"
  for list_page where
  Last: "list_page token = Ok page \<Longrightarrow> op_is_truncated page \<noteq> Some True \<Longrightarrow>
     page_chain list_page token (List.map_filter object_of (op_contents page))"
| More: "list_page token = Ok page \<Longrightarrow> op_is_truncated page = Some True \<Longrightarrow>
     page_chain list_page (op_next_token page) objs \<Longrightarrow>
     page_chain list_page token (List.map_filter object_of (op_contents page) @ objs)"

lemma list_blob_loop_chain:
  "page_chain list_page token objs \<Longrightarrow> list_blob_loop list_page token acc = Some (Ok (acc @ objs))"
proof (induction arbitrary: acc rule: page_chain.induct)
  case (Last token page)
  then show ?case by (subst list_blob_loop.simps) (simp add: Let_def)
next
  case (More token page objs)
  then show ?case by (subst list_blob_loop.simps) (simp add: Let_def)
qed

lemma object_of_digest: "object_of c = Some obj \<Longrightarrow> s3_key_to_digest (go_key obj) = Some (go_digest obj)"
  by (auto simp: object_of_def bind_eq_Some_conv)

lemma page_chain_digest:
  "page_chain list_page token objs \<Longrightarrow> obj \<in> set objs \<Longrightarrow> s3_key_to_digest (go_key obj) = Some (go_digest obj)"
  by (induction rule: page_chain.induct) (auto dest: object_of_digest)

section \<open>The collector against the index\<close>

text \<open>What the collector needs of an index: a blob it references has a positive count.\<close>

locale reference_index =
  fixes inv :: "'s \<Rightarrow> bool"
    and counts :: "'s \<Rightarrow> (string, u64) btmap"
    and refs :: "'s \<Rightarrow> string multiset"
  assumes referenced_counted: "inv s \<Longrightarrow> dig \<in># refs s \<Longrightarrow> 0 < count_of (counts s) dig"
begin

lemma sweep_keeps_referenced:
  assumes "inv s" and "gi_fresh inp = counts s" and "run_gc_sweep del config leader inp = (sent, r)"
    and "\<And>objects obj. gi_objects inp = Ok objects \<Longrightarrow> obj \<in> set objects \<Longrightarrow>
      s3_key_to_digest (go_key obj) = Some (go_digest obj)"
    and "s3_key_to_digest key = Some dig" and "dig \<in># refs s"
  shows "key \<notin> set (concat sent)"
proof
  assume "key \<in> set (concat sent)"
  then show False
  proof (rule sweep_sent [OF assms(3)])
    fix objects obj
    assume "gi_objects inp = Ok objects" "obj \<in> set objects" "go_key obj = key"
      and zero: "count_of (gi_fresh inp) (go_digest obj) = 0"
    with assms(4) [of objects obj] assms(5) have "go_digest obj = dig" by simp
    with zero referenced_counted [OF assms(1,6)] assms(2) show False by simp
  qed
qed

end

interpretation state_refs: reference_index "\<lambda>data. \<exists>n < 2 ^ 64. refs_inv n data" blob_ref_counts
  "\<lambda>data. index_refs (manifests data)"
proof unfold_locales
  fix data dig assume "\<exists>n < 2 ^ 64. refs_inv n data" and mem: "dig \<in># index_refs (manifests data)"
  then obtain n where n: "n < 2 ^ 64" "refs_inv n data" by blast
  let ?c = "count (index_refs (manifests data)) dig"
  have "?c < 2 ^ 64" "?c \<noteq> 0"
    using refs_inv_le [OF n(2), of dig] n(1) mem by (simp_all only: count_eq_zero_iff not_not le_less_trans)
  then have "(of_nat ?c :: u64) \<noteq> 0"
    by (simp only: of_nat_u64_eq_0 not_False_eq_True)
  moreover have "bt_get (blob_ref_counts data) dig = Some (of_nat ?c)"
    using n \<open>?c \<noteq> 0\<close> by (simp add: refs_inv_def refs_exact_def counts_match_def)
  ultimately show "0 < count_of (blob_ref_counts data) dig"
    by (simp add: count_of_def word_neq_0_conv)
qed

end
