(* ===== verification/Log_Store.thy ===== *)
theory Log_Store
  imports State_Machine
begin

text \<open>
  The Raft log on disk (\<^verbatim>\<open>raft/log_store.rs\<close>): two redb tables and the actor that owns them.  A table that
  was never opened for writing does not exist (\<^const>\<open>None\<close>).  A write transaction takes effect only when it
  commits; \<open>io op\<close> is the error redb reports for the named call, if any.  The JSON codec and OpenRaft's
  order on votes are parameters.
\<close>

section \<open>Definitions\<close>

record vote =
  vt_term :: u64
  vt_node :: u64
  vt_committed :: bool

record codec =
  enc_entry :: "log_entry \<Rightarrow> (string, msg) result"
  dec_entry :: "string \<Rightarrow> (log_entry, msg) result"
  enc_log_id :: "log_id \<Rightarrow> (string, msg) result"
  dec_log_id :: "string \<Rightarrow> (log_id, msg) result"
  enc_vote :: "vote \<Rightarrow> (string, msg) result"
  dec_vote :: "string \<Rightarrow> (vote, msg) result"

datatype log_storage_error = StorageIo string msg

type_synonym io_faults = "string \<Rightarrow> msg option"

record log_db =
  table_logs :: "(u64, string) btmap option"
  table_meta :: "(string, string) btmap option"

record log_state =
  ls_last_purged :: "log_id option"
  ls_last_log_id :: "log_id option"

definition META_VOTE :: string where "META_VOTE = ''vote''"
definition META_LAST_PURGED :: string where "META_LAST_PURGED = ''last_purged''"

definition storage_io_err :: "string \<Rightarrow> msg \<Rightarrow> log_storage_error" where
  "storage_io_err op e = StorageIo op e"

text \<open>\<^verbatim>\<open>call.map_err(|e| storage_io_err(op, &e))?\<close> for a redb call, and for a codec result.\<close>

definition io_check :: "io_faults \<Rightarrow> string \<Rightarrow> (unit, log_storage_error) result" where
  "io_check io op = (case io op of None \<Rightarrow> Ok () | Some e \<Rightarrow> Err (storage_io_err op e))"

definition map_io :: "string \<Rightarrow> ('a, msg) result \<Rightarrow> ('a, log_storage_error) result" where
  "map_io op r = (case r of Inl e \<Rightarrow> Err (storage_io_err op e) | Inr a \<Rightarrow> Ok a)"

definition decode_opt ::
  "string \<Rightarrow> (string \<Rightarrow> ('a, msg) result) \<Rightarrow> string option \<Rightarrow> ('a option, log_storage_error) result" where
  "decode_opt op dec v =
     (case v of None \<Rightarrow> Ok None | Some b \<Rightarrow> res_bind (map_io op (dec b)) (\<lambda>a. Ok (Some a)))"

definition get_log_state_sync :: "codec \<Rightarrow> io_faults \<Rightarrow> log_db \<Rightarrow> (log_state, log_storage_error) result" where
  "get_log_state_sync c io db =
     res_bind (io_check io ''begin_read'') (\<lambda>_.
     res_bind (case table_meta db of
         None \<Rightarrow> Ok None
       | Some table \<Rightarrow>
           res_bind (io_check io ''open_meta_table'') (\<lambda>_.
           res_bind (io_check io ''read_last_purged'') (\<lambda>_.
             decode_opt ''deserialize_last_purged'' (dec_log_id c) (bt_get table META_LAST_PURGED)))) (\<lambda>purged.
     res_bind (case table_logs db of
         None \<Rightarrow> Ok None
       | Some table \<Rightarrow>
           res_bind (io_check io ''open_logs_table'') (\<lambda>_.
           res_bind (io_check io ''last_log'') (\<lambda>_.
           res_bind (decode_opt ''deserialize_last_entry'' (dec_entry c)
               (if bt_is_empty table then None else Some (last (bt_values table)))) (\<lambda>e.
             Ok (map_option le_log_id e))))) (\<lambda>last_log.
       Ok \<lparr>ls_last_purged = purged,
           ls_last_log_id = (case last_log of Some l \<Rightarrow> Some l | None \<Rightarrow> purged)\<rparr>)))"

definition range_values :: "(u64, string) btmap \<Rightarrow> u64 \<Rightarrow> u64 \<Rightarrow> string list" where
  "range_values table start stop = map snd (filter (\<lambda>kv. start \<le> fst kv \<and> fst kv < stop) (bt_entries table))"

fun decode_all :: "(string \<Rightarrow> (log_entry, msg) result) \<Rightarrow> string list \<Rightarrow> (log_entry list, log_storage_error) result" where
  "decode_all dec [] = Ok []"
| "decode_all dec (v # vs) =
     res_bind (map_io ''deserialize_entry'' (dec v)) (\<lambda>e.
     res_bind (decode_all dec vs) (\<lambda>es. Ok (e # es)))"

definition get_entries_sync ::
  "codec \<Rightarrow> io_faults \<Rightarrow> log_db \<Rightarrow> u64 \<Rightarrow> u64 \<Rightarrow> (log_entry list, log_storage_error) result" where
  "get_entries_sync c io db start stop =
     res_bind (io_check io ''begin_read'') (\<lambda>_.
       case table_logs db of
         None \<Rightarrow> Ok []
       | Some table \<Rightarrow>
           res_bind (io_check io ''open_logs_table'') (\<lambda>_.
           res_bind (io_check io ''range'') (\<lambda>_.
           res_bind (io_check io ''range_iter'') (\<lambda>_.
             decode_all (dec_entry c) (range_values table start stop)))))"

text \<open>\<^verbatim>\<open>open_table\<close> in a write transaction creates the table.\<close>

definition opened :: "('k::linorder, 'v) btmap option \<Rightarrow> ('k, 'v) btmap" where
  "opened t = (case t of None \<Rightarrow> bt_empty | Some m \<Rightarrow> m)"

fun insert_entries ::
  "codec \<Rightarrow> io_faults \<Rightarrow> log_entry list \<Rightarrow> (u64, string) btmap \<Rightarrow> ((u64, string) btmap, log_storage_error) result" where
  "insert_entries c io [] table = Ok table"
| "insert_entries c io (e # es) table =
     res_bind (map_io ''serialize_entry'' (enc_entry c e)) (\<lambda>bytes.
     res_bind (io_check io ''insert_entry'') (\<lambda>_.
       insert_entries c io es (bt_insert (li_index (le_log_id e)) bytes table)))"

definition append_sync :: "codec \<Rightarrow> io_faults \<Rightarrow> log_db \<Rightarrow> log_entry list \<Rightarrow> (log_db, log_storage_error) result" where
  "append_sync c io db entries =
     res_bind (io_check io ''begin_write'') (\<lambda>_.
     res_bind (io_check io ''open_logs_table'') (\<lambda>_.
     res_bind (insert_entries c io entries (opened (table_logs db))) (\<lambda>table.
     res_bind (io_check io ''commit_append'') (\<lambda>_.
       Ok (db\<lparr>table_logs := Some table\<rparr>)))))"

definition remove_keys :: "u64 list \<Rightarrow> (u64, string) btmap \<Rightarrow> (u64, string) btmap" where
  "remove_keys ks table = fold bt_remove ks table"

definition truncate_sync :: "io_faults \<Rightarrow> log_db \<Rightarrow> log_id \<Rightarrow> (log_db, log_storage_error) result" where
  "truncate_sync io db l =
     res_bind (io_check io ''begin_write'') (\<lambda>_.
     res_bind (io_check io ''open_logs_table'') (\<lambda>_.
     res_bind (io_check io ''range'') (\<lambda>_.
     res_bind (io_check io ''range_iter'') (\<lambda>_.
     res_bind (io_check io ''remove_entry'') (\<lambda>_.
     res_bind (io_check io ''commit_truncate'') (\<lambda>_.
       let table = opened (table_logs db) in
       Ok (db\<lparr>table_logs := Some (remove_keys (filter (\<lambda>k. li_index l \<le> k) (bt_keys table)) table)\<rparr>)))))))"

definition purge_sync :: "codec \<Rightarrow> io_faults \<Rightarrow> log_db \<Rightarrow> log_id \<Rightarrow> (log_db, log_storage_error) result" where
  "purge_sync c io db l =
     res_bind (io_check io ''begin_write'') (\<lambda>_.
     res_bind (io_check io ''open_logs_table'') (\<lambda>_.
     res_bind (io_check io ''range'') (\<lambda>_.
     res_bind (io_check io ''range_iter'') (\<lambda>_.
     res_bind (io_check io ''remove_entry'') (\<lambda>_.
     res_bind (io_check io ''open_meta_table'') (\<lambda>_.
     res_bind (map_io ''serialize_purged'' (enc_log_id c l)) (\<lambda>bytes.
     res_bind (io_check io ''insert_purged'') (\<lambda>_.
     res_bind (io_check io ''commit_purge'') (\<lambda>_.
       let table = opened (table_logs db) in
       Ok (db\<lparr>table_logs := Some (remove_keys (filter (\<lambda>k. k \<le> li_index l) (bt_keys table)) table),
              table_meta := Some (bt_insert META_LAST_PURGED bytes (opened (table_meta db)))\<rparr>))))))))))"

definition save_vote_sync :: "codec \<Rightarrow> io_faults \<Rightarrow> log_db \<Rightarrow> vote \<Rightarrow> (log_db, log_storage_error) result" where
  "save_vote_sync c io db v =
     res_bind (io_check io ''begin_write'') (\<lambda>_.
     res_bind (io_check io ''open_meta_table'') (\<lambda>_.
     res_bind (map_io ''serialize_vote'' (enc_vote c v)) (\<lambda>bytes.
     res_bind (io_check io ''insert_vote'') (\<lambda>_.
     res_bind (io_check io ''commit_vote'') (\<lambda>_.
       Ok (db\<lparr>table_meta := Some (bt_insert META_VOTE bytes (opened (table_meta db)))\<rparr>))))))"

definition read_vote_sync :: "codec \<Rightarrow> io_faults \<Rightarrow> log_db \<Rightarrow> (vote option, log_storage_error) result" where
  "read_vote_sync c io db =
     res_bind (io_check io ''begin_read'') (\<lambda>_.
       case table_meta db of
         None \<Rightarrow> Ok None
       | Some table \<Rightarrow>
           res_bind (io_check io ''open_meta_table'') (\<lambda>_.
           res_bind (io_check io ''read_vote'') (\<lambda>_.
             decode_opt ''deserialize_vote'' (dec_vote c) (bt_get table META_VOTE))))"

definition seed_vote_sync ::
  "codec \<Rightarrow> (vote \<Rightarrow> vote \<Rightarrow> bool) \<Rightarrow> io_faults \<Rightarrow> log_db \<Rightarrow> vote \<Rightarrow> (log_db, log_storage_error) result" where
  "seed_vote_sync c vote_ge io db v =
     res_bind (read_vote_sync c io db) (\<lambda>current.
       case current of
         Some cur \<Rightarrow> if vote_ge cur v then Ok db else save_vote_sync c io db v
       | None \<Rightarrow> save_vote_sync c io db v)"

text \<open>The actor: one command at a time, the reply to its sender next to the new database.\<close>

datatype command =
    GetLogState
  | GetEntries u64 u64
  | Append "log_entry list"
  | Truncate log_id
  | Purge log_id
  | SaveVote vote
  | SeedVote vote
  | ReadVote
  | Compact

datatype reply =
    ReplyState "(log_state, log_storage_error) result"
  | ReplyEntries "(log_entry list, log_storage_error) result"
  | ReplyFlushed bool
  | ReplyUnit "(unit, log_storage_error) result"
  | ReplyVote "(vote option, log_storage_error) result"

definition committed :: "log_db \<Rightarrow> (log_db, log_storage_error) result \<Rightarrow> log_db \<times> (unit, log_storage_error) result" where
  "committed db r = (case r of Inl e \<Rightarrow> (db, Err e) | Inr db' \<Rightarrow> (db', Ok ()))"

fun actor_step :: "codec \<Rightarrow> (vote \<Rightarrow> vote \<Rightarrow> bool) \<Rightarrow> io_faults \<Rightarrow> log_db \<Rightarrow> command \<Rightarrow> log_db \<times> reply" where
  "actor_step c ge io db GetLogState = (db, ReplyState (get_log_state_sync c io db))"
| "actor_step c ge io db (GetEntries start stop) = (db, ReplyEntries (get_entries_sync c io db start stop))"
| "actor_step c ge io db (Append es) =
     (case committed db (append_sync c io db es) of (db', r) \<Rightarrow> (db', ReplyFlushed (is_ok r)))"
| "actor_step c ge io db (Truncate l) =
     (case committed db (truncate_sync io db l) of (db', r) \<Rightarrow> (db', ReplyUnit r))"
| "actor_step c ge io db (Purge l) =
     (case committed db (purge_sync c io db l) of (db', r) \<Rightarrow> (db', ReplyUnit r))"
| "actor_step c ge io db (SaveVote v) =
     (case committed db (save_vote_sync c io db v) of (db', r) \<Rightarrow> (db', ReplyUnit r))"
| "actor_step c ge io db (SeedVote v) =
     (case committed db (seed_vote_sync c ge io db v) of (db', r) \<Rightarrow> (db', ReplyUnit r))"
| "actor_step c ge io db ReadVote = (db, ReplyVote (read_vote_sync c io db))"
| "actor_step c ge io db Compact = (db, ReplyUnit (io_check io ''compact''))"

text \<open>The bounds of \<^verbatim>\<open>try_get_log_entries\<close>; \<^verbatim>\<open>v + 1\<close> wraps as it does in a release build.\<close>

datatype bound = Included u64 | Excluded u64 | Unbounded

fun start_of :: "bound \<Rightarrow> u64" where
  "start_of (Included v) = v"
| "start_of (Excluded v) = v + 1"
| "start_of Unbounded = 0"

fun end_of :: "bound \<Rightarrow> u64" where
  "end_of (Included v) = v + 1"
| "end_of (Excluded v) = v"
| "end_of Unbounded = - 1"

definition try_get_log_entries :: "bound \<Rightarrow> bound \<Rightarrow> command" where
  "try_get_log_entries lo hi = GetEntries (start_of lo) (end_of hi)"

section \<open>The log as OpenRaft sees it\<close>

lemma find_SomeD: "find P xs = Some x \<Longrightarrow> x \<in> set xs \<and> P x"
  by (induction xs) (auto split: if_splits)

text \<open>The part of the \<^verbatim>\<open>RaftLogStorage\<close> contract about entries.\<close>

locale raft_log =
  fixes inv :: "'s \<Rightarrow> bool"
    and lookup :: "'s \<Rightarrow> u64 \<Rightarrow> 'e option"
    and index :: "'e \<Rightarrow> u64"
    and append :: "'s \<Rightarrow> 'e list \<Rightarrow> ('s, 'x) result"
    and truncate :: "'s \<Rightarrow> u64 \<Rightarrow> ('s, 'x) result"
    and purge :: "'s \<Rightarrow> u64 \<Rightarrow> ('s, 'x) result"
  assumes append_inv: "inv s \<Longrightarrow> append s es = Ok s' \<Longrightarrow> inv s'"
    and append_lookup: "inv s \<Longrightarrow> append s es = Ok s' \<Longrightarrow>
      lookup s' i = (case find (\<lambda>e. index e = i) (rev es) of Some e \<Rightarrow> Some e | None \<Rightarrow> lookup s i)"
    and truncate_inv: "inv s \<Longrightarrow> truncate s k = Ok s' \<Longrightarrow> inv s'"
    and truncate_lookup: "inv s \<Longrightarrow> truncate s k = Ok s' \<Longrightarrow> lookup s' i = (if k \<le> i then None else lookup s i)"
    and purge_inv: "inv s \<Longrightarrow> purge s k = Ok s' \<Longrightarrow> inv s'"
    and purge_lookup: "inv s \<Longrightarrow> purge s k = Ok s' \<Longrightarrow> lookup s' i = (if i \<le> k then None else lookup s i)"
begin

text \<open>Resolving a conflict with the leader: cut the log at \<open>k\<close> and append the leader's entries.\<close>

lemma replace_suffix:
  assumes "inv s" and "truncate s k = Ok s1" and "append s1 es = Ok s2"
    and "distinct (map index es)" and "\<And>e. e \<in> set es \<Longrightarrow> k \<le> index e"
  shows "inv s2"
    and "i < k \<Longrightarrow> lookup s2 i = lookup s i"
    and "e \<in> set es \<Longrightarrow> lookup s2 (index e) = Some e"
    and "k \<le> i \<Longrightarrow> i \<notin> index ` set es \<Longrightarrow> lookup s2 i = None"
proof -
  have s1: "inv s1" using assms(1,2) by (rule truncate_inv)
  note look = append_lookup [OF s1 assms(3)]
  show "inv s2" using s1 assms(3) by (rule append_inv)
  show "i < k \<Longrightarrow> lookup s2 i = lookup s i"
  proof -
    assume i: "i < k"
    then have "find (\<lambda>e. index e = i) (rev es) = None"
      using assms(5) by (force simp: find_None_iff)
    moreover have "\<not> k \<le> i" using i by (simp add: not_le)
    ultimately show ?thesis by (simp add: look truncate_lookup [OF assms(1,2)])
  qed
  show "lookup s2 (index e) = Some e" if "e \<in> set es"
  proof -
    have "find (\<lambda>e'. index e' = index e) (rev es) \<noteq> None"
      using that by (auto simp: find_None_iff)
    then obtain e' where e': "find (\<lambda>e'. index e' = index e) (rev es) = Some e'" by blast
    then have "e' \<in> set es" "index e' = index e" using find_SomeD [OF e'] by simp_all
    with that assms(4) have "e' = e" by (auto simp: distinct_map inj_on_def)
    with e' show ?thesis by (simp add: look)
  qed
  show "lookup s2 i = None" if "k \<le> i" "i \<notin> index ` set es"
  proof -
    have "find (\<lambda>e. index e = i) (rev es) = None" using that(2) by (auto simp: find_None_iff)
    with that(1) show ?thesis by (simp add: look truncate_lookup [OF assms(1,2)])
  qed
qed

end

section \<open>The redb tables implement it\<close>

definition codec_ok :: "codec \<Rightarrow> bool" where
  "codec_ok c \<longleftrightarrow>
     (\<forall>e b. enc_entry c e = Ok b \<longrightarrow> dec_entry c b = Ok e) \<and>
     (\<forall>l b. enc_log_id c l = Ok b \<longrightarrow> dec_log_id c b = Ok l) \<and>
     (\<forall>v b. enc_vote c v = Ok b \<longrightarrow> dec_vote c b = Ok v)"

definition raw_wf :: "codec \<Rightarrow> (u64, string) btmap \<Rightarrow> bool" where
  "raw_wf c t \<longleftrightarrow> (\<forall>i b. bt_get t i = Some b \<longrightarrow> (\<exists>e. dec_entry c b = Ok e \<and> li_index (le_log_id e) = i))"

definition log_db_wf :: "codec \<Rightarrow> log_db \<Rightarrow> bool" where
  "log_db_wf c db \<longleftrightarrow> codec_ok c \<and> raw_wf c (opened (table_logs db))"

definition raw_at :: "codec \<Rightarrow> (u64, string) btmap \<Rightarrow> u64 \<Rightarrow> log_entry option" where
  "raw_at c t i = Option.bind (bt_get t i) (\<lambda>b. case dec_entry c b of Inl _ \<Rightarrow> None | Inr e \<Rightarrow> Some e)"

definition log_at :: "codec \<Rightarrow> log_db \<Rightarrow> u64 \<Rightarrow> log_entry option" where
  "log_at c db i = raw_at c (opened (table_logs db)) i"

abbreviation entry_index :: "log_entry \<Rightarrow> u64" where
  "entry_index e \<equiv> li_index (le_log_id e)"

lemma raw_at_Some: "raw_at c t i = Some e \<longleftrightarrow> (\<exists>b. bt_get t i = Some b \<and> dec_entry c b = Ok e)"
proof (cases "bt_get t i")
  case (Some b)
  then show ?thesis by (cases "dec_entry c b") (simp_all add: raw_at_def)
qed (simp add: raw_at_def)

lemma io_check_Ok [simp]: "io_check io op = Ok u \<longleftrightarrow> io op = None"
  by (cases "io op") (simp_all add: io_check_def)

lemma io_check_fine: "io op = None \<Longrightarrow> io_check io op = Ok ()"
  by simp

lemma map_io_fine [simp]: "map_io op (Ok a) = Ok a"
  by (simp add: map_io_def)

lemma map_io_Ok [simp]: "map_io op r = Ok a \<longleftrightarrow> r = Ok a"
  by (cases r) (simp_all add: map_io_def)

lemma opened_Some [simp]: "opened (Some t) = t"
  by (simp add: opened_def)

lemma insert_entries_wf:
  "codec_ok c \<Longrightarrow> raw_wf c t \<Longrightarrow> insert_entries c io es t = Ok t' \<Longrightarrow> raw_wf c t'"
proof (induction es arbitrary: t)
  case (Cons e es)
  from Cons.prems(3) obtain b where b: "enc_entry c e = Ok b"
    and rest: "insert_entries c io es (bt_insert (entry_index e) b t) = Ok t'" by auto
  have "raw_wf c (bt_insert (entry_index e) b t)"
    using Cons.prems(1,2) b by (auto simp: raw_wf_def codec_ok_def)
  from Cons.IH [OF Cons.prems(1) this rest] show ?case .
qed simp

lemma insert_entries_at:
  "codec_ok c \<Longrightarrow> insert_entries c io es t = Ok t' \<Longrightarrow>
    raw_at c t' i = (case find (\<lambda>e. entry_index e = i) (rev es) of Some e \<Rightarrow> Some e | None \<Rightarrow> raw_at c t i)"
proof (induction es arbitrary: t)
  case (Cons e es)
  from Cons.prems(2) obtain b where b: "enc_entry c e = Ok b"
    and rest: "insert_entries c io es (bt_insert (entry_index e) b t) = Ok t'" by auto
  have "dec_entry c b = Ok e" using Cons.prems(1) b by (auto simp: codec_ok_def)
  then have "raw_at c (bt_insert (entry_index e) b t) i = (if i = entry_index e then Some e else raw_at c t i)"
    by (simp add: raw_at_def)
  moreover have "find P (xs @ [e]) = (case find P xs of Some x \<Rightarrow> Some x | None \<Rightarrow> if P e then Some e else None)"
    for P :: "log_entry \<Rightarrow> bool" and xs
    by (induction xs) auto
  ultimately show ?case
    using Cons.IH [OF Cons.prems(1) rest] by (auto split: option.splits)
qed simp

lemma get_remove_keys: "bt_get (remove_keys ks t) k = (if k \<in> set ks then None else bt_get t k)"
  by (induction ks arbitrary: t) (auto simp: remove_keys_def)

lemma raw_at_remove:
  "raw_at c (remove_keys (filter P (bt_keys t)) t) i = (if P i then None else raw_at c t i)"
  by (cases "bt_get t i") (auto simp: raw_at_def get_remove_keys set_bt_keys bt_contains_def)

lemma raw_wf_remove: "raw_wf c t \<Longrightarrow> raw_wf c (remove_keys ks t)"
  by (simp add: raw_wf_def get_remove_keys)

lemma append_sync_Ok:
  assumes "append_sync c io db es = Ok db'"
  obtains t where "insert_entries c io es (opened (table_logs db)) = Ok t" "db' = db\<lparr>table_logs := Some t\<rparr>"
  using assms that by (auto simp: append_sync_def)

interpretation redb: raft_log "log_db_wf c" "log_at c" entry_index "append_sync c io"
  "\<lambda>db k. truncate_sync io db \<lparr>li_term = t, li_node = n, li_index = k\<rparr>"
  "\<lambda>db k. purge_sync c io db \<lparr>li_term = t, li_node = n, li_index = k\<rparr>" for c io t n
proof unfold_locales
  fix db es db' i assume wf: "log_db_wf c db" and app: "append_sync c io db es = Ok db'"
  from app obtain t where t: "insert_entries c io es (opened (table_logs db)) = Ok t" "db' = db\<lparr>table_logs := Some t\<rparr>"
    by (rule append_sync_Ok)
  show "log_db_wf c db'"
    using wf t insert_entries_wf [of c "opened (table_logs db)" io es t] by (simp add: log_db_wf_def)
  show "log_at c db' i = (case find (\<lambda>e. entry_index e = i) (rev es) of Some e \<Rightarrow> Some e | None \<Rightarrow> log_at c db i)"
    using wf t insert_entries_at [of c io es "opened (table_logs db)" t i] by (simp add: log_db_wf_def log_at_def split: option.splits)
next
  fix db k db' i
  assume wf: "log_db_wf c db" and tr: "truncate_sync io db \<lparr>li_term = t, li_node = n, li_index = k\<rparr> = Ok db'"
  show "log_db_wf c db'"
    using wf tr by (auto simp: log_db_wf_def truncate_sync_def Let_def raw_wf_remove)
  show "log_at c db' i = (if k \<le> i then None else log_at c db i)"
    using tr by (auto simp: truncate_sync_def Let_def log_at_def raw_at_remove)
next
  fix db k db' i
  assume wf: "log_db_wf c db" and pu: "purge_sync c io db \<lparr>li_term = t, li_node = n, li_index = k\<rparr> = Ok db'"
  show "log_db_wf c db'"
    using wf pu by (auto simp: log_db_wf_def purge_sync_def Let_def raw_wf_remove)
  show "log_at c db' i = (if i \<le> k then None else log_at c db i)"
    using pu by (auto simp: purge_sync_def Let_def log_at_def raw_at_remove)
qed

section \<open>Reads\<close>

lemma decode_all_projr:
  "(\<And>kv. kv \<in> set kvs \<Longrightarrow> \<exists>e. dec (snd kv) = Ok e) \<Longrightarrow>
    decode_all dec (map snd kvs) = Ok (map (\<lambda>kv. projr (dec (snd kv))) kvs)"
proof (induction kvs)
  case (Cons kv kvs)
  from Cons.prems [of kv] obtain e where "dec (snd kv) = Ok e" by auto
  with Cons show ?case by simp
qed simp

text \<open>A read returns the entries of the range in index order, each as it was stored.\<close>

lemma range_spec:
  assumes raw: "raw_wf c t"
  shows "\<exists>es. decode_all (dec_entry c) (range_values t start stop) = Ok es \<and> sorted_wrt (<) (map entry_index es)
    \<and> (\<forall>e. e \<in> set es \<longleftrightarrow> start \<le> entry_index e \<and> entry_index e < stop \<and> raw_at c t (entry_index e) = Some e)"
proof -
  let ?kvs = "filter (\<lambda>kv. start \<le> fst kv \<and> fst kv < stop) (bt_entries t)"
  let ?e = "\<lambda>kv. projr (dec_entry c (snd kv))"
  have kv: "bt_get t (fst kv) = Some (snd kv) \<and> dec_entry c (snd kv) = Ok (?e kv) \<and> entry_index (?e kv) = fst kv"
    if "kv \<in> set ?kvs" for kv
  proof -
    have get: "bt_get t (fst kv) = Some (snd kv)"
      using that by (simp add: bt.entries_get [symmetric])
    with raw obtain e where "dec_entry c (snd kv) = Ok e" "entry_index e = fst kv"
      by (auto simp: raw_wf_def)
    with get show ?thesis by simp
  qed
  have "decode_all (dec_entry c) (range_values t start stop) = Ok (map ?e ?kvs)"
    unfolding range_values_def using kv by (intro decode_all_projr) blast
  moreover have "sorted_wrt (<) (map entry_index (map ?e ?kvs))"
  proof -
    have "map entry_index (map ?e ?kvs) = map fst ?kvs" using kv by simp
    moreover have "sorted_wrt (<) (map fst (filter (\<lambda>(k, b). start \<le> k \<and> k < stop) (bt_entries t)))"
      by (rule sorted_map_fst_filter [OF bt.entries_sorted])
    ultimately show ?thesis by (simp only: split_beta')
  qed
  moreover have "e \<in> set (map ?e ?kvs) \<longleftrightarrow>
      start \<le> entry_index e \<and> entry_index e < stop \<and> raw_at c t (entry_index e) = Some e" for e
  proof
    assume "e \<in> set (map ?e ?kvs)"
    then obtain k where "k \<in> set ?kvs" "e = ?e k" by auto
    with kv [of k] show "start \<le> entry_index e \<and> entry_index e < stop \<and> raw_at c t (entry_index e) = Some e"
      by (cases "dec_entry c (snd k)") (simp_all add: raw_at_def)
  next
    assume r: "start \<le> entry_index e \<and> entry_index e < stop \<and> raw_at c t (entry_index e) = Some e"
    then obtain b where b: "bt_get t (entry_index e) = Some b" "dec_entry c b = Ok e"
      using raw_at_Some [of c t "entry_index e" e] by blast
    with r show "e \<in> set (map ?e ?kvs)"
      by (force simp: bt.entries_get intro!: image_eqI [of _ _ "(entry_index e, b)"])
  qed
  ultimately show ?thesis by blast
qed

lemma get_entries_spec:
  assumes wf: "log_db_wf c db" and io: "\<And>op. io op = None"
  shows "\<exists>es. get_entries_sync c io db start stop = Ok es \<and> sorted_wrt (<) (map entry_index es)
    \<and> (\<forall>e. e \<in> set es \<longleftrightarrow> start \<le> entry_index e \<and> entry_index e < stop \<and> log_at c db (entry_index e) = Some e)"
proof (cases "table_logs db")
  case None
  then show ?thesis
    by (simp add: get_entries_sync_def io_check_fine io log_at_def raw_at_def opened_def)
next
  case (Some t)
  with wf have "raw_wf c t" by (simp add: log_db_wf_def)
  from range_spec [OF this, of start stop] Some show ?thesis
    by (simp add: get_entries_sync_def io_check_fine io log_at_def)
qed

section \<open>Votes and the purge mark\<close>

lemma save_vote_read:
  assumes "codec_ok c" and "save_vote_sync c io db v = Ok db'" and "\<And>op. io' op = None"
  shows "read_vote_sync c io' db' = Ok (Some v)"
  using assms
  by (auto simp: save_vote_sync_def read_vote_sync_def decode_opt_def io_check_fine codec_ok_def)

lemma meta_keys_distinct [simp]: "META_VOTE \<noteq> META_LAST_PURGED" "META_LAST_PURGED \<noteq> META_VOTE"
  by (simp_all add: META_VOTE_def META_LAST_PURGED_def)

lemma votes_elsewhere:
  assumes "\<And>op. io op = None"
  shows "append_sync c io1 db es = Ok db' \<Longrightarrow> read_vote_sync c io db' = read_vote_sync c io db"
    and "truncate_sync io1 db l = Ok db' \<Longrightarrow> read_vote_sync c io db' = read_vote_sync c io db"
    and "purge_sync c io1 db l = Ok db' \<Longrightarrow> read_vote_sync c io db' = read_vote_sync c io db"
  using assms
  by (auto simp: append_sync_def truncate_sync_def purge_sync_def read_vote_sync_def Let_def opened_def
      io_check_fine decode_opt_def split: option.splits)

end
