(* ===== verification/Authorization.thy ===== *)
theory Authorization
  imports Namespaces
begin

text \<open>
  Resources and accesses as the authorizer sees them (\<^verbatim>\<open>auth/authorization.rs\<close>): a repository is named by
  the epoch of its namespace and its path, so a decision about one tenancy says nothing about the next.
\<close>

section \<open>Definitions\<close>

record namespace_resource =
  nr_epoch :: namespace_epoch

definition resource_from_namespace :: "namespace \<Rightarrow> namespace_resource" where
  "resource_from_namespace ns = \<lparr>nr_epoch = epoch_from_namespace ns\<rparr>"

definition namespace_entity_id :: "namespace_resource \<Rightarrow> string" where
  "namespace_entity_id r = epoch_entity_id (nr_epoch r)"

record repository_resource =
  rr_namespace :: namespace_resource
  rr_relative_path :: string

definition from_repository :: "string \<Rightarrow> namespace \<Rightarrow> repository_resource lh_result" where
  "from_repository repo ns =
     res_bind (handle_of repo) (\<lambda>handle.
       if handle \<noteq> ns_handle ns then
         Err (NameInvalid [Lit ''repository '', Dbg repo, Lit '' is not under namespace '', Dbg (ns_handle ns)])
       else
         res_bind (ok_or (strip_prefix (handle @ ''/'') repo)
             (NameInvalid [Lit ''repository '', Dbg repo, Lit '' is not under namespace '', Dbg handle])) (\<lambda>path.
           Ok \<lparr>rr_namespace = resource_from_namespace ns, rr_relative_path = path\<rparr>))"

definition repository_entity_id :: "repository_resource \<Rightarrow> string" where
  "repository_entity_id r = namespace_entity_id (rr_namespace r) @ ''/'' @ rr_relative_path r"

record authorized_repository_access =
  ara_repository :: string
  ara_action :: oci_action
  ara_expected_namespace :: "namespace_epoch option"

definition access_new :: "string \<Rightarrow> oci_action \<Rightarrow> namespace_epoch option \<Rightarrow> authorized_repository_access" where
  "access_new repo action expected =
     \<lparr>ara_repository = repo, ara_action = action, ara_expected_namespace = expected\<rparr>"

definition record_expected_namespace ::
  "authorized_repository_access \<Rightarrow> namespace_epoch list \<Rightarrow> namespace_epoch list" where
  "record_expected_namespace access epochs =
     (case ara_expected_namespace access of
        None \<Rightarrow> epochs
      | Some epoch \<Rightarrow> if list_ex (\<lambda>existing. existing = epoch) epochs then epochs else epochs @ [epoch])"

datatype authz_decision = Allow | Deny

section \<open>Naming repositories by epoch\<close>

lemma from_repository_Ok:
  "from_repository repo ns = Ok r \<longleftrightarrow>
    (\<exists>path. repo = ns_handle ns @ ''/'' @ path \<and> path \<noteq> [] \<and> CHR ''/'' \<notin> set (ns_handle ns) \<and>
      r = \<lparr>rr_namespace = resource_from_namespace ns, rr_relative_path = path\<rparr>)"
proof
  assume "from_repository repo ns = Ok r"
  then have "handle_of repo = Ok (ns_handle ns)"
    and "\<exists>path. strip_prefix (ns_handle ns @ ''/'') repo = Some path \<and>
      r = \<lparr>rr_namespace = resource_from_namespace ns, rr_relative_path = path\<rparr>"
    by (auto simp: from_repository_def split: if_splits)
  then show "\<exists>path. repo = ns_handle ns @ ''/'' @ path \<and> path \<noteq> [] \<and> CHR ''/'' \<notin> set (ns_handle ns) \<and>
      r = \<lparr>rr_namespace = resource_from_namespace ns, rr_relative_path = path\<rparr>"
    by (auto simp: handle_of_iff strip_prefix_iff)
next
  assume "\<exists>path. repo = ns_handle ns @ ''/'' @ path \<and> path \<noteq> [] \<and> CHR ''/'' \<notin> set (ns_handle ns) \<and>
      r = \<lparr>rr_namespace = resource_from_namespace ns, rr_relative_path = path\<rparr>"
  then obtain path where p: "repo = ns_handle ns @ ''/'' @ path" "path \<noteq> []" "CHR ''/'' \<notin> set (ns_handle ns)"
    and r: "r = \<lparr>rr_namespace = resource_from_namespace ns, rr_relative_path = path\<rparr>" by blast
  have "handle_of repo = Ok (ns_handle ns)" using p by (simp add: handle_of_iff)
  moreover have "strip_prefix (ns_handle ns @ ''/'') repo = Some path" using p(1) by (simp add: strip_prefix_iff)
  ultimately show "from_repository repo ns = Ok r" by (simp add: from_repository_def r)
qed

lemma entity_id_no_slash: "handle_grammar (ep_handle e) \<Longrightarrow> CHR ''/'' \<notin> set (epoch_entity_id e)"
  using handle_grammar_no_slash [of "ep_handle e"] show_nat_digits [of "CHR ''/''" "unat (ep_generation e)"]
  by (auto simp: epoch_entity_id_def show_u64_def is_ascii_digit_def byte_def)

lemma repository_entity_id_inject:
  assumes "handle_grammar (ep_handle (nr_epoch (rr_namespace a)))" and "handle_grammar (ep_handle (nr_epoch (rr_namespace b)))"
    and "repository_entity_id a = repository_entity_id b"
  shows "a = b"
proof -
  have "epoch_entity_id (nr_epoch (rr_namespace a)) @ CHR ''/'' # rr_relative_path a =
      epoch_entity_id (nr_epoch (rr_namespace b)) @ CHR ''/'' # rr_relative_path b"
    using assms(3) by (simp add: repository_entity_id_def namespace_entity_id_def)
  then have "epoch_entity_id (nr_epoch (rr_namespace a)) = epoch_entity_id (nr_epoch (rr_namespace b))
      \<and> rr_relative_path a = rr_relative_path b"
    using sep_unique entity_id_no_slash assms(1,2) by metis
  then show ?thesis
    using epoch_entity_id_inject [OF assms(1,2)] by simp
qed

lemma record_expected_namespace_distinct:
  "distinct epochs \<Longrightarrow> distinct (record_expected_namespace access epochs)"
  "set (record_expected_namespace access epochs) =
     set epochs \<union> (case ara_expected_namespace access of None \<Rightarrow> {} | Some e \<Rightarrow> {e})"
  by (auto simp: record_expected_namespace_def list_ex_iff split: option.splits)

end
