(* ===== verification/Scenario.thy ===== *)
theory Scenario
  imports Snapshots Gc Log_Store Authorization
begin

text \<open>
  A concrete run of the registry: a user claims a handle and pushes a manifest, a job is queued and
  claimed, and the handle of another user is released.  The properties are exercised on it.
\<close>

definition sc_env :: env where
  "sc_env =
     \<lparr>env_sha_hex = \<lambda>b. replicate 64 (CHR ''0''), env_from_slice = \<lambda>b. None,
      env_validate_policy_text = \<lambda>t. Ok (), env_to_lowercase = \<lambda>s. s\<rparr>"

definition sc_digest :: string where
  "sc_digest = ''sha256:'' @ replicate 64 (CHR ''a'')"

definition sc_blob :: string where
  "sc_blob = ''sha256:'' @ replicate 64 (CHR ''b'')"

definition sc_claim :: "string \<Rightarrow> string \<Rightarrow> bool \<Rightarrow> request" where
  "sc_claim h u override = ReqNamespace (NamespaceClaim
     \<lparr>cl_handle = h, cl_owner = OwnerUser u, cl_owner_label = u, cl_actor = u, cl_admin_override = override, cl_now = 1\<rparr>)"

definition sc_put_request :: "string \<Rightarrow> u64 \<Rightarrow> put_manifest_request" where
  "sc_put_request tag g =
     \<lparr>pm_name = ''alice/app'', pm_expected_namespace = Some (epoch_new ''alice'' g), pm_reference = tag,
      pm_require_reference_absent = False, pm_digest = sc_digest, pm_content_type = ''application/json'',
      pm_body = ''{}'', pm_subject = None, pm_artifact_type = None, pm_annotations = None,
      pm_stored_size_bytes = 7, pm_manifest_size_bytes = 2, pm_created_at = 5, pm_last_modified = 5,
      pm_config_summary = None, pm_referenced_blobs = [sc_blob]\<rparr>"

definition sc_entry :: "u64 \<Rightarrow> request \<Rightarrow> u64 \<times> log_entry" where
  "sc_entry i req = (100, \<lparr>le_log_id = \<lparr>li_term = 1, li_node = 1, li_index = i\<rparr>, le_payload = Normal req\<rparr>)"

definition sc_log :: "(u64 \<times> log_entry) list" where
  "sc_log =
     [sc_entry 1 (sc_claim ''alice'' ''u-1'' False),
      sc_entry 2 (ReqManifest (PutManifest (sc_put_request ''v1'' 1))),
      sc_entry 3 (sc_claim ''bob'' ''u-2'' False),
      sc_entry 4 (ReqNamespace (NamespaceDelete ''bob'' ''u-2'' OwnerDeleted 9))]"

definition sc_state :: state_machine_data where
  "sc_state = (case apply_entries sc_env empty_state sc_log of Some (data, rs) \<Rightarrow> data | None \<Rightarrow> empty_state)"

definition sc_responses :: "response list" where
  "sc_responses = [RespNamespace NamespaceOk, RespManifest ManifestOk, RespNamespace NamespaceOk, RespNamespace NamespaceOk]"

lemma sc_run: "apply_entries sc_env empty_state sc_log = Some (sc_state, sc_responses)"
proof -
  have "map_option snd (apply_entries sc_env empty_state sc_log) = Some sc_responses"
    by code_simp
  then show ?thesis
    by (auto simp: sc_state_def)
qed

lemma sc_entry_wf [simp]: "fst (sc_entry i req) = 100" "le_payload (snd (sc_entry i req)) = Normal req"
  by (simp_all add: sc_entry_def)

lemma sc_length: "length sc_log = 4"
  by (simp add: sc_log_def)

text \<open>Looking into the reached state.\<close>

definition sc_alice :: namespace where
  "sc_alice = \<lparr>ns_handle = ''alice'', ns_generation = 1, ns_owner = OwnerUser ''u-1'', ns_owner_label = ''u-1'', ns_created_at = 1\<rparr>"

lemma sc_facts:
  "handle_state_of sc_state ''bob'' = HReleased 1 (OwnerUser ''u-2'') \<and>
   bt_get (namespaces sc_state) ''alice'' = Some sc_alice \<and>
   bt_get (namespaces sc_state) ''bob'' = None \<and>
   list_tags sc_state ''alice/app'' None None = [''v1''] \<and>
   map_option me_referenced_blobs (manifest_at sc_state ''alice/app'' sc_digest)
     = Some [\<lparr>algorithm = ''sha256'', hex = replicate 64 (CHR ''b'')\<rparr>]"
  by code_simp

lemma sc_require: "require_expected_namespace sc_state ''alice/app'' (Some (epoch_new ''alice'' 1)) = Ok ()"
proof -
  have "handle_of ''alice/app'' = Ok ''alice''" by code_simp
  with sc_facts show ?thesis by (auto simp: require_expected_namespace_Ok sc_alice_def)
qed

end
