(* ===== verification/Registry_Properties.thy ===== *)
theory Registry_Properties
  imports Scenario
begin

text \<open>
  Properties of the replicated index: tenancy over whole runs of the log, the manifest and tag index, and
  the reference counts, each exercised on the run of \<^verbatim>\<open>Scenario\<close>.
\<close>

section \<open>Tenancy over runs of the log\<close>

text \<open>
  C10: once a generation of a handle was released, no later state accepts a write authorized against it:
  whatever the log did in between, a content request that carries the released epoch (or an earlier
  one) leaves the state as it is and answers with an error.
\<close>

theorem stale_epoch_rejected:
  assumes "handle_state_of data h = HReleased g w" and "apply_entries env data es = Some (data', rs)"
    and "g' \<le> g" and "content_target req = Some (repo, Some (epoch_new h g'))"
    and "handle_of repo = Ok h" and "\<not> is_handle_reserved h"
  shows "\<exists>e. apply_request env' now data' req = Some (data', error_to_response e)"
proof -
  have "outdated g' (handle_state_of data h)" using assms(1,3) by simp
  then have out: "outdated g' (handle_state_of data' h)"
    using run_refines [OF assms(2)] by (rule outdated_steps [rotated])
  have "require_expected_namespace data' repo (Some (epoch_new h g')) \<noteq> Ok ()"
  proof
    assume "require_expected_namespace data' repo (Some (epoch_new h g')) = Ok ()"
    with assms(5,6) obtain ns where "bt_get (namespaces data') h = Some ns" "ns_generation ns = g'"
      by (auto simp: require_expected_namespace_Ok epoch_new_def)
    with out show False by (simp add: handle_state_of_def)
  qed
  then obtain e where "require_expected_namespace data' repo (Some (epoch_new h g')) = Err e"
    by (cases "require_expected_namespace data' repo (Some (epoch_new h g'))") auto
  with assms(4) content_rejected show ?thesis by blast
qed

definition stale_put :: request where
  "stale_put = ReqManifest (PutManifest ((sc_put_request ''v1'' 1)\<lparr>pm_name := ''bob/app'',
     pm_expected_namespace := Some (epoch_new ''bob'' 1)\<rparr>))"

theorem stale_epoch_rejected_witness:
  "\<exists>e data rs. apply_entries sc_env sc_state [sc_entry 5 (sc_claim ''carol'' ''u-3'' False)] = Some (data, rs)
    \<and> apply_request sc_env 7 data stale_put = Some (data, error_to_response e)"
proof -
  have "map_option snd (apply_entries sc_env sc_state [sc_entry 5 (sc_claim ''carol'' ''u-3'' False)])
      = Some [RespNamespace NamespaceOk]" by code_simp
  then obtain data rs where run:
    "apply_entries sc_env sc_state [sc_entry 5 (sc_claim ''carol'' ''u-3'' False)] = Some (data, rs)" by auto
  have "handle_of ''bob/app'' = Ok ''bob''" "\<not> is_handle_reserved ''bob''" by code_simp+
  with stale_epoch_rejected [OF _ run, of "''bob''" 1 _ 1 stale_put "''bob/app''" sc_env 7] sc_facts run
  show ?thesis by (auto simp: stale_put_def)
qed

text \<open>
  C15: an epoch identifies one tenant: if a handle is live with the same generation in two states of a
  run, its owner is the same in both.
\<close>

theorem epoch_determines_owner:
  assumes "apply_entries env data es = Some (data', rs)"
    and "bt_get (namespaces data) h = Some ns" and "bt_get (namespaces data') h = Some ns'"
    and "ns_generation ns' = ns_generation ns"
  shows "ns_owner ns' = ns_owner ns"
  using live_steps [of "ns_generation ns" "ns_owner ns" "handle_state_of data' h"]
    run_refines [OF assms(1), of h] assms(2-4)
  by (auto simp: handle_state_of_def)

theorem epoch_determines_owner_witness:
  "\<exists>data' rs ns'. apply_entries sc_env sc_state [sc_entry 5 (sc_claim ''carol'' ''u-3'' False)] = Some (data', rs)
    \<and> bt_get (namespaces data') ''alice'' = Some ns' \<and> ns_owner ns' = OwnerUser ''u-1''"
proof -
  have "map_option (\<lambda>(d, rs). bt_get (namespaces d) ''alice'')
      (apply_entries sc_env sc_state [sc_entry 5 (sc_claim ''carol'' ''u-3'' False)]) = Some (Some sc_alice)" by code_simp
  then obtain data' rs where run:
    "apply_entries sc_env sc_state [sc_entry 5 (sc_claim ''carol'' ''u-3'' False)] = Some (data', rs)"
    "bt_get (namespaces data') ''alice'' = Some sc_alice" by auto
  with epoch_determines_owner [OF run(1), of "''alice''" sc_alice sc_alice] sc_facts show ?thesis
    by (auto simp: sc_alice_def)
qed

text \<open>
  C13: in every state the log can reach, namespaces and tombstones are well formed and disjoint, every
  repository key belongs to a live or reserved handle, and grants exist only for live namespaces, under
  their own id, with a grantee of the right kind (public grants are pull-only).
\<close>

theorem reachable_tenancy:
  assumes "apply_entries env empty_state es = Some (data, rs)"
  shows "tenancy_inv data"
  using assms by (rule tenancy_reachable)

theorem reachable_tenancy_witness: "tenancy_inv sc_state"
  by (rule reachable_tenancy [OF sc_run])

text \<open>
  a handle that is claimed, for the first time or again after a release, starts empty: no
  repository content and no grant of an earlier tenant is under it, it belongs to the claimant, and its
  generation is larger than every earlier one.
\<close>

theorem claim_starts_empty:
  assumes "apply_entries env empty_state es = Some (data, rs)" and "namespace_claim data r = Ok (data', x)"
  shows "\<not> has_content data' (cl_handle r) \<and> list_namespace_grants data' (cl_handle r) = [] \<and>
    (\<exists>ns. get_namespace data' (cl_handle r) = Some ns \<and> ns_owner ns = cl_owner r \<and>
      hs_generation (handle_state_of data (cl_handle r)) < unat (ns_generation ns))"
proof -
  let ?h = "cl_handle r"
  have inv: "tenancy_inv data" by (rule tenancy_reachable [OF assms(1)])
  obtain g where h: "handle_grammar ?h" "\<not> is_handle_reserved ?h" "bt_get (namespaces data) ?h = None"
    and g: "claim_generation data ?h (cl_admin_override r) = Ok g"
    and data': "data' = data\<lparr>released_handles := bt_remove ?h (released_handles data),
      namespaces := bt_insert ?h \<lparr>ns_handle = ?h, ns_generation = g, ns_owner = cl_owner r,
        ns_owner_label = cl_owner_label r, ns_created_at = cl_now r\<rparr> (namespaces data)\<rparr>"
    using assms(2) by (auto simp: namespace_claim_def Let_def validate_handle_iff [symmetric]
      split: if_splits option.splits)
  note empty = unclaimed_has_no_content [OF inv h]
  have "hs_generation (handle_state_of data ?h) < unat g"
    using g h(3) by (auto simp: claim_generation_def handle_state_of_def
      dest: unat_checked_add_u64 split: option.splits if_splits)
  with empty show ?thesis
    by (auto simp: data' has_content_def list_namespace_grants_def get_namespace_def Let_def)
qed

theorem claim_starts_empty_witness:
  "\<exists>data' x. namespace_claim sc_state
      \<lparr>cl_handle = ''carol'', cl_owner = OwnerUser ''u-3'', cl_owner_label = ''u-3'', cl_actor = ''root'',
       cl_admin_override = False, cl_now = 12\<rparr> = Ok (data', x) \<and> \<not> has_content data' ''carol''"
proof -
  let ?r = "\<lparr>cl_handle = ''carol'', cl_owner = OwnerUser ''u-3'', cl_owner_label = ''u-3'', cl_actor = ''root'',
       cl_admin_override = False, cl_now = 12\<rparr>"
  have "is_ok (namespace_claim sc_state ?r)" by code_simp
  then obtain data' x where claim: "namespace_claim sc_state ?r = Ok (data', x)" by (auto simp: is_ok_iff)
  with claim_starts_empty [OF sc_run claim] show ?thesis by auto
qed

text \<open>
  C16: a live namespace is given up only by a release of its owner or by an administrator's revocation,
  and only when no repository, tag or manifest is left under it.
\<close>

theorem namespace_loss:
  assumes "entry_step env data ne = Some (data', resp)"
    and "bt_get (namespaces data) h = Some ns" and "bt_get (namespaces data') h = None"
  shows "\<not> has_content data h \<and>
    (\<exists>actor now. (\<exists>reason. le_payload (snd ne) = Normal (ReqNamespace (NamespaceDelete h actor reason now))
        \<and> ns_owner ns = OwnerUser actor)
      \<or> le_payload (snd ne) = Normal (ReqNamespace (NamespaceAdminRevoke h actor now)))"
  using assms(1)
proof (cases rule: entry_step_cases)
  case (Normal req)
  let ?data = "data\<lparr>last_applied_log := Some (le_log_id (snd ne))\<rparr>"
  have live: "bt_get (namespaces ?data) h = Some ns" using assms(2) by simp
  have content: "has_content ?data h = has_content data h" by (simp add: has_content_def)
  from Normal(2) show ?thesis
  proof (cases rule: apply_request_cases)
    case (Namespace r x)
    with live assms(3) Normal(1) content show ?thesis
      by (cases r)
        (auto simp: namespace_claim_def namespace_delete_Ok namespace_admin_revoke_Ok release_namespace_def
          namespace_put_grant_def namespace_delete_grant_def Let_def split: if_splits option.splits)
  qed (use live assms(3) in \<open>auto elim!: manifest_frame mirror_config_frame job_frame token_frame
      policy_frame repository_frame\<close>)
qed (use assms in simp_all)

theorem namespace_loss_witness:
  "\<exists>data' resp. entry_step sc_env (fst (the (apply_entries sc_env empty_state (take 3 sc_log))))
      (sc_entry 4 (ReqNamespace (NamespaceDelete ''bob'' ''u-2'' OwnerDeleted 9))) = Some (data', resp)
    \<and> \<not> has_content (fst (the (apply_entries sc_env empty_state (take 3 sc_log)))) ''bob''"
proof -
  let ?data = "fst (the (apply_entries sc_env empty_state (take 3 sc_log)))"
  let ?ne = "sc_entry 4 (ReqNamespace (NamespaceDelete ''bob'' ''u-2'' OwnerDeleted 9))"
  have "map_option (\<lambda>(d, r). bt_get (namespaces d) ''bob'') (entry_step sc_env ?data ?ne) = Some None
      \<and> bt_get (namespaces ?data) ''bob'' \<noteq> None" by code_simp
  then obtain data' resp ns where "entry_step sc_env ?data ?ne = Some (data', resp)"
    "bt_get (namespaces ?data) ''bob'' = Some ns" "bt_get (namespaces data') ''bob'' = None" by auto
  with namespace_loss [of sc_env ?data ?ne data' resp "''bob''" ns] show ?thesis by blast
qed

section \<open>The index and its reference counts\<close>

text \<open>
  C11: after any log of fewer than \<open>2 ^ 64\<close> entries the counter of every blob is exactly the number of
  references stored manifests hold to it, no counter is kept for an unreferenced blob, and no count
  wrapped around.
\<close>

theorem refcounts_exact:
  assumes "apply_entries env empty_state es = Some (data, rs)" and "length es < 2 ^ 64"
  shows "bt_get (blob_ref_counts data) dig =
      (let n = count (index_refs (manifests data)) dig in if n = 0 then None else Some (of_nat n))
    \<and> unat (blob_ref_count_str data dig) = count (index_refs (manifests data)) dig"
proof -
  have inv: "refs_inv (length es) data"
    using refs.good_run [OF refs_inv_empty, of env es data rs] assms(1) by (simp add: apply_entries_run)
  have "count (index_refs (manifests data)) dig < 2 ^ 64"
    using refs_inv_le [OF inv, of dig] assms(2) by simp
  with inv assms(2) show ?thesis
    by (simp add: refs_inv_def refs_exact_def counts_match_def blob_ref_count_str_def bt_get_or_def
      unat_of_nat_u64 Let_def del: count_eq_zero_iff)
qed

theorem refcounts_exact_witness:
  "unat (blob_ref_count_str sc_state sc_blob) = count (index_refs (manifests sc_state)) sc_blob"
  using refcounts_exact [OF sc_run, of sc_blob] by (simp add: sc_length)

text \<open>
  in every reachable state each listed tag resolves: looking it up returns a stored manifest, and
  the same manifest is found under the digest the tag points to.
\<close>

theorem listed_tags_resolve:
  assumes "apply_entries env empty_state es = Some (data, rs)" and "t \<in> set (list_tags data name n l)"
  shows "\<exists>e. get_manifest data name t = Some e \<and> tag_at data name t = Some (digest_to_string (me_digest e))
    \<and> manifest_at data name (digest_to_string (me_digest e)) = Some e"
proof -
  have inv: "index_wf data" by (rule index_reachable [OF assms(1)])
  have page: "set (page_of ks n l) \<subseteq> set ks" for ks
    by (auto simp: page_of_def Let_def split: option.splits dest: in_set_takeD)
  from assms(2) obtain ts where ts: "bt_get (tags data) name = Some ts" "t \<in> set (page_of (bt_keys ts) n l)"
    by (cases "bt_get (tags data) name") (auto simp: list_tags_def)
  have "t \<in> set (bt_keys ts)" using page ts(2) by blast
  with ts(1) obtain d where d: "tag_at data name t = Some d"
    by (auto simp: tag_at_def set_bt_keys bt_contains_def)
  with inv obtain e where e: "manifest_at data name d = Some e" "d = digest_to_string (me_digest e)"
    and colon: "CHR '':'' \<notin> set t"
    by (fastforce simp: index_wf_def entry_wf_def contains_char_def)
  have "\<not> starts_with ''sha256:'' t" "\<not> starts_with ''sha512:'' t"
    using colon by (auto simp: starts_with_iff)
  with d e show ?thesis by (simp add: get_manifest_view)
qed

theorem listed_tags_resolve_witness: "\<exists>e. get_manifest sc_state ''alice/app'' ''v1'' = Some e"
  using listed_tags_resolve [OF sc_run, of "''v1''" "''alice/app''" None None] sc_facts by auto

text \<open>
  a manifest that was put is found again: under its tag, when it was pushed to one, and under its
  digest, as the very entry the request describes; a recorded upstream validation of the overwritten
  tag is gone.
\<close>

theorem put_then_get:
  assumes "put_manifest env data r = Ok (data', x)" and "sha_hex_ok (env_sha_hex env)"
  shows "get_manifest data' (pm_name r) (digest_to_string (me_digest (put_manifest_entry env r)))
      = Some (put_manifest_entry env r)
    \<and> (\<not> contains_char (CHR '':'') (pm_reference r) \<longrightarrow>
      get_manifest data' (pm_name r) (pm_reference r) = Some (put_manifest_entry env r)
      \<and> validation_at data' c (pm_name r) (pm_reference r) = None)"
  using assms by (rule put_manifest_found)

theorem put_then_get_witness:
  "\<exists>data' x. put_manifest sc_env sc_state (sc_put_request ''v2'' 1) = Ok (data', x)
    \<and> get_manifest data' ''alice/app'' ''v2'' = Some (put_manifest_entry sc_env (sc_put_request ''v2'' 1))"
proof -
  obtain data' x where put: "put_manifest sc_env sc_state (sc_put_request ''v2'' 1) = Ok (data', x)"
    using sc_require by (auto simp: put_manifest_def sc_put_request_def)
  have "sha_hex_ok (env_sha_hex sc_env)"
    by (simp add: sha_hex_ok_def sc_env_def list_all_iff byte_class_defs byte_def)
  from put_then_get [OF put this] put show ?thesis
    by (auto simp: sc_put_request_def contains_char_def)
qed

text \<open>
  deleting a manifest by digest removes it and every tag that pointed to it, forgets the upstream
  validations of those tags, and leaves every other manifest, tag and validation alone.
\<close>

theorem delete_manifest_effect:
  assumes "delete_manifest data name expected dig = Ok (data', x)"
  shows "manifest_at data' n k = (if n = name \<and> k = dig then None else manifest_at data n k)
    \<and> tag_at data' n t = (if n = name \<and> tag_at data name t = Some dig then None else tag_at data n t)
    \<and> validation_at data' c n t = (if n = name \<and> tag_at data name t = Some dig then None else validation_at data c n t)"
  using assms by (auto simp: delete_manifest_def drop_digests_view)

theorem delete_manifest_effect_witness:
  "\<exists>data' x. delete_manifest sc_state ''alice/app'' (Some (epoch_new ''alice'' 1)) sc_digest = Ok (data', x)
    \<and> manifest_at data' ''alice/app'' sc_digest = None"
proof -
  obtain data' x where "delete_manifest sc_state ''alice/app'' (Some (epoch_new ''alice'' 1)) sc_digest = Ok (data', x)"
    using sc_require by (auto simp: delete_manifest_def)
  with delete_manifest_effect [OF this, of "''alice/app''" sc_digest] show ?thesis by auto
qed

text \<open>
  a manifest request touches one repository: lookups, tags and validations of every other
  repository are unchanged, and a request that fails or names no repository changes none.
\<close>

theorem repository_isolation:
  assumes "apply_request env now data (ReqManifest r) = Some (data', resp)" and "manifest_target r \<noteq> Some n"
  shows "get_manifest data' n reference = get_manifest data n reference \<and> tag_at data' n = tag_at data n
    \<and> validation_at data' c n = validation_at data c n"
  using assms(1)
proof (cases rule: apply_request_cases)
  case (Manifest r' x)
  then have "apply_manifest env data r = Ok (data', x)" by simp
  from apply_manifest_elsewhere [OF this assms(2)] show ?thesis by (simp add: get_manifest_view)
qed simp_all

theorem repository_isolation_witness:
  "\<exists>data' resp. apply_request sc_env 1 sc_state (ReqManifest (PutManifest (sc_put_request ''v2'' 1))) = Some (data', resp)
    \<and> get_manifest data' ''users/bob'' ''v1'' = get_manifest sc_state ''users/bob'' ''v1''"
proof -
  obtain data' resp where "apply_request sc_env 1 sc_state (ReqManifest (PutManifest (sc_put_request ''v2'' 1)))
      = Some (data', resp)" by (cases "settle sc_state RespManifest (apply_manifest sc_env sc_state (PutManifest (sc_put_request ''v2'' 1)))") auto
  with repository_isolation [OF this, of "''users/bob''" "''v1''"] show ?thesis
    by (auto simp: sc_put_request_def)
qed

text \<open>
  of two pushes to the same tag that must not overwrite it the second one loses: whatever it
  carries, it is refused with a conflict and the first manifest stays under the tag.
\<close>

theorem absent_push_wins_once:
  assumes "put_manifest env data r1 = Ok (data', x)" and "\<not> contains_char (CHR '':'') (pm_reference r1)"
    and "pm_name r2 = pm_name r1" and "pm_reference r2 = pm_reference r1"
    and "pm_expected_namespace r2 = pm_expected_namespace r1" and "pm_require_reference_absent r2"
  shows "\<exists>m. put_manifest env data' r2 = Err (Conflict m)
    \<and> get_manifest data' (pm_name r1) (pm_reference r1) = Some (put_manifest_entry env r1)"
proof -
  have ok: "require_expected_namespace data (pm_name r1) (pm_expected_namespace r1) = Ok ()"
    and data': "data' = store_manifest data (pm_name r1) (pm_reference r1) (put_manifest_entry env r1)"
    using assms(1) by (auto simp: put_manifest_def split: if_splits)
  have "namespaces data' = namespaces data" by (simp add: data' store_manifest_def Let_def)
  with ok have ok': "require_expected_namespace data' (pm_name r2) (pm_expected_namespace r2) = Ok ()"
    by (simp add: require_expected_namespace_Ok assms(3,5))
  have "\<not> starts_with ''sha256:'' (pm_reference r1)" "\<not> starts_with ''sha512:'' (pm_reference r1)"
    using assms(2) by (auto simp: contains_char_def starts_with_iff)
  then have "get_manifest data' (pm_name r1) (pm_reference r1) = Some (put_manifest_entry env r1)"
    using assms(2) by (simp add: data' get_manifest_view store_manifest_view)
  with ok' assms(2,3,4,6) show ?thesis by (simp add: put_manifest_def)
qed

theorem absent_push_wins_once_witness:
  "\<exists>data' x m. put_manifest sc_env sc_state (sc_put_request ''v2'' 1) = Ok (data', x)
    \<and> put_manifest sc_env data' ((sc_put_request ''v2'' 1)\<lparr>pm_require_reference_absent := True\<rparr>) = Err (Conflict m)"
proof -
  obtain data' x where put: "put_manifest sc_env sc_state (sc_put_request ''v2'' 1) = Ok (data', x)"
    using sc_require by (auto simp: put_manifest_def sc_put_request_def)
  with absent_push_wins_once [OF put, of "(sc_put_request ''v2'' 1)\<lparr>pm_require_reference_absent := True\<rparr>"]
  show ?thesis by (auto simp: sc_put_request_def contains_char_def)
qed

end
