(* ===== verification/Maintenance_Properties.thy ===== *)
theory Maintenance_Properties
  imports Scenario
begin

text \<open>
  Properties of the two background activities that read the replicated state as a whole: the garbage
  collector and the snapshots.
\<close>

section \<open>Garbage collection\<close>

text \<open>
  C12: the collector never deletes the object of a blob that a stored manifest references: if its last
  reading of the counts is a state reached by the log, no key it sends for deletion is the object key
  of a referenced blob.
\<close>

theorem gc_keeps_referenced:
  assumes "apply_entries env empty_state es = Some (data, rs)" and "length es < 2 ^ 64"
    and "page_chain list_page None objects" and "gi_objects inp = Ok objects" and "gi_fresh inp = blob_ref_counts data"
    and "run_gc_sweep del config leader inp = (sent, r)"
    and "manifest_at data n k = Some e" and "d \<in> set (me_referenced_blobs e)"
  shows "\<exists>key. s3_key d = Some key \<and> key \<notin> set (concat sent)"
proof -
  have "refs_inv (length es) data" by (rule refs_reachable [OF assms(1)])
  with assms(2) have inv: "\<exists>n < 2 ^ 64. refs_inv n data" by blast
  have "digest_wf d"
    using index_reachable [OF assms(1)] assms(7,8) by (auto simp: index_wf_def entry_wf_def)
  then obtain key where key: "s3_key d = Some key" "s3_key_to_digest key = Some (digest_to_string d)"
    using s3_key_roundtrip by blast
  have "key \<notin> set (concat sent)"
  proof (rule state_refs.sweep_keeps_referenced [OF inv assms(5,6) _ key(2)])
    show "s3_key_to_digest (go_key obj) = Some (go_digest obj)"
      if "gi_objects inp = Ok objs" "obj \<in> set objs" for objs obj
      using that page_chain_digest [OF assms(3)] assms(4) by auto
    show "digest_to_string d \<in># index_refs (manifests data)"
      using assms(7,8) by (rule manifest_ref_in_index)
  qed
  with key(1) show ?thesis by blast
qed

definition gc_page :: object_page where
  "gc_page = \<lparr>op_contents = [(Some (''blobs/sha256/bb/'' @ replicate 64 (CHR ''b'')), Some 1),
       (Some (''blobs/sha256/cc/'' @ replicate 64 (CHR ''c'')), Some 1)],
     op_is_truncated = None, op_next_token = None\<rparr>"

definition gc_inp :: gc_inputs where
  "gc_inp = \<lparr>gi_epoch = 9, gi_now = 9000000000, gi_elapsed_ms = 1,
     gi_objects = Ok (List.map_filter object_of (op_contents gc_page)),
     gi_counts = blob_ref_counts sc_state, gi_fresh = blob_ref_counts sc_state\<rparr>"

definition gc_conf :: gc_config where
  "gc_conf = \<lparr>gc_interval_secs = 1, gc_grace_period_secs = 0, gc_dry_run = False\<rparr>"

lemma gc_page_chain: "page_chain (\<lambda>_. Ok gc_page) None (List.map_filter object_of (op_contents gc_page))"
  by (rule page_chain.Last) (simp_all add: gc_page_def)

theorem gc_keeps_referenced_witness:
  "\<exists>key e d. manifest_at sc_state ''alice/app'' sc_digest = Some e \<and> d \<in> set (me_referenced_blobs e) \<and> s3_key d = Some key \<and>
    key \<notin> set (concat (fst (run_gc_sweep (\<lambda>ks. Ok \<lparr>gd_deleted = length ks, gd_errors = 0\<rparr>) gc_conf (\<lambda>_. True) gc_inp)))"
proof -
  let ?del = "\<lambda>ks. Ok \<lparr>gd_deleted = length ks, gd_errors = 0\<rparr>"
  obtain e d where e: "manifest_at sc_state ''alice/app'' sc_digest = Some e" "d \<in> set (me_referenced_blobs e)"
    using sc_facts by auto
  have "length sc_log < 2 ^ 64" by (simp add: sc_length)
  moreover have "gi_objects gc_inp = Ok (List.map_filter object_of (op_contents gc_page))"
      "gi_fresh gc_inp = blob_ref_counts sc_state" by (simp_all add: gc_inp_def)
  ultimately have "\<exists>key. s3_key d = Some key \<and>
      key \<notin> set (concat (fst (run_gc_sweep ?del gc_conf (\<lambda>_. True) gc_inp)))"
    using gc_keeps_referenced [OF sc_run _ gc_page_chain _ _ surjective_pairing e] by blast
  with e show ?thesis by blast
qed

text \<open>
  the numbers a sweep reports add up, it only sends keys of objects that were unreferenced at both
  readings and older than the grace period, in batches of at most a thousand, and a dry run sends none.
\<close>

theorem gc_sweep_accounting:
  assumes "run_gc_sweep del config leader inp = (sent, Ok stats)" and "gi_objects inp = Ok objects"
  shows "gs_scanned stats = length objects
    \<and> gs_skipped_referenced stats + gs_skipped_young stats + gs_candidates stats = gs_scanned stats
    \<and> length (concat sent) \<le> gs_candidates stats
    \<and> set (concat sent) \<subseteq> go_key ` set (candidates config inp objects)
    \<and> (\<forall>b \<in> set sent. b \<noteq> [] \<and> length b \<le> 1000)
    \<and> (gc_dry_run config \<longrightarrow> sent = [])"
proof (rule sweep_candidates [OF assms(2), of config del leader])
  fix s0
  assume s0: "gs_candidates s0 = length (candidates config inp objects)" "gs_scanned s0 = length objects"
      "gs_skipped_referenced s0 + gs_skipped_young s0 + gs_candidates s0 = gs_scanned s0"
    and sweep: "run_gc_sweep del config leader inp =
      (if gc_dry_run config then ([], Ok (s0\<lparr>gs_duration_ms := gi_elapsed_ms inp\<rparr>))
       else (case delete_loop del leader 0 (chunks 1000 (candidates config inp objects)) s0 of
          (sent, r) \<Rightarrow> (sent, res_bind r (\<lambda>s. Ok (s\<lparr>gs_duration_ms := gi_elapsed_ms inp\<rparr>)))))"
  show ?thesis
  proof (cases "gc_dry_run config")
    case True
    with sweep assms(1) s0 show ?thesis by auto
  next
    case False
    let ?cs = "chunks 1000 (candidates config inp objects)"
    from False sweep assms(1) have "fst (delete_loop del leader 0 ?cs s0) = sent"
      and "res_bind (snd (delete_loop del leader 0 ?cs s0)) (\<lambda>s. Ok (s\<lparr>gs_duration_ms := gi_elapsed_ms inp\<rparr>)) = Ok stats"
      by (auto simp: split_beta)
    then obtain s1 where loop: "delete_loop del leader 0 ?cs s0 = (sent, Ok s1)"
      and stats: "stats = s1\<lparr>gs_duration_ms := gi_elapsed_ms inp\<rparr>"
      by (cases "delete_loop del leader 0 ?cs s0") auto
    from delete_loop_prefix [OF loop] obtain rest where rest: "map (map go_key) ?cs = sent @ rest" ..
    then have "concat (map (map go_key) ?cs) = concat sent @ concat rest" by simp
    then have keys: "map go_key (candidates config inp objects) = concat sent @ concat rest"
      by (simp add: concat_chunks flip: map_concat)
    have "b \<noteq> [] \<and> length b \<le> 1000" if "b \<in> set sent" for b
    proof -
      from that rest have "b \<in> set (map (map go_key) ?cs)" by simp
      then show ?thesis by (auto dest: chunks_length)
    qed
    moreover have "length (concat sent) \<le> length (candidates config inp objects)"
      using arg_cong [OF keys, of length] by simp
    moreover have "set (concat sent) \<subseteq> go_key ` set (candidates config inp objects)"
      using arg_cong [OF keys, of set] by auto
    ultimately show ?thesis
      using delete_loop_stats [OF loop] s0 False by (simp add: stats)
  qed
qed

theorem gc_sweep_accounting_witness:
  "\<exists>sent stats. run_gc_sweep (\<lambda>ks. Ok \<lparr>gd_deleted = length ks, gd_errors = 0\<rparr>)
      (gc_conf\<lparr>gc_dry_run := True\<rparr>) (\<lambda>_. True) gc_inp = (sent, Ok stats) \<and> sent = []"
proof -
  let ?del = "\<lambda>ks. Ok \<lparr>gd_deleted = length ks, gd_errors = 0\<rparr>"
  obtain sent stats where sweep: "run_gc_sweep ?del (gc_conf\<lparr>gc_dry_run := True\<rparr>) (\<lambda>_. True) gc_inp = (sent, Ok stats)"
    by (auto simp: run_gc_sweep_def gc_inp_def Let_def split_beta)
  with gc_sweep_accounting [OF sweep, of "List.map_filter object_of (op_contents gc_page)"] show ?thesis
    by (auto simp: gc_inp_def)
qed

text \<open>
  C17: a sweep that keeps leadership and meets no service error sends every candidate, in the order of
  the listing and exactly once.
\<close>

theorem gc_sweep_complete:
  assumes "gi_objects inp = Ok objects" and "\<not> gc_dry_run config"
    and "\<And>i. leader i" and "\<And>ks. is_ok (del ks)"
  shows "\<exists>sent stats. run_gc_sweep del config leader inp = (sent, Ok stats)
    \<and> concat sent = map go_key (candidates config inp objects) \<and> \<not> gs_leadership_lost stats"
proof (rule sweep_candidates [OF assms(1), of config del leader])
  fix s0
  let ?cs = "chunks 1000 (candidates config inp objects)"
  assume "\<not> gs_leadership_lost s0"
    and sweep: "run_gc_sweep del config leader inp =
      (if gc_dry_run config then ([], Ok (s0\<lparr>gs_duration_ms := gi_elapsed_ms inp\<rparr>))
       else (case delete_loop del leader 0 ?cs s0 of
          (sent, r) \<Rightarrow> (sent, res_bind r (\<lambda>s. Ok (s\<lparr>gs_duration_ms := gi_elapsed_ms inp\<rparr>)))))"
  moreover obtain s1 where "delete_loop del leader 0 ?cs s0 = (map (map go_key) ?cs, Ok s1)"
      "gs_leadership_lost s1 = gs_leadership_lost s0"
    using delete_loop_all [of leader del 0 ?cs s0] assms(3,4) by (auto simp: is_ok_iff)
  ultimately show ?thesis
    using assms(2) by (simp add: concat_chunks flip: map_concat)
qed

theorem gc_sweep_complete_witness:
  "\<exists>sent stats. run_gc_sweep (\<lambda>ks. Ok \<lparr>gd_deleted = length ks, gd_errors = 0\<rparr>) gc_conf (\<lambda>_. True) gc_inp = (sent, Ok stats)
    \<and> concat sent = map go_key (candidates gc_conf gc_inp (List.map_filter object_of (op_contents gc_page)))"
  using gc_sweep_complete [of gc_inp "List.map_filter object_of (op_contents gc_page)" gc_conf "\<lambda>_. True"
      "\<lambda>ks. Ok \<lparr>gd_deleted = length ks, gd_errors = 0\<rparr>"]
  by (auto simp: gc_inp_def gc_conf_def)

section \<open>Snapshots\<close>

text \<open>
  C14: Installing a snapshot that was built from a state restores that state exactly, with its log position and
  membership, on any machine and at any time.  The state is one that a log of fewer than \<open>2 ^ 64\<close> entries leads
  to, whose manifest puts carry their sizes and times, as the server fills them in; the JSON codec reads back
  what it wrote for this state.
\<close>

theorem snapshot_roundtrip:
  assumes "apply_entries env empty_state es = Some (data, rs)" and "log_complete env es" and "length es < 2 ^ 64"
    and "build_snapshot show_leader to_vec data = Ok (meta, bytes)"
    and "\<And>payload. to_vec data = Ok payload \<Longrightarrow> from_payload payload = Ok data"
  shows "install_snapshot env from_payload now meta bytes sm = Ok (new_with_snapshot data meta bytes)"
proof -
  obtain payload where p: "to_vec data = Ok payload" "bytes = to_le_bytes SNAPSHOT_VERSION @ payload"
    and meta: "meta_last_log_id meta = last_applied_log data" "meta_last_membership meta = last_membership data"
    using assms(4) by (auto simp: build_snapshot_def split: sum.splits)
  from normalize_reachable [OF assms(1-3)] show ?thesis
    using assms(5) [OF p(1)] by (simp add: install_snapshot_def p(2) from_to_le_bytes meta new_with_snapshot_def Let_def)
qed

lemma sc_complete: "log_complete sc_env sc_log"
  by code_simp

theorem snapshot_roundtrip_witness:
  "\<exists>meta bytes. build_snapshot (\<lambda>t n. ''L'') (\<lambda>_. Ok ''{}'') sc_state = Ok (meta, bytes)
    \<and> install_snapshot sc_env (\<lambda>_. Ok sc_state) 77 meta bytes (state_machine_new empty_state)
      = Ok (new_with_snapshot sc_state meta bytes)"
proof -
  obtain meta bytes where b: "build_snapshot (\<lambda>t n. ''L'') (\<lambda>_. Ok ''{}'') sc_state = Ok (meta, bytes)"
    by (auto simp: build_snapshot_def)
  from snapshot_roundtrip [OF sc_run sc_complete _ b, of "\<lambda>_. Ok sc_state"] b show ?thesis by (auto simp: sc_length)
qed

text \<open>
  a snapshot that installs has the supported version, and afterwards the machine stands at the
  snapshot's log position and membership, serves the snapshot it received, has every derived field of
  its entries filled in, keeps the index invariant of the payload, and its counts were rebuilt from the
  index, whatever counts the payload carried.
\<close>

theorem snapshot_install:
  assumes "install_snapshot env from_payload now meta bytes sm = Ok sm'" and "now \<noteq> 0"
    and "\<And>k. count (index_refs (manifests (sm_data sm'))) k < 2 ^ 64"
  shows "take 4 bytes = to_le_bytes SNAPSHOT_VERSION
    \<and> applied_state sm' = (meta_last_log_id meta, meta_last_membership meta)
    \<and> get_current_snapshot sm' = Some (meta, bytes)
    \<and> index_normal env (sm_data sm') \<and> refs_exact (sm_data sm')
    \<and> (\<forall>data. from_payload (drop 4 bytes) = Ok data \<longrightarrow> index_wf data \<longrightarrow> index_wf (sm_data sm'))"
proof -
  obtain restored where len: "4 \<le> length bytes" and version: "from_le_bytes (take 4 bytes) = SNAPSHOT_VERSION"
    and payload: "from_payload (drop 4 bytes) = Ok restored"
    and sm': "sm' = \<lparr>sm_data = (normalize_restored_metadata env now restored)\<lparr>last_applied_log := meta_last_log_id meta,
      last_membership := meta_last_membership meta\<rparr>, sm_snapshot = Some (meta, bytes)\<rparr>"
    using assms(1) by (auto simp: install_snapshot_def Let_def split: if_splits sum.splits)
  let ?data = "normalize_restored_metadata env now restored"
  have "refs_exact ?data"
    using assms(3) rebuild_refs_exact [of "restored\<lparr>manifests := bt_map (\<lambda>_ repo. bt_map (\<lambda>_. normalize_entry env now) repo) (manifests restored)\<rparr>"]
    by (simp add: sm' normalize_restored_metadata_def rebuild_blob_ref_counts_def)
  moreover have "index_normal env ?data" using assms(2) by (rule normalize_index_normal)
  moreover have "index_wf restored \<Longrightarrow> index_wf ?data" by (rule normalize_index_wf)
  moreover have "take 4 bytes = to_le_bytes SNAPSHOT_VERSION"
    using version len by (intro from_le_bytes_inject) (simp_all add: from_to_le_bytes)
  ultimately show ?thesis
    by (simp add: sm' payload applied_state_def get_current_snapshot_def refs_exact_def index_normal_def
      manifest_at_def ignores_logD [OF ignores_log_index_wf])
qed

lemma sc_normalize: "normalize_restored_metadata sc_env now sc_state = sc_state"
  using sc_run sc_complete by (rule normalize_reachable) (simp add: sc_length)

theorem snapshot_install_witness:
  "\<exists>meta sm'. install_snapshot sc_env (\<lambda>_. Ok sc_state) 77 meta (to_le_bytes 1 @ ''{}'') (state_machine_new empty_state) = Ok sm'
    \<and> refs_exact (sm_data sm')"
proof -
  let ?meta = "\<lparr>meta_last_log_id = None, meta_last_membership = last_membership sc_state, meta_snapshot_id = ''empty''\<rparr>"
  obtain sm' where sm': "install_snapshot sc_env (\<lambda>_. Ok sc_state) 77 ?meta (to_le_bytes 1 @ ''{}'') (state_machine_new empty_state) = Ok sm'"
    and m: "manifests (sm_data sm') = manifests sc_state"
    by (simp add: install_snapshot_def from_to_le_bytes SNAPSHOT_VERSION_def sc_normalize Let_def)
  have "refs_inv 4 sc_state" using refs_reachable [OF sc_run] by (simp add: sc_length)
  then have "count (index_refs (manifests (sm_data sm'))) k < 2 ^ 64" for k
    using refs_inv_le [of 4 sc_state k] m by simp
  with snapshot_install [OF sm'] sm' show ?thesis by auto
qed

end
