(* ===== verification/Consistency_Properties.thy ===== *)
theory Consistency_Properties
  imports Scenario
begin

text \<open>
  Properties of the replicated log as a whole: the abstract life of a handle, agreement of the replicas,
  the audit of grants, the claims on synchronization jobs, cursor pagination, and the durability of the
  log and of the votes.
\<close>

section \<open>The state machine against its specification\<close>

text \<open>
  C38: the namespace requests implement the abstract life of a handle (free, live in a generation,
  released): along every run each handle moves by claim, release and reclaim only, and its generation
  never goes back.
\<close>

theorem handle_lifecycle_refined:
  assumes "apply_entries env data es = Some (data', rs)"
  shows "handle_step\<^sup>*\<^sup>* (handle_state_of data h) (handle_state_of data' h)
    \<and> hs_generation (handle_state_of data h) \<le> hs_generation (handle_state_of data' h)"
  using run_refines [OF assms] generation_steps by blast

theorem handle_lifecycle_refined_witness:
  "handle_step\<^sup>*\<^sup>* (handle_state_of empty_state ''bob'') (HReleased 1 (OwnerUser ''u-2''))"
  using handle_lifecycle_refined [OF sc_run, of "''bob''"] sc_facts by simp

text \<open>
  C39: two replicas that apply the same log entries reach the same state and give the same answers,
  whatever their clocks show, as long as no entry is one of the four requests that read the clock while
  they are applied.
\<close>

theorem replicas_agree:
  assumes "map snd es = map snd es'" and "\<forall>ne \<in> set es. \<not> entry_reads_clock (snd ne)"
  shows "apply_entries env data es = apply_entries env data es'"
  using assms by (rule apply_entries_clock)

theorem replicas_agree_witness:
  "apply_entries sc_env empty_state (map (\<lambda>ne. (999, snd ne)) sc_log) = Some (sc_state, sc_responses)"
proof -
  have "\<forall>ne \<in> set sc_log. \<not> entry_reads_clock (snd ne)"
    by (simp add: sc_log_def sc_claim_def)
  then show ?thesis
    using replicas_agree [of sc_log "map (\<lambda>ne. (999, snd ne)) sc_log" sc_env empty_state] sc_run by simp
qed

text \<open>The hypothesis is needed: a claim of a job is stamped with the clock of the replica that applies it.\<close>

definition queued_job :: sync_job where
  "queued_job = \<lparr>sj_id = ''j'', sj_kind = LegacyWarm, sj_rule_id = None, sj_rule_name = None, sj_image = ''i'',
     sj_tags = [], sj_interval_secs = 60, sj_status = Idle, sj_claimed_by = None, sj_claimed_at = None,
     sj_last_run_at = None, sj_next_run_at = 0, sj_last_error = None\<rparr>"

definition claim_log :: "u64 \<Rightarrow> (u64 \<times> log_entry) list" where
  "claim_log now = [sc_entry 1 (ReqJob (PutSyncJob queued_job)), (now, snd (sc_entry 2 (ReqJob (ClaimSyncJob ''j'' ''n''))))]"

lemma replicas_diverge:
  "map snd (claim_log 100) = map snd (claim_log 101)
    \<and> apply_entries env empty_state (claim_log 100) \<noteq> apply_entries env empty_state (claim_log 101)"
proof
  have "map_option (\<lambda>(d, rs). map_option sj_claimed_at (get_sync_job d ''j'')) (apply_entries env empty_state (claim_log now))
      = Some (Some (Some now))" for now
    by (simp add: claim_log_def sc_entry_def queued_job_def apply_entry_def Let_def claim_sync_job_def get_sync_job_def)
  from this [of 100] this [of 101]
  show "apply_entries env empty_state (claim_log 100) \<noteq> apply_entries env empty_state (claim_log 101)" by auto
qed (simp add: claim_log_def sc_entry_def)

text \<open>
  C40: the audit trail of a namespace is append-only and complete: one log entry adds at most one event,
  and when it changes any grant of the namespace it either adds the event that records the grant before
  and after the change, or gives the namespace up as a whole.
\<close>

theorem grant_changes_audited:
  assumes "entry_step env data ne = Some (data', resp)"
  shows "\<exists>evs. audit_of data' h = audit_of data h @ evs \<and> length evs \<le> 1 \<and>
    (\<forall>i. grant_at data' h i \<noteq> grant_at data h i \<longrightarrow>
      (\<exists>ev. evs = [ev] \<and> event_explains data data' h ev) \<or>
      bt_contains (namespaces data) h \<and> \<not> bt_contains (namespaces data') h \<and> grant_at data' h i = None)"
  using assms
proof (cases rule: entry_step_cases)
  case (Normal req)
  from apply_request_audit [OF Normal(2), of h] show ?thesis
    by (force simp: audit_step_def audit_of_def grant_at_def event_explains_def)
qed (auto simp: audit_of_def grant_at_def)

definition grant_entry :: "u64 \<times> log_entry" where
  "grant_entry = sc_entry 5 (ReqNamespace (NamespacePutGrant
     \<lparr>ng_id = ''g1'', ng_namespace = ''alice'', ng_grantee = GranteePublic, ng_action = Pull, ng_label = ''public'',
      ng_created_by = ''u-1'', ng_created_at = 3, ng_updated_by = ''u-1'', ng_updated_at = 3\<rparr> ''Alice'' ''share'' ''a1''))"

theorem grant_changes_audited_witness:
  "\<exists>data' resp ev. entry_step sc_env sc_state grant_entry = Some (data', resp)
    \<and> audit_of data' ''alice'' = audit_of sc_state ''alice'' @ [ev] \<and> event_explains sc_state data' ''alice'' ev"
proof -
  have "validate_handle ''alice'' = Ok ()" "bt_get (namespace_grants sc_state) ''alice'' = None" by code_simp+
  then have "\<exists>data' resp. entry_step sc_env sc_state grant_entry = Some (data', resp)
    \<and> grant_at data' ''alice'' ''g1'' \<noteq> grant_at sc_state ''alice'' ''g1'' \<and> bt_contains (namespaces data') ''alice''"
    using sc_facts
    by (simp add: entry_step_def apply_entry_def grant_entry_def sc_entry_def Let_def namespace_put_grant_def
      validate_namespace_grant_def bt_contains_def grant_at_def bt_get_or_def settle_def)
  then obtain data' resp where step: "entry_step sc_env sc_state grant_entry = Some (data', resp)"
    "grant_at data' ''alice'' ''g1'' \<noteq> grant_at sc_state ''alice'' ''g1''" "bt_contains (namespaces data') ''alice''"
    by blast
  from grant_changes_audited [OF step(1), of "''alice''"] obtain evs where
    evs: "audit_of data' ''alice'' = audit_of sc_state ''alice'' @ evs"
    and change: "\<forall>i. grant_at data' ''alice'' i \<noteq> grant_at sc_state ''alice'' i \<longrightarrow>
      (\<exists>ev. evs = [ev] \<and> event_explains sc_state data' ''alice'' ev) \<or> bt_contains (namespaces sc_state) ''alice''
        \<and> \<not> bt_contains (namespaces data') ''alice'' \<and> grant_at data' ''alice'' i = None"
    by (elim exE conjE) rule
  from change [rule_format, OF step(2)] step(3) obtain ev where "evs = [ev]" "event_explains sc_state data' ''alice'' ev"
    by fast
  with evs step(1) show ?thesis by fast
qed

section \<open>Jobs and listings\<close>

text \<open>
  while no one rewrites a job, at most one claim of it succeeds along a run of the log, and none
  when it is already running: every other node that asks for it is refused.
\<close>

theorem job_claimed_once:
  assumes "apply_entries env data es = Some (data', rs)"
    and "\<forall>ne \<in> set es. \<not> entry_writes_job i (snd ne)"
  shows "length (filter (claim_won i) (zip es rs)) \<le> (if job_running data i then 0 else 1)"
  using claims_won_run assms by (simp add: apply_entries_run)

theorem job_claimed_once_witness:
  "\<exists>data rs. apply_entries sc_env (fst (the (apply_entries sc_env empty_state (claim_log 100)))) (drop 1 (claim_log 200)) = Some (data, rs)
    \<and> filter (claim_won ''j'') (zip (drop 1 (claim_log 200)) rs) = []"
proof -
  let ?data = "fst (the (apply_entries sc_env empty_state (claim_log 100)))"
  let ?es = "drop 1 (claim_log 200)"
  have "apply_entries sc_env ?data ?es \<noteq> None \<and> job_running ?data ''j''"
    by (simp add: claim_log_def sc_entry_def queued_job_def apply_entry_def Let_def claim_sync_job_def job_running_def)
  then obtain data' rs where run: "apply_entries sc_env ?data ?es = Some (data', rs)" and r: "job_running ?data ''j''" by auto
  have "\<forall>ne \<in> set ?es. \<not> entry_writes_job ''j'' (snd ne)"
    by (simp add: claim_log_def sc_entry_def)
  from job_claimed_once [OF run this] r run show ?thesis by auto
qed

text \<open>
  the stores of the state machine stay well formed: in every reachable state each object is filed
  under its own id, every stored policy set passes the validator, and the history of a job holds at most
  fifty runs, each of that job and each once, whatever limit a listing asks for.
\<close>

theorem stores_well_formed:
  assumes "apply_entries env empty_state es = Some (data, rs)"
  shows "stores_wf env data \<and> length (list_sync_job_runs data i limit) \<le> min limit 50
    \<and> distinct (map run_id (list_sync_job_runs data i limit))
    \<and> (\<forall>r \<in> set (list_sync_job_runs data i limit). run_job_id r = i)"
proof -
  have wf: "stores_wf env data" using assms by (rule stores_reachable)
  then have "run_history_wf i (bt_get_or [] (sync_job_runs data) i)"
    by (cases "bt_get (sync_job_runs data) i") (auto simp: stores_wf_def bt_get_or_def run_history_wf_def)
  with wf show ?thesis
    by (auto simp: list_sync_job_runs_def Let_def run_history_wf_def drop_map [symmetric] dest: in_set_dropD)
qed

theorem stores_well_formed_witness: "stores_wf sc_env sc_state"
  using stores_well_formed [OF sc_run, of "''j''" 10] by blast

text \<open>
  a client that pages through the tags of a repository with the cursor of the last page sees every
  tag exactly once and in order, for every page size, and as many requests as there are tags, plus the
  empty last page, are enough.
\<close>

theorem tag_pages_complete:
  assumes "0 < m" and "length (list_tags data name None None) \<le> fuel"
  shows "crawl (list_tags data name (Some m)) fuel None = list_tags data name None None
    \<and> sorted_wrt (<) (list_tags data name None None)"
proof (cases "bt_get (tags data) name")
  case None
  then show ?thesis
    by (cases fuel) (simp_all add: list_tags_def Let_def)
next
  case (Some ts)
  have sorted: "sorted_wrt (<) (bt_keys ts)" by (rule bt_keys_sorted)
  have "list_tags data name (Some m) = page_of (bt_keys ts) (Some m)"
    "list_tags data name None None = page_of (bt_keys ts) None None"
    using Some by (auto simp: list_tags_def)
  with crawl_all [OF sorted assms(1)] assms(2) sorted show ?thesis
    by (auto simp: page_of_def strict_sorted_iff sorted_sort_id)
qed

theorem tag_pages_complete_witness: "crawl (list_tags sc_state ''alice/app'' (Some 1)) 1 None = [''v1'']"
  using tag_pages_complete [of 1 sc_state "''alice/app''" 1] sc_facts by simp

section \<open>Durability of the log\<close>


definition one_entry :: log_entry where
  "one_entry = \<lparr>le_log_id = \<lparr>li_term = 2, li_node = 1, li_index = 5\<rparr>, le_payload = Blank\<rparr>"

definition one_vote :: vote where
  "one_vote = \<lparr>vt_term = 2, vt_node = 1, vt_committed = True\<rparr>"

definition one_codec :: codec where
  "one_codec =
     \<lparr>enc_entry = \<lambda>e. if e = one_entry then Ok ''e'' else Err [], dec_entry = \<lambda>b. Ok one_entry,
      enc_log_id = \<lambda>l. Err [], dec_log_id = \<lambda>b. Err [],
      enc_vote = \<lambda>v. if v = one_vote then Ok ''v'' else Err [], dec_vote = \<lambda>b. Ok one_vote\<rparr>"

lemma one_codec_ok: "codec_ok one_codec"
  by (simp add: codec_ok_def one_codec_def)


text \<open>The actor run on a sequence of commands, each with its faults.\<close>

definition actor_run :: "codec \<Rightarrow> (vote \<Rightarrow> vote \<Rightarrow> bool) \<Rightarrow> log_db \<Rightarrow> (io_faults \<times> command) list \<Rightarrow> log_db" where
  "actor_run c ge db cmds = fold (\<lambda>(io, cmd) db. fst (actor_step c ge io db cmd)) cmds db"

fun keeps_vote :: "(vote \<Rightarrow> vote \<Rightarrow> bool) \<Rightarrow> vote \<Rightarrow> command \<Rightarrow> bool" where
  "keeps_vote ge v (SaveVote _) = False"
| "keeps_vote ge v (SeedVote w) = ge v w"
| "keeps_vote ge v _ = True"

lemma actor_step_keeps_vote:
  assumes "read_vote_sync c (\<lambda>_. None) db = Ok (Some v)" and "keeps_vote ge v cmd"
  shows "read_vote_sync c (\<lambda>_. None) (fst (actor_step c ge io db cmd)) = Ok (Some v)"
proof -
  have read: "read_vote_sync c io db = Ok (Some v) \<or> (\<exists>e. read_vote_sync c io db = Err e)"
    using assms(1) by (auto simp: read_vote_sync_def io_check_def split: option.splits)
  show ?thesis
  proof (cases cmd)
    case (SeedVote w)
    with read assms show ?thesis by (auto simp: committed_def seed_vote_sync_def)
  qed (use assms in \<open>auto simp: committed_def votes_elsewhere split: sum.splits\<close>)
qed

text \<open>
  a vote that was acknowledged is not forgotten: whatever the log store does afterwards, faults and
  failed transactions included, a restart reads that vote back, unless a new vote is saved or seeded that
  the stored one does not cover.
\<close>

theorem vote_durable:
  assumes "codec_ok c" and "actor_step c ge io db (SaveVote v) = (db1, ReplyUnit (Ok ()))"
    and "\<forall>(io, cmd) \<in> set cmds. keeps_vote ge v cmd"
  shows "read_vote_sync c (\<lambda>_. None) (actor_run c ge db1 cmds) = Ok (Some v)"
proof -
  have "save_vote_sync c io db v = Ok db1"
    using assms(2) by (auto simp: committed_def split: sum.splits)
  then have "read_vote_sync c (\<lambda>_. None) db1 = Ok (Some v)"
    by (rule save_vote_read [OF assms(1)]) simp
  with assms(3) show ?thesis
    by (induction cmds arbitrary: db1) (auto simp: actor_run_def actor_step_keeps_vote)
qed

theorem vote_durable_witness:
  "\<exists>db1. actor_step one_codec (\<lambda>_ _. True) (\<lambda>_. None) \<lparr>table_logs = None, table_meta = None\<rparr> (SaveVote one_vote) = (db1, ReplyUnit (Ok ()))
    \<and> read_vote_sync one_codec (\<lambda>_. None) (actor_run one_codec (\<lambda>_ _. True) db1
        [(\<lambda>_. None, Append [one_entry]), (\<lambda>_. Some [], SeedVote one_vote)]) = Ok (Some one_vote)"
proof -
  obtain db1 where s: "actor_step one_codec (\<lambda>_ _. True) (\<lambda>_. None) \<lparr>table_logs = None, table_meta = None\<rparr> (SaveVote one_vote)
      = (db1, ReplyUnit (Ok ()))"
    by (simp add: save_vote_sync_def io_check_def one_codec_def committed_def)
  from vote_durable [OF one_codec_ok s, of "[(\<lambda>_. None, Append [one_entry]), (\<lambda>_. Some [], SeedVote one_vote)]"] s
  show ?thesis by auto
qed

end
