(* ===== verification/Format_Properties.thy ===== *)
theory Format_Properties
  imports Scenario
begin

text \<open>
  Properties of the textual formats the registry accepts and prints: digests, handles, principal ids,
  token scopes, the entity ids handed to the authorizer, and the sizes shown for a repository.
\<close>

text \<open>
  the digest parser accepts exactly the printed forms of well-formed digests, so parsing and printing
  are inverse to each other, and two well-formed digests are equal when their printed forms are.
\<close>

theorem digest_parse_print:
  "(from_str_checked s = Some d) = (s = digest_to_string d \<and> digest_wf d)"
  by (rule from_str_checked_iff)

text \<open>
  the byte loop of the handle validator accepts exactly the documented grammar: 3 to 39 lowercase
  letters, digits and dashes, no dash at either end and no two in a row.
\<close>

theorem handle_grammar_exact: "(validate_handle s = Ok ()) = handle_grammar s"
  by (rule validate_handle_iff)

text \<open>
  a provider-qualified id keeps what it was built from: parsing it gives it back, its parts are the
  trimmed provider, the kind and the local id, and ids built from different parts are different.
\<close>

theorem principal_id_roundtrip:
  assumes "pq_new p k i = Ok s" and "utf8_valid i"
  shows "pq_parse s = Ok s \<and> pq_provider s = trim p \<and> pq_kind s = Some k \<and> pq_local_id s = Some i
    \<and> (\<forall>p' k' i'. pq_new p' k' i' = Ok s \<longrightarrow> utf8_valid i' \<longrightarrow> trim p' = trim p \<and> k' = k \<and> i' = i)"
  using pq_parse_new [OF assms] pq_accessors [OF assms] by (auto dest: pq_accessors)

theorem principal_id_roundtrip_witness:
  "\<exists>s. pq_new ''oidc'' PKGroup ''a:b'' = Ok s \<and> pq_kind s = Some PKGroup \<and> pq_local_id s = Some ''a:b''"
proof -
  have "is_ok (pq_new ''oidc'' PKGroup ''a:b'')" "utf8_valid ''a:b''" by code_simp+
  then obtain s where s: "pq_new ''oidc'' PKGroup ''a:b'' = Ok s" by (auto simp: is_ok_iff)
  with principal_id_roundtrip [OF s \<open>utf8_valid ''a:b''\<close>] show ?thesis by blast
qed

text \<open>
  the scopes of a token allow an action on a repository exactly when one of them parses to a pattern
  that covers the repository and an action at least as strong; the scope that is reported is such a one.
\<close>

theorem scope_match_exact:
  "(matching_scope scopes repo action \<noteq> None) =
     (\<exists>scope \<in> set scopes. \<exists>p a. parse_scope scope = Some (p, a) \<and> match_repository p repo \<and> action_matches a action)
   \<and> (case matching_scope scopes repo action of None \<Rightarrow> True
      | Some (p, a) \<Rightarrow> (\<exists>scope \<in> set scopes. parse_scope scope = Some (p, a)) \<and> match_repository p repo \<and> action_matches a action)"
proof -
  have "(matching_scope scopes repo action \<noteq> None) =
     (\<exists>scope \<in> set scopes. \<exists>p a. parse_scope scope = Some (p, a) \<and> match_repository p repo \<and> action_matches a action)"
    by (simp only: matching_scope_None) blast
  then show ?thesis
    by (auto split: option.splits dest: matching_scope_Some)
qed

text \<open>
  the id under which a repository is presented to the authorizer determines the tenancy and the path:
  two repositories of well-formed namespaces with the same id are the same, so a decision about one
  generation of a handle never applies to another.
\<close>

theorem entity_ids_distinct:
  assumes "handle_grammar (ep_handle (nr_epoch (rr_namespace a)))" and "handle_grammar (ep_handle (nr_epoch (rr_namespace b)))"
    and "repository_entity_id a = repository_entity_id b"
  shows "a = b"
  using assms by (rule repository_entity_id_inject)

theorem entity_ids_distinct_witness:
  "\<exists>a b. repository_entity_id a \<noteq> repository_entity_id b \<and> rr_relative_path a = rr_relative_path b"
proof -
  let ?r = "\<lambda>g. \<lparr>rr_namespace = \<lparr>nr_epoch = epoch_new ''alice'' g\<rparr>, rr_relative_path = ''app''\<rparr>"
  have "handle_grammar ''alice''" by code_simp
  then have "repository_entity_id (?r 1) = repository_entity_id (?r 2) \<Longrightarrow> ?r 1 = ?r 2"
    by (intro entity_ids_distinct) (simp_all add: epoch_new_def)
  moreover have "?r 1 \<noteq> ?r 2" by (simp add: epoch_new_def)
  ultimately have "repository_entity_id (?r 1) \<noteq> repository_entity_id (?r 2)" by blast
  then show ?thesis by (intro exI [of _ "?r 1"] exI [of _ "?r 2"]) simp
qed

text \<open>
  the stored size of a repository counts every described blob once, with the largest size any
  manifest states for it, however many manifests share it, and adds the recorded size of the manifests
  that describe nothing.
\<close>

theorem repository_size_exact:
  "repository_stored_size_bytes f ms =
     (let ds = concat (map (sized_descriptors_from_entry f) (bt_values ms)) in
      (\<Sum>k \<in> (\<lambda>d. digest_to_string (sd_digest d)) ` set ds.
         Max {sd_size d | d. d \<in> set ds \<and> digest_to_string (sd_digest d) = k}) +
      sum_list (map (\<lambda>e. max (me_stored_size_bytes e) (me_manifest_size_bytes e))
        (filter (\<lambda>e. sized_descriptors_from_entry f e = []) (bt_values ms))))"
  by (simp add: repository_stored_size_spec stored_size_spec described_def fallback_entries_def sizes_of_def Let_def)

text \<open>
  The check of personal access tokens accepts the pattern over all personal namespaces, whoever asks for it.
\<close>

lemma personal_wildcard_allowed:
  "pat_scope_allowed_for_identity ''repository:users/*:pull'' (Some u) = Ok ()
    \<and> parse_scope ''repository:users/*:pull'' = Some (''users/*'', Pull)
    \<and> match_repository ''users/*'' (''users/'' @ other @ ''/app'')"
proof -
  have scope: "parse_scope ''repository:users/*:pull'' = Some (''users/*'', Pull)" by code_simp
  moreover have "in_personal_namespace_of ''users'' = None" "strip_suffix ''/*'' ''users/*'' = Some ''users''" by code_simp+
  ultimately show ?thesis
    by (simp add: pat_scope_allowed_for_identity_def match_repository_def starts_with_def)
qed

end
