(* ===== verification/Effects.thy ===== *)
theory Effects
  imports Errors
begin

text \<open>
  Effectful code: an \<^verbatim>\<open>async fn\<close> that returns \<^verbatim>\<open>Result<T, LayerhouseError>\<close> is a function from the world
  (the object store, the cluster and the upstream registries, all outside the process) to its result and
  the world it leaves.  \<open>io_bind\<close> is \<^verbatim>\<open>?\<close> after \<^verbatim>\<open>await\<close>; an error keeps the effects that came before it.
\<close>

type_synonym ('w, 'a) io = "'w \<Rightarrow> 'a lh_result \<times> 'w"

definition io_return :: "'a \<Rightarrow> ('w, 'a) io" where
  "io_return a w = (Ok a, w)"

definition io_fail :: "layerhouse_error \<Rightarrow> ('w, 'a) io" where
  "io_fail e w = (Err e, w)"

definition io_result :: "'a lh_result \<Rightarrow> ('w, 'a) io" where
  "io_result r w = (r, w)"

definition io_read :: "('w \<Rightarrow> 'a) \<Rightarrow> ('w, 'a) io" where
  "io_read f w = (Ok (f w), w)"

definition io_bind :: "('w, 'a) io \<Rightarrow> ('a \<Rightarrow> ('w, 'b) io) \<Rightarrow> ('w, 'b) io" where
  "io_bind m f w = (case m w of (Inl e, w') \<Rightarrow> (Err e, w') | (Inr a, w') \<Rightarrow> f a w')"

text \<open>\<^verbatim>\<open>match call.await { ... }\<close>: the continuation sees the error as a value.\<close>

definition io_match :: "('w \<Rightarrow> 'r \<times> 'w) \<Rightarrow> ('r \<Rightarrow> ('w, 'b) io) \<Rightarrow> ('w, 'b) io" where
  "io_match m f w = (case m w of (r, w') \<Rightarrow> f r w')"

definition io_map_err :: "(layerhouse_error \<Rightarrow> layerhouse_error) \<Rightarrow> ('w, 'a) io \<Rightarrow> ('w, 'a) io" where
  "io_map_err g m = io_match m (\<lambda>r. io_result (case r of Inl e \<Rightarrow> Err (g e) | Inr a \<Rightarrow> Ok a))"

text \<open>\<^verbatim>\<open>for x in xs { body(x).await?; }\<close>\<close>

fun io_for :: "'x list \<Rightarrow> ('x \<Rightarrow> ('w, unit) io) \<Rightarrow> ('w, unit) io" where
  "io_for [] body = io_return ()"
| "io_for (x # xs) body = io_bind (body x) (\<lambda>_. io_for xs body)"

text \<open>
  Code with a loop that another service may keep going for ever returns \<open>None\<close> when it does not end.
\<close>

type_synonym ('w, 'a) pio = "'w \<Rightarrow> ('a lh_result \<times> 'w) option"

definition pio_run :: "('w, 'a) io \<Rightarrow> ('w, 'a) pio" where
  "pio_run m w = Some (m w)"

definition pio_bind :: "('w, 'a) pio \<Rightarrow> ('a \<Rightarrow> ('w, 'b) pio) \<Rightarrow> ('w, 'b) pio" where
  "pio_bind m f w =
     (case m w of None \<Rightarrow> None | Some (Inl e, w') \<Rightarrow> Some (Err e, w') | Some (Inr a, w') \<Rightarrow> f a w')"

definition pio_match :: "('w, 'a) pio \<Rightarrow> ('a lh_result \<Rightarrow> ('w, 'b) pio) \<Rightarrow> ('w, 'b) pio" where
  "pio_match m f w = (case m w of None \<Rightarrow> None | Some (r, w') \<Rightarrow> f r w')"

abbreviation pio_return :: "'a \<Rightarrow> ('w, 'a) pio" where
  "pio_return a \<equiv> pio_run (io_return a)"

abbreviation pio_fail :: "layerhouse_error \<Rightarrow> ('w, 'a) pio" where
  "pio_fail e \<equiv> pio_run (io_fail e)"

section \<open>Computation rules\<close>

lemma io_simps [simp]:
  "io_return a w = (Ok a, w)"
  "io_fail e w = (Err e, w)"
  "io_result r w = (r, w)"
  "io_read f w = (Ok (f w), w)"
  by (simp_all add: io_return_def io_fail_def io_result_def io_read_def)

lemma io_bind_apply:
  "m w = (Ok a, w') \<Longrightarrow> io_bind m f w = f a w'"
  "m w = (Err e, w') \<Longrightarrow> io_bind m f w = (Err e, w')"
  by (simp_all add: io_bind_def)

lemma io_bind_pure [simp]:
  "io_bind (io_return a) f = f a"
  "io_bind (io_fail e) f = io_fail e"
  "io_bind (io_read g) f w = f (g w) w"
  "io_bind (io_result (Ok a)) f = f a"
  "io_bind (io_result (Err e)) f = io_fail e"
  by (rule ext | simp add: io_bind_def)+

lemma io_bind_eq_Ok:
  "io_bind m f w = (Ok b, w'') \<longleftrightarrow> (\<exists>a w'. m w = (Ok a, w') \<and> f a w' = (Ok b, w''))"
  by (auto simp: io_bind_def split: prod.splits sum.splits)

lemma io_bind_eq_Err:
  "io_bind m f w = (Err e, w'') \<longleftrightarrow>
    m w = (Err e, w'') \<or> (\<exists>a w'. m w = (Ok a, w') \<and> f a w' = (Err e, w''))"
  by (auto simp: io_bind_def split: prod.splits sum.splits)

lemma io_bindE:
  assumes "io_bind m f w = (Ok b, w'')"
  obtains a w' where "m w = (Ok a, w')" "f a w' = (Ok b, w'')"
  using assms by (auto simp: io_bind_eq_Ok)

lemma io_match_eq: "io_match m f w = (r, w'') \<longleftrightarrow> (\<exists>x w'. m w = (x, w') \<and> f x w' = (r, w''))"
  by (auto simp: io_match_def split: prod.splits)

lemma io_match_sum:
  "io_match m (\<lambda>r. case r of Inl e \<Rightarrow> f e | Inr a \<Rightarrow> g a) w = (x, w'') \<longleftrightarrow>
    (\<exists>e w'. m w = (Inl e, w') \<and> f e w' = (x, w'')) \<or> (\<exists>a w'. m w = (Inr a, w') \<and> g a w' = (x, w''))"
  by (cases "m w"; cases "fst (m w)") (auto simp: io_match_def)

lemma io_map_err_eq_Ok [simp]: "io_map_err g m w = (Ok a, w') \<longleftrightarrow> m w = (Ok a, w')"
  by (cases "m w") (auto simp: io_map_err_def io_match_def split: sum.splits)

lemma io_map_err_eq_Err: "io_map_err g m w = (Err e, w') \<longleftrightarrow> (\<exists>e'. m w = (Err e', w') \<and> e = g e')"
  by (cases "m w") (auto simp: io_map_err_def io_match_def split: sum.splits)

lemma pio_simps [simp]: "pio_run m w = Some (m w)"
  by (simp add: pio_run_def)

lemma pio_bind_Ok: "pio_bind m f w = Some (Ok b, w'') \<longleftrightarrow> (\<exists>a w'. m w = Some (Ok a, w') \<and> f a w' = Some (Ok b, w''))"
  by (auto simp: pio_bind_def split: option.splits prod.splits sum.splits)

lemma pio_match_Some: "pio_match m f w = Some (r, w'') \<longleftrightarrow> (\<exists>x w'. m w = Some (x, w') \<and> f x w' = Some (r, w''))"
  by (auto simp: pio_match_def split: option.splits prod.splits)

lemma pio_match_sum:
  "pio_match m (\<lambda>r. case r of Inl e \<Rightarrow> f e | Inr a \<Rightarrow> g a) w = Some (x, w'') \<longleftrightarrow>
    (\<exists>e w'. m w = Some (Inl e, w') \<and> f e w' = Some (x, w'')) \<or> (\<exists>a w'. m w = Some (Inr a, w') \<and> g a w' = Some (x, w''))"
  by (auto simp: pio_match_def split: option.splits prod.splits sum.splits)

section \<open>What every run of an operation relates\<close>

text \<open>
  \<open>io_rel R m\<close>: the world after \<open>m\<close>, whether it fails or not, is related to the world before it.  For a
  preorder \<open>R\<close> the rule set \<open>io_rels\<close> takes an operation apart along its calls.
\<close>

named_theorems io_rels "io_rel of the combinators and of the operations"

definition io_rel :: "('w \<Rightarrow> 'w \<Rightarrow> bool) \<Rightarrow> ('w \<Rightarrow> 'r \<times> 'w) \<Rightarrow> bool" where
  "io_rel R m \<longleftrightarrow> (\<forall>w. R w (snd (m w)))"

locale world_order =
  fixes R :: "'w \<Rightarrow> 'w \<Rightarrow> bool"
  assumes refl: "R w w" and trans: "R w w' \<Longrightarrow> R w' w'' \<Longrightarrow> R w w''"
begin

lemma rel_pure: "io_rel R (io_return a)" "io_rel R (io_fail e)" "io_rel R (io_result r)" "io_rel R (io_read f)"
  by (simp_all add: io_rel_def refl)

lemma rel_match: "io_rel R m \<Longrightarrow> (\<And>r. io_rel R (f r)) \<Longrightarrow> io_rel R (io_match m f)"
  unfolding io_rel_def io_match_def by (auto split: prod.splits) (metis snd_conv trans)

lemma rel_bind: "io_rel R m \<Longrightarrow> (\<And>a. io_rel R (f a)) \<Longrightarrow> io_rel R (io_bind m f)"
  unfolding io_rel_def io_bind_def by (auto split: prod.splits sum.splits) (metis snd_conv trans)+

lemma rel_map_err: "io_rel R m \<Longrightarrow> io_rel R (io_map_err g m)"
  unfolding io_map_err_def by (intro rel_match rel_pure)

lemma rel_for: "(\<And>x. x \<in> set xs \<Longrightarrow> io_rel R (body x)) \<Longrightarrow> io_rel R (io_for xs body)"
  by (induction xs) (auto intro!: rel_bind rel_pure)

lemmas rels = rel_pure rel_match rel_bind rel_map_err rel_for

end

end
