(* ===== verification/Metadata_Store.thy ===== *)
theory Metadata_Store
  imports Queries Effects
begin

text \<open>
  The metadata store the routes talk to (\<^verbatim>\<open>raft/router.rs\<close>): reads are answered from the local copy of the
  replicated state, writes go through Raft, directly on the leader and forwarded otherwise
  (\<^verbatim>\<open>forward_client_write\<close> of \<^verbatim>\<open>raft/network.rs\<close>).

  OpenRaft, the HTTP transport, the clock and the UUID generator are the fields of \<open>raft_node\<close>.  Their
  documented behaviour is \<open>raft_ok\<close>: an answer to \<^verbatim>\<open>client_write\<close> is the answer of the state machine to
  the entry that was appended to the committed log for it.
\<close>

section \<open>Definitions\<close>

datatype client_write_error = ForwardToLeader "string option" | WriteError msg

record 'w raft_node =
  rn_client_write :: "request \<Rightarrow> 'w \<Rightarrow> (response, client_write_error) result \<times> 'w"
  rn_send_write :: "string \<Rightarrow> request \<Rightarrow> 'w \<Rightarrow> (response, msg) result \<times> 'w"
  rn_state :: "'w \<Rightarrow> state_machine_data"
  rn_now :: "'w \<Rightarrow> u64"
  rn_uuid :: "'w \<Rightarrow> string \<times> 'w"
  rn_env :: env
  rn_debug :: "response \<Rightarrow> string"

definition FOLLOWER_READ_LAG_THRESHOLD :: u64 where "FOLLOWER_READ_LAG_THRESHOLD = 100"

text \<open>The lag a follower read warns about; the plain subtraction is guarded by the saturating one.\<close>

definition emit_read_metrics :: "bool \<Rightarrow> u64 option \<Rightarrow> u64 \<Rightarrow> u64 option" where
  "emit_read_metrics is_leader last_log_index last_applied =
     (let newest = (case last_log_index of None \<Rightarrow> 0 | Some i \<Rightarrow> i) in
      if \<not> is_leader \<and> saturating_sub_u64 newest last_applied > FOLLOWER_READ_LAG_THRESHOLD
      then Some (newest - last_applied) else None)"

definition forward_client_write ::
  "'w raft_node \<Rightarrow> string \<Rightarrow> request \<Rightarrow> 'w \<Rightarrow> (response, msg) result \<times> 'w" where
  "forward_client_write node addr req w =
     (if addr = [] then (Err [Lit ''leader address is unknown''], w) else rn_send_write node addr req w)"

fun response_result :: "response \<Rightarrow> response lh_result" where
  "response_result (RespNameUnknown m) = Err (NameUnknown m)"
| "response_result (RespDenied m) = Err (Denied m)"
| "response_result (RespConflict m) = Err (Conflict m)"
| "response_result (RespNameInvalid m) = Err (NameInvalid m)"
| "response_result (RespInternalError m) = Err (Internal m)"
| "response_result resp = Ok resp"

definition rms_write :: "'w raft_node \<Rightarrow> request \<Rightarrow> ('w, response) io" where
  "rms_write node req =
     io_bind (io_match (rn_client_write node req) (\<lambda>r.
       case r of
         Inr resp \<Rightarrow> io_return resp
       | Inl (ForwardToLeader addr) \<Rightarrow>
           io_match (forward_client_write node (case addr of None \<Rightarrow> [] | Some a \<Rightarrow> a) req) (\<lambda>f.
             io_result (case f of Inl e \<Rightarrow> Err (Consensus e) | Inr resp \<Rightarrow> Ok resp))
       | Inl (WriteError e) \<Rightarrow> io_fail (Consensus e)))
     (\<lambda>resp. io_result (response_result resp))"

definition unexpected :: "'w raft_node \<Rightarrow> string \<Rightarrow> response \<Rightarrow> layerhouse_error" where
  "unexpected node what resp = Internal [Lit (''unexpected '' @ what @ '' response: ''), Dbg (rn_debug node resp)]"

definition write_manifest :: "'w raft_node \<Rightarrow> manifest_request \<Rightarrow> ('w, manifest_response) io" where
  "write_manifest node req =
     io_bind (rms_write node (ReqManifest req)) (\<lambda>resp.
       case resp of RespManifest r \<Rightarrow> io_return r | other \<Rightarrow> io_fail (unexpected node ''manifest'' other))"

definition write_mirror_config :: "'w raft_node \<Rightarrow> mirror_config_request \<Rightarrow> ('w, mirror_config_response) io" where
  "write_mirror_config node req =
     io_bind (rms_write node (ReqMirrorConfig req)) (\<lambda>resp.
       case resp of RespMirrorConfig r \<Rightarrow> io_return r | other \<Rightarrow> io_fail (unexpected node ''mirror config'' other))"

definition write_job :: "'w raft_node \<Rightarrow> job_request \<Rightarrow> ('w, job_response) io" where
  "write_job node req =
     io_bind (rms_write node (ReqJob req)) (\<lambda>resp.
       case resp of RespJob r \<Rightarrow> io_return r | other \<Rightarrow> io_fail (unexpected node ''job'' other))"

definition write_token :: "'w raft_node \<Rightarrow> token_request \<Rightarrow> ('w, token_response) io" where
  "write_token node req =
     io_bind (rms_write node (ReqToken req)) (\<lambda>resp.
       case resp of RespToken r \<Rightarrow> io_return r | other \<Rightarrow> io_fail (unexpected node ''token'' other))"

definition write_policy :: "'w raft_node \<Rightarrow> policy_request \<Rightarrow> ('w, policy_response) io" where
  "write_policy node req =
     io_bind (rms_write node (ReqPolicy req)) (\<lambda>resp.
       case resp of RespPolicy r \<Rightarrow> io_return r | other \<Rightarrow> io_fail (unexpected node ''policy'' other))"

definition write_repository :: "'w raft_node \<Rightarrow> repository_request \<Rightarrow> ('w, repository_response) io" where
  "write_repository node req =
     io_bind (rms_write node (ReqRepository req)) (\<lambda>resp.
       case resp of RespRepository r \<Rightarrow> io_return r | other \<Rightarrow> io_fail (unexpected node ''repository'' other))"

definition write_namespace :: "'w raft_node \<Rightarrow> namespace_request \<Rightarrow> ('w, namespace_response) io" where
  "write_namespace node req =
     io_bind (rms_write node (ReqNamespace req)) (\<lambda>resp.
       case resp of RespNamespace r \<Rightarrow> io_return r | other \<Rightarrow> io_fail (unexpected node ''namespace'' other))"

definition expected_namespace_for_repository :: "'w raft_node \<Rightarrow> string \<Rightarrow> ('w, namespace_epoch option) io" where
  "expected_namespace_for_repository node repository =
     io_read (\<lambda>w. case handle_of repository of
         Inl _ \<Rightarrow> None
       | Inr handle \<Rightarrow>
           if is_handle_reserved handle then None
           else map_option epoch_from_namespace (bt_get (namespaces (rn_state node w)) handle))"

definition io_unit :: "('w, 'a) io \<Rightarrow> ('w, unit) io" where
  "io_unit m = io_bind m (\<lambda>_. io_return ())"

subsection \<open>ManifestStore\<close>

definition rms_get_manifest :: "'w raft_node \<Rightarrow> string \<Rightarrow> string \<Rightarrow> ('w, manifest_entry option) io" where
  "rms_get_manifest node name reference = io_read (\<lambda>w. get_manifest (rn_state node w) name reference)"

definition put_request_of ::
  "string \<Rightarrow> string \<Rightarrow> manifest_entry \<Rightarrow> namespace_epoch option \<Rightarrow> bool \<Rightarrow> put_manifest_request" where
  "put_request_of name reference entry expected_namespace require_reference_absent =
     \<lparr>pm_name = name, pm_expected_namespace = expected_namespace, pm_reference = reference,
      pm_require_reference_absent = require_reference_absent, pm_digest = digest_to_string (me_digest entry),
      pm_content_type = me_content_type entry, pm_body = me_body entry,
      pm_subject = map_option digest_to_string (me_subject entry), pm_artifact_type = me_artifact_type entry,
      pm_annotations = me_annotations entry, pm_stored_size_bytes = me_stored_size_bytes entry,
      pm_manifest_size_bytes = me_manifest_size_bytes entry, pm_created_at = me_created_at entry,
      pm_last_modified = me_last_modified entry, pm_config_summary = me_config_summary entry,
      pm_referenced_blobs = map digest_to_string (me_referenced_blobs entry)\<rparr>"

definition rms_put_manifest_with_expected_namespace ::
  "'w raft_node \<Rightarrow> string \<Rightarrow> string \<Rightarrow> manifest_entry \<Rightarrow> namespace_epoch option \<Rightarrow> bool \<Rightarrow> ('w, unit) io" where
  "rms_put_manifest_with_expected_namespace node name reference entry expected_namespace require_reference_absent =
     io_unit (write_manifest node (PutManifest (put_request_of name reference entry expected_namespace require_reference_absent)))"

definition rms_put_manifest :: "'w raft_node \<Rightarrow> string \<Rightarrow> string \<Rightarrow> manifest_entry \<Rightarrow> ('w, unit) io" where
  "rms_put_manifest node name reference entry =
     io_bind (expected_namespace_for_repository node name) (\<lambda>expected.
       rms_put_manifest_with_expected_namespace node name reference entry expected False)"

definition rms_delete_manifest_with_expected_namespace ::
  "'w raft_node \<Rightarrow> string \<Rightarrow> digest \<Rightarrow> namespace_epoch option \<Rightarrow> ('w, unit) io" where
  "rms_delete_manifest_with_expected_namespace node name d expected_namespace =
     io_unit (write_manifest node (DeleteManifest name expected_namespace (digest_to_string d)))"

definition rms_delete_manifest :: "'w raft_node \<Rightarrow> string \<Rightarrow> digest \<Rightarrow> ('w, unit) io" where
  "rms_delete_manifest node name d =
     io_bind (expected_namespace_for_repository node name) (\<lambda>expected.
       rms_delete_manifest_with_expected_namespace node name d expected)"

definition rms_list_tags :: "'w raft_node \<Rightarrow> string \<Rightarrow> nat option \<Rightarrow> string option \<Rightarrow> ('w, string list) io" where
  "rms_list_tags node name n lst = io_read (\<lambda>w. list_tags (rn_state node w) name n lst)"

definition rms_list_repositories :: "'w raft_node \<Rightarrow> nat option \<Rightarrow> string option \<Rightarrow> ('w, string list) io" where
  "rms_list_repositories node n lst = io_read (\<lambda>w. list_repositories (rn_state node w) n lst)"

definition rms_list_repository_summaries :: "'w raft_node \<Rightarrow> ('w, repository_summary list) io" where
  "rms_list_repository_summaries node = io_read (\<lambda>w. list_repository_summaries (rn_env node) (rn_state node w))"

definition rms_list_manifest_summaries :: "'w raft_node \<Rightarrow> string \<Rightarrow> ('w, manifest_summary list) io" where
  "rms_list_manifest_summaries node name = io_read (\<lambda>w. list_manifest_summaries (rn_env node) (rn_state node w) name)"

definition expect_bool :: "string \<Rightarrow> manifest_response \<Rightarrow> bool lh_result" where
  "expect_bool what resp =
     (case resp of ManifestBool b \<Rightarrow> Ok b | _ \<Rightarrow> Err (Internal [Lit (''unexpected response for '' @ what)]))"

definition expect_counts :: "string \<Rightarrow> manifest_response \<Rightarrow> delete_counts lh_result" where
  "expect_counts what resp =
     (case resp of ManifestDeleteCounts c \<Rightarrow> Ok c | _ \<Rightarrow> Err (Internal [Lit (''unexpected response for '' @ what)]))"

definition rms_delete_tag_with_expected_namespace ::
  "'w raft_node \<Rightarrow> string \<Rightarrow> digest \<Rightarrow> string \<Rightarrow> namespace_epoch option \<Rightarrow> ('w, bool) io" where
  "rms_delete_tag_with_expected_namespace node name d tag expected_namespace =
     io_bind (write_manifest node (DeleteTag name expected_namespace (digest_to_string d) tag))
       (\<lambda>resp. io_result (expect_bool ''delete_tag'' resp))"

definition rms_delete_tag :: "'w raft_node \<Rightarrow> string \<Rightarrow> digest \<Rightarrow> string \<Rightarrow> ('w, bool) io" where
  "rms_delete_tag node name d tag =
     io_bind (expected_namespace_for_repository node name) (\<lambda>expected.
       rms_delete_tag_with_expected_namespace node name d tag expected)"

definition rms_delete_repository_with_expected_namespace ::
  "'w raft_node \<Rightarrow> string \<Rightarrow> namespace_epoch option \<Rightarrow> ('w, delete_counts) io" where
  "rms_delete_repository_with_expected_namespace node name expected_namespace =
     io_bind (write_manifest node (DeleteRepositoryContent name expected_namespace))
       (\<lambda>resp. io_result (expect_counts ''delete_repository'' resp))"

definition rms_delete_repository :: "'w raft_node \<Rightarrow> string \<Rightarrow> ('w, delete_counts) io" where
  "rms_delete_repository node name =
     io_bind (expected_namespace_for_repository node name) (\<lambda>expected.
       rms_delete_repository_with_expected_namespace node name expected)"

definition rms_delete_manifests_with_expected_namespace ::
  "'w raft_node \<Rightarrow> string \<Rightarrow> digest list \<Rightarrow> namespace_epoch option \<Rightarrow> ('w, delete_counts) io" where
  "rms_delete_manifests_with_expected_namespace node name ds expected_namespace =
     io_bind (write_manifest node (DeleteManifests name expected_namespace (map digest_to_string ds)))
       (\<lambda>resp. io_result (expect_counts ''delete_manifests'' resp))"

definition rms_delete_manifests :: "'w raft_node \<Rightarrow> string \<Rightarrow> digest list \<Rightarrow> ('w, delete_counts) io" where
  "rms_delete_manifests node name ds =
     io_bind (expected_namespace_for_repository node name) (\<lambda>expected.
       rms_delete_manifests_with_expected_namespace node name ds expected)"

definition rms_list_referrers :: "'w raft_node \<Rightarrow> string \<Rightarrow> digest \<Rightarrow> string option \<Rightarrow> ('w, referrer_entry list) io" where
  "rms_list_referrers node name subject_digest artifact_type = io_read (\<lambda>w. list_referrers (rn_state node w) name (digest_to_string subject_digest) artifact_type)"

definition rms_mount_blob_with_expected_namespace ::
  "'w raft_node \<Rightarrow> string \<Rightarrow> string \<Rightarrow> digest \<Rightarrow> namespace_epoch option \<Rightarrow> ('w, unit) io" where
  "rms_mount_blob_with_expected_namespace node source_repo dest_repo d expected_namespace =
     io_unit (write_manifest node (MountBlob source_repo dest_repo expected_namespace (digest_to_string d)))"

definition rms_mount_blob :: "'w raft_node \<Rightarrow> string \<Rightarrow> string \<Rightarrow> digest \<Rightarrow> ('w, unit) io" where
  "rms_mount_blob node source_repo dest_repo d =
     io_bind (expected_namespace_for_repository node dest_repo) (\<lambda>expected.
       rms_mount_blob_with_expected_namespace node source_repo dest_repo d expected)"

definition rms_record_blob_delete_request :: "'w raft_node \<Rightarrow> digest \<Rightarrow> ('w, blob_delete_status) io" where
  "rms_record_blob_delete_request node d =
     io_bind (io_read (rn_now node)) (\<lambda>now.
     io_bind (write_manifest node (RecordBlobDelete (digest_to_string d) now)) (\<lambda>resp.
       case resp of
         ManifestBlobDeleteStatus status \<Rightarrow> io_return status
       | _ \<Rightarrow> io_fail (Internal [Lit ''unexpected blob delete response''])))"

definition rms_blob_lifecycle_status :: "'w raft_node \<Rightarrow> digest \<Rightarrow> ('w, blob_lifecycle_status) io" where
  "rms_blob_lifecycle_status node d = io_read (\<lambda>w. blob_lifecycle_status (rn_state node w) d)"

definition rms_clear_blob_delete_request :: "'w raft_node \<Rightarrow> digest \<Rightarrow> ('w, unit) io" where
  "rms_clear_blob_delete_request node d = io_unit (write_manifest node (ClearBlobDelete (digest_to_string d)))"

definition rms_blob_ref_counts :: "'w raft_node \<Rightarrow> ('w, (string, u64) btmap) io" where
  "rms_blob_ref_counts node = io_read (\<lambda>w. blob_ref_counts (rn_state node w))"

subsection \<open>MirrorConfigStore\<close>

definition rms_list_mirror_rules :: "'w raft_node \<Rightarrow> ('w, mirror_rule list) io" where
  "rms_list_mirror_rules node = io_read (\<lambda>w. list_mirror_rules (rn_state node w))"

definition rms_get_mirror_rule :: "'w raft_node \<Rightarrow> string \<Rightarrow> ('w, mirror_rule option) io" where
  "rms_get_mirror_rule node i = io_read (\<lambda>w. get_mirror_rule (rn_state node w) i)"

definition rms_put_mirror_rule :: "'w raft_node \<Rightarrow> mirror_rule \<Rightarrow> ('w, unit) io" where
  "rms_put_mirror_rule node rule = io_unit (write_mirror_config node (PutMirrorRule rule))"

definition rms_delete_mirror_rule :: "'w raft_node \<Rightarrow> string \<Rightarrow> ('w, unit) io" where
  "rms_delete_mirror_rule node i = io_unit (write_mirror_config node (DeleteMirrorRule i))"

definition rms_trigger_mirror_rule :: "'w raft_node \<Rightarrow> string \<Rightarrow> ('w, sync_job option) io" where
  "rms_trigger_mirror_rule node i =
     io_bind (write_mirror_config node (TriggerMirrorRule i)) (\<lambda>resp.
       case resp of
         MirrorConfigSyncJob job \<Rightarrow> io_return job
       | MirrorConfigBool b \<Rightarrow>
           if \<not> b then io_fail (Conflict [Lit ''Rule is already running'']) else io_return None
       | _ \<Rightarrow> io_return None)"

definition rms_list_proxy_caches :: "'w raft_node \<Rightarrow> ('w, proxy_cache list) io" where
  "rms_list_proxy_caches node = io_read (\<lambda>w. list_proxy_caches (rn_state node w))"

definition rms_get_proxy_cache :: "'w raft_node \<Rightarrow> string \<Rightarrow> ('w, proxy_cache option) io" where
  "rms_get_proxy_cache node i = io_read (\<lambda>w. get_proxy_cache (rn_state node w) i)"

definition rms_put_proxy_cache :: "'w raft_node \<Rightarrow> proxy_cache \<Rightarrow> ('w, unit) io" where
  "rms_put_proxy_cache node cache = io_unit (write_mirror_config node (PutProxyCache cache))"

definition rms_delete_proxy_cache :: "'w raft_node \<Rightarrow> string \<Rightarrow> ('w, unit) io" where
  "rms_delete_proxy_cache node i = io_unit (write_mirror_config node (DeleteProxyCache i))"

definition rms_trigger_proxy_cache_warm :: "'w raft_node \<Rightarrow> string \<Rightarrow> ('w, sync_job option) io" where
  "rms_trigger_proxy_cache_warm node i =
     io_bind (write_mirror_config node (TriggerProxyCacheWarm i)) (\<lambda>resp.
       case resp of
         MirrorConfigSyncJob job \<Rightarrow> io_return job
       | MirrorConfigBool b \<Rightarrow>
           if \<not> b then io_fail (Conflict [Lit ''Proxy cache warm-up is already running'']) else io_return None
       | _ \<Rightarrow> io_return None)"

definition rms_get_proxy_cache_tag_validation :: "'w raft_node \<Rightarrow> string \<Rightarrow> string \<Rightarrow> string \<Rightarrow> ('w, proxy_cache_tag_validation option) io" where
  "rms_get_proxy_cache_tag_validation node cache_id repository tag = io_read (\<lambda>w. get_proxy_cache_tag_validation (proxy_cache_tag_validations (rn_state node w)) cache_id repository tag)"

definition rms_put_proxy_cache_tag_validation :: "'w raft_node \<Rightarrow> proxy_cache_tag_validation \<Rightarrow> ('w, unit) io" where
  "rms_put_proxy_cache_tag_validation node validation = io_unit (write_mirror_config node (PutProxyCacheTagValidation validation))"

definition rms_list_warm_images :: "'w raft_node \<Rightarrow> ('w, warm_image list) io" where
  "rms_list_warm_images node = io_read (\<lambda>w. list_warm_images (rn_state node w))"

definition rms_get_warm_image :: "'w raft_node \<Rightarrow> string \<Rightarrow> ('w, warm_image option) io" where
  "rms_get_warm_image node i = io_read (\<lambda>w. get_warm_image (rn_state node w) i)"

definition rms_put_warm_image :: "'w raft_node \<Rightarrow> warm_image \<Rightarrow> ('w, unit) io" where
  "rms_put_warm_image node img = io_unit (write_mirror_config node (PutWarmImage img))"

definition rms_delete_warm_image :: "'w raft_node \<Rightarrow> string \<Rightarrow> ('w, unit) io" where
  "rms_delete_warm_image node i = io_unit (write_mirror_config node (DeleteWarmImage i))"

subsection \<open>JobStore and HelmStore\<close>

definition rms_list_sync_jobs :: "'w raft_node \<Rightarrow> ('w, sync_job list) io" where
  "rms_list_sync_jobs node = io_read (\<lambda>w. list_sync_jobs (rn_state node w))"

definition rms_get_sync_job :: "'w raft_node \<Rightarrow> string \<Rightarrow> ('w, sync_job option) io" where
  "rms_get_sync_job node i = io_read (\<lambda>w. get_sync_job (rn_state node w) i)"

definition rms_put_sync_job :: "'w raft_node \<Rightarrow> sync_job \<Rightarrow> ('w, unit) io" where
  "rms_put_sync_job node job = io_unit (write_job node (PutSyncJob job))"

definition rms_delete_sync_job :: "'w raft_node \<Rightarrow> string \<Rightarrow> ('w, unit) io" where
  "rms_delete_sync_job node i = io_unit (write_job node (DeleteSyncJob i))"

definition job_bool :: "job_response \<Rightarrow> bool" where
  "job_bool resp = (case resp of JobBool b \<Rightarrow> b | JobOk \<Rightarrow> False)"

definition rms_claim_sync_job :: "'w raft_node \<Rightarrow> string \<Rightarrow> string \<Rightarrow> ('w, bool) io" where
  "rms_claim_sync_job node i node_id =
     io_bind (write_job node (ClaimSyncJob i node_id)) (\<lambda>resp. io_return (job_bool resp))"

definition rms_trigger_sync_job :: "'w raft_node \<Rightarrow> string \<Rightarrow> ('w, bool) io" where
  "rms_trigger_sync_job node i =
     io_bind (write_job node (TriggerSyncJob i)) (\<lambda>resp. io_return (job_bool resp))"

definition rms_list_sync_job_runs :: "'w raft_node \<Rightarrow> string \<Rightarrow> nat \<Rightarrow> ('w, sync_job_run list) io" where
  "rms_list_sync_job_runs node job_id limit = io_read (\<lambda>w. list_sync_job_runs (rn_state node w) job_id limit)"

definition rms_put_sync_job_run :: "'w raft_node \<Rightarrow> sync_job_run \<Rightarrow> ('w, unit) io" where
  "rms_put_sync_job_run node run = io_unit (write_job node (PutSyncJobRun run))"

definition rms_list_helm_charts :: "'w raft_node \<Rightarrow> ('w, helm_chart list) io" where
  "rms_list_helm_charts node = io_read (\<lambda>w. list_helm_charts (rn_state node w))"

definition rms_list_helm_chart_versions :: "'w raft_node \<Rightarrow> string \<Rightarrow> ('w, helm_chart_version list option) io" where
  "rms_list_helm_chart_versions node name = io_read (\<lambda>w. list_helm_chart_versions (rn_state node w) name)"

subsection \<open>TokenStore, PolicyStore and RepositoryStore\<close>

definition rms_list_personal_access_tokens :: "'w raft_node \<Rightarrow> string \<Rightarrow> ('w, personal_access_token list) io" where
  "rms_list_personal_access_tokens node sub = io_read (\<lambda>w. list_personal_access_tokens (rn_state node w) sub)"

definition rms_get_personal_access_token_by_hash :: "'w raft_node \<Rightarrow> string \<Rightarrow> ('w, personal_access_token option) io" where
  "rms_get_personal_access_token_by_hash node token_hash = io_read (\<lambda>w. get_personal_access_token_by_hash (rn_state node w) token_hash)"

definition rms_put_personal_access_token :: "'w raft_node \<Rightarrow> personal_access_token \<Rightarrow> ('w, unit) io" where
  "rms_put_personal_access_token node token = io_unit (write_token node (PutPersonalAccessToken token))"

definition rms_delete_personal_access_token :: "'w raft_node \<Rightarrow> string \<Rightarrow> string \<Rightarrow> ('w, bool) io" where
  "rms_delete_personal_access_token node i sub =
     io_bind (write_token node (DeletePersonalAccessToken i sub)) (\<lambda>resp.
       case resp of
         TokenBool deleted \<Rightarrow> io_return deleted
       | TokenOk \<Rightarrow> io_fail (Internal [Lit ''unexpected response for delete_personal_access_token'']))"

definition rms_list_policy_sets :: "'w raft_node \<Rightarrow> ('w, policy_set list) io" where
  "rms_list_policy_sets node = io_read (\<lambda>w. list_policy_sets (rn_state node w))"

definition rms_get_policy_set :: "'w raft_node \<Rightarrow> string \<Rightarrow> ('w, policy_set option) io" where
  "rms_get_policy_set node i = io_read (\<lambda>w. get_policy_set (rn_state node w) i)"

definition rms_put_policy_set :: "'w raft_node \<Rightarrow> policy_set \<Rightarrow> ('w, unit) io" where
  "rms_put_policy_set node policy = io_unit (write_policy node (PutPolicySet policy))"

definition rms_delete_policy_set :: "'w raft_node \<Rightarrow> string \<Rightarrow> ('w, bool) io" where
  "rms_delete_policy_set node i =
     io_bind (write_policy node (DeletePolicySet i)) (\<lambda>resp.
       case resp of
         PolicyBool deleted \<Rightarrow> io_return deleted
       | PolicyOk \<Rightarrow> io_fail (Internal [Lit ''unexpected response for delete_policy_set'']))"

definition rms_get_repository :: "'w raft_node \<Rightarrow> string \<Rightarrow> ('w, repository option) io" where
  "rms_get_repository node name = io_read (\<lambda>w. get_repository (rn_state node w) name)"

definition rms_put_repository_with_expected_namespace ::
  "'w raft_node \<Rightarrow> repository \<Rightarrow> namespace_epoch option \<Rightarrow> ('w, unit) io" where
  "rms_put_repository_with_expected_namespace node repo expected_namespace =
     io_unit (write_repository node (PutRepository repo expected_namespace))"

definition rms_put_repository :: "'w raft_node \<Rightarrow> repository \<Rightarrow> ('w, unit) io" where
  "rms_put_repository node repo =
     io_bind (expected_namespace_for_repository node (repo_name repo)) (\<lambda>expected.
       rms_put_repository_with_expected_namespace node repo expected)"

definition rms_delete_repository_meta_with_expected_namespace ::
  "'w raft_node \<Rightarrow> string \<Rightarrow> namespace_epoch option \<Rightarrow> ('w, bool) io" where
  "rms_delete_repository_meta_with_expected_namespace node name expected_namespace =
     io_bind (write_repository node (DeleteRepository name expected_namespace)) (\<lambda>resp.
       io_return (case resp of RepositoryBool deleted \<Rightarrow> deleted | RepositoryOk \<Rightarrow> False))"

definition rms_delete_repository_meta :: "'w raft_node \<Rightarrow> string \<Rightarrow> ('w, bool) io" where
  "rms_delete_repository_meta node name =
     io_bind (expected_namespace_for_repository node name) (\<lambda>expected.
       rms_delete_repository_meta_with_expected_namespace node name expected)"

subsection \<open>NamespaceStore\<close>

definition rms_get_namespace :: "'w raft_node \<Rightarrow> string \<Rightarrow> ('w, namespace option) io" where
  "rms_get_namespace node handle = io_read (\<lambda>w. get_namespace (rn_state node w) handle)"

definition rms_list_namespaces :: "'w raft_node \<Rightarrow> ('w, namespace list) io" where
  "rms_list_namespaces node = io_read (\<lambda>w. list_namespaces (rn_state node w))"

definition rms_get_released_handle :: "'w raft_node \<Rightarrow> string \<Rightarrow> ('w, released_handle option) io" where
  "rms_get_released_handle node handle = io_read (\<lambda>w. get_released_handle (rn_state node w) handle)"

definition rms_claim_namespace ::
  "'w raft_node \<Rightarrow> string \<Rightarrow> owner \<Rightarrow> string \<Rightarrow> subject \<Rightarrow> bool \<Rightarrow> u64 \<Rightarrow> ('w, unit) io" where
  "rms_claim_namespace node handle own owner_label actor admin_override now =
     io_unit (write_namespace node (NamespaceClaim
       \<lparr>cl_handle = handle, cl_owner = own, cl_owner_label = owner_label, cl_actor = actor,
        cl_admin_override = admin_override, cl_now = now\<rparr>))"

definition rms_release_namespace ::
  "'w raft_node \<Rightarrow> string \<Rightarrow> subject \<Rightarrow> release_reason \<Rightarrow> u64 \<Rightarrow> ('w, unit) io" where
  "rms_release_namespace node handle actor reason now =
     io_unit (write_namespace node (NamespaceDelete handle actor reason now))"

definition rms_admin_revoke_namespace :: "'w raft_node \<Rightarrow> string \<Rightarrow> subject \<Rightarrow> u64 \<Rightarrow> ('w, unit) io" where
  "rms_admin_revoke_namespace node handle actor now =
     io_unit (write_namespace node (NamespaceAdminRevoke handle actor now))"

definition rms_list_namespace_grants :: "'w raft_node \<Rightarrow> string \<Rightarrow> ('w, namespace_grant list) io" where
  "rms_list_namespace_grants node handle = io_read (\<lambda>w. list_namespace_grants (rn_state node w) handle)"

definition rms_get_namespace_grant :: "'w raft_node \<Rightarrow> string \<Rightarrow> string \<Rightarrow> ('w, namespace_grant option) io" where
  "rms_get_namespace_grant node handle grant_id = io_read (\<lambda>w. get_namespace_grant (rn_state node w) handle grant_id)"

definition rms_put_namespace_grant ::
  "'w raft_node \<Rightarrow> namespace_grant \<Rightarrow> string \<Rightarrow> string \<Rightarrow> ('w, namespace_grant) io" where
  "rms_put_namespace_grant node grant actor_label reason =
     io_match (rn_uuid node) (\<lambda>audit_id.
     io_bind (write_namespace node (NamespacePutGrant grant actor_label reason audit_id)) (\<lambda>resp.
       case resp of
         NamespaceGrantResp g \<Rightarrow> io_return g
       | _ \<Rightarrow> io_fail (Internal [Lit ''unexpected namespace grant response''])))"

definition rms_delete_namespace_grant ::
  "'w raft_node \<Rightarrow> string \<Rightarrow> string \<Rightarrow> subject \<Rightarrow> string \<Rightarrow> string \<Rightarrow> u64 \<Rightarrow> ('w, bool) io" where
  "rms_delete_namespace_grant node handle grant_id actor actor_label reason now =
     io_match (rn_uuid node) (\<lambda>audit_id.
     io_bind (write_namespace node (NamespaceDeleteGrant
       \<lparr>dg_handle = handle, dg_grant_id = grant_id, dg_actor = actor, dg_actor_label = actor_label,
        dg_reason = reason, dg_now = now, dg_audit_id = audit_id\<rparr>)) (\<lambda>resp.
       case resp of
         NamespaceBool deleted \<Rightarrow> io_return deleted
       | _ \<Rightarrow> io_fail (Internal [Lit ''unexpected namespace grant delete response''])))"

definition rms_list_namespace_grant_audit :: "'w raft_node \<Rightarrow> string \<Rightarrow> ('w, namespace_grant_audit_event list) io" where
  "rms_list_namespace_grant_audit node handle = io_read (\<lambda>w. list_namespace_grant_audit (rn_state node w) handle)"

definition rms_put_observed_identity :: "'w raft_node \<Rightarrow> observed_identity \<Rightarrow> ('w, unit) io" where
  "rms_put_observed_identity node ident = io_unit (write_namespace node (NamespacePutObservedIdentity ident))"

definition rms_search_observed_identities :: "'w raft_node \<Rightarrow> string \<Rightarrow> nat \<Rightarrow> ('w, observed_identity list) io" where
  "rms_search_observed_identities node query limit = io_read (\<lambda>w. search_observed_identities (rn_env node) (rn_state node w) query limit)"

section \<open>What Raft promises\<close>

text \<open>
  \<open>log w\<close> is the log the cluster has committed in the world \<open>w\<close>.  A write that is answered was appended
  to it, possibly among entries of other clients, and the answer is the one the state machine gives there.
  A write that fails may or may not have been committed.  The local state is the result of a prefix.
\<close>

type_synonym 'w committed_log = "'w \<Rightarrow> (u64 \<times> log_entry) list"

definition log_extends :: "'w committed_log \<Rightarrow> 'w \<Rightarrow> 'w \<Rightarrow> bool" where
  "log_extends log w w' \<longleftrightarrow> (\<exists>es. log w' = log w @ es)"

definition answers_entry :: "env \<Rightarrow> 'w committed_log \<Rightarrow> request \<Rightarrow> 'w \<Rightarrow> response \<Rightarrow> 'w \<Rightarrow> bool" where
  "answers_entry env log req w resp w' \<longleftrightarrow>
     (\<exists>others now e later data rs data'. log w' = log w @ others @ (now, e) # later \<and> le_payload e = Normal req \<and>
        apply_entries env empty_state (log w @ others) = Some (data, rs) \<and>
        entry_step env data (now, e) = Some (data', resp))"

definition raft_ok :: "'w raft_node \<Rightarrow> 'w committed_log \<Rightarrow> bool" where
  "raft_ok node log \<longleftrightarrow>
     (\<forall>req w. log_extends log w (snd (rn_client_write node req w))) \<and>
     (\<forall>addr req w. log_extends log w (snd (rn_send_write node addr req w))) \<and>
     (\<forall>w. log (snd (rn_uuid node w)) = log w) \<and>
     (\<forall>req w resp w'. rn_client_write node req w = (Ok resp, w') \<longrightarrow> answers_entry (rn_env node) log req w resp w') \<and>
     (\<forall>addr req w resp w'. rn_send_write node addr req w = (Ok resp, w') \<longrightarrow> answers_entry (rn_env node) log req w resp w') \<and>
     (\<forall>w. \<exists>n rs. apply_entries (rn_env node) empty_state (take n (log w)) = Some (rn_state node w, rs))"

interpretation log_order: world_order "log_extends log" for log
  by unfold_locales (auto simp: log_extends_def)

lemma answers_entry_later:
  "log_extends log w w1 \<Longrightarrow> answers_entry env log req w1 resp w' \<Longrightarrow> answers_entry env log req w resp w'"
  unfolding answers_entry_def log_extends_def by (metis append_assoc)

lemma apply_entries_snoc:
  "apply_entries env data (es @ [ne]) = Some (data'', rs) \<longleftrightarrow>
    (\<exists>data' rs' r. apply_entries env data es = Some (data', rs') \<and> entry_step env data' ne = Some (data'', r) \<and> rs = rs' @ [r])"
proof (induction es arbitrary: data rs)
  case Nil
  obtain now e where "ne = (now, e)" by (cases ne)
  then show ?case by (cases "apply_entry env now data e") (auto simp: entry_step_def)
next
  case (Cons a es)
  obtain now e where "a = (now, e)" by (cases a)
  then show ?case
    by (cases "apply_entry env now data e") (auto simp: Cons.IH)
qed

text \<open>The outcome of a write: an answered entry, or no answer.\<close>

lemma rms_write_outcome:
  assumes ok: "raft_ok node log" and wr: "rms_write node req w = (r, w')"
  shows "(\<exists>m. r = Err (Consensus m)) \<or> (\<exists>resp. answers_entry (rn_env node) log req w resp w' \<and> r = response_result resp)"
proof -
  obtain c w1 where c: "rn_client_write node req w = (c, w1)" by (cases "rn_client_write node req w")
  have grows: "log_extends log w w1" using ok c unfolding raft_ok_def by (metis snd_conv)
  show ?thesis
  proof (cases c)
    case (Inr resp)
    with c wr have "r = response_result resp" "w1 = w'" by (simp_all add: rms_write_def io_bind_def io_match_def)
    moreover from Inr c ok have "answers_entry (rn_env node) log req w resp w1" unfolding raft_ok_def by blast
    ultimately show ?thesis by blast
  next
    case (Inl err)
    show ?thesis
    proof (cases err)
      case (ForwardToLeader addr)
      let ?addr = "case addr of None \<Rightarrow> [] | Some a \<Rightarrow> a"
      obtain f w2 where f: "forward_client_write node ?addr req w1 = (f, w2)" by (cases "forward_client_write node ?addr req w1")
      show ?thesis
      proof (cases f)
        case (Inl e)
        with f Inl ForwardToLeader c wr \<open>c = Inl err\<close> show ?thesis by (auto simp: rms_write_def io_bind_def io_match_def)
      next
        case (Inr resp)
        with f \<open>c = Inl err\<close> ForwardToLeader c wr have "r = response_result resp" "w2 = w'"
          by (simp_all add: rms_write_def io_bind_def io_match_def)
        moreover from Inr f have "rn_send_write node ?addr req w1 = (Ok resp, w2)"
          by (auto simp: forward_client_write_def split: if_splits)
        then have "answers_entry (rn_env node) log req w1 resp w2" using ok unfolding raft_ok_def by blast
        ultimately show ?thesis using answers_entry_later [OF grows] by blast
      qed
    next
      case (WriteError e)
      with c wr Inl show ?thesis by (auto simp: rms_write_def io_bind_def io_match_def)
    qed
  qed
qed

lemma response_result_Ok: "response_result resp = Ok r \<Longrightarrow> r = resp"
  by (cases resp) simp_all

lemma rms_write_Ok:
  assumes "raft_ok node log" and "rms_write node req w = (Ok resp, w')"
  shows "answers_entry (rn_env node) log req w resp w'"
  using rms_write_outcome [OF assms] response_result_Ok by (metis Inl_Inr_False)

lemma rms_write_extends: "raft_ok node log \<Longrightarrow> io_rel (log_extends log) (rms_write node req)"
proof -
  assume ok: "raft_ok node log"
  have "io_rel (log_extends log) (rn_client_write node req)" "io_rel (log_extends log) (forward_client_write node addr req)" for addr
    using ok by (auto simp: io_rel_def raft_ok_def forward_client_write_def log_order.refl)
  then show ?thesis
    unfolding rms_write_def by (intro log_order.rels) (auto split: sum.splits client_write_error.splits intro!: log_order.rels)
qed

lemma write_manifest_Ok:
  assumes "raft_ok node log" and "write_manifest node req w = (Ok x, w')"
  shows "answers_entry (rn_env node) log (ReqManifest req) w (RespManifest x) w'"
proof -
  from assms(2) have "rms_write node (ReqManifest req) w = (Ok (RespManifest x), w')"
    unfolding write_manifest_def by (elim io_bindE) (auto split: response.splits)
  with assms(1) show ?thesis by (rule rms_write_Ok)
qed

text \<open>What the state machine made of an answered manifest request.\<close>

lemma manifest_answer:
  assumes "answers_entry env log (ReqManifest req) w (RespManifest x) w'"
  obtains es later data rs data' where "log w' = log w @ es @ later" "es \<noteq> []"
    "apply_entries env empty_state (log w @ es) = Some (data', rs @ [RespManifest x])" "apply_manifest env data req = Ok (data', x)"
proof -
  from assms obtain others now e later data rs data' where e: "log w' = log w @ others @ (now, e) # later" "le_payload e = Normal (ReqManifest req)"
    "apply_entries env empty_state (log w @ others) = Some (data, rs)" "entry_step env data (now, e) = Some (data', RespManifest x)"
    unfolding answers_entry_def by blast
  then have "apply_entries env empty_state (log w @ others @ [(now, e)]) = Some (data', rs @ [RespManifest x])"
    by (simp flip: append_assoc add: apply_entries_snoc)
  moreover from e(2,4) have "apply_manifest env (data\<lparr>last_applied_log := Some (le_log_id e)\<rparr>) req = Ok (data', x)"
    by (auto simp: entry_step_def apply_entry_def Let_def settle_def split: sum.splits elim: error_to_response.elims)
  ultimately show ?thesis using that [of "others @ [(now, e)]" later] e(1) by simp
qed

section \<open>An acknowledged push\<close>

lemma map_filter_checked:
  "(\<And>d. d \<in> set ds \<Longrightarrow> digest_wf d) \<Longrightarrow> List.map_filter from_str_checked (map digest_to_string ds) = ds"
  by (induction ds) (auto simp: List.map_filter_simps)

lemma put_request_entry:
  assumes "digest_wf (me_digest entry)" and "\<forall>d \<in> set (me_referenced_blobs entry). digest_wf d"
  shows "me_digest (put_manifest_entry env (put_request_of name ref entry exp absent)) = me_digest entry"
    and "me_body (put_manifest_entry env (put_request_of name ref entry exp absent)) = me_body entry"
    and "set (me_referenced_blobs entry) \<subseteq> set (me_referenced_blobs (put_manifest_entry env (put_request_of name ref entry exp absent)))"
proof -
  let ?refs = "put_manifest_refs env (me_body entry) (map digest_to_string (me_referenced_blobs entry))"
  show "me_digest (put_manifest_entry env (put_request_of name ref entry exp absent)) = me_digest entry"
    and "me_body (put_manifest_entry env (put_request_of name ref entry exp absent)) = me_body entry"
    using assms(1) by (simp_all add: put_manifest_entry_def put_request_of_def)
  have "set (me_referenced_blobs entry) \<subseteq> set ?refs"
  proof
    fix d assume d: "d \<in> set (me_referenced_blobs entry)"
    then have refs: "?refs = sort_dedup_digests (me_referenced_blobs entry)"
      using assms(2) by (auto simp: put_manifest_refs_def map_filter_checked Let_def)
    from d obtain d' where "d' \<in> set ?refs" "digest_to_string d' = digest_to_string d"
      using sort_dedup_digests_set [of "me_referenced_blobs entry"] refs by (metis imageE image_eqI)
    moreover from this have "d' \<in> set (me_referenced_blobs entry)" using sort_dedup_digests_subset [of "me_referenced_blobs entry"] unfolding refs by blast
    ultimately show "d \<in> set ?refs" using assms(2) d by (metis digest_to_string_inj)
  qed
  then show "set (me_referenced_blobs entry) \<subseteq> set (me_referenced_blobs (put_manifest_entry env (put_request_of name ref entry exp absent)))"
    by (simp add: put_manifest_entry_def put_request_of_def)
qed

lemma put_manifest_committed:
  assumes ok: "raft_ok node log" and sha: "sha_hex_ok (env_sha_hex (rn_env node))"
    and push: "rms_put_manifest_with_expected_namespace node name reference entry expected absent w = (Ok (), w')"
  shows "\<exists>es later data rs. log w' = log w @ es @ later \<and> es \<noteq> [] \<and>
    apply_entries (rn_env node) empty_state (log w @ es) = Some (data, rs) \<and>
    (let e = put_manifest_entry (rn_env node) (put_request_of name reference entry expected absent) in
      get_manifest data name (digest_to_string (me_digest e)) = Some e \<and>
      (\<not> contains_char (CHR '':'') reference \<longrightarrow> get_manifest data name reference = Some e))"
proof -
  let ?r = "put_request_of name reference entry expected absent"
  from push obtain x where "write_manifest node (PutManifest ?r) w = (Ok x, w')"
    by (auto simp: rms_put_manifest_with_expected_namespace_def io_unit_def io_bind_eq_Ok)
  then obtain es later data rs data' where
    run: "log w' = log w @ es @ later" "es \<noteq> []"
      "apply_entries (rn_env node) empty_state (log w @ es) = Some (data', rs @ [RespManifest x])"
    and put: "put_manifest (rn_env node) data ?r = Ok (data', x)"
    by (rule manifest_answer [OF write_manifest_Ok [OF ok]]) simp
  have "pm_name ?r = name" "pm_reference ?r = reference" by (simp_all add: put_request_of_def)
  with put_manifest_found [OF put sha] run show ?thesis unfolding Let_def by metis
qed

end
