(* ===== verification/Numbers.thy ===== *)
theory Numbers
  imports Metadata_Types
begin

text \<open>
  Reading and printing machine integers the way the standard library does: \<^verbatim>\<open>str::parse\<close> for the unsigned
  types (an optional plus sign, then decimal digits, within range) and the zero-padded format of \<^verbatim>\<open>i32\<close>.
\<close>

type_synonym i32 = "32 word"

definition parse_unsigned :: "nat \<Rightarrow> string \<Rightarrow> nat option" where
  "parse_unsigned bound s =
     (let digits = (case strip_prefix ''+'' s of None \<Rightarrow> s | Some r \<Rightarrow> r) in
      if digits \<noteq> [] \<and> list_all is_ascii_digit digits \<and> read_nat digits < bound
      then Some (read_nat digits) else None)"

definition parse_u64 :: "string \<Rightarrow> u64 option" where
  "parse_u64 s = map_option of_nat (parse_unsigned (2 ^ 64) s)"

definition parse_u8 :: "string \<Rightarrow> u8 option" where
  "parse_u8 s = map_option of_nat (parse_unsigned (2 ^ 8) s)"

text \<open>\<^verbatim>\<open>{n:020}\<close> of an \<^verbatim>\<open>i32\<close>: the sign, then zeros up to twenty characters.\<close>

definition pad_zeros :: "nat \<Rightarrow> string \<Rightarrow> string" where
  "pad_zeros width s = replicate (width - length s) (CHR ''0'') @ s"

definition show_i32_020 :: "i32 \<Rightarrow> string" where
  "show_i32_020 n =
     (if sint n < 0 then ''-'' @ pad_zeros 19 (show_nat (nat (- sint n))) else pad_zeros 20 (show_nat (nat (sint n))))"

section \<open>Lemmas\<close>

lemma read_nat_zeros: "read_nat (replicate k (CHR ''0'') @ s) = read_nat s"
proof -
  have zeros: "foldl (\<lambda>v c. v * 10 + (byte c - 48)) 0 (replicate k (CHR ''0'')) = 0"
    by (induction k) (simp_all add: byte_def)
  then show ?thesis by (simp add: read_nat_def)
qed

lemma show_nat_not_Nil [simp]: "show_nat n \<noteq> []"
  by (subst show_nat.simps) simp

lemma parse_show_u64: "parse_u64 (show_u64 w) = Some w"
proof -
  have "strip_prefix ''+'' (show_nat n) = None" for n
  proof (rule ccontr)
    assume "strip_prefix ''+'' (show_nat n) \<noteq> None"
    then have "CHR ''+'' \<in> set (show_nat n)" by (auto simp: strip_prefix_iff)
    then have "is_ascii_digit (CHR ''+'')" by (rule show_nat_digits)
    then show False by (simp add: is_ascii_digit_def byte_def)
  qed
  moreover have "unat w < 2 ^ 64" using unsigned_less [of w, where ?'a = nat] by simp
  ultimately show ?thesis
    by (auto simp: parse_u64_def parse_unsigned_def show_u64_def Let_def read_show_nat list_all_iff dest: show_nat_digits)
qed

lemma pad_zeros_inject:
  "pad_zeros k (show_nat m) = pad_zeros k (show_nat n) \<longleftrightarrow> m = n"
  by (metis pad_zeros_def read_nat_zeros read_show_nat)

lemma show_i32_020_inject: "show_i32_020 m = show_i32_020 n \<longleftrightarrow> m = n"
proof
  assume eq: "show_i32_020 m = show_i32_020 n"
  have head: "CHR ''-'' \<notin> set (pad_zeros k (show_nat x))" for k x
    by (auto simp: pad_zeros_def is_ascii_digit_def byte_def dest: show_nat_digits)
  have "sint m = sint n"
  proof (cases "sint m < 0"; cases "sint n < 0")
    assume "sint m < 0" "sint n < 0"
    with eq show ?thesis by (simp add: show_i32_020_def pad_zeros_inject)
  next
    assume "\<not> sint m < 0" "\<not> sint n < 0"
    with eq show ?thesis by (simp add: show_i32_020_def pad_zeros_inject)
  next
    assume "sint m < 0" "\<not> sint n < 0"
    with eq have "''-'' @ pad_zeros 19 (show_nat (nat (- sint m))) = pad_zeros 20 (show_nat (nat (sint n)))" by (simp add: show_i32_020_def)
    with head [of 20 "nat (sint n)"] show ?thesis by (metis append_Cons list.set_intros(1))
  next
    assume "\<not> sint m < 0" "sint n < 0"
    with eq have "''-'' @ pad_zeros 19 (show_nat (nat (- sint n))) = pad_zeros 20 (show_nat (nat (sint m)))" by (simp add: show_i32_020_def)
    with head [of 20 "nat (sint m)"] show ?thesis by (metis append_Cons list.set_intros(1))
  qed
  then show "m = n" by (simp add: signed_word_eqI)
qed simp

end
