(* ===== verification/Blob_Store.thy ===== *)
theory Blob_Store
  imports Numbers Effects
begin

text \<open>
  The blob store over S3 (\<^verbatim>\<open>store/s3.rs\<close>): chunked uploads staged as objects of their own, assembled into
  a multipart upload when they are completed, and streamed uploads of pulled blobs.

  S3 is outside the sources: its calls are the fields of \<open>object_store\<close>, each a function of the world.
  The SHA-256 of what was fed to the hasher, in hex, is \<open>bs_sha_hex\<close> of the concatenated input; the JSON
  form of the staged state is \<open>bs_encode_state\<close> and \<open>bs_decode_state\<close>.  Digests come from the checked
  constructors, so \<^const>\<open>s3_key\<close> is defined on them.
\<close>

section \<open>Definitions\<close>

record staged_upload_part =
  sup_number :: i32
  sup_key :: string
  sup_size :: u64

record staged_upload_state =
  sus_parts :: "staged_upload_part list"
  sus_next_part_number :: i32
  sus_total_bytes :: u64

datatype get_object_error = NoSuchKey msg | GetFailed msg
datatype head_object_error = HeadNotFound msg | HeadFailed msg

type_synonym completed_part = "i32 \<times> string option"

record 'w object_store =
  s3_put :: "string \<Rightarrow> string \<Rightarrow> 'w \<Rightarrow> (unit, msg) result \<times> 'w"
  s3_get :: "string \<Rightarrow> string option \<Rightarrow> 'w \<Rightarrow> ((string, msg) result, get_object_error) result \<times> 'w"
  s3_head :: "string \<Rightarrow> 'w \<Rightarrow> (u64 option, head_object_error) result \<times> 'w"
  s3_head_bucket :: "'w \<Rightarrow> (unit, msg) result \<times> 'w"
  s3_delete :: "string \<Rightarrow> 'w \<Rightarrow> (unit, msg) result \<times> 'w"
  s3_create_multipart :: "string \<Rightarrow> 'w \<Rightarrow> (string option, msg) result \<times> 'w"
  s3_upload_part :: "string \<Rightarrow> string \<Rightarrow> i32 \<Rightarrow> string \<Rightarrow> 'w \<Rightarrow> (string option, msg) result \<times> 'w"
  s3_complete_multipart :: "string \<Rightarrow> string \<Rightarrow> completed_part list \<Rightarrow> 'w \<Rightarrow> (unit, msg) result \<times> 'w"
  s3_abort_multipart :: "string \<Rightarrow> string \<Rightarrow> 'w \<Rightarrow> (unit, msg) result \<times> 'w"
  s3_presign :: "string \<Rightarrow> u64 \<Rightarrow> 'w \<Rightarrow> (string, msg) result \<times> 'w"
  bs_redirect_enabled :: bool
  bs_presign_expires_secs :: u64
  bs_encode_state :: "staged_upload_state \<Rightarrow> (string, msg) result"
  bs_decode_state :: "string \<Rightarrow> (staged_upload_state, msg) result"
  bs_sha_hex :: "string \<Rightarrow> string"

definition MIN_PART_SIZE :: nat where "MIN_PART_SIZE = 5 * 1024 * 1024"

definition key_of :: "digest \<Rightarrow> string" where
  "key_of d = the (s3_key d)"

text \<open>\<^verbatim>\<open>call.await.map_err(|e| LayerhouseError::S3(e.to_string()))?\<close>\<close>

definition s3_call :: "('w \<Rightarrow> ('a, msg) result \<times> 'w) \<Rightarrow> ('w, 'a) io" where
  "s3_call call = io_match call (\<lambda>r. io_result (case r of Inl e \<Rightarrow> Err (S3 e) | Inr a \<Rightarrow> Ok a))"

definition upload_state_key :: "string \<Rightarrow> string" where
  "upload_state_key session_id = ''uploads/'' @ session_id @ ''/blob-state.json''"

definition upload_part_key :: "string \<Rightarrow> i32 \<Rightarrow> string" where
  "upload_part_key session_id part_number = ''uploads/'' @ session_id @ ''/parts/'' @ show_i32_020 part_number"

definition write_upload_state :: "'w object_store \<Rightarrow> string \<Rightarrow> staged_upload_state \<Rightarrow> ('w, unit) io" where
  "write_upload_state st session_id state =
     (case bs_encode_state st state of
        Inl e \<Rightarrow> io_fail (S3 (Lit ''encode upload state: '' # e))
      | Inr bytes \<Rightarrow> s3_call (s3_put st (upload_state_key session_id) bytes))"

definition read_upload_state :: "'w object_store \<Rightarrow> string \<Rightarrow> ('w, staged_upload_state option) io" where
  "read_upload_state st session_id =
     io_match (s3_get st (upload_state_key session_id) None) (\<lambda>r.
       case r of
         Inl (NoSuchKey _) \<Rightarrow> io_return None
       | Inl (GetFailed e) \<Rightarrow> io_fail (S3 e)
       | Inr (Inl e) \<Rightarrow> io_fail (S3 e)
       | Inr (Inr bytes) \<Rightarrow>
           (case bs_decode_state st bytes of
              Inl e \<Rightarrow> io_fail (S3 (Lit ''decode upload state: '' # e))
            | Inr state \<Rightarrow> io_return (Some state)))"

definition delete_staged_upload :: "'w object_store \<Rightarrow> staged_upload_state \<Rightarrow> ('w, unit) io" where
  "delete_staged_upload st state = io_for (sus_parts state) (\<lambda>part. s3_call (s3_delete st (sup_key part)))"

definition upload_final_part ::
  "'w object_store \<Rightarrow> string \<Rightarrow> string \<Rightarrow> i32 \<Rightarrow> string \<Rightarrow> ('w, completed_part) io" where
  "upload_final_part st key upload_id part_number part_data =
     io_bind (s3_call (s3_upload_part st key upload_id part_number part_data)) (\<lambda>e_tag.
       io_return (part_number, e_tag))"

definition health_check :: "'w object_store \<Rightarrow> ('w, unit) io" where
  "health_check st = s3_call (s3_head_bucket st)"

definition stat :: "'w object_store \<Rightarrow> digest \<Rightarrow> ('w, u64) io" where
  "stat st d =
     io_match (s3_head st (key_of d)) (\<lambda>r.
       case r of
         Inl (HeadNotFound _) \<Rightarrow> io_fail (BlobUnknown [Disp (digest_to_string d)])
       | Inl (HeadFailed e) \<Rightarrow> io_fail (S3 e)
       | Inr content_length \<Rightarrow> io_return (case content_length of None \<Rightarrow> 0 | Some n \<Rightarrow> n))"

text \<open>A \<^verbatim>\<open>BlobStream\<close> is what collecting the body gives: the bytes, or the error it breaks off with.\<close>

definition get_blob_object :: "'w object_store \<Rightarrow> digest \<Rightarrow> string option \<Rightarrow> ('w, (string, msg) result) io" where
  "get_blob_object st d rng =
     io_match (s3_get st (key_of d) rng) (\<lambda>r.
       case r of
         Inl (NoSuchKey e) \<Rightarrow> io_fail (S3 e)
       | Inl (GetFailed e) \<Rightarrow> io_fail (S3 e)
       | Inr body \<Rightarrow> io_return body)"

definition blob_get :: "'w object_store \<Rightarrow> digest \<Rightarrow> ('w, (string, msg) result) io" where
  "blob_get st d = get_blob_object st d None"

definition blob_get_range :: "'w object_store \<Rightarrow> digest \<Rightarrow> u64 \<Rightarrow> u64 \<Rightarrow> ('w, (string, msg) result) io" where
  "blob_get_range st d start stop = get_blob_object st d (Some (''bytes='' @ show_u64 start @ ''-'' @ show_u64 stop))"

definition presigned_url :: "'w object_store \<Rightarrow> digest \<Rightarrow> ('w, string) io" where
  "presigned_url st d = s3_call (s3_presign st (key_of d) (bs_presign_expires_secs st))"

subsection \<open>Chunked uploads\<close>

definition empty_upload :: staged_upload_state where
  "empty_upload = \<lparr>sus_parts = [], sus_next_part_number = 1, sus_total_bytes = 0\<rparr>"

definition start_upload :: "'w object_store \<Rightarrow> string \<Rightarrow> ('w, unit) io" where
  "start_upload st session_id = write_upload_state st session_id empty_upload"

definition require_upload_state :: "'w object_store \<Rightarrow> string \<Rightarrow> ('w, staged_upload_state) io" where
  "require_upload_state st session_id =
     io_bind (read_upload_state st session_id) (\<lambda>state.
       case state of
         None \<Rightarrow> io_fail (S3 [Lit ''no upload session: '', Disp session_id])
       | Some s \<Rightarrow> io_return s)"

definition add_part :: "string \<Rightarrow> string \<Rightarrow> staged_upload_state \<Rightarrow> staged_upload_state" where
  "add_part session_id data state =
     (let n = sus_next_part_number state; size = of_nat (length data) in
      \<lparr>sus_parts = sus_parts state @ [\<lparr>sup_number = n, sup_key = upload_part_key session_id n, sup_size = size\<rparr>],
       sus_next_part_number = n + 1, sus_total_bytes = sus_total_bytes state + size\<rparr>)"

definition push_chunk :: "'w object_store \<Rightarrow> string \<Rightarrow> string \<Rightarrow> ('w, u64) io" where
  "push_chunk st session_id data =
     io_bind (require_upload_state st session_id) (\<lambda>state.
       if data = [] then io_return (sus_total_bytes state)
       else
         io_bind (s3_call (s3_put st (upload_part_key session_id (sus_next_part_number state)) data)) (\<lambda>_.
         io_bind (write_upload_state st session_id (add_part session_id data state)) (\<lambda>_.
           io_return (sus_total_bytes (add_part session_id data state)))))"

text \<open>
  The loop variables of \<^verbatim>\<open>complete_upload\<close> and \<^verbatim>\<open>put_streaming\<close>: the multipart upload, once it exists, the
  parts it was given, the bytes still buffered, and all bytes fed to the hasher.
\<close>

record multipart =
  mu_upload_id :: "string option"
  mu_parts :: "completed_part list"
  mu_number :: i32
  mu_buffer :: string
  mu_hashed :: string

definition ensure_upload_id :: "'w object_store \<Rightarrow> string \<Rightarrow> string option \<Rightarrow> ('w, string) io" where
  "ensure_upload_id st key upload_id =
     (case upload_id of
        Some u \<Rightarrow> io_return u
      | None \<Rightarrow>
          io_bind (s3_call (s3_create_multipart st key)) (\<lambda>u.
            case u of None \<Rightarrow> io_fail (S3 [Lit ''no upload_id returned'']) | Some u \<Rightarrow> io_return u))"

function flush_full :: "'w object_store \<Rightarrow> string \<Rightarrow> multipart \<Rightarrow> ('w, multipart) io" where
  "flush_full st key m w =
     (if length (mu_buffer m) < MIN_PART_SIZE then (Ok m, w)
      else case ensure_upload_id st key (mu_upload_id m) w of
          (Inl e, w1) \<Rightarrow> (Err e, w1)
        | (Inr u, w1) \<Rightarrow>
            (case upload_final_part st key u (mu_number m + 1) (take MIN_PART_SIZE (mu_buffer m)) w1 of
               (Inl e, w2) \<Rightarrow> (Err e, w2)
             | (Inr part, w2) \<Rightarrow>
                 flush_full st key (m\<lparr>mu_upload_id := Some u, mu_parts := mu_parts m @ [part],
                   mu_number := mu_number m + 1, mu_buffer := drop MIN_PART_SIZE (mu_buffer m)\<rparr>) w2))"
  by pat_completeness auto

termination
  by (relation "measure (\<lambda>(st, key, m, w). length (mu_buffer m))") (auto simp: MIN_PART_SIZE_def)

declare flush_full.simps [simp del]

definition feed :: "string \<Rightarrow> multipart \<Rightarrow> multipart" where
  "feed bytes m = m\<lparr>mu_buffer := mu_buffer m @ bytes, mu_hashed := mu_hashed m @ bytes\<rparr>"

definition read_part :: "'w object_store \<Rightarrow> staged_upload_part \<Rightarrow> ('w, string) io" where
  "read_part st part =
     io_match (s3_get st (sup_key part) None) (\<lambda>r.
       case r of
         Inl (NoSuchKey e) \<Rightarrow> io_fail (S3 e)
       | Inl (GetFailed e) \<Rightarrow> io_fail (S3 e)
       | Inr (Inl e) \<Rightarrow> io_fail (S3 e)
       | Inr (Inr bytes) \<Rightarrow>
           if of_nat (length bytes) \<noteq> sup_size part
           then io_fail (S3 [Lit ''staged upload part size changed: '', Disp (sup_key part)])
           else io_return bytes)"

fun assemble :: "'w object_store \<Rightarrow> string \<Rightarrow> staged_upload_part list \<Rightarrow> multipart \<Rightarrow> ('w, multipart) io" where
  "assemble st key [] m = io_return m"
| "assemble st key (part # parts) m =
     io_bind (read_part st part) (\<lambda>bytes.
     io_bind (flush_full st key (feed bytes m)) (assemble st key parts))"

definition digest_mismatch :: "digest \<Rightarrow> digest \<Rightarrow> layerhouse_error" where
  "digest_mismatch expected actual =
     S3 [Lit ''digest mismatch: expected '', Disp (digest_to_string expected), Lit '', got '', Disp (digest_to_string actual)]"

definition abort_and_fail :: "'w object_store \<Rightarrow> string \<Rightarrow> string option \<Rightarrow> layerhouse_error \<Rightarrow> ('w, 'a) io" where
  "abort_and_fail st key upload_id e =
     (case upload_id of
        None \<Rightarrow> io_fail e
      | Some u \<Rightarrow> io_match (s3_abort_multipart st key u) (\<lambda>_. io_fail e))"

definition finish_multipart :: "'w object_store \<Rightarrow> string \<Rightarrow> multipart \<Rightarrow> ('w, unit) io" where
  "finish_multipart st key m =
     (case mu_upload_id m of
        Some u \<Rightarrow>
          io_bind (if mu_buffer m = [] then io_return (mu_parts m)
                   else io_bind (upload_final_part st key u (mu_number m + 1) (mu_buffer m)) (\<lambda>part.
                     io_return (mu_parts m @ [part]))) (\<lambda>parts.
            s3_call (s3_complete_multipart st key u parts))
      | None \<Rightarrow> s3_call (s3_put st key (mu_buffer m)))"

definition no_multipart :: multipart where
  "no_multipart = \<lparr>mu_upload_id = None, mu_parts = [], mu_number = 0, mu_buffer = [], mu_hashed = []\<rparr>"

definition complete_upload :: "'w object_store \<Rightarrow> string \<Rightarrow> digest \<Rightarrow> ('w, unit) io" where
  "complete_upload st session_id expected_digest =
     io_bind (require_upload_state st session_id) (\<lambda>state0.
       let state = state0\<lparr>sus_parts := sort_key (\<lambda>part. sint (sup_number part)) (sus_parts state0)\<rparr>;
           final_key = key_of expected_digest in
       io_bind (assemble st final_key (sus_parts state) no_multipart) (\<lambda>m.
         let actual_digest = digest_sha256 (bs_sha_hex st) (mu_hashed m) in
         if digest_to_string actual_digest \<noteq> digest_to_string expected_digest
         then abort_and_fail st final_key (mu_upload_id m) (digest_mismatch expected_digest actual_digest)
         else
           io_bind (finish_multipart st final_key m) (\<lambda>_.
           io_bind (s3_call (s3_delete st (upload_state_key session_id))) (\<lambda>_.
             delete_staged_upload st state))))"

definition delete_upload :: "'w object_store \<Rightarrow> string \<Rightarrow> ('w, unit) io" where
  "delete_upload st session_id =
     io_bind (read_upload_state st session_id) (\<lambda>state.
     io_bind (case state of None \<Rightarrow> io_return () | Some s \<Rightarrow> delete_staged_upload st s) (\<lambda>_.
       s3_call (s3_delete st (upload_state_key session_id))))"

subsection \<open>Streamed uploads\<close>

definition stream_part :: "'w object_store \<Rightarrow> string \<Rightarrow> string \<Rightarrow> multipart \<Rightarrow> string \<Rightarrow> ('w, multipart) io" where
  "stream_part st key u m part_data =
     io_match (s3_upload_part st key u (mu_number m + 1) part_data) (\<lambda>r.
       case r of
         Inl e \<Rightarrow> abort_and_fail st key (Some u) (S3 e)
       | Inr e_tag \<Rightarrow> io_return (m\<lparr>mu_parts := mu_parts m @ [(mu_number m + 1, e_tag)], mu_number := mu_number m + 1,
           mu_buffer := drop (length part_data) (mu_buffer m)\<rparr>))"

lemma abort_and_fail_not_Ok [simp]: "abort_and_fail st key u e w \<noteq> (Ok x, w')"
  by (cases u) (simp_all add: abort_and_fail_def io_match_eq)

lemma stream_part_shrinks:
  "stream_part st key u m part w = (Ok m', w') \<Longrightarrow> mu_buffer m' = drop (length part) (mu_buffer m)"
  by (auto simp: stream_part_def io_match_sum)

function stream_flush :: "'w object_store \<Rightarrow> string \<Rightarrow> string \<Rightarrow> multipart \<Rightarrow> ('w, multipart) io" where
  "stream_flush st key u m w =
     (if length (mu_buffer m) < MIN_PART_SIZE then (Ok m, w)
      else case stream_part st key u m (take MIN_PART_SIZE (mu_buffer m)) w of
          (Inl e, w1) \<Rightarrow> (Err e, w1)
        | (Inr m', w1) \<Rightarrow> stream_flush st key u m' w1)"
  by pat_completeness auto

termination
  by (relation "measure (\<lambda>(st, key, u, m, w). length (mu_buffer m))")
    (auto simp: MIN_PART_SIZE_def dest!: sym [of _ "stream_part _ _ _ _ _ _"] stream_part_shrinks)

declare stream_flush.simps [simp del]

fun stream_chunks ::
  "'w object_store \<Rightarrow> string \<Rightarrow> string \<Rightarrow> (string, msg) result list \<Rightarrow> multipart \<Rightarrow> ('w, multipart) io" where
  "stream_chunks st key u [] m = io_return m"
| "stream_chunks st key u (Inl e # chunks) m = abort_and_fail st key (Some u) (S3 e)"
| "stream_chunks st key u (Inr chunk # chunks) m =
     io_bind (stream_flush st key u (feed chunk m)) (stream_chunks st key u chunks)"

definition put_streaming :: "'w object_store \<Rightarrow> digest \<Rightarrow> (string, msg) result list \<Rightarrow> ('w, unit) io" where
  "put_streaming st d chunks =
     (let key = key_of d in
      io_bind (ensure_upload_id st key None) (\<lambda>u.
      io_bind (stream_chunks st key u chunks (no_multipart\<lparr>mu_upload_id := Some u\<rparr>)) (\<lambda>m.
        let actual_digest = digest_sha256 (bs_sha_hex st) (mu_hashed m) in
        if digest_to_string actual_digest \<noteq> digest_to_string d
        then abort_and_fail st key (Some u) (digest_mismatch d actual_digest)
        else
          io_bind (if mu_buffer m \<noteq> [] \<or> mu_parts m = [] then stream_part st key u m (mu_buffer m) else io_return m) (\<lambda>m'.
            io_match (s3_complete_multipart st key u (mu_parts m')) (\<lambda>r.
              case r of Inl e \<Rightarrow> abort_and_fail st key (Some u) (S3 e) | Inr _ \<Rightarrow> io_return ())))))"

end
