(* ===== verification/Blob_Integrity.thy ===== *)
theory Blob_Integrity
  imports Blob_Store Gc
begin

text \<open>
  What the blob store guarantees on top of S3: nothing is ever written under a blob key but content with
  that digest, and an upload that was pushed in chunks and completed is stored as their concatenation.
\<close>

section \<open>What S3 promises\<close>

text \<open>
  \<open>obj w k\<close> is the object under a key, \<open>prt w k u n\<close> a part of an unfinished multipart upload.  Reads see
  the last write; a part becomes visible only when its upload is completed, with the parts that are
  listed, in ascending order; part numbers are 1 to 10000.  A call that fails may or may not have taken
  effect, but it touches nothing else.
\<close>

type_synonym 'w objects = "'w \<Rightarrow> string \<Rightarrow> string option"
type_synonym 'w parts = "'w \<Rightarrow> string \<Rightarrow> string \<Rightarrow> i32 \<Rightarrow> string option"

definition put_law :: "'w object_store \<Rightarrow> 'w objects \<Rightarrow> 'w parts \<Rightarrow> bool" where
  "put_law st obj prt \<longleftrightarrow> (\<forall>k b w r w'. s3_put st k b w = (r, w') \<longrightarrow>
     prt w' = prt w \<and> (\<forall>k'. k' \<noteq> k \<longrightarrow> obj w' k' = obj w k') \<and>
     (obj w' k = Some b \<or> obj w' k = obj w k \<and> \<not> is_ok r))"

definition delete_law :: "'w object_store \<Rightarrow> 'w objects \<Rightarrow> 'w parts \<Rightarrow> bool" where
  "delete_law st obj prt \<longleftrightarrow> (\<forall>k w r w'. s3_delete st k w = (r, w') \<longrightarrow>
     prt w' = prt w \<and> (\<forall>k'. k' \<noteq> k \<longrightarrow> obj w' k' = obj w k') \<and>
     (obj w' k = None \<or> obj w' k = obj w k \<and> \<not> is_ok r))"

definition get_law :: "'w object_store \<Rightarrow> 'w objects \<Rightarrow> 'w parts \<Rightarrow> bool" where
  "get_law st obj prt \<longleftrightarrow> (\<forall>k rng w r w'. s3_get st k rng w = (r, w') \<longrightarrow> prt w' = prt w \<and> obj w' = obj w \<and>
     (rng = None \<longrightarrow> (\<forall>b. r = Ok (Ok b) \<longrightarrow> obj w k = Some b) \<and> (\<forall>m. r = Err (NoSuchKey m) \<longrightarrow> obj w k = None)))"

definition head_law :: "'w object_store \<Rightarrow> 'w objects \<Rightarrow> 'w parts \<Rightarrow> bool" where
  "head_law st obj prt \<longleftrightarrow> (\<forall>k w r w'. s3_head st k w = (r, w') \<longrightarrow> prt w' = prt w \<and> obj w' = obj w \<and>
     (\<forall>n. r = Ok n \<longrightarrow> obj w k \<noteq> None) \<and> (\<forall>m. r = Err (HeadNotFound m) \<longrightarrow> obj w k = None))"

definition listed_content :: "(i32 \<Rightarrow> string option) \<Rightarrow> completed_part list \<Rightarrow> string" where
  "listed_content held parts = concat (map (\<lambda>(n, _). case held n of None \<Rightarrow> [] | Some c \<Rightarrow> c) parts)"

definition multipart_law :: "'w object_store \<Rightarrow> 'w objects \<Rightarrow> 'w parts \<Rightarrow> bool" where
  "multipart_law st obj prt \<longleftrightarrow>
     (\<forall>k w r w'. s3_create_multipart st k w = (r, w') \<longrightarrow> obj w' = obj w) \<and>
     (\<forall>k u w r w'. s3_abort_multipart st k u w = (r, w') \<longrightarrow> obj w' = obj w) \<and>
     (\<forall>k u n b w r w'. s3_upload_part st k u n b w = (r, w') \<longrightarrow> obj w' = obj w \<and>
        (is_ok r \<longrightarrow> 1 \<le> sint n \<and> sint n \<le> 10000 \<and> prt w' k u = (prt w k u)(n \<mapsto> b))) \<and>
     (\<forall>k u ps w r w'. s3_complete_multipart st k u ps w = (r, w') \<longrightarrow>
        (\<forall>k'. k' \<noteq> k \<longrightarrow> obj w' k' = obj w k') \<and> (obj w k \<noteq> None \<or> is_ok r \<longrightarrow> obj w' k \<noteq> None) \<and>
        (sorted_wrt (\<lambda>a b. sint (fst a) < sint (fst b)) ps \<and> (\<forall>p \<in> set ps. prt w k u (fst p) \<noteq> None) \<longrightarrow>
           obj w' k = Some (listed_content (prt w k u) ps) \<or> obj w' k = obj w k \<and> \<not> is_ok r))"

definition presign_law :: "'w object_store \<Rightarrow> 'w objects \<Rightarrow> 'w parts \<Rightarrow> bool" where
  "presign_law st obj prt \<longleftrightarrow>
     (\<forall>k e w. obj (snd (s3_presign st k e w)) = obj w \<and> prt (snd (s3_presign st k e w)) = prt w) \<and>
     (\<forall>w. obj (snd (s3_head_bucket st w)) = obj w \<and> prt (snd (s3_head_bucket st w)) = prt w)"

definition s3_ok :: "'w object_store \<Rightarrow> 'w objects \<Rightarrow> 'w parts \<Rightarrow> bool" where
  "s3_ok st obj prt \<longleftrightarrow> put_law st obj prt \<and> delete_law st obj prt \<and> get_law st obj prt \<and> head_law st obj prt \<and>
     multipart_law st obj prt \<and> presign_law st obj prt \<and> sha_hex_ok (bs_sha_hex st) \<and>
     (\<forall>s b. bs_encode_state st s = Ok b \<longrightarrow> bs_decode_state st b = Ok s)"

lemmas s3_laws = put_law_def delete_law_def get_law_def head_law_def multipart_law_def presign_law_def

lemma s3_okD:
  assumes "s3_ok st obj prt"
  shows "put_law st obj prt" "delete_law st obj prt" "get_law st obj prt" "head_law st obj prt"
    "multipart_law st obj prt" "presign_law st obj prt" "sha_hex_ok (bs_sha_hex st)"
    "bs_encode_state st s = Ok b \<Longrightarrow> bs_decode_state st b = Ok s"
  using assms by (auto simp: s3_ok_def)

section \<open>Only authentic content under blob keys\<close>

definition upload_key :: "string \<Rightarrow> bool" where
  "upload_key k \<longleftrightarrow> starts_with ''uploads/'' k"

definition authentic :: "(string \<Rightarrow> string) \<Rightarrow> string \<Rightarrow> string \<Rightarrow> bool" where
  "authentic sha k b \<longleftrightarrow> s3_key (digest_sha256 sha b) = Some k"

text \<open>Every object there is afterwards was there before, belongs to an upload, or is authentic.\<close>

definition writes_authentic :: "(string \<Rightarrow> string) \<Rightarrow> 'w objects \<Rightarrow> 'w \<Rightarrow> 'w \<Rightarrow> bool" where
  "writes_authentic sha obj w w' \<longleftrightarrow>
     (\<forall>k b. obj w' k = Some b \<longrightarrow> obj w k = Some b \<or> upload_key k \<or> authentic sha k b)"

interpretation auth: world_order "writes_authentic sha obj" for sha obj
  by unfold_locales (auto simp: writes_authentic_def)

lemma upload_keys [simp]: "upload_key (upload_state_key s)" "upload_key (upload_part_key s n)"
  by (auto simp: upload_key_def upload_state_key_def upload_part_key_def starts_with_def)

text \<open>Most calls leave every object alone.\<close>

definition same_objects :: "'w objects \<Rightarrow> 'w \<Rightarrow> 'w \<Rightarrow> bool" where
  "same_objects obj w w' \<longleftrightarrow> obj w' = obj w"

interpretation same: world_order "same_objects obj" for obj
  by unfold_locales (simp_all add: same_objects_def)

lemma same_authentic: "io_rel (same_objects obj) m \<Longrightarrow> io_rel (writes_authentic sha obj) m"
  by (simp add: io_rel_def same_objects_def writes_authentic_def)

lemma same_objectsD: "io_rel (same_objects obj) m \<Longrightarrow> m w = (r, w') \<Longrightarrow> obj w' = obj w"
  by (metis io_rel_def same_objects_def snd_conv)

lemma s3_call_eq_Ok [simp]: "s3_call call w = (Ok a, w') \<longleftrightarrow> call w = (Ok a, w')"
  by (cases "call w"; cases "fst (call w)") (auto simp: s3_call_def io_match_def)

lemma s3_call_result: "call w = (r, w') \<Longrightarrow> s3_call call w = (case r of Inl e \<Rightarrow> Err (S3 e) | Inr a \<Rightarrow> Ok a, w')"
  by (simp add: s3_call_def io_match_def)

lemma io_match_get:
  "io_match m (\<lambda>r. case r of Inl (NoSuchKey e) \<Rightarrow> a e | Inl (GetFailed e) \<Rightarrow> b e | Inr (Inl e) \<Rightarrow> c e | Inr (Inr x) \<Rightarrow> d x) w = (y, w'') \<longleftrightarrow>
    (\<exists>e w'. m w = (Inl (NoSuchKey e), w') \<and> a e w' = (y, w'')) \<or> (\<exists>e w'. m w = (Inl (GetFailed e), w') \<and> b e w' = (y, w'')) \<or>
    (\<exists>e w'. m w = (Inr (Inl e), w') \<and> c e w' = (y, w'')) \<or> (\<exists>x w'. m w = (Inr (Inr x), w') \<and> d x w' = (y, w''))"
  by (cases "m w"; cases "fst (m w)") (auto simp: io_match_def split: get_object_error.splits sum.splits)

lemma same_s3_call: "io_rel (same_objects obj) call \<Longrightarrow> io_rel (same_objects obj) (s3_call call)"
  unfolding s3_call_def by (intro same.rels)

lemma auth_s3_call: "io_rel (writes_authentic sha obj) call \<Longrightarrow> io_rel (writes_authentic sha obj) (s3_call call)"
  unfolding s3_call_def by (intro auth.rels)

lemma s3_same:
  assumes "s3_ok st obj prt"
  shows "io_rel (same_objects obj) (s3_get st k rng)" and "io_rel (same_objects obj) (s3_head st k)"
    and "io_rel (same_objects obj) (s3_create_multipart st k)" and "io_rel (same_objects obj) (s3_abort_multipart st k u)"
    and "io_rel (same_objects obj) (s3_upload_part st k u n b)" and "io_rel (same_objects obj) (s3_presign st k e)"
    and "io_rel (same_objects obj) (s3_head_bucket st)"
  using s3_okD [OF assms] by (simp_all add: s3_laws io_rel_def same_objects_def) (metis prod.collapse)+

lemma s3_auth:
  assumes "s3_ok st obj prt"
  shows "io_rel (writes_authentic sha obj) (s3_delete st k)"
    and "upload_key k \<or> authentic sha k b \<Longrightarrow> io_rel (writes_authentic sha obj) (s3_put st k b)"
proof -
  show "io_rel (writes_authentic sha obj) (s3_delete st k)"
    using s3_okD(2) [OF assms] unfolding delete_law_def io_rel_def writes_authentic_def
    by (metis option.distinct(1) prod.collapse)
  show "upload_key k \<or> authentic sha k b \<Longrightarrow> io_rel (writes_authentic sha obj) (s3_put st k b)"
    using s3_okD(1) [OF assms] unfolding put_law_def io_rel_def writes_authentic_def
    by (metis option.inject prod.collapse)
qed

lemma read_upload_state_same: "s3_ok st obj prt \<Longrightarrow> io_rel (same_objects obj) (read_upload_state st sid)"
  unfolding read_upload_state_def
  by (intro same.rels) (auto intro!: same.rels s3_same split: sum.splits get_object_error.splits)

lemma require_upload_state_same: "s3_ok st obj prt \<Longrightarrow> io_rel (same_objects obj) (require_upload_state st sid)"
  unfolding require_upload_state_def
  by (intro same.rels) (auto intro!: same.rels read_upload_state_same split: option.splits)

lemma write_upload_state_auth: "s3_ok st obj prt \<Longrightarrow> io_rel (writes_authentic sha obj) (write_upload_state st sid s)"
  unfolding write_upload_state_def by (auto intro!: auth.rels auth_s3_call s3_auth split: sum.splits)

lemma delete_staged_upload_auth: "s3_ok st obj prt \<Longrightarrow> io_rel (writes_authentic sha obj) (delete_staged_upload st s)"
  unfolding delete_staged_upload_def by (intro auth.rels auth_s3_call s3_auth)

lemma read_part_same: "s3_ok st obj prt \<Longrightarrow> io_rel (same_objects obj) (read_part st p)"
  unfolding read_part_def
  by (intro same.rels) (auto intro!: same.rels s3_same split: sum.splits get_object_error.splits)

lemma upload_final_part_same: "s3_ok st obj prt \<Longrightarrow> io_rel (same_objects obj) (upload_final_part st key u n b)"
  unfolding upload_final_part_def by (intro same.rels same_s3_call s3_same)

lemma ensure_upload_id_same: "s3_ok st obj prt \<Longrightarrow> io_rel (same_objects obj) (ensure_upload_id st key u)"
  unfolding ensure_upload_id_def by (auto intro!: same.rels same_s3_call s3_same split: option.splits)

lemma abort_and_fail_same: "s3_ok st obj prt \<Longrightarrow> io_rel (same_objects obj) (abort_and_fail st key u e)"
  unfolding abort_and_fail_def by (auto intro!: same.rels s3_same split: option.splits)

lemma stream_part_same: "s3_ok st obj prt \<Longrightarrow> io_rel (same_objects obj) (stream_part st key u m b)"
  unfolding stream_part_def
  by (intro same.rels) (auto intro!: same.rels s3_same abort_and_fail_same split: sum.splits)

section \<open>The parts of a multipart upload\<close>

text \<open>
  The parts uploaded so far, in order and followed by the buffer, are what was fed to the hasher; they are
  numbered from 1 on.
\<close>

definition staged :: "'w parts \<Rightarrow> string \<Rightarrow> 'w \<Rightarrow> multipart \<Rightarrow> bool" where
  "staged prt key w m \<longleftrightarrow>
     length (mu_parts m) \<le> 10000 \<and> mu_number m = of_nat (length (mu_parts m)) \<and>
     map fst (mu_parts m) = map of_nat [1..<Suc (length (mu_parts m))] \<and>
     (case mu_upload_id m of
        None \<Rightarrow> mu_parts m = [] \<and> mu_hashed m = mu_buffer m
      | Some u \<Rightarrow> (\<forall>p \<in> set (mu_parts m). prt w key u (fst p) \<noteq> None) \<and>
          mu_hashed m = listed_content (prt w key u) (mu_parts m) @ mu_buffer m)"

lemma sint_of_nat_i32: "n < 2 ^ 31 \<Longrightarrow> sint (of_nat n :: i32) = int n"
  by (simp add: signed_of_nat signed_take_bit_int_eq_self)

lemma of_nat_i32_inject: "m < 2 ^ 31 \<Longrightarrow> n < 2 ^ 31 \<Longrightarrow> (of_nat m :: i32) = of_nat n \<longleftrightarrow> m = n"
  by (metis sint_of_nat_i32 of_nat_eq_iff)

lemma listed_content_simps [simp]: "listed_content held [] = []"
  "listed_content held (ps @ [p]) = listed_content held ps @ (case held (fst p) of None \<Rightarrow> [] | Some c \<Rightarrow> c)"
  by (auto simp: listed_content_def split: prod.splits)

lemma listed_content_cong:
  "(\<And>p. p \<in> set ps \<Longrightarrow> held (fst p) = held' (fst p)) \<Longrightarrow> listed_content held ps = listed_content held' ps"
  unfolding listed_content_def by (intro arg_cong [where f = concat] map_cong) auto

lemma staged_ascending:
  assumes "staged prt key w m"
  shows "sorted_wrt (\<lambda>a b. sint (fst a) < sint (fst b)) (mu_parts m)"
proof -
  have "sorted_wrt (\<lambda>a b. sint (of_nat a :: i32) < sint (of_nat b :: i32)) [1..<Suc (length (mu_parts m))]"
    by (rule sorted_wrt_mono_rel [OF _ sorted_wrt_upt])
      (use assms in \<open>auto simp: staged_def sint_of_nat_i32\<close>)
  then have "sorted_wrt (\<lambda>a b. sint a < sint b) (map fst (mu_parts m))"
    using assms by (simp add: staged_def sorted_wrt_map)
  then show ?thesis by (simp add: sorted_wrt_map)
qed

lemma staged_part:
  assumes ok: "s3_ok st obj prt" and m: "staged prt key w m" and u: "mu_upload_id m = None \<or> mu_upload_id m = Some u"
    and up: "s3_upload_part st key u (mu_number m + 1) (take k (mu_buffer m)) w = (Ok e, w')"
  shows "staged prt key w' (m\<lparr>mu_upload_id := Some u, mu_parts := mu_parts m @ [(mu_number m + 1, e)],
      mu_number := mu_number m + 1, mu_buffer := drop k (mu_buffer m)\<rparr>)"
proof -
  let ?n = "length (mu_parts m)"
  from m have len: "?n \<le> 10000" and num: "mu_number m + 1 = of_nat (Suc ?n)"
    and fst: "map fst (mu_parts m) = map of_nat [1..<Suc ?n]" by (auto simp: staged_def)
  from s3_okD(5) [OF ok] up have le: "sint (mu_number m + 1) \<le> 10000"
    and prt: "prt w' key u = (prt w key u)(mu_number m + 1 \<mapsto> take k (mu_buffer m))"
    unfolding multipart_law_def by (metis is_ok_simps(1))+
  have "sint (of_nat (Suc ?n) :: i32) = int (Suc ?n)" using len by (intro sint_of_nat_i32) simp
  with le num have "Suc ?n \<le> 10000" by simp
  have fresh: "mu_number m + 1 \<noteq> fst p" if "p \<in> set (mu_parts m)" for p
  proof -
    from that fst have "fst p \<in> (of_nat :: nat \<Rightarrow> i32) ` {1..<Suc ?n}"
      by (metis image_eqI list.set_map set_upt)
    then obtain i where i: "fst p = of_nat i" "i < Suc ?n" by auto
    with len have "sint (fst p) = int i" by (simp add: sint_of_nat_i32)
    with i \<open>sint (of_nat (Suc ?n) :: i32) = int (Suc ?n)\<close> num show ?thesis by (metis nat_int nless_le)
  qed
  have content: "listed_content (prt w' key u) (mu_parts m) = listed_content (prt w key u) (mu_parts m)"
  proof (rule listed_content_cong)
    show "prt w' key u (fst p) = prt w key u (fst p)" if "p \<in> set (mu_parts m)" for p
      using fresh [OF that] by (simp add: prt)
  qed
  have hashed: "mu_hashed m = listed_content (prt w key u) (mu_parts m) @ mu_buffer m"
    and held: "\<forall>p \<in> set (mu_parts m). prt w key u (fst p) \<noteq> None"
    using m u unfolding staged_def by (elim disjE; simp)+
  show ?thesis
    using \<open>Suc ?n \<le> 10000\<close> num fst held content by (auto simp: staged_def hashed prt)
qed

lemma flush_full_staged:
  assumes ok: "s3_ok st obj prt"
  shows "obj (snd (flush_full st key m w)) = obj w
    \<and> (\<forall>m' w'. staged prt key w m \<longrightarrow> flush_full st key m w = (Ok m', w') \<longrightarrow>
        staged prt key w' m' \<and> mu_hashed m' = mu_hashed m \<and> length (mu_buffer m') < MIN_PART_SIZE)"
  using ok
proof (induction st key m w rule: flush_full.induct)
  case (1 st key m w)
  note ok = \<open>s3_ok st obj prt\<close>
  show ?case
  proof (cases "length (mu_buffer m) < MIN_PART_SIZE")
    case True
    then show ?thesis by (simp add: flush_full.simps)
  next
    case large: False
    obtain r w1 where r: "ensure_upload_id st key (mu_upload_id m) w = (r, w1)" by fastforce
    note obj1 = same_objectsD [OF ensure_upload_id_same [OF ok] r]
    show ?thesis
    proof (cases r)
      case (Inl e)
      with large r obj1 show ?thesis by (simp add: flush_full.simps)
    next
      case (Inr u)
      let ?b = "take MIN_PART_SIZE (mu_buffer m)"
      obtain r' w2 where r': "upload_final_part st key u (mu_number m + 1) ?b w1 = (r', w2)" by fastforce
      note obj2 = same_objectsD [OF upload_final_part_same [OF ok] r']
      show ?thesis
      proof (cases r')
        case (Inl e)
        with large r r' Inr obj1 obj2 show ?thesis by (simp add: flush_full.simps)
      next
        case part: (Inr part)
        let ?m = "m\<lparr>mu_upload_id := Some u, mu_parts := mu_parts m @ [part], mu_number := mu_number m + 1,
          mu_buffer := drop MIN_PART_SIZE (mu_buffer m)\<rparr>"
        have step: "flush_full st key m w = flush_full st key ?m w2"
          using large r r' Inr part by (subst flush_full.simps) simp
        have IH: "obj (snd (flush_full st key ?m w2)) = obj w2 \<and> (\<forall>m' w'. staged prt key w2 ?m \<longrightarrow>
            flush_full st key ?m w2 = (Ok m', w') \<longrightarrow> staged prt key w' m' \<and> mu_hashed m' = mu_hashed ?m \<and> length (mu_buffer m') < MIN_PART_SIZE)"
          using 1(1) [OF large r [symmetric] Inr r' [symmetric] part ok] .
        have next_staged: "staged prt key w2 ?m" if st: "staged prt key w m"
        proof -
          have u: "mu_upload_id m = None \<or> mu_upload_id m = Some u \<and> w1 = w"
            using r Inr by (cases "mu_upload_id m") (auto simp: ensure_upload_id_def)
          have "staged prt key w1 m" using st u by (auto simp: staged_def)
          moreover obtain e where "s3_upload_part st key u (mu_number m + 1) ?b w1 = (Ok e, w2)" "part = (mu_number m + 1, e)"
            using r' part by (auto simp: upload_final_part_def io_bind_eq_Ok)
          moreover have "mu_upload_id m = None \<or> mu_upload_id m = Some u" using u by blast
          ultimately show ?thesis using staged_part [OF ok] by metis
        qed
        show ?thesis
        proof (intro conjI [OF _ allI [OF allI [OF impI [OF impI]]]])
          show "obj (snd (flush_full st key m w)) = obj w" unfolding step using IH obj1 obj2 by metis
          fix m' w' assume "staged prt key w m" and fin: "flush_full st key m w = (Ok m', w')"
          from IH [THEN conjunct2, rule_format, OF next_staged [OF this(1)] fin [unfolded step]]
          show "staged prt key w' m' \<and> mu_hashed m' = mu_hashed m \<and> length (mu_buffer m') < MIN_PART_SIZE" by simp
        qed
      qed
    qed
  qed
qed

lemma staged_feed: "staged prt key w m \<Longrightarrow> staged prt key w (feed b m)"
  by (auto simp: staged_def feed_def split: option.splits)

lemma staged_cong: "staged prt key w m \<Longrightarrow> prt w' = prt w \<Longrightarrow> staged prt key w' m"
  by (auto simp: staged_def split: option.splits)

lemma staged_no_multipart: "staged prt key w no_multipart" "staged prt key w (no_multipart\<lparr>mu_upload_id := Some u\<rparr>)"
  by (simp_all add: staged_def no_multipart_def)

lemma read_part_Ok:
  assumes "s3_ok st obj prt" and "read_part st p w = (Ok b, w')"
  shows "obj w (sup_key p) = Some b" and "obj w' = obj w" and "prt w' = prt w" and "of_nat (length b) = sup_size p"
proof -
  from assms(2) have get: "s3_get st (sup_key p) None w = (Ok (Ok b), w')" and "of_nat (length b) = sup_size p"
    by (auto simp: read_part_def io_match_sum split: sum.splits get_object_error.splits if_splits) (metis sum.exhaust)+
  then show "of_nat (length b) = sup_size p" by blast
  from get s3_okD(3) [OF assms(1)] show "obj w (sup_key p) = Some b" "obj w' = obj w" "prt w' = prt w"
    unfolding get_law_def by blast+
qed

lemma assemble_staged:
  assumes "s3_ok st obj prt" and "staged prt key w m" and "assemble st key ps m w = (Ok m', w')"
  shows "staged prt key w' m' \<and> obj w' = obj w
    \<and> mu_hashed m' = mu_hashed m @ concat (map (\<lambda>p. the (obj w (sup_key p))) ps)"
  using assms(2,3)
proof (induction ps arbitrary: m w)
  case (Cons p ps)
  from Cons.prems(2) obtain b w1 m1 w2 where b: "read_part st p w = (Ok b, w1)"
    and f: "flush_full st key (feed b m) w1 = (Ok m1, w2)" and rest: "assemble st key ps m1 w2 = (Ok m', w')"
    by (auto simp: io_bind_eq_Ok)
  note rd = read_part_Ok [OF assms(1) b]
  have "staged prt key w1 (feed b m)" by (rule staged_feed [OF staged_cong [OF Cons.prems(1) rd(3)]])
  from flush_full_staged [OF assms(1), THEN conjunct2, rule_format, OF this f]
  have m1: "staged prt key w2 m1" "mu_hashed m1 = mu_hashed (feed b m)" by blast+
  have obj2: "obj w2 = obj w1" using flush_full_staged [OF assms(1), of key "feed b m" w1, THEN conjunct1] by (simp only: f snd_conv)
  from Cons.IH [OF m1(1) rest] m1(2) obj2 rd show ?case by (simp add: feed_def)
qed simp

lemma assemble_same: "s3_ok st obj prt \<Longrightarrow> io_rel (same_objects obj) (assemble st key ps m)"
proof (induction ps arbitrary: m)
  case (Cons p ps)
  have "io_rel (same_objects obj) (flush_full st key m')" for m'
    using flush_full_staged [OF Cons.prems] by (simp add: io_rel_def same_objects_def)
  with Cons show ?case by (auto intro!: same.rels read_part_same)
qed (simp add: same.rels)

lemma complete_staged:
  assumes "s3_ok st obj prt" and "staged prt key w m" and "mu_upload_id m = Some u" and "mu_buffer m = []"
    and "s3_complete_multipart st key u (mu_parts m) w = (r, w')"
  shows "(\<forall>k. k \<noteq> key \<longrightarrow> obj w' k = obj w k) \<and> (obj w' key = Some (mu_hashed m) \<or> obj w' key = obj w key \<and> \<not> is_ok r)"
  using s3_okD(5) [OF assms(1)] staged_ascending [OF assms(2)] assms(2-5)
  unfolding multipart_law_def staged_def by simp

lemma upload_rest_staged:
  assumes "s3_ok st obj prt" and "staged prt key w m" and "mu_upload_id m = Some u"
    and "upload_final_part st key u (mu_number m + 1) (mu_buffer m) w = (Ok part, w')"
  shows "staged prt key w' (m\<lparr>mu_parts := mu_parts m @ [part], mu_number := mu_number m + 1, mu_buffer := []\<rparr>)"
proof -
  from assms(4) obtain e where e: "s3_upload_part st key u (mu_number m + 1) (take (length (mu_buffer m)) (mu_buffer m)) w = (Ok e, w')"
      "part = (mu_number m + 1, e)"
    by (auto simp: upload_final_part_def io_bind_eq_Ok)
  have "m\<lparr>mu_upload_id := Some u, mu_parts := ps, mu_number := n, mu_buffer := b\<rparr> = m\<lparr>mu_parts := ps, mu_number := n, mu_buffer := b\<rparr>" for ps n b
    using assms(3) by (cases m) simp
  with staged_part [OF assms(1,2) _ e(1)] assms(3) e(2) show ?thesis by simp
qed

text \<open>Committing what was staged writes the hashed content under the final key and nothing else.\<close>

lemma finish_multipart_effect:
  assumes ok: "s3_ok st obj prt" and m: "staged prt key w m" and fin: "finish_multipart st key m w = (r, w')"
  shows "(\<forall>k. k \<noteq> key \<longrightarrow> obj w' k = obj w k) \<and> (obj w' key = Some (mu_hashed m) \<or> obj w' key = obj w key \<and> \<not> is_ok r)"
proof (cases "mu_upload_id m")
  case None
  with fin have "s3_call (s3_put st key (mu_buffer m)) w = (r, w')" by (simp add: finish_multipart_def)
  then obtain r0 where "s3_put st key (mu_buffer m) w = (r0, w')" "is_ok r \<longleftrightarrow> is_ok r0"
    by (cases "s3_put st key (mu_buffer m) w"; cases "fst (s3_put st key (mu_buffer m) w)") (auto simp: s3_call_def io_match_def)
  moreover have "mu_hashed m = mu_buffer m" using m None by (simp add: staged_def)
  ultimately show ?thesis using s3_okD(1) [OF ok] unfolding put_law_def by metis
next
  case (Some u)
  have commit: "(\<forall>k. k \<noteq> key \<longrightarrow> obj w' k = obj w1 k) \<and> (obj w' key = Some (mu_hashed m') \<or> obj w' key = obj w1 key \<and> \<not> is_ok r)"
    if "staged prt key w1 m'" "mu_upload_id m' = Some u" "mu_buffer m' = []"
      "s3_call (s3_complete_multipart st key u (mu_parts m')) w1 = (r, w')" for m' w1
  proof -
    from that(4) obtain r0 where "s3_complete_multipart st key u (mu_parts m') w1 = (r0, w')" "is_ok r \<longleftrightarrow> is_ok r0"
      by (cases "s3_complete_multipart st key u (mu_parts m') w1"; cases "fst (s3_complete_multipart st key u (mu_parts m') w1)")
        (auto simp: s3_call_def io_match_def)
    with complete_staged [OF ok that(1-3)] show ?thesis by blast
  qed
  show ?thesis
  proof (cases "mu_buffer m = []")
    case True
    with commit [OF m Some True] fin Some show ?thesis by (simp add: finish_multipart_def)
  next
    case False
    obtain r1 w1 where up: "upload_final_part st key u (mu_number m + 1) (mu_buffer m) w = (r1, w1)" by fastforce
    note same = same_objectsD [OF upload_final_part_same [OF ok] up]
    show ?thesis
    proof (cases r1)
      case (Inl e)
      with up fin Some False same show ?thesis by (auto simp: finish_multipart_def io_bind_def)
    next
      case (Inr part)
      with up have up: "upload_final_part st key u (mu_number m + 1) (mu_buffer m) w = (Ok part, w1)" by simp
      let ?m = "m\<lparr>mu_parts := mu_parts m @ [part], mu_number := mu_number m + 1, mu_buffer := []\<rparr>"
      from up fin Some False have "s3_call (s3_complete_multipart st key u (mu_parts ?m)) w1 = (r, w')"
        by (simp add: finish_multipart_def io_bind_def)
      from commit [OF upload_rest_staged [OF ok m Some up] _ _ this] Some same show ?thesis by simp
    qed
  qed
qed

lemma stream_part_staged:
  assumes "s3_ok st obj prt" and "staged prt key w m" and "mu_upload_id m = Some u"
    and "stream_part st key u m (take k (mu_buffer m)) w = (Ok m', w')"
  shows "staged prt key w' m' \<and> mu_hashed m' = mu_hashed m \<and> mu_upload_id m' = Some u"
proof -
  from assms(4) obtain e where up: "s3_upload_part st key u (mu_number m + 1) (take k (mu_buffer m)) w = (Ok e, w')"
    and m': "m' = m\<lparr>mu_parts := mu_parts m @ [(mu_number m + 1, e)], mu_number := mu_number m + 1,
      mu_buffer := drop (length (take k (mu_buffer m))) (mu_buffer m)\<rparr>"
    by (auto simp: stream_part_def io_match_sum)
  have "m' = m\<lparr>mu_upload_id := Some u, mu_parts := mu_parts m @ [(mu_number m + 1, e)], mu_number := mu_number m + 1,
      mu_buffer := drop k (mu_buffer m)\<rparr>"
    using assms(3) unfolding m' by (cases m) (simp add: min_def)
  then show ?thesis using staged_part [OF assms(1,2) disjI2 [OF assms(3)] up] by simp
qed

lemma stream_flush_staged:
  assumes "s3_ok st obj prt" and "staged prt key w m" and "mu_upload_id m = Some u" and "stream_flush st key u m w = (Ok m', w')"
  shows "staged prt key w' m' \<and> mu_hashed m' = mu_hashed m \<and> mu_upload_id m' = Some u"
  using assms
proof (induction st key u m w rule: stream_flush.induct)
  case (1 st key u m w)
  show ?case
  proof (cases "length (mu_buffer m) < MIN_PART_SIZE")
    case True
    with 1 show ?thesis by (simp add: stream_flush.simps)
  next
    case False
    with 1(5) obtain m1 w1 where part: "stream_part st key u m (take MIN_PART_SIZE (mu_buffer m)) w = (Ok m1, w1)"
      and rest: "stream_flush st key u m1 w1 = (Ok m', w')"
      by (subst (asm) stream_flush.simps) (auto split: prod.splits sum.splits)
    note m1 = stream_part_staged [OF 1(2-4) part]
    from 1(1) [OF False part [symmetric] refl 1(2) _ _ rest] m1 show ?thesis by simp
  qed
qed

lemma stream_flush_same: "s3_ok st obj prt \<Longrightarrow> obj (snd (stream_flush st key u m w)) = obj w"
proof (induction st key u m w rule: stream_flush.induct)
  case (1 st key u m w)
  obtain r w1 where r: "stream_part st key u m (take MIN_PART_SIZE (mu_buffer m)) w = (r, w1)" by fastforce
  note same = same_objectsD [OF stream_part_same [OF 1(2)] r]
  show ?case
  proof (cases r)
    case (Inr m1)
    from 1(1) [OF _ r [symmetric] Inr 1(2)] r Inr same show ?thesis
      by (cases "length (mu_buffer m) < MIN_PART_SIZE") (simp_all add: stream_flush.simps [of st key u m])
  qed (use r same in \<open>simp add: stream_flush.simps\<close>)
qed

lemma stream_chunks_staged:
  assumes "s3_ok st obj prt" and "staged prt key w m" and "mu_upload_id m = Some u" and "stream_chunks st key u cs m w = (Ok m', w')"
  shows "staged prt key w' m' \<and> mu_upload_id m' = Some u \<and> mu_hashed m' = mu_hashed m @ concat (map projr cs) \<and> list_all is_ok cs"
  using assms
proof (induction st key u cs m arbitrary: w rule: stream_chunks.induct)
  case (3 st key u c cs m)
  from 3(5) obtain m1 w1 where flush: "stream_flush st key u (feed c m) w = (Ok m1, w1)" and rest: "stream_chunks st key u cs m1 w1 = (Ok m', w')"
    by (auto simp: io_bind_eq_Ok)
  have "mu_upload_id (feed c m) = Some u" using 3(4) by (simp add: feed_def)
  note m1 = stream_flush_staged [OF 3(2) staged_feed [OF 3(3)] this flush]
  from 3(1) [OF 3(2) _ _ rest] m1 show ?case by (simp add: feed_def)
qed simp_all

lemma stream_chunks_same: "s3_ok st obj prt \<Longrightarrow> io_rel (same_objects obj) (stream_chunks st key u cs m)"
proof (induction st key u cs m rule: stream_chunks.induct)
  case (3 st key u c cs m)
  have "io_rel (same_objects obj) (stream_flush st key u m')" for m'
    using stream_flush_same [OF 3(2)] by (simp add: io_rel_def same_objects_def)
  with 3 show ?case by (auto intro!: same.rels)
qed (auto intro: same.rels abort_and_fail_same)

section \<open>Every operation writes authentic content only\<close>

lemma key_of_wf:
  assumes "digest_wf d"
  shows "s3_key d = Some (key_of d)" and "s3_key_to_digest (key_of d) = Some (digest_to_string d)" and "\<not> upload_key (key_of d)"
proof -
  show key: "s3_key d = Some (key_of d)" "s3_key_to_digest (key_of d) = Some (digest_to_string d)"
    using s3_key_roundtrip [OF assms] by (auto simp: key_of_def)
  from key(1) show "\<not> upload_key (key_of d)"
    by (auto simp: s3_key_def upload_key_def starts_with_def split: if_splits dest!: sym [of _ "key_of d"])
qed

lemma key_of_inject: "digest_wf d \<Longrightarrow> digest_wf d' \<Longrightarrow> key_of d = key_of d' \<longleftrightarrow> d = d'"
  by (metis key_of_wf(2) option.inject digest_to_string_inj)

lemma authentic_key_of: "sha_hex_ok sha \<Longrightarrow> digest_wf d \<Longrightarrow> authentic sha (key_of d) b \<longleftrightarrow> digest_sha256 sha b = d"
  by (metis authentic_def key_of_inject key_of_wf(1) digest_sha256_wf option.inject)

lemma finish_multipart_auth:
  assumes "s3_ok st obj prt" and "staged prt key w m" and "finish_multipart st key m w = (r, w')"
    and "authentic sha key (mu_hashed m)"
  shows "writes_authentic sha obj w w'"
  using finish_multipart_effect [OF assms(1-3)] assms(4) unfolding writes_authentic_def by (metis option.inject)

text \<open>Sequencing with what is known of the intermediate result.\<close>

lemma auth_bindI:
  assumes "io_rel (writes_authentic sha obj) m"
    and "\<And>a w w'. m w = (Ok a, w') \<Longrightarrow> writes_authentic sha obj w' (snd (f a w'))"
  shows "io_rel (writes_authentic sha obj) (io_bind m f)"
proof -
  have "writes_authentic sha obj w (snd (io_bind m f w))" for w
  proof (cases "m w")
    case (Pair r w1)
    with assms(1) have first: "writes_authentic sha obj w w1" by (metis io_rel_def snd_conv)
    show ?thesis
    proof (cases r)
      case (Inr a)
      with Pair assms(2) have "writes_authentic sha obj w1 (snd (f a w1))" by blast
      with first Inr Pair show ?thesis by (auto simp: io_bind_def intro: auth.trans)
    qed (use Pair first in \<open>simp add: io_bind_def\<close>)
  qed
  then show ?thesis by (simp add: io_rel_def)
qed

lemma io_relD: "io_rel R m \<Longrightarrow> R w (snd (m w))"
  by (simp add: io_rel_def)

lemma complete_upload_auth:
  assumes ok: "s3_ok st obj prt" and d: "digest_wf d"
  shows "io_rel (writes_authentic (bs_sha_hex st) obj) (complete_upload st sid d)"
proof -
  let ?R = "writes_authentic (bs_sha_hex st) obj"
  have rest: "io_rel ?R (io_bind (s3_call (s3_delete st k)) (\<lambda>_. delete_staged_upload st s))" for k s
    by (intro auth.rels auth_s3_call s3_auth(1) [OF ok] delete_staged_upload_auth [OF ok])
  have commit: "?R w (snd (io_bind (finish_multipart st (key_of d) m) (\<lambda>_. io_bind (s3_call (s3_delete st k)) (\<lambda>_. delete_staged_upload st s)) w))"
    if "staged prt (key_of d) w m" "digest_to_string (digest_sha256 (bs_sha_hex st) (mu_hashed m)) = digest_to_string d" for w m k s
  proof -
    obtain r w1 where fin: "finish_multipart st (key_of d) m w = (r, w1)" by fastforce
    have "authentic (bs_sha_hex st) (key_of d) (mu_hashed m)"
      using that(2) s3_okD(7) [OF ok] d by (metis authentic_key_of digest_sha256_wf digest_to_string_inj)
    from finish_multipart_auth [OF ok that(1) fin this] io_relD [OF rest, of w1] fin show ?thesis
      by (cases r) (auto simp: io_bind_def [of "finish_multipart _ _ _"] intro: auth.trans)
  qed
  show ?thesis
    unfolding complete_upload_def Let_def
  proof (rule auth.rel_bind [OF same_authentic [OF require_upload_state_same [OF ok]]],
      rule auth_bindI [OF same_authentic [OF assemble_same [OF ok]]], goal_cases)
    case (1 s m w w')
    note m = assemble_staged [OF ok staged_no_multipart(1) 1]
    have "io_rel ?R (abort_and_fail st (key_of d) u e :: ('a, unit) io)" for u e
      by (rule same_authentic [OF abort_and_fail_same [OF ok]])
    then show ?case using commit [OF m [THEN conjunct1]] by (simp add: io_relD)
  qed
qed

lemma put_streaming_auth:
  assumes ok: "s3_ok st obj prt" and d: "digest_wf d"
  shows "io_rel (writes_authentic (bs_sha_hex st) obj) (put_streaming st d cs)"
proof -
  let ?R = "writes_authentic (bs_sha_hex st) obj" and ?k = "key_of d"
  let ?commit = "\<lambda>u m'. io_match (s3_complete_multipart st ?k u (mu_parts m')) (\<lambda>r.
    case r of Inl e \<Rightarrow> abort_and_fail st ?k (Some u) (S3 e) | Inr _ \<Rightarrow> io_return ())"
  have abort: "io_rel ?R (abort_and_fail st ?k u e :: ('a, unit) io)" for u e
    by (rule same_authentic [OF abort_and_fail_same [OF ok]])
  have commit: "?R w (snd (?commit u m w))"
    if m: "staged prt ?k w m" "mu_upload_id m = Some u" "mu_buffer m = []" "authentic (bs_sha_hex st) ?k (mu_hashed m)" for w m u
  proof -
    obtain r w1 where r: "s3_complete_multipart st ?k u (mu_parts m) w = (r, w1)" by fastforce
    from complete_staged [OF ok m(1-3) r] m(4) have "?R w w1" unfolding writes_authentic_def by (metis option.inject)
    with r io_relD [OF abort, of w1] show ?thesis by (cases r) (auto simp: io_match_def intro: auth.trans)
  qed
  have finish: "?R w (snd (io_bind (if mu_buffer m \<noteq> [] \<or> mu_parts m = [] then stream_part st ?k u m (mu_buffer m) else io_return m) (?commit u) w))"
    if m: "staged prt ?k w m" "mu_upload_id m = Some u" "authentic (bs_sha_hex st) ?k (mu_hashed m)" for w m u
  proof (cases "mu_buffer m \<noteq> [] \<or> mu_parts m = []")
    case True
    obtain r w1 where r: "stream_part st ?k u m (mu_buffer m) w = (r, w1)" by fastforce
    have same: "?R w w1" using r same_authentic [OF stream_part_same [OF ok]] by (metis io_rel_def snd_conv)
    show ?thesis
    proof (cases r)
      case (Inr m')
      with r have part: "stream_part st ?k u m (take (length (mu_buffer m)) (mu_buffer m)) w = (Ok m', w1)" by simp
      have "mu_buffer m' = []" using stream_part_shrinks [OF part] by simp
      with commit [of w1 m' u] stream_part_staged [OF ok m(1,2) part] m(3) same r Inr True show ?thesis
        by (auto simp: io_bind_def intro: auth.trans)
    qed (use True r same in \<open>auto simp: io_bind_def\<close>)
  qed (use commit [OF m(1,2) _ m(3)] in simp)
  have main: "?R w' (snd ((let actual_digest = digest_sha256 (bs_sha_hex st) (mu_hashed m) in
      if digest_to_string actual_digest \<noteq> digest_to_string d then abort_and_fail st ?k (Some u) (digest_mismatch d actual_digest)
      else io_bind (if mu_buffer m \<noteq> [] \<or> mu_parts m = [] then stream_part st ?k u m (mu_buffer m) else io_return m) (?commit u)) w'))"
    if run: "stream_chunks st ?k u cs (no_multipart\<lparr>mu_upload_id := Some u\<rparr>) w = (Ok m, w')" for u m w w'
  proof -
    have "mu_upload_id (no_multipart\<lparr>mu_upload_id := Some u\<rparr>) = Some u" by simp
    note m = stream_chunks_staged [OF ok staged_no_multipart(2) this run]
    show ?thesis
    proof (cases "digest_to_string (digest_sha256 (bs_sha_hex st) (mu_hashed m)) = digest_to_string d")
      case True
      then have "authentic (bs_sha_hex st) ?k (mu_hashed m)"
        using s3_okD(7) [OF ok] d by (metis authentic_key_of digest_sha256_wf digest_to_string_inj)
      from finish [OF m [THEN conjunct1] m [THEN conjunct2, THEN conjunct1] this] True show ?thesis by (simp only: Let_def if_False simp_thms)
    qed (simp add: Let_def io_relD [OF abort])
  qed
  show ?thesis
    unfolding put_streaming_def Let_def [of ?k]
    by (rule auth.rel_bind [OF same_authentic [OF ensure_upload_id_same [OF ok]]],
      rule auth_bindI [OF same_authentic [OF stream_chunks_same [OF ok]]], rule main)
qed

lemma start_upload_auth: "s3_ok st obj prt \<Longrightarrow> io_rel (writes_authentic sha obj) (start_upload st sid)"
  unfolding start_upload_def by (rule write_upload_state_auth)

lemma push_chunk_auth:
  assumes ok: "s3_ok st obj prt"
  shows "io_rel (writes_authentic sha obj) (push_chunk st sid data)"
  unfolding push_chunk_def
  by (intro auth.rel_bind same_authentic [OF require_upload_state_same [OF ok]])
    (auto intro!: auth.rels auth_s3_call s3_auth [OF ok] write_upload_state_auth [OF ok])

lemma delete_upload_auth:
  assumes ok: "s3_ok st obj prt"
  shows "io_rel (writes_authentic sha obj) (delete_upload st sid)"
  unfolding delete_upload_def
  by (intro auth.rel_bind same_authentic [OF read_upload_state_same [OF ok]])
    (auto intro!: auth.rels auth_s3_call s3_auth [OF ok] delete_staged_upload_auth [OF ok] split: option.splits)

text \<open>The operations of the store that write, in any order and whatever they return.\<close>

datatype blob_op =
    OpStart string | OpPush string string | OpComplete string digest | OpDelete string
  | OpStream digest "(string, msg) result list"

definition run_blob_op :: "'w object_store \<Rightarrow> blob_op \<Rightarrow> 'w \<Rightarrow> 'w" where
  "run_blob_op st op w =
     (case op of
        OpStart sid \<Rightarrow> snd (start_upload st sid w)
      | OpPush sid data \<Rightarrow> snd (push_chunk st sid data w)
      | OpComplete sid d \<Rightarrow> snd (complete_upload st sid d w)
      | OpDelete sid \<Rightarrow> snd (delete_upload st sid w)
      | OpStream d cs \<Rightarrow> snd (put_streaming st d cs w))"

fun blob_op_wf :: "blob_op \<Rightarrow> bool" where
  "blob_op_wf (OpComplete sid d) = digest_wf d"
| "blob_op_wf (OpStream d cs) = digest_wf d"
| "blob_op_wf op = True"

lemma run_blob_op_auth:
  assumes "s3_ok st obj prt" and "blob_op_wf op"
  shows "writes_authentic (bs_sha_hex st) obj w (run_blob_op st op w)"
  using assms
  by (cases op) (simp_all add: run_blob_op_def io_relD start_upload_auth push_chunk_auth complete_upload_auth
      delete_upload_auth put_streaming_auth)

lemma run_blob_ops_auth:
  assumes "s3_ok st obj prt" and "list_all blob_op_wf ops"
  shows "writes_authentic (bs_sha_hex st) obj w (fold (run_blob_op st) ops w)"
  using assms(2)
proof (induction ops arbitrary: w)
  case (Cons op ops)
  then show ?case using run_blob_op_auth [OF assms(1)] by (auto intro: auth.trans)
qed (simp add: auth.refl)

lemma blob_get_Ok:
  assumes "s3_ok st obj prt" and "blob_get st d w = (Ok (Ok b), w')"
  shows "obj w (key_of d) = Some b"
proof -
  from assms(2) have "s3_get st (key_of d) None w = (Ok (Ok b), w')"
    by (auto simp: blob_get_def get_blob_object_def io_match_sum split: get_object_error.splits) (metis get_object_error.exhaust)
  then show ?thesis using s3_okD(3) [OF assms(1)] unfolding get_law_def by blast
qed

section \<open>Uploads in chunks\<close>

text \<open>The object store holds an upload session that was given these chunks, none of them empty.\<close>

definition session_part :: "string \<Rightarrow> string list \<Rightarrow> nat \<Rightarrow> staged_upload_part" where
  "session_part sid cs i =
     \<lparr>sup_number = of_nat (Suc i), sup_key = upload_part_key sid (of_nat (Suc i)), sup_size = of_nat (length (cs ! i))\<rparr>"

definition session_state :: "string \<Rightarrow> string list \<Rightarrow> staged_upload_state" where
  "session_state sid cs =
     \<lparr>sus_parts = map (session_part sid cs) [0..<length cs], sus_next_part_number = of_nat (Suc (length cs)),
      sus_total_bytes = of_nat (length (concat cs))\<rparr>"

definition session_holds :: "'w object_store \<Rightarrow> 'w objects \<Rightarrow> 'w \<Rightarrow> string \<Rightarrow> string list \<Rightarrow> bool" where
  "session_holds st obj w sid cs \<longleftrightarrow>
     (\<exists>bytes. obj w (upload_state_key sid) = Some bytes \<and> bs_decode_state st bytes = Ok (session_state sid cs)) \<and>
     (\<forall>i < length cs. obj w (upload_part_key sid (of_nat (Suc i))) = Some (cs ! i))"

lemma upload_part_key_inject: "upload_part_key sid m = upload_part_key sid n \<longleftrightarrow> m = n"
  by (simp add: upload_part_key_def show_i32_020_inject)

lemma upload_part_not_state [simp]: "upload_part_key sid n \<noteq> upload_state_key sid'" "upload_state_key sid' \<noteq> upload_part_key sid n"
proof -
  obtain pre m where "show_i32_020 n = pre @ show_nat m"
    by (metis show_i32_020_def pad_zeros_def append.assoc)
  moreover have "last (show_nat m) \<noteq> CHR ''n''"
    using show_nat_digits [OF last_in_set [OF show_nat_not_Nil], of m] by (auto simp: is_ascii_digit_def byte_def)
  ultimately have "last (upload_part_key sid n) \<noteq> CHR ''n''" by (simp add: upload_part_key_def)
  moreover have "last (upload_state_key sid') = CHR ''n''" by (simp add: upload_state_key_def)
  ultimately show "upload_part_key sid n \<noteq> upload_state_key sid'" "upload_state_key sid' \<noteq> upload_part_key sid n" by metis+
qed

lemma write_upload_state_Ok:
  assumes ok: "s3_ok st obj prt" and "write_upload_state st sid s w = (Ok u, w')"
  shows "\<exists>bytes. obj w' (upload_state_key sid) = Some bytes \<and> bs_decode_state st bytes = Ok s"
    and "k \<noteq> upload_state_key sid \<Longrightarrow> obj w' k = obj w k"
proof -
  from assms(2) obtain bytes where enc: "bs_encode_state st s = Ok bytes" and put: "s3_put st (upload_state_key sid) bytes w = (Ok u, w')"
    by (auto simp: write_upload_state_def split: sum.splits)
  from put s3_okD(1) [OF ok] have "obj w' (upload_state_key sid) = Some bytes" and "k \<noteq> upload_state_key sid \<Longrightarrow> obj w' k = obj w k"
    unfolding put_law_def by (metis is_ok_simps(1))+
  with s3_okD(8) [OF ok enc] show "\<exists>bytes. obj w' (upload_state_key sid) = Some bytes \<and> bs_decode_state st bytes = Ok s"
    and "k \<noteq> upload_state_key sid \<Longrightarrow> obj w' k = obj w k" by blast+
qed

lemma start_upload_session:
  assumes "s3_ok st obj prt" and "start_upload st sid w = (Ok u, w')"
  shows "session_holds st obj w' sid []"
proof -
  have "session_state sid [] = empty_upload" by (simp add: session_state_def empty_upload_def)
  then show ?thesis using write_upload_state_Ok(1) [OF assms(1)] assms(2) by (simp add: session_holds_def start_upload_def)
qed

lemma require_upload_state_session:
  assumes ok: "s3_ok st obj prt" and "session_holds st obj w sid cs" and "require_upload_state st sid w = (Ok s, w')"
  shows "s = session_state sid cs" and "obj w' = obj w"
proof -
  from assms(3) obtain bytes where get: "s3_get st (upload_state_key sid) None w = (Ok (Ok bytes), w')" and dec: "bs_decode_state st bytes = Ok s"
    by (auto simp: require_upload_state_def read_upload_state_def io_bind_eq_Ok io_match_get split: sum.splits option.splits) (metis sum.exhaust)
  from get s3_okD(3) [OF ok] have "obj w (upload_state_key sid) = Some bytes" "obj w' = obj w" unfolding get_law_def by blast+
  with dec assms(2) show "s = session_state sid cs" "obj w' = obj w" by (auto simp: session_holds_def)
qed

lemma add_part_session: "add_part sid data (session_state sid cs) = session_state sid (cs @ [data])"
  by (auto simp: add_part_def session_state_def session_part_def Let_def nth_append)

lemma push_chunk_session:
  assumes ok: "s3_ok st obj prt" and holds: "session_holds st obj w sid cs" and len: "length cs < 2 ^ 31 - 1"
    and push: "push_chunk st sid data w = (Ok n, w')"
  shows "session_holds st obj w' sid (if data = [] then cs else cs @ [data])" and "n = of_nat (length (concat cs @ data))"
proof -
  from push obtain s w1 where s: "require_upload_state st sid w = (Ok s, w1)"
    by (auto simp: push_chunk_def io_bind_eq_Ok)
  note s' = require_upload_state_session [OF ok holds s]
  have "session_holds st obj w' sid (if data = [] then cs else cs @ [data]) \<and> n = of_nat (length (concat cs @ data))"
  proof (cases "data = []")
    case True
    with push s s' holds show ?thesis by (simp add: push_chunk_def io_bind_def session_holds_def session_state_def)
  next
    case False
    let ?s = "session_state sid (cs @ [data])" and ?k = "upload_part_key sid (of_nat (Suc (length cs)))"
    from push s s' False obtain w2 where put: "s3_put st ?k data w1 = (Ok (), w2)"
      and state: "write_upload_state st sid ?s w2 = (Ok (), w')" and n: "n = sus_total_bytes ?s"
      by (auto simp: push_chunk_def io_bind_eq_Ok add_part_session) (auto simp: session_state_def)
    from put s3_okD(1) [OF ok] have new: "obj w2 ?k = Some data" "\<And>k. k \<noteq> ?k \<Longrightarrow> obj w2 k = obj w1 k"
      unfolding put_law_def by (metis is_ok_simps(1))+
    have "obj w' (upload_part_key sid (of_nat (Suc i))) = Some ((cs @ [data]) ! i)" if i: "i < Suc (length cs)" for i
    proof -
      have "upload_part_key sid (of_nat (Suc i)) = ?k \<longleftrightarrow> i = length cs"
        using i len unfolding upload_part_key_inject by (subst of_nat_i32_inject) auto
      with i holds new s'(2) show ?thesis
        by (cases "i = length cs") (auto simp: write_upload_state_Ok(2) [OF ok state] session_holds_def nth_append simp del: of_nat_Suc)
    qed
    with write_upload_state_Ok(1) [OF ok state] n show ?thesis using False
      by (simp add: session_holds_def session_state_def [of sid "cs @ [data]"])
  qed
  then show "session_holds st obj w' sid (if data = [] then cs else cs @ [data])" and "n = of_nat (length (concat cs @ data))" by blast+
qed

text \<open>The client's side of an upload: the chunks one after the other, until one fails.\<close>

definition push_chunks :: "'w object_store \<Rightarrow> string \<Rightarrow> string list \<Rightarrow> ('w, unit) io" where
  "push_chunks st sid cs = io_for cs (\<lambda>c. io_bind (push_chunk st sid c) (\<lambda>_. io_return ()))"

lemma push_chunks_session:
  assumes ok: "s3_ok st obj prt" and "session_holds st obj w sid cs0" and "length cs0 + length cs < 2 ^ 31"
    and "push_chunks st sid cs w = (Ok (), w')"
  shows "session_holds st obj w' sid (cs0 @ filter (\<lambda>c. c \<noteq> []) cs)"
  using assms(2-4) unfolding push_chunks_def
proof (induction cs arbitrary: w cs0)
  case (Cons c cs)
  from Cons.prems(3) obtain u w1 where first: "io_bind (push_chunk st sid c) (\<lambda>_. io_return ()) w = (Ok u, w1)"
    and rest: "io_for cs (\<lambda>c. io_bind (push_chunk st sid c) (\<lambda>_. io_return ())) w1 = (Ok (), w')"
    unfolding io_for.simps by (rule io_bindE)
  from first obtain n where push: "push_chunk st sid c w = (Ok n, w1)" by (auto simp: io_bind_eq_Ok)
  have "length cs0 < 2 ^ 31 - 1" using Cons.prems(2) by simp
  from push_chunk_session(1) [OF ok Cons.prems(1) this push] Cons.IH [OF _ _ rest] Cons.prems(2) show ?case
    by (cases "c = []") fastforce+
qed simp

lemma session_sorted:
  assumes "length cs < 2 ^ 31 - 1"
  shows "sort_key (\<lambda>part. sint (sup_number part)) (sus_parts (session_state sid cs)) = sus_parts (session_state sid cs)"
proof (rule sort_key_id_if_sorted)
  have "map (\<lambda>part. sint (sup_number part)) (sus_parts (session_state sid cs)) = map (\<lambda>i. int (Suc i)) [0..<length cs]"
    using assms by (auto simp: session_state_def session_part_def sint_of_nat_i32 simp del: of_nat_Suc)
  then show "sorted (map (\<lambda>part. sint (sup_number part)) (sus_parts (session_state sid cs)))"
    by (simp add: sorted_iff_nth_mono)
qed

lemma session_content:
  assumes "session_holds st obj w sid cs"
  shows "concat (map (\<lambda>p. the (obj w (sup_key p))) (sus_parts (session_state sid cs))) = concat cs"
proof -
  have "map (\<lambda>p. the (obj w (sup_key p))) (sus_parts (session_state sid cs)) = map ((!) cs) [0..<length cs]"
    using assms by (auto simp: session_holds_def session_state_def session_part_def simp del: of_nat_Suc)
  then show ?thesis by (simp add: map_nth)
qed

lemma s3_delete_Ok:
  assumes "s3_ok st obj prt" and "s3_delete st k w = (r, w')"
  shows "k' \<noteq> k \<Longrightarrow> obj w' k' = obj w k'" and "is_ok r \<Longrightarrow> obj w' k = None"
  using s3_okD(2) [OF assms(1)] assms(2) unfolding delete_law_def by metis+

lemma delete_parts_effect:
  assumes ok: "s3_ok st obj prt" and "io_for ps (\<lambda>part. s3_call (s3_delete st (sup_key part))) w = (r, w')"
  shows "(\<forall>k. k \<notin> sup_key ` set ps \<longrightarrow> obj w' k = obj w k) \<and> (\<forall>k. obj w k = None \<longrightarrow> obj w' k = None) \<and>
    (is_ok r \<longrightarrow> (\<forall>p \<in> set ps. obj w' (sup_key p) = None))"
  using assms(2)
proof (induction ps arbitrary: w)
  case (Cons p ps)
  obtain r1 w1 where del: "s3_delete st (sup_key p) w = (r1, w1)" by fastforce
  note d = s3_delete_Ok [OF ok del]
  have gone: "obj w k = None \<longrightarrow> obj w1 k = None" for k
    using s3_okD(2) [OF ok] del unfolding delete_law_def by metis
  show ?case
  proof (cases r1)
    case (Inl e)
    with Cons.prems del have "w' = w1" "\<not> is_ok r" by (auto simp: s3_call_result io_bind_def)
    with d(1) gone show ?thesis by auto
  next
    case (Inr u)
    with Cons.prems del have "io_for ps (\<lambda>part. s3_call (s3_delete st (sup_key part))) w1 = (r, w')"
      by (auto simp: s3_call_result io_bind_def)
    from Cons.IH [OF this] d gone Inr show ?thesis by auto
  qed
qed simp

text \<open>
  Completing: a digest that does not match is an error without effect; otherwise the blob is the
  concatenation, or untouched when an error is returned; on success the session is gone.
\<close>

lemma complete_upload_session:
  assumes ok: "s3_ok st obj prt" and holds: "session_holds st obj w sid cs" and len: "length cs < 2 ^ 31 - 1"
    and d: "digest_wf d" and run: "complete_upload st sid d w = (r, w')"
  shows "digest_sha256 (bs_sha_hex st) (concat cs) \<noteq> d \<Longrightarrow> \<not> is_ok r \<and> obj w' = obj w"
    and "obj w' (key_of d) = Some (concat cs) \<or> obj w' (key_of d) = obj w (key_of d) \<and> \<not> is_ok r"
    and "is_ok r \<Longrightarrow> obj w' (upload_state_key sid) = None \<and> (\<forall>i < length cs. obj w' (upload_part_key sid (of_nat (Suc i))) = None)"
    and "k \<noteq> key_of d \<Longrightarrow> k \<noteq> upload_state_key sid \<Longrightarrow> k \<notin> sup_key ` set (sus_parts (session_state sid cs)) \<Longrightarrow> obj w' k = obj w k"
proof -
  let ?S = "session_state sid cs" and ?k = "key_of d" and ?sk = "upload_state_key sid"
  let ?match = "digest_sha256 (bs_sha_hex st) (concat cs) = d"
  let ?pks = "sup_key ` set (sus_parts ?S)"
  have pks: "?pks = (\<lambda>i. upload_part_key sid (of_nat (Suc i))) ` {..<length cs}"
    by (auto simp: session_state_def session_part_def image_image lessThan_atLeast0 simp del: of_nat_Suc)
  have uk: "?k \<noteq> ?sk" "?k \<notin> ?pks"
    using key_of_wf(3) [OF d] unfolding pks by (metis upload_keys(1), metis (no_types, lifting) imageE upload_keys(2))
  have sk: "?sk \<notin> ?pks" unfolding pks by auto
  have "\<not> is_ok r \<and> obj w' = obj w \<or>
    ?match \<and> (obj w' ?k = Some (concat cs) \<or> obj w' ?k = obj w ?k \<and> \<not> is_ok r) \<and>
      (is_ok r \<longrightarrow> obj w' ?sk = None \<and> (\<forall>k \<in> ?pks. obj w' k = None)) \<and>
      (\<forall>k. k \<noteq> ?k \<and> k \<noteq> ?sk \<and> k \<notin> ?pks \<longrightarrow> obj w' k = obj w k)"
  proof -
    obtain r0 w0 where r0: "require_upload_state st sid w = (r0, w0)" by fastforce
    note w0 = same_objectsD [OF require_upload_state_same [OF ok] r0]
    show ?thesis
    proof (cases r0)
      case (Inl e)
      with r0 run w0 show ?thesis by (auto simp: complete_upload_def io_bind_def)
    next
      case (Inr s)
      with require_upload_state_session [OF ok holds] r0 have s: "s = ?S" by blast
      have S: "?S\<lparr>sus_parts := sus_parts ?S\<rparr> = ?S" by simp
      have tail: "io_bind (assemble st ?k (sus_parts ?S) no_multipart) (\<lambda>m.
          let actual_digest = digest_sha256 (bs_sha_hex st) (mu_hashed m) in
          if digest_to_string actual_digest \<noteq> digest_to_string d
          then abort_and_fail st ?k (mu_upload_id m) (digest_mismatch d actual_digest)
          else io_bind (finish_multipart st ?k m) (\<lambda>_. io_bind (s3_call (s3_delete st ?sk)) (\<lambda>_. delete_staged_upload st ?S))) w0 = (r, w')"
        using run r0 by (simp add: complete_upload_def io_bind_def [of "require_upload_state _ _"] Inr s Let_def session_sorted [OF len, of sid] cong: if_cong)
      obtain ra w1 where ra: "assemble st ?k (sus_parts ?S) no_multipart w0 = (ra, w1)" by fastforce
      note w1 = same_objectsD [OF assemble_same [OF ok] ra]
      show ?thesis
      proof (cases ra)
        case (Inl e)
        with ra tail w0 w1 show ?thesis by (auto simp: io_bind_def)
      next
        case (Inr m)
        with ra have ra: "assemble st ?k (sus_parts ?S) no_multipart w0 = (Ok m, w1)" by simp
        note m = assemble_staged [OF ok staged_no_multipart(1) ra]
        have hashed: "mu_hashed m = concat cs" using m session_content [OF holds] w0 by (simp add: no_multipart_def)
        have dig: "digest_to_string (digest_sha256 (bs_sha_hex st) (mu_hashed m)) = digest_to_string d \<longleftrightarrow> ?match"
          using d s3_okD(7) [OF ok] by (simp add: hashed digest_to_string_inj digest_sha256_wf)
        show ?thesis
        proof (cases ?match)
          case False
          with tail ra dig have "abort_and_fail st ?k (mu_upload_id m) (digest_mismatch d (digest_sha256 (bs_sha_hex st) (mu_hashed m))) w1 = (r, w')"
            by (simp add: io_bind_def Let_def)
          moreover from this have "\<not> is_ok r" by (metis is_ok_iff abort_and_fail_not_Ok)
          ultimately show ?thesis using same_objectsD [OF abort_and_fail_same [OF ok]] w0 w1 by metis
        next
          case True
          with tail ra dig have tail: "io_bind (finish_multipart st ?k m) (\<lambda>_. io_bind (s3_call (s3_delete st ?sk)) (\<lambda>_. delete_staged_upload st ?S)) w1 = (r, w')"
            by (simp add: io_bind_def [of "assemble _ _ _ _"] Let_def)
          obtain rf w2 where rf: "finish_multipart st ?k m w1 = (rf, w2)" by fastforce
          note fin = finish_multipart_effect [OF ok m [THEN conjunct1] rf, unfolded hashed w1 w0]
          show ?thesis
          proof (cases rf)
            case (Inl e)
            with tail rf have "r = Err e" "w' = w2" by (auto simp: io_bind_def)
            with fin Inl True show ?thesis by auto
          next
            case (Inr u)
            with tail rf have tail: "io_bind (s3_call (s3_delete st ?sk)) (\<lambda>_. delete_staged_upload st ?S) w2 = (r, w')"
              by (simp add: io_bind_def)
            obtain rd w3 where rd: "s3_delete st ?sk w2 = (rd, w3)" by fastforce
            note del = s3_delete_Ok [OF ok rd]
            show ?thesis
            proof (cases rd)
              case (Inl e)
              with tail rd have "\<not> is_ok r" "w' = w3" by (auto simp: io_bind_def s3_call_def io_match_def)
              with fin Inr del True uk show ?thesis by auto
            next
              case ok_del: (Inr u')
              with tail rd have "delete_staged_upload st ?S w3 = (r, w')" by (auto simp: io_bind_def s3_call_def io_match_def)
              from delete_parts_effect [OF ok this [unfolded delete_staged_upload_def]] fin Inr del ok_del True uk sk
              show ?thesis by auto
            qed
          qed
        qed
      qed
    qed
  qed
  note outcome = this
  from outcome show "digest_sha256 (bs_sha_hex st) (concat cs) \<noteq> d \<Longrightarrow> \<not> is_ok r \<and> obj w' = obj w" by blast
  from outcome show "obj w' ?k = Some (concat cs) \<or> obj w' ?k = obj w ?k \<and> \<not> is_ok r" by fastforce
  from outcome show "is_ok r \<Longrightarrow> obj w' ?sk = None \<and> (\<forall>i < length cs. obj w' (upload_part_key sid (of_nat (Suc i))) = None)"
    unfolding pks by blast
  from outcome show "k \<noteq> ?k \<Longrightarrow> k \<noteq> ?sk \<Longrightarrow> k \<notin> ?pks \<Longrightarrow> obj w' k = obj w k" by metis
qed

end
