(* ===== verification/Worlds.thy ===== *)
theory Worlds
  imports Scenario Metadata_Store Blob_Integrity
begin

text \<open>
  Concrete services for the properties to be exercised on: a cluster of one node that appends to its log
  and applies it, an object store in memory, and the two side by side.
\<close>

section \<open>A cluster of one node\<close>

type_synonym local_log = "(u64 \<times> log_entry) list"

definition local_entry :: "request \<Rightarrow> local_log \<Rightarrow> u64 \<times> log_entry" where
  "local_entry req l = sc_entry (of_nat (Suc (length l))) req"

definition local_write :: "request \<Rightarrow> local_log \<Rightarrow> (response, client_write_error) result \<times> local_log" where
  "local_write req l =
     (case apply_entries sc_env empty_state (l @ [local_entry req l]) of
        None \<Rightarrow> (Err (WriteError [Lit ''state machine failed'']), l)
      | Some (data, rs) \<Rightarrow> (Ok (last rs), l @ [local_entry req l]))"

definition local_node :: "local_log raft_node" where
  "local_node =
     \<lparr>rn_client_write = local_write, rn_send_write = \<lambda>addr req l. (Err [Lit ''no such node''], l),
      rn_state = \<lambda>l. (case apply_entries sc_env empty_state l of None \<Rightarrow> empty_state | Some (data, rs) \<Rightarrow> data),
      rn_now = \<lambda>l. 100, rn_uuid = \<lambda>l. (''id'', l), rn_env = sc_env, rn_debug = \<lambda>r. ''response''\<rparr>"

lemma local_raft_ok: "raft_ok local_node (\<lambda>l. l)"
proof -
  have "answers_entry sc_env (\<lambda>l. l) req l resp l'" if wr: "local_write req l = (Ok resp, l')" for req l resp l'
  proof -
    from wr obtain data rs where run: "apply_entries sc_env empty_state (l @ [local_entry req l]) = Some (data, rs)"
      and r: "resp = last rs" "l' = l @ [local_entry req l]"
      by (auto simp: local_write_def split: option.splits prod.splits)
    from run [unfolded apply_entries_snoc] obtain data0 rs0 r0 where "apply_entries sc_env empty_state l = Some (data0, rs0)"
      "entry_step sc_env data0 (local_entry req l) = Some (data, r0)" "rs = rs0 @ [r0]" by blast
    with r show ?thesis
      unfolding answers_entry_def by (auto simp: local_entry_def sc_entry_def intro!: exI [of _ "[]"])
  qed
  moreover have "log_extends (\<lambda>l. l) l (snd (local_write req l))" for req l
    by (auto simp: log_extends_def local_write_def split: option.splits)
  moreover have "\<exists>n rs. apply_entries sc_env empty_state (take n l) =
      Some (case apply_entries sc_env empty_state l of None \<Rightarrow> empty_state | Some (data, rs) \<Rightarrow> data, rs)" for l
  proof (cases "apply_entries sc_env empty_state l")
    case None
    then show ?thesis by (intro exI [of _ 0]) simp
  next
    case (Some p)
    then show ?thesis by (intro exI [of _ "length l"]) (cases p; simp)
  qed
  ultimately show ?thesis
    unfolding raft_ok_def by (simp add: local_node_def log_extends_def)
qed

section \<open>An object store in memory\<close>

record mem_world =
  mw_objects :: "string \<Rightarrow> string option"
  mw_parts :: "string \<Rightarrow> string \<Rightarrow> i32 \<Rightarrow> string option"

definition mem_codec :: "(string \<times> staged_upload_state) list" where
  "mem_codec = [(''0'', session_state ''s'' []), (''1'', session_state ''s'' [''ab'']), (''2'', session_state ''s'' [''ab'', ''c''])]"

definition mem_store :: "mem_world object_store" where
  "mem_store =
     \<lparr>s3_put = \<lambda>k b w. (Ok (), w\<lparr>mw_objects := (mw_objects w)(k \<mapsto> b)\<rparr>),
      s3_get = \<lambda>k rng w. (case mw_objects w k of None \<Rightarrow> Err (NoSuchKey []) | Some b \<Rightarrow> Ok (Ok b), w),
      s3_head = \<lambda>k w. (case mw_objects w k of None \<Rightarrow> Err (HeadNotFound []) | Some b \<Rightarrow> Ok (Some (of_nat (length b))), w),
      s3_head_bucket = \<lambda>w. (Ok (), w),
      s3_delete = \<lambda>k w. (Ok (), w\<lparr>mw_objects := (mw_objects w)(k := None)\<rparr>),
      s3_create_multipart = \<lambda>k w. (Ok (Some ''u''), w),
      s3_upload_part = \<lambda>k u n b w.
        (if 1 \<le> sint n \<and> sint n \<le> 10000 then (Ok (Some ''tag''), w\<lparr>mw_parts := (mw_parts w)(k := (mw_parts w k)(u := (mw_parts w k u)(n \<mapsto> b)))\<rparr>)
         else (Err [Lit ''InvalidPartNumber''], w)),
      s3_complete_multipart = \<lambda>k u ps w. (Ok (), w\<lparr>mw_objects := (mw_objects w)(k \<mapsto> listed_content (mw_parts w k u) ps)\<rparr>),
      s3_abort_multipart = \<lambda>k u w. (Ok (), w),
      s3_presign = \<lambda>k e w. (Ok (''https://s3/'' @ k), w),
      bs_redirect_enabled = False, bs_presign_expires_secs = 300,
      bs_encode_state = \<lambda>s. (case List.find (\<lambda>p. snd p = s) mem_codec of None \<Rightarrow> Err [] | Some p \<Rightarrow> Ok (fst p)),
      bs_decode_state = \<lambda>b. (case List.find (\<lambda>p. fst p = b) mem_codec of None \<Rightarrow> Err [] | Some p \<Rightarrow> Ok (snd p)),
      bs_sha_hex = \<lambda>b. replicate 64 (CHR ''0'')\<rparr>"

lemma mem_store_ok: "s3_ok mem_store mw_objects mw_parts"
proof -
  have "put_law mem_store mw_objects mw_parts" "delete_law mem_store mw_objects mw_parts"
    "get_law mem_store mw_objects mw_parts" "head_law mem_store mw_objects mw_parts" "presign_law mem_store mw_objects mw_parts"
    by (auto simp: s3_laws mem_store_def split: option.splits)
  moreover have "multipart_law mem_store mw_objects mw_parts"
    unfolding multipart_law_def by (auto simp: mem_store_def split: if_splits)
  moreover have "sha_hex_ok (bs_sha_hex mem_store)"
    by (simp add: mem_store_def sha_hex_ok_def list_all_iff byte_class_defs byte_def)
  moreover have "bs_encode_state mem_store s = Ok b \<longrightarrow> bs_decode_state mem_store b = Ok s" for s b
    by (auto simp: mem_store_def mem_codec_def split: if_splits)
  ultimately show ?thesis by (simp add: s3_ok_def)
qed

definition mem_empty :: mem_world where
  "mem_empty = \<lparr>mw_objects = Map.empty, mw_parts = \<lambda>k u n. None\<rparr>"

definition zero_digest :: digest where
  "zero_digest = \<lparr>algorithm = ''sha256'', hex = replicate 64 (CHR ''0'')\<rparr>"

lemma zero_digest_wf: "digest_wf zero_digest" by code_simp

text \<open>The upload of two chunks, step by step.\<close>

definition mem_with :: "(string \<times> string) list \<Rightarrow> mem_world" where
  "mem_with objs = mem_empty\<lparr>mw_objects := map_of objs\<rparr>"

lemmas mem_eval = mem_store_def mem_with_def mem_empty_def mem_codec_def s3_call_def io_match_def io_bind_def write_upload_state_def
  require_upload_state_def read_upload_state_def empty_upload_def session_state_def session_part_def add_part_def

lemma mem_start: "start_upload mem_store ''s'' mem_empty = (Ok (), mem_with [(upload_state_key ''s'', ''0'')])"
  by (simp add: start_upload_def mem_eval)

lemma mem_push1: "push_chunk mem_store ''s'' ''ab'' (mem_with [(upload_state_key ''s'', ''0'')]) =
  (Ok 2, mem_with [(upload_state_key ''s'', ''1''), (upload_part_key ''s'' 1, ''ab'')])"
  by (auto simp: push_chunk_def mem_eval fun_eq_iff)

lemma mem_push2: "push_chunk mem_store ''s'' ''c'' (mem_with [(upload_state_key ''s'', ''1''), (upload_part_key ''s'' 1, ''ab'')]) =
  (Ok 3, mem_with [(upload_state_key ''s'', ''2''), (upload_part_key ''s'' 2, ''c''), (upload_part_key ''s'' 1, ''ab'')])"
  by (auto simp: push_chunk_def mem_eval fun_eq_iff)

lemma mem_complete: "complete_upload mem_store ''s'' zero_digest
    (mem_with [(upload_state_key ''s'', ''2''), (upload_part_key ''s'' 2, ''c''), (upload_part_key ''s'' 1, ''ab'')]) =
  (Ok (), mem_with [(key_of zero_digest, ''abc'')])"
proof -
  have digest: "digest_to_string (digest_sha256 (\<lambda>b. replicate 64 (CHR ''0'')) b) = digest_to_string zero_digest" for b
    by (simp add: zero_digest_def digest_sha256_def)
  have keys: "key_of zero_digest \<noteq> upload_state_key k" "key_of zero_digest \<noteq> upload_part_key k n" for k n
    using key_of_wf(3) [OF zero_digest_wf] by (metis upload_keys)+
  show ?thesis
    by (auto simp: complete_upload_def mem_eval digest keys keys [symmetric] upload_part_key_inject read_part_def flush_full.simps
        feed_def no_multipart_def MIN_PART_SIZE_def finish_multipart_def delete_staged_upload_def fun_eq_iff Let_def)
qed

section \<open>Both in one world\<close>

definition on_fst :: "('a \<Rightarrow> 'r \<times> 'a) \<Rightarrow> 'a \<times> 'b \<Rightarrow> 'r \<times> 'a \<times> 'b" where
  "on_fst call w = (fst (call (fst w)), snd (call (fst w)), snd w)"

definition on_snd :: "('b \<Rightarrow> 'r \<times> 'b) \<Rightarrow> 'a \<times> 'b \<Rightarrow> 'r \<times> 'a \<times> 'b" where
  "on_snd call w = (fst (call (snd w)), fst w, snd (call (snd w)))"

lemma on_fst_eq: "on_fst call w = (r, w') \<longleftrightarrow> call (fst w) = (r, fst w') \<and> snd w' = snd w"
  by (auto simp: on_fst_def prod_eq_iff)

lemma on_snd_eq: "on_snd call w = (r, w') \<longleftrightarrow> call (snd w) = (r, snd w') \<and> fst w' = fst w"
  by (auto simp: on_snd_def prod_eq_iff)

definition node_on_fst :: "'a raft_node \<Rightarrow> ('a \<times> 'b) raft_node" where
  "node_on_fst node =
     \<lparr>rn_client_write = \<lambda>req. on_fst (rn_client_write node req), rn_send_write = \<lambda>addr req. on_fst (rn_send_write node addr req),
      rn_state = \<lambda>w. rn_state node (fst w), rn_now = \<lambda>w. rn_now node (fst w), rn_uuid = on_fst (rn_uuid node),
      rn_env = rn_env node, rn_debug = rn_debug node\<rparr>"

lemma node_on_fst_ok:
  assumes "raft_ok node log"
  shows "raft_ok (node_on_fst node :: ('a \<times> 'b) raft_node) (\<lambda>w. log (fst w))"
proof -
  have lift: "answers_entry env (\<lambda>w :: 'a \<times> 'b. log (fst w)) req w resp w' \<longleftrightarrow> answers_entry env log req (fst w) resp (fst w')" for env req w resp w'
    by (simp add: answers_entry_def)
  have grows: "log_extends (\<lambda>w :: 'a \<times> 'b. log (fst w)) w w' \<longleftrightarrow> log_extends log (fst w) (fst w')" for w w'
    by (simp add: log_extends_def)
  show ?thesis
    using assms unfolding raft_ok_def lift grows
    by (simp add: node_on_fst_def on_fst_eq) (simp add: on_fst_def)
qed

definition store_on_snd :: "'b object_store \<Rightarrow> ('a \<times> 'b) object_store" where
  "store_on_snd st =
     \<lparr>s3_put = \<lambda>k b. on_snd (s3_put st k b), s3_get = \<lambda>k rng. on_snd (s3_get st k rng), s3_head = \<lambda>k. on_snd (s3_head st k),
      s3_head_bucket = on_snd (s3_head_bucket st), s3_delete = \<lambda>k. on_snd (s3_delete st k),
      s3_create_multipart = \<lambda>k. on_snd (s3_create_multipart st k),
      s3_upload_part = \<lambda>k u n b. on_snd (s3_upload_part st k u n b),
      s3_complete_multipart = \<lambda>k u ps. on_snd (s3_complete_multipart st k u ps),
      s3_abort_multipart = \<lambda>k u. on_snd (s3_abort_multipart st k u), s3_presign = \<lambda>k e. on_snd (s3_presign st k e),
      bs_redirect_enabled = bs_redirect_enabled st, bs_presign_expires_secs = bs_presign_expires_secs st,
      bs_encode_state = bs_encode_state st, bs_decode_state = bs_decode_state st, bs_sha_hex = bs_sha_hex st\<rparr>"

lemma store_on_snd_ok: "s3_ok st obj prt \<Longrightarrow> s3_ok (store_on_snd st) (\<lambda>w. obj (snd w)) (\<lambda>w. prt (snd w))"
proof -
  assume ok: "s3_ok st obj prt"
  let ?st = "store_on_snd st" and ?obj = "\<lambda>w. obj (snd w)" and ?prt = "\<lambda>w. prt (snd w)"
  note laws = s3_okD [OF ok]
  have "put_law ?st ?obj ?prt" using laws(1) unfolding put_law_def store_on_snd_def by (simp add: on_snd_eq)
  moreover have "delete_law ?st ?obj ?prt" using laws(2) unfolding delete_law_def store_on_snd_def by (simp add: on_snd_eq)
  moreover have "get_law ?st ?obj ?prt" using laws(3) unfolding get_law_def store_on_snd_def by (simp add: on_snd_eq)
  moreover have "head_law ?st ?obj ?prt" using laws(4) unfolding head_law_def store_on_snd_def by (simp add: on_snd_eq)
  moreover have "multipart_law ?st ?obj ?prt" using laws(5) unfolding multipart_law_def store_on_snd_def by (simp add: on_snd_eq)
  moreover have "presign_law ?st ?obj ?prt" using laws(6) unfolding presign_law_def store_on_snd_def by (simp add: on_snd_def)
  moreover have "sha_hex_ok (bs_sha_hex ?st)" using laws(7) by (simp add: store_on_snd_def)
  moreover have "\<forall>s b. bs_encode_state ?st s = Ok b \<longrightarrow> bs_decode_state ?st b = Ok s"
    using laws(8) by (simp add: store_on_snd_def)
  ultimately show ?thesis by (simp add: s3_ok_def)
qed

end
