(* ===== verification/Service_Properties.thy ===== *)
theory Service_Properties
  imports Worlds
begin

text \<open>
  What the service guarantees across the process boundary: writes through Raft and content in S3.
\<close>

section \<open>Writes through Raft\<close>

text \<open>
  C24: A push that was acknowledged is durable: the committed log, which only grows, has a prefix of new
  entries after which every replica finds the manifest under the pushed tag, with the pushed body and
  digest, and holds references to every blob the manifest names.
\<close>

theorem acknowledged_push_durable:
  assumes ok: "raft_ok node log" and sha: "sha_hex_ok (env_sha_hex (rn_env node))"
    and push: "rms_put_manifest_with_expected_namespace node name reference entry expected absent w = (Ok (), w')"
    and tag: "\<not> contains_char (CHR '':'') reference"
    and wf: "digest_wf (me_digest entry)" "\<forall>d \<in> set (me_referenced_blobs entry). digest_wf d"
  shows "\<exists>es later data rs e. log w' = log w @ es @ later \<and> es \<noteq> [] \<and>
    apply_entries (rn_env node) empty_state (log w @ es) = Some (data, rs) \<and>
    get_manifest data name reference = Some e \<and> get_manifest data name (digest_to_string (me_digest entry)) = Some e \<and>
    me_body e = me_body entry \<and> me_digest e = me_digest entry \<and> set (me_referenced_blobs entry) \<subseteq> set (me_referenced_blobs e)"
proof -
  from put_manifest_committed [OF ok sha push] obtain es later data rs where
    run: "log w' = log w @ es @ later" "es \<noteq> []" "apply_entries (rn_env node) empty_state (log w @ es) = Some (data, rs)"
    and found: "let e = put_manifest_entry (rn_env node) (put_request_of name reference entry expected absent) in
      get_manifest data name (digest_to_string (me_digest e)) = Some e \<and>
      (\<not> contains_char (CHR '':'') reference \<longrightarrow> get_manifest data name reference = Some e)" by blast
  with tag put_request_entry [OF wf] show ?thesis unfolding Let_def by metis
qed

theorem acknowledged_push_durable_witness:
  "\<exists>w' es later data rs e. rms_put_manifest_with_expected_namespace local_node ''alice/app'' ''v2''
      (put_manifest_entry sc_env (sc_put_request ''v2'' 1)) (Some (epoch_new ''alice'' 1)) False sc_log = (Ok (), w') \<and>
    w' = sc_log @ es @ later \<and> apply_entries sc_env empty_state (sc_log @ es) = Some (data, rs) \<and> get_manifest data ''alice/app'' ''v2'' = Some e"
proof -
  let ?e = "put_manifest_entry sc_env (sc_put_request ''v2'' 1)"
  have push: "fst (rms_put_manifest_with_expected_namespace local_node ''alice/app'' ''v2'' ?e (Some (epoch_new ''alice'' 1)) False sc_log) = Ok ()"
    by code_simp
  then obtain w' where w': "rms_put_manifest_with_expected_namespace local_node ''alice/app'' ''v2'' ?e (Some (epoch_new ''alice'' 1)) False sc_log = (Ok (), w')"
    by (metis prod.collapse)
  have "sha_hex_ok (env_sha_hex (rn_env local_node))"
    by (simp add: sha_hex_ok_def local_node_def sc_env_def list_all_iff byte_class_defs byte_def)
  moreover have "digest_wf (me_digest ?e)" "list_all digest_wf (me_referenced_blobs ?e)" by code_simp+
  moreover have "\<not> contains_char (CHR '':'') ''v2''" by (simp add: contains_char_def)
  ultimately show ?thesis
    using acknowledged_push_durable [OF local_raft_ok _ w'] w' by (simp add: local_node_def list_all_iff) blast
qed

section \<open>Content in S3\<close>

text \<open>
  C26: Content is what its digest says: after any sequence of uploads, chunks, completions, deletions and
  streamed pulls, interleaved in any way and whatever S3 answers to them, a blob that is read under a
  digest has that digest, if that was so at the start.
\<close>

theorem blob_integrity:
  assumes ok: "s3_ok st obj prt" and ops: "list_all blob_op_wf ops"
    and init: "\<And>k b. obj w k = Some b \<Longrightarrow> upload_key k \<or> authentic (bs_sha_hex st) k b"
    and d: "digest_wf d" and get: "blob_get st d (fold (run_blob_op st) ops w) = (Ok (Ok b), w')"
  shows "digest_sha256 (bs_sha_hex st) b = d"
proof -
  from blob_get_Ok [OF ok get] have "obj (fold (run_blob_op st) ops w) (key_of d) = Some b" .
  with run_blob_ops_auth [OF ok ops, of w] init have "upload_key (key_of d) \<or> authentic (bs_sha_hex st) (key_of d) b"
    unfolding writes_authentic_def by blast
  with key_of_wf(3) [OF d] authentic_key_of [OF s3_okD(7) [OF ok] d] show ?thesis by blast
qed

theorem blob_integrity_witness:
  "\<exists>b w'. blob_get mem_store zero_digest
      (fold (run_blob_op mem_store) [OpStart ''s'', OpPush ''s'' ''ab'', OpPush ''s'' ''c'', OpComplete ''s'' zero_digest] mem_empty) = (Ok (Ok b), w')
    \<and> digest_sha256 (bs_sha_hex mem_store) b = zero_digest"
proof -
  let ?ops = "[OpStart ''s'', OpPush ''s'' ''ab'', OpPush ''s'' ''c'', OpComplete ''s'' zero_digest]"
  have run: "fold (run_blob_op mem_store) ?ops mem_empty = mem_with [(key_of zero_digest, ''abc'')]"
    by (simp add: run_blob_op_def mem_start mem_push1 mem_push2 mem_complete)
  have get: "fst (blob_get mem_store zero_digest (fold (run_blob_op mem_store) ?ops mem_empty)) = Ok (Ok ''abc'')"
    unfolding run by (simp add: blob_get_def get_blob_object_def mem_eval)
  then obtain w' where w': "blob_get mem_store zero_digest (fold (run_blob_op mem_store) ?ops mem_empty) = (Ok (Ok ''abc''), w')"
    by (metis prod.collapse)
  have "list_all blob_op_wf ?ops" by (simp add: zero_digest_wf)
  from blob_integrity [OF mem_store_ok this _ zero_digest_wf w'] w' show ?thesis by (auto simp: mem_empty_def)
qed

text \<open>
  C27: An upload in chunks either stores their concatenation or nothing: a completion with a digest that
  does not match is an error and changes no object; with a matching digest the blob is the concatenation
  of the chunks, or an error is returned and the blob is as before; when it succeeds the session's own
  objects are gone.
\<close>

theorem upload_roundtrip:
  assumes ok: "s3_ok st obj prt" and start: "start_upload st sid w = (Ok (), w0)"
    and pushes: "push_chunks st sid cs w0 = (Ok (), w1)" and len: "length cs < 2 ^ 31 - 1"
    and d: "digest_wf d" and complete: "complete_upload st sid d w1 = (r, w2)"
  shows "(digest_sha256 (bs_sha_hex st) (concat cs) \<noteq> d \<longrightarrow> \<not> is_ok r \<and> obj w2 = obj w1)
    \<and> (obj w2 (key_of d) = Some (concat cs) \<or> obj w2 (key_of d) = obj w1 (key_of d) \<and> \<not> is_ok r)
    \<and> (is_ok r \<longrightarrow> obj w2 (upload_state_key sid) = None
        \<and> (\<forall>i < length (filter (\<lambda>c. c \<noteq> []) cs). obj w2 (upload_part_key sid (of_nat (Suc i))) = None))"
proof -
  let ?cs = "filter (\<lambda>c. c \<noteq> []) cs"
  have "session_holds st obj w1 sid ?cs"
    using push_chunks_session [OF ok start_upload_session [OF ok start] _ pushes] len by simp
  moreover have "length ?cs < 2 ^ 31 - 1" using len length_filter_le [of "\<lambda>c. c \<noteq> []" cs] by linarith
  moreover have "concat ?cs = concat cs" by (induction cs) auto
  ultimately show ?thesis
    using complete_upload_session [OF ok _ _ d complete, of ?cs] by simp
qed

theorem upload_roundtrip_witness:
  "\<exists>w0 w1 w2. start_upload mem_store ''s'' mem_empty = (Ok (), w0) \<and> push_chunks mem_store ''s'' [''ab'', ''c''] w0 = (Ok (), w1)
    \<and> complete_upload mem_store ''s'' zero_digest w1 = (Ok (), w2) \<and> mw_objects w2 (key_of zero_digest) = Some ''abc''"
proof -
  have push: "push_chunks mem_store ''s'' [''ab'', ''c''] (mem_with [(upload_state_key ''s'', ''0'')]) =
      (Ok (), mem_with [(upload_state_key ''s'', ''2''), (upload_part_key ''s'' 2, ''c''), (upload_part_key ''s'' 1, ''ab'')])"
    by (simp add: push_chunks_def mem_push1 mem_push2 io_bind_def)
  from upload_roundtrip [OF mem_store_ok mem_start push _ zero_digest_wf mem_complete] mem_start push mem_complete
  show ?thesis by auto
qed

end
