(* ===== verification/Upstream_Client.thy ===== *)
theory Upstream_Client
  imports Numbers Effects Queries
begin

text \<open>
  The client of upstream registries (\<^verbatim>\<open>mirror/client.rs\<close>): addresses, bearer tokens, retries and the
  requests of the distribution API.

  The HTTP stack (\<^verbatim>\<open>aioduct\<close>, \<^verbatim>\<open>http\<close>) and \<^verbatim>\<open>serde_json\<close> are the fields of \<open>upstream_net\<close>; the two maps
  of the \<^verbatim>\<open>UpstreamClient\<close> struct live in the world and are read and replaced through it.  The body of a
  response is the list of its frames, each bytes or the error the connection broke off with.
\<close>

section \<open>Definitions\<close>

datatype http_auth = BasicAuth string string | BearerAuth string

record http_client =
  hcl_proxy :: "outbound_proxy option"
  hcl_proxy_auth :: "(string \<times> string) option"
  hcl_insecure_tls :: bool

type_synonym byte_stream = "(string, msg) result list"

record http_request =
  rq_client :: http_client
  rq_method :: string
  rq_url :: string
  rq_auth :: "http_auth option"
  rq_accept :: "string option"
  rq_content_type :: "string option"
  rq_content_length :: "string option"
  rq_body :: "byte_stream option"

record http_response =
  rs_status :: nat
  rs_header :: "string \<Rightarrow> string option"
  rs_body :: byte_stream

record send_error =
  se_is_connect :: bool
  se_is_timeout :: bool
  se_display :: msg

record 'w upstream_net =
  net_send :: "http_request \<Rightarrow> 'w \<Rightarrow> (http_response, send_error) result \<times> 'w"
  net_check_url :: "string \<Rightarrow> (unit, msg) result"
  net_check_header :: "string \<Rightarrow> string \<Rightarrow> (unit, msg) result"
  net_proxy_config :: "outbound_proxy_protocol \<Rightarrow> string \<Rightarrow> (unit, msg) result"
  net_build :: "http_client \<Rightarrow> (unit, msg) result"
  net_status_error :: "nat \<Rightarrow> msg option"
  net_status_text :: "nat \<Rightarrow> string"
  net_json :: "string \<Rightarrow> (json, msg) result"
  net_tags_list :: "string \<Rightarrow> (string list option, msg) result"
  net_sha_hex :: "string \<Rightarrow> string"
  net_sleep_ms :: "u64 \<Rightarrow> 'w \<Rightarrow> 'w"
  net_tokens :: "'w \<Rightarrow> (string \<rightharpoonup> string)"
  net_set_tokens :: "(string \<rightharpoonup> string) \<Rightarrow> 'w \<Rightarrow> 'w"
  net_proxied :: "'w \<Rightarrow> (string \<rightharpoonup> http_client)"
  net_set_proxied :: "(string \<rightharpoonup> http_client) \<Rightarrow> 'w \<Rightarrow> 'w"

definition MANIFEST_ACCEPT :: string where
  "MANIFEST_ACCEPT =
     ''application/vnd.oci.image.manifest.v1+json, '' @ ''application/vnd.oci.image.index.v1+json, '' @
     ''application/vnd.oci.artifact.manifest.v1+json, '' @ ''application/vnd.docker.distribution.manifest.v2+json, '' @
     ''application/vnd.docker.distribution.manifest.list.v2+json, '' @ ''*/*''"

definition MAX_RETRIES :: nat where "MAX_RETRIES = 5"
definition INITIAL_BACKOFF_MS :: u64 where "INITIAL_BACKOFF_MS = 200"

definition redact_proxy_url :: "string \<Rightarrow> string" where
  "redact_proxy_url url =
     (let parsed = (case strip_prefix ''http://'' url of Some rest \<Rightarrow> Some (''http'', rest) | None \<Rightarrow>
          (case strip_prefix ''https://'' url of Some rest \<Rightarrow> Some (''https'', rest) | None \<Rightarrow>
          (case strip_prefix ''socks5://'' url of Some rest \<Rightarrow> Some (''socks5'', rest) | None \<Rightarrow>
          (case strip_prefix ''socks4://'' url of Some rest \<Rightarrow> Some (''socks4'', rest) | None \<Rightarrow> None)))) in
      case parsed of
        None \<Rightarrow> ''<redacted>''
      | Some (scheme, rest) \<Rightarrow>
          let host_port = hd (split_char (CHR ''/'') rest); host = last (split_char (CHR ''@'') host_port)
          in scheme @ ''://'' @ host)"

datatype upstream_scope = ScopePull | ScopePushPull

fun scope_as_str :: "upstream_scope \<Rightarrow> string" where
  "scope_as_str ScopePull = ''pull''"
| "scope_as_str ScopePushPull = ''pull,push''"

record upstream_ref =
  ur_registry :: string
  ur_repository :: string
  ur_scheme :: string
  ur_insecure_tls :: bool
  ur_outbound_proxy :: outbound_proxy
  ur_username :: "string option"
  ur_password :: "string option"

definition upstream_ref_new ::
  "string \<Rightarrow> string \<Rightarrow> bool \<Rightarrow> bool \<Rightarrow> outbound_proxy \<Rightarrow> string option \<Rightarrow> string option \<Rightarrow> upstream_ref" where
  "upstream_ref_new registry repository plain_http insecure_tls outbound_proxy username password =
     (let api_registry = (if registry = ''docker.io'' then ''registry-1.docker.io'' else registry);
          repository' = (if (registry = ''docker.io'' \<or> registry = ''registry-1.docker.io'') \<and> \<not> contains_char (CHR ''/'') repository
            then ''library/'' @ repository else repository);
          hostname = hd (split_char (CHR '':'') api_registry);
          scheme = (if plain_http then ''http'' else if insecure_tls then ''https''
            else if hostname = ''localhost'' \<or> hostname = ''127.0.0.1'' \<or> hostname = ''[::1]'' then ''http'' else ''https'')
      in \<lparr>ur_registry = api_registry, ur_repository = repository', ur_scheme = scheme, ur_insecure_tls = insecure_tls,
          ur_outbound_proxy = outbound_proxy, ur_username = username, ur_password = password\<rparr>)"

definition base_url :: "upstream_ref \<Rightarrow> string" where
  "base_url u = ur_scheme u @ ''://'' @ ur_registry u"

record manifest_data =
  md_body :: string
  md_content_type :: string
  md_digest :: string

record manifest_head =
  mh_digest :: string
  mh_content_type :: string
  mh_content_length :: "u64 option"

record blob_descriptor =
  desc_digest :: string
  desc_size :: u64

record bearer_challenge =
  bc_realm :: string
  bc_service :: "string option"

subsection \<open>Challenges\<close>

text \<open>The value after a key: quoted up to the next quote, or bare up to the next comma.\<close>

definition challenge_field :: "string \<Rightarrow> string \<times> string" where
  "challenge_field rest =
     (case strip_prefix [CHR 0x22] rest of
        Some rest \<Rightarrow>
          (case split_once (CHR 0x22) rest of None \<Rightarrow> (rest, []) | Some (value, rest) \<Rightarrow> (value, rest))
      | None \<Rightarrow> (takeWhile (\<lambda>c. c \<noteq> CHR '','') rest, dropWhile (\<lambda>c. c \<noteq> CHR '','') rest))"

lemma challenge_field_shrinks: "length (snd (challenge_field rest)) \<le> length rest"
  by (auto simp: challenge_field_def strip_prefix_iff split_once_Some length_dropWhile_le split: option.splits)

function challenge_loop :: "string \<Rightarrow> string option \<times> string option \<Rightarrow> string option \<times> string option" where
  "challenge_loop remaining (realm, service) =
     (if remaining = [] then (realm, service)
      else case split_once (CHR ''='') (dropWhile (\<lambda>c. c = CHR '','' \<or> c = CHR '' '') remaining) of
          None \<Rightarrow> (realm, service)
        | Some (key, rest) \<Rightarrow>
            challenge_loop (snd (challenge_field rest))
              (if trim key = ''realm'' then Some (fst (challenge_field rest)) else realm,
               if trim key = ''service'' then Some (fst (challenge_field rest)) else service))"
  by pat_completeness auto

termination
proof (relation "measure (\<lambda>(remaining, _). length remaining)", goal_cases)
  case (2 remaining realm service p key rest)
  then have "Suc (length rest) \<le> length (dropWhile (\<lambda>c. c = CHR '','' \<or> c = CHR '' '') remaining)"
    by (auto simp: split_once_Some)
  also have "\<dots> \<le> length remaining" by (rule length_dropWhile_le)
  finally show ?case using challenge_field_shrinks [of rest] by simp
qed simp

declare challenge_loop.simps [simp del]

definition parse_bearer_challenge :: "string \<Rightarrow> bearer_challenge lh_result" where
  "parse_bearer_challenge header =
     (let header' = (case strip_prefix ''Bearer '' header of None \<Rightarrow> header | Some h \<Rightarrow> h);
          (realm, service) = challenge_loop header' (None, None) in
      res_bind (ok_or realm (Upstream [Lit ''no realm in Bearer challenge''])) (\<lambda>realm.
        Ok \<lparr>bc_realm = realm, bc_service = service\<rparr>))"

subsection \<open>HTTP clients and tokens\<close>

definition is_retryable :: "nat \<Rightarrow> bool" where
  "is_retryable status \<longleftrightarrow> status = 429 \<or> status = 500 \<or> status = 502 \<or> status = 503 \<or> status = 504 \<or> status = 408"

definition is_retryable_err :: "send_error \<Rightarrow> bool" where
  "is_retryable_err e \<longleftrightarrow> se_is_connect e \<or> se_is_timeout e"

definition backoff :: "'w upstream_net \<Rightarrow> nat \<Rightarrow> 'w \<Rightarrow> 'w" where
  "backoff net attempt = net_sleep_ms net (INITIAL_BACKOFF_MS * 2 ^ attempt)"

fun protocol_debug :: "outbound_proxy_protocol \<Rightarrow> string" where
  "protocol_debug ProxyNone = ''None''"
| "protocol_debug ProxyHttp = ''Http''"
| "protocol_debug ProxyHttps = ''Https''"
| "protocol_debug ProxySocks4 = ''Socks4''"
| "protocol_debug ProxySocks5 = ''Socks5''"

definition or_empty :: "string option \<Rightarrow> string" where
  "or_empty v = (case v of None \<Rightarrow> [] | Some s \<Rightarrow> s)"

definition show_bool :: "bool \<Rightarrow> string" where
  "show_bool b = (if b then ''true'' else ''false'')"

definition client_key :: "outbound_proxy \<Rightarrow> string" where
  "client_key proxy = protocol_debug (op_protocol proxy) @ ''|'' @ or_empty (op_url proxy) @ ''|'' @ or_empty (op_username proxy)"

definition client_cache_key :: "outbound_proxy \<Rightarrow> bool \<Rightarrow> string" where
  "client_cache_key proxy insecure_tls = client_key proxy @ ''|insecure_tls='' @ show_bool insecure_tls"

definition cache_key :: "upstream_ref \<Rightarrow> upstream_scope \<Rightarrow> string" where
  "cache_key u scope =
     client_cache_key (ur_outbound_proxy u) (ur_insecure_tls u) @ ''|'' @ ur_registry u @ ''|repository:'' @ ur_repository u @ '':''
       @ ur_scheme u @ '':'' @ show_bool (ur_insecure_tls u) @ '':'' @ scope_as_str scope"

definition build_http_client :: "'w upstream_net \<Rightarrow> outbound_proxy option \<Rightarrow> bool \<Rightarrow> http_client lh_result" where
  "build_http_client net proxy insecure_tls =
     (let build = (\<lambda>client. case net_build net client of
          Inl e \<Rightarrow> Err (Upstream (Lit ''HTTP client: '' # e)) | Inr _ \<Rightarrow> Ok client) in
      case proxy of
        None \<Rightarrow> build \<lparr>hcl_proxy = None, hcl_proxy_auth = None, hcl_insecure_tls = insecure_tls\<rparr>
      | Some p \<Rightarrow>
          if op_protocol p = ProxyNone then build \<lparr>hcl_proxy = None, hcl_proxy_auth = None, hcl_insecure_tls = insecure_tls\<rparr>
          else (case op_url p of
              None \<Rightarrow> Err (NameInvalid [Lit ''outbound_proxy.url is required when proxy protocol is not none''])
            | Some url \<Rightarrow>
                if trim url = [] then Err (NameInvalid [Lit ''outbound_proxy.url is required when proxy protocol is not none''])
                else if op_protocol p = ProxyHttps
                then Err (Unsupported [Lit ''HTTPS outbound proxy is deferred until aioduct exposes HTTPS proxy support''])
                else (case net_proxy_config net (op_protocol p) url of
                    Inl e \<Rightarrow> Err (NameInvalid e)
                  | Inr _ \<Rightarrow>
                      build \<lparr>hcl_proxy = Some p, hcl_proxy_auth = (case (op_username p, op_password p) of
                          (Some u, Some pw) \<Rightarrow> if u \<noteq> [] \<or> pw \<noteq> [] then Some (u, pw) else None
                        | _ \<Rightarrow> None), hcl_insecure_tls = insecure_tls\<rparr>)))"

definition default_client :: http_client where
  "default_client = \<lparr>hcl_proxy = None, hcl_proxy_auth = None, hcl_insecure_tls = False\<rparr>"

definition http_for :: "'w upstream_net \<Rightarrow> upstream_ref \<Rightarrow> ('w, http_client) io" where
  "http_for net u w =
     (if op_protocol (ur_outbound_proxy u) = ProxyNone \<and> \<not> ur_insecure_tls u then (Ok default_client, w)
      else
        let key = client_cache_key (ur_outbound_proxy u) (ur_insecure_tls u) in
        case net_proxied net w key of
          Some client \<Rightarrow> (Ok client, w)
        | None \<Rightarrow>
            let proxy = (if op_protocol (ur_outbound_proxy u) = ProxyNone then None else Some (ur_outbound_proxy u)) in
            (case build_http_client net proxy (ur_insecure_tls u) of
               Inl e \<Rightarrow> (Err e, w)
             | Inr client \<Rightarrow> (Ok client, net_set_proxied net ((net_proxied net w)(key \<mapsto> client)) w)))"

definition get_request :: "http_client \<Rightarrow> upstream_ref \<Rightarrow> string \<Rightarrow> http_request" where
  "get_request client u url =
     \<lparr>rq_client = client, rq_method = ''GET'', rq_url = url,
      rq_auth = (case (ur_username u, ur_password u) of (Some n, Some p) \<Rightarrow> Some (BasicAuth n p) | _ \<Rightarrow> None),
      rq_accept = None, rq_content_type = None, rq_content_length = None, rq_body = None\<rparr>"

definition send_basic :: "'w upstream_net \<Rightarrow> upstream_ref \<Rightarrow> string \<Rightarrow> string \<Rightarrow> ('w, http_response) io" where
  "send_basic net u what url =
     io_bind (http_for net u) (\<lambda>client.
       case net_check_url net url of
         Inl e \<Rightarrow> io_fail (Upstream (Lit (what @ '': '') # e))
       | Inr _ \<Rightarrow> io_match (net_send net (get_request client u url)) (\<lambda>r.
           case r of Inl e \<Rightarrow> io_fail (Upstream (Lit (what @ '': '') # se_display e)) | Inr resp \<Rightarrow> io_return resp))"

text \<open>\<^verbatim>\<open>resp.bytes()\<close>: all frames, or the error of the first broken one.\<close>

fun collect :: "byte_stream \<Rightarrow> (string, msg) result" where
  "collect [] = Ok []"
| "collect (Inl e # frames) = Err e"
| "collect (Inr b # frames) = res_bind (collect frames) (\<lambda>rest. Ok (b @ rest))"

definition error_for_status :: "'w upstream_net \<Rightarrow> frag \<Rightarrow> http_response \<Rightarrow> http_response lh_result" where
  "error_for_status net what resp =
     (case net_status_error net (rs_status resp) of None \<Rightarrow> Ok resp | Some e \<Rightarrow> Err (Upstream (what # e)))"

definition token_of :: "json \<Rightarrow> string option" where
  "token_of body =
     Option.bind (case json_get ''token'' body of Some v \<Rightarrow> Some v | None \<Rightarrow> json_get ''access_token'' body) as_str"

definition fetch_token :: "'w upstream_net \<Rightarrow> string \<Rightarrow> string \<Rightarrow> upstream_ref \<Rightarrow> ('w, string) io" where
  "fetch_token net www_auth scope u =
     io_bind (io_result (parse_bearer_challenge www_auth)) (\<lambda>challenge.
       let url = bc_realm challenge @ ''?scope='' @ scope
             @ (case bc_service challenge of None \<Rightarrow> [] | Some service \<Rightarrow> ''&service='' @ service) in
       io_bind (send_basic net u ''token fetch'' url) (\<lambda>resp.
       io_bind (io_result (error_for_status net (Lit ''token fetch: '') resp)) (\<lambda>resp.
         case res_bind (collect (rs_body resp)) (net_json net) of
           Inl e \<Rightarrow> io_fail (Upstream (Lit ''token response: '' # e))
         | Inr body \<Rightarrow>
             (case token_of body of
                None \<Rightarrow> io_fail (Upstream [Lit ''no token in auth response'']) | Some t \<Rightarrow> io_return t))))"

definition io_update :: "('w \<Rightarrow> 'w) \<Rightarrow> ('w, unit) io" where
  "io_update f w = (Ok (), f w)"

definition ensure_auth_scope :: "'w upstream_net \<Rightarrow> upstream_ref \<Rightarrow> upstream_scope \<Rightarrow> ('w, unit) io" where
  "ensure_auth_scope net u scope =
     io_bind (send_basic net u ''auth probe'' (base_url u @ ''/v2/'')) (\<lambda>resp.
       if rs_status resp \<noteq> 401 then io_return ()
       else (case rs_header resp ''www-authenticate'' of
           None \<Rightarrow> io_fail (Upstream [Lit ''401 without WWW-Authenticate from '', Disp (ur_registry u)])
         | Some www_auth \<Rightarrow>
             io_bind (fetch_token net www_auth (''repository:'' @ ur_repository u @ '':'' @ scope_as_str scope) u) (\<lambda>token.
               io_update (\<lambda>w. net_set_tokens net ((net_tokens net w)(cache_key u scope \<mapsto> token)) w))))"

definition ensure_auth :: "'w upstream_net \<Rightarrow> upstream_ref \<Rightarrow> ('w, unit) io" where
  "ensure_auth net u = ensure_auth_scope net u ScopePull"

definition ensure_push_auth :: "'w upstream_net \<Rightarrow> upstream_ref \<Rightarrow> ('w, unit) io" where
  "ensure_push_auth net u = ensure_auth_scope net u ScopePushPull"

definition refresh_auth :: "'w upstream_net \<Rightarrow> upstream_ref \<Rightarrow> upstream_scope \<Rightarrow> ('w, unit) io" where
  "refresh_auth net u scope =
     io_bind (io_update (\<lambda>w. net_set_tokens net ((net_tokens net w)(cache_key u scope := None)) w)) (\<lambda>_.
       ensure_auth_scope net u scope)"

subsection \<open>Requests with retries\<close>

record retry_request =
  rr_method :: string
  rr_url :: string
  rr_accept :: "string option"
  rr_content_type :: "string option"
  rr_body :: "string option"
  rr_scope :: upstream_scope

text \<open>The request of one attempt, or the error of the builder; the token is looked up each time.\<close>

definition check_opt_header :: "'w upstream_net \<Rightarrow> string \<Rightarrow> string option \<Rightarrow> unit lh_result" where
  "check_opt_header net name value =
     (case value of None \<Rightarrow> Ok ()
      | Some v \<Rightarrow> (case net_check_header net name v of Inl e \<Rightarrow> Err (Upstream e) | Inr _ \<Rightarrow> Ok ()))"

definition attempt_request ::
  "'w upstream_net \<Rightarrow> upstream_ref \<Rightarrow> retry_request \<Rightarrow> http_client \<Rightarrow> 'w \<Rightarrow> http_request lh_result" where
  "attempt_request net u request client w =
     res_bind (case net_check_url net (rr_url request) of Inl e \<Rightarrow> Err (Upstream e) | Inr _ \<Rightarrow> Ok ()) (\<lambda>_.
     res_bind (check_opt_header net ''accept'' (rr_accept request)) (\<lambda>_.
     res_bind (check_opt_header net ''content-type'' (rr_content_type request)) (\<lambda>_.
       Ok \<lparr>rq_client = client, rq_method = rr_method request, rq_url = rr_url request,
           rq_auth = map_option BearerAuth (net_tokens net w (cache_key u (rr_scope request))),
           rq_accept = rr_accept request, rq_content_type = rr_content_type request, rq_content_length = None,
           rq_body = map_option (\<lambda>b. [Ok b]) (rr_body request)\<rparr>)))"

text \<open>
  The loop over the attempts; \<open>n\<close> is the number of attempts left after this one.  On the last attempt
  every response and every error is returned, so the error after the loop is never reached.
\<close>

fun retry_loop :: "'w upstream_net \<Rightarrow> upstream_ref \<Rightarrow> retry_request \<Rightarrow> nat \<Rightarrow> ('w, http_response) io" where
  "retry_loop net u request n w =
     (let attempt = MAX_RETRIES - n; w0 = (if 0 < attempt then backoff net (attempt - 1) w else w) in
      case http_for net u w0 of
        (Inl e, w1) \<Rightarrow> (Err e, w1)
      | (Inr client, w1) \<Rightarrow>
          (case attempt_request net u request client w1 of
             Inl e \<Rightarrow> (Err e, w1)
           | Inr req \<Rightarrow>
               (case net_send net req w1 of
                  (Inl e, w2) \<Rightarrow>
                    (case n of
                       Suc n' \<Rightarrow> if is_retryable_err e then retry_loop net u request n' w2 else (Err (Upstream (se_display e)), w2)
                     | 0 \<Rightarrow> (Err (Upstream (se_display e)), w2))
                | (Inr resp, w2) \<Rightarrow>
                    (case n of
                       Suc n' \<Rightarrow>
                         if rs_status resp = 401 then retry_loop net u request n' (snd (refresh_auth net u (rr_scope request) w2))
                         else if is_retryable (rs_status resp) then retry_loop net u request n' w2
                         else (Ok resp, w2)
                     | 0 \<Rightarrow> (Ok resp, w2)))))"

declare retry_loop.simps [simp del]

definition retry_with_body :: "'w upstream_net \<Rightarrow> upstream_ref \<Rightarrow> retry_request \<Rightarrow> ('w, http_response) io" where
  "retry_with_body net u request = retry_loop net u request MAX_RETRIES"

definition retry :: "'w upstream_net \<Rightarrow> upstream_ref \<Rightarrow> string \<Rightarrow> string \<Rightarrow> string option \<Rightarrow> ('w, http_response) io" where
  "retry net u http_method url accept =
     retry_with_body net u \<lparr>rr_method = http_method, rr_url = url, rr_accept = accept, rr_content_type = None,
       rr_body = None, rr_scope = ScopePull\<rparr>"

subsection \<open>The distribution API\<close>

definition manifest_url :: "upstream_ref \<Rightarrow> string \<Rightarrow> string" where
  "manifest_url u reference = base_url u @ ''/v2/'' @ ur_repository u @ ''/manifests/'' @ reference"

definition blob_url :: "upstream_ref \<Rightarrow> string \<Rightarrow> string" where
  "blob_url u dig = base_url u @ ''/v2/'' @ ur_repository u @ ''/blobs/'' @ dig"

definition status_failed :: "'w upstream_net \<Rightarrow> string \<Rightarrow> string \<Rightarrow> nat \<Rightarrow> layerhouse_error" where
  "status_failed net what arg status =
     Upstream [Lit (what @ '' ''), Disp arg, Lit '' failed: '', Disp (net_status_text net status)]"

definition upstream_get_manifest :: "'w upstream_net \<Rightarrow> upstream_ref \<Rightarrow> string \<Rightarrow> ('w, manifest_data) io" where
  "upstream_get_manifest net u reference =
     io_bind (retry net u ''GET'' (manifest_url u reference) (Some MANIFEST_ACCEPT)) (\<lambda>resp.
     io_bind (io_result (error_for_status net (Lit (''GET manifest '' @ reference @ '': '')) resp)) (\<lambda>resp.
       case collect (rs_body resp) of
         Inl e \<Rightarrow> io_fail (Upstream (Lit ''GET manifest body: '' # e))
       | Inr body \<Rightarrow>
           io_return \<lparr>md_body = body,
             md_content_type = (case rs_header resp ''content-type'' of
               None \<Rightarrow> ''application/vnd.oci.image.manifest.v1+json'' | Some t \<Rightarrow> t),
             md_digest = or_empty (rs_header resp ''docker-content-digest'')\<rparr>))"

definition upstream_head_manifest :: "'w upstream_net \<Rightarrow> upstream_ref \<Rightarrow> string \<Rightarrow> ('w, manifest_head option) io" where
  "upstream_head_manifest net u reference =
     io_bind (retry net u ''HEAD'' (manifest_url u reference) (Some MANIFEST_ACCEPT)) (\<lambda>resp.
       if rs_status resp = 200 then
         let dig = or_empty (rs_header resp ''docker-content-digest'') in
         if dig = [] then
           io_bind (upstream_get_manifest net u reference) (\<lambda>m.
             io_return (Some \<lparr>mh_digest = digest_to_string (digest_sha256 (net_sha_hex net) (md_body m)),
               mh_content_type = md_content_type m, mh_content_length = Some (of_nat (length (md_body m)))\<rparr>))
         else
           io_return (Some \<lparr>mh_digest = dig,
             mh_content_type = (case rs_header resp ''content-type'' of None \<Rightarrow> ''application/octet-stream'' | Some t \<Rightarrow> t),
             mh_content_length = Option.bind (rs_header resp ''content-length'') parse_u64\<rparr>)
       else if rs_status resp = 404 then io_return None
       else io_fail (status_failed net ''HEAD manifest'' reference (rs_status resp)))"

definition upstream_get_blob :: "'w upstream_net \<Rightarrow> upstream_ref \<Rightarrow> string \<Rightarrow> ('w, http_response) io" where
  "upstream_get_blob net u dig =
     io_bind (retry net u ''GET'' (blob_url u dig) None) (\<lambda>resp.
       io_result (error_for_status net (Lit (''GET blob '' @ dig @ '': '')) resp))"

definition upstream_head_blob :: "'w upstream_net \<Rightarrow> upstream_ref \<Rightarrow> string \<Rightarrow> ('w, bool) io" where
  "upstream_head_blob net u dig =
     io_bind (retry net u ''HEAD'' (blob_url u dig) None) (\<lambda>resp.
       if rs_status resp = 200 then io_return True
       else if rs_status resp = 404 then io_return False
       else io_fail (status_failed net ''HEAD blob'' dig (rs_status resp)))"

definition upstream_put_manifest :: "'w upstream_net \<Rightarrow> upstream_ref \<Rightarrow> string \<Rightarrow> string \<Rightarrow> string \<Rightarrow> ('w, unit) io" where
  "upstream_put_manifest net u reference body content_type =
     io_bind (retry_with_body net u \<lparr>rr_method = ''PUT'', rr_url = manifest_url u reference, rr_accept = None,
         rr_content_type = Some content_type, rr_body = Some body, rr_scope = ScopePushPull\<rparr>) (\<lambda>resp.
       if rs_status resp = 201 \<or> rs_status resp = 202 \<or> rs_status resp = 200 then io_return ()
       else io_fail (status_failed net ''PUT manifest'' reference (rs_status resp)))"

definition absolute_location :: "upstream_ref \<Rightarrow> string \<Rightarrow> string" where
  "absolute_location u location =
     (if starts_with ''http://'' location \<or> starts_with ''https://'' location then location
      else if starts_with ''/'' location then base_url u @ location
      else base_url u @ ''/'' @ location)"

definition append_query :: "string \<Rightarrow> string \<Rightarrow> string \<Rightarrow> string" where
  "append_query url key value = url @ (if contains_char (CHR ''?'') url then ''&'' else ''?'') @ key @ ''='' @ value"

definition push_blob_stream :: "'w upstream_net \<Rightarrow> upstream_ref \<Rightarrow> string \<Rightarrow> u64 \<Rightarrow> byte_stream \<Rightarrow> ('w, unit) io" where
  "push_blob_stream net u dig len stream =
     io_bind (retry_with_body net u \<lparr>rr_method = ''POST'', rr_url = base_url u @ ''/v2/'' @ ur_repository u @ ''/blobs/uploads/'',
         rr_accept = None, rr_content_type = None, rr_body = None, rr_scope = ScopePushPull\<rparr>) (\<lambda>start_resp.
       if \<not> (rs_status start_resp = 202 \<or> rs_status start_resp = 201)
       then io_fail (status_failed net ''POST blob upload'' dig (rs_status start_resp))
       else (case rs_header start_resp ''location'' of
           None \<Rightarrow> io_fail (Upstream [Lit ''blob upload response missing Location''])
         | Some location \<Rightarrow>
             let upload_url = append_query (absolute_location u location) ''digest'' dig in
             io_bind (http_for net u) (\<lambda>client.
               case net_check_url net upload_url of
                 Inl e \<Rightarrow> io_fail (Upstream (Lit ''PUT blob upload: '' # e))
               | Inr _ \<Rightarrow>
                   io_bind (io_result (res_bind (check_opt_header net ''content-type'' (Some ''application/octet-stream''))
                       (\<lambda>_. check_opt_header net ''content-length'' (Some (show_u64 len))))) (\<lambda>_.
                   io_bind (io_read (\<lambda>w. net_tokens net w (cache_key u ScopePushPull))) (\<lambda>token.
                     io_match (net_send net \<lparr>rq_client = client, rq_method = ''PUT'', rq_url = upload_url,
                         rq_auth = map_option BearerAuth token, rq_accept = None,
                         rq_content_type = Some ''application/octet-stream'', rq_content_length = Some (show_u64 len),
                         rq_body = Some stream\<rparr>) (\<lambda>r.
                       case r of
                         Inl e \<Rightarrow> io_fail (Upstream (Lit (''PUT blob upload '' @ dig @ '': '') # se_display e))
                       | Inr resp \<Rightarrow>
                           if rs_status resp = 201 \<or> rs_status resp = 202 then io_return ()
                           else io_fail (status_failed net ''PUT blob upload'' dig (rs_status resp))))))))"

definition tags_page :: "'w upstream_net \<Rightarrow> upstream_ref \<Rightarrow> string option \<Rightarrow> ('w, string list) io" where
  "tags_page net u lst =
     io_bind (retry net u ''GET'' (base_url u @ ''/v2/'' @ ur_repository u @ ''/tags/list?n=100''
         @ (case lst of None \<Rightarrow> [] | Some l \<Rightarrow> ''&last='' @ l)) None) (\<lambda>resp.
     io_bind (io_result (error_for_status net (Lit ''GET tags list: '') resp)) (\<lambda>resp.
       case res_bind (collect (rs_body resp)) (net_tags_list net) of
         Inl e \<Rightarrow> io_fail (Upstream (Lit ''tags list response: '' # e))
       | Inr ts \<Rightarrow> io_return (case ts of None \<Rightarrow> [] | Some page \<Rightarrow> page)))"

text \<open>Nothing bounds the number of pages: an upstream that ignores \<^verbatim>\<open>last\<close> keeps the loop going.\<close>

partial_function (option) tags_loop ::
  "'w upstream_net \<Rightarrow> upstream_ref \<Rightarrow> string option \<Rightarrow> string list \<Rightarrow> 'w \<Rightarrow> (string list lh_result \<times> 'w) option" where
  "tags_loop net u lst acc w =
     (case tags_page net u lst w of
        (Inl e, w') \<Rightarrow> Some (Err e, w')
      | (Inr page, w') \<Rightarrow>
          if page = [] then Some (Ok acc, w')
          else if length page = 100 then tags_loop net u (Some (last page)) (acc @ page) w'
          else Some (Ok (acc @ page), w'))"

definition upstream_list_tags :: "'w upstream_net \<Rightarrow> upstream_ref \<Rightarrow> ('w, string list) pio" where
  "upstream_list_tags net u =
     pio_bind (pio_run (ensure_auth net u)) (\<lambda>_.
     pio_bind (tags_loop net u None []) (\<lambda>all. pio_return (remdups_adj (sort all))))"

definition is_index_manifest :: "string \<Rightarrow> bool" where
  "is_index_manifest content_type \<longleftrightarrow>
     content_type = ''application/vnd.oci.image.index.v1+json'' \<or>
     content_type = ''application/vnd.docker.distribution.manifest.list.v2+json''"

definition extract_blob_descriptors :: "json \<Rightarrow> blob_descriptor list" where
  "extract_blob_descriptors manifest =
     map (\<lambda>d. \<lparr>desc_digest = digest_to_string (sd_digest d), desc_size = sd_size d\<rparr>) (extract_sized_referenced_descriptors manifest)"

definition child_manifest :: "json \<Rightarrow> blob_descriptor option" where
  "child_manifest m =
     (case (Option.bind (json_get ''digest'' m) as_str, Option.bind (json_get ''size'' m) as_u64) of
        (Some d, Some n) \<Rightarrow> Some \<lparr>desc_digest = d, desc_size = n\<rparr>
      | _ \<Rightarrow> None)"

definition extract_child_manifests :: "json \<Rightarrow> blob_descriptor list" where
  "extract_child_manifests index =
     (case Option.bind (json_get ''manifests'' index) as_array of
        None \<Rightarrow> [] | Some ms \<Rightarrow> List.map_filter child_manifest ms)"

section \<open>Challenges\<close>

text \<open>The client reads back what the registry's own challenge says.\<close>

lemma challenge_field_quoted: "CHR 0x22 \<notin> set v \<Longrightarrow> challenge_field (CHR 0x22 # v @ CHR 0x22 # rest) = (v, rest)"
  using strip_prefix_append [of "[CHR 0x22]"] by (auto simp: challenge_field_def split_once_append)

lemma challenge_loop_Nil [simp]: "challenge_loop [] acc = acc"
  by (cases acc) (simp add: challenge_loop.simps)

lemma challenge_loop_quoted:
  assumes "list_all is_graphic key" and "key \<noteq> []" and "CHR '','' \<notin> set key" and "CHR ''='' \<notin> set key" and "CHR 0x22 \<notin> set v"
    and "sep = [CHR '',''] \<or> sep = [CHR '' ''] \<or> sep = []"
  shows "challenge_loop (sep @ key @ CHR ''='' # CHR 0x22 # v @ CHR 0x22 # rest) (realm, service) =
    challenge_loop rest (if key = ''realm'' then Some v else realm, if key = ''service'' then Some v else service)"
proof -
  have "hd key \<noteq> CHR '','' \<and> hd key \<noteq> CHR '' ''"
    using assms(1-3) by (cases key) (auto simp: is_graphic_def byte_def)
  then have "dropWhile (\<lambda>c. c = CHR '','' \<or> c = CHR '' '') (sep @ key @ x) = key @ x" for x
    using assms(2,6) by (cases key) auto
  with assms show ?thesis
    by (subst challenge_loop.simps)
      (simp add: split_once_append trim_all_graphic challenge_field_quoted split: prod.split)
qed

end
