(* ===== verification/Mirror_Rules.thy ===== *)
theory Mirror_Rules
  imports Upstream_Client
begin

text \<open>
  Which mirror rule or proxy cache a repository belongs to, which upstream repository it stands for, and
  what a tag pattern matches (the pure helpers of \<^verbatim>\<open>mirror/mod.rs\<close>).
\<close>

section \<open>Rules, prefixes and patterns\<close>

definition RULES_CACHE_TTL_SECS :: u64 where "RULES_CACHE_TTL_SECS = 30"
definition PROXY_CACHE_TAG_VALIDATION_INTERVAL_SECS :: u64 where
  "PROXY_CACHE_TAG_VALIDATION_INTERVAL_SECS = 24 * 60 * 60"

datatype pull_mode = Eager | Lazy

fun dedup_segment :: "pull_mode \<Rightarrow> string" where
  "dedup_segment Eager = ''eager''"
| "dedup_segment Lazy = ''lazy''"

definition is_digest_reference :: "string \<Rightarrow> bool" where
  "is_digest_reference reference \<longleftrightarrow> from_str_checked reference \<noteq> None"

record validation_target =
  vt_cache_id :: string
  vt_repository :: string
  vt_tag :: string

definition for_reference :: "string \<Rightarrow> string \<Rightarrow> string \<Rightarrow> validation_target option" where
  "for_reference cache_id repository reference =
     (if is_digest_reference reference then None
      else Some \<lparr>vt_cache_id = cache_id, vt_repository = repository, vt_tag = reference\<rparr>)"

definition proxy_cache_tag_validation_is_fresh :: "proxy_cache_tag_validation \<Rightarrow> string \<Rightarrow> u64 \<Rightarrow> bool" where
  "proxy_cache_tag_validation_is_fresh validation local_digest now \<longleftrightarrow>
     tv_upstream_digest validation = local_digest \<and>
     saturating_sub_u64 now (tv_last_validated_at validation) < PROXY_CACHE_TAG_VALIDATION_INTERVAL_SECS"

definition make_upstream_ref :: "mirror_rule \<Rightarrow> string \<Rightarrow> upstream_ref" where
  "make_upstream_ref rule upstream_repo =
     upstream_ref_new (mr_upstream_registry rule) upstream_repo (mr_plain_http rule) (mr_insecure_tls rule)
       (mr_outbound_proxy rule) (mr_username rule) (mr_password rule)"

definition make_proxy_upstream_ref :: "proxy_cache \<Rightarrow> string \<Rightarrow> upstream_ref" where
  "make_proxy_upstream_ref cache upstream_repo =
     upstream_ref_new (pc_upstream_registry cache) upstream_repo (pc_plain_http cache) (pc_insecure_tls cache)
       (pc_outbound_proxy cache) (pc_username cache) (pc_password cache)"

definition trim_slashes :: "string \<Rightarrow> string" where
  "trim_slashes s = rev (dropWhile (\<lambda>c. c = CHR ''/'') (rev (dropWhile (\<lambda>c. c = CHR ''/'') s)))"

definition normalize_upstream_prefix :: "string option \<Rightarrow> string option" where
  "normalize_upstream_prefix prefix =
     Option.bind prefix (\<lambda>p. let trimmed = trim_slashes (trim p) in if trimmed = [] then None else Some trimmed)"

definition default_mirror_upstream_repo :: "mirror_rule \<Rightarrow> string" where
  "default_mirror_upstream_repo rule =
     (case normalize_upstream_prefix (mr_upstream_prefix rule) of None \<Rightarrow> mr_local_prefix rule | Some p \<Rightarrow> p)"

definition default_proxy_upstream_repo :: "proxy_cache \<Rightarrow> string" where
  "default_proxy_upstream_repo cache =
     (case normalize_upstream_prefix (pc_upstream_prefix cache) of None \<Rightarrow> pc_local_prefix cache | Some p \<Rightarrow> p)"

definition upstream_repo_from_prefix :: "string option \<Rightarrow> string \<Rightarrow> string option" where
  "upstream_repo_from_prefix prefix suffix =
     (case normalize_upstream_prefix prefix of
        Some p \<Rightarrow> if suffix = [] then Some p else Some (p @ ''/'' @ suffix)
      | None \<Rightarrow> if suffix = [] then None else Some suffix)"

definition prefix_suffix :: "string \<Rightarrow> string \<Rightarrow> string option" where
  "prefix_suffix repo prefix =
     (if repo = prefix then Some [] else Option.bind (strip_prefix prefix repo) (strip_prefix ''/''))"

text \<open>The upstream repository a rule or cache gives for a repository, when it covers it.\<close>

definition upstream_for :: "string \<Rightarrow> string option \<Rightarrow> string \<Rightarrow> string option" where
  "upstream_for local_prefix upstream_prefix repo =
     Option.bind (prefix_suffix repo local_prefix) (upstream_repo_from_prefix upstream_prefix)"

text \<open>The loop of \<^verbatim>\<open>match_rule\<close> and \<^verbatim>\<open>match_proxy_cache\<close>: a later candidate wins with a longer prefix only.\<close>

fun best_loop ::
  "('a \<Rightarrow> string) \<Rightarrow> ('a \<Rightarrow> string option) \<Rightarrow> 'a list \<Rightarrow> ('a \<times> string) option \<Rightarrow> ('a \<times> string) option" where
  "best_loop pre cand [] best = best"
| "best_loop pre cand (x # xs) best =
     (case cand x of
        None \<Rightarrow> best_loop pre cand xs best
      | Some upstream_repo \<Rightarrow>
          best_loop pre cand xs
            (if (case best of None \<Rightarrow> True | Some (existing, _) \<Rightarrow> length (pre x) > length (pre existing))
             then Some (x, upstream_repo) else best))"

definition match_rule :: "mirror_rule list \<Rightarrow> string \<Rightarrow> (mirror_rule \<times> string) option" where
  "match_rule rules repo =
     best_loop mr_local_prefix (\<lambda>rule.
       if mr_direction rule \<noteq> DirPull then None
       else upstream_for (mr_local_prefix rule) (mr_upstream_prefix rule) repo) rules None"

definition match_proxy_cache :: "proxy_cache list \<Rightarrow> string \<Rightarrow> (proxy_cache \<times> string) option" where
  "match_proxy_cache caches repo =
     best_loop pc_local_prefix (\<lambda>cache. upstream_for (pc_local_prefix cache) (pc_upstream_prefix cache) repo) caches None"

text \<open>\<^verbatim>\<open>rest = &rest[rest.find(part)? + part.len()..]\<close>\<close>

fun after_str :: "string \<Rightarrow> string \<Rightarrow> string option" where
  "after_str part [] = (if part = [] then Some [] else None)"
| "after_str part (c # rest) =
     (if starts_with part (c # rest) then Some (drop (length part) (c # rest)) else after_str part rest)"

fun glob_loop :: "string list \<Rightarrow> string \<Rightarrow> bool" where
  "glob_loop [] rest = True"
| "glob_loop (part # parts) rest =
     (case after_str part rest of None \<Rightarrow> False | Some rest' \<Rightarrow> glob_loop parts rest')"

definition glob_matches :: "string \<Rightarrow> string \<Rightarrow> bool" where
  "glob_matches pattern val =
     (if pattern = ''*'' then True
      else if \<not> contains_char (CHR ''*'') pattern then pattern = val
      else
        let parts = filter (\<lambda>p. p \<noteq> []) (split_char (CHR ''*'') pattern) in
        if parts = [] then True
        else if \<not> starts_with ''*'' pattern \<and> \<not> starts_with (hd parts) val then False
        else if \<not> glob_loop parts val then False
        else if \<not> ends_with ''*'' pattern then ends_with (last parts) val
        else True)"

subsection \<open>The longest prefix wins\<close>

lemma best_loop_spec:
  "case best_loop pre cand xs best of
     None \<Rightarrow> best = None \<and> (\<forall>x \<in> set xs. cand x = None)
   | Some (x, u) \<Rightarrow> (best = Some (x, u) \<or> x \<in> set xs \<and> cand x = Some u)
       \<and> (\<forall>y \<in> set xs. cand y \<noteq> None \<longrightarrow> length (pre y) \<le> length (pre x))
       \<and> (\<forall>y v. best = Some (y, v) \<longrightarrow> length (pre y) \<le> length (pre x))"
proof (induction xs arbitrary: best)
  case (Cons x xs)
  show ?case
  proof (cases "cand x")
    case None
    with Cons [of best] show ?thesis by (auto split: option.splits)
  next
    case (Some u)
    let ?new = "case best of None \<Rightarrow> True | Some (existing, _) \<Rightarrow> length (pre x) > length (pre existing)"
    show ?thesis
    proof (cases ?new)
      case True
      with Some Cons [of "Some (x, u)"] show ?thesis by (auto split: option.splits)
    next
      case False
      then obtain y v where "best = Some (y, v)" "length (pre x) \<le> length (pre y)" by (auto split: option.splits)
      with False Some Cons [of best] show ?thesis by (auto split: option.splits)
    qed
  qed
qed (auto split: option.splits)

lemma prefix_suffix_iff:
  "prefix_suffix repo pre = Some suf \<longleftrightarrow> (repo = pre \<and> suf = []) \<or> (repo \<noteq> pre \<and> repo = pre @ ''/'' @ suf)"
proof -
  have "Option.bind (strip_prefix pre repo) (strip_prefix ''/'') = Some suf \<longleftrightarrow> repo = pre @ ''/'' @ suf"
    by (auto simp: bind_eq_Some_conv strip_prefix_iff)
  then show ?thesis by (auto simp: prefix_suffix_def)
qed

subsection \<open>Patterns\<close>

text \<open>What a pattern means: a star stands for any text, every other character for itself.\<close>

fun glob :: "string \<Rightarrow> string \<Rightarrow> bool" where
  "glob [] v = (v = [])"
| "glob (p # ps) [] = (p = CHR ''*'' \<and> glob ps [])"
| "glob (p # ps) (c # v) =
     (if p = CHR ''*'' then glob ps (c # v) \<or> glob (p # ps) v else p = c \<and> glob ps v)"

fun tail_match :: "string list \<Rightarrow> string \<Rightarrow> bool" where
  "tail_match [] v = False"
| "tail_match [q] v = ends_with q v"
| "tail_match (q # q' # qs) v = (\<exists>a b. v = a @ q @ b \<and> tail_match (q' # qs) b)"

lemma glob_literal: "CHR ''*'' \<notin> set q \<Longrightarrow> glob (q @ p) v \<longleftrightarrow> (\<exists>b. v = q @ b \<and> glob p b)"
proof (induction q arbitrary: v)
  case (Cons c q)
  then show ?case by (cases v) auto
qed simp

lemma glob_star: "glob (CHR ''*'' # p) v \<longleftrightarrow> (\<exists>a b. v = a @ b \<and> glob p b)"
proof (induction v)
  case (Cons c v)
  have "(\<exists>a b. c # v = a @ b \<and> glob p b) \<longleftrightarrow> glob p (c # v) \<or> (\<exists>a b. v = a @ b \<and> glob p b)"
    by (metis append_Cons append_Nil append_eq_Cons_conv)
  with Cons show ?case by simp
qed simp

lemma glob_Nil_tail: "CHR ''*'' \<notin> set q \<Longrightarrow> glob q v \<longleftrightarrow> v = q"
  using glob_literal [of q "[]" v] by auto

lemma glob_join:
  assumes "qs \<noteq> []" and "\<forall>q \<in> set qs. CHR ''*'' \<notin> set q"
  shows "glob (CHR ''*'' # join ''*'' qs) v \<longleftrightarrow> tail_match qs v"
  using assms
proof (induction qs arbitrary: v rule: induct_list012)
  case (2 q)
  then show ?case by (auto simp: glob_star glob_Nil_tail ends_with_iff)
next
  case (3 q q' qs)
  then have "glob (CHR ''*'' # join ''*'' (q # q' # qs)) v \<longleftrightarrow> (\<exists>a b. v = a @ q @ b \<and> glob (CHR ''*'' # join ''*'' (q' # qs)) b)"
    by (auto simp: glob_star [of "q @ _"] glob_literal)
  with 3 show ?case by simp
qed simp

lemma tail_match_prefix: "tail_match qs b \<Longrightarrow> tail_match qs (x @ b)"
proof (induction qs arbitrary: b rule: induct_list012)
  case (2 q)
  then show ?case by (simp add: ends_with_iff) (metis append_assoc)
next
  case (3 q q' qs)
  then show ?case by (metis append_assoc tail_match.simps(3))
qed simp

lemma after_str_Some:
  assumes "after_str q v = Some r"
  shows "\<exists>a. v = a @ q @ r" and "v = a' @ q @ r' \<Longrightarrow> \<exists>x. r = x @ r'"
proof -
  show "\<exists>a. v = a @ q @ r"
    using assms
  proof (induction q v rule: after_str.induct)
    case (2 q c v)
    show ?case
    proof (cases "starts_with q (c # v)")
      case True
      with 2 show ?thesis by (auto simp: starts_with_iff)
    next
      case False
      with 2 show ?thesis by (metis after_str.simps(2) append_Cons)
    qed
  qed (auto split: if_splits)
  show "v = a' @ q @ r' \<Longrightarrow> \<exists>x. r = x @ r'"
    using assms
  proof (induction q v arbitrary: a' rule: after_str.induct)
    case (2 q c v)
    show ?case
    proof (cases "starts_with q (c # v)")
      case True
      with 2(3) have r: "c # v = q @ r" by (auto simp: starts_with_iff)
      with 2(2) have "q @ r = a' @ q @ r'" by simp
      then have "length r' \<le> length r" by (metis add_le_cancel_left le_add2 length_append)
      from \<open>q @ r = a' @ q @ r'\<close> have "drop (length (a' @ q)) (q @ r) = r'" by simp
      then have "drop (length a') r = r'" by (simp add: add.commute)
      then show ?thesis by (metis append_take_drop_id)
    next
      case False
      with 2(2) obtain a'' where "a' = c # a''" by (cases a') (auto simp: starts_with_iff)
      with 2 False show ?thesis by auto
    qed
  qed (auto split: if_splits)
qed

lemma after_str_None: "after_str q v = None \<longleftrightarrow> (\<nexists>a b. v = a @ q @ b)"
proof (induction q v rule: after_str.induct)
  case (2 q c v)
  have "(\<exists>a b. c # v = a @ q @ b) \<longleftrightarrow> starts_with q (c # v) \<or> (\<exists>a b. v = a @ q @ b)"
    by (metis (no_types, opaque_lifting) append_Cons append_Nil append_eq_Cons_conv starts_with_iff)
  with 2 show ?case by auto
qed auto

text \<open>The leftmost occurrence is as good as any, for a condition that more text in front cannot break.\<close>

lemma leftmost_suffices:
  assumes "\<And>x b. P b \<Longrightarrow> P (x @ b)"
  shows "(\<exists>a b. v = a @ q @ b \<and> P b) \<longleftrightarrow> (\<exists>r. after_str q v = Some r \<and> P r)"
proof (cases "after_str q v")
  case None
  then show ?thesis using after_str_None [of q v] by auto
next
  case (Some r)
  with after_str_Some [OF Some] assms show ?thesis by (metis option.inject)
qed

lemma glob_loop_Cons: "glob_loop (q # qs) v \<longleftrightarrow> (\<exists>r. after_str q v = Some r \<and> glob_loop qs r)"
  by (auto split: option.splits)

lemma glob_loop_last: "glob_loop (qs @ [l]) v \<Longrightarrow> \<exists>a b. v = a @ l @ b"
proof (induction qs arbitrary: v)
  case Nil
  then show ?case using after_str_Some(1) [of l v] by (fastforce split: option.splits)
next
  case (Cons q qs)
  then obtain r where "after_str q v = Some r" "glob_loop (qs @ [l]) r" by (auto split: option.splits)
  with Cons.IH after_str_Some(1) show ?case by (metis append_assoc)
qed

lemma ends_with_suffix: "ends_with l (a @ r) \<Longrightarrow> length l \<le> length r \<Longrightarrow> ends_with l r"
  by (auto simp: ends_with_iff append_eq_append_conv2)

lemma tail_match_loop:
  "tail_match (ms @ [l]) v \<longleftrightarrow> (if l = [] then glob_loop ms v else glob_loop (ms @ [l]) v \<and> ends_with l v)"
proof (induction ms arbitrary: v)
  case Nil
  show ?case
  proof (cases "l = []")
    case False
    have "glob_loop [l] v" if "ends_with l v"
      using that after_str_None [of l v] by (fastforce simp: ends_with_iff split: option.splits)
    with False show ?thesis by auto
  qed (simp add: ends_with_iff)
next
  case (Cons m ms)
  have "tail_match ((m # ms) @ [l]) v \<longleftrightarrow> (\<exists>a b. v = a @ m @ b \<and> tail_match (ms @ [l]) b)"
    by (cases ms) simp_all
  also have "\<dots> \<longleftrightarrow> (\<exists>r. after_str m v = Some r \<and> tail_match (ms @ [l]) r)"
    by (rule leftmost_suffices) (rule tail_match_prefix)
  also have "\<dots> \<longleftrightarrow> (if l = [] then glob_loop (m # ms) v else glob_loop (m # ms @ [l]) v \<and> ends_with l v)"
  proof -
    have "ends_with l r" if r: "after_str m v = Some r" "glob_loop (ms @ [l]) r" "ends_with l v" for r
    proof -
      from r(1) obtain a where "v = (a @ m) @ r" using after_str_Some(1) by fastforce
      moreover have "length l \<le> length r" using glob_loop_last [OF r(2)] by auto
      ultimately show ?thesis using r(3) ends_with_suffix by blast
    qed
    moreover have "ends_with l v" if "after_str m v = Some r" "ends_with l r" for r
      using after_str_Some(1) [OF that(1)] that(2) by (auto simp: ends_with_iff)
    ultimately show ?thesis unfolding Cons.IH glob_loop_Cons by auto
  qed
  finally show ?case by simp
qed

lemma tail_match_drop_empty:
  assumes "qs \<noteq> []"
  shows "tail_match qs v \<longleftrightarrow> tail_match (filter (\<lambda>q. q \<noteq> []) (butlast qs) @ [last qs]) v"
  using assms
proof (induction qs arbitrary: v rule: induct_list012)
  case (3 q q' qs)
  let ?rest = "filter (\<lambda>q. q \<noteq> []) (butlast (q' # qs)) @ [last (q' # qs)]"
  have IH: "tail_match (q' # qs) b \<longleftrightarrow> tail_match ?rest b" for b using 3 by blast
  obtain r rs where rest: "?rest = r # rs" by (cases ?rest) auto
  show ?case
  proof (cases "q = []")
    case True
    have "(\<exists>a b. v = a @ b \<and> tail_match (q' # qs) b) \<longleftrightarrow> tail_match (q' # qs) v"
      using tail_match_prefix by (metis append_Nil)
    with True IH show ?thesis by simp
  next
    case False
    then have "filter (\<lambda>q. q \<noteq> []) (butlast (q # q' # qs)) @ [last (q # q' # qs)] = q # ?rest" by simp
    with IH show ?thesis by (simp only: rest tail_match.simps)
  qed
qed simp_all

lemma after_str_append: "after_str q (q @ b) = Some b"
proof (cases "q @ b")
  case (Cons c r)
  then have "starts_with q (c # r)" "drop (length q) (c # r) = b" by (metis starts_with_append, metis append_eq_conv_conj)
  then show ?thesis unfolding Cons by simp
qed simp

lemma join_snoc: "xs \<noteq> [] \<Longrightarrow> join sep (xs @ [l]) = join sep xs @ sep @ l"
  by (induction xs rule: induct_list012) auto

lemma starred_pattern:
  assumes "contains_char (CHR ''*'') pattern"
  obtains q ms l where "split_char (CHR ''*'') pattern = q # ms @ [l]" "pattern = q @ ''*'' @ join ''*'' (ms @ [l])"
    "starts_with ''*'' pattern \<longleftrightarrow> q = []" "ends_with ''*'' pattern \<longleftrightarrow> l = []"
    "\<forall>x \<in> set (q # ms @ [l]). CHR ''*'' \<notin> set x"
proof -
  obtain q qs where split: "split_char (CHR ''*'') pattern = q # qs" by (cases "split_char (CHR ''*'') pattern") auto
  have joined: "join ''*'' (q # qs) = pattern" using split join_split_char by metis
  have parts: "\<forall>x \<in> set (q # qs). CHR ''*'' \<notin> set x" using split split_char_parts by metis
  have "qs \<noteq> []" using assms joined parts by (cases qs) (auto simp: contains_char_def)
  then obtain ms l where qs: "qs = ms @ [l]" by (metis append_butlast_last_id)
  have first: "pattern = q @ ''*'' @ join ''*'' (ms @ [l])" using joined qs by (cases "ms @ [l]") auto
  have final: "pattern = join ''*'' (q # ms) @ ''*'' @ l" using joined qs join_snoc [of "q # ms" "''*''" l] by simp
  have "starts_with ''*'' pattern \<longleftrightarrow> q = []" using first parts by (cases q) (auto simp: starts_with_iff)
  moreover have "ends_with ''*'' pattern \<longleftrightarrow> l = []"
  proof (cases "l = []")
    case False
    then have "last pattern = last l" using final by simp
    moreover have "last l \<noteq> CHR ''*''" using False parts qs last_in_set by fastforce
    ultimately show ?thesis using False by (auto simp: ends_with_iff)
  qed (use final in \<open>auto simp: ends_with_iff\<close>)
  ultimately show ?thesis using that split first parts qs by blast
qed

lemma glob_matches_iff: "glob_matches pattern v \<longleftrightarrow> glob pattern v"
proof (cases "contains_char (CHR ''*'') pattern")
  case False
  then show ?thesis by (auto simp: glob_matches_def contains_char_def glob_Nil_tail)
next
  case True
  then obtain q ms0 l where split: "split_char (CHR ''*'') pattern = q # ms0 @ [l]"
    and pat: "pattern = q @ ''*'' @ join ''*'' (ms0 @ [l])"
    and st: "starts_with ''*'' pattern \<longleftrightarrow> q = []" and en: "ends_with ''*'' pattern \<longleftrightarrow> l = []"
    and parts: "\<forall>x \<in> set (q # ms0 @ [l]). CHR ''*'' \<notin> set x" by (rule starred_pattern)
  let ?ms = "filter (\<lambda>p. p \<noteq> []) ms0"
  let ?P = "(if q = [] then [] else [q]) @ ?ms @ (if l = [] then [] else [l])"
  have P: "filter (\<lambda>p. p \<noteq> []) (split_char (CHR ''*'') pattern) = ?P" by (simp add: split)
  have "glob pattern v \<longleftrightarrow> (\<exists>b. v = q @ b \<and> glob (CHR ''*'' # join ''*'' (ms0 @ [l])) b)"
    unfolding pat using parts by (subst glob_literal) simp_all
  also have "\<dots> \<longleftrightarrow> (\<exists>b. v = q @ b \<and> tail_match (?ms @ [l]) b)"
    using parts tail_match_drop_empty [of "ms0 @ [l]"] by (subst glob_join) auto
  also have "\<dots> \<longleftrightarrow> (\<exists>b. v = q @ b \<and> (if l = [] then glob_loop ?ms b else glob_loop (?ms @ [l]) b \<and> ends_with l b))"
    by (simp only: tail_match_loop)
  finally have glob: "glob pattern v \<longleftrightarrow> (\<exists>b. v = q @ b \<and> (if l = [] then glob_loop ?ms b else glob_loop (?ms @ [l]) b \<and> ends_with l b))" .
  have first: "glob_loop (q # ps) (q @ b) = glob_loop ps b" for ps b
    by (simp add: after_str_append)
  have main: "glob_loop ?P v \<and> (q = [] \<or> starts_with q v) \<and> (l = [] \<or> ends_with l v) \<longleftrightarrow> glob pattern v"
  proof (cases "q = [] \<or> starts_with q v")
    case True
    then obtain b where b: "v = q @ b" by (auto simp: starts_with_iff)
    have "glob_loop ?P v \<longleftrightarrow> glob_loop (?ms @ (if l = [] then [] else [l])) b"
      using b first by (cases "q = []") simp_all
    moreover have "ends_with l b" if "glob_loop (?ms @ [l]) b" "ends_with l v"
      using glob_loop_last [OF that(1)] that(2) ends_with_suffix [of l q b] b by auto
    moreover have "ends_with l v" if "ends_with l b" using that b by (auto simp: ends_with_iff)
    ultimately show ?thesis unfolding glob using True b by auto
  qed (auto simp: glob starts_with_iff)
  have hd: "q \<noteq> [] \<longrightarrow> hd ?P = q" and lst: "l \<noteq> [] \<longrightarrow> last ?P = l" by simp_all
  have none: "?P = [] \<longrightarrow> glob pattern v" unfolding glob by simp
  have star: "pattern = ''*'' \<longrightarrow> ?P = []" using P by auto
  obtain ps where ps: "?P = ps" by blast
  note facts = main [unfolded ps] hd [unfolded ps] lst [unfolded ps] none [unfolded ps] star [unfolded ps]
  show ?thesis
    unfolding glob_matches_def P ps Let_def st en
    using True facts by (cases "ps = []"; cases "q = []"; cases "l = []") (simp_all, blast+)
qed

end
