(* ===== verification/Mirror.thy ===== *)
theory Mirror
  imports Metadata_Store Blob_Store Mirror_Rules
begin

text \<open>
  Mirroring and pull-through caching (\<^verbatim>\<open>mirror/mod.rs\<close>): which rule or cache a repository belongs to,
  which tags a job covers, pulling manifests with everything below them, and pushing them upstream.

  The manager works on the metadata store, the blob store and the client of the same world.  Its caches
  of rules and the set of pulls in flight are fields of the struct, read and replaced through \<open>mirror\<close>;
  what other tasks do while one waits for a pull in flight is \<open>mm_wait\<close>.
\<close>

section \<open>State of the manager\<close>

record 'w mirror =
  mm_node :: "'w raft_node"
  mm_blobs :: "'w object_store"
  mm_net :: "'w upstream_net"
  mm_from_slice :: "string \<Rightarrow> (json, msg) result"
  mm_rules_cache :: "'w \<Rightarrow> mirror_rule list \<times> u64"
  mm_set_rules_cache :: "mirror_rule list \<times> u64 \<Rightarrow> 'w \<Rightarrow> 'w"
  mm_proxy_cache :: "'w \<Rightarrow> proxy_cache list \<times> u64"
  mm_set_proxy_cache :: "proxy_cache list \<times> u64 \<Rightarrow> 'w \<Rightarrow> 'w"
  mm_instant :: "'w \<Rightarrow> u64"
  mm_elapsed_secs :: "u64 \<Rightarrow> 'w \<Rightarrow> u64"
  mm_inflight :: "'w \<Rightarrow> string set"
  mm_set_inflight :: "string set \<Rightarrow> 'w \<Rightarrow> 'w"
  mm_wait :: "string \<Rightarrow> 'w \<Rightarrow> 'w"

definition invalidate_proxy_cache :: "'w mirror \<Rightarrow> ('w, unit) io" where
  "invalidate_proxy_cache mm = io_update (\<lambda>w. mm_set_proxy_cache mm ([], snd (mm_proxy_cache mm w)) w)"

definition invalidate_rules_cache :: "'w mirror \<Rightarrow> ('w, unit) io" where
  "invalidate_rules_cache mm = io_update (\<lambda>w. mm_set_rules_cache mm ([], snd (mm_rules_cache mm w)) w)"

definition get_rules :: "'w mirror \<Rightarrow> ('w, mirror_rule list) io" where
  "get_rules mm w =
     (let cache = mm_rules_cache mm w in
      if fst cache \<noteq> [] \<and> mm_elapsed_secs mm (snd cache) w < RULES_CACHE_TTL_SECS then (Ok (fst cache), w)
      else
        io_bind (rms_list_mirror_rules (mm_node mm)) (\<lambda>rules.
        io_bind (io_update (\<lambda>w. mm_set_rules_cache mm (rules, mm_instant mm w) w)) (\<lambda>_. io_return rules)) w)"

definition get_proxy_caches :: "'w mirror \<Rightarrow> ('w, proxy_cache list) io" where
  "get_proxy_caches mm w =
     (let cache = mm_proxy_cache mm w in
      if fst cache \<noteq> [] \<and> mm_elapsed_secs mm (snd cache) w < RULES_CACHE_TTL_SECS then (Ok (fst cache), w)
      else
        io_bind (rms_list_proxy_caches (mm_node mm)) (\<lambda>caches.
        io_bind (io_update (\<lambda>w. mm_set_proxy_cache mm (caches, mm_instant mm w) w)) (\<lambda>_. io_return caches)) w)"

text \<open>
  One pull per key at a time: a second one waits for the first and then looks at what it left; the key
  is released whether the pull succeeds or not.
\<close>

definition deduped :: "'w mirror \<Rightarrow> string \<Rightarrow> ('w, 'a) io \<Rightarrow> ('w, 'a) pio \<Rightarrow> ('w, 'a) pio" where
  "deduped mm key waiting body w =
     (if key \<in> mm_inflight mm w then Some (waiting (mm_wait mm key w))
      else (case body (mm_set_inflight mm (insert key (mm_inflight mm w)) w) of
          None \<Rightarrow> None
        | Some (r, w') \<Rightarrow> Some (r, mm_set_inflight mm (mm_inflight mm w' - {key}) w')))"

section \<open>Tags of a job\<close>

definition latest_tags :: "'w mirror \<Rightarrow> upstream_ref \<Rightarrow> u32 \<Rightarrow> ('w, string list) pio" where
  "latest_tags mm u cnt =
     pio_bind (upstream_list_tags (mm_net mm) u) (\<lambda>ts. pio_return (take (unat cnt) (rev (sort ts))))"

definition resolve_mirror_strategy_tags :: "'w mirror \<Rightarrow> mirror_strategy \<Rightarrow> upstream_ref \<Rightarrow> ('w, string list) pio" where
  "resolve_mirror_strategy_tags mm strategy u =
     (case strategy of
        StrategyAll \<Rightarrow> upstream_list_tags (mm_net mm) u
      | StrategyLatest cnt \<Rightarrow> latest_tags mm u cnt
      | StrategyPattern pattern \<Rightarrow>
          pio_bind (upstream_list_tags (mm_net mm) u) (\<lambda>ts. pio_return (filter (glob_matches pattern) ts)))"

text \<open>Newest first, by tag within the same time: two stable sorts.\<close>

definition newest_tags :: "manifest_summary list \<Rightarrow> u32 \<Rightarrow> string list" where
  "newest_tags summaries cnt =
     (let tagged = concat (map (\<lambda>s. map (\<lambda>t. (t, ms_last_modified s)) (ms_tags s)) summaries) in
      map fst (take (unat cnt) (sort_key (\<lambda>(t, m). - uint m) (sort_key fst tagged))))"

definition resolve_local_strategy_tags :: "'w mirror \<Rightarrow> mirror_strategy \<Rightarrow> string \<Rightarrow> ('w, string list) io" where
  "resolve_local_strategy_tags mm strategy local_repo =
     (case strategy of
        StrategyAll \<Rightarrow> rms_list_tags (mm_node mm) local_repo None None
      | StrategyLatest cnt \<Rightarrow>
          io_bind (rms_list_manifest_summaries (mm_node mm) local_repo) (\<lambda>summaries. io_return (newest_tags summaries cnt))
      | StrategyPattern pattern \<Rightarrow>
          io_bind (rms_list_tags (mm_node mm) local_repo None None) (\<lambda>ts. io_return (filter (glob_matches pattern) ts)))"

definition all_tags_once :: "'w mirror \<Rightarrow> upstream_ref \<Rightarrow> string list option \<Rightarrow> ('w, string list) pio" where
  "all_tags_once mm u known = (case known of Some ts \<Rightarrow> pio_return ts | None \<Rightarrow> upstream_list_tags (mm_net mm) u)"

fun warm_loop :: "'w mirror \<Rightarrow> upstream_ref \<Rightarrow> warm_filter list \<Rightarrow> string list \<Rightarrow> string list option \<Rightarrow> ('w, string list) pio" where
  "warm_loop mm u [] selected known = pio_return selected"
| "warm_loop mm u (WarmNone # filters) selected known = warm_loop mm u filters selected known"
| "warm_loop mm u (WarmAll # filters) selected known =
     pio_bind (all_tags_once mm u known) (\<lambda>ts. warm_loop mm u filters (selected @ ts) (Some ts))"
| "warm_loop mm u (WarmLatest cnt sort_by # filters) selected known =
     pio_bind (latest_tags mm u cnt) (\<lambda>ts. warm_loop mm u filters (selected @ ts) known)"
| "warm_loop mm u (WarmPattern pattern # filters) selected known =
     pio_bind (all_tags_once mm u known) (\<lambda>ts. warm_loop mm u filters (selected @ filter (glob_matches pattern) ts) (Some ts))"

definition resolve_warm_filter_tags :: "'w mirror \<Rightarrow> warm_filter list \<Rightarrow> upstream_ref \<Rightarrow> ('w, string list) pio" where
  "resolve_warm_filter_tags mm filters u =
     pio_bind (warm_loop mm u filters [] None) (\<lambda>selected. pio_return (remdups_adj (sort selected)))"

record resolved_mirror_job =
  rj_direction :: mirror_direction
  rj_local_repo :: string
  rj_tags :: "string list"

definition resolve_mirror_job :: "'w mirror \<Rightarrow> string \<Rightarrow> ('w, resolved_mirror_job) pio" where
  "resolve_mirror_job mm rule_id =
     pio_bind (pio_run (rms_get_mirror_rule (mm_node mm) rule_id)) (\<lambda>found.
       case found of
         None \<Rightarrow> pio_fail (NameUnknown [Disp rule_id])
       | Some rule \<Rightarrow>
           if mr_direction rule = DirPush then
             pio_bind (pio_run (resolve_local_strategy_tags mm (mr_strategy rule) (mr_local_prefix rule))) (\<lambda>ts.
               pio_return \<lparr>rj_direction = DirPush, rj_local_repo = mr_local_prefix rule, rj_tags = ts\<rparr>)
           else
             let u = make_upstream_ref rule (default_mirror_upstream_repo rule) in
             pio_bind (resolve_mirror_strategy_tags mm (mr_strategy rule) u) (\<lambda>ts.
             pio_bind (pio_run (invalidate_rules_cache mm)) (\<lambda>_.
               pio_return \<lparr>rj_direction = DirPull, rj_local_repo = mr_local_prefix rule, rj_tags = ts\<rparr>)))"

definition resolve_proxy_cache_job :: "'w mirror \<Rightarrow> string \<Rightarrow> ('w, string \<times> string list) pio" where
  "resolve_proxy_cache_job mm cache_id =
     pio_bind (pio_run (rms_get_proxy_cache (mm_node mm) cache_id)) (\<lambda>found.
       case found of
         None \<Rightarrow> pio_fail (NameUnknown [Disp cache_id])
       | Some cache \<Rightarrow>
           let u = make_proxy_upstream_ref cache (default_proxy_upstream_repo cache) in
           pio_bind (resolve_warm_filter_tags mm (pc_warm_filters cache) u) (\<lambda>ts.
           pio_bind (pio_run (invalidate_proxy_cache mm)) (\<lambda>_. pio_return (pc_local_prefix cache, ts))))"

section \<open>Pulling\<close>

definition head_manifest_from_proxy_cache :: "'w mirror \<Rightarrow> string \<Rightarrow> string \<Rightarrow> ('w, manifest_head option) io" where
  "head_manifest_from_proxy_cache mm repo reference =
     io_bind (get_proxy_caches mm) (\<lambda>caches.
       case match_proxy_cache caches repo of
         None \<Rightarrow> io_return None
       | Some (cache, upstream_repo) \<Rightarrow>
           let u = make_proxy_upstream_ref cache upstream_repo in
           io_bind (ensure_auth (mm_net mm) u) (\<lambda>_. upstream_head_manifest (mm_net mm) u reference))"

definition head_manifest_from_mirror_rule :: "'w mirror \<Rightarrow> string \<Rightarrow> string \<Rightarrow> ('w, manifest_head option) io" where
  "head_manifest_from_mirror_rule mm repo reference =
     io_bind (get_rules mm) (\<lambda>rules.
       case match_rule rules repo of
         None \<Rightarrow> io_return None
       | Some (rule, upstream_repo) \<Rightarrow>
           let u = make_upstream_ref rule upstream_repo in
           io_bind (ensure_auth (mm_net mm) u) (\<lambda>_. upstream_head_manifest (mm_net mm) u reference))"

definition mirror_head_manifest :: "'w mirror \<Rightarrow> string \<Rightarrow> string \<Rightarrow> ('w, manifest_head option) io" where
  "mirror_head_manifest mm repo reference =
     io_bind (head_manifest_from_proxy_cache mm repo reference) (\<lambda>head.
       case head of Some h \<Rightarrow> io_return (Some h) | None \<Rightarrow> head_manifest_from_mirror_rule mm repo reference)"

definition put_pulled_entry :: "'w mirror \<Rightarrow> string \<Rightarrow> string \<Rightarrow> manifest_data \<Rightarrow> json \<Rightarrow> ('w, unit) io" where
  "put_pulled_entry mm repo reference data parsed =
     (let sha = env_sha_hex (rn_env (mm_node mm)); digest_ref = digest_to_string (digest_sha256 sha (md_body data)) in
      io_bind (io_read (\<lambda>w. entry_from_parsed_json sha (rn_now (mm_node mm) w) parsed (md_content_type data) (md_body data)
          (extract_referenced_digests parsed))) (\<lambda>entry.
      io_bind (rms_put_manifest (mm_node mm) repo reference entry) (\<lambda>_.
        if reference \<noteq> digest_ref then rms_put_manifest (mm_node mm) repo digest_ref entry else io_return ())))"

definition invalid_json :: "msg \<Rightarrow> layerhouse_error" where
  "invalid_json e = Upstream (Lit ''invalid manifest JSON: '' # e)"

definition store_manifest_only :: "'w mirror \<Rightarrow> string \<Rightarrow> string \<Rightarrow> manifest_data \<Rightarrow> ('w, unit) io" where
  "store_manifest_only mm repo reference data =
     (case mm_from_slice mm (md_body data) of
        Inl e \<Rightarrow> io_fail (invalid_json e)
      | Inr parsed \<Rightarrow> put_pulled_entry mm repo reference data parsed)"

definition pull_one_blob :: "'w mirror \<Rightarrow> upstream_ref \<Rightarrow> blob_descriptor \<Rightarrow> ('w, unit) io" where
  "pull_one_blob mm u blob =
     (case from_str_checked (desc_digest blob) of
        None \<Rightarrow> io_return ()
      | Some d \<Rightarrow>
          io_match (stat (mm_blobs mm) d) (\<lambda>r.
            if is_ok r then io_return ()
            else io_bind (upstream_get_blob (mm_net mm) u (desc_digest blob)) (\<lambda>resp.
              put_streaming (mm_blobs mm) d (rs_body resp))))"

definition pull_blobs :: "'w mirror \<Rightarrow> upstream_ref \<Rightarrow> blob_descriptor list \<Rightarrow> ('w, unit) io" where
  "pull_blobs mm u descs = io_for descs (pull_one_blob mm u)"

text \<open>
  A loop over a stack of work items.  Each step takes one item off and may push others; an error ends it.
  The number of steps depends on what the other side serves.
\<close>

partial_function (option) work_loop ::
  "('f \<Rightarrow> 's \<Rightarrow> ('w, 'f list \<times> 's) io) \<Rightarrow> 'f list \<Rightarrow> 's \<Rightarrow> 'w \<Rightarrow> ('s lh_result \<times> 'w) option" where
  "work_loop step stack st w =
     (case stack of
        [] \<Rightarrow> Some (Ok st, w)
      | f # rest \<Rightarrow>
          (case step f st w of
             (Inl e, w') \<Rightarrow> Some (Err e, w')
           | (Inr (pushed, st'), w') \<Rightarrow> work_loop step (pushed @ rest) st' w'))"

datatype frame = FProcess string manifest_data | FStore string manifest_data json

definition child_data :: "'w mirror \<Rightarrow> string \<Rightarrow> upstream_ref \<Rightarrow> string \<Rightarrow> ('w, manifest_data) io" where
  "child_data mm repo u dig =
     io_bind (rms_get_manifest (mm_node mm) repo dig) (\<lambda>existing.
       case existing of
         Some e \<Rightarrow> io_return \<lparr>md_body = me_body e, md_content_type = me_content_type e, md_digest = digest_to_string (me_digest e)\<rparr>
       | None \<Rightarrow> upstream_get_manifest (mm_net mm) u dig)"

text \<open>The children are fetched from the last to the first, so that the first is on top of the stack.\<close>

fun push_children :: "'w mirror \<Rightarrow> string \<Rightarrow> upstream_ref \<Rightarrow> blob_descriptor list \<Rightarrow> frame list \<Rightarrow> ('w, frame list) io" where
  "push_children mm repo u [] stack = io_return stack"
| "push_children mm repo u (child # children) stack =
     io_bind (child_data mm repo u (desc_digest child)) (\<lambda>data.
       push_children mm repo u children (FProcess (desc_digest child) data # stack))"

definition body_digest :: "'w mirror \<Rightarrow> string \<Rightarrow> string" where
  "body_digest mm body = digest_to_string (digest_sha256 (env_sha_hex (rn_env (mm_node mm))) body)"

fun store_step :: "'w mirror \<Rightarrow> string \<Rightarrow> upstream_ref \<Rightarrow> frame \<Rightarrow> string list \<Rightarrow> ('w, frame list \<times> string list) io" where
  "store_step mm repo u (FProcess reference data) visited =
     (if body_digest mm (md_body data) \<in> set visited then io_return ([], visited)
      else
        let visited' = body_digest mm (md_body data) # visited in
        (case mm_from_slice mm (md_body data) of
           Inl e \<Rightarrow> io_fail (invalid_json e)
         | Inr parsed \<Rightarrow>
             if is_index_manifest (md_content_type data) then
               io_bind (push_children mm repo u (rev (extract_child_manifests parsed)) [FStore reference data parsed]) (\<lambda>stack.
                 io_return (stack, visited'))
             else
               io_bind (pull_blobs mm u (extract_blob_descriptors parsed)) (\<lambda>_.
               io_bind (put_pulled_entry mm repo reference data parsed) (\<lambda>_. io_return ([], visited')))))"
| "store_step mm repo u (FStore reference data parsed) visited =
     io_bind (put_pulled_entry mm repo reference data parsed) (\<lambda>_. io_return ([], visited))"

definition store_manifest_recursive :: "'w mirror \<Rightarrow> string \<Rightarrow> string \<Rightarrow> manifest_data \<Rightarrow> upstream_ref \<Rightarrow> ('w, unit) pio" where
  "store_manifest_recursive mm repo reference data u =
     pio_bind (work_loop (store_step mm repo u) [FProcess reference data] []) (\<lambda>_. pio_return ())"

record pull_context =
  px_repo :: string
  px_reference :: string
  px_upstream :: upstream_ref
  px_mode :: pull_mode
  px_validation :: "validation_target option"

definition record_validation :: "'w mirror \<Rightarrow> validation_target option \<Rightarrow> string \<Rightarrow> ('w, unit) io" where
  "record_validation mm target upstream_digest =
     (case target of
        None \<Rightarrow> io_return ()
      | Some t \<Rightarrow>
          io_bind (io_read (rn_now (mm_node mm))) (\<lambda>now.
            rms_put_proxy_cache_tag_validation (mm_node mm)
              \<lparr>tv_cache_id = vt_cache_id t, tv_repository = vt_repository t, tv_tag = vt_tag t,
               tv_upstream_digest = upstream_digest, tv_last_validated_at = now\<rparr>))"

definition do_pull_after_head :: "'w mirror \<Rightarrow> pull_context \<Rightarrow> manifest_head \<Rightarrow> ('w, manifest_entry option) pio" where
  "do_pull_after_head mm ctx head =
     pio_match (pio_run (rms_get_manifest (mm_node mm) (px_repo ctx) (px_reference ctx))) (\<lambda>r.
       let existing = (case r of Inl _ \<Rightarrow> None | Inr found \<Rightarrow> found); fetch =
         pio_bind (pio_run (upstream_get_manifest (mm_net mm) (px_upstream ctx) (px_reference ctx))) (\<lambda>data.
         pio_bind (case px_mode ctx of
             Eager \<Rightarrow> store_manifest_recursive mm (px_repo ctx) (px_reference ctx) data (px_upstream ctx)
           | Lazy \<Rightarrow> pio_run (store_manifest_only mm (px_repo ctx) (px_reference ctx) data)) (\<lambda>_.
         pio_bind (pio_run (rms_get_manifest (mm_node mm) (px_repo ctx) (px_reference ctx))) (\<lambda>entry.
         pio_bind (pio_run (if entry \<noteq> None then record_validation mm (px_validation ctx) (mh_digest head) else io_return ())) (\<lambda>_.
           pio_return entry)))) in
       case existing of
         None \<Rightarrow> fetch
       | Some here \<Rightarrow>
           if digest_to_string (me_digest here) = mh_digest head then
             pio_bind (case px_mode ctx of
                 Eager \<Rightarrow> store_manifest_recursive mm (px_repo ctx) (px_reference ctx)
                   \<lparr>md_body = me_body here, md_content_type = me_content_type here, md_digest = digest_to_string (me_digest here)\<rparr>
                   (px_upstream ctx)
               | Lazy \<Rightarrow> pio_return ()) (\<lambda>_.
             pio_bind (pio_run (record_validation mm (px_validation ctx) (mh_digest head))) (\<lambda>_. pio_return (Some here)))
           else fetch)"

definition do_pull :: "'w mirror \<Rightarrow> pull_context \<Rightarrow> ('w, manifest_entry option) pio" where
  "do_pull mm ctx =
     pio_bind (pio_run (ensure_auth (mm_net mm) (px_upstream ctx))) (\<lambda>_.
     pio_bind (pio_run (upstream_head_manifest (mm_net mm) (px_upstream ctx) (px_reference ctx))) (\<lambda>head.
       case head of None \<Rightarrow> pio_return None | Some h \<Rightarrow> do_pull_after_head mm ctx h))"

definition pull_manifest_from_proxy_cache :: "'w mirror \<Rightarrow> string \<Rightarrow> string \<Rightarrow> pull_mode \<Rightarrow> ('w, manifest_entry option) pio" where
  "pull_manifest_from_proxy_cache mm repo reference mode =
     pio_bind (pio_run (get_proxy_caches mm)) (\<lambda>caches.
       case match_proxy_cache caches repo of
         None \<Rightarrow> pio_return None
       | Some (cache, upstream_repo) \<Rightarrow>
           deduped mm (''proxy-cache:'' @ dedup_segment mode @ '':'' @ repo @ '':'' @ reference)
             (rms_get_manifest (mm_node mm) repo reference)
             (do_pull mm \<lparr>px_repo = repo, px_reference = reference, px_upstream = make_proxy_upstream_ref cache upstream_repo,
               px_mode = mode, px_validation = for_reference (pc_id cache) repo reference\<rparr>))"

definition pull_manifest_from_mirror_rule :: "'w mirror \<Rightarrow> string \<Rightarrow> string \<Rightarrow> pull_mode \<Rightarrow> ('w, manifest_entry option) pio" where
  "pull_manifest_from_mirror_rule mm repo reference mode =
     pio_bind (pio_run (get_rules mm)) (\<lambda>rules.
       if rules = [] then pio_return None
       else (case match_rule rules repo of
           None \<Rightarrow> pio_return None
         | Some (rule, upstream_repo) \<Rightarrow>
             deduped mm (dedup_segment mode @ '':'' @ repo @ '':'' @ reference)
               (rms_get_manifest (mm_node mm) repo reference)
               (do_pull mm \<lparr>px_repo = repo, px_reference = reference, px_upstream = make_upstream_ref rule upstream_repo,
                 px_mode = mode, px_validation = None\<rparr>)))"

definition pull_manifest_with_mode :: "'w mirror \<Rightarrow> string \<Rightarrow> string \<Rightarrow> pull_mode \<Rightarrow> ('w, manifest_entry option) pio" where
  "pull_manifest_with_mode mm repo reference mode =
     pio_bind (pull_manifest_from_proxy_cache mm repo reference mode) (\<lambda>result.
       case result of
         Some e \<Rightarrow> pio_return (Some e)
       | None \<Rightarrow> pull_manifest_from_mirror_rule mm repo reference mode)"

definition pull_manifest :: "'w mirror \<Rightarrow> string \<Rightarrow> string \<Rightarrow> ('w, manifest_entry option) pio" where
  "pull_manifest mm repo reference = pull_manifest_with_mode mm repo reference Eager"

definition pull_manifest_lazy :: "'w mirror \<Rightarrow> string \<Rightarrow> string \<Rightarrow> ('w, manifest_entry option) pio" where
  "pull_manifest_lazy mm repo reference = pull_manifest_with_mode mm repo reference Lazy"

definition validate_cached_proxy_tag_inner :: "'w mirror \<Rightarrow> manifest_entry \<Rightarrow> pull_context \<Rightarrow> ('w, manifest_entry) pio" where
  "validate_cached_proxy_tag_inner mm here ctx =
     pio_bind (pio_run (ensure_auth (mm_net mm) (px_upstream ctx))) (\<lambda>_.
     pio_bind (pio_run (upstream_head_manifest (mm_net mm) (px_upstream ctx) (px_reference ctx))) (\<lambda>head.
       case head of
         None \<Rightarrow> pio_fail (ManifestUnknown [Disp (px_reference ctx)])
       | Some h \<Rightarrow>
           if digest_to_string (me_digest here) = mh_digest h then
             pio_bind (pio_run (record_validation mm (px_validation ctx) (mh_digest h))) (\<lambda>_. pio_return here)
           else
             pio_bind (do_pull_after_head mm ctx h) (\<lambda>refreshed.
               case refreshed of None \<Rightarrow> pio_fail (ManifestUnknown [Disp (px_reference ctx)]) | Some e \<Rightarrow> pio_return e)))"

text \<open>Whatever goes wrong upstream, the cached manifest is served.\<close>

definition stored_or :: "'w mirror \<Rightarrow> string \<Rightarrow> string \<Rightarrow> manifest_entry \<Rightarrow> ('w, manifest_entry option) io" where
  "stored_or mm repo reference here =
     io_bind (rms_get_manifest (mm_node mm) repo reference) (\<lambda>e. io_return (Some (case e of None \<Rightarrow> here | Some e \<Rightarrow> e)))"

definition validate_cached_proxy_tag :: "'w mirror \<Rightarrow> string \<Rightarrow> string \<Rightarrow> manifest_entry \<Rightarrow> ('w, manifest_entry option) pio" where
  "validate_cached_proxy_tag mm repo reference here =
     pio_bind (pio_run (get_proxy_caches mm)) (\<lambda>caches.
       case match_proxy_cache caches repo of
         None \<Rightarrow> pio_return None
       | Some (cache, upstream_repo) \<Rightarrow>
           (case for_reference (pc_id cache) repo reference of
              None \<Rightarrow> pio_return None
            | Some target \<Rightarrow>
                pio_bind (pio_run (rms_get_proxy_cache_tag_validation (mm_node mm) (pc_id cache) repo reference)) (\<lambda>validation.
                pio_bind (pio_run (io_read (rn_now (mm_node mm)))) (\<lambda>now.
                  if (case validation of None \<Rightarrow> False
                      | Some v \<Rightarrow> proxy_cache_tag_validation_is_fresh v (digest_to_string (me_digest here)) now)
                  then pio_return (Some here)
                  else
                    pio_match (deduped mm (''proxy-cache:validate:'' @ vt_cache_id target @ '':'' @ repo @ '':'' @ reference)
                        (io_bind (stored_or mm repo reference here) (\<lambda>e. io_return (the e)))
                        (validate_cached_proxy_tag_inner mm here
                          \<lparr>px_repo = repo, px_reference = reference, px_upstream = make_proxy_upstream_ref cache upstream_repo,
                           px_mode = Lazy, px_validation = Some target\<rparr>)) (\<lambda>r.
                      case r of Inr e \<Rightarrow> pio_return (Some e) | Inl _ \<Rightarrow> pio_run (stored_or mm repo reference here))))))"

definition do_pull_blob :: "'w mirror \<Rightarrow> digest \<Rightarrow> upstream_ref \<Rightarrow> ('w, unit) io" where
  "do_pull_blob mm d u =
     io_bind (ensure_auth (mm_net mm) u) (\<lambda>_.
     io_bind (upstream_get_blob (mm_net mm) u (digest_to_string d)) (\<lambda>resp.
       put_streaming (mm_blobs mm) d (rs_body resp)))"

definition blob_present :: "'w mirror \<Rightarrow> digest \<Rightarrow> ('w, bool) io" where
  "blob_present mm d = io_match (stat (mm_blobs mm) d) (\<lambda>r. io_return (is_ok r))"

definition pull_blob_from_proxy_cache :: "'w mirror \<Rightarrow> string \<Rightarrow> digest \<Rightarrow> ('w, bool) pio" where
  "pull_blob_from_proxy_cache mm repo d =
     pio_bind (pio_run (get_proxy_caches mm)) (\<lambda>caches.
       case match_proxy_cache caches repo of
         None \<Rightarrow> pio_return False
       | Some (cache, upstream_repo) \<Rightarrow>
           deduped mm (''proxy-cache:blob:'' @ repo @ '':'' @ digest_to_string d) (blob_present mm d)
             (pio_run (io_bind (do_pull_blob mm d (make_proxy_upstream_ref cache upstream_repo)) (\<lambda>_. io_return True))))"

definition pull_blob_from_mirror_rule :: "'w mirror \<Rightarrow> string \<Rightarrow> digest \<Rightarrow> ('w, bool) pio" where
  "pull_blob_from_mirror_rule mm repo d =
     pio_bind (pio_run (get_rules mm)) (\<lambda>rules.
       if rules = [] then pio_return False
       else (case match_rule rules repo of
           None \<Rightarrow> pio_return False
         | Some (rule, upstream_repo) \<Rightarrow>
             deduped mm (''blob:'' @ digest_to_string d) (blob_present mm d)
               (pio_run (io_bind (do_pull_blob mm d (make_upstream_ref rule upstream_repo)) (\<lambda>_. io_return True)))))"

definition pull_blob :: "'w mirror \<Rightarrow> string \<Rightarrow> digest \<Rightarrow> ('w, bool) pio" where
  "pull_blob mm repo d =
     pio_bind (pull_blob_from_proxy_cache mm repo d) (\<lambda>pulled.
       if pulled then pio_return True else pull_blob_from_mirror_rule mm repo d)"

section \<open>Pushing\<close>

definition push_one_blob :: "'w mirror \<Rightarrow> upstream_ref \<Rightarrow> blob_descriptor \<Rightarrow> ('w, unit) io" where
  "push_one_blob mm u blob =
     (case from_str_checked (desc_digest blob) of
        None \<Rightarrow> io_return ()
      | Some d \<Rightarrow>
          io_bind (upstream_head_blob (mm_net mm) u (desc_digest blob)) (\<lambda>there.
            if there then io_return ()
            else
              io_bind (stat (mm_blobs mm) d) (\<lambda>blob_size.
              io_bind (blob_get (mm_blobs mm) d) (\<lambda>body.
                push_blob_stream (mm_net mm) u (desc_digest blob) blob_size [body]))))"

definition push_blobs :: "'w mirror \<Rightarrow> upstream_ref \<Rightarrow> blob_descriptor list \<Rightarrow> ('w, unit) io" where
  "push_blobs mm u descs = io_for descs (push_one_blob mm u)"

text \<open>
  The recursion of \<^verbatim>\<open>push_manifest_recursive\<close> with its pending calls on a stack: look a child up, push a
  manifest (its children or blobs first), put it upstream.
\<close>

datatype push_item = PushChild string | PushEntry string manifest_entry | PutEntry string manifest_entry

definition push_step :: "'w mirror \<Rightarrow> string \<Rightarrow> upstream_ref \<Rightarrow> push_item \<Rightarrow> unit \<Rightarrow> ('w, push_item list \<times> unit) io" where
  "push_step mm repo u item st =
     (case item of
        PushChild dig \<Rightarrow>
          io_bind (rms_get_manifest (mm_node mm) repo dig) (\<lambda>child.
            case child of
              None \<Rightarrow> io_fail (ManifestUnknown [Disp dig])
            | Some e \<Rightarrow> io_return ([PushEntry dig e], st))
      | PushEntry reference entry \<Rightarrow>
          (case mm_from_slice mm (me_body entry) of
             Inl e \<Rightarrow> io_fail (ManifestInvalid (Lit ''invalid manifest JSON: '' # e))
           | Inr parsed \<Rightarrow>
               if is_index_manifest (me_content_type entry)
               then io_return (map (\<lambda>c. PushChild (desc_digest c)) (extract_child_manifests parsed) @ [PutEntry reference entry], st)
               else io_bind (push_blobs mm u (extract_blob_descriptors parsed)) (\<lambda>_. io_return ([PutEntry reference entry], st)))
      | PutEntry reference entry \<Rightarrow>
          io_bind (upstream_put_manifest (mm_net mm) u reference (me_body entry) (me_content_type entry)) (\<lambda>_. io_return ([], st)))"

definition push_manifest_recursive :: "'w mirror \<Rightarrow> string \<Rightarrow> string \<Rightarrow> manifest_entry \<Rightarrow> upstream_ref \<Rightarrow> ('w, unit) pio" where
  "push_manifest_recursive mm repo reference entry u = work_loop (push_step mm repo u) [PushEntry reference entry] ()"

definition push_manifest_for_rule :: "'w mirror \<Rightarrow> string \<Rightarrow> string \<Rightarrow> ('w, bool) pio" where
  "push_manifest_for_rule mm rule_id reference =
     pio_bind (pio_run (rms_get_mirror_rule (mm_node mm) rule_id)) (\<lambda>found.
       case found of
         None \<Rightarrow> pio_fail (NameUnknown [Disp rule_id])
       | Some rule \<Rightarrow>
           if mr_direction rule \<noteq> DirPush
           then pio_fail (NameInvalid [Lit ''mirror rule '', Disp rule_id, Lit '' is not a push rule''])
           else
             pio_bind (pio_run (rms_get_manifest (mm_node mm) (mr_local_prefix rule) reference)) (\<lambda>entry.
               case entry of
                 None \<Rightarrow> pio_return False
               | Some e \<Rightarrow>
                   let u = make_upstream_ref rule (default_mirror_upstream_repo rule) in
                   pio_bind (pio_run (ensure_push_auth (mm_net mm) u)) (\<lambda>_.
                   pio_bind (push_manifest_recursive mm (mr_local_prefix rule) reference e u) (\<lambda>_. pio_return True))))"

end
