(* ===== verification/Mirror_Pull.thy ===== *)
theory Mirror_Pull
  imports Mirror Blob_Integrity
begin

text \<open>
  An eager pull ends when the upstream serves finitely many manifests, and what it leaves behind is
  complete: every manifest below the pulled one is committed and every blob is stored.
\<close>

section \<open>Work loops\<close>

lemma work_loop_invariant:
  assumes run: "work_loop step stack st w = Some (Ok st', w')" and init: "I stack st w"
    and step: "\<And>f rest st w pushed st' w'. I (f # rest) st w \<Longrightarrow> step f st w = (Ok (pushed, st'), w') \<Longrightarrow> I (pushed @ rest) st' w'"
  shows "I [] st' w'"
proof -
  have "\<forall>st' w'. y = (Ok st', w') \<longrightarrow> I stack st w \<longrightarrow>
      (\<forall>f rest st w pushed st' w'. I (f # rest) st w \<longrightarrow> step f st w = (Ok (pushed, st'), w') \<longrightarrow> I (pushed @ rest) st' w') \<longrightarrow> I [] st' w'"
    if "work_loop step stack st w = Some y" for y
    using that
  proof (induct step stack st w y rule: work_loop.raw_induct)
    case (1 loop step stack st w y)
    show ?case
    proof (cases stack)
      case Nil
      with 1(2) show ?thesis by auto
    next
      case (Cons f rest)
      obtain r w1 where r: "step f st w = (r, w1)" by fastforce
      show ?thesis
      proof (cases r)
        case (Inl e)
        with 1(2) Cons r show ?thesis by auto
      next
        case (Inr p)
        obtain pushed st1 where p: "p = (pushed, st1)" by fastforce
        with 1(2) Cons r Inr have "loop step (pushed @ rest) st1 w1 = Some y" by simp
        moreover have "work_loop step (pushed @ rest) st1 w1 = Some y"
          using 1(3) Cons r Inr p by (subst (asm) work_loop.simps) simp
        ultimately show ?thesis using 1(1) Cons r Inr p by blast
      qed
    qed
  qed (rule that)
  with run init step show ?thesis by blast
qed

text \<open>A loop ends when every step makes the pair of a potential and the stack smaller.\<close>

lemma work_loop_ends:
  fixes pot :: "'s \<Rightarrow> nat"
  assumes init: "I stack st w"
    and step: "\<And>f rest st w pushed st' w'. I (f # rest) st w \<Longrightarrow> step f st w = (Ok (pushed, st'), w') \<Longrightarrow>
      I (pushed @ rest) st' w' \<and> (pot st' < pot st \<or> pot st' = pot st \<and> pushed = [])"
  shows "\<exists>r w'. work_loop step stack st w = Some (r, w')"
proof -
  have wf: "wf (measures [pot \<circ> fst, length \<circ> snd])"
    by (rule wf_measures)
  show ?thesis
    using wf init
  proof (induction "(st, stack)" arbitrary: st stack w rule: wf_induct_rule)
    case less
    show ?case
    proof (cases stack)
      case Nil
      then show ?thesis by (subst work_loop.simps) simp
    next
      case (Cons f rest)
      obtain r w1 where r: "step f st w = (r, w1)" by fastforce
      show ?thesis
      proof (cases r)
        case (Inl e)
        with Cons r show ?thesis by (subst work_loop.simps) simp
      next
        case (Inr p)
        obtain pushed st' where p: "p = (pushed, st')" by fastforce
        have next_inv: "I (pushed @ rest) st' w1" and dec: "pot st' < pot st \<or> pot st' = pot st \<and> pushed = []"
          using step less.prems Cons r Inr p by auto
        have "((st', pushed @ rest), (st, stack)) \<in> measures [pot \<circ> fst, length \<circ> snd]" using dec Cons by auto
        from less.hyps [OF this next_inv] Cons r Inr p show ?thesis by (subst work_loop.simps) simp
      qed
    qed
  qed
qed

section \<open>What the services are called for\<close>

text \<open>The calls to upstream registries stay within any preorder the HTTP stack stays within.\<close>

definition net_within :: "('w \<Rightarrow> 'w \<Rightarrow> bool) \<Rightarrow> 'w upstream_net \<Rightarrow> bool" where
  "net_within R net \<longleftrightarrow> (\<forall>req. io_rel R (net_send net req)) \<and> (\<forall>ms w. R w (net_sleep_ms net ms w)) \<and>
     (\<forall>t w. R w (net_set_tokens net t w)) \<and> (\<forall>c w. R w (net_set_proxied net c w))"

lemma http_for_within:
  assumes "world_order R" and "net_within R net"
  shows "io_rel R (http_for net u)"
proof -
  have "R w (snd (http_for net u w))" for w
    using assms(2) world_order.refl [OF assms(1)]
    by (auto simp: http_for_def net_within_def Let_def split: option.splits sum.splits)
  then show ?thesis by (simp add: io_rel_def)
qed

lemma send_basic_within:
  assumes "world_order R" and "net_within R net"
  shows "io_rel R (send_basic net u what url)"
  unfolding send_basic_def using assms(2)
  by (auto intro!: world_order.rels [OF assms(1)] http_for_within [OF assms] simp: net_within_def split: sum.splits)

lemma io_update_within: "\<forall>w. R w (f w) \<Longrightarrow> io_rel R (io_update f)"
  by (simp add: io_rel_def io_update_def)

lemma ensure_auth_scope_within:
  assumes "world_order R" and "net_within R net"
  shows "io_rel R (ensure_auth_scope net u scope)"
proof -
  note rels = world_order.rels [OF assms(1)]
  have "io_rel R (fetch_token net h sc u)" for h sc
    unfolding fetch_token_def Let_def
    by (intro rels send_basic_within [OF assms]) (auto intro!: rels split: sum.splits option.splits)
  with assms(2) show ?thesis
    unfolding ensure_auth_scope_def
    by (intro rels send_basic_within [OF assms]) (auto intro!: rels io_update_within simp: net_within_def split: option.splits)
qed

lemma refresh_auth_within:
  assumes "world_order R" and "net_within R net"
  shows "io_rel R (refresh_auth net u scope)"
  unfolding refresh_auth_def using assms(2)
  by (intro world_order.rels [OF assms(1)] ensure_auth_scope_within [OF assms] io_update_within) (simp add: net_within_def)

lemma retry_attempt_within:
  assumes "world_order R" and "net_within R net"
  shows "R w (snd (http_for net u (if 0 < MAX_RETRIES - n then backoff net (MAX_RETRIES - n - 1) w else w)))"
    and "http_for net u (if 0 < MAX_RETRIES - n then backoff net (MAX_RETRIES - n - 1) w else w) = (Ok c, w1) \<Longrightarrow> net_send net req w1 = (r, w2) \<Longrightarrow> R w w2"
proof -
  let ?w0 = "if 0 < MAX_RETRIES - n then backoff net (MAX_RETRIES - n - 1) w else w"
  have "R w ?w0" using assms(2) world_order.refl [OF assms(1)] by (simp add: net_within_def backoff_def)
  then show first: "R w (snd (http_for net u ?w0))"
    using world_order.trans [OF assms(1)] io_relD [OF http_for_within [OF assms]] by blast
  show "http_for net u ?w0 = (Ok c, w1) \<Longrightarrow> net_send net req w1 = (r, w2) \<Longrightarrow> R w w2"
    using first assms(2) world_order.trans [OF assms(1)] unfolding net_within_def io_rel_def by (metis snd_conv)
qed

lemma retry_loop_within:
  assumes "world_order R" and "net_within R net"
  shows "io_rel R (retry_loop net u request n)"
proof -
  note refl = world_order.refl [OF assms(1)] and trans = world_order.trans [OF assms(1)]
  have "R w (snd (retry_loop net u request n w))" for w
  proof (induction n arbitrary: w)
    case 0
    note att = retry_attempt_within [OF assms, where n = 0 and w = w and u = u]
    show ?case
      using att(1) att(2) by (auto simp: retry_loop.simps [of net u request 0] Let_def split: prod.splits sum.splits)
  next
    case (Suc n)
    note att = retry_attempt_within [OF assms, where n = "Suc n" and w = w and u = u]
    have refreshed: "R w (snd (retry_loop net u request n (snd (refresh_auth net u sc w1))))" if "R w w1" for w1 sc
      using trans [OF trans [OF that io_relD [OF refresh_auth_within [OF assms]]] Suc] .
    have again: "R w (snd (retry_loop net u request n w1))" if "R w w1" for w1
      using trans [OF that Suc] .
    show ?case
      using att(1) refreshed [OF att(2)] again [OF att(2)] att(2)
      by (auto simp: retry_loop.simps [of net u request "Suc n"] Let_def split: prod.splits sum.splits)
  qed
  then show ?thesis by (simp add: io_rel_def)
qed

lemma retry_within:
  assumes "world_order R" and "net_within R net"
  shows "io_rel R (retry net u http_method url accept)"
  unfolding retry_def retry_with_body_def by (rule retry_loop_within [OF assms])

lemma upstream_get_within:
  assumes "world_order R" and "net_within R net"
  shows "io_rel R (upstream_get_manifest net u reference)" and "io_rel R (upstream_get_blob net u dig)"
  unfolding upstream_get_manifest_def upstream_get_blob_def
  by (intro world_order.rels [OF assms(1)] retry_within [OF assms];
      auto intro!: world_order.rels [OF assms(1)] split: sum.splits)+

text \<open>The same for the S3 calls a streamed pull makes.\<close>

definition s3_within :: "('w \<Rightarrow> 'w \<Rightarrow> bool) \<Rightarrow> 'w object_store \<Rightarrow> bool" where
  "s3_within R st \<longleftrightarrow> (\<forall>k. io_rel R (s3_head st k)) \<and> (\<forall>k. io_rel R (s3_create_multipart st k)) \<and>
     (\<forall>k u n b. io_rel R (s3_upload_part st k u n b)) \<and> (\<forall>k u ps. io_rel R (s3_complete_multipart st k u ps)) \<and>
     (\<forall>k u. io_rel R (s3_abort_multipart st k u))"

lemma stat_within: "world_order R \<Longrightarrow> s3_within R st \<Longrightarrow> io_rel R (stat st d)"
  unfolding stat_def s3_within_def
  by (intro world_order.rels) (auto intro!: world_order.rels split: sum.splits head_object_error.splits)

lemma abort_and_fail_within: "world_order R \<Longrightarrow> s3_within R st \<Longrightarrow> io_rel R (abort_and_fail st key u e)"
  unfolding abort_and_fail_def s3_within_def by (auto intro!: world_order.rels split: option.splits)

lemma stream_part_within: "world_order R \<Longrightarrow> s3_within R st \<Longrightarrow> io_rel R (stream_part st key u m b)"
  unfolding stream_part_def
  by (intro world_order.rels)
    (auto intro!: world_order.rels abort_and_fail_within simp: s3_within_def split: sum.splits)

lemma stream_flush_within:
  assumes "world_order R" and "s3_within R st"
  shows "R w (snd (stream_flush st key u m w))"
  using assms
proof (induction st key u m w rule: stream_flush.induct)
  case (1 st key u m w)
  obtain r w1 where r: "stream_part st key u m (take MIN_PART_SIZE (mu_buffer m)) w = (r, w1)" by fastforce
  have first: "R w w1" using stream_part_within [OF 1(2,3)] r by (metis io_rel_def snd_conv)
  show ?case
  proof (cases r)
    case (Inr m1)
    from 1(1) [OF _ r [symmetric] Inr 1(2,3)] r Inr first world_order.trans [OF 1(2)] world_order.refl [OF 1(2)] show ?thesis
      by (cases "length (mu_buffer m) < MIN_PART_SIZE") (auto simp: stream_flush.simps [of st key u m])
  qed (use r first world_order.refl [OF 1(2)] in \<open>simp add: stream_flush.simps\<close>)
qed

lemma stream_chunks_Cons:
  "(\<And>e. c = Inl e \<Longrightarrow> io_rel R (abort_and_fail st key (Some u) (S3 e) :: ('w, multipart) io)) \<Longrightarrow>
    (\<And>b. c = Inr b \<Longrightarrow> io_rel R (io_bind (stream_flush st key u (feed b m)) (stream_chunks st key u cs))) \<Longrightarrow>
    io_rel R (stream_chunks st key u (c # cs) m)"
  by (cases c) simp_all

lemma put_streaming_within:
  assumes "world_order R" and "s3_within R st"
  shows "io_rel R (put_streaming st d cs)"
proof -
  note rels = world_order.rels [OF assms(1)]
  have "io_rel R (stream_flush st key u m)" for key u m
    using stream_flush_within [OF assms] by (simp add: io_rel_def)
  then have "io_rel R (stream_chunks st key u cs m)" for key u m
    by (induction cs arbitrary: m rule: list.induct)
      (auto intro!: rels abort_and_fail_within assms stream_chunks_Cons)
  moreover have "io_rel R (ensure_upload_id st key None)" for key
    unfolding ensure_upload_id_def s3_call_def using assms(2)
    by (auto intro!: rels simp: s3_within_def split: option.splits)
  moreover have "io_rel R (s3_complete_multipart st key u ps)" for key u ps using assms(2) by (simp add: s3_within_def)
  ultimately show ?thesis
    unfolding put_streaming_def Let_def
    by (intro rels) (auto intro!: rels abort_and_fail_within assms stream_part_within split: sum.splits)
qed

section \<open>An eager pull ends\<close>

lemma push_children_frames:
  assumes "push_children mm repo u cs stack w = (Ok stack', w')"
  shows "(\<forall>f \<in> set stack'. f \<in> set stack \<or> (\<exists>dig data w1 w2. f = FProcess dig data \<and> child_data mm repo u dig w1 = (Ok data, w2))) \<and>
    set stack \<subseteq> set stack' \<and>
    (\<forall>c \<in> set cs. \<exists>data w1 w2. FProcess (desc_digest c) data \<in> set stack' \<and> child_data mm repo u (desc_digest c) w1 = (Ok data, w2))"
  using assms
proof (induction cs arbitrary: stack w)
  case (Cons c cs)
  from Cons.prems obtain data w1 where data: "child_data mm repo u (desc_digest c) w = (Ok data, w1)"
    and rest: "push_children mm repo u cs (FProcess (desc_digest c) data # stack) w1 = (Ok stack', w')"
    by (auto simp: io_bind_eq_Ok)
  note IH = Cons.IH [OF rest]
  have "FProcess (desc_digest c) data \<in> set stack'" using IH by auto
  with IH data show ?case by auto
qed simp

definition frames_in :: "'w mirror \<Rightarrow> string set \<Rightarrow> frame list \<Rightarrow> bool" where
  "frames_in mm D stack \<longleftrightarrow> (\<forall>reference data. FProcess reference data \<in> set stack \<longrightarrow> body_digest mm (md_body data) \<in> D)"

text \<open>Every step forgets a frame, and pushes new ones only when it meets a new digest.\<close>

lemma store_step_smaller:
  assumes D: "finite D" and fetch: "\<And>dig w data w'. child_data mm repo u dig w = (Ok data, w') \<Longrightarrow> body_digest mm (md_body data) \<in> D"
    and inv: "frames_in mm D (f # rest)" and step: "store_step mm repo u f visited w = (Ok (pushed, visited'), w')"
  shows "frames_in mm D (pushed @ rest) \<and> (card (D - set visited') < card (D - set visited) \<or> card (D - set visited') = card (D - set visited) \<and> pushed = [])"
proof (cases f)
  case (FProcess reference data)
  let ?d = "body_digest mm (md_body data)"
  have d: "?d \<in> D" using inv FProcess by (simp add: frames_in_def)
  show ?thesis
  proof (cases "?d \<in> set visited")
    case True
    with FProcess step inv show ?thesis by (auto simp: frames_in_def)
  next
    case False
    have less: "card (D - set (?d # visited)) < card (D - set visited)"
      using D d False by (intro psubset_card_mono) auto
    from FProcess step False obtain parsed where parsed: "mm_from_slice mm (md_body data) = Ok parsed"
      by (cases "mm_from_slice mm (md_body data)") (auto simp: Let_def)
    show ?thesis
    proof (cases "is_index_manifest (md_content_type data)")
      case True
      with FProcess step False parsed have v: "visited' = ?d # visited"
        and push: "push_children mm repo u (rev (extract_child_manifests parsed)) [FStore reference data parsed] w = (Ok pushed, w')"
        by (auto simp: io_bind_eq_Ok Let_def)
      have "frames_in mm D (pushed @ rest)"
        using push_children_frames [OF push] fetch inv unfolding frames_in_def by fastforce
      with less v show ?thesis by blast
    next
      case index: False
      with FProcess step False parsed have "visited' = ?d # visited" "pushed = []" by (auto simp: io_bind_eq_Ok Let_def)
      with less inv show ?thesis by (auto simp: frames_in_def)
    qed
  qed
next
  case (FStore reference data parsed)
  with step inv show ?thesis by (auto simp: io_bind_eq_Ok frames_in_def)
qed

lemma store_manifest_recursive_ends:
  assumes "finite D" and "\<And>dig w data w'. child_data mm repo u dig w = (Ok data, w') \<Longrightarrow> body_digest mm (md_body data) \<in> D"
    and "body_digest mm (md_body data) \<in> D"
  shows "\<exists>r w'. store_manifest_recursive mm repo reference data u w = Some (r, w')"
proof -
  have "\<exists>r w'. work_loop (store_step mm repo u) [FProcess reference data] [] w = Some (r, w')"
  proof (rule work_loop_ends [where I = "\<lambda>stack visited w. frames_in mm D stack" and pot = "\<lambda>visited. card (D - set visited)"])
    show "frames_in mm D [FProcess reference data]" using assms(3) by (simp add: frames_in_def)
  qed (rule store_step_smaller [OF assms(1,2)])
  then show ?thesis
    unfolding store_manifest_recursive_def pio_bind_def by (auto split: sum.splits)
qed

section \<open>An eager pull is complete\<close>

text \<open>There was a committed state in which the manifest is found under its digest.\<close>

definition in_committed_state :: "'w raft_node \<Rightarrow> 'w committed_log \<Rightarrow> 'w \<Rightarrow> string \<Rightarrow> string \<Rightarrow> string \<Rightarrow> bool" where
  "in_committed_state node log w repo dig body \<longleftrightarrow>
     (\<exists>es later data rs e. log w = es @ later \<and> apply_entries (rn_env node) empty_state es = Some (data, rs) \<and>
        get_manifest data repo dig = Some e \<and> me_body e = body)"

definition keeps :: "'w committed_log \<Rightarrow> 'w objects \<Rightarrow> 'w \<Rightarrow> 'w \<Rightarrow> bool" where
  "keeps log obj w w' \<longleftrightarrow> log_extends log w w' \<and> (\<forall>k. obj w k \<noteq> None \<longrightarrow> obj w' k \<noteq> None)"

interpretation keeps: world_order "keeps log obj" for log obj
  by unfold_locales (auto simp: keeps_def intro: log_order.refl log_order.trans)

text \<open>The three services are different systems: a call to one leaves the others alone.\<close>

definition services_apart :: "'w mirror \<Rightarrow> 'w committed_log \<Rightarrow> 'w objects \<Rightarrow> bool" where
  "services_apart mm log obj \<longleftrightarrow>
     net_within (\<lambda>w w'. log w' = log w \<and> obj w' = obj w) (mm_net mm) \<and> s3_within (\<lambda>w w'. log w' = log w) (mm_blobs mm) \<and>
     (\<forall>req. io_rel (same_objects obj) (rn_client_write (mm_node mm) req)) \<and>
     (\<forall>addr req. io_rel (same_objects obj) (rn_send_write (mm_node mm) addr req))"

lemma net_keeps:
  assumes "services_apart mm log obj"
  shows "net_within (keeps log obj) (mm_net mm)"
  using assms by (simp add: services_apart_def net_within_def io_rel_def keeps_def log_extends_def)

lemma s3_keeps:
  assumes "services_apart mm log obj" and "s3_ok (mm_blobs mm) obj prt"
  shows "s3_within (keeps log obj) (mm_blobs mm)"
proof -
  have "\<forall>k. obj w k \<noteq> None \<longrightarrow> obj (snd (s3_complete_multipart (mm_blobs mm) key u ps w)) k \<noteq> None" for key u ps w
    using s3_okD(5) [OF assms(2)] unfolding multipart_law_def by (metis prod.collapse)
  with assms(1) s3_same [OF assms(2)] show ?thesis
    by (simp add: s3_within_def services_apart_def io_rel_def keeps_def log_extends_def same_objects_def)
qed

lemma put_manifest_keeps:
  assumes "raft_ok (mm_node mm) log" and "services_apart mm log obj"
  shows "io_rel (keeps log obj) (rms_put_manifest (mm_node mm) repo reference entry)"
proof -
  let ?node = "mm_node mm"
  have "io_rel (same_objects obj) (rms_write ?node req)" for req
  proof -
    have "io_rel (same_objects obj) (rn_client_write ?node req)" "io_rel (same_objects obj) (forward_client_write ?node addr req)" for addr
      using assms(2) by (auto simp: services_apart_def io_rel_def forward_client_write_def same.refl)
    then show ?thesis
      unfolding rms_write_def by (intro same.rels) (auto split: sum.splits client_write_error.splits intro!: same.rels)
  qed
  with rms_write_extends [OF assms(1)] have "io_rel (keeps log obj) (rms_write ?node req)" for req
    by (auto simp: io_rel_def keeps_def same_objects_def)
  then show ?thesis
    unfolding rms_put_manifest_def rms_put_manifest_with_expected_namespace_def write_manifest_def io_unit_def expected_namespace_for_repository_def
    by (auto intro!: keeps.rels split: response.splits)
qed

lemma put_pulled_keeps:
  assumes "raft_ok (mm_node mm) log" and "services_apart mm log obj"
  shows "io_rel (keeps log obj) (put_pulled_entry mm repo reference data parsed)"
  unfolding put_pulled_entry_def Let_def by (auto intro!: keeps.rels put_manifest_keeps [OF assms])

lemma pull_one_blob_keeps:
  assumes "services_apart mm log obj" and "s3_ok (mm_blobs mm) obj prt"
  shows "io_rel (keeps log obj) (pull_one_blob mm u blob)"
  unfolding pull_one_blob_def
  by (auto intro!: keeps.rels stat_within put_streaming_within upstream_get_within net_keeps [OF assms(1)] s3_keeps [OF assms]
      keeps.world_order_axioms split: option.splits)

lemma put_streaming_stored:
  assumes "s3_ok st obj prt" and "put_streaming st d cs w = (Ok u, w')"
  shows "obj w' (key_of d) \<noteq> None"
proof -
  from assms(2) obtain v ps w1 where "s3_complete_multipart st (key_of d) v ps w1 = (Ok (), w')"
    by (auto simp: put_streaming_def Let_def io_bind_eq_Ok io_match_sum split: if_splits)
  then show ?thesis using s3_okD(5) [OF assms(1)] unfolding multipart_law_def by (metis is_ok_simps(1))
qed

lemma pull_one_blob_stored:
  assumes "s3_ok (mm_blobs mm) obj prt" and "pull_one_blob mm u blob w = (Ok x, w')" and "from_str_checked (desc_digest blob) = Some d"
  shows "obj w' (key_of d) \<noteq> None"
proof -
  obtain r w1 where r: "stat (mm_blobs mm) d w = (r, w1)" by fastforce
  show ?thesis
  proof (cases r)
    case (Inr n)
    then have w': "w' = w1" using assms(2,3) r by (auto simp: pull_one_blob_def io_match_def)
    from r Inr obtain l where "s3_head (mm_blobs mm) (key_of d) w = (Ok l, w1)"
      by (auto simp: stat_def io_match_sum split: head_object_error.splits) (metis head_object_error.exhaust)
    then show ?thesis using s3_okD(4) [OF assms(1)] unfolding head_law_def w' by metis
  next
    case (Inl e)
    with assms(2,3) r obtain resp :: http_response and w2 where "put_streaming (mm_blobs mm) d (rs_body resp) w2 = (Ok x, w')"
      by (auto simp: pull_one_blob_def io_match_def io_bind_eq_Ok)
    then show ?thesis by (rule put_streaming_stored [OF assms(1)])
  qed
qed

definition blobs_stored :: "'w objects \<Rightarrow> 'w \<Rightarrow> blob_descriptor list \<Rightarrow> bool" where
  "blobs_stored obj w descs \<longleftrightarrow> (\<forall>b \<in> set descs. \<forall>d. from_str_checked (desc_digest b) = Some d \<longrightarrow> obj w (key_of d) \<noteq> None)"

lemma pull_blobs_stored:
  assumes "services_apart mm log obj" and "s3_ok (mm_blobs mm) obj prt" and "pull_blobs mm u descs w = (Ok (), w')"
  shows "blobs_stored obj w' descs"
  using assms(3) unfolding pull_blobs_def
proof (induction descs arbitrary: w)
  case (Cons b descs)
  from Cons.prems obtain w1 where first: "pull_one_blob mm u b w = (Ok (), w1)" and rest: "io_for descs (pull_one_blob mm u) w1 = (Ok (), w')"
    by (auto simp: io_bind_eq_Ok)
  have rel: "io_rel (keeps log obj) (io_for descs (pull_one_blob mm u))"
    by (rule keeps.rel_for) (rule pull_one_blob_keeps [OF assms(1,2)])
  have "keeps log obj w1 w'" using io_relD [OF rel, of w1] rest by simp
  with Cons.IH [OF rest] pull_one_blob_stored [OF assms(2) first] show ?case
    by (auto simp: blobs_stored_def keeps_def)
qed (simp add: blobs_stored_def)

lemma in_committed_state_keeps: "in_committed_state node log w repo dig body \<Longrightarrow> keeps log obj w w' \<Longrightarrow> in_committed_state node log w' repo dig body"
  unfolding in_committed_state_def keeps_def log_extends_def by (metis append_assoc)

lemma put_pulled_committed:
  assumes ok: "raft_ok (mm_node mm) log" and sha: "sha_hex_ok (env_sha_hex (rn_env (mm_node mm)))" and apart: "services_apart mm log obj"
    and put: "put_pulled_entry mm repo reference data parsed w = (Ok (), w')"
  shows "in_committed_state (mm_node mm) log w' repo (body_digest mm (md_body data)) (md_body data)"
proof -
  let ?node = "mm_node mm"
  define entry where "entry = entry_from_parsed_json (env_sha_hex (rn_env ?node)) (rn_now ?node w) parsed (md_content_type data) (md_body data)
    (extract_referenced_digests parsed)"
  from put obtain w1 where first: "rms_put_manifest ?node repo reference entry w = (Ok (), w1)"
    and rest: "w1 = w' \<or> rms_put_manifest ?node repo (body_digest mm (md_body data)) entry w1 = (Ok (), w')"
    by (auto simp: put_pulled_entry_def Let_def io_bind_eq_Ok entry_def body_digest_def split: if_splits)
  from first obtain expected where "rms_put_manifest_with_expected_namespace ?node repo reference entry expected False w = (Ok (), w1)"
    by (auto simp: rms_put_manifest_def io_bind_eq_Ok expected_namespace_for_repository_def)
  from put_manifest_committed [OF ok sha this] obtain es later st rs where log1: "log w1 = log w @ es @ later"
    and run: "apply_entries (rn_env ?node) empty_state (log w @ es) = Some (st, rs)"
    and found: "get_manifest st repo (digest_to_string (me_digest (put_manifest_entry (rn_env ?node) (put_request_of repo reference entry expected False))))
      = Some (put_manifest_entry (rn_env ?node) (put_request_of repo reference entry expected False))"
    unfolding Let_def by blast
  have "me_digest entry = digest_sha256 (env_sha_hex (rn_env ?node)) (md_body data)" "me_body entry = md_body data"
    by (simp_all add: entry_def entry_from_parsed_json_def)
  with digest_sha256_wf [OF sha] have "me_digest (put_manifest_entry (rn_env ?node) (put_request_of repo reference entry expected False)) = me_digest entry"
    and "me_body (put_manifest_entry (rn_env ?node) (put_request_of repo reference entry expected False)) = md_body data"
    by (simp_all add: put_manifest_entry_def put_request_of_def)
  with found run log1 \<open>me_digest entry = _\<close> have here: "in_committed_state ?node log w1 repo (body_digest mm (md_body data)) (md_body data)"
    unfolding in_committed_state_def body_digest_def by (metis append_assoc)
  have "keeps log obj w1 w'"
    using rest io_relD [OF put_manifest_keeps [OF ok apart], of w1 repo "body_digest mm (md_body data)" entry] by (auto simp: keeps.refl)
  with here show ?thesis by (rule in_committed_state_keeps)
qed

lemma blobs_stored_keeps: "blobs_stored obj w descs \<Longrightarrow> keeps log obj w w' \<Longrightarrow> blobs_stored obj w' descs"
  by (auto simp: blobs_stored_def keeps_def)

lemma store_step_keeps:
  assumes ok: "raft_ok (mm_node mm) log" and apart: "services_apart mm log obj" and s3: "s3_ok (mm_blobs mm) obj prt"
  shows "io_rel (keeps log obj) (store_step mm repo u f visited)"
proof -
  have child: "io_rel (keeps log obj) (child_data mm repo u dig)" for dig
    unfolding child_data_def rms_get_manifest_def
    by (auto intro!: keeps.rels upstream_get_within net_keeps [OF apart] keeps.world_order_axioms split: option.splits)
  have "io_rel (keeps log obj) (push_children mm repo u cs stack)" for cs stack
    by (induction cs arbitrary: stack) (auto intro!: keeps.rels child)
  moreover have "io_rel (keeps log obj) (pull_blobs mm u descs)" for descs
    unfolding pull_blobs_def by (rule keeps.rel_for) (rule pull_one_blob_keeps [OF apart s3])
  ultimately show ?thesis
    by (cases f) (auto simp: Let_def intro!: keeps.rels put_pulled_keeps [OF ok apart] split: sum.splits)
qed

text \<open>
  The invariant: what was processed is committed or waits on the stack to be stored, its children are
  processed or wait on the stack, its blobs are stored.
\<close>

definition pending :: "'w mirror \<Rightarrow> frame list \<Rightarrow> string \<Rightarrow> bool" where
  "pending mm stack dig \<longleftrightarrow> (\<exists>reference data. FProcess reference data \<in> set stack \<and> body_digest mm (md_body data) = dig)"

definition found_child :: "'w mirror \<Rightarrow> string \<Rightarrow> upstream_ref \<Rightarrow> blob_descriptor \<Rightarrow> manifest_data \<Rightarrow> bool" where
  "found_child mm repo u c data \<longleftrightarrow> (\<exists>w w'. child_data mm repo u (desc_digest c) w = (Ok data, w'))"

definition pulled :: "'w mirror \<Rightarrow> 'w committed_log \<Rightarrow> 'w objects \<Rightarrow> string \<Rightarrow> upstream_ref \<Rightarrow> frame list \<Rightarrow> string set \<Rightarrow> 'w \<Rightarrow> manifest_data \<Rightarrow> bool" where
  "pulled mm log obj repo u stack seen w data \<longleftrightarrow>
     (in_committed_state (mm_node mm) log w repo (body_digest mm (md_body data)) (md_body data) \<or>
       (\<exists>reference parsed. FStore reference data parsed \<in> set stack)) \<and>
     (\<exists>parsed. mm_from_slice mm (md_body data) = Ok parsed \<and>
        (if is_index_manifest (md_content_type data)
         then \<forall>c \<in> set (extract_child_manifests parsed). \<exists>child. found_child mm repo u c child \<and>
           (body_digest mm (md_body child) \<in> seen \<or> pending mm stack (body_digest mm (md_body child)))
         else blobs_stored obj w (extract_blob_descriptors parsed)))"

lemma pulled_step:
  assumes "pulled mm log obj repo u (f # rest) seen w data" and "keeps log obj w w'" and "seen \<subseteq> seen'"
    and "\<And>reference data parsed. f = FStore reference data parsed \<Longrightarrow> in_committed_state (mm_node mm) log w' repo (body_digest mm (md_body data)) (md_body data)"
    and "\<And>reference data. f = FProcess reference data \<Longrightarrow> body_digest mm (md_body data) \<in> seen'"
  shows "pulled mm log obj repo u (pushed @ rest) seen' w' data"
proof -
  have child: "dig \<in> seen' \<or> pending mm (pushed @ rest) dig" if "dig \<in> seen \<or> pending mm (f # rest) dig" for dig
    using that assms(3,5) by (auto simp: pending_def)
  have "in_committed_state (mm_node mm) log w' repo (body_digest mm (md_body data)) (md_body data) \<or>
      (\<exists>reference parsed. FStore reference data parsed \<in> set (pushed @ rest))"
    using assms(1,2,4) in_committed_state_keeps unfolding pulled_def by fastforce
  then show ?thesis
    using assms(1) child blobs_stored_keeps [OF _ assms(2)] unfolding pulled_def by (simp split: if_splits) blast+
qed

definition pull_inv :: "'w mirror \<Rightarrow> 'w committed_log \<Rightarrow> 'w objects \<Rightarrow> string \<Rightarrow> upstream_ref \<Rightarrow> manifest_data \<Rightarrow> frame list \<Rightarrow> string list \<Rightarrow> 'w \<Rightarrow> bool" where
  "pull_inv mm log obj repo u root stack visited w \<longleftrightarrow>
     (\<exists>seen. set visited = (\<lambda>data. body_digest mm (md_body data)) ` seen \<and>
        (\<forall>data \<in> seen. pulled mm log obj repo u stack (set visited) w data) \<and>
        (root \<in> seen \<or> visited = [] \<and> (\<exists>reference. stack = [FProcess reference root])))"

lemma processed_pulled:
  assumes ok: "raft_ok (mm_node mm) log" and sha: "sha_hex_ok (env_sha_hex (rn_env (mm_node mm)))"
    and apart: "services_apart mm log obj" and s3: "s3_ok (mm_blobs mm) obj prt"
    and parsed: "mm_from_slice mm (md_body data) = Ok parsed" and new: "body_digest mm (md_body data) \<notin> set visited"
    and step: "store_step mm repo u (FProcess reference data) visited w = (Ok (pushed, visited'), w')"
  shows "pulled mm log obj repo u (pushed @ rest) (set visited') w' data"
proof (cases "is_index_manifest (md_content_type data)")
  case True
  with step new parsed have push: "push_children mm repo u (rev (extract_child_manifests parsed)) [FStore reference data parsed] w = (Ok pushed, w')"
    by (auto simp: io_bind_eq_Ok Let_def)
  note frames = push_children_frames [OF push]
  have "\<exists>child. found_child mm repo u c child \<and> pending mm (pushed @ rest) (body_digest mm (md_body child))"
    if "c \<in> set (extract_child_manifests parsed)" for c
    using frames that unfolding pending_def found_child_def by fastforce
  moreover have "FStore reference data parsed \<in> set (pushed @ rest)" using frames by auto
  ultimately show ?thesis using parsed True unfolding pulled_def by auto
next
  case False
  with step new parsed obtain w1 where blobs: "pull_blobs mm u (extract_blob_descriptors parsed) w = (Ok (), w1)"
    and put: "put_pulled_entry mm repo reference data parsed w1 = (Ok (), w')"
    by (auto simp: io_bind_eq_Ok Let_def)
  have "keeps log obj w1 w'" using io_relD [OF put_pulled_keeps [OF ok apart], of w1 repo reference data parsed] put by simp
  with pull_blobs_stored [OF apart s3 blobs] put_pulled_committed [OF ok sha apart put] parsed False blobs_stored_keeps show ?thesis
    unfolding pulled_def by fastforce
qed

lemma store_step_inv:
  assumes ok: "raft_ok (mm_node mm) log" and sha: "sha_hex_ok (env_sha_hex (rn_env (mm_node mm)))"
    and apart: "services_apart mm log obj" and s3: "s3_ok (mm_blobs mm) obj prt"
    and inv: "pull_inv mm log obj repo u root (f # rest) visited w"
    and step: "store_step mm repo u f visited w = (Ok (pushed, visited'), w')"
  shows "pull_inv mm log obj repo u root (pushed @ rest) visited' w'"
proof -
  from inv obtain seen where seen: "set visited = (\<lambda>data. body_digest mm (md_body data)) ` seen"
    and held: "\<And>data. data \<in> seen \<Longrightarrow> pulled mm log obj repo u (f # rest) (set visited) w data"
    and root: "root \<in> seen \<or> visited = [] \<and> (\<exists>reference. f # rest = [FProcess reference root])"
    unfolding pull_inv_def by blast
  have kept: "keeps log obj w w'" using io_relD [OF store_step_keeps [OF ok apart s3], of w repo u f visited] step by simp
  show ?thesis
  proof (cases f)
    case (FStore reference data parsed)
    with step have put: "put_pulled_entry mm repo reference data parsed w = (Ok (), w')" and v: "visited' = visited" and p: "pushed = []"
      by (auto simp: io_bind_eq_Ok)
    have "pulled mm log obj repo u (pushed @ rest) (set visited) w' x" if "x \<in> seen" for x
      by (rule pulled_step [OF held [OF that] kept]) (use FStore put_pulled_committed [OF ok sha apart put] in auto)
    with seen root FStore v show ?thesis unfolding pull_inv_def by blast
  next
    case (FProcess reference data)
    let ?d = "body_digest mm (md_body data)"
    show ?thesis
    proof (cases "?d \<in> set visited")
      case True
      with FProcess step have v: "visited' = visited" "pushed = []" by auto
      have "pulled mm log obj repo u (pushed @ rest) (set visited) w' x" if "x \<in> seen" for x
        by (rule pulled_step [OF held [OF that] kept]) (use FProcess True in auto)
      with seen root True v show ?thesis unfolding pull_inv_def by (metis empty_iff list.set(1))
    next
      case False
      from FProcess step False obtain parsed where parsed: "mm_from_slice mm (md_body data) = Ok parsed"
        by (cases "mm_from_slice mm (md_body data)") (auto simp: Let_def)
      have v: "visited' = ?d # visited" using FProcess step False parsed by (auto simp: io_bind_eq_Ok Let_def split: if_splits)
      have old: "pulled mm log obj repo u (pushed @ rest) (set visited') w' x" if "x \<in> seen" for x
        by (rule pulled_step [OF held [OF that] kept]) (use FProcess v in auto)
      have new: "pulled mm log obj repo u (pushed @ rest) (set visited') w' data"
        by (rule processed_pulled [OF ok sha apart s3 parsed False step [unfolded FProcess]])
      have "root \<in> insert data seen" using root FProcess by auto
      with old new seen v show ?thesis unfolding pull_inv_def by (intro exI [of _ "insert data seen"]) auto
    qed
  qed
qed

lemma store_manifest_recursive_complete:
  assumes ok: "raft_ok (mm_node mm) log" and sha: "sha_hex_ok (env_sha_hex (rn_env (mm_node mm)))"
    and apart: "services_apart mm log obj" and s3: "s3_ok (mm_blobs mm) obj prt"
    and run: "store_manifest_recursive mm repo reference root u w = Some (Ok (), w')"
  shows "\<exists>seen. root \<in> seen \<and> (\<forall>data \<in> seen. pulled mm log obj repo u [] ((\<lambda>data. body_digest mm (md_body data)) ` seen) w' data)"
proof -
  from run obtain visited where loop: "work_loop (store_step mm repo u) [FProcess reference root] [] w = Some (Ok visited, w')"
    by (auto simp: store_manifest_recursive_def pio_bind_Ok)
  have "pull_inv mm log obj repo u root [] visited w'"
  proof (rule work_loop_invariant [OF loop])
    show "pull_inv mm log obj repo u root [FProcess reference root] [] w" by (auto simp: pull_inv_def)
  qed (rule store_step_inv [OF ok sha apart s3])
  then show ?thesis unfolding pull_inv_def by auto
qed

end
