(* ===== verification/Mirror_Worlds.thy ===== *)
theory Mirror_Worlds
  imports Worlds Mirror_Pull
begin

text \<open>
  Concrete services for mirroring: a proxy cache, an upstream that answers every request, and a mirror
  manager over the local cluster and the object store in memory.
\<close>

definition mirror_sample_cache :: "string \<Rightarrow> string \<Rightarrow> proxy_cache" where
  "mirror_sample_cache pre up =
     \<lparr>pc_id = pre, pc_local_prefix = pre, pc_upstream_registry = ''docker.io'', pc_upstream_prefix = Some up, pc_warm_filters = [],
      pc_warm_schedule = None, pc_plain_http = False, pc_insecure_tls = False,
      pc_outbound_proxy = \<lparr>op_protocol = ProxyNone, op_url = None, op_username = None, op_password = None\<rparr>,
      pc_username = None, pc_password = None, pc_created_at = 0\<rparr>"

text \<open>An upstream that answers with the requested URL and has no tags.\<close>

definition echo_net :: "'w upstream_net" where
  "echo_net =
     \<lparr>net_send = \<lambda>req w. (Ok \<lparr>rs_status = 200, rs_header = \<lambda>h. None, rs_body = [Ok (rq_url req)]\<rparr>, w),
      net_check_url = \<lambda>url. Ok (), net_check_header = \<lambda>h v. Ok (), net_proxy_config = \<lambda>p url. Ok (), net_build = \<lambda>c. Ok (),
      net_status_error = \<lambda>s. None, net_status_text = \<lambda>s. ''status'', net_json = \<lambda>b. Err [],
      net_tags_list = \<lambda>url. Ok (Some []),
      net_sha_hex = \<lambda>b. replicate 64 (CHR ''0''), net_sleep_ms = \<lambda>ms w. w, net_tokens = \<lambda>w. Map.empty, net_set_tokens = \<lambda>t w. w,
      net_proxied = \<lambda>w. Map.empty, net_set_proxied = \<lambda>c w. w\<rparr>"

definition mirror_ref :: upstream_ref where
  "mirror_ref = make_proxy_upstream_ref (mirror_sample_cache ''hub'' ''a'') ''a/nginx''"

lemma echo_simps:
  "net_send echo_net req w = (Ok \<lparr>rs_status = 200, rs_header = \<lambda>h. None, rs_body = [Ok (rq_url req)]\<rparr>, w)"
  "net_check_url echo_net url = Ok ()"
  "check_opt_header echo_net h v = Ok ()"
  "http_for echo_net mirror_ref w = (Ok default_client, w)"
  by (simp_all add: echo_net_def check_opt_header_def http_for_def mirror_ref_def make_proxy_upstream_ref_def
      mirror_sample_cache_def upstream_ref_new_def Let_def split: option.splits)

definition pull_mirror :: "(local_log \<times> mem_world) mirror" where
  "pull_mirror =
     \<lparr>mm_node = node_on_fst local_node, mm_blobs = store_on_snd mem_store, mm_net = echo_net,
      mm_from_slice = \<lambda>b. Ok (JObject []), mm_rules_cache = \<lambda>w. ([], 0), mm_set_rules_cache = \<lambda>c w. w,
      mm_proxy_cache = \<lambda>w. ([], 0), mm_set_proxy_cache = \<lambda>c w. w, mm_instant = \<lambda>w. 0, mm_elapsed_secs = \<lambda>i w. 0,
      mm_inflight = \<lambda>w. {}, mm_set_inflight = \<lambda>s w. w, mm_wait = \<lambda>k w. w\<rparr>"

definition pull_data :: manifest_data where
  "pull_data = \<lparr>md_body = ''{}'', md_content_type = ''application/vnd.oci.image.manifest.v1+json'', md_digest = []\<rparr>"

lemma pull_mirror_ok:
  "raft_ok (mm_node pull_mirror) (\<lambda>w. fst w)" "s3_ok (mm_blobs pull_mirror) (\<lambda>w. mw_objects (snd w)) (\<lambda>w. mw_parts (snd w))"
  "services_apart pull_mirror (\<lambda>w. fst w) (\<lambda>w. mw_objects (snd w))" "sha_hex_ok (env_sha_hex (rn_env (mm_node pull_mirror)))"
proof -
  show "raft_ok (mm_node pull_mirror) (\<lambda>w. fst w)"
    using node_on_fst_ok [OF local_raft_ok] by (simp add: pull_mirror_def)
  show "s3_ok (mm_blobs pull_mirror) (\<lambda>w. mw_objects (snd w)) (\<lambda>w. mw_parts (snd w))"
    using store_on_snd_ok [OF mem_store_ok] by (simp add: pull_mirror_def)
  show "sha_hex_ok (env_sha_hex (rn_env (mm_node pull_mirror)))"
    by (simp add: sha_hex_ok_def pull_mirror_def node_on_fst_def local_node_def sc_env_def list_all_iff byte_class_defs byte_def)
  show "services_apart pull_mirror (\<lambda>w. fst w) (\<lambda>w. mw_objects (snd w))"
    by (simp add: services_apart_def pull_mirror_def net_within_def s3_within_def io_rel_def echo_net_def store_on_snd_def on_snd_def
        node_on_fst_def on_fst_def same_objects_def)
qed

end
