(* ===== verification/Mirror_Properties.thy ===== *)
theory Mirror_Properties
  imports Mirror_Worlds
begin

text \<open>Properties of mirroring: rule matching, patterns, upstream listings and eager pulls.\<close>

section \<open>Which upstream a repository stands for\<close>

text \<open>
  The proxy cache that answers for a repository is one whose local prefix covers it at a path
  boundary, with the upstream repository its own prefix gives, and no cache that also covers it has a
  longer prefix; when none is found, none covers it.
\<close>

theorem proxy_cache_longest_prefix:
  "case match_proxy_cache caches repo of
     None \<Rightarrow> \<forall>c \<in> set caches. upstream_for (pc_local_prefix c) (pc_upstream_prefix c) repo = None
   | Some (c, u) \<Rightarrow> c \<in> set caches \<and> upstream_for (pc_local_prefix c) (pc_upstream_prefix c) repo = Some u
       \<and> (repo = pc_local_prefix c \<or> (\<exists>s. repo = pc_local_prefix c @ ''/'' @ s))
       \<and> (\<forall>c' \<in> set caches. upstream_for (pc_local_prefix c') (pc_upstream_prefix c') repo \<noteq> None \<longrightarrow>
            length (pc_local_prefix c') \<le> length (pc_local_prefix c))"
proof -
  have "repo = p \<or> (\<exists>s. repo = p @ ''/'' @ s)" if "upstream_for p q repo = Some u" for p q u
    using that by (auto simp: upstream_for_def bind_eq_Some_conv prefix_suffix_iff)
  then show ?thesis
    using best_loop_spec [where pre = pc_local_prefix and cand = "\<lambda>c. upstream_for (pc_local_prefix c) (pc_upstream_prefix c) repo"
        and xs = caches and best = None]
    unfolding match_proxy_cache_def by (auto split: option.splits)
qed

theorem proxy_cache_longest_prefix_witness:
  "match_proxy_cache [mirror_sample_cache ''hub'' ''a'', mirror_sample_cache ''hub/lib'' ''b''] ''hub/lib/nginx''
      = Some (mirror_sample_cache ''hub/lib'' ''b'', ''b/nginx'')
   \<and> upstream_for ''hub'' (Some ''a'') ''hub/lib/nginx'' = Some ''a/lib/nginx''
   \<and> length (pc_local_prefix (mirror_sample_cache ''hub'' ''a'')) \<le> length (pc_local_prefix (mirror_sample_cache ''hub/lib'' ''b''))"
proof -
  have m: "match_proxy_cache [mirror_sample_cache ''hub'' ''a'', mirror_sample_cache ''hub/lib'' ''b''] ''hub/lib/nginx''
      = Some (mirror_sample_cache ''hub/lib'' ''b'', ''b/nginx'')" by code_simp
  have u: "upstream_for ''hub'' (Some ''a'') ''hub/lib/nginx'' = Some ''a/lib/nginx''" by code_simp
  have f: "pc_local_prefix (mirror_sample_cache x y) = x" "pc_upstream_prefix (mirror_sample_cache x y) = Some y" for x y
    by (simp_all add: mirror_sample_cache_def)
  from proxy_cache_longest_prefix [of "[mirror_sample_cache ''hub'' ''a'', mirror_sample_cache ''hub/lib'' ''b'']" "''hub/lib/nginx''"]
  have "upstream_for (pc_local_prefix (mirror_sample_cache ''hub'' ''a'')) (pc_upstream_prefix (mirror_sample_cache ''hub'' ''a'')) ''hub/lib/nginx'' \<noteq> None \<longrightarrow>
      length (pc_local_prefix (mirror_sample_cache ''hub'' ''a'')) \<le> length (pc_local_prefix (mirror_sample_cache ''hub/lib'' ''b''))"
    unfolding m prod.case option.case by simp
  with m u show ?thesis by (simp add: f)
qed

text \<open>
  C32: The greedy search for the pieces of a pattern decides the meaning of the pattern: a star stands for
  any text, every other character for itself.
\<close>

theorem glob_exact: "glob_matches pattern v = glob pattern v"
  by (rule glob_matches_iff)

section \<open>Talking to upstreams\<close>

text \<open>
  The client reads a bearer challenge the way the registry writes it: realm and service come out as
  they went in, whatever scope follows.
\<close>

theorem challenge_roundtrip:
  assumes "CHR 0x22 \<notin> set realm" and "CHR 0x22 \<notin> set service" and "\<And>s. scope = Some s \<Longrightarrow> CHR 0x22 \<notin> set s"
  shows "parse_bearer_challenge (challenge_value (Some realm) (Some service) scope) = Ok \<lparr>bc_realm = realm, bc_service = Some service\<rparr>"
proof -
  let ?q = "[CHR 0x22]"
  let ?scope = "challenge_part '',scope='' scope"
  have "challenge_value (Some realm) (Some service) scope =
      ''Bearer '' @ [] @ ''realm'' @ CHR ''='' # CHR 0x22 # realm @ CHR 0x22 # [CHR '',''] @ ''service'' @ CHR ''='' # CHR 0x22 # service @ CHR 0x22 # ?scope"
    by (simp add: challenge_value_def challenge_part_def)
  then have strip: "strip_prefix ''Bearer '' (challenge_value (Some realm) (Some service) scope) =
      Some ([] @ ''realm'' @ CHR ''='' # CHR 0x22 # realm @ CHR 0x22 # [CHR '',''] @ ''service'' @ CHR ''='' # CHR 0x22 # service @ CHR 0x22 # ?scope)"
    by (metis strip_prefix_append)
  have tail: "challenge_loop ?scope acc = acc" for acc
  proof (cases scope)
    case (Some s)
    obtain a b where "acc = (a, b)" by fastforce
    with challenge_loop_quoted [of "''scope''" s "[CHR '','']" "[]" a b] assms(3) [OF Some] Some show ?thesis
      by (simp add: challenge_part_def is_graphic_def byte_def)
  qed (simp add: challenge_part_def)
  let ?rest = "[CHR '',''] @ ''service'' @ CHR ''='' # CHR 0x22 # service @ CHR 0x22 # ?scope"
  have "challenge_loop ?rest (Some realm, None) = (Some realm, Some service)"
    using challenge_loop_quoted [of "''service''" service "[CHR '','']" ?scope "Some realm" None] assms(2)
    by (simp add: tail is_graphic_def byte_def)
  moreover have "challenge_loop ([] @ ''realm'' @ CHR ''='' # CHR 0x22 # realm @ CHR 0x22 # ?rest) (None, None) = challenge_loop ?rest (Some realm, None)"
    using challenge_loop_quoted [of "''realm''" realm "[]" ?rest None None] assms(1) by (simp add: is_graphic_def byte_def)
  ultimately have "challenge_loop ([] @ ''realm'' @ CHR ''='' # CHR 0x22 # realm @ CHR 0x22 # ?rest) (None, None) = (Some realm, Some service)"
    by (rule trans [rotated])
  with strip show ?thesis by (simp add: parse_bearer_challenge_def)
qed

theorem challenge_roundtrip_witness:
  "parse_bearer_challenge (challenge_value (Some ''https://r/token'') (Some ''layerhouse'') (Some ''repository:a/b:pull''))
    = Ok \<lparr>bc_realm = ''https://r/token'', bc_service = Some ''layerhouse''\<rparr>"
  by (rule challenge_roundtrip) auto

section \<open>Eager pulls\<close>

text \<open>
  C34: An eager pull ends, with a result or an error, when all manifests that are served or stored have
  one of finitely many digests: a manifest that was seen is not processed again, so neither shared nor
  cyclic children keep it going.
\<close>

theorem eager_pull_ends:
  assumes "finite D" and "body_digest mm (md_body data) \<in> D"
    and "\<And>dig w child w'. child_data mm repo u dig w = (Ok child, w') \<Longrightarrow> body_digest mm (md_body child) \<in> D"
  shows "\<exists>r w'. store_manifest_recursive mm repo reference data u w = Some (r, w')"
  by (rule store_manifest_recursive_ends [OF assms(1,3,2)])

theorem eager_pull_ends_witness:
  "\<exists>r w'. store_manifest_recursive pull_mirror ''users/app'' ''v9'' pull_data mirror_ref ([], mem_empty) = Some (r, w')"
proof (rule eager_pull_ends)
  let ?d = "''sha256:'' @ replicate 64 (CHR ''0'')"
  have dig: "body_digest pull_mirror b = ?d" for b
    by (simp add: body_digest_def pull_mirror_def node_on_fst_def local_node_def sc_env_def digest_sha256_def digest_to_string_def)
  show "finite {?d}" by simp
  show "body_digest pull_mirror (md_body pull_data) \<in> {?d}" by (simp add: dig)
  show "body_digest pull_mirror (md_body child) \<in> {?d}" for child by (simp add: dig)
qed

lemma pulled_done:
  "pulled mm log obj repo u [] seen w data \<longleftrightarrow>
    in_committed_state (mm_node mm) log w repo (body_digest mm (md_body data)) (md_body data) \<and>
    (\<exists>parsed. mm_from_slice mm (md_body data) = Ok parsed \<and>
      (if is_index_manifest (md_content_type data)
       then \<forall>c \<in> set (extract_child_manifests parsed). \<exists>child. found_child mm repo u c child \<and> body_digest mm (md_body child) \<in> seen
       else blobs_stored obj w (extract_blob_descriptors parsed)))"
  by (simp add: pulled_def pending_def)

text \<open>
  C33: An eager pull that succeeds is complete.  The pulled manifest and every manifest that was found for
  a child of an index, at any depth, is found under its digest in a committed state of the registry, and
  every blob that an image manifest among them describes is in the blob store.
\<close>

theorem eager_pull_complete:
  assumes "raft_ok (mm_node mm) log" and "sha_hex_ok (env_sha_hex (rn_env (mm_node mm)))"
    and "services_apart mm log obj" and "s3_ok (mm_blobs mm) obj prt"
    and "store_manifest_recursive mm repo reference root u w = Some (Ok (), w')"
  shows "\<exists>seen. root \<in> seen \<and> (\<forall>data \<in> seen.
    in_committed_state (mm_node mm) log w' repo (body_digest mm (md_body data)) (md_body data) \<and>
    (\<exists>parsed. mm_from_slice mm (md_body data) = Ok parsed \<and>
      (if is_index_manifest (md_content_type data)
       then \<forall>c \<in> set (extract_child_manifests parsed). \<exists>child. found_child mm repo u c child \<and>
          body_digest mm (md_body child) \<in> (\<lambda>data. body_digest mm (md_body data)) ` seen
       else blobs_stored obj w' (extract_blob_descriptors parsed))))"
proof -
  from store_manifest_recursive_complete [OF assms] obtain seen where "root \<in> seen"
    and "\<And>data. data \<in> seen \<Longrightarrow> pulled mm log obj repo u [] ((\<lambda>data. body_digest mm (md_body data)) ` seen) w' data" by blast
  note found = this
  show ?thesis
    by (rule exI [of _ seen], rule conjI [OF found(1) ballI], rule found(2) [unfolded pulled_done])
qed

theorem eager_pull_complete_witness:
  "\<exists>w'. store_manifest_recursive pull_mirror ''users/app'' ''v9'' pull_data mirror_ref ([], mem_empty) = Some (Ok (), w') \<and>
    in_committed_state (mm_node pull_mirror) (\<lambda>w. fst w) w' ''users/app'' (body_digest pull_mirror ''{}'') ''{}''"
proof -
  have "fst (put_pulled_entry pull_mirror ''users/app'' ''v9'' pull_data (JObject []) ([], mem_empty)) = Ok ()"
    by code_simp
  then obtain w' where put: "put_pulled_entry pull_mirror ''users/app'' ''v9'' pull_data (JObject []) ([], mem_empty) = (Ok (), w')"
    by (metis prod.collapse)
  have parse: "mm_from_slice pull_mirror b = Ok (JObject [])" for b by (simp add: pull_mirror_def)
  have blobs: "extract_blob_descriptors (JObject []) = []"
    by (simp add: extract_blob_descriptors_def extract_sized_referenced_descriptors_def array_field_def)
  have image: "\<not> is_index_manifest (md_content_type pull_data)" by (simp add: is_index_manifest_def pull_data_def)
  have step: "store_step pull_mirror ''users/app'' mirror_ref (FProcess ''v9'' pull_data) [] ([], mem_empty) =
      (Ok ([], [body_digest pull_mirror (md_body pull_data)]), w')"
    by (simp add: Let_def parse image blobs pull_blobs_def io_bind_def put)
  have run: "store_manifest_recursive pull_mirror ''users/app'' ''v9'' pull_data mirror_ref ([], mem_empty) = Some (Ok (), w')"
    unfolding store_manifest_recursive_def pio_bind_def
    by (subst work_loop.simps) (simp add: step work_loop.simps [of _ "[]"] del: store_step.simps)
  from eager_pull_complete [OF pull_mirror_ok(1,4,3,2) run] run show ?thesis by (auto simp: pull_data_def)
qed

end
