(* ===== verification/Tokens.thy ===== *)
theory Tokens
  imports Authorization Effects
begin

text \<open>
  Who makes a request: the identity a credential stands for (\<^verbatim>\<open>auth/token.rs\<close>, the \<^verbatim>\<open>Actor\<close> of
  \<^verbatim>\<open>auth/principal.rs\<close>, the \<^verbatim>\<open>AuthzRequest\<close> of \<^verbatim>\<open>auth/authorization.rs\<close>), the claims of a JWT, the encrypted
  dashboard session (\<^verbatim>\<open>auth/session.rs\<close>) and the authentication section of the configuration.

  The cipher, Base64 and the JSON form of a session are the fields of \<open>session_crypto\<close>.
\<close>

section \<open>Identities\<close>

datatype token_type = OidcAccess | PersonalAccess | OciBearer | Session

record actor =
  ac_principal :: provider_qualified_id
  ac_username :: "string option"
  ac_display_name :: "string option"
  ac_email :: "string option"
  ac_group_ids :: "provider_qualified_id list"
  ac_display_groups :: "string list"
  ac_scopes :: "string list"
  ac_namespace_epochs :: "namespace_epoch list"
  ac_token_type :: token_type

record auth_identity =
  ai_subject :: subject
  ai_principal :: provider_qualified_id
  ai_username :: "string option"
  ai_display_name :: "string option"
  ai_email :: "string option"
  ai_groups :: "string list"
  ai_group_ids :: "provider_qualified_id list"
  ai_scopes :: "string list"
  ai_namespace_epochs :: "namespace_epoch list"
  ai_token_type :: token_type

definition identity_actor :: "auth_identity \<Rightarrow> actor" where
  "identity_actor i =
     \<lparr>ac_principal = ai_principal i, ac_username = ai_username i, ac_display_name = ai_display_name i,
      ac_email = ai_email i, ac_group_ids = ai_group_ids i, ac_display_groups = ai_groups i,
      ac_scopes = ai_scopes i, ac_namespace_epochs = ai_namespace_epochs i, ac_token_type = ai_token_type i\<rparr>"

record authz_request =
  rq_actor :: actor
  rq_repository :: string
  rq_resource :: "repository_resource option"
  rq_action :: oci_action

section \<open>Claims\<close>

datatype audience_claim = AudOne string | AudMany "string list"

record token_claims =
  tc_subject :: string
  tc_exp :: nat
  tc_aud :: "audience_claim option"
  tc_groups :: "string list option"
  tc_name :: "string option"
  tc_preferred_username :: "string option"
  tc_email :: "string option"
  tc_scope :: "string option"
  tc_namespace_epochs :: "namespace_epoch list"
  tc_token_type :: "string option"
  tc_iat :: "nat option"
  tc_iss :: "string option"
  tc_additional_claims :: json

definition trimmed :: "string option \<Rightarrow> string option" where
  "trimmed v = Option.bind v (\<lambda>s. let t = trim s in if t = [] then None else Some t)"

definition claims_display_name :: "token_claims \<Rightarrow> string option" where
  "claims_display_name c = trimmed (tc_name c)"

definition claims_username :: "token_claims \<Rightarrow> string option" where
  "claims_username c = trimmed (tc_preferred_username c)"

definition claims_email :: "token_claims \<Rightarrow> string option" where
  "claims_email c = trimmed (tc_email c)"

text \<open>The groups at the end of a dotted path: an array of strings or a single string.\<close>

definition leaf_groups :: "json \<Rightarrow> string list" where
  "leaf_groups v =
     (case as_array v of
        Some arr \<Rightarrow> List.map_filter as_str arr
      | None \<Rightarrow> (case as_str v of Some s \<Rightarrow> [s] | None \<Rightarrow> []))"

fun groups_at :: "string list \<Rightarrow> json \<Rightarrow> string list" where
  "groups_at [] current = []"
| "groups_at (part # parts) current =
     (case json_get part current of
        None \<Rightarrow> []
      | Some v \<Rightarrow> if parts = [] then leaf_groups v else groups_at parts v)"

definition extract_groups :: "token_claims \<Rightarrow> string \<Rightarrow> string list" where
  "extract_groups c group_claim =
     (if group_claim = ''groups'' then (case tc_groups c of None \<Rightarrow> [] | Some gs \<Rightarrow> gs)
      else groups_at (split_char (CHR ''.'') group_claim) (tc_additional_claims c))"

section \<open>Dashboard sessions\<close>

record dashboard_session =
  ds_subject :: string
  ds_principal :: string
  ds_username :: "string option"
  ds_display_name :: "string option"
  ds_email :: "string option"
  ds_groups :: "string list"
  ds_group_ids :: "string list"
  ds_expires_at :: u64

text \<open>\<open>sc_cipher key nonce\<close> and \<open>sc_decipher key nonce\<close> are AES-256-GCM; nonces have twelve bytes.\<close>

record session_crypto =
  sc_encode :: "dashboard_session \<Rightarrow> (string, msg) result"
  sc_decode :: "string \<Rightarrow> (dashboard_session, msg) result"
  sc_cipher :: "string \<Rightarrow> string \<Rightarrow> string \<Rightarrow> (string, msg) result"
  sc_decipher :: "string \<Rightarrow> string \<Rightarrow> string \<Rightarrow> string option"
  sc_base64 :: "string \<Rightarrow> string"
  sc_unbase64 :: "string \<Rightarrow> (string, msg) result"

definition session_encrypt :: "session_crypto \<Rightarrow> string \<Rightarrow> string \<Rightarrow> dashboard_session \<Rightarrow> string lh_result" where
  "session_encrypt cr nonce key session =
     (case sc_encode cr session of
        Inl e \<Rightarrow> Err (Serialization e)
      | Inr plaintext \<Rightarrow>
          (case sc_cipher cr key nonce plaintext of
             Inl e \<Rightarrow> Err (Internal (Lit ''encryption failed: '' # e))
           | Inr ciphertext \<Rightarrow> Ok (sc_base64 cr (nonce @ ciphertext))))"

definition session_decrypt :: "session_crypto \<Rightarrow> string \<Rightarrow> string \<Rightarrow> dashboard_session lh_result" where
  "session_decrypt cr key encrypted =
     (case sc_unbase64 cr encrypted of
        Inl e \<Rightarrow> Err (Internal (Lit ''base64 decode failed: '' # e))
      | Inr bytes \<Rightarrow>
          if length bytes < 12 then Err (Internal [Lit ''invalid session data''])
          else (case sc_decipher cr key (take 12 bytes) (drop 12 bytes) of
              None \<Rightarrow> Err (Internal [Lit ''session decryption failed''])
            | Some plaintext \<Rightarrow>
                (case sc_decode cr plaintext of Inl e \<Rightarrow> Err (Serialization e) | Inr s \<Rightarrow> Ok s)))"

text \<open>What is documented of the codec and the cipher: each undoes the other.\<close>

definition session_crypto_ok :: "session_crypto \<Rightarrow> bool" where
  "session_crypto_ok cr \<longleftrightarrow>
     (\<forall>s t. sc_encode cr s = Ok t \<longrightarrow> sc_decode cr t = Ok s) \<and>
     (\<forall>k n t c. sc_cipher cr k n t = Ok c \<longrightarrow> sc_decipher cr k n c = Some t) \<and>
     (\<forall>b. sc_unbase64 cr (sc_base64 cr b) = Ok b)"

lemma session_decrypt_encrypt:
  assumes "session_crypto_ok cr" and "length nonce = 12" and "session_encrypt cr nonce key s = Ok cookie"
  shows "session_decrypt cr key cookie = Ok s"
  using assms by (auto simp: session_encrypt_def session_decrypt_def session_crypto_ok_def split: sum.splits)

section \<open>Configuration\<close>

record config_policy_set =
  cps_id :: string
  cps_name :: string
  cps_enabled :: bool
  cps_cedar_text :: string

datatype cookie_secure_mode = CookieAuto | CookieEnabled | CookieDisabled

text \<open>The fields of \<^verbatim>\<open>AuthConfig\<close> that the running server reads.\<close>

record auth_config =
  cfg_provider_name :: string
  cfg_issuer_url :: string
  cfg_issuer_internal_url :: "string option"
  cfg_issuer_internal_urls :: "string list"
  cfg_jwks_urls :: "string list"
  cfg_client_id :: string
  cfg_token_endpoint_url :: string
  cfg_redirect_uri :: string
  cfg_logout_url :: "string option"
  cfg_jwks_cache_s3_key :: string
  cfg_jwks_max_stale_seconds :: u64
  cfg_policy_sets :: "config_policy_set list"
  cfg_group_claim :: string
  cfg_access_token_audience :: "string option"
  cfg_client_secret :: string
  cfg_login_scopes :: string
  cfg_tls_insecure_skip_verify :: bool

definition issuer_internal_url :: "auth_config \<Rightarrow> string" where
  "issuer_internal_url cfg = (case cfg_issuer_internal_url cfg of None \<Rightarrow> cfg_issuer_url cfg | Some u \<Rightarrow> u)"

definition trimmed_urls :: "string list \<Rightarrow> string list" where
  "trimmed_urls urls = filter (\<lambda>v. v \<noteq> []) (map trim urls)"

definition issuer_internal_urls :: "auth_config \<Rightarrow> string list" where
  "issuer_internal_urls cfg =
     (let urls = trimmed_urls (cfg_issuer_internal_urls cfg) in
      if urls = [] then [issuer_internal_url cfg] else urls)"

definition jwks_urls :: "auth_config \<Rightarrow> string list" where
  "jwks_urls cfg = trimmed_urls (cfg_jwks_urls cfg)"

definition effective_access_token_audience :: "auth_config \<Rightarrow> string option" where
  "effective_access_token_audience cfg =
     Option.bind (cfg_access_token_audience cfg) (\<lambda>v. let t = trim v in if t = [] then None else Some t)"

definition logout_url :: "auth_config \<Rightarrow> string option" where
  "logout_url cfg = Option.bind (cfg_logout_url cfg) (\<lambda>v. let t = trim v in if t = [] then None else Some t)"

definition provider_name :: "auth_config \<Rightarrow> string" where
  "provider_name cfg = trim (cfg_provider_name cfg)"

definition user_principal :: "auth_config \<Rightarrow> string \<Rightarrow> provider_qualified_id lh_result" where
  "user_principal cfg sub = pq_new (provider_name cfg) PKUser sub"

lemma issuer_internal_urls_not_empty: "issuer_internal_urls cfg \<noteq> []"
  by (simp add: issuer_internal_urls_def Let_def)

end
