(* ===== verification/Jwks.thy ===== *)
theory Jwks
  imports Tokens
begin

text \<open>
  The keys of the identity provider (\<^verbatim>\<open>auth/jwks.rs\<close>, \<^verbatim>\<open>auth/discovery.rs\<close> and the fetching part of
  \<^verbatim>\<open>auth/mod.rs\<close>): discovery and JWKS documents are fetched from the configured endpoints in order, installed
  in the cache of the process and kept in S3, from where a start without a reachable provider takes the last
  good copy if it is not too old.

  The HTTP client, the JSON and JWK parsers, the clock and S3 are the fields of \<open>idp\<close>.  A decoding key is
  represented by the JWK it is built from.
\<close>

section \<open>Definitions\<close>

record oidc_discovery =
  od_authorization_endpoint :: string
  od_token_endpoint :: string
  od_jwks_uri :: string
  od_end_session_endpoint :: "string option"

record jwks_cache =
  jc_keys :: "(string \<times> json) list"
  jc_fetched_at_unix :: "u64 option"
  jc_stale_mode :: bool
  jc_endpoint :: "string option"
  jc_refresh_failures :: u64

record jwks_metrics =
  jm_key_count :: nat
  jm_cache_age_seconds :: u64
  jm_stale_mode :: bool
  jm_refresh_failures :: u64
  jm_endpoint :: "string option"

record cached_jwks_document =
  cj_version :: u8
  cj_issuer_url :: string
  cj_issuer_internal_url :: string
  cj_discovery :: json
  cj_jwks :: json
  cj_fetched_at_unix :: u64

datatype fetch_error = ClientBuild msg | RequestBuild msg | SendFailed msg | ReadFailed msg

datatype jwks_get_error = JwksNoSuchKey msg | JwksServiceError "string option" msg

record 'w jwks_s3 =
  js_put :: "string \<Rightarrow> 'w \<Rightarrow> (unit, msg) result \<times> 'w"
  js_get :: "'w \<Rightarrow> ((string, msg) result, jwks_get_error) result \<times> 'w"
  js_encode :: "cached_jwks_document \<Rightarrow> (string, msg) result"
  js_decode :: "string \<Rightarrow> (cached_jwks_document, msg) result"

record 'w idp =
  ip_http_get :: "string \<Rightarrow> 'w \<Rightarrow> (string, fetch_error) result \<times> 'w"
  ip_from_str :: "string \<Rightarrow> (json, msg) result"
  ip_jwk_set :: "json \<Rightarrow> ((string option \<times> json) list, msg) result"
  ip_from_jwk :: "json \<Rightarrow> (unit, msg) result"
  ip_now :: "'w \<Rightarrow> u64"
  ip_cache :: "'w \<Rightarrow> jwks_cache"
  ip_set_cache :: "jwks_cache \<Rightarrow> 'w \<Rightarrow> 'w"
  ip_discovery :: "'w \<Rightarrow> oidc_discovery"
  ip_set_discovery :: "oidc_discovery \<Rightarrow> 'w \<Rightarrow> 'w"
  ip_s3 :: "'w jwks_s3 option"

subsection \<open>The cache\<close>

definition jwks_empty :: jwks_cache where
  "jwks_empty = \<lparr>jc_keys = [], jc_fetched_at_unix = None, jc_stale_mode = False, jc_endpoint = None, jc_refresh_failures = 0\<rparr>"

definition find_key :: "jwks_cache \<Rightarrow> string \<Rightarrow> json option" where
  "find_key cache kid = map_of (jc_keys cache) kid"

fun convert_keys :: "'w idp \<Rightarrow> (string option \<times> json) list \<Rightarrow> (string \<times> json) list lh_result" where
  "convert_keys ip [] = Ok []"
| "convert_keys ip ((key_id, jwk) # jwks) =
     (case ip_from_jwk ip jwk of
        Inl e \<Rightarrow> Err (Internal (Lit ''JWK conversion failed: '' # e))
      | Inr _ \<Rightarrow> res_bind (convert_keys ip jwks) (\<lambda>keys. Ok ((case key_id of None \<Rightarrow> [] | Some k \<Rightarrow> k, jwk) # keys)))"

text \<open>The cache after the call, or the error; on an error the cache is as it was.\<close>

definition refresh_from_value :: "'w idp \<Rightarrow> json \<Rightarrow> u64 \<Rightarrow> bool \<Rightarrow> string \<Rightarrow> jwks_cache \<Rightarrow> jwks_cache lh_result" where
  "refresh_from_value ip jwks_value fetched_at stale endpoint cache =
     (case ip_jwk_set ip jwks_value of
        Inl e \<Rightarrow> Err (Internal (Lit ''JWKS parse failed: '' # e))
      | Inr jwks \<Rightarrow>
          res_bind (convert_keys ip jwks) (\<lambda>keys.
            Ok (cache\<lparr>jc_keys := keys, jc_fetched_at_unix := Some fetched_at, jc_stale_mode := stale, jc_endpoint := Some endpoint\<rparr>)))"

definition record_refresh_failure :: "jwks_cache \<Rightarrow> jwks_cache" where
  "record_refresh_failure cache = cache\<lparr>jc_refresh_failures := saturating_add_u64 (jc_refresh_failures cache) 1\<rparr>"

definition jwks_metrics_of :: "u64 \<Rightarrow> jwks_cache \<Rightarrow> jwks_metrics" where
  "jwks_metrics_of now cache =
     \<lparr>jm_key_count = length (jc_keys cache),
      jm_cache_age_seconds = (case jc_fetched_at_unix cache of None \<Rightarrow> 0 | Some fetched \<Rightarrow> saturating_sub_u64 now fetched),
      jm_stale_mode = jc_stale_mode cache, jm_refresh_failures = jc_refresh_failures cache, jm_endpoint = jc_endpoint cache\<rparr>"

definition document_new :: "string \<Rightarrow> string \<Rightarrow> json \<Rightarrow> json \<Rightarrow> u64 \<Rightarrow> cached_jwks_document" where
  "document_new issuer_url internal_url discovery jwks fetched_at =
     \<lparr>cj_version = 1, cj_issuer_url = issuer_url, cj_issuer_internal_url = internal_url, cj_discovery = discovery,
      cj_jwks = jwks, cj_fetched_at_unix = fetched_at\<rparr>"

definition age_seconds :: "u64 \<Rightarrow> cached_jwks_document \<Rightarrow> u64" where
  "age_seconds now d = saturating_sub_u64 now (cj_fetched_at_unix d)"

definition within_stale_window :: "u64 \<Rightarrow> u64 \<Rightarrow> cached_jwks_document \<Rightarrow> bool" where
  "within_stale_window now max_stale d \<longleftrightarrow> age_seconds now d \<le> max_stale"

definition jwks_store :: "'w jwks_s3 \<Rightarrow> cached_jwks_document \<Rightarrow> ('w, unit) io" where
  "jwks_store js d =
     (case js_encode js d of
        Inl e \<Rightarrow> io_fail (Serialization (Lit ''JWKS cache encode: '' # e))
      | Inr bytes \<Rightarrow>
          io_match (js_put js bytes) (\<lambda>r.
            case r of Inl e \<Rightarrow> io_fail (S3 (Lit ''JWKS cache upload failed: '' # e)) | Inr _ \<Rightarrow> io_return ()))"

definition jwks_load :: "'w jwks_s3 \<Rightarrow> ('w, cached_jwks_document option) io" where
  "jwks_load js =
     io_match (js_get js) (\<lambda>r.
       case r of
         Inl (JwksNoSuchKey _) \<Rightarrow> io_return None
       | Inl (JwksServiceError code e) \<Rightarrow>
           if code \<in> {Some ''NoSuchBucket'', Some ''NotFound'', Some ''404''} then io_return None
           else io_fail (S3 (Lit ''JWKS cache download failed: '' # e))
       | Inr (Inl e) \<Rightarrow> io_fail (S3 (Lit ''JWKS cache body read failed: '' # e))
       | Inr (Inr bytes) \<Rightarrow>
           (case js_decode js bytes of
              Inl e \<Rightarrow> io_fail (Serialization (Lit ''JWKS cache decode: '' # e))
            | Inr d \<Rightarrow> io_return (Some d)))"

subsection \<open>Fetching\<close>

definition fetch_json :: "'w idp \<Rightarrow> string \<Rightarrow> string \<Rightarrow> ('w, json) io" where
  "fetch_json ip what url =
     io_match (ip_http_get ip url) (\<lambda>r.
       case r of
         Inl (ClientBuild e) \<Rightarrow> io_fail (Internal (Lit ''HTTP client build failed: '' # e))
       | Inl (RequestBuild e) \<Rightarrow> io_fail (Internal (Lit (what @ '' request build failed: '') # e))
       | Inl (SendFailed e) \<Rightarrow> io_fail (Internal (Lit (what @ '' fetch failed: '') # e))
       | Inl (ReadFailed e) \<Rightarrow> io_fail (Internal (Lit (what @ '' read failed: '') # e))
       | Inr body \<Rightarrow>
           (case ip_from_str ip body of
              Inl e \<Rightarrow> io_fail (Internal (Lit (what @ '' parse failed: '') # e))
            | Inr v \<Rightarrow> io_return v))"

definition fetch_jwks :: "'w idp \<Rightarrow> string \<Rightarrow> ('w, json) io" where
  "fetch_jwks ip jwks_uri = fetch_json ip ''JWKS'' jwks_uri"

definition trim_end_slashes :: "string \<Rightarrow> string" where
  "trim_end_slashes s = rev (dropWhile (\<lambda>c. c = CHR ''/'') (rev s))"

definition fetch_document :: "'w idp \<Rightarrow> string \<Rightarrow> ('w, json) io" where
  "fetch_document ip issuer_url =
     fetch_json ip ''discovery'' (trim_end_slashes issuer_url @ ''/.well-known/openid-configuration'')"

text \<open>\<^verbatim>\<open>find(\"://\")\<close>: what comes before and after the first occurrence.\<close>

fun split_str :: "string \<Rightarrow> string \<Rightarrow> (string \<times> string) option" where
  "split_str p [] = (if p = [] then Some ([], []) else None)"
| "split_str p (c # s) =
     (if starts_with p (c # s) then Some ([], drop (length p) (c # s))
      else map_option (\<lambda>(a, b). (c # a, b)) (split_str p s))"

definition extract_origin :: "string \<Rightarrow> string" where
  "extract_origin url =
     (case split_str ''://'' url of
        None \<Rightarrow> takeWhile (\<lambda>c. c \<noteq> CHR ''/'') url
      | Some (scheme, rest) \<Rightarrow> scheme @ ''://'' @ takeWhile (\<lambda>c. c \<noteq> CHR ''/'') rest)"

definition rewrite_base :: "string \<Rightarrow> string \<Rightarrow> string \<Rightarrow> string" where
  "rewrite_base url from_base to_base =
     (case strip_prefix (extract_origin from_base) url of
        Some rest \<Rightarrow> extract_origin to_base @ rest
      | None \<Rightarrow> url)"

definition doc_str :: "json \<Rightarrow> string \<Rightarrow> string option" where
  "doc_str doc k = Option.bind (json_get k doc) as_str"

definition from_document :: "json \<Rightarrow> string \<Rightarrow> string \<Rightarrow> oidc_discovery lh_result" where
  "from_document doc issuer_url public_base =
     res_bind (ok_or (doc_str doc ''authorization_endpoint'') (Internal [Lit ''discovery missing authorization_endpoint''])) (\<lambda>authz.
     res_bind (ok_or (doc_str doc ''token_endpoint'') (Internal [Lit ''discovery missing token_endpoint''])) (\<lambda>token.
     res_bind (ok_or (doc_str doc ''jwks_uri'') (Internal [Lit ''discovery missing jwks_uri''])) (\<lambda>jwks.
       Ok \<lparr>od_authorization_endpoint = authz, od_token_endpoint = rewrite_base token public_base issuer_url,
           od_jwks_uri = rewrite_base jwks public_base issuer_url,
           od_end_session_endpoint = doc_str doc ''end_session_endpoint''\<rparr>)))"

record fresh_auth_material =
  fm_issuer_internal_url :: string
  fm_discovery_doc :: json
  fm_discovery :: oidc_discovery
  fm_jwks_endpoint :: string
  fm_jwks :: json
  fm_fetched_at_unix :: u64

text \<open>The first candidate that answers; the errors of the others are collected in order.\<close>

fun first_jwks :: "'w idp \<Rightarrow> string list \<Rightarrow> msg list \<Rightarrow> 'w \<Rightarrow> (string \<times> json, msg list) result \<times> 'w" where
  "first_jwks ip [] errors w = (Err errors, w)"
| "first_jwks ip (endpoint # endpoints) errors w =
     (case fetch_jwks ip endpoint w of
        (Inr v, w') \<Rightarrow> (Ok (endpoint, v), w')
      | (Inl e, w') \<Rightarrow> first_jwks ip endpoints (errors @ [Disp endpoint # Lit '': '' # error_display e]) w')"

definition join_msgs :: "msg list \<Rightarrow> msg" where
  "join_msgs errors = (case errors of [] \<Rightarrow> [] | e # es \<Rightarrow> e @ concat (map (\<lambda>x. Lit ''; '' # x) es))"

definition fetch_auth_material_from_issuer :: "'w idp \<Rightarrow> auth_config \<Rightarrow> string \<Rightarrow> ('w, fresh_auth_material) io" where
  "fetch_auth_material_from_issuer ip cfg url =
     io_bind (fetch_document ip url) (\<lambda>doc.
     io_bind (io_result (from_document doc url (cfg_issuer_url cfg))) (\<lambda>discovery.
       let candidates = (if jwks_urls cfg = [] then [od_jwks_uri discovery] else jwks_urls cfg) in
       io_match (first_jwks ip candidates []) (\<lambda>r.
         case r of
           Inl errors \<Rightarrow>
             io_fail (Internal ([Lit ''JWKS fetch failed for issuer '', Disp url, Lit '': ''] @ join_msgs errors))
         | Inr (endpoint, jwks) \<Rightarrow>
             io_bind (io_read (ip_now ip)) (\<lambda>now.
               io_return \<lparr>fm_issuer_internal_url = url, fm_discovery_doc = doc, fm_discovery = discovery,
                 fm_jwks_endpoint = endpoint, fm_jwks = jwks, fm_fetched_at_unix = now\<rparr>))))"

fun fetch_fresh_loop :: "'w idp \<Rightarrow> auth_config \<Rightarrow> string list \<Rightarrow> msg list \<Rightarrow> ('w, fresh_auth_material) io" where
  "fetch_fresh_loop ip cfg [] errors =
     io_fail (Internal (Lit ''OIDC discovery/JWKS fetch failed for all configured endpoints: '' # join_msgs errors))"
| "fetch_fresh_loop ip cfg (url # urls) errors =
     io_match (fetch_auth_material_from_issuer ip cfg url) (\<lambda>r.
       case r of
         Inr material \<Rightarrow> io_return material
       | Inl e \<Rightarrow> fetch_fresh_loop ip cfg urls (errors @ [Disp url # Lit '': '' # error_display e]))"

definition fetch_fresh_auth_material :: "'w idp \<Rightarrow> auth_config \<Rightarrow> ('w, fresh_auth_material) io" where
  "fetch_fresh_auth_material ip cfg = fetch_fresh_loop ip cfg (issuer_internal_urls cfg) []"

subsection \<open>Installing\<close>

definition refresh_cache :: "'w idp \<Rightarrow> json \<Rightarrow> u64 \<Rightarrow> bool \<Rightarrow> string \<Rightarrow> ('w, unit) io" where
  "refresh_cache ip jwks fetched_at stale endpoint w =
     (case refresh_from_value ip jwks fetched_at stale endpoint (ip_cache ip w) of
        Inl e \<Rightarrow> (Err e, w)
      | Inr cache \<Rightarrow> (Ok (), ip_set_cache ip cache w))"

definition install_fresh_material :: "'w idp \<Rightarrow> auth_config \<Rightarrow> fresh_auth_material \<Rightarrow> ('w, unit) io" where
  "install_fresh_material ip cfg m =
     io_bind (refresh_cache ip (fm_jwks m) (fm_fetched_at_unix m) False (fm_jwks_endpoint m)) (\<lambda>_.
       case ip_s3 ip of
         None \<Rightarrow> io_return ()
       | Some js \<Rightarrow>
           io_match (jwks_store js (document_new (cfg_issuer_url cfg) (fm_issuer_internal_url m) (fm_discovery_doc m)
               (fm_jwks m) (fm_fetched_at_unix m)))
             (\<lambda>_. io_return ()))"

definition note_failure :: "'w idp \<Rightarrow> ('w, unit) io" where
  "note_failure ip w = (Ok (), ip_set_cache ip (record_refresh_failure (ip_cache ip w)) w)"

definition install_cached_document :: "'w idp \<Rightarrow> auth_config \<Rightarrow> cached_jwks_document \<Rightarrow> ('w, oidc_discovery) io" where
  "install_cached_document ip cfg d w =
     (if cj_issuer_url d \<noteq> cfg_issuer_url cfg then
        (Err (Internal [Lit ''cached JWKS issuer '', Disp (cj_issuer_url d), Lit '' does not match configured issuer '',
           Disp (cfg_issuer_url cfg)]), w)
      else if \<not> within_stale_window (ip_now ip w) (cfg_jwks_max_stale_seconds cfg) d then
        (Err (Internal [Lit ''cached JWKS is '', DispNum (unat (age_seconds (ip_now ip w) d)),
           Lit ''s old, exceeding configured stale window of '', DispNum (unat (cfg_jwks_max_stale_seconds cfg)), Lit ''s'']), w)
      else
        io_bind (io_result (from_document (cj_discovery d) (cj_issuer_internal_url d) (cfg_issuer_url cfg))) (\<lambda>discovery.
        io_bind (refresh_cache ip (cj_jwks d) (cj_fetched_at_unix d) True (''s3:'' @ cfg_jwks_cache_s3_key cfg)) (\<lambda>_.
          io_return discovery)) w)"

definition load_cached_material :: "'w idp \<Rightarrow> auth_config \<Rightarrow> layerhouse_error \<Rightarrow> ('w, oidc_discovery) io" where
  "load_cached_material ip cfg fetch_err =
     io_bind (note_failure ip) (\<lambda>_.
       case ip_s3 ip of
         None \<Rightarrow> io_fail (Internal (Lit ''initial JWKS fetch failed and no S3 JWKS cache is configured: '' # error_display fetch_err))
       | Some js \<Rightarrow>
           io_bind (jwks_load js) (\<lambda>found.
             case found of
               None \<Rightarrow> io_fail (Internal (Lit ''initial JWKS fetch failed and S3 JWKS cache is empty: '' # error_display fetch_err))
             | Some d \<Rightarrow> install_cached_document ip cfg d))"

text \<open>The last part of \<^verbatim>\<open>AuthService::new\<close>: what the service starts with.\<close>

definition initial_discovery :: "'w idp \<Rightarrow> auth_config \<Rightarrow> ('w, oidc_discovery) io" where
  "initial_discovery ip cfg =
     io_match (fetch_fresh_auth_material ip cfg) (\<lambda>r.
       case r of
         Inr m \<Rightarrow> io_bind (install_fresh_material ip cfg m) (\<lambda>_. io_return (fm_discovery m))
       | Inl fetch_err \<Rightarrow> load_cached_material ip cfg fetch_err)"

definition refresh_jwks_once :: "'w idp \<Rightarrow> auth_config \<Rightarrow> ('w, unit) io" where
  "refresh_jwks_once ip cfg =
     io_match (fetch_fresh_auth_material ip cfg) (\<lambda>r.
       case r of
         Inr m \<Rightarrow>
           io_bind (install_fresh_material ip cfg m) (\<lambda>_.
             (\<lambda>w. (Ok (), ip_set_discovery ip (fm_discovery m) w)))
       | Inl e \<Rightarrow> io_bind (note_failure ip) (\<lambda>_. io_fail e))"

section \<open>Which keys the cache trusts\<close>

text \<open>
  What is assumed of the fields that stand for the process and its peers: the locked cell reads back what was
  written to it, and neither HTTP nor S3 nor the other cell touches it.
\<close>

definition idp_ok :: "'w idp \<Rightarrow> bool" where
  "idp_ok ip \<longleftrightarrow>
     (\<forall>c w. ip_cache ip (ip_set_cache ip c w) = c) \<and>
     (\<forall>d w. ip_cache ip (ip_set_discovery ip d w) = ip_cache ip w) \<and>
     (\<forall>url w. ip_cache ip (snd (ip_http_get ip url w)) = ip_cache ip w) \<and>
     (\<forall>js. ip_s3 ip = Some js \<longrightarrow> (\<forall>b w. ip_cache ip (snd (js_put js b w)) = ip_cache ip w)
        \<and> (\<forall>w. ip_cache ip (snd (js_get js w)) = ip_cache ip w))"

definition same_cache :: "'w idp \<Rightarrow> 'w \<Rightarrow> 'w \<Rightarrow> bool" where
  "same_cache ip w w' \<longleftrightarrow> ip_cache ip w' = ip_cache ip w"

interpretation cache_order: world_order "same_cache ip" for ip
  by unfold_locales (simp_all add: same_cache_def)

lemma convert_keys_map:
  "convert_keys ip jwks = Ok keys \<Longrightarrow>
    keys = map (\<lambda>(k, j). (case k of None \<Rightarrow> [] | Some k \<Rightarrow> k, j)) jwks \<and> (\<forall>(k, j) \<in> set jwks. ip_from_jwk ip j = Ok ())"
  by (induction ip jwks arbitrary: keys rule: convert_keys.induct) (auto split: sum.splits option.splits)

lemma split_str_Some: "split_str p s = Some (a, b) \<Longrightarrow> s = a @ p @ b"
  by (induction s arbitrary: a) (auto simp: starts_with_iff split: if_splits)

lemma extract_origin_prefix: "\<exists>path. url = extract_origin url @ path"
proof (cases "split_str ''://'' url")
  case None
  then show ?thesis
    by (auto simp: extract_origin_def intro: exI [of _ "dropWhile (\<lambda>c. c \<noteq> CHR ''/'') url"])
next
  case (Some p)
  then obtain a b where p: "split_str ''://'' url = Some (a, b)" by (cases p) auto
  have "extract_origin url @ dropWhile (\<lambda>c. c \<noteq> CHR ''/'') b = url"
    unfolding extract_origin_def p using split_str_Some [OF p] by simp
  then show ?thesis by metis
qed

text \<open>Documents of another issuer or beyond the window leave the keys of the cache as they were.\<close>

lemma install_cached_document_rejects:
  assumes "cj_issuer_url d \<noteq> cfg_issuer_url cfg \<or> cfg_jwks_max_stale_seconds cfg < age_seconds (ip_now ip w) d"
  shows "\<exists>e. install_cached_document ip cfg d w = (Err (Internal e), w)"
  using assms by (auto simp: install_cached_document_def within_stale_window_def not_le)

lemma fetch_keeps_cache:
  assumes "idp_ok ip"
  shows "io_rel (same_cache ip) (fetch_json ip what url)"
    and "io_rel (same_cache ip) (first_jwks ip endpoints errors)"
proof -
  have get: "io_rel (same_cache ip) (ip_http_get ip u)" for u
    using assms by (simp add: idp_ok_def io_rel_def same_cache_def)
  show json: "io_rel (same_cache ip) (fetch_json ip what url)" for what url
    unfolding fetch_json_def
    by (intro cache_order.rels get) (auto simp: cache_order.rels split: sum.splits fetch_error.splits)
  show "io_rel (same_cache ip) (first_jwks ip endpoints errors)"
  proof (induction endpoints arbitrary: errors)
    case (Cons endpoint endpoints)
    show ?case
    proof (unfold io_rel_def, intro allI)
      fix w
      obtain r w' where f: "fetch_jwks ip endpoint w = (r, w')" by fastforce
      have "same_cache ip w w'"
        using json [of "''JWKS''" endpoint] f unfolding fetch_jwks_def io_rel_def by (metis snd_conv)
      with Cons.IH f show "same_cache ip w (snd (first_jwks ip (endpoint # endpoints) errors w))"
        by (cases r) (auto simp: io_rel_def same_cache_def)
    qed
  qed (simp add: io_rel_def same_cache_def)
qed

lemma fetch_fresh_keeps_cache:
  assumes "idp_ok ip"
  shows "io_rel (same_cache ip) (fetch_fresh_auth_material ip cfg)"
proof -
  have issuer: "io_rel (same_cache ip) (fetch_auth_material_from_issuer ip cfg url)" for url
    unfolding fetch_auth_material_from_issuer_def fetch_document_def Let_def
    by (intro cache_order.rels fetch_keeps_cache [OF assms])
      (auto intro!: cache_order.rels split: sum.splits prod.splits)
  have "io_rel (same_cache ip) (fetch_fresh_loop ip cfg urls errors)" for urls errors
  proof (induction urls arbitrary: errors)
    case (Cons url urls)
    show ?case
      unfolding fetch_fresh_loop.simps
      by (intro cache_order.rels issuer) (auto intro!: cache_order.rels Cons.IH split: sum.splits)
  qed (simp add: cache_order.rels)
  then show ?thesis by (simp add: fetch_fresh_auth_material_def)
qed

text \<open>
  A refresh replaces the keys only by the converted keys of a document that was just fetched; when anything
  fails before that, the last good keys stay and verification goes on with them.
\<close>

lemma refresh_keeps_last_good:
  assumes "idp_ok ip" and "refresh_jwks_once ip cfg w = (r, w')"
  shows "jc_keys (ip_cache ip w') = jc_keys (ip_cache ip w) \<and> is_ok r = False
    \<or> (\<exists>m w1 jwks. fetch_fresh_auth_material ip cfg w = (Ok m, w1) \<and> ip_jwk_set ip (fm_jwks m) = Ok jwks \<and>
        convert_keys ip jwks = Ok (jc_keys (ip_cache ip w')) \<and> \<not> jc_stale_mode (ip_cache ip w') \<and> r = Ok ())"
proof (cases "fetch_fresh_auth_material ip cfg w")
  case (Pair f w1)
  have w1: "ip_cache ip w1 = ip_cache ip w"
    using fetch_fresh_keeps_cache [OF assms(1), of cfg] Pair unfolding io_rel_def same_cache_def by (metis snd_conv)
  have cell: "ip_cache ip (ip_set_cache ip c v) = c" "ip_cache ip (ip_set_discovery ip d v) = ip_cache ip v" for c d v
    using assms(1) by (simp_all add: idp_ok_def)
  have s3: "ip_s3 ip = Some js \<Longrightarrow> ip_cache ip (snd (jwks_store js d v)) = ip_cache ip v" for js d v
    using assms(1) by (auto simp: idp_ok_def jwks_store_def io_match_def split: sum.splits prod.splits) (metis snd_conv)+
  show ?thesis
  proof (cases f)
    case (Inl e)
    with assms(2) Pair show ?thesis
      by (auto simp: refresh_jwks_once_def io_match_def io_bind_def note_failure_def record_refresh_failure_def cell w1)
  next
    case (Inr m)
    show ?thesis
    proof (cases "refresh_from_value ip (fm_jwks m) (fm_fetched_at_unix m) False (fm_jwks_endpoint m) (ip_cache ip w1)")
      case (Inl e)
      with assms(2) Pair Inr have "r = Err e \<and> w' = w1"
        by (auto simp: refresh_jwks_once_def io_match_def io_bind_def install_fresh_material_def refresh_cache_def)
      with w1 show ?thesis by simp
    next
      case ok: (Inr cache)
      then obtain jwks keys where j: "ip_jwk_set ip (fm_jwks m) = Ok jwks" "convert_keys ip jwks = Ok keys"
        and cache: "jc_keys cache = keys" "\<not> jc_stale_mode cache"
        by (auto simp: refresh_from_value_def split: sum.splits)
      have "r = Ok () \<and> ip_cache ip w' = cache"
        using assms(2) Pair Inr ok s3
        by (auto simp: refresh_jwks_once_def io_match_def io_bind_def install_fresh_material_def refresh_cache_def cell
            split: option.splits prod.splits sum.splits) (metis cell(1) snd_conv)+
      with Pair Inr j cache show ?thesis by blast
    qed
  qed
qed

end
