(* ===== verification/Cedar_Authorizer.thy ===== *)
theory Cedar_Authorizer
  imports Tokens Metadata_Store
begin

text \<open>
  The repository authorizer (\<^verbatim>\<open>auth/cedar_authorizer.rs\<close>): it prints a Cedar policy from the owner and the
  grants of a namespace, the scopes of a token and the configured policy sets, and asks Cedar.  Four checks
  come before Cedar: personal namespaces of others, writes to unclaimed handles, the scopes and epochs of a
  token, and the caller's own personal namespace.

  Cedar is outside the sources.  Its calls are the fields of \<open>cedar_engine\<close>, and a parsed value (schema,
  policy set, entity id, entities, context) is represented by the text or JSON it was parsed from.  The
  functions return \<^verbatim>\<open>Result<_, String>\<close>; a principal id that no constructor built makes \<^verbatim>\<open>kind()\<close> panic,
  which is \<^const>\<open>None\<close>.
\<close>

section \<open>The engine\<close>

record cedar_engine =
  ce_schema :: "string \<Rightarrow> (nat, msg) result"
  ce_parse_policy :: "string \<Rightarrow> (unit, msg) result"
  ce_validate :: "string \<Rightarrow> string \<Rightarrow> (unit, msg) result"
  ce_json_string :: "string \<Rightarrow> (string, msg) result"
  ce_entity_uid :: "string \<Rightarrow> (unit, msg) result"
  ce_entities :: "string \<Rightarrow> json \<Rightarrow> (unit, msg) result"
  ce_context :: "string \<Rightarrow> string \<Rightarrow> json \<Rightarrow> (unit, msg) result"
  ce_request :: "string \<Rightarrow> string \<Rightarrow> string \<Rightarrow> string \<Rightarrow> json \<Rightarrow> (unit, msg) result"
  ce_is_authorized :: "string \<Rightarrow> string \<Rightarrow> string \<Rightarrow> json \<Rightarrow> string \<Rightarrow> json \<Rightarrow> bool"

type_synonym 'a str_result = "('a, msg) result"
type_synonym 'a cedar = "'a str_result option"
type_synonym ('w, 'a) cio = "'w \<Rightarrow> ('a str_result \<times> 'w) option"

definition cd_ok :: "'a \<Rightarrow> 'a cedar" where "cd_ok a = Some (Ok a)"

definition cd_bind :: "'a cedar \<Rightarrow> ('a \<Rightarrow> 'b cedar) \<Rightarrow> 'b cedar" where
  "cd_bind m f = (case m of None \<Rightarrow> None | Some (Inl e) \<Rightarrow> Some (Err e) | Some (Inr a) \<Rightarrow> f a)"

definition cd_map_err :: "string \<Rightarrow> 'a str_result \<Rightarrow> 'a cedar" where
  "cd_map_err what r = Some (case r of Inl e \<Rightarrow> Err (Lit what # e) | Inr a \<Rightarrow> Ok a)"

definition cio_bind :: "('w, 'a) cio \<Rightarrow> ('a \<Rightarrow> ('w, 'b) cio) \<Rightarrow> ('w, 'b) cio" where
  "cio_bind m f w = (case m w of None \<Rightarrow> None | Some (Inl e, w') \<Rightarrow> Some (Err e, w') | Some (Inr a, w') \<Rightarrow> f a w')"

definition cio_lift :: "'a cedar \<Rightarrow> ('w, 'a) cio" where
  "cio_lift m w = map_option (\<lambda>r. (r, w)) m"

text \<open>\<^verbatim>\<open>store.call().await.map_err(|err| err.to_string())?\<close>\<close>

definition cio_store :: "('w, 'a) io \<Rightarrow> ('w, 'a) cio" where
  "cio_store m w = Some (case m w of (Inl e, w') \<Rightarrow> (Err (error_display e), w') | (Inr a, w') \<Rightarrow> (Ok a, w'))"

definition AUTHORIZATION_SCHEMA :: string where
  "AUTHORIZATION_SCHEMA = join [CHR 0x0A]
     ['''',
      ''entity Group;'',
      ''entity User in [Group];'',
      ''entity Anonymous;'',
      ''entity Namespace;'',
      ''entity Repository in [Namespace];'',
      ''entity Registry;'',
      '''',
      ''action '' @ [CHR 0x22] @ ''pull'' @ [CHR 0x22] @ '', '' @ [CHR 0x22] @ ''create'' @ [CHR 0x22] @ '', '' @ [CHR 0x22] @ ''update'' @ [CHR 0x22] @ '', '' @ [CHR 0x22] @ ''delete'' @ [CHR 0x22] @ '' appliesTo {'',
      ''    principal: [User, Anonymous],'',
      ''    resource: [Repository],'',
      ''    context: {'',
      ''        '' @ [CHR 0x22] @ ''repository'' @ [CHR 0x22] @ '': String,'',
      ''        '' @ [CHR 0x22] @ ''resource_id'' @ [CHR 0x22] @ '': String,'',
      ''        '' @ [CHR 0x22] @ ''namespace_id'' @ [CHR 0x22] @ '': String,'',
      ''        '' @ [CHR 0x22] @ ''token_type'' @ [CHR 0x22] @ '': String,'',
      ''        '' @ [CHR 0x22] @ ''username'' @ [CHR 0x22] @ '': String,'',
      ''        '' @ [CHR 0x22] @ ''display_name'' @ [CHR 0x22] @ '': String,'',
      ''        '' @ [CHR 0x22] @ ''email'' @ [CHR 0x22] @ '': String,'',
      ''        '' @ [CHR 0x22] @ ''scope_count'' @ [CHR 0x22] @ '': Long,'',
      ''        '' @ [CHR 0x22] @ ''namespace_epoch_count'' @ [CHR 0x22] @ '': Long'',
      ''    }'',
      ''};'',
      '''',
      ''action '' @ [CHR 0x22] @ ''admin'' @ [CHR 0x22] @ '' appliesTo {'',
      ''    principal: [User],'',
      ''    resource: [Registry],'',
      ''    context: {'',
      ''        '' @ [CHR 0x22] @ ''repository'' @ [CHR 0x22] @ '': String,'',
      ''        '' @ [CHR 0x22] @ ''resource_id'' @ [CHR 0x22] @ '': String,'',
      ''        '' @ [CHR 0x22] @ ''namespace_id'' @ [CHR 0x22] @ '': String,'',
      ''        '' @ [CHR 0x22] @ ''token_type'' @ [CHR 0x22] @ '': String,'',
      ''        '' @ [CHR 0x22] @ ''username'' @ [CHR 0x22] @ '': String,'',
      ''        '' @ [CHR 0x22] @ ''display_name'' @ [CHR 0x22] @ '': String,'',
      ''        '' @ [CHR 0x22] @ ''email'' @ [CHR 0x22] @ '': String,'',
      ''        '' @ [CHR 0x22] @ ''scope_count'' @ [CHR 0x22] @ '': Long,'',
      ''        '' @ [CHR 0x22] @ ''namespace_epoch_count'' @ [CHR 0x22] @ '': Long'',
      ''    }'',
      ''};'',
      '''']"

definition schema_parse :: "cedar_engine \<Rightarrow> string \<Rightarrow> string cedar" where
  "schema_parse ce src =
     cd_bind (cd_map_err ''invalid Cedar authorization schema: '' (ce_schema ce src)) (\<lambda>warnings.
       if warnings = 0 then cd_ok src
       else Some (Err [Lit ''invalid Cedar authorization schema: '', DispNum warnings, Lit '' warning(s)'']))"

definition policy_parse :: "cedar_engine \<Rightarrow> string \<Rightarrow> string \<Rightarrow> string cedar" where
  "policy_parse ce src schema =
     cd_bind (cd_map_err ''invalid Cedar authorization policy: '' (ce_parse_policy ce src)) (\<lambda>_.
     cd_bind (cd_map_err ''invalid Cedar authorization policy: '' (ce_validate ce schema src)) (\<lambda>_.
       cd_ok src))"

definition validate_policy_text :: "cedar_engine \<Rightarrow> string \<Rightarrow> unit cedar" where
  "validate_policy_text ce policy =
     cd_bind (schema_parse ce AUTHORIZATION_SCHEMA) (\<lambda>schema.
     cd_bind (policy_parse ce policy schema) (\<lambda>_. cd_ok ()))"

section \<open>Entities\<close>

datatype cedar_entity_type = EUser | EGroup | ENamespace | ERepository | ERegistry | EAction

fun entity_type_str :: "cedar_entity_type \<Rightarrow> string" where
  "entity_type_str EUser = ''User''"
| "entity_type_str EGroup = ''Group''"
| "entity_type_str ENamespace = ''Namespace''"
| "entity_type_str ERepository = ''Repository''"
| "entity_type_str ERegistry = ''Registry''"
| "entity_type_str EAction = ''Action''"

datatype cedar_action = CPull | CCreate | CUpdate | CDelete | CAdmin

fun cedar_action_from_oci :: "oci_action \<Rightarrow> cedar_action" where
  "cedar_action_from_oci Pull = CPull"
| "cedar_action_from_oci Create = CCreate"
| "cedar_action_from_oci Update = CUpdate"
| "cedar_action_from_oci Delete = CDelete"
| "cedar_action_from_oci Admin = CAdmin"

fun cedar_action_str :: "cedar_action \<Rightarrow> string" where
  "cedar_action_str CPull = ''pull''"
| "cedar_action_str CCreate = ''create''"
| "cedar_action_str CUpdate = ''update''"
| "cedar_action_str CDelete = ''delete''"
| "cedar_action_str CAdmin = ''admin''"

record cedar_entity_id =
  ei_type :: cedar_entity_type
  ei_id :: string

definition entity_new :: "cedar_entity_type \<Rightarrow> string \<Rightarrow> cedar_entity_id" where
  "entity_new t i = \<lparr>ei_type = t, ei_id = i\<rparr>"

definition entity_from_principal :: "provider_qualified_id \<Rightarrow> cedar_entity_id option" where
  "entity_from_principal i =
     map_option (\<lambda>k. entity_new (case k of PKUser \<Rightarrow> EUser | PKGroup \<Rightarrow> EGroup) i) (pq_kind i)"

definition cedar_string_literal :: "cedar_engine \<Rightarrow> string \<Rightarrow> string cedar" where
  "cedar_string_literal ce v = cd_map_err ''invalid Cedar string literal: '' (ce_json_string ce v)"

definition policy_ref :: "cedar_engine \<Rightarrow> cedar_entity_id \<Rightarrow> string cedar" where
  "policy_ref ce e =
     cd_bind (cedar_string_literal ce (ei_id e)) (\<lambda>lit. cd_ok (entity_type_str (ei_type e) @ ''::'' @ lit))"

definition entity_uid :: "cedar_engine \<Rightarrow> cedar_entity_id \<Rightarrow> string cedar" where
  "entity_uid ce e =
     cd_bind (policy_ref ce e) (\<lambda>r.
     cd_bind (cd_map_err ''invalid Cedar entity uid: '' (ce_entity_uid ce r)) (\<lambda>_. cd_ok r))"

definition action_uid :: "cedar_engine \<Rightarrow> cedar_action \<Rightarrow> string cedar" where
  "action_uid ce a = entity_uid ce (entity_new EAction (cedar_action_str a))"

definition json_uid :: "cedar_entity_id \<Rightarrow> json" where
  "json_uid e = JObject [(''id'', JString (ei_id e)), (''type'', JString (entity_type_str (ei_type e)))]"

definition cedar_namespace :: "namespace_epoch \<Rightarrow> cedar_entity_id" where
  "cedar_namespace epoch = entity_new ENamespace (epoch_entity_id epoch)"

record cedar_repository =
  cr_entity :: cedar_entity_id
  cr_namespace :: "cedar_entity_id option"

definition cedar_repository_new :: "namespace_epoch \<Rightarrow> string \<Rightarrow> cedar_repository" where
  "cedar_repository_new epoch relative_path =
     \<lparr>cr_entity = entity_new ERepository (epoch_entity_id epoch @ ''/'' @ relative_path),
      cr_namespace = Some (cedar_namespace epoch)\<rparr>"

definition cedar_repository_from_resource :: "repository_resource \<Rightarrow> cedar_repository" where
  "cedar_repository_from_resource r = cedar_repository_new (nr_epoch (rr_namespace r)) (rr_relative_path r)"

definition cedar_repository_unresolved :: "string \<Rightarrow> cedar_repository" where
  "cedar_repository_unresolved repository = \<lparr>cr_entity = entity_new ERepository repository, cr_namespace = None\<rparr>"

definition registry_root :: cedar_entity_id where
  "registry_root = entity_new ERegistry ''root''"

datatype cedar_resource = ResRepository cedar_repository | ResRegistry cedar_entity_id

definition resource_from_request :: "authz_request \<Rightarrow> cedar_resource" where
  "resource_from_request request =
     (if rq_repository request = ''*'' \<and> rq_resource request = None then ResRegistry registry_root
      else (case rq_resource request of
          Some resource \<Rightarrow> ResRepository (cedar_repository_from_resource resource)
        | None \<Rightarrow> ResRepository (cedar_repository_unresolved (rq_repository request))))"

fun resource_entity :: "cedar_resource \<Rightarrow> cedar_entity_id" where
  "resource_entity (ResRepository repository) = cr_entity repository"
| "resource_entity (ResRegistry registry) = registry"

fun resource_namespace :: "cedar_resource \<Rightarrow> cedar_entity_id option" where
  "resource_namespace (ResRepository repository) = cr_namespace repository"
| "resource_namespace (ResRegistry _) = None"

definition exact_policy_expr :: "cedar_engine \<Rightarrow> cedar_resource \<Rightarrow> string cedar" where
  "exact_policy_expr ce r = cd_bind (policy_ref ce (resource_entity r)) (\<lambda>t. cd_ok (''resource == '' @ t))"

record cedar_entity_set =
  es_principal :: cedar_entity_id
  es_group_parents :: "cedar_entity_id list"
  es_resources :: "cedar_resource list"

text \<open>The group ids of kind group, each entity once, in order.\<close>

fun group_parents :: "provider_qualified_id list \<Rightarrow> cedar_entity_id list \<Rightarrow> cedar_entity_id list option" where
  "group_parents [] acc = Some acc"
| "group_parents (i # ids) acc =
     (case pq_kind i of
        None \<Rightarrow> None
      | Some PKUser \<Rightarrow> group_parents ids acc
      | Some PKGroup \<Rightarrow>
          let g = entity_new EGroup i in group_parents ids (if g \<in> set acc then acc else acc @ [g]))"

definition entities_from_request :: "authz_request \<Rightarrow> cedar_resource \<Rightarrow> cedar_entity_set option" where
  "entities_from_request request resource =
     Option.bind (entity_from_principal (ac_principal (rq_actor request))) (\<lambda>p.
     Option.bind (group_parents (ac_group_ids (rq_actor request)) []) (\<lambda>gs.
       Some \<lparr>es_principal = p, es_group_parents = gs, es_resources = [resource]\<rparr>))"

definition entity_json :: "cedar_entity_id \<Rightarrow> cedar_entity_id list \<Rightarrow> json" where
  "entity_json e parents =
     JObject [(''attrs'', JObject []), (''parents'', JArray (map json_uid parents)), (''uid'', json_uid e)]"

fun resource_entities :: "cedar_resource list \<Rightarrow> cedar_entity_id list \<Rightarrow> json list" where
  "resource_entities [] seen = []"
| "resource_entities (ResRepository repository # rs) seen =
     (case cr_namespace repository of
        None \<Rightarrow> entity_json (cr_entity repository) [] # resource_entities rs seen
      | Some ns \<Rightarrow>
          (if ns \<in> set seen then [] else [entity_json ns []])
          @ entity_json (cr_entity repository) [ns] # resource_entities rs (ns # seen))"
| "resource_entities (ResRegistry registry # rs) seen = entity_json registry [] # resource_entities rs seen"

definition entities_json :: "cedar_entity_set \<Rightarrow> json" where
  "entities_json es =
     JArray (entity_json (es_principal es) (es_group_parents es)
       # map (\<lambda>g. entity_json g []) (es_group_parents es) @ resource_entities (es_resources es) [])"

definition build_entities :: "cedar_engine \<Rightarrow> string \<Rightarrow> cedar_entity_set \<Rightarrow> json cedar" where
  "build_entities ce schema es =
     cd_bind (cd_map_err ''invalid Cedar authorization entities: '' (ce_entities ce schema (entities_json es))) (\<lambda>_.
       cd_ok (entities_json es))"

section \<open>The printed policy\<close>

definition implied_actions :: "oci_action \<Rightarrow> oci_action list" where
  "implied_actions allowed = filter (action_matches allowed) [Pull, Create, Update, Delete]"

definition append_permit :: "cedar_engine \<Rightarrow> string \<Rightarrow> string \<Rightarrow> oci_action \<Rightarrow> string \<Rightarrow> string cedar" where
  "append_permit ce policy prin action resource =
     cd_bind (cedar_string_literal ce (cedar_action_str (cedar_action_from_oci action))) (\<lambda>lit.
       cd_ok (policy @ ''permit('' @ prin @ '', action == Action::'' @ lit @ '', '' @ resource @ '');'' @ [CHR 0x0A]))"

fun append_permits :: "cedar_engine \<Rightarrow> string \<Rightarrow> string \<Rightarrow> oci_action list \<Rightarrow> string \<Rightarrow> string cedar" where
  "append_permits ce policy prin [] resource = cd_ok policy"
| "append_permits ce policy prin (a # as) resource =
     cd_bind (append_permit ce policy prin a resource) (\<lambda>p. append_permits ce p prin as resource)"

definition append_permits_for_actions :: "cedar_engine \<Rightarrow> string \<Rightarrow> string \<Rightarrow> oci_action \<Rightarrow> string \<Rightarrow> string cedar" where
  "append_permits_for_actions ce policy prin allowed resource =
     append_permits ce policy prin (implied_actions allowed) resource"

definition namespace_policy_expr :: "cedar_engine \<Rightarrow> namespace_epoch \<Rightarrow> string cedar" where
  "namespace_policy_expr ce epoch =
     cd_bind (policy_ref ce (cedar_namespace epoch)) (\<lambda>t. cd_ok (''resource in '' @ t))"

definition principal_ref_of :: "cedar_engine \<Rightarrow> provider_qualified_id \<Rightarrow> string cedar" where
  "principal_ref_of ce i = Option.bind (entity_from_principal i) (policy_ref ce)"

definition append_namespace_owner_policies ::
  "cedar_engine \<Rightarrow> string \<Rightarrow> string \<Rightarrow> owner \<Rightarrow> namespace_epoch \<Rightarrow> string cedar" where
  "append_namespace_owner_policies ce policy provider owner epoch =
     (case owner of
        OwnerOrg _ \<Rightarrow> cd_ok policy
      | OwnerUser sub \<Rightarrow>
          cd_bind (Some (case pq_new provider PKUser sub of Inl e \<Rightarrow> Err (error_display e) | Inr i \<Rightarrow> Ok i)) (\<lambda>i.
          cd_bind (principal_ref_of ce i) (\<lambda>p.
          cd_bind (namespace_policy_expr ce epoch) (\<lambda>resource.
            append_permits_for_actions ce policy (''principal == '' @ p) Delete resource))))"

definition append_namespace_grant_policies ::
  "cedar_engine \<Rightarrow> string \<Rightarrow> namespace_grant \<Rightarrow> namespace_epoch \<Rightarrow> string cedar" where
  "append_namespace_grant_policies ce policy grant epoch =
     (case ng_grantee grant of
        GranteeGroup i \<Rightarrow>
          cd_bind (principal_ref_of ce i) (\<lambda>p.
          cd_bind (namespace_policy_expr ce epoch) (\<lambda>resource.
            append_permits_for_actions ce policy (''principal in '' @ p) (ng_action grant) resource))
      | GranteeUser i \<Rightarrow>
          cd_bind (principal_ref_of ce i) (\<lambda>p.
          cd_bind (namespace_policy_expr ce epoch) (\<lambda>resource.
            append_permits_for_actions ce policy (''principal == '' @ p) (ng_action grant) resource))
      | GranteePublic \<Rightarrow> cd_ok policy)"

fun append_grants :: "cedar_engine \<Rightarrow> string \<Rightarrow> namespace_grant list \<Rightarrow> namespace_epoch \<Rightarrow> string cedar" where
  "append_grants ce policy [] epoch = cd_ok policy"
| "append_grants ce policy (g # gs) epoch =
     cd_bind (append_namespace_grant_policies ce policy g epoch) (\<lambda>p. append_grants ce p gs epoch)"

definition uses_scopes :: "token_type \<Rightarrow> bool" where
  "uses_scopes t \<longleftrightarrow> t = PersonalAccess \<or> t = OciBearer"

definition append_explicit_scope_policies ::
  "cedar_engine \<Rightarrow> string \<Rightarrow> authz_request \<Rightarrow> cedar_resource \<Rightarrow> string cedar" where
  "append_explicit_scope_policies ce policy request resource =
     (if \<not> uses_scopes (ac_token_type (rq_actor request)) then cd_ok policy
      else (case matching_scope (ac_scopes (rq_actor request)) (rq_repository request) (rq_action request) of
          None \<Rightarrow> cd_ok policy
        | Some (_, allowed_action) \<Rightarrow>
            cd_bind (principal_ref_of ce (ac_principal (rq_actor request))) (\<lambda>p.
            cd_bind (exact_policy_expr ce resource) (\<lambda>r.
              append_permits_for_actions ce policy (''principal == '' @ p) allowed_action r))))"

definition end_line :: "string \<Rightarrow> string" where
  "end_line policy = (if ends_with [CHR 0x0A] policy then policy else policy @ [CHR 0x0A])"

definition append_enabled_policy_texts :: "string \<Rightarrow> string list \<Rightarrow> string" where
  "append_enabled_policy_texts policy texts = foldl (\<lambda>p text. end_line (end_line p @ text)) policy texts"

definition append_enabled_config_policy_sets :: "string \<Rightarrow> config_policy_set list \<Rightarrow> string" where
  "append_enabled_config_policy_sets policy sets =
     append_enabled_policy_texts policy (map cps_cedar_text (filter cps_enabled sets))"

definition append_enabled_metadata_policy_sets :: "string \<Rightarrow> policy_set list \<Rightarrow> string" where
  "append_enabled_metadata_policy_sets policy sets =
     append_enabled_policy_texts policy (map ps_cedar_text (filter ps_enabled sets))"

definition namespace_policies ::
  "cedar_engine \<Rightarrow> 'w raft_node \<Rightarrow> authz_request \<Rightarrow> ('w, string) cio" where
  "namespace_policies ce node request =
     (case rq_resource request of
        None \<Rightarrow> cio_lift (cd_ok [])
      | Some repository_resource \<Rightarrow>
          let epoch = nr_epoch (rr_namespace repository_resource) in
          cio_bind (cio_store (rms_get_namespace node (ep_handle epoch))) (\<lambda>found.
            case found of
              None \<Rightarrow> cio_lift (cd_ok [])
            | Some ns \<Rightarrow>
                if epoch_from_namespace ns \<noteq> epoch then cio_lift (cd_ok [])
                else
                  cio_bind (cio_lift (append_namespace_owner_policies ce [] (pq_provider (ac_principal (rq_actor request)))
                      (ns_owner ns) epoch)) (\<lambda>policy.
                  cio_bind (cio_store (rms_list_namespace_grants node (ep_handle epoch))) (\<lambda>grants.
                    cio_lift (append_grants ce policy grants epoch)))))"

definition policy_for_request ::
  "cedar_engine \<Rightarrow> config_policy_set list \<Rightarrow> 'w raft_node \<Rightarrow> authz_request \<Rightarrow> ('w, string) cio" where
  "policy_for_request ce config_sets node request =
     cio_bind (namespace_policies ce node request) (\<lambda>policy1.
       let policy2 = append_enabled_config_policy_sets policy1 config_sets in
       cio_bind (cio_lift (append_explicit_scope_policies ce policy2 request (resource_from_request request))) (\<lambda>policy3.
       cio_bind (cio_store (rms_list_policy_sets node)) (\<lambda>sets.
         cio_lift (cd_ok (append_enabled_metadata_policy_sets policy3 sets)))))"

section \<open>The decision\<close>

definition cross_user_personal_namespace :: "authz_request \<Rightarrow> bool" where
  "cross_user_personal_namespace request =
     (case in_personal_namespace_of (rq_repository request) of
        None \<Rightarrow> False
      | Some namespace_user \<Rightarrow>
          (case ac_username (rq_actor request) of None \<Rightarrow> True | Some username \<Rightarrow> username \<noteq> namespace_user))"

definition unclaimed_write :: "authz_request \<Rightarrow> bool" where
  "unclaimed_write request =
     (if rq_action request = Pull \<or> rq_resource request \<noteq> None \<or> rq_repository request = ''*'' then False
      else (case handle_of (rq_repository request) of Inl _ \<Rightarrow> False | Inr handle \<Rightarrow> \<not> is_handle_reserved handle))"

definition scope_matches_namespace_epoch ::
  "namespace_epoch list \<Rightarrow> string \<Rightarrow> namespace_epoch option \<Rightarrow> bool" where
  "scope_matches_namespace_epoch actor_epochs repo_pattern expected =
     (case expected of
        None \<Rightarrow> True
      | Some epoch \<Rightarrow>
          (case handle_of repo_pattern of
             Inl _ \<Rightarrow> repo_pattern = ''*''
           | Inr handle \<Rightarrow>
               if is_handle_reserved handle \<or> handle \<noteq> ep_handle epoch then True
               else list_ex (\<lambda>e. e = epoch) actor_epochs))"

definition explicit_scope_guard_allows :: "authz_request \<Rightarrow> bool" where
  "explicit_scope_guard_allows request =
     (if \<not> uses_scopes (ac_token_type (rq_actor request)) then True
      else (case matching_scope (ac_scopes (rq_actor request)) (rq_repository request) (rq_action request) of
          None \<Rightarrow> False
        | Some (repo_pattern, _) \<Rightarrow>
            scope_matches_namespace_epoch (ac_namespace_epochs (rq_actor request)) repo_pattern
              (map_option (\<lambda>r. nr_epoch (rr_namespace r)) (rq_resource request))))"

fun token_type_name :: "token_type \<Rightarrow> string" where
  "token_type_name OidcAccess = ''oidc_access''"
| "token_type_name PersonalAccess = ''personal_access''"
| "token_type_name OciBearer = ''oci_bearer''"
| "token_type_name Session = ''session''"

text \<open>A length as \<^verbatim>\<open>i64\<close>, saturating.\<close>

definition len_as_i64 :: "nat \<Rightarrow> u64" where
  "len_as_i64 n = of_nat (min n (2 ^ 63 - 1))"

definition resource_context_id :: "cedar_resource \<Rightarrow> string" where
  "resource_context_id r = ei_id (resource_entity r)"

definition namespace_context_id :: "cedar_resource \<Rightarrow> string" where
  "namespace_context_id r = (case resource_namespace r of None \<Rightarrow> [] | Some ns \<Rightarrow> ei_id ns)"

definition or_empty :: "string option \<Rightarrow> string" where
  "or_empty v = (case v of None \<Rightarrow> [] | Some s \<Rightarrow> s)"

definition context_json_for_parts ::
  "string \<Rightarrow> string \<Rightarrow> string \<Rightarrow> string \<Rightarrow> string \<Rightarrow> string \<Rightarrow> string \<Rightarrow> u64 \<Rightarrow> u64 \<Rightarrow> json" where
  "context_json_for_parts repository resource_id namespace_id token_type username display_name email scope_count epoch_count =
     JObject
      [(''display_name'', JString display_name), (''email'', JString email),
       (''namespace_epoch_count'', json_u64 epoch_count), (''namespace_id'', JString namespace_id),
       (''repository'', JString repository), (''resource_id'', JString resource_id),
       (''scope_count'', json_u64 scope_count), (''token_type'', JString token_type),
       (''username'', JString username)]"

definition context_json :: "authz_request \<Rightarrow> json" where
  "context_json request =
     (let resource = resource_from_request request; a = rq_actor request in
      context_json_for_parts (rq_repository request) (resource_context_id resource) (namespace_context_id resource)
        (token_type_name (ac_token_type a)) (or_empty (ac_username a)) (or_empty (ac_display_name a)) (or_empty (ac_email a))
        (len_as_i64 (length (ac_scopes a))) (len_as_i64 (length (ac_namespace_epochs a))))"

definition decision_of :: "bool \<Rightarrow> authz_decision" where
  "decision_of allowed = (if allowed then Allow else Deny)"

definition cedar_evaluate :: "cedar_engine \<Rightarrow> string \<Rightarrow> string \<Rightarrow> authz_request \<Rightarrow> authz_decision cedar" where
  "cedar_evaluate ce schema policy request =
     (let resource = resource_from_request request in
      cd_bind (case entities_from_request request resource of
          None \<Rightarrow> None
        | Some es \<Rightarrow> build_entities ce schema es) (\<lambda>entities.
      cd_bind (Option.bind (entity_from_principal (ac_principal (rq_actor request))) (entity_uid ce)) (\<lambda>principal_uid.
      cd_bind (action_uid ce (cedar_action_from_oci (rq_action request))) (\<lambda>action_uid.
      cd_bind (entity_uid ce (resource_entity resource)) (\<lambda>resource_uid.
      cd_bind (cd_map_err ''invalid Cedar authorization context: '' (ce_context ce schema action_uid (context_json request))) (\<lambda>_.
      cd_bind (cd_map_err ''invalid Cedar authorization request: ''
          (ce_request ce schema principal_uid action_uid resource_uid (context_json request))) (\<lambda>_.
        cd_ok (decision_of (ce_is_authorized ce principal_uid action_uid resource_uid (context_json request) policy entities)))))))))"

definition cedar_decision_with_schema :: "cedar_engine \<Rightarrow> string \<Rightarrow> string \<Rightarrow> authz_request \<Rightarrow> authz_decision cedar" where
  "cedar_decision_with_schema ce schema_src policy_src request =
     cd_bind (schema_parse ce schema_src) (\<lambda>schema.
     cd_bind (policy_parse ce policy_src schema) (\<lambda>policy.
       if cross_user_personal_namespace request then cd_ok Deny
       else if unclaimed_write request then cd_ok Deny
       else if \<not> explicit_scope_guard_allows request then cd_ok Deny
       else if in_personal_namespace (ac_username (rq_actor request)) (rq_repository request) then cd_ok Allow
       else cedar_evaluate ce schema policy request))"

definition cedar_decision :: "cedar_engine \<Rightarrow> string \<Rightarrow> authz_request \<Rightarrow> authz_decision option" where
  "cedar_decision ce policy_src request =
     map_option (\<lambda>r. case r of Inl _ \<Rightarrow> Deny | Inr d \<Rightarrow> d)
       (cedar_decision_with_schema ce AUTHORIZATION_SCHEMA policy_src request)"

definition cedar_authorize ::
  "cedar_engine \<Rightarrow> config_policy_set list \<Rightarrow> 'w raft_node \<Rightarrow> authz_request \<Rightarrow> ('w, authz_decision) cio" where
  "cedar_authorize ce config_sets node request =
     cio_bind (policy_for_request ce config_sets node request) (\<lambda>policy.
       cio_lift (map_option Ok (cedar_decision ce policy request)))"

definition repository_resource_for_authorization ::
  "'w raft_node \<Rightarrow> string \<Rightarrow> ('w, repository_resource option) cio" where
  "repository_resource_for_authorization node repository =
     (case handle_of repository of
        Inl _ \<Rightarrow> cio_lift (cd_ok None)
      | Inr handle \<Rightarrow>
          if is_handle_reserved handle then cio_lift (cd_ok None)
          else cio_bind (cio_store (rms_get_namespace node handle)) (\<lambda>found.
            case found of
              None \<Rightarrow> cio_lift (cd_ok None)
            | Some ns \<Rightarrow>
                cio_lift (Some (case from_repository repository ns of
                    Inl e \<Rightarrow> Err (error_display e) | Inr r \<Rightarrow> Ok (Some r)))))"

fun max_action_loop ::
  "cedar_engine \<Rightarrow> config_policy_set list \<Rightarrow> 'w raft_node \<Rightarrow> actor \<Rightarrow> string \<Rightarrow> repository_resource option
    \<Rightarrow> oci_action list \<Rightarrow> oci_action option \<Rightarrow> ('w, oci_action option) cio" where
  "max_action_loop ce config_sets node actor repository resource [] best = cio_lift (cd_ok best)"
| "max_action_loop ce config_sets node actor repository resource (action # actions) best =
     cio_bind (cedar_authorize ce config_sets node
         \<lparr>rq_actor = actor, rq_repository = repository, rq_resource = resource, rq_action = action\<rparr>) (\<lambda>d.
       max_action_loop ce config_sets node actor repository resource actions (if d = Allow then Some action else best))"

definition cedar_max_grantable_action ::
  "cedar_engine \<Rightarrow> config_policy_set list \<Rightarrow> 'w raft_node \<Rightarrow> actor \<Rightarrow> string \<Rightarrow> ('w, oci_action option) cio" where
  "cedar_max_grantable_action ce config_sets node actor repository =
     cio_bind (repository_resource_for_authorization node repository) (\<lambda>resource.
       max_action_loop ce config_sets node actor repository resource [Pull, Create, Update, Delete] None)"

end
