(* ===== verification/Auth_Service.thy ===== *)
theory Auth_Service
  imports Jwks Cedar_Authorizer
begin

text \<open>
  The authentication service (\<^verbatim>\<open>auth/mod.rs\<close>): what a credential stands for, whether an identity may do an
  action on a repository, and the registry's own bearer tokens.  JWT coding, SHA-256 and UUID recognition are
  fields of \<open>auth_service\<close>; decoding depends on the clock of the world through the expiry claim.  Operations
  that ask Cedar are in \<open>pio\<close>: a panic on a malformed principal id is \<^const>\<open>None\<close>.
\<close>

section \<open>Definitions\<close>

record 'w auth_service =
  au_config :: auth_config
  au_cedar :: cedar_engine
  au_idp :: "'w idp"
  au_crypto :: session_crypto
  au_session_key :: string
  au_sha_hex :: "string \<Rightarrow> string"
  au_is_uuid :: "string \<Rightarrow> bool"
  au_decode_own :: "string \<Rightarrow> 'w \<Rightarrow> token_claims option"
  au_encode_own :: "token_claims \<Rightarrow> (string, msg) result"
  au_decode_header :: "string \<Rightarrow> (string option \<times> string) option"
  au_decode_jwk :: "string \<Rightarrow> json \<Rightarrow> string \<Rightarrow> string \<Rightarrow> string \<Rightarrow> 'w \<Rightarrow> token_claims option"
  au_now :: "'w \<Rightarrow> u64"

definition unauthorized :: "string \<Rightarrow> layerhouse_error" where
  "unauthorized m = Unauthorized [Lit m] None None None"

subsection \<open>Credentials\<close>

definition validate_pat :: "'w auth_service \<Rightarrow> 'w raft_node \<Rightarrow> string \<Rightarrow> ('w, auth_identity) io" where
  "validate_pat au node token =
     io_bind (rms_get_personal_access_token_by_hash node (au_sha_hex au token)) (\<lambda>found.
       case found of
         None \<Rightarrow> io_fail (unauthorized ''invalid token'')
       | Some pat \<Rightarrow>
           io_bind (io_read (au_now au)) (\<lambda>now.
             if (case pat_expires_at pat of None \<Rightarrow> False | Some exp \<Rightarrow> now > exp)
             then io_fail (unauthorized ''token expired'')
             else io_bind (io_result (user_principal (au_config au) (pat_subject pat))) (\<lambda>p.
               io_return \<lparr>ai_subject = pat_subject pat, ai_principal = p, ai_username = pat_username pat,
                 ai_display_name = None, ai_email = None, ai_groups = [], ai_group_ids = [], ai_scopes = pat_scopes pat,
                 ai_namespace_epochs = pat_namespace_epochs pat, ai_token_type = PersonalAccess\<rparr>)))"

definition identity_of_claims ::
  "'w auth_service \<Rightarrow> token_claims \<Rightarrow> string list \<Rightarrow> string list \<Rightarrow> namespace_epoch list \<Rightarrow> token_type \<Rightarrow> auth_identity lh_result" where
  "identity_of_claims au claims groups scopes epochs ty =
     res_bind (user_principal (au_config au) (tc_subject claims)) (\<lambda>p.
       Ok \<lparr>ai_subject = tc_subject claims, ai_principal = p, ai_username = claims_username claims,
         ai_display_name = claims_display_name claims, ai_email = claims_email claims, ai_groups = groups,
         ai_group_ids = stable_group_ids (au_is_uuid au) (provider_name (au_config au)) groups,
         ai_scopes = scopes, ai_namespace_epochs = epochs, ai_token_type = ty\<rparr>)"

definition validate_oci_token :: "'w auth_service \<Rightarrow> string \<Rightarrow> ('w, auth_identity) io" where
  "validate_oci_token au token w =
     (case au_decode_own au token w of
        None \<Rightarrow> (Err (unauthorized ''invalid token''), w)
      | Some claims \<Rightarrow>
          (identity_of_claims au claims (case tc_groups claims of None \<Rightarrow> [] | Some gs \<Rightarrow> gs)
             (case tc_scope claims of None \<Rightarrow> [] | Some s \<Rightarrow> split_char (CHR '' '') s)
             (tc_namespace_epochs claims) OciBearer, w))"

definition signing_key :: "'w auth_service \<Rightarrow> string \<Rightarrow> ('w, json) io" where
  "signing_key au kid w =
     (case find_key (ip_cache (au_idp au) w) kid of
        Some key \<Rightarrow> (Ok key, w)
      | None \<Rightarrow>
          (case refresh_jwks_once (au_idp au) (au_config au) w of (_, w') \<Rightarrow>
             (ok_or (find_key (ip_cache (au_idp au) w') kid) (unauthorized ''unknown signing key''), w')))"

definition verify_token_claims :: "'w auth_service \<Rightarrow> string \<Rightarrow> string \<Rightarrow> ('w, token_claims) io" where
  "verify_token_claims au token audience =
     (case au_decode_header au token of
        None \<Rightarrow> io_fail (unauthorized ''invalid token'')
      | Some (None, _) \<Rightarrow> io_fail (unauthorized ''token missing kid'')
      | Some (Some kid, alg) \<Rightarrow>
          io_bind (signing_key au kid) (\<lambda>key.
          io_bind (io_read (au_decode_jwk au token key alg audience (cfg_issuer_url (au_config au)))) (\<lambda>decoded.
            io_result (ok_or decoded (unauthorized ''invalid token'')))))"

definition verify_id_token :: "'w auth_service \<Rightarrow> string \<Rightarrow> ('w, token_claims) io" where
  "verify_id_token au id_token = verify_token_claims au id_token (cfg_client_id (au_config au))"

definition access_token_audience :: "auth_config \<Rightarrow> string" where
  "access_token_audience cfg = (case effective_access_token_audience cfg of None \<Rightarrow> cfg_client_id cfg | Some a \<Rightarrow> a)"

definition verify_access_token :: "'w auth_service \<Rightarrow> string \<Rightarrow> ('w, string list \<times> string \<times> nat) io" where
  "verify_access_token au access_token =
     io_bind (verify_token_claims au access_token (access_token_audience (au_config au))) (\<lambda>claims.
       io_return (extract_groups claims (cfg_group_claim (au_config au)), tc_subject claims, tc_exp claims))"

definition validate_oidc_token :: "'w auth_service \<Rightarrow> string \<Rightarrow> ('w, auth_identity) io" where
  "validate_oidc_token au token =
     io_bind (verify_token_claims au token (access_token_audience (au_config au))) (\<lambda>claims.
       io_result (identity_of_claims au claims (extract_groups claims (cfg_group_claim (au_config au))) [] [] OidcAccess))"

definition validate_token :: "'w auth_service \<Rightarrow> 'w raft_node \<Rightarrow> string \<Rightarrow> ('w, auth_identity) io" where
  "validate_token au node token =
     (if starts_with ''layerhouse-'' token then validate_pat au node token
      else io_match (validate_oci_token au token) (\<lambda>r.
        case r of Inr identity \<Rightarrow> io_return identity | Inl _ \<Rightarrow> validate_oidc_token au token))"

text \<open>\<^verbatim>\<open>(now + Duration::hours(1)).timestamp() as usize\<close>, with a clock before the year 2554.\<close>

definition mint_oci_token ::
  "'w auth_service \<Rightarrow> auth_identity \<Rightarrow> string \<Rightarrow> namespace_epoch list \<Rightarrow> ('w, string) io" where
  "mint_oci_token au identity scopes epochs =
     io_bind (io_read (au_now au)) (\<lambda>now.
       case au_encode_own au
         \<lparr>tc_subject = ai_subject identity, tc_exp = unat now + 3600, tc_aud = None, tc_groups = Some (ai_groups identity),
          tc_name = ai_display_name identity, tc_preferred_username = ai_username identity, tc_email = ai_email identity,
          tc_scope = Some scopes, tc_namespace_epochs = epochs, tc_token_type = Some ''oci_bearer'',
          tc_iat = Some (unat now), tc_iss = Some ''layerhouse'', tc_additional_claims = JNull\<rparr> of
         Inl e \<Rightarrow> io_fail (Internal (Lit ''failed to mint token: '' # e))
       | Inr t \<Rightarrow> io_return t)"

subsection \<open>Authorization\<close>

definition pio_cedar :: "('w, 'a) cio \<Rightarrow> ('a str_result \<Rightarrow> ('w, 'b) pio) \<Rightarrow> ('w, 'b) pio" where
  "pio_cedar m f w = (case m w of None \<Rightarrow> None | Some (r, w') \<Rightarrow> f r w')"

definition access_denied :: "string \<Rightarrow> layerhouse_error" where
  "access_denied repository = Denied [Lit ''access denied for repository '', Disp repository]"

definition is_public_pull :: "repository option \<Rightarrow> bool" where
  "is_public_pull repo = (case repo of None \<Rightarrow> False | Some r \<Rightarrow> repo_visibility r = PublicPull)"

definition repository_resource_context ::
  "'w raft_node \<Rightarrow> string \<Rightarrow> oci_action \<Rightarrow> ('w, namespace_epoch option \<times> repository_resource option) io" where
  "repository_resource_context node repository action =
     (case handle_of repository of
        Inl _ \<Rightarrow> io_return (None, None)
      | Inr handle \<Rightarrow>
          if is_handle_reserved handle then io_return (None, None)
          else io_bind (rms_get_namespace node handle) (\<lambda>found.
            case found of
              None \<Rightarrow>
                if action \<noteq> Pull then io_fail (Denied [Lit ''namespace '', Dbg handle, Lit '' is not claimed''])
                else io_return (None, None)
            | Some ns \<Rightarrow>
                io_bind (io_result (from_repository repository ns)) (\<lambda>resource.
                  io_return (Some (epoch_from_namespace ns), Some resource))))"

definition cedar_authorization_decision ::
  "'w auth_service \<Rightarrow> 'w raft_node \<Rightarrow> authz_request \<Rightarrow> ('w, authz_decision) pio" where
  "cedar_authorization_decision au node request =
     pio_cedar (cedar_authorize (au_cedar au) (cfg_policy_sets (au_config au)) node request) (\<lambda>r.
       case r of Inr decision \<Rightarrow> pio_return decision | Inl _ \<Rightarrow> pio_return Deny)"

definition authorize_repository ::
  "'w auth_service \<Rightarrow> 'w raft_node \<Rightarrow> auth_identity \<Rightarrow> string \<Rightarrow> oci_action
    \<Rightarrow> ('w, authz_decision \<times> authorized_repository_access) pio" where
  "authorize_repository au node identity repository action =
     pio_bind (pio_run (repository_resource_context node repository action)) (\<lambda>(expected_namespace, resource).
     pio_bind (if action = Pull
         then pio_run (io_bind (rms_get_repository node repository) (\<lambda>repo. io_return (is_public_pull repo)))
         else pio_return False) (\<lambda>public.
       if public then pio_return (Allow, access_new repository action expected_namespace)
       else pio_bind (cedar_authorization_decision au node
           \<lparr>rq_actor = identity_actor identity, rq_repository = repository, rq_resource = resource, rq_action = action\<rparr>) (\<lambda>decision.
         pio_return (decision, access_new repository action expected_namespace))))"

definition check_permission ::
  "'w auth_service \<Rightarrow> 'w raft_node \<Rightarrow> auth_identity \<Rightarrow> string \<Rightarrow> oci_action \<Rightarrow> ('w, authorized_repository_access) pio" where
  "check_permission au node identity repository action =
     pio_bind (authorize_repository au node identity repository action) (\<lambda>(decision, access).
       case decision of
         Allow \<Rightarrow> pio_return access
       | Deny \<Rightarrow> pio_fail (access_denied repository))"

definition check_admin_access :: "'w auth_service \<Rightarrow> 'w raft_node \<Rightarrow> auth_identity \<Rightarrow> ('w, unit) pio" where
  "check_admin_access au node identity =
     pio_bind (check_permission au node identity ''*'' Admin) (\<lambda>_. pio_return ())"

definition check_public_pull :: "'w raft_node \<Rightarrow> string \<Rightarrow> ('w, unit) io" where
  "check_public_pull node repository =
     io_bind (io_result (handle_of repository)) (\<lambda>_.
     io_bind (rms_get_repository node repository) (\<lambda>repo.
       if is_public_pull repo then io_return ()
       else io_fail (Denied [Lit ''repository '', Dbg repository, Lit '' is not public''])))"

definition uses_explicit_scopes :: "auth_identity \<Rightarrow> bool" where
  "uses_explicit_scopes identity = uses_scopes (ai_token_type identity)"

definition grant_source_for_authorized_action ::
  "'w raft_node \<Rightarrow> auth_identity \<Rightarrow> string \<Rightarrow> oci_action \<Rightarrow> ('w, grant_source) io" where
  "grant_source_for_authorized_action node identity repository action =
     io_bind (if action = Pull then io_bind (rms_get_repository node repository) (\<lambda>repo. io_return (is_public_pull repo))
              else io_return False) (\<lambda>public.
       if public then io_return PublicGrant
       else if action = Delete \<and> in_personal_namespace (ai_username identity) repository then io_return Personal
       else if action = Delete \<and> \<not> uses_explicit_scopes identity then
         (case handle_of repository of
            Inl _ \<Rightarrow> io_return GroupGrant
          | Inr handle \<Rightarrow>
              if is_handle_reserved handle then io_return GroupGrant
              else io_bind (rms_get_namespace node handle) (\<lambda>found.
                io_return (case found of
                    Some ns \<Rightarrow> if ns_owner ns = OwnerUser (ai_subject identity) then Personal else GroupGrant
                  | None \<Rightarrow> GroupGrant)))
       else io_return GroupGrant)"

definition max_grantable_action ::
  "'w auth_service \<Rightarrow> 'w raft_node \<Rightarrow> auth_identity \<Rightarrow> string \<Rightarrow> ('w, oci_action \<times> grant_source) pio" where
  "max_grantable_action au node identity repository =
     pio_bind (pio_run (io_bind (rms_get_repository node repository) (\<lambda>repo. io_return (is_public_pull repo)))) (\<lambda>public.
     pio_cedar (cedar_max_grantable_action (au_cedar au) (cfg_policy_sets (au_config au)) node (identity_actor identity) repository) (\<lambda>r.
       case r of
         Inr (Some action) \<Rightarrow>
           pio_bind (pio_run (grant_source_for_authorized_action node identity repository action)) (\<lambda>source.
             pio_return (action, source))
       | Inr None \<Rightarrow> if public then pio_return (Pull, PublicGrant) else pio_fail (access_denied repository)
       | Inl _ \<Rightarrow> if public then pio_return (Pull, PublicGrant) else pio_fail (access_denied repository)))"

subsection \<open>Cookies\<close>

record cookie_flags =
  cf_secure :: bool
  cf_same_site :: string

definition flag_attributes :: "cookie_flags \<Rightarrow> string" where
  "flag_attributes flags =
     join ''; '' ([''HttpOnly''] @ (if cf_secure flags then [''Secure''] else []) @ [cf_same_site flags])"

definition to_ascii_lower :: "char \<Rightarrow> char" where
  "to_ascii_lower c = (if is_ascii_uppercase c then char_of (byte c + 32) else c)"

definition eq_ignore_ascii_case :: "string \<Rightarrow> string \<Rightarrow> bool" where
  "eq_ignore_ascii_case a b \<longleftrightarrow> map to_ascii_lower a = map to_ascii_lower b"

text \<open>\<open>forwarded_proto\<close> is the \<^verbatim>\<open>X-Forwarded-Proto\<close> header, if it is readable as text.\<close>

definition cookie_secure_flag :: "string option \<Rightarrow> cookie_secure_mode \<Rightarrow> bool \<Rightarrow> cookie_flags" where
  "cookie_secure_flag forwarded_proto mode server_tls_enabled =
     (case mode of
        CookieDisabled \<Rightarrow> \<lparr>cf_secure = False, cf_same_site = ''SameSite=Lax''\<rparr>
      | CookieEnabled \<Rightarrow> \<lparr>cf_secure = True, cf_same_site = ''SameSite=Lax''\<rparr>
      | CookieAuto \<Rightarrow>
          \<lparr>cf_secure = (case forwarded_proto of None \<Rightarrow> False | Some p \<Rightarrow> eq_ignore_ascii_case p ''https'') \<or> server_tls_enabled,
           cf_same_site = ''SameSite=Lax''\<rparr>)"

end
