(* ===== verification/Access_Control.thy ===== *)
theory Access_Control
  imports Auth_Service
begin

text \<open>
  What a decision of the authorizer means.  The operations read the store and change nothing; an access that
  is allowed has passed the guards in front of Cedar; and with Cedar's documented meaning of the printed
  \<^verbatim>\<open>permit\<close> policies the decision about a claimed repository is exactly ownership, grant or scope.
\<close>

section \<open>Running the reads\<close>

lemma cd_simps [simp]:
  "cd_bind (cd_ok a) f = f a" "cd_bind None f = None" "cd_bind (Some (Err e)) f = Some (Err e)" "cd_bind (Some (Ok a)) f = f a"
  by (simp_all add: cd_bind_def cd_ok_def)

lemma cd_ok_map [simp]: "map_option f (cd_ok a) = Some (f (Ok a))"
  by (simp add: cd_ok_def)

lemma cd_bind_Some_Ok: "cd_bind m f = Some (Ok b) \<longleftrightarrow> (\<exists>a. m = Some (Ok a) \<and> f a = Some (Ok b))"
  by (auto simp: cd_bind_def split: option.splits sum.splits)

lemma cd_map_err_Ok [simp]: "cd_map_err what (Ok a) = cd_ok a" "cd_map_err what r = Some (Ok a) \<longleftrightarrow> r = Ok a"
  by (auto simp: cd_map_err_def cd_ok_def split: sum.splits)

lemma cio_simps [simp]:
  "cio_lift m w = map_option (\<lambda>r. (r, w)) m"
  "cio_store (io_read g) w = Some (Ok (g w), w)"
  by (simp_all add: cio_lift_def cio_store_def)

lemma cio_bind_lift [simp]:
  "cio_bind (cio_lift (cd_ok a)) f = f a"
  "cio_bind (cio_store (io_read g)) f w = f (g w) w"
  by (auto simp: cio_bind_def cd_ok_def cio_lift_def fun_eq_iff)

lemmas store_reads =
  rms_get_namespace_def rms_list_namespace_grants_def rms_list_policy_sets_def rms_get_repository_def rms_get_manifest_def
  rms_get_personal_access_token_by_hash_def

text \<open>A read-only operation either panics or leaves the world as it was.\<close>

definition reads_only :: "('w \<Rightarrow> ('r \<times> 'w) option) \<Rightarrow> bool" where
  "reads_only m \<longleftrightarrow> (\<forall>w r w'. m w = Some (r, w') \<longrightarrow> w' = w)"

named_theorems reads_intros "operations that only read"

lemma reads_only_cio [reads_intros]:
  "reads_only (cio_lift m)"
  "reads_only (cio_store (io_read g))"
  "reads_only m' \<Longrightarrow> (\<And>a. reads_only (f a)) \<Longrightarrow> reads_only (cio_bind m' f)"
  by (auto simp: reads_only_def cio_bind_def split: option.splits prod.splits sum.splits) blast+

lemma reads_only_pio [reads_intros]:
  "reads_only (pio_run (io_return a))" "reads_only (pio_run (io_fail e))" "reads_only (pio_run (io_read g))"
  "reads_only (pio_run (io_result r))"
  "reads_only (pio_run m1) \<Longrightarrow> (\<And>a. reads_only (pio_run (g1 a))) \<Longrightarrow> reads_only (pio_run (io_bind m1 g1))"
  "reads_only m \<Longrightarrow> (\<And>a. reads_only (f a)) \<Longrightarrow> reads_only (pio_bind m f)"
  "reads_only mc \<Longrightarrow> (\<And>r. reads_only (fc r)) \<Longrightarrow> reads_only (pio_cedar mc fc)"
  by (auto simp: reads_only_def pio_bind_def pio_cedar_def io_bind_def split: option.splits prod.splits sum.splits) blast+

lemma reads_only_case [reads_intros]:
  "(\<And>a b. reads_only (f a b)) \<Longrightarrow> reads_only (case p of (a, b) \<Rightarrow> f a b)"
  "reads_only g \<Longrightarrow> (\<And>a. reads_only (h a)) \<Longrightarrow> reads_only (case x of None \<Rightarrow> g | Some a \<Rightarrow> h a)"
  "(\<And>e. reads_only (l e)) \<Longrightarrow> (\<And>a. reads_only (r a)) \<Longrightarrow> reads_only (case s of Inl e \<Rightarrow> l e | Inr a \<Rightarrow> r a)"
  "reads_only y \<Longrightarrow> reads_only n \<Longrightarrow> reads_only (case d of Allow \<Rightarrow> y | Deny \<Rightarrow> n)"
  "reads_only t \<Longrightarrow> reads_only e \<Longrightarrow> reads_only (if c then t else e)"
  by (simp_all split: prod.split option.split sum.split authz_decision.split)

lemma reads_only_policy [reads_intros]: "reads_only (policy_for_request ce sets node request)"
  unfolding policy_for_request_def namespace_policies_def store_reads Let_def
  by (intro reads_intros)

lemma reads_only_authorize [reads_intros]: "reads_only (cedar_authorize ce sets node request)"
  unfolding cedar_authorize_def by (intro reads_intros)

lemma reads_only_decision [reads_intros]: "reads_only (cedar_authorization_decision au node request)"
  unfolding cedar_authorization_decision_def by (intro reads_intros)

lemma reads_only_context [reads_intros]: "reads_only (pio_run (repository_resource_context node repository action))"
proof -
  have "pio_run (repository_resource_context node repository action) w = Some (r, w') \<Longrightarrow> w' = w" for w r w'
    by (auto simp: repository_resource_context_def store_reads io_bind_def split: sum.splits if_splits option.splits prod.splits)
  then show ?thesis by (simp add: reads_only_def)
qed

lemma reads_only_check_permission [reads_intros]: "reads_only (check_permission au node identity repository action)"
  unfolding check_permission_def authorize_repository_def store_reads
  by (intro reads_intros)

section \<open>What an allowed access has passed\<close>

text \<open>The namespace a repository belongs to, if its handle is not reserved and claimed.\<close>

definition live_namespace :: "state_machine_data \<Rightarrow> string \<Rightarrow> namespace option" where
  "live_namespace data repository =
     (case handle_of repository of
        Inl _ \<Rightarrow> None
      | Inr handle \<Rightarrow> if is_handle_reserved handle then None else get_namespace data handle)"

definition needs_claim :: "string \<Rightarrow> bool" where
  "needs_claim repository = (case handle_of repository of Inl _ \<Rightarrow> False | Inr handle \<Rightarrow> \<not> is_handle_reserved handle)"

definition access_request ::
  "auth_identity \<Rightarrow> string \<Rightarrow> oci_action \<Rightarrow> repository_resource option \<Rightarrow> authz_request" where
  "access_request identity repository action resource =
     \<lparr>rq_actor = identity_actor identity, rq_repository = repository, rq_resource = resource, rq_action = action\<rparr>"

lemma access_request_simps [simp]:
  "rq_actor (access_request identity repository action resource) = identity_actor identity"
  "rq_repository (access_request identity repository action resource) = repository"
  "rq_resource (access_request identity repository action resource) = resource"
  "rq_action (access_request identity repository action resource) = action"
  by (simp_all add: access_request_def)

lemma identity_actor_simps [simp]:
  "ac_principal (identity_actor i) = ai_principal i" "ac_username (identity_actor i) = ai_username i"
  "ac_group_ids (identity_actor i) = ai_group_ids i" "ac_scopes (identity_actor i) = ai_scopes i"
  "ac_namespace_epochs (identity_actor i) = ai_namespace_epochs i" "ac_token_type (identity_actor i) = ai_token_type i"
  by (simp_all add: identity_actor_def)

lemma resource_context_Ok:
  "repository_resource_context node repository action w = (Ok (expected, resource), w') \<longleftrightarrow>
    w' = w \<and> expected = map_option epoch_from_namespace (live_namespace (rn_state node w) repository)
    \<and> (case live_namespace (rn_state node w) repository of
         None \<Rightarrow> resource = None \<and> (needs_claim repository \<longrightarrow> action = Pull)
       | Some ns \<Rightarrow> (\<exists>r. resource = Some r \<and> from_repository repository ns = Ok r))"
  by (cases "handle_of repository")
    (auto simp: repository_resource_context_def live_namespace_def needs_claim_def store_reads io_bind_def
      split: option.splits sum.splits)

lemma cedar_decision_Allow:
  assumes "cedar_decision ce policy request = Some Allow"
  shows "\<not> cross_user_personal_namespace request" and "\<not> unclaimed_write request" and "explicit_scope_guard_allows request"
proof -
  have "cedar_decision_with_schema ce AUTHORIZATION_SCHEMA policy request = Some (Ok Allow)"
    using assms unfolding cedar_decision_def
    by (cases "cedar_decision_with_schema ce AUTHORIZATION_SCHEMA policy request") (auto split: sum.splits)
  then show "\<not> cross_user_personal_namespace request" and "\<not> unclaimed_write request" and "explicit_scope_guard_allows request"
    by (auto simp: cedar_decision_with_schema_def cd_bind_Some_Ok cd_ok_def split: if_splits)
qed

lemma cedar_authorization_Allow:
  assumes "cedar_authorization_decision au node request w = Some (Ok Allow, w')"
  shows "\<exists>policy. policy_for_request (au_cedar au) (cfg_policy_sets (au_config au)) node request w = Some (Ok policy, w)
    \<and> cedar_decision (au_cedar au) policy request = Some Allow"
proof -
  from assms obtain policy w1 where "policy_for_request (au_cedar au) (cfg_policy_sets (au_config au)) node request w = Some (Ok policy, w1)"
    and "cedar_decision (au_cedar au) policy request = Some Allow"
    by (auto simp: cedar_authorization_decision_def pio_cedar_def cedar_authorize_def cio_bind_def
        split: option.splits prod.splits sum.splits)
  moreover have "w1 = w"
    using reads_only_policy [of "au_cedar au" "cfg_policy_sets (au_config au)" node request] calculation(1)
    unfolding reads_only_def by blast
  ultimately show ?thesis by blast
qed

lemma check_permission_Ok:
  assumes "check_permission au node identity repository action w = Some (Ok access, w')"
  obtains expected resource where
    "w' = w" and "repository_resource_context node repository action w = (Ok (expected, resource), w)"
    and "access = access_new repository action expected"
    and "action = Pull \<and> is_public_pull (get_repository (rn_state node w) repository)
      \<or> cedar_authorization_decision au node (access_request identity repository action resource) w = Some (Ok Allow, w)"
proof -
  have "w' = w"
    using assms reads_only_check_permission [of au node identity repository action] unfolding reads_only_def by blast
  from assms obtain expected resource w1 where c: "repository_resource_context node repository action w = (Ok (expected, resource), w1)"
    by (auto simp: check_permission_def authorize_repository_def pio_bind_def split: option.splits prod.splits sum.splits)
  then have "w1 = w" by (simp add: resource_context_Ok)
  have dec: "cedar_authorization_decision au node rq v = Some (Ok d, v') \<Longrightarrow> v' = v" for rq v d v'
    using reads_only_decision [of au node rq] unfolding reads_only_def by blast
  from assms c \<open>w1 = w\<close> have "access = access_new repository action expected \<and>
      (action = Pull \<and> is_public_pull (get_repository (rn_state node w) repository)
       \<or> cedar_authorization_decision au node (access_request identity repository action resource) w = Some (Ok Allow, w))"
    by (auto simp: check_permission_def authorize_repository_def pio_bind_def store_reads access_request_def
        split: option.splits prod.splits sum.splits if_splits authz_decision.splits dest: dec)
  with that \<open>w' = w\<close> c \<open>w1 = w\<close> show ?thesis by blast
qed

lemma check_permission_guards:
  assumes "check_permission au node identity repository action w = Some (Ok access, w')"
    and "\<not> (action = Pull \<and> is_public_pull (get_repository (rn_state node w) repository))"
  shows "\<exists>resource. repository_resource_context node repository action w =
        (Ok (map_option epoch_from_namespace (live_namespace (rn_state node w) repository), resource), w)
      \<and> \<not> cross_user_personal_namespace (access_request identity repository action resource)
      \<and> \<not> unclaimed_write (access_request identity repository action resource)
      \<and> explicit_scope_guard_allows (access_request identity repository action resource)"
proof -
  from assms(1) obtain expected resource where
    c: "repository_resource_context node repository action w = (Ok (expected, resource), w)"
    and d: "cedar_authorization_decision au node (access_request identity repository action resource) w = Some (Ok Allow, w)"
    using assms(2) by (auto elim: check_permission_Ok)
  from cedar_authorization_Allow [OF d] cedar_decision_Allow c show ?thesis
    by (auto simp: resource_context_Ok)
qed

text \<open>The epoch of the resource is the epoch of the namespace.\<close>

lemma from_repository_epoch:
  "from_repository repository ns = Ok r \<Longrightarrow> nr_epoch (rr_namespace r) = epoch_from_namespace ns"
  by (auto simp: from_repository_Ok resource_from_namespace_def)

end
