(* ===== verification/Cedar_Permits.thy ===== *)
theory Cedar_Permits
  imports Access_Control
begin

text \<open>
  The meaning of the policies the authorizer prints.  A \<^verbatim>\<open>permit\<close> names a user or a group, one action, and a
  repository or a namespace; \<open>cedar_semantics\<close> says what Cedar documents about a policy set of nothing else: a
  request is allowed when one of them covers it.  With it, the decision about a repository of a claimed
  namespace is the abstract \<open>may_access\<close>.
\<close>

section \<open>Permits\<close>

record permit =
  pt_group :: bool
  pt_principal :: cedar_entity_id
  pt_action :: oci_action
  pt_namespace :: bool
  pt_resource :: cedar_entity_id

definition ref_text :: "(string \<Rightarrow> string) \<Rightarrow> cedar_entity_id \<Rightarrow> string" where
  "ref_text lit e = entity_type_str (ei_type e) @ ''::'' @ lit (ei_id e)"

definition permit_text :: "(string \<Rightarrow> string) \<Rightarrow> permit \<Rightarrow> string" where
  "permit_text lit p =
     ''permit('' @ ((if pt_group p then ''principal in '' else ''principal == '') @ ref_text lit (pt_principal p))
     @ '', action == Action::'' @ lit (cedar_action_str (cedar_action_from_oci (pt_action p))) @ '', ''
     @ ((if pt_namespace p then ''resource in '' else ''resource == '') @ ref_text lit (pt_resource p)) @ '');'' @ [CHR 0x0A]"

definition permits_text :: "(string \<Rightarrow> string) \<Rightarrow> permit list \<Rightarrow> string" where
  "permits_text lit ps = concat (map (permit_text lit) ps)"

text \<open>
  Identifiers of graphic ASCII characters: their JSON string is the Cedar string, since \<^verbatim>\<open>serde_json\<close> escapes
  only the quote and the backslash in them, the way Cedar does.
\<close>

definition plain_id :: "string \<Rightarrow> bool" where
  "plain_id s \<longleftrightarrow> list_all is_graphic s"

definition plain_entity :: "cedar_entity_id \<Rightarrow> bool" where
  "plain_entity e \<longleftrightarrow> plain_id (ei_id e)"

definition permit_wf :: "permit \<Rightarrow> bool" where
  "permit_wf p \<longleftrightarrow> ei_type (pt_principal p) = (if pt_group p then EGroup else EUser) \<and> pt_action p \<noteq> Admin
     \<and> ei_type (pt_resource p) = (if pt_namespace p then ENamespace else ERepository)
     \<and> plain_entity (pt_principal p) \<and> plain_entity (pt_resource p)"

text \<open>
  The entity sets the schema admits: a user whose parents are distinct groups, and one repository with at most
  its namespace as parent.
\<close>

definition entity_set_wf :: "cedar_entity_set \<Rightarrow> cedar_repository \<Rightarrow> bool" where
  "entity_set_wf es repository \<longleftrightarrow> es_resources es = [ResRepository repository]
     \<and> ei_type (es_principal es) = EUser \<and> plain_entity (es_principal es)
     \<and> list_all (\<lambda>g. ei_type g = EGroup \<and> plain_entity g) (es_group_parents es) \<and> distinct (es_group_parents es)
     \<and> ei_type (cr_entity repository) = ERepository \<and> plain_entity (cr_entity repository)
     \<and> (case cr_namespace repository of None \<Rightarrow> True | Some n \<Rightarrow> ei_type n = ENamespace \<and> plain_entity n)"

definition permit_covers :: "cedar_entity_set \<Rightarrow> cedar_repository \<Rightarrow> oci_action \<Rightarrow> permit \<Rightarrow> bool" where
  "permit_covers es repository action p \<longleftrightarrow>
     (if pt_group p then pt_principal p \<in> set (es_group_parents es) else pt_principal p = es_principal es)
     \<and> pt_action p = action
     \<and> (if pt_namespace p then cr_namespace repository = Some (pt_resource p) else pt_resource p = cr_entity repository)"

text \<open>
  Cedar on the fragment the server prints, with identifiers of graphic characters: the schema, the printed
  policies, the entity references and the entity sets that fit the schema are accepted, and a request of a
  user about a repository is allowed exactly when a permit covers it.
\<close>

definition action_ref :: "(string \<Rightarrow> string) \<Rightarrow> oci_action \<Rightarrow> string" where
  "action_ref lit a = ref_text lit (entity_new EAction (cedar_action_str (cedar_action_from_oci a)))"

definition cedar_semantics :: "cedar_engine \<Rightarrow> (string \<Rightarrow> string) \<Rightarrow> bool" where
  "cedar_semantics ce lit \<longleftrightarrow>
     ce_schema ce AUTHORIZATION_SCHEMA = Ok 0 \<and>
     (\<forall>s. ce_json_string ce s = Ok (lit s)) \<and>
     (\<forall>ps. list_all permit_wf ps \<longrightarrow> ce_parse_policy ce (permits_text lit ps) = Ok ()
        \<and> ce_validate ce AUTHORIZATION_SCHEMA (permits_text lit ps) = Ok ()) \<and>
     (\<forall>e. plain_entity e \<longrightarrow> ce_entity_uid ce (ref_text lit e) = Ok ()) \<and>
     (\<forall>es repository. entity_set_wf es repository \<longrightarrow> ce_entities ce AUTHORIZATION_SCHEMA (entities_json es) = Ok ()) \<and>
     (\<forall>a rq. a \<noteq> Admin \<longrightarrow> ce_context ce AUTHORIZATION_SCHEMA (action_ref lit a) (context_json rq) = Ok ()) \<and>
     (\<forall>es repository a rq. entity_set_wf es repository \<longrightarrow> a \<noteq> Admin \<longrightarrow>
        ce_request ce AUTHORIZATION_SCHEMA (ref_text lit (es_principal es)) (action_ref lit a) (ref_text lit (cr_entity repository))
          (context_json rq) = Ok ()) \<and>
     (\<forall>es repository a rq ps. list_all permit_wf ps \<longrightarrow> a \<noteq> Admin \<longrightarrow> entity_set_wf es repository \<longrightarrow>
        ce_is_authorized ce (ref_text lit (es_principal es)) (action_ref lit a) (ref_text lit (cr_entity repository))
          (context_json rq) (permits_text lit ps) (entities_json es)
        = list_ex (permit_covers es repository a) ps)"

section \<open>Identifiers that arise\<close>

lemma plain_id_append [simp]: "plain_id (a @ b) \<longleftrightarrow> plain_id a \<and> plain_id b"
  by (simp add: plain_id_def)

lemma plain_id_literals [simp]: "plain_id [CHR ''#'']" "plain_id [CHR ''/'']" "plain_id [CHR '':'']" "plain_id (kind_as_str k)"
  by (simp_all add: plain_id_def is_graphic_def byte_def) (cases k; simp add: is_graphic_def byte_def)

lemma plain_id_slash [simp]: "plain_id (CHR ''/'' # s) \<longleftrightarrow> plain_id s"
  by (simp add: plain_id_def is_graphic_def byte_def)

lemma action_str_plain: "plain_id (cedar_action_str a)"
  by (cases a) (simp_all add: plain_id_def is_graphic_def byte_def)

lemma pq_new_plain: "pq_new p k i = Ok s \<Longrightarrow> plain_id s"
proof -
  assume "pq_new p k i = Ok s"
  then obtain q where q: "provider_id_new p = Ok q" and s: "s = q @ '':'' @ kind_as_str k @ '':'' @ escape_local_id i"
    by (auto simp: pq_new_def local_id_new_def split: if_splits)
  have "plain_id q" using provider_id_new_Ok(3) [OF q] by (simp add: plain_id_def list_all_iff)
  moreover have "plain_id (escape_local_id i)" using escape_graphic by (auto simp: plain_id_def list_all_iff)
  moreover have "plain_id (CHR '':'' # t) \<longleftrightarrow> plain_id t" for t by (simp add: plain_id_def is_graphic_def byte_def)
  ultimately show "plain_id s" unfolding s by simp
qed

lemma epoch_entity_plain: "handle_grammar (ep_handle e) \<Longrightarrow> plain_id (epoch_entity_id e)"
proof -
  assume "handle_grammar (ep_handle e)"
  then have "plain_id (ep_handle e)"
    by (auto simp: handle_grammar_def plain_id_def list_all_iff is_handle_byte_def byte_class_defs is_graphic_def byte_def)
  moreover have "plain_id (show_u64 (ep_generation e))"
    using show_nat_digits [of _ "unat (ep_generation e)"]
    by (fastforce simp: plain_id_def list_all_iff show_u64_def is_ascii_digit_def is_graphic_def byte_def)
  ultimately show "plain_id (epoch_entity_id e)"
    by (simp add: epoch_entity_id_def) (simp add: plain_id_def is_graphic_def byte_def)
qed

text \<open>Stored ids are deserialised as they are, so that a grant names a canonical principal is a condition.\<close>

definition grantee_plain :: "namespace_grant \<Rightarrow> bool" where
  "grantee_plain g \<longleftrightarrow> (case ng_grantee g of GranteeGroup i \<Rightarrow> plain_id i | GranteeUser i \<Rightarrow> plain_id i | GranteePublic \<Rightarrow> True)"

section \<open>The printed policy as permits\<close>

lemma list_ex_concat_map: "list_ex f (concat (map h xs)) = list_ex (\<lambda>x. list_ex f (h x)) xs"
  by (induction xs) simp_all

lemma pq_new_kind: "pq_new p k i = Ok s \<Longrightarrow> pq_kind s = Some k \<and> pq_provider s = trim p"
  using pq_new_parts [of p k i s] by (simp add: pq_kind_def pq_provider_def pq_part_def)

lemma stable_groups_plain:
  "i \<in> set (stable_group_ids is_uuid provider groups) \<Longrightarrow> pq_kind i = Some PKGroup \<and> plain_id i"
  using pq_new_plain [of provider PKGroup _ i] pq_new_kind [of provider PKGroup _ i]
  by (auto simp: stable_group_ids_def map_filter_def Let_def split: sum.splits if_splits)

lemma pq_new_inject: "pq_new p k i = Ok s \<Longrightarrow> pq_new p' k' i' = Ok s \<Longrightarrow> i = i'"
  using pq_new_parts(1) [of p k i s] pq_new_parts(1) [of p' k' i' s] unescape_escape by (metis list.inject sum.inject(2))

definition action_permits :: "bool \<Rightarrow> cedar_entity_id \<Rightarrow> oci_action \<Rightarrow> bool \<Rightarrow> cedar_entity_id \<Rightarrow> permit list" where
  "action_permits grp p allowed ns r =
     map (\<lambda>a. \<lparr>pt_group = grp, pt_principal = p, pt_action = a, pt_namespace = ns, pt_resource = r\<rparr>) (implied_actions allowed)"

definition owner_permits :: "string \<Rightarrow> owner \<Rightarrow> namespace_epoch \<Rightarrow> permit list" where
  "owner_permits provider owner epoch =
     (case owner of
        OwnerOrg _ \<Rightarrow> []
      | OwnerUser sub \<Rightarrow>
          (case pq_new provider PKUser sub of
             Inl _ \<Rightarrow> []
           | Inr i \<Rightarrow> action_permits False (entity_new EUser i) Delete True (cedar_namespace epoch)))"

definition grant_permits :: "namespace_epoch \<Rightarrow> namespace_grant \<Rightarrow> permit list" where
  "grant_permits epoch g =
     (case ng_grantee g of
        GranteeGroup i \<Rightarrow> action_permits True (entity_new EGroup i) (ng_action g) True (cedar_namespace epoch)
      | GranteeUser i \<Rightarrow> action_permits False (entity_new EUser i) (ng_action g) True (cedar_namespace epoch)
      | GranteePublic \<Rightarrow> [])"

lemma permits_text_append [simp]: "permits_text lit (ps @ qs) = permits_text lit ps @ permits_text lit qs"
  by (simp add: permits_text_def)

lemma policy_ref_lit: "(\<And>s. ce_json_string ce s = Ok (lit s)) \<Longrightarrow> policy_ref ce e = cd_ok (ref_text lit e)"
  by (simp add: policy_ref_def cedar_string_literal_def ref_text_def)

lemma append_permits_text:
  assumes "\<And>s. ce_json_string ce s = Ok (lit s)"
  shows "append_permits ce policy ((if grp then ''principal in '' else ''principal == '') @ ref_text lit p) as
      ((if ns then ''resource in '' else ''resource == '') @ ref_text lit r)
    = cd_ok (policy @ permits_text lit
        (map (\<lambda>a. \<lparr>pt_group = grp, pt_principal = p, pt_action = a, pt_namespace = ns, pt_resource = r\<rparr>) as))"
proof (induction as arbitrary: policy)
  case (Cons a as)
  show ?case
    unfolding append_permits.simps append_permit_def cedar_string_literal_def assms cd_map_err_Ok cd_simps Cons.IH
    by (simp add: permits_text_def permit_text_def)
qed (simp add: permits_text_def)

lemma append_actions_text:
  assumes "\<And>s. ce_json_string ce s = Ok (lit s)"
  shows "append_permits_for_actions ce policy (''principal in '' @ ref_text lit p) allowed (''resource in '' @ ref_text lit r)
      = cd_ok (policy @ permits_text lit (action_permits True p allowed True r))"
    and "append_permits_for_actions ce policy (''principal == '' @ ref_text lit p) allowed (''resource in '' @ ref_text lit r)
      = cd_ok (policy @ permits_text lit (action_permits False p allowed True r))"
    and "append_permits_for_actions ce policy (''principal == '' @ ref_text lit p) allowed (''resource == '' @ ref_text lit r)
      = cd_ok (policy @ permits_text lit (action_permits False p allowed False r))"
  using append_permits_text [OF assms, where grp = True and ns = True] append_permits_text [OF assms, where grp = False and ns = True]
    append_permits_text [OF assms, where grp = False and ns = False]
  by (simp_all add: append_permits_for_actions_def action_permits_def)

lemma implied_actions_iff: "a \<in> set (implied_actions allowed) \<longleftrightarrow> a \<noteq> Admin \<and> action_matches allowed a"
  by (cases a) (simp_all add: implied_actions_def)

lemma action_permits_wf:
  "ei_type p = (if grp then EGroup else EUser) \<Longrightarrow> ei_type r = (if ns then ENamespace else ERepository) \<Longrightarrow>
    plain_entity p \<Longrightarrow> plain_entity r \<Longrightarrow> list_all permit_wf (action_permits grp p allowed ns r)"
  by (auto simp: action_permits_def list_all_iff permit_wf_def implied_actions_iff)

lemma action_permits_covers:
  "list_ex (permit_covers es repository action) (action_permits grp p allowed ns r) \<longleftrightarrow>
    (if grp then p \<in> set (es_group_parents es) else p = es_principal es) \<and> action \<noteq> Admin \<and> action_matches allowed action
    \<and> (if ns then cr_namespace repository = Some r else r = cr_entity repository)"
  by (auto simp: action_permits_def list_ex_iff permit_covers_def implied_actions_iff)

lemma owner_policies_text:
  assumes "\<And>s. ce_json_string ce s = Ok (lit s)" and "\<And>sub. owner = OwnerUser sub \<Longrightarrow> is_ok (pq_new provider PKUser sub)"
  shows "append_namespace_owner_policies ce policy provider owner epoch = cd_ok (policy @ permits_text lit (owner_permits provider owner epoch))"
proof (cases owner)
  case (OwnerUser sub)
  with assms(2) obtain i where i: "pq_new provider PKUser sub = Ok i" by (auto simp: is_ok_iff)
  then have "pq_kind i = Some PKUser"
    by (auto dest!: pq_new_kind)
  then show ?thesis
    using OwnerUser i
    by (simp add: append_namespace_owner_policies_def owner_permits_def principal_ref_of_def entity_from_principal_def
        namespace_policy_expr_def policy_ref_lit [OF assms(1)] append_actions_text [OF assms(1), simplified])
qed (simp add: append_namespace_owner_policies_def owner_permits_def permits_text_def)

lemma grants_text:
  assumes "\<And>s. ce_json_string ce s = Ok (lit s)" and "list_all grantee_wf gs"
  shows "append_grants ce policy gs epoch = cd_ok (policy @ permits_text lit (concat (map (grant_permits epoch) gs)))"
  using assms(2)
proof (induction gs arbitrary: policy)
  case (Cons g gs)
  have "append_namespace_grant_policies ce policy g epoch = cd_ok (policy @ permits_text lit (grant_permits epoch g))"
    using Cons.prems
    by (auto simp: append_namespace_grant_policies_def grant_permits_def grantee_wf_def principal_ref_of_def entity_from_principal_def
        namespace_policy_expr_def policy_ref_lit [OF assms(1)] append_actions_text [OF assms(1), simplified] permits_text_def [of lit "[]"]
        split: namespace_grant_grantee.splits)
  with Cons show ?case by simp
qed (simp add: permits_text_def)

lemma no_enabled_texts:
  "(\<And>p. p \<in> set sets \<Longrightarrow> \<not> cps_enabled p) \<Longrightarrow> append_enabled_config_policy_sets policy sets = policy"
  "(\<And>p. p \<in> set sets' \<Longrightarrow> \<not> ps_enabled p) \<Longrightarrow> append_enabled_metadata_policy_sets policy sets' = policy"
  by (simp_all add: append_enabled_config_policy_sets_def append_enabled_metadata_policy_sets_def append_enabled_policy_texts_def
      filter_empty_conv [THEN iffD2])

definition scope_permits :: "authz_request \<Rightarrow> cedar_resource \<Rightarrow> permit list" where
  "scope_permits request resource =
     (if \<not> uses_scopes (ac_token_type (rq_actor request)) then []
      else (case matching_scope (ac_scopes (rq_actor request)) (rq_repository request) (rq_action request) of
          None \<Rightarrow> []
        | Some (_, allowed) \<Rightarrow>
            action_permits False (entity_new EUser (ac_principal (rq_actor request))) allowed False (resource_entity resource)))"

lemma scope_policies_text:
  assumes "\<And>s. ce_json_string ce s = Ok (lit s)" and "pq_kind (ac_principal (rq_actor request)) = Some PKUser"
  shows "append_explicit_scope_policies ce policy request resource = cd_ok (policy @ permits_text lit (scope_permits request resource))"
  using assms(2)
  by (auto simp: append_explicit_scope_policies_def scope_permits_def principal_ref_of_def entity_from_principal_def exact_policy_expr_def
      policy_ref_lit [OF assms(1)] append_actions_text [OF assms(1), simplified] permits_text_def [of lit "[]"] split: option.splits)

text \<open>The permits printed for a request about a repository of a live namespace, when no policy set is enabled.\<close>

lemma policy_text:
  assumes lit: "\<And>s. ce_json_string ce s = Ok (lit s)"
    and sets: "\<And>p. p \<in> set sets \<Longrightarrow> \<not> cps_enabled p" "\<And>p. p \<in> set (list_policy_sets (rn_state node w)) \<Longrightarrow> \<not> ps_enabled p"
    and res: "rq_resource request = Some r" "nr_epoch (rr_namespace r) = epoch_from_namespace ns"
    and ns: "get_namespace (rn_state node w) (ns_handle ns) = Some ns"
    and owner: "\<And>sub. ns_owner ns = OwnerUser sub \<Longrightarrow> is_ok (pq_new (pq_provider (ac_principal (rq_actor request))) PKUser sub)"
    and grants: "list_all grantee_wf (list_namespace_grants (rn_state node w) (ns_handle ns))"
    and user: "pq_kind (ac_principal (rq_actor request)) = Some PKUser"
  shows "policy_for_request ce sets node request w =
    Some (Ok (permits_text lit
      (owner_permits (pq_provider (ac_principal (rq_actor request))) (ns_owner ns) (epoch_from_namespace ns)
       @ concat (map (grant_permits (epoch_from_namespace ns)) (list_namespace_grants (rn_state node w) (ns_handle ns)))
       @ scope_permits request (resource_from_request request))), w)"
proof -
  have h: "ep_handle (epoch_from_namespace ns) = ns_handle ns" by (simp add: epoch_from_namespace_def epoch_new_def)
  have np: "namespace_policies ce node request w =
    Some (Ok (permits_text lit (owner_permits (pq_provider (ac_principal (rq_actor request))) (ns_owner ns) (epoch_from_namespace ns))
      @ permits_text lit (concat (map (grant_permits (epoch_from_namespace ns)) (list_namespace_grants (rn_state node w) (ns_handle ns))))), w)"
    using res ns
    by (simp add: namespace_policies_def Let_def h store_reads owner_policies_text [OF lit owner] grants_text [OF lit grants])
  show ?thesis
    by (simp add: policy_for_request_def cio_bind_def [of "namespace_policies ce node request"] np Let_def no_enabled_texts(1) [OF sets(1)]
        scope_policies_text [OF lit user] store_reads no_enabled_texts(2) [OF sets(2)])
qed

section \<open>The decision as a specification\<close>

text \<open>
  Who may act in a namespace: its owner does everything short of administration, a grant lets its user or
  the members of its group do what its action implies.
\<close>

definition grant_covers :: "auth_identity \<Rightarrow> oci_action \<Rightarrow> namespace_grant \<Rightarrow> bool" where
  "grant_covers identity action g \<longleftrightarrow> action_matches (ng_action g) action \<and>
     (case ng_grantee g of
        GranteeGroup i \<Rightarrow> i \<in> set (ai_group_ids identity)
      | GranteeUser i \<Rightarrow> i = ai_principal identity
      | GranteePublic \<Rightarrow> False)"

definition may_access :: "state_machine_data \<Rightarrow> auth_identity \<Rightarrow> namespace \<Rightarrow> oci_action \<Rightarrow> bool" where
  "may_access data identity ns action \<longleftrightarrow>
     ns_owner ns = OwnerUser (ai_subject identity)
     \<or> list_ex (grant_covers identity action) (list_namespace_grants data (ns_handle ns))"

text \<open>A scoped token speaks for the namespace when a scope covers the request and carries its epoch.\<close>

definition token_covers :: "auth_identity \<Rightarrow> string \<Rightarrow> oci_action \<Rightarrow> namespace \<Rightarrow> bool" where
  "token_covers identity repository action ns \<longleftrightarrow>
     (\<exists>pattern allowed. matching_scope (ai_scopes identity) repository action = Some (pattern, allowed)
        \<and> scope_matches_namespace_epoch (ai_namespace_epochs identity) pattern (Some (epoch_from_namespace ns)))"

lemma group_parents_set:
  assumes "\<And>i. i \<in> set ids \<Longrightarrow> pq_kind i = Some PKGroup"
  shows "\<exists>gs. group_parents ids acc = Some gs \<and> set gs = set acc \<union> entity_new EGroup ` set ids \<and> (distinct acc \<longrightarrow> distinct gs)"
  using assms
proof (induction ids arbitrary: acc)
  case (Cons i ids)
  from Cons.IH [of "if entity_new EGroup i \<in> set acc then acc else acc @ [entity_new EGroup i]"] Cons.prems show ?case
    by (auto simp: Let_def split: if_splits)
qed simp

lemma entity_new_simps [simp]:
  "entity_new t i = entity_new t' i' \<longleftrightarrow> t = t' \<and> i = i'" "ei_type (entity_new t i) = t" "ei_id (entity_new t i) = i"
  "plain_entity (entity_new t i) \<longleftrightarrow> plain_id i"
  by (simp_all add: entity_new_def plain_entity_def)

lemma cedar_semantics_authorized:
  "cedar_semantics ce lit \<Longrightarrow> list_all permit_wf ps \<Longrightarrow> a \<noteq> Admin \<Longrightarrow> entity_set_wf es repository \<Longrightarrow>
    ce_is_authorized ce (ref_text lit (es_principal es)) (action_ref lit a) (ref_text lit (cr_entity repository))
      (context_json rq) (permits_text lit ps) (entities_json es)
    = list_ex (permit_covers es repository a) ps"
  by (simp add: cedar_semantics_def)

lemma cedar_semantics_parse:
  assumes "cedar_semantics ce lit" and "list_all permit_wf ps"
  shows "schema_parse ce AUTHORIZATION_SCHEMA = cd_ok AUTHORIZATION_SCHEMA"
    and "policy_parse ce (permits_text lit ps) AUTHORIZATION_SCHEMA = cd_ok (permits_text lit ps)"
  using assms by (simp_all add: schema_parse_def policy_parse_def cedar_semantics_def)

text \<open>The entities of a request of a user about a repository of a live namespace.\<close>

definition request_entities :: "authz_request \<Rightarrow> cedar_entity_id list \<Rightarrow> repository_resource \<Rightarrow> cedar_entity_set" where
  "request_entities request gs r =
     \<lparr>es_principal = entity_new EUser (ac_principal (rq_actor request)), es_group_parents = gs,
      es_resources = [ResRepository (cedar_repository_from_resource r)]\<rparr>"

lemma request_entities_simps [simp]:
  "es_principal (request_entities request gs r) = entity_new EUser (ac_principal (rq_actor request))"
  "es_group_parents (request_entities request gs r) = gs"
  "es_resources (request_entities request gs r) = [ResRepository (cedar_repository_from_resource r)]"
  by (simp_all add: request_entities_def)

lemma cedar_evaluate_permits:
  assumes sem: "cedar_semantics ce lit" and wf: "list_all permit_wf ps" and action: "rq_action request \<noteq> Admin"
    and res: "rq_resource request = Some r" and user: "pq_kind (ac_principal (rq_actor request)) = Some PKUser"
    and gs: "group_parents (ac_group_ids (rq_actor request)) [] = Some gs"
    and es: "entity_set_wf (request_entities request gs r) (cedar_repository_from_resource r)"
  shows "cedar_evaluate ce AUTHORIZATION_SCHEMA (permits_text lit ps) request =
    cd_ok (decision_of (list_ex (permit_covers (request_entities request gs r)
      (cedar_repository_from_resource r) (rq_action request)) ps))"
proof -
  have lit: "\<And>s. ce_json_string ce s = Ok (lit s)" using sem by (simp add: cedar_semantics_def)
  have rr: "resource_from_request request = ResRepository (cedar_repository_from_resource r)"
    by (simp add: resource_from_request_def res)
  have uid: "plain_entity e \<Longrightarrow> entity_uid ce e = cd_ok (ref_text lit e)" for e
    using sem by (simp add: entity_uid_def policy_ref_lit [OF lit] cedar_semantics_def)
  have act: "action_uid ce (cedar_action_from_oci (rq_action request)) = cd_ok (action_ref lit (rq_action request))"
    by (simp add: action_uid_def action_ref_def uid action_str_plain)
  have plain: "plain_id (ac_principal (rq_actor request))" "plain_entity (cr_entity (cedar_repository_from_resource r))"
    using es by (simp_all add: entity_set_wf_def)
  let ?es = "request_entities request gs r"
  have built: "entities_from_request request (ResRepository (cedar_repository_from_resource r)) = Some ?es"
    using user gs by (simp add: entities_from_request_def entity_from_principal_def request_entities_def)
  have ok: "ce_entities ce AUTHORIZATION_SCHEMA (entities_json ?es) = Ok ()"
    "ce_context ce AUTHORIZATION_SCHEMA (action_ref lit (rq_action request)) (context_json request) = Ok ()"
    "ce_request ce AUTHORIZATION_SCHEMA (ref_text lit (es_principal ?es)) (action_ref lit (rq_action request))
      (ref_text lit (cr_entity (cedar_repository_from_resource r))) (context_json request) = Ok ()"
    using sem es action unfolding cedar_semantics_def by blast+
  have "cedar_evaluate ce AUTHORIZATION_SCHEMA (permits_text lit ps) request =
      cd_ok (decision_of (ce_is_authorized ce (ref_text lit (es_principal ?es)) (action_ref lit (rq_action request))
        (ref_text lit (cr_entity (cedar_repository_from_resource r))) (context_json request) (permits_text lit ps) (entities_json ?es)))"
    using user ok plain
    by (simp add: cedar_evaluate_def Let_def rr built entity_from_principal_def build_entities_def act uid)
  then show ?thesis
    by (subst (asm) cedar_semantics_authorized [OF sem wf action es])
qed

lemma cedar_decision_permits:
  assumes "cedar_semantics ce lit" and "list_all permit_wf ps" and "rq_action request \<noteq> Admin"
    and "rq_resource request = Some r" and "pq_kind (ac_principal (rq_actor request)) = Some PKUser"
    and "group_parents (ac_group_ids (rq_actor request)) [] = Some gs"
    and "entity_set_wf (request_entities request gs r) (cedar_repository_from_resource r)"
    and "\<not> cross_user_personal_namespace request" and "\<not> unclaimed_write request"
    and "\<not> in_personal_namespace (ac_username (rq_actor request)) (rq_repository request)"
  shows "cedar_decision ce (permits_text lit ps) request =
    Some (if explicit_scope_guard_allows request \<and> list_ex (permit_covers (request_entities request gs r)
        (cedar_repository_from_resource r) (rq_action request)) ps
      then Allow else Deny)"
  using cedar_evaluate_permits [OF assms(1-7)] assms(8-)
  by (simp add: cedar_decision_def cedar_decision_with_schema_def cedar_semantics_parse [OF assms(1,2)] decision_of_def)
    (simp add: cd_ok_def)

lemma namespace_repository:
  assumes "handle_of repository = Ok handle" and "\<not> is_handle_reserved handle"
  shows "in_personal_namespace_of repository = None" and "\<not> in_personal_namespace username repository"
proof -
  obtain rest where repo: "repository = handle @ CHR ''/'' # rest" "CHR ''/'' \<notin> set handle"
    using assms(1) by (auto simp: handle_of_iff)
  have h: "handle \<noteq> ''users''" using assms(2) by (auto simp: is_handle_reserved_def RESERVED_HANDLES_def)
  have users: "repository \<noteq> ''users'' @ CHR ''/'' # t" for t
    using sep_unique [of "CHR ''/''" handle "''users''" rest t] repo h by auto
  have "repository \<noteq> ''users/'' @ t" for t using users [of t] by simp
  then show "in_personal_namespace_of repository = None"
    by (metis append.assoc in_personal_namespace_of_iff not_Some_eq)
  from users show "\<not> in_personal_namespace username repository"
    by (auto simp: in_personal_namespace_def starts_with_iff split: option.splits)
qed

lemma provider_user_ok:
  assumes "pq_new p k i = Ok s"
  shows "j \<noteq> [] \<Longrightarrow> \<exists>t. pq_new (trim p) PKUser j = Ok t" and "pq_new (trim p) k i = Ok s"
proof -
  note parts = pq_new_parts [OF assms(1)]
  show "j \<noteq> [] \<Longrightarrow> \<exists>t. pq_new (trim p) PKUser j = Ok t" using parts(4) by (simp add: pq_new_def local_id_new_def)
  show "pq_new (trim p) k i = Ok s"
    using assms parts(4) by (auto simp: pq_new_def dest: provider_id_new_Ok(1))
qed

lemma owner_permits_cover:
  assumes "pq_new (trim provider) PKUser sub = Ok p" and "es_principal es = entity_new EUser p"
    and "cr_namespace repository = Some (cedar_namespace epoch)" and "action \<noteq> Admin" and "owner \<noteq> OwnerUser []"
  shows "list_ex (permit_covers es repository action) (owner_permits (trim provider) owner epoch) \<longleftrightarrow> owner = OwnerUser sub"
proof (cases owner)
  case (OwnerUser sub')
  then obtain p' where p': "pq_new (trim provider) PKUser sub' = Ok p'"
    using assms(5) pq_new_parts(4) [OF assms(1)] assms(1) by (auto simp: pq_new_def local_id_new_def)
  have "p' = p \<longleftrightarrow> sub' = sub" using p' assms(1) pq_new_inject by auto
  moreover have "action_matches Delete action" using assms(4) by (cases action) (simp_all add: action_matches_def)
  ultimately show ?thesis
    using OwnerUser p' assms(2,3,4) by (simp add: owner_permits_def action_permits_covers)
qed (simp add: owner_permits_def)

lemma grant_permits_cover:
  assumes "es_principal es = entity_new EUser (ai_principal identity)" and "set (es_group_parents es) = entity_new EGroup ` set (ai_group_ids identity)"
    and "cr_namespace repository = Some (cedar_namespace epoch)" and "action \<noteq> Admin"
  shows "list_ex (permit_covers es repository action) (grant_permits epoch g) \<longleftrightarrow> grant_covers identity action g"
  using assms by (auto simp: grant_permits_def grant_covers_def action_permits_covers split: namespace_grant_grantee.split)

lemma scope_permits_cover:
  assumes "es_principal es = entity_new EUser (ac_principal (rq_actor request))" and "rq_action request \<noteq> Admin"
    and "resource_entity (resource_from_request request) = cr_entity repository"
  shows "list_ex (permit_covers es repository (rq_action request)) (scope_permits request (resource_from_request request)) \<longleftrightarrow>
    uses_scopes (ac_token_type (rq_actor request)) \<and>
    matching_scope (ac_scopes (rq_actor request)) (rq_repository request) (rq_action request) \<noteq> None"
  using assms by (auto simp: scope_permits_def action_permits_covers split: option.split dest: matching_scope_Some)

lemma request_permits_wf:
  assumes "list_all grantee_plain gs" and "rq_resource request = Some r" and "handle_grammar (ep_handle epoch)"
    and "plain_id (ac_principal (rq_actor request))" and "plain_entity (cr_entity (cedar_repository_from_resource r))"
  shows "list_all permit_wf (owner_permits provider owner epoch @ concat (map (grant_permits epoch) gs)
    @ scope_permits request (resource_from_request request))"
proof -
  have ns: "ei_type (cedar_namespace epoch) = ENamespace" "plain_entity (cedar_namespace epoch)"
    using epoch_entity_plain [OF assms(3)] by (simp_all add: cedar_namespace_def)
  have "list_all permit_wf (owner_permits provider owner epoch)"
    by (auto simp: owner_permits_def ns pq_new_plain intro!: action_permits_wf split: owner.split sum.split)
  moreover have "list_all permit_wf (grant_permits epoch g)" if "grantee_plain g" for g
    using that by (auto simp: grant_permits_def grantee_plain_def ns intro!: action_permits_wf split: namespace_grant_grantee.splits)
  then have "list_all permit_wf (concat (map (grant_permits epoch) gs))"
    using assms(1) by (induction gs) simp_all
  moreover have "ei_type (cr_entity (cedar_repository_from_resource r)) = ERepository"
    by (simp add: cedar_repository_from_resource_def cedar_repository_new_def)
  then have "list_all permit_wf (scope_permits request (resource_from_request request))"
    using assms(2,4,5)
    by (auto simp: scope_permits_def resource_from_request_def intro!: action_permits_wf split: option.split)
  ultimately show ?thesis by simp
qed

lemma request_entities_wf:
  assumes "list_all (\<lambda>i. plain_id i) ids" and "set gs = entity_new EGroup ` set ids" and "distinct gs"
    and "plain_id (ac_principal (rq_actor request))" and "handle_grammar (ep_handle (nr_epoch (rr_namespace r)))"
    and "plain_id (rr_relative_path r)"
  shows "entity_set_wf (request_entities request gs r) (cedar_repository_from_resource r)"
    and "plain_entity (cr_entity (cedar_repository_from_resource r))"
  using assms epoch_entity_plain [OF assms(5)]
  by (auto simp: entity_set_wf_def list_all_iff cedar_repository_from_resource_def cedar_repository_new_def cedar_namespace_def)

text \<open>
  The outcome of \<^const>\<open>check_permission\<close> on a repository of a live namespace, when no policy set is enabled.
\<close>

lemma check_permission_exact:
  fixes node :: "'w raft_node"
  defines "data \<equiv> \<lambda>w. rn_state node w"
  assumes inv: "tenancy_inv (data w)" and sem: "cedar_semantics (au_cedar au) lit"
    and sets: "\<And>p. p \<in> set (cfg_policy_sets (au_config au)) \<Longrightarrow> \<not> cps_enabled p"
      "\<And>p. p \<in> set (list_policy_sets (data w)) \<Longrightarrow> \<not> ps_enabled p"
    and ns: "live_namespace (data w) repository = Some ns" "ns_owner ns \<noteq> OwnerUser []"
    and ident: "user_principal (au_config au) (ai_subject identity) = Ok (ai_principal identity)"
      "\<And>i. i \<in> set (ai_group_ids identity) \<Longrightarrow> pq_kind i = Some PKGroup \<and> plain_id i"
    and plain: "list_all grantee_plain (list_namespace_grants (data w) (ns_handle ns))" "plain_id repository"
    and action: "action \<noteq> Admin"
  shows "check_permission au node identity repository action w =
    Some (if action = Pull \<and> is_public_pull (get_repository (data w) repository)
          \<or> (if uses_explicit_scopes identity then token_covers identity repository action ns else may_access (data w) identity ns action)
        then Ok (access_new repository action (Some (epoch_from_namespace ns))) else Err (access_denied repository), w)"
proof -
  obtain handle where h: "handle_of repository = Ok handle" "\<not> is_handle_reserved handle" "get_namespace (data w) handle = Some ns"
    using ns(1) by (auto simp: live_namespace_def split: sum.splits if_splits)
  have nh: "ns_handle ns = handle"
    using inv h(3) by (auto simp: tenancy_inv_def namespaces_wf_def namespace_wf_def get_namespace_def)
  have gw: "list_all grantee_wf (list_namespace_grants (data w) handle)"
    using inv by (cases "bt_get (namespace_grants (data w)) handle")
      (auto simp: tenancy_inv_def grants_wf_def list_namespace_grants_def list_all_iff set_bt_values)
  obtain rest where rest: "repository = handle @ ''/'' @ rest" "rest \<noteq> []" "CHR ''/'' \<notin> set handle"
    using h(1) by (auto simp: handle_of_iff)
  then obtain r where r: "from_repository repository ns = Ok r"
    using nh by (auto simp: from_repository_Ok)
  note re = from_repository_epoch [OF r]
  let ?rq = "access_request identity repository action (Some r)"
  note user = ident(1) [unfolded user_principal_def]
  have kind: "pq_kind (ai_principal identity) = Some PKUser" and prov: "pq_provider (ai_principal identity) = trim (provider_name (au_config au))"
    using pq_new_kind [OF user] by auto
  have lit: "\<And>s. ce_json_string (au_cedar au) s = Ok (lit s)" using sem by (simp add: cedar_semantics_def)
  obtain gs where gs: "group_parents (ai_group_ids identity) [] = Some gs" "set gs = entity_new EGroup ` set (ai_group_ids identity)" "distinct gs"
    using group_parents_set [of "ai_group_ids identity" "[]"] ident(2) by auto
  have grammar: "handle_grammar handle"
    using inv h(3) by (auto simp: tenancy_inv_def namespaces_wf_def namespace_wf_def get_namespace_def)
  have ei: "entity_set_wf (request_entities ?rq gs r) (cedar_repository_from_resource r)"
      "plain_entity (cr_entity (cedar_repository_from_resource r))"
    using request_entities_wf [of "ai_group_ids identity" gs ?rq r] ident(2) gs pq_new_plain [OF user] grammar re nh plain(2) r
    by (auto simp: list_all_iff epoch_from_namespace_def epoch_new_def from_repository_Ok)
  let ?ps = "owner_permits (pq_provider (ai_principal identity)) (ns_owner ns) (epoch_from_namespace ns)
       @ concat (map (grant_permits (epoch_from_namespace ns)) (list_namespace_grants (data w) handle))
       @ scope_permits ?rq (resource_from_request ?rq)"
  have owner: "\<And>sub. ns_owner ns = OwnerUser sub \<Longrightarrow> is_ok (pq_new (pq_provider (ai_principal identity)) PKUser sub)"
    using provider_user_ok(1) [OF user] ns(2) unfolding prov by (metis is_ok_iff)
  have policy: "policy_for_request (au_cedar au) (cfg_policy_sets (au_config au)) node ?rq w = Some (Ok (permits_text lit ?ps), w)"
    using policy_text [where ce = "au_cedar au" and sets = "cfg_policy_sets (au_config au)" and node = node and w = w and request = ?rq
        and r = r and ns = ns, OF lit sets(1) sets(2) [unfolded data_def]] re h(3) gw owner kind nh
    by (simp add: data_def)
  have wf: "list_all permit_wf ?ps"
    by (rule request_permits_wf [where r = r])
      (use plain(1) nh grammar pq_new_plain [OF user] ei(2) in \<open>simp_all add: epoch_from_namespace_def epoch_new_def\<close>)
  have eval: "cedar_decision (au_cedar au) (permits_text lit ?ps) ?rq =
      Some (if explicit_scope_guard_allows ?rq \<and> list_ex (permit_covers (request_entities ?rq gs r)
        (cedar_repository_from_resource r) action) ?ps then Allow else Deny)"
    using cedar_decision_permits [OF sem wf, of ?rq r gs] action kind gs(1) namespace_repository [OF h(1,2)] ei(1)
    by (simp add: cross_user_personal_namespace_def unclaimed_write_def del: permits_text_append)
  let ?es = "request_entities ?rq gs r"
  have ce: "cr_namespace (cedar_repository_from_resource r) = Some (cedar_namespace (epoch_from_namespace ns))"
    by (simp add: cedar_repository_from_resource_def cedar_repository_new_def re)
  have "list_ex (permit_covers ?es (cedar_repository_from_resource r) action) ?ps \<longleftrightarrow>
      may_access (data w) identity ns action \<or> uses_explicit_scopes identity \<and> matching_scope (ai_scopes identity) repository action \<noteq> None"
  proof -
    have "list_ex (permit_covers ?es (cedar_repository_from_resource r) action)
        (owner_permits (pq_provider (ai_principal identity)) (ns_owner ns) (epoch_from_namespace ns)) \<longleftrightarrow>
        ns_owner ns = OwnerUser (ai_subject identity)"
      unfolding prov by (rule owner_permits_cover) (use provider_user_ok(2) [OF user] ce action ns(2) in simp_all)
    moreover have "list_ex (permit_covers ?es (cedar_repository_from_resource r) action) (grant_permits (epoch_from_namespace ns) g) \<longleftrightarrow>
        grant_covers identity action g" for g
      by (rule grant_permits_cover) (use gs(2) ce action in simp_all)
    moreover have "list_ex (permit_covers ?es (cedar_repository_from_resource r) (rq_action ?rq)) (scope_permits ?rq (resource_from_request ?rq)) \<longleftrightarrow>
        uses_scopes (ac_token_type (rq_actor ?rq)) \<and> matching_scope (ac_scopes (rq_actor ?rq)) (rq_repository ?rq) (rq_action ?rq) \<noteq> None"
      by (rule scope_permits_cover) (use action in \<open>simp_all add: resource_from_request_def\<close>)
    ultimately show ?thesis
      by (simp add: list_ex_concat_map may_access_def nh uses_explicit_scopes_def)
  qed
  moreover have "explicit_scope_guard_allows ?rq \<longleftrightarrow> (uses_explicit_scopes identity \<longrightarrow> token_covers identity repository action ns)"
    by (auto simp: explicit_scope_guard_allows_def token_covers_def uses_explicit_scopes_def re split: option.splits)
  moreover have "token_covers identity repository action ns \<Longrightarrow> matching_scope (ai_scopes identity) repository action \<noteq> None"
    by (auto simp: token_covers_def)
  ultimately have "cedar_decision (au_cedar au) (permits_text lit ?ps) ?rq = Some (if (if uses_explicit_scopes identity
      then token_covers identity repository action ns else may_access (data w) identity ns action) then Allow else Deny)"
    unfolding eval by (cases "uses_explicit_scopes identity") auto
  then have dec: "cedar_authorization_decision au node ?rq w = Some (Ok (if (if uses_explicit_scopes identity
      then token_covers identity repository action ns else may_access (data w) identity ns action) then Allow else Deny), w)"
    unfolding cedar_authorization_decision_def pio_cedar_def cedar_authorize_def cio_bind_def policy by simp
  have "repository_resource_context node repository action w = (Ok (Some (epoch_from_namespace ns), Some r), w)"
    using ns(1) r by (simp add: resource_context_Ok data_def)
  with dec show ?thesis
    by (auto simp: check_permission_def authorize_repository_def pio_bind_def store_reads access_request_def data_def)
qed

end
