(* ===== verification/Cedar_Instance.thy ===== *)
theory Cedar_Instance
  imports Cedar_Permits
begin

text \<open>
  An engine for the fragment of Cedar that the authorizer prints: it looks for the line of a permit that
  covers the request.  It satisfies \<^const>\<open>cedar_semantics\<close>, so the hypothesis on the engine can be met.
\<close>

section \<open>Definitions\<close>

definition quote_escape :: "char \<Rightarrow> string" where
  "quote_escape c = (if c = CHR 0x0A then [CHR 0x5C, CHR ''n''] else if c = CHR 0x22 \<or> c = CHR 0x5C then [CHR 0x5C, c] else [c])"

definition quoted :: "string \<Rightarrow> string" where
  "quoted s = CHR 0x22 # concat (map quote_escape s) @ [CHR 0x22]"

definition permit_line :: "string \<Rightarrow> string \<Rightarrow> string \<Rightarrow> string" where
  "permit_line p a r = ''permit('' @ p @ '', action == '' @ a @ '', '' @ r @ '');''"

definition json_ref :: "json \<Rightarrow> string" where
  "json_ref j = (case (Option.bind (json_get ''type'' j) as_str, Option.bind (json_get ''id'' j) as_str) of
     (Some t, Some i) \<Rightarrow> t @ ''::'' @ quoted i | _ \<Rightarrow> [])"

definition json_parents :: "json \<Rightarrow> string list" where
  "json_parents e = (case Option.bind (json_get ''parents'' e) as_array of None \<Rightarrow> [] | Some ps \<Rightarrow> map json_ref ps)"

text \<open>The principal is the first entity and the repository the last.\<close>

definition small_authorized :: "string \<Rightarrow> string \<Rightarrow> string \<Rightarrow> json \<Rightarrow> string \<Rightarrow> json \<Rightarrow> bool" where
  "small_authorized p a r ctx text entities =
     (case as_array entities of
        None \<Rightarrow> False
      | Some es \<Rightarrow>
          list_ex (\<lambda>pe. list_ex (\<lambda>re. permit_line pe a re \<in> set (split_char (CHR 0x0A) text))
              ((''resource == '' @ r) # map (\<lambda>x. ''resource in '' @ x) (json_parents (last es))))
            ((''principal == '' @ p) # map (\<lambda>x. ''principal in '' @ x) (json_parents (hd es))))"

definition small_cedar :: cedar_engine where
  "small_cedar =
     \<lparr>ce_schema = \<lambda>s. Ok 0, ce_parse_policy = \<lambda>t. Ok (), ce_validate = \<lambda>s t. Ok (), ce_json_string = \<lambda>s. Ok (quoted s),
      ce_entity_uid = \<lambda>t. Ok (), ce_entities = \<lambda>s j. Ok (), ce_context = \<lambda>s a j. Ok (), ce_request = \<lambda>s p a r j. Ok (),
      ce_is_authorized = small_authorized\<rparr>"

section \<open>Lines determine permits\<close>

lemma quoted_prefix: "quoted s @ x = quoted s' @ x' \<longleftrightarrow> s = s' \<and> x = x'"
proof -
  have "concat (map quote_escape s) @ CHR 0x22 # x = concat (map quote_escape s') @ CHR 0x22 # x' \<Longrightarrow> s = s' \<and> x = x'"
  proof (induction s arbitrary: s')
    case Nil
    then show ?case by (cases s') (auto simp: quote_escape_def split: if_splits)
  next
    case (Cons c s)
    from Cons.prems obtain c' t where s': "s' = c' # t" by (cases s') (auto simp: quote_escape_def split: if_splits)
    with Cons show ?case by (auto simp: quote_escape_def split: if_splits)
  qed
  then show ?thesis by (auto simp: quoted_def)
qed

lemma ref_text_prefix: "ref_text quoted e @ x = ref_text quoted e' @ x' \<longleftrightarrow> e = e' \<and> x = x'"
  by (cases e; cases e'; cases "ei_type e"; cases "ei_type e'") (auto simp: ref_text_def quoted_prefix)

definition line_of :: "permit \<Rightarrow> string" where
  "line_of p = permit_line ((if pt_group p then ''principal in '' else ''principal == '') @ ref_text quoted (pt_principal p))
     (ref_text quoted (entity_new EAction (cedar_action_str (cedar_action_from_oci (pt_action p)))))
     ((if pt_namespace p then ''resource in '' else ''resource == '') @ ref_text quoted (pt_resource p))"

lemma action_str_inject: "cedar_action_str (cedar_action_from_oci a) = cedar_action_str (cedar_action_from_oci b) \<longleftrightarrow> a = b"
  by (cases a; cases b) simp_all

lemma line_of_inject: "line_of p = line_of q \<longleftrightarrow> p = q"
proof
  assume eq: "line_of p = line_of q"
  have head: "''permit('' @ ((if g then ''principal in '' else ''principal == '') @ u) @ v
      = ''permit('' @ ((if g' then ''principal in '' else ''principal == '') @ u') @ v' \<Longrightarrow> g = g' \<and> u @ v = u' @ v'" for g g' u u' v v'
    by (auto split: if_splits)
  have mid: "'', action == '' @ u = '', action == '' @ u' \<Longrightarrow> u = u'" for u u' by simp
  have tail: "'', '' @ ((if g then ''resource in '' else ''resource == '') @ u) @ v
      = '', '' @ ((if g' then ''resource in '' else ''resource == '') @ u') @ v' \<Longrightarrow> g = g' \<and> u @ v = u' @ v'" for g g' u u' v v'
    by (auto split: if_splits)
  note h = head [OF eq [unfolded line_of_def permit_line_def]]
  note m = mid [OF h [THEN conjunct2, unfolded ref_text_prefix, THEN conjunct2]]
  note t = tail [OF m [unfolded ref_text_prefix, THEN conjunct2]]
  show "p = q"
    using h m t by (cases p; cases q) (simp add: ref_text_prefix ref_text_prefix [where x = "[]" and x' = "[]", simplified] action_str_inject)
qed simp

lemma permit_text_line: "permit_text quoted p = line_of p @ [CHR 0x0A]"
  by (simp add: permit_text_def line_of_def permit_line_def ref_text_def entity_new_def)

lemma line_no_newline: "CHR 0x0A \<notin> set (line_of p)"
proof -
  have "CHR 0x0A \<notin> set (quoted s)" for s by (auto simp: quoted_def quote_escape_def)
  moreover have "CHR 0x0A \<notin> set (entity_type_str t)" for t by (cases t) simp_all
  ultimately show ?thesis by (simp add: line_of_def permit_line_def ref_text_def)
qed

lemma lines_of_permits: "split_char (CHR 0x0A) (permits_text quoted ps) = map line_of ps @ [[]]"
  by (induction ps) (simp_all add: permits_text_def permit_text_line split_char_append line_no_newline)

lemma line_of_in: "line_of p \<in> set (split_char (CHR 0x0A) (permits_text quoted ps)) \<longleftrightarrow> p \<in> set ps"
proof -
  have "line_of p \<noteq> []" by (simp add: line_of_def permit_line_def)
  then show ?thesis by (auto simp: lines_of_permits line_of_inject image_iff)
qed

lemma json_ref_uid: "json_ref (json_uid e) = ref_text quoted e"
  by (simp add: json_ref_def json_uid_def ref_text_def)

lemma json_parents_entity: "json_parents (entity_json e ps) = map (ref_text quoted) ps"
  by (simp add: json_parents_def entity_json_def json_ref_uid)

lemma last_entity:
  "es_resources es = [ResRepository repository] \<Longrightarrow>
    as_array (entities_json es) = Some xs \<Longrightarrow> json_parents (hd xs) = map (ref_text quoted) (es_group_parents es)
      \<and> json_parents (last xs) = map (ref_text quoted) (case cr_namespace repository of None \<Rightarrow> [] | Some n \<Rightarrow> [n])"
  by (auto simp: entities_json_def json_parents_entity split: option.split)

lemma small_authorized_exact:
  assumes wf: "list_all permit_wf ps" and res: "es_resources es = [ResRepository repository]"
    and user: "ei_type (es_principal es) = EUser"
  shows "small_authorized (ref_text quoted (es_principal es))
      (ref_text quoted (entity_new EAction (cedar_action_str (cedar_action_from_oci a)))) (ref_text quoted (cr_entity repository))
      ctx (permits_text quoted ps) (entities_json es)
    = list_ex (permit_covers es repository a) ps"
proof -
  obtain xs where xs: "as_array (entities_json es) = Some xs" by (simp add: entities_json_def)
  note ends = last_entity [OF res xs]
  let ?p = "\<lambda>g e n r. \<lparr>pt_group = g, pt_principal = e, pt_action = a, pt_namespace = n, pt_resource = r\<rparr>"
  let ?in = "\<lambda>g e n r. ?p g e n r \<in> set ps"
  have line: "permit_line ((if g then ''principal in '' else ''principal == '') @ ref_text quoted e)
      (ref_text quoted (entity_new EAction (cedar_action_str (cedar_action_from_oci a))))
      ((if n then ''resource in '' else ''resource == '') @ ref_text quoted r)
    \<in> set (split_char (CHR 0x0A) (permits_text quoted ps)) \<longleftrightarrow> ?in g e n r" for g e n r
    using line_of_in [of "?p g e n r" ps] by (simp add: line_of_def)
  let ?ns = "case cr_namespace repository of None \<Rightarrow> [] | Some n \<Rightarrow> [n]"
  have "small_authorized (ref_text quoted (es_principal es))
      (ref_text quoted (entity_new EAction (cedar_action_str (cedar_action_from_oci a)))) (ref_text quoted (cr_entity repository))
      ctx (permits_text quoted ps) (entities_json es)
    \<longleftrightarrow> (\<exists>g e n r. ?in g e n r \<and> (if g then e \<in> set (es_group_parents es) else e = es_principal es)
        \<and> (if n then r \<in> set ?ns else r = cr_entity repository))"
    unfolding small_authorized_def xs option.case ends [THEN conjunct1] ends [THEN conjunct2]
    using line [of False _ False] line [of False _ True] line [of True _ False] line [of True _ True]
    by (auto simp: list_ex_iff simp del: append.simps)
  also have "\<dots> \<longleftrightarrow> list_ex (permit_covers es repository a) ps"
  proof
    assume "list_ex (permit_covers es repository a) ps"
    then obtain p where "p \<in> set ps" "permit_covers es repository a p" by (auto simp: list_ex_iff)
    then show "\<exists>g e n r. ?in g e n r \<and> (if g then e \<in> set (es_group_parents es) else e = es_principal es)
        \<and> (if n then r \<in> set ?ns else r = cr_entity repository)"
      by (intro exI [of _ "pt_group p"] exI [of _ "pt_principal p"] exI [of _ "pt_namespace p"] exI [of _ "pt_resource p"])
        (cases p; auto simp: permit_covers_def split: if_splits)
  next
    assume "\<exists>g e n r. ?in g e n r \<and> (if g then e \<in> set (es_group_parents es) else e = es_principal es)
        \<and> (if n then r \<in> set ?ns else r = cr_entity repository)"
    then obtain g e n r where "?in g e n r" "permit_covers es repository a (?p g e n r)"
      by (auto simp: permit_covers_def split: if_splits option.splits)
    then show "list_ex (permit_covers es repository a) ps" by (auto simp: list_ex_iff)
  qed
  finally show ?thesis .
qed

lemma small_cedar_semantics: "cedar_semantics small_cedar quoted"
  unfolding cedar_semantics_def action_ref_def by (simp add: small_cedar_def entity_set_wf_def small_authorized_exact)

end
