(* ===== verification/Request_Paths.thy ===== *)
theory Request_Paths
  imports Numbers
begin

text \<open>
  Paths and queries of requests: the decoding and splitting helpers of \<^verbatim>\<open>routes/mod.rs\<close>, the route a path of
  the distribution API selects in \<^verbatim>\<open>dispatch\<close>, and the way \<^verbatim>\<open>auth/middleware.rs\<close> finds the repository a path is
  about.  The two read the same path independently; that they agree is what makes the check of the middleware
  a check of the repository the handler touches.
\<close>

section \<open>Definitions\<close>

subsection \<open>Decoding\<close>

text \<open>\<^verbatim>\<open>u8::from_str_radix(.., 16)\<close> of two bytes: two digits, or a plus sign and a digit.\<close>

definition parse_hex_byte :: "char \<Rightarrow> char \<Rightarrow> nat option" where
  "parse_hex_byte h l =
     (case hex_value l of
        None \<Rightarrow> None
      | Some low \<Rightarrow>
          if h = CHR ''+'' then Some low
          else map_option (\<lambda>high. high * 16 + low) (hex_value h))"

fun decode_loop :: "string \<Rightarrow> string" where
  "decode_loop (c # h # l # rest) =
     (if c = CHR ''%'' then
        (case parse_hex_byte h l of
           Some b \<Rightarrow> char_of b # decode_loop rest
         | None \<Rightarrow> c # decode_loop (h # l # rest))
      else c # decode_loop (h # l # rest))"
| "decode_loop s = s"

definition percent_decode :: "string \<Rightarrow> string" where
  "percent_decode s = (let r = decode_loop s in if utf8_valid r then r else s)"

text \<open>The pairs go into a \<^verbatim>\<open>HashMap\<close>: of two with the same key the later one stays.\<close>

definition query_pairs :: "string option \<Rightarrow> (string \<times> string) list" where
  "query_pairs query =
     (case query of
        None \<Rightarrow> []
      | Some q \<Rightarrow> List.map_filter (\<lambda>pair. map_option (\<lambda>(k, v). (percent_decode k, percent_decode v)) (split_once (CHR ''='') pair))
          (split_char (CHR ''&'') q))"

definition query_get :: "string option \<Rightarrow> string \<Rightarrow> string option" where
  "query_get query k = map_of (rev (query_pairs query)) k"

subsection \<open>Routes\<close>

text \<open>\<^verbatim>\<open>rfind\<close> and \<^verbatim>\<open>rsplit_once\<close>: what comes before and after the last occurrence.\<close>

fun rsplit_str :: "string \<Rightarrow> string \<Rightarrow> (string \<times> string) option" where
  "rsplit_str p [] = (if p = [] then Some ([], []) else None)"
| "rsplit_str p (c # s) =
     (case rsplit_str p s of
        Some (a, b) \<Rightarrow> Some (c # a, b)
      | None \<Rightarrow> if starts_with p (c # s) then Some ([], drop (length p) (c # s)) else None)"

definition split_at :: "string \<Rightarrow> string list \<Rightarrow> (string \<times> string) option" where
  "split_at path segments = rsplit_str (''/'' @ concat (map (\<lambda>seg. seg @ ''/'') segments)) path"

datatype v2_route =
    UploadSessionRoute string string
  | UploadStartRoute string
  | ManifestRoute string string
  | TagsRoute string
  | ReferrersRoute string string
  | BlobRoute string string
  | NoRoute

definition trim_slashes :: "string \<Rightarrow> string" where
  "trim_slashes s = rev (dropWhile (\<lambda>c. c = CHR ''/'') (rev s))"

text \<open>The branches of \<^verbatim>\<open>dispatch\<close>, in order.\<close>

definition route_of :: "string \<Rightarrow> v2_route" where
  "route_of path0 =
     (let path = trim_slashes path0 in
      case split_at path [''blobs'', ''uploads''] of
        Some (name, session_id) \<Rightarrow> UploadSessionRoute name session_id
      | None \<Rightarrow>
      (case strip_suffix ''/blobs/uploads'' path of
        Some name \<Rightarrow> UploadStartRoute name
      | None \<Rightarrow>
      (case split_at path [''manifests''] of
        Some (name, reference) \<Rightarrow> ManifestRoute name reference
      | None \<Rightarrow>
      (case strip_suffix ''/tags/list'' path of
        Some name \<Rightarrow> TagsRoute name
      | None \<Rightarrow>
      (case split_at path [''referrers''] of
        Some (name, digest) \<Rightarrow> ReferrersRoute name digest
      | None \<Rightarrow>
      (case split_at path [''blobs''] of
        Some (name, digest) \<Rightarrow> BlobRoute name digest
      | None \<Rightarrow> NoRoute))))))"

fun route_repository :: "v2_route \<Rightarrow> string" where
  "route_repository (UploadSessionRoute name _) = name"
| "route_repository (UploadStartRoute name) = name"
| "route_repository (ManifestRoute name _) = name"
| "route_repository (TagsRoute name) = name"
| "route_repository (ReferrersRoute name _) = name"
| "route_repository (BlobRoute name _) = name"
| "route_repository NoRoute = []"

subsection \<open>The middleware's reading of a path\<close>

definition or_else :: "'a option \<Rightarrow> 'a option \<Rightarrow> 'a option" where
  "or_else x y = (case x of None \<Rightarrow> y | Some _ \<Rightarrow> x)"

definition raw_repository :: "string \<Rightarrow> string option" where
  "raw_repository rest =
     or_else (map_option fst (rsplit_str ''/blobs/uploads/'' rest))
    (or_else (strip_suffix ''/blobs/uploads'' rest)
    (or_else (map_option fst (rsplit_str ''/manifests/'' rest))
    (or_else (strip_suffix ''/tags/list'' rest)
    (or_else (map_option fst (rsplit_str ''/referrers/'' rest))
      (map_option fst (rsplit_str ''/blobs/'' rest))))))"

definition extract_repository_from_path :: "string \<Rightarrow> string" where
  "extract_repository_from_path path =
     percent_decode
       (case Option.bind (Option.bind (strip_prefix ''/v2/'' path) raw_repository) (\<lambda>name. if name \<noteq> [] then Some name else None) of
          None \<Rightarrow> []
        | Some name \<Rightarrow> name)"

definition manifest_put_target :: "string \<Rightarrow> (string \<times> string) option" where
  "manifest_put_target path =
     Option.bind (strip_prefix ''/v2/'' path) (\<lambda>rest.
     Option.bind (rsplit_str ''/manifests/'' rest) (\<lambda>(name, reference).
       if name = [] \<or> reference = [] \<or> contains_char (CHR ''/'') reference then None else Some (name, reference)))"

definition is_namespace_self_service :: "string \<Rightarrow> bool" where
  "is_namespace_self_service path \<longleftrightarrow>
     starts_with ''/api/v1/admin/namespaces/'' path \<and> (ends_with ''/claim'' path \<or> ends_with ''/release'' path)"

definition is_public_path :: "string \<Rightarrow> bool" where
  "is_public_path path \<longleftrightarrow>
     path = ''/healthz'' \<or> path = ''/readyz'' \<or> path = ''/metrics'' \<or> path = ''/v2/'' \<or> path = ''/v2/token''
     \<or> path = ''/favicon.svg'' \<or> path = ''/api/v1/session/logout'' \<or> starts_with ''/assets/'' path
     \<or> starts_with ''/brand/'' path \<or> starts_with ''/oauth2/'' path"

definition is_dashboard_request_path :: "string \<Rightarrow> bool" where
  "is_dashboard_request_path path \<longleftrightarrow>
     \<not> starts_with ''/api/'' path \<and> \<not> starts_with ''/v2/'' path \<and> \<not> starts_with ''/raft/'' path"

section \<open>The two readings agree\<close>

lemma rsplit_str_Some:
  "p \<noteq> [] \<Longrightarrow> rsplit_str p s = Some (a, b) \<Longrightarrow> s = a @ p @ b"
proof (induction s arbitrary: a)
  case (Cons c s)
  then show ?case
    by (cases "rsplit_str p s") (auto simp: starts_with_iff split: if_splits)
qed simp

lemma decode_loop_literal: "CHR ''%'' \<notin> set s \<Longrightarrow> decode_loop s = s"
  by (induction s rule: decode_loop.induct) auto

lemma percent_decode_literal: "CHR ''%'' \<notin> set s \<Longrightarrow> percent_decode s = s"
  by (simp add: percent_decode_def decode_loop_literal)

lemma trim_slashes_id: "\<not> ends_with ''/'' path \<Longrightarrow> trim_slashes path = path"
  by (cases path rule: rev_cases) (auto simp: trim_slashes_def ends_with_iff)

lemma raw_repository_route:
  "(case raw_repository path of None \<Rightarrow> [] | Some name \<Rightarrow> name) = route_repository (route_of path)"
  if "\<not> ends_with ''/'' path"
  by (auto simp: raw_repository_def or_else_def route_of_def Let_def trim_slashes_id [OF that] split_at_def split: option.splits)

lemma raw_repository_set: "raw_repository path = Some name \<Longrightarrow> set name \<subseteq> set path"
  by (auto simp: raw_repository_def or_else_def strip_suffix_iff split: option.splits dest!: rsplit_str_Some [rotated])

text \<open>
  A path without escapes and without a trailing slash is read the same way by both: the repository the
  middleware asks about is the one the selected handler gets.
\<close>

lemma repository_of_literal_path:
  assumes "CHR ''%'' \<notin> set path" and "\<not> ends_with ''/'' path"
  shows "extract_repository_from_path (''/v2/'' @ path) = route_repository (route_of path)"
proof -
  have "CHR ''%'' \<notin> set (case raw_repository path of None \<Rightarrow> [] | Some name \<Rightarrow> name)"
    using assms(1) raw_repository_set [of path] by (cases "raw_repository path") auto
  then show ?thesis
    unfolding extract_repository_from_path_def raw_repository_route [OF assms(2), symmetric]
    by (cases "raw_repository path") (auto simp: percent_decode_literal simp del: append.simps)
qed

text \<open>
  A trailing slash, which only \<^const>\<open>route_of\<close> removes, separates the readings: the handler lists the tags of
  a repository for which the middleware asked about the empty name.
\<close>

lemma trailing_slash_reading:
  "extract_repository_from_path ''/v2/users/bob/app/tags/list/'' = [] \<and> route_of ''users/bob/app/tags/list/'' = TagsRoute ''users/bob/app''"
  by code_simp

text \<open>Escaped slashes do the same: the wildcard of the router is decoded before it is split.\<close>

lemma escaped_slash_reading:
  "extract_repository_from_path ''/v2/users/bob/app/tags%2Flist'' = []
   \<and> route_of (percent_decode ''users/bob/app/tags%2Flist'') = TagsRoute ''users/bob/app''"
  by code_simp

end
