(* ===== verification/Upload_Tracker.thy ===== *)
theory Upload_Tracker
  imports Blob_Integrity
begin

text \<open>
  The upload sessions (\<^verbatim>\<open>store/upload.rs\<close>): which repository a session belongs to and how far it got, kept in
  a map of the process or as objects in S3.  The locked map is read and replaced through the world; the JSON
  form of a session is \<open>tk_encode\<close> and \<open>tk_decode\<close>.
\<close>

section \<open>Definitions\<close>

record upload_session =
  us_repo :: string
  us_offset :: u64

definition belongs_to :: "upload_session \<Rightarrow> string \<Rightarrow> bool" where
  "belongs_to session repo \<longleftrightarrow> us_repo session = repo"

record 'w memory_tracker =
  tm_sessions :: "'w \<Rightarrow> string \<Rightarrow> upload_session option"
  tm_set_sessions :: "(string \<Rightarrow> upload_session option) \<Rightarrow> 'w \<Rightarrow> 'w"

record 'w s3_tracker =
  tk_store :: "'w object_store"
  tk_encode :: "upload_session \<Rightarrow> (string, msg) result"
  tk_decode :: "string \<Rightarrow> (upload_session, msg) result"

datatype 'w upload_tracker = MemoryTracker "'w memory_tracker" | S3Tracker "'w s3_tracker"

definition session_key :: "string \<Rightarrow> string" where
  "session_key session_id = ''uploads/'' @ session_id @ ''/session.json''"

definition s3_tracker_write :: "'w s3_tracker \<Rightarrow> string \<Rightarrow> upload_session \<Rightarrow> ('w, unit) io" where
  "s3_tracker_write tk session_id session =
     (case tk_encode tk session of
        Inl e \<Rightarrow> io_fail (S3 (Lit ''encode upload session: '' # e))
      | Inr bytes \<Rightarrow> s3_call (s3_put (tk_store tk) (session_key session_id) bytes))"

definition s3_tracker_read :: "'w s3_tracker \<Rightarrow> string \<Rightarrow> ('w, upload_session option) io" where
  "s3_tracker_read tk session_id =
     io_match (s3_get (tk_store tk) (session_key session_id) None) (\<lambda>r.
       case r of
         Inl (NoSuchKey _) \<Rightarrow> io_return None
       | Inl (GetFailed e) \<Rightarrow> io_fail (S3 e)
       | Inr (Inl e) \<Rightarrow> io_fail (S3 e)
       | Inr (Inr bytes) \<Rightarrow>
           (case tk_decode tk bytes of
              Inl e \<Rightarrow> io_fail (S3 (Lit ''decode upload session: '' # e))
            | Inr session \<Rightarrow> io_return (Some session)))"

definition s3_tracker_remove :: "'w s3_tracker \<Rightarrow> string \<Rightarrow> ('w, unit) io" where
  "s3_tracker_remove tk session_id = s3_call (s3_delete (tk_store tk) (session_key session_id))"

fun tracker_create :: "'w upload_tracker \<Rightarrow> string \<Rightarrow> string \<Rightarrow> ('w, upload_session) io" where
  "tracker_create (MemoryTracker tm) session_id repo w =
     (let session = \<lparr>us_repo = repo, us_offset = 0\<rparr> in
      (Ok session, tm_set_sessions tm ((tm_sessions tm w)(session_id \<mapsto> session)) w))"
| "tracker_create (S3Tracker tk) session_id repo w =
     (let session = \<lparr>us_repo = repo, us_offset = 0\<rparr> in
      io_bind (s3_tracker_write tk session_id session) (\<lambda>_. io_return session) w)"

fun tracker_get :: "'w upload_tracker \<Rightarrow> string \<Rightarrow> ('w, upload_session option) io" where
  "tracker_get (MemoryTracker tm) session_id w = (Ok (tm_sessions tm w session_id), w)"
| "tracker_get (S3Tracker tk) session_id w = s3_tracker_read tk session_id w"

fun tracker_update_offset :: "'w upload_tracker \<Rightarrow> string \<Rightarrow> u64 \<Rightarrow> ('w, unit) io" where
  "tracker_update_offset (MemoryTracker tm) session_id offset w =
     (case tm_sessions tm w session_id of
        None \<Rightarrow> (Ok (), w)
      | Some session \<Rightarrow> (Ok (), tm_set_sessions tm ((tm_sessions tm w)(session_id \<mapsto> session\<lparr>us_offset := offset\<rparr>)) w))"
| "tracker_update_offset (S3Tracker tk) session_id offset w =
     io_bind (s3_tracker_read tk session_id) (\<lambda>found.
       case found of
         None \<Rightarrow> io_return ()
       | Some session \<Rightarrow> s3_tracker_write tk session_id (session\<lparr>us_offset := offset\<rparr>)) w"

fun tracker_remove :: "'w upload_tracker \<Rightarrow> string \<Rightarrow> ('w, unit) io" where
  "tracker_remove (MemoryTracker tm) session_id w = (Ok (), tm_set_sessions tm ((tm_sessions tm w)(session_id := None)) w)"
| "tracker_remove (S3Tracker tk) session_id w = s3_tracker_remove tk session_id w"

section \<open>One contract for both backends\<close>

text \<open>
  What the routes rely on, as a map of sessions that the world carries: a lookup that answers gives the entry
  of the map, the changes are the map updates, and a call touches no session but its own.  The predicate
  \<open>ok\<close> collects what is assumed of the backend.
\<close>

locale session_tracker =
  fixes ok :: bool
    and sessions :: "'w \<Rightarrow> string \<Rightarrow> upload_session option"
    and create :: "string \<Rightarrow> string \<Rightarrow> ('w, upload_session) io"
    and lookup :: "string \<Rightarrow> ('w, upload_session option) io"
    and update_offset :: "string \<Rightarrow> u64 \<Rightarrow> ('w, unit) io"
    and remove :: "string \<Rightarrow> ('w, unit) io"
  assumes lookup_view: "ok \<Longrightarrow> lookup s w = (r, w') \<Longrightarrow> sessions w' = sessions w \<and> (\<forall>v. r = Ok v \<longrightarrow> v = sessions w s)"
    and create_view: "ok \<Longrightarrow> create s repo w = (rc, w') \<Longrightarrow> (\<forall>t. t \<noteq> s \<longrightarrow> sessions w' t = sessions w t) \<and>
      (\<forall>x. rc = Ok x \<longrightarrow> x = \<lparr>us_repo = repo, us_offset = 0\<rparr> \<and> sessions w' s = Some x)"
    and update_view: "ok \<Longrightarrow> update_offset s n w = (ru, w') \<Longrightarrow> (\<forall>t. t \<noteq> s \<longrightarrow> sessions w' t = sessions w t) \<and>
      (ru = Ok () \<longrightarrow> sessions w' s = map_option (\<lambda>x. x\<lparr>us_offset := n\<rparr>) (sessions w s))"
    and remove_view: "ok \<Longrightarrow> remove s w = (rr, w') \<Longrightarrow> (\<forall>t. t \<noteq> s \<longrightarrow> sessions w' t = sessions w t) \<and>
      (rr = Ok () \<longrightarrow> sessions w' s = None)"
begin

text \<open>An update keeps the repository of a session; a session that was removed is found by nobody.\<close>

lemma offset_keeps_repo:
  assumes ok and "update_offset s n w = (Ok (), w1)" and "lookup s w1 = (Ok (Some y), w2)"
  shows "\<exists>x. sessions w s = Some x \<and> us_repo y = us_repo x \<and> us_offset y = n"
  using update_view [OF assms(1,2)] lookup_view [OF assms(1,3)] by (cases "sessions w s") auto

lemma removed_unknown:
  assumes ok and "remove s w = (Ok (), w1)" and "lookup s w1 = (Ok found, w2)"
  shows "found = None"
  using remove_view [OF assms(1,2)] lookup_view [OF assms(1,3)] by auto

lemma created_found:
  assumes ok and "create s repo w = (Ok x, w1)" and "lookup s w1 = (Ok found, w2)"
  shows "found = Some \<lparr>us_repo = repo, us_offset = 0\<rparr>"
  using create_view [OF assms(1,2)] lookup_view [OF assms(1,3)] by auto

end

text \<open>The map of the process: its cell gives back what was put into it.\<close>

definition cell_ok :: "'w memory_tracker \<Rightarrow> bool" where
  "cell_ok tm \<longleftrightarrow> (\<forall>m w. tm_sessions tm (tm_set_sessions tm m w) = m)"

interpretation memory: session_tracker "cell_ok tm" "tm_sessions tm" "tracker_create (MemoryTracker tm)"
  "tracker_get (MemoryTracker tm)" "tracker_update_offset (MemoryTracker tm)" "tracker_remove (MemoryTracker tm)" for tm
  by unfold_locales (auto simp: cell_ok_def Let_def split: option.splits)

text \<open>S3: the session is what its object decodes to.\<close>

definition s3_sessions :: "'w s3_tracker \<Rightarrow> 'w objects \<Rightarrow> 'w \<Rightarrow> string \<Rightarrow> upload_session option" where
  "s3_sessions tk obj w s =
     Option.bind (obj w (session_key s)) (\<lambda>b. case tk_decode tk b of Inl _ \<Rightarrow> None | Inr x \<Rightarrow> Some x)"

definition s3_tracker_ok :: "'w s3_tracker \<Rightarrow> 'w objects \<Rightarrow> 'w parts \<Rightarrow> bool" where
  "s3_tracker_ok tk obj prt \<longleftrightarrow> put_law (tk_store tk) obj prt \<and> delete_law (tk_store tk) obj prt \<and> get_law (tk_store tk) obj prt
     \<and> (\<forall>x b. tk_encode tk x = Ok b \<longrightarrow> tk_decode tk b = Ok x)"

lemma session_key_inject [simp]: "session_key s = session_key t \<longleftrightarrow> s = t"
  by (simp add: session_key_def)

lemma s3_tracker_write_view:
  assumes "s3_tracker_ok tk obj prt" and "s3_tracker_write tk s x w = (r, w')"
  shows "(\<forall>t. t \<noteq> s \<longrightarrow> s3_sessions tk obj w' t = s3_sessions tk obj w t) \<and> (r = Ok () \<longrightarrow> s3_sessions tk obj w' s = Some x)"
proof (cases "tk_encode tk x")
  case (Inl e)
  with assms(2) show ?thesis by (auto simp: s3_tracker_write_def)
next
  case (Inr b)
  obtain q w1 where put: "s3_put (tk_store tk) (session_key s) b w = (q, w1)" by fastforce
  with assms(2) Inr have w1: "w1 = w'" and r: "r = Ok () \<longleftrightarrow> is_ok q"
    by (auto simp: s3_tracker_write_def s3_call_def io_match_def split: sum.splits)
  from assms(1) put have "(\<forall>k'. k' \<noteq> session_key s \<longrightarrow> obj w1 k' = obj w k') \<and> (is_ok q \<longrightarrow> obj w1 (session_key s) = Some b)"
    unfolding s3_tracker_ok_def put_law_def by blast
  moreover have "tk_decode tk b = Ok x" using assms(1) Inr by (auto simp: s3_tracker_ok_def)
  ultimately show ?thesis using w1 r by (auto simp: s3_sessions_def)
qed

lemma s3_tracker_read_view:
  assumes "s3_tracker_ok tk obj prt" and "s3_tracker_read tk s w = (r, w')"
  shows "s3_sessions tk obj w' = s3_sessions tk obj w \<and> (\<forall>v. r = Ok v \<longrightarrow> v = s3_sessions tk obj w s)"
proof -
  obtain q w1 where get: "s3_get (tk_store tk) (session_key s) None w = (q, w1)" by fastforce
  with assms(1) have law: "obj w1 = obj w" "\<And>b. q = Ok (Ok b) \<Longrightarrow> obj w (session_key s) = Some b"
      "\<And>m. q = Err (NoSuchKey m) \<Longrightarrow> obj w (session_key s) = None"
    unfolding s3_tracker_ok_def get_law_def by blast+
  from assms(2) get have "w1 = w'"
    by (auto simp: s3_tracker_read_def io_match_def split: sum.splits get_object_error.splits)
  then show ?thesis
    using assms(2) get law
    by (auto simp: s3_tracker_read_def io_match_def s3_sessions_def fun_eq_iff split: sum.splits get_object_error.splits)
qed

interpretation s3: session_tracker "s3_tracker_ok tk obj prt" "s3_sessions tk obj" "tracker_create (S3Tracker tk)"
  "tracker_get (S3Tracker tk)" "tracker_update_offset (S3Tracker tk)" "tracker_remove (S3Tracker tk)" for tk obj prt
proof (unfold_locales, goal_cases)
  case (1 s w r w')
  then show ?case by (simp add: s3_tracker_read_view)
next
  case (2 s repo w rc w')
  let ?x = "\<lparr>us_repo = repo, us_offset = 0\<rparr>"
  obtain q w1 where q: "s3_tracker_write tk s ?x w = (q, w1)" by fastforce
  with 2 have "w1 = w'" "rc = (case q of Inl e \<Rightarrow> Err e | Inr _ \<Rightarrow> Ok ?x)"
    by (auto simp: Let_def io_bind_def split: sum.splits)
  with s3_tracker_write_view [OF 2(1) q] show ?case by (auto split: sum.splits)
next
  case (3 s n w ru w')
  obtain q w1 where q: "s3_tracker_read tk s w = (q, w1)" by fastforce
  note read = s3_tracker_read_view [OF 3(1) q]
  show ?case
  proof (cases q)
    case (Inl e)
    with 3 q have "ru = Err e \<and> w' = w1" by (simp add: io_bind_def)
    with read show ?thesis by simp
  next
    case (Inr found)
    with read have found: "found = s3_sessions tk obj w s" by simp
    show ?thesis
    proof (cases found)
      case None
      with 3 q Inr have "ru = Ok () \<and> w' = w1" by (simp add: io_bind_def)
      with read None found show ?thesis by simp
    next
      case (Some x)
      with 3 q Inr have "s3_tracker_write tk s (x\<lparr>us_offset := n\<rparr>) w1 = (ru, w')" by (simp add: io_bind_def)
      from s3_tracker_write_view [OF 3(1) this] read Some found show ?thesis by auto
    qed
  qed
next
  case (4 s w rr w')
  obtain q w1 where q: "s3_delete (tk_store tk) (session_key s) w = (q, w1)" by fastforce
  with 4 have "w1 = w'" "rr = Ok () \<longleftrightarrow> is_ok q"
    by (auto simp: s3_tracker_remove_def s3_call_def io_match_def split: sum.splits)
  moreover from 4(1) q have "(\<forall>k'. k' \<noteq> session_key s \<longrightarrow> obj w1 k' = obj w k') \<and> (is_ok q \<longrightarrow> obj w1 (session_key s) = None)"
    unfolding s3_tracker_ok_def delete_law_def by blast
  ultimately show ?case by (auto simp: s3_sessions_def)
qed

text \<open>Either backend, chosen as the tracker is.\<close>

fun tracker_sessions :: "'w objects \<Rightarrow> 'w upload_tracker \<Rightarrow> 'w \<Rightarrow> string \<Rightarrow> upload_session option" where
  "tracker_sessions obj (MemoryTracker tm) = tm_sessions tm"
| "tracker_sessions obj (S3Tracker tk) = s3_sessions tk obj"

fun tracker_ok :: "'w objects \<Rightarrow> 'w parts \<Rightarrow> 'w upload_tracker \<Rightarrow> bool" where
  "tracker_ok obj prt (MemoryTracker tm) = cell_ok tm"
| "tracker_ok obj prt (S3Tracker tk) = s3_tracker_ok tk obj prt"

interpretation either: session_tracker "tracker_ok obj prt t" "tracker_sessions obj t" "tracker_create t" "tracker_get t"
  "tracker_update_offset t" "tracker_remove t" for obj prt t
proof (cases t)
  case (MemoryTracker tm)
  then show "session_tracker (tracker_ok obj prt t) (tracker_sessions obj t) (tracker_create t) (tracker_get t)
      (tracker_update_offset t) (tracker_remove t)"
    using memory.session_tracker_axioms [of tm] by simp
next
  case (S3Tracker tk)
  then show "session_tracker (tracker_ok obj prt t) (tracker_sessions obj t) (tracker_create t) (tracker_get t)
      (tracker_update_offset t) (tracker_remove t)"
    using s3.session_tracker_axioms [of tk obj prt] by simp
qed

section \<open>The life of a session\<close>

text \<open>
  What can happen between two requests on a session: lookups, changes of its offset and its removal that
  succeeded, anything about other sessions, and work that leaves its record alone (chunks that are staged,
  blobs that are committed).
\<close>

inductive session_steps :: "'w objects \<Rightarrow> 'w upload_tracker \<Rightarrow> string \<Rightarrow> 'w \<Rightarrow> 'w \<Rightarrow> bool"
  for obj :: "'w objects" and t :: "'w upload_tracker" and sid :: string where
  steps_start: "session_steps obj t sid w w"
| steps_get: "session_steps obj t sid w v \<Longrightarrow> tracker_get t s v = (r, v') \<Longrightarrow> session_steps obj t sid w v'"
| steps_create: "session_steps obj t sid w v \<Longrightarrow> s \<noteq> sid \<Longrightarrow> tracker_create t s repo v = (rc, v') \<Longrightarrow> session_steps obj t sid w v'"
| steps_update: "session_steps obj t sid w v \<Longrightarrow> tracker_update_offset t s n v = (ru, v') \<Longrightarrow> s \<noteq> sid \<or> ru = Ok () \<Longrightarrow>
    session_steps obj t sid w v'"
| steps_remove: "session_steps obj t sid w v \<Longrightarrow> tracker_remove t s v = (rr, v') \<Longrightarrow> s \<noteq> sid \<or> rr = Ok () \<Longrightarrow>
    session_steps obj t sid w v'"
| steps_other: "session_steps obj t sid w v \<Longrightarrow> tracker_sessions obj t v' sid = tracker_sessions obj t v sid \<Longrightarrow> session_steps obj t sid w v'"

lemma session_keeps_repo:
  assumes ok: "tracker_ok obj prt t" and "session_steps obj t sid w v"
    and start: "\<forall>x. tracker_sessions obj t w sid = Some x \<longrightarrow> us_repo x = owner"
  shows "\<forall>x. tracker_sessions obj t v sid = Some x \<longrightarrow> us_repo x = owner"
  using assms(2) start
proof (induction rule: session_steps.induct)
  case (steps_get w v s r v')
  then show ?case using either.lookup_view [OF ok steps_get(2)] by simp
next
  case (steps_create w v s repo rc v')
  then show ?case using either.create_view [OF ok steps_create(3)] by simp
next
  case (steps_update w v s n ru v')
  then show ?case using either.update_view [OF ok steps_update(2)] by (cases "s = sid") auto
next
  case (steps_remove w v s rr v')
  then show ?case using either.remove_view [OF ok steps_remove(2)] by (cases "s = sid") auto
qed simp_all

text \<open>A lookup changes neither objects nor parts, and fails only with an error of the store.\<close>

lemma tracker_get_pure:
  assumes "tracker_ok obj prt t" and "tracker_get t s w = (r, w')"
  shows "obj w' = obj w \<and> prt w' = prt w \<and> (\<forall>e. r = Err e \<longrightarrow> (\<exists>m. e = S3 m))"
proof (cases t)
  case (S3Tracker tk)
  with assms show ?thesis
    by (auto simp: s3_tracker_read_def io_match_def s3_tracker_ok_def get_law_def split: prod.splits sum.splits get_object_error.splits)
qed (use assms in auto)

end
