(* ===== verification/Http.thy ===== *)
theory Http
  imports Auth_Service Mirror Request_Paths Upload_Tracker
begin

text \<open>
  Requests, responses and the application state the handlers share (\<^verbatim>\<open>routes/mod.rs\<close>).

  A request is what axum hands to a handler: the method, the raw path and query, the first value of a header
  that is readable as text, the readable cookie headers, the body collected up to a limit, the decoded
  wildcard of the route, and the extensions the middleware attaches.  Which strings are valid header values is
  \<open>as_header_ok\<close>; \<open>as_urlencoded\<close> and \<open>as_base64_decode\<close> are the decoders of the packages \<^verbatim>\<open>serde_urlencoded\<close> and
  \<^verbatim>\<open>base64\<close>, \<open>as_rfc3339\<close> is the clock in that format.  The metadata and blob stores are the ones the mirror manager is given.
\<close>

record server_request =
  hq_method :: http_method
  hq_path :: string
  hq_query :: "string option"
  hq_header :: "string \<Rightarrow> string option"
  hq_cookies :: "string list"
  hq_body :: "nat \<Rightarrow> (string, msg) result"
  hq_wildcard :: string
  hq_identity :: "auth_identity option"
  hq_access :: "authorized_repository_access option"

datatype http_body =
    EmptyBody
  | BytesBody string
  | StreamBody "(string, msg) result"
  | JsonBody json
  | TextBody msg
  | ErrorBody string msg

record server_response =
  sr_status :: nat
  sr_headers :: "(string \<times> string) list"
  sr_body :: http_body

record 'w app_state =
  as_mirror :: "'w mirror"
  as_uploads :: "'w upload_tracker"
  as_try_acquire :: "'w \<Rightarrow> bool \<times> 'w"
  as_release :: "'w \<Rightarrow> 'w"
  as_auth :: "'w auth_service option"
  as_server_tls_enabled :: bool
  as_cookie_secure_mode :: cookie_secure_mode
  as_header_ok :: "string \<Rightarrow> bool"
  as_uuid :: "'w \<Rightarrow> string \<times> 'w"
  as_has_raft :: bool
  as_leader_id :: "'w \<Rightarrow> u64 option"
  as_urlencoded :: "string \<Rightarrow> ((string \<times> string) list, msg) result"
  as_base64_decode :: "string \<Rightarrow> string option"
  as_rfc3339 :: "'w \<Rightarrow> string"

abbreviation as_metadata :: "'w app_state \<Rightarrow> 'w raft_node" where "as_metadata st \<equiv> mm_node (as_mirror st)"
abbreviation as_blobs :: "'w app_state \<Rightarrow> 'w object_store" where "as_blobs st \<equiv> mm_blobs (as_mirror st)"

abbreviation POST :: http_method where "POST \<equiv> OtherMethod ''POST''"
abbreviation PUT :: http_method where "PUT \<equiv> OtherMethod ''PUT''"
abbreviation PATCH :: http_method where "PATCH \<equiv> OtherMethod ''PATCH''"

definition plain_response :: "nat \<Rightarrow> server_response" where
  "plain_response status = \<lparr>sr_status = status, sr_headers = [], sr_body = EmptyBody\<rparr>"

text \<open>\<^verbatim>\<open>error.into_response()\<close>\<close>

definition error_http :: "(string \<Rightarrow> bool) \<Rightarrow> layerhouse_error \<Rightarrow> server_response" where
  "error_http header_ok e =
     (let r = into_response header_ok e in
      \<lparr>sr_status = er_status r,
       sr_headers = (case er_www_authenticate r of None \<Rightarrow> [] | Some v \<Rightarrow> [(''www-authenticate'', v)]),
       sr_body = ErrorBody (er_code r) (er_message r)\<rparr>)"

text \<open>
  A status with an array of headers: a value that is no header value turns the whole response into a plain
  500.
\<close>

definition with_headers :: "(string \<Rightarrow> bool) \<Rightarrow> nat \<Rightarrow> (string \<times> string) list \<Rightarrow> http_body \<Rightarrow> server_response" where
  "with_headers header_ok status headers body =
     (if list_all (\<lambda>(_, v). header_ok v) headers
      then \<lparr>sr_status = status, sr_headers = headers, sr_body = body\<rparr>
      else \<lparr>sr_status = 500, sr_headers = [], sr_body = TextBody [Lit ''failed to convert header value'']\<rparr>)"

text \<open>\<^verbatim>\<open>headers_mut().insert(name, HeaderValue::from_str(v).map_err(Serialization)?)\<close>\<close>

definition header_insert :: "string \<Rightarrow> string \<Rightarrow> server_response \<Rightarrow> server_response" where
  "header_insert name v r = r\<lparr>sr_headers := (name, v) # filter (\<lambda>(n, _). n \<noteq> name) (sr_headers r)\<rparr>"

definition try_header :: "(string \<Rightarrow> bool) \<Rightarrow> string \<Rightarrow> string \<Rightarrow> server_response \<Rightarrow> server_response lh_result" where
  "try_header header_ok name v r =
     (if header_ok v then Ok (header_insert name v r) else Err (Serialization [Lit ''failed to parse header value'']))"

definition response_header :: "server_response \<Rightarrow> string \<Rightarrow> string option" where
  "response_header r name = map_of (sr_headers r) name"

definition temporary_redirect :: "string \<Rightarrow> server_response" where
  "temporary_redirect uri = \<lparr>sr_status = 307, sr_headers = [(''location'', uri)], sr_body = EmptyBody\<rparr>"

definition not_allowed :: layerhouse_error where
  "not_allowed = Unsupported [Lit ''method not allowed'']"

text \<open>\<^verbatim>\<open>handler(..).await.unwrap_or_else(|e| e.into_response())\<close>\<close>

definition respond :: "'w app_state \<Rightarrow> ('w, server_response) pio \<Rightarrow> ('w, server_response) pio" where
  "respond st m = pio_match m (\<lambda>r. pio_return (case r of Inl e \<Rightarrow> error_http (as_header_ok st) e | Inr resp \<Rightarrow> resp))"

lemma response_header_insert [simp]:
  "response_header (header_insert name v r) n = (if n = name then Some v else response_header r n)"
proof -
  have "map_of (filter (\<lambda>(n, _). n \<noteq> name) hs) n = (if n = name then None else map_of hs n)" for hs :: "(string \<times> string) list"
    by (induction hs) auto
  then show ?thesis by (simp add: response_header_def header_insert_def)
qed

lemma respond_Some: "respond st m w = Some (r, w') \<longleftrightarrow>
    (\<exists>x. m w = Some (x, w') \<and> r = Ok (case x of Inl e \<Rightarrow> error_http (as_header_ok st) e | Inr resp \<Rightarrow> resp))"
  by (auto simp: respond_def pio_match_def split: option.splits prod.splits)

end
