(* ===== verification/Middleware.thy ===== *)
theory Middleware
  imports Http Access_Control
begin

text \<open>
  The authentication middleware (\<^verbatim>\<open>auth/middleware.rs\<close>): every routed request passes through it.  It either
  answers the request itself or hands it to the next layer, with the identity and the checked access attached.
  Messages to the log are left out.
\<close>

section \<open>Definitions\<close>

datatype mw_result = Answer server_response | Proceed server_request

datatype request_credential = BearerToken string | SessionCookies "string list"

definition clear_session_cookie_str :: "cookie_flags \<Rightarrow> string" where
  "clear_session_cookie_str flags = ''layerhouse_session=; '' @ flag_attributes flags @ ''; Path=/; Max-Age=0''"

definition extract_bearer_token :: "server_request \<Rightarrow> string option" where
  "extract_bearer_token req = Option.bind (hq_header req ''authorization'') (strip_prefix ''Bearer '')"

definition cookie_value :: "string \<Rightarrow> string \<Rightarrow> string option" where
  "cookie_value name part =
     (case split_once (CHR ''='') (trim part) of
        None \<Rightarrow> None
      | Some (k, v) \<Rightarrow> if k = name then Some v else None)"

definition extract_cookies :: "server_request \<Rightarrow> string \<Rightarrow> string list" where
  "extract_cookies req name =
     concat (map (\<lambda>cookie. List.map_filter (cookie_value name) (split_char (CHR '';'') cookie)) (hq_cookies req))"

definition extract_credential :: "server_request \<Rightarrow> request_credential option" where
  "extract_credential req =
     (case extract_bearer_token req of
        Some token \<Rightarrow> Some (BearerToken token)
      | None \<Rightarrow>
          let cookies = extract_cookies req ''layerhouse_session'' in
          if cookies \<noteq> [] then Some (SessionCookies cookies) else None)"

fun parse_group_ids :: "string list \<Rightarrow> provider_qualified_id list lh_result" where
  "parse_group_ids [] = Ok []"
| "parse_group_ids (i # ids) = res_bind (pq_parse i) (\<lambda>p. res_bind (parse_group_ids ids) (\<lambda>ps. Ok (p # ps)))"

fun session_loop :: "'w auth_service \<Rightarrow> u64 \<Rightarrow> string list \<Rightarrow> string \<Rightarrow> auth_identity lh_result" where
  "session_loop au now [] last_error = Err (unauthorized last_error)"
| "session_loop au now (cookie # cookies) last_error =
     (case session_decrypt (au_crypto au) (au_session_key au) cookie of
        Inl _ \<Rightarrow> session_loop au now cookies ''invalid session''
      | Inr session \<Rightarrow>
          if now \<ge> ds_expires_at session then session_loop au now cookies ''session expired''
          else
            res_bind (pq_parse (ds_principal session)) (\<lambda>p.
            res_bind (parse_group_ids (ds_group_ids session)) (\<lambda>group_ids.
              Ok \<lparr>ai_subject = ds_subject session, ai_principal = p, ai_username = ds_username session,
                ai_display_name = ds_display_name session, ai_email = ds_email session, ai_groups = ds_groups session,
                ai_group_ids = group_ids, ai_scopes = [], ai_namespace_epochs = [], ai_token_type = Session\<rparr>)))"

definition authenticate_session_cookies :: "'w auth_service \<Rightarrow> string list \<Rightarrow> ('w, auth_identity) io" where
  "authenticate_session_cookies au cookies w = (session_loop au (au_now au w) cookies ''invalid session'', w)"

definition authenticate_request ::
  "'w auth_service \<Rightarrow> 'w raft_node \<Rightarrow> request_credential option \<Rightarrow> ('w, auth_identity option) io" where
  "authenticate_request au node credential =
     (case credential of
        None \<Rightarrow> io_return None
      | Some (BearerToken token) \<Rightarrow> io_bind (validate_token au node token) (\<lambda>i. io_return (Some i))
      | Some (SessionCookies cookies) \<Rightarrow> io_bind (authenticate_session_cookies au cookies) (\<lambda>i. io_return (Some i)))"

definition auth_required_response :: "'w app_state \<Rightarrow> 'w auth_service \<Rightarrow> server_request \<Rightarrow> oci_action option \<Rightarrow> server_response" where
  "auth_required_response st au req oci_action =
     (let path = hq_path req in
      if is_dashboard_request_path path then temporary_redirect ''/oauth2/start''
      else if \<not> starts_with ''/v2/'' path then error_http (as_header_ok st) (unauthorized ''authentication required'')
      else
        let repository = extract_repository_from_path path;
            service = (case hq_header req ''host'' of None \<Rightarrow> ''registry'' | Some h \<Rightarrow> h);
            scope_action = scope_token (case oci_action of None \<Rightarrow> Pull | Some a \<Rightarrow> a);
            scope = (if repository = [] then None else Some (''repository:'' @ repository @ '':'' @ scope_action))
        in error_http (as_header_ok st)
             (Unauthorized [Lit ''authentication required''] (Some (cfg_token_endpoint_url (au_config au))) (Some service) scope))"

definition expire_session_cookie :: "cookie_flags \<Rightarrow> server_response \<Rightarrow> server_response" where
  "expire_session_cookie flags r = header_insert ''set-cookie'' (clear_session_cookie_str flags) r"

definition session_cookie_auth_error_response ::
  "'w app_state \<Rightarrow> server_request \<Rightarrow> layerhouse_error \<Rightarrow> cookie_flags \<Rightarrow> server_response" where
  "session_cookie_auth_error_response st req e flags =
     expire_session_cookie flags
       (if is_dashboard_request_path (hq_path req) then temporary_redirect ''/oauth2/start'' else error_http (as_header_ok st) e)"

definition has_oauth_error_query :: "server_request \<Rightarrow> bool" where
  "has_oauth_error_query req = (case hq_query req of None \<Rightarrow> False | Some q \<Rightarrow> contains_str ''oauth_error='' q)"

definition has_logged_out_marker :: "server_request \<Rightarrow> bool" where
  "has_logged_out_marker req =
     (case hq_header req ''cookie'' of None \<Rightarrow> False | Some c \<Rightarrow> contains_str ''layerhouse_logged_out=1'' c)"

definition resolve_oci_action :: "'w raft_node \<Rightarrow> string \<Rightarrow> http_method \<Rightarrow> 'w \<Rightarrow> oci_action" where
  "resolve_oci_action node path meth w =
     (if from_method meth \<noteq> Create then from_method meth
      else (case manifest_put_target path of
          None \<Rightarrow> Create
        | Some (name, reference) \<Rightarrow>
            (case fst (rms_get_manifest node name reference w) of
               Inr (Some _) \<Rightarrow> Update
             | Inr None \<Rightarrow> Create
             | Inl _ \<Rightarrow> Update)))"

definition is_public_read :: "'w app_state \<Rightarrow> server_request \<Rightarrow> oci_action option \<Rightarrow> 'w \<Rightarrow> bool" where
  "is_public_read st req action w \<longleftrightarrow>
     extract_credential req = None \<and> starts_with ''/v2/'' (hq_path req) \<and> action = Some Pull
     \<and> (hq_method req = GET \<or> hq_method req = HEAD)
     \<and> (let repository = extract_repository_from_path (hq_path req) in
        repository \<noteq> [] \<and> is_ok (fst (check_public_pull (as_metadata st) repository w)))"

text \<open>The part after a successful authentication: the permission checks and the extensions.\<close>

definition admit ::
  "'w app_state \<Rightarrow> 'w auth_service \<Rightarrow> server_request \<Rightarrow> oci_action option \<Rightarrow> auth_identity \<Rightarrow> ('w, mw_result) pio" where
  "admit st au req oci_action identity =
     pio_match
       (if starts_with ''/v2/'' (hq_path req) then
          pio_bind (check_permission au (as_metadata st) identity (extract_repository_from_path (hq_path req))
              (case oci_action of None \<Rightarrow> Pull | Some a \<Rightarrow> a)) (\<lambda>access. pio_return (Some access))
        else pio_return None)
     (\<lambda>r. case r of
        Inl e \<Rightarrow> pio_return (Answer (error_http (as_header_ok st) e))
      | Inr access \<Rightarrow>
          pio_match
            (if starts_with ''/api/v1/admin/'' (hq_path req) \<and> \<not> is_namespace_self_service (hq_path req)
             then check_admin_access au (as_metadata st) identity else pio_return ())
          (\<lambda>r. case r of
             Inl e \<Rightarrow> pio_return (Answer (error_http (as_header_ok st) e))
           | Inr _ \<Rightarrow>
               pio_return (Proceed (req\<lparr>hq_identity := Some identity,
                 hq_access := (case access of None \<Rightarrow> hq_access req | Some a \<Rightarrow> Some a)\<rparr>))))"

definition authenticate_and_admit ::
  "'w app_state \<Rightarrow> 'w auth_service \<Rightarrow> server_request \<Rightarrow> oci_action option \<Rightarrow> ('w, mw_result) pio" where
  "authenticate_and_admit st au req oci_action =
     (let credential = extract_credential req;
          flags = cookie_secure_flag (hq_header req ''x-forwarded-proto'') (as_cookie_secure_mode st) (as_server_tls_enabled st)
      in pio_match (pio_run (authenticate_request au (as_metadata st) credential)) (\<lambda>r.
        case r of
          Inr (Some identity) \<Rightarrow> admit st au req oci_action identity
        | Inr None \<Rightarrow>
            if hq_path req = ''/api/v1/session'' then pio_return (Proceed req)
            else pio_return (Answer (auth_required_response st au req oci_action))
        | Inl e \<Rightarrow>
            pio_return (Answer (case credential of
                Some (SessionCookies _) \<Rightarrow> session_cookie_auth_error_response st req e flags
              | _ \<Rightarrow> error_http (as_header_ok st) e))))"

definition auth_middleware :: "'w app_state \<Rightarrow> server_request \<Rightarrow> ('w, mw_result) pio" where
  "auth_middleware st req w =
     (let path = hq_path req in
      if is_public_path path then pio_return (Proceed req) w
      else if has_oauth_error_query req \<and> is_dashboard_request_path path then pio_return (Proceed req) w
      else if has_logged_out_marker req \<and> is_dashboard_request_path path then pio_return (Proceed req) w
      else (case as_auth st of
          None \<Rightarrow> pio_return (Proceed req) w
        | Some au \<Rightarrow>
            let oci_action = (if starts_with ''/v2/'' path
                  then Some (resolve_oci_action (as_metadata st) path (hq_method req) w) else None)
            in if is_public_read st req oci_action w then pio_return (Proceed req) w
               else authenticate_and_admit st au req oci_action w))"

section \<open>What a request has passed\<close>

lemma admit_proceeds:
  assumes "admit st au req action identity w = Some (Ok (Proceed req'), w')"
  shows "hq_identity req' = Some identity \<and> w' = w
    \<and> (starts_with ''/v2/'' (hq_path req) \<longrightarrow> (\<exists>access. hq_access req' = Some access \<and>
        check_permission au (as_metadata st) identity (extract_repository_from_path (hq_path req))
          (case action of None \<Rightarrow> Pull | Some a \<Rightarrow> a) w = Some (Ok access, w)))
    \<and> (starts_with ''/api/v1/admin/'' (hq_path req) \<and> \<not> is_namespace_self_service (hq_path req) \<longrightarrow>
        check_admin_access au (as_metadata st) identity w = Some (Ok (), w))"
proof -
  have perm: "check_permission au (as_metadata st) identity rep act v = Some (x, v') \<Longrightarrow> v' = v" for rep act v x v'
    using reads_only_check_permission [of au "as_metadata st" identity rep act] unfolding reads_only_def by blast
  then have adm: "check_admin_access au (as_metadata st) identity v = Some (x, v') \<Longrightarrow> v' = v" for v x v'
    by (auto simp: check_admin_access_def pio_bind_def split: option.splits prod.splits sum.splits)
  let ?v2 = "starts_with ''/v2/'' (hq_path req)" and ?adm = "starts_with ''/api/v1/admin/'' (hq_path req) \<and> \<not> is_namespace_self_service (hq_path req)"
  let ?chk = "check_permission au (as_metadata st) identity (extract_repository_from_path (hq_path req)) (case action of None \<Rightarrow> Pull | Some a \<Rightarrow> a)"
  from assms obtain access w1 where
    a: "(if ?v2 then pio_bind ?chk (\<lambda>access. pio_return (Some access)) else pio_return None) w = Some (Ok access, w1)"
    and b: "(if ?adm then check_admin_access au (as_metadata st) identity else pio_return ()) w1 = Some (Ok (), w')"
    and req': "req' = req\<lparr>hq_identity := Some identity, hq_access := (case access of None \<Rightarrow> hq_access req | Some a \<Rightarrow> Some a)\<rparr>"
    unfolding admit_def pio_match_sum by auto
  have w1: "w1 = w \<and> (?v2 \<longrightarrow> (\<exists>acc. access = Some acc \<and> ?chk w = Some (Ok acc, w)))"
    using a perm by (fastforce simp: pio_bind_Ok split: if_splits)
  moreover have "w' = w1 \<and> (?adm \<longrightarrow> check_admin_access au (as_metadata st) identity w1 = Some (Ok (), w1))"
    using b adm by (fastforce split: if_splits)
  ultimately show ?thesis using req' by auto
qed

text \<open>
  A request that reaches a handler of the distribution API while authentication is configured is either on a
  public path, a read of a public repository without credentials, or carries an identity that was permitted
  the action on the repository its path names.
\<close>

lemma v2_request_checked:
  assumes "auth_middleware st req w = Some (Ok (Proceed req'), w')" and "as_auth st = Some au"
    and "starts_with ''/v2/'' (hq_path req)" and "\<not> is_public_path (hq_path req)"
  shows "(req' = req \<and> extract_credential req = None \<and> (hq_method req = GET \<or> hq_method req = HEAD)
      \<and> is_public_pull (get_repository (rn_state (as_metadata st) w) (extract_repository_from_path (hq_path req))))
    \<or> (\<exists>identity access w1. hq_identity req' = Some identity \<and> hq_access req' = Some access \<and>
        authenticate_request au (as_metadata st) (extract_credential req) w = (Ok (Some identity), w1) \<and>
        check_permission au (as_metadata st) identity (extract_repository_from_path (hq_path req))
          (resolve_oci_action (as_metadata st) (hq_path req) (hq_method req) w) w1 = Some (Ok access, w1) \<and> w' = w1)"
proof -
  have dash: "\<not> is_dashboard_request_path (hq_path req)" using assms(3) by (simp add: is_dashboard_request_path_def)
  have sess: "hq_path req \<noteq> ''/api/v1/session''" using assms(3) by (auto simp: starts_with_def)
  let ?act = "resolve_oci_action (as_metadata st) (hq_path req) (hq_method req) w"
  show ?thesis
  proof (cases "is_public_read st req (Some ?act) w")
    case True
    with assms dash have "req' = req" by (auto simp: auth_middleware_def Let_def)
    moreover have "is_public_pull (get_repository (rn_state (as_metadata st) w) (extract_repository_from_path (hq_path req)))"
      using True
      by (auto simp: is_public_read_def Let_def check_public_pull_def is_ok_iff store_reads io_bind_def split: sum.splits if_splits)
    ultimately show ?thesis using True by (auto simp: is_public_read_def)
  next
    case False
    with assms dash have "authenticate_and_admit st au req (Some ?act) w = Some (Ok (Proceed req'), w')"
      by (auto simp: auth_middleware_def Let_def)
    then obtain identity w1 where auth: "authenticate_request au (as_metadata st) (extract_credential req) w = (Ok (Some identity), w1)"
      and "admit st au req (Some ?act) identity w1 = Some (Ok (Proceed req'), w')"
      using sess
      by (cases "authenticate_request au (as_metadata st) (extract_credential req) w"; cases "fst (authenticate_request au (as_metadata st) (extract_credential req) w)")
        (auto simp: authenticate_and_admit_def Let_def pio_match_def split: option.splits)
    from admit_proceeds [OF this(2)] assms(3) auth show ?thesis by auto
  qed
qed

end
