(* ===== verification/Blob_Routes.thy ===== *)
theory Blob_Routes
  imports Middleware
begin

text \<open>
  The handlers of blobs (\<^verbatim>\<open>routes/blobs.rs\<close>) and uploads (\<^verbatim>\<open>routes/uploads.rs\<close>).  Handlers that may pull from an
  upstream are in \<open>pio\<close>.
\<close>

section \<open>Blobs\<close>

definition parse_range :: "string \<Rightarrow> u64 \<Rightarrow> (u64 \<times> u64) option" where
  "parse_range range_value total_size =
     (if total_size = 0 then None
      else
        Option.bind (strip_prefix ''bytes='' range_value) (\<lambda>rest.
        Option.bind (split_once (CHR ''-'') rest) (\<lambda>(start_str, end_str).
          if start_str = [] then
            Option.bind (parse_u64 end_str) (\<lambda>suffix_len.
              if suffix_len = 0 then None
              else Some (saturating_sub_u64 total_size suffix_len, total_size - 1))
          else
            Option.bind (parse_u64 start_str) (\<lambda>start.
            Option.bind (if end_str = [] then Some (total_size - 1) else parse_u64 end_str) (\<lambda>stop.
              if start > stop \<or> start \<ge> total_size then None
              else Some (start, min stop (total_size - 1)))))))"

definition stat_or_pull :: "'w app_state \<Rightarrow> string \<Rightarrow> digest \<Rightarrow> string \<Rightarrow> ('w, u64) pio" where
  "stat_or_pull st name d digest_str =
     pio_bind (pio_run (rms_blob_lifecycle_status (as_metadata st) d)) (\<lambda>lifecycle.
       if bl_delete_requested lifecycle \<and> \<not> bl_referenced lifecycle then pio_fail (BlobUnknown [Disp digest_str])
       else pio_match (pio_run (stat (as_blobs st) d)) (\<lambda>r.
         case r of
           Inr info \<Rightarrow> pio_return info
         | Inl (BlobUnknown _) \<Rightarrow>
             pio_match (pull_blob (as_mirror st) name d) (\<lambda>pulled.
               case pulled of
                 Inr True \<Rightarrow> pio_run (io_map_err (\<lambda>_. BlobUnknown [Disp digest_str]) (stat (as_blobs st) d))
               | Inr False \<Rightarrow> pio_fail (BlobUnknown [Disp digest_str])
               | Inl e \<Rightarrow> pio_fail e)
         | Inl e \<Rightarrow> pio_fail e))"

definition head_blob :: "'w app_state \<Rightarrow> string \<Rightarrow> string \<Rightarrow> ('w, server_response) pio" where
  "head_blob st name digest_str =
     pio_bind (pio_run (io_result (digest_try_from digest_str))) (\<lambda>d.
     pio_bind (stat_or_pull st name d digest_str) (\<lambda>info.
       pio_return (with_headers (as_header_ok st) 200
         [(''content-length'', show_u64 info), (''docker-content-digest'', digest_to_string d),
          (''content-type'', ''application/octet-stream''), (''accept-ranges'', ''bytes'')] EmptyBody)))"

definition get_blob_range :: "'w app_state \<Rightarrow> string \<Rightarrow> digest \<Rightarrow> string \<Rightarrow> ('w, server_response) pio" where
  "get_blob_range st name d range_value =
     pio_bind (stat_or_pull st name d (digest_to_string d)) (\<lambda>total_size.
       case parse_range range_value total_size of
         None \<Rightarrow> pio_fail (Unsupported [Lit ''invalid range''])
       | Some (start, stop) \<Rightarrow>
           pio_bind (pio_run (io_map_err (\<lambda>_. BlobUnknown [Disp (digest_to_string d)]) (blob_get_range (as_blobs st) d start stop))) (\<lambda>stream.
             pio_return (with_headers (as_header_ok st) 206
               [(''content-type'', ''application/octet-stream''), (''docker-content-digest'', digest_to_string d),
                (''content-length'', show_u64 (stop - start + 1)),
                (''content-range'', ''bytes '' @ show_u64 start @ ''-'' @ show_u64 stop @ ''/'' @ show_u64 total_size),
                (''accept-ranges'', ''bytes'')] (StreamBody stream))))"

definition redirect_to_blob :: "'w app_state \<Rightarrow> digest \<Rightarrow> ('w, server_response) io" where
  "redirect_to_blob st d =
     io_bind (presigned_url (as_blobs st) d) (\<lambda>location.
     io_bind (io_result (try_header (as_header_ok st) ''location'' location (plain_response 307))) (\<lambda>r1.
     io_bind (io_result (try_header (as_header_ok st) ''docker-content-digest'' (digest_to_string d)
         (header_insert ''content-type'' ''application/octet-stream'' r1))) (\<lambda>r2.
       io_return (header_insert ''accept-ranges'' ''bytes'' (header_insert ''content-length'' ''0'' r2)))))"

definition get_blob :: "'w app_state \<Rightarrow> string \<Rightarrow> string \<Rightarrow> server_request \<Rightarrow> ('w, server_response) pio" where
  "get_blob st name digest_str req =
     pio_bind (pio_run (io_result (digest_try_from digest_str))) (\<lambda>d.
       case hq_header req ''range'' of
         Some range_value \<Rightarrow> get_blob_range st name d range_value
       | None \<Rightarrow>
           pio_bind (stat_or_pull st name d digest_str) (\<lambda>info.
             if bs_redirect_enabled (as_blobs st) then pio_run (redirect_to_blob st d)
             else pio_bind (pio_run (io_map_err (\<lambda>_. BlobUnknown [Disp digest_str]) (blob_get (as_blobs st) d))) (\<lambda>stream.
               pio_return (with_headers (as_header_ok st) 200
                 [(''content-type'', ''application/octet-stream''), (''docker-content-digest'', digest_to_string d),
                  (''content-length'', show_u64 info), (''accept-ranges'', ''bytes'')] (StreamBody stream)))))"

definition delete_blob :: "'w app_state \<Rightarrow> string \<Rightarrow> ('w, server_response) io" where
  "delete_blob st digest_str =
     io_bind (io_result (digest_try_from digest_str)) (\<lambda>d.
     io_bind (rms_record_blob_delete_request (as_metadata st) d) (\<lambda>_. io_return (plain_response 202)))"

definition blobs_dispatch :: "'w app_state \<Rightarrow> string \<Rightarrow> string \<Rightarrow> server_request \<Rightarrow> ('w, server_response) pio" where
  "blobs_dispatch st name digest_str req =
     (case hq_method req of
        HEAD \<Rightarrow> head_blob st name digest_str
      | GET \<Rightarrow> get_blob st name digest_str req
      | DELETE \<Rightarrow> pio_run (delete_blob st digest_str)
      | _ \<Rightarrow> pio_fail not_allowed)"

section \<open>Uploads\<close>

definition unknown_upload :: "string \<Rightarrow> layerhouse_error" where
  "unknown_upload session_id = BlobUploadUnknown [Disp session_id]"

definition find_upload_session :: "'w app_state \<Rightarrow> string \<Rightarrow> string \<Rightarrow> ('w, upload_session) io" where
  "find_upload_session st name session_id =
     io_bind (tracker_get (as_uploads st) session_id) (\<lambda>found.
       case found of
         None \<Rightarrow> io_fail (unknown_upload session_id)
       | Some session \<Rightarrow> if \<not> belongs_to session name then io_fail (unknown_upload session_id) else io_return session)"

definition upload_location :: "string \<Rightarrow> string \<Rightarrow> string" where
  "upload_location name session_id = ''/v2/'' @ name @ ''/blobs/uploads/'' @ session_id"

definition created_blob :: "'w app_state \<Rightarrow> string \<Rightarrow> digest \<Rightarrow> server_response" where
  "created_blob st name d =
     with_headers (as_header_ok st) 201
       [(''location'', ''/v2/'' @ name @ ''/blobs/'' @ digest_to_string d), (''docker-content-digest'', digest_to_string d)] EmptyBody"

definition upload_progress :: "'w app_state \<Rightarrow> nat \<Rightarrow> string \<Rightarrow> string \<Rightarrow> string \<Rightarrow> server_response" where
  "upload_progress st status name session_id rng =
     with_headers (as_header_ok st) status
       [(''location'', upload_location name session_id), (''docker-upload-uuid'', session_id), (''range'', rng)] EmptyBody"

definition progress_range :: "u64 \<Rightarrow> string" where
  "progress_range offset = ''0-'' @ show_u64 (saturating_sub_u64 offset 1)"

definition start_upload_session :: "'w app_state \<Rightarrow> string \<Rightarrow> ('w, server_response) io" where
  "start_upload_session st name =
     io_match (as_uuid st) (\<lambda>session_id.
     io_bind (start_upload (as_blobs st) session_id) (\<lambda>_.
     io_bind (tracker_create (as_uploads st) session_id name) (\<lambda>_.
       io_return (upload_progress st 202 name session_id ''0-0''))))"

definition UPLOAD_BODY_LIMIT :: nat where "UPLOAD_BODY_LIMIT = 1024 * 1024 * 1024"

definition request_body :: "server_request \<Rightarrow> nat \<Rightarrow> (msg \<Rightarrow> layerhouse_error) \<Rightarrow> string lh_result" where
  "request_body req limit err = (case hq_body req limit of Inl e \<Rightarrow> Err (err e) | Inr b \<Rightarrow> Ok b)"

text \<open>\<^verbatim>\<open>complete_upload(..).map_err(|e| DigestInvalid(e.to_string()))?; clear_blob_delete_request(..)?\<close>\<close>

definition finish_upload :: "'w app_state \<Rightarrow> string \<Rightarrow> digest \<Rightarrow> ('w, unit) io" where
  "finish_upload st session_id d =
     io_bind (io_map_err (\<lambda>e. DigestInvalid (error_display e)) (complete_upload (as_blobs st) session_id d)) (\<lambda>_.
       rms_clear_blob_delete_request (as_metadata st) d)"

definition push_body :: "'w app_state \<Rightarrow> string \<Rightarrow> string \<Rightarrow> ('w, unit) io" where
  "push_body st session_id body =
     (if body \<noteq> [] then io_unit (push_chunk (as_blobs st) session_id body) else io_return ())"

definition monolithic_upload :: "'w app_state \<Rightarrow> string \<Rightarrow> string \<Rightarrow> server_request \<Rightarrow> ('w, server_response) io" where
  "monolithic_upload st name digest_str req =
     io_bind (io_result (digest_try_from digest_str)) (\<lambda>d.
     io_bind (io_result (request_body req UPLOAD_BODY_LIMIT BlobUploadInvalid)) (\<lambda>body.
     io_match (as_uuid st) (\<lambda>session_id.
     io_bind (start_upload (as_blobs st) session_id) (\<lambda>_.
     io_bind (push_body st session_id body) (\<lambda>_.
     io_bind (finish_upload st session_id d) (\<lambda>_.
       io_return (created_blob st name d)))))))"

definition may_mount :: "'w app_state \<Rightarrow> 'w auth_service \<Rightarrow> auth_identity option \<Rightarrow> string \<Rightarrow> ('w, bool) pio" where
  "may_mount st au identity from_repo =
     (case identity of
        None \<Rightarrow> pio_return False
      | Some i \<Rightarrow>
          pio_match (check_permission au (as_metadata st) i from_repo Pull) (\<lambda>r.
            case r of
              Inr _ \<Rightarrow> pio_return True
            | Inl (Denied _) \<Rightarrow> pio_return False
            | Inl e \<Rightarrow> pio_fail e))"

definition mounted :: "'w app_state \<Rightarrow> string \<Rightarrow> digest \<Rightarrow> ('w, unit) io \<Rightarrow> ('w, server_response) io" where
  "mounted st name d mount =
     io_bind mount (\<lambda>_.
     io_bind (rms_clear_blob_delete_request (as_metadata st) d) (\<lambda>_. io_return (created_blob st name d)))"

definition mount_or_start ::
  "'w app_state \<Rightarrow> string \<Rightarrow> string \<Rightarrow> string \<Rightarrow> server_request \<Rightarrow> ('w, server_response) pio" where
  "mount_or_start st name mount_digest from_repo req =
     pio_bind (pio_run (io_result (digest_try_from mount_digest))) (\<lambda>d.
     pio_match (pio_run (stat (as_blobs st) d)) (\<lambda>found.
       if \<not> is_ok found then pio_run (start_upload_session st name)
       else (case as_auth st of
           Some au \<Rightarrow>
             pio_bind (may_mount st au (hq_identity req) from_repo) (\<lambda>can_mount.
               if \<not> can_mount then pio_run (start_upload_session st name)
               else pio_run (mounted st name d (rms_mount_blob_with_expected_namespace (as_metadata st) from_repo name d
                   (Option.bind (hq_access req) ara_expected_namespace))))
         | None \<Rightarrow> pio_run (mounted st name d (rms_mount_blob (as_metadata st) from_repo name d)))))"

definition route_start_upload :: "'w app_state \<Rightarrow> string \<Rightarrow> server_request \<Rightarrow> ('w, server_response) pio" where
  "route_start_upload st name req =
     (case query_get (hq_query req) ''digest'' of
        Some digest_str \<Rightarrow> pio_run (monolithic_upload st name digest_str req)
      | None \<Rightarrow>
          (case (query_get (hq_query req) ''mount'', query_get (hq_query req) ''from'') of
             (Some mount_digest, Some from_repo) \<Rightarrow> mount_or_start st name mount_digest from_repo req
           | _ \<Rightarrow> pio_run (start_upload_session st name)))"

text \<open>The permit is held while the handler runs and goes back whatever it returns.\<close>

definition uploads_dispatch_start :: "'w app_state \<Rightarrow> string \<Rightarrow> server_request \<Rightarrow> ('w, server_response) pio" where
  "uploads_dispatch_start st name req w =
     (if hq_method req \<noteq> POST then Some (Err not_allowed, w)
      else (case as_try_acquire st w of
          (False, w1) \<Rightarrow> Some (Err (TooManyRequests [Lit ''upload limit reached'']), w1)
        | (True, w1) \<Rightarrow> map_option (\<lambda>(r, w2). (r, as_release st w2)) (route_start_upload st name req w1)))"

definition parse_content_range_start :: "string \<Rightarrow> u64 option" where
  "parse_content_range_start range0 =
     (let rng = (case strip_prefix ''bytes '' range0 of None \<Rightarrow> range0 | Some r \<Rightarrow> r) in
      Option.bind (split_once (CHR ''-'') rng) (\<lambda>(start, _). parse_u64 start))"

definition patch_upload :: "'w app_state \<Rightarrow> string \<Rightarrow> string \<Rightarrow> server_request \<Rightarrow> ('w, server_response) io" where
  "patch_upload st name session_id req =
     io_bind (find_upload_session st name session_id) (\<lambda>session.
       if (case Option.bind (hq_header req ''content-range'') parse_content_range_start of
             Some start \<Rightarrow> start \<noteq> us_offset session | None \<Rightarrow> False)
       then io_return (upload_progress st 416 name session_id (progress_range (us_offset session)))
       else
         io_bind (io_result (request_body req UPLOAD_BODY_LIMIT BlobUploadInvalid)) (\<lambda>body.
         io_bind (push_chunk (as_blobs st) session_id body) (\<lambda>new_offset.
         io_bind (tracker_update_offset (as_uploads st) session_id new_offset) (\<lambda>_.
           io_return (upload_progress st 202 name session_id (progress_range new_offset))))))"

definition route_complete_upload :: "'w app_state \<Rightarrow> string \<Rightarrow> string \<Rightarrow> server_request \<Rightarrow> ('w, server_response) io" where
  "route_complete_upload st name session_id req =
     io_bind (find_upload_session st name session_id) (\<lambda>_.
     io_bind (io_result (ok_or (query_get (hq_query req) ''digest'') (DigestInvalid [Lit ''missing digest query param'']))) (\<lambda>digest_str.
     io_bind (io_result (digest_try_from digest_str)) (\<lambda>d.
     io_bind (io_result (request_body req UPLOAD_BODY_LIMIT BlobUploadInvalid)) (\<lambda>body.
     io_bind (push_body st session_id body) (\<lambda>_.
     io_bind (finish_upload st session_id d) (\<lambda>_.
     io_bind (tracker_remove (as_uploads st) session_id) (\<lambda>_.
       io_return (created_blob st name d))))))))"

definition get_upload_status :: "'w app_state \<Rightarrow> string \<Rightarrow> string \<Rightarrow> ('w, server_response) io" where
  "get_upload_status st name session_id =
     io_bind (find_upload_session st name session_id) (\<lambda>session.
       io_return (upload_progress st 204 name session_id (progress_range (us_offset session))))"

definition cancel_upload :: "'w app_state \<Rightarrow> string \<Rightarrow> string \<Rightarrow> ('w, server_response) io" where
  "cancel_upload st name session_id =
     io_bind (find_upload_session st name session_id) (\<lambda>_.
     io_bind (delete_upload (as_blobs st) session_id) (\<lambda>_.
     io_bind (tracker_remove (as_uploads st) session_id) (\<lambda>_.
       io_return (plain_response 204))))"

definition uploads_dispatch_session :: "'w app_state \<Rightarrow> string \<Rightarrow> string \<Rightarrow> server_request \<Rightarrow> ('w, server_response) io" where
  "uploads_dispatch_session st name session_id req =
     (if hq_method req = GET then get_upload_status st name session_id
      else if hq_method req = PATCH then patch_upload st name session_id req
      else if hq_method req = PUT then route_complete_upload st name session_id req
      else if hq_method req = DELETE then cancel_upload st name session_id
      else io_fail not_allowed)"

end
