(* ===== verification/Manifest_Routes.thy ===== *)
theory Manifest_Routes
  imports Blob_Routes
begin

text \<open>
  The remaining handlers of the distribution API: manifests (\<^verbatim>\<open>routes/manifests.rs\<close>), tags (\<^verbatim>\<open>routes/tags.rs\<close>),
  the catalog (\<^verbatim>\<open>routes/catalog.rs\<close>), referrers (\<^verbatim>\<open>routes/referrers.rs\<close>, \<^verbatim>\<open>oci/referrers.rs\<close>), the version check
  (\<^verbatim>\<open>routes/v2.rs\<close>), the token endpoint (\<^verbatim>\<open>auth/token_endpoint.rs\<close>), and the dispatch over all of them
  (\<^verbatim>\<open>routes/mod.rs\<close>).
\<close>

section \<open>Manifests\<close>

record manifest_response_parts =
  mrp_content_type :: string
  mrp_digest :: string
  mrp_content_length :: "u64 option"
  mrp_body :: "string option"

definition parts_from_entry :: "manifest_entry \<Rightarrow> bool \<Rightarrow> manifest_response_parts" where
  "parts_from_entry entry include_body =
     \<lparr>mrp_content_type = me_content_type entry, mrp_digest = digest_to_string (me_digest entry),
      mrp_content_length = Some (of_nat (length (me_body entry))),
      mrp_body = (if include_body then Some (me_body entry) else None)\<rparr>"

definition parts_from_head :: "manifest_head \<Rightarrow> manifest_response_parts" where
  "parts_from_head head =
     \<lparr>mrp_content_type = mh_content_type head, mrp_digest = mh_digest head,
      mrp_content_length = mh_content_length head, mrp_body = None\<rparr>"

definition manifest_unknown :: "string \<Rightarrow> layerhouse_error" where
  "manifest_unknown reference = ManifestUnknown [Disp reference]"

definition resolve_manifest_for_response ::
  "'w app_state \<Rightarrow> string \<Rightarrow> string \<Rightarrow> bool \<Rightarrow> ('w, manifest_response_parts) pio" where
  "resolve_manifest_for_response st name reference include_body =
     pio_bind (pio_run (rms_get_manifest (as_metadata st) name reference)) (\<lambda>found.
       case found of
         Some entry \<Rightarrow>
           pio_bind (validate_cached_proxy_tag (as_mirror st) name reference entry) (\<lambda>validated.
             pio_return (parts_from_entry (case validated of Some v \<Rightarrow> v | None \<Rightarrow> entry) include_body))
       | None \<Rightarrow>
           if include_body then
             pio_bind (pull_manifest_lazy (as_mirror st) name reference) (\<lambda>pulled.
               pio_run (io_result (ok_or (map_option (\<lambda>entry. parts_from_entry entry True) pulled) (manifest_unknown reference))))
           else
             pio_bind (pio_run (mirror_head_manifest (as_mirror st) name reference)) (\<lambda>head.
               pio_run (io_result (ok_or (map_option parts_from_head head) (manifest_unknown reference)))))"

definition resolve_manifest :: "'w app_state \<Rightarrow> string \<Rightarrow> string \<Rightarrow> ('w, manifest_response_parts) pio" where
  "resolve_manifest st name reference = resolve_manifest_for_response st name reference True"

definition manifest_http_response :: "(string \<Rightarrow> bool) \<Rightarrow> manifest_response_parts \<Rightarrow> server_response lh_result" where
  "manifest_http_response header_ok parts =
     (let base = (case mrp_body parts of
          Some body \<Rightarrow> \<lparr>sr_status = 200, sr_headers = [(''content-type'', ''application/octet-stream'')], sr_body = BytesBody body\<rparr>
        | None \<Rightarrow> plain_response 200)
      in res_bind (try_header header_ok ''content-type'' (mrp_content_type parts) base) (\<lambda>r1.
         res_bind (try_header header_ok ''docker-content-digest'' (mrp_digest parts) r1) (\<lambda>r2.
           case mrp_content_length parts of
             None \<Rightarrow> Ok r2
           | Some len \<Rightarrow> try_header header_ok ''content-length'' (show_u64 len) r2)))"

definition respond_manifest :: "'w app_state \<Rightarrow> string \<Rightarrow> string \<Rightarrow> bool \<Rightarrow> ('w, server_response) pio" where
  "respond_manifest st name reference include_body =
     pio_bind (if include_body then resolve_manifest st name reference
               else resolve_manifest_for_response st name reference False) (\<lambda>parts.
       pio_run (io_result (manifest_http_response (as_header_ok st) parts)))"

text \<open>
  \<^verbatim>\<open>join_all\<close> over the blob checks: every one runs, and only then is the first failure reported.
\<close>

fun stat_all :: "'w object_store \<Rightarrow> digest list \<Rightarrow> 'w \<Rightarrow> bool list \<times> 'w" where
  "stat_all store [] w = ([], w)"
| "stat_all store (d # ds) w =
     (case stat store d w of (r, w1) \<Rightarrow> (case stat_all store ds w1 of (rs, w2) \<Rightarrow> (is_ok r # rs, w2)))"

fun first_missing :: "digest list \<Rightarrow> bool list \<Rightarrow> digest option" where
  "first_missing (d # ds) (ok # oks) = (if ok then first_missing ds oks else Some d)"
| "first_missing _ _ = None"

definition check_referenced_blobs :: "'w app_state \<Rightarrow> digest list \<Rightarrow> ('w, unit) io" where
  "check_referenced_blobs st digests =
     io_match (stat_all (as_blobs st) digests) (\<lambda>results.
       case first_missing digests results of
         Some d \<Rightarrow> io_fail (ManifestBlobUnknown [Disp (digest_to_string d)])
       | None \<Rightarrow> io_return ())"

text \<open>\<^verbatim>\<open>filter(|digest| seen_refs.insert(digest.to_string()))\<close>\<close>

fun unseen_digests :: "string set \<Rightarrow> digest list \<Rightarrow> digest list" where
  "unseen_digests seen [] = []"
| "unseen_digests seen (d # ds) =
     (if digest_to_string d \<in> seen then unseen_digests seen ds
      else d # unseen_digests (insert (digest_to_string d) seen) ds)"

text \<open>
  The re-check at write time: the expected namespace and whether the reference has to be absent, for a put
  that the middleware authorized as \<open>access\<close>.
\<close>

definition write_time_check ::
  "'w app_state \<Rightarrow> string \<Rightarrow> string \<Rightarrow> auth_identity option \<Rightarrow> authorized_repository_access option
    \<Rightarrow> ('w, namespace_epoch option \<times> bool) pio" where
  "write_time_check st name reference identity access =
     (let expected = Option.bind access ara_expected_namespace;
          absent = (as_auth st \<noteq> None \<and> (case access of None \<Rightarrow> True | Some a \<Rightarrow> ara_action a = Create))
      in case as_auth st of
           None \<Rightarrow> pio_return (expected, absent)
         | Some au \<Rightarrow>
             pio_bind (pio_run (rms_get_manifest (as_metadata st) name reference)) (\<lambda>found.
               if found = None then pio_return (expected, absent)
               else pio_bind (pio_run (io_result (ok_or identity (unauthorized ''authentication required'')))) (\<lambda>who.
                 pio_bind (check_permission au (as_metadata st) who name Update) (\<lambda>update_access.
                   pio_return (if expected = None then ara_expected_namespace update_access else expected, False)))))"

definition put_manifest_response ::
  "(string \<Rightarrow> bool) \<Rightarrow> string \<Rightarrow> digest \<Rightarrow> digest option \<Rightarrow> server_response lh_result" where
  "put_manifest_response header_ok name d subject =
     res_bind (try_header header_ok ''location'' (''/v2/'' @ name @ ''/manifests/'' @ digest_to_string d) (plain_response 201)) (\<lambda>r1.
     res_bind (try_header header_ok ''docker-content-digest'' (digest_to_string d) r1) (\<lambda>r2.
       case subject of
         None \<Rightarrow> Ok r2
       | Some subj \<Rightarrow> try_header header_ok ''oci-subject'' (digest_to_string subj) r2))"

definition DEFAULT_MANIFEST_TYPE :: string where
  "DEFAULT_MANIFEST_TYPE = ''application/vnd.oci.image.manifest.v1+json''"

definition manifest_body :: "'w app_state \<Rightarrow> server_request \<Rightarrow> (string \<times> string \<times> json) lh_result" where
  "manifest_body st req =
     res_bind (request_body req (10 * 1024 * 1024) ManifestInvalid) (\<lambda>body.
       let content_type = (case hq_header req ''content-type'' of None \<Rightarrow> DEFAULT_MANIFEST_TYPE | Some c \<Rightarrow> c) in
       if \<not> is_manifest_media_type content_type
       then Err (ManifestInvalid [Lit ''unsupported media type: '', Disp content_type])
       else (case mm_from_slice (as_mirror st) body of
           Inl e \<Rightarrow> Err (ManifestInvalid (Lit ''invalid JSON: '' # e))
         | Inr parsed \<Rightarrow> Ok (body, content_type, parsed)))"

definition route_put_manifest :: "'w app_state \<Rightarrow> string \<Rightarrow> string \<Rightarrow> server_request \<Rightarrow> ('w, server_response) pio" where
  "route_put_manifest st name reference req =
     pio_bind (pio_run (io_result (manifest_body st req))) (\<lambda>(body, content_type, parsed).
     pio_bind (pio_run (check_referenced_blobs st (extract_referenced_digests parsed))) (\<lambda>_.
     pio_bind (write_time_check st name reference (hq_identity req) (hq_access req)) (\<lambda>(expected, absent).
       let sha = env_sha_hex (rn_env (as_metadata st)) in
       pio_bind (pio_run (io_read (\<lambda>w. entry_from_parsed_json sha (rn_now (as_metadata st) w) parsed content_type body
           (unseen_digests {} (extract_referenced_digests parsed))))) (\<lambda>entry.
       pio_bind (pio_run (if as_auth st \<noteq> None
           then rms_put_manifest_with_expected_namespace (as_metadata st) name reference entry expected absent
           else rms_put_manifest (as_metadata st) name reference entry)) (\<lambda>_.
         pio_run (io_result (put_manifest_response (as_header_ok st) name (digest_sha256 sha body) (me_subject entry))))))))"

definition route_delete_manifest :: "'w app_state \<Rightarrow> string \<Rightarrow> string \<Rightarrow> server_request \<Rightarrow> ('w, server_response) io" where
  "route_delete_manifest st name reference req =
     io_bind (io_result (ok_or (from_str_checked reference) (Unsupported [Lit ''tag deletion not supported'']))) (\<lambda>d.
     io_bind (if as_auth st \<noteq> None
         then rms_delete_manifest_with_expected_namespace (as_metadata st) name d (Option.bind (hq_access req) ara_expected_namespace)
         else rms_delete_manifest (as_metadata st) name d) (\<lambda>_.
       io_return (plain_response 202)))"

definition manifests_dispatch :: "'w app_state \<Rightarrow> string \<Rightarrow> string \<Rightarrow> server_request \<Rightarrow> ('w, server_response) pio" where
  "manifests_dispatch st name reference req =
     (if hq_method req = GET then respond_manifest st name reference True
      else if hq_method req = HEAD then respond_manifest st name reference False
      else if hq_method req = PUT then route_put_manifest st name reference req
      else if hq_method req = DELETE then pio_run (route_delete_manifest st name reference req)
      else pio_fail not_allowed)"

section \<open>Tags, catalog and referrers\<close>

definition json_response :: "json \<Rightarrow> server_response" where
  "json_response body = \<lparr>sr_status = 200, sr_headers = [(''content-type'', ''application/json'')], sr_body = JsonBody body\<rparr>"

definition json_strings :: "string list \<Rightarrow> json" where
  "json_strings xs = JArray (map JString xs)"

definition route_list_tags :: "'w app_state \<Rightarrow> string \<Rightarrow> string option \<Rightarrow> ('w, server_response) io" where
  "route_list_tags st name query =
     io_bind (rms_list_tags (as_metadata st) name (map_option unat (Option.bind (query_get query ''n'') parse_u64))
         (query_get query ''last'')) (\<lambda>ts.
       io_return (json_response (JObject [(''name'', JString name), (''tags'', json_strings ts)])))"

definition tags_dispatch :: "'w app_state \<Rightarrow> string \<Rightarrow> server_request \<Rightarrow> ('w, server_response) io" where
  "tags_dispatch st name req =
     (if hq_method req \<noteq> GET then io_fail not_allowed else route_list_tags st name (hq_query req))"

text \<open>The extractor has decoded the two optional fields of the query.\<close>

record catalog_query =
  cq_n :: "nat option"
  cq_last :: "string option"

definition catalog :: "'w app_state \<Rightarrow> catalog_query \<Rightarrow> ('w, server_response) io" where
  "catalog st query =
     io_bind (rms_list_repositories (as_metadata st) (cq_n query) (cq_last query)) (\<lambda>repos.
       io_return (json_response (JObject [(''repositories'', json_strings repos)])))"

record referrer_descriptor =
  rd_media_type :: string
  rd_digest :: string
  rd_size :: u64
  rd_artifact_type :: "string option"
  rd_annotations :: "json option"

record referrer_index =
  rx_schema_version :: u32
  rx_media_type :: string
  rx_manifests :: "referrer_descriptor list"

definition INDEX_TYPE :: string where
  "INDEX_TYPE = ''application/vnd.oci.image.index.v1+json''"

definition referrer_index_empty :: referrer_index where
  "referrer_index_empty = \<lparr>rx_schema_version = 2, rx_media_type = INDEX_TYPE, rx_manifests = []\<rparr>"

definition descriptor_of_entry :: "referrer_entry \<Rightarrow> referrer_descriptor" where
  "descriptor_of_entry e =
     \<lparr>rd_media_type = re_media_type e, rd_digest = digest_to_string (re_digest e), rd_size = re_size e,
      rd_artifact_type = re_artifact_type e, rd_annotations = re_annotations e\<rparr>"

text \<open>Serialized in the order of the fields; absent options are skipped.\<close>

definition opt_entry :: "string \<Rightarrow> json option \<Rightarrow> (string \<times> json) list" where
  "opt_entry k v = (case v of None \<Rightarrow> [] | Some j \<Rightarrow> [(k, j)])"

definition serialize_descriptor :: "referrer_descriptor \<Rightarrow> json" where
  "serialize_descriptor d =
     JObject ([(''mediaType'', JString (rd_media_type d)), (''digest'', JString (rd_digest d)), (''size'', json_u64 (rd_size d))]
       @ opt_entry ''artifactType'' (map_option JString (rd_artifact_type d)) @ opt_entry ''annotations'' (rd_annotations d))"

definition serialize_index :: "referrer_index \<Rightarrow> json" where
  "serialize_index x =
     JObject [(''schemaVersion'', json_u64 (ucast (rx_schema_version x))), (''mediaType'', JString (rx_media_type x)),
       (''manifests'', JArray (map serialize_descriptor (rx_manifests x)))]"

definition get_referrers :: "'w app_state \<Rightarrow> string \<Rightarrow> string \<Rightarrow> string option \<Rightarrow> ('w, server_response) io" where
  "get_referrers st name digest_str query =
     io_bind (io_result (digest_try_from digest_str)) (\<lambda>d.
     io_bind (rms_list_referrers (as_metadata st) name d (query_get query ''artifactType'')) (\<lambda>entries.
       let index = referrer_index_empty\<lparr>rx_manifests := map descriptor_of_entry entries\<rparr>;
           r = header_insert ''content-type'' INDEX_TYPE (json_response (serialize_index index))
       in io_return (if query_get query ''artifactType'' \<noteq> None then header_insert ''oci-filters-applied'' ''artifactType'' r else r)))"

definition referrers_dispatch :: "'w app_state \<Rightarrow> string \<Rightarrow> string \<Rightarrow> server_request \<Rightarrow> ('w, server_response) io" where
  "referrers_dispatch st name digest_str req =
     (if hq_method req \<noteq> GET then io_fail not_allowed else get_referrers st name digest_str (hq_query req))"

section \<open>Dispatch\<close>

definition v2_ok :: server_response where
  "v2_ok = \<lparr>sr_status = 200, sr_headers = [(''docker-distribution-api-version'', ''registry/2.0'')], sr_body = EmptyBody\<rparr>"

definition v2_check :: "'w app_state \<Rightarrow> server_request \<Rightarrow> ('w, server_response) io" where
  "v2_check st req =
     (case as_auth st of
        None \<Rightarrow> io_return v2_ok
      | Some au \<Rightarrow>
          (case Option.bind (hq_header req ''authorization'') (strip_prefix ''Bearer '') of
             Some token \<Rightarrow>
               io_match (validate_token au (as_metadata st) token) (\<lambda>r.
                 io_return (case r of Inr _ \<Rightarrow> v2_ok | Inl e \<Rightarrow> error_http (as_header_ok st) e))
           | None \<Rightarrow>
               io_return (error_http (as_header_ok st) (auth_required (cfg_token_endpoint_url (au_config au)) ''layerhouse'' []))))"

definition dispatch :: "'w app_state \<Rightarrow> server_request \<Rightarrow> ('w, server_response) pio" where
  "dispatch st req =
     (case route_of (hq_wildcard req) of
        UploadSessionRoute name session_id \<Rightarrow> respond st (pio_run (uploads_dispatch_session st name session_id req))
      | UploadStartRoute name \<Rightarrow> respond st (uploads_dispatch_start st name req)
      | ManifestRoute name reference \<Rightarrow> respond st (manifests_dispatch st name reference req)
      | TagsRoute name \<Rightarrow> respond st (pio_run (tags_dispatch st name req))
      | ReferrersRoute name d \<Rightarrow> respond st (pio_run (referrers_dispatch st name d req))
      | BlobRoute name d \<Rightarrow> respond st (blobs_dispatch st name d req)
      | NoRoute \<Rightarrow> pio_return (plain_response 404))"

definition healthz :: nat where "healthz = 200"

definition readyz :: "'w app_state \<Rightarrow> ('w, nat \<times> msg) io" where
  "readyz st =
     io_match (health_check (as_blobs st)) (\<lambda>r.
       case r of
         Inl e \<Rightarrow> io_return (503, Lit ''s3 unavailable: '' # error_display e)
       | Inr _ \<Rightarrow>
           if \<not> as_has_raft st then io_return (503, [Lit ''raft unavailable''])
           else io_bind (io_read (as_leader_id st)) (\<lambda>leader.
             io_return (if leader = None then (503, [Lit ''raft has no leader'']) else (200, [Lit ''ready'']))))"

section \<open>The token endpoint\<close>

record token_query =
  tq_service :: "string option"
  tq_scope :: "string list"
  tq_account :: "string option"
  tq_client_id :: "string option"

definition token_query_add :: "string \<times> string \<Rightarrow> token_query \<Rightarrow> token_query" where
  "token_query_add kv query =
     (case kv of (key, v) \<Rightarrow>
        if key = ''service'' then query\<lparr>tq_service := Some v\<rparr>
        else if key = ''scope'' then query\<lparr>tq_scope := tq_scope query @ [v]\<rparr>
        else if key = ''account'' then query\<lparr>tq_account := Some v\<rparr>
        else if key = ''client_id'' then query\<lparr>tq_client_id := Some v\<rparr>
        else query)"

definition from_raw_query :: "'w app_state \<Rightarrow> string option \<Rightarrow> token_query lh_result" where
  "from_raw_query st raw_query =
     res_bind (case raw_query of
         None \<Rightarrow> Ok []
       | Some query \<Rightarrow>
           (case as_urlencoded st query of
              Inl e \<Rightarrow> Err (NameInvalid (Lit ''invalid token query: '' # e))
            | Inr pairs \<Rightarrow> Ok pairs)) (\<lambda>pairs.
       Ok (fold token_query_add pairs \<lparr>tq_service = None, tq_scope = [], tq_account = None, tq_client_id = None\<rparr>))"

fun split_ws :: "string \<Rightarrow> string \<Rightarrow> string list" where
  "split_ws cur [] = (if cur = [] then [] else [rev cur])"
| "split_ws cur (c # s) =
     (case find (\<lambda>w. starts_with w (c # s)) white_space of
        Some w \<Rightarrow> (if cur = [] then [] else [rev cur]) @ split_ws [] (drop (length w - 1) s)
      | None \<Rightarrow> split_ws (c # cur) s)"

definition split_whitespace :: "string \<Rightarrow> string list" where
  "split_whitespace s = split_ws [] s"

definition scope_string :: "string list \<Rightarrow> string option" where
  "scope_string scopes =
     (let v = join '' '' (filter (\<lambda>s. trim s \<noteq> []) (concat (map split_whitespace scopes)))
      in if v = [] then None else Some v)"

definition extract_basic_auth :: "'w app_state \<Rightarrow> server_request \<Rightarrow> (string \<times> string) option" where
  "extract_basic_auth st req =
     Option.bind (hq_header req ''authorization'') (\<lambda>header.
     Option.bind (strip_prefix ''Basic '' header) (\<lambda>encoded.
     Option.bind (as_base64_decode st encoded) (\<lambda>creds.
       if utf8_valid creds then split_once (CHR '':'') creds else None)))"

text \<open>The loop over the requested scopes: a denied one is left out, any other error ends the request.\<close>

fun grant_scopes ::
  "'w app_state \<Rightarrow> 'w auth_service \<Rightarrow> auth_identity \<Rightarrow> string list \<Rightarrow> string list \<Rightarrow> namespace_epoch list
    \<Rightarrow> ('w, string list \<times> namespace_epoch list) pio" where
  "grant_scopes st au identity [] granted epochs = pio_return (granted, epochs)"
| "grant_scopes st au identity (requested # rest) granted epochs =
     (case parse_scope requested of
        None \<Rightarrow> grant_scopes st au identity rest granted epochs
      | Some (repository, action) \<Rightarrow>
          pio_match (check_permission au (as_metadata st) identity repository action) (\<lambda>r.
            case r of
              Inr access \<Rightarrow>
                grant_scopes st au identity rest (granted @ [requested]) (record_expected_namespace access epochs)
            | Inl e \<Rightarrow> (case e of
                Denied _ \<Rightarrow> grant_scopes st au identity rest granted epochs
              | _ \<Rightarrow> pio_fail e)))"

definition requested_scopes :: "token_query \<Rightarrow> string list" where
  "requested_scopes query = (case scope_string (tq_scope query) of None \<Rightarrow> [] | Some s \<Rightarrow> split_whitespace s)"

definition token_http_response :: "'w app_state \<Rightarrow> string \<Rightarrow> 'w \<Rightarrow> server_response" where
  "token_http_response st token w =
     json_response (JObject [(''token'', JString token), (''access_token'', JString token), (''expires_in'', json_u64 3600),
       (''issued_at'', JString (as_rfc3339 st w))])"

definition token_endpoint :: "'w app_state \<Rightarrow> server_request \<Rightarrow> ('w, server_response) pio" where
  "token_endpoint st req =
     pio_bind (pio_run (io_result (from_raw_query st (hq_query req)))) (\<lambda>query.
     pio_bind (pio_run (io_result (ok_or (as_auth st) (Internal [Lit ''auth not configured''])))) (\<lambda>au.
     pio_bind (pio_run (io_result (ok_or (extract_basic_auth st req)
         (Unauthorized [Lit ''authentication required''] (Some (cfg_token_endpoint_url (au_config au))) (tq_service query)
           (scope_string (tq_scope query)))))) (\<lambda>(_, password).
     pio_bind (pio_run (validate_token au (as_metadata st) password)) (\<lambda>identity.
     pio_bind (grant_scopes st au identity (requested_scopes query) [] []) (\<lambda>(granted, epochs).
     pio_bind (pio_run (mint_oci_token au identity (join '' '' granted) epochs)) (\<lambda>token.
       pio_run (io_read (token_http_response st token))))))))"

end
