(* ===== verification/Request_Guards.thy ===== *)
theory Request_Guards
  imports Manifest_Routes
begin

text \<open>
  What a request of the distribution API has passed when a handler answers it: the middleware and the handler
  read one path, the handler repeats the check when it overwrites, and the state machine refuses what slipped
  in between.
\<close>

section \<open>From the middleware to the handler\<close>

lemma public_v2_path: "is_public_path (''/v2/'' @ path) \<Longrightarrow> route_of path = NoRoute"
proof -
  assume "is_public_path (''/v2/'' @ path)"
  then have "path = [] \<or> path = ''token''" by (auto simp: is_public_path_def starts_with_def)
  moreover have "route_of [] = NoRoute \<and> route_of ''token'' = NoRoute" by code_simp
  ultimately show ?thesis by auto
qed

definition literal_request :: "server_request \<Rightarrow> bool" where
  "literal_request req \<longleftrightarrow>
     hq_path req = ''/v2/'' @ hq_wildcard req \<and> CHR ''%'' \<notin> set (hq_wildcard req) \<and> \<not> ends_with ''/'' (hq_wildcard req)"

lemma admit_keeps:
  assumes "admit st au req action identity w = Some (Ok (Proceed req'), w')"
  shows "hq_wildcard req' = hq_wildcard req \<and> hq_method req' = hq_method req \<and> hq_path req' = hq_path req
    \<and> hq_body req' = hq_body req \<and> hq_header req' = hq_header req \<and> hq_query req' = hq_query req"
  using assms unfolding admit_def pio_match_sum by auto

lemma middleware_keeps:
  assumes "auth_middleware st req w = Some (Ok (Proceed req'), w')"
  shows "hq_wildcard req' = hq_wildcard req \<and> hq_method req' = hq_method req \<and> hq_path req' = hq_path req
    \<and> hq_body req' = hq_body req \<and> hq_header req' = hq_header req \<and> hq_query req' = hq_query req"
proof (cases "req' = req")
  case False
  with assms obtain au act where "authenticate_and_admit st au req act w = Some (Ok (Proceed req'), w')"
    by (auto simp: auth_middleware_def Let_def split: if_splits option.splits)
  with False obtain identity w1 where "admit st au req act identity w1 = Some (Ok (Proceed req'), w')"
    by (cases "authenticate_request au (as_metadata st) (extract_credential req) w"; cases "fst (authenticate_request au (as_metadata st) (extract_credential req) w)")
      (auto simp: authenticate_and_admit_def Let_def pio_match_def split: option.splits if_splits)
  then show ?thesis by (rule admit_keeps)
qed simp

lemma routed_request_checked:
  assumes mw: "auth_middleware st req w = Some (Ok (Proceed req'), w')" and au: "as_auth st = Some au"
    and req: "literal_request req" and route: "route_of (hq_wildcard req) \<noteq> NoRoute"
  defines "repository \<equiv> route_repository (route_of (hq_wildcard req))"
  shows "(req' = req \<and> extract_credential req = None \<and> (hq_method req = GET \<or> hq_method req = HEAD)
      \<and> is_public_pull (get_repository (rn_state (as_metadata st) w) repository))
    \<or> (\<exists>identity access w1. hq_identity req' = Some identity \<and> hq_access req' = Some access \<and>
        authenticate_request au (as_metadata st) (extract_credential req) w = (Ok (Some identity), w1) \<and>
        check_permission au (as_metadata st) identity repository
          (resolve_oci_action (as_metadata st) (hq_path req) (hq_method req) w) w1 = Some (Ok access, w1) \<and> w' = w1)"
proof -
  have p: "hq_path req = ''/v2/'' @ hq_wildcard req" using req by (simp add: literal_request_def)
  then have v2: "starts_with ''/v2/'' (hq_path req)" by (simp add: starts_with_iff)
  have np: "\<not> is_public_path (hq_path req)" using public_v2_path route p by (metis (no_types))
  have repo: "extract_repository_from_path (hq_path req) = repository"
    unfolding repository_def p using req by (intro repository_of_literal_path) (simp_all add: literal_request_def)
  from v2_request_checked [OF mw au v2 np] show ?thesis unfolding repo .
qed

lemma permission_action: "check_permission au node identity repository action w = Some (Ok access, w') \<Longrightarrow> ara_action access = action"
  by (auto simp: access_new_def elim: check_permission_Ok)

section \<open>Overwriting a tag\<close>

lemma error_status: "sr_status (error_http header_ok e) \<ge> 400"
  by (cases e) (simp_all add: error_http_def Let_def into_response_def)

text \<open>What the re-check at write time establishes.\<close>

lemma write_time_check_Ok:
  assumes "write_time_check st name reference identity access w = Some (Ok (expected, absent), w')" and "as_auth st = Some au"
    and "\<forall>a. access = Some a \<longrightarrow> ara_action a = Create"
  shows "w' = w \<and> (absent \<or> (\<exists>who a. identity = Some who \<and> check_permission au (as_metadata st) who name Update w = Some (Ok a, w)))"
proof (cases "fst (rms_get_manifest (as_metadata st) name reference w) = Ok None")
  case True
  with assms show ?thesis
    by (auto simp: write_time_check_def Let_def store_reads pio_bind_Ok split: option.splits)
next
  case False
  have rd: "check_permission au (as_metadata st) who name Update v = Some (x, v') \<Longrightarrow> v' = v" for who v x v'
    using reads_only_check_permission [of au "as_metadata st" who name Update] unfolding reads_only_def by blast
  from False assms(1,2) obtain who a where "identity = Some who"
    and c: "check_permission au (as_metadata st) who name Update w = Some (Ok a, w')"
    by (cases identity) (auto simp: write_time_check_def Let_def store_reads pio_bind_Ok split: option.splits)
  with rd [OF c] show ?thesis by auto
qed

lemma put_absent:
  assumes "put_manifest env data r = Ok (data', x)" and "pm_require_reference_absent r" and "\<not> contains_char (CHR '':'') (pm_reference r)"
  shows "get_manifest data (pm_name r) (pm_reference r) = None"
  using assms by (auto simp: put_manifest_def split: if_splits)

lemma write_time_check_world:
  assumes "write_time_check st name reference identity access w = Some (x, w')"
  shows "w' = w"
proof -
  have rd: "check_permission au (as_metadata st) who name Update v = Some (y, v') \<Longrightarrow> v' = v" for au who v y v'
    using reads_only_check_permission [of au "as_metadata st" who name Update] unfolding reads_only_def by blast
  show ?thesis
    using assms
    by (auto simp: write_time_check_def Let_def store_reads pio_bind_def ok_or_def dest!: rd split: option.splits sum.splits if_splits prod.splits)
qed

text \<open>The world in which the handler has parsed the manifest and found the blobs it refers to.\<close>

definition blobs_found :: "'w app_state \<Rightarrow> server_request \<Rightarrow> 'w \<Rightarrow> 'w \<Rightarrow> bool" where
  "blobs_found st req w v \<longleftrightarrow> (\<exists>body content_type parsed. manifest_body st req = Ok (body, content_type, parsed)
     \<and> check_referenced_blobs st (extract_referenced_digests parsed) w = (Ok (), v))"

lemma route_put_committed:
  assumes ok: "raft_ok (as_metadata st) log" and au: "as_auth st = Some au"
    and put: "route_put_manifest st name reference req w = Some (Ok resp, w')"
  obtains v entry expected absent others now e later data rs where
    "blobs_found st req w v"
    and "write_time_check st name reference (hq_identity req) (hq_access req) v = Some (Ok (expected, absent), v)"
    and "log w' = log v @ others @ (now, e) # later"
    and "le_payload e = Normal (ReqManifest (PutManifest (put_request_of name reference entry expected absent)))"
    and "apply_entries (rn_env (as_metadata st)) empty_state (log v @ others) = Some (data, rs)"
    and "\<exists>data' x. put_manifest (rn_env (as_metadata st)) (data\<lparr>last_applied_log := Some (le_log_id e)\<rparr>)
      (put_request_of name reference entry expected absent) = Ok (data', x)"
proof -
  from put au obtain body content_type parsed v v2 expected absent entry where
    found: "manifest_body st req = Ok (body, content_type, parsed)"
      "check_referenced_blobs st (extract_referenced_digests parsed) w = (Ok (), v)"
    and chk: "write_time_check st name reference (hq_identity req) (hq_access req) v = Some (Ok (expected, absent), v2)"
    and wr: "rms_put_manifest_with_expected_namespace (as_metadata st) name reference entry expected absent v2 = (Ok (), w')"
    by (auto simp: route_put_manifest_def pio_bind_Ok Let_def split: prod.splits)
  note same = write_time_check_world [OF chk]
  let ?r = "put_request_of name reference entry expected absent"
  from wr obtain x where "write_manifest (as_metadata st) (PutManifest ?r) v = (Ok x, w')"
    by (auto simp: rms_put_manifest_with_expected_namespace_def io_unit_def io_bind_eq_Ok same)
  from write_manifest_Ok [OF ok this] obtain others now e later data rs data' where
    ent: "log w' = log v @ others @ (now, e) # later" "le_payload e = Normal (ReqManifest (PutManifest ?r))"
      "apply_entries (rn_env (as_metadata st)) empty_state (log v @ others) = Some (data, rs)"
      "entry_step (rn_env (as_metadata st)) data (now, e) = Some (data', RespManifest x)"
    unfolding answers_entry_def by blast
  from ent(2,4) have "put_manifest (rn_env (as_metadata st)) (data\<lparr>last_applied_log := Some (le_log_id e)\<rparr>) ?r = Ok (data', x)"
    by (auto simp: entry_step_def apply_entry_def Let_def settle_def split: sum.splits elim: error_to_response.elims)
  with found chk ent same show ?thesis using that [of v expected absent others now e later entry data rs] by (auto simp: blobs_found_def)
qed

lemma get_manifest_position [simp]:
  "get_manifest (data\<lparr>last_applied_log := l\<rparr>) name reference = get_manifest data name reference"
  by (simp add: get_manifest_def)

text \<open>
  The whole way of a push: whatever happened between the check of the middleware, the re-check of the handler
  and the commit, a tag that exists at the commit is replaced only for an identity that was permitted to
  update, either by the middleware at the end of its run or by the handler right before the write.
\<close>

lemma put_overwrite_permitted:
  assumes ok: "raft_ok (as_metadata st) log" and au: "as_auth st = Some au"
    and mw: "auth_middleware st req w = Some (Ok (Proceed req'), w1)" and lit: "literal_request req"
    and route: "route_of (hq_wildcard req) = ManifestRoute name reference" and meth: "hq_method req = PUT"
    and tag: "\<not> contains_char (CHR '':'') reference"
    and put: "dispatch st req' w2 = Some (Ok resp, w3)" and status: "sr_status resp = 201"
  shows "\<exists>identity v others now e later r data rs. hq_identity req' = Some identity \<and> blobs_found st req' w2 v
    \<and> log w3 = log v @ others @ (now, e) # later
    \<and> le_payload e = Normal (ReqManifest (PutManifest r)) \<and> pm_name r = name \<and> pm_reference r = reference
    \<and> apply_entries (rn_env (as_metadata st)) empty_state (log v @ others) = Some (data, rs)
    \<and> (get_manifest data name reference = None
       \<or> (\<exists>access. check_permission au (as_metadata st) identity name Update w1 = Some (Ok access, w1))
       \<or> (\<exists>access. check_permission au (as_metadata st) identity name Update v = Some (Ok access, v)))"
proof -
  let ?node = "as_metadata st"
  from routed_request_checked [OF mw au lit] route meth obtain identity access where
    who: "hq_identity req' = Some identity" "hq_access req' = Some access"
    and perm: "check_permission au ?node identity name (resolve_oci_action ?node (hq_path req) PUT w) w1 = Some (Ok access, w1)"
    by auto
  have keep: "hq_wildcard req' = hq_wildcard req" "hq_method req' = PUT" using middleware_keeps [OF mw] meth by simp_all
  from put [unfolded dispatch_def keep(1) route] obtain x where
    "manifests_dispatch st name reference req' w2 = Some (x, w3)"
    and "resp = (case x of Inl e \<Rightarrow> error_http (as_header_ok st) e | Inr resp \<Rightarrow> resp)" by (auto simp: respond_Some)
  moreover have "\<exists>r. x = Inr r"
  proof (cases x)
    case (Inl e)
    with calculation status error_status [of "as_header_ok st" e] show ?thesis by simp
  qed simp
  ultimately have "route_put_manifest st name reference req' w2 = Some (Ok resp, w3)"
    by (auto simp: manifests_dispatch_def keep(2))
  then obtain v entry expected absent others now e later data rs where
    found: "blobs_found st req' w2 v"
    and chk: "write_time_check st name reference (hq_identity req') (hq_access req') v = Some (Ok (expected, absent), v)"
    and ent: "log w3 = log v @ others @ (now, e) # later"
      "le_payload e = Normal (ReqManifest (PutManifest (put_request_of name reference entry expected absent)))"
      "apply_entries (rn_env ?node) empty_state (log v @ others) = Some (data, rs)"
    and app: "\<exists>data' x. put_manifest (rn_env ?node) (data\<lparr>last_applied_log := Some (le_log_id e)\<rparr>)
      (put_request_of name reference entry expected absent) = Ok (data', x)"
    by (rule route_put_committed [OF ok au])
  have req_of: "pm_name (put_request_of name reference entry expected absent) = name"
    "pm_reference (put_request_of name reference entry expected absent) = reference"
    "pm_require_reference_absent (put_request_of name reference entry expected absent) = absent"
    by (simp_all add: put_request_of_def)
  have "get_manifest data name reference = None
    \<or> (\<exists>access. check_permission au ?node identity name Update w1 = Some (Ok access, w1))
    \<or> (\<exists>access. check_permission au ?node identity name Update v = Some (Ok access, v))"
  proof (cases "ara_action access = Create")
    case True
    with write_time_check_Ok [OF chk au] who show ?thesis
      using app put_absent [where r = "put_request_of name reference entry expected absent"] tag req_of by fastforce
  next
    case False
    have "resolve_oci_action ?node (hq_path req) PUT w \<in> {Create, Update}"
      by (auto simp: resolve_oci_action_def split: option.splits sum.splits)
    with False permission_action [OF perm] perm show ?thesis by auto
  qed
  with who(1) found ent req_of show ?thesis by blast
qed

section \<open>Exchanging a credential for a bearer token\<close>

text \<open>
  What a signed token decodes to, if it decodes at all, is what was signed, for the claims the server signs:
  with groups and without further claims.  The flattened further claims are left out when they are null, and
  what is left over for them when the token is read is the empty object.
\<close>

definition own_tokens_ok :: "'w auth_service \<Rightarrow> bool" where
  "own_tokens_ok au \<longleftrightarrow> (\<forall>c t v d. tc_additional_claims c = JNull \<longrightarrow> tc_groups c \<noteq> None \<longrightarrow>
     au_encode_own au c = Ok t \<longrightarrow> au_decode_own au t v = Some d \<longrightarrow> d = c\<lparr>tc_additional_claims := JObject []\<rparr>)"

lemma split_ws_no_space: "CHR '' '' \<notin> set cur \<Longrightarrow> x \<in> set (split_ws cur s) \<Longrightarrow> CHR '' '' \<notin> set x"
proof (induction cur s rule: split_ws.induct)
  case (2 cur c s)
  show ?case
  proof (cases "find (\<lambda>w. starts_with w (c # s)) white_space")
    case None
    moreover have "[CHR 0x20] \<in> set white_space" by (simp add: white_space_def)
    ultimately have "\<not> starts_with [CHR 0x20] (c # s)" unfolding find_None_iff by blast
    then have "c \<noteq> CHR '' ''" by (auto simp: starts_with_def)
    with 2 None show ?thesis by auto
  next
    case (Some w)
    with 2 show ?thesis by (auto split: if_splits)
  qed
qed (auto split: if_splits)

lemma split_whitespace_no_space: "x \<in> set (split_whitespace s) \<Longrightarrow> CHR '' '' \<notin> set x"
  unfolding split_whitespace_def by (rule split_ws_no_space) simp_all

lemma split_join_space:
  "(\<And>x. x \<in> set xs \<Longrightarrow> c \<notin> set x) \<Longrightarrow> xs \<noteq> [] \<Longrightarrow> split_char c (join [c] xs) = xs"
  by (induction xs rule: induct_list012) (simp_all add: split_char_no_sep split_char_append)

text \<open>The loop keeps exactly scopes that were permitted.\<close>

lemma grant_scopes_permitted:
  assumes "grant_scopes st au identity requested granted epochs w = Some (Ok (gs, es), w')"
  shows "w' = w \<and> set granted \<subseteq> set gs \<and> (\<forall>s \<in> set gs. s \<in> set granted \<or> (s \<in> set requested \<and> (\<exists>repository action access.
    parse_scope s = Some (repository, action) \<and> check_permission au (as_metadata st) identity repository action w = Some (Ok access, w))))"
  using assms
proof (induction requested arbitrary: granted epochs)
  case (Cons s rest)
  show ?case
  proof (cases "parse_scope s")
    case None
    with Cons.IH [of granted epochs] Cons.prems show ?thesis by auto
  next
    case (Some p)
    obtain repository action where p: "p = (repository, action)" by (cases p)
    let ?chk = "check_permission au (as_metadata st) identity repository action"
    have rd: "?chk w = Some (x, v) \<Longrightarrow> v = w" for x v
      using reads_only_check_permission [of au "as_metadata st" identity repository action] unfolding reads_only_def by blast
    from Cons.prems Some p obtain r v where r: "?chk w = Some (r, v)" by (auto simp: pio_match_Some)
    with rd have v: "v = w" by blast
    consider
        (denied) e where "?chk w = Some (Err e, w)" "grant_scopes st au identity rest granted epochs w = Some (Ok (gs, es), w')"
      | (allowed) access where "?chk w = Some (Ok access, w)"
          "grant_scopes st au identity rest (granted @ [s]) (record_expected_namespace access epochs) w = Some (Ok (gs, es), w')"
    proof (cases r)
      case (Inl e)
      with Cons.prems Some p r v that(1) [of e] show ?thesis
        by (cases e) (simp_all add: pio_match_def)
    next
      case (Inr access)
      with Cons.prems Some p r v that(2) [of access] show ?thesis by (simp add: pio_match_def)
    qed
    then show ?thesis
    proof cases
      case denied
      with Cons.IH [OF denied(2)] show ?thesis by auto
    next
      case allowed
      with Cons.IH [OF allowed(2)] Some p show ?thesis by auto
    qed
  qed
qed simp

lemma token_endpoint_minted:
  assumes "token_endpoint st req w = Some (Ok resp, w')" and au: "as_auth st = Some au"
  obtains user password identity w1 granted epochs token where
    "extract_basic_auth st req = Some (user, password)" and "validate_token au (as_metadata st) password w = (Ok identity, w1)"
    and "\<And>s. s \<in> set granted \<Longrightarrow> CHR '' '' \<notin> set s \<and> (\<exists>repository action access. parse_scope s = Some (repository, action)
      \<and> check_permission au (as_metadata st) identity repository action w1 = Some (Ok access, w1))"
    and "mint_oci_token au identity (join '' '' granted) epochs w1 = (Ok token, w')" and "resp = token_http_response st token w'"
proof -
  from assms obtain query user password identity w1 granted epochs w2 token where
    run: "extract_basic_auth st req = Some (user, password)" "validate_token au (as_metadata st) password w = (Ok identity, w1)"
      "grant_scopes st au identity (requested_scopes query) [] [] w1 = Some (Ok (granted, epochs), w2)"
      "mint_oci_token au identity (join '' '' granted) epochs w2 = (Ok token, w')" "resp = token_http_response st token w'"
    by (auto simp: token_endpoint_def pio_bind_Ok ok_or_def split: option.splits)
  note perm = grant_scopes_permitted [OF run(3)]
  have "CHR '' '' \<notin> set s" if "s \<in> set granted" for s
    using that perm split_whitespace_no_space by (fastforce simp: requested_scopes_def split: option.splits)
  moreover have "w2 = w1" using perm by blast
  moreover have "\<exists>repository action access. parse_scope s = Some (repository, action)
      \<and> check_permission au (as_metadata st) identity repository action w1 = Some (Ok access, w1)" if "s \<in> set granted" for s
    using that perm by auto
  ultimately show ?thesis using that [OF run(1,2) _ _ run(5)] run(4) by blast
qed

section \<open>Upload sessions\<close>

lemma session_of_other_repository:
  assumes "tracker_get (as_uploads st) session_id w = (Ok found, w1)" and "\<forall>x. found = Some x \<longrightarrow> us_repo x \<noteq> name"
  shows "find_upload_session st name session_id w = (Err (unknown_upload session_id), w1)"
  using assms by (auto simp: find_upload_session_def io_bind_def belongs_to_def split: option.splits)

lemma foreign_session_refused:
  assumes "find_upload_session st name session_id w = (Err e, w1)"
  shows "uploads_dispatch_session st name session_id req w =
    (if hq_method req \<in> {GET, PATCH, PUT, DELETE} then (Err e, w1) else (Err not_allowed, w))"
  using assms
  by (auto simp: uploads_dispatch_session_def get_upload_status_def patch_upload_def route_complete_upload_def cancel_upload_def io_bind_def)

lemma start_upload_creates:
  assumes "start_upload_session st name w = (Ok r, w')"
  obtains session_id x w1 w2 where "as_uuid st w = (session_id, w1)" "tracker_create (as_uploads st) session_id name w2 = (Ok x, w')"
    "r = upload_progress st 202 name session_id ''0-0''"
  using assms by (auto simp: start_upload_session_def io_match_eq io_bind_eq_Ok)

end
