(* ===== verification/Access_Scenario.thy ===== *)
theory Access_Scenario
  imports Mirror_Worlds Cedar_Instance Request_Guards
begin

text \<open>
  A site for the properties of access to be exercised on: the registry of \<^const>\<open>sc_log\<close> behind the middleware,
  with the small Cedar engine and a bearer token of the owner of the namespace.
\<close>

definition site_config :: auth_config where
  "site_config =
     \<lparr>cfg_provider_name = ''idp'', cfg_issuer_url = ''https://idp'', cfg_issuer_internal_url = None, cfg_issuer_internal_urls = [],
      cfg_jwks_urls = [], cfg_client_id = ''layerhouse'', cfg_token_endpoint_url = ''https://r/v2/token'', cfg_redirect_uri = ''https://r/cb'',
      cfg_logout_url = None, cfg_jwks_cache_s3_key = ''auth/jwks.json'', cfg_jwks_max_stale_seconds = 60, cfg_policy_sets = [],
      cfg_group_claim = ''groups'', cfg_access_token_audience = None, cfg_client_secret = ''secret'', cfg_login_scopes = ''openid'', cfg_tls_insecure_skip_verify = False\<rparr>"

definition site_idp :: "'w idp" where
  "site_idp =
     \<lparr>ip_http_get = \<lambda>url w. (Err (SendFailed []), w), ip_from_str = \<lambda>s. Err [], ip_jwk_set = \<lambda>j. Err [], ip_from_jwk = \<lambda>j. Err [],
      ip_now = \<lambda>w. 100, ip_cache = \<lambda>w. jwks_empty, ip_set_cache = \<lambda>c w. w,
      ip_discovery = \<lambda>w. \<lparr>od_authorization_endpoint = [], od_token_endpoint = [], od_jwks_uri = [], od_end_session_endpoint = None\<rparr>,
      ip_set_discovery = \<lambda>d w. w, ip_s3 = None\<rparr>"

text \<open>A token for an update of one repository, as the token endpoint mints it at time 100.\<close>

abbreviation site_scope :: string where "site_scope \<equiv> ''repository:alice/app:update''"

definition site_claims :: token_claims where
  "site_claims =
     \<lparr>tc_subject = ''u-1'', tc_exp = 3700, tc_aud = None, tc_groups = Some [], tc_name = None, tc_preferred_username = Some ''ann'',
      tc_email = None, tc_scope = Some site_scope, tc_namespace_epochs = [epoch_new ''alice'' 1], tc_token_type = Some ''oci_bearer'',
      tc_iat = Some 100, tc_iss = Some ''layerhouse'', tc_additional_claims = JNull\<rparr>"

definition site_auth :: "'w auth_service" where
  "site_auth =
     \<lparr>au_config = site_config, au_cedar = small_cedar, au_idp = site_idp,
      au_crypto = \<lparr>sc_encode = \<lambda>s. Err [], sc_decode = \<lambda>s. Err [], sc_cipher = \<lambda>k n p. Err [], sc_decipher = \<lambda>k n c. None,
        sc_base64 = \<lambda>b. b, sc_unbase64 = \<lambda>b. Err []\<rparr>,
      au_session_key = ''key'', au_sha_hex = \<lambda>b. replicate 64 (CHR ''0''), au_is_uuid = \<lambda>s. False,
      au_decode_own = \<lambda>t w. if t = ''tok'' then Some (site_claims\<lparr>tc_additional_claims := JObject []\<rparr>) else None,
      au_encode_own = \<lambda>c. if c = site_claims then Ok ''tok'' else Err [],
      au_decode_header = \<lambda>t. None, au_decode_jwk = \<lambda>t k a aud iss w. None, au_now = \<lambda>w. 100\<rparr>"

type_synonym site_world = "local_log \<times> mem_world"

text \<open>A session record is one byte of offset and the repository.\<close>

definition site_tracker :: "site_world s3_tracker" where
  "site_tracker =
     \<lparr>tk_store = store_on_snd mem_store,
      tk_encode = \<lambda>s. if us_offset s < 256 then Ok (char_of (unat (us_offset s)) # us_repo s) else Err [],
      tk_decode = \<lambda>b. case b of [] \<Rightarrow> Err [] | c # repo \<Rightarrow> Ok \<lparr>us_repo = repo, us_offset = of_nat (byte c)\<rparr>\<rparr>"

definition site :: "site_world app_state" where
  "site =
     \<lparr>as_mirror = pull_mirror, as_uploads = S3Tracker site_tracker,
      as_try_acquire = \<lambda>w. (True, w), as_release = \<lambda>w. w, as_auth = Some site_auth, as_server_tls_enabled = False,
      as_cookie_secure_mode = CookieDisabled, as_header_ok = \<lambda>v. True, as_uuid = \<lambda>w. (''s'', w), as_has_raft = True,
      as_leader_id = \<lambda>w. Some 1, as_urlencoded = \<lambda>q. Ok [(''scope'', q)], as_base64_decode = \<lambda>s. Some s, as_rfc3339 = \<lambda>w. ''now''\<rparr>"

definition site_start :: site_world where
  "site_start = (sc_log, mem_empty)"

definition site_request :: "http_method \<Rightarrow> string \<Rightarrow> string \<Rightarrow> server_request" where
  "site_request meth path credential =
     \<lparr>hq_method = meth, hq_path = ''/v2/'' @ path, hq_query = None,
      hq_header = \<lambda>h. if h = ''authorization'' then Some credential else None, hq_cookies = [],
      hq_body = \<lambda>n. Ok ''{}'', hq_wildcard = path, hq_identity = None, hq_access = None\<rparr>"

definition site_owner :: "string \<Rightarrow> auth_identity" where
  "site_owner scope =
     \<lparr>ai_subject = ''u-1'', ai_principal = ''idp:user:u-1'', ai_username = Some ''ann'', ai_display_name = None, ai_email = None,
      ai_groups = [], ai_group_ids = [], ai_scopes = [scope], ai_namespace_epochs = [epoch_new ''alice'' 1], ai_token_type = OciBearer\<rparr>"

lemma site_state [simp]: "rn_state (as_metadata site) (sc_log, m) = sc_state"
  by (simp add: site_def pull_mirror_def node_on_fst_def local_node_def sc_run)

lemma site_facts:
  "live_namespace sc_state ''alice/app'' = Some sc_alice" "list_policy_sets sc_state = []"
  "list_namespace_grants sc_state ''alice'' = []" "get_repository sc_state ''alice/app'' = None"
  by code_simp+

lemma site_auth_simps [simp]:
  "au_config site_auth = site_config" "au_cedar site_auth = small_cedar" "cfg_policy_sets site_config = []"
  "as_auth site = Some site_auth"
  by (simp_all add: site_auth_def site_config_def site_def)

text \<open>The owner updates the repository with a token for it.\<close>

lemma site_principal: "user_principal site_config ''u-1'' = Ok ''idp:user:u-1''" by code_simp

lemma site_covers: "token_covers (site_owner site_scope) ''alice/app'' Update sc_alice"
  unfolding token_covers_def by (rule exI [of _ "''alice/app''"], rule exI [of _ Update]) code_simp

lemma site_owner_fields:
  "ai_subject (site_owner s) = ''u-1''" "ai_principal (site_owner s) = ''idp:user:u-1''" "ai_group_ids (site_owner s) = []"
  "uses_explicit_scopes (site_owner s)"
  by (simp_all add: site_owner_def uses_explicit_scopes_def uses_scopes_def)

lemma site_plain: "plain_id ''alice/app''"
  by (simp add: plain_id_def is_graphic_def byte_def)

lemma site_permission:
  "check_permission site_auth (as_metadata site) (site_owner site_scope) ''alice/app'' Update (sc_log, m) =
    Some (Ok (access_new ''alice/app'' Update (Some (epoch_new ''alice'' 1))), (sc_log, m))"
proof -
  have "tenancy_inv sc_state" using sc_run by (rule tenancy_reachable)
  moreover have "ns_owner sc_alice \<noteq> OwnerUser []" "ns_handle sc_alice = ''alice''" "epoch_from_namespace sc_alice = epoch_new ''alice'' 1"
    by (simp_all add: sc_alice_def epoch_from_namespace_def)
  ultimately show ?thesis
    using check_permission_exact [where au = site_auth and node = "as_metadata site" and identity = "site_owner site_scope"
        and repository = "''alice/app''" and action = Update and w = "(sc_log, m)" and ns = sc_alice and lit = quoted]
    by (simp add: site_facts site_owner_fields site_covers site_principal small_cedar_semantics site_plain)
qed

lemma site_raft: "raft_ok (as_metadata site) fst"
  using pull_mirror_ok(1) by (simp add: site_def)

text \<open>A push of the owner to the existing tag, through the middleware and the dispatcher.\<close>

definition site_push :: server_request where
  "site_push = site_request PUT ''alice/app/manifests/v1'' ''Bearer tok''"

definition site_pushed :: server_request where
  "site_pushed = site_push\<lparr>hq_identity := Some (site_owner site_scope),
     hq_access := Some (access_new ''alice/app'' Update (Some (epoch_new ''alice'' 1)))\<rparr>"

lemma site_push_paths:
  "\<not> is_public_path (hq_path site_push)" "\<not> is_dashboard_request_path (hq_path site_push)"
  "starts_with ''/v2/'' (hq_path site_push)" "extract_repository_from_path (hq_path site_push) = ''alice/app''"
  "\<not> starts_with ''/api/v1/admin/'' (hq_path site_push)" "hq_path site_push \<noteq> ''/api/v1/session''"
  "manifest_put_target (hq_path site_push) = Some (''alice/app'', ''v1'')"
  "route_of (hq_wildcard site_push) = ManifestRoute ''alice/app'' ''v1''"
  "extract_credential site_push = Some (BearerToken ''tok'')"
  "get_manifest sc_state ''alice/app'' ''v1'' \<noteq> None"
  by code_simp+

lemma site_validates: "validate_token site_auth (as_metadata site) ''tok'' w = (Ok (site_owner site_scope), w)"
proof -
  have "trimmed (Some ''ann'') = Some ''ann''" "trimmed None = None" by code_simp+
  then have "identity_of_claims (site_auth :: site_world auth_service) (site_claims\<lparr>tc_additional_claims := JObject []\<rparr>) [] [site_scope] [epoch_new ''alice'' 1] OciBearer = Ok (site_owner site_scope)"
    by (simp add: identity_of_claims_def site_principal site_claims_def site_owner_def stable_group_ids_def claims_username_def
        claims_display_name_def claims_email_def)
  moreover have "\<not> starts_with ''layerhouse-'' ''tok''" "split_char (CHR '' '') site_scope = [site_scope]" by code_simp+
  moreover have "au_decode_own (site_auth :: site_world auth_service) ''tok'' w = Some (site_claims\<lparr>tc_additional_claims := JObject []\<rparr>)" by (simp add: site_auth_def)
  moreover have "tc_groups site_claims = Some []" "tc_scope site_claims = Some site_scope"
    "tc_namespace_epochs site_claims = [epoch_new ''alice'' 1]"
    by (simp_all add: site_claims_def)
  ultimately show ?thesis
    by (simp add: validate_token_def validate_oci_token_def io_match_def del: split_char.simps)
qed

lemma site_authenticates:
  "authenticate_request site_auth (as_metadata site) (Some (BearerToken ''tok'')) w = (Ok (Some (site_owner site_scope)), w)"
  by (simp add: authenticate_request_def io_bind_def site_validates)

lemma site_push_proceeds: "auth_middleware site site_push (sc_log, m) = Some (Ok (Proceed site_pushed), (sc_log, m))"
proof -
  have meth: "hq_method site_push = PUT" "hq_access site_push = None" by (simp_all add: site_push_def site_request_def)
  obtain e where e: "get_manifest sc_state ''alice/app'' ''v1'' = Some e" using site_push_paths(10) by blast
  have act: "resolve_oci_action (as_metadata site) (hq_path site_push) PUT (sc_log, m) = Update"
    by (simp add: resolve_oci_action_def site_push_paths store_reads e)
  show ?thesis
    by (simp add: auth_middleware_def Let_def site_push_paths is_public_read_def authenticate_and_admit_def meth act
        pio_match_def site_authenticates admit_def pio_bind_def site_permission site_pushed_def)
qed

lemma site_commit:
  "fst (rms_put_manifest_with_expected_namespace local_node ''alice/app'' ''v1''
    (entry_from_parsed_json (env_sha_hex sc_env) 100 (JObject []) DEFAULT_MANIFEST_TYPE ''{}'' []) (Some (epoch_new ''alice'' 1)) False sc_log) = Ok ()"
  by code_simp

lemma rms_write_on_fst: "rms_write (node_on_fst node) req = on_fst (rms_write node req)"
proof -
  have f: "forward_client_write (node_on_fst node) addr req = on_fst (forward_client_write node addr req)" for addr
    by (auto simp: forward_client_write_def fun_eq_iff node_on_fst_def on_fst_def split: prod.splits)
  have c: "rn_client_write (node_on_fst node) req = on_fst (rn_client_write node req)" by (simp add: node_on_fst_def)
  show ?thesis
    unfolding rms_write_def f c
    by (auto simp: fun_eq_iff io_bind_def io_match_def on_fst_def split: prod.splits sum.splits client_write_error.splits)
qed

lemma node_on_fst_put:
  "rms_put_manifest_with_expected_namespace (node_on_fst node) name reference entry expected absent
    = on_fst (rms_put_manifest_with_expected_namespace node name reference entry expected absent)"
proof -
  have "unexpected (node_on_fst node :: ('a \<times> 'b) raft_node) = unexpected node" by (simp add: unexpected_def fun_eq_iff node_on_fst_def)
  then show ?thesis
    by (auto simp: rms_put_manifest_with_expected_namespace_def io_unit_def write_manifest_def rms_write_on_fst fun_eq_iff
        io_bind_def on_fst_def split: prod.splits sum.splits response.splits)
qed

lemma site_pushed_answer: "\<exists>resp w'. dispatch site site_pushed (sc_log, m) = Some (Ok resp, w') \<and> sr_status resp = 201"
proof -
  have fields: "hq_method site_pushed = PUT" "hq_wildcard site_pushed = hq_wildcard site_push" "hq_identity site_pushed = Some (site_owner site_scope)"
    "hq_access site_pushed = Some (access_new ''alice/app'' Update (Some (epoch_new ''alice'' 1)))"
    by (simp_all add: site_pushed_def site_push_def site_request_def)
  have body: "manifest_body site site_pushed = Ok (''{}'', DEFAULT_MANIFEST_TYPE, JObject [])"
    by (simp add: manifest_body_def request_body_def site_pushed_def site_push_def site_request_def site_def pull_mirror_def
        is_manifest_media_type_def DEFAULT_MANIFEST_TYPE_def)
  obtain e where e: "get_manifest sc_state ''alice/app'' ''v1'' = Some e" using site_push_paths(10) by blast
  have chk: "write_time_check site ''alice/app'' ''v1'' (Some (site_owner site_scope)) (Some (access_new ''alice/app'' Update (Some (epoch_new ''alice'' 1)))) (sc_log, m) =
      Some (Ok (Some (epoch_new ''alice'' 1), False), (sc_log, m))"
    by (simp add: write_time_check_def Let_def fields pio_bind_def store_reads e site_permission) (simp add: access_new_def)
  have node: "as_metadata site = node_on_fst local_node" by (simp add: site_def pull_mirror_def)
  have refs: "extract_referenced_digests (JObject []) = []" by code_simp
  have env: "rn_env (as_metadata site) = sc_env" "rn_now (as_metadata site) (sc_log, m) = 100" by (simp_all add: node node_on_fst_def local_node_def)
  let ?e = "entry_from_parsed_json (env_sha_hex sc_env) 100 (JObject []) DEFAULT_MANIFEST_TYPE ''{}'' []"
  have subj: "me_subject ?e = None" by (simp add: entry_from_parsed_json_def extract_subject_digest_def)
  obtain w' where commit: "rms_put_manifest_with_expected_namespace (as_metadata site) ''alice/app'' ''v1'' ?e (Some (epoch_new ''alice'' 1)) False (sc_log, m) = (Ok (), w')"
    by (simp add: node node_on_fst_put on_fst_def site_commit)
  have ok: "as_header_ok site v" for v by (simp add: site_def)
  show ?thesis
    by (simp add: dispatch_def fields site_push_paths respond_def pio_match_def manifests_dispatch_def route_put_manifest_def pio_bind_def
        body refs check_referenced_blobs_def io_match_def chk Let_def env commit subj)
      (simp add: put_manifest_response_def try_header_def ok header_insert_def plain_response_def)
qed

end
