(* ===== verification/Access_Properties.thy ===== *)
theory Access_Properties
  imports Access_Scenario
begin

text \<open>Properties of access: who gets through to what, from the credential to the committed entry.\<close>

section \<open>Decisions\<close>

text \<open>
  C1: The decision about a repository of a claimed namespace implements the specification.  With Cedar's
  documented meaning of the permits the server prints, when no policy set is enabled, the action is not
  Admin, the namespace is not owned by the empty subject, the principal of the identity is its subject at the
  configured provider, its groups are group ids (as \<^const>\<open>stable_group_ids\<close> makes them), and the repository
  name and the stored grantee ids are graphic ASCII: a request is allowed exactly when it reads a public
  repository, or a scoped token covers it with the current epoch, or, without a scoped token, the identity
  owns the namespace or holds a grant; otherwise it is denied.  Nothing else changes.
\<close>

theorem namespace_access_exact:
  fixes node :: "'w raft_node"
  assumes "apply_entries (rn_env node) empty_state es = Some (rn_state node w, rs)" and "cedar_semantics (au_cedar au) lit"
    and "\<And>p. p \<in> set (cfg_policy_sets (au_config au)) \<Longrightarrow> \<not> cps_enabled p"
    and "\<And>p. p \<in> set (list_policy_sets (rn_state node w)) \<Longrightarrow> \<not> ps_enabled p"
    and "live_namespace (rn_state node w) repository = Some ns" and "ns_owner ns \<noteq> OwnerUser []"
    and "user_principal (au_config au) (ai_subject identity) = Ok (ai_principal identity)"
    and "\<And>i. i \<in> set (ai_group_ids identity) \<Longrightarrow> pq_kind i = Some PKGroup \<and> plain_id i"
    and "list_all grantee_plain (list_namespace_grants (rn_state node w) (ns_handle ns))" and "plain_id repository"
    and "action \<noteq> Admin"
  shows "check_permission au node identity repository action w =
    Some (if action = Pull \<and> is_public_pull (get_repository (rn_state node w) repository)
          \<or> (if uses_explicit_scopes identity then token_covers identity repository action ns
             else may_access (rn_state node w) identity ns action)
        then Ok (access_new repository action (Some (epoch_from_namespace ns))) else Err (access_denied repository), w)"
  using check_permission_exact [OF tenancy_reachable [OF assms(1)] assms(2-)] by simp

theorem namespace_access_exact_witness:
  "check_permission site_auth (as_metadata site) (site_owner ''repository:alice/other:update'') ''alice/app'' Update site_start
    = Some (Err (access_denied ''alice/app''), site_start)"
proof -
  have run: "apply_entries (rn_env (as_metadata site)) empty_state sc_log = Some (rn_state (as_metadata site) site_start, sc_responses)"
    using sc_run by (simp add: site_start_def) (simp add: site_def pull_mirror_def node_on_fst_def local_node_def)
  have "matching_scope [''repository:alice/other:update''] ''alice/app'' Update = None" by code_simp
  then have "\<not> token_covers (site_owner ''repository:alice/other:update'') ''alice/app'' Update sc_alice"
    by (simp add: token_covers_def site_owner_def)
  moreover have "ns_owner sc_alice \<noteq> OwnerUser []" "ns_handle sc_alice = ''alice''" by (simp_all add: sc_alice_def)
  ultimately show ?thesis
    using namespace_access_exact [OF run, where au = site_auth and identity = "site_owner ''repository:alice/other:update''"
        and repository = "''alice/app''" and action = Update and ns = sc_alice and lit = quoted]
    by (simp add: site_start_def site_facts site_owner_fields site_principal small_cedar_semantics site_plain)
qed

text \<open>
  C3: Whatever Cedar and the stored policies say, three guards hold for every access that is granted beyond
  the public reads: a scoped token has a scope that covers repository and action, and if it is about a live
  namespace the token carries its epoch, unless the scope is not bound to that handle; the personal
  namespace of a user is entered by that user alone; and nothing is written under a handle that nobody
  holds.
\<close>

theorem access_guards:
  assumes "check_permission au node identity repository action w = Some (Ok access, w')"
    and "\<not> (action = Pull \<and> is_public_pull (get_repository (rn_state node w) repository))"
  shows "w' = w \<and> ara_repository access = repository \<and> ara_action access = action
    \<and> ara_expected_namespace access = map_option epoch_from_namespace (live_namespace (rn_state node w) repository)
    \<and> (uses_explicit_scopes identity \<longrightarrow> (\<exists>pattern allowed. matching_scope (ai_scopes identity) repository action = Some (pattern, allowed)
         \<and> scope_matches_namespace_epoch (ai_namespace_epochs identity) pattern (ara_expected_namespace access)))
    \<and> (\<forall>user. in_personal_namespace_of repository = Some user \<longrightarrow> ai_username identity = Some user)
    \<and> (needs_claim repository \<and> action \<noteq> Pull \<longrightarrow> live_namespace (rn_state node w) repository \<noteq> None)"
proof -
  obtain resource where ctx: "repository_resource_context node repository action w =
        (Ok (map_option epoch_from_namespace (live_namespace (rn_state node w) repository), resource), w)"
    and guards: "\<not> cross_user_personal_namespace (access_request identity repository action resource)"
      "explicit_scope_guard_allows (access_request identity repository action resource)"
    using check_permission_guards [OF assms] by blast
  have acc: "w' = w" "access = access_new repository action (map_option epoch_from_namespace (live_namespace (rn_state node w) repository))"
    using assms(1) ctx by (auto elim!: check_permission_Ok)
  have res: "map_option (\<lambda>r. nr_epoch (rr_namespace r)) resource = map_option epoch_from_namespace (live_namespace (rn_state node w) repository)"
    using ctx [unfolded resource_context_Ok] from_repository_epoch by (auto split: option.splits)
  show ?thesis
    using acc guards ctx [unfolded resource_context_Ok] res
    by (auto simp: access_new_def explicit_scope_guard_allows_def uses_explicit_scopes_def cross_user_personal_namespace_def
        split: option.splits if_splits)
qed

theorem access_guards_witness:
  "\<exists>pattern allowed. matching_scope (ai_scopes (site_owner site_scope)) ''alice/app'' Update = Some (pattern, allowed)
    \<and> live_namespace (rn_state (as_metadata site) site_start) ''alice/app'' \<noteq> None"
  using access_guards [OF site_permission [of mem_empty]] by (auto simp: site_start_def site_facts site_owner_fields)

section \<open>From the request to the repository\<close>

text \<open>
  C4: The repository a handler works on is the one that was checked.  For a path without escapes and without
  trailing slash that the dispatcher routes, a request that passes the middleware is either a read of a
  public repository without credentials, or carries an identity the credential stands for, which was
  permitted the action of the request on the very repository the route names.
\<close>

theorem routed_repository_checked:
  assumes "auth_middleware st req w = Some (Ok (Proceed req'), w')" and "as_auth st = Some au"
    and "literal_request req" and "route_of (hq_wildcard req) \<noteq> NoRoute"
  shows "route_of (hq_wildcard req') = route_of (hq_wildcard req) \<and> hq_method req' = hq_method req \<and>
    ((extract_credential req = None \<and> (hq_method req = GET \<or> hq_method req = HEAD)
      \<and> is_public_pull (get_repository (rn_state (as_metadata st) w) (route_repository (route_of (hq_wildcard req)))))
    \<or> (\<exists>identity access w1. hq_identity req' = Some identity \<and> hq_access req' = Some access \<and>
        authenticate_request au (as_metadata st) (extract_credential req) w = (Ok (Some identity), w1) \<and>
        check_permission au (as_metadata st) identity (route_repository (route_of (hq_wildcard req)))
          (resolve_oci_action (as_metadata st) (hq_path req) (hq_method req) w) w1 = Some (Ok access, w1) \<and> w' = w1))"
  using routed_request_checked [OF assms] middleware_keeps [OF assms(1)] by (metis (no_types, lifting))

lemma site_push_literal: "literal_request site_push"
proof -
  have "hq_path site_push = ''/v2/'' @ hq_wildcard site_push" by (simp add: site_push_def site_request_def)
  moreover have "CHR ''%'' \<notin> set (hq_wildcard site_push)" "\<not> ends_with ''/'' (hq_wildcard site_push)" by code_simp+
  ultimately show ?thesis by (simp add: literal_request_def)
qed

theorem routed_repository_checked_witness:
  "\<exists>identity access w1. hq_identity site_pushed = Some identity \<and>
    check_permission site_auth (as_metadata site) identity ''alice/app''
      (resolve_oci_action (as_metadata site) (hq_path site_push) (hq_method site_push) site_start) w1 = Some (Ok access, w1)"
  using routed_repository_checked [OF site_push_proceeds [of mem_empty] _ site_push_literal]
  by (auto simp: site_push_paths site_start_def)

text \<open>
  C2: No push replaces a tag without the right to update.  A manifest put on a tag, by a literal path (no
  escapes, no trailing slash), passes the middleware, which ends in \<open>w1\<close>, and any time later the dispatcher
  answers it with 201.  Then the entry that was committed is the put of that tag, and if the tag existed in the
  state the entry was applied to, the identity of the request was permitted to update the repository either in
  \<open>w1\<close>, by the middleware, or in the world \<open>v\<close> the handler had reached before it wrote, after which the entry
  was appended.
\<close>

theorem no_unauthorized_overwrite:
  assumes "raft_ok (as_metadata st) log" and "as_auth st = Some au"
    and "auth_middleware st req w = Some (Ok (Proceed req'), w1)" and "literal_request req"
    and "route_of (hq_wildcard req) = ManifestRoute name reference" and "hq_method req = PUT"
    and "\<not> contains_char (CHR '':'') reference"
    and "dispatch st req' w2 = Some (Ok resp, w3)" and "sr_status resp = 201"
  shows "\<exists>identity v others now e later r data rs. hq_identity req' = Some identity \<and> blobs_found st req' w2 v
    \<and> log w3 = log v @ others @ (now, e) # later
    \<and> le_payload e = Normal (ReqManifest (PutManifest r)) \<and> pm_name r = name \<and> pm_reference r = reference
    \<and> apply_entries (rn_env (as_metadata st)) empty_state (log v @ others) = Some (data, rs)
    \<and> (get_manifest data name reference = None
       \<or> (\<exists>access. check_permission au (as_metadata st) identity name Update w1 = Some (Ok access, w1))
       \<or> (\<exists>access. check_permission au (as_metadata st) identity name Update v = Some (Ok access, v)))"
  by (rule put_overwrite_permitted [OF assms])

text \<open>The tag exists before the push, and the world of the handler's check is the one the push started in.\<close>

theorem no_unauthorized_overwrite_witness:
  "\<exists>resp w3 others now e later r data rs. dispatch site site_pushed site_start = Some (Ok resp, w3) \<and>
    fst w3 = fst site_start @ others @ (now, e) # later \<and>
    le_payload e = Normal (ReqManifest (PutManifest r)) \<and> pm_name r = ''alice/app'' \<and> pm_reference r = ''v1'' \<and>
    apply_entries sc_env empty_state (fst site_start @ others) = Some (data, rs) \<and>
    (get_manifest data ''alice/app'' ''v1'' = None
     \<or> (\<exists>access. check_permission site_auth (as_metadata site) (site_owner site_scope) ''alice/app'' Update site_start = Some (Ok access, site_start)))"
proof -
  obtain resp w3 where d: "dispatch site site_pushed site_start = Some (Ok resp, w3)" "sr_status resp = 201"
    using site_pushed_answer [of mem_empty] by (auto simp: site_start_def)
  have req: "hq_method site_push = PUT" "\<not> contains_char (CHR '':'') ''v1''" "hq_identity site_pushed = Some (site_owner site_scope)"
    by (simp_all add: site_push_def site_request_def contains_char_def site_pushed_def)
  have body: "manifest_body site site_pushed = Ok (''{}'', DEFAULT_MANIFEST_TYPE, JObject [])"
    by (simp add: manifest_body_def request_body_def site_pushed_def site_push_def site_request_def site_def pull_mirror_def
        is_manifest_media_type_def DEFAULT_MANIFEST_TYPE_def)
  have "extract_referenced_digests (JObject []) = []" by code_simp
  then have found: "blobs_found site site_pushed site_start v \<Longrightarrow> v = site_start" for v
    by (auto simp: blobs_found_def body check_referenced_blobs_def io_match_def)
  have env: "rn_env (as_metadata site) = sc_env"
    by (simp add: site_def pull_mirror_def node_on_fst_def local_node_def)
  note all = no_unauthorized_overwrite [OF site_raft site_auth_simps(4) site_push_proceeds [of mem_empty, folded site_start_def]
      site_push_literal site_push_paths(8) req(1,2) d]
  from all obtain v others now e later r data rs where
    "blobs_found site site_pushed site_start v" "fst w3 = fst v @ others @ (now, e) # later"
    "le_payload e = Normal (ReqManifest (PutManifest r)) \<and> pm_name r = ''alice/app'' \<and> pm_reference r = ''v1''"
    "apply_entries sc_env empty_state (fst v @ others) = Some (data, rs)"
    "get_manifest data ''alice/app'' ''v1'' = None
     \<or> (\<exists>access. check_permission site_auth (as_metadata site) (site_owner site_scope) ''alice/app'' Update site_start = Some (Ok access, site_start))
     \<or> (\<exists>access. check_permission site_auth (as_metadata site) (site_owner site_scope) ''alice/app'' Update v = Some (Ok access, v))"
    unfolding env req(3) by blast
  with found d(1) show ?thesis by blast
qed

section \<open>Bearer tokens\<close>

text \<open>
  C5: A bearer token says no more than the credential it was exchanged for.  When the token endpoint answers
  with a token and that token is later accepted, its bearer is the subject the credential stood for, and
  every scope of it that names a repository and an action was permitted to that subject when it was minted.
  The tokens the server signs decode to what was signed, with the null further claims read as an empty object.
\<close>

theorem minted_token_confined:
  assumes jwt: "own_tokens_ok au" and "as_auth st = Some au" and "token_endpoint st req w = Some (Ok resp, w')"
    and body: "sr_body resp = JsonBody body" "json_get ''token'' body = Some (JString token)"
    and used: "validate_oci_token au token v = (Ok bearer, v')"
  shows "\<exists>user password identity w1. extract_basic_auth st req = Some (user, password)
    \<and> validate_token au (as_metadata st) password w = (Ok identity, w1) \<and> ai_subject bearer = ai_subject identity
    \<and> (\<forall>s \<in> set (ai_scopes bearer). \<forall>repository action. parse_scope s = Some (repository, action) \<longrightarrow>
        (\<exists>access. check_permission au (as_metadata st) identity repository action w1 = Some (Ok access, w1)))"
proof -
  obtain user password identity w1 granted epochs t where
    cred: "extract_basic_auth st req = Some (user, password)" "validate_token au (as_metadata st) password w = (Ok identity, w1)"
    and perm: "\<And>s. s \<in> set granted \<Longrightarrow> CHR '' '' \<notin> set s \<and> (\<exists>repository action access. parse_scope s = Some (repository, action)
      \<and> check_permission au (as_metadata st) identity repository action w1 = Some (Ok access, w1))"
    and mint: "mint_oci_token au identity (join '' '' granted) epochs w1 = (Ok t, w')" and resp: "resp = token_http_response st t w'"
    using token_endpoint_minted [OF assms(3,2)] by metis
  have "token = t" using body resp by (auto simp: token_http_response_def json_response_def)
  from mint obtain c where enc: "au_encode_own au c = Ok t" and c: "tc_subject c = ai_subject identity" "tc_scope c = Some (join '' '' granted)"
      "tc_additional_claims c = JNull" "tc_groups c \<noteq> None"
    by (auto simp: mint_oci_token_def io_bind_def split: sum.splits)
  from used \<open>token = t\<close> obtain d where dec: "au_decode_own au t v = Some d" and claims: "ai_subject bearer = tc_subject d"
    "ai_scopes bearer = (case tc_scope d of None \<Rightarrow> [] | Some s \<Rightarrow> split_char (CHR '' '') s)"
    by (auto simp: validate_oci_token_def identity_of_claims_def split: option.splits)
  from jwt enc dec c(3,4) have "d = c\<lparr>tc_additional_claims := JObject []\<rparr>" unfolding own_tokens_ok_def by blast
  with claims c have bearer: "ai_subject bearer = ai_subject identity" "ai_scopes bearer = split_char (CHR '' '') (join '' '' granted)"
    by simp_all
  have none: "parse_scope [] = None" by code_simp
  have "s \<in> set granted" if "s \<in> set (ai_scopes bearer)" "parse_scope s \<noteq> None" for s
    using that none split_join_space [of granted "CHR '' ''"] perm by (cases "granted = []") (auto simp: bearer)
  with cred bearer(1) perm show ?thesis by (metis option.distinct(1) option.inject prod.inject)
qed

definition site_exchange :: server_request where
  "site_exchange = (site_request GET ''token'' ''Basic ann:tok'')\<lparr>hq_query := Some site_scope\<rparr>"

lemma site_exchange_answer:
  "token_endpoint site site_exchange (sc_log, m) = Some (Ok (token_http_response site ''tok'' (sc_log, m)), (sc_log, m))"
proof -
  have q: "from_raw_query site (hq_query site_exchange) = Ok \<lparr>tq_service = None, tq_scope = [site_scope], tq_account = None, tq_client_id = None\<rparr>"
    by (simp add: from_raw_query_def site_exchange_def site_def token_query_add_def)
  have req: "requested_scopes \<lparr>tq_service = None, tq_scope = [site_scope], tq_account = None, tq_client_id = None\<rparr> = [site_scope]"
    "parse_scope site_scope = Some (''alice/app'', Update)" by code_simp+
  have cred: "extract_basic_auth site site_exchange = Some (''ann'', ''tok'')" by code_simp
  have claims: "\<lparr>tc_subject = ai_subject (site_owner site_scope), tc_exp = unat (100 :: u64) + 3600, tc_aud = None,
      tc_groups = Some (ai_groups (site_owner site_scope)), tc_name = ai_display_name (site_owner site_scope),
      tc_preferred_username = ai_username (site_owner site_scope), tc_email = ai_email (site_owner site_scope),
      tc_scope = Some site_scope, tc_namespace_epochs = [epoch_new ''alice'' 1], tc_token_type = Some ''oci_bearer'',
      tc_iat = Some (unat (100 :: u64)), tc_iss = Some ''layerhouse'', tc_additional_claims = JNull\<rparr> = site_claims"
    by (simp add: site_claims_def site_owner_def)
  have "au_encode_own (site_auth :: site_world auth_service) site_claims = Ok ''tok''" "au_now (site_auth :: site_world auth_service) w = 100" for w
    by (simp_all add: site_auth_def)
  then have mint: "mint_oci_token site_auth (site_owner site_scope) site_scope [epoch_new ''alice'' 1] (sc_log, m) = (Ok ''tok'', (sc_log, m))"
    unfolding mint_oci_token_def by (simp add: claims [simplified])
  have epochs: "record_expected_namespace (access_new ''alice/app'' Update (Some (epoch_new ''alice'' 1))) [] = [epoch_new ''alice'' 1]"
    by (simp add: record_expected_namespace_def access_new_def)
  show ?thesis
    by (simp add: token_endpoint_def q pio_bind_def cred ok_or_def site_validates req pio_match_def site_permission epochs mint)
qed

theorem minted_token_confined_witness:
  "\<exists>user password identity w1 access. extract_basic_auth site site_exchange = Some (user, password)
    \<and> validate_token site_auth (as_metadata site) password site_start = (Ok identity, w1)
    \<and> check_permission site_auth (as_metadata site) identity ''alice/app'' Update w1 = Some (Ok access, w1)"
proof -
  have jwt: "own_tokens_ok (site_auth :: site_world auth_service)"
    by (auto simp: own_tokens_ok_def site_auth_def split: if_splits)
  have used: "validate_oci_token (site_auth :: site_world auth_service) ''tok'' site_start = (Ok (site_owner site_scope), site_start)"
  proof -
    have "\<not> starts_with ''layerhouse-'' ''tok''" by code_simp
    with site_validates [of site_start] show ?thesis
      by (auto simp: validate_token_def io_match_def validate_oci_token_def validate_oidc_token_def verify_token_claims_def io_bind_def
          site_auth_def [of] split: option.splits sum.splits prod.splits)
  qed
  have scope: "parse_scope site_scope = Some (''alice/app'', Update)" "site_scope \<in> set (ai_scopes (site_owner site_scope))"
    by code_simp+
  define body where "body = JObject [(''token'', JString ''tok''), (''access_token'', JString ''tok''), (''expires_in'', json_u64 3600),
       (''issued_at'', JString (as_rfc3339 site site_start))]"
  have body: "sr_body (token_http_response site ''tok'' site_start) = JsonBody body" "json_get ''token'' body = Some (JString ''tok'')"
    by (simp_all add: body_def token_http_response_def json_response_def)
  from minted_token_confined [OF jwt _ site_exchange_answer [of mem_empty, folded site_start_def] body used] scope
  show ?thesis by (simp del: split_paired_Ex) blast
qed

section \<open>Uploads and ranges\<close>

text \<open>
  C36: An upload session belongs to the repository it was started for, with either tracker.  After the session
  was started and any time later, with offsets updated, chunks staged, other sessions created and removed
  (calls of the tracker about this session that failed apart), whatever another repository asks about it,
  progress, a chunk, completion or cancellation, is refused as unknown, or fails with the lookup, or is no
  method of uploads; no session, no object and no part of a staged blob changes.
\<close>

theorem upload_session_isolated:
  assumes "tracker_ok obj prt (as_uploads st)"
    and "start_upload_session st owner w = (Ok r, w1)" and "response_header r ''docker-upload-uuid'' = Some session_id"
    and "session_steps obj (as_uploads st) session_id w1 w2" and "name \<noteq> owner"
    and "uploads_dispatch_session st name session_id req w2 = (x, w3)"
  shows "obj w3 = obj w2 \<and> prt w3 = prt w2 \<and> tracker_sessions obj (as_uploads st) w3 = tracker_sessions obj (as_uploads st) w2
    \<and> (x = Err (unknown_upload session_id) \<or> (\<exists>m. x = Err (S3 m)) \<or> x = Err not_allowed)"
proof -
  from assms(2) obtain sid y v where new: "tracker_create (as_uploads st) sid owner v = (Ok y, w1)"
    and r: "r = upload_progress st 202 owner sid ''0-0''" by (rule start_upload_creates)
  have sid: "sid = session_id"
    using assms(3) by (auto simp: r upload_progress_def with_headers_def response_header_def split: if_splits)
  have owned: "\<forall>x. tracker_sessions obj (as_uploads st) w2 session_id = Some x \<longrightarrow> us_repo x = owner"
    using either.create_view [OF assms(1) new] sid by (intro session_keeps_repo [OF assms(1,4)]) auto
  obtain g v1 where get: "tracker_get (as_uploads st) session_id w2 = (g, v1)" by fastforce
  note pure = tracker_get_pure [OF assms(1) get] either.lookup_view [OF assms(1) get]
  show ?thesis
  proof (cases g)
    case (Inr found)
    with get owned pure assms(5) have "find_upload_session st name session_id w2 = (Err (unknown_upload session_id), v1)"
      by (intro session_of_other_repository) auto
    from foreign_session_refused [OF this, of req] pure assms(6) show ?thesis by (auto split: if_splits)
  next
    case (Inl e)
    with get have "find_upload_session st name session_id w2 = (Err e, v1)"
      by (simp add: find_upload_session_def io_bind_def)
    with pure Inl show ?thesis using foreign_session_refused [of st name session_id w2 e v1 req] assms(6) by (auto split: if_splits)
  qed
qed

lemma site_tracker_ok: "tracker_ok (\<lambda>w. mw_objects (snd w)) (\<lambda>w. mw_parts (snd w)) (as_uploads site)"
proof -
  have "of_nat (byte (char_of (unat x))) = x" if "x < 256" for x :: u64
    using that by (simp add: byte_def word_less_nat_alt)
  then show ?thesis
    using s3_okD [OF store_on_snd_ok [OF mem_store_ok]]
    by (auto simp: site_def s3_tracker_ok_def site_tracker_def split: if_splits)
qed

text \<open>A session of one repository, its offset moved, cancelled by another repository.\<close>

theorem upload_session_isolated_witness:
  "\<exists>r w1 w2 x w3. start_upload_session site ''alice/app'' site_start = (Ok r, w1)
    \<and> tracker_update_offset (as_uploads site) ''s'' 7 w1 = (Ok (), w2)
    \<and> uploads_dispatch_session site ''alice/other'' ''s'' (site_request DELETE [] []) w2 = (x, w3)
    \<and> mw_objects (snd w3) = mw_objects (snd w2) \<and> (x = Err (unknown_upload ''s'') \<or> (\<exists>m. x = Err (S3 m)) \<or> x = Err not_allowed)"
proof -
  obtain r w1 where st: "start_upload_session site ''alice/app'' site_start = (Ok r, w1)"
    by (simp add: start_upload_session_def io_match_def io_bind_def site_def pull_mirror_def start_upload_def store_on_snd_def on_snd_def
        site_tracker_def s3_tracker_write_def s3_call_def site_start_def mem_eval)
  have hd: "response_header r ''docker-upload-uuid'' = Some ''s''"
    using st by (rule start_upload_creates) (auto simp: site_def upload_progress_def with_headers_def response_header_def)
  have "\<exists>w2. tracker_update_offset (as_uploads site) ''s'' 7 w1 = (Ok (), w2)"
    using st by (auto simp: start_upload_session_def io_match_def io_bind_def site_def pull_mirror_def start_upload_def store_on_snd_def
        on_snd_def site_tracker_def s3_tracker_write_def s3_tracker_read_def s3_call_def site_start_def mem_eval)
  then obtain w2 where up: "tracker_update_offset (as_uploads site) ''s'' 7 w1 = (Ok (), w2)" by blast
  have steps: "session_steps (\<lambda>w. mw_objects (snd w)) (as_uploads site) ''s'' w1 w2"
    by (rule steps_update [OF steps_start up]) simp
  obtain x w3 where d: "uploads_dispatch_session site ''alice/other'' ''s'' (site_request DELETE [] []) w2 = (x, w3)" by (metis surj_pair)
  from upload_session_isolated [OF site_tracker_ok st hd steps _ d] st up d show ?thesis by (simp del: split_paired_Ex)
qed

lemma word_range:
  fixes n :: u64
  assumes "n \<noteq> 0"
  shows "x \<le> n - 1 \<longleftrightarrow> x < n" and "b \<noteq> 0 \<Longrightarrow> saturating_sub_u64 n b < n"
    and "x \<le> y \<Longrightarrow> y < n \<Longrightarrow> unat (y - x + 1) = unat y - unat x + 1"
proof -
  have pred: "unat (n - 1) = unat n - 1" using assms by (simp add: unat_minus_one)
  have pos: "unat n > 0" using assms by (simp add: unat_gt_0)
  show "x \<le> n - 1 \<longleftrightarrow> x < n" using pos by (auto simp: word_le_nat_alt word_less_nat_alt pred)
  show "saturating_sub_u64 n b < n" if "b \<noteq> 0"
    using that pos by (auto simp: saturating_sub_u64_def word_less_nat_alt word_le_nat_alt unat_sub unat_gt_0)
  show "unat (y - x + 1) = unat y - unat x + 1" if xy: "x \<le> y" "y < n"
  proof -
    have "unat (y - x) = unat y - unat x" using xy by (simp add: unat_sub word_le_nat_alt)
    moreover have "unat (y - x) + 1 < 2 ^ 64"
      using xy unsigned_less [of n, where ?'a = nat] calculation by (simp add: word_less_nat_alt)
    ultimately show ?thesis by (simp add: unat_add_lem [THEN iffD1])
  qed
qed

lemma range_forms:
  "parse_range (''bytes='' @ show_u64 a @ ''-'' @ show_u64 b) n = (if a \<le> b \<and> a < n then Some (a, min b (n - 1)) else None)"
  "parse_range (''bytes='' @ show_u64 a @ ''-'') n = (if a < n then Some (a, n - 1) else None)"
  "parse_range (''bytes=-'' @ show_u64 b) n = (if n = 0 \<or> b = 0 then None else Some (if b < n then n - b else 0, n - 1))"
proof -
  have dash: "CHR ''-'' \<notin> set (show_u64 x)" for x
    by (auto simp: show_u64_def is_ascii_digit_def byte_def dest: show_nat_digits)
  have ne: "show_u64 x \<noteq> []" for x by (simp add: show_u64_def)
  have two: "split_once (CHR ''-'') (show_u64 a @ ''-'' @ y) = Some (show_u64 a, y)" for y
    using split_once_append [OF dash, of a y] by simp
  have pre: "strip_prefix ''bytes='' (''bytes='' @ y) = Some y" for y by (rule strip_prefix_append)
  have suf: "strip_prefix ''bytes='' (''bytes=-'' @ y) = Some (CHR ''-'' # y)" for y using pre [of "CHR ''-'' # y"] by simp
  show "parse_range (''bytes='' @ show_u64 a @ ''-'' @ show_u64 b) n = (if a \<le> b \<and> a < n then Some (a, min b (n - 1)) else None)"
    unfolding parse_range_def pre bind.bind_lunit two prod.case
    by (auto simp: ne parse_show_u64 not_le not_less)
  show "parse_range (''bytes='' @ show_u64 a @ ''-'') n = (if a < n then Some (a, n - 1) else None)"
    unfolding parse_range_def pre bind.bind_lunit two [of "[]", simplified append_Nil2] prod.case
    using word_range(1) [of n a] by (auto simp: ne parse_show_u64 not_le not_less)
  show "parse_range (''bytes=-'' @ show_u64 b) n = (if n = 0 \<or> b = 0 then None else Some (if b < n then n - b else 0, n - 1))"
    unfolding parse_range_def suf bind.bind_lunit
    by (auto simp: parse_show_u64 saturating_sub_u64_def)
qed

text \<open>
  A byte range that is served lies within the blob and its length does not wrap.  A range with two ends
  is cut at the end of the blob, an open one runs to the end, a suffix longer than the blob is the whole
  blob; what starts behind the end or ends before its start is refused.
\<close>

theorem range_within_blob:
  assumes "parse_range rng len = Some (start, stop)"
  shows "start \<le> stop \<and> stop < len \<and> unat (stop - start + 1) = unat stop - unat start + 1
    \<and> parse_range (''bytes='' @ show_u64 a @ ''-'' @ show_u64 b) n = (if a \<le> b \<and> a < n then Some (a, min b (n - 1)) else None)
    \<and> parse_range (''bytes='' @ show_u64 a @ ''-'') n = (if a < n then Some (a, n - 1) else None)
    \<and> parse_range (''bytes=-'' @ show_u64 b) n = (if n = 0 \<or> b = 0 then None else Some (if b < n then n - b else 0, n - 1))"
proof -
  have len: "len \<noteq> 0" using assms by (auto simp: parse_range_def)
  note wr = word_range [OF len]
  have "len - 1 < len" using wr(1) [of "len - 1"] by simp
  with assms wr(1,2) have b: "start \<le> stop \<and> stop < len"
    by (auto simp: parse_range_def bind_eq_Some_conv min_def not_le split: if_splits prod.splits)
  with wr(3) range_forms show ?thesis by blast
qed

theorem range_within_blob_witness:
  "parse_range (''bytes='' @ show_u64 2 @ ''-'' @ show_u64 9) 6 = Some (2, 5) \<and> unat (5 - 2 + 1 :: u64) = 4
    \<and> parse_range (''bytes=-'' @ show_u64 9) 6 = Some (0, 5)"
proof -
  have r: "parse_range (''bytes='' @ show_u64 2 @ ''-'' @ show_u64 9) 6 = Some (2, 5)" unfolding range_forms by (simp add: min_def)
  from range_within_blob [OF r, of 0 9 6] r show ?thesis by simp
qed

end
