(* ===== verification/Namespace_Routes.thy ===== *)
theory Namespace_Routes
  imports Manifest_Routes
begin

text \<open>
  The namespace API (\<^verbatim>\<open>routes/namespaces\<close>): listing, claiming and releasing handles, and the grants of a
  namespace for its owner and for administrators.  The extractors of axum have decoded path, query and JSON
  body before a handler runs; a handler gets the identity the middleware attached, if any.
\<close>

section \<open>Types\<close>

record claim_namespace_request =
  cn_owner_label :: "string option"
  cn_admin_override :: bool

record release_namespace_request =
  rl_reason :: "string option"

datatype grantee_request = GroupRequest string | UserRequest string | PublicRequest

text \<open>A principal that does not parse is an error; \<open>None\<close> is the panic of \<^verbatim>\<open>kind\<close>, which a parsed id never causes.\<close>

definition checked_grantee ::
  "string \<Rightarrow> (provider_qualified_id \<Rightarrow> principal_ref lh_result option) \<Rightarrow> (provider_qualified_id \<Rightarrow> namespace_grant_grantee)
    \<Rightarrow> namespace_grant_grantee lh_result option" where
  "checked_grantee i0 ref con =
     (case pq_parse i0 of
        Inl e \<Rightarrow> Some (Err e)
      | Inr i \<Rightarrow> map_option (\<lambda>r. res_bind r (\<lambda>_. Ok (con i))) (ref i))"

fun into_grantee :: "grantee_request \<Rightarrow> namespace_grant_grantee lh_result option" where
  "into_grantee (GroupRequest i) = checked_grantee i ref_group GranteeGroup"
| "into_grantee (UserRequest i) = checked_grantee i ref_user GranteeUser"
| "into_grantee PublicRequest = Some (Ok GranteePublic)"

record put_namespace_grant_request =
  pg_grantee :: grantee_request
  pg_action :: oci_action
  pg_label :: "string option"
  pg_reason :: "string option"

record patch_namespace_grant_request =
  xg_action :: oci_action
  xg_label :: "string option"
  xg_reason :: "string option"

record observed_users_query =
  ou_q :: "string option"
  ou_limit :: "nat option"

definition json_opt :: "string option \<Rightarrow> json" where
  "json_opt v = (case v of None \<Rightarrow> JNull | Some s \<Rightarrow> JString s)"

definition namespace_response :: "namespace \<Rightarrow> json" where
  "namespace_response ns =
     JObject [(''handle'', JString (ns_handle ns)), (''generation'', json_u64 (ns_generation ns)),
       (''owner_kind'', JString (case ns_owner ns of OwnerUser _ \<Rightarrow> ''user'' | OwnerOrg _ \<Rightarrow> ''org'')),
       (''owner_label'', JString (ns_owner_label ns)), (''created_at'', json_u64 (ns_created_at ns))]"

definition grantee_response :: "namespace_grant_grantee \<Rightarrow> json" where
  "grantee_response g =
     (case g of
        GranteeGroup i \<Rightarrow> JObject [(''kind'', JString ''group''), (''id'', JString i)]
      | GranteeUser i \<Rightarrow> JObject [(''kind'', JString ''user''), (''id'', JString i)]
      | GranteePublic \<Rightarrow> JObject [(''kind'', JString ''public'')])"

definition namespace_grant_response :: "namespace_grant \<Rightarrow> json" where
  "namespace_grant_response grant =
     JObject [(''id'', JString (ng_id grant)), (''namespace'', JString (ng_namespace grant)),
       (''grantee'', grantee_response (ng_grantee grant)), (''action'', JString (scope_token (ng_action grant))),
       (''label'', JString (ng_label grant)), (''created_by'', JString (ng_created_by grant)),
       (''created_at'', json_u64 (ng_created_at grant)), (''updated_by'', JString (ng_updated_by grant)),
       (''updated_at'', json_u64 (ng_updated_at grant))]"

fun operation_name :: "namespace_grant_audit_operation \<Rightarrow> string" where
  "operation_name AuditCreate = ''create''"
| "operation_name AuditUpdate = ''update''"
| "operation_name AuditDelete = ''delete''"

definition namespace_grant_audit_response :: "namespace_grant_audit_event \<Rightarrow> json" where
  "namespace_grant_audit_response event =
     (let side = (\<lambda>g. case g of None \<Rightarrow> JNull | Some g \<Rightarrow> namespace_grant_response g) in
      JObject [(''id'', JString (ae_id event)), (''namespace'', JString (ae_namespace event)),
        (''grant_id'', json_opt (ae_grant_id event)), (''operation'', JString (operation_name (ae_operation event))),
        (''actor'', JString (ae_actor event)), (''actor_label'', JString (ae_actor_label event)), (''reason'', JString (ae_reason event)),
        (''before'', side (ae_before event)), (''after'', side (ae_after event)), (''created_at'', json_u64 (ae_created_at event))])"

definition observed_identity_response :: "observed_identity \<Rightarrow> json" where
  "observed_identity_response i =
     JObject [(''subject'', JString (oi_subject i)), (''principal'', JString (oi_principal i)), (''username'', json_opt (oi_username i)),
       (''display_name'', json_opt (oi_display_name i)), (''email'', json_opt (oi_email i)), (''groups'', json_strings (oi_groups i)),
       (''group_ids'', json_strings (oi_group_ids i)), (''last_seen_at'', json_u64 (oi_last_seen_at i))]"

definition require_auth :: "'w app_state \<Rightarrow> auth_identity option \<Rightarrow> auth_identity lh_result" where
  "require_auth st identity =
     (if as_auth st = None then Err (Internal [Lit ''auth is not configured''])
      else ok_or identity (unauthorized ''authentication required''))"

definition require_admin :: "'w app_state \<Rightarrow> auth_identity \<Rightarrow> ('w, unit) pio" where
  "require_admin st identity =
     (case as_auth st of None \<Rightarrow> pio_return () | Some au \<Rightarrow> check_admin_access au (as_metadata st) identity)"

section \<open>Helpers\<close>

definition json_status :: "nat \<Rightarrow> json \<Rightarrow> server_response" where
  "json_status status body = \<lparr>sr_status = status, sr_headers = [(''content-type'', ''application/json'')], sr_body = JsonBody body\<rparr>"

definition authenticated :: "'w app_state \<Rightarrow> auth_identity option \<Rightarrow> (auth_identity \<Rightarrow> ('w, 'a) pio) \<Rightarrow> ('w, 'a) pio" where
  "authenticated st identity f = pio_bind (pio_run (io_result (require_auth st identity))) f"

definition as_admin :: "'w app_state \<Rightarrow> auth_identity option \<Rightarrow> (auth_identity \<Rightarrow> ('w, 'a) pio) \<Rightarrow> ('w, 'a) pio" where
  "as_admin st identity f = authenticated st identity (\<lambda>i. pio_bind (require_admin st i) (\<lambda>_. f i))"

definition no_namespace :: "string \<Rightarrow> layerhouse_error" where
  "no_namespace handle = NameUnknown [Lit ''namespace '', Dbg handle, Lit '' not found'']"

definition no_grant :: "string \<Rightarrow> layerhouse_error" where
  "no_grant grant_id = NameUnknown [Lit ''namespace grant '', Dbg grant_id, Lit '' not found'']"

definition ensure_namespace_exists :: "'w app_state \<Rightarrow> string \<Rightarrow> ('w, namespace) io" where
  "ensure_namespace_exists st handle =
     io_bind (rms_get_namespace (as_metadata st) handle) (\<lambda>found. io_result (ok_or found (no_namespace handle)))"

definition require_namespace_owner :: "'w app_state \<Rightarrow> auth_identity \<Rightarrow> string \<Rightarrow> ('w, unit) io" where
  "require_namespace_owner st identity handle =
     io_bind (ensure_namespace_exists st handle) (\<lambda>ns.
       if ns_owner ns = OwnerUser (ai_subject identity) then io_return ()
       else io_fail (Denied [Lit ''namespace '', Dbg handle, Lit '' is not owned by the caller'']))"

definition as_owner :: "'w app_state \<Rightarrow> auth_identity option \<Rightarrow> string \<Rightarrow> (auth_identity \<Rightarrow> ('w, 'a) pio) \<Rightarrow> ('w, 'a) pio" where
  "as_owner st identity handle f =
     authenticated st identity (\<lambda>i. pio_bind (pio_run (require_namespace_owner st i handle)) (\<lambda>_. f i))"

definition public_safe_action :: "namespace_grant_grantee \<Rightarrow> oci_action \<Rightarrow> oci_action lh_result" where
  "public_safe_action grantee action =
     (if \<not> is_repository_action action then Err (NameInvalid [Lit ''namespace grants only support repository actions''])
      else if grantee = GranteePublic then Err (NameInvalid [Lit ''public pull is controlled by repository visibility''])
      else Ok action)"

definition actor_label :: "auth_identity \<Rightarrow> string" where
  "actor_label identity =
     (case or_else (ai_display_name identity) (or_else (ai_username identity) (ai_email identity)) of
        Some l \<Rightarrow> l | None \<Rightarrow> ai_subject identity)"

definition nonblank :: "string option \<Rightarrow> string option" where
  "nonblank v = Option.bind v (\<lambda>s. if trim s \<noteq> [] then Some (trim s) else None)"

definition normalized_reason :: "string option \<Rightarrow> bool \<Rightarrow> string lh_result" where
  "normalized_reason reason required =
     (case (required, nonblank reason) of
        (True, None) \<Rightarrow> Err (NameInvalid [Lit ''admin grant changes require a reason''])
      | (_, Some r) \<Rightarrow> Ok r
      | (False, None) \<Rightarrow> Ok ''owner change'')"

text \<open>Comparing the stable keys panics on a stored id of the wrong kind.\<close>

fun find_grant :: "string \<Rightarrow> namespace_grant list \<Rightarrow> namespace_grant option option" where
  "find_grant key [] = Some None"
| "find_grant key (g # gs) =
     (case grantee_stable_key (ng_grantee g) of
        None \<Rightarrow> None
      | Some k \<Rightarrow> if k = key then Some (Some g) else find_grant key gs)"

definition pio_panic :: "'a option \<Rightarrow> ('w, 'a) pio" where
  "pio_panic v = (case v of None \<Rightarrow> (\<lambda>_. None) | Some a \<Rightarrow> pio_return a)"

text \<open>The key of the wanted grantee is computed for each comparison, so an empty list panics for nobody.\<close>

definition matching_grant :: "'w app_state \<Rightarrow> string \<Rightarrow> namespace_grant_grantee \<Rightarrow> ('w, namespace_grant option) pio" where
  "matching_grant st handle grantee =
     pio_bind (pio_run (rms_list_namespace_grants (as_metadata st) handle)) (\<lambda>grants.
       if grants = [] then pio_return None
       else pio_panic (Option.bind (grantee_stable_key grantee) (\<lambda>key. find_grant key grants)))"

section \<open>Grants\<close>

definition list_namespace_grants_response :: "'w app_state \<Rightarrow> string \<Rightarrow> ('w, server_response) io" where
  "list_namespace_grants_response st handle =
     io_bind (rms_list_namespace_grants (as_metadata st) handle) (\<lambda>grants.
       io_return (json_status 200 (JObject [(''grants'', JArray (map namespace_grant_response grants))])))"

definition new_grant ::
  "auth_identity \<Rightarrow> string \<Rightarrow> namespace_grant_grantee \<Rightarrow> oci_action \<Rightarrow> string option \<Rightarrow> string \<Rightarrow> u64 \<Rightarrow> namespace_grant" where
  "new_grant identity handle grantee action label0 grant_id now =
     \<lparr>ng_id = grant_id, ng_namespace = handle, ng_grantee = grantee, ng_action = action,
      ng_label = (case nonblank label0 of Some l \<Rightarrow> l | None \<Rightarrow> grantee_label grantee),
      ng_created_by = ai_subject identity, ng_created_at = now, ng_updated_by = ai_subject identity, ng_updated_at = now\<rparr>"

definition save_grant :: "'w app_state \<Rightarrow> auth_identity \<Rightarrow> namespace_grant \<Rightarrow> string \<Rightarrow> ('w, server_response) io" where
  "save_grant st identity grant reason =
     io_bind (rms_put_namespace_grant (as_metadata st) grant (actor_label identity) reason) (\<lambda>saved.
       io_return (json_status 200 (namespace_grant_response saved)))"

definition grant_id_for :: "'w app_state \<Rightarrow> namespace_grant option \<Rightarrow> ('w, string) io" where
  "grant_id_for st existing =
     (case existing of Some g \<Rightarrow> io_return (ng_id g) | None \<Rightarrow> io_match (as_uuid st) io_return)"

definition put_namespace_grant_response ::
  "'w app_state \<Rightarrow> auth_identity \<Rightarrow> string \<Rightarrow> put_namespace_grant_request \<Rightarrow> bool \<Rightarrow> ('w, server_response) pio" where
  "put_namespace_grant_response st identity handle req admin =
     pio_bind (pio_run (ensure_namespace_exists st handle)) (\<lambda>_.
     pio_bind (pio_run (io_result (normalized_reason (pg_reason req) admin))) (\<lambda>reason.
     pio_bind (pio_panic (into_grantee (pg_grantee req))) (\<lambda>parsed.
     pio_bind (pio_run (io_result parsed)) (\<lambda>grantee.
     pio_bind (matching_grant st handle grantee) (\<lambda>existing.
     pio_bind (pio_run (io_read (rn_now (as_metadata st)))) (\<lambda>now.
     pio_bind (pio_run (io_result (public_safe_action grantee (pg_action req)))) (\<lambda>action.
     pio_bind (pio_run (grant_id_for st existing)) (\<lambda>grant_id.
       pio_run (save_grant st identity (new_grant identity handle grantee action (pg_label req) grant_id now) reason)))))))))"

definition patch_namespace_grant_response ::
  "'w app_state \<Rightarrow> auth_identity \<Rightarrow> string \<Rightarrow> string \<Rightarrow> patch_namespace_grant_request \<Rightarrow> bool \<Rightarrow> ('w, server_response) io" where
  "patch_namespace_grant_response st identity handle grant_id req admin =
     io_bind (ensure_namespace_exists st handle) (\<lambda>_.
     io_bind (io_result (normalized_reason (xg_reason req) admin)) (\<lambda>reason.
     io_bind (rms_get_namespace_grant (as_metadata st) handle grant_id) (\<lambda>found.
     io_bind (io_result (ok_or found (no_grant grant_id))) (\<lambda>grant.
     io_bind (io_result (public_safe_action (ng_grantee grant) (xg_action req))) (\<lambda>action.
     io_bind (io_read (rn_now (as_metadata st))) (\<lambda>now.
       save_grant st identity
         (grant\<lparr>ng_action := action, ng_label := (case nonblank (xg_label req) of Some l \<Rightarrow> l | None \<Rightarrow> ng_label grant),
           ng_updated_by := ai_subject identity, ng_updated_at := now\<rparr>) reason))))))"

definition delete_namespace_grant_response ::
  "'w app_state \<Rightarrow> auth_identity \<Rightarrow> string \<Rightarrow> string \<Rightarrow> string option \<Rightarrow> bool \<Rightarrow> ('w, server_response) io" where
  "delete_namespace_grant_response st identity handle grant_id reason0 admin =
     io_bind (ensure_namespace_exists st handle) (\<lambda>_.
     io_bind (io_result (normalized_reason reason0 admin)) (\<lambda>reason.
     io_bind (io_read (rn_now (as_metadata st))) (\<lambda>now.
     io_bind (rms_delete_namespace_grant (as_metadata st) handle grant_id (ai_subject identity) (actor_label identity) reason now) (\<lambda>deleted.
       if deleted then io_return (json_status 204 JNull) else io_fail (no_grant grant_id)))))"

section \<open>Handlers\<close>

definition namespace_list :: "namespace list \<Rightarrow> server_response" where
  "namespace_list nss = json_status 200 (JObject [(''namespaces'', JArray (map namespace_response nss))])"

definition list_namespaces_route :: "'w app_state \<Rightarrow> auth_identity option \<Rightarrow> ('w, server_response) pio" where
  "list_namespaces_route st identity =
     as_admin st identity (\<lambda>_.
       pio_run (io_bind (rms_list_namespaces (as_metadata st)) (\<lambda>nss. io_return (namespace_list nss))))"

definition list_account_namespaces :: "'w app_state \<Rightarrow> auth_identity option \<Rightarrow> ('w, server_response) pio" where
  "list_account_namespaces st identity =
     authenticated st identity (\<lambda>i.
       pio_run (io_bind (rms_list_namespaces (as_metadata st)) (\<lambda>nss.
         io_return (namespace_list (filter (\<lambda>ns. ns_owner ns = OwnerUser (ai_subject i)) nss)))))"

definition get_namespace_route :: "'w app_state \<Rightarrow> auth_identity option \<Rightarrow> string \<Rightarrow> ('w, server_response) pio" where
  "get_namespace_route st identity handle =
     as_admin st identity (\<lambda>_.
       pio_run (io_bind (ensure_namespace_exists st handle) (\<lambda>ns. io_return (json_status 200 (namespace_response ns)))))"

text \<open>The read after the write is unwrapped with \<^verbatim>\<open>expect\<close>.\<close>

definition claim_namespace :: "'w app_state \<Rightarrow> auth_identity option \<Rightarrow> string \<Rightarrow> claim_namespace_request \<Rightarrow> ('w, server_response) pio" where
  "claim_namespace st identity handle req =
     authenticated st identity (\<lambda>i.
     pio_bind (if cn_admin_override req then require_admin st i else pio_return ()) (\<lambda>_.
     pio_bind (pio_run (io_read (rn_now (as_metadata st)))) (\<lambda>now.
     pio_bind (pio_run (rms_claim_namespace (as_metadata st) handle (OwnerUser (ai_subject i))
         (case or_else (cn_owner_label req) (ai_username i) of Some l \<Rightarrow> l | None \<Rightarrow> ''unknown'')
         (ai_subject i) (cn_admin_override req) now)) (\<lambda>_.
     pio_bind (pio_run (rms_get_namespace (as_metadata st) handle)) (\<lambda>found.
     pio_bind (pio_panic found) (\<lambda>ns.
       pio_return (json_status 201 (namespace_response ns))))))))"

definition release_reason_of :: "string option \<Rightarrow> release_reason" where
  "release_reason_of reason = (case nonblank reason of Some s \<Rightarrow> Renamed s | None \<Rightarrow> OwnerDeleted)"

definition release_namespace_route :: "'w app_state \<Rightarrow> auth_identity option \<Rightarrow> string \<Rightarrow> release_namespace_request \<Rightarrow> ('w, server_response) pio" where
  "release_namespace_route st identity handle req =
     authenticated st identity (\<lambda>i.
       pio_run (io_bind (io_read (rn_now (as_metadata st))) (\<lambda>now.
         io_bind (rms_release_namespace (as_metadata st) handle (ai_subject i) (release_reason_of (rl_reason req)) now) (\<lambda>_.
           io_return (json_status 204 JNull)))))"

definition revoke_namespace :: "'w app_state \<Rightarrow> auth_identity option \<Rightarrow> string \<Rightarrow> ('w, server_response) pio" where
  "revoke_namespace st identity handle =
     as_admin st identity (\<lambda>i.
       pio_run (io_bind (io_read (rn_now (as_metadata st))) (\<lambda>now.
         io_bind (rms_admin_revoke_namespace (as_metadata st) handle (ai_subject i) now) (\<lambda>_.
           io_return (json_status 204 JNull)))))"

definition list_account_namespace_grants :: "'w app_state \<Rightarrow> auth_identity option \<Rightarrow> string \<Rightarrow> ('w, server_response) pio" where
  "list_account_namespace_grants st identity handle =
     as_owner st identity handle (\<lambda>_. pio_run (list_namespace_grants_response st handle))"

definition create_account_namespace_grant ::
  "'w app_state \<Rightarrow> auth_identity option \<Rightarrow> string \<Rightarrow> put_namespace_grant_request \<Rightarrow> ('w, server_response) pio" where
  "create_account_namespace_grant st identity handle req =
     as_owner st identity handle (\<lambda>i. put_namespace_grant_response st i handle req False)"

definition update_account_namespace_grant ::
  "'w app_state \<Rightarrow> auth_identity option \<Rightarrow> string \<Rightarrow> string \<Rightarrow> patch_namespace_grant_request \<Rightarrow> ('w, server_response) pio" where
  "update_account_namespace_grant st identity handle grant_id req =
     as_owner st identity handle (\<lambda>i. pio_run (patch_namespace_grant_response st i handle grant_id req False))"

definition delete_account_namespace_grant :: "'w app_state \<Rightarrow> auth_identity option \<Rightarrow> string \<Rightarrow> string \<Rightarrow> ('w, server_response) pio" where
  "delete_account_namespace_grant st identity handle grant_id =
     as_owner st identity handle (\<lambda>i. pio_run (delete_namespace_grant_response st i handle grant_id None False))"

definition clamp_limit :: "nat option \<Rightarrow> nat" where
  "clamp_limit limit = min 50 (max 1 (case limit of None \<Rightarrow> 20 | Some n \<Rightarrow> n))"

definition search_observed_users :: "'w app_state \<Rightarrow> auth_identity option \<Rightarrow> observed_users_query \<Rightarrow> ('w, server_response) pio" where
  "search_observed_users st identity query =
     authenticated st identity (\<lambda>_.
       pio_run (io_bind (rms_search_observed_identities (as_metadata st) (case ou_q query of None \<Rightarrow> [] | Some q \<Rightarrow> q)
           (clamp_limit (ou_limit query))) (\<lambda>users.
         io_return (json_status 200 (JObject [(''users'', JArray (map observed_identity_response users))])))))"

definition list_admin_namespace_grants :: "'w app_state \<Rightarrow> auth_identity option \<Rightarrow> string \<Rightarrow> ('w, server_response) pio" where
  "list_admin_namespace_grants st identity handle =
     as_admin st identity (\<lambda>_.
       pio_run (io_bind (ensure_namespace_exists st handle) (\<lambda>_. list_namespace_grants_response st handle)))"

definition create_admin_namespace_grant ::
  "'w app_state \<Rightarrow> auth_identity option \<Rightarrow> string \<Rightarrow> put_namespace_grant_request \<Rightarrow> ('w, server_response) pio" where
  "create_admin_namespace_grant st identity handle req =
     as_admin st identity (\<lambda>i. put_namespace_grant_response st i handle req True)"

definition update_admin_namespace_grant ::
  "'w app_state \<Rightarrow> auth_identity option \<Rightarrow> string \<Rightarrow> string \<Rightarrow> patch_namespace_grant_request \<Rightarrow> ('w, server_response) pio" where
  "update_admin_namespace_grant st identity handle grant_id req =
     as_admin st identity (\<lambda>i. pio_run (patch_namespace_grant_response st i handle grant_id req True))"

definition delete_admin_namespace_grant ::
  "'w app_state \<Rightarrow> auth_identity option \<Rightarrow> string \<Rightarrow> string \<Rightarrow> string option \<Rightarrow> ('w, server_response) pio" where
  "delete_admin_namespace_grant st identity handle grant_id reason =
     as_admin st identity (\<lambda>i. pio_run (delete_namespace_grant_response st i handle grant_id reason True))"

definition list_admin_namespace_grant_audit :: "'w app_state \<Rightarrow> auth_identity option \<Rightarrow> string \<Rightarrow> ('w, server_response) pio" where
  "list_admin_namespace_grant_audit st identity handle =
     as_admin st identity (\<lambda>_.
       pio_run (io_bind (ensure_namespace_exists st handle) (\<lambda>_.
         io_bind (rms_list_namespace_grant_audit (as_metadata st) handle) (\<lambda>audit.
           io_return (json_status 200 (JObject [(''audit'', JArray (map namespace_grant_audit_response audit))]))))))"

end
