(* ===== verification/Account_Routes.thy ===== *)
theory Account_Routes
  imports Namespace_Routes
begin

text \<open>
  What a signed-in user manages: personal access tokens (\<^verbatim>\<open>routes/pat_api.rs\<close>), the session
  (\<^verbatim>\<open>routes/session_api.rs\<close>) and the browser login against the identity provider (\<^verbatim>\<open>auth/oauth2.rs\<close>).

  Random bytes, URL-safe Base64, the SHA-256 of the PKCE challenge, the HTTP exchange of the code for tokens
  and what the web framework answers for a redirect whose location is no header value are the fields of
  \<open>login_env\<close>.  Messages to the log are left out.
\<close>

datatype exchange_failure = BuildError msg | HeaderError msg | SendError msg | ReadError msg

record 'w login_env =
  le_random :: "nat \<Rightarrow> 'w \<Rightarrow> string \<times> 'w"
  le_urlsafe :: "string \<Rightarrow> string"
  le_sha256 :: "string \<Rightarrow> string"
  le_client :: "bool \<Rightarrow> (unit, msg) result"
  le_post_form :: "string \<Rightarrow> string \<Rightarrow> 'w \<Rightarrow> (string, exchange_failure) result \<times> 'w"
  le_from_str :: "string \<Rightarrow> (json, msg) result"
  le_bad_location :: "string \<Rightarrow> server_response option"

section \<open>Personal access tokens\<close>

definition DEFAULT_PAGE_SIZE :: nat where "DEFAULT_PAGE_SIZE = 50"
definition MAX_PAGE_SIZE :: nat where "MAX_PAGE_SIZE = 200"

record pat_scope_selection =
  psel_repository :: string
  psel_actions :: "oci_action list"

record create_pat_request =
  cp_name :: string
  cp_scopes :: "pat_scope_selection list"
  cp_expires_in_days :: "u32 option"

definition json_opt_u64 :: "u64 option \<Rightarrow> json" where
  "json_opt_u64 v = (case v of None \<Rightarrow> JNull | Some n \<Rightarrow> json_u64 n)"

definition create_pat_response :: "personal_access_token \<Rightarrow> string \<Rightarrow> json" where
  "create_pat_response pat raw_token =
     JObject [(''id'', JString (pat_id pat)), (''name'', JString (pat_name pat)), (''token'', JString raw_token),
       (''scopes'', json_strings (pat_scopes pat)), (''created_at'', json_u64 (pat_created_at pat)),
       (''expires_at'', json_opt_u64 (pat_expires_at pat))]"

definition pat_list_item :: "personal_access_token \<Rightarrow> json" where
  "pat_list_item t =
     JObject [(''id'', JString (pat_id t)), (''name'', JString (pat_name t)), (''prefix'', JString (pat_token_prefix t)),
       (''scopes'', json_strings (pat_scopes t)), (''created_at'', json_u64 (pat_created_at t)),
       (''last_used_at'', json_opt_u64 (pat_last_used_at t)), (''expires_at'', json_opt_u64 (pat_expires_at t))]"

record grantable_scope_query =
  gq_q :: "string option"
  gq_n :: "nat option"
  gq_cursor :: "string option"

record grantable_scope =
  gsc_repository :: string
  gsc_max_grantable :: oci_action
  gsc_grant_source :: grant_source

record namespace_pattern_scope =
  nps_pattern :: string
  nps_current_match_count :: nat
  nps_max_grantable :: oci_action

fun grant_source_name :: "grant_source \<Rightarrow> string" where
  "grant_source_name Personal = ''personal''"
| "grant_source_name GroupGrant = ''group_grant''"
| "grant_source_name PublicGrant = ''public''"

text \<open>The field \<^verbatim>\<open>kind\<close> is always empty and is skipped.\<close>

definition grantable_scope_json :: "grantable_scope \<Rightarrow> json" where
  "grantable_scope_json s =
     JObject [(''repository'', JString (gsc_repository s)), (''max_grantable'', JString (scope_token (gsc_max_grantable s))),
       (''grant_source'', JString (grant_source_name (gsc_grant_source s)))]"

definition namespace_pattern_json :: "namespace_pattern_scope \<Rightarrow> json" where
  "namespace_pattern_json s =
     JObject [(''pattern'', JString (nps_pattern s)), (''current_match_count'', json_u64 (of_nat (nps_current_match_count s))),
       (''max_grantable'', JString (scope_token (nps_max_grantable s))), (''grant_source'', JString (grant_source_name GroupGrant))]"

definition required_identity :: "auth_identity option \<Rightarrow> auth_identity lh_result" where
  "required_identity identity = ok_or identity (unauthorized ''authentication required'')"

definition signed_in :: "auth_identity option \<Rightarrow> (auth_identity \<Rightarrow> ('w, 'a) pio) \<Rightarrow> ('w, 'a) pio" where
  "signed_in identity f = pio_bind (pio_run (io_result (required_identity identity))) f"

definition list_tokens :: "'w app_state \<Rightarrow> auth_identity option \<Rightarrow> ('w, server_response) pio" where
  "list_tokens st identity =
     signed_in identity (\<lambda>i.
       pio_run (io_bind (rms_list_personal_access_tokens (as_metadata st) (ai_subject i)) (\<lambda>tokens.
         io_return (json_status 200 (JArray (map pat_list_item tokens))))))"

definition record_scope_namespace_epoch :: "'w raft_node \<Rightarrow> string \<Rightarrow> namespace_epoch list \<Rightarrow> ('w, namespace_epoch list) io" where
  "record_scope_namespace_epoch node repo epochs =
     (case handle_of repo of
        Inl _ \<Rightarrow> io_return epochs
      | Inr handle \<Rightarrow>
          if is_handle_reserved handle then io_return epochs
          else io_bind (rms_get_namespace node handle) (\<lambda>found.
            case found of
              None \<Rightarrow> io_return epochs
            | Some ns \<Rightarrow>
                let epoch = epoch_from_namespace ns in
                io_return (if epoch \<in> set epochs then epochs else epochs @ [epoch])))"

definition cannot_grant :: "oci_action \<Rightarrow> string \<Rightarrow> oci_action \<Rightarrow> layerhouse_error" where
  "cannot_grant action repo max_action =
     Denied [Lit ''cannot grant action '', Disp (scope_token action), Lit '' on repository '', Dbg repo,
       Lit '': your maximum grantable action is '', Disp (scope_token max_action)]"

text \<open>The first selected action above the ceiling fails the request.\<close>

fun within_ceiling :: "string \<Rightarrow> oci_action \<Rightarrow> oci_action list \<Rightarrow> unit lh_result" where
  "within_ceiling repo max_action [] = Ok ()"
| "within_ceiling repo max_action (action # actions) =
     (if \<not> action_matches max_action action then Err (cannot_grant action repo max_action)
      else within_ceiling repo max_action actions)"

definition selection_scope :: "string \<Rightarrow> oci_action list \<Rightarrow> string" where
  "selection_scope repo actions = ''repository:'' @ repo @ '':'' @ join '','' (map scope_token actions)"

text \<open>One round of the loop over the selections: the scope string and the epochs recorded so far.\<close>

definition scope_of_selection ::
  "'w app_state \<Rightarrow> auth_identity \<Rightarrow> pat_scope_selection \<Rightarrow> namespace_epoch list \<Rightarrow> ('w, string \<times> namespace_epoch list) pio" where
  "scope_of_selection st identity selection epochs =
     (let repo = trim (psel_repository selection); actions = psel_actions selection; scope = selection_scope repo actions in
      if repo = [] then pio_fail (NameInvalid [Lit ''scope repository is required''])
      else if list_ex (\<lambda>a. \<not> is_repository_action a) actions then
        pio_fail (NameInvalid [Lit ''PAT scopes only support repository actions''])
      else
        pio_bind (pio_run (io_result (pat_scope_allowed_for_identity scope (ai_username identity)))) (\<lambda>_.
          case as_auth st of
            None \<Rightarrow> pio_return (scope, epochs)
          | Some au \<Rightarrow>
              pio_bind (max_grantable_action au (as_metadata st) identity repo) (\<lambda>(max_action, _).
              pio_bind (pio_run (io_result (within_ceiling repo max_action actions))) (\<lambda>_.
              pio_bind (pio_run (record_scope_namespace_epoch (as_metadata st) repo epochs)) (\<lambda>epochs'.
                pio_return (scope, epochs'))))))"

fun scopes_loop ::
  "'w app_state \<Rightarrow> auth_identity \<Rightarrow> pat_scope_selection list \<Rightarrow> string list \<Rightarrow> namespace_epoch list
    \<Rightarrow> ('w, string list \<times> namespace_epoch list) pio" where
  "scopes_loop st identity [] scopes epochs = pio_return (scopes, epochs)"
| "scopes_loop st identity (selection # selections) scopes epochs =
     pio_bind (scope_of_selection st identity selection epochs) (\<lambda>(scope, epochs').
       scopes_loop st identity selections (scopes @ [scope]) epochs')"

text \<open>\<^verbatim>\<open>hex::encode\<close>\<close>

definition hex_of_bytes :: "string \<Rightarrow> string" where
  "hex_of_bytes bytes =
     concat (map (\<lambda>b. [''0123456789abcdef'' ! (byte b div 16), ''0123456789abcdef'' ! (byte b mod 16)]) bytes)"

definition raw_token_of :: "string \<Rightarrow> string" where
  "raw_token_of random_bytes = ''layerhouse-'' @ hex_of_bytes random_bytes"

definition expires_at_of :: "u64 \<Rightarrow> u32 option \<Rightarrow> u64 option" where
  "expires_at_of now days = map_option (\<lambda>d. now + ucast d * 86400) days"

definition new_pat ::
  "'w app_state \<Rightarrow> auth_identity \<Rightarrow> create_pat_request \<Rightarrow> string \<Rightarrow> string \<Rightarrow> u64
    \<Rightarrow> string list \<Rightarrow> namespace_epoch list \<Rightarrow> personal_access_token" where
  "new_pat st identity req raw_token uuid now scopes epochs =
     \<lparr>pat_id = uuid, pat_subject = ai_subject identity, pat_username = ai_username identity, pat_name = cp_name req,
      pat_token_hash = env_sha_hex (rn_env (as_metadata st)) raw_token, pat_token_prefix = take 12 raw_token,
      pat_scopes = scopes, pat_namespace_epochs = epochs, pat_created_at = now, pat_last_used_at = None,
      pat_expires_at = expires_at_of now (cp_expires_in_days req)\<rparr>"

definition create_token ::
  "'w login_env \<Rightarrow> 'w app_state \<Rightarrow> auth_identity option \<Rightarrow> create_pat_request \<Rightarrow> ('w, server_response) pio" where
  "create_token le st identity req =
     signed_in identity (\<lambda>i.
       if trim (cp_name req) = [] then pio_fail (NameInvalid [Lit ''token name is required''])
       else
         pio_bind (scopes_loop st i (cp_scopes req) [] []) (\<lambda>(scopes, epochs).
         pio_run (io_match (le_random le 16) (\<lambda>random_bytes.
           let raw_token = raw_token_of random_bytes in
           io_bind (io_read (rn_now (as_metadata st))) (\<lambda>now.
           io_match (as_uuid st) (\<lambda>uuid.
             let pat = new_pat st i req raw_token uuid now scopes epochs in
             io_bind (rms_put_personal_access_token (as_metadata st) pat) (\<lambda>_.
               io_return (json_status 201 (create_pat_response pat raw_token)))))))))"

definition revoke_token :: "'w app_state \<Rightarrow> auth_identity option \<Rightarrow> string \<Rightarrow> ('w, server_response) pio" where
  "revoke_token st identity token_id =
     signed_in identity (\<lambda>i.
       pio_run (io_bind (rms_delete_personal_access_token (as_metadata st) token_id (ai_subject i)) (\<lambda>deleted.
         if deleted then io_return (plain_response 204)
         else io_fail (NameUnknown [Lit ''token not found: '', Disp token_id]))))"

subsection \<open>Grantable scopes\<close>

text \<open>Repositories whose ceiling cannot be computed are left out.\<close>

fun grantable_loop ::
  "'w app_state \<Rightarrow> 'w auth_service \<Rightarrow> auth_identity \<Rightarrow> string \<Rightarrow> string list \<Rightarrow> ('w, grantable_scope list) pio" where
  "grantable_loop st au identity pre [] = pio_return []"
| "grantable_loop st au identity pre (repo # repos) =
     (if pre \<noteq> [] \<and> \<not> starts_with pre (env_to_lowercase (rn_env (as_metadata st)) repo)
      then grantable_loop st au identity pre repos
      else pio_match (max_grantable_action au (as_metadata st) identity repo) (\<lambda>r.
        pio_bind (grantable_loop st au identity pre repos) (\<lambda>rest.
          pio_return (case r of
              Inl _ \<Rightarrow> rest
            | Inr (action, source) \<Rightarrow>
                \<lparr>gsc_repository = repo, gsc_max_grantable = action, gsc_grant_source = source\<rparr> # rest))))"

definition seen_pattern :: "string \<times> oci_action \<Rightarrow> (string, oci_action) btmap \<Rightarrow> (string, oci_action) btmap" where
  "seen_pattern = (\<lambda>(pattern, action) seen.
     case bt_get seen pattern of
       Some existing \<Rightarrow> if action_rank action > action_rank existing then bt_insert pattern action seen else seen
     | None \<Rightarrow> bt_insert pattern action seen)"

definition pattern_scope :: "grantable_scope list \<Rightarrow> string \<times> oci_action \<Rightarrow> namespace_pattern_scope" where
  "pattern_scope grantable = (\<lambda>(pattern, action).
     let repo = (case strip_prefix ''repository:'' pattern of None \<Rightarrow> pattern | Some r \<Rightarrow> r);
         stem = (case strip_suffix ''/*'' repo of None \<Rightarrow> repo | Some r \<Rightarrow> r)
     in \<lparr>nps_pattern = pattern,
         nps_current_match_count =
           length (filter (\<lambda>s. gsc_repository s = stem \<or> starts_with (stem @ ''/'') (gsc_repository s)) grantable),
         nps_max_grantable = action\<rparr>)"

definition pattern_scopes :: "auth_identity \<Rightarrow> string \<Rightarrow> grantable_scope list \<Rightarrow> namespace_pattern_scope list" where
  "pattern_scopes identity pre grantable =
     map (pattern_scope grantable) (bt_entries (fold seen_pattern (derive_namespace_patterns (ai_scopes identity) pre) bt_empty))"

fun position :: "('a \<Rightarrow> bool) \<Rightarrow> 'a list \<Rightarrow> nat option" where
  "position p [] = None"
| "position p (x # xs) = (if p x then Some 0 else map_option Suc (position p xs))"

definition page_start :: "grantable_scope list \<Rightarrow> string option \<Rightarrow> nat" where
  "page_start grantable cursor =
     (case Option.bind cursor (\<lambda>c. position (\<lambda>s. gsc_repository s = c) grantable) of None \<Rightarrow> 0 | Some i \<Rightarrow> i + 1)"

definition grantable_page :: "grantable_scope list \<Rightarrow> string option \<Rightarrow> nat \<Rightarrow> grantable_scope list \<times> string option" where
  "grantable_page grantable cursor n =
     (let start = page_start grantable cursor; page = take n (drop start grantable) in
      (page, if start + n < length grantable \<and> page \<noteq> [] then Some (gsc_repository (last page)) else None))"

definition page_size :: "nat option \<Rightarrow> nat" where
  "page_size n = min MAX_PAGE_SIZE (max 1 (case n of None \<Rightarrow> DEFAULT_PAGE_SIZE | Some k \<Rightarrow> k))"

definition grantable_scopes ::
  "'w app_state \<Rightarrow> auth_identity option \<Rightarrow> grantable_scope_query \<Rightarrow> ('w, server_response) pio" where
  "grantable_scopes st identity query =
     signed_in identity (\<lambda>i.
       let pre = env_to_lowercase (rn_env (as_metadata st)) (case gq_q query of None \<Rightarrow> [] | Some q \<Rightarrow> q) in
       pio_bind (pio_run (rms_list_repository_summaries (as_metadata st))) (\<lambda>repos.
       pio_bind (case as_auth st of
           None \<Rightarrow> pio_return []
         | Some au \<Rightarrow> grantable_loop st au i pre (map rs_name repos)) (\<lambda>grantable.
         let (page, next_cursor) = grantable_page grantable (gq_cursor query) (page_size (gq_n query)) in
         pio_return (json_status 200 (JObject
           [(''scopes'', JArray (map grantable_scope_json page)),
            (''namespace_patterns'', JArray (map namespace_pattern_json (pattern_scopes i pre grantable))),
            (''total_matches'', json_u64 (of_nat (length grantable))), (''next_cursor'', json_opt next_cursor)])))))"

end
