(* ===== verification/Login.thy ===== *)
theory Login
  imports Account_Routes
begin

text \<open>
  The session API (\<^verbatim>\<open>routes/session_api.rs\<close>) and the authorization-code login with PKCE (\<^verbatim>\<open>auth/oauth2.rs\<close>).
  \<open>None\<close> is a panic: an \<^verbatim>\<open>expect\<close> on a header value, or a redirect the framework refuses.
\<close>

section \<open>Responses with cookies\<close>

definition header_append :: "string \<Rightarrow> string \<Rightarrow> server_response \<Rightarrow> server_response" where
  "header_append name v r = r\<lparr>sr_headers := sr_headers r @ [(name, v)]\<rparr>"

definition response_cookies :: "server_response \<Rightarrow> string list" where
  "response_cookies r = map snd (filter (\<lambda>(n, _). n = ''set-cookie'') (sr_headers r))"

text \<open>\<^verbatim>\<open>HeaderValue::from_str(v).expect(..)\<close>\<close>

definition expect_header :: "'w app_state \<Rightarrow> string \<Rightarrow> ('w, string) pio" where
  "expect_header st v = pio_panic (if as_header_ok st v then Some v else None)"

definition redirect_temporary :: "'w login_env \<Rightarrow> 'w app_state \<Rightarrow> string \<Rightarrow> ('w, server_response) pio" where
  "redirect_temporary le st url =
     pio_panic (if as_header_ok st url then Some (temporary_redirect url) else le_bad_location le url)"

text \<open>\<^verbatim>\<open>HeaderValue::from_str(v).map_err(..)?\<close>, with the message of the error left to its prefix.\<close>

definition checked_header :: "'w app_state \<Rightarrow> string \<Rightarrow> string \<Rightarrow> ('w, string) pio" where
  "checked_header st what v =
     (if as_header_ok st v then pio_return v else pio_fail (Internal [Lit (what @ '' failed: ''), Lit ''failed to parse header value'']))"

definition request_cookie_flags :: "'w app_state \<Rightarrow> server_request \<Rightarrow> cookie_flags" where
  "request_cookie_flags st req =
     cookie_secure_flag (hq_header req ''x-forwarded-proto'') (as_cookie_secure_mode st) (as_server_tls_enabled st)"

fun find_map :: "('a \<Rightarrow> 'b option) \<Rightarrow> 'a list \<Rightarrow> 'b option" where
  "find_map f [] = None"
| "find_map f (x # xs) = (case f x of None \<Rightarrow> find_map f xs | Some y \<Rightarrow> Some y)"

definition extract_cookie :: "string \<Rightarrow> string \<Rightarrow> string option" where
  "extract_cookie cookie name = find_map (cookie_value name) (split_char (CHR '';'') cookie)"

definition request_cookie :: "server_request \<Rightarrow> string \<Rightarrow> string option" where
  "request_cookie req name = Option.bind (hq_header req ''cookie'') (\<lambda>c. extract_cookie c name)"

section \<open>Session\<close>

fun token_type_label :: "token_type \<Rightarrow> string" where
  "token_type_label OidcAccess = ''oidc_access''"
| "token_type_label PersonalAccess = ''personal_access''"
| "token_type_label OciBearer = ''oci_bearer''"
| "token_type_label Session = ''session''"

definition session_response :: "bool \<Rightarrow> auth_identity option \<Rightarrow> bool \<Rightarrow> json" where
  "session_response auth_enabled identity is_admin =
     (let field = (\<lambda>f. json_opt (Option.bind identity f)); strings = (\<lambda>f. json_strings (case identity of None \<Rightarrow> [] | Some i \<Rightarrow> f i)) in
      JObject [(''auth_enabled'', JBool auth_enabled), (''subject'', field (\<lambda>i. Some (ai_subject i))),
        (''principal'', field (\<lambda>i. Some (ai_principal i))), (''username'', field ai_username), (''display_name'', field ai_display_name),
        (''email'', field ai_email), (''groups'', strings ai_groups), (''group_ids'', strings ai_group_ids), (''scopes'', strings ai_scopes),
        (''token_type'', field (\<lambda>i. Some (token_type_label (ai_token_type i)))), (''is_admin'', JBool is_admin)])"

definition get_session :: "'w app_state \<Rightarrow> auth_identity option \<Rightarrow> ('w, server_response) pio" where
  "get_session st identity =
     (case as_auth st of
        None \<Rightarrow> pio_return (json_status 200 (session_response False None True))
      | Some au \<Rightarrow>
          (case identity of
             None \<Rightarrow> pio_return (json_status 200 (session_response True None False))
           | Some i \<Rightarrow>
               pio_match (check_admin_access au (as_metadata st) i) (\<lambda>r.
                 pio_return (json_status 200 (session_response True (Some i) (is_ok r))))))"

definition end_session_url :: "'w app_state \<Rightarrow> server_request \<Rightarrow> 'w \<Rightarrow> string option" where
  "end_session_url st req w =
     (case (as_auth st, request_cookie req ''layerhouse_logout_hint'') of
        (Some au, Some id_token) \<Rightarrow>
          map_option (\<lambda>url. url @ ''?id_token_hint='' @ id_token @ ''&post_logout_redirect_uri=/'')
            (od_end_session_endpoint (ip_discovery (au_idp au) w))
      | _ \<Rightarrow> None)"

definition logout_target :: "'w app_state \<Rightarrow> server_request \<Rightarrow> 'w \<Rightarrow> string option" where
  "logout_target st req w =
     or_else (end_session_url st req w) (Option.bind (as_auth st) (\<lambda>au. logout_url (au_config au)))"

definition logout_session :: "'w login_env \<Rightarrow> 'w app_state \<Rightarrow> server_request \<Rightarrow> ('w, server_response) pio" where
  "logout_session le st req =
     pio_bind (pio_run (io_read (logout_target st req))) (\<lambda>target.
     let attributes = flag_attributes (request_cookie_flags st req) in
     pio_bind (redirect_temporary le st (case target of Some url \<Rightarrow> url | None \<Rightarrow> ''/'')) (\<lambda>response.
     pio_bind (expect_header st (''layerhouse_session=; '' @ attributes @ ''; Path=/; Max-Age=0'')) (\<lambda>clear_session.
     pio_bind (expect_header st (''layerhouse_logout_hint=; '' @ attributes @ ''; Path=/api/v1/session/logout; Max-Age=0'')) (\<lambda>clear_hint.
     let cleared = header_append ''set-cookie'' clear_hint (header_insert ''set-cookie'' clear_session response) in
     if target \<noteq> None then pio_return cleared
     else pio_bind (expect_header st (''layerhouse_logged_out=1; '' @ attributes @ ''; Path=/; Max-Age=300'')) (\<lambda>marker.
       pio_return (header_append ''set-cookie'' marker cleared))))))"

section \<open>Login\<close>

definition OAUTH2_COOKIE :: string where "OAUTH2_COOKIE = ''layerhouse_oauth2''"
definition OAUTH2_COOKIE_MAX_AGE_SECS :: u64 where "OAUTH2_COOKIE_MAX_AGE_SECS = 600"
definition OAUTH2_STATE_ERROR_LOCATION :: string where "OAUTH2_STATE_ERROR_LOCATION = ''/?oauth_error=state#/oauth2/error''"
definition OAUTH2_SESSION_ERROR_LOCATION :: string where "OAUTH2_SESSION_ERROR_LOCATION = ''/?oauth_error=session#/oauth2/error''"
definition MAX_SET_COOKIE_HEADER_LEN :: nat where "MAX_SET_COOKIE_HEADER_LEN = 4096"

definition percent_encode :: "string \<Rightarrow> string" where
  "percent_encode value = concat (map escape_byte value)"

definition form_encode :: "(string \<times> string) list \<Rightarrow> string" where
  "form_encode params = join ''&'' (map (\<lambda>(k, v). percent_encode k @ ''='' @ percent_encode v) params)"

definition random_urlsafe :: "'w login_env \<Rightarrow> nat \<Rightarrow> 'w \<Rightarrow> string \<times> 'w" where
  "random_urlsafe le n w = (case le_random le n w of (bytes, w') \<Rightarrow> (le_urlsafe le bytes, w'))"

definition pkce_challenge :: "'w login_env \<Rightarrow> string \<Rightarrow> string" where
  "pkce_challenge le code_verifier = le_urlsafe le (le_sha256 le code_verifier)"

definition oauth2_cookie_clear_str :: "cookie_flags \<Rightarrow> string" where
  "oauth2_cookie_clear_str flags = ''layerhouse_oauth2=; '' @ flag_attributes flags @ ''; Path=/oauth2; Max-Age=0''"

definition authorization_params :: "auth_config \<Rightarrow> string \<Rightarrow> string \<Rightarrow> bool \<Rightarrow> string list" where
  "authorization_params cfg state code_challenge require_login =
     [''response_type=code'', ''client_id='' @ percent_encode (cfg_client_id cfg), ''redirect_uri='' @ percent_encode (cfg_redirect_uri cfg),
      ''scope='' @ percent_encode (cfg_login_scopes cfg), ''state='' @ percent_encode state,
      ''code_challenge='' @ percent_encode code_challenge, ''code_challenge_method=S256'']
     @ (if require_login then [''prompt=login'', ''max_age=0''] else [])"

definition oauth2_cookie :: "string \<Rightarrow> string \<Rightarrow> cookie_flags \<Rightarrow> string" where
  "oauth2_cookie state code_verifier flags =
     OAUTH2_COOKIE @ ''='' @ state @ ''.'' @ code_verifier @ ''; '' @ flag_attributes flags @ ''; Path=/oauth2; Max-Age=''
       @ show_u64 OAUTH2_COOKIE_MAX_AGE_SECS"

definition login_redirect ::
  "'w login_env \<Rightarrow> 'w app_state \<Rightarrow> 'w auth_service \<Rightarrow> server_request \<Rightarrow> string \<Rightarrow> string \<Rightarrow> ('w, server_response) pio" where
  "login_redirect le st au req state code_verifier =
     (let flags = request_cookie_flags st req; require_login = (request_cookie req ''layerhouse_logged_out'' \<noteq> None) in
      pio_bind (pio_run (io_read (\<lambda>w. od_authorization_endpoint (ip_discovery (au_idp au) w)))) (\<lambda>endpoint.
      pio_bind (redirect_temporary le st
          (endpoint @ ''?'' @ join ''&'' (authorization_params (au_config au) state (pkce_challenge le code_verifier) require_login))) (\<lambda>response.
      pio_bind (checked_header st ''oauth2 cookie'' (oauth2_cookie state code_verifier flags)) (\<lambda>cookie.
        let response = header_insert ''set-cookie'' cookie response in
        if \<not> require_login then pio_return response
        else pio_bind (expect_header st (''layerhouse_logged_out=; '' @ flag_attributes flags @ ''; Path=/; Max-Age=0'')) (\<lambda>clear.
          pio_return (header_append ''set-cookie'' clear response))))))"

definition oauth2_start :: "'w login_env \<Rightarrow> 'w app_state \<Rightarrow> server_request \<Rightarrow> ('w, server_response) pio" where
  "oauth2_start le st req =
     (case as_auth st of
        None \<Rightarrow> pio_fail (Internal [Lit ''auth not configured''])
      | Some au \<Rightarrow>
          pio_bind (pio_run (io_match (random_urlsafe le 32) io_return)) (\<lambda>state.
          pio_bind (pio_run (io_match (random_urlsafe le 32) io_return)) (\<lambda>code_verifier.
            login_redirect le st au req state code_verifier)))"

record callback_query =
  cq_code :: "string option"
  cq_state :: "string option"

definition oauth2_code_verifier :: "server_request \<Rightarrow> string option \<Rightarrow> string option" where
  "oauth2_code_verifier req state =
     Option.bind (request_cookie req OAUTH2_COOKIE) (\<lambda>cookie.
     Option.bind (split_once (CHR ''.'') cookie) (\<lambda>(stored_state, code_verifier).
       if Some stored_state \<noteq> state then None else Some code_verifier))"

definition append_clear_oauth2_cookie :: "'w app_state \<Rightarrow> cookie_flags \<Rightarrow> server_response \<Rightarrow> ('w, server_response) pio" where
  "append_clear_oauth2_cookie st flags response =
     pio_bind (expect_header st (oauth2_cookie_clear_str flags)) (\<lambda>v. pio_return (header_append ''set-cookie'' v response))"

definition oauth2_error_response :: "'w login_env \<Rightarrow> 'w app_state \<Rightarrow> string \<Rightarrow> cookie_flags \<Rightarrow> ('w, server_response) pio" where
  "oauth2_error_response le st location flags =
     pio_bind (redirect_temporary le st location) (append_clear_oauth2_cookie st flags)"

definition oauth2_state_error_response :: "'w login_env \<Rightarrow> 'w app_state \<Rightarrow> cookie_flags \<Rightarrow> ('w, server_response) pio" where
  "oauth2_state_error_response le st flags = oauth2_error_response le st OAUTH2_STATE_ERROR_LOCATION flags"

definition oauth2_session_error_response :: "'w login_env \<Rightarrow> 'w app_state \<Rightarrow> cookie_flags \<Rightarrow> ('w, server_response) pio" where
  "oauth2_session_error_response le st flags = oauth2_error_response le st OAUTH2_SESSION_ERROR_LOCATION flags"

definition exchange_form :: "auth_config \<Rightarrow> string \<Rightarrow> string \<Rightarrow> string" where
  "exchange_form cfg code code_verifier =
     form_encode [(''grant_type'', ''authorization_code''), (''code'', code), (''redirect_uri'', cfg_redirect_uri cfg),
       (''client_id'', cfg_client_id cfg), (''client_secret'', cfg_client_secret cfg), (''code_verifier'', code_verifier)]"

fun exchange_error :: "exchange_failure \<Rightarrow> layerhouse_error" where
  "exchange_error (BuildError e) = Internal (Lit ''token request build failed: '' # e)"
| "exchange_error (HeaderError e) = Internal (Lit ''header failed: '' # e)"
| "exchange_error (SendError e) = Internal (Lit ''token exchange failed: '' # e)"
| "exchange_error (ReadError e) = Internal (Lit ''token read failed: '' # e)"

text \<open>The answer of the token endpoint: the parsed JSON, the access token and the id token.\<close>

definition exchange_code :: "'w login_env \<Rightarrow> 'w auth_service \<Rightarrow> string \<Rightarrow> string \<Rightarrow> ('w, json \<times> string \<times> string) io" where
  "exchange_code le au code code_verifier =
     io_bind (io_read (\<lambda>w. od_token_endpoint (ip_discovery (au_idp au) w))) (\<lambda>token_url.
     io_bind (io_result (case le_client le (cfg_tls_insecure_skip_verify (au_config au)) of
         Inl e \<Rightarrow> Err (Internal (Lit ''HTTP client build failed: '' # e)) | Inr u \<Rightarrow> Ok u)) (\<lambda>_.
     io_match (le_post_form le token_url (exchange_form (au_config au) code code_verifier)) (\<lambda>sent.
     case sent of
       Inl e \<Rightarrow> io_fail (exchange_error e)
     | Inr body \<Rightarrow>
         io_bind (io_result (case le_from_str le body of
             Inl e \<Rightarrow> Err (Internal (Lit ''token parse failed: '' # e)) | Inr v \<Rightarrow> Ok v)) (\<lambda>token.
         io_bind (io_result (ok_or (Option.bind (json_get ''access_token'' token) as_str) (Internal [Lit ''missing access_token'']))) (\<lambda>access_token.
         io_bind (io_result (ok_or (Option.bind (json_get ''id_token'' token) as_str) (Internal [Lit ''missing id_token'']))) (\<lambda>id_token.
           io_return (token, access_token, id_token)))))))"

text \<open>\<^verbatim>\<open>all_groups\<close>: the groups of the access token, then those of the id token that are not there yet.\<close>

definition merge_groups :: "string list \<Rightarrow> string list \<Rightarrow> string list" where
  "merge_groups access_groups id_groups = fold (\<lambda>g all. if g \<in> set all then all else all @ [g]) id_groups access_groups"

definition session_max_age :: "u64 \<Rightarrow> u64 \<Rightarrow> u64 \<Rightarrow> u64 \<Rightarrow> u64" where
  "session_max_age now expires_in id_expires_at access_expires_at =
     saturating_sub_u64 (min (min (min (now + expires_in) id_expires_at) access_expires_at) (now + 3600)) now"

definition session_of_claims ::
  "'w auth_service \<Rightarrow> token_claims \<Rightarrow> provider_qualified_id \<Rightarrow> string list \<Rightarrow> u64 \<Rightarrow> dashboard_session" where
  "session_of_claims au id_claims user_id groups expires_at =
     \<lparr>ds_subject = tc_subject id_claims, ds_principal = user_id, ds_username = claims_username id_claims,
      ds_display_name = claims_display_name id_claims, ds_email = claims_email id_claims, ds_groups = groups,
      ds_group_ids = stable_group_ids (au_is_uuid au) (provider_name (au_config au)) groups, ds_expires_at = expires_at\<rparr>"

definition observed_of_session :: "'w auth_service \<Rightarrow> dashboard_session \<Rightarrow> provider_qualified_id \<Rightarrow> u64 \<Rightarrow> observed_identity" where
  "observed_of_session au session user_id now =
     \<lparr>oi_subject = ds_subject session, oi_principal = user_id, oi_username = ds_username session,
      oi_display_name = ds_display_name session, oi_email = ds_email session, oi_groups = ds_groups session,
      oi_group_ids = stable_group_ids (au_is_uuid au) (provider_name (au_config au)) (ds_groups session), oi_last_seen_at = now\<rparr>"

definition session_cookie :: "string \<Rightarrow> cookie_flags \<Rightarrow> u64 \<Rightarrow> string" where
  "session_cookie encrypted flags max_age =
     ''layerhouse_session='' @ encrypted @ ''; '' @ flag_attributes flags @ ''; Path=/; Max-Age='' @ show_u64 max_age"

definition logout_hint_cookie :: "string \<Rightarrow> cookie_flags \<Rightarrow> u64 \<Rightarrow> string" where
  "logout_hint_cookie id_token flags max_age =
     ''layerhouse_logout_hint='' @ id_token @ ''; '' @ flag_attributes flags @ ''; Path=/api/v1/session/logout; Max-Age='' @ show_u64 max_age"

text \<open>The answer with the cookies of a session that has been encrypted.\<close>

definition session_redirect ::
  "'w login_env \<Rightarrow> 'w app_state \<Rightarrow> cookie_flags \<Rightarrow> string \<Rightarrow> string \<Rightarrow> u64 \<Rightarrow> ('w, server_response) pio" where
  "session_redirect le st flags encrypted id_token max_age =
     (let cookie = session_cookie encrypted flags max_age; hint = logout_hint_cookie id_token flags max_age in
      if length cookie > MAX_SET_COOKIE_HEADER_LEN then oauth2_session_error_response le st flags
      else
        pio_bind (redirect_temporary le st ''/'') (\<lambda>response.
        pio_bind (checked_header st ''session cookie'' cookie) (\<lambda>v.
        let response = header_append ''set-cookie'' v response in
        pio_bind (if length hint \<le> MAX_SET_COOKIE_HEADER_LEN
            then pio_bind (checked_header st ''logout hint cookie'' hint) (\<lambda>h. pio_return (header_append ''set-cookie'' h response))
            else pio_return response) (\<lambda>response.
          append_clear_oauth2_cookie st flags response))))"

definition start_session ::
  "'w login_env \<Rightarrow> 'w app_state \<Rightarrow> 'w auth_service \<Rightarrow> cookie_flags \<Rightarrow> token_claims \<Rightarrow> string list \<Rightarrow> string \<Rightarrow> u64 \<Rightarrow> u64
    \<Rightarrow> ('w, server_response) pio" where
  "start_session le st au flags id_claims groups id_token now max_age =
     pio_bind (pio_run (io_result (user_principal (au_config au) (tc_subject id_claims)))) (\<lambda>user_id.
     let session = session_of_claims au id_claims user_id groups (now + max_age) in
     pio_bind (pio_run (io_match (rms_put_observed_identity (as_metadata st) (observed_of_session au session user_id now)) (\<lambda>_. io_return ()))) (\<lambda>_.
     pio_bind (pio_run (io_match (le_random le 12) io_return)) (\<lambda>nonce.
     pio_bind (pio_run (io_result (session_encrypt (au_crypto au) nonce (au_session_key au) session))) (\<lambda>encrypted.
       session_redirect le st flags encrypted id_token max_age))))"

definition finish_login ::
  "'w login_env \<Rightarrow> 'w app_state \<Rightarrow> 'w auth_service \<Rightarrow> cookie_flags \<Rightarrow> string \<Rightarrow> string \<Rightarrow> ('w, server_response) pio" where
  "finish_login le st au flags code code_verifier =
     pio_bind (pio_run (exchange_code le au code code_verifier)) (\<lambda>(token, access_token, id_token).
     pio_bind (pio_run (verify_id_token au id_token)) (\<lambda>id_claims.
     pio_bind (pio_run (verify_access_token au access_token)) (\<lambda>(access_groups, access_subject, access_exp).
       if tc_subject id_claims \<noteq> access_subject then pio_fail (unauthorized ''token subject mismatch'')
       else
         pio_bind (pio_run (io_read (au_now au))) (\<lambda>now.
         let expires_in = (case Option.bind (json_get ''expires_in'' token) as_u64 of None \<Rightarrow> 3600 | Some n \<Rightarrow> n);
             max_age = session_max_age now expires_in (of_nat (tc_exp id_claims)) (of_nat access_exp);
             groups = merge_groups access_groups (extract_groups id_claims (cfg_group_claim (au_config au)))
         in if max_age = 0 then oauth2_session_error_response le st flags
            else start_session le st au flags id_claims groups id_token now max_age))))"

definition oauth2_callback :: "'w login_env \<Rightarrow> 'w app_state \<Rightarrow> server_request \<Rightarrow> callback_query \<Rightarrow> ('w, server_response) pio" where
  "oauth2_callback le st req query =
     (case cq_code query of
        None \<Rightarrow> redirect_temporary le st ''/oauth2/start''
      | Some code \<Rightarrow>
          if code = [] then redirect_temporary le st ''/oauth2/start''
          else
            let flags = request_cookie_flags st req in
            (case oauth2_code_verifier req (cq_state query) of
               None \<Rightarrow> oauth2_state_error_response le st flags
             | Some code_verifier \<Rightarrow>
                 (case as_auth st of
                    None \<Rightarrow> pio_fail (Internal [Lit ''auth not configured''])
                  | Some au \<Rightarrow> finish_login le st au flags code code_verifier)))"

end
