(* ===== verification/Account_Guards.thy ===== *)
theory Account_Guards
  imports Login Request_Guards
begin

text \<open>
  Lemmas on the account API: what the ceiling of a personal access token means, what a login leaves in the
  browser, and who changes the grants of a namespace.
\<close>

section \<open>The ceiling\<close>

lemma max_action_loop_Allow:
  assumes "max_action_loop ce sets node actor repository resource actions best w = Some (Ok (Some m), w')"
  shows "w' = w \<and> (Some m = best \<or> cedar_authorize ce sets node
    \<lparr>rq_actor = actor, rq_repository = repository, rq_resource = resource, rq_action = m\<rparr> w = Some (Ok Allow, w))"
  using assms
proof (induction actions arbitrary: best)
  case Nil
  then show ?case by (auto simp: cd_ok_def)
next
  case (Cons a actions)
  let ?req = "\<lparr>rq_actor = actor, rq_repository = repository, rq_resource = resource, rq_action = a\<rparr>"
  from Cons.prems obtain d w1 where d: "cedar_authorize ce sets node ?req w = Some (Ok d, w1)"
    and loop: "max_action_loop ce sets node actor repository resource actions (if d = Allow then Some a else best) w1 = Some (Ok (Some m), w')"
    by (auto simp: cio_bind_def split: option.splits sum.splits prod.splits)
  have "w1 = w" by (rule reads_only_authorize [unfolded reads_only_def, rule_format, OF d])
  with Cons.IH [of "if d = Allow then Some a else best"] loop d show ?case by (auto split: if_splits)
qed

lemma resource_for_authorization_Ok:
  assumes "repository_resource_for_authorization node repository w = Some (Ok resource, w')"
  shows "w' = w" and "case live_namespace (rn_state node w) repository of None \<Rightarrow> resource = None | Some ns \<Rightarrow>
    \<exists>r. from_repository repository ns = Ok r \<and> resource = Some r"
  using assms by (auto simp: repository_resource_for_authorization_def live_namespace_def store_reads cd_ok_def
      split: sum.splits if_splits option.splits)

lemma cedar_allow_check_permission:
  assumes resource: "repository_resource_for_authorization node repository w = Some (Ok resource, w1)"
    and allow: "cedar_authorize (au_cedar au) (cfg_policy_sets (au_config au)) node
      \<lparr>rq_actor = identity_actor identity, rq_repository = repository, rq_resource = resource, rq_action = action\<rparr> w = Some (Ok Allow, w)"
  shows "\<exists>access. check_permission au node identity repository action w = Some (Ok access, w)"
proof -
  note res = resource_for_authorization_Ok [OF resource]
  let ?req = "\<lparr>rq_actor = identity_actor identity, rq_repository = repository, rq_resource = resource, rq_action = action\<rparr>"
  from allow obtain policy where "cedar_decision (au_cedar au) policy ?req = Some Allow"
    by (auto simp: cedar_authorize_def cio_bind_def cd_ok_def split: option.splits sum.splits prod.splits)
  then have "\<not> unclaimed_write ?req" by (rule cedar_decision_Allow)
  then have claimed: "resource = None \<Longrightarrow> needs_claim repository \<Longrightarrow> action = Pull"
    by (auto simp: unclaimed_write_def needs_claim_def handle_of_def split: sum.splits if_splits)
  have "\<exists>expected. repository_resource_context node repository action w = (Ok (expected, resource), w)"
    using res claimed by (auto simp: resource_context_Ok split: option.splits)
  with allow show ?thesis
    by (auto simp: check_permission_def authorize_repository_def pio_bind_def store_reads cedar_authorization_decision_def pio_cedar_def)
qed

lemma reads_only_max_loop [reads_intros]: "reads_only (max_action_loop ce sets node actor repository resource actions best)"
  by (induction actions arbitrary: best) (auto intro!: reads_intros)

lemma reads_only_max [reads_intros]: "reads_only (cedar_max_grantable_action ce sets node actor repository)"
  unfolding cedar_max_grantable_action_def repository_resource_for_authorization_def store_reads
  by (intro reads_intros)

text \<open>Whatever the ceiling of an identity is, the identity itself is permitted it.\<close>

definition may_itself :: "'w auth_service \<Rightarrow> 'w raft_node \<Rightarrow> auth_identity \<Rightarrow> string \<Rightarrow> oci_action \<Rightarrow> 'w \<Rightarrow> bool" where
  "may_itself au node identity repository action w \<longleftrightarrow>
     (action = Pull \<and> is_public_pull (get_repository (rn_state node w) repository))
     \<or> (\<exists>access. check_permission au node identity repository action w = Some (Ok access, w))"

lemma max_grantable_permitted:
  assumes "max_grantable_action au node identity repository w = Some (Ok (m, source), w')"
  shows "w' = w \<and> may_itself au node identity repository m w"
proof -
  let ?public = "is_public_pull (get_repository (rn_state node w) repository)"
  let ?max = "cedar_max_grantable_action (au_cedar au) (cfg_policy_sets (au_config au)) node (identity_actor identity) repository w"
  from assms obtain r w1 where max: "?max = Some (r, w1)"
    and cases: "(\<exists>a. r = Ok (Some a) \<and> a = m \<and> w' = w1) \<or> (m = Pull \<and> ?public \<and> w' = w1)"
    by (fastforce simp: max_grantable_action_def pio_bind_Ok pio_cedar_def store_reads grant_source_for_authorized_action_def io_bind_def
        split: option.splits sum.splits if_splits prod.splits)
  have w1: "w1 = w" by (rule reads_only_max [unfolded reads_only_def, rule_format, OF max])
  from cases show ?thesis
  proof
    assume "m = Pull \<and> ?public \<and> w' = w1"
    with w1 show ?thesis by (simp add: may_itself_def)
  next
    assume "\<exists>a. r = Ok (Some a) \<and> a = m \<and> w' = w1"
    with max w1 have "?max = Some (Ok (Some m), w)" and w': "w' = w" by auto
    then obtain resource w2 where res: "repository_resource_for_authorization node repository w = Some (Ok resource, w2)"
      and loop: "max_action_loop (au_cedar au) (cfg_policy_sets (au_config au)) node (identity_actor identity) repository resource
        [Pull, Create, Update, Delete] None w2 = Some (Ok (Some m), w)"
      by (auto simp: cedar_max_grantable_action_def cio_bind_def split: option.splits sum.splits prod.splits)
    have "w2 = w" by (rule resource_for_authorization_Ok(1) [OF res])
    with max_action_loop_Allow [OF loop] cedar_allow_check_permission [OF res] w' show ?thesis
      by (auto simp: may_itself_def)
  qed
qed

text \<open>Conversely, an identity that is permitted every action has the whole ladder as its ceiling.\<close>

lemma permitted_allow:
  assumes "check_permission au node identity repository action w = Some (Ok access, w')"
    and public: "\<not> (action = Pull \<and> is_public_pull (get_repository (rn_state node w) repository))"
    and res: "repository_resource_for_authorization node repository w = Some (Ok resource, w)"
  shows "cedar_authorize (au_cedar au) (cfg_policy_sets (au_config au)) node
    \<lparr>rq_actor = identity_actor identity, rq_repository = repository, rq_resource = resource, rq_action = action\<rparr> w = Some (Ok Allow, w)"
proof -
  from assms(1) public obtain expected r where c: "repository_resource_context node repository action w = (Ok (expected, r), w)"
    and d: "cedar_authorization_decision au node (access_request identity repository action r) w = Some (Ok Allow, w)"
    by (auto elim: check_permission_Ok)
  have "r = resource" using c resource_for_authorization_Ok(2) [OF res] by (auto simp: resource_context_Ok split: option.splits)
  with cedar_authorization_Allow [OF d] show ?thesis
    by (auto simp: cedar_authorize_def cio_bind_def access_request_def)
qed

lemma max_grantable_full:
  assumes all: "\<forall>a \<in> {Pull, Create, Update, Delete}. \<exists>access. check_permission au node identity repository a w = Some (Ok access, w)"
    and public: "\<not> is_public_pull (get_repository (rn_state node w) repository)"
    and res: "repository_resource_for_authorization node repository w = Some (Ok resource, w)"
  shows "\<exists>source. max_grantable_action au node identity repository w = Some (Ok (Delete, source), w)"
proof -
  have allow: "cedar_authorize (au_cedar au) (cfg_policy_sets (au_config au)) node
    \<lparr>rq_actor = identity_actor identity, rq_repository = repository, rq_resource = resource, rq_action = a\<rparr> w = Some (Ok Allow, w)"
    if "a \<in> {Pull, Create, Update, Delete}" for a
    using all that permitted_allow [OF _ _ res] public by blast
  have "cedar_max_grantable_action (au_cedar au) (cfg_policy_sets (au_config au)) node (identity_actor identity) repository w = Some (Ok (Some Delete), w)"
    by (simp add: cedar_max_grantable_action_def cio_bind_def res allow cd_ok_def)
  then show ?thesis
    by (auto simp: max_grantable_action_def pio_bind_def pio_cedar_def store_reads grant_source_for_authorized_action_def public io_bind_def
        split: sum.splits option.splits)
qed

text \<open>
  When the authorizer decides about every action, with neither an error nor a panic, the ceiling is the highest
  action the identity is permitted itself.
\<close>

abbreviation ladder :: "oci_action set" where "ladder \<equiv> {Pull, Create, Update, Delete}"

definition authorizer_decides :: "'w auth_service \<Rightarrow> 'w raft_node \<Rightarrow> auth_identity \<Rightarrow> 'w \<Rightarrow> string \<Rightarrow> bool" where
  "authorizer_decides au node identity w repository \<longleftrightarrow>
     (\<exists>resource. repository_resource_for_authorization node repository w = Some (Ok resource, w) \<and>
       (\<forall>a \<in> ladder. \<exists>d. cedar_authorize (au_cedar au) (cfg_policy_sets (au_config au)) node
          \<lparr>rq_actor = identity_actor identity, rq_repository = repository, rq_resource = resource, rq_action = a\<rparr> w = Some (Ok d, w)))"

definition highest_itself :: "'w auth_service \<Rightarrow> 'w raft_node \<Rightarrow> auth_identity \<Rightarrow> 'w \<Rightarrow> string \<Rightarrow> oci_action \<Rightarrow> bool" where
  "highest_itself au node identity w repository m \<longleftrightarrow> m \<in> ladder \<and> may_itself au node identity repository m w
     \<and> (\<forall>a \<in> ladder. may_itself au node identity repository a w \<longrightarrow> action_matches m a)"

lemma ladder_highest:
  assumes "m \<in> ladder"
  shows "P m \<and> (\<forall>a \<in> ladder. P a \<longrightarrow> action_matches m a) \<longleftrightarrow>
    (if P Delete then Some Delete else if P Update then Some Update else if P Create then Some Create
     else if P Pull then Some Pull else None) = Some m"
  using assms by (cases m) (auto simp: action_matches_def)

lemma max_grantable_highest:
  assumes "authorizer_decides au node identity w repository"
  shows "max_grantable_action au node identity repository w = Some (Ok (m, source), w) \<longleftrightarrow>
    highest_itself au node identity w repository m \<and> grant_source_for_authorized_action node identity repository m w = (Ok source, w)"
proof -
  let ?auth = "\<lambda>resource a. cedar_authorize (au_cedar au) (cfg_policy_sets (au_config au)) node
    \<lparr>rq_actor = identity_actor identity, rq_repository = repository, rq_resource = resource, rq_action = a\<rparr> w"
  let ?public = "is_public_pull (get_repository (rn_state node w) repository)"
  from assms obtain resource where res: "repository_resource_for_authorization node repository w = Some (Ok resource, w)"
    and "\<forall>a \<in> ladder. \<exists>d. ?auth resource a = Some (Ok d, w)" unfolding authorizer_decides_def by blast
  then obtain D where D: "\<And>a. a \<in> ladder \<Longrightarrow> ?auth resource a = Some (Ok (D a), w)" by metis
  have allow: "may_itself au node identity repository a w \<longleftrightarrow> (a = Pull \<and> ?public) \<or> D a = Allow" if "a \<in> ladder" for a
    using permitted_allow [OF _ _ res, of au identity a] cedar_allow_check_permission [OF res, of au identity a] D [OF that]
    by (auto simp: may_itself_def)
  let ?best = "if D Delete = Allow then Some Delete else if D Update = Allow then Some Update else if D Create = Allow then Some Create
     else if D Pull = Allow then Some Pull else None"
  have loop: "cedar_max_grantable_action (au_cedar au) (cfg_policy_sets (au_config au)) node (identity_actor identity) repository w = Some (Ok ?best, w)"
    using D by (simp add: cedar_max_grantable_action_def cio_bind_def res cd_ok_def)
  have src: "\<exists>s. grant_source_for_authorized_action node identity repository a w = (Ok s, w)" for a
    by (auto simp: grant_source_for_authorized_action_def store_reads io_bind_def split: sum.splits option.splits)
  have pub: "?public \<Longrightarrow> grant_source_for_authorized_action node identity repository Pull w = (Ok PublicGrant, w)"
    by (simp add: grant_source_for_authorized_action_def store_reads io_bind_def)
  have max: "max_grantable_action au node identity repository w = Some (Ok (m, source), w) \<longleftrightarrow>
    (if ?best = None \<and> ?public then Some Pull else ?best) = Some m \<and> grant_source_for_authorized_action node identity repository m w = (Ok source, w)"
    using src [of m] pub
    by (cases ?best)
      (auto simp: max_grantable_action_def pio_bind_def pio_cedar_def store_reads io_bind_def loop split: prod.splits sum.splits)
  have "highest_itself au node identity w repository m \<longleftrightarrow> (if ?best = None \<and> ?public then Some Pull else ?best) = Some m"
  proof (cases "m \<in> ladder")
    case True
    then show ?thesis
      unfolding highest_itself_def using allow ladder_highest [OF True, of "\<lambda>a. may_itself au node identity repository a w"] by auto
  qed (auto simp: highest_itself_def split: if_splits)
  with max show ?thesis by simp
qed

section \<open>Personal access tokens\<close>

text \<open>What a selection of the request must satisfy for the creator.\<close>

definition grantable_selection :: "'w auth_service \<Rightarrow> 'w raft_node \<Rightarrow> auth_identity \<Rightarrow> 'w \<Rightarrow> pat_scope_selection \<Rightarrow> bool" where
  "grantable_selection au node identity w s \<longleftrightarrow>
     trim (psel_repository s) \<noteq> [] \<and> list_all is_repository_action (psel_actions s) \<and>
     (\<exists>m. may_itself au node identity (trim (psel_repository s)) m w \<and> (\<forall>a \<in> set (psel_actions s). action_matches m a))"

definition scope_string_of :: "pat_scope_selection \<Rightarrow> string" where
  "scope_string_of s = selection_scope (trim (psel_repository s)) (psel_actions s)"

lemma within_ceiling_Ok: "within_ceiling repo m as = Ok u \<longleftrightarrow> (\<forall>a \<in> set as. action_matches m a)"
  by (induction as) auto

lemma record_epoch_Ok:
  "record_scope_namespace_epoch node repo epochs w = (r, w') \<Longrightarrow> w' = w \<and> (\<exists>epochs'. r = Ok epochs' \<and>
    set epochs' = set epochs \<union> set_option (map_option epoch_from_namespace (live_namespace (rn_state node w) repo)))"
  by (auto simp: record_scope_namespace_epoch_def live_namespace_def store_reads Let_def split: sum.splits if_splits option.splits)

lemma scope_of_selection_Ok:
  assumes "as_auth st = Some au" and "scope_of_selection st identity s epochs w = Some (Ok (scope, epochs'), w')"
  shows "w' = w \<and> scope = scope_string_of s \<and> grantable_selection au (as_metadata st) identity w s \<and>
    set epochs' = set epochs \<union>
      set_option (map_option epoch_from_namespace (live_namespace (rn_state (as_metadata st) w) (trim (psel_repository s))))"
proof -
  let ?repo = "trim (psel_repository s)"
  from assms obtain m source w1 w2 where max: "max_grantable_action au (as_metadata st) identity ?repo w = Some (Ok (m, source), w1)"
    and ok: "?repo \<noteq> []" "list_all is_repository_action (psel_actions s)" "within_ceiling ?repo m (psel_actions s) = Ok ()"
    and epochs: "record_scope_namespace_epoch (as_metadata st) ?repo epochs w1 = (Ok epochs', w2)" and eq: "scope = scope_string_of s" "w' = w2"
    by (auto simp: scope_of_selection_def Let_def pio_bind_Ok list_ex_iff list_all_iff scope_string_of_def split: if_splits)
  from max_grantable_permitted [OF max] have "w1 = w" and may: "may_itself au (as_metadata st) identity ?repo m w" by auto
  with record_epoch_Ok [OF epochs] ok may eq show ?thesis by (auto simp: grantable_selection_def within_ceiling_Ok)
qed

lemma scopes_loop_Ok:
  assumes "as_auth st = Some au" and "scopes_loop st identity ss scopes epochs w = Some (Ok (scopes', epochs'), w')"
  shows "w' = w \<and> scopes' = scopes @ map scope_string_of ss \<and> (\<forall>s \<in> set ss. grantable_selection au (as_metadata st) identity w s) \<and>
    set epochs' = set epochs \<union> (\<Union>s \<in> set ss.
      set_option (map_option epoch_from_namespace (live_namespace (rn_state (as_metadata st) w) (trim (psel_repository s)))))"
  using assms(2)
proof (induction ss arbitrary: scopes epochs)
  case Nil
  then show ?case by simp
next
  case (Cons s ss)
  from Cons.prems obtain scope e1 w1 where one: "scope_of_selection st identity s epochs w = Some (Ok (scope, e1), w1)"
    and rest: "scopes_loop st identity ss (scopes @ [scope]) e1 w1 = Some (Ok (scopes', epochs'), w')"
    by (auto simp: pio_bind_Ok)
  from scope_of_selection_Ok [OF assms(1) one] have "w1 = w" by simp
  with Cons.IH [of "scopes @ [scope]" e1] rest scope_of_selection_Ok [OF assms(1) one] show ?case by auto
qed

lemma create_token_Ok:
  assumes "as_auth st = Some au" and "create_token le st (Some identity) req w = Some (Ok resp, w')"
  obtains raw uuid now epochs w1 where
    "resp = json_status 201 (create_pat_response (new_pat st identity req raw uuid now (map scope_string_of (cp_scopes req)) epochs) raw)"
    and "starts_with ''layerhouse-'' raw" and "\<forall>s \<in> set (cp_scopes req). grantable_selection au (as_metadata st) identity w s"
    and "set epochs = (\<Union>s \<in> set (cp_scopes req).
      set_option (map_option epoch_from_namespace (live_namespace (rn_state (as_metadata st) w) (trim (psel_repository s)))))"
    and "w1 = snd (as_uuid st (snd (le_random le 16 w)))"
    and "rms_put_personal_access_token (as_metadata st)
      (new_pat st identity req raw uuid now (map scope_string_of (cp_scopes req)) epochs) w1 = (Ok (), w')"
proof -
  from assms(2) obtain scopes epochs w0 where loop: "scopes_loop st identity (cp_scopes req) [] [] w = Some (Ok (scopes, epochs), w0)"
    and rest: "io_match (le_random le 16) (\<lambda>random_bytes.
         let raw_token = raw_token_of random_bytes in
         io_bind (io_read (rn_now (as_metadata st))) (\<lambda>now.
         io_match (as_uuid st) (\<lambda>uuid.
           let pat = new_pat st identity req raw_token uuid now scopes epochs in
           io_bind (rms_put_personal_access_token (as_metadata st) pat) (\<lambda>_.
             io_return (json_status 201 (create_pat_response pat raw_token)))))) w0 = (Ok resp, w')"
    by (auto simp: create_token_def signed_in_def required_identity_def ok_or_def pio_bind_Ok split: if_splits)
  from scopes_loop_Ok [OF assms(1) loop] have w0: "w0 = w" and scopes: "scopes = map scope_string_of (cp_scopes req)" by auto
  obtain bytes wa where rnd: "le_random le 16 w = (bytes, wa)" by (cases "le_random le 16 w")
  obtain uuid wb where uuid: "as_uuid st wa = (uuid, wb)" by (cases "as_uuid st wa")
  let ?raw = "raw_token_of bytes" and ?now = "rn_now (as_metadata st) wa"
  have "starts_with ''layerhouse-'' ?raw" by (auto simp: raw_token_of_def starts_with_iff)
  moreover from rest w0 rnd uuid have "rms_put_personal_access_token (as_metadata st) (new_pat st identity req ?raw uuid ?now scopes epochs) wb = (Ok (), w')"
    and "resp = json_status 201 (create_pat_response (new_pat st identity req ?raw uuid ?now scopes epochs) ?raw)"
    by (auto simp: io_match_def Let_def io_bind_eq_Ok)
  ultimately show ?thesis using that [of ?raw uuid ?now epochs wb] scopes_loop_Ok [OF assms(1) loop] scopes rnd uuid by auto
qed

lemma answers_applied:
  assumes "answers_entry env log req w resp w'"
  obtains others now e later data rs data' where "log w' = log w @ (others @ [(now, e)]) @ later"
    "apply_entries env empty_state (log w @ others) = Some (data, rs)"
    "apply_entries env empty_state (log w @ others @ [(now, e)]) = Some (data', rs @ [resp])"
    "apply_request env now (data\<lparr>last_applied_log := Some (le_log_id e)\<rparr>) req = Some (data', resp)"
proof -
  from assms obtain others now e later data rs data' where e: "log w' = log w @ others @ (now, e) # later" "le_payload e = Normal req"
    "apply_entries env empty_state (log w @ others) = Some (data, rs)" "entry_step env data (now, e) = Some (data', resp)"
    unfolding answers_entry_def by blast
  then have "apply_entries env empty_state (log w @ others @ [(now, e)]) = Some (data', rs @ [resp])"
    by (simp flip: append_assoc add: apply_entries_snoc)
  with e show ?thesis using that [of others now e later data rs data'] by (simp add: entry_step_def apply_entry_def Let_def)
qed

lemma put_token_committed:
  assumes ok: "raft_ok node log" and put: "rms_put_personal_access_token node pat w = (Ok (), w')"
  shows "\<exists>es later data rs. log w' = log w @ es @ later \<and> apply_entries (rn_env node) empty_state (log w @ es) = Some (data, rs) \<and>
    bt_get (personal_access_tokens data) (pat_id pat) = Some pat"
proof -
  from put obtain x where "rms_write node (ReqToken (PutPersonalAccessToken pat)) w = (Ok (RespToken x), w')"
    unfolding rms_put_personal_access_token_def io_unit_def write_token_def by (elim io_bindE) (auto split: response.splits)
  from rms_write_Ok [OF ok this] obtain others now e later data rs data' where
    "log w' = log w @ (others @ [(now, e)]) @ later"
    "apply_entries (rn_env node) empty_state (log w @ others @ [(now, e)]) = Some (data', rs @ [RespToken x])"
    "apply_request (rn_env node) now (data\<lparr>last_applied_log := Some (le_log_id e)\<rparr>) (ReqToken (PutPersonalAccessToken pat)) = Some (data', RespToken x)"
    by (elim answers_applied) blast
  moreover from this(3) have "bt_get (personal_access_tokens data') (pat_id pat) = Some pat" by auto
  ultimately show ?thesis by blast
qed

text \<open>A stored token stands for the subject and the scopes it was created with.\<close>

definition pat_identity :: "personal_access_token \<Rightarrow> provider_qualified_id \<Rightarrow> auth_identity" where
  "pat_identity pat p =
     \<lparr>ai_subject = pat_subject pat, ai_principal = p, ai_username = pat_username pat, ai_display_name = None, ai_email = None,
      ai_groups = [], ai_group_ids = [], ai_scopes = pat_scopes pat, ai_namespace_epochs = pat_namespace_epochs pat, ai_token_type = PersonalAccess\<rparr>"

lemma validate_stored_token:
  assumes "starts_with ''layerhouse-'' raw" and "get_personal_access_token_by_hash (rn_state node w) (au_sha_hex au raw) = Some pat"
    and "user_principal (au_config au) (pat_subject pat) = Ok p"
  shows "validate_token au node raw w =
    (if (case pat_expires_at pat of None \<Rightarrow> False | Some exp \<Rightarrow> au_now au w > exp) then Err (unauthorized ''token expired'')
     else Ok (pat_identity pat p), w)"
  using assms by (simp add: validate_token_def validate_pat_def store_reads pat_identity_def split: option.splits)

section \<open>Forms and cookies\<close>

lemma decode_loop_plain: "c \<noteq> CHR ''%'' \<Longrightarrow> decode_loop (c # s) = c # decode_loop s"
  by (cases s rule: decode_loop.cases) (auto split: list.splits)

lemma HEX_not_plus: "n < 16 \<Longrightarrow> HEX ! n \<noteq> CHR ''+''"
proof -
  have "\<forall>n \<in> set [0..<16]. HEX ! n \<noteq> CHR ''+''"
    by (simp add: HEX_def upt_conv_Cons numeral_eq_Suc)
  then show "n < 16 \<Longrightarrow> HEX ! n \<noteq> CHR ''+''" by simp
qed

lemma decode_escape_byte: "decode_loop (escape_byte b @ s) = b # decode_loop s"
proof (cases "is_unreserved b")
  case True
  with unreserved_not_percent [OF True] show ?thesis by (simp add: escape_byte_def decode_loop_plain)
next
  case False
  have "char_of (byte b div 16 * 16 + byte b mod 16) = b" by (simp add: byte_def)
  with False show ?thesis
    by (simp add: escape_byte_def parse_hex_byte_def hex_value_HEX byte_div_16 HEX_not_plus)
qed

lemma percent_decode_encode: "utf8_valid s \<Longrightarrow> percent_decode (percent_encode s) = s"
proof -
  have "decode_loop (percent_encode s) = s"
    by (induction s) (simp_all add: percent_encode_def decode_escape_byte)
  then show "utf8_valid s \<Longrightarrow> percent_decode (percent_encode s) = s" by (simp add: percent_decode_def)
qed

lemma percent_encode_chars: "c \<in> set (percent_encode s) \<Longrightarrow> c \<noteq> CHR ''&'' \<and> c \<noteq> CHR ''=''"
proof -
  have "length HEX = 16" by (simp add: HEX_def)
  then have HEX_chars: "n < 16 \<Longrightarrow> HEX ! n \<in> set HEX" for n by simp
  have "c \<in> set (escape_byte b) \<Longrightarrow> is_unreserved c \<or> c = CHR ''%'' \<or> c \<in> set HEX" for b
    using HEX_chars [OF byte_div_16 [of b]] HEX_chars [of "byte b mod 16"] by (auto simp: escape_byte_def split: if_splits)
  then show "c \<in> set (percent_encode s) \<Longrightarrow> c \<noteq> CHR ''&'' \<and> c \<noteq> CHR ''=''"
    by (auto simp: percent_encode_def is_unreserved_def byte_class_defs byte_def HEX_def)
qed

text \<open>The form sent to the identity provider is read back by the query reader of the registry itself.\<close>

lemma query_pairs_form:
  assumes "\<forall>(k, v) \<in> set params. utf8_valid k \<and> utf8_valid v"
  shows "query_pairs (Some (form_encode params)) = params"
proof (cases "params = []")
  case True
  then show ?thesis by (simp add: query_pairs_def form_encode_def List.map_filter_simps)
next
  case False
  let ?enc = "\<lambda>(k, v). percent_encode k @ ''='' @ percent_encode v"
  have "split_char (CHR ''&'') (form_encode params) = map ?enc params"
    unfolding form_encode_def using False by (intro split_join_space) (auto dest: percent_encode_chars)
  moreover have "List.map_filter (\<lambda>pair. map_option (\<lambda>(k, v). (percent_decode k, percent_decode v)) (split_once (CHR ''='') pair)) (map ?enc params) = params"
    using assms
  proof (induction params)
    case (Cons p params)
    obtain k v where p: "p = (k, v)" by (cases p)
    have "split_once (CHR ''='') (percent_encode k @ CHR ''='' # percent_encode v) = Some (percent_encode k, percent_encode v)"
      by (intro split_once_append) (auto dest: percent_encode_chars)
    with Cons p show ?case by (simp add: List.map_filter_simps percent_decode_encode)
  qed (simp add: List.map_filter_simps)
  ultimately show ?thesis by (simp add: query_pairs_def)
qed

section \<open>Sessions\<close>

lemma parse_stable_group_ids:
  assumes "\<And>s. is_uuid s \<Longrightarrow> utf8_valid s"
  shows "parse_group_ids (stable_group_ids is_uuid provider groups) = Ok (stable_group_ids is_uuid provider groups)"
proof -
  have "parse_group_ids ids = Ok ids" if "\<forall>i \<in> set ids. pq_parse i = Ok i" for ids
    using that by (induction ids) auto
  moreover have "\<forall>i \<in> set (stable_group_ids is_uuid provider groups). pq_parse i = Ok i"
    using assms by (auto simp: stable_group_ids_def List.map_filter_def Let_def dest!: pq_parse_new split: if_splits sum.splits)
  ultimately show ?thesis by blast
qed

lemma session_max_age_end:
  assumes "session_max_age now expires_in i a \<noteq> 0"
  shows "now + session_max_age now expires_in i a = min (min (min (now + expires_in) i) a) (now + 3600)"
    and "now < now + session_max_age now expires_in i a"
proof -
  define e where "e = min (min (min (now + expires_in) i) a) (now + 3600)"
  have age: "session_max_age now expires_in i a = saturating_sub_u64 e now" by (simp add: session_max_age_def e_def)
  with assms have "now < e" by (cases now e rule: linorder_cases) (auto simp: saturating_sub_u64_def split: if_splits)
  then have "now < e" "\<not> e < now" by simp_all
  with age show "now + session_max_age now expires_in i a = min (min (min (now + expires_in) i) a) (now + 3600)"
    and "now < now + session_max_age now expires_in i a"
    by (simp_all add: saturating_sub_u64_def e_def [symmetric])
qed

lemma set_merge_groups: "set (merge_groups as bs) = set as \<union> set bs"
proof -
  have "set (fold (\<lambda>g all. if g \<in> set all then all else all @ [g]) bs as) = set as \<union> set bs"
    by (induction bs arbitrary: as) auto
  then show ?thesis by (simp add: merge_groups_def)
qed

lemma response_cookies_simps [simp]:
  "response_cookies (temporary_redirect url) = []"
  "response_cookies (header_append ''set-cookie'' v r) = response_cookies r @ [v]"
  by (simp_all add: response_cookies_def temporary_redirect_def header_append_def)

definition plain_refusal :: "'w login_env \<Rightarrow> bool" where
  "plain_refusal le \<longleftrightarrow> (\<forall>url r. le_bad_location le url = Some r \<longrightarrow> response_cookies r = [])"

lemma redirect_cookies:
  "plain_refusal le \<Longrightarrow> redirect_temporary le st url w = Some (Ok r, w') \<Longrightarrow> response_cookies r = [] \<and> w' = w"
  by (auto simp: redirect_temporary_def pio_panic_def plain_refusal_def split: if_splits option.splits)

lemma header_checks:
  "expect_header st v w = Some (Ok u, w') \<longleftrightarrow> as_header_ok st v \<and> u = v \<and> w' = w"
  "checked_header st what v w = Some (Ok u, w') \<longleftrightarrow> as_header_ok st v \<and> u = v \<and> w' = w"
  by (auto simp: expect_header_def checked_header_def pio_panic_def)

lemma clear_oauth2_cookies:
  "append_clear_oauth2_cookie st flags response w = Some (Ok r, w') \<Longrightarrow>
    response_cookies r = response_cookies response @ [oauth2_cookie_clear_str flags] \<and> w' = w"
  by (auto simp: append_clear_oauth2_cookie_def pio_bind_Ok header_checks)

lemma error_response_cookies:
  "plain_refusal le \<Longrightarrow> oauth2_error_response le st location flags w = Some (Ok r, w') \<Longrightarrow>
    response_cookies r = [oauth2_cookie_clear_str flags] \<and> w' = w"
  by (auto simp: oauth2_error_response_def pio_bind_Ok dest!: redirect_cookies clear_oauth2_cookies)

lemma session_redirect_cookies:
  assumes "plain_refusal le" and "session_redirect le st flags encrypted id_token max_age w = Some (Ok r, w')"
    and "''layerhouse_session='' @ c \<in> set (response_cookies r)"
  shows "''layerhouse_session='' @ c = session_cookie encrypted flags max_age"
proof -
  let ?cookie = "session_cookie encrypted flags max_age" and ?hint = "logout_hint_cookie id_token flags max_age"
  note parts = redirect_cookies [OF assms(1)] clear_oauth2_cookies error_response_cookies [OF assms(1)]
  from assms(2) have "set (response_cookies r) \<subseteq> {?cookie, ?hint, oauth2_cookie_clear_str flags}"
    by (auto simp: session_redirect_def Let_def pio_bind_Ok header_checks oauth2_session_error_response_def split: if_splits dest!: parts)
  with assms(3) show ?thesis by (auto simp: oauth2_cookie_clear_str_def logout_hint_cookie_def)
qed

definition session_identity :: "dashboard_session \<Rightarrow> auth_identity" where
  "session_identity s =
     \<lparr>ai_subject = ds_subject s, ai_principal = ds_principal s, ai_username = ds_username s, ai_display_name = ds_display_name s,
      ai_email = ds_email s, ai_groups = ds_groups s, ai_group_ids = ds_group_ids s, ai_scopes = [], ai_namespace_epochs = [], ai_token_type = Session\<rparr>"

lemma session_authenticates:
  assumes "session_crypto_ok (au_crypto au)" and "length nonce = 12"
    and "session_encrypt (au_crypto au) nonce (au_session_key au) s = Ok encrypted"
    and "pq_parse (ds_principal s) = Ok (ds_principal s)" and "parse_group_ids (ds_group_ids s) = Ok (ds_group_ids s)"
  shows "authenticate_session_cookies au [encrypted] w =
    (if au_now au w < ds_expires_at s then Ok (session_identity s) else Err (unauthorized ''session expired''), w)"
  using session_decrypt_encrypt [OF assms(1-3)] assms(4,5)
  by (auto simp: authenticate_session_cookies_def session_identity_def not_le)

text \<open>A session cookie set by the callback, traced back to the verified tokens.\<close>

lemma callback_session:
  assumes au: "as_auth st = Some au" and plain: "plain_refusal le"
    and cb: "oauth2_callback le st req query w = Some (Ok resp, w')" and c: "''layerhouse_session='' @ c \<in> set (response_cookies resp)"
  obtains code verifier token id_token access_token claims access_groups access_exp now expires_in user_id nonce encrypted wa wb wc wd we where
    "cq_code query = Some code" "oauth2_code_verifier req (cq_state query) = Some verifier"
    "exchange_code le au code verifier w = (Ok (token, access_token, id_token), wa)"
    "verify_id_token au id_token wa = (Ok claims, wb)" "verify_access_token au access_token wb = (Ok (access_groups, tc_subject claims, access_exp), wc)"
    "now = au_now au wc" "session_max_age now expires_in (of_nat (tc_exp claims)) (of_nat access_exp) \<noteq> 0"
    "user_principal (au_config au) (tc_subject claims) = Ok user_id" "le_random le 12 wd = (nonce, we)"
    "session_encrypt (au_crypto au) nonce (au_session_key au) (session_of_claims au claims user_id
       (merge_groups access_groups (extract_groups claims (cfg_group_claim (au_config au))))
       (now + session_max_age now expires_in (of_nat (tc_exp claims)) (of_nat access_exp))) = Ok encrypted"
    "''layerhouse_session='' @ c = session_cookie encrypted (request_cookie_flags st req)
       (session_max_age now expires_in (of_nat (tc_exp claims)) (of_nat access_exp))"
proof -
  have no_error: False if "oauth2_error_response le st location flags v = Some (Ok resp, v')" for location flags v v'
    using error_response_cookies [OF plain that] c by (simp add: oauth2_cookie_clear_str_def)
  have no_redirect: False if "redirect_temporary le st url v = Some (Ok resp, v')" for url v v'
    using redirect_cookies [OF plain that] c by simp
  from cb au obtain code verifier where code: "cq_code query = Some code" "oauth2_code_verifier req (cq_state query) = Some verifier"
    and fin: "finish_login le st au (request_cookie_flags st req) code verifier w = Some (Ok resp, w')"
    by (auto simp: oauth2_callback_def Let_def oauth2_state_error_response_def split: option.splits if_splits dest: no_error no_redirect)
  from fin obtain token access_token id_token wa claims wb access_groups access_exp wc where
    ex: "exchange_code le au code verifier w = (Ok (token, access_token, id_token), wa)"
      "verify_id_token au id_token wa = (Ok claims, wb)" "verify_access_token au access_token wb = (Ok (access_groups, tc_subject claims, access_exp), wc)"
    and rest: "(let expires_in = (case Option.bind (json_get ''expires_in'' token) as_u64 of None \<Rightarrow> 3600 | Some n \<Rightarrow> n);
             max_age = session_max_age (au_now au wc) expires_in (of_nat (tc_exp claims)) (of_nat access_exp);
             groups = merge_groups access_groups (extract_groups claims (cfg_group_claim (au_config au)))
         in if max_age = 0 then oauth2_session_error_response le st (request_cookie_flags st req)
            else start_session le st au (request_cookie_flags st req) claims groups id_token (au_now au wc) max_age) wc = Some (Ok resp, w')"
    by (auto simp: finish_login_def pio_bind_Ok split: if_splits)
  define expires_in where "expires_in = (case Option.bind (json_get ''expires_in'' token) as_u64 of None \<Rightarrow> 3600 | Some n \<Rightarrow> n)"
  define max_age where "max_age = session_max_age (au_now au wc) expires_in (of_nat (tc_exp claims)) (of_nat access_exp)"
  let ?groups = "merge_groups access_groups (extract_groups claims (cfg_group_claim (au_config au)))"
  have start: "max_age \<noteq> 0" "start_session le st au (request_cookie_flags st req) claims ?groups id_token (au_now au wc) max_age wc = Some (Ok resp, w')"
    using rest unfolding Let_def expires_in_def [symmetric] max_age_def [symmetric]
    by (auto simp: oauth2_session_error_response_def split: if_splits dest: no_error)
  from start(2) obtain user_id wd nonce we encrypted wf where fields: "user_principal (au_config au) (tc_subject claims) = Ok user_id"
      "le_random le 12 wd = (nonce, we)"
      "session_encrypt (au_crypto au) nonce (au_session_key au) (session_of_claims au claims user_id ?groups (au_now au wc + max_age)) = Ok encrypted"
    and red: "session_redirect le st (request_cookie_flags st req) encrypted id_token max_age wf = Some (Ok resp, w')"
    by (auto simp: start_session_def Let_def pio_bind_Ok io_match_eq)
  from session_redirect_cookies [OF plain red c] show ?thesis
    using that [OF code ex refl _ fields(1,2)] start(1) fields(3) unfolding max_age_def by blast
qed

section \<open>Grants\<close>

text \<open>The requests that change the grants of a namespace, through the account API and through the admin API.\<close>

definition account_grant_changes :: "'w app_state \<Rightarrow> auth_identity option \<Rightarrow> string \<Rightarrow> ('w, server_response) pio set" where
  "account_grant_changes st identity handle =
     range (create_account_namespace_grant st identity handle)
     \<union> {update_account_namespace_grant st identity handle grant_id req |grant_id req. True}
     \<union> range (delete_account_namespace_grant st identity handle)"

definition admin_grant_changes :: "'w app_state \<Rightarrow> auth_identity option \<Rightarrow> string \<Rightarrow> ('w, server_response) pio set" where
  "admin_grant_changes st identity handle =
     range (create_admin_namespace_grant st identity handle)
     \<union> {update_admin_namespace_grant st identity handle grant_id req |grant_id req. True}
     \<union> {delete_admin_namespace_grant st identity handle grant_id reason |grant_id reason. True}"

definition owns_namespace :: "'w app_state \<Rightarrow> auth_identity \<Rightarrow> string \<Rightarrow> 'w \<Rightarrow> bool" where
  "owns_namespace st i handle w \<longleftrightarrow>
     (\<exists>ns. get_namespace (rn_state (as_metadata st) w) handle = Some ns \<and> ns_owner ns = OwnerUser (ai_subject i))"

definition is_administrator :: "'w app_state \<Rightarrow> auth_identity \<Rightarrow> 'w \<Rightarrow> bool" where
  "is_administrator st i w \<longleftrightarrow>
     (\<exists>au access. as_auth st = Some au \<and> check_permission au (as_metadata st) i ''*'' Admin w = Some (Ok access, w))"

lemma as_owner_guard:
  assumes "\<And>i. identity = Some i \<Longrightarrow> \<not> owns_namespace st i handle w"
  shows "\<exists>e. as_owner st identity handle f w = Some (Err e, w)"
  using assms
  by (auto simp: as_owner_def authenticated_def require_auth_def require_namespace_owner_def ensure_namespace_exists_def store_reads
      owns_namespace_def ok_or_def pio_bind_def io_bind_def split: option.splits)

lemma as_admin_guard:
  assumes "\<And>i. identity = Some i \<Longrightarrow> \<not> is_administrator st i w"
  shows "as_admin st identity f w = None \<or> (\<exists>e. as_admin st identity f w = Some (Err e, w))"
proof (cases "as_auth st = None \<or> identity = None")
  case True
  then show ?thesis by (auto simp: as_admin_def authenticated_def require_auth_def ok_or_def pio_bind_def split: option.splits)
next
  case False
  then obtain au i where au: "as_auth st = Some au" and i: "identity = Some i" by auto
  show ?thesis
  proof (cases "check_permission au (as_metadata st) i ''*'' Admin w")
    case None
    with au i show ?thesis
      by (simp add: as_admin_def authenticated_def require_auth_def ok_or_def pio_bind_def require_admin_def check_admin_access_def)
  next
    case (Some rw)
    obtain r w1 where rw: "rw = (r, w1)" by (cases rw)
    have "w1 = w" by (rule reads_only_check_permission [unfolded reads_only_def, rule_format, OF Some [unfolded rw]])
    moreover from assms [OF i] au Some rw calculation obtain e where "r = Err e" by (cases r) (auto simp: is_administrator_def)
    ultimately show ?thesis using au i Some rw
      by (simp add: as_admin_def authenticated_def require_auth_def ok_or_def pio_bind_def require_admin_def check_admin_access_def)
  qed
qed

end
