(* ===== verification/Account_Scenario.thy ===== *)
theory Account_Scenario
  imports Account_Guards Access_Scenario
begin

text \<open>
  The site of \<^const>\<open>site\<close> with an identity provider that signs tokens for the owner of the namespace and a
  browser in the middle of a login.
\<close>

definition login_claims :: token_claims where
  "login_claims = site_claims\<lparr>tc_groups := Some [''dev''], tc_iss := Some ''https://idp''\<rparr>"

definition login_session :: dashboard_session where
  "login_session =
     \<lparr>ds_subject = ''u-1'', ds_principal = ''idp:user:u-1'', ds_username = Some ''ann'', ds_display_name = None, ds_email = None,
      ds_groups = [''dev''], ds_group_ids = [], ds_expires_at = 3700\<rparr>"

definition login_crypto :: session_crypto where
  "login_crypto =
     \<lparr>sc_encode = \<lambda>s. if s = login_session then Ok ''S'' else Err [], sc_decode = \<lambda>b. if b = ''S'' then Ok login_session else Err [],
      sc_cipher = \<lambda>k n p. Ok p, sc_decipher = \<lambda>k n c. Some c, sc_base64 = \<lambda>b. b, sc_unbase64 = Ok\<rparr>"

definition login_auth :: "site_world auth_service" where
  "login_auth = site_auth\<lparr>au_crypto := login_crypto, au_decode_header := \<lambda>t. Some (Some ''k'', ''RS256''),
     au_decode_jwk := \<lambda>t k a aud iss w. Some login_claims,
     au_idp := site_idp\<lparr>ip_cache := \<lambda>w. jwks_empty\<lparr>jc_keys := [(''k'', JNull)]\<rparr>\<rparr>\<rparr>"

definition login_site :: "site_world app_state" where
  "login_site = site\<lparr>as_auth := Some login_auth\<rparr>"

definition login_service :: "site_world login_env" where
  "login_service =
     \<lparr>le_random = \<lambda>n w. (replicate n (CHR ''n''), w), le_urlsafe = \<lambda>b. b, le_sha256 = \<lambda>b. b, le_client = \<lambda>insecure. Ok (),
      le_post_form = \<lambda>url body w. (Ok ''{}'', w),
      le_from_str = \<lambda>b. Ok (JObject [(''access_token'', JString ''a''), (''id_token'', JString ''i'')]), le_bad_location = \<lambda>url. None\<rparr>"

definition login_request :: server_request where
  "login_request =
     \<lparr>hq_method = GET, hq_path = ''/oauth2/callback'', hq_query = None,
      hq_header = \<lambda>h. if h = ''cookie'' then Some ''a=b; layerhouse_oauth2=st.ver'' else None, hq_cookies = [],
      hq_body = \<lambda>n. Ok [], hq_wildcard = [], hq_identity = None, hq_access = None\<rparr>"

definition login_query :: callback_query where
  "login_query = \<lparr>cq_code = Some ''c'', cq_state = Some ''st''\<rparr>"

lemma login_facts:
  "as_auth login_site = Some login_auth" "plain_refusal login_service" "session_crypto_ok (au_crypto login_auth)"
  "\<forall>n v. length (fst (le_random login_service n v)) = n" "\<forall>s. au_is_uuid login_auth s \<longrightarrow> utf8_valid s"
  by (simp_all add: login_site_def plain_refusal_def login_service_def session_crypto_ok_def login_auth_def site_auth_def login_crypto_def)

lemma login_tokens: "verify_token_claims login_auth t aud w = (Ok login_claims, w)"
  by (simp add: verify_token_claims_def login_auth_def signing_key_def find_key_def jwks_empty_def ok_or_def io_bind_def)

lemma login_flags: "request_cookie_flags login_site login_request = \<lparr>cf_secure = False, cf_same_site = ''SameSite=Lax''\<rparr>"
  by (simp add: request_cookie_flags_def cookie_secure_flag_def login_site_def site_def)

lemma login_verifier: "oauth2_code_verifier login_request (Some ''st'') = Some ''ver''" by code_simp

lemma login_age: "session_max_age 100 3600 3700 3700 = 3600"
  by (simp add: session_max_age_def saturating_sub_u64_def)

lemma login_lengths:
  "length (session_cookie (replicate 12 (CHR ''n'') @ ''S'') \<lparr>cf_secure = False, cf_same_site = ''SameSite=Lax''\<rparr> 3600) \<le> MAX_SET_COOKIE_HEADER_LEN"
  "length (logout_hint_cookie ''i'' \<lparr>cf_secure = False, cf_same_site = ''SameSite=Lax''\<rparr> 3600) \<le> MAX_SET_COOKIE_HEADER_LEN"
proof -
  have "show_u64 3600 = ''3600''" by code_simp
  then show "length (session_cookie (replicate 12 (CHR ''n'') @ ''S'') \<lparr>cf_secure = False, cf_same_site = ''SameSite=Lax''\<rparr> 3600) \<le> MAX_SET_COOKIE_HEADER_LEN"
    and "length (logout_hint_cookie ''i'' \<lparr>cf_secure = False, cf_same_site = ''SameSite=Lax''\<rparr> 3600) \<le> MAX_SET_COOKIE_HEADER_LEN"
    by (simp_all add: session_cookie_def logout_hint_cookie_def flag_attributes_def MAX_SET_COOKIE_HEADER_LEN_def)
qed

lemma login_session_of: "session_of_claims login_auth login_claims ''idp:user:u-1'' [''dev''] 3700 = login_session"
  by code_simp

lemma login_exchange: "exchange_code login_service login_auth code verifier w =
  (Ok (JObject [(''access_token'', JString ''a''), (''id_token'', JString ''i'')], ''a'', ''i''), w)"
  by (simp add: exchange_code_def login_service_def io_match_def ok_or_def)

lemma session_redirect_runs:
  assumes "as_header_ok st = (\<lambda>v. True)" and "length (session_cookie encrypted flags m) \<le> MAX_SET_COOKIE_HEADER_LEN"
    and "length (logout_hint_cookie id_token flags m) \<le> MAX_SET_COOKIE_HEADER_LEN"
  shows "\<exists>resp. session_redirect le st flags encrypted id_token m w = Some (Ok resp, w) \<and> session_cookie encrypted flags m \<in> set (response_cookies resp)"
  using assms by (simp add: session_redirect_def redirect_temporary_def checked_header_def expect_header_def append_clear_oauth2_cookie_def
      pio_bind_def pio_panic_def Let_def)

abbreviation login_cookie :: string where
  "login_cookie \<equiv> session_cookie (replicate 12 (CHR ''n'') @ ''S'') \<lparr>cf_secure = False, cf_same_site = ''SameSite=Lax''\<rparr> 3600"

lemma login_start:
  "\<exists>resp w'. start_session login_service login_site login_auth \<lparr>cf_secure = False, cf_same_site = ''SameSite=Lax''\<rparr> login_claims [''dev''] ''i'' 100 3600 w =
    Some (Ok resp, w') \<and> login_cookie \<in> set (response_cookies resp)"
proof -
  have cfg: "au_config login_auth = site_config" "au_crypto login_auth = login_crypto" "tc_subject login_claims = ''u-1''"
    "le_random login_service n = (\<lambda>w. (replicate n (CHR ''n''), w))" "as_header_ok login_site = (\<lambda>v. True)" for n
    by (simp_all add: login_auth_def site_auth_def login_claims_def site_claims_def login_service_def login_site_def site_def)
  have enc: "session_encrypt login_crypto (replicate 12 (CHR ''n'')) key login_session = Ok (replicate 12 (CHR ''n'') @ ''S'')" for key
    by (simp add: session_encrypt_def login_crypto_def)
  obtain r w1 where put: "rms_put_observed_identity (as_metadata login_site) (observed_of_session login_auth login_session ''idp:user:u-1'' 100) w = (r, w1)"
    by (cases "rms_put_observed_identity (as_metadata login_site) (observed_of_session login_auth login_session ''idp:user:u-1'' 100) w")
  have "start_session login_service login_site login_auth \<lparr>cf_secure = False, cf_same_site = ''SameSite=Lax''\<rparr> login_claims [''dev''] ''i'' 100 3600 w =
    session_redirect login_service login_site \<lparr>cf_secure = False, cf_same_site = ''SameSite=Lax''\<rparr> (replicate 12 (CHR ''n'') @ ''S'') ''i'' 3600 w1"
    unfolding start_session_def by (simp add: pio_bind_def cfg site_principal login_session_of Let_def io_match_def put enc)
  with session_redirect_runs [OF cfg(5) login_lengths] show ?thesis by metis
qed

lemma login_succeeds:
  "\<exists>resp w'. oauth2_callback login_service login_site login_request login_query w = Some (Ok resp, w') \<and> login_cookie \<in> set (response_cookies resp)"
proof -
  have facts: "extract_groups login_claims (cfg_group_claim (au_config login_auth)) = [''dev'']" "tc_subject login_claims = ''u-1''" "tc_exp login_claims = 3700"
    "merge_groups [''dev''] [''dev''] = [''dev'']" by code_simp+
  have "au_now login_auth = (\<lambda>w. 100)" by (simp add: login_auth_def site_auth_def)
  then have "finish_login login_service login_site login_auth (request_cookie_flags login_site login_request) ''c'' ''ver'' w =
    start_session login_service login_site login_auth \<lparr>cf_secure = False, cf_same_site = ''SameSite=Lax''\<rparr> login_claims [''dev''] ''i'' 100 3600 w"
    unfolding finish_login_def login_flags
    by (simp add: pio_bind_def login_exchange verify_id_token_def verify_access_token_def login_tokens io_bind_def facts login_age Let_def)
  then have "oauth2_callback login_service login_site login_request login_query w =
    start_session login_service login_site login_auth \<lparr>cf_secure = False, cf_same_site = ''SameSite=Lax''\<rparr> login_claims [''dev''] ''i'' 100 3600 w"
    by (simp add: oauth2_callback_def login_query_def login_verifier login_facts Let_def)
  with login_start [of w] show ?thesis by metis
qed

section \<open>A token of the owner\<close>

definition login_owner :: auth_identity where
  "login_owner = session_identity login_session"

definition pull_selection :: pat_scope_selection where
  "pull_selection = \<lparr>psel_repository = ''alice/app'', psel_actions = [Pull]\<rparr>"

definition token_request_body :: create_pat_request where
  "token_request_body = \<lparr>cp_name = ''ci'', cp_scopes = [pull_selection], cp_expires_in_days = None\<rparr>"

lemma login_owner_fields:
  "ai_subject login_owner = ''u-1''" "ai_principal login_owner = ''idp:user:u-1''" "ai_group_ids login_owner = []"
  "\<not> uses_explicit_scopes login_owner" "ai_username login_owner = Some ''ann''"
  by (simp_all add: login_owner_def session_identity_def login_session_def uses_explicit_scopes_def uses_scopes_def)

lemma login_metadata [simp]: "as_metadata login_site = as_metadata site"
  by (simp add: login_site_def)

lemma login_auth_simps: "au_config login_auth = site_config" "au_cedar login_auth = small_cedar"
  "au_sha_hex login_auth = env_sha_hex (rn_env (as_metadata site))"
  by (simp_all add: login_auth_def site_auth_def site_def pull_mirror_def node_on_fst_def local_node_def sc_env_def)

lemma login_owner_permission:
  assumes "action \<noteq> Admin"
  shows "check_permission login_auth (as_metadata site) login_owner ''alice/app'' action (sc_log, m) =
    Some (Ok (access_new ''alice/app'' action (Some (epoch_new ''alice'' 1))), (sc_log, m))"
proof -
  have "tenancy_inv sc_state" using sc_run by (rule tenancy_reachable)
  moreover have "ns_owner sc_alice = OwnerUser ''u-1''" "ns_handle sc_alice = ''alice''" "epoch_from_namespace sc_alice = epoch_new ''alice'' 1"
    by (simp_all add: sc_alice_def epoch_from_namespace_def)
  ultimately show ?thesis
    using assms check_permission_exact [where au = login_auth and node = "as_metadata site" and identity = login_owner
        and repository = "''alice/app''" and action = action and w = "(sc_log, m)" and ns = sc_alice and lit = quoted]
    by (simp add: site_facts login_owner_fields login_auth_simps site_principal small_cedar_semantics may_access_def site_plain)
qed

lemma login_resource:
  "\<exists>r. repository_resource_for_authorization (as_metadata site) ''alice/app'' (sc_log, m) = Some (Ok (Some r), (sc_log, m))"
proof -
  have "handle_of ''alice/app'' = Ok ''alice''" "\<not> is_handle_reserved ''alice''" "get_namespace sc_state ''alice'' = Some sc_alice"
    "is_ok (from_repository ''alice/app'' sc_alice)" by code_simp+
  then show ?thesis
    by (auto simp: repository_resource_for_authorization_def store_reads is_ok_iff cio_bind_def)
qed

lemma login_ceiling: "\<exists>source. max_grantable_action login_auth (as_metadata site) login_owner ''alice/app'' (sc_log, m) = Some (Ok (Delete, source), (sc_log, m))"
proof -
  from login_resource obtain r where "repository_resource_for_authorization (as_metadata site) ''alice/app'' (sc_log, m) = Some (Ok (Some r), (sc_log, m))" by blast
  from max_grantable_full [OF _ _ this, of login_auth login_owner] login_owner_permission show ?thesis
    by (simp add: site_facts is_public_pull_def)
qed

lemma login_decides: "authorizer_decides login_auth (as_metadata site) login_owner (sc_log, m) ''alice/app''"
proof -
  from login_resource obtain r where res: "repository_resource_for_authorization (as_metadata site) ''alice/app'' (sc_log, m) = Some (Ok (Some r), (sc_log, m))" by blast
  have "\<not> is_public_pull (get_repository (rn_state (as_metadata site) (sc_log, m)) ''alice/app'')"
    by (simp add: site_facts is_public_pull_def)
  then show ?thesis
    using permitted_allow [OF login_owner_permission _ res] res unfolding authorizer_decides_def by fastforce
qed

lemma login_scopes: "\<exists>epochs. scopes_loop login_site login_owner [pull_selection] [] [] (sc_log, m) = Some (Ok ([''repository:alice/app:pull''], epochs), (sc_log, m))"
proof -
  from login_ceiling obtain source where max: "max_grantable_action login_auth (as_metadata site) login_owner ''alice/app'' (sc_log, m) = Some (Ok (Delete, source), (sc_log, m))"
    by blast
  obtain epochs where ep: "record_scope_namespace_epoch (as_metadata site) ''alice/app'' [] (sc_log, m) = (Ok epochs, (sc_log, m))"
    using record_epoch_Ok [of "as_metadata site" "''alice/app''" "[]" "(sc_log, m)"]
    by (cases "record_scope_namespace_epoch (as_metadata site) ''alice/app'' [] (sc_log, m)") auto
  have facts: "trim ''alice/app'' = ''alice/app''" "selection_scope ''alice/app'' [Pull] = ''repository:alice/app:pull''"
    "pat_scope_allowed_for_identity ''repository:alice/app:pull'' (Some ''ann'') = Ok ()" "action_matches Delete Pull" "is_repository_action Pull"
    by code_simp+
  have "scope_of_selection login_site login_owner pull_selection [] (sc_log, m) = Some (Ok (''repository:alice/app:pull'', epochs), (sc_log, m))"
    using max ep by (simp add: scope_of_selection_def pull_selection_def Let_def facts login_owner_fields login_facts(1) pio_bind_def)
  then show ?thesis by (simp add: pio_bind_def)
qed

lemma local_put_token: "\<exists>l. rms_write local_node (ReqToken (PutPersonalAccessToken pat)) sc_log = (Ok (RespToken TokenOk), l)"
proof -
  let ?req = "ReqToken (PutPersonalAccessToken pat)"
  have "\<exists>data. entry_step sc_env sc_state (local_entry ?req sc_log) = Some (data, RespToken TokenOk)"
    by (simp add: local_entry_def entry_step_def apply_entry_def Let_def)
  then obtain data rs where "apply_entries sc_env empty_state (sc_log @ [local_entry ?req sc_log]) = Some (data, rs @ [RespToken TokenOk])"
    using sc_run unfolding apply_entries_snoc by blast
  then show ?thesis by (simp add: rms_write_def local_node_def local_write_def io_match_def io_bind_def)
qed

lemma login_creates: "\<exists>resp w'. create_token login_service login_site (Some login_owner) token_request_body site_start = Some (Ok resp, w')"
proof -
  from login_scopes obtain epochs where loop: "scopes_loop login_site login_owner [pull_selection] [] [] site_start =
    Some (Ok ([''repository:alice/app:pull''], epochs), site_start)" unfolding site_start_def by blast
  have put: "\<exists>w'. rms_put_personal_access_token (as_metadata site) pat site_start = (Ok (), w')" for pat
    using local_put_token [of pat] by (auto simp: rms_put_personal_access_token_def io_unit_def write_token_def site_def pull_mirror_def
        rms_write_on_fst on_fst_def io_bind_def site_start_def)
  have facts: "trim ''ci'' \<noteq> []" "le_random login_service n = (\<lambda>w. (replicate n (CHR ''n''), w))" "as_uuid login_site = (\<lambda>w. (''s'', w))" for n
    by (simp_all add: login_service_def login_site_def site_def trim_all_graphic is_graphic_def byte_def)
  obtain w' where "rms_put_personal_access_token (as_metadata site) (new_pat login_site login_owner token_request_body (raw_token_of (replicate 16 (CHR ''n'')))
      ''s'' (rn_now (as_metadata site) site_start) [''repository:alice/app:pull''] epochs) site_start = (Ok (), w')" using put by blast
  then show ?thesis
    using loop by (simp add: create_token_def signed_in_def required_identity_def ok_or_def pio_bind_def token_request_body_def facts io_match_def Let_def io_bind_def)
qed

end
