(* ===== verification/Account_Properties.thy ===== *)
theory Account_Properties
  imports Account_Scenario
begin

text \<open>
  What the account API guarantees: sessions and tokens stand for the identity that obtained them and for no
  more than it may do itself, and grants are changed by the owner of the namespace or an administrator.
\<close>

section \<open>Login\<close>

text \<open>
  C6: A session cookie set by the login callback comes from a request that returned the state of its login
  attempt, and from an id token and an access token of the same subject that the identity provider signed.
  Presented to the middleware, the cookie stands for that subject with the groups of both tokens and no
  scopes, until an end that is at most an hour ahead and not after either token expires; from then on it is
  refused.
\<close>

theorem login_session_confined:
  assumes au: "as_auth st = Some au" and plain: "plain_refusal le"
    and crypto: "session_crypto_ok (au_crypto au)" and random: "\<forall>n v. length (fst (le_random le n v)) = n"
    and utf8: "\<forall>id_token v claims v'. verify_id_token au id_token v = (Ok claims, v') \<longrightarrow> utf8_valid (tc_subject claims)"
    and uuid: "\<forall>s. au_is_uuid au s \<longrightarrow> utf8_valid s"
    and cb: "oauth2_callback le st req query w = Some (Ok resp, w')" and c: "''layerhouse_session='' @ c \<in> set (response_cookies resp)"
  shows "\<exists>state verifier id_token access_token claims groups access_exp now end encrypted identity va vb vc.
    request_cookie req OAUTH2_COOKIE = Some (state @ ''.'' @ verifier) \<and> cq_state query = Some state \<and>
    verify_id_token au id_token va = (Ok claims, vb) \<and> verify_access_token au access_token vb = (Ok (groups, tc_subject claims, access_exp), vc) \<and>
    now = au_now au vc \<and> now < end \<and> end \<le> now + 3600 \<and> end \<le> of_nat (tc_exp claims) \<and> end \<le> of_nat access_exp \<and>
    ''layerhouse_session='' @ c = session_cookie encrypted (request_cookie_flags st req) (end - now) \<and>
    ai_subject identity = tc_subject claims \<and> ai_token_type identity = Session \<and> ai_scopes identity = [] \<and>
    set (ai_groups identity) = set groups \<union> set (extract_groups claims (cfg_group_claim (au_config au))) \<and>
    (\<forall>v. authenticate_session_cookies au [encrypted] v =
      (if au_now au v < end then Ok identity else Err (unauthorized ''session expired''), v))"
  using au plain cb c
proof (cases rule: callback_session)
  case (1 code verifier token id_token access_token claims groups access_exp now expires_in user_id nonce encrypted wa wb wc wd we)
  define max_age where "max_age = session_max_age now expires_in (of_nat (tc_exp claims)) (of_nat access_exp)"
  define groups' where "groups' = merge_groups groups (extract_groups claims (cfg_group_claim (au_config au)))"
  define session where "session = session_of_claims au claims user_id groups' (now + max_age)"
  have end_bounds: "now < now + max_age" "now + max_age \<le> now + 3600" "now + max_age \<le> of_nat (tc_exp claims)" "now + max_age \<le> of_nat access_exp"
    using session_max_age_end [OF 1(7)] unfolding max_age_def [symmetric] by (simp_all add: min_le_iff_disj)
  have "length nonce = 12" using random [rule_format, of 12 wd] 1(9) by simp
  moreover have "pq_parse (ds_principal session) = Ok (ds_principal session)"
    using pq_parse_new 1(4,8) utf8 unfolding session_def session_of_claims_def user_principal_def by (metis dashboard_session.select_convs(2))
  moreover have "parse_group_ids (ds_group_ids session) = Ok (ds_group_ids session)"
    unfolding session_def session_of_claims_def using uuid by (simp add: parse_stable_group_ids)
  moreover have "session_encrypt (au_crypto au) nonce (au_session_key au) session = Ok encrypted"
    using 1(10) unfolding session_def groups'_def max_age_def .
  ultimately have auth: "\<forall>v. authenticate_session_cookies au [encrypted] v =
      (if au_now au v < now + max_age then Ok (session_identity session) else Err (unauthorized ''session expired''), v)"
    using session_authenticates [OF crypto] by (simp add: session_def session_of_claims_def)
  from 1(2) obtain state where state: "request_cookie req OAUTH2_COOKIE = Some (state @ ''.'' @ verifier)" "cq_state query = Some state"
    by (auto simp: oauth2_code_verifier_def bind_eq_Some_conv split_once_Some split: if_splits)
  have fields: "ai_subject (session_identity session) = tc_subject claims" "ai_token_type (session_identity session) = Session"
    "ai_scopes (session_identity session) = []"
    "set (ai_groups (session_identity session)) = set groups \<union> set (extract_groups claims (cfg_group_claim (au_config au)))"
    by (simp_all add: session_identity_def session_def session_of_claims_def groups'_def set_merge_groups)
  have cookie: "''layerhouse_session='' @ c = session_cookie encrypted (request_cookie_flags st req) (now + max_age - now)"
    using 1(11) unfolding max_age_def by simp
  show ?thesis
    using state 1(4,5,6) end_bounds cookie fields auth by blast
qed

theorem login_session_confined_witness:
  "\<exists>resp w' end identity encrypted. oauth2_callback login_service login_site login_request login_query site_start = Some (Ok resp, w') \<and>
    login_cookie \<in> set (response_cookies resp) \<and> ai_subject identity = ''u-1'' \<and> end \<le> 3700 \<and>
    (\<forall>v. authenticate_session_cookies login_auth [encrypted] v =
      (if au_now login_auth v < end then Ok identity else Err (unauthorized ''session expired''), v))"
proof -
  from login_succeeds obtain resp w' where cb: "oauth2_callback login_service login_site login_request login_query site_start = Some (Ok resp, w')"
    and cookie: "login_cookie \<in> set (response_cookies resp)" by blast
  define c where "c = drop (length ''layerhouse_session='') login_cookie"
  have split: "login_cookie = ''layerhouse_session='' @ c" by (simp add: c_def session_cookie_def)
  have tokens: "verify_id_token login_auth t v = (Ok login_claims, v)" for t v by (simp add: verify_id_token_def login_tokens)
  have claims: "tc_subject login_claims = ''u-1''" "tc_exp login_claims = 3700" "utf8_valid (tc_subject login_claims)" by code_simp+
  have "\<forall>t v cl v'. verify_id_token login_auth t v = (Ok cl, v') \<longrightarrow> utf8_valid (tc_subject cl)"
    using claims(3) by (metis tokens prod.inject sum.inject(2))
  from login_session_confined [OF login_facts(1-4) this login_facts(5) cb cookie [unfolded split]]
  obtain id_token cl va vb "end" identity encrypted where "verify_id_token login_auth id_token va = (Ok cl, vb)"
    and bound: "end \<le> of_nat (tc_exp cl)" "ai_subject identity = tc_subject cl"
    and auth: "\<forall>v. authenticate_session_cookies login_auth [encrypted] v =
      (if au_now login_auth v < end then Ok identity else Err (unauthorized ''session expired''), v)" by metis
  then have "cl = login_claims" by (simp add: tokens)
  with bound claims(1,2) have "end \<le> 3700" "ai_subject identity = ''u-1''" by simp_all
  with cb cookie auth show ?thesis by blast
qed

section \<open>Personal access tokens\<close>

text \<open>
  C7: A personal access token is created for repository actions only, each at most an action the creator may
  perform on that repository itself at the time.  The acknowledged token is in the committed log; presented to
  the registry it stands for the subject of the creator with exactly the selected scopes and the epochs of the
  namespaces they name, until it expires.
\<close>

theorem created_token_confined:
  assumes raft: "raft_ok (as_metadata st) log" and au: "as_auth st = Some au"
    and sha: "au_sha_hex au = env_sha_hex (rn_env (as_metadata st))" and user: "user_principal (au_config au) (ai_subject i) = Ok p"
    and quiet: "\<forall>n v. log (snd (le_random le n v)) = log v" "\<forall>v. log (snd (as_uuid st v)) = log v"
    and created: "create_token le st (Some i) req w = Some (Ok resp, w')"
  shows "\<exists>raw pat es later data rs. resp = json_status 201 (create_pat_response pat raw) \<and>
    pat_subject pat = ai_subject i \<and> pat_scopes pat = map scope_string_of (cp_scopes req) \<and>
    (\<forall>s \<in> set (cp_scopes req). grantable_selection au (as_metadata st) i w s) \<and>
    set (pat_namespace_epochs pat) = (\<Union>s \<in> set (cp_scopes req).
      set_option (map_option epoch_from_namespace (live_namespace (rn_state (as_metadata st) w) (trim (psel_repository s))))) \<and>
    log w' = log w @ es @ later \<and> apply_entries (rn_env (as_metadata st)) empty_state (log w @ es) = Some (data, rs) \<and>
    bt_get (personal_access_tokens data) (pat_id pat) = Some pat \<and> pat_token_hash pat = au_sha_hex au raw \<and>
    (\<forall>v. get_personal_access_token_by_hash (rn_state (as_metadata st) v) (au_sha_hex au raw) = Some pat \<longrightarrow>
      validate_token au (as_metadata st) raw v =
        (if (case pat_expires_at pat of None \<Rightarrow> False | Some exp \<Rightarrow> au_now au v > exp) then Err (unauthorized ''token expired'')
         else Ok (pat_identity pat p), v))"
  using au created
proof (cases rule: create_token_Ok)
  case (1 raw uuid now epochs w1)
  define pat where "pat = new_pat st i req raw uuid now (map scope_string_of (cp_scopes req)) epochs"
  have fields: "pat_subject pat = ai_subject i" "pat_scopes pat = map scope_string_of (cp_scopes req)" "pat_namespace_epochs pat = epochs"
    "pat_token_hash pat = au_sha_hex au raw" by (simp_all add: pat_def new_pat_def sha)
  have log: "log w1 = log w" using 1(5) quiet by simp
  from put_token_committed [OF raft 1(6)] obtain es later data rs where committed: "log w' = log w @ es @ later"
    "apply_entries (rn_env (as_metadata st)) empty_state (log w @ es) = Some (data, rs)" "bt_get (personal_access_tokens data) (pat_id pat) = Some pat"
    unfolding log pat_def by blast
  have "validate_token au (as_metadata st) raw v =
      (if (case pat_expires_at pat of None \<Rightarrow> False | Some exp \<Rightarrow> au_now au v > exp) then Err (unauthorized ''token expired'')
       else Ok (pat_identity pat p), v)"
    if "get_personal_access_token_by_hash (rn_state (as_metadata st) v) (au_sha_hex au raw) = Some pat" for v
    using validate_stored_token [OF 1(2) that] user fields(1) by simp
  with 1(1,3,4) fields committed show ?thesis unfolding pat_def [symmetric]
    by (intro exI [of _ raw] exI [of _ pat] exI [of _ es] exI [of _ later] exI [of _ data] exI [of _ rs]) simp
qed

theorem created_token_confined_witness:
  "\<exists>resp w' raw pat. create_token login_service login_site (Some login_owner) token_request_body site_start = Some (Ok resp, w') \<and>
    resp = json_status 201 (create_pat_response pat raw) \<and> pat_subject pat = ''u-1'' \<and>
    pat_scopes pat = [scope_string_of pull_selection] \<and> grantable_selection login_auth (as_metadata site) login_owner site_start pull_selection"
proof -
  from login_creates obtain resp w' where created: "create_token login_service login_site (Some login_owner) token_request_body site_start = Some (Ok resp, w')"
    by blast
  have quiet: "\<forall>n v. fst (snd (le_random login_service n v)) = fst v" "\<forall>v. fst (snd (as_uuid login_site v)) = fst v"
    by (simp_all add: login_service_def login_site_def site_def)
  have scopes: "cp_scopes token_request_body = [pull_selection]" by (simp add: token_request_body_def)
  from created_token_confined [where log = fst, OF _ login_facts(1) _ _ quiet created] scopes created show ?thesis
    by (fastforce simp: site_raft login_auth_simps login_owner_fields site_principal)
qed

section \<open>Grants\<close>

text \<open>
  C37: A request to change the grants of a namespace is refused without any effect when the caller does not own
  the namespace (account API) or is no administrator (admin API), and when there is no caller at all.
\<close>

theorem grant_changes_guarded:
  "((\<forall>i. identity = Some i \<longrightarrow> \<not> owns_namespace st i handle w) \<longrightarrow>
      (\<forall>change \<in> account_grant_changes st identity handle. \<exists>e. change w = Some (Err e, w))) \<and>
   ((\<forall>i. identity = Some i \<longrightarrow> \<not> is_administrator st i w) \<longrightarrow>
      (\<forall>change \<in> admin_grant_changes st identity handle. change w = None \<or> (\<exists>e. change w = Some (Err e, w))))"
proof (intro conjI impI ballI)
  fix change assume "\<forall>i. identity = Some i \<longrightarrow> \<not> owns_namespace st i handle w" and change: "change \<in> account_grant_changes st identity handle"
  then have "\<exists>e. as_owner st identity handle f w = Some (Err e, w)" for f :: "auth_identity \<Rightarrow> ('a, server_response) pio"
    by (intro as_owner_guard) simp
  with change show "\<exists>e. change w = Some (Err e, w)"
    by (auto simp: account_grant_changes_def create_account_namespace_grant_def update_account_namespace_grant_def delete_account_namespace_grant_def)
next
  fix change assume "\<forall>i. identity = Some i \<longrightarrow> \<not> is_administrator st i w" and change: "change \<in> admin_grant_changes st identity handle"
  then have "as_admin st identity f w = None \<or> (\<exists>e. as_admin st identity f w = Some (Err e, w))" for f :: "auth_identity \<Rightarrow> ('a, server_response) pio"
    by (intro as_admin_guard) simp
  with change show "change w = None \<or> (\<exists>e. change w = Some (Err e, w))"
    by (auto simp: admin_grant_changes_def create_admin_namespace_grant_def update_admin_namespace_grant_def delete_admin_namespace_grant_def)
qed

theorem grant_changes_guarded_witness:
  "(\<exists>e. delete_account_namespace_grant login_site (Some (login_owner\<lparr>ai_subject := ''u-2''\<rparr>)) ''alice'' ''g'' site_start = Some (Err e, site_start)) \<and>
   (\<exists>e. delete_admin_namespace_grant login_site None ''alice'' ''g'' None site_start = Some (Err e, site_start))"
proof -
  have "get_namespace sc_state ''alice'' = Some sc_alice" "ns_owner sc_alice = OwnerUser ''u-1''" by code_simp+
  then have "\<not> owns_namespace login_site (login_owner\<lparr>ai_subject := ''u-2''\<rparr>) ''alice'' site_start"
    by (simp add: owns_namespace_def site_start_def)
  moreover have "delete_account_namespace_grant login_site (Some (login_owner\<lparr>ai_subject := ''u-2''\<rparr>)) ''alice'' ''g''
      \<in> account_grant_changes login_site (Some (login_owner\<lparr>ai_subject := ''u-2''\<rparr>)) ''alice''" by (simp add: account_grant_changes_def)
  ultimately have first: "\<exists>e. delete_account_namespace_grant login_site (Some (login_owner\<lparr>ai_subject := ''u-2''\<rparr>)) ''alice'' ''g'' site_start = Some (Err e, site_start)"
    using grant_changes_guarded [of "Some (login_owner\<lparr>ai_subject := ''u-2''\<rparr>)" login_site "''alice''" site_start] by auto
  have "delete_admin_namespace_grant login_site None ''alice'' ''g'' None \<in> admin_grant_changes login_site None ''alice''"
    by (auto simp: admin_grant_changes_def)
  moreover have "delete_admin_namespace_grant login_site None ''alice'' ''g'' None site_start \<noteq> None"
    by (simp add: delete_admin_namespace_grant_def as_admin_def authenticated_def require_auth_def login_facts ok_or_def pio_bind_def)
  ultimately show ?thesis using first grant_changes_guarded [of None login_site "''alice''" site_start] by auto
qed

end
