(* ===== verification/Scheduler.thy ===== *)
theory Scheduler
  imports Manifest_Routes "HOL-Library.Sublist"
begin

text \<open>
  The scheduler (\<^verbatim>\<open>mirror/scheduler.rs\<close>): every tick it reconciles the stored jobs with the mirror rules, proxy
  caches and warm images, frees jobs whose node has not reported for long, and claims the due ones.  A claimed
  job is handed to a task of its own; \<open>execute_due_jobs\<close> gives the tasks it has spawned, \<open>run_task\<close> is what a
  task does.  The semaphore of the runtime is a parameter that both of them use: the loop takes a permit before
  it claims and gives it back when it does not win, a task gives its permit back when it ends.  What tasks and other
  nodes do while the loop waits for a call is part of the effect of that call on the world.  Error messages
  become text with \<open>render\<close>.
\<close>

section \<open>Definitions\<close>

definition TICK_INTERVAL_SECS :: u64 where "TICK_INTERVAL_SECS = 15"
definition MAX_CONCURRENT_JOBS :: nat where "MAX_CONCURRENT_JOBS = 4"
definition STALE_JOB_THRESHOLD_SECS :: u64 where "STALE_JOB_THRESHOLD_SECS = 300"
definition FALLBACK_SCHEDULE_INTERVAL_SECS :: u64 where "FALLBACK_SCHEDULE_INTERVAL_SECS = 3600"

subsection \<open>Schedules\<close>

text \<open>The interval of a cron expression; the product of the step form wraps.\<close>

definition schedule_interval_secs :: "string \<Rightarrow> u64 option" where
  "schedule_interval_secs schedule =
     (let parts = split_whitespace schedule; minute = parts ! 0 in
      if length parts \<noteq> 5 then None
      else if minute = ''*'' then Some 60
      else case strip_prefix ''*/'' minute of
          Some step0 \<Rightarrow>
            (case parse_u64 step0 of
               None \<Rightarrow> None
             | Some step \<Rightarrow> if step > 0 then Some (step * 60) else None)
        | None \<Rightarrow>
            if parse_u8 minute \<noteq> None \<and> parts ! 1 = ''*'' then Some 3600
            else Some FALLBACK_SCHEDULE_INTERVAL_SECS)"

definition scheduled_mirror_job :: "mirror_rule \<Rightarrow> u64 \<Rightarrow> sync_job option" where
  "scheduled_mirror_job rule now =
     Option.bind (mr_schedule rule) (\<lambda>schedule.
     map_option (\<lambda>interval_secs. mirror_rule_job rule (''mirror-rule-'' @ mr_id rule) now interval_secs)
       (schedule_interval_secs schedule))"

definition scheduled_proxy_cache_job :: "proxy_cache \<Rightarrow> u64 \<Rightarrow> sync_job option" where
  "scheduled_proxy_cache_job cache now =
     Option.bind (pc_warm_schedule cache) (\<lambda>schedule.
     map_option (\<lambda>interval_secs.
         (proxy_cache_warm_job cache now)\<lparr>sj_id := ''proxy-cache-'' @ pc_id cache @ ''-warm'', sj_interval_secs := interval_secs\<rparr>)
       (schedule_interval_secs schedule))"

subsection \<open>Reconciliation\<close>

definition job_differs :: "sync_job \<Rightarrow> sync_job \<Rightarrow> bool" where
  "job_differs existing desired \<longleftrightarrow>
     sj_kind existing \<noteq> sj_kind desired \<or> sj_rule_id existing \<noteq> sj_rule_id desired \<or> sj_rule_name existing \<noteq> sj_rule_name desired
     \<or> sj_image existing \<noteq> sj_image desired \<or> sj_tags existing \<noteq> sj_tags desired \<or> sj_interval_secs existing \<noteq> sj_interval_secs desired"

definition reconcile_job :: "sync_job \<Rightarrow> sync_job \<Rightarrow> sync_job option" where
  "reconcile_job existing desired =
     (if sj_status existing = Running then None
      else if job_differs existing desired then
        Some (desired\<lparr>sj_status := sj_status existing, sj_claimed_by := sj_claimed_by existing, sj_claimed_at := sj_claimed_at existing,
          sj_last_run_at := sj_last_run_at existing, sj_last_error := sj_last_error existing,
          sj_next_run_at := min (sj_next_run_at existing) (sj_next_run_at desired)\<rparr>)
      else None)"

text \<open>\<^verbatim>\<open>job_map\<close>, collected from the list: of two jobs with one id the later stays.\<close>

definition job_lookup :: "sync_job list \<Rightarrow> string \<Rightarrow> sync_job option" where
  "job_lookup jobs i = map_of (rev (map (\<lambda>j. (sj_id j, j)) jobs)) i"

definition reconcile_scheduled :: "'w raft_node \<Rightarrow> sync_job list \<Rightarrow> sync_job option \<Rightarrow> ('w, unit) io" where
  "reconcile_scheduled node existing_jobs desired =
     (case desired of
        None \<Rightarrow> io_return ()
      | Some job \<Rightarrow>
          (case job_lookup existing_jobs (sj_id job) of
             Some existing \<Rightarrow> (case reconcile_job existing job of Some updated \<Rightarrow> rms_put_sync_job node updated | None \<Rightarrow> io_return ())
           | None \<Rightarrow> rms_put_sync_job node job))"

definition legacy_warm_job :: "warm_image \<Rightarrow> u64 \<Rightarrow> sync_job" where
  "legacy_warm_job warm now =
     \<lparr>sj_id = wi_id warm, sj_kind = LegacyWarm, sj_rule_id = Some (wi_id warm), sj_rule_name = Some (wi_id warm),
      sj_image = wi_image warm, sj_tags = wi_tags warm, sj_interval_secs = wi_interval_secs warm, sj_status = Idle,
      sj_claimed_by = None, sj_claimed_at = None, sj_last_run_at = None, sj_next_run_at = now, sj_last_error = None\<rparr>"

definition reconcile_warm :: "'w raft_node \<Rightarrow> sync_job list \<Rightarrow> warm_image \<Rightarrow> ('w, unit) io" where
  "reconcile_warm node existing_jobs warm =
     (case job_lookup existing_jobs (wi_id warm) of
        Some existing \<Rightarrow>
          if sj_status existing = Running then io_return ()
          else if sj_image existing \<noteq> wi_image warm \<or> sj_tags existing \<noteq> wi_tags warm \<or> sj_interval_secs existing \<noteq> wi_interval_secs warm
          then rms_put_sync_job node
            (existing\<lparr>sj_image := wi_image warm, sj_tags := wi_tags warm, sj_interval_secs := wi_interval_secs warm\<rparr>)
          else io_return ()
      | None \<Rightarrow> io_bind (io_read (rn_now node)) (\<lambda>now. rms_put_sync_job node (legacy_warm_job warm now)))"

definition desired_ids :: "mirror_rule list \<Rightarrow> proxy_cache list \<Rightarrow> u64 \<Rightarrow> string set" where
  "desired_ids rules caches now =
     sj_id ` (set (List.map_filter (\<lambda>r. scheduled_mirror_job r now) rules)
       \<union> set (List.map_filter (\<lambda>c. scheduled_proxy_cache_job c now) caches))"

definition is_stale_definition :: "warm_image list \<Rightarrow> string set \<Rightarrow> sync_job \<Rightarrow> bool" where
  "is_stale_definition warms desired job \<longleftrightarrow>
     sj_status job \<noteq> Running \<and>
     (sj_kind job = LegacyWarm \<and> sj_id job \<notin> wi_id ` set warms
      \<or> (sj_kind job = Mirror \<or> sj_kind job = ProxyCache) \<and> sj_interval_secs job > 0 \<and> sj_id job \<notin> desired)"

definition reconcile_jobs :: "'w raft_node \<Rightarrow> ('w, unit) io" where
  "reconcile_jobs node =
     io_bind (rms_list_warm_images node) (\<lambda>warms.
     io_bind (rms_list_mirror_rules node) (\<lambda>rules.
     io_bind (rms_list_proxy_caches node) (\<lambda>caches.
     io_bind (rms_list_sync_jobs node) (\<lambda>existing_jobs.
     io_bind (io_read (rn_now node)) (\<lambda>now.
     io_bind (io_for rules (\<lambda>rule. reconcile_scheduled node existing_jobs (scheduled_mirror_job rule now))) (\<lambda>_.
     io_bind (io_for caches (\<lambda>cache. reconcile_scheduled node existing_jobs (scheduled_proxy_cache_job cache now))) (\<lambda>_.
     io_bind (io_for warms (reconcile_warm node existing_jobs)) (\<lambda>_.
       io_for existing_jobs (\<lambda>job.
         if is_stale_definition warms (desired_ids rules caches now) job then rms_delete_sync_job node (sj_id job)
         else io_return ())))))))))"

subsection \<open>Recovery\<close>

text \<open>The doubled interval wraps.\<close>

definition is_stale_claim :: "u64 \<Rightarrow> sync_job \<Rightarrow> bool" where
  "is_stale_claim now job \<longleftrightarrow>
     sj_status job = Running \<and>
     saturating_sub_u64 now (case sj_claimed_at job of None \<Rightarrow> 0 | Some t \<Rightarrow> t) > max (sj_interval_secs job * 2) STALE_JOB_THRESHOLD_SECS"

definition recover_stale_jobs :: "'w raft_node \<Rightarrow> ('w, unit) io" where
  "recover_stale_jobs node =
     io_bind (rms_list_sync_jobs node) (\<lambda>jobs.
     io_bind (io_read (rn_now node)) (\<lambda>now.
       io_for jobs (\<lambda>job.
         if is_stale_claim now job
         then rms_put_sync_job node (job\<lparr>sj_status := Idle, sj_claimed_by := None, sj_claimed_at := None, sj_next_run_at := now\<rparr>)
         else io_return ())))"

subsection \<open>Claims\<close>

record job_task =
  jt_job :: sync_job
  jt_run :: sync_job_run

definition persist_sync_run :: "'w raft_node \<Rightarrow> sync_job_run \<Rightarrow> ('w, unit) io" where
  "persist_sync_run node run = io_match (rms_put_sync_job_run node run) (\<lambda>_. io_return ())"

definition is_due :: "u64 \<Rightarrow> sync_job \<Rightarrow> bool" where
  "is_due now job \<longleftrightarrow> sj_status job = Idle \<and> sj_next_run_at job \<le> now"

text \<open>\<^verbatim>\<open>try_acquire_owned\<close>, and the drop of the permit it returned.\<close>

record 'w semaphore =
  sem_try_acquire :: "'w \<Rightarrow> bool \<times> 'w"
  sem_release :: "'w \<Rightarrow> 'w"

fun execute_loop :: "'w app_state \<Rightarrow> 'w semaphore \<Rightarrow> string \<Rightarrow> u64 \<Rightarrow> sync_job list \<Rightarrow> 'w \<Rightarrow> job_task list \<times> 'w" where
  "execute_loop st sem node_id now [] w = ([], w)"
| "execute_loop st sem node_id now (job # jobs) w =
     (if \<not> is_due now job then execute_loop st sem node_id now jobs w
      else
        (case sem_try_acquire sem w of
           (False, w1) \<Rightarrow> ([], w1)
         | (True, w1) \<Rightarrow>
             (case rms_claim_sync_job (as_metadata st) (sj_id job) node_id w1 of
                (Inr True, w2) \<Rightarrow>
                  (case as_uuid st w2 of (uuid, w3) \<Rightarrow>
                    let run = run_running uuid (sj_id job) node_id now;
                        (_, w4) = rms_put_sync_job_run (as_metadata st) run w3;
                        (tasks, w5) = execute_loop st sem node_id now jobs w4
                    in (\<lparr>jt_job = job, jt_run = run\<rparr> # tasks, w5))
              | (_, w2) \<Rightarrow> execute_loop st sem node_id now jobs (sem_release sem w2))))"

definition execute_due_jobs :: "'w app_state \<Rightarrow> string \<Rightarrow> 'w semaphore \<Rightarrow> 'w \<Rightarrow> job_task list \<times> 'w" where
  "execute_due_jobs st node_id sem w =
     (case rms_list_sync_jobs (as_metadata st) w of
        (Inl _, w1) \<Rightarrow> ([], w1)
      | (Inr jobs, w1) \<Rightarrow> execute_loop st sem node_id (rn_now (as_metadata st) w1) jobs w1)"

text \<open>One round of \<^verbatim>\<open>run_scheduler\<close> after its sleep.\<close>

definition scheduler_tick :: "'w app_state \<Rightarrow> string \<Rightarrow> 'w semaphore \<Rightarrow> 'w \<Rightarrow> job_task list \<times> 'w" where
  "scheduler_tick st node_id sem w =
     (case reconcile_jobs (as_metadata st) w of
        (Inl _, w1) \<Rightarrow> ([], w1)
      | (Inr _, w1) \<Rightarrow> execute_due_jobs st node_id sem (snd (recover_stale_jobs (as_metadata st) w1)))"

subsection \<open>A claimed job\<close>

record job_target =
  tg_direction :: mirror_direction
  tg_image :: string
  tg_tags :: "string list"

text \<open>What the job works on: resolved anew for rules and caches, as planned otherwise.\<close>

definition resolve_target :: "'w mirror \<Rightarrow> sync_job \<Rightarrow> ('w, job_target) pio" where
  "resolve_target mm job =
     (case (sj_kind job, sj_rule_id job) of
        (Mirror, Some rule_id) \<Rightarrow>
          pio_bind (resolve_mirror_job mm rule_id) (\<lambda>r.
            pio_return \<lparr>tg_direction = rj_direction r, tg_image = rj_local_repo r, tg_tags = rj_tags r\<rparr>)
      | (ProxyCache, Some cache_id) \<Rightarrow>
          pio_bind (resolve_proxy_cache_job mm cache_id) (\<lambda>(image, rest).
            pio_return \<lparr>tg_direction = DirPull, tg_image = image, tg_tags = rest\<rparr>)
      | _ \<Rightarrow> pio_return \<lparr>tg_direction = DirPull, tg_image = sj_image job, tg_tags = sj_tags job\<rparr>)"

record task_progress =
  tp_run :: sync_job_run
  tp_synced :: "string list"
  tp_failed :: "(string \<times> string) list"

definition sync_tag :: "'w mirror \<Rightarrow> sync_job \<Rightarrow> job_target \<Rightarrow> string \<Rightarrow> ('w, bool) pio" where
  "sync_tag mm job target tag =
     (if tg_direction target = DirPush then
        (case sj_rule_id job of
           Some rule_id \<Rightarrow> push_manifest_for_rule mm rule_id tag
         | None \<Rightarrow> pio_fail (NameInvalid [Lit ''push mirror job is missing rule_id'']))
      else pio_bind (pull_manifest mm (tg_image target) tag) (\<lambda>entry. pio_return (entry \<noteq> None)))"

definition tag_outcome ::
  "(msg \<Rightarrow> string) \<Rightarrow> job_target \<Rightarrow> string \<Rightarrow> bool lh_result \<Rightarrow> u64 \<Rightarrow> task_progress \<Rightarrow> task_progress" where
  "tag_outcome render target tag result now p =
     (let done = length (tp_synced p) + length (tp_failed p) + 1 in
      case result of
        Inr True \<Rightarrow>
          p\<lparr>tp_synced := tp_synced p @ [tag], tp_run := mark_tag_finished tag EvSuccess ''Synced tag'' done now (tp_run p)\<rparr>
      | Inr False \<Rightarrow>
          let message = (if tg_direction target = DirPush then ''not found locally'' else ''not found upstream'') in
          p\<lparr>tp_failed := tp_failed p @ [(tag, message)], tp_run := mark_tag_finished tag EvWarning message done now (tp_run p)\<rparr>
      | Inl e \<Rightarrow>
          let message = render (error_display e) in
          p\<lparr>tp_failed := tp_failed p @ [(tag, message)], tp_run := mark_tag_finished tag EvError message done now (tp_run p)\<rparr>)"

fun tags_progress ::
  "(msg \<Rightarrow> string) \<Rightarrow> 'w mirror \<Rightarrow> sync_job \<Rightarrow> job_target \<Rightarrow> string list \<Rightarrow> task_progress \<Rightarrow> ('w, task_progress) pio" where
  "tags_progress render mm job target [] p = pio_return p"
| "tags_progress render mm job target (tag # rest) p =
     pio_bind (pio_run (io_read (rn_now (mm_node mm)))) (\<lambda>now.
     let p1 = p\<lparr>tp_run := mark_tag_started tag (if tg_direction target = DirPush then ''Pushing tag'' else ''Pulling tag'') now (tp_run p)\<rparr> in
     pio_bind (pio_run (persist_sync_run (mm_node mm) (tp_run p1))) (\<lambda>_.
     pio_match (sync_tag mm job target tag) (\<lambda>result.
     pio_bind (pio_run (io_read (rn_now (mm_node mm)))) (\<lambda>now.
     let p2 = tag_outcome render target tag result now p1 in
     pio_bind (pio_run (persist_sync_run (mm_node mm) (tp_run p2))) (\<lambda>_.
       tags_progress render mm job target rest p2)))))"

definition run_outcome :: "task_progress \<Rightarrow> sync_run_status \<times> string option" where
  "run_outcome p =
     (case tp_failed p of
        [] \<Rightarrow> (RunSucceeded, None)
      | (_, message) # _ \<Rightarrow> (if tp_synced p = [] then RunFailed else RunPartialFailure, Some message))"

definition finished_job :: "sync_job \<Rightarrow> job_target \<Rightarrow> u64 \<Rightarrow> string option \<Rightarrow> sync_job" where
  "finished_job job target now last_error =
     job\<lparr>sj_image := tg_image target, sj_tags := tg_tags target, sj_status := Idle, sj_claimed_by := None, sj_claimed_at := None,
       sj_last_run_at := Some now, sj_next_run_at := (if sj_interval_secs job = 0 then - 1 else now + sj_interval_secs job),
       sj_last_error := last_error\<rparr>"

definition finish_task ::
  "'w semaphore \<Rightarrow> 'w mirror \<Rightarrow> sync_job \<Rightarrow> job_target \<Rightarrow> task_progress \<Rightarrow> ('w, unit) pio" where
  "finish_task sem mm job target p =
     pio_bind (pio_run (io_read (rn_now (mm_node mm)))) (\<lambda>now.
     let (status, last_error) = run_outcome p in
     pio_bind (pio_run (io_match (rms_put_sync_job (mm_node mm) (finished_job job target now last_error)) (\<lambda>_. io_return ()))) (\<lambda>_.
     pio_bind (pio_run (persist_sync_run (mm_node mm) (mark_finished status (tp_synced p) (tp_failed p) now (tp_run p)))) (\<lambda>_.
       pio_run (io_update (sem_release sem)))))"

definition run_task :: "(msg \<Rightarrow> string) \<Rightarrow> 'w semaphore \<Rightarrow> 'w mirror \<Rightarrow> job_task \<Rightarrow> ('w, unit) pio" where
  "run_task render sem mm task =
     (let job = jt_job task; node = mm_node mm in
      pio_bind (pio_run (io_read (rn_now node))) (\<lambda>now.
      let run1 = mark_resolution_started now (jt_run task) in
      pio_bind (pio_run (persist_sync_run node run1)) (\<lambda>_.
      pio_match (resolve_target mm job) (\<lambda>resolved.
      pio_bind (pio_run (io_read (rn_now node))) (\<lambda>now.
        case resolved of
          Inl e \<Rightarrow>
            let message = render (error_display e); run2 = mark_resolution_failed message now run1 in
            pio_bind (pio_run (persist_sync_run node run2)) (\<lambda>_.
              finish_task sem mm job \<lparr>tg_direction = DirPull, tg_image = sj_image job, tg_tags = []\<rparr>
                \<lparr>tp_run = run2, tp_synced = [], tp_failed = [(''resolve'', message)]\<rparr>)
        | Inr target \<Rightarrow>
            let run2 = mark_resolution_finished (length (tg_tags target)) now run1 in
            pio_bind (pio_run (persist_sync_run node run2)) (\<lambda>_.
            pio_bind (tags_progress render mm job target (tg_tags target) \<lparr>tp_run = run2, tp_synced = [], tp_failed = []\<rparr>) (\<lambda>p.
              finish_task sem mm job target p)))))))"

section \<open>Attempts of a tick\<close>

text \<open>The contract of the semaphore, as the loop sees it: \<open>free\<close> permits are left and \<open>dropped\<close> counts those given
  back so far.  A permit is granted exactly when one is free.  The loop is the only one to take permits, so
  while it waits for a call permits are only given back.\<close>

definition only_returns :: "('w \<Rightarrow> nat) \<Rightarrow> ('w \<Rightarrow> nat) \<Rightarrow> 'w \<Rightarrow> 'w \<Rightarrow> bool" where
  "only_returns free dropped v v' \<longleftrightarrow> dropped v \<le> dropped v' \<and> free v' + dropped v = free v + dropped v'"

definition semaphore_ok :: "'w semaphore \<Rightarrow> 'w app_state \<Rightarrow> ('w \<Rightarrow> nat) \<Rightarrow> ('w \<Rightarrow> nat) \<Rightarrow> bool" where
  "semaphore_ok sem st free dropped \<longleftrightarrow>
     (\<forall>w. fst (sem_try_acquire sem w) = (free w > 0) \<and> dropped (snd (sem_try_acquire sem w)) = dropped w \<and>
        free (snd (sem_try_acquire sem w)) = free w - 1) \<and>
     (\<forall>w. free (sem_release sem w) = Suc (free w) \<and> dropped (sem_release sem w) = Suc (dropped w)) \<and>
     (\<forall>i n w. only_returns free dropped w (snd (rms_claim_sync_job (as_metadata st) i n w))) \<and>
     (\<forall>w. only_returns free dropped w (snd (as_uuid st w))) \<and>
     (\<forall>run w. only_returns free dropped w (snd (rms_put_sync_job_run (as_metadata st) run w)))"

text \<open>The claims of a tick, one after the other, each with the world in which it was asked for: a permit was taken
  before it, and it either was won, so that its run was recorded, or the permit was given back.\<close>

inductive attempts :: "'w app_state \<Rightarrow> 'w semaphore \<Rightarrow> string \<Rightarrow> u64 \<Rightarrow> 'w \<Rightarrow> (sync_job \<times> 'w) list \<Rightarrow> job_task list \<Rightarrow> 'w \<Rightarrow> bool"
  for st :: "'w app_state" and sem :: "'w semaphore" and node_id :: string and now :: u64
where
  attempts_none: "attempts st sem node_id now w [] [] w"
| attempts_won:
    "sem_try_acquire sem w = (True, v) \<Longrightarrow> rms_claim_sync_job (as_metadata st) (sj_id job) node_id v = (Ok True, v1) \<Longrightarrow>
     as_uuid st v1 = (uuid, v2) \<Longrightarrow> rms_put_sync_job_run (as_metadata st) (run_running uuid (sj_id job) node_id now) v2 = (x, v3) \<Longrightarrow>
     attempts st sem node_id now v3 as tasks w' \<Longrightarrow>
     attempts st sem node_id now w ((job, v) # as) (\<lparr>jt_job = job, jt_run = run_running uuid (sj_id job) node_id now\<rparr> # tasks) w'"
| attempts_not_won:
    "sem_try_acquire sem w = (True, v) \<Longrightarrow> rms_claim_sync_job (as_metadata st) (sj_id job) node_id v = (r, v1) \<Longrightarrow> r \<noteq> Ok True \<Longrightarrow>
     attempts st sem node_id now (sem_release sem v1) as tasks w' \<Longrightarrow>
     attempts st sem node_id now w ((job, v) # as) tasks w'"

definition attempt_won :: "'w app_state \<Rightarrow> string \<Rightarrow> sync_job \<times> 'w \<Rightarrow> bool" where
  "attempt_won st node_id a \<longleftrightarrow> fst (rms_claim_sync_job (as_metadata st) (sj_id (fst a)) node_id (snd a)) = Ok True"

lemma attempts_tasks:
  "attempts st sem node_id now w as tasks w' \<Longrightarrow> map jt_job tasks = map fst (filter (attempt_won st node_id) as)"
  by (induction rule: attempts.induct) (simp_all add: attempt_won_def)

lemma attempts_permits:
  assumes "attempts st sem node_id now w as tasks w'" and "semaphore_ok sem st free dropped"
  shows "dropped w \<le> dropped w' \<and> free w + dropped w' = free w' + dropped w + length as"
  using assms
proof (induction rule: attempts.induct)
  case (attempts_won w v job v1 uuid v2 x v3 as tasks w')
  from attempts_won.prems have "only_returns free dropped v v1" "only_returns free dropped v1 v2" "only_returns free dropped v2 v3"
    and "free w > 0" "dropped v = dropped w" "free v = free w - 1"
    using attempts_won.hyps(1-4) unfolding semaphore_ok_def by (metis fst_conv snd_conv)+
  with attempts_won.IH [OF attempts_won.prems] show ?case by (auto simp: only_returns_def)
next
  case (attempts_not_won w v job r v1 as tasks w')
  from attempts_not_won.prems have "only_returns free dropped v v1" and "free w > 0" "dropped v = dropped w" "free v = free w - 1"
    and "free (sem_release sem v1) = Suc (free v1)" "dropped (sem_release sem v1) = Suc (dropped v1)"
    using attempts_not_won.hyps(1-2) unfolding semaphore_ok_def by (metis fst_conv snd_conv)+
  with attempts_not_won.IH [OF attempts_not_won.prems] show ?case by (auto simp: only_returns_def)
qed simp

text \<open>The loop makes its attempts along the due jobs, until they are all tried or a permit is refused.\<close>

lemma execute_loop_attempts:
  "execute_loop st sem node_id now jobs w = (tasks, w') \<Longrightarrow>
   \<exists>as v. attempts st sem node_id now w as tasks v \<and>
     (map fst as = filter (is_due now) jobs \<and> w' = v \<or>
      strict_prefix (map fst as) (filter (is_due now) jobs) \<and> sem_try_acquire sem v = (False, w'))"
proof (induction jobs arbitrary: w tasks)
  case Nil
  then show ?case by (auto intro: attempts_none)
next
  case (Cons job jobs)
  show ?case
  proof (cases "is_due now job")
    case False
    with Cons show ?thesis by simp
  next
    case due: True
    obtain b v where acq: "sem_try_acquire sem w = (b, v)" by (cases "sem_try_acquire sem w")
    show ?thesis
    proof (cases b)
      case False
      with acq due Cons.prems have "tasks = []" "sem_try_acquire sem w = (False, w')" by auto
      with due show ?thesis by (auto intro!: exI [of _ "[]"] attempts_none)
    next
      case b: True
      obtain r v1 where claim: "rms_claim_sync_job (as_metadata st) (sj_id job) node_id v = (r, v1)"
        by (cases "rms_claim_sync_job (as_metadata st) (sj_id job) node_id v")
      show ?thesis
      proof (cases "r = Ok True")
        case False
        with due acq b claim Cons.prems have "execute_loop st sem node_id now jobs (sem_release sem v1) = (tasks, w')"
          by (auto split: sum.splits bool.splits)
        from Cons.IH [OF this] obtain as u where "attempts st sem node_id now (sem_release sem v1) as tasks u"
          and "map fst as = filter (is_due now) jobs \<and> w' = u \<or>
            strict_prefix (map fst as) (filter (is_due now) jobs) \<and> sem_try_acquire sem u = (False, w')" by blast
        with attempts_not_won [OF _ claim False, of sem w now as tasks u] acq b due show ?thesis
          by (intro exI [of _ "(job, v) # as"] exI [of _ u]) auto
      next
        case won: True
        obtain uuid v2 where uuid: "as_uuid st v1 = (uuid, v2)" by (cases "as_uuid st v1")
        obtain x v3 where put: "rms_put_sync_job_run (as_metadata st) (run_running uuid (sj_id job) node_id now) v2 = (x, v3)"
          by (cases "rms_put_sync_job_run (as_metadata st) (run_running uuid (sj_id job) node_id now) v2")
        obtain rest w4 where loop: "execute_loop st sem node_id now jobs v3 = (rest, w4)" by (cases "execute_loop st sem node_id now jobs v3")
        with due acq b claim won uuid put Cons.prems have tasks: "tasks = \<lparr>jt_job = job, jt_run = run_running uuid (sj_id job) node_id now\<rparr> # rest"
          and "w4 = w'" by auto
        with Cons.IH loop obtain as u where "attempts st sem node_id now v3 as rest u"
          and "map fst as = filter (is_due now) jobs \<and> w' = u \<or>
            strict_prefix (map fst as) (filter (is_due now) jobs) \<and> sem_try_acquire sem u = (False, w')" by blast
        with attempts_won [OF _ _ uuid put, of sem w v as rest u] acq b claim won due show ?thesis unfolding tasks
          by (intro exI [of _ "(job, v) # as"] exI [of _ u]) auto
      qed
    qed
  qed
qed

lemma attempts_runs:
  "attempts st sem node_id now w as tasks w' \<Longrightarrow>
   list_all (\<lambda>t. run_job_id (jt_run t) = sj_id (jt_job t) \<and> run_node_id (jt_run t) = node_id \<and> run_status (jt_run t) = RunRunning) tasks"
  by (induction rule: attempts.induct) (simp_all add: run_running_def)

section \<open>Accounting of a task\<close>

lemma persist_Ok: "\<exists>w'. persist_sync_run node run w = (Ok (), w')"
  by (auto simp: persist_sync_run_def io_match_def split: prod.splits)

lemma persist_bind: "pio_bind (pio_run (persist_sync_run node run)) f w = f () (snd (persist_sync_run node run w))"
  using persist_Ok [of node run w] by (auto simp: pio_bind_def)

definition accounted :: "string list \<Rightarrow> task_progress \<Rightarrow> bool" where
  "accounted ts p \<longleftrightarrow>
     mset (tp_synced p) + mset (map fst (tp_failed p)) = mset ts \<and>
     run_completed_tags (tp_run p) = min (length ts) (run_total_tags (tp_run p))"

lemma mark_frames [simp]:
  "run_total_tags (mark_tag_started t ph n run) = run_total_tags run" "run_completed_tags (mark_tag_started t ph n run) = run_completed_tags run"
  "run_total_tags (mark_tag_finished t k m c n run) = run_total_tags run"
  "run_completed_tags (mark_tag_finished t k m c n run) = min c (run_total_tags run)"
  "run_id (push_event k o' m a run) = run_id run" "run_job_id (push_event k o' m a run) = run_job_id run"
  "run_tags_synced (push_event k o' m a run) = run_tags_synced run" "run_tags_failed (push_event k o' m a run) = run_tags_failed run"
  "run_finished_at (push_event k o' m a run) = run_finished_at run"
  by (simp_all add: mark_tag_started_def mark_tag_finished_def push_event_def Let_def)

lemma accounted_length: "accounted ts p \<Longrightarrow> length (tp_synced p) + length (tp_failed p) = length ts"
  unfolding accounted_def by (metis length_map size_mset size_union)

lemma tag_outcome_accounted:
  assumes "accounted ts p"
  shows "accounted (ts @ [tag]) (tag_outcome render target tag result now p)"
  using assms accounted_length [OF assms]
  by (auto simp: tag_outcome_def accounted_def Let_def split: sum.splits bool.splits)

lemma tag_outcome_total [simp]: "run_total_tags (tp_run (tag_outcome render target tag result now p)) = run_total_tags (tp_run p)"
  by (auto simp: tag_outcome_def Let_def split: sum.splits bool.splits)

text \<open>The transfers of a task, one tag after the other, each with its result.  Before and after a transfer the
  record of the run is written; the second time it counts the tag.\<close>

inductive transfers :: "'w mirror \<Rightarrow> sync_job \<Rightarrow> job_target \<Rightarrow> string \<Rightarrow> nat \<Rightarrow> (string \<times> bool lh_result) list \<Rightarrow> 'w \<Rightarrow> 'w \<Rightarrow> bool"
  for mm :: "'w mirror" and job :: sync_job and target :: job_target and i :: string
where
  transfers_none: "transfers mm job target i n [] w w"
| transfers_tag:
    "run_id run1 = i \<Longrightarrow> run_current_tag run1 = Some tag \<Longrightarrow> rms_put_sync_job_run (mm_node mm) run1 w = (x, w1) \<Longrightarrow>
     sync_tag mm job target tag w1 = Some (result, w2) \<Longrightarrow>
     run_id run2 = i \<Longrightarrow> run_completed_tags run2 = Suc n \<Longrightarrow> rms_put_sync_job_run (mm_node mm) run2 w2 = (y, w3) \<Longrightarrow>
     transfers mm job target i (Suc n) rest w3 w' \<Longrightarrow> transfers mm job target i n ((tag, result) # rest) w w'"

abbreviation succeeded :: "string \<times> bool lh_result \<Rightarrow> bool" where
  "succeeded a \<equiv> snd a = Ok True"

lemma tag_outcome_sides:
  "tp_synced (tag_outcome render target tag result now p) = tp_synced p @ (if result = Ok True then [tag] else [])"
  "map fst (tp_failed (tag_outcome render target tag result now p)) = map fst (tp_failed p) @ (if result = Ok True then [] else [tag])"
  "run_id (tp_run (tag_outcome render target tag result now p)) = run_id (tp_run p)"
  by (auto simp: tag_outcome_def mark_tag_finished_def Let_def split: sum.splits bool.splits)

lemma persist_snd: "snd (persist_sync_run node run w) = snd (rms_put_sync_job_run node run w)"
  by (simp add: persist_sync_run_def io_match_def io_return_def split: prod.splits)

text \<open>Every tag ends up on exactly one side, on the good side when its transfer succeeded.\<close>

lemma tags_progress_transfers:
  assumes "tags_progress render mm job target ts p w = Some (r, w')" and "accounted before p"
    and "run_total_tags (tp_run p) = length before + length ts"
  shows "\<exists>p' results. r = Ok p' \<and> accounted (before @ ts) p' \<and> run_total_tags (tp_run p') = run_total_tags (tp_run p) \<and>
    run_id (tp_run p') = run_id (tp_run p) \<and> map fst results = ts \<and>
    transfers mm job target (run_id (tp_run p)) (length before) results w w' \<and>
    tp_synced p' = tp_synced p @ map fst (filter succeeded results) \<and>
    map fst (tp_failed p') = map fst (tp_failed p) @ map fst (filter (\<lambda>a. \<not> succeeded a) results)"
  using assms
proof (induction ts arbitrary: p before w)
  case Nil
  then show ?case by (auto intro: transfers_none)
next
  case (Cons t ts)
  let ?node = "mm_node mm"
  define p1 where "p1 = p\<lparr>tp_run := mark_tag_started t (if tg_direction target = DirPush then ''Pushing tag'' else ''Pulling tag'') (rn_now ?node w) (tp_run p)\<rparr>"
  define w1 where "w1 = snd (rms_put_sync_job_run ?node (tp_run p1) w)"
  from Cons.prems(1) obtain result w2 where sync: "sync_tag mm job target t w1 = Some (result, w2)"
    and rest: "tags_progress render mm job target ts (tag_outcome render target t result (rn_now ?node w2) p1)
      (snd (rms_put_sync_job_run ?node (tp_run (tag_outcome render target t result (rn_now ?node w2) p1)) w2)) = Some (r, w')"
    unfolding p1_def w1_def
    by (cases "sync_tag mm job target t (snd (rms_put_sync_job_run ?node (mark_tag_started t (if tg_direction target = DirPush then ''Pushing tag'' else ''Pulling tag'')
        (rn_now ?node w) (tp_run p)) w))")
      (auto simp: persist_bind persist_snd pio_bind_def [of "pio_run (io_read f)" for f] pio_match_def Let_def)
  define p2 where "p2 = tag_outcome render target t result (rn_now ?node w2) p1"
  have acc: "accounted before p1" using Cons.prems(2) by (simp add: accounted_def p1_def)
  then have acc2: "accounted (before @ [t]) p2" unfolding p2_def by (rule tag_outcome_accounted)
  have total: "run_total_tags (tp_run p2) = length (before @ [t]) + length ts" using Cons.prems(3) by (simp add: p2_def p1_def)
  have ids: "run_id (tp_run p1) = run_id (tp_run p)" "run_current_tag (tp_run p1) = Some t" "run_id (tp_run p2) = run_id (tp_run p)"
    by (simp_all add: p2_def p1_def tag_outcome_sides mark_tag_started_def) (simp add: push_event_def Let_def)
  have counted: "run_completed_tags (tp_run p2) = Suc (length before)" using acc2 total by (simp add: accounted_def)
  from Cons.IH [OF rest [folded p2_def] acc2 total] obtain p' results where IH: "r = Ok p'" "accounted (before @ t # ts) p'"
      "run_total_tags (tp_run p') = run_total_tags (tp_run p)" "run_id (tp_run p') = run_id (tp_run p)" "map fst results = ts"
      "transfers mm job target (run_id (tp_run p)) (Suc (length before)) results (snd (rms_put_sync_job_run ?node (tp_run p2) w2)) w'"
      "tp_synced p' = tp_synced p2 @ map fst (filter succeeded results)"
      "map fst (tp_failed p') = map fst (tp_failed p2) @ map fst (filter (\<lambda>a. \<not> succeeded a) results)"
    using ids Cons.prems(3) total by fastforce
  have "transfers mm job target (run_id (tp_run p)) (length before) ((t, result) # results) w w'"
    by (rule transfers_tag [OF ids(1,2) _ sync ids(3) counted _ IH(6)]) (simp_all add: w1_def prod_eq_iff)
  then show ?case using IH
    by (intro exI [of _ p'] exI [of _ "(t, result) # results"]) (simp add: p2_def p1_def tag_outcome_sides)
qed

text \<open>The two writes that close a task, and its permit.\<close>

lemma finish_task_eq:
  "finish_task sem mm job target p w = Some (Ok (),
     sem_release sem (snd (rms_put_sync_job_run (mm_node mm)
       (mark_finished (fst (run_outcome p)) (tp_synced p) (tp_failed p) (rn_now (mm_node mm) w) (tp_run p))
       (snd (rms_put_sync_job (mm_node mm) (finished_job job target (rn_now (mm_node mm) w) (snd (run_outcome p))) w)))))"
  by (cases "run_outcome p") (simp add: finish_task_def pio_bind_def [of "pio_run (io_read f)" for f] Let_def persist_bind persist_snd
      pio_bind_def [of "pio_run (io_match m g)" for m g] io_match_def io_return_def io_update_def split: prod.splits)

lemma finished_run_simps:
  "run_tags_synced (mark_finished s ok bad now run) = ok" "run_tags_failed (mark_finished s ok bad now run) = bad"
  "run_status (mark_finished s ok bad now run) = s" "run_finished_at (mark_finished s ok bad now run) = Some now"
  "run_total_tags (mark_finished s ok bad now run) = run_total_tags run"
  "run_completed_tags (mark_finished s ok bad now run) =
     (if run_total_tags run = 0 then 0 else min (length ok + length bad) (run_total_tags run))"
  by (simp_all add: mark_finished_def push_event_def Let_def)

text \<open>How a task leaves things: it writes the job, idle, unclaimed and with the time of its end, then the finished run,
  and gives its permit back.  The first failure is the last error of the job.\<close>

definition closes :: "'w raft_node \<Rightarrow> 'w semaphore \<Rightarrow> sync_job \<Rightarrow> job_target \<Rightarrow> sync_job \<Rightarrow> sync_job_run \<Rightarrow> 'w \<Rightarrow> 'w \<Rightarrow> bool" where
  "closes node sem claimed target job run u w' \<longleftrightarrow>
     w' = sem_release sem (snd (rms_put_sync_job_run node run (snd (rms_put_sync_job node job u)))) \<and>
     sj_id job = sj_id claimed \<and> sj_kind job = sj_kind claimed \<and> sj_rule_id job = sj_rule_id claimed \<and>
     sj_interval_secs job = sj_interval_secs claimed \<and> sj_image job = tg_image target \<and> sj_tags job = tg_tags target \<and>
     sj_status job = Idle \<and> sj_claimed_by job = None \<and> sj_claimed_at job = None \<and>
     sj_last_run_at job = Some (rn_now node u) \<and> run_finished_at run = Some (rn_now node u) \<and>
     sj_next_run_at job = (if sj_interval_secs claimed = 0 then - 1 else rn_now node u + sj_interval_secs claimed) \<and>
     sj_last_error job = map_option snd (find (\<lambda>_. True) (run_tags_failed run)) \<and>
     run_status run = (if run_tags_failed run = [] then RunSucceeded else if run_tags_synced run = [] then RunFailed else RunPartialFailure)"

lemma finish_task_closes:
  assumes "finish_task sem mm job target p u = Some (r, w')"
  shows "\<exists>job' run. r = Ok () \<and> closes (mm_node mm) sem job target job' run u w' \<and>
    run_id run = run_id (tp_run p) \<and> run_tags_synced run = tp_synced p \<and> run_tags_failed run = tp_failed p \<and>
    run_total_tags run = run_total_tags (tp_run p) \<and>
    run_completed_tags run = min (length (tp_synced p) + length (tp_failed p)) (run_total_tags (tp_run p))"
proof -
  have "snd (run_outcome p) = map_option snd (find (\<lambda>_. True) (tp_failed p))"
    "fst (run_outcome p) = (if tp_failed p = [] then RunSucceeded else if tp_synced p = [] then RunFailed else RunPartialFailure)"
    by (auto simp: run_outcome_def split: list.splits)
  moreover have "run_id (mark_finished s ok bad now run) = run_id run" for s ok bad now run
    by (simp add: mark_finished_def)
  ultimately show ?thesis using assms unfolding finish_task_eq closes_def
    by (intro exI [of _ "finished_job job target (rn_now (mm_node mm) u) (snd (run_outcome p))"]
        exI [of _ "mark_finished (fst (run_outcome p)) (tp_synced p) (tp_failed p) (rn_now (mm_node mm) u) (tp_run p)"])
      (auto simp: finished_run_simps finished_job_def)
qed

end
