(* ===== verification/Scheduler_Properties.thy ===== *)
theory Scheduler_Properties
  imports Scheduler Access_Scenario
begin

text \<open>What the scheduler does with the jobs it claims, and when it runs them again.\<close>

definition hourly_rule :: mirror_rule where
  "hourly_rule =
     \<lparr>mr_id = ''r'', mr_direction = DirPull, mr_local_prefix = ''alice/app'', mr_upstream_registry = ''docker.io'', mr_upstream_prefix = None,
      mr_schedule = Some ''0 * * * *'', mr_strategy = StrategyAll, mr_plain_http = False, mr_insecure_tls = False,
      mr_outbound_proxy = \<lparr>op_protocol = ProxyNone, op_url = None, op_username = None, op_password = None\<rparr>,
      mr_username = None, mr_password = None, mr_created_at = 0\<rparr>"

definition hourly_job :: sync_job where
  "hourly_job = mirror_rule_job hourly_rule ''mirror-rule-r'' 100 3600"

definition job_log :: local_log where
  "job_log = [local_entry (ReqJob (PutSyncJob hourly_job)) []]"

text \<open>A semaphore in the memory of the node: an object whose length is the number of free permits, and one that grows
  with every permit given back.\<close>

definition counted :: "string \<Rightarrow> site_world \<Rightarrow> nat" where
  "counted key w = (case mw_objects (snd w) key of None \<Rightarrow> 0 | Some s \<Rightarrow> length s)"

definition set_counted :: "string \<Rightarrow> nat \<Rightarrow> site_world \<Rightarrow> site_world" where
  "set_counted key n w = (fst w, (snd w)\<lparr>mw_objects := (mw_objects (snd w))(key \<mapsto> replicate n (CHR ''x''))\<rparr>)"

definition site_semaphore :: "site_world semaphore" where
  "site_semaphore =
     \<lparr>sem_try_acquire = \<lambda>w. (counted ''free'' w > 0, set_counted ''free'' (counted ''free'' w - 1) w),
      sem_release = \<lambda>w. set_counted ''dropped'' (Suc (counted ''dropped'' w)) (set_counted ''free'' (Suc (counted ''free'' w)) w)\<rparr>"

lemma counted_set [simp]: "counted key (set_counted key' n w) = (if key = key' then n else counted key w)"
  by (simp add: counted_def set_counted_def)

lemma site_writes_apart: "io_rel (same_objects (\<lambda>w. mw_objects (snd w))) (write_job (as_metadata site) req)"
proof -
  have "io_rel (same_objects (\<lambda>w. mw_objects (snd w))) (rn_client_write (as_metadata site) req)"
    "io_rel (same_objects (\<lambda>w. mw_objects (snd w))) (forward_client_write (as_metadata site) addr req)" for addr req
    using pull_mirror_ok(3) by (auto simp: services_apart_def site_def io_rel_def forward_client_write_def same.refl)
  then have "io_rel (same_objects (\<lambda>w. mw_objects (snd w))) (rms_write (as_metadata site) req)" for req
    unfolding rms_write_def
    by (intro same.rels) (auto split: sum.splits client_write_error.splits intro!: same.rels)
  then show ?thesis unfolding write_job_def by (intro same.rels) (auto split: response.splits intro!: same.rels)
qed

lemma site_semaphore_ok: "semaphore_ok site_semaphore site (counted ''free'') (counted ''dropped'')"
proof -
  have "io_rel (same_objects (\<lambda>w. mw_objects (snd w))) (rms_claim_sync_job (as_metadata site) i n)"
    "io_rel (same_objects (\<lambda>w. mw_objects (snd w))) (rms_put_sync_job_run (as_metadata site) run)" for i n run
    unfolding rms_claim_sync_job_def rms_put_sync_job_run_def io_unit_def by (intro same.rels site_writes_apart)+
  then have "counted key (snd (rms_claim_sync_job (as_metadata site) i n w)) = counted key w"
    "counted key (snd (rms_put_sync_job_run (as_metadata site) run w)) = counted key w" for key i n run w
    unfolding counted_def io_rel_def same_objects_def by metis+
  moreover have "snd (as_uuid site w) = w" for w by (simp add: site_def)
  ultimately show ?thesis by (simp add: semaphore_ok_def only_returns_def site_semaphore_def)
qed

section \<open>A run\<close>

text \<open>
  C28: A task that ends has done the following, each in the world the one before has left.  It recorded that it
  resolves its target and resolved it, recorded the outcome, and transferred the resolved tags in their order, with
  the run written before and after each of them and the count of finished tags growing by one.  Then it wrote the
  job, idle, unclaimed and with this time as last run, and the finished run, and gave its permit back.
  The run lists as synced exactly the tags whose transfer succeeded and as failed the others, counts them all, and its
  status says succeeded, partly failed or failed accordingly.  If the target could not be resolved nothing was transferred
  and the run failed with that error as its one entry.
\<close>

theorem sync_run_accounted:
  assumes "run_task render sem mm task w = Some (r, w')"
  shows "\<exists>run1 resolved w2 run2 target results u job run. r = Ok () \<and>
    resolve_target mm (jt_job task) (snd (rms_put_sync_job_run (mm_node mm) run1 w)) = Some (resolved, w2) \<and>
    transfers mm (jt_job task) target (run_id (jt_run task)) 0 results (snd (rms_put_sync_job_run (mm_node mm) run2 w2)) u \<and>
    closes (mm_node mm) sem (jt_job task) target job run u w' \<and>
    list_all (\<lambda>x. run_id x = run_id (jt_run task)) [run1, run2, run] \<and>
    run_tags_synced run = map fst (filter succeeded results) \<and>
    (case resolved of
       Inl e \<Rightarrow> results = [] \<and> run_tags_failed run = [(''resolve'', render (error_display e))]
     | Inr t \<Rightarrow> target = t \<and> map fst results = tg_tags t \<and> map fst (run_tags_failed run) = map fst (filter (\<lambda>a. \<not> succeeded a) results) \<and>
         run_total_tags run = length (tg_tags t) \<and> run_completed_tags run = length (tg_tags t))"
proof -
  let ?job = "jt_job task" and ?node = "mm_node mm"
  define run1 where "run1 = mark_resolution_started (rn_now ?node w) (jt_run task)"
  define w1 where "w1 = snd (rms_put_sync_job_run ?node run1 w)"
  note unfold_run = run_task_def Let_def pio_bind_def [of "pio_run (io_read f)" for f] persist_bind persist_snd pio_match_def
  from assms obtain resolved w2 where res: "resolve_target mm ?job w1 = Some (resolved, w2)"
    by (cases "resolve_target mm ?job w1") (auto simp: unfold_run run1_def w1_def)
  have id1: "run_id run1 = run_id (jt_run task)" by (simp add: run1_def mark_resolution_started_def)
  show ?thesis
  proof (cases resolved)
    case (Inl e)
    define run2 where "run2 = mark_resolution_failed (render (error_display e)) (rn_now ?node w2) run1"
    define p where "p = \<lparr>tp_run = run2, tp_synced = [], tp_failed = [(''resolve'', render (error_display e))]\<rparr>"
    define target where "target = \<lparr>tg_direction = DirPull, tg_image = sj_image ?job, tg_tags = []\<rparr>"
    have id2: "run_id run2 = run_id (jt_run task)" by (simp add: run2_def id1 mark_resolution_failed_def)
    have "finish_task sem mm ?job target p (snd (rms_put_sync_job_run ?node run2 w2)) = Some (r, w')"
      using assms res Inl unfolding unfold_run p_def target_def run2_def by (simp add: run1_def w1_def)
    from finish_task_closes [OF this] show ?thesis
      using res Inl id1 id2 unfolding w1_def
      by (intro exI [of _ run1] exI [of _ resolved] exI [of _ w2] exI [of _ run2] exI [of _ target] exI [of _ "[]"]
          exI [of _ "snd (rms_put_sync_job_run ?node run2 w2)"]) (auto simp: p_def intro: transfers_none)
  next
    case (Inr target)
    define run2 where "run2 = mark_resolution_finished (length (tg_tags target)) (rn_now ?node w2) run1"
    define p0 where "p0 = \<lparr>tp_run = run2, tp_synced = [], tp_failed = []\<rparr>"
    define w3 where "w3 = snd (rms_put_sync_job_run ?node run2 w2)"
    have id2: "run_id run2 = run_id (jt_run task)" by (simp add: run2_def id1 mark_resolution_finished_def)
    have step: "pio_bind (tags_progress render mm ?job target (tg_tags target) p0) (finish_task sem mm ?job target) w3 = Some (r, w')"
      using assms res Inr unfolding unfold_run p0_def run2_def w3_def by (simp add: run1_def w1_def)
    then obtain x u where tp: "tags_progress render mm ?job target (tg_tags target) p0 w3 = Some (x, u)"
      by (cases "tags_progress render mm ?job target (tg_tags target) p0 w3") (auto simp: pio_bind_def)
    have total: "run_total_tags run2 = length (tg_tags target)" and acc: "accounted [] p0"
      by (simp_all add: accounted_def p0_def run2_def mark_resolution_finished_def)
    from tags_progress_transfers [OF tp acc] obtain p results where p: "x = Ok p" "accounted (tg_tags target) p"
        "run_total_tags (tp_run p) = length (tg_tags target)" "run_id (tp_run p) = run_id (jt_run task)" "map fst results = tg_tags target"
        "transfers mm ?job target (run_id (jt_run task)) 0 results w3 u"
        "tp_synced p = map fst (filter succeeded results)" "map fst (tp_failed p) = map fst (filter (\<lambda>a. \<not> succeeded a) results)"
      using total id2 by (auto simp: p0_def)
    from step tp p(1) have "finish_task sem mm ?job target p u = Some (r, w')" by (simp add: pio_bind_def)
    from finish_task_closes [OF this] accounted_length [OF p(2)] p obtain job run where "r = Ok ()" "closes ?node sem ?job target job run u w'"
        "run_id run = run_id (jt_run task)" "run_tags_synced run = map fst (filter succeeded results)"
        "map fst (run_tags_failed run) = map fst (filter (\<lambda>a. \<not> succeeded a) results)"
        "run_total_tags run = length (tg_tags target)" "run_completed_tags run = length (tg_tags target)" by auto
    then show ?thesis using res Inr id1 id2 p(5,6) unfolding w1_def w3_def
      by (intro exI [of _ run1] exI [of _ resolved] exI [of _ w2] exI [of _ run2] exI [of _ target] exI [of _ results] exI [of _ u]
          exI [of _ job] exI [of _ run]) simp
  qed
qed

definition warm_task :: job_task where
  "warm_task =
     \<lparr>jt_job = \<lparr>sj_id = ''w'', sj_kind = LegacyWarm, sj_rule_id = None, sj_rule_name = None, sj_image = ''alice/app'', sj_tags = [''v1''],
        sj_interval_secs = 60, sj_status = Idle, sj_claimed_by = None, sj_claimed_at = None, sj_last_run_at = None, sj_next_run_at = 80,
        sj_last_error = None\<rparr>,
      jt_run = run_running ''r'' ''w'' ''n'' 90\<rparr>"

text \<open>The task is to pull one tag; the site has no rule for it, so the pull finds nothing.\<close>

theorem sync_run_accounted_witness:
  "\<exists>w' results job run u. run_task (\<lambda>m. []) site_semaphore pull_mirror warm_task (job_log, mem_empty) = Some (Ok (), w') \<and>
    closes (mm_node pull_mirror) site_semaphore (jt_job warm_task) \<lparr>tg_direction = DirPull, tg_image = ''alice/app'', tg_tags = [''v1'']\<rparr> job run u w' \<and>
    map fst results = [''v1''] \<and> run_tags_synced run = map fst (filter succeeded results) \<and> run_total_tags run = 1 \<and> counted ''dropped'' w' = 1"
proof -
  let ?run = "run_task (\<lambda>m. []) site_semaphore pull_mirror warm_task (job_log, mem_empty)"
  have "case ?run of None \<Rightarrow> False | Some (r, w') \<Rightarrow> counted ''dropped'' w' = 1" by code_simp
  then obtain r w' where run: "?run = Some (r, w')" "counted ''dropped'' w' = 1" by (auto split: option.splits)
  have target: "resolve_target pull_mirror (jt_job warm_task) v = Some (Ok \<lparr>tg_direction = DirPull, tg_image = ''alice/app'', tg_tags = [''v1'']\<rparr>, v)" for v
    by (simp add: resolve_target_def warm_task_def)
  define t where "t = \<lparr>tg_direction = DirPull, tg_image = ''alice/app'', tg_tags = [''v1'']\<rparr>"
  from sync_run_accounted [OF run(1), unfolded target [folded t_def] option.inject prod.inject] obtain results u job run where "r = Ok ()"
    "closes (mm_node pull_mirror) site_semaphore (jt_job warm_task) t job run u w'"
    "run_tags_synced run = map fst (filter succeeded results)" "map fst results = tg_tags t" "run_total_tags run = length (tg_tags t)"
    by auto
  with run show ?thesis unfolding t_def
    by (intro exI [of _ w'] exI [of _ results] exI [of _ job] exI [of _ run] exI [of _ u]) simp
qed

section \<open>Claims\<close>

text \<open>
  C29: A tick asks for the due jobs of the list in their order, each with a permit taken before.  Its tasks are exactly the
  jobs whose claim the cluster confirmed for this node, with a running run of that job each; for a claim that was
  not won the permit was given back.  It stops early only when no permit was free.  Every permit is accounted for: the free ones at
  the start and those given back meanwhile are the free ones at the end and one for each attempt, so the tasks are no
  more than the free permits and those that tasks gave back.
\<close>

theorem claims_within_permits:
  assumes "semaphore_ok sem st free dropped" and "execute_loop st sem node_id now jobs w = (tasks, w')"
  shows "\<exists>as v. attempts st sem node_id now w as tasks v \<and>
    (map fst as = filter (is_due now) jobs \<and> w' = v \<or>
     strict_prefix (map fst as) (filter (is_due now) jobs) \<and> sem_try_acquire sem v = (False, w') \<and> free w' = 0) \<and>
    map jt_job tasks = map fst (filter (attempt_won st node_id) as) \<and>
    list_all (\<lambda>t. run_job_id (jt_run t) = sj_id (jt_job t) \<and> run_node_id (jt_run t) = node_id \<and> run_status (jt_run t) = RunRunning) tasks \<and>
    dropped w \<le> dropped w' \<and> free w + dropped w' = free w' + dropped w + length as \<and>
    length tasks + length (filter (\<lambda>a. \<not> attempt_won st node_id a) as) \<le> free w + (dropped w' - dropped w)"
proof -
  from execute_loop_attempts [OF assms(2)] obtain as v where as: "attempts st sem node_id now w as tasks v"
    and "end": "map fst as = filter (is_due now) jobs \<and> w' = v \<or>
      strict_prefix (map fst as) (filter (is_due now) jobs) \<and> sem_try_acquire sem v = (False, w')" by blast
  have refused: "free w' = 0 \<and> free v = 0 \<and> dropped w' = dropped v" if "sem_try_acquire sem v = (False, w')"
    using assms(1) that unfolding semaphore_ok_def by (metis bot_nat_0.not_eq_extremum diff_0_eq_0 fst_conv snd_conv)
  have permits: "dropped w \<le> dropped w'" "free w + dropped w' = free w' + dropped w + length as"
    using "end" refused attempts_permits [OF as assms(1)] by auto
  have "length tasks = length (filter (attempt_won st node_id) as)" using attempts_tasks [OF as] by (metis length_map)
  with permits have "length tasks + length (filter (\<lambda>a. \<not> attempt_won st node_id a) as) \<le> free w + (dropped w' - dropped w)"
    using sum_length_filter_compl [of "attempt_won st node_id" as] by linarith
  with as "end" refused attempts_tasks [OF as] attempts_runs [OF as] permits show ?thesis
    by (intro exI [of _ as] exI [of _ v]) auto
qed

theorem claims_within_permits_witness:
  "\<exists>task w'. execute_loop site site_semaphore ''n'' 100 [hourly_job, hourly_job\<lparr>sj_id := ''other''\<rparr>]
      (set_counted ''free'' 1 (job_log, mem_empty)) = ([task], w') \<and>
    run_job_id (jt_run task) = sj_id (jt_job task) \<and> run_node_id (jt_run task) = ''n'' \<and> counted ''free'' w' = 0"
proof -
  let ?jobs = "[hourly_job, hourly_job\<lparr>sj_id := ''other''\<rparr>]" and ?w = "set_counted ''free'' 1 (job_log, mem_empty)"
  obtain tasks w' where run: "execute_loop site site_semaphore ''n'' 100 ?jobs ?w = (tasks, w')"
    by (cases "execute_loop site site_semaphore ''n'' 100 ?jobs ?w")
  have "length (fst (execute_loop site site_semaphore ''n'' 100 ?jobs ?w)) = 1" 
    "counted ''free'' (snd (execute_loop site site_semaphore ''n'' 100 ?jobs ?w)) = 0" by code_simp+
  with run obtain task where "tasks = [task]" "counted ''free'' w' = 0" by (cases tasks) auto
  with claims_within_permits [OF site_semaphore_ok run] run show ?thesis by auto
qed

section \<open>Reconciliation\<close>

text \<open>
  C30: A finished job of a scheduled rule keeps the tags it resolved, which reconciliation compares with the labels
  of the strategy.  Unless the two agree the job is due again at the next reconciliation, whatever interval the
  schedule asks for.
\<close>

theorem rule_rescheduled_at_once:
  assumes "scheduled_mirror_job rule now = Some desired" and "tg_tags target \<noteq> mirror_strategy_labels (mr_strategy rule)"
  shows "\<exists>job'. reconcile_job (finished_job job target finished err) desired = Some job' \<and> is_due now job'"
proof -
  from assms(1) have "sj_tags desired = mirror_strategy_labels (mr_strategy rule)" "sj_next_run_at desired = now" "sj_status desired = Idle"
    by (auto simp: scheduled_mirror_job_def bind_eq_Some_conv mirror_rule_job_def)
  with assms(2) show ?thesis
    by (auto simp: reconcile_job_def job_differs_def finished_job_def is_due_def)
qed

theorem rule_rescheduled_at_once_witness:
  "\<exists>desired job'. scheduled_mirror_job hourly_rule 200 = Some desired \<and>
    reconcile_job (finished_job hourly_job \<lparr>tg_direction = DirPull, tg_image = ''alice/app'', tg_tags = [''v1'']\<rparr> 150 None) desired = Some job' \<and>
    sj_interval_secs job' = 3600 \<and> is_due 200 job'"
proof -
  let ?target = "\<lparr>tg_direction = DirPull, tg_image = ''alice/app'', tg_tags = [''v1'']\<rparr>"
  have "schedule_interval_secs ''0 * * * *'' = Some 3600" by code_simp
  then have desired: "scheduled_mirror_job hourly_rule 200 = Some (mirror_rule_job hourly_rule ''mirror-rule-r'' 200 3600)"
    by (simp add: scheduled_mirror_job_def hourly_rule_def)
  from rule_rescheduled_at_once [OF this, of ?target hourly_job 150 None] desired show ?thesis
    by (auto simp: hourly_rule_def reconcile_job_def mirror_rule_job_def split: if_splits)
qed

end
