(* ===== verification/Admin_Routes.thy ===== *)
theory Admin_Routes
  imports Manifest_Routes Account_Guards
begin

text \<open>
  The admin API (\<^verbatim>\<open>routes/admin.rs\<close>): policy sets, mirror rules, proxy caches, warm images, sync jobs and charts.
  The middleware has checked administrator access for its paths.  A handler answers with a status and the value
  it hands to \<^verbatim>\<open>Json\<close>; the derived serialization of the stored types is not spelled out.  Whether the HTTP client
  accepts the address of a proxy is \<open>net_proxy_config\<close>, the policy validator is the one of the state machine.
\<close>

section \<open>Responses\<close>

definition BUILTIN_POLICY_ID :: string where "BUILTIN_POLICY_ID = ''builtin-authorization''"

record put_policy_set_request =
  pp_name :: string
  pp_cedar_text :: string
  pp_enabled :: "bool option"

record validate_policy_response =
  vp_valid :: bool
  vp_error :: "msg option"

record policy_set_response =
  pr_policy :: policy_set
  pr_editable :: bool
  pr_description :: "string option"

datatype admin_payload =
    NoPayload
  | PolicyPayload policy_set_response
  | PolicyListPayload "policy_set_response list"
  | ValidationPayload validate_policy_response
  | RulePayload mirror_rule
  | RuleListPayload "mirror_rule list"
  | PublicRulePayload mirror_rule_public
  | PublicRuleListPayload "mirror_rule_public list"
  | CachePayload proxy_cache_public
  | CacheListPayload "proxy_cache_public list"
  | WarmPayload warm_image
  | WarmListPayload "warm_image list"
  | JobPayload sync_job
  | JobListPayload "sync_job list"
  | RunListPayload "sync_job_run list"
  | ChartListPayload "helm_chart list"
  | ChartVersionsPayload "helm_chart_version list"

type_synonym admin_response = "nat \<times> admin_payload"

definition from_raft :: "policy_set \<Rightarrow> policy_set_response" where
  "from_raft policy = \<lparr>pr_policy = policy, pr_editable = True, pr_description = None\<rparr>"

definition from_config :: "config_policy_set \<Rightarrow> policy_set_response" where
  "from_config policy =
     \<lparr>pr_policy = \<lparr>ps_id = cps_id policy, ps_name = cps_name policy, ps_source = Config, ps_cedar_text = cps_cedar_text policy,
        ps_enabled = cps_enabled policy, ps_created_by = ''config'', ps_updated_by = ''config'', ps_created_at = 0, ps_updated_at = 0\<rparr>,
      pr_editable = False, pr_description = Some (''Loaded from ['' @ ''[auth.policy_sets]'' @ ''] in the node config.'')\<rparr>"

definition builtin_authorization :: policy_set_response where
  "builtin_authorization =
     \<lparr>pr_policy = \<lparr>ps_id = BUILTIN_POLICY_ID, ps_name = ''Builtin authorization inputs'', ps_source = Builtin, ps_cedar_text = [],
        ps_enabled = True, ps_created_by = ''builtin'', ps_updated_by = ''builtin'', ps_created_at = 0, ps_updated_at = 0\<rparr>,
      pr_editable = False,
      pr_description = Some ''Namespace ownership, namespace grants, token scopes, and Rust safety guards are synthesized at authorization time.''\<rparr>"

definition config_policies :: "'w app_state \<Rightarrow> config_policy_set list" where
  "config_policies st = (case as_auth st of None \<Rightarrow> [] | Some au \<Rightarrow> cfg_policy_sets (au_config au))"

definition effective_static_policy :: "'w app_state \<Rightarrow> string \<Rightarrow> policy_set_response option" where
  "effective_static_policy st i =
     (if as_auth st = None then None
      else if i = BUILTIN_POLICY_ID then Some builtin_authorization
      else map_option from_config (find (\<lambda>p. cps_id p = i) (config_policies st)))"

section \<open>Validation\<close>

definition required_field :: "string \<Rightarrow> string \<Rightarrow> unit lh_result" where
  "required_field v field_name = (if trim v = [] then Err (NameInvalid [Disp field_name, Lit '' is required'']) else Ok ())"

definition normalize_optional :: "string option \<Rightarrow> string option" where
  "normalize_optional v = Option.bind v (\<lambda>s. let t = trim s in if t = [] then None else Some t)"

definition normalize_optional_prefix :: "string option \<Rightarrow> string option" where
  "normalize_optional_prefix v = Option.bind v (\<lambda>s. let t = Mirror_Rules.trim_slashes (trim s) in if t = [] then None else Some t)"

definition normalize_registry :: "string \<Rightarrow> string" where
  "normalize_registry v = Request_Paths.trim_slashes (trim v)"

definition checked_proxy :: "'w upstream_net \<Rightarrow> string \<Rightarrow> outbound_proxy \<Rightarrow> outbound_proxy lh_result" where
  "checked_proxy net what proxy =
     res_bind (ok_or (op_url proxy) (NameInvalid [Lit (''outbound_proxy.url is required for '' @ what @ '' proxy'')])) (\<lambda>url.
       case net_proxy_config net (op_protocol proxy) url of
         Inl e \<Rightarrow> Err (NameInvalid e)
       | Inr _ \<Rightarrow> Ok proxy)"

definition validate_outbound_proxy :: "'w upstream_net \<Rightarrow> outbound_proxy \<Rightarrow> outbound_proxy lh_result" where
  "validate_outbound_proxy net proxy0 =
     (let proxy = proxy0\<lparr>op_url := normalize_optional (op_url proxy0), op_username := normalize_optional (op_username proxy0),
          op_password := normalize_optional (op_password proxy0)\<rparr> in
      case op_protocol proxy of
        ProxyNone \<Rightarrow> Ok (proxy\<lparr>op_url := None, op_username := None, op_password := None\<rparr>)
      | ProxyHttp \<Rightarrow> checked_proxy net ''HTTP'' proxy
      | ProxySocks4 \<Rightarrow> checked_proxy net ''SOCKS4'' proxy
      | ProxySocks5 \<Rightarrow> checked_proxy net ''SOCKS5h'' proxy
      | ProxyHttps \<Rightarrow> Err (NameInvalid [Lit ''HTTPS outbound proxy is deferred until aioduct exposes HTTPS proxy support'']))"

fun validate_strategy :: "mirror_strategy \<Rightarrow> unit lh_result" where
  "validate_strategy StrategyAll = Ok ()"
| "validate_strategy (StrategyLatest count0) =
     (if count0 > 0 then Ok () else Err (NameInvalid [Lit ''strategy.count must be greater than zero'']))"
| "validate_strategy (StrategyPattern pattern) =
     (if trim pattern \<noteq> [] then Ok () else Err (NameInvalid [Lit ''strategy.pattern is required'']))"

fun validate_warm_filter :: "warm_filter \<Rightarrow> unit lh_result" where
  "validate_warm_filter WarmNone = Ok ()"
| "validate_warm_filter WarmAll = Ok ()"
| "validate_warm_filter (WarmLatest count0 _) =
     (if count0 > 0 then Ok () else Err (NameInvalid [Lit ''warm_filters.latest.count must be greater than zero'']))"
| "validate_warm_filter (WarmPattern pattern) =
     (if trim pattern \<noteq> [] then Ok () else Err (NameInvalid [Lit ''warm_filters.pattern is required'']))"

fun each_warm_filter :: "warm_filter list \<Rightarrow> unit lh_result" where
  "each_warm_filter [] = Ok ()"
| "each_warm_filter (f # fs) = res_bind (validate_warm_filter f) (\<lambda>_. each_warm_filter fs)"

definition validate_warm_filters :: "warm_filter list \<Rightarrow> unit lh_result" where
  "validate_warm_filters filters =
     (if WarmNone \<in> set filters \<and> length filters > 1 then Err (NameInvalid [Lit ''warm_filters.none is exclusive''])
      else each_warm_filter filters)"

definition exclusive_tls :: "bool \<Rightarrow> bool \<Rightarrow> unit lh_result" where
  "exclusive_tls plain_http insecure_tls =
     (if plain_http \<and> insecure_tls then Err (NameInvalid [Lit ''plain_http and insecure_tls are mutually exclusive'']) else Ok ())"

definition validate_mirror_rule :: "'w upstream_net \<Rightarrow> mirror_rule \<Rightarrow> mirror_rule lh_result" where
  "validate_mirror_rule net rule =
     (let registry = normalize_registry (mr_upstream_registry rule) in
      res_bind (required_field (mr_id rule) ''id'') (\<lambda>_.
      res_bind (required_field (mr_local_prefix rule) ''local_prefix'') (\<lambda>_.
      res_bind (required_field registry ''upstream_registry'') (\<lambda>_.
      res_bind (exclusive_tls (mr_plain_http rule) (mr_insecure_tls rule)) (\<lambda>_.
      res_bind (validate_strategy (mr_strategy rule)) (\<lambda>_.
      res_bind (validate_outbound_proxy net (mr_outbound_proxy rule)) (\<lambda>proxy.
        Ok (rule\<lparr>mr_upstream_registry := registry, mr_upstream_prefix := normalize_optional_prefix (mr_upstream_prefix rule),
          mr_schedule := normalize_optional (mr_schedule rule), mr_username := normalize_optional (mr_username rule),
          mr_password := normalize_optional (mr_password rule), mr_outbound_proxy := proxy\<rparr>))))))))"

definition validate_proxy_cache :: "'w upstream_net \<Rightarrow> proxy_cache \<Rightarrow> proxy_cache lh_result" where
  "validate_proxy_cache net cache =
     (let registry = normalize_registry (pc_upstream_registry cache) in
      res_bind (required_field (pc_id cache) ''id'') (\<lambda>_.
      res_bind (required_field (pc_local_prefix cache) ''local_prefix'') (\<lambda>_.
      res_bind (required_field registry ''upstream_registry'') (\<lambda>_.
      res_bind (exclusive_tls (pc_plain_http cache) (pc_insecure_tls cache)) (\<lambda>_.
      res_bind (validate_warm_filters (pc_warm_filters cache)) (\<lambda>_.
      res_bind (validate_outbound_proxy net (pc_outbound_proxy cache)) (\<lambda>proxy.
        Ok (cache\<lparr>pc_upstream_registry := registry, pc_upstream_prefix := normalize_optional_prefix (pc_upstream_prefix cache),
          pc_warm_schedule := normalize_optional (pc_warm_schedule cache), pc_username := normalize_optional (pc_username cache),
          pc_password := normalize_optional (pc_password cache), pc_outbound_proxy := proxy\<rparr>))))))))"

definition policy_actor :: "auth_identity option \<Rightarrow> subject" where
  "policy_actor identity = (case identity of None \<Rightarrow> ''admin-api'' | Some i \<Rightarrow> ai_subject i)"

definition policy_text_result :: "'w app_state \<Rightarrow> string \<Rightarrow> (unit, msg) result" where
  "policy_text_result st text = env_validate_policy_text (rn_env (as_metadata st)) text"

definition validate_policy_fields :: "'w app_state \<Rightarrow> string \<Rightarrow> put_policy_set_request \<Rightarrow> unit lh_result" where
  "validate_policy_fields st i req =
     res_bind (required_field i ''id'') (\<lambda>_.
     res_bind (required_field (pp_name req) ''name'') (\<lambda>_.
     res_bind (required_field (pp_cedar_text req) ''cedar_text'') (\<lambda>_.
       case policy_text_result st (pp_cedar_text req) of Inl e \<Rightarrow> Err (NameInvalid e) | Inr u \<Rightarrow> Ok u)))"

definition validate_policy_text_response :: "'w app_state \<Rightarrow> string \<Rightarrow> validate_policy_response" where
  "validate_policy_text_response st text =
     (if trim text = [] then \<lparr>vp_valid = False, vp_error = Some [Lit ''cedar_text is required'']\<rparr>
      else case policy_text_result st text of
          Inr _ \<Rightarrow> \<lparr>vp_valid = True, vp_error = None\<rparr>
        | Inl e \<Rightarrow> \<lparr>vp_valid = False, vp_error = Some e\<rparr>)"

section \<open>Policy sets\<close>

definition admin_list_policy_sets :: "'w app_state \<Rightarrow> ('w, admin_response) io" where
  "admin_list_policy_sets st =
     io_bind (rms_list_policy_sets (as_metadata st)) (\<lambda>stored.
       io_return (200, PolicyListPayload
         ((if as_auth st = None then [] else builtin_authorization # map from_config (config_policies st)) @ map from_raft stored)))"

definition found_or_unknown :: "('w, 'a option) io \<Rightarrow> string \<Rightarrow> ('a \<Rightarrow> admin_payload) \<Rightarrow> ('w, admin_response) io" where
  "found_or_unknown m i payload =
     io_bind m (\<lambda>found. case found of Some a \<Rightarrow> io_return (200, payload a) | None \<Rightarrow> io_fail (NameUnknown [Disp i]))"

definition admin_get_policy_set :: "'w app_state \<Rightarrow> string \<Rightarrow> ('w, admin_response) io" where
  "admin_get_policy_set st i =
     (case effective_static_policy st i of
        Some policy \<Rightarrow> io_return (200, PolicyPayload policy)
      | None \<Rightarrow> found_or_unknown (rms_get_policy_set (as_metadata st) i) i (\<lambda>p. PolicyPayload (from_raft p)))"

definition reject_reserved_policy_id :: "'w app_state \<Rightarrow> string \<Rightarrow> unit lh_result" where
  "reject_reserved_policy_id st i =
     (if i = BUILTIN_POLICY_ID \<or> list_ex (\<lambda>p. cps_id p = i) (config_policies st)
      then Err (NameInvalid [Lit ''only Raft policy sets can be mutated through the admin API'']) else Ok ())"

definition new_policy_set ::
  "string \<Rightarrow> put_policy_set_request \<Rightarrow> subject \<Rightarrow> policy_set option \<Rightarrow> u64 \<Rightarrow> policy_set" where
  "new_policy_set i req who existing now =
     \<lparr>ps_id = i, ps_name = trim (pp_name req), ps_source = Raft, ps_cedar_text = pp_cedar_text req,
      ps_enabled = (case pp_enabled req of None \<Rightarrow> True | Some b \<Rightarrow> b),
      ps_created_by = (case existing of None \<Rightarrow> who | Some p \<Rightarrow> ps_created_by p), ps_updated_by = who,
      ps_created_at = (case existing of None \<Rightarrow> now | Some p \<Rightarrow> ps_created_at p), ps_updated_at = now\<rparr>"

definition admin_put_policy_set ::
  "'w app_state \<Rightarrow> auth_identity option \<Rightarrow> string \<Rightarrow> put_policy_set_request \<Rightarrow> ('w, admin_response) io" where
  "admin_put_policy_set st identity i req =
     io_bind (io_result (validate_policy_fields st i req)) (\<lambda>_.
     io_bind (io_result (reject_reserved_policy_id st i)) (\<lambda>_.
     io_bind (rms_get_policy_set (as_metadata st) i) (\<lambda>existing.
     io_bind (io_read (rn_now (as_metadata st))) (\<lambda>now.
     io_bind (rms_put_policy_set (as_metadata st) (new_policy_set i req (policy_actor identity) existing now)) (\<lambda>_.
       io_return (200, NoPayload))))))"

definition admin_validate_policy_set :: "'w app_state \<Rightarrow> string \<Rightarrow> ('w, admin_response) io" where
  "admin_validate_policy_set st text = io_return (200, ValidationPayload (validate_policy_text_response st text))"

definition admin_delete_policy_set :: "'w app_state \<Rightarrow> string \<Rightarrow> ('w, admin_response) io" where
  "admin_delete_policy_set st i =
     io_bind (io_result (reject_reserved_policy_id st i)) (\<lambda>_.
     io_bind (rms_delete_policy_set (as_metadata st) i) (\<lambda>_. io_return (204, NoPayload)))"

section \<open>Mirror rules and proxy caches\<close>

definition secrets_wanted :: "bool option \<Rightarrow> bool" where
  "secrets_wanted include_secrets = (case include_secrets of None \<Rightarrow> False | Some b \<Rightarrow> b)"

definition admin_list_rules :: "'w app_state \<Rightarrow> bool option \<Rightarrow> ('w, admin_response) io" where
  "admin_list_rules st include_secrets =
     io_bind (rms_list_mirror_rules (as_metadata st)) (\<lambda>rules.
       io_return (200, if secrets_wanted include_secrets then RuleListPayload rules
         else PublicRuleListPayload (map mirror_rule_public_from rules)))"

definition admin_get_rule :: "'w app_state \<Rightarrow> string \<Rightarrow> bool option \<Rightarrow> ('w, admin_response) io" where
  "admin_get_rule st i include_secrets =
     found_or_unknown (rms_get_mirror_rule (as_metadata st) i) i (\<lambda>rule.
       if secrets_wanted include_secrets then RulePayload rule else PublicRulePayload (mirror_rule_public_from rule))"

definition admin_put_rule :: "'w app_state \<Rightarrow> string \<Rightarrow> mirror_rule \<Rightarrow> ('w, admin_response) io" where
  "admin_put_rule st i rule0 =
     io_bind (io_result (validate_mirror_rule (mm_net (as_mirror st)) (rule0\<lparr>mr_id := i\<rparr>))) (\<lambda>rule1.
     io_bind (io_read (rn_now (as_metadata st))) (\<lambda>now.
     let rule = (if mr_created_at rule1 = 0 then rule1\<lparr>mr_created_at := now\<rparr> else rule1) in
     io_bind (rms_put_mirror_rule (as_metadata st) rule) (\<lambda>_.
     io_bind (invalidate_rules_cache (as_mirror st)) (\<lambda>_. io_return (200, NoPayload)))))"

definition admin_delete_rule :: "'w app_state \<Rightarrow> string \<Rightarrow> ('w, admin_response) io" where
  "admin_delete_rule st i =
     io_bind (rms_delete_mirror_rule (as_metadata st) i) (\<lambda>_.
     io_bind (invalidate_rules_cache (as_mirror st)) (\<lambda>_. io_return (204, NoPayload)))"

definition admin_trigger_rule :: "'w app_state \<Rightarrow> string \<Rightarrow> ('w, admin_response) io" where
  "admin_trigger_rule st i = found_or_unknown (rms_trigger_mirror_rule (as_metadata st) i) i JobPayload"

definition admin_list_proxy_caches :: "'w app_state \<Rightarrow> ('w, admin_response) io" where
  "admin_list_proxy_caches st =
     io_bind (rms_list_proxy_caches (as_metadata st)) (\<lambda>caches.
       io_return (200, CacheListPayload (map proxy_cache_public_from caches)))"

definition admin_get_proxy_cache :: "'w app_state \<Rightarrow> string \<Rightarrow> ('w, admin_response) io" where
  "admin_get_proxy_cache st i =
     found_or_unknown (rms_get_proxy_cache (as_metadata st) i) i (\<lambda>c. CachePayload (proxy_cache_public_from c))"

definition admin_put_proxy_cache :: "'w app_state \<Rightarrow> string \<Rightarrow> proxy_cache \<Rightarrow> ('w, admin_response) io" where
  "admin_put_proxy_cache st i cache0 =
     io_bind (io_result (validate_proxy_cache (mm_net (as_mirror st)) (cache0\<lparr>pc_id := i\<rparr>))) (\<lambda>cache1.
     io_bind (io_read (rn_now (as_metadata st))) (\<lambda>now.
     let cache = (if pc_created_at cache1 = 0 then cache1\<lparr>pc_created_at := now\<rparr> else cache1) in
     io_bind (rms_put_proxy_cache (as_metadata st) cache) (\<lambda>_.
     io_bind (invalidate_proxy_cache (as_mirror st)) (\<lambda>_. io_return (200, NoPayload)))))"

definition admin_delete_proxy_cache :: "'w app_state \<Rightarrow> string \<Rightarrow> ('w, admin_response) io" where
  "admin_delete_proxy_cache st i =
     io_bind (rms_delete_proxy_cache (as_metadata st) i) (\<lambda>_.
     io_bind (invalidate_proxy_cache (as_mirror st)) (\<lambda>_. io_return (204, NoPayload)))"

definition admin_trigger_proxy_cache_warm :: "'w app_state \<Rightarrow> string \<Rightarrow> ('w, admin_response) io" where
  "admin_trigger_proxy_cache_warm st i = found_or_unknown (rms_trigger_proxy_cache_warm (as_metadata st) i) i JobPayload"

section \<open>Warm images, jobs and charts\<close>

definition admin_list_warm :: "'w app_state \<Rightarrow> ('w, admin_response) io" where
  "admin_list_warm st = io_bind (rms_list_warm_images (as_metadata st)) (\<lambda>images. io_return (200, WarmListPayload images))"

definition admin_get_warm :: "'w app_state \<Rightarrow> string \<Rightarrow> ('w, admin_response) io" where
  "admin_get_warm st i = found_or_unknown (rms_get_warm_image (as_metadata st) i) i WarmPayload"

definition admin_put_warm :: "'w app_state \<Rightarrow> string \<Rightarrow> warm_image \<Rightarrow> ('w, admin_response) io" where
  "admin_put_warm st i warm =
     io_bind (rms_put_warm_image (as_metadata st) (warm\<lparr>wi_id := i\<rparr>)) (\<lambda>_. io_return (200, NoPayload))"

definition admin_delete_warm :: "'w app_state \<Rightarrow> string \<Rightarrow> ('w, admin_response) io" where
  "admin_delete_warm st i = io_bind (rms_delete_warm_image (as_metadata st) i) (\<lambda>_. io_return (204, NoPayload))"

definition admin_list_jobs :: "'w app_state \<Rightarrow> ('w, admin_response) io" where
  "admin_list_jobs st = io_bind (rms_list_sync_jobs (as_metadata st)) (\<lambda>jobs. io_return (200, JobListPayload jobs))"

definition admin_get_job :: "'w app_state \<Rightarrow> string \<Rightarrow> ('w, admin_response) io" where
  "admin_get_job st i = found_or_unknown (rms_get_sync_job (as_metadata st) i) i JobPayload"

definition admin_trigger_job :: "'w app_state \<Rightarrow> string \<Rightarrow> ('w, admin_response) io" where
  "admin_trigger_job st i =
     io_bind (rms_trigger_sync_job (as_metadata st) i) (\<lambda>triggered.
       if triggered then io_return (200, NoPayload) else io_fail (NameUnknown [Disp i]))"

definition runs_limit :: "string option \<Rightarrow> nat" where
  "runs_limit limit = (case Option.bind limit parse_u64 of None \<Rightarrow> 20 | Some n \<Rightarrow> unat n)"

definition admin_list_job_runs :: "'w app_state \<Rightarrow> string \<Rightarrow> string option \<Rightarrow> ('w, admin_response) io" where
  "admin_list_job_runs st i limit =
     io_bind (rms_list_sync_job_runs (as_metadata st) i (runs_limit limit)) (\<lambda>runs. io_return (200, RunListPayload runs))"

definition admin_list_helm_charts :: "'w app_state \<Rightarrow> ('w, admin_response) io" where
  "admin_list_helm_charts st = io_bind (rms_list_helm_charts (as_metadata st)) (\<lambda>charts. io_return (200, ChartListPayload charts))"

definition admin_list_helm_versions :: "'w app_state \<Rightarrow> string \<Rightarrow> ('w, admin_response) io" where
  "admin_list_helm_versions st name =
     found_or_unknown (rms_list_helm_chart_versions (as_metadata st) name) name ChartVersionsPayload"

section \<open>Accepted rules\<close>

text \<open>What the rest of the server may rely on about a rule or a proxy cache that the admin API has accepted.\<close>

definition present :: "string option \<Rightarrow> bool" where
  "present v = (case v of None \<Rightarrow> True | Some s \<Rightarrow> s \<noteq> [] \<and> trim s = s)"

definition proxy_usable :: "'w upstream_net \<Rightarrow> outbound_proxy \<Rightarrow> bool" where
  "proxy_usable net p = (case op_protocol p of
      ProxyNone \<Rightarrow> op_url p = None \<and> op_username p = None \<and> op_password p = None
    | ProxyHttps \<Rightarrow> False
    | protocol \<Rightarrow> (\<exists>url. op_url p = Some url \<and> trim url \<noteq> [] \<and> net_proxy_config net protocol url = Ok ()))"

fun strategy_effective :: "mirror_strategy \<Rightarrow> bool" where
  "strategy_effective StrategyAll = True"
| "strategy_effective (StrategyLatest n) = (n \<noteq> 0)"
| "strategy_effective (StrategyPattern pattern) = (trim pattern \<noteq> [])"

definition slash_free_ends :: "string option \<Rightarrow> bool" where
  "slash_free_ends v = (case v of None \<Rightarrow> True | Some s \<Rightarrow> s \<noteq> [] \<and> \<not> starts_with ''/'' s \<and> \<not> ends_with ''/'' s)"

definition rule_accepted :: "'w upstream_net \<Rightarrow> mirror_rule \<Rightarrow> bool" where
  "rule_accepted net rule \<longleftrightarrow>
     trim (mr_id rule) \<noteq> [] \<and> trim (mr_local_prefix rule) \<noteq> [] \<and> trim (mr_upstream_registry rule) \<noteq> [] \<and>
     \<not> ends_with ''/'' (mr_upstream_registry rule) \<and> slash_free_ends (mr_upstream_prefix rule) \<and>
     present (mr_schedule rule) \<and> present (mr_username rule) \<and> present (mr_password rule) \<and>
     \<not> (mr_plain_http rule \<and> mr_insecure_tls rule) \<and> strategy_effective (mr_strategy rule) \<and> proxy_usable net (mr_outbound_proxy rule)"

definition cache_accepted :: "'w upstream_net \<Rightarrow> proxy_cache \<Rightarrow> bool" where
  "cache_accepted net cache \<longleftrightarrow>
     trim (pc_id cache) \<noteq> [] \<and> trim (pc_local_prefix cache) \<noteq> [] \<and> trim (pc_upstream_registry cache) \<noteq> [] \<and>
     \<not> ends_with ''/'' (pc_upstream_registry cache) \<and> slash_free_ends (pc_upstream_prefix cache) \<and>
     present (pc_warm_schedule cache) \<and> present (pc_username cache) \<and> present (pc_password cache) \<and>
     \<not> (pc_plain_http cache \<and> pc_insecure_tls cache) \<and>
     (WarmNone \<in> set (pc_warm_filters cache) \<longrightarrow> pc_warm_filters cache = [WarmNone]) \<and>
     (\<forall>n r. WarmLatest n r \<in> set (pc_warm_filters cache) \<longrightarrow> n \<noteq> 0) \<and>
     (\<forall>p. WarmPattern p \<in> set (pc_warm_filters cache) \<longrightarrow> trim p \<noteq> []) \<and> proxy_usable net (pc_outbound_proxy cache)"

lemma present_normalized [simp]: "present (normalize_optional v)"
  by (auto simp: present_def normalize_optional_def bind_eq_Some_conv trim_idem Let_def split: option.splits if_splits)

lemma drop_slashes_hd: "\<not> starts_with ''/'' (dropWhile (\<lambda>c. c = CHR ''/'') s)"
  by (induction s) (auto simp: starts_with_iff)

lemma drop_slashes_last: "\<not> ends_with ''/'' (rev (dropWhile (\<lambda>c. c = CHR ''/'') s))"
  by (induction s) (auto simp: ends_with_iff)

lemma registry_normalized [simp]: "\<not> ends_with ''/'' (normalize_registry v)"
  unfolding normalize_registry_def Request_Paths.trim_slashes_def by (rule drop_slashes_last)

lemma drop_slashes_end_hd:
  assumes "\<not> starts_with ''/'' s"
  shows "\<not> starts_with ''/'' (rev (dropWhile (\<lambda>c. c = CHR ''/'') (rev s)))"
proof -
  have "s = rev (dropWhile (\<lambda>c. c = CHR ''/'') (rev s)) @ rev (takeWhile (\<lambda>c. c = CHR ''/'') (rev s))"
    by (metis rev_append rev_rev_ident takeWhile_dropWhile_id)
  with assms show ?thesis by (metis starts_with_iff append_assoc)
qed

lemma trim_slashes_ends: "\<not> starts_with ''/'' (Mirror_Rules.trim_slashes s)" "\<not> ends_with ''/'' (Mirror_Rules.trim_slashes s)"
  unfolding Mirror_Rules.trim_slashes_def by (rule drop_slashes_end_hd [OF drop_slashes_hd] drop_slashes_last)+

lemma prefix_normalized [simp]: "slash_free_ends (normalize_optional_prefix v)"
  by (cases v) (simp_all add: slash_free_ends_def normalize_optional_prefix_def Let_def trim_slashes_ends)

lemma required_Ok [simp]: "required_field v f = Ok u \<longleftrightarrow> trim v \<noteq> []"
  by (simp add: required_field_def)

lemma exclusive_tls_Ok [simp]: "exclusive_tls a b = Ok u \<longleftrightarrow> \<not> (a \<and> b)"
  by (simp add: exclusive_tls_def)

lemma validate_strategy_Ok: "validate_strategy s = Ok u \<Longrightarrow> strategy_effective s"
  by (cases s) (auto split: if_splits)

lemma checked_proxy_Ok:
  "checked_proxy net what p = Ok q \<longleftrightarrow> q = p \<and> (\<exists>url. op_url p = Some url \<and> net_proxy_config net (op_protocol p) url = Ok ())"
  by (auto simp: checked_proxy_def ok_or_def split: option.splits sum.splits)

lemma normalized_url: "normalize_optional v = Some url \<Longrightarrow> trim url \<noteq> []"
  by (auto simp: normalize_optional_def bind_eq_Some_conv Let_def trim_idem split: if_splits)

lemma validate_outbound_proxy_Ok: "validate_outbound_proxy net p = Ok q \<Longrightarrow> proxy_usable net q"
  by (auto simp: validate_outbound_proxy_def proxy_usable_def checked_proxy_Ok Let_def normalized_url
      split: outbound_proxy_protocol.splits)

lemma validate_mirror_rule_Ok:
  "validate_mirror_rule net rule = Ok rule' \<Longrightarrow> rule_accepted net rule' \<and> mr_id rule' = mr_id rule \<and> mr_created_at rule' = mr_created_at rule"
  by (auto simp: validate_mirror_rule_def rule_accepted_def Let_def res_bind_eq_Ok validate_outbound_proxy_Ok
      intro: validate_strategy_Ok)

lemma each_warm_filter_Ok: "each_warm_filter fs = Ok u \<longleftrightarrow> (\<forall>f \<in> set fs. validate_warm_filter f = Ok u)"
  by (induction fs) auto

lemma single_none: "WarmNone \<in> set fs \<Longrightarrow> \<not> 1 < length fs \<Longrightarrow> fs = [WarmNone]"
  by (cases fs) (auto simp: less_Suc_eq_0_disj)

lemma validate_proxy_cache_Ok:
  assumes "validate_proxy_cache net cache = Ok cache'"
  shows "cache_accepted net cache' \<and> pc_id cache' = pc_id cache \<and> pc_created_at cache' = pc_created_at cache"
proof -
  have filters: "validate_warm_filters (pc_warm_filters cache) = Ok ()" and same: "pc_warm_filters cache' = pc_warm_filters cache"
    using assms by (auto simp: validate_proxy_cache_def Let_def)
  from filters have fine: "WarmNone \<in> set (pc_warm_filters cache) \<Longrightarrow> \<not> 1 < length (pc_warm_filters cache)"
    and each: "\<forall>f \<in> set (pc_warm_filters cache). validate_warm_filter f = Ok ()"
    by (auto simp: validate_warm_filters_def each_warm_filter_Ok split: if_splits)
  have "WarmNone \<in> set (pc_warm_filters cache) \<longrightarrow> pc_warm_filters cache = [WarmNone]" using fine single_none by blast
  moreover have "\<forall>n r. WarmLatest n r \<in> set (pc_warm_filters cache) \<longrightarrow> n \<noteq> 0"
    using each by (metis validate_warm_filter.simps(3) word_neq_0_conv sum.distinct(1))
  moreover have "\<forall>p. WarmPattern p \<in> set (pc_warm_filters cache) \<longrightarrow> trim p \<noteq> []"
    using each by (metis validate_warm_filter.simps(4) sum.distinct(1))
  ultimately show ?thesis
    using assms same by (auto simp: validate_proxy_cache_def cache_accepted_def Let_def validate_outbound_proxy_Ok)
qed

text \<open>
  A client can be built for every usable proxy: the checks that the mirror client makes on its own are among
  those of the admin API, and only the construction of the HTTP client itself can still fail.
\<close>

lemma usable_proxy_client:
  assumes "proxy_usable net (ur_outbound_proxy u)" and "http_for net u w = (Err e, w')"
  shows "\<exists>m. e = Upstream (Lit ''HTTP client: '' # m)"
  using assms by (auto simp: proxy_usable_def http_for_def build_http_client_def Let_def
      split: if_splits option.splits sum.splits outbound_proxy_protocol.splits)

lemma make_ref_proxy [simp]:
  "ur_outbound_proxy (make_upstream_ref rule repo) = mr_outbound_proxy rule"
  "ur_outbound_proxy (make_proxy_upstream_ref cache repo) = pc_outbound_proxy cache"
  by (simp_all add: make_upstream_ref_def make_proxy_upstream_ref_def upstream_ref_new_def Let_def)

text \<open>The writes of the handlers and what is committed when they are acknowledged.\<close>

lemma put_rule_committed:
  assumes ok: "raft_ok node log" and put: "rms_put_mirror_rule node rule w = (Ok (), w')"
  shows "\<exists>es later data rs. log w' = log w @ es @ later \<and> apply_entries (rn_env node) empty_state (log w @ es) = Some (data, rs) \<and>
    bt_get (mirror_rules data) (mr_id rule) = Some rule"
proof -
  from put obtain x where "rms_write node (ReqMirrorConfig (PutMirrorRule rule)) w = (Ok (RespMirrorConfig x), w')"
    unfolding rms_put_mirror_rule_def io_unit_def write_mirror_config_def by (elim io_bindE) (auto split: response.splits)
  from rms_write_Ok [OF ok this] obtain others now e later data rs data' where
    "log w' = log w @ (others @ [(now, e)]) @ later"
    "apply_entries (rn_env node) empty_state (log w @ others @ [(now, e)]) = Some (data', rs @ [RespMirrorConfig x])"
    "apply_request (rn_env node) now (data\<lparr>last_applied_log := Some (le_log_id e)\<rparr>) (ReqMirrorConfig (PutMirrorRule rule)) = Some (data', RespMirrorConfig x)"
    by (elim answers_applied) blast
  moreover from this(3) have "bt_get (mirror_rules data') (mr_id rule) = Some rule" by auto
  ultimately show ?thesis by blast
qed

lemma put_rule_Ok:
  assumes "admin_put_rule st i rule0 w = (Ok resp, w')"
  obtains rule w1 where "rule_accepted (mm_net (as_mirror st)) rule" "mr_id rule = i"
    "mr_created_at rule = (if mr_created_at rule0 = 0 then rn_now (as_metadata st) w else mr_created_at rule0)"
    "rms_put_mirror_rule (as_metadata st) rule w = (Ok (), w1)" "invalidate_rules_cache (as_mirror st) w1 = (Ok (), w')"
    "resp = (200, NoPayload)"
proof -
  obtain rule1 where v: "validate_mirror_rule (mm_net (as_mirror st)) (rule0\<lparr>mr_id := i\<rparr>) = Ok rule1"
    and rest: "io_bind (io_read (rn_now (as_metadata st))) (\<lambda>now.
     let rule = (if mr_created_at rule1 = 0 then rule1\<lparr>mr_created_at := now\<rparr> else rule1) in
     io_bind (rms_put_mirror_rule (as_metadata st) rule) (\<lambda>_.
     io_bind (invalidate_rules_cache (as_mirror st)) (\<lambda>_. io_return (200, NoPayload)))) w = (Ok resp, w')"
    using assms unfolding admin_put_rule_def by (elim io_bindE) auto
  define rule where "rule = (if mr_created_at rule1 = 0 then rule1\<lparr>mr_created_at := rn_now (as_metadata st) w\<rparr> else rule1)"
  from validate_mirror_rule_Ok [OF v] have "rule_accepted (mm_net (as_mirror st)) rule1" "mr_id rule1 = i" "mr_created_at rule1 = mr_created_at rule0" by simp_all
  then have "rule_accepted (mm_net (as_mirror st)) rule" "mr_id rule = i"
    "mr_created_at rule = (if mr_created_at rule0 = 0 then rn_now (as_metadata st) w else mr_created_at rule0)"
    by (simp_all add: rule_def rule_accepted_def)
  moreover from rest obtain w1 where "rms_put_mirror_rule (as_metadata st) rule w = (Ok (), w1)"
    "invalidate_rules_cache (as_mirror st) w1 = (Ok (), w')" "resp = (200, NoPayload)"
    unfolding Let_def by (auto simp: io_bind_eq_Ok rule_def)
  ultimately show ?thesis by (rule that)
qed

end
