(* ===== verification/Admin_Properties.thy ===== *)
theory Admin_Properties
  imports Admin_Routes Access_Scenario
begin

text \<open>What the admin API guarantees about the mirror rules it accepts.\<close>

text \<open>
  C31: A mirror rule that the admin API acknowledges is in the committed log under the id of the request path,
  with its required fields filled, its registry and prefix free of outer slashes, an effective strategy, an
  outbound proxy that the HTTP client accepts, and the creation time it came with or the current one.
  A mirror client for any repository of it is refused only by the construction of the HTTP client itself.
  The next reading of the rules asks the replicated state, not the rules cached before.
\<close>

theorem accepted_rule_usable:
  assumes raft: "raft_ok (as_metadata st) log"
    and quiet: "\<forall>c v. log (mm_set_rules_cache (as_mirror st) c v) = log v"
    and cleared: "\<forall>s v. fst (mm_rules_cache (as_mirror st) (mm_set_rules_cache (as_mirror st) ([], s) v)) = []"
    and put: "admin_put_rule st i rule0 w = (Ok resp, w')"
  shows "\<exists>rule es later data rs. resp = (200, NoPayload) \<and> log w' = log w @ es @ later \<and>
    apply_entries (rn_env (as_metadata st)) empty_state (log w @ es) = Some (data, rs) \<and>
    bt_get (mirror_rules data) i = Some rule \<and> mr_id rule = i \<and> rule_accepted (mm_net (as_mirror st)) rule \<and>
    mr_created_at rule = (if mr_created_at rule0 = 0 then rn_now (as_metadata st) w else mr_created_at rule0) \<and>
    (\<forall>repo v v' e. http_for (mm_net (as_mirror st)) (make_upstream_ref rule repo) v = (Err e, v') \<longrightarrow>
      (\<exists>m. e = Upstream (Lit ''HTTP client: '' # m))) \<and>
    fst (get_rules (as_mirror st) w') = Ok (list_mirror_rules (rn_state (as_metadata st) w'))"
  using put
proof (cases rule: put_rule_Ok)
  case (1 rule w1)
  from put_rule_committed [OF raft 1(4)] obtain es later data rs where c: "log w1 = log w @ es @ later"
    "apply_entries (rn_env (as_metadata st)) empty_state (log w @ es) = Some (data, rs)" "bt_get (mirror_rules data) i = Some rule"
    using 1(2) by metis
  have w': "w' = mm_set_rules_cache (as_mirror st) ([], snd (mm_rules_cache (as_mirror st) w1)) w1"
    using 1(5) by (simp add: invalidate_rules_cache_def io_update_def)
  then have "log w' = log w @ es @ later" using c(1) quiet by simp
  moreover have "fst (get_rules (as_mirror st) w') = Ok (list_mirror_rules (rn_state (as_metadata st) w'))"
    using cleared by (simp add: get_rules_def w' Let_def rms_list_mirror_rules_def io_update_def io_bind_def)
  moreover have "proxy_usable (mm_net (as_mirror st)) (mr_outbound_proxy rule)" using 1(1) by (simp add: rule_accepted_def)
  then have "\<forall>repo v v' e. http_for (mm_net (as_mirror st)) (make_upstream_ref rule repo) v = (Err e, v') \<longrightarrow>
      (\<exists>m. e = Upstream (Lit ''HTTP client: '' # m))" using usable_proxy_client by (metis make_ref_proxy(1))
  ultimately show ?thesis using 1(1,2,3,6) c(2,3) by blast
qed

definition site_rule :: mirror_rule where
  "site_rule =
     \<lparr>mr_id = ''other'', mr_direction = DirPull, mr_local_prefix = ''hub'', mr_upstream_registry = '' docker.io/ '',
      mr_upstream_prefix = Some ''/library/'', mr_schedule = None, mr_strategy = StrategyLatest 3, mr_plain_http = False, mr_insecure_tls = False,
      mr_outbound_proxy = \<lparr>op_protocol = ProxyHttp, op_url = Some '' http://proxy '', op_username = None, op_password = None\<rparr>,
      mr_username = None, mr_password = None, mr_created_at = 7\<rparr>"

lemma local_put_rule: "\<exists>l. rms_write local_node (ReqMirrorConfig (PutMirrorRule rule)) sc_log = (Ok (RespMirrorConfig MirrorConfigOk), l)"
proof -
  let ?req = "ReqMirrorConfig (PutMirrorRule rule)"
  have "\<exists>data. entry_step sc_env sc_state (local_entry ?req sc_log) = Some (data, RespMirrorConfig MirrorConfigOk)"
    by (simp add: local_entry_def entry_step_def apply_entry_def Let_def)
  then obtain data rs where "apply_entries sc_env empty_state (sc_log @ [local_entry ?req sc_log]) = Some (data, rs @ [RespMirrorConfig MirrorConfigOk])"
    using sc_run unfolding apply_entries_snoc by blast
  then show ?thesis by (simp add: rms_write_def local_node_def local_write_def io_match_def io_bind_def)
qed

lemma site_accepts_rule: "\<exists>w'. admin_put_rule site ''hub'' site_rule site_start = (Ok (200, NoPayload), w')"
proof -
  have put: "\<exists>w'. rms_put_mirror_rule (as_metadata site) rule site_start = (Ok (), w')" for rule
    using local_put_rule [of rule] by (auto simp: rms_put_mirror_rule_def io_unit_def write_mirror_config_def site_def pull_mirror_def
        rms_write_on_fst on_fst_def io_bind_def site_start_def)
  have "validate_mirror_rule (mm_net (as_mirror site)) (site_rule\<lparr>mr_id := ''hub''\<rparr>) =
    Ok (site_rule\<lparr>mr_id := ''hub'', mr_upstream_registry := ''docker.io'', mr_upstream_prefix := Some ''library'',
      mr_outbound_proxy := \<lparr>op_protocol = ProxyHttp, op_url = Some ''http://proxy'', op_username = None, op_password = None\<rparr>\<rparr>)"
    by code_simp
  moreover define rule where "rule = site_rule\<lparr>mr_id := ''hub'', mr_upstream_registry := ''docker.io'', mr_upstream_prefix := Some ''library'',
      mr_outbound_proxy := \<lparr>op_protocol = ProxyHttp, op_url = Some ''http://proxy'', op_username = None, op_password = None\<rparr>\<rparr>"
  moreover obtain w1 where "rms_put_mirror_rule (as_metadata site) rule site_start = (Ok (), w1)" using put by blast
  moreover have "mr_created_at rule \<noteq> 0" by (simp add: rule_def site_rule_def)
  ultimately show ?thesis
    by (simp add: admin_put_rule_def io_bind_def invalidate_rules_cache_def io_update_def Let_def)
qed

theorem accepted_rule_usable_witness:
  "\<exists>w' rule. admin_put_rule site ''hub'' site_rule site_start = (Ok (200, NoPayload), w') \<and> mr_id rule = ''hub'' \<and> mr_created_at rule = 7 \<and>
    rule_accepted (mm_net (as_mirror site)) rule \<and>
    fst (get_rules (as_mirror site) w') = Ok (list_mirror_rules (rn_state (as_metadata site) w'))"
proof -
  from site_accepts_rule obtain w' where put: "admin_put_rule site ''hub'' site_rule site_start = (Ok (200, NoPayload), w')" by blast
  have facts: "mr_created_at site_rule = 7" "\<forall>c v. fst (mm_set_rules_cache (as_mirror site) c v) = fst v"
    "\<forall>s v. fst (mm_rules_cache (as_mirror site) (mm_set_rules_cache (as_mirror site) ([], s) v)) = []"
    "raft_ok (as_metadata site) (\<lambda>w. fst w)"
    using pull_mirror_ok(1) by (simp_all add: site_rule_def site_def pull_mirror_def)
  from accepted_rule_usable [OF facts(4) facts(2,3) put] put facts(1) show ?thesis by auto
qed

end
