(* ===== verification/Dashboard_Routes.thy ===== *)
theory Dashboard_Routes
  imports Account_Guards
begin

text \<open>
  The repository part of the dashboard API (\<^verbatim>\<open>routes/dashboard_api.rs\<close>): listing, creating, changing and deleting
  repositories, and reading and deleting their manifests.  What the extractors and parsers of other crates do
  (the query of a URI, JSON bodies, RFC 3339 timestamps, the text of a JSON value) is \<open>dashboard_env\<close>; a response
  carries the value that is handed to \<^verbatim>\<open>Json\<close>.
\<close>

section \<open>Requests and responses\<close>

definition DASHBOARD_PAGE_SIZE :: nat where "DASHBOARD_PAGE_SIZE = 50"
definition DASHBOARD_MAX_PAGE_SIZE :: nat where "DASHBOARD_MAX_PAGE_SIZE = 200"

datatype ownership_filter = FilterAll | FilterMine | FilterShared | FilterPublic

record repository_query =
  rq_n :: "nat option"
  rq_last :: "string option"
  rq_q :: "string option"
  rq_recency :: "string option"
  rq_sort :: "string option"
  rq_filter :: ownership_filter

record enriched_summary =
  er_summary :: repository_summary
  er_access_level :: oci_action
  er_max_grantable :: oci_action
  er_grant_source :: grant_source

record manifest_query =
  mq_n :: "nat option"
  mq_last :: "string option"
  mq_q :: "string option"
  mq_kind :: "string option"
  mq_tag :: "string option"
  mq_tagged :: "bool option"
  mq_platform :: "string option"
  mq_media_type :: "string option"
  mq_stored_size_min :: "u64 option"
  mq_stored_size_max :: "u64 option"
  mq_created_after :: "string option"
  mq_created_before :: "string option"
  mq_sort :: "string option"

record create_repository_request =
  cr_name :: string
  cr_description :: string
  cr_visibility :: visibility

record patch_repository_request =
  pa_description :: "string option"
  pa_visibility :: "visibility option"

record repository_list_response =
  rl_repositories :: "enriched_summary list"
  rl_total_reachable :: u64
  rl_next_cursor :: "string option"

record manifest_list_response =
  ml_name :: string
  ml_manifests :: "manifest_summary list"
  ml_total :: nat
  ml_has_more :: bool

record manifest_detail_response =
  mt_manifest :: manifest_summary
  mt_access_source :: "grant_source option"
  mt_max_grantable_action :: "oci_action option"

datatype dashboard_payload =
    NoContent
  | RepositoriesPayload repository_list_response
  | SummaryPayload enriched_summary
  | RepositoryPayload repository
  | ManifestsPayload manifest_list_response
  | DetailPayload manifest_detail_response
  | RawPayload json
  | CountsPayload delete_counts

record dashboard_response =
  dr_status :: nat
  dr_link :: "string option"
  dr_payload :: dashboard_payload

record dashboard_env =
  de_manifest_query :: "string option \<Rightarrow> (manifest_query, msg) result"
  de_batch_request :: "string \<Rightarrow> (string list, msg) result"
  de_patch_request :: "string \<Rightarrow> (patch_repository_request, msg) result"
  de_rfc3339 :: "string \<Rightarrow> (int, msg) result"
  de_json_text :: "json \<Rightarrow> string"

definition dashboard_ok :: "dashboard_payload \<Rightarrow> dashboard_response" where
  "dashboard_ok p = \<lparr>dr_status = 200, dr_link = None, dr_payload = p\<rparr>"

section \<open>Pages\<close>

definition dashboard_page_size :: "nat option \<Rightarrow> nat" where
  "dashboard_page_size n = min DASHBOARD_MAX_PAGE_SIZE (max 1 (case n of None \<Rightarrow> DASHBOARD_PAGE_SIZE | Some k \<Rightarrow> k))"

definition position :: "('a \<Rightarrow> bool) \<Rightarrow> 'a list \<Rightarrow> nat option" where
  "position P xs = (let i = length (takeWhile (\<lambda>x. \<not> P x) xs) in if i < length xs then Some i else None)"

definition paginate :: "'a list \<Rightarrow> nat \<Rightarrow> string option \<Rightarrow> ('a \<Rightarrow> string) \<Rightarrow> 'a list \<times> bool" where
  "paginate items n lst key =
     (let start = (case Option.bind lst (\<lambda>l. position (\<lambda>item. key item = l) items) of None \<Rightarrow> 0 | Some i \<Rightarrow> i + 1);
          page = take (n + 1) (drop start items);
          has_more = length page > n in
      (if has_more then take n page else page, has_more))"

definition next_url :: "string \<Rightarrow> nat \<Rightarrow> string \<Rightarrow> string" where
  "next_url base n lst = base @ ''?n='' @ show_nat n @ ''&last='' @ lst"

definition with_link :: "'w app_state \<Rightarrow> dashboard_payload \<Rightarrow> bool \<Rightarrow> string option \<Rightarrow> dashboard_response lh_result" where
  "with_link st body has_more url =
     (case url of
        Some u \<Rightarrow>
          if has_more then
            let v = ''<'' @ u @ ''>; rel=\"next\"'' in
            if as_header_ok st v then Ok \<lparr>dr_status = 200, dr_link = Some v, dr_payload = body\<rparr>
            else Err (Serialization [Lit ''failed to parse header value''])
          else Ok (dashboard_ok body)
      | None \<Rightarrow> Ok (dashboard_ok body))"

definition last_opt :: "'a list \<Rightarrow> 'a option" where
  "last_opt xs = (if xs = [] then None else Some (last xs))"

text \<open>\<^verbatim>\<open>sort_by_key(|x| Reverse(..))\<close>: descending, equal keys in the order they had.\<close>

definition sort_key_desc :: "('a \<Rightarrow> 'k :: linorder) \<Rightarrow> 'a list \<Rightarrow> 'a list" where
  "sort_key_desc f xs = rev (sort_key f (rev xs))"

definition parse_rfc3339_epoch :: "dashboard_env \<Rightarrow> string \<Rightarrow> string \<Rightarrow> u64 lh_result" where
  "parse_rfc3339_epoch de v field_name =
     (case de_rfc3339 de v of
        Inl e \<Rightarrow> Err (NameInvalid (Disp field_name # Lit '' is invalid: '' # e))
      | Inr t \<Rightarrow> if t < 0 then Err (NameInvalid [Disp field_name, Lit '' must be after 1970-01-01'']) else Ok (word_of_int t))"

section \<open>Repository names\<close>

definition is_name_alnum :: "char \<Rightarrow> bool" where
  "is_name_alnum b \<longleftrightarrow> is_ascii_lowercase b \<or> is_ascii_digit b"

definition valid_separator :: "string \<Rightarrow> bool" where
  "valid_separator run \<longleftrightarrow> run = ''.'' \<or> run = ''_'' \<or> run = ''__'' \<or> list_all (\<lambda>b. b = CHR ''-'') run"

function component_loop :: "string \<Rightarrow> bool" where
  "component_loop [] = True"
| "component_loop (b # bs) =
     (if is_name_alnum b then component_loop bs
      else valid_separator (takeWhile (\<lambda>c. \<not> is_name_alnum c) (b # bs))
        \<and> component_loop (dropWhile (\<lambda>c. \<not> is_name_alnum c) (b # bs)))"
  by pat_completeness auto
termination
proof (relation "measure length", goal_cases)
  case (3 b bs)
  then show ?case using length_dropWhile_le [of "\<lambda>c. \<not> is_name_alnum c" bs] by simp
qed simp_all

definition is_valid_name_component :: "string \<Rightarrow> bool" where
  "is_valid_name_component component \<longleftrightarrow>
     component \<noteq> [] \<and> is_name_alnum (hd component) \<and> is_name_alnum (last component) \<and> component_loop component"

fun name_components :: "string list \<Rightarrow> unit lh_result" where
  "name_components [] = Ok ()"
| "name_components (c # cs) =
     (if is_valid_name_component c then name_components cs
      else Err (NameInvalid [Lit ''invalid repository name component: '', Disp c]))"

definition validate_repository_name :: "string \<Rightarrow> unit lh_result" where
  "validate_repository_name name =
     (if name = [] then Err (NameInvalid [Lit ''repository name is required''])
      else if length name > 255 then Err (NameInvalid [Lit ''repository name exceeds 255 characters''])
      else name_components (split_char (CHR ''/'') name))"

section \<open>Repositories\<close>

definition enrich_repository_summary ::
  "repository_summary \<Rightarrow> 'w auth_service option \<Rightarrow> auth_identity option \<Rightarrow> 'w raft_node \<Rightarrow> ('w, enriched_summary) pio" where
  "enrich_repository_summary repo auth identity node =
     pio_bind (case (auth, identity) of
         (Some au, Some i) \<Rightarrow> max_grantable_action au node i (rs_name repo)
       | _ \<Rightarrow> pio_return (Delete, PublicGrant)) (\<lambda>(access_level, source).
       pio_return \<lparr>er_summary = repo, er_access_level = access_level, er_max_grantable = access_level, er_grant_source = source\<rparr>)"

text \<open>With an identity, the repositories whose access cannot be determined are left out.\<close>

fun enrich_visible :: "'w auth_service \<Rightarrow> auth_identity \<Rightarrow> 'w raft_node \<Rightarrow> repository_summary list \<Rightarrow> ('w, enriched_summary list) pio" where
  "enrich_visible au i node [] = pio_return []"
| "enrich_visible au i node (repo # repos) =
     pio_match (enrich_repository_summary repo (Some au) (Some i) node) (\<lambda>r.
       pio_bind (enrich_visible au i node repos) (\<lambda>rest.
         pio_return (case r of Inl _ \<Rightarrow> rest | Inr e \<Rightarrow> e # rest)))"

fun enrich_all :: "'w raft_node \<Rightarrow> repository_summary list \<Rightarrow> ('w, enriched_summary list) pio" where
  "enrich_all node [] = pio_return []"
| "enrich_all node (repo # repos) =
     pio_bind (enrich_repository_summary repo None None node) (\<lambda>e.
     pio_bind (enrich_all node repos) (\<lambda>rest. pio_return (e # rest)))"

abbreviation er_name :: "enriched_summary \<Rightarrow> string" where "er_name e \<equiv> rs_name (er_summary e)"

definition owned_filter :: "ownership_filter \<Rightarrow> auth_identity option \<Rightarrow> enriched_summary \<Rightarrow> bool" where
  "owned_filter f identity e =
     (case identity of
        None \<Rightarrow> True
      | Some i \<Rightarrow>
          let username = (case ai_username i of None \<Rightarrow> [] | Some u \<Rightarrow> u) in
          (case f of
             FilterAll \<Rightarrow> True
           | FilterMine \<Rightarrow> in_personal_namespace (Some username) (er_name e)
           | FilterShared \<Rightarrow> \<not> in_personal_namespace (Some username) (er_name e)
           | FilterPublic \<Rightarrow> rs_visibility (er_summary e) = PublicPull))"

definition recency_filter :: "string option \<Rightarrow> u64 \<Rightarrow> enriched_summary \<Rightarrow> bool" where
  "recency_filter recency now e =
     (let age = saturating_sub_u64 now (rs_last_modified (er_summary e)) in
      if recency = Some ''recent'' then age \<le> 7 * 86400
      else if recency = Some ''stale'' then age \<ge> 30 * 86400
      else True)"

definition name_filter :: "(string \<Rightarrow> string) \<Rightarrow> string option \<Rightarrow> enriched_summary \<Rightarrow> bool" where
  "name_filter lower q e =
     (let needle = lower (case q of None \<Rightarrow> [] | Some s \<Rightarrow> s) in needle = [] \<or> contains_str needle (lower (er_name e)))"

definition sort_repositories :: "string option \<Rightarrow> enriched_summary list \<Rightarrow> enriched_summary list" where
  "sort_repositories sort_by items =
     (let by_name = sort_key er_name items in
      if sort_by = Some ''name_asc'' then by_name
      else if sort_by = Some ''tag_count_desc'' then sort_key_desc (\<lambda>e. rs_tag_count (er_summary e)) by_name
      else if sort_by = Some ''updated_asc'' then sort_key (\<lambda>e. rs_last_modified (er_summary e)) by_name
      else sort_key_desc (\<lambda>e. rs_last_modified (er_summary e)) by_name)"

definition repository_page :: "'w app_state \<Rightarrow> auth_identity option \<Rightarrow> repository_query \<Rightarrow> u64 \<Rightarrow> enriched_summary list \<Rightarrow> dashboard_response lh_result" where
  "repository_page st identity query now enriched =
     (let kept = filter (recency_filter (rq_recency query) now) (filter (name_filter (env_to_lowercase (rn_env (as_metadata st))) (rq_q query))
            (filter (owned_filter (rq_filter query) identity) enriched));
          n = dashboard_page_size (rq_n query);
          (page, has_more) = paginate (sort_repositories (rq_sort query) kept) n (rq_last query) er_name;
          url = map_option (\<lambda>e. next_url ''/api/v1/repositories'' n (er_name e)) (last_opt page) in
      with_link st (RepositoriesPayload \<lparr>rl_repositories = page, rl_total_reachable = of_nat (length kept), rl_next_cursor = url\<rparr>) has_more url)"

definition dashboard_list_repositories :: "'w app_state \<Rightarrow> auth_identity option \<Rightarrow> repository_query \<Rightarrow> ('w, dashboard_response) pio" where
  "dashboard_list_repositories st identity query =
     pio_bind (pio_run (rms_list_repository_summaries (as_metadata st))) (\<lambda>repos.
     pio_bind (case (as_auth st, identity) of
         (Some au, Some i) \<Rightarrow> enrich_visible au i (as_metadata st) repos
       | _ \<Rightarrow> enrich_all (as_metadata st) repos) (\<lambda>enriched.
     pio_bind (pio_run (io_read (rn_now (as_metadata st)))) (\<lambda>now.
       pio_run (io_result (repository_page st identity query now enriched)))))"

definition login_needed :: layerhouse_error where
  "login_needed = unauthorized ''authentication required''"

definition dashboard_get_repository :: "'w app_state \<Rightarrow> auth_identity option \<Rightarrow> string \<Rightarrow> ('w, dashboard_response) pio" where
  "dashboard_get_repository st identity raw_name =
     (let name = percent_decode raw_name in
      pio_bind (pio_run (io_result (validate_repository_name name))) (\<lambda>_.
      pio_bind (case as_auth st of
          None \<Rightarrow> pio_return ()
        | Some au \<Rightarrow> (case identity of
            None \<Rightarrow> pio_fail login_needed
          | Some i \<Rightarrow> pio_bind (check_permission au (as_metadata st) i name Pull) (\<lambda>_. pio_return ()))) (\<lambda>_.
      pio_bind (pio_run (rms_list_repository_summaries (as_metadata st))) (\<lambda>repos.
      pio_bind (pio_run (io_result (ok_or (find (\<lambda>r. rs_name r = name) repos) (NameUnknown [Disp name])))) (\<lambda>repo.
      pio_bind (enrich_repository_summary repo (as_auth st) identity (as_metadata st)) (\<lambda>e.
        pio_return (dashboard_ok (SummaryPayload e))))))))"

text \<open>\<^verbatim>\<open>require_update_permission\<close> and \<^verbatim>\<open>require_delete_permission\<close>: the epoch that the write must find.\<close>

definition require_permission :: "oci_action \<Rightarrow> 'w app_state \<Rightarrow> auth_identity option \<Rightarrow> string \<Rightarrow> ('w, namespace_epoch option) pio" where
  "require_permission action st identity name =
     (case as_auth st of
        None \<Rightarrow> pio_return None
      | Some au \<Rightarrow> (case identity of
          None \<Rightarrow> pio_fail login_needed
        | Some i \<Rightarrow> pio_bind (check_permission au (as_metadata st) i name action) (\<lambda>access. pio_return (ara_expected_namespace access))))"

definition require_update_permission :: "'w app_state \<Rightarrow> auth_identity option \<Rightarrow> string \<Rightarrow> ('w, namespace_epoch option) pio" where
  "require_update_permission = require_permission Update"

definition require_delete_permission :: "'w app_state \<Rightarrow> auth_identity option \<Rightarrow> string \<Rightarrow> ('w, namespace_epoch option) pio" where
  "require_delete_permission = require_permission Delete"

definition put_dashboard_repository :: "'w app_state \<Rightarrow> repository \<Rightarrow> namespace_epoch option \<Rightarrow> ('w, unit) io" where
  "put_dashboard_repository st repo expected_namespace =
     (if as_auth st = None then rms_put_repository (as_metadata st) repo
      else rms_put_repository_with_expected_namespace (as_metadata st) repo expected_namespace)"

definition create_repository :: "'w app_state \<Rightarrow> auth_identity option \<Rightarrow> create_repository_request \<Rightarrow> ('w, dashboard_response) pio" where
  "create_repository st identity req =
     (let name = trim (cr_name req) in
      pio_bind (pio_run (io_result (validate_repository_name name))) (\<lambda>_.
      pio_bind (require_permission Create st identity name) (\<lambda>expected_namespace.
      pio_run (
        io_bind (rms_get_repository (as_metadata st) name) (\<lambda>existing.
        if existing \<noteq> None then io_fail (Conflict [Lit ''repository already exists: '', Disp name])
        else
          io_bind (io_read (rn_now (as_metadata st))) (\<lambda>now.
          let repo = \<lparr>repo_name = name, repo_description = trim (cr_description req),
            repo_created_by = (if as_auth st = None then None else map_option ai_subject identity),
            repo_visibility = cr_visibility req, repo_created_at = now\<rparr> in
          io_bind (put_dashboard_repository st repo expected_namespace) (\<lambda>_.
            io_return \<lparr>dr_status = 201, dr_link = None, dr_payload = RepositoryPayload repo\<rparr>)))))))"

definition patched_repository :: "patch_repository_request \<Rightarrow> repository \<Rightarrow> repository" where
  "patched_repository req repo0 =
     (let repo1 = (case pa_description req of None \<Rightarrow> repo0 | Some d \<Rightarrow> repo0\<lparr>repo_description := trim d\<rparr>) in
      case pa_visibility req of None \<Rightarrow> repo1 | Some v \<Rightarrow> repo1\<lparr>repo_visibility := v\<rparr>)"

definition patch_repository :: "'w app_state \<Rightarrow> auth_identity option \<Rightarrow> string \<Rightarrow> patch_repository_request \<Rightarrow> ('w, dashboard_response) pio" where
  "patch_repository st identity raw_name req =
     (let name = percent_decode raw_name in
      pio_bind (pio_run (io_result (validate_repository_name name))) (\<lambda>_.
      pio_bind (require_update_permission st identity name) (\<lambda>expected_namespace.
      pio_run (
        io_bind (rms_get_repository (as_metadata st) name) (\<lambda>found.
        io_bind (io_result (ok_or found (NameUnknown [Disp name]))) (\<lambda>repo0.
        let repo = patched_repository req repo0 in
        io_bind (put_dashboard_repository st repo expected_namespace) (\<lambda>_.
          io_return (dashboard_ok (RepositoryPayload repo)))))))))"

definition dashboard_delete_repository :: "'w app_state \<Rightarrow> auth_identity option \<Rightarrow> string \<Rightarrow> ('w, dashboard_response) pio" where
  "dashboard_delete_repository st identity raw_name =
     (let name = percent_decode raw_name; node = as_metadata st in
      pio_bind (require_delete_permission st identity name) (\<lambda>expected_namespace.
      pio_run (
        io_bind (if as_auth st = None then rms_delete_repository node name
          else rms_delete_repository_with_expected_namespace node name expected_namespace) (\<lambda>counts.
        io_bind (if as_auth st = None then rms_delete_repository_meta node name
          else rms_delete_repository_meta_with_expected_namespace node name expected_namespace) (\<lambda>_.
          io_return (dashboard_ok (CountsPayload counts)))))))"

section \<open>Manifests\<close>

definition type_matches :: "manifest_summary \<Rightarrow> string \<Rightarrow> bool" where
  "type_matches item kind =
     (let artifact_type = (case ms_artifact_type item of None \<Rightarrow> [] | Some t \<Rightarrow> t);
          is_image = contains_str ''image.config'' artifact_type;
          is_helm = contains_str ''helm.config'' artifact_type;
          is_wasm = contains_str ''wasm.config'' artifact_type;
          is_oci_artifact = contains_str ''artifact.manifest'' artifact_type \<or> contains_str ''artifact.manifest'' (ms_media_type item) in
      if kind = ''image'' then is_image
      else if kind = ''helm'' then is_helm
      else if kind = ''wasm'' then is_wasm
      else if kind = ''artifact'' then is_oci_artifact
      else if kind = ''unknown'' then \<not> is_image \<and> \<not> is_helm \<and> \<not> is_wasm \<and> \<not> is_oci_artifact
      else True)"

definition tag_glob_matches :: "string \<Rightarrow> string \<Rightarrow> bool" where
  "tag_glob_matches pattern val =
     (if pattern = ''*'' then True
      else if \<not> contains_char (CHR ''*'') pattern then pattern = val
      else
        let anchored_start = \<not> starts_with ''*'' pattern;
            anchored_end = \<not> ends_with ''*'' pattern;
            parts = filter (\<lambda>p. p \<noteq> []) (split_char (CHR ''*'') pattern) in
        if parts = [] then True
        else if anchored_start \<and> \<not> starts_with (hd parts) val then False
        else if \<not> glob_loop parts val then False
        else if anchored_end then ends_with (last parts) val
        else True)"

definition search_blob :: "'w app_state \<Rightarrow> dashboard_env \<Rightarrow> manifest_summary \<Rightarrow> string" where
  "search_blob st de item =
     env_to_lowercase (rn_env (as_metadata st)) (join '' ''
       ([ms_digest item, ms_media_type item, case ms_artifact_type item of None \<Rightarrow> [] | Some t \<Rightarrow> t, join '' '' (ms_tags item)]
        @ (case ms_config_summary item of None \<Rightarrow> [] | Some j \<Rightarrow> [de_json_text de j])
        @ (case ms_annotations item of None \<Rightarrow> [] | Some j \<Rightarrow> [de_json_text de j])))"

text \<open>\<^verbatim>\<open>if let Some(x) = .. { manifests.retain(..) }\<close>\<close>

definition retain_if :: "'b option \<Rightarrow> ('b \<Rightarrow> 'a \<Rightarrow> bool) \<Rightarrow> 'a list \<Rightarrow> 'a list" where
  "retain_if v P items = (case v of None \<Rightarrow> items | Some b \<Rightarrow> filter (P b) items)"

definition text_filters :: "'w app_state \<Rightarrow> dashboard_env \<Rightarrow> manifest_query \<Rightarrow> manifest_summary list \<Rightarrow> manifest_summary list" where
  "text_filters st de query items0 =
     (let lower = env_to_lowercase (rn_env (as_metadata st));
          q = lower (case mq_q query of None \<Rightarrow> [] | Some s \<Rightarrow> s);
          items1 = (if q = [] then items0 else filter (\<lambda>item. contains_str q (search_blob st de item)) items0);
          items2 = retain_if (mq_kind query) (\<lambda>kind item. kind = ''all'' \<or> type_matches item kind) items1;
          items3 = retain_if (mq_tagged query) (\<lambda>tagged item. (ms_tags item = []) \<noteq> tagged) items2;
          items4 = retain_if (mq_tag query) (\<lambda>pattern item. pattern = [] \<or> list_ex (tag_glob_matches pattern) (ms_tags item)) items3;
          items5 = retain_if (mq_media_type query) (\<lambda>t item. ms_artifact_type item = Some t \<or> ms_media_type item = t) items4 in
      retain_if (mq_platform query) (\<lambda>platform item. contains_str (lower platform) (search_blob st de item)) items5)"

definition bound_filters :: "dashboard_env \<Rightarrow> manifest_query \<Rightarrow> manifest_summary list \<Rightarrow> manifest_summary list lh_result" where
  "bound_filters de query items0 =
     (let items1 = retain_if (mq_stored_size_min query) (\<lambda>b item. ms_stored_size_bytes item \<ge> b) items0;
          items2 = retain_if (mq_stored_size_max query) (\<lambda>b item. ms_stored_size_bytes item \<le> b) items1 in
      res_bind (case mq_created_after query of None \<Rightarrow> Ok items2 | Some t \<Rightarrow>
          res_bind (parse_rfc3339_epoch de t ''created_after'') (\<lambda>lower. Ok (filter (\<lambda>item. ms_created_at item \<ge> lower) items2))) (\<lambda>items3.
      case mq_created_before query of None \<Rightarrow> Ok items3 | Some t \<Rightarrow>
          res_bind (parse_rfc3339_epoch de t ''created_before'') (\<lambda>upper. Ok (filter (\<lambda>item. ms_created_at item \<le> upper) items3))))"

definition sort_manifests :: "string option \<Rightarrow> manifest_summary list \<Rightarrow> manifest_summary list" where
  "sort_manifests sort_by items =
     (if sort_by = Some ''updated_asc'' then sort_key ms_last_modified items
      else if sort_by = Some ''stored_size_desc'' then sort_key_desc ms_stored_size_bytes items
      else if sort_by = Some ''stored_size_asc'' then sort_key ms_stored_size_bytes items
      else if sort_by = Some ''digest_asc'' then sort_key ms_digest items
      else if sort_by = Some ''tag_count_desc'' then sort_key_desc (\<lambda>item. length (ms_tags item)) items
      else sort_key_desc ms_last_modified items)"

definition list_manifests :: "'w app_state \<Rightarrow> dashboard_env \<Rightarrow> string \<Rightarrow> manifest_query \<Rightarrow> ('w, dashboard_response) io" where
  "list_manifests st de raw_name query =
     (let name = percent_decode raw_name in
      io_bind (rms_list_manifest_summaries (as_metadata st) name) (\<lambda>all.
      io_bind (io_result (bound_filters de query (text_filters st de query all))) (\<lambda>kept.
      let n = dashboard_page_size (mq_n query);
          (page, has_more) = paginate (sort_manifests (mq_sort query) kept) n (mq_last query) ms_digest;
          url = map_option (\<lambda>item. next_url (''/api/v1/repositories/'' @ name @ ''/manifests'') n (ms_digest item)) (last_opt page) in
      io_result (with_link st (ManifestsPayload \<lparr>ml_name = name, ml_manifests = page, ml_total = length kept, ml_has_more = has_more\<rparr>) has_more url))))"

definition dashboard_get_manifest :: "'w app_state \<Rightarrow> string \<Rightarrow> string \<Rightarrow> auth_identity option \<Rightarrow> ('w, dashboard_response) pio" where
  "dashboard_get_manifest st raw_name dig identity =
     (let name = percent_decode raw_name in
      pio_bind (pio_run (io_bind (rms_list_manifest_summaries (as_metadata st) name) (\<lambda>items.
        io_result (ok_or (find (\<lambda>item. ms_digest item = dig) items) (ManifestUnknown [Disp dig]))))) (\<lambda>manifest.
      pio_match (case (as_auth st, identity) of
          (Some au, Some i) \<Rightarrow> max_grantable_action au (as_metadata st) i name
        | _ \<Rightarrow> pio_return (Delete, PublicGrant)) (\<lambda>r.
        pio_return (dashboard_ok (DetailPayload \<lparr>mt_manifest = manifest,
          mt_access_source = (case r of Inl _ \<Rightarrow> None | Inr (_, source) \<Rightarrow> Some source),
          mt_max_grantable_action = (case r of Inl _ \<Rightarrow> None | Inr (action, _) \<Rightarrow> Some action)\<rparr>)))))"

definition get_raw_manifest :: "'w app_state \<Rightarrow> string \<Rightarrow> string \<Rightarrow> ('w, dashboard_response) io" where
  "get_raw_manifest st raw_name dig =
     io_bind (rms_get_manifest (as_metadata st) (percent_decode raw_name) dig) (\<lambda>found.
     io_bind (io_result (ok_or found (ManifestUnknown [Disp dig]))) (\<lambda>entry.
       case mm_from_slice (as_mirror st) (me_body entry) of
         Inl e \<Rightarrow> io_fail (Serialization e)
       | Inr j \<Rightarrow> io_return (dashboard_ok (RawPayload j))))"

definition checked_digest :: "string \<Rightarrow> digest lh_result" where
  "checked_digest dig = ok_or (from_str_checked dig) (DigestInvalid [Disp dig])"

fun checked_digests :: "string list \<Rightarrow> digest list lh_result" where
  "checked_digests [] = Ok []"
| "checked_digests (d # ds) = res_bind (checked_digest d) (\<lambda>x. res_bind (checked_digests ds) (\<lambda>xs. Ok (x # xs)))"

definition dashboard_delete_tag :: "'w app_state \<Rightarrow> auth_identity option \<Rightarrow> string \<Rightarrow> string \<Rightarrow> string \<Rightarrow> ('w, dashboard_response) pio" where
  "dashboard_delete_tag st identity raw_name dig tag =
     (let name = percent_decode raw_name in
      pio_bind (require_delete_permission st identity name) (\<lambda>expected_namespace.
      pio_run (
        io_bind (io_result (checked_digest dig)) (\<lambda>d.
        io_bind (if as_auth st = None then rms_delete_tag (as_metadata st) name d tag
          else rms_delete_tag_with_expected_namespace (as_metadata st) name d tag expected_namespace) (\<lambda>deleted.
          if deleted then io_return \<lparr>dr_status = 204, dr_link = None, dr_payload = NoContent\<rparr>
          else io_fail (NameUnknown [Disp tag]))))))"

definition delete_dashboard_manifests :: "'w app_state \<Rightarrow> string \<Rightarrow> digest list \<Rightarrow> namespace_epoch option \<Rightarrow> ('w, dashboard_response) io" where
  "delete_dashboard_manifests st name ds expected_namespace =
     io_bind (if as_auth st = None then rms_delete_manifests (as_metadata st) name ds
       else rms_delete_manifests_with_expected_namespace (as_metadata st) name ds expected_namespace) (\<lambda>counts.
       io_return (dashboard_ok (CountsPayload counts)))"

definition dashboard_delete_manifest :: "'w app_state \<Rightarrow> auth_identity option \<Rightarrow> string \<Rightarrow> string \<Rightarrow> ('w, dashboard_response) pio" where
  "dashboard_delete_manifest st identity raw_name dig =
     (let name = percent_decode raw_name in
      pio_bind (require_delete_permission st identity name) (\<lambda>expected_namespace.
      pio_run (io_bind (io_result (checked_digest dig)) (\<lambda>d. delete_dashboard_manifests st name [d] expected_namespace))))"

definition batch_delete_manifests :: "'w app_state \<Rightarrow> auth_identity option \<Rightarrow> string \<Rightarrow> string list \<Rightarrow> ('w, dashboard_response) pio" where
  "batch_delete_manifests st identity raw_name digs =
     (let name = percent_decode raw_name in
      pio_bind (require_delete_permission st identity name) (\<lambda>expected_namespace.
      pio_run (io_bind (io_result (checked_digests digs)) (\<lambda>ds. delete_dashboard_manifests st name ds expected_namespace))))"

section \<open>Dispatch\<close>

definition DASHBOARD_BODY_LIMIT :: nat where "DASHBOARD_BODY_LIMIT = 1024 * 1024"

definition dashboard_body :: "server_request \<Rightarrow> (string \<Rightarrow> ('a, msg) result) \<Rightarrow> 'a lh_result" where
  "dashboard_body req decode =
     res_bind (request_body req DASHBOARD_BODY_LIMIT NameInvalid) (\<lambda>body.
       case decode body of Inl e \<Rightarrow> Err (NameInvalid e) | Inr a \<Rightarrow> Ok a)"

text \<open>The parts before and after the last \<^verbatim>\<open>manifests\<close>.\<close>

definition manifests_split :: "string list \<Rightarrow> (string list \<times> string list) option" where
  "manifests_split parts =
     map_option (\<lambda>i. let pos = length parts - 1 - i in (take pos parts, drop (pos + 1) parts))
       (position (\<lambda>part. part = ''manifests'') (rev parts))"

definition dashboard_read_gate :: "'w app_state \<Rightarrow> server_request \<Rightarrow> string \<Rightarrow> ('w, unit) pio" where
  "dashboard_read_gate st req name =
     (case (as_auth st, hq_identity req) of
        (Some au, Some i) \<Rightarrow>
          if hq_method req = GET then pio_bind (check_permission au (as_metadata st) i name Pull) (\<lambda>_. pio_return ()) else pio_return ()
      | _ \<Rightarrow> pio_return ())"

definition dashboard_manifests :: "'w app_state \<Rightarrow> dashboard_env \<Rightarrow> server_request \<Rightarrow> string \<Rightarrow> string list \<Rightarrow> ('w, dashboard_response) pio" where
  "dashboard_manifests st de req name tail =
     (let identity = hq_identity req; unsupported = pio_fail (Unsupported [Lit ''method not allowed'']) in
      if hq_method req = GET then
        (case tail of
           [] \<Rightarrow> (case de_manifest_query de (hq_query req) of
               Inl e \<Rightarrow> pio_fail (NameInvalid e)
             | Inr query \<Rightarrow> pio_run (list_manifests st de name query))
         | [dig] \<Rightarrow> dashboard_get_manifest st name dig identity
         | [dig, raw] \<Rightarrow> if raw = ''raw'' then pio_run (get_raw_manifest st name dig) else unsupported
         | _ \<Rightarrow> unsupported)
      else if hq_method req = DELETE then
        (case tail of
           [dig] \<Rightarrow> dashboard_delete_manifest st identity name dig
         | [dig, k, tag] \<Rightarrow> if k = ''tags'' then dashboard_delete_tag st identity name dig (percent_decode tag) else unsupported
         | _ \<Rightarrow> unsupported)
      else unsupported)"

definition repository_dispatch_result :: "'w app_state \<Rightarrow> dashboard_env \<Rightarrow> server_request \<Rightarrow> ('w, dashboard_response) pio" where
  "repository_dispatch_result st de req =
     (let path = Request_Paths.trim_slashes (hq_wildcard req); parts = split_char (CHR ''/'') path; identity = hq_identity req;
          plain = ''manifests'' \<notin> set parts in
      if hq_method req = POST \<and> ends_with ''/manifests:batch-delete'' path then
        (let name = (case strip_suffix ''/manifests:batch-delete'' path of None \<Rightarrow> path | Some n \<Rightarrow> n) in
         pio_bind (pio_run (io_result (dashboard_body req (de_batch_request de)))) (\<lambda>digs. batch_delete_manifests st identity name digs))
      else if hq_method req = GET \<and> plain then dashboard_get_repository st identity path
      else if hq_method req = PATCH \<and> plain then
        pio_bind (pio_run (io_result (dashboard_body req (de_patch_request de)))) (\<lambda>patch. patch_repository st identity path patch)
      else if hq_method req = DELETE \<and> plain then dashboard_delete_repository st identity path
      else
        (case manifests_split parts of
           None \<Rightarrow> pio_fail (NameUnknown [Disp path])
         | Some (before, tail) \<Rightarrow>
             let name = join ''/'' before in
             pio_bind (dashboard_read_gate st req name) (\<lambda>_. dashboard_manifests st de req name tail)))"

end
