(* ===== verification/Dashboard_Guards.thy ===== *)
theory Dashboard_Guards
  imports Dashboard_Routes
begin

text \<open>
  Lemmas on the dashboard API: the grammar of repository names, what a listing shows and how its pages fit
  together, and which permission precedes which write.
\<close>

section \<open>The grammar of repository names\<close>

text \<open>
  \<^verbatim>\<open>[a-z0-9]+(?:(?:[._]|__|[-]*)[a-z0-9]+)*\<close>, the grammar of a path component in the distribution
  specification.
\<close>

definition name_word :: "string \<Rightarrow> bool" where
  "name_word w \<longleftrightarrow> w \<noteq> [] \<and> (\<forall>c \<in> set w. is_name_alnum c)"

definition name_separator :: "string \<Rightarrow> bool" where
  "name_separator s \<longleftrightarrow> s \<in> {''.'', ''_'', ''__''} \<or> s \<in> lists {CHR ''-''}"

inductive name_component :: "string \<Rightarrow> bool" where
  word: "name_word w \<Longrightarrow> name_component w"
| more: "name_component c \<Longrightarrow> name_separator s \<Longrightarrow> name_word w \<Longrightarrow> name_component (c @ s @ w)"

lemma name_separator_iff: "name_separator s \<longleftrightarrow> valid_separator s"
  by (auto simp: name_separator_def valid_separator_def list_all_iff)

lemma separator_not_alnum: "valid_separator s \<Longrightarrow> c \<in> set s \<Longrightarrow> \<not> is_name_alnum c"
proof -
  have "\<not> is_name_alnum (CHR ''.'')" "\<not> is_name_alnum (CHR ''_'')" "\<not> is_name_alnum (CHR ''-'')" by code_simp+
  then show "valid_separator s \<Longrightarrow> c \<in> set s \<Longrightarrow> \<not> is_name_alnum c"
    unfolding valid_separator_def list_all_iff by (elim disjE) (simp, simp, simp, metis)
qed

lemma rev_split: "rev (dropWhile P (rev xs)) @ rev (takeWhile P (rev xs)) = xs"
  by (metis rev_append rev_rev_ident takeWhile_dropWhile_id)

lemma component_loop_append: "c = [] \<or> is_name_alnum (last c) \<Longrightarrow> component_loop (c @ d) \<longleftrightarrow> component_loop c \<and> component_loop d"
proof (induction c rule: component_loop.induct)
  case (2 b bs)
  show ?case
  proof (cases "is_name_alnum b")
    case True
    with 2 show ?thesis by (cases "bs = []") auto
  next
    case False
    let ?P = "\<lambda>c. \<not> is_name_alnum c"
    from 2(3) have "is_name_alnum (last (b # bs))" by simp
    then have mem: "last (b # bs) \<in> set (b # bs)" "\<not> ?P (last (b # bs))" using last_in_set [of "b # bs"] by (blast, simp)
    have split: "takeWhile ?P ((b # bs) @ d) = takeWhile ?P (b # bs)" "dropWhile ?P ((b # bs) @ d) = dropWhile ?P (b # bs) @ d"
      using takeWhile_append1 [of _ "b # bs" ?P d, OF mem] dropWhile_append1 [of _ "b # bs" ?P d, OF mem] by blast+
    have "dropWhile ?P (b # bs) \<noteq> []" using mem by (auto simp: dropWhile_eq_Nil_conv simp del: last.simps)
    then have "last (dropWhile ?P (b # bs)) = last (b # bs)" by (metis takeWhile_dropWhile_id last_appendR)
    with 2(2) [OF False] mem(2) split False show ?thesis by (simp del: takeWhile.simps dropWhile.simps last.simps)
  qed
qed simp

lemma component_loop_word: "\<forall>c \<in> set w. is_name_alnum c \<Longrightarrow> component_loop w"
  by (induction w) auto

lemma component_loop_separator:
  assumes "valid_separator s" and "name_word w"
  shows "component_loop (s @ w)"
proof (cases s)
  case Nil
  with assms show ?thesis by (simp add: component_loop_word name_word_def)
next
  case (Cons b bs)
  let ?P = "\<lambda>c. \<not> is_name_alnum c"
  have all: "\<forall>c \<in> set s. ?P c" using assms(1) separator_not_alnum by blast
  obtain v vs where w: "w = v # vs" "is_name_alnum v" using assms(2) by (cases w) (auto simp: name_word_def)
  have "takeWhile ?P (s @ w) = s" "dropWhile ?P (s @ w) = w" using all w by (simp_all add: takeWhile_append2 dropWhile_append2)
  with all assms Cons show ?thesis by (simp add: component_loop_word name_word_def del: takeWhile.simps dropWhile.simps)
qed

lemma name_component_valid: "name_component c \<Longrightarrow> is_valid_name_component c"
proof (induction rule: name_component.induct)
  case (word w)
  then show ?case by (auto simp: name_word_def is_valid_name_component_def component_loop_word)
next
  case (more c s w)
  then have "component_loop (c @ s @ w)"
    by (auto simp: is_valid_name_component_def component_loop_append component_loop_separator name_separator_iff)
  with more show ?case by (auto simp: is_valid_name_component_def name_word_def)
qed

lemma valid_name_component: "is_valid_name_component c \<Longrightarrow> name_component c"
proof (induction c rule: length_induct)
  case (1 c)
  let ?A = "is_name_alnum" and ?N = "\<lambda>c. \<not> is_name_alnum c"
  from 1(2) have c: "c \<noteq> []" "?A (hd c)" "?A (last c)" "component_loop c" by (simp_all add: is_valid_name_component_def)
  define w where "w = rev (takeWhile ?A (rev c))"
  define r where "r = rev (dropWhile ?A (rev c))"
  have cw: "c = r @ w" by (simp add: w_def r_def rev_split)
  have "w \<noteq> []" using c(1,3) by (cases c rule: rev_cases) (simp_all add: w_def)
  moreover have "\<forall>x \<in> set w. ?A x" unfolding w_def set_rev by (blast dest: set_takeWhileD)
  ultimately have word: "name_word w" by (simp add: name_word_def)
  show ?case
  proof (cases "r = []")
    case True
    with cw word show ?thesis by (simp add: name_component.word)
  next
    case False
    define s where "s = rev (takeWhile ?N (rev r))"
    define p where "p = rev (dropWhile ?N (rev r))"
    have rs: "r = p @ s" by (simp add: s_def p_def rev_split)
    have "\<not> ?A (last r)" using False hd_dropWhile [of ?A "rev c"] by (simp add: r_def last_rev)
    then have s_ne: "s \<noteq> []" using False by (cases r rule: rev_cases) (auto simp: s_def)
    have s_all: "\<forall>x \<in> set s. ?N x" unfolding s_def set_rev by (blast dest: set_takeWhileD)
    have p_ne: "p \<noteq> []"
    proof
      assume "p = []"
      with rs s_ne s_all cw c(2) show False by (cases s) auto
    qed
    then have p_last: "?A (last p)" using hd_dropWhile [of ?N "rev r"] by (simp add: p_def last_rev)
    have loop: "component_loop (p @ s @ w)" using c(4) cw rs by simp
    then have "component_loop p" and sw: "component_loop (s @ w)" using component_loop_append [of p "s @ w"] p_last by auto
    moreover have "hd p = hd c" using cw rs p_ne by simp
    ultimately have "is_valid_name_component p" using c(2) p_ne p_last by (simp add: is_valid_name_component_def)
    moreover have "length p < length c" using cw rs s_ne by simp
    ultimately have IH: "name_component p" using 1(1) by blast
    obtain b bs where sb: "s = b # bs" using s_ne by (cases s) auto
    obtain v vs where wv: "w = v # vs" "?A v" using word by (cases w) (auto simp: name_word_def)
    have "takeWhile ?N (s @ w) = s" using s_all wv by (simp add: takeWhile_append2)
    with sw sb s_all have "valid_separator s" by (simp del: takeWhile.simps)
    with IH word have "name_component (p @ s @ w)" by (simp add: name_component.more name_separator_iff)
    then show ?thesis using cw rs by simp
  qed
qed

lemma name_components_Ok: "name_components cs = Ok u \<longleftrightarrow> (\<forall>c \<in> set cs. name_component c)"
  by (induction cs) (auto simp: name_component_valid dest: valid_name_component)

section \<open>Reading\<close>

lemma reads_only_match [reads_intros]: "reads_only m \<Longrightarrow> (\<And>r. reads_only (f r)) \<Longrightarrow> reads_only (pio_match m f)"
  by (auto simp: reads_only_def pio_match_Some) blast

lemma reads_only_source [reads_intros]: "reads_only (pio_run (grant_source_for_authorized_action node identity repository action))"
  unfolding grant_source_for_authorized_action_def store_reads
  by (auto simp: reads_only_def io_bind_def split: if_splits sum.splits)

lemma reads_only_max_grantable [reads_intros]: "reads_only (max_grantable_action au node identity repository)"
  unfolding max_grantable_action_def store_reads by (intro reads_intros)

lemma reads_only_summaries [reads_intros]:
  "reads_only (pio_run (rms_list_repository_summaries node))" "reads_only (pio_run (rms_list_manifest_summaries node name))"
  "reads_only (pio_run (rms_get_repository node name))" "reads_only (pio_run (rms_get_manifest node name reference))"
  unfolding rms_list_repository_summaries_def rms_list_manifest_summaries_def store_reads by (intro reads_intros)+

lemma reads_only_enrich [reads_intros]: "reads_only (enrich_repository_summary repo auth identity node)"
  unfolding enrich_repository_summary_def by (intro reads_intros)

lemma reads_only_get_repository [reads_intros]: "reads_only (dashboard_get_repository st identity name)"
  unfolding dashboard_get_repository_def Let_def by (intro reads_intros)

lemma reads_only_list_manifests [reads_intros]: "reads_only (pio_run (list_manifests st de name query))"
  unfolding list_manifests_def Let_def by (intro reads_intros) (simp add: reads_only_def split: prod.splits)

lemma reads_only_get_manifest [reads_intros]: "reads_only (dashboard_get_manifest st name dig identity)"
  unfolding dashboard_get_manifest_def Let_def by (intro reads_intros)

lemma reads_only_raw_manifest [reads_intros]: "reads_only (pio_run (get_raw_manifest st name dig))"
  unfolding get_raw_manifest_def by (intro reads_intros) (auto simp: reads_only_def split: sum.splits)

lemma reads_only_gate [reads_intros]: "reads_only (dashboard_read_gate st req name)"
  unfolding dashboard_read_gate_def by (intro reads_intros)

lemma reads_only_tail:
  "reads_only n \<Longrightarrow> (\<And>a. reads_only (o1 a)) \<Longrightarrow> (\<And>a b. reads_only (o2 a b)) \<Longrightarrow> reads_only e \<Longrightarrow>
    reads_only (case xs of [] \<Rightarrow> n | [a] \<Rightarrow> o1 a | [a, b] \<Rightarrow> o2 a b | _ \<Rightarrow> e)"
  by (simp split: list.split)

lemma reads_only_dashboard_manifests: "hq_method req = GET \<Longrightarrow> reads_only (dashboard_manifests st de req name tail)"
  by (simp add: dashboard_manifests_def Let_def) (intro reads_intros reads_only_tail)

lemma reads_only_dispatch: "hq_method req = GET \<Longrightarrow> reads_only (repository_dispatch_result st de req)"
  by (simp add: repository_dispatch_result_def Let_def, unfold Let_def) (intro reads_intros reads_only_dashboard_manifests conjI impI)

text \<open>The repository that the path of a request names, still encoded.\<close>

definition dashboard_repository :: "server_request \<Rightarrow> string" where
  "dashboard_repository req =
     (let path = Request_Paths.trim_slashes (hq_wildcard req); parts = split_char (CHR ''/'') path in
      if hq_method req = POST \<and> ends_with ''/manifests:batch-delete'' path then the (strip_suffix ''/manifests:batch-delete'' path)
      else case manifests_split parts of None \<Rightarrow> path | Some (before, tail) \<Rightarrow> join ''/'' before)"

lemma position_None: "position P xs = None \<longleftrightarrow> (\<forall>x \<in> set xs. \<not> P x)"
proof -
  have "length (takeWhile (\<lambda>x. \<not> P x) xs) < length xs \<longleftrightarrow> takeWhile (\<lambda>x. \<not> P x) xs \<noteq> xs"
    by (metis length_takeWhile_le le_neq_implies_less nat_less_le takeWhile_eq_take take_all_iff order_refl)
  then show ?thesis by (auto simp: position_def Let_def takeWhile_eq_all_conv)
qed

lemma manifests_split_None [simp]: "manifests_split parts = None \<longleftrightarrow> ''manifests'' \<notin> set parts"
  by (auto simp: manifests_split_def position_None)

section \<open>Writing\<close>

text \<open>The worlds that a series of writes leads to, all of them with a property.\<close>

inductive written :: "'w raft_node \<Rightarrow> (request \<Rightarrow> bool) \<Rightarrow> 'w \<Rightarrow> 'w \<Rightarrow> bool" for node P where
  none: "written node P w w"
| more: "written node P w v \<Longrightarrow> P req \<Longrightarrow> written node P w (snd (rms_write node req v))"

interpretation writes: world_order "written node P" for node P
proof
  show "written node P w w''" if "written node P w w'" "written node P w' w''" for w w' w''
    using that(2,1) by induction (auto intro: written.intros)
qed (rule written.none)

lemma written_write: "P req \<Longrightarrow> io_rel (written node P) (rms_write node req)"
  using written.more [OF written.none] by (fastforce simp: io_rel_def)

text \<open>A change of one repository that names the epoch of its namespace.\<close>

definition repository_change :: "string \<Rightarrow> namespace_epoch option \<Rightarrow> request \<Rightarrow> bool" where
  "repository_change name expected req =
     (case req of
        ReqManifest (DeleteTag n e d t) \<Rightarrow> n = name \<and> e = expected
      | ReqManifest (DeleteManifests n e ds) \<Rightarrow> n = name \<and> e = expected
      | ReqManifest (DeleteRepositoryContent n e) \<Rightarrow> n = name \<and> e = expected
      | ReqRepository (PutRepository repo e) \<Rightarrow> repo_name repo = name \<and> e = expected
      | ReqRepository (DeleteRepository n e) \<Rightarrow> n = name \<and> e = expected
      | _ \<Rightarrow> False)"

lemma repository_change_intros [simp]:
  "repository_change name e (ReqManifest (DeleteTag name e d t))" "repository_change name e (ReqManifest (DeleteManifests name e ds))"
  "repository_change name e (ReqManifest (DeleteRepositoryContent name e))" "repository_change name e (ReqRepository (DeleteRepository name e))"
  "repository_change name e (ReqRepository (PutRepository repo e)) \<longleftrightarrow> repo_name repo = name"
  by (simp_all add: repository_change_def)

lemma written_manifest: "P (ReqManifest req) \<Longrightarrow> io_rel (written node P) (write_manifest node req)"
  unfolding write_manifest_def by (intro writes.rels written_write) (auto split: response.splits intro!: writes.rels)

lemma written_repository: "P (ReqRepository req) \<Longrightarrow> io_rel (written node P) (write_repository node req)"
  unfolding write_repository_def by (intro writes.rels written_write) (auto split: response.splits intro!: writes.rels)

lemma written_auth: "as_auth st = Some au \<Longrightarrow> io_rel (written node P) y \<Longrightarrow> io_rel (written node P) (if as_auth st = None then x else y)"
  by simp

lemma written_if: "io_rel (written node P) x \<Longrightarrow> io_rel (written node P) y \<Longrightarrow> io_rel (written node P) (if c then x else y)"
  by simp

lemmas written_rels = writes.rels written_manifest written_repository

lemma deletes_written:
  "io_rel (written node (repository_change name e)) (rms_delete_tag_with_expected_namespace node name d tag e)"
  "io_rel (written node (repository_change name e)) (rms_delete_manifests_with_expected_namespace node name ds e)"
  "io_rel (written node (repository_change name e)) (rms_delete_repository_with_expected_namespace node name e)"
  "io_rel (written node (repository_change name e)) (rms_delete_repository_meta_with_expected_namespace node name e)"
  unfolding rms_delete_tag_with_expected_namespace_def rms_delete_manifests_with_expected_namespace_def
    rms_delete_repository_with_expected_namespace_def rms_delete_repository_meta_with_expected_namespace_def
  by ((intro written_rels; simp?), (auto split: repository_response.splits intro!: writes.rels)?)+

lemma put_written: "repo_name repo = name \<Longrightarrow> io_rel (written node (repository_change name e)) (rms_put_repository_with_expected_namespace node repo e)"
  unfolding rms_put_repository_with_expected_namespace_def io_unit_def by (intro written_rels) simp

text \<open>What a run may have done: nothing, or changes of one repository for an identity with permission.\<close>

definition permitted_change :: "'w auth_service \<Rightarrow> 'w raft_node \<Rightarrow> auth_identity option \<Rightarrow> string \<Rightarrow> oci_action \<Rightarrow> 'w \<Rightarrow> 'w \<Rightarrow> bool" where
  "permitted_change au node identity name action w w' \<longleftrightarrow>
     w' = w \<or> (\<exists>i access. identity = Some i \<and> check_permission au node i name action w = Some (Ok access, w) \<and>
       written node (repository_change name (ara_expected_namespace access)) w w')"

lemma guarded_change:
  assumes au: "as_auth st = Some au"
    and run: "pio_bind (require_permission action st identity name) (\<lambda>expected. pio_run (body expected)) w = Some (r, w')"
    and body: "\<And>expected. written (as_metadata st) (repository_change name expected) w (snd (body expected w))"
  shows "permitted_change au (as_metadata st) identity name action w w'"
proof (cases identity)
  case None
  with run au show ?thesis by (simp add: require_permission_def pio_bind_def permitted_change_def)
next
  case (Some i)
  let ?chk = "check_permission au (as_metadata st) i name action"
  have rd: "?chk w = Some (x, v) \<Longrightarrow> v = w" for x v by (rule reads_only_check_permission [unfolded reads_only_def, rule_format])
  show ?thesis
  proof (cases "?chk w")
    case None
    with run au Some show ?thesis by (simp add: require_permission_def pio_bind_def)
  next
    case found: (Some p)
    obtain x v where p: "p = (x, v)" by (cases p)
    with found rd have v: "v = w" by blast
    show ?thesis
    proof (cases x)
      case (Inl e)
      with run au Some found p v show ?thesis by (simp add: require_permission_def pio_bind_def permitted_change_def)
    next
      case (Inr access)
      with run au Some found p v have "body (ara_expected_namespace access) w = (r, w')"
        by (simp add: require_permission_def pio_bind_def)
      with body [of "ara_expected_namespace access"] have "written (as_metadata st) (repository_change name (ara_expected_namespace access)) w w'"
        by simp
      with Some found p v Inr show ?thesis by (auto simp: permitted_change_def)
    qed
  qed
qed

lemma pio_skip: "pio_bind (pio_run (io_result x)) f w = Some (r, w') \<Longrightarrow> (\<exists>e. x = Err e \<and> w' = w) \<or> (\<exists>a. x = Ok a \<and> f a w = Some (r, w'))"
  by (cases x) (simp_all add: pio_bind_def)

lemma pio_skip_Ok: "pio_bind (pio_run (io_result x)) f w = Some (Ok r, w') \<Longrightarrow> \<exists>a. x = Ok a \<and> f a w = Some (Ok r, w')"
  by (cases x) (simp_all add: pio_bind_def)

lemma unchanged_permitted [simp]: "permitted_change au node identity name action w w" by (simp add: permitted_change_def)

lemma delete_repository_guarded:
  assumes "as_auth st = Some au" and "dashboard_delete_repository st identity raw w = Some (r, w')"
  shows "permitted_change au (as_metadata st) identity (percent_decode raw) Delete w w'"
  using assms(1) assms(2) [unfolded dashboard_delete_repository_def Let_def require_delete_permission_def]
  by (rule guarded_change) (rule io_relD, intro written_auth [OF assms(1)] written_rels deletes_written)

lemma delete_manifests_written:
  "as_auth st = Some au \<Longrightarrow> io_rel (written (as_metadata st) (repository_change name e)) (delete_dashboard_manifests st name ds e)"
  unfolding delete_dashboard_manifests_def by simp (intro written_rels deletes_written)

lemma delete_manifest_guarded:
  assumes "as_auth st = Some au" and "dashboard_delete_manifest st identity raw dig w = Some (r, w')"
  shows "permitted_change au (as_metadata st) identity (percent_decode raw) Delete w w'"
  using assms(1) assms(2) [unfolded dashboard_delete_manifest_def Let_def require_delete_permission_def]
  by (rule guarded_change) (rule io_relD, intro written_rels delete_manifests_written [OF assms(1)])

lemma batch_delete_guarded:
  assumes "as_auth st = Some au" and "batch_delete_manifests st identity raw digs w = Some (r, w')"
  shows "permitted_change au (as_metadata st) identity (percent_decode raw) Delete w w'"
  using assms(1) assms(2) [unfolded batch_delete_manifests_def Let_def require_delete_permission_def]
  by (rule guarded_change) (rule io_relD, intro written_rels delete_manifests_written [OF assms(1)])

lemma delete_tag_guarded:
  assumes "as_auth st = Some au" and "dashboard_delete_tag st identity raw dig tag w = Some (r, w')"
  shows "permitted_change au (as_metadata st) identity (percent_decode raw) Delete w w'"
  using assms(1) assms(2) [unfolded dashboard_delete_tag_def Let_def require_delete_permission_def]
  by (rule guarded_change) (rule io_relD, intro written_auth [OF assms(1)] written_rels deletes_written written_if)

text \<open>A changed repository keeps its name, because stored repositories are filed under theirs.\<close>

lemma stored_repository_name:
  assumes "raft_ok node log" and "get_repository (rn_state node w) name = Some repo"
  shows "repo_name repo = name"
proof -
  from assms(1) obtain n rs where "apply_entries (rn_env node) empty_state (take n (log w)) = Some (rn_state node w, rs)"
    unfolding raft_ok_def by blast
  then have "stores_wf (rn_env node) (rn_state node w)" by (rule stores_reachable)
  with assms(2) show ?thesis by (auto simp: stores_wf_def keyed_def get_repository_def)
qed

lemma patched_repository_name [simp]: "repo_name (patched_repository req repo) = repo_name repo"
  by (simp add: patched_repository_def Let_def split: option.splits)

lemma patch_repository_guarded:
  assumes ok: "raft_ok (as_metadata st) log" and au: "as_auth st = Some au" and run: "patch_repository st identity raw req w = Some (r, w')"
  shows "permitted_change au (as_metadata st) identity (percent_decode raw) Update w w'"
proof -
  let ?name = "percent_decode raw" and ?node = "as_metadata st"
  define body where "body expected = io_bind (rms_get_repository ?node ?name) (\<lambda>found.
        io_bind (io_result (ok_or found (NameUnknown [Disp ?name]))) (\<lambda>repo0.
        let repo = patched_repository req repo0 in
        io_bind (put_dashboard_repository st repo expected) (\<lambda>_. io_return (dashboard_ok (RepositoryPayload repo)))))" for expected
  have "written ?node (repository_change ?name expected) w (snd (body expected w))" for expected
  proof (cases "get_repository (rn_state ?node w) ?name")
    case None
    then show ?thesis by (simp add: body_def rms_get_repository_def ok_or_def written.none)
  next
    case (Some repo)
    define repo' where "repo' = patched_repository req repo"
    have "repo_name repo' = ?name" using stored_repository_name [OF ok Some] by (simp add: repo'_def)
    then have "io_rel (written ?node (repository_change ?name expected))
        (io_bind (rms_put_repository_with_expected_namespace ?node repo' expected) (\<lambda>_. io_return (dashboard_ok (RepositoryPayload repo'))))"
      by (intro written_rels put_written)
    then show ?thesis using Some au io_relD
      by (auto simp: body_def rms_get_repository_def ok_or_def put_dashboard_repository_def Let_def repo'_def)
  qed
  moreover have "(\<exists>e. validate_repository_name ?name = Err e \<and> w' = w) \<or>
      pio_bind (require_permission Update st identity ?name) (\<lambda>expected. pio_run (body expected)) w = Some (r, w')"
    using pio_skip [OF run [unfolded patch_repository_def Let_def]]
    by (auto simp: require_update_permission_def body_def Let_def)
  ultimately show ?thesis using guarded_change [OF au] by (metis unchanged_permitted)
qed

text \<open>Every request of the dispatcher.\<close>

abbreviation dashboard_action :: "server_request \<Rightarrow> oci_action" where
  "dashboard_action req \<equiv> (if hq_method req = PATCH then Update else Delete)"

lemma gate_open: "hq_method req \<noteq> GET \<Longrightarrow> dashboard_read_gate st req name w = Some (Ok (), w)"
  by (simp add: dashboard_read_gate_def split: option.splits)

lemma manifests_guarded:
  assumes "as_auth st = Some au" and "hq_method req \<noteq> GET" and "dashboard_manifests st de req name tail w = Some (r, w')"
  shows "permitted_change au (as_metadata st) (hq_identity req) (percent_decode name) (dashboard_action req) w w'"
  using assms delete_manifest_guarded [OF assms(1)] delete_tag_guarded [OF assms(1)]
  by (fastforce simp: dashboard_manifests_def Let_def split: if_splits list.splits)

lemma dispatch_guarded:
  assumes ok: "raft_ok (as_metadata st) log" and au: "as_auth st = Some au" and writes: "hq_method req \<noteq> GET"
    and run: "repository_dispatch_result st de req w = Some (r, w')"
  shows "permitted_change au (as_metadata st) (hq_identity req) (percent_decode (dashboard_repository req)) (dashboard_action req) w w'"
proof -
  define path where "path = Request_Paths.trim_slashes (hq_wildcard req)"
  define parts where "parts = split_char (CHR ''/'') path"
  note defs = repository_dispatch_result_def dashboard_repository_def Let_def path_def [symmetric] parts_def [symmetric]
  consider (batch) "hq_method req = POST" "ends_with ''/manifests:batch-delete'' path"
    | (plain) "\<not> (hq_method req = POST \<and> ends_with ''/manifests:batch-delete'' path)" "''manifests'' \<notin> set parts"
    | (manifests) before tail where "\<not> (hq_method req = POST \<and> ends_with ''/manifests:batch-delete'' path)" "manifests_split parts = Some (before, tail)"
    by (cases "manifests_split parts") auto
  then show ?thesis
  proof cases
    case batch
    then obtain name where name: "strip_suffix ''/manifests:batch-delete'' path = Some name"
      by (auto simp: strip_suffix_def strip_prefix_def ends_with_def)
    with batch run have "pio_bind (pio_run (io_result (dashboard_body req (de_batch_request de))))
        (\<lambda>digs. batch_delete_manifests st (hq_identity req) name digs) w = Some (r, w')" by (simp add: defs)
    then show ?thesis
      using name batch by (auto dest!: pio_skip batch_delete_guarded [OF au] simp: defs)
  next
    case plain
    then have none: "manifests_split parts = None" by simp
    with plain run writes show ?thesis
      by (auto simp: defs none simp del: manifests_split_None split: if_splits
          dest!: pio_skip patch_repository_guarded [OF ok au] delete_repository_guarded [OF au])
  next
    case manifests
    then have member: "''manifests'' \<in> set parts" by (metis manifests_split_None option.distinct(1))
    have "dashboard_manifests st de req (join ''/'' before) tail w = Some (r, w')"
      using run manifests member writes by (auto simp: defs pio_bind_def gate_open split: if_splits)
    moreover have "dashboard_repository req = join ''/'' before" using manifests by (auto simp: defs)
    ultimately show ?thesis using manifests_guarded [OF au writes] by metis
  qed
qed

section \<open>Reads are checked\<close>

lemma literal_trim: "CHR ''%'' \<notin> set path \<Longrightarrow> CHR ''%'' \<notin> set (Request_Paths.trim_slashes path)"
  unfolding Request_Paths.trim_slashes_def by (auto dest: set_dropWhileD)

lemma checked_then:
  assumes "pio_bind (check_permission au node i name action) f w = Some (Ok r, w')"
  shows "\<exists>access. check_permission au node i name action w = Some (Ok access, w)"
proof -
  from assms obtain access v where c: "check_permission au node i name action w = Some (Ok access, v)" by (auto simp: pio_bind_Ok)
  then have "v = w" by (rule reads_only_check_permission [unfolded reads_only_def, rule_format])
  with c show ?thesis by blast
qed

lemma get_checked:
  assumes au: "as_auth st = Some au" and i: "hq_identity req = Some i" and get: "hq_method req = GET" and lit: "CHR ''%'' \<notin> set (hq_wildcard req)"
    and run: "repository_dispatch_result st de req w = Some (Ok r, w')"
  shows "\<exists>access. check_permission au (as_metadata st) i (dashboard_repository req) Pull w = Some (Ok access, w)"
proof -
  define path where "path = Request_Paths.trim_slashes (hq_wildcard req)"
  define parts where "parts = split_char (CHR ''/'') path"
  note defs = repository_dispatch_result_def dashboard_repository_def Let_def path_def [symmetric] parts_def [symmetric]
  have dec: "percent_decode path = path" using literal_trim [OF lit] percent_decode_literal unfolding path_def by blast
  show ?thesis
  proof (cases "manifests_split parts")
    case None
    then have plain: "''manifests'' \<notin> set parts" by simp
    with run get have "dashboard_get_repository st (Some i) path w = Some (Ok r, w')" using i by (simp add: defs)
    then have "\<exists>f. pio_bind (pio_bind (check_permission au (as_metadata st) i path Pull) (\<lambda>_. pio_return ())) f w = Some (Ok r, w')"
      using au dec unfolding dashboard_get_repository_def Let_def by (auto dest!: pio_skip_Ok)
    then have "\<exists>u v. pio_bind (check_permission au (as_metadata st) i path Pull) (\<lambda>_. pio_return ()) w = Some (Ok u, v)"
      by (auto simp: pio_bind_Ok)
    then have "\<exists>access. check_permission au (as_metadata st) i path Pull w = Some (Ok access, w)" by (elim exE) (rule checked_then)
    moreover have "dashboard_repository req = path" using get None by (simp add: defs None del: manifests_split_None)
    ultimately show ?thesis by simp
  next
    case (Some p)
    then obtain before tail where p: "manifests_split parts = Some (before, tail)" by (cases p) simp
    then have member: "''manifests'' \<in> set parts" by (metis manifests_split_None option.distinct(1))
    have "\<exists>u v. dashboard_read_gate st req (join ''/'' before) w = Some (Ok u, v)"
      using run get p member by (auto simp: defs pio_bind_Ok)
    then have "\<exists>u v. pio_bind (check_permission au (as_metadata st) i (join ''/'' before) Pull) (\<lambda>_. pio_return ()) w = Some (Ok u, v)"
      using au i get by (simp add: dashboard_read_gate_def)
    then have "\<exists>access. check_permission au (as_metadata st) i (join ''/'' before) Pull w = Some (Ok access, w)" by (elim exE) (rule checked_then)
    moreover have "dashboard_repository req = join ''/'' before" using get p by (simp add: defs)
    ultimately show ?thesis by simp
  qed
qed

section \<open>Listings\<close>

text \<open>The repositories an identity has some access to, with the access it has.\<close>

definition visible_of :: "'w auth_service \<Rightarrow> 'w raft_node \<Rightarrow> auth_identity \<Rightarrow> 'w \<Rightarrow> repository_summary \<Rightarrow> enriched_summary option" where
  "visible_of au node i w repo =
     (case max_grantable_action au node i (rs_name repo) w of
        Some (Inr (action, source), _) \<Rightarrow> Some \<lparr>er_summary = repo, er_access_level = action, er_max_grantable = action, er_grant_source = source\<rparr>
      | _ \<Rightarrow> None)"

definition visible_repositories :: "'w auth_service \<Rightarrow> 'w raft_node \<Rightarrow> auth_identity \<Rightarrow> 'w \<Rightarrow> enriched_summary list" where
  "visible_repositories au node i w = List.map_filter (visible_of au node i w) (list_repository_summaries (rn_env node) (rn_state node w))"

lemma max_grantable_reads: "max_grantable_action au node i name w = Some (x, v) \<Longrightarrow> v = w"
  by (rule reads_only_max_grantable [unfolded reads_only_def, rule_format])

lemma visible_of_Some:
  "visible_of au node i w repo = Some e \<longleftrightarrow> er_summary e = repo \<and> er_max_grantable e = er_access_level e \<and>
    max_grantable_action au node i (rs_name repo) w = Some (Ok (er_access_level e, er_grant_source e), w)"
proof (cases "max_grantable_action au node i (rs_name repo) w")
  case (Some p)
  obtain x v where "p = (x, v)" by (cases p)
  with Some max_grantable_reads show ?thesis by (cases e) (auto simp: visible_of_def split: sum.splits prod.splits)
qed (simp add: visible_of_def)

lemma enrich_visible_spec:
  assumes "enrich_visible au i node repos w = Some (Ok es, w')"
  shows "w' = w \<and> es = List.map_filter (visible_of au node i w) repos"
  using assms
proof (induction repos arbitrary: es)
  case (Cons repo repos)
  from Cons.prems obtain x v rest where x: "enrich_repository_summary repo (Some au) (Some i) node w = Some (x, v)"
    and rest: "enrich_visible au i node repos v = Some (Ok rest, w')" and es: "es = (case x of Inl _ \<Rightarrow> rest | Inr e \<Rightarrow> e # rest)"
    by (auto simp: pio_match_Some pio_bind_Ok)
  have "v = w" by (rule reads_only_enrich [unfolded reads_only_def, rule_format, OF x])
  moreover from x have "visible_of au node i w repo = (case x of Inl _ \<Rightarrow> None | Inr e \<Rightarrow> Some e)"
    by (auto simp: visible_of_def enrich_repository_summary_def pio_bind_def split: option.splits prod.splits sum.splits)
  ultimately show ?case using es rest Cons.IH by (auto split: sum.splits)
qed simp

lemma set_map_filter: "e \<in> set (List.map_filter f xs) \<longleftrightarrow> (\<exists>x \<in> set xs. f x = Some e)"
  by (induction xs) (auto split: option.splits)

lemma visible_iff:
  "e \<in> set (visible_repositories au node i w) \<longleftrightarrow>
    er_summary e \<in> set (list_repository_summaries (rn_env node) (rn_state node w)) \<and> er_max_grantable e = er_access_level e \<and>
    max_grantable_action au node i (er_name e) w = Some (Ok (er_access_level e, er_grant_source e), w)"
  by (auto simp: visible_repositories_def set_map_filter visible_of_Some)

lemma summary_names_distinct: "distinct (map rs_name (list_repository_summaries env data))"
proof -
  have names: "rs_name (pushed_summary env data nr) = fst nr" "rs_name (shadow_summary nr') = fst nr'" for nr nr'
    by (simp_all add: pushed_summary_def shadow_summary_def Let_def split: prod.splits)
  let ?f = "\<lambda>nr. \<not> bt_contains (manifests data) (fst nr)"
  have "distinct (map fst (bt_entries (manifests data)))" using bt_keys_distinct [of "manifests data"] by (simp add: bt_keys_def)
  moreover have "distinct (map fst (filter ?f (bt_entries (repositories data))))"
    by (rule distinct_map_filter) (use bt_keys_distinct [of "repositories data"] in \<open>simp add: bt_keys_def\<close>)
  moreover have "fst ` set (bt_entries (manifests data)) = {k. bt_contains (manifests data) k}"
    by (simp add: bt.keys_dom bt_contains_iff)
  ultimately show ?thesis by (auto simp: list_repository_summaries_def names comp_def)
qed

lemma visible_names_distinct: "distinct (map er_name (visible_repositories au node i w))"
proof -
  have "map er_name (List.map_filter (visible_of au node i w) repos) = map rs_name (filter (\<lambda>r. visible_of au node i w r \<noteq> None) repos)" for repos
  proof (induction repos)
    case (Cons r repos)
    then show ?case by (cases "visible_of au node i w r") (simp_all add: visible_of_Some [THEN iffD1])
  qed simp
  then show ?thesis
    by (simp add: visible_repositories_def distinct_map_filter summary_names_distinct)
qed

lemma mset_sort_key_desc [simp]: "mset (sort_key_desc f xs) = mset xs" by (simp add: sort_key_desc_def)

lemma mset_sort_repositories [simp]: "mset (sort_repositories sort_by items) = mset items"
  by (simp add: sort_repositories_def Let_def)

lemma with_link_payload: "with_link st body has_more url = Ok resp \<Longrightarrow> dr_payload resp = body"
  by (auto simp: with_link_def dashboard_ok_def Let_def split: option.splits if_splits)

text \<open>A client that repeats its query with the key of the last item it has got.\<close>

fun crawl_pages :: "nat \<Rightarrow> (string option \<Rightarrow> 'a list \<times> bool) \<Rightarrow> ('a \<Rightarrow> string) \<Rightarrow> string option \<Rightarrow> 'a list" where
  "crawl_pages 0 get key lst = []"
| "crawl_pages (Suc fuel) get key lst =
     (let (page, more) = get lst in page @ (if more then crawl_pages fuel get key (Some (key (last page))) else []))"

lemma position_distinct:
  assumes "distinct (map key items)" and "k < length items"
  shows "position (\<lambda>x. key x = key (items ! k)) items = Some k"
proof -
  have "takeWhile (\<lambda>x. key x \<noteq> key (items ! k)) items = take k items"
    using assms by (intro takeWhile_eq_take_P_nth) (auto simp: distinct_conv_nth)
  with assms(2) show ?thesis by (simp add: position_def)
qed

lemma paginate_at:
  assumes "distinct (map key items)" and "k < length items"
  shows "paginate items n (Some (key (items ! k))) key = (take n (drop (k + 1) items), length items - (k + 1) > n)"
  using position_distinct [OF assms] by (auto simp: paginate_def Let_def)

lemma paginate_start: "paginate items n None key = (take n items, length items > n)"
  by (auto simp: paginate_def Let_def)

lemma crawl_from:
  assumes "distinct (map key items)" and "0 < n" and "length items \<le> k + 1 + fuel" and "k < length items"
  shows "crawl_pages fuel (\<lambda>lst. paginate items n lst key) key (Some (key (items ! k))) = drop (k + 1) items"
  using assms(3,4)
proof (induction fuel arbitrary: k)
  case 0
  then show ?case by simp
next
  case (Suc fuel)
  note at = paginate_at [OF assms(1) Suc.prems(2), of n]
  show ?case
  proof (cases "length items - (k + 1) > n")
    case False
    then show ?thesis by (simp add: at)
  next
    case True
    then have "last (take n (drop (k + 1) items)) = items ! (k + n)"
      using assms(2) by (subst last_conv_nth) (auto simp: min_def)
    with Suc.IH [of "k + n"] Suc.prems True assms(2)
    have "crawl_pages (Suc fuel) (\<lambda>lst. paginate items n lst key) key (Some (key (items ! k))) = take n (drop (k + 1) items) @ drop (k + n + 1) items"
      by (simp add: at)
    also have "drop (k + n + 1) items = drop n (drop (k + 1) items)" by (simp add: add.commute add.left_commute)
    finally show ?thesis by (simp only: append_take_drop_id)
  qed
qed

lemma crawl_complete:
  assumes "distinct (map key items)" and "0 < n"
  shows "crawl_pages (Suc (length items)) (\<lambda>lst. paginate items n lst key) key None = items"
proof (cases "length items > n")
  case False
  then show ?thesis by (simp add: paginate_start)
next
  case True
  then have "last (take n items) = items ! (n - 1)" using assms(2) by (subst last_conv_nth) (auto simp: min_def)
  with crawl_from [OF assms, of "n - 1" "length items"] True assms(2) show ?thesis by (simp add: paginate_start)
qed

end
