(* ===== verification/Dashboard_Properties.thy ===== *)
theory Dashboard_Properties
  imports Dashboard_Guards Account_Scenario
begin

text \<open>What the dashboard API guarantees: checked requests, confined listings, and the grammar of names.\<close>

section \<open>Permissions\<close>

text \<open>
  C8: A dashboard request below a repository changes the world only by writes about the repository its path
  names, on behalf of an identity that was permitted to update it (PATCH) or to delete from it, and every write
  carries the epoch of the namespace that this permission was decided for.  A GET request changes nothing, and
  for a path without percent signs it is answered only to an identity that may pull the repository it names.
\<close>

theorem dashboard_requests_checked:
  assumes raft: "raft_ok (as_metadata st) log" and au: "as_auth st = Some au"
    and run: "repository_dispatch_result st de req w = Some (r, w')"
  shows "if hq_method req = GET
    then w' = w \<and> (\<forall>i resp. hq_identity req = Some i \<longrightarrow> CHR ''%'' \<notin> set (hq_wildcard req) \<longrightarrow> r = Ok resp \<longrightarrow>
      (\<exists>access. check_permission au (as_metadata st) i (dashboard_repository req) Pull w = Some (Ok access, w)))
    else w' = w \<or> (\<exists>i access. hq_identity req = Some i \<and>
      check_permission au (as_metadata st) i (percent_decode (dashboard_repository req)) (if hq_method req = PATCH then Update else Delete) w = Some (Ok access, w) \<and>
      written (as_metadata st) (repository_change (percent_decode (dashboard_repository req)) (ara_expected_namespace access)) w w')"
proof (cases "hq_method req = GET")
  case True
  have "w' = w" by (rule reads_only_dispatch [OF True, unfolded reads_only_def, rule_format, OF run])
  with True get_checked [OF au _ True] run show ?thesis by auto
next
  case False
  with dispatch_guarded [OF raft au False run] show ?thesis by (simp add: permitted_change_def)
qed

definition dashboard_sample :: dashboard_env where
  "dashboard_sample =
     \<lparr>de_manifest_query = \<lambda>q. Err [], de_batch_request = \<lambda>b. Err [], de_patch_request = \<lambda>b. Err [], de_rfc3339 = \<lambda>t. Err [], de_json_text = \<lambda>j. []\<rparr>"

definition dashboard_delete :: server_request where
  "dashboard_delete = (site_request DELETE ''alice/app'' [])\<lparr>hq_identity := Some login_owner\<rparr>"

lemma dashboard_delete_facts:
  "dashboard_repository dashboard_delete = ''alice/app''" "percent_decode ''alice/app'' = ''alice/app''" "hq_method dashboard_delete = DELETE"
  "hq_identity dashboard_delete = Some login_owner" "Request_Paths.trim_slashes (hq_wildcard dashboard_delete) = ''alice/app''"
  "''manifests'' \<notin> set (split_char (CHR ''/'') ''alice/app'')"
proof -
  show "hq_method dashboard_delete = DELETE" "hq_identity dashboard_delete = Some login_owner" by (simp_all add: dashboard_delete_def site_request_def)
  have "hq_wildcard dashboard_delete = ''alice/app''" by (simp add: dashboard_delete_def site_request_def)
  moreover have "Request_Paths.trim_slashes ''alice/app'' = ''alice/app''" by code_simp
  ultimately show path: "Request_Paths.trim_slashes (hq_wildcard dashboard_delete) = ''alice/app''" by simp
  show "percent_decode ''alice/app'' = ''alice/app''" by code_simp
  show plain: "''manifests'' \<notin> set (split_char (CHR ''/'') ''alice/app'')" by code_simp
  then have none: "manifests_split (split_char (CHR ''/'') ''alice/app'') = None" by simp
  show "dashboard_repository dashboard_delete = ''alice/app''"
    unfolding dashboard_repository_def Let_def path none by (simp add: dashboard_delete_def site_request_def)
qed

lemma dashboard_delete_runs: "\<exists>r w'. repository_dispatch_result login_site dashboard_sample dashboard_delete site_start = Some (r, w')"
proof -
  have "repository_dispatch_result login_site dashboard_sample dashboard_delete site_start = dashboard_delete_repository login_site (Some login_owner) ''alice/app'' site_start"
    using dashboard_delete_facts by (simp add: repository_dispatch_result_def Let_def)
  also have "\<exists>x. \<dots> = Some x"
    by (simp add: dashboard_delete_repository_def dashboard_delete_facts require_delete_permission_def require_permission_def login_facts(1)
        login_owner_permission site_start_def pio_bind_def Let_def pio_run_def) (metis prod_cases3)
  finally show ?thesis by simp
qed

theorem dashboard_requests_checked_witness:
  "\<exists>r w'. repository_dispatch_result login_site dashboard_sample dashboard_delete site_start = Some (r, w') \<and>
    (w' = site_start \<or> (\<exists>i access. Some login_owner = Some i \<and>
      check_permission login_auth (as_metadata login_site) i ''alice/app'' Delete site_start = Some (Ok access, site_start) \<and>
      written (as_metadata login_site) (repository_change ''alice/app'' (ara_expected_namespace access)) site_start w'))"
proof -
  from dashboard_delete_runs obtain r w' where run: "repository_dispatch_result login_site dashboard_sample dashboard_delete site_start = Some (r, w')" by blast
  have "raft_ok (as_metadata login_site) fst" using site_raft by simp
  from dashboard_requests_checked [OF this login_facts(1) run] run show ?thesis
    by (auto simp: dashboard_delete_facts)
qed

section \<open>Listings\<close>

text \<open>
  C9: When the authorizer reaches a decision about each stored repository and action, the repositories an
  identity finds in the dashboard are exactly the stored ones on which it may perform some action itself and
  that pass the filters of the query, each shown with the highest such action and with where the access comes
  from.  A client that repeats the query with the name of the last repository of each page gets every one of
  them exactly once.
\<close>

theorem dashboard_listing_exact:
  assumes au: "as_auth st = Some au" and lst: "dashboard_list_repositories st (Some i) query w = Some (Ok resp, w')"
    and decides: "list_all (\<lambda>s. authorizer_decides au (as_metadata st) i w (rs_name s))
      (list_repository_summaries (rn_env (as_metadata st)) (rn_state (as_metadata st) w))"
  shows "\<exists>kept page has_more. w' = w \<and>
    dr_payload resp = RepositoriesPayload \<lparr>rl_repositories = page, rl_total_reachable = of_nat (length kept),
      rl_next_cursor = map_option (\<lambda>e. next_url ''/api/v1/repositories'' (dashboard_page_size (rq_n query)) (er_name e)) (last_opt page)\<rparr> \<and>
    (page, has_more) = paginate kept (dashboard_page_size (rq_n query)) (rq_last query) er_name \<and>
    crawl_pages (Suc (length kept)) (\<lambda>cursor. paginate kept (dashboard_page_size (rq_n query)) cursor er_name) er_name None = kept \<and>
    distinct (map er_name kept) \<and>
    (\<forall>e. e \<in> set kept \<longleftrightarrow> er_summary e \<in> set (list_repository_summaries (rn_env (as_metadata st)) (rn_state (as_metadata st) w)) \<and>
      er_max_grantable e = er_access_level e \<and>
      highest_itself au (as_metadata st) i w (er_name e) (er_access_level e) \<and>
      grant_source_for_authorized_action (as_metadata st) i (er_name e) (er_access_level e) w = (Ok (er_grant_source e), w) \<and>
      owned_filter (rq_filter query) (Some i) e \<and> name_filter (env_to_lowercase (rn_env (as_metadata st))) (rq_q query) e \<and>
      recency_filter (rq_recency query) (rn_now (as_metadata st) w) e)"
proof -
  let ?node = "as_metadata st" and ?n = "dashboard_page_size (rq_n query)"
  from lst au obtain es v where es: "enrich_visible au i ?node (list_repository_summaries (rn_env ?node) (rn_state ?node w)) w = Some (Ok es, v)"
    and page: "repository_page st (Some i) query (rn_now ?node v) es = Ok resp" and w': "w' = v"
    by (auto simp: dashboard_list_repositories_def pio_bind_Ok rms_list_repository_summaries_def)
  from enrich_visible_spec [OF es] have vis: "v = w" "es = visible_repositories au ?node i w" by (simp_all add: visible_repositories_def)
  define kept0 where "kept0 = filter (recency_filter (rq_recency query) (rn_now ?node w))
    (filter (name_filter (env_to_lowercase (rn_env ?node)) (rq_q query)) (filter (owned_filter (rq_filter query) (Some i)) es))"
  define kept where "kept = sort_repositories (rq_sort query) kept0"
  have same: "mset kept = mset kept0" by (simp add: kept_def)
  then have len: "length kept = length kept0" and set: "set kept = set kept0" by (metis size_mset, metis set_mset_mset)
  have "distinct (map er_name kept0)" unfolding kept0_def vis(2) by (intro distinct_map_filter visible_names_distinct)
  then have dist: "distinct (map er_name kept)" using same by (metis mset_map mset_eq_imp_distinct_iff)
  obtain p has_more where pg: "paginate kept ?n (rq_last query) er_name = (p, has_more)" by fastforce
  have "dr_payload resp = RepositoriesPayload \<lparr>rl_repositories = p, rl_total_reachable = of_nat (length kept),
      rl_next_cursor = map_option (\<lambda>e. next_url ''/api/v1/repositories'' ?n (er_name e)) (last_opt p)\<rparr>"
    using page unfolding repository_page_def Let_def vis(1) kept0_def [symmetric] kept_def [symmetric] pg prod.case len [symmetric]
    by (rule with_link_payload)
  moreover have "0 < ?n" by (simp add: dashboard_page_size_def DASHBOARD_MAX_PAGE_SIZE_def)
  then have "crawl_pages (Suc (length kept)) (\<lambda>cursor. paginate kept ?n cursor er_name) er_name None = kept" by (rule crawl_complete [OF dist])
  moreover have iff: "\<forall>e. e \<in> set kept \<longleftrightarrow> er_summary e \<in> set (list_repository_summaries (rn_env ?node) (rn_state ?node w)) \<and>
      er_max_grantable e = er_access_level e \<and> highest_itself au ?node i w (er_name e) (er_access_level e) \<and>
      grant_source_for_authorized_action ?node i (er_name e) (er_access_level e) w = (Ok (er_grant_source e), w) \<and>
      owned_filter (rq_filter query) (Some i) e \<and> name_filter (env_to_lowercase (rn_env ?node)) (rq_q query) e \<and>
      recency_filter (rq_recency query) (rn_now ?node w) e"
    using decides max_grantable_highest [of au ?node i w] by (auto simp: set kept0_def vis(2) visible_iff list_all_iff)
  ultimately show ?thesis using w' vis(1) pg dist by (intro exI [of _ kept] exI [of _ p] exI [of _ has_more] conjI) simp_all
qed

definition dashboard_query :: repository_query where
  "dashboard_query = \<lparr>rq_n = None, rq_last = None, rq_q = Some ''app'', rq_recency = None, rq_sort = None, rq_filter = FilterShared\<rparr>"

lemma site_summaries: "map rs_name (list_repository_summaries sc_env sc_state) = [''alice/app'']"
  by code_simp

lemma dashboard_lists: "\<exists>resp. dashboard_list_repositories login_site (Some login_owner) dashboard_query site_start = Some (Ok resp, site_start)"
proof -
  from site_summaries obtain repo where repo: "list_repository_summaries sc_env sc_state = [repo]" "rs_name repo = ''alice/app''" by auto
  from login_ceiling obtain source where "max_grantable_action login_auth (as_metadata site) login_owner ''alice/app'' (sc_log, mem_empty) =
    Some (Ok (Delete, source), (sc_log, mem_empty))" by blast
  then have "\<exists>es. enrich_visible login_auth login_owner (as_metadata site) [repo] (sc_log, mem_empty) = Some (Ok es, (sc_log, mem_empty))"
    by (simp add: enrich_repository_summary_def repo pio_bind_def pio_match_def)
  moreover have "rn_env (as_metadata site) = sc_env" by (simp add: site_def pull_mirror_def node_on_fst_def local_node_def)
  moreover have "\<exists>resp. repository_page login_site (Some login_owner) dashboard_query now es = Ok resp" for now es
    by (simp add: repository_page_def Let_def with_link_def login_site_def site_def split: prod.splits option.splits)
  ultimately show ?thesis
    by (auto simp: dashboard_list_repositories_def login_facts(1) site_start_def rms_list_repository_summaries_def repo pio_bind_def)
qed

theorem dashboard_listing_exact_witness:
  "\<exists>resp kept. dashboard_list_repositories login_site (Some login_owner) dashboard_query site_start = Some (Ok resp, site_start) \<and>
    distinct (map er_name kept) \<and> crawl_pages (Suc (length kept)) (\<lambda>cursor. paginate kept 50 cursor er_name) er_name None = kept \<and>
    list_all (\<lambda>e. er_name e = ''alice/app'' \<and> highest_itself login_auth (as_metadata site) login_owner site_start ''alice/app'' (er_access_level e)) kept"
proof -
  have env: "rn_env (as_metadata site) = sc_env" "rn_state (as_metadata site) site_start = sc_state"
    by (simp_all add: site_start_def, simp add: site_def pull_mirror_def node_on_fst_def local_node_def)
  from site_summaries obtain repo where repo: "list_repository_summaries sc_env sc_state = [repo]" "rs_name repo = ''alice/app''" by auto
  have decides: "list_all (\<lambda>s. authorizer_decides login_auth (as_metadata site) login_owner site_start (rs_name s))
      (list_repository_summaries (rn_env (as_metadata site)) (rn_state (as_metadata site) site_start))"
    using login_decides [of mem_empty] by (simp add: env repo site_start_def [symmetric])
  from dashboard_lists obtain resp where lst: "dashboard_list_repositories login_site (Some login_owner) dashboard_query site_start = Some (Ok resp, site_start)" by blast
  have size: "dashboard_page_size (rq_n dashboard_query) = 50" by (simp add: dashboard_page_size_def dashboard_query_def DASHBOARD_PAGE_SIZE_def DASHBOARD_MAX_PAGE_SIZE_def)
  note all = dashboard_listing_exact [OF login_facts(1) lst, unfolded login_metadata, OF decides]
  from all [unfolded env repo size] obtain kept where "crawl_pages (Suc (length kept)) (\<lambda>cursor. paginate kept 50 cursor er_name) er_name None = kept" "distinct (map er_name kept)"
    "\<And>e. e \<in> set kept \<Longrightarrow> er_summary e = repo \<and> highest_itself login_auth (as_metadata site) login_owner site_start (er_name e) (er_access_level e)"
    by (elim exE conjE) (rule that, assumption+, auto)
  with lst repo(2) show ?thesis unfolding list_all_iff by metis
qed

section \<open>Names\<close>

text \<open>
  C35: The dashboard accepts a repository name exactly when it has at most 255 bytes and its components follow
  the grammar of the distribution specification: words of lowercase letters and digits, joined by a dot, one or
  two underscores, or dashes.
\<close>

theorem repository_name_grammar:
  "validate_repository_name name = Ok () \<longleftrightarrow>
    name \<noteq> [] \<and> length name \<le> 255 \<and> list_all name_component (split_char (CHR ''/'') name)"
  by (auto simp: validate_repository_name_def name_components_Ok list_all_iff split: if_splits)

end
