(* ===== verification/Membership.thy ===== *)
theory Membership
  imports Metadata_Store Gc Mirror_Rules Request_Paths
begin

text \<open>
  Membership of the Raft cluster (\<^verbatim>\<open>raft/membership\<close>, \<^verbatim>\<open>raft/kubernetes.rs\<close>): the status, join and leave handlers,
  the requests a node makes to its peers, the discovery and join loop, the verification after a restore and the
  reconciliation with the replica count of a StatefulSet.  OpenRaft, the clock, the change lock, the resolver, the
  HTTP client and the JSON text are the record \<open>raft_handle\<close>; the world may move on while the lock is awaited.
\<close>

section \<open>Types\<close>

datatype node_state = NodeLeader | NodeFollower | NodeCandidate | NodeLearner

text \<open>\<^verbatim>\<open>openraft::ServerState\<close>, which has one more state.\<close>

datatype server_state = ServerLeader | ServerFollower | ServerCandidate | ServerLearner | ServerShutdown

datatype join_result = JoinOk | JoinNotLeader | AlreadyMember
datatype leave_result = LeaveOk | LeaveNotLeader | LastVoter | NotMember

record join_request =
  jr_node_id :: u64
  jr_addr :: string

record join_response =
  jp_result :: join_result
  jp_leader_addr :: "string option"

record leave_response =
  lp_result :: leave_result
  lp_leader_addr :: "string option"

record node_info =
  ni_id :: u64
  ni_addr :: string

record cluster_status =
  cs_node_id :: u64
  cs_state :: node_state
  cs_leader_id :: "u64 option"
  cs_leader_addr :: "string option"
  cs_voters :: "node_info list"
  cs_learners :: "node_info list"
  cs_term :: u64
  cs_last_log_index :: "u64 option"
  cs_last_applied_log :: "u64 option"
  cs_last_membership_log_id :: "u64 option"
  cs_millis_since_quorum_ack :: "u64 option"
  cs_replication :: "(u64, u64 option) btmap"

datatype membership_error = MembershipHttp msg | MembershipJson msg

text \<open>The fields of \<^verbatim>\<open>openraft::RaftMetrics\<close> that are read; \<open>mx_voter_ids\<close> is the set of voters.\<close>

record raft_metrics =
  mx_id :: u64
  mx_state :: server_state
  mx_current_leader :: "u64 option"
  mx_nodes :: "(u64, string) btmap"
  mx_voter_ids :: "u64 set"
  mx_membership_log :: "u64 option"
  mx_last_applied :: "u64 option"
  mx_last_log_index :: "u64 option"
  mx_current_term :: u64
  mx_millis_since_quorum_ack :: "u64 option"
  mx_replication :: "(u64, u64 option) btmap option"

datatype change_members = AddVoterIds "u64 set" | ReplaceAllVoters "u64 set"

datatype kubernetes_error =
    KubernetesToken msg
  | KubernetesCa msg
  | KubernetesCaParse msg
  | KubernetesClientError msg
  | KubernetesHttp msg
  | KubernetesJson msg
  | MissingReplicas

record 'w raft_handle =
  mh_metrics :: "'w \<Rightarrow> raft_metrics"
  mh_add_learner :: "u64 \<Rightarrow> string \<Rightarrow> 'w \<Rightarrow> (unit, string) result \<times> 'w"
  mh_change :: "change_members \<Rightarrow> 'w \<Rightarrow> (unit, string) result \<times> 'w"
  mh_change_within :: "nat \<Rightarrow> change_members \<Rightarrow> 'w \<Rightarrow> (unit, string) result option \<times> 'w"
  mh_initialize :: "(u64, string) btmap \<Rightarrow> 'w \<Rightarrow> bool \<times> 'w"
  mh_lock :: "'w \<Rightarrow> 'w"
  mh_unlock :: "'w \<Rightarrow> 'w"
  mh_sleep_ms :: "u64 \<Rightarrow> 'w \<Rightarrow> 'w"
  mh_lookup :: "string \<Rightarrow> 'w \<Rightarrow> string list option \<times> 'w"
  mh_tls :: bool
  mh_client :: "nat \<Rightarrow> (unit, msg) result"
  mh_call :: "nat \<Rightarrow> string \<Rightarrow> string \<Rightarrow> string option \<Rightarrow> 'w \<Rightarrow> (string, msg) result \<times> 'w"
  mh_encode_join :: "join_request \<Rightarrow> (string, msg) result"
  mh_encode_leave :: "u64 \<Rightarrow> (string, msg) result"
  mh_decode_status :: "string \<Rightarrow> (cluster_status, msg) result"
  mh_decode_join :: "string \<Rightarrow> (join_response, msg) result"
  mh_decode_leave :: "string \<Rightarrow> (leave_response, msg) result"
  mh_read_file :: "string \<Rightarrow> 'w \<Rightarrow> (string, msg) result"
  mh_kubernetes_client :: "string \<Rightarrow> (unit, kubernetes_error) result"
  mh_kubernetes_get :: "string \<Rightarrow> string \<Rightarrow> 'w \<Rightarrow> (string, msg) result \<times> 'w"
  mh_decode_statefulset :: "string \<Rightarrow> (u32 option, msg) result"

datatype membership_reply =
    JoinReply nat join_response
  | LeaveReply nat leave_response
  | TextReply nat string

fun reply_status :: "membership_reply \<Rightarrow> nat" where
  "reply_status (JoinReply s _) = s"
| "reply_status (LeaveReply s _) = s"
| "reply_status (TextReply s _) = s"

section \<open>Status\<close>

fun node_state_of :: "server_state \<Rightarrow> node_state" where
  "node_state_of ServerLeader = NodeLeader"
| "node_state_of ServerFollower = NodeFollower"
| "node_state_of ServerCandidate = NodeCandidate"
| "node_state_of ServerLearner = NodeLearner"
| "node_state_of ServerShutdown = NodeFollower"

definition leader_addr_of :: "raft_metrics \<Rightarrow> string option" where
  "leader_addr_of mx = Option.bind (mx_current_leader mx) (bt_get (mx_nodes mx))"

definition build_cluster_status :: "'w raft_handle \<Rightarrow> 'w \<Rightarrow> cluster_status" where
  "build_cluster_status h w =
     (let mx = mh_metrics h w;
          infos = map (\<lambda>(i, addr). \<lparr>ni_id = i, ni_addr = addr\<rparr>) (bt_entries (mx_nodes mx)) in
      \<lparr>cs_node_id = mx_id mx, cs_state = node_state_of (mx_state mx), cs_leader_id = mx_current_leader mx, cs_leader_addr = leader_addr_of mx,
       cs_voters = filter (\<lambda>i. ni_id i \<in> mx_voter_ids mx) infos, cs_learners = filter (\<lambda>i. ni_id i \<notin> mx_voter_ids mx) infos,
       cs_term = mx_current_term mx, cs_last_log_index = mx_last_log_index mx, cs_last_applied_log = mx_last_applied mx,
       cs_last_membership_log_id = mx_membership_log mx, cs_millis_since_quorum_ack = mx_millis_since_quorum_ack mx,
       cs_replication = (case mx_replication mx of None \<Rightarrow> bt_empty | Some m \<Rightarrow> m)\<rparr>)"

definition handle_status :: "'w raft_handle \<Rightarrow> ('w, cluster_status) io" where
  "handle_status h w = (Ok (build_cluster_status h w), w)"

section \<open>Changes\<close>

text \<open>\<^verbatim>\<open>Option<u64>\<close> orders \<^verbatim>\<open>None\<close> first.\<close>

fun opt_less :: "u64 option \<Rightarrow> u64 option \<Rightarrow> bool" where
  "opt_less _ None = False"
| "opt_less None (Some _) = True"
| "opt_less (Some a) (Some b) = (a < b)"

definition committed_membership_log_index :: "'w raft_handle \<Rightarrow> 'w \<Rightarrow> u64 option" where
  "committed_membership_log_index h w = mx_membership_log (mh_metrics h w)"

fun wait_advance :: "'w raft_handle \<Rightarrow> u64 option \<Rightarrow> nat \<Rightarrow> 'w \<Rightarrow> bool \<times> 'w" where
  "wait_advance h previous 0 w = (False, w)"
| "wait_advance h previous (Suc n) w =
     (if opt_less previous (committed_membership_log_index h w) then (True, w)
      else wait_advance h previous n (mh_sleep_ms h 200 w))"

definition wait_for_committed_membership_log_advance :: "'w raft_handle \<Rightarrow> u64 option \<Rightarrow> 'w \<Rightarrow> bool \<times> 'w" where
  "wait_for_committed_membership_log_advance h previous = wait_advance h previous 150"

definition settle_after_membership_change :: "'w raft_handle \<Rightarrow> 'w \<Rightarrow> 'w" where
  "settle_after_membership_change h = mh_sleep_ms h 5000"

text \<open>The numbers after each \<^verbatim>\<open>term: \<close> of an error message, up to the first that ends the message.\<close>

lemma after_str_shorter: "after_str part s = Some rest \<Longrightarrow> part \<noteq> [] \<Longrightarrow> length rest < length s"
proof (induction s)
  case (Cons c s)
  show ?case
  proof (cases "starts_with part (c # s)")
    case True
    then have "c # s = part @ rest" using Cons.prems(1) by (metis after_str.simps(2) append_take_drop_id option.inject starts_with_def)
    then have "length (c # s) = length part + length rest" by (metis length_append)
    with Cons.prems(2) show ?thesis by (cases part) auto
  next
    case False
    with Cons show ?thesis by simp
  qed
qed simp

function message_terms :: "string \<Rightarrow> u64 list" where
  "message_terms s =
     (case after_str ''term: '' s of
        None \<Rightarrow> []
      | Some after_term \<Rightarrow>
          let digits = takeWhile is_ascii_digit after_term; rest = dropWhile is_ascii_digit after_term in
          if rest \<noteq> [] then (case parse_u64 digits of None \<Rightarrow> [] | Some t \<Rightarrow> [t]) @ message_terms rest
          else (case parse_u64 after_term of None \<Rightarrow> [] | Some t \<Rightarrow> [t]))"
  by pat_completeness auto
termination
proof (relation "measure length", goal_cases)
  case (2 s after_term digits rest)
  then show ?case using after_str_shorter [of "''term: ''" s after_term] length_dropWhile_le [of is_ascii_digit after_term] by simp
qed simp

declare message_terms.simps [simp del]

definition is_stale_config_change :: "string \<Rightarrow> bool" where
  "is_stale_config_change error_msg \<longleftrightarrow>
     contains_str ''already undergoing a configuration change'' error_msg \<and>
     (case message_terms error_msg of pending # committed # _ \<Rightarrow> pending < committed | _ \<Rightarrow> False)"

definition precheck_join :: "'w raft_handle \<Rightarrow> u64 \<Rightarrow> 'w \<Rightarrow> membership_reply option" where
  "precheck_join h node_id w =
     (let mx = mh_metrics h w in
      if mx_current_leader mx \<noteq> Some (mx_id mx) then Some (JoinReply 307 \<lparr>jp_result = JoinNotLeader, jp_leader_addr = leader_addr_of mx\<rparr>)
      else if node_id \<in> mx_voter_ids mx then Some (JoinReply 200 \<lparr>jp_result = AlreadyMember, jp_leader_addr = None\<rparr>)
      else None)"

definition precheck_leave :: "'w raft_handle \<Rightarrow> u64 \<Rightarrow> 'w \<Rightarrow> membership_reply option" where
  "precheck_leave h node_id w =
     (let mx = mh_metrics h w in
      if mx_current_leader mx \<noteq> Some (mx_id mx) then Some (LeaveReply 307 \<lparr>lp_result = LeaveNotLeader, lp_leader_addr = leader_addr_of mx\<rparr>)
      else if node_id \<notin> mx_voter_ids mx then Some (LeaveReply 200 \<lparr>lp_result = NotMember, lp_leader_addr = None\<rparr>)
      else if card (mx_voter_ids mx) \<le> 1 then Some (LeaveReply 200 \<lparr>lp_result = LastVoter, lp_leader_addr = None\<rparr>)
      else None)"

text \<open>With the lock: add the node as a learner, make it a voter, and wait until the change is committed.\<close>

definition join_locked :: "'w raft_handle \<Rightarrow> join_request \<Rightarrow> 'w \<Rightarrow> membership_reply \<times> 'w" where
  "join_locked h req w1 =
     (case mh_add_learner h (jr_node_id req) (jr_addr req) w1 of
        (Inl e, w2) \<Rightarrow> (TextReply 500 e, w2)
      | (Inr _, w2) \<Rightarrow>
          (case mh_change h (AddVoterIds {jr_node_id req}) w2 of
             (Inl e, w3) \<Rightarrow>
               (if is_stale_config_change e then JoinReply 409 \<lparr>jp_result = JoinNotLeader, jp_leader_addr = None\<rparr> else TextReply 500 e, w3)
           | (Inr _, w3) \<Rightarrow>
               (case wait_for_committed_membership_log_advance h (committed_membership_log_index h w2) w3 of
                  (False, w4) \<Rightarrow> (TextReply 503 ''timed out waiting for membership change to commit'', w4)
                | (True, w4) \<Rightarrow> (JoinReply 200 \<lparr>jp_result = JoinOk, jp_leader_addr = None\<rparr>, settle_after_membership_change h w4))))"

definition with_lock :: "'w raft_handle \<Rightarrow> ('w \<Rightarrow> membership_reply option) \<Rightarrow> ('w \<Rightarrow> membership_reply \<times> 'w) \<Rightarrow> 'w \<Rightarrow> membership_reply \<times> 'w" where
  "with_lock h precheck body w =
     (case precheck w of
        Some reply \<Rightarrow> (reply, w)
      | None \<Rightarrow>
          let w1 = mh_lock h w in
          (case precheck w1 of
             Some reply \<Rightarrow> (reply, mh_unlock h w1)
           | None \<Rightarrow> (case body w1 of (reply, w2) \<Rightarrow> (reply, mh_unlock h w2))))"

definition handle_join :: "'w raft_handle \<Rightarrow> join_request \<Rightarrow> 'w \<Rightarrow> membership_reply \<times> 'w" where
  "handle_join h req = with_lock h (precheck_join h (jr_node_id req)) (join_locked h req)"

text \<open>
  The check and the reading of the remaining voters follow each other without an await; they read the metrics of one
  world.
\<close>

definition leave_locked :: "'w raft_handle \<Rightarrow> u64 \<Rightarrow> 'w \<Rightarrow> membership_reply \<times> 'w" where
  "leave_locked h node_id w1 =
     (case mh_change_within h 35 (ReplaceAllVoters (mx_voter_ids (mh_metrics h w1) - {node_id})) w1 of
        (None, w2) \<Rightarrow> (TextReply 503 ''timed out waiting for membership change'', w2)
      | (Some (Inl e), w2) \<Rightarrow>
          (if is_stale_config_change e then LeaveReply 409 \<lparr>lp_result = LeaveNotLeader, lp_leader_addr = None\<rparr> else TextReply 500 e, w2)
      | (Some (Inr _), w2) \<Rightarrow>
          (case wait_for_committed_membership_log_advance h (committed_membership_log_index h w1) w2 of
             (False, w3) \<Rightarrow> (TextReply 503 ''timed out waiting for membership change to commit'', w3)
           | (True, w3) \<Rightarrow> (LeaveReply 200 \<lparr>lp_result = LeaveOk, lp_leader_addr = None\<rparr>, settle_after_membership_change h w3)))"

definition handle_leave :: "'w raft_handle \<Rightarrow> u64 \<Rightarrow> 'w \<Rightarrow> membership_reply \<times> 'w" where
  "handle_leave h node_id = with_lock h (precheck_leave h node_id) (leave_locked h node_id)"

definition replace_voters :: "'w raft_handle \<Rightarrow> u64 set \<Rightarrow> 'w \<Rightarrow> (unit, string) result \<times> 'w" where
  "replace_voters h new_voters w =
     (if new_voters = {} then (Err ''replacement voter set must not be empty'', w)
      else
        let w1 = mh_lock h w in
        if mx_voter_ids (mh_metrics h w1) = new_voters then (Ok (), mh_unlock h w1)
        else
          (case mh_change_within h 35 (ReplaceAllVoters new_voters) w1 of
             (None, w2) \<Rightarrow> (Err ''timed out waiting for replace-voters membership change'', mh_unlock h w2)
           | (Some (Inl e), w2) \<Rightarrow> (Err e, mh_unlock h w2)
           | (Some (Inr _), w2) \<Rightarrow>
               (case wait_for_committed_membership_log_advance h (committed_membership_log_index h w1) w2 of
                  (False, w3) \<Rightarrow> (Err ''timed out waiting for replace-voters membership change to commit'', mh_unlock h w3)
                | (True, w3) \<Rightarrow> (Ok (), mh_unlock h (settle_after_membership_change h w3)))))"

section \<open>Peers\<close>

definition raft_scheme :: "'w raft_handle \<Rightarrow> string" where
  "raft_scheme h = (if mh_tls h then ''https'' else ''http'')"

text \<open>One request to a peer: the client, the call with its error status and body within a deadline, and the decoding of
  the answer.\<close>

definition peer_request ::
  "'w raft_handle \<Rightarrow> nat \<Rightarrow> nat \<Rightarrow> string \<Rightarrow> string \<Rightarrow> string \<Rightarrow> string option \<Rightarrow> (string \<Rightarrow> ('a, msg) result) \<Rightarrow> 'w \<Rightarrow> ('a, membership_error) result \<times> 'w" where
  "peer_request h timeout_secs deadline verb addr path body decode w =
     (case mh_client h timeout_secs of
        Inl e \<Rightarrow> (Err (MembershipHttp e), w)
      | Inr _ \<Rightarrow>
          (case mh_call h deadline verb (raft_scheme h @ ''://'' @ addr @ path) body w of
             (Inl e, w1) \<Rightarrow> (Err (MembershipHttp e), w1)
           | (Inr bytes, w1) \<Rightarrow> ((case decode bytes of Inl e \<Rightarrow> Err (MembershipJson e) | Inr a \<Rightarrow> Ok a), w1)))"

definition get_status :: "'w raft_handle \<Rightarrow> string \<Rightarrow> 'w \<Rightarrow> (cluster_status, membership_error) result \<times> 'w" where
  "get_status h addr = peer_request h 5 5 ''GET'' addr ''/raft/status'' None (mh_decode_status h)"

definition request_join :: "'w raft_handle \<Rightarrow> string \<Rightarrow> join_request \<Rightarrow> 'w \<Rightarrow> (join_response, membership_error) result \<times> 'w" where
  "request_join h addr req w =
     (case mh_encode_join h req of
        Inl e \<Rightarrow> (Err (MembershipJson e), w)
      | Inr body \<Rightarrow> peer_request h 35 35 ''POST'' addr ''/raft/join'' (Some body) (mh_decode_join h) w)"

definition request_leave :: "'w raft_handle \<Rightarrow> string \<Rightarrow> u64 \<Rightarrow> 'w \<Rightarrow> (leave_response, membership_error) result \<times> 'w" where
  "request_leave h addr node_id w =
     (case mh_encode_leave h node_id of
        Inl e \<Rightarrow> (Err (MembershipJson e), w)
      | Inr body \<Rightarrow> peer_request h 35 35 ''POST'' addr ''/raft/leave'' (Some body) (mh_decode_leave h) w)"

definition discover_peer_targets :: "'w raft_handle \<Rightarrow> string \<Rightarrow> nat \<Rightarrow> bool \<Rightarrow> 'w \<Rightarrow> string list \<times> 'w" where
  "discover_peer_targets h dns_name port preserve_dns_name w =
     (let lookup = dns_name @ '':'' @ show_nat port in
      case mh_lookup h lookup w of
        (None, w1) \<Rightarrow> ([], w1)
      | (Some addrs, w1) \<Rightarrow> (if preserve_dns_name \<and> addrs \<noteq> [] then [lookup] else addrs, w1))"

definition discover_peers :: "'w raft_handle \<Rightarrow> string \<Rightarrow> nat \<Rightarrow> 'w \<Rightarrow> string list \<times> 'w" where
  "discover_peers h dns_name port = discover_peer_targets h dns_name port False"

definition discovered :: "'w raft_handle \<Rightarrow> string \<Rightarrow> nat \<Rightarrow> 'w \<Rightarrow> string list \<times> 'w" where
  "discovered h dns_name port = (if mh_tls h then discover_peer_targets h dns_name port True else discover_peers h dns_name port)"

text \<open>The addresses are collected in a \<^verbatim>\<open>BTreeSet\<close>: sorted, each once.\<close>

definition restored_membership_peer_targets :: "(u64 \<times> string) list \<Rightarrow> u64 \<Rightarrow> string list" where
  "restored_membership_peer_targets nodes self_node_id =
     sorted_list_of_set (snd ` set (filter (\<lambda>(i, addr). i \<noteq> self_node_id \<and> trim addr \<noteq> []) nodes))"

definition select_verification_peer_targets :: "string list \<Rightarrow> string list \<Rightarrow> string list" where
  "select_verification_peer_targets restored_peers discovered_peers = (if restored_peers = [] then discovered_peers else restored_peers)"

definition restored_peer_targets_from_raft :: "'w raft_handle \<Rightarrow> u64 \<Rightarrow> 'w \<Rightarrow> string list" where
  "restored_peer_targets_from_raft h self_node_id w =
     restored_membership_peer_targets (bt_entries (mx_nodes (mh_metrics h w))) self_node_id"

fun keep_first :: "string list \<Rightarrow> string set \<Rightarrow> string list" where
  "keep_first [] seen = []"
| "keep_first (p # ps) seen = (if p \<in> seen then keep_first ps seen else p # keep_first ps (insert p seen))"

definition merge_seed_and_discovered_peers :: "string list \<Rightarrow> string list \<Rightarrow> string list" where
  "merge_seed_and_discovered_peers seed_peers discovered_peers = keep_first (seed_peers @ discovered_peers) {}"

definition join_target_for_status :: "string \<Rightarrow> cluster_status \<Rightarrow> string option" where
  "join_target_for_status peer status = (if cs_state status = NodeLeader then Some peer else cs_leader_addr status)"

definition ordinal_zero_peer_target :: "string \<Rightarrow> string option" where
  "ordinal_zero_peer_target advertise_addr =
     Option.bind (rsplit_str '':'' advertise_addr) (\<lambda>(host, port).
     Option.bind (split_once (CHR ''.'') host) (\<lambda>(pod_name, suffix).
     Option.bind (rsplit_str ''-'' pod_name) (\<lambda>(pre, ordinal).
     Option.bind (parse_u64 ordinal) (\<lambda>_. Some (pre @ ''-0.'' @ suffix @ '':'' @ port)))))"

section \<open>The join loop\<close>

definition or_zero :: "u64 option \<Rightarrow> u64" where
  "or_zero v = (case v of None \<Rightarrow> 0 | Some n \<Rightarrow> n)"

definition local_membership_confirms_join :: "u64 option \<Rightarrow> u64 set \<Rightarrow> u64 option \<Rightarrow> u64 option \<Rightarrow> bool \<Rightarrow> u64 \<Rightarrow> bool" where
  "local_membership_confirms_join current_leader voters local_log leader_log leader_has_node node_id \<longleftrightarrow>
     current_leader \<noteq> None \<and> leader_has_node \<and> node_id \<in> voters \<and> or_zero local_log \<ge> or_zero leader_log"

definition has_voter :: "cluster_status \<Rightarrow> u64 \<Rightarrow> bool" where
  "has_voter status node_id = list_ex (\<lambda>v. ni_id v = node_id) (cs_voters status)"

definition local_join_is_confirmed :: "'w raft_handle \<Rightarrow> u64 \<Rightarrow> string \<Rightarrow> 'w \<Rightarrow> bool \<times> 'w" where
  "local_join_is_confirmed h node_id leader_addr w =
     (case get_status h leader_addr w of
        (Inl _, w1) \<Rightarrow> (False, w1)
      | (Inr status, w1) \<Rightarrow>
          let mx = mh_metrics h w1 in
          (local_membership_confirms_join (mx_current_leader mx) (mx_voter_ids mx) (mx_membership_log mx) (cs_last_membership_log_id status)
             (has_voter status node_id) node_id, w1))"

definition join_at :: "'w raft_handle \<Rightarrow> join_request \<Rightarrow> string \<Rightarrow> 'w \<Rightarrow> bool \<times> 'w" where
  "join_at h req target w =
     (case request_join h target req w of
        (Inl _, w1) \<Rightarrow> (False, w1)
      | (Inr resp, w1) \<Rightarrow>
          if jp_result resp \<in> {JoinOk, AlreadyMember} then local_join_is_confirmed h (jr_node_id req) target w1
          else
            (case jp_leader_addr resp of
               None \<Rightarrow> (False, w1)
             | Some real_leader \<Rightarrow>
                 (case request_join h real_leader req w1 of
                    (Inl _, w2) \<Rightarrow> (False, w2)
                  | (Inr r, w2) \<Rightarrow>
                      if jp_result r \<in> {JoinOk, AlreadyMember} then local_join_is_confirmed h (jr_node_id req) real_leader w2 else (False, w2))))"

fun join_peers :: "'w raft_handle \<Rightarrow> join_request \<Rightarrow> string list \<Rightarrow> 'w \<Rightarrow> bool \<times> 'w" where
  "join_peers h req [] w = (False, w)"
| "join_peers h req (peer # peers) w =
     (case get_status h peer w of
        (Inl _, w1) \<Rightarrow> join_peers h req peers w1
      | (Inr status, w1) \<Rightarrow>
          if cs_node_id status = jr_node_id req then join_peers h req peers w1
          else
            (case join_target_for_status peer status of
               None \<Rightarrow> join_peers h req peers w1
             | Some target \<Rightarrow>
                 (case join_at h req target w1 of
                    (True, w2) \<Rightarrow> (True, w2)
                  | (False, w2) \<Rightarrow> join_peers h req peers w2)))"

text \<open>After a round of peers, the first node of the cluster bootstraps itself when it has no leader.\<close>

definition bootstrap_first :: "'w raft_handle \<Rightarrow> join_request \<Rightarrow> 'w \<Rightarrow> bool \<times> 'w" where
  "bootstrap_first h req w =
     (if jr_node_id req \<noteq> 1 then (False, w)
      else if mx_current_leader (mh_metrics h w) \<noteq> None then (True, w)
      else mh_initialize h (bt_insert (jr_node_id req) (jr_addr req) bt_empty) w)"

definition join_round :: "'w raft_handle \<Rightarrow> join_request \<Rightarrow> string \<Rightarrow> nat \<Rightarrow> string list \<Rightarrow> 'w \<Rightarrow> bool \<times> 'w" where
  "join_round h req dns port seed_peers w =
     (case discovered h dns port w of
        (peers, w1) \<Rightarrow>
          (case join_peers h req (merge_seed_and_discovered_peers seed_peers peers) w1 of
             (True, w2) \<Rightarrow> (True, w2)
           | (False, w2) \<Rightarrow> bootstrap_first h req w2))"

definition MAX_JOIN_DELAY_MS :: u64 where "MAX_JOIN_DELAY_MS = 10000"

partial_function (option) join_loop :: "'w raft_handle \<Rightarrow> join_request \<Rightarrow> string \<Rightarrow> nat \<Rightarrow> string list \<Rightarrow> u64 \<Rightarrow> 'w \<Rightarrow> 'w option" where
  "join_loop h req dns port seed_peers delay_ms w =
     (case join_round h req dns port seed_peers w of
        (finished, w1) \<Rightarrow>
          if finished then Some w1
          else join_loop h req dns port seed_peers (min (delay_ms * 2) MAX_JOIN_DELAY_MS) (mh_sleep_ms h delay_ms w1))"

definition join_cluster_with_seed_peers :: "'w raft_handle \<Rightarrow> u64 \<Rightarrow> string \<Rightarrow> string \<Rightarrow> nat \<Rightarrow> string list \<Rightarrow> 'w \<Rightarrow> 'w option" where
  "join_cluster_with_seed_peers h node_id advertise_addr dns port seed_peers =
     join_loop h \<lparr>jr_node_id = node_id, jr_addr = advertise_addr\<rparr> dns port seed_peers 500"

definition join_cluster :: "'w raft_handle \<Rightarrow> u64 \<Rightarrow> string \<Rightarrow> string \<Rightarrow> nat \<Rightarrow> 'w \<Rightarrow> 'w option" where
  "join_cluster h node_id advertise_addr dns port =
     join_cluster_with_seed_peers h node_id advertise_addr dns port
       (if node_id = 1 then [] else case ordinal_zero_peer_target advertise_addr of None \<Rightarrow> [] | Some p \<Rightarrow> [p])"

section \<open>Verification after a restore\<close>

definition AUTHORITATIVE_LOG_TOLERANCE :: u64 where "AUTHORITATIVE_LOG_TOLERANCE = 10"

text \<open>
  The peers are asked at the same time, with two seconds each, and their answers are collected in order.  A late
  answer counts like a failed one.
\<close>

definition timed_status :: "'w raft_handle \<Rightarrow> string \<Rightarrow> 'w \<Rightarrow> cluster_status option \<times> 'w" where
  "timed_status h peer w =
     (case peer_request h 5 2 ''GET'' peer ''/raft/status'' None (mh_decode_status h) w of
        (Inl _, w1) \<Rightarrow> (None, w1)
      | (Inr status, w1) \<Rightarrow> (Some status, w1))"

fun peer_statuses :: "'w raft_handle \<Rightarrow> u64 \<Rightarrow> string list \<Rightarrow> 'w \<Rightarrow> cluster_status list \<times> 'w" where
  "peer_statuses h node_id [] w = ([], w)"
| "peer_statuses h node_id (peer # peers) w =
     (case timed_status h peer w of
        (found, w1) \<Rightarrow>
          (case peer_statuses h node_id peers w1 of
             (rest, w2) \<Rightarrow> ((case found of None \<Rightarrow> rest | Some s \<Rightarrow> if cs_node_id s \<noteq> node_id then s # rest else rest), w2)))"

definition max_applied :: "cluster_status list \<Rightarrow> u64" where
  "max_applied statuses = fold max (List.map_filter cs_last_applied_log statuses) 0"

definition authoritative :: "cluster_status list \<Rightarrow> cluster_status list" where
  "authoritative statuses =
     filter (\<lambda>s. or_zero (cs_last_applied_log s) \<ge> saturating_sub_u64 (max_applied statuses) AUTHORITATIVE_LOG_TOLERANCE) statuses"

definition membership_confirmed :: "u64 \<Rightarrow> cluster_status list \<Rightarrow> bool" where
  "membership_confirmed node_id statuses \<longleftrightarrow>
     length (filter (\<lambda>s. has_voter s node_id) (authoritative statuses)) > length (authoritative statuses) div 2"

definition asked_peers :: "'w raft_handle \<Rightarrow> u64 \<Rightarrow> string \<Rightarrow> nat \<Rightarrow> 'w \<Rightarrow> string list \<times> 'w" where
  "asked_peers h node_id dns port w =
     (let w0 = mh_sleep_ms h 2000 w;
          restored = restored_peer_targets_from_raft h node_id w0;
          (discovered_peers, w1) = (if restored = [] then discovered h dns port w0 else ([], w0)) in
      (select_verification_peer_targets restored discovered_peers, w1))"

definition verify_or_rejoin :: "'w raft_handle \<Rightarrow> u64 \<Rightarrow> string \<Rightarrow> string \<Rightarrow> nat \<Rightarrow> 'w \<Rightarrow> 'w option" where
  "verify_or_rejoin h node_id advertise_addr dns port w =
     (let (peers, w1) = asked_peers h node_id dns port w;
          (statuses, w2) = peer_statuses h node_id peers w1 in
      if statuses = [] then
        (if node_id = 1 then Some (snd (mh_initialize h (bt_insert node_id advertise_addr bt_empty) w2)) else Some w2)
      else if authoritative statuses = [] then join_cluster_with_seed_peers h node_id advertise_addr dns port peers w2
      else if membership_confirmed node_id statuses then Some w2
      else join_cluster_with_seed_peers h node_id advertise_addr dns port peers w2)"

section \<open>Scaling down\<close>

text \<open>
  \<open>mh_kubernetes_client\<close> parses the certificate authority and builds the API client, \<open>mh_kubernetes_get\<close> is a GET with a
  bearer token, its status checked and its body read.
\<close>

definition SERVICE_ACCOUNT_TOKEN_PATH :: string where "SERVICE_ACCOUNT_TOKEN_PATH = ''/var/run/secrets/kubernetes.io/serviceaccount/token''"
definition SERVICE_ACCOUNT_CA_PATH :: string where "SERVICE_ACCOUNT_CA_PATH = ''/var/run/secrets/kubernetes.io/serviceaccount/ca.crt''"
definition KUBERNETES_API_BASE :: string where "KUBERNETES_API_BASE = ''https://kubernetes.default.svc''"

record kubernetes_client =
  kc_namespace :: string
  kc_statefulset_name :: string

definition from_service_account :: "'w raft_handle \<Rightarrow> string \<Rightarrow> string \<Rightarrow> 'w \<Rightarrow> (kubernetes_client, kubernetes_error) result" where
  "from_service_account h namespace_name statefulset_name w =
     (case mh_read_file h SERVICE_ACCOUNT_CA_PATH w of
        Inl e \<Rightarrow> Err (KubernetesCa e)
      | Inr ca_pem \<Rightarrow>
          res_bind (mh_kubernetes_client h ca_pem) (\<lambda>_. Ok \<lparr>kc_namespace = namespace_name, kc_statefulset_name = statefulset_name\<rparr>))"

definition read_service_account_token :: "'w raft_handle \<Rightarrow> 'w \<Rightarrow> (string, kubernetes_error) result" where
  "read_service_account_token h w =
     (case mh_read_file h SERVICE_ACCOUNT_TOKEN_PATH w of Inl e \<Rightarrow> Err (KubernetesToken e) | Inr token \<Rightarrow> Ok (trim token))"

definition fetch_desired_replicas :: "'w raft_handle \<Rightarrow> kubernetes_client \<Rightarrow> 'w \<Rightarrow> (u32, kubernetes_error) result \<times> 'w" where
  "fetch_desired_replicas h client w =
     (let url = KUBERNETES_API_BASE @ ''/apis/apps/v1/namespaces/'' @ kc_namespace client @ ''/statefulsets/'' @ kc_statefulset_name client in
      case read_service_account_token h w of
        Inl e \<Rightarrow> (Err e, w)
      | Inr token \<Rightarrow>
          (case mh_kubernetes_get h url token w of
             (Inl e, w1) \<Rightarrow> (Err (KubernetesHttp e), w1)
           | (Inr bytes, w1) \<Rightarrow>
               (case mh_decode_statefulset h bytes of
                  Inl e \<Rightarrow> (Err (KubernetesJson e), w1)
                | Inr replicas \<Rightarrow> (ok_or replicas MissingReplicas, w1))))"

definition desired_voters_for_replicas :: "u32 \<Rightarrow> u64 set" where
  "desired_voters_for_replicas replicas = of_nat ` {1..unat replicas}"

definition reconcile_once :: "'w raft_handle \<Rightarrow> kubernetes_client \<Rightarrow> 'w \<Rightarrow> (unit, kubernetes_error) result \<times> 'w" where
  "reconcile_once h client w =
     (case fetch_desired_replicas h client w of
        (Inl e, w1) \<Rightarrow> (Err e, w1)
      | (Inr replicas, w1) \<Rightarrow>
          let desired = desired_voters_for_replicas replicas; mx = mh_metrics h w1 in
          if desired = {} then (Ok (), w1)
          else if mx_current_leader mx \<noteq> Some (mx_id mx) then (Ok (), w1)
          else if desired = mx_voter_ids mx \<or> \<not> desired \<subseteq> mx_voter_ids mx then (Ok (), w1)
          else
            (case replace_voters h desired w1 of
               (Inl e, w2) \<Rightarrow> (Err (KubernetesHttp [Lit e]), w2)
             | (Inr _, w2) \<Rightarrow> (Ok (), w2)))"

text \<open>
  The reconciler does nothing when it is switched off or has no service account.  Otherwise it never returns; what it
  has done after \<open>n\<close> ticks of its timer, \<open>tick\<close> being the wait for one, is a recursion over \<open>n\<close>.
\<close>

fun reconcile_ticks :: "'w raft_handle \<Rightarrow> kubernetes_client \<Rightarrow> ('w \<Rightarrow> 'w) \<Rightarrow> nat \<Rightarrow> 'w \<Rightarrow> 'w" where
  "reconcile_ticks h client tick 0 w = w"
| "reconcile_ticks h client tick (Suc n) w = reconcile_ticks h client tick n (snd (reconcile_once h client (tick w)))"

definition reconcile_statefulset_replicas :: "'w raft_handle \<Rightarrow> bool \<Rightarrow> string \<Rightarrow> string \<Rightarrow> ('w \<Rightarrow> 'w) \<Rightarrow> nat \<Rightarrow> 'w \<Rightarrow> 'w" where
  "reconcile_statefulset_replicas h enabled namespace_name statefulset_name tick n w =
     (if \<not> enabled then w
      else
        case from_service_account h namespace_name statefulset_name w of
          Inl _ \<Rightarrow> w
        | Inr client \<Rightarrow> reconcile_ticks h client tick n w)"

section \<open>The cluster in the dashboard\<close>

record cluster_member =
  cm_node_id :: u64
  cm_address :: string
  cm_role :: string
  cm_status :: string
  cm_commit_index :: "u64 option"
  cm_replication_lag_ms :: "u64 option"

record dashboard_cluster_status =
  dc_cluster_id :: string
  dc_leader_id :: "u64 option"
  dc_term :: u64
  dc_quorum :: nat
  dc_healthy_voters :: nat
  dc_updated_at :: u64
  dc_voters :: "cluster_member list"
  dc_learners :: "cluster_member list"

definition voter_member :: "cluster_status \<Rightarrow> node_info \<Rightarrow> cluster_member" where
  "voter_member raw node =
     (let leader = cs_leader_id raw = Some (ni_id node); matching = bt_get (cs_replication raw) (ni_id node);
          matched = Option.bind matching (\<lambda>m. m) in
      \<lparr>cm_node_id = ni_id node, cm_address = ni_addr node, cm_role = (if leader then ''leader'' else ''voter''),
       cm_status = (if leader \<or> matching = Some (cs_last_applied_log raw) then ''healthy'' else ''lagging''),
       cm_commit_index = (if leader then cs_last_applied_log raw
         else case matched of Some m \<Rightarrow> Some m | None \<Rightarrow> cs_last_applied_log raw),
       cm_replication_lag_ms = (if leader then Some 0
         else case (cs_last_applied_log raw, matched) of
             (Some lst, Some m) \<Rightarrow> Some (saturating_sub_u64 lst m)
           | _ \<Rightarrow> None)\<rparr>)"

definition learner_member :: "cluster_status \<Rightarrow> node_info \<Rightarrow> cluster_member" where
  "learner_member raw node =
     \<lparr>cm_node_id = ni_id node, cm_address = ni_addr node, cm_role = ''learner'', cm_status = ''healthy'',
      cm_commit_index = cs_last_applied_log raw, cm_replication_lag_ms = None\<rparr>"

definition dashboard_status_from_raw :: "u64 \<Rightarrow> cluster_status \<Rightarrow> dashboard_cluster_status" where
  "dashboard_status_from_raw now raw =
     (let voters = map (voter_member raw) (cs_voters raw) in
      \<lparr>dc_cluster_id = ''layerhouse-'' @ show_u64 (cs_node_id raw), dc_leader_id = cs_leader_id raw, dc_term = cs_term raw,
       dc_quorum = length (cs_voters raw) div 2 + 1, dc_healthy_voters = length (filter (\<lambda>v. cm_status v = ''healthy'') voters),
       dc_updated_at = now, dc_voters = voters, dc_learners = map (learner_member raw) (cs_learners raw)\<rparr>)"

text \<open>The message of a failed request to the leader.\<close>

fun membership_error_display :: "membership_error \<Rightarrow> msg" where
  "membership_error_display (MembershipHttp e) = Lit ''HTTP request failed: '' # e"
| "membership_error_display (MembershipJson e) = Lit ''JSON serialization failed: '' # e"

definition raw_cluster_status :: "'w raft_handle \<Rightarrow> ('w, cluster_status) io" where
  "raw_cluster_status h w =
     (let status = build_cluster_status h w in
      case cs_leader_addr status of
        None \<Rightarrow> (Ok status, w)
      | Some leader_addr \<Rightarrow>
          if cs_state status = NodeLeader then (Ok status, w)
          else
            (case get_status h leader_addr w of
               (Inl e, w1) \<Rightarrow> (Err (Consensus (membership_error_display e)), w1)
             | (Inr s, w1) \<Rightarrow> (Ok s, w1)))"

datatype cluster_answer = ClusterStatusAnswer dashboard_cluster_status | MembershipAnswer membership_reply

definition raft_or_unavailable :: "'w raft_handle option \<Rightarrow> 'w raft_handle lh_result" where
  "raft_or_unavailable raft = ok_or raft (Serialization [Lit ''raft not available''])"

definition cluster_status_answer :: "('w \<Rightarrow> u64) \<Rightarrow> 'w raft_handle \<Rightarrow> ('w, cluster_answer) io" where
  "cluster_status_answer now_epoch h =
     io_bind (raw_cluster_status h) (\<lambda>raw.
     io_bind (io_read now_epoch) (\<lambda>now. io_return (ClusterStatusAnswer (dashboard_status_from_raw now raw))))"

definition cluster_status_route :: "('w \<Rightarrow> u64) \<Rightarrow> 'w raft_handle option \<Rightarrow> ('w, cluster_answer) io" where
  "cluster_status_route now_epoch raft = io_bind (io_result (raft_or_unavailable raft)) (cluster_status_answer now_epoch)"

definition membership_answer :: "('w \<Rightarrow> u64) \<Rightarrow> 'w raft_handle \<Rightarrow> ('w \<Rightarrow> membership_reply \<times> 'w) \<Rightarrow> ('w, cluster_answer) io" where
  "membership_answer now_epoch h request =
     io_match request (\<lambda>reply.
       if 200 \<le> reply_status reply \<and> reply_status reply < 300 then cluster_status_answer now_epoch h
       else io_return (MembershipAnswer reply))"

definition cluster_join :: "('w \<Rightarrow> u64) \<Rightarrow> 'w raft_handle option \<Rightarrow> join_request \<Rightarrow> ('w, cluster_answer) io" where
  "cluster_join now_epoch raft req =
     io_bind (io_result (raft_or_unavailable raft)) (\<lambda>h. membership_answer now_epoch h (handle_join h req))"

definition cluster_leave :: "('w \<Rightarrow> u64) \<Rightarrow> 'w raft_handle option \<Rightarrow> ('w, cluster_answer) io" where
  "cluster_leave now_epoch raft =
     io_bind (io_result (raft_or_unavailable raft)) (\<lambda>h w.
       membership_answer now_epoch h (handle_leave h (mx_id (mh_metrics h w))) w)"

definition cluster_remove :: "('w \<Rightarrow> u64) \<Rightarrow> 'w raft_handle option \<Rightarrow> u64 \<Rightarrow> ('w, cluster_answer) io" where
  "cluster_remove now_epoch raft node_id =
     io_bind (io_result (raft_or_unavailable raft)) (\<lambda>h. membership_answer now_epoch h (handle_leave h node_id))"

definition gc_status_route :: "('w \<Rightarrow> gc_status) \<Rightarrow> ('w, gc_status) io" where
  "gc_status_route read_status = io_read read_status"

section \<open>What the handlers ask of Raft\<close>

text \<open>
  A run of an operation as the calls it makes: waiting, looking up names, asking a peer or Kubernetes, adding a learner,
  and changes of the voters, each of which satisfies \<open>P\<close> in the world it is asked for in.
\<close>

inductive moved :: "'w raft_handle \<Rightarrow> ('w \<Rightarrow> change_members \<Rightarrow> bool) \<Rightarrow> 'w \<Rightarrow> 'w \<Rightarrow> bool" for h P where
  stay: "moved h P w w"
| lock: "moved h P w v \<Longrightarrow> moved h P w (mh_lock h v)"
| unlock: "moved h P w v \<Longrightarrow> moved h P w (mh_unlock h v)"
| sleep: "moved h P w v \<Longrightarrow> moved h P w (mh_sleep_ms h ms v)"
| call: "moved h P w v \<Longrightarrow> moved h P w (snd (mh_call h d verb url body v))"
| lookup: "moved h P w v \<Longrightarrow> moved h P w (snd (mh_lookup h name v))"
| kubernetes: "moved h P w v \<Longrightarrow> moved h P w (snd (mh_kubernetes_get h url token v))"
| learner: "moved h P w v \<Longrightarrow> moved h P w (snd (mh_add_learner h i addr v))"
| change: "moved h P w v \<Longrightarrow> P v c \<Longrightarrow> moved h P w (snd (mh_change h c v))"
| change_within: "moved h P w v \<Longrightarrow> P v c \<Longrightarrow> moved h P w (snd (mh_change_within h n c v))"

lemma moved_wait: "moved h P w v \<Longrightarrow> moved h P w (snd (wait_advance h previous n v))"
  by (induction h previous n v rule: wait_advance.induct) (auto intro: moved.sleep)

lemma moved_settle: "moved h P w v \<Longrightarrow> moved h P w (settle_after_membership_change h v)"
  unfolding settle_after_membership_change_def by (rule moved.sleep)

definition leads :: "'w raft_handle \<Rightarrow> 'w \<Rightarrow> bool" where
  "leads h v \<longleftrightarrow> mx_current_leader (mh_metrics h v) = Some (mx_id (mh_metrics h v))"

abbreviation voters_at :: "'w raft_handle \<Rightarrow> 'w \<Rightarrow> u64 set" where
  "voters_at h v \<equiv> mx_voter_ids (mh_metrics h v)"

lemma precheck_leave_None: "precheck_leave h n v = None \<longleftrightarrow> leads h v \<and> n \<in> voters_at h v \<and> 2 \<le> card (voters_at h v)"
  by (auto simp: precheck_leave_def Let_def leads_def)

lemma precheck_join_None: "precheck_join h n v = None \<longleftrightarrow> leads h v \<and> n \<notin> voters_at h v"
  by (auto simp: precheck_join_def Let_def leads_def)

lemma moved_trans: "moved h P v u \<Longrightarrow> moved h P w v \<Longrightarrow> moved h P w u"
  by (induction rule: moved.induct) (auto intro: moved.intros)

lemma moved_mono: "moved h P w v \<Longrightarrow> (\<And>u c. P u c \<Longrightarrow> Q u c) \<Longrightarrow> moved h Q w v"
  by (induction rule: moved.induct) (auto intro: moved.intros)

lemma moved_with_lock:
  assumes "\<And>v. precheck (mh_lock h v) = None \<Longrightarrow> moved h P (mh_lock h v) (snd (body (mh_lock h v)))"
  shows "moved h P w (snd (with_lock h precheck body w))"
proof -
  have "moved h P w v" if "moved h P (mh_lock h w) v" for v
    using that moved.lock [OF moved.stay] by (rule moved_trans)
  with assms [of w] show ?thesis
    by (auto simp: with_lock_def Let_def split: option.splits prod.splits intro: moved.intros)
qed

lemma moved_leave:
  assumes "P v (ReplaceAllVoters (voters_at h v - {n}))"
  shows "moved h P v (snd (leave_locked h n v))"
proof -
  let ?c = "ReplaceAllVoters (voters_at h v - {n})" and ?prev = "committed_membership_log_index h v"
  obtain x w2 where x: "mh_change_within h 35 ?c v = (x, w2)" by fastforce
  have m2: "moved h P v w2" using moved.change_within [of h P v v ?c 35, OF moved.stay assms] x by simp
  obtain b w3 where b: "wait_for_committed_membership_log_advance h ?prev w2 = (b, w3)" by fastforce
  have "moved h P v w3" using moved_wait [OF m2] b unfolding wait_for_committed_membership_log_advance_def by (metis snd_conv)
  with m2 x b show ?thesis
    by (auto simp: leave_locked_def moved_settle split: option.splits sum.splits bool.splits)
qed

lemma moved_join:
  assumes "\<And>v. P v (AddVoterIds {jr_node_id req})"
  shows "moved h P v (snd (join_locked h req v))"
proof -
  obtain x w2 where x: "mh_add_learner h (jr_node_id req) (jr_addr req) v = (x, w2)" by fastforce
  have m2: "moved h P v w2" using moved.learner [OF moved.stay] x by (metis snd_conv)
  obtain y w3 where y: "mh_change h (AddVoterIds {jr_node_id req}) w2 = (y, w3)" by fastforce
  have m3: "moved h P v w3" using moved.change [of h P v w2, OF m2 assms] y by (metis snd_conv)
  obtain b w4 where b: "wait_for_committed_membership_log_advance h (committed_membership_log_index h w2) w3 = (b, w4)" by fastforce
  have "moved h P v w4" using moved_wait [OF m3] b unfolding wait_for_committed_membership_log_advance_def by (metis snd_conv)
  with m2 m3 x y b show ?thesis
    by (auto simp: join_locked_def moved_settle split: sum.splits bool.splits)
qed

lemma moved_replace:
  assumes "vs \<noteq> {} \<Longrightarrow> P (mh_lock h w) (ReplaceAllVoters vs)" and m: "moved h P u w"
  shows "moved h P u (snd (replace_voters h vs w))"
proof (cases "vs = {}")
  case True
  with m show ?thesis by (simp add: replace_voters_def)
next
  case False
  let ?w1 = "mh_lock h w"
  have m1: "moved h P u ?w1" using m by (rule moved.lock)
  obtain x w2 where x: "mh_change_within h 35 (ReplaceAllVoters vs) ?w1 = (x, w2)" by fastforce
  have m2: "moved h P u w2" using moved.change_within [of h P u ?w1, OF m1 assms(1) [OF False]] x by (metis snd_conv)
  obtain b w3 where b: "wait_for_committed_membership_log_advance h (committed_membership_log_index h ?w1) w2 = (b, w3)" by fastforce
  have "moved h P u w3" using moved_wait [OF m2] b unfolding wait_for_committed_membership_log_advance_def by (metis snd_conv)
  with m1 m2 x b False show ?thesis
    by (auto simp: replace_voters_def Let_def moved_settle split: option.splits sum.splits bool.splits intro: moved.unlock)
qed

lemma moved_fetch: "moved h P w (snd (fetch_desired_replicas h client w))"
proof (cases "read_service_account_token h w")
  case (Inl e)
  then show ?thesis by (simp add: fetch_desired_replicas_def Let_def moved.stay)
next
  case (Inr token)
  let ?url = "KUBERNETES_API_BASE @ ''/apis/apps/v1/namespaces/'' @ kc_namespace client @ ''/statefulsets/'' @ kc_statefulset_name client"
  obtain y v where y: "mh_kubernetes_get h ?url token w = (y, v)" by fastforce
  have "moved h P w v" using moved.kubernetes [OF moved.stay, of h P w ?url token] y by simp
  with y Inr show ?thesis by (auto simp: fetch_desired_replicas_def Let_def split: sum.splits)
qed

section \<open>What the join loop waits for\<close>

lemma moved_peer_request: "moved h P u w \<Longrightarrow> moved h P u (snd (peer_request h t d verb addr path body decode w))"
  using moved.call [of h P u w d verb _ body]
  by (auto simp: peer_request_def split: sum.splits prod.splits) (metis snd_conv)+

lemma moved_get_status: "moved h P u w \<Longrightarrow> moved h P u (snd (get_status h addr w))"
  unfolding get_status_def by (rule moved_peer_request)

lemma moved_request_join: "moved h P u w \<Longrightarrow> moved h P u (snd (request_join h addr req w))"
  by (auto simp: request_join_def moved_peer_request split: sum.splits)

lemma moved_discovered: "moved h P u w \<Longrightarrow> moved h P u (snd (discovered h dns port w))"
  using moved.lookup [of h P u w "dns @ '':'' @ show_nat port"]
  by (auto simp: discovered_def discover_peers_def discover_peer_targets_def Let_def split: prod.splits option.splits)

text \<open>
  The worlds an operation passes through without asking for a change of the voters.
\<close>

abbreviation polled :: "'w raft_handle \<Rightarrow> 'w \<Rightarrow> 'w \<Rightarrow> bool" where
  "polled h \<equiv> moved h (\<lambda>_ _. False)"

text \<open>\<open>target\<close> accepted the join in \<open>v\<close>, either asked first or named by the node that was.\<close>

definition join_accepted :: "'w raft_handle \<Rightarrow> join_request \<Rightarrow> string \<Rightarrow> 'w \<Rightarrow> string \<Rightarrow> 'w \<Rightarrow> bool" where
  "join_accepted h req first v target v' \<longleftrightarrow>
     (\<exists>resp u. request_join h first req v = (Ok resp, u) \<and>
       (if jp_result resp \<in> {JoinOk, AlreadyMember} then target = first \<and> v' = u
        else jp_leader_addr resp = Some target \<and>
          (\<exists>r. request_join h target req u = (Ok r, v') \<and> jp_result r \<in> {JoinOk, AlreadyMember})))"

text \<open>
  A peer among the given ones answered with its status; it, if it leads, or the leader it names accepted the join, or
  named the node that did; and the status of the node that accepted then lists the joined node as a voter, which in
  that world knows a leader and sees itself as a voter, by a membership entry at least as new.
\<close>

definition join_confirmed :: "'w raft_handle \<Rightarrow> join_request \<Rightarrow> (string \<Rightarrow> bool) \<Rightarrow> 'w \<Rightarrow> 'w \<Rightarrow> bool" where
  "join_confirmed h req known w w' \<longleftrightarrow>
     (\<exists>peer v1 answer v2 first target v3 status.
        polled h w v1 \<and> known peer \<and> get_status h peer v1 = (Ok answer, v2) \<and> cs_node_id answer \<noteq> jr_node_id req \<and>
        join_target_for_status peer answer = Some first \<and> join_accepted h req first v2 target v3 \<and>
        get_status h target v3 = (Ok status, w') \<and> has_voter status (jr_node_id req) \<and>
        jr_node_id req \<in> voters_at h w' \<and> mx_current_leader (mh_metrics h w') \<noteq> None \<and>
        or_zero (cs_last_membership_log_id status) \<le> or_zero (mx_membership_log (mh_metrics h w')))"

lemma join_confirmed_later:
  assumes "join_confirmed h req known v w'" and "polled h w v" and "\<And>p. known p \<Longrightarrow> known' p"
  shows "join_confirmed h req known' w w'"
  using assms unfolding join_confirmed_def by (meson moved_trans)

lemma local_join_confirmed:
  "local_join_is_confirmed h n target v = (True, w') \<Longrightarrow>
    \<exists>status. get_status h target v = (Ok status, w') \<and> has_voter status n \<and> n \<in> voters_at h w' \<and> mx_current_leader (mh_metrics h w') \<noteq> None
      \<and> or_zero (cs_last_membership_log_id status) \<le> or_zero (mx_membership_log (mh_metrics h w'))"
  by (auto simp: local_join_is_confirmed_def local_membership_confirms_join_def Let_def split: prod.splits sum.splits)

lemma join_at_confirmed:
  "join_at h req first v = (True, w') \<Longrightarrow>
    \<exists>target v3. join_accepted h req first v target v3 \<and> local_join_is_confirmed h (jr_node_id req) target v3 = (True, w')"
proof -
  assume at: "join_at h req first v = (True, w')"
  then obtain resp u where r: "request_join h first req v = (Ok resp, u)"
    by (auto simp: join_at_def split: prod.splits sum.splits)
  show ?thesis
  proof (cases "jp_result resp \<in> {JoinOk, AlreadyMember}")
    case True
    with at r have "join_accepted h req first v first u" "local_join_is_confirmed h (jr_node_id req) first u = (True, w')"
      by (auto simp: join_at_def join_accepted_def)
    then show ?thesis by blast
  next
    case False
    with at r obtain target where t: "jp_leader_addr resp = Some target" by (auto simp: join_at_def split: option.splits)
    with False at r obtain r2 v3 where "request_join h target req u = (Ok r2, v3)" "jp_result r2 \<in> {JoinOk, AlreadyMember}"
      and c: "local_join_is_confirmed h (jr_node_id req) target v3 = (True, w')"
      by (auto simp: join_at_def split: prod.splits sum.splits if_splits)
    with False r t have "join_accepted h req first v target v3" unfolding join_accepted_def by auto
    with c show ?thesis by blast
  qed
qed

lemma moved_local_join: "moved h P u w \<Longrightarrow> moved h P u (snd (local_join_is_confirmed h n addr w))"
  using moved_get_status [of h P u w addr] by (auto simp: local_join_is_confirmed_def Let_def split: prod.splits sum.splits)

lemma moved_join_at: "moved h P u w \<Longrightarrow> moved h P u (snd (join_at h req first w))"
proof -
  assume m: "moved h P u w"
  obtain r v where r: "request_join h first req w = (r, v)" by fastforce
  have m1: "moved h P u v" using moved_request_join [OF m, of first req] r by simp
  have "moved h P u (snd (request_join h addr req v))" for addr by (rule moved_request_join [OF m1])
  with m1 r show ?thesis
    by (auto simp: join_at_def moved_local_join split: prod.splits sum.splits option.splits) (metis moved_local_join snd_conv)+
qed

lemma moved_join_peers: "moved h P u w \<Longrightarrow> moved h P u (snd (join_peers h req peers w))"
proof (induction peers arbitrary: w)
  case (Cons peer peers)
  obtain r v where r: "get_status h peer w = (r, v)" by fastforce
  have m1: "moved h P u v" using moved_get_status [OF Cons.prems, of peer] r by simp
  have at: "moved h P u (snd (join_at h req first v))" for first by (rule moved_join_at [OF m1])
  from r m1 at Cons.IH show ?case
    by (auto split: sum.splits option.splits prod.splits bool.splits) (metis snd_conv)+
qed simp

lemma join_peers_confirmed: "join_peers h req peers w = (True, w') \<Longrightarrow> join_confirmed h req (\<lambda>p. p \<in> set peers) w w'"
proof (induction peers arbitrary: w)
  case (Cons peer peers)
  obtain r v where r: "get_status h peer w = (r, v)" by fastforce
  have m1: "polled h w v" using moved_get_status [OF moved.stay, of h _ w peer] r by simp
  have later: "join_peers h req peers u = (True, w') \<Longrightarrow> polled h w u \<Longrightarrow> ?case" for u
    by (rule join_confirmed_later [OF Cons.IH]) auto
  show ?case
  proof (cases "\<exists>answer first. r = Ok answer \<and> cs_node_id answer \<noteq> jr_node_id req \<and> join_target_for_status peer answer = Some first")
    case False
    with Cons.prems r have "join_peers h req peers v = (True, w')" by (auto split: sum.splits option.splits if_splits)
    from this m1 show ?thesis by (rule later)
  next
    case True
    then obtain answer first where a: "r = Ok answer" "cs_node_id answer \<noteq> jr_node_id req" "join_target_for_status peer answer = Some first" by blast
    obtain b u where b: "join_at h req first v = (b, u)" by fastforce
    show ?thesis
    proof (cases b)
      case True
      with Cons.prems r a b have "u = w'" by simp
      with b True join_at_confirmed [of h req first v w'] local_join_confirmed [of h "jr_node_id req"] r a show ?thesis
        unfolding join_confirmed_def using moved.stay by (metis list.set_intros(1))
    next
      case False
      with Cons.prems r a b have "join_peers h req peers u = (True, w')" by simp
      moreover have "polled h w u" using moved_join_at [OF m1, of req first] b by simp
      ultimately show ?thesis by (rule later)
    qed
  qed
qed simp

lemma keep_first_set: "set (keep_first ps seen) = set ps - seen"
  by (induction ps seen rule: keep_first.induct) auto

text \<open>The peers of the join loop: the given ones and those discovered on the way.\<close>

definition known_peer :: "'w raft_handle \<Rightarrow> string \<Rightarrow> nat \<Rightarrow> string list \<Rightarrow> 'w \<Rightarrow> string \<Rightarrow> bool" where
  "known_peer h dns port seeds w p \<longleftrightarrow> p \<in> set seeds \<or> (\<exists>v. polled h w v \<and> p \<in> set (fst (discovered h dns port v)))"

lemma join_round_confirmed:
  assumes "join_round h req dns port seeds w = (b, w')" and "jr_node_id req \<noteq> 1"
  shows "polled h w w' \<and> (b \<longrightarrow> join_confirmed h req (known_peer h dns port seeds w) w w')"
proof -
  obtain peers v where d: "discovered h dns port w = (peers, v)" by fastforce
  have m1: "polled h w v" using moved_discovered [OF moved.stay, of h _ w dns port] d by simp
  have peers: "p \<in> set (merge_seed_and_discovered_peers seeds peers) \<Longrightarrow> known_peer h dns port seeds w p" for p
    using d moved.stay [of h "\<lambda>_ _. False" w] by (auto simp: merge_seed_and_discovered_peers_def keep_first_set known_peer_def)
  obtain x u where x: "join_peers h req (merge_seed_and_discovered_peers seeds peers) v = (x, u)" by fastforce
  have m2: "polled h w u" using moved_join_peers [OF m1, of req "merge_seed_and_discovered_peers seeds peers"] x by simp
  show ?thesis
  proof (cases x)
    case True
    with assms d x have "b \<and> w' = u" by (simp add: join_round_def)
    moreover have "join_confirmed h req (known_peer h dns port seeds w) w u"
      using join_peers_confirmed [of h req _ v u] x True by (intro join_confirmed_later [OF _ m1 peers]) auto
    ultimately show ?thesis using m2 by simp
  next
    case False
    with assms d x have "\<not> b \<and> w' = u" by (simp add: join_round_def bootstrap_first_def)
    with m2 show ?thesis by simp
  qed
qed

lemma join_loop_confirmed:
  assumes "join_loop h req dns port seeds delay w = Some w'"
  shows "jr_node_id req \<noteq> 1 \<longrightarrow> join_confirmed h req (known_peer h dns port seeds w) w w'"
  using assms
proof (induct h req dns port seeds delay w w' rule: join_loop.raw_induct)
  case (1 loop h req dns port seeds delay w w')
  obtain finished w1 where r: "join_round h req dns port seeds w = (finished, w1)" by fastforce
  show ?case
  proof
    assume first: "jr_node_id req \<noteq> 1"
    note round = join_round_confirmed [OF r first]
    show "join_confirmed h req (known_peer h dns port seeds w) w w'"
    proof (cases finished)
      case True
      with r 1(2) have "w' = w1" by simp
      with round True show ?thesis by simp
    next
      case False
      let ?w = "mh_sleep_ms h delay w1" and ?delay = "min (delay * 2) MAX_JOIN_DELAY_MS"
      have "loop h req dns port seeds ?delay ?w = Some w'" using 1(2) r False by simp
      moreover have "join_loop h req dns port seeds ?delay ?w = Some w'" using 1(3) r False by (subst (asm) join_loop.simps) simp
      ultimately have "join_confirmed h req (known_peer h dns port seeds ?w) ?w w'" using 1(1) first by blast
      moreover have m: "polled h w ?w" using round by (intro moved.sleep) simp
      moreover have "known_peer h dns port seeds ?w p \<Longrightarrow> known_peer h dns port seeds w p" for p
        using m by (auto simp: known_peer_def intro: moved_trans)
      ultimately show ?thesis by (rule join_confirmed_later)
    qed
  qed
qed (rule assms)

text \<open>The peer with the highest applied index is always among the authoritative ones.\<close>

lemma fold_max_member: "fold max xs b = b \<or> fold max xs (b :: u64) \<in> set xs"
proof (induction xs arbitrary: b)
  case (Cons a xs)
  from Cons.IH [of "max a b"] show ?case by (auto simp: max_def split: if_splits)
qed simp

lemma authoritative_nonempty:
  assumes "statuses \<noteq> []"
  shows "authoritative statuses \<noteq> []"
proof -
  have "\<exists>s \<in> set statuses. max_applied statuses \<le> or_zero (cs_last_applied_log s)"
  proof (cases "max_applied statuses = 0")
    case True
    with assms show ?thesis by (cases statuses) auto
  next
    case False
    then have "max_applied statuses \<in> set (List.map_filter cs_last_applied_log statuses)"
      using fold_max_member [of "List.map_filter cs_last_applied_log statuses" 0] by (auto simp: max_applied_def)
    then show ?thesis by (force simp: map_filter_def or_zero_def)
  qed
  moreover have "saturating_sub_u64 n k \<le> n" for n k by (simp add: saturating_sub_u64_def word_sub_le)
  ultimately show ?thesis by (auto simp: authoritative_def filter_empty_conv intro: order_trans)
qed

end
