(* ===== verification/Node_Lifecycle.thy ===== *)
theory Node_Lifecycle
  imports Snapshots Log_Store Membership
begin

text \<open>
  The life of a node (\<^verbatim>\<open>main.rs\<close>, \<^verbatim>\<open>raft/snapshot_s3.rs\<close>): the snapshot it keeps in S3, the restore and the choice between
  joining and verifying at its start, the upload of snapshots while it runs, and its departure at shutdown.  S3 is
  the record \<open>snapshot_store\<close>; the JSON codec of the payload and the printing of a leader id are the parameters they
  are in \<open>Snapshots\<close>.
\<close>

section \<open>Snapshots in S3\<close>

datatype snapshot_error = SnapshotUpload msg | SnapshotDownload msg | SnapshotBodyCollect msg

text \<open>What \<^verbatim>\<open>get_object\<close> fails with: the missing key, or a service error with its code.\<close>

datatype snapshot_get_error = SnapshotNoSuchKey | SnapshotServiceError "string option" msg

record 'w snapshot_store =
  ss_put :: "string \<Rightarrow> string \<Rightarrow> 'w \<Rightarrow> (unit, msg) result \<times> 'w"
  ss_get :: "string \<Rightarrow> 'w \<Rightarrow> ((string, msg) result, snapshot_get_error) result \<times> 'w"
  ss_node_id :: u64

definition snapshot_key :: "'w snapshot_store \<Rightarrow> string" where
  "snapshot_key ss = ''raft-snapshots/'' @ show_u64 (ss_node_id ss) @ ''/latest.bin''"

definition snapshot_upload :: "'w snapshot_store \<Rightarrow> string \<Rightarrow> 'w \<Rightarrow> (unit, snapshot_error) result \<times> 'w" where
  "snapshot_upload ss data w =
     (case ss_put ss (snapshot_key ss) data w of
        (Inl e, w1) \<Rightarrow> (Err (SnapshotUpload e), w1)
      | (Inr _, w1) \<Rightarrow> (Ok (), w1))"

definition snapshot_download :: "'w snapshot_store \<Rightarrow> 'w \<Rightarrow> (string option, snapshot_error) result \<times> 'w" where
  "snapshot_download ss w =
     (case ss_get ss (snapshot_key ss) w of
        (Inr (Inr bytes), w1) \<Rightarrow> (Ok (Some bytes), w1)
      | (Inr (Inl e), w1) \<Rightarrow> (Err (SnapshotBodyCollect e), w1)
      | (Inl SnapshotNoSuchKey, w1) \<Rightarrow> (Ok None, w1)
      | (Inl (SnapshotServiceError code e), w1) \<Rightarrow>
          (if code \<in> {Some ''NoSuchBucket'', Some ''NotFound'', Some ''404''} then Ok None else Err (SnapshotDownload e), w1))"

section \<open>The codec of the cold start\<close>

datatype app_error =
    AppSnapshot snapshot_error
  | AppLogStore msg
  | AppIo msg
  | AppRaft log_storage_error
  | RaftListenNoPort string
  | SnapshotTooShort
  | SnapshotVersionError u32
  | AppJson msg

definition SNAPSHOT_HEADER_LEN :: nat where "SNAPSHOT_HEADER_LEN = 4"

definition deserialize_snapshot ::
  "env \<Rightarrow> (string \<Rightarrow> (state_machine_data, msg) result) \<Rightarrow> u64 \<Rightarrow> string \<Rightarrow> (state_machine_data, app_error) result" where
  "deserialize_snapshot env from_payload now bytes =
     (if length bytes < SNAPSHOT_HEADER_LEN then Err SnapshotTooShort
      else
        let version = from_le_bytes (take 4 bytes); payload = drop SNAPSHOT_HEADER_LEN bytes in
        if version \<noteq> SNAPSHOT_VERSION then Err (SnapshotVersionError version)
        else (case from_payload payload of Inl e \<Rightarrow> Err (AppJson e) | Inr data \<Rightarrow> Ok (normalize_restored_metadata env now data)))"

definition serialize_snapshot :: "(state_machine_data \<Rightarrow> (string, msg) result) \<Rightarrow> state_machine_data \<Rightarrow> (string, msg) result" where
  "serialize_snapshot to_vec data = res_bind (to_vec data) (\<lambda>payload. Ok (to_le_bytes SNAPSHOT_VERSION @ payload))"

section \<open>Start\<close>

record restored_node =
  rn_machine :: state_machine
  rn_log :: log_db
  rn_has_restored :: bool

text \<open>The vote of the log database becomes one for this node in the term of the restored position.\<close>

definition seed_restored_vote ::
  "codec \<Rightarrow> (vote \<Rightarrow> vote \<Rightarrow> bool) \<Rightarrow> io_faults \<Rightarrow> u64 \<Rightarrow> log_id option \<Rightarrow> log_db \<Rightarrow> (log_db, app_error) result" where
  "seed_restored_vote c vote_ge io node_id last_applied db =
     (case last_applied of
        None \<Rightarrow> Ok db
      | Some la \<Rightarrow>
          (case seed_vote_sync c vote_ge io db \<lparr>vt_term = li_term la, vt_node = node_id, vt_committed = False\<rparr> of
             Inl e \<Rightarrow> Err (AppRaft e)
           | Inr db' \<Rightarrow> Ok db'))"

definition restored_meta :: "(u64 \<Rightarrow> u64 \<Rightarrow> string) \<Rightarrow> state_machine_data \<Rightarrow> snapshot_meta" where
  "restored_meta show_leader data =
     \<lparr>meta_last_log_id = last_applied_log data, meta_last_membership = last_membership data,
      meta_snapshot_id =
        (case last_applied_log data of
           None \<Rightarrow> ''restored-empty''
         | Some i \<Rightarrow> show_leader (li_term i) (li_node i) @ ''-'' @ show_u64 (li_index i))\<rparr>"

text \<open>
  From the download to the state machine handed to Raft.  \<open>log_opened\<close> is the outcome of creating the data directory and
  opening the log database in it.
\<close>

definition restore_node ::
  "env \<Rightarrow> (string \<Rightarrow> (state_machine_data, msg) result) \<Rightarrow> (u64 \<Rightarrow> u64 \<Rightarrow> string) \<Rightarrow> codec \<Rightarrow> (vote \<Rightarrow> vote \<Rightarrow> bool) \<Rightarrow> io_faults
    \<Rightarrow> 'w snapshot_store \<Rightarrow> ('w \<Rightarrow> u64) \<Rightarrow> (log_db, app_error) result \<Rightarrow> 'w \<Rightarrow> (restored_node, app_error) result \<times> 'w" where
  "restore_node env from_payload show_leader c vote_ge io ss clock log_opened w =
     (case snapshot_download ss w of
        (Inl e, w1) \<Rightarrow> (Err (AppSnapshot e), w1)
      | (Inr found, w1) \<Rightarrow>
          (res_bind (case found of None \<Rightarrow> Ok empty_state | Some bytes \<Rightarrow> deserialize_snapshot env from_payload (clock w1) bytes) (\<lambda>data.
           res_bind log_opened (\<lambda>db.
           res_bind (seed_restored_vote c vote_ge io (ss_node_id ss) (last_applied_log data) db) (\<lambda>db'.
             Ok \<lparr>rn_machine = (case found of
                   None \<Rightarrow> state_machine_new data
                 | Some bytes \<Rightarrow> new_with_snapshot data (restored_meta show_leader data) bytes),
                rn_log = db', rn_has_restored = (last_applied_log data \<noteq> None)\<rparr>))), w1))"

definition raft_listen_port :: "string \<Rightarrow> (nat, app_error) result" where
  "raft_listen_port listen =
     ok_or (parse_unsigned (2 ^ 16) (last (split_char (CHR '':'') listen))) (RaftListenNoPort listen)"

text \<open>The background task that brings the started node into the cluster.\<close>

definition enter_cluster :: "'w raft_handle \<Rightarrow> bool \<Rightarrow> u64 \<Rightarrow> string \<Rightarrow> string \<Rightarrow> nat \<Rightarrow> 'w \<Rightarrow> 'w option" where
  "enter_cluster h has_restored node_id advertise_addr dns port =
     (if has_restored then verify_or_rejoin h node_id advertise_addr dns port
      else join_cluster h node_id advertise_addr dns port)"

section \<open>Uploads while the node runs\<close>

text \<open>
  One turn of the watcher: \<open>snapshot\<close> is the position of the latest snapshot in the metrics, \<open>data\<close> the state under the
  read lock, \<open>last_uploaded\<close> what the watcher remembers.
\<close>

definition snapshot_upload_turn ::
  "'w snapshot_store \<Rightarrow> (state_machine_data \<Rightarrow> (string, msg) result) \<Rightarrow> log_id option \<Rightarrow> state_machine_data \<Rightarrow> log_id option \<Rightarrow> 'w
    \<Rightarrow> log_id option \<times> 'w" where
  "snapshot_upload_turn ss to_vec snapshot data last_uploaded w =
     (if snapshot \<noteq> None \<and> snapshot \<noteq> last_uploaded then
        (case serialize_snapshot to_vec data of
           Inl _ \<Rightarrow> (last_uploaded, w)
         | Inr bytes \<Rightarrow>
             (case snapshot_upload ss bytes w of
                (Inl _, w1) \<Rightarrow> (last_uploaded, w1)
              | (Inr _, w1) \<Rightarrow> (snapshot, w1)))
      else (last_uploaded, w))"

datatype upload_snapshot_error = UploadJson msg | UploadSnapshot snapshot_error

definition upload_snapshot_now ::
  "'w snapshot_store \<Rightarrow> (state_machine_data \<Rightarrow> (string, msg) result) \<Rightarrow> state_machine_data \<Rightarrow> 'w
    \<Rightarrow> (unit, upload_snapshot_error) result \<times> 'w" where
  "upload_snapshot_now ss to_vec data w =
     (case serialize_snapshot to_vec data of
        Inl e \<Rightarrow> (Err (UploadJson e), w)
      | Inr bytes \<Rightarrow>
          (case snapshot_upload ss bytes w of
             (Inl e, w1) \<Rightarrow> (Err (UploadSnapshot e), w1)
           | (Inr _, w1) \<Rightarrow> (Ok (), w1)))"

section \<open>Shutdown\<close>

fun wait_committed :: "'w raft_handle \<Rightarrow> nat \<Rightarrow> 'w \<Rightarrow> 'w" where
  "wait_committed h 0 w = w"
| "wait_committed h (Suc n) w =
     (let mx = mh_metrics h w in
      if mx_membership_log mx = mx_last_applied mx then w else wait_committed h n (mh_sleep_ms h 250 w))"

definition wait_for_membership_change_to_commit :: "'w raft_handle \<Rightarrow> 'w \<Rightarrow> 'w" where
  "wait_for_membership_change_to_commit h = wait_committed h 20"

text \<open>
  One attempt to leave: the address of the leader to ask next when the attempt goes on, \<^const>\<open>None\<close> when the node
  is done.  A request that fails and one that is not answered in time end the same way.
\<close>

definition leave_attempt :: "'w raft_handle \<Rightarrow> u64 \<Rightarrow> string option \<Rightarrow> 'w \<Rightarrow> string option option \<times> 'w" where
  "leave_attempt h node_id next_leader_addr w =
     (let mx = mh_metrics h w; voters = mx_voter_ids mx;
          leader_addr = (case next_leader_addr of Some a \<Rightarrow> Some a | None \<Rightarrow> leader_addr_of mx) in
      if node_id \<notin> voters then (None, w)
      else if card voters \<le> 1 then (None, w)
      else if mx_current_leader mx = Some node_id then
        (case replace_voters h (voters - {node_id}) w of
           (Inr _, w1) \<Rightarrow> (None, w1)
         | (Inl _, w1) \<Rightarrow> (Some None, w1))
      else
        case leader_addr of
          None \<Rightarrow> (Some None, w)
        | Some addr \<Rightarrow>
            (case request_leave h addr node_id w of
               (Inl _, w1) \<Rightarrow> (Some None, w1)
             | (Inr resp, w1) \<Rightarrow>
                 (if lp_result resp \<in> {LeaveOk, LastVoter, NotMember} then None else Some (lp_leader_addr resp), w1)))"

fun leave_attempts :: "'w raft_handle \<Rightarrow> u64 \<Rightarrow> u64 list \<Rightarrow> string option \<Rightarrow> 'w \<Rightarrow> 'w" where
  "leave_attempts h node_id [] next_leader_addr w = w"
| "leave_attempts h node_id (attempt # attempts) next_leader_addr w =
     (case leave_attempt h node_id next_leader_addr w of
        (None, w1) \<Rightarrow> w1
      | (Some addr, w1) \<Rightarrow> leave_attempts h node_id attempts addr (mh_sleep_ms h (1000 * attempt) w1))"

definition leave_cluster_on_shutdown :: "'w raft_handle \<Rightarrow> u64 \<Rightarrow> 'w \<Rightarrow> 'w" where
  "leave_cluster_on_shutdown h node_id = leave_attempts h node_id [1, 2, 3, 4, 5] None"

section \<open>What a restart brings back\<close>

text \<open>
  What the cold start relies on of S3: \<open>object\<close> is what is stored under a key.  An acknowledged write is stored, a body that
  was read is the stored one, and the answers that say so mean that there is nothing.
\<close>

definition snapshot_store_ok :: "'w snapshot_store \<Rightarrow> ('w \<Rightarrow> string \<Rightarrow> string option) \<Rightarrow> bool" where
  "snapshot_store_ok ss object \<longleftrightarrow>
     (\<forall>k b w w'. ss_put ss k b w = (Ok (), w') \<longrightarrow> object w' k = Some b) \<and>
     (\<forall>k b w w'. ss_get ss k w = (Ok (Ok b), w') \<longrightarrow> object w k = Some b) \<and>
     (\<forall>k w w'. ss_get ss k w = (Err SnapshotNoSuchKey, w') \<longrightarrow> object w k = None) \<and>
     (\<forall>k w w' code e. ss_get ss k w = (Err (SnapshotServiceError (Some code) e), w') \<longrightarrow>
        code \<in> {''NoSuchBucket'', ''NotFound'', ''404''} \<longrightarrow> object w k = None)"

lemma snapshot_download_object:
  assumes "snapshot_store_ok ss object" and "snapshot_download ss w = (Ok found, w')"
  shows "found = object w (snapshot_key ss)"
  using assms by (auto simp: snapshot_download_def snapshot_store_ok_def split: prod.splits sum.splits snapshot_get_error.splits if_splits)

lemma upload_snapshot_now_object:
  assumes "snapshot_store_ok ss object" and "upload_snapshot_now ss to_vec data w = (Ok (), w')"
  obtains payload where "to_vec data = Ok payload" and "object w' (snapshot_key ss) = Some (to_le_bytes SNAPSHOT_VERSION @ payload)"
proof -
  obtain payload where p: "to_vec data = Ok payload"
    using assms(2) by (auto simp: upload_snapshot_now_def serialize_snapshot_def split: sum.splits)
  with assms have "object w' (snapshot_key ss) = Some (to_le_bytes SNAPSHOT_VERSION @ payload)"
    by (auto simp: upload_snapshot_now_def serialize_snapshot_def snapshot_upload_def snapshot_store_ok_def split: prod.splits sum.splits)
  with p show thesis by (rule that)
qed

lemma deserialize_serialize:
  assumes "from_payload payload = Ok data" and "normalize_restored_metadata env now data = data"
  shows "deserialize_snapshot env from_payload now (to_le_bytes SNAPSHOT_VERSION @ payload) = Ok data"
  using assms by (simp add: deserialize_snapshot_def SNAPSHOT_HEADER_LEN_def from_to_le_bytes Let_def)

lemma seed_restored_vote_None [simp]: "seed_restored_vote c ge io n None db = Ok db"
  by (simp add: seed_restored_vote_def)

section \<open>What the departure asks of Raft\<close>

lemma moved_wait_committed: "moved h P w v \<Longrightarrow> moved h P w (wait_committed h n v)"
  by (induction h n v rule: wait_committed.induct) (auto simp: Let_def intro: moved.sleep)

lemma moved_request_leave: "moved h P w (snd (request_leave h addr n w))"
  using moved_peer_request [OF moved.stay] by (auto simp: request_leave_def moved.stay split: sum.splits)

text \<open>
  The only change a node that shuts down asks for: in a world it reached it is the leader and a voter among others, and
  under the lock it takes there it asks for the voters of that world without itself.
\<close>

definition left_by :: "'w raft_handle \<Rightarrow> u64 \<Rightarrow> 'w \<Rightarrow> 'w \<Rightarrow> change_members \<Rightarrow> bool" where
  "left_by h n w v c \<longleftrightarrow> (\<exists>u. moved h (\<lambda>_ _. True) w u \<and> v = mh_lock h u \<and> mx_current_leader (mh_metrics h u) = Some n \<and>
     n \<in> voters_at h u \<and> voters_at h u - {n} \<noteq> {} \<and> c = ReplaceAllVoters (voters_at h u - {n}))"

lemma moved_leave_attempt:
  assumes "moved h (\<lambda>_ _. True) w0 w"
  shows "moved h (left_by h n w0) w (snd (leave_attempt h n next_addr w))"
proof (cases "mx_current_leader (mh_metrics h w) = Some n \<and> n \<in> voters_at h w")
  case True
  then have "moved h (left_by h n w0) w (snd (replace_voters h (voters_at h w - {n}) w))"
    using assms by (intro moved_replace moved.stay) (auto simp: left_by_def)
  with True show ?thesis
    by (auto simp: leave_attempt_def Let_def moved.stay split: prod.splits sum.splits)
next
  case False
  then show ?thesis using moved_request_leave [of h "left_by h n w0" w _ n]
    by (auto simp: leave_attempt_def Let_def moved.stay split: prod.splits sum.splits option.splits) (metis snd_conv)+
qed

lemma moved_leave_attempts:
  "moved h (\<lambda>_ _. True) w0 w \<Longrightarrow> moved h (left_by h n w0) w (leave_attempts h n attempts next_addr w)"
proof (induction attempts arbitrary: next_addr w)
  case (Cons a attempts)
  obtain r w1 where r: "leave_attempt h n next_addr w = (r, w1)" by fastforce
  have m: "moved h (left_by h n w0) w w1" using moved_leave_attempt [OF Cons.prems, of n next_addr] r by simp
  then have "moved h (\<lambda>_ _. True) w0 w1" using Cons.prems by (blast intro: moved_trans moved_mono)
  from Cons.IH [OF moved.sleep [OF this]] m
  have "moved h (left_by h n w0) w (leave_attempts h n attempts addr (mh_sleep_ms h (1000 * a) w1))" for addr
    by (rule moved_trans [OF _ moved.sleep])
  with r m show ?case by (auto split: option.splits)
qed (simp add: moved.stay)

text \<open>The manifests the routes and the mirror commit are complete, on a clock that does not read zero.\<close>

lemma parsed_put_complete:
  assumes "now \<noteq> 0" and "\<And>v. env_from_slice env body = Some v \<Longrightarrow> v = parsed"
  shows "put_complete env (put_request_of name reference (entry_from_parsed_json sha now parsed content_type body refs) expected absent)"
  using assms by (auto simp: put_complete_def put_request_of_def entry_from_parsed_json_def split: option.splits)

end
