(* ===== verification/Membership_Properties.thy ===== *)
theory Membership_Properties
  imports Node_Lifecycle
begin

text \<open>What the membership handlers and the start and the end of a node guarantee about the voters of the cluster.\<close>

text \<open>
  C18: The changes of the voters the server asks Raft for.  The join handler asks only to add the joining node.  The leave
  handler asks only for the voters of the world it asks in without the leaving node, and only while its node leads, the
  leaving node is a voter and another voter remains.  The Kubernetes reconciliation asks only, under the lock it takes
  right after it fetched a positive replica count, for the ordinals \<open>1\<close> to that count, and only if at the fetch its node led
  and these were some but not all of the voters.  A node that shuts down asks only, under a lock it takes, for the voters
  without itself that it read right before, while it was the leader and a voter among others.
\<close>

theorem voter_changes_safe:
  "moved h (\<lambda>v c. c = AddVoterIds {jr_node_id req}) w (snd (handle_join h req w))
   \<and> moved h (\<lambda>v c. leads h v \<and> n \<in> voters_at h v \<and> voters_at h v - {n} \<noteq> {} \<and> c = ReplaceAllVoters (voters_at h v - {n})) w (snd (handle_leave h n w))
   \<and> moved h (\<lambda>v c. \<exists>replicas u. fetch_desired_replicas h client w = (Ok replicas, u) \<and> v = mh_lock h u \<and> leads h u \<and> 0 < unat replicas
        \<and> of_nat ` {1..unat replicas} \<subset> voters_at h u \<and> c = ReplaceAllVoters (of_nat ` {1..unat replicas}))
      w (snd (reconcile_once h client w))
   \<and> moved h (\<lambda>v c. \<exists>u. moved h (\<lambda>_ _. True) w u \<and> v = mh_lock h u \<and> mx_current_leader (mh_metrics h u) = Some n \<and> n \<in> voters_at h u
        \<and> voters_at h u - {n} \<noteq> {} \<and> c = ReplaceAllVoters (voters_at h u - {n}))
      w (leave_cluster_on_shutdown h n w)"
proof (intro conjI)
  show "moved h (\<lambda>v c. c = AddVoterIds {jr_node_id req}) w (snd (handle_join h req w))"
    unfolding handle_join_def by (intro moved_with_lock moved_join) simp
  have rest: "\<not> A \<subseteq> {n}" if "2 \<le> card A" for A :: "u64 set"
  proof
    assume "A \<subseteq> {n}"
    then have "card A \<le> 1" by (metis card_mono finite.emptyI finite.insertI is_singletonI is_singleton_altdef)
    with that show False by simp
  qed
  show "moved h (\<lambda>v c. leads h v \<and> n \<in> voters_at h v \<and> voters_at h v - {n} \<noteq> {} \<and> c = ReplaceAllVoters (voters_at h v - {n})) w (snd (handle_leave h n w))"
    unfolding handle_leave_def by (intro moved_with_lock moved_leave) (simp add: precheck_leave_None rest)
  have "moved h (left_by h n w) w (leave_cluster_on_shutdown h n w)"
    unfolding leave_cluster_on_shutdown_def by (rule moved_leave_attempts [OF moved.stay])
  then show "moved h (\<lambda>v c. \<exists>u. moved h (\<lambda>_ _. True) w u \<and> v = mh_lock h u \<and> mx_current_leader (mh_metrics h u) = Some n \<and> n \<in> voters_at h u
        \<and> voters_at h u - {n} \<noteq> {} \<and> c = ReplaceAllVoters (voters_at h u - {n})) w (leave_cluster_on_shutdown h n w)"
    by (rule moved_mono) (simp add: left_by_def)
  let ?P = "\<lambda>v c. \<exists>replicas u. fetch_desired_replicas h client w = (Ok replicas, u) \<and> v = mh_lock h u \<and> leads h u \<and> 0 < unat replicas
        \<and> of_nat ` {1..unat replicas} \<subset> voters_at h u \<and> c = ReplaceAllVoters (of_nat ` {1..unat replicas})"
  obtain x u where x: "fetch_desired_replicas h client w = (x, u)" by fastforce
  have m1: "moved h ?P w u" using moved_fetch [of h ?P w client] x by simp
  show "moved h ?P w (snd (reconcile_once h client w))"
  proof (cases "\<exists>k. x = Ok k \<and> desired_voters_for_replicas k \<noteq> {} \<and> leads h u \<and> desired_voters_for_replicas k \<subset> voters_at h u")
    case False
    with x m1 show ?thesis by (auto simp: reconcile_once_def Let_def leads_def split: sum.splits)
  next
    case True
    then obtain k where k: "x = Ok k" "desired_voters_for_replicas k \<noteq> {}" "leads h u" "desired_voters_for_replicas k \<subset> voters_at h u" by blast
    have "0 < unat k" using k(2) by (auto simp: desired_voters_for_replicas_def)
    then have "?P (mh_lock h u) (ReplaceAllVoters (desired_voters_for_replicas k))"
      using x k by (auto simp: desired_voters_for_replicas_def)
    then have "moved h ?P w (snd (replace_voters h (desired_voters_for_replicas k) u))"
      by (intro moved_replace m1)
    with x k show ?thesis by (auto simp: reconcile_once_def Let_def leads_def split: prod.splits sum.splits)
  qed
qed

text \<open>
  C19: A restored node other than the first (\<open>node_id \<noteq> 1\<close>) asks the peers of its restored membership, or the discovered ones
  when it has none.  When it stops verifying, either no peer answered; or more than half of the peers whose applied log
  is within ten entries of the highest, of which there is at least one, list it as a voter; or it went through the join
  loop: one of these peers, or one discovered on the way, answered with its status, that peer, if it leads, or the node
  it names as leader accepted the join, or named the node that did, and then the status of the node that accepted
  lists it as a voter, while it knows a leader and sees itself as a voter, by a membership entry at least as new as in
  that status.  The loop asks Raft for no change of the voters itself.
\<close>

theorem restored_node_verified:
  assumes "verify_or_rejoin h node_id addr dns port w = Some w'" and "node_id \<noteq> 1"
    and "asked_peers h node_id dns port w = (peers, v)" and "peer_statuses h node_id peers v = (statuses, v')"
  shows "if statuses = [] then w' = v'
    else authoritative statuses \<noteq> [] \<and>
      (if 2 * length (filter (\<lambda>s. has_voter s node_id) (authoritative statuses)) > length (authoritative statuses) then w' = v'
       else \<exists>peer v1 answer v2 first target v3 status.
         polled h v' v1 \<and> known_peer h dns port peers v' peer \<and> get_status h peer v1 = (Ok answer, v2) \<and> cs_node_id answer \<noteq> node_id \<and>
         join_target_for_status peer answer = Some first \<and> join_accepted h \<lparr>jr_node_id = node_id, jr_addr = addr\<rparr> first v2 target v3 \<and>
         get_status h target v3 = (Ok status, w') \<and> has_voter status node_id \<and>
         node_id \<in> voters_at h w' \<and> mx_current_leader (mh_metrics h w') \<noteq> None \<and>
         or_zero (cs_last_membership_log_id status) \<le> or_zero (mx_membership_log (mh_metrics h w')))"
proof (cases "statuses = []")
  case True
  with assms show ?thesis by (simp add: verify_or_rejoin_def)
next
  case False
  note auth = authoritative_nonempty [OF False]
  let ?majority = "2 * length (filter (\<lambda>s. has_voter s node_id) (authoritative statuses)) > length (authoritative statuses)"
  let ?req = "\<lparr>jr_node_id = node_id, jr_addr = addr\<rparr>"
  have "membership_confirmed node_id statuses \<longleftrightarrow> ?majority" by (auto simp: membership_confirmed_def)
  with assms False auth have run: "(if ?majority then Some v' else join_cluster_with_seed_peers h node_id addr dns port peers v') = Some w'"
    by (simp add: verify_or_rejoin_def)
  have "join_confirmed h ?req (known_peer h dns port peers v') v' w'" if "\<not> ?majority"
  proof -
    from that run have "join_loop h ?req dns port peers 500 v' = Some w'"
      by (simp add: join_cluster_with_seed_peers_def)
    from join_loop_confirmed [OF this] assms(2) show ?thesis by simp
  qed
  with run auth False show ?thesis by (auto simp: join_confirmed_def)
qed

definition sample_status :: cluster_status where
  "sample_status =
     \<lparr>cs_node_id = 1, cs_state = NodeLeader, cs_leader_id = Some 1, cs_leader_addr = Some ''n1'',
      cs_voters = [\<lparr>ni_id = 1, ni_addr = ''n1''\<rparr>, \<lparr>ni_id = 2, ni_addr = ''n2''\<rparr>], cs_learners = [], cs_term = 1, cs_last_log_index = Some 9,
      cs_last_applied_log = Some 9, cs_last_membership_log_id = Some 4, cs_millis_since_quorum_ack = None, cs_replication = bt_empty\<rparr>"

definition sample_handle :: "unit raft_handle" where
  "sample_handle =
     \<lparr>mh_metrics = \<lambda>w. \<lparr>mx_id = 2, mx_state = ServerFollower, mx_current_leader = Some 1, mx_nodes = bt_insert 1 ''n1'' (bt_insert 2 ''n2'' bt_empty),
        mx_voter_ids = {1, 2}, mx_membership_log = Some 4, mx_last_applied = Some 9, mx_last_log_index = Some 9, mx_current_term = 1,
        mx_millis_since_quorum_ack = None, mx_replication = None\<rparr>,
      mh_add_learner = \<lambda>i a w. (Err [], w), mh_change = \<lambda>c w. (Err [], w), mh_change_within = \<lambda>n c w. (None, w), mh_initialize = \<lambda>m w. (False, w),
      mh_lock = \<lambda>w. w, mh_unlock = \<lambda>w. w, mh_sleep_ms = \<lambda>ms w. w, mh_lookup = \<lambda>d w. (None, w), mh_tls = False, mh_client = \<lambda>n. Ok (),
      mh_call = \<lambda>n m url b w. (Ok url, w), mh_encode_join = \<lambda>r. Err [], mh_encode_leave = \<lambda>r. Err [], mh_decode_status = \<lambda>b. Ok sample_status,
      mh_decode_join = \<lambda>b. Err [], mh_decode_leave = \<lambda>b. Err [], mh_read_file = \<lambda>p w. Err [],
      mh_kubernetes_client = \<lambda>ca. Err MissingReplicas, mh_kubernetes_get = \<lambda>u t w. (Err [], w), mh_decode_statefulset = \<lambda>b. Err []\<rparr>"

lemma sample_asks: "asked_peers sample_handle 2 ''peers'' 7000 () = ([''n1''], ())"
proof -
  have "restored_peer_targets_from_raft sample_handle 2 () = [''n1'']"
    by (simp add: restored_peer_targets_from_raft_def restored_membership_peer_targets_def sample_handle_def trim_all_graphic is_graphic_def byte_def)
  then show ?thesis by (simp add: asked_peers_def select_verification_peer_targets_def)
qed

lemma sample_answers: "peer_statuses sample_handle 2 [''n1''] () = ([sample_status], ())"
  by (simp add: timed_status_def peer_request_def sample_handle_def sample_status_def)

lemma sample_authoritative: "authoritative [sample_status] = [sample_status]"
proof -
  have "max_applied [sample_status] = 9" by (simp add: max_applied_def sample_status_def)
  then show ?thesis by (simp add: authoritative_def AUTHORITATIVE_LOG_TOLERANCE_def saturating_sub_u64_def)
qed

lemma sample_verifies: "verify_or_rejoin sample_handle 2 ''n2'' ''peers'' 7000 () = Some ()"
  by (simp add: verify_or_rejoin_def sample_asks sample_answers membership_confirmed_def has_voter_def sample_authoritative sample_status_def [THEN arg_cong [where f = cs_voters]] del: peer_statuses.simps)

theorem restored_node_verified_witness:
  "verify_or_rejoin sample_handle 2 ''n2'' ''peers'' 7000 () = Some () \<and> asked_peers sample_handle 2 ''peers'' 7000 () = ([''n1''], ())
   \<and> authoritative [sample_status] \<noteq> []"
proof -
  have "(2 :: u64) \<noteq> 1" by simp
  from restored_node_verified [OF sample_verifies this sample_asks sample_answers] sample_asks sample_verifies show ?thesis by simp
qed

text \<open>
  A leader that shuts down reads the voters before it waits for the lock of membership changes, and replaces
  them by what it read: a node whose join completes in the meantime is dropped again.  The leave handler reads
  them under the lock and keeps the node.  The world of the example is the set of voters with the number of changes;
  node 4 joins while the lock is awaited.
\<close>

definition joining_handle :: "(u64 set \<times> u64) raft_handle" where
  "joining_handle =
     \<lparr>mh_metrics = \<lambda>(voters, n). \<lparr>mx_id = 1, mx_state = ServerLeader, mx_current_leader = Some 1, mx_nodes = bt_insert 1 ''n1'' bt_empty,
        mx_voter_ids = voters, mx_membership_log = Some n, mx_last_applied = Some n, mx_last_log_index = Some n, mx_current_term = 1,
        mx_millis_since_quorum_ack = None, mx_replication = None\<rparr>,
      mh_add_learner = \<lambda>i a w. (Err [], w), mh_change = \<lambda>c w. (Err [], w),
      mh_change_within = \<lambda>t c (voters, n). (case c of ReplaceAllVoters A \<Rightarrow> (Some (Ok ()), (A, n + 1)) | _ \<Rightarrow> (None, (voters, n))),
      mh_initialize = \<lambda>m w. (False, w), mh_lock = \<lambda>(voters, n). (insert 4 voters, n + 1), mh_unlock = \<lambda>w. w, mh_sleep_ms = \<lambda>ms w. w,
      mh_lookup = \<lambda>d w. (None, w), mh_tls = False, mh_client = \<lambda>n. Ok (), mh_call = \<lambda>n m url b w. (Err [], w),
      mh_encode_join = \<lambda>r. Err [], mh_encode_leave = \<lambda>r. Err [], mh_decode_status = \<lambda>b. Err [], mh_decode_join = \<lambda>b. Err [],
      mh_decode_leave = \<lambda>b. Err [], mh_read_file = \<lambda>p w. Err [], mh_kubernetes_client = \<lambda>ca. Err MissingReplicas,
      mh_kubernetes_get = \<lambda>u t w. (Err [], w), mh_decode_statefulset = \<lambda>b. Err []\<rparr>"

lemma joining_calls:
  "mx_voter_ids (mh_metrics joining_handle (voters, n)) = voters"
  "mx_current_leader (mh_metrics joining_handle w) = Some 1" "mx_id (mh_metrics joining_handle w) = 1"
  "committed_membership_log_index joining_handle (voters, n) = Some n"
  "mh_change_within joining_handle t (ReplaceAllVoters A) (voters, n) = (Some (Ok ()), (A, n + 1))"
  "mh_lock joining_handle (voters, n) = (insert 4 voters, n + 1)" "mh_unlock joining_handle w = w"
  "settle_after_membership_change joining_handle w = w"
  by (simp_all add: joining_handle_def committed_membership_log_index_def settle_after_membership_change_def split: prod.splits)

lemma joining_waits: "wait_for_committed_membership_log_advance joining_handle (Some 1) (A, 2) = (True, (A, 2))"
proof -
  have "(150 :: nat) = Suc 149" by simp
  then show ?thesis unfolding wait_for_committed_membership_log_advance_def by (simp only: wait_advance.simps) (simp add: joining_calls)
qed

theorem shutdown_drops_joined_node:
  "fst (leave_cluster_on_shutdown joining_handle 1 ({1, 2, 3}, 0)) = {2, 3}
   \<and> fst (snd (handle_leave joining_handle 1 ({1, 2, 3}, 0))) = {2, 3, 4}"
proof
  have less: "{1, 2, 3} - {1} = {2, 3 :: u64}" and less4: "{4, 1, 2, 3} - {1} = {2, 3, 4 :: u64}" by auto
  have differ: "insert 4 {1, 2, 3} \<noteq> {2, 3 :: u64}"
  proof
    assume eq: "insert 4 {1, 2, 3} = {2, 3 :: u64}"
    have "(4 :: u64) \<in> {2, 3}" by (rule subst [OF eq]) simp
    then show False by simp
  qed
  have "replace_voters joining_handle {2, 3} ({1, 2, 3}, 0) = (Ok (), ({2, 3}, 2))"
    using differ by (simp add: replace_voters_def Let_def joining_calls joining_waits)
  then have "leave_attempt joining_handle 1 None ({1, 2, 3}, 0) = (None, ({2, 3}, 2))"
    by (simp add: leave_attempt_def Let_def joining_calls less)
  then show "fst (leave_cluster_on_shutdown joining_handle 1 ({1, 2, 3}, 0)) = {2, 3}"
    by (simp add: leave_cluster_on_shutdown_def)
  show "fst (snd (handle_leave joining_handle 1 ({1, 2, 3}, 0))) = {2, 3, 4}"
    by (simp add: handle_leave_def with_lock_def precheck_leave_def leave_locked_def Let_def joining_calls joining_waits less4)
qed

end
