(* ===== verification/Lifecycle_Properties.thy ===== *)
theory Lifecycle_Properties
  imports Node_Lifecycle Maintenance_Properties
begin

text \<open>What a node that was shut down and starts again on an empty disk gets back.\<close>

text \<open>
  C20: When the last upload of a node's snapshot was acknowledged and nothing else wrote its key, a start that does not
  fail restores exactly the state that was uploaded, takes the path of a restored node when the state has a log
  position, and serves to its peers a snapshot of that state that they can install.  The state is one that a log
  of fewer than \<open>2 ^ 64\<close> entries leads to, whose manifest puts carry their sizes and times; the JSON codec reads
  back what it wrote for this state.
\<close>

theorem cold_start_restores:
  assumes "snapshot_store_ok ss object" and "upload_snapshot_now ss to_vec data w = (Ok (), w1)"
    and "object w2 (snapshot_key ss) = object w1 (snapshot_key ss)"
    and "\<And>payload. to_vec data = Ok payload \<Longrightarrow> from_payload payload = Ok data"
    and "apply_entries env empty_state es = Some (data, rs)" and "log_complete env es" and "length es < 2 ^ 64"
    and "restore_node env from_payload show_leader c vote_ge io ss clock log_opened w2 = (Ok node, w3)"
  shows "sm_data (rn_machine node) = data \<and> (rn_has_restored node \<longleftrightarrow> last_applied_log data \<noteq> None)
    \<and> (\<exists>meta bytes. get_current_snapshot (rn_machine node) = Some (meta, bytes) \<and> meta_last_log_id meta = last_applied_log data
        \<and> (\<forall>now sm. install_snapshot env from_payload now meta bytes sm = Ok (new_with_snapshot data meta bytes)))"
proof -
  obtain payload where p: "to_vec data = Ok payload" and obj: "object w1 (snapshot_key ss) = Some (to_le_bytes SNAPSHOT_VERSION @ payload)"
    using upload_snapshot_now_object [OF assms(1,2)] .
  note reads = assms(4) [OF p]
  have id: "normalize_restored_metadata env now data = data" for now
    using assms(5-7) by (rule normalize_reachable)
  obtain found v where d: "snapshot_download ss w2 = (Ok found, v)"
    using assms(8) by (cases "snapshot_download ss w2") (auto simp: restore_node_def split: sum.splits)
  with snapshot_download_object [OF assms(1) d] assms(3) obj have d: "snapshot_download ss w2 = (Ok (Some (to_le_bytes SNAPSHOT_VERSION @ payload)), v)"
    by simp
  have des: "deserialize_snapshot env from_payload now (to_le_bytes SNAPSHOT_VERSION @ payload) = Ok data" for now
    by (rule deserialize_serialize) (simp_all add: reads id)
  let ?meta = "restored_meta show_leader data" and ?bytes = "to_le_bytes SNAPSHOT_VERSION @ payload"
  have "rn_machine node = new_with_snapshot data ?meta ?bytes" "rn_has_restored node \<longleftrightarrow> last_applied_log data \<noteq> None"
    using assms(8) d by (auto simp: restore_node_def res_bind_def des split: sum.splits)
  moreover have "install_snapshot env from_payload now ?meta ?bytes sm = Ok (new_with_snapshot data ?meta ?bytes)" for now sm
    by (simp add: install_snapshot_def from_to_le_bytes reads id Let_def new_with_snapshot_def restored_meta_def)
  ultimately show ?thesis by (simp add: new_with_snapshot_def get_current_snapshot_def restored_meta_def)
qed

definition one_object_store :: "string option snapshot_store" where
  "one_object_store =
     \<lparr>ss_put = \<lambda>k b w. (Ok (), Some b), ss_get = \<lambda>k w. (case w of None \<Rightarrow> Err SnapshotNoSuchKey | Some b \<Rightarrow> Ok (Ok b), w), ss_node_id = 1\<rparr>"

definition plain_codec :: codec where
  "plain_codec = \<lparr>enc_entry = \<lambda>_. Ok [], dec_entry = \<lambda>_. Err [], enc_log_id = \<lambda>_. Ok [], dec_log_id = \<lambda>_. Err [], enc_vote = \<lambda>_. Ok ''v'', dec_vote = \<lambda>_. Err []\<rparr>"

lemma one_object_store_ok: "snapshot_store_ok one_object_store (\<lambda>w k. w)"
  by (auto simp: snapshot_store_ok_def one_object_store_def split: option.splits)

lemma plain_seed: "\<exists>db. seed_vote_sync plain_codec ge (\<lambda>_. None) \<lparr>table_logs = None, table_meta = None\<rparr> v = Ok db"
  by (auto simp: seed_vote_sync_def read_vote_sync_def save_vote_sync_def io_check_def map_io_def decode_opt_def plain_codec_def)

theorem cold_start_restores_witness:
  "\<exists>w1 node w3. upload_snapshot_now one_object_store (\<lambda>_. Ok ''{}'') sc_state None = (Ok (), w1)
    \<and> restore_node sc_env (\<lambda>_. Ok sc_state) (\<lambda>t n. ''L'') plain_codec (\<lambda>a b. True) (\<lambda>_. None) one_object_store (\<lambda>_. 77)
        (Ok \<lparr>table_logs = None, table_meta = None\<rparr>) w1 = (Ok node, w3)
    \<and> sm_data (rn_machine node) = sc_state"
proof -
  let ?db = "\<lparr>table_logs = None, table_meta = None\<rparr>"
  obtain w1 where up: "upload_snapshot_now one_object_store (\<lambda>_. Ok ''{}'') sc_state None = (Ok (), w1)"
    and w1: "w1 = Some (to_le_bytes SNAPSHOT_VERSION @ ''{}'')"
    by (simp add: upload_snapshot_now_def serialize_snapshot_def snapshot_upload_def one_object_store_def)
  obtain db where db: "seed_restored_vote plain_codec (\<lambda>a b. True) (\<lambda>_. None) 1 (last_applied_log sc_state) ?db = Ok db"
  proof (cases "last_applied_log sc_state")
    case (Some la)
    obtain db where "seed_vote_sync plain_codec (\<lambda>a b. True) (\<lambda>_. None) ?db \<lparr>vt_term = li_term la, vt_node = 1, vt_committed = False\<rparr> = Ok db"
      using plain_seed by blast
    with Some that show thesis by (simp add: seed_restored_vote_def)
  qed (use that in simp)
  have des: "deserialize_snapshot sc_env (\<lambda>_. Ok sc_state) now (to_le_bytes SNAPSHOT_VERSION @ ''{}'') = Ok sc_state" for now
    by (rule deserialize_serialize) (simp_all add: sc_normalize)
  have dl: "snapshot_download one_object_store w1 = (Ok (Some (to_le_bytes SNAPSHOT_VERSION @ ''{}'')), w1)"
    by (simp add: snapshot_download_def one_object_store_def w1)
  have id: "ss_node_id one_object_store = 1" by (simp add: one_object_store_def)
  obtain node w3 where run: "restore_node sc_env (\<lambda>_. Ok sc_state) (\<lambda>t n. ''L'') plain_codec (\<lambda>a b. True) (\<lambda>_. None) one_object_store (\<lambda>_. 77) (Ok ?db) w1 = (Ok node, w3)"
    by (simp add: restore_node_def dl des id db)
  from cold_start_restores [OF one_object_store_ok up refl _ sc_run sc_complete _ run] up run show ?thesis by (auto simp: sc_length)
qed

end
