(* ===== verification/Configuration.thy ===== *)
theory Configuration
  imports Tokens Mirror_Rules Gc Numbers
begin

text \<open>
  The configuration file (\<^verbatim>\<open>config.rs\<close>, \<^verbatim>\<open>config/directory\<close>): its sections with their defaults, the identity a node
  takes from its environment, and the checks a file passes before the server starts.  Reading TOML is a parameter,
  as are base64, the check of a policy text and the parser of the \<^verbatim>\<open>http\<close> crate; a path is its text, as on Unix.
\<close>

datatype config_error =
    HostnameNotSet
  | HostnameNoDash string
  | HostnameNotNumeric string string
  | ConfigReadFile msg
  | ConfigParseToml msg
  | ConfigInvalid msg

section \<open>Sections\<close>

record server_tls_config =
  st_cert_path :: string
  st_key_path :: string

record limits_config =
  lc_max_concurrent_uploads :: nat
  lc_max_concurrent_requests :: nat

definition limits_config_default :: limits_config where
  "limits_config_default = \<lparr>lc_max_concurrent_uploads = 64, lc_max_concurrent_requests = 512\<rparr>"

record server_config =
  sv_listen :: string
  sv_limits :: limits_config
  sv_tls :: "server_tls_config option"

record s3_redirect_config =
  sr_enabled :: bool
  sr_public_endpoint :: string
  sr_expires_secs :: u64

definition s3_redirect_config_default :: s3_redirect_config where
  "s3_redirect_config_default = \<lparr>sr_enabled = False, sr_public_endpoint = [], sr_expires_secs = 900\<rparr>"

record s3_config =
  sg_endpoint :: string
  sg_bucket :: string
  sg_region :: string
  sg_access_key :: string
  sg_secret_key :: string
  sg_path_style :: bool
  sg_redirect :: s3_redirect_config

record raft_tls_config =
  rt_cert_path :: string
  rt_key_path :: string
  rt_server_ca_path :: string
  rt_client_ca_path :: string

record raft_kubernetes_config =
  rk_enabled :: bool
  rk_namespace :: string
  rk_statefulset_name :: string
  rk_reconcile_seconds :: u64

definition raft_kubernetes_config_default :: raft_kubernetes_config where
  "raft_kubernetes_config_default = \<lparr>rk_enabled = False, rk_namespace = [], rk_statefulset_name = [], rk_reconcile_seconds = 2\<rparr>"

record raft_config =
  rf_listen :: string
  rf_data_dir :: string
  rf_discovery_dns :: string
  rf_tls :: "raft_tls_config option"
  rf_kubernetes :: raft_kubernetes_config

record directory_config =
  dc_enabled :: bool
  dc_component_path :: "string option"
  dc_component_sha256 :: "string option"
  dc_base_origin :: "string option"
  dc_api_token_file :: "string option"
  dc_tls_ca_file :: "string option"
  dc_tls_insecure_skip_verify :: bool
  dc_timeout_ms :: "u64 option"
  dc_max_concurrent_calls :: "u64 option"
  dc_memory_limit_bytes :: "u64 option"

text \<open>The whole \<^verbatim>\<open>AuthConfig\<close>: the fields the server reads while it runs, and the ones it reads at its start.\<close>

record auth_section = auth_config +
  cfg_jwks_refresh_seconds :: u64
  cfg_token_signing_keys :: "string list"
  cfg_session_encryption_key :: string
  cfg_cookie_secure_mode :: cookie_secure_mode
  cfg_directory :: "directory_config option"

record config =
  cf_server :: server_config
  cf_s3 :: s3_config
  cf_raft :: raft_config
  cf_gc :: gc_config
  cf_auth :: "auth_section option"

definition default_listen :: string where "default_listen = ''0.0.0.0:5050''"
definition default_region :: string where "default_region = ''us-east-1''"
definition default_raft_listen :: string where "default_raft_listen = ''0.0.0.0:5051''"
definition default_data_dir :: string where "default_data_dir = ''/tmp/raft''"

definition default_dev :: config where
  "default_dev =
     \<lparr>cf_server = \<lparr>sv_listen = default_listen, sv_limits = limits_config_default, sv_tls = None\<rparr>,
      cf_s3 = \<lparr>sg_endpoint = ''http://localhost:9000'', sg_bucket = ''layerhouse'', sg_region = default_region, sg_access_key = ''rustfsadmin'',
        sg_secret_key = ''rustfsadmin'', sg_path_style = True, sg_redirect = s3_redirect_config_default\<rparr>,
      cf_raft = \<lparr>rf_listen = default_raft_listen, rf_data_dir = default_data_dir, rf_discovery_dns = ''localhost'', rf_tls = None,
        rf_kubernetes = raft_kubernetes_config_default\<rparr>,
      cf_gc = gc_config_default, cf_auth = None\<rparr>"

text \<open>\<^verbatim>\<open>default_dev\<close> also sets the host name of a process that has none.\<close>

definition dev_hostname :: "string option \<Rightarrow> string option" where
  "dev_hostname hostname = (case hostname of None \<Rightarrow> Some ''layerhouse-0'' | Some n \<Rightarrow> Some n)"

section \<open>The identity of a node\<close>

text \<open>\<^verbatim>\<open>ordinal + 1\<close> wraps as it does in a release build.\<close>

definition resolve_node_id :: "string option \<Rightarrow> (u64, config_error) result" where
  "resolve_node_id hostname =
     res_bind (ok_or hostname HostnameNotSet) (\<lambda>host.
       if \<not> contains_char (CHR ''-'') host then Err (HostnameNoDash host)
       else
         let ordinal_str = last (split_char (CHR ''-'') host) in
         res_bind (ok_or (parse_u64 ordinal_str) (HostnameNotNumeric host ordinal_str)) (\<lambda>ordinal. Ok (ordinal + 1)))"

definition resolve_advertise_addr :: "string option \<Rightarrow> string option \<Rightarrow> string \<Rightarrow> (string, config_error) result" where
  "resolve_advertise_addr advertise_host hostname listen =
     res_bind (ok_or (case advertise_host of None \<Rightarrow> hostname | Some a \<Rightarrow> Some a) HostnameNotSet) (\<lambda>host.
       Ok (host @ '':'' @ last (split_char (CHR '':'') listen)))"

section \<open>Socket addresses\<close>

text \<open>\<^verbatim>\<open>str::parse::<SocketAddr>\<close>: a parser returns what it read and the rest of the text.\<close>

datatype ip_addr = V4 "nat list" | V6 "nat list"

definition digit_of :: "char \<Rightarrow> nat" where
  "digit_of c = (if is_ascii_digit c then byte c - 48 else if 97 \<le> byte c then byte c - 87 else byte c - 55)"

definition is_radix_digit :: "nat \<Rightarrow> char \<Rightarrow> bool" where
  "is_radix_digit radix c \<longleftrightarrow> is_ascii_digit c \<or> radix = 16 \<and> is_ascii_hexdigit c"

definition read_number :: "nat \<Rightarrow> nat option \<Rightarrow> bool \<Rightarrow> nat \<Rightarrow> string \<Rightarrow> (nat \<times> string) option" where
  "read_number radix max_digits allow_zero_prefix bound s =
     (let ds = takeWhile (is_radix_digit radix) s; v = foldl (\<lambda>v c. v * radix + digit_of c) 0 ds in
      if ds = [] then None
      else if case max_digits of None \<Rightarrow> False | Some m \<Rightarrow> length ds > m then None
      else if \<not> allow_zero_prefix \<and> hd ds = CHR ''0'' \<and> length ds > 1 then None
      else if v < bound then Some (v, dropWhile (is_radix_digit radix) s) else None)"

definition read_given_char :: "char \<Rightarrow> string \<Rightarrow> string option" where
  "read_given_char c s = (if s \<noteq> [] \<and> hd s = c then Some (tl s) else None)"

definition read_octet :: "string \<Rightarrow> (nat \<times> string) option" where
  "read_octet = read_number 10 (Some 3) False 256"

definition read_next_octet :: "string \<Rightarrow> (nat \<times> string) option" where
  "read_next_octet s = Option.bind (read_given_char (CHR ''.'') s) read_octet"

definition read_ipv4_addr :: "string \<Rightarrow> (nat list \<times> string) option" where
  "read_ipv4_addr s =
     Option.bind (read_octet s) (\<lambda>(a, s1).
     Option.bind (read_next_octet s1) (\<lambda>(b, s2).
     Option.bind (read_next_octet s2) (\<lambda>(c, s3).
     Option.bind (read_next_octet s3) (\<lambda>(d, s4). Some ([a, b, c, d], s4)))))"

definition read_separator :: "bool \<Rightarrow> string \<Rightarrow> string option" where
  "read_separator first s = (if first then Some s else read_given_char (CHR '':'') s)"

fun ipv4_groups :: "nat list \<Rightarrow> nat list" where
  "ipv4_groups [a, b, c, d] = [a * 256 + b, c * 256 + d]"
| "ipv4_groups _ = []"

fun read_groups :: "nat \<Rightarrow> bool \<Rightarrow> string \<Rightarrow> nat list \<times> bool \<times> string" where
  "read_groups 0 first s = ([], False, s)"
| "read_groups (Suc k) first s =
     (case if 0 < k then Option.bind (read_separator first s) read_ipv4_addr else None of
        Some (v4, rest) \<Rightarrow> (ipv4_groups v4, True, rest)
      | None \<Rightarrow>
          (case Option.bind (read_separator first s) (read_number 16 (Some 4) True 65536) of
             None \<Rightarrow> ([], False, s)
           | Some (g, rest) \<Rightarrow> (case read_groups k False rest of (gs, v4, rest') \<Rightarrow> (g # gs, v4, rest'))))"

definition read_ipv6_addr :: "string \<Rightarrow> (nat list \<times> string) option" where
  "read_ipv6_addr s =
     (case read_groups 8 True s of
        (head, v4, rest) \<Rightarrow>
          if length head = 8 then Some (head, rest)
          else if v4 then None
          else
            Option.bind (read_given_char (CHR '':'') rest) (\<lambda>rest1.
            Option.bind (read_given_char (CHR '':'') rest1) (\<lambda>rest2.
              case read_groups (8 - (length head + 1)) True rest2 of
                (tail, _, rest3) \<Rightarrow> Some (head @ replicate (8 - length head - length tail) 0 @ tail, rest3))))"

definition read_port :: "string \<Rightarrow> (nat \<times> string) option" where
  "read_port s = Option.bind (read_given_char (CHR '':'') s) (read_number 10 None True 65536)"

definition read_scope_id :: "string \<Rightarrow> string" where
  "read_scope_id s =
     (case Option.bind (read_given_char (CHR ''%'') s) (read_number 10 None True (2 ^ 32)) of None \<Rightarrow> s | Some (_, rest) \<Rightarrow> rest)"

definition read_socket_addr :: "string \<Rightarrow> ((ip_addr \<times> nat) \<times> string) option" where
  "read_socket_addr s =
     (case Option.bind (read_ipv4_addr s) (\<lambda>(ip, rest). Option.bind (read_port rest) (\<lambda>(port, rest'). Some ((V4 ip, port), rest'))) of
        Some r \<Rightarrow> Some r
      | None \<Rightarrow>
          Option.bind (read_given_char (CHR ''['') s) (\<lambda>s1.
          Option.bind (read_ipv6_addr s1) (\<lambda>(ip, s2).
          Option.bind (read_given_char (CHR '']'') (read_scope_id s2)) (\<lambda>s3.
          Option.bind (read_port s3) (\<lambda>(port, s4). Some ((V6 ip, port), s4))))))"

definition parse_socket_addr :: "string \<Rightarrow> (ip_addr \<times> nat) option" where
  "parse_socket_addr s = (case read_socket_addr s of Some (a, []) \<Rightarrow> Some a | _ \<Rightarrow> None)"

fun is_unspecified :: "ip_addr \<Rightarrow> bool" where
  "is_unspecified (V4 ns) = list_all (\<lambda>n. n = 0) ns"
| "is_unspecified (V6 ns) = list_all (\<lambda>n. n = 0) ns"

definition listeners_conflict :: "string \<Rightarrow> string \<Rightarrow> bool" where
  "listeners_conflict left right \<longleftrightarrow>
     (case (parse_socket_addr left, parse_socket_addr right) of
        (Some (lip, lport), Some (rip, rport)) \<Rightarrow> lport = rport \<and> (lip = rip \<or> is_unspecified lip \<or> is_unspecified rip)
      | _ \<Rightarrow> left = right)"

section \<open>Checks\<close>

record uri =
  uri_scheme :: "string option"
  uri_authority :: "string option"
  uri_path_and_query :: "string option"

record config_lib =
  cl_unbase64 :: "string \<Rightarrow> (string, msg) result"
  cl_policy_text :: "string \<Rightarrow> (unit, msg) result"
  cl_uri :: "string \<Rightarrow> (uri, msg) result"

definition fail_if :: "bool \<Rightarrow> string \<Rightarrow> (unit, config_error) result" where
  "fail_if bad text = (if bad then Err (ConfigInvalid [Lit text]) else Ok ())"

fun in_sequence :: "('a, config_error) result list \<Rightarrow> (unit, config_error) result" where
  "in_sequence [] = Ok ()"
| "in_sequence (r # rs) = res_bind r (\<lambda>_. in_sequence rs)"

definition blank :: "string \<Rightarrow> bool" where
  "blank s \<longleftrightarrow> trim s = []"

subsection \<open>The directory section\<close>

definition directory_timeout_ms :: "directory_config \<Rightarrow> u64" where
  "directory_timeout_ms d = (case dc_timeout_ms d of None \<Rightarrow> 2000 | Some t \<Rightarrow> t)"

definition directory_max_concurrent_calls :: "directory_config \<Rightarrow> u64" where
  "directory_max_concurrent_calls d = (case dc_max_concurrent_calls d of None \<Rightarrow> 8 | Some n \<Rightarrow> n)"

definition directory_memory_limit_bytes :: "directory_config \<Rightarrow> u64" where
  "directory_memory_limit_bytes d = (case dc_memory_limit_bytes d of None \<Rightarrow> 64 * 1024 * 1024 | Some n \<Rightarrow> n)"

definition path_join :: "string \<Rightarrow> string \<Rightarrow> string" where
  "path_join base path =
     (if starts_with ''/'' path then path else if base = [] \<or> ends_with ''/'' base then base @ path else base @ ''/'' @ path)"

definition resolve_config_relative_path :: "string \<Rightarrow> string \<Rightarrow> string option \<Rightarrow> (string, config_error) result" where
  "resolve_config_relative_path field value config_dir =
     (if blank value then Err (ConfigInvalid [Disp field, Lit '' must not be empty''])
      else if starts_with ''/'' value then Ok value
      else
        case config_dir of
          None \<Rightarrow> Err (ConfigInvalid [Disp field, Lit '' is relative but the config source has no filesystem directory''])
        | Some dir \<Rightarrow> Ok (path_join dir value))"

definition resolve_optional_path :: "string \<Rightarrow> string option \<Rightarrow> string option \<Rightarrow> (string option, config_error) result" where
  "resolve_optional_path field value config_dir =
     (case value of None \<Rightarrow> Ok None | Some path \<Rightarrow> res_bind (resolve_config_relative_path field path config_dir) (\<lambda>p. Ok (Some p)))"

definition resolve_component_path :: "directory_config \<Rightarrow> string option \<Rightarrow> (string option, config_error) result" where
  "resolve_component_path d = resolve_optional_path ''auth.directory.component_path'' (dc_component_path d)"

definition resolve_api_token_file :: "directory_config \<Rightarrow> string option \<Rightarrow> (string option, config_error) result" where
  "resolve_api_token_file d = resolve_optional_path ''auth.directory.api_token_file'' (dc_api_token_file d)"

definition resolve_tls_ca_file :: "directory_config \<Rightarrow> string option \<Rightarrow> (string option, config_error) result" where
  "resolve_tls_ca_file d = resolve_optional_path ''auth.directory.tls_ca_file'' (dc_tls_ca_file d)"

definition require_directory_field :: "string \<Rightarrow> string option \<Rightarrow> (unit, config_error) result" where
  "require_directory_field field value =
     (if value \<noteq> None \<and> \<not> blank (the value) then Ok ()
      else Err (ConfigInvalid [Disp field, Lit '' is required when auth.directory.enabled is true'']))"

definition validate_component_sha256 :: "string \<Rightarrow> (unit, config_error) result" where
  "validate_component_sha256 value =
     (let e = ConfigInvalid [Lit ''auth.directory.component_sha256 must be sha256:<64 lowercase hex>''] in
      res_bind (ok_or (strip_prefix ''sha256:'' value) e) (\<lambda>digest.
        if length digest \<noteq> 64 \<or> \<not> list_all (\<lambda>b. is_ascii_hexdigit b \<and> \<not> is_ascii_uppercase b) digest then Err e else Ok ()))"

datatype base_origin_scheme = OriginHttp | OriginHttps

definition validate_base_origin :: "config_lib \<Rightarrow> string \<Rightarrow> (base_origin_scheme, config_error) result" where
  "validate_base_origin lib value =
     res_bind (fail_if (value \<noteq> trim value \<or> value = []) ''auth.directory.base_origin must be an http:// or https:// origin'') (\<lambda>_.
     res_bind (fail_if (contains_char (CHR ''#'') value) ''auth.directory.base_origin must not include a fragment'') (\<lambda>_.
     res_bind (ok_or (after_str ''://'' value) (ConfigInvalid [Lit ''auth.directory.base_origin must be an http:// or https:// origin''])) (\<lambda>authority_text.
     res_bind (fail_if (authority_text = [] \<or> contains_char (CHR ''/'') authority_text \<or> contains_char (CHR ''?'') authority_text)
       ''auth.directory.base_origin must not include a path or query'') (\<lambda>_.
     res_bind (case cl_uri lib value of Inl e \<Rightarrow> Err (ConfigInvalid (Lit ''auth.directory.base_origin is not a valid URI: '' # e)) | Inr u \<Rightarrow> Ok u) (\<lambda>u.
     res_bind (if uri_scheme u = Some ''http'' then Ok OriginHttp else if uri_scheme u = Some ''https'' then Ok OriginHttps
       else Err (ConfigInvalid [Lit ''auth.directory.base_origin must use http:// or https://''])) (\<lambda>scheme.
     res_bind (ok_or (uri_authority u) (ConfigInvalid [Lit ''auth.directory.base_origin must include a host''])) (\<lambda>authority.
     res_bind (fail_if (contains_char (CHR ''@'') authority) ''auth.directory.base_origin must not include userinfo'') (\<lambda>_.
       Ok scheme))))))))"

fun validate_directory_tls_config :: "directory_config \<Rightarrow> base_origin_scheme \<Rightarrow> (unit, config_error) result" where
  "validate_directory_tls_config d OriginHttp =
     in_sequence [
       fail_if (dc_tls_insecure_skip_verify d) ''auth.directory.tls_insecure_skip_verify is only valid for https:// base_origin'',
       fail_if (dc_tls_ca_file d \<noteq> None) ''auth.directory.tls_ca_file is only valid for https:// base_origin'']"
| "validate_directory_tls_config d OriginHttps =
     fail_if (dc_tls_insecure_skip_verify d \<and> dc_tls_ca_file d \<noteq> None)
       ''auth.directory.tls_ca_file and auth.directory.tls_insecure_skip_verify are mutually exclusive''"

definition or_empty :: "string option \<Rightarrow> string" where
  "or_empty v = (case v of None \<Rightarrow> [] | Some s \<Rightarrow> s)"

definition validate_directory_config :: "config_lib \<Rightarrow> directory_config \<Rightarrow> string option \<Rightarrow> (unit, config_error) result" where
  "validate_directory_config lib d config_dir =
     res_bind (in_sequence [
       fail_if (directory_timeout_ms d = 0) ''auth.directory.timeout_ms must be greater than zero'',
       fail_if (directory_max_concurrent_calls d = 0) ''auth.directory.max_concurrent_calls must be greater than zero'',
       fail_if (directory_memory_limit_bytes d = 0) ''auth.directory.memory_limit_bytes must be greater than zero'']) (\<lambda>_.
     if \<not> dc_enabled d then Ok ()
     else
       res_bind (in_sequence [
         require_directory_field ''auth.directory.component_path'' (dc_component_path d),
         require_directory_field ''auth.directory.component_sha256'' (dc_component_sha256 d),
         require_directory_field ''auth.directory.base_origin'' (dc_base_origin d),
         require_directory_field ''auth.directory.api_token_file'' (dc_api_token_file d)]) (\<lambda>_.
       res_bind (in_sequence [resolve_component_path d config_dir, resolve_api_token_file d config_dir, resolve_tls_ca_file d config_dir]) (\<lambda>_.
       res_bind (validate_component_sha256 (or_empty (dc_component_sha256 d))) (\<lambda>_.
       res_bind (validate_base_origin lib (or_empty (dc_base_origin d))) (\<lambda>scheme.
         validate_directory_tls_config d scheme)))))"

subsection \<open>The authentication section\<close>

fun validate_signing_keys :: "config_lib \<Rightarrow> nat \<Rightarrow> string list \<Rightarrow> (unit, config_error) result" where
  "validate_signing_keys lib idx [] = Ok ()"
| "validate_signing_keys lib idx (key # keys) =
     (case cl_unbase64 lib key of
        Inl e \<Rightarrow> Err (ConfigInvalid ([Lit ''auth.token_signing_keys['', DispNum idx, Lit ''] is not base64: ''] @ e))
      | Inr _ \<Rightarrow> validate_signing_keys lib (Suc idx) keys)"

definition validate_session_key :: "config_lib \<Rightarrow> string \<Rightarrow> (unit, config_error) result" where
  "validate_session_key lib text =
     (case cl_unbase64 lib text of
        Inl e \<Rightarrow> Err (ConfigInvalid (Lit ''auth.session_encryption_key is not base64: '' # e))
      | Inr key \<Rightarrow>
          if length key \<noteq> 32 then Err (ConfigInvalid [Lit ''auth.session_encryption_key must decode to 32 bytes, got '', DispNum (length key)])
          else Ok ())"

fun validate_policy_sets :: "config_lib \<Rightarrow> nat \<Rightarrow> string set \<Rightarrow> config_policy_set list \<Rightarrow> (unit, config_error) result" where
  "validate_policy_sets lib idx policy_ids [] = Ok ()"
| "validate_policy_sets lib idx policy_ids (p # ps) =
     (let bad = (\<lambda>m. Err (ConfigInvalid ([Lit ''auth.policy_sets['', DispNum idx] @ m))) in
      if blank (cps_id p) then bad [Lit ''].id must not be empty'']
      else if cps_id p \<noteq> trim (cps_id p) then bad [Lit ''].id must not have surrounding whitespace'']
      else if cps_id p \<in> policy_ids then bad [Lit ''].id '', Dbg (cps_id p), Lit '' is duplicated'']
      else if blank (cps_name p) then bad [Lit ''].name must not be empty'']
      else if blank (cps_cedar_text p) then bad [Lit ''].cedar_text must not be empty'']
      else
        (case cl_policy_text lib (cps_cedar_text p) of
           Inl e \<Rightarrow> bad (Lit ''].cedar_text is invalid: '' # e)
         | Inr _ \<Rightarrow> validate_policy_sets lib (Suc idx) (insert (cps_id p) policy_ids) ps))"

definition validate_auth_config :: "config_lib \<Rightarrow> auth_section \<Rightarrow> string option \<Rightarrow> (unit, config_error) result" where
  "validate_auth_config lib au config_dir =
     in_sequence [
       fail_if (blank (cfg_issuer_url au) \<or> blank (cfg_client_id au) \<or> blank (cfg_client_secret au) \<or> blank (cfg_token_endpoint_url au) \<or> blank (cfg_redirect_uri au))
         ''auth.issuer_url, auth.client_id, auth.client_secret, auth.token_endpoint_url, and auth.redirect_uri are required when auth is set'',
       fail_if (list_ex blank (cfg_issuer_internal_urls au)) ''auth.issuer_internal_urls must not contain empty entries'',
       fail_if (list_ex blank (cfg_jwks_urls au)) ''auth.jwks_urls must not contain empty entries'',
       fail_if (case cfg_logout_url au of None \<Rightarrow> False | Some u \<Rightarrow> blank u) ''auth.logout_url must not be empty when set'',
       fail_if (cfg_jwks_refresh_seconds au = 0) ''auth.jwks_refresh_seconds must be greater than zero'',
       fail_if (blank (cfg_jwks_cache_s3_key au) \<or> starts_with ''/'' (cfg_jwks_cache_s3_key au)) ''auth.jwks_cache_s3_key must be a non-empty relative S3 key'',
       fail_if (cfg_jwks_max_stale_seconds au = 0) ''auth.jwks_max_stale_seconds must be greater than zero'',
       fail_if (cfg_token_signing_keys au = []) ''auth.token_signing_keys must contain at least one base64-encoded key'',
       validate_signing_keys lib 0 (cfg_token_signing_keys au),
       validate_session_key lib (cfg_session_encryption_key au),
       fail_if (blank (cfg_group_claim au)) ''auth.group_claim must not be empty'',
       (case provider_id_new (cfg_provider_name au) of Inl e \<Rightarrow> Err (ConfigInvalid (Lit ''auth.provider_name is invalid: '' # error_display e)) | Inr _ \<Rightarrow> Ok ()),
       validate_policy_sets lib 0 {} (cfg_policy_sets au),
       fail_if (blank (cfg_login_scopes au)) ''auth.login_scopes must not be empty'',
       (case cfg_directory au of None \<Rightarrow> Ok () | Some d \<Rightarrow> validate_directory_config lib d config_dir)]"

subsection \<open>The file\<close>

definition validate_with_config_dir :: "config_lib \<Rightarrow> config \<Rightarrow> string option \<Rightarrow> (unit, config_error) result" where
  "validate_with_config_dir lib cf config_dir =
     in_sequence [
       fail_if (sr_enabled (sg_redirect (cf_s3 cf)) \<and> blank (sr_public_endpoint (sg_redirect (cf_s3 cf))))
         ''storage.s3.redirect.public_endpoint is required when redirect is enabled'',
       (case sv_tls (cf_server cf) of None \<Rightarrow> Ok () | Some tls \<Rightarrow>
          fail_if (blank (st_cert_path tls) \<or> blank (st_key_path tls)) ''server.tls.cert_path and server.tls.key_path are required when server.tls is set''),
       fail_if (listeners_conflict (sv_listen (cf_server cf)) (rf_listen (cf_raft cf))) ''server.listen and raft.listen must use different bind addresses'',
       (case rf_tls (cf_raft cf) of None \<Rightarrow> Ok () | Some tls \<Rightarrow>
          fail_if (blank (rt_cert_path tls) \<or> blank (rt_key_path tls) \<or> blank (rt_server_ca_path tls) \<or> blank (rt_client_ca_path tls))
            ''raft.tls.cert_path, raft.tls.key_path, raft.tls.server_ca_path, and raft.tls.client_ca_path are required when raft.tls is set''),
       (let k = rf_kubernetes (cf_raft cf) in
        if rk_enabled k then
          in_sequence [
            fail_if (blank (rk_namespace k) \<or> blank (rk_statefulset_name k))
              ''raft.kubernetes.namespace and raft.kubernetes.statefulset_name are required when raft.kubernetes.enabled is true'',
            fail_if (rk_reconcile_seconds k = 0) ''raft.kubernetes.reconcile_seconds must be greater than zero'']
        else Ok ()),
       (case cf_auth cf of None \<Rightarrow> Ok () | Some au \<Rightarrow> validate_auth_config lib au config_dir)]"


section \<open>What accepted values are\<close>

lemma fail_if_Ok [simp]: "fail_if bad text = Ok u \<longleftrightarrow> \<not> bad"
  by (simp add: fail_if_def)

lemma validate_signing_keys_Ok: "validate_signing_keys lib idx keys = Ok u \<longleftrightarrow> list_all (\<lambda>k. is_ok (cl_unbase64 lib k)) keys"
  by (induction lib idx keys rule: validate_signing_keys.induct) (auto simp: is_ok_def split: sum.splits)

definition policy_set_ok :: "config_lib \<Rightarrow> config_policy_set \<Rightarrow> bool" where
  "policy_set_ok lib p \<longleftrightarrow>
     cps_id p = trim (cps_id p) \<and> cps_id p \<noteq> [] \<and> \<not> blank (cps_name p) \<and> \<not> blank (cps_cedar_text p) \<and> is_ok (cl_policy_text lib (cps_cedar_text p))"

lemma validate_policy_sets_Ok:
  "validate_policy_sets lib idx ids ps = Ok u \<longleftrightarrow>
    list_all (policy_set_ok lib) ps \<and> distinct (map cps_id ps) \<and> set (map cps_id ps) \<inter> ids = {}"
  by (induction lib idx ids ps rule: validate_policy_sets.induct)
    (auto simp: policy_set_ok_def blank_def is_ok_def Let_def split: sum.splits)

lemma last_split_char: "c \<notin> set b \<Longrightarrow> last (split_char c (a @ c # b)) = b"
proof (induction a)
  case Nil
  then show ?case by (simp add: split_char_no_sep)
next
  case (Cons x a)
  obtain p ps where "split_char c (a @ c # b) = p # ps" by (cases "split_char c (a @ c # b)") auto
  moreover have "ps \<noteq> []"
  proof
    assume "ps = []"
    with calculation join_split_char [of c "a @ c # b"] have "p = a @ c # b" by simp
    moreover have "c \<notin> set p" using \<open>split_char c (a @ c # b) = p # ps\<close> split_char_parts [of p c "a @ c # b"] by simp
    ultimately show False by simp
  qed
  ultimately show ?case using Cons by auto
qed

text \<open>The pod with ordinal \<open>i\<close> of a StatefulSet is node \<open>i + 1\<close>.\<close>

lemma resolve_node_id_pod:
  assumes "i < 2 ^ 64"
  shows "resolve_node_id (Some (name @ ''-'' @ show_nat i)) = Ok (of_nat i + 1)"
proof -
  have "CHR ''-'' \<notin> set (show_nat i)" using show_nat_digits by (fastforce simp: is_ascii_digit_def byte_def)
  then have "last (split_char (CHR ''-'') (name @ ''-'' @ show_nat i)) = show_nat i" by (simp add: last_split_char)
  moreover have "parse_u64 (show_nat i) = Some (of_nat i)"
    using parse_show_u64 [of "of_nat i"] assms by (simp add: show_u64_def unat_of_nat)
  moreover have "contains_char (CHR ''-'') (name @ ''-'' @ show_nat i)" by (simp add: contains_char_def)
  ultimately show ?thesis by (simp add: resolve_node_id_def Let_def ok_or_def)
qed

section \<open>Printed IPv4 socket addresses are read back\<close>

lemma read_nat_digits: "list_all is_ascii_digit ds \<Longrightarrow> foldl (\<lambda>v c. v * 10 + digit_of c) n ds = foldl (\<lambda>v c. v * 10 + (byte c - 48)) n ds"
  by (induction ds arbitrary: n) (simp_all add: digit_of_def)

lemma show_nat_length: "n < 10 ^ k \<Longrightarrow> 0 < k \<Longrightarrow> length (show_nat n) \<le> k"
proof (induction n arbitrary: k rule: show_nat.induct)
  case (1 n)
  show ?case
  proof (cases "n < 10")
    case True
    with 1(3) show ?thesis by (subst show_nat.simps) simp
  next
    case False
    with 1(2) obtain m where k: "k = Suc m" "0 < m" by (cases k; cases "k - 1") auto
    with 1(2) have "n div 10 < 10 ^ m" by auto
    with 1(1) False k show ?thesis by (subst show_nat.simps) simp
  qed
qed

lemma hd_show_nat: "hd (show_nat n) = CHR ''0'' \<longleftrightarrow> n = 0"
proof (induction n rule: show_nat.induct)
  case (1 n)
  show ?case
  proof (cases "n < 10")
    case True
    have "n = 0" if "char_of (48 + n) = CHR ''0''"
    proof -
      have "byte (char_of (48 + n)) = byte (CHR ''0'')" by (simp only: that)
      with True show ?thesis by (simp add: byte_char_of) (simp add: byte_def)
    qed
    moreover have "char_of (48 + 0 :: nat) = CHR ''0''" by code_simp
    ultimately have "char_of (48 + n) = CHR ''0'' \<longleftrightarrow> n = 0" by metis
    with True show ?thesis by (subst show_nat.simps) simp
  next
    case False
    with 1 show ?thesis by (subst show_nat.simps) (simp add: hd_append)
  qed
qed

lemma read_number_show:
  assumes "n < bound" and "rest = [] \<or> \<not> is_ascii_digit (hd rest)" and "case m of None \<Rightarrow> True | Some k \<Rightarrow> 0 < k \<and> n < 10 ^ k"
  shows "read_number 10 m z bound (show_nat n @ rest) = Some (n, rest)"
proof -
  have digits: "list_all is_ascii_digit (show_nat n)" by (simp add: list_all_iff show_nat_digits)
  have radix: "is_radix_digit 10 = is_ascii_digit" by (simp add: is_radix_digit_def fun_eq_iff)
  have taken: "takeWhile is_ascii_digit (show_nat n @ rest) = show_nat n" "dropWhile is_ascii_digit (show_nat n @ rest) = rest"
    using digits assms(2) by (cases rest; simp add: list_all_iff takeWhile_append dropWhile_append)+
  have total: "foldl (\<lambda>v c. v * 10 + digit_of c) 0 (show_nat n) = n"
    using read_nat_digits [OF digits, of 0] read_show_nat [of n] by (simp add: read_nat_def)
  have "length (show_nat 0) = 1" by (simp add: show_nat.simps)
  then have zero: "\<not> (hd (show_nat n) = CHR ''0'' \<and> length (show_nat n) > 1)" using hd_show_nat [of n] by auto
  have len: "\<not> (case m of None \<Rightarrow> False | Some k \<Rightarrow> length (show_nat n) > k)"
    using assms(3) show_nat_length by (auto split: option.splits simp: not_less)
  show ?thesis using assms(1) len zero by (simp add: read_number_def Let_def radix taken total)
qed

lemma read_octet_show: "a < 256 \<Longrightarrow> rest = [] \<or> \<not> is_ascii_digit (hd rest) \<Longrightarrow> read_octet (show_nat a @ rest) = Some (a, rest)"
  unfolding read_octet_def by (rule read_number_show) auto

lemma read_next_octet_show:
  "a < 256 \<Longrightarrow> rest = [] \<or> \<not> is_ascii_digit (hd rest) \<Longrightarrow> read_next_octet (CHR ''.'' # show_nat a @ rest) = Some (a, rest)"
  by (simp add: read_next_octet_def read_given_char_def read_octet_show)

lemma not_digits [simp]: "\<not> is_ascii_digit (CHR ''.'')" "\<not> is_ascii_digit (CHR '':'')"
  by (simp_all add: is_ascii_digit_def byte_def)

definition show_socket_v4 :: "nat \<Rightarrow> nat \<Rightarrow> nat \<Rightarrow> nat \<Rightarrow> nat \<Rightarrow> string" where
  "show_socket_v4 a b c d port = show_nat a @ ''.'' @ show_nat b @ ''.'' @ show_nat c @ ''.'' @ show_nat d @ '':'' @ show_nat port"

lemma parse_show_socket_v4:
  assumes "a < 256" "b < 256" "c < 256" "d < 256" "port < 65536"
  shows "parse_socket_addr (show_socket_v4 a b c d port) = Some (V4 [a, b, c, d], port)"
proof -
  have "read_ipv4_addr (show_socket_v4 a b c d port) = Some ([a, b, c, d], CHR '':'' # show_nat port)"
    using assms by (simp add: read_ipv4_addr_def show_socket_v4_def read_octet_show read_next_octet_show)
  moreover have "read_port (CHR '':'' # show_nat port) = Some (port, [])"
    using read_number_show [of port 65536 "[]" None True] assms by (simp add: read_port_def read_given_char_def)
  ultimately show ?thesis by (simp add: parse_socket_addr_def read_socket_addr_def)
qed

end
