(* ===== verification/Directory.thy ===== *)
theory Directory
  imports Configuration Manifest_Routes
begin

text \<open>
  The directory connector (\<^verbatim>\<open>directory\<close>): what the host lets a connector send over HTTP, the messages of its errors, the
  deadline of a call, and the checks of a configured connector at the start of the server.  The \<^verbatim>\<open>http\<close> crate, the
  WebAssembly runtime, PEM, SHA-256 and the file system are parameters.  A duration is its number of nanoseconds; a
  header map is the list of its entries, with names in lower case.
\<close>

section \<open>Error messages\<close>

definition ERROR_MESSAGE_LIMIT_BYTES :: nat where "ERROR_MESSAGE_LIMIT_BYTES = 512"

text \<open>\<^verbatim>\<open>char::is_control\<close>: U+0000 to U+001F, and U+007F to U+009F, of which all but the first take two bytes.\<close>

fun blank_controls :: "string \<Rightarrow> string" where
  "blank_controls [] = []"
| "blank_controls (c # s) =
     (if byte c < 32 \<or> byte c = 127 then CHR '' '' # blank_controls s
      else
        case s of
          d # s' \<Rightarrow> if byte c = 194 \<and> 128 \<le> byte d \<and> byte d < 160 then CHR '' '' # blank_controls s' else c # blank_controls s
        | [] \<Rightarrow> [c])"

definition contains_sensitive_context :: "string \<Rightarrow> bool" where
  "contains_sensitive_context message \<longleftrightarrow>
     list_ex (\<lambda>needle. contains_str needle (map to_ascii_lower message))
       [''authorization:'', ''cookie:'', ''set-cookie:'', ''request body:'', ''response body:'', ''debug dump'']"

fun redact_words :: "string list \<Rightarrow> string list" where
  "redact_words [] = []"
| "redact_words [w] = [w]"
| "redact_words (w # v # ws) = (if eq_ignore_ascii_case w ''bearer'' then w # ''[redacted]'' # redact_words ws else w # redact_words (v # ws))"

definition redact_bearer_tokens :: "string \<Rightarrow> string" where
  "redact_bearer_tokens message = join '' '' (redact_words (split_whitespace message))"

definition redact_query :: "string \<Rightarrow> string" where
  "redact_query word =
     (if (starts_with ''https://'' word \<or> starts_with ''http://'' word) \<and> contains_char (CHR ''?'') word
      then (case split_once (CHR ''?'') word of Some (base, _) \<Rightarrow> base | None \<Rightarrow> word) @ ''?[redacted]''
      else word)"

definition redact_url_queries :: "string \<Rightarrow> string" where
  "redact_url_queries message = join '' '' (map redact_query (split_whitespace message))"

definition is_char_boundary :: "string \<Rightarrow> nat \<Rightarrow> bool" where
  "is_char_boundary s i \<longleftrightarrow> i = 0 \<or> i = length s \<or> i < length s \<and> \<not> is_cont (s ! i)"

fun boundary_below :: "string \<Rightarrow> nat \<Rightarrow> nat" where
  "boundary_below s 0 = 0"
| "boundary_below s (Suc i) = (if is_char_boundary s (Suc i) then Suc i else boundary_below s i)"

definition truncate_at_utf8_boundary :: "string \<Rightarrow> nat \<Rightarrow> string" where
  "truncate_at_utf8_boundary s limit = (if length s \<le> limit then s else take (boundary_below s limit) s)"

definition sanitize_connector_error_message :: "string \<Rightarrow> string" where
  "sanitize_connector_error_message raw =
     (let normalized = blank_controls (trim raw);
          sanitized = (if contains_sensitive_context normalized then ''connector error contained redacted sensitive context''
            else redact_url_queries (redact_bearer_tokens normalized));
          cut = truncate_at_utf8_boundary sanitized ERROR_MESSAGE_LIMIT_BYTES in
      if cut = [] then ''connector error'' else cut)"

section \<open>What a connector may send\<close>

definition DIRECTORY_HTTP_HEADER_LIMIT_BYTES :: nat where "DIRECTORY_HTTP_HEADER_LIMIT_BYTES = 16 * 1024"
definition DIRECTORY_HTTP_BODY_LIMIT_BYTES :: nat where "DIRECTORY_HTTP_BODY_LIMIT_BYTES = 1024 * 1024"
definition DIRECTORY_HTTP_BODY_CHUNK_LIMIT_BYTES :: nat where "DIRECTORY_HTTP_BODY_CHUNK_LIMIT_BYTES = 64 * 1024"

text \<open>
  Of the \<^verbatim>\<open>http\<close> crate: the parser of a URI, the check of \<^verbatim>\<open>HeaderValue::from_str\<close>, \<^verbatim>\<open>HeaderValue::to_str\<close>, and the
  equality of authorities.  \<open>hl_forbidden\<close> are the header names that the WebAssembly runtime keeps to itself.
\<close>

record http_lib =
  hl_uri :: "string \<Rightarrow> (uri, msg) result"
  hl_value_ok :: "string \<Rightarrow> bool"
  hl_to_str :: "string \<Rightarrow> string option"
  hl_same_authority :: "string \<Rightarrow> string \<Rightarrow> bool"
  hl_forbidden :: "string list"

type_synonym header_map = "(string \<times> string) list"

definition hm_get_all :: "header_map \<Rightarrow> string \<Rightarrow> string list" where
  "hm_get_all hs name = map snd (filter (\<lambda>h. fst h = name) hs)"

definition hm_insert :: "string \<Rightarrow> string \<Rightarrow> header_map \<Rightarrow> header_map" where
  "hm_insert name v hs = filter (\<lambda>h. fst h \<noteq> name) hs @ [(name, v)]"

datatype http_policy_error =
    EgressNotConfigured
  | InvalidBaseOrigin
  | InvalidAuthorizationHeader
  | OriginMismatch
  | TlsMismatch
  | ForbiddenHeader string
  | InvalidHostHeader
  | InvalidContentLength
  | HeadersTooLarge nat nat
  | BodyTooLarge nat nat
  | TimeoutBudgetExpired

record allowed_origin =
  ao_scheme :: string
  ao_authority :: string

record http_policy =
  hp_allowed_origin :: "allowed_origin option"
  hp_authorization :: "string option"
  hp_header_limit_bytes :: nat
  hp_body_limit_bytes :: nat

definition header_bytes :: "header_map \<Rightarrow> nat" where
  "header_bytes hs = sum_list (map (\<lambda>(name, v). length name + length v) hs)"

definition projected_authorized_header_bytes :: "nat \<Rightarrow> string \<Rightarrow> nat" where
  "projected_authorized_header_bytes existing authorization = existing + length ''authorization'' + length authorization"

definition has_whitespace :: "string \<Rightarrow> bool" where
  "has_whitespace s \<longleftrightarrow> list_ex (\<lambda>w. contains_str w s) white_space"

definition for_connector_origin :: "http_lib \<Rightarrow> string \<Rightarrow> string \<Rightarrow> (http_policy, http_policy_error) result" where
  "for_connector_origin lib base_origin api_token =
     (if base_origin \<noteq> trim base_origin \<or> contains_char (CHR ''#'') base_origin then Err InvalidBaseOrigin
      else
        res_bind (ok_or (after_str ''://'' base_origin) InvalidBaseOrigin) (\<lambda>authority_text.
        if authority_text = [] \<or> contains_char (CHR ''/'') authority_text \<or> contains_char (CHR ''?'') authority_text then Err InvalidBaseOrigin
        else
          res_bind (case hl_uri lib base_origin of Inl _ \<Rightarrow> Err InvalidBaseOrigin | Inr u \<Rightarrow> Ok u) (\<lambda>u.
          res_bind (ok_or (uri_scheme u) InvalidBaseOrigin) (\<lambda>scheme.
          res_bind (ok_or (uri_authority u) InvalidBaseOrigin) (\<lambda>authority.
          if scheme \<notin> {''http'', ''https''} \<or> uri_path_and_query u \<notin> {None, Some ''/''} \<or> contains_char (CHR ''@'') authority then Err InvalidBaseOrigin
          else
            let authorization = ''Bearer '' @ api_token; projected = projected_authorized_header_bytes 0 authorization in
            if \<not> hl_value_ok lib authorization then Err InvalidAuthorizationHeader
            else if authorization = [] \<or> api_token = [] \<or> has_whitespace api_token then Err InvalidAuthorizationHeader
            else if projected > DIRECTORY_HTTP_HEADER_LIMIT_BYTES then Err (HeadersTooLarge projected DIRECTORY_HTTP_HEADER_LIMIT_BYTES)
            else
              Ok \<lparr>hp_allowed_origin = Some \<lparr>ao_scheme = scheme, ao_authority = authority\<rparr>, hp_authorization = Some authorization,
                 hp_header_limit_bytes = DIRECTORY_HTTP_HEADER_LIMIT_BYTES, hp_body_limit_bytes = DIRECTORY_HTTP_BODY_LIMIT_BYTES\<rparr>)))))"

definition is_forbidden_guest_header :: "http_lib \<Rightarrow> string \<Rightarrow> bool" where
  "is_forbidden_guest_header lib name \<longleftrightarrow>
     name \<in> set (hl_forbidden lib) \<or> name = ''authorization'' \<or> name = ''cookie'' \<or> name = ''forwarded'' \<or>
     starts_with ''proxy-'' name \<or> starts_with ''x-forwarded-'' name"

record outgoing_config =
  og_use_tls :: bool
  og_connect_timeout :: nat
  og_first_byte_timeout :: nat
  og_between_bytes_timeout :: nat

definition validate_origin :: "http_lib \<Rightarrow> http_policy \<Rightarrow> uri \<Rightarrow> outgoing_config \<Rightarrow> header_map \<Rightarrow> (unit, http_policy_error) result" where
  "validate_origin lib policy u cfg headers =
     res_bind (ok_or (hp_allowed_origin policy) EgressNotConfigured) (\<lambda>allowed.
     if uri_scheme u \<noteq> Some (ao_scheme allowed) \<or> (case uri_authority u of None \<Rightarrow> True | Some a \<Rightarrow> \<not> hl_same_authority lib a (ao_authority allowed))
     then Err OriginMismatch
     else if og_use_tls cfg \<noteq> (ao_scheme allowed = ''https'') then Err TlsMismatch
     else
       case hm_get_all headers ''host'' of
         [] \<Rightarrow> Ok ()
       | host # _ \<Rightarrow>
           res_bind (ok_or (hl_to_str lib host) InvalidHostHeader) (\<lambda>text.
             if eq_ignore_ascii_case text (ao_authority allowed) then Ok () else Err OriginMismatch))"

fun check_header_names :: "http_lib \<Rightarrow> header_map \<Rightarrow> (unit, http_policy_error) result" where
  "check_header_names lib [] = Ok ()"
| "check_header_names lib ((name, _) # hs) =
     (if name \<noteq> ''host'' \<and> is_forbidden_guest_header lib name then Err (ForbiddenHeader name) else check_header_names lib hs)"

definition validate_headers :: "http_lib \<Rightarrow> http_policy \<Rightarrow> header_map \<Rightarrow> (nat, http_policy_error) result" where
  "validate_headers lib policy headers =
     res_bind (check_header_names lib headers) (\<lambda>_.
       if header_bytes headers > hp_header_limit_bytes policy then Err (HeadersTooLarge (header_bytes headers) (hp_header_limit_bytes policy))
       else Ok (header_bytes headers))"

definition validate_content_length :: "http_lib \<Rightarrow> http_policy \<Rightarrow> header_map \<Rightarrow> (unit, http_policy_error) result" where
  "validate_content_length lib policy headers =
     (case hm_get_all headers ''content-length'' of
        [] \<Rightarrow> Ok ()
      | [length_value] \<Rightarrow>
          res_bind (ok_or (Option.bind (hl_to_str lib length_value) (parse_unsigned (2 ^ 64))) InvalidContentLength) (\<lambda>n.
            if n > hp_body_limit_bytes policy then Err (BodyTooLarge n (hp_body_limit_bytes policy)) else Ok ())
      | _ \<Rightarrow> Err InvalidContentLength)"

text \<open>A request of the connector, and what the host makes of it: the body is cut off at a limit.\<close>

record guest_request =
  gr_method :: string
  gr_uri :: uri
  gr_headers :: header_map
  gr_body_limit :: "nat option"

definition cap_timeout :: "nat \<Rightarrow> nat \<Rightarrow> nat" where
  "cap_timeout t cap = (if t > cap then cap else t)"

record http_hooks =
  hh_policy :: http_policy
  hh_call_timeout :: nat

definition prepare_request ::
  "http_lib \<Rightarrow> http_hooks \<Rightarrow> nat \<Rightarrow> guest_request \<Rightarrow> outgoing_config \<Rightarrow> (guest_request \<times> outgoing_config, http_policy_error) result" where
  "prepare_request lib hooks elapsed request cfg =
     (let policy = hh_policy hooks; remaining = hh_call_timeout hooks - elapsed in
      if hh_call_timeout hooks < elapsed \<or> remaining = 0 then Err TimeoutBudgetExpired
      else
        res_bind (validate_origin lib policy (gr_uri request) cfg (gr_headers request)) (\<lambda>_.
        res_bind (validate_content_length lib policy (gr_headers request)) (\<lambda>_.
        res_bind (validate_headers lib policy (gr_headers request)) (\<lambda>bytes.
        res_bind (ok_or (hp_authorization policy) EgressNotConfigured) (\<lambda>authorization.
          let projected = projected_authorized_header_bytes bytes authorization in
          if projected > hp_header_limit_bytes policy then Err (HeadersTooLarge projected (hp_header_limit_bytes policy))
          else
            Ok (request\<lparr>gr_headers := hm_insert ''authorization'' authorization (gr_headers request), gr_body_limit := Some (hp_body_limit_bytes policy)\<rparr>,
                \<lparr>og_use_tls = og_use_tls cfg, og_connect_timeout = cap_timeout (og_connect_timeout cfg) remaining,
                 og_first_byte_timeout = cap_timeout (og_first_byte_timeout cfg) remaining,
                 og_between_bytes_timeout = cap_timeout (og_between_bytes_timeout cfg) remaining\<rparr>))))))"

datatype wasi_error_code = ConnectionTimeout | HttpProtocolError

fun directory_policy_error_code :: "http_policy_error \<Rightarrow> wasi_error_code" where
  "directory_policy_error_code TimeoutBudgetExpired = ConnectionTimeout"
| "directory_policy_error_code _ = HttpProtocolError"

definition hooks_send_request ::
  "http_lib \<Rightarrow> (guest_request \<Rightarrow> outgoing_config \<Rightarrow> 'r) \<Rightarrow> http_hooks \<Rightarrow> nat \<Rightarrow> guest_request \<Rightarrow> outgoing_config \<Rightarrow> ('r, wasi_error_code) result" where
  "hooks_send_request lib send hooks elapsed request cfg =
     (case prepare_request lib hooks elapsed request cfg of
        Inl e \<Rightarrow> Err (directory_policy_error_code e)
      | Inr (request', cfg') \<Rightarrow> Ok (send request' cfg'))"

definition outgoing_body_chunk_size :: "http_hooks \<Rightarrow> nat" where
  "outgoing_body_chunk_size hooks = min DIRECTORY_HTTP_BODY_CHUNK_LIMIT_BYTES (hp_body_limit_bytes (hh_policy hooks))"

section \<open>Calls of the connector\<close>

record connector_info =
  ci_name :: string
  ci_version :: string
  ci_provider :: string
  ci_abi_version :: string

datatype directory_error =
    InvalidQuery string
  | UnsupportedProvider string
  | DirNotFound string
  | UpstreamUnavailable string
  | UpstreamUnauthorized string
  | RateLimited string
  | DirTimeout string
  | InvalidResponse string
  | DirInternal string

fun directory_error_display :: "directory_error \<Rightarrow> string" where
  "directory_error_display (InvalidQuery m) = ''invalid query: '' @ m"
| "directory_error_display (UnsupportedProvider m) = ''unsupported provider: '' @ m"
| "directory_error_display (DirNotFound m) = ''not found: '' @ m"
| "directory_error_display (UpstreamUnavailable m) = ''upstream unavailable: '' @ m"
| "directory_error_display (UpstreamUnauthorized m) = ''upstream unauthorized: '' @ m"
| "directory_error_display (RateLimited m) = ''rate limited: '' @ m"
| "directory_error_display (DirTimeout m) = ''timeout: '' @ m"
| "directory_error_display (InvalidResponse m) = ''invalid response: '' @ m"
| "directory_error_display (DirInternal m) = ''internal connector error: '' @ m"

fun from_binding_error :: "directory_error \<Rightarrow> directory_error" where
  "from_binding_error (InvalidQuery m) = InvalidQuery (sanitize_connector_error_message m)"
| "from_binding_error (UnsupportedProvider m) = UnsupportedProvider (sanitize_connector_error_message m)"
| "from_binding_error (DirNotFound m) = DirNotFound (sanitize_connector_error_message m)"
| "from_binding_error (UpstreamUnavailable m) = UpstreamUnavailable (sanitize_connector_error_message m)"
| "from_binding_error (UpstreamUnauthorized m) = UpstreamUnauthorized (sanitize_connector_error_message m)"
| "from_binding_error (RateLimited m) = RateLimited (sanitize_connector_error_message m)"
| "from_binding_error (DirTimeout m) = DirTimeout (sanitize_connector_error_message m)"
| "from_binding_error (InvalidResponse m) = InvalidResponse (sanitize_connector_error_message m)"
| "from_binding_error (DirInternal m) = DirInternal (sanitize_connector_error_message m)"

definition host_internal :: "string \<Rightarrow> directory_error" where
  "host_internal e = DirInternal (sanitize_connector_error_message e)"

definition host_invalid_response :: "string \<Rightarrow> directory_error" where
  "host_invalid_response e = InvalidResponse (sanitize_connector_error_message e)"

record wasm_limits =
  wl_connector_info_timeout :: nat
  wl_memory_limit_bytes :: u64
  wl_max_concurrent_calls :: u64

definition wasm_limits_default :: wasm_limits where
  "wasm_limits_default = \<lparr>wl_connector_info_timeout = 2000 * 1000000, wl_memory_limit_bytes = 64 * 1024 * 1024, wl_max_concurrent_calls = 8\<rparr>"

datatype slot = SlotTimedOut | SlotClosed string | SlotAfter nat

text \<open>
  The WebAssembly runtime: the engine, the compilation of a component, linking, and what happens in one call: the
  wait for a slot within a deadline, the instantiation under hooks and a memory limit, and the call, which
  is \<^const>\<open>None\<close> when it is cut off at its deadline.
\<close>

record 'c wasm_runtime =
  wr_engine :: "(unit, string) result"
  wr_component :: "string \<Rightarrow> ('c, string) result"
  wr_link_wasi :: "(unit, string) result"
  wr_link_http :: "(unit, string) result"
  wr_slot :: "nat \<Rightarrow> slot"
  wr_instantiate :: "'c \<Rightarrow> u64 \<Rightarrow> http_hooks \<Rightarrow> (unit, string) result"
  wr_connector_info :: "'c \<Rightarrow> u64 \<Rightarrow> http_hooks \<Rightarrow> (connector_info, string) result option"

record 'c wasm_connector =
  wc_component :: 'c
  wc_limits :: wasm_limits
  wc_http_policy :: http_policy

definition map_err :: "('e \<Rightarrow> 'f) \<Rightarrow> ('a, 'e) result \<Rightarrow> ('a, 'f) result" where
  "map_err f r = (case r of Inl e \<Rightarrow> Err (f e) | Inr a \<Rightarrow> Ok a)"

lemma map_err_simps [simp]: "map_err f (Err e) = Err (f e)" "map_err f (Ok a) = Ok a" "map_err f r = Ok b \<longleftrightarrow> r = Ok b"
  by (simp_all add: map_err_def split: sum.splits)

definition from_binary_with_http_policy ::
  "'c wasm_runtime \<Rightarrow> string \<Rightarrow> wasm_limits \<Rightarrow> http_policy \<Rightarrow> ('c wasm_connector, directory_error) result" where
  "from_binary_with_http_policy rt bytes limits policy =
     (if wl_memory_limit_bytes limits = 0 then Err (InvalidQuery ''memory_limit_bytes must be positive'')
      else if wl_max_concurrent_calls limits = 0 then Err (InvalidQuery ''max_concurrent_calls must be positive'')
      else
        res_bind (map_err host_internal (wr_engine rt)) (\<lambda>_.
        res_bind (map_err host_invalid_response (wr_component rt bytes)) (\<lambda>component.
        res_bind (map_err host_internal (wr_link_wasi rt)) (\<lambda>_.
        res_bind (map_err host_internal (wr_link_http rt)) (\<lambda>_.
          Ok \<lparr>wc_component = component, wc_limits = limits, wc_http_policy = policy\<rparr>)))))"

definition with_deadline ::
  "'c wasm_runtime \<Rightarrow> nat \<Rightarrow> (nat \<Rightarrow> ('a, directory_error) result option) \<Rightarrow> ('a, directory_error) result" where
  "with_deadline rt timeout operation =
     (case wr_slot rt timeout of
        SlotTimedOut \<Rightarrow> Err (DirTimeout ''connector concurrency slot timed out'')
      | SlotClosed e \<Rightarrow> Err (host_internal e)
      | SlotAfter elapsed \<Rightarrow>
          if timeout < elapsed then Err (DirTimeout ''connector call timed out'')
          else (case operation (timeout - elapsed) of None \<Rightarrow> Err (DirTimeout ''connector call timed out'') | Some r \<Rightarrow> r))"

definition do_connector_info :: "'c wasm_runtime \<Rightarrow> 'c wasm_connector \<Rightarrow> nat \<Rightarrow> (connector_info, directory_error) result option" where
  "do_connector_info rt wc call_timeout =
     (let hooks = \<lparr>hh_policy = wc_http_policy wc, hh_call_timeout = call_timeout\<rparr>; mem = wl_memory_limit_bytes (wc_limits wc) in
      case map_err host_invalid_response (wr_instantiate rt (wc_component wc) mem hooks) of
        Inl e \<Rightarrow> Some (Err e)
      | Inr _ \<Rightarrow> map_option (map_err host_internal) (wr_connector_info rt (wc_component wc) mem hooks))"

definition connector_info_call :: "'c wasm_runtime \<Rightarrow> 'c wasm_connector \<Rightarrow> (connector_info, directory_error) result" where
  "connector_info_call rt wc = with_deadline rt (wl_connector_info_timeout (wc_limits wc)) (do_connector_info rt wc)"

section \<open>Start\<close>

datatype startup_error = StartupConfig config_error | StartupInvalid msg

datatype pem_item = PemCertificate | PemPrivateKey | PemOther

record 'c startup_env =
  se_http :: http_lib
  se_runtime :: "'c wasm_runtime"
  se_read :: "string \<Rightarrow> (string, msg) result"
  se_read_to_string :: "string \<Rightarrow> (string, msg) result"
  se_sha256_hex :: "string \<Rightarrow> string"
  se_pem_items :: "string \<Rightarrow> (pem_item, msg) result list"
  se_abi_version :: string

fun http_policy_error_display :: "http_policy_error \<Rightarrow> msg" where
  "http_policy_error_display EgressNotConfigured = [Lit ''directory connector HTTP egress is not configured'']"
| "http_policy_error_display InvalidBaseOrigin = [Lit ''directory connector base origin is invalid'']"
| "http_policy_error_display InvalidAuthorizationHeader = [Lit ''directory connector API token cannot be used as an authorization header'']"
| "http_policy_error_display OriginMismatch = [Lit ''directory connector HTTP request origin is not allowed'']"
| "http_policy_error_display TlsMismatch = [Lit ''directory connector HTTP request TLS mode does not match its origin'']"
| "http_policy_error_display (ForbiddenHeader h) = [Lit ''directory connector HTTP request contains forbidden header '', Disp h]"
| "http_policy_error_display InvalidHostHeader = [Lit ''directory connector HTTP request host header is invalid'']"
| "http_policy_error_display InvalidContentLength = [Lit ''directory connector HTTP request content-length is invalid'']"
| "http_policy_error_display (HeadersTooLarge actual m) =
     [Lit ''directory connector HTTP request headers are too large: '', DispNum actual, Lit '' bytes, max '', DispNum m, Lit '' bytes'']"
| "http_policy_error_display (BodyTooLarge actual m) =
     [Lit ''directory connector HTTP request body is too large: '', DispNum actual, Lit '' bytes, max '', DispNum m, Lit '' bytes'']"
| "http_policy_error_display TimeoutBudgetExpired = [Lit ''directory connector HTTP request exceeded the connector call timeout'']"

definition missing_field :: "string \<Rightarrow> startup_error" where
  "missing_field field = StartupInvalid [Disp field, Lit '' is required when auth.directory.enabled is true'']"

definition required_resolved_path :: "string \<Rightarrow> string option \<Rightarrow> (string, startup_error) result" where
  "required_resolved_path field path = ok_or path (missing_field field)"

record resolved_startup =
  rd_component_path :: string
  rd_component_sha256 :: string
  rd_base_origin :: string
  rd_api_token_file :: string
  rd_tls_ca_file :: "string option"

definition from_directory :: "directory_config \<Rightarrow> string option \<Rightarrow> (resolved_startup, startup_error) result" where
  "from_directory d config_dir =
     res_bind (map_err StartupConfig (resolve_component_path d config_dir)) (\<lambda>cp.
     res_bind (required_resolved_path ''auth.directory.component_path'' cp) (\<lambda>component_path.
     res_bind (map_err StartupConfig (resolve_api_token_file d config_dir)) (\<lambda>tf.
     res_bind (required_resolved_path ''auth.directory.api_token_file'' tf) (\<lambda>api_token_file.
     res_bind (map_err StartupConfig (resolve_tls_ca_file d config_dir)) (\<lambda>tls_ca_file.
     res_bind (ok_or (dc_component_sha256 d) (missing_field ''auth.directory.component_sha256'')) (\<lambda>component_sha256.
     res_bind (ok_or (dc_base_origin d) (missing_field ''auth.directory.base_origin'')) (\<lambda>base_origin.
       Ok \<lparr>rd_component_path = component_path, rd_component_sha256 = component_sha256, rd_base_origin = base_origin,
          rd_api_token_file = api_token_file, rd_tls_ca_file = tls_ca_file\<rparr>)))))))"

definition read_config_file :: "'c startup_env \<Rightarrow> string \<Rightarrow> string \<Rightarrow> string \<Rightarrow> (string, startup_error) result" where
  "read_config_file se field path action =
     map_err (\<lambda>e. StartupInvalid ([Disp field, Lit '' could not '', Disp action, Lit '' at '', Disp path, Lit '': ''] @ e)) (se_read se path)"

definition sha256_digest :: "'c startup_env \<Rightarrow> string \<Rightarrow> string" where
  "sha256_digest se bytes = ''sha256:'' @ se_sha256_hex se bytes"

definition validate_component_digest :: "'c startup_env \<Rightarrow> string \<Rightarrow> string \<Rightarrow> (unit, startup_error) result" where
  "validate_component_digest se bytes expected =
     (let actual = sha256_digest se bytes in
      if actual \<noteq> expected then
        Err (StartupInvalid [Lit ''auth.directory.component_sha256 mismatch for auth.directory.component_path: expected '', Disp expected, Lit '', actual '', Disp actual])
      else Ok ())"

definition strip_one_final_line_ending :: "string \<Rightarrow> string" where
  "strip_one_final_line_ending s =
     (case strip_suffix [CHR 0x0D, CHR 0x0A] s of
        Some r \<Rightarrow> r
      | None \<Rightarrow> (case strip_suffix [CHR 0x0A] s of Some r \<Rightarrow> r | None \<Rightarrow> s))"

definition read_api_token_file :: "'c startup_env \<Rightarrow> string \<Rightarrow> (string, startup_error) result" where
  "read_api_token_file se path =
     (case se_read_to_string se path of
        Inl e \<Rightarrow>
          Err (StartupInvalid ([Lit ''auth.directory.api_token_file could not read token file at '', Disp path, Lit '': ''] @ e @
            [Lit ''. Ensure the file contains the raw Kanidm bearer token only.'']))
      | Inr content \<Rightarrow>
          let token = strip_one_final_line_ending content; lower = map to_ascii_lower token in
          if token = [] then Err (StartupInvalid [Lit ''auth.directory.api_token_file must not be empty''])
          else if starts_with ''bearer '' lower \<or> starts_with ''authorization:'' lower then
            Err (StartupInvalid [Lit ''auth.directory.api_token_file must contain the raw token value, not a Bearer prefix or Authorization header''])
          else if has_whitespace token then
            Err (StartupInvalid [Lit ''auth.directory.api_token_file token value must not contain whitespace except one final LF or CRLF''])
          else Ok token)"

fun count_certificates :: "(pem_item, msg) result list \<Rightarrow> (nat, startup_error) result" where
  "count_certificates [] = Ok 0"
| "count_certificates (Inl e # _) = Err (StartupInvalid (Lit ''auth.directory.tls_ca_file is not a valid PEM CA bundle: '' # e))"
| "count_certificates (Inr PemCertificate # rest) = res_bind (count_certificates rest) (\<lambda>n. Ok (Suc n))"
| "count_certificates (Inr PemPrivateKey # _) = Err (StartupInvalid [Lit ''auth.directory.tls_ca_file must not contain private keys''])"
| "count_certificates (Inr PemOther # _) = Err (StartupInvalid [Lit ''auth.directory.tls_ca_file must contain only CA certificates''])"

definition validate_tls_ca_file :: "'c startup_env \<Rightarrow> string \<Rightarrow> (unit, startup_error) result" where
  "validate_tls_ca_file se path =
     res_bind (read_config_file se ''auth.directory.tls_ca_file'' path ''read configured PEM CA bundle'') (\<lambda>bytes.
     if bytes = [] then Err (StartupInvalid [Lit ''auth.directory.tls_ca_file must not be empty''])
     else
       res_bind (count_certificates (se_pem_items se bytes)) (\<lambda>n.
         if n = 0 then Err (StartupInvalid [Lit ''auth.directory.tls_ca_file must contain at least one CA certificate'']) else Ok ()))"

definition validate_connector_info :: "'c startup_env \<Rightarrow> connector_info \<Rightarrow> (unit, startup_error) result" where
  "validate_connector_info se info =
     (if blank (ci_name info) then Err (StartupInvalid [Lit ''directory connector metadata name must not be empty''])
      else if blank (ci_version info) then Err (StartupInvalid [Lit ''directory connector metadata version must not be empty''])
      else if ci_abi_version info \<noteq> se_abi_version se then
        Err (StartupInvalid [Lit ''directory connector ABI version mismatch: expected '', Disp (se_abi_version se), Lit '', connector reported '', Disp (ci_abi_version info)])
      else
        case provider_id_new (ci_provider info) of
          Inl e \<Rightarrow>
            Err (StartupInvalid ([Lit ''directory connector provider '', Dbg (ci_provider info), Lit '' is not a valid Layerhouse principal provider: ''] @ error_display e))
        | Inr provider \<Rightarrow>
            if provider \<noteq> ci_provider info then
              Err (StartupInvalid [Lit ''directory connector provider '', Dbg (ci_provider info), Lit '' must be canonical with no surrounding whitespace''])
            else Ok ())"

definition startup_limits :: "directory_config \<Rightarrow> wasm_limits" where
  "startup_limits d =
     \<lparr>wl_connector_info_timeout = unat (directory_timeout_ms d) * 1000000, wl_memory_limit_bytes = directory_memory_limit_bytes d,
      wl_max_concurrent_calls = directory_max_concurrent_calls d\<rparr>"

definition validate_auth_directory_startup :: "'c startup_env \<Rightarrow> auth_section \<Rightarrow> string option \<Rightarrow> (unit, startup_error) result" where
  "validate_auth_directory_startup se au config_dir =
     (case cfg_directory au of
        None \<Rightarrow> Ok ()
      | Some d \<Rightarrow>
          if \<not> dc_enabled d then Ok ()
          else
            res_bind (from_directory d config_dir) (\<lambda>resolved.
            res_bind (read_api_token_file se (rd_api_token_file resolved)) (\<lambda>api_token.
            res_bind (case rd_tls_ca_file resolved of None \<Rightarrow> Ok () | Some f \<Rightarrow> validate_tls_ca_file se f) (\<lambda>_.
            res_bind (map_err (\<lambda>e. StartupInvalid (Lit ''auth.directory.base_origin and auth.directory.api_token_file did not produce a valid directory HTTP policy: ''
                # http_policy_error_display e)) (for_connector_origin (se_http se) (rd_base_origin resolved) api_token)) (\<lambda>policy.
            res_bind (read_config_file se ''auth.directory.component_path'' (rd_component_path resolved) ''read configured WASM component'') (\<lambda>bytes.
            res_bind (validate_component_digest se bytes (rd_component_sha256 resolved)) (\<lambda>_.
            res_bind (map_err (\<lambda>e. StartupInvalid [Lit ''auth.directory.component_path did not load as a valid directory connector component: '',
                Disp (directory_error_display e)]) (from_binary_with_http_policy (se_runtime se) bytes (startup_limits d) policy)) (\<lambda>connector.
            res_bind (map_err (\<lambda>e. StartupInvalid [Lit ''auth.directory.component_path did not expose valid directory connector metadata: '',
                Disp (directory_error_display e)]) (connector_info_call (se_runtime se) connector)) (\<lambda>info.
              validate_connector_info se info)))))))))"

definition validate_directory_startup :: "'c startup_env \<Rightarrow> config \<Rightarrow> string option \<Rightarrow> (unit, startup_error) result" where
  "validate_directory_startup se cf config_dir =
     (case cf_auth cf of None \<Rightarrow> Ok () | Some au \<Rightarrow> validate_auth_directory_startup se au config_dir)"

section \<open>Error messages are short and redacted\<close>

lemma boundary_below_le: "boundary_below s i \<le> i"
  by (induction s i rule: boundary_below.induct) auto

lemma sanitized_bounded:
  "0 < length (sanitize_connector_error_message raw) \<and> length (sanitize_connector_error_message raw) \<le> ERROR_MESSAGE_LIMIT_BYTES"
proof -
  have "length (truncate_at_utf8_boundary s n) \<le> n" for s n
    using boundary_below_le [of s n] by (auto simp: truncate_at_utf8_boundary_def)
  then show ?thesis by (auto simp: sanitize_connector_error_message_def Let_def ERROR_MESSAGE_LIMIT_BYTES_def)
qed

lemma bearer_words_redacted:
  "Suc i < length (redact_words ws) \<Longrightarrow> eq_ignore_ascii_case (redact_words ws ! i) ''bearer'' \<Longrightarrow> redact_words ws ! Suc i = ''[redacted]''"
proof (induction ws arbitrary: i rule: redact_words.induct)
  case (3 w v ws)
  have no: "\<not> eq_ignore_ascii_case ''[redacted]'' ''bearer''" by code_simp
  show ?case
  proof (cases "eq_ignore_ascii_case w ''bearer''")
    case True
    with 3 no show ?thesis by (cases i; cases "i - 1") auto
  next
    case False
    with 3 show ?thesis by (cases i) auto
  qed
qed simp_all

section \<open>What passes the host\<close>

lemma check_header_names_Ok:
  "check_header_names lib hs = Ok u \<longleftrightarrow> list_all (\<lambda>(name, _). name = ''host'' \<or> \<not> is_forbidden_guest_header lib name) hs"
  by (induction lib hs rule: check_header_names.induct) auto

text \<open>A request that leaves the host under a policy for \<open>origin\<close> and \<open>token\<close>.\<close>

definition confined :: "http_lib \<Rightarrow> string \<Rightarrow> string \<Rightarrow> nat \<Rightarrow> guest_request \<Rightarrow> outgoing_config \<Rightarrow> bool" where
  "confined lib origin token budget request cfg \<longleftrightarrow>
     (\<exists>u authority. hl_uri lib origin = Ok u \<and> uri_authority u = Some authority \<and> uri_scheme (gr_uri request) = uri_scheme u \<and>
        (\<exists>a. uri_authority (gr_uri request) = Some a \<and> hl_same_authority lib a authority) \<and>
        (og_use_tls cfg \<longleftrightarrow> uri_scheme u = Some ''https'')) \<and>
     hm_get_all (gr_headers request) ''authorization'' = [''Bearer '' @ token] \<and>
     list_all (\<lambda>(name, _). name \<in> {''host'', ''authorization''} \<or> \<not> is_forbidden_guest_header lib name) (gr_headers request) \<and>
     header_bytes (gr_headers request) \<le> DIRECTORY_HTTP_HEADER_LIMIT_BYTES \<and> gr_body_limit request = Some DIRECTORY_HTTP_BODY_LIMIT_BYTES \<and>
     og_connect_timeout cfg \<le> budget \<and> og_first_byte_timeout cfg \<le> budget \<and> og_between_bytes_timeout cfg \<le> budget"

lemma no_guest_authorization:
  assumes "list_all (\<lambda>(name, _). name = ''host'' \<or> \<not> is_forbidden_guest_header lib name) hs"
  shows "filter (\<lambda>h. fst h \<noteq> ''authorization'') hs = hs" and "filter (\<lambda>h. fst h = ''authorization'') hs = []"
  using assms by (induction hs) (auto simp: is_forbidden_guest_header_def)

lemma prepare_request_confined:
  assumes policy: "for_connector_origin lib origin token = Ok policy"
    and prep: "prepare_request lib \<lparr>hh_policy = policy, hh_call_timeout = timeout\<rparr> elapsed request cfg = Ok (request', cfg')"
  shows "confined lib origin token (timeout - elapsed) request' cfg' \<and> gr_uri request' = gr_uri request \<and> elapsed < timeout"
proof -
  obtain u scheme authority where u: "hl_uri lib origin = Ok u" "uri_scheme u = Some scheme" "uri_authority u = Some authority"
    and p: "policy = \<lparr>hp_allowed_origin = Some \<lparr>ao_scheme = scheme, ao_authority = authority\<rparr>, hp_authorization = Some (''Bearer '' @ token),
      hp_header_limit_bytes = DIRECTORY_HTTP_HEADER_LIMIT_BYTES, hp_body_limit_bytes = DIRECTORY_HTTP_BODY_LIMIT_BYTES\<rparr>"
    using policy by (auto simp: for_connector_origin_def Let_def split: if_splits sum.splits)
  have orig: "validate_origin lib policy (gr_uri request) cfg (gr_headers request) = Ok ()"
    and hdr: "validate_headers lib policy (gr_headers request) = Ok (header_bytes (gr_headers request))"
    and small: "projected_authorized_header_bytes (header_bytes (gr_headers request)) (''Bearer '' @ token) \<le> DIRECTORY_HTTP_HEADER_LIMIT_BYTES"
    and time: "elapsed < timeout"
    and req': "request' = request\<lparr>gr_headers := hm_insert ''authorization'' (''Bearer '' @ token) (gr_headers request), gr_body_limit := Some DIRECTORY_HTTP_BODY_LIMIT_BYTES\<rparr>"
    and cfg': "cfg' = \<lparr>og_use_tls = og_use_tls cfg, og_connect_timeout = cap_timeout (og_connect_timeout cfg) (timeout - elapsed),
      og_first_byte_timeout = cap_timeout (og_first_byte_timeout cfg) (timeout - elapsed),
      og_between_bytes_timeout = cap_timeout (og_between_bytes_timeout cfg) (timeout - elapsed)\<rparr>"
    using prep by (auto simp: prepare_request_def p Let_def validate_headers_def split: if_splits)
  have names: "list_all (\<lambda>(name, _). name = ''host'' \<or> \<not> is_forbidden_guest_header lib name) (gr_headers request)"
    using hdr by (auto simp: validate_headers_def check_header_names_Ok split: if_splits)
  note auth = no_guest_authorization [OF names]
  have "uri_scheme (gr_uri request) = Some scheme" "og_use_tls cfg \<longleftrightarrow> scheme = ''https''"
    "\<exists>a. uri_authority (gr_uri request) = Some a \<and> hl_same_authority lib a authority"
    using orig by (auto simp: validate_origin_def p split: if_splits option.splits)
  moreover have "hm_get_all (gr_headers request') ''authorization'' = [''Bearer '' @ token]"
    "header_bytes (gr_headers request') \<le> DIRECTORY_HTTP_HEADER_LIMIT_BYTES"
    using small by (simp_all add: req' hm_insert_def hm_get_all_def auth header_bytes_def projected_authorized_header_bytes_def)
  moreover have "list_all (\<lambda>(name, _). name \<in> {''host'', ''authorization''} \<or> \<not> is_forbidden_guest_header lib name) (gr_headers request')"
    using names by (auto simp: req' hm_insert_def auth list_all_iff)
  ultimately show ?thesis using u time by (simp add: confined_def req' cfg' cap_timeout_def)
qed

end
