(* ===== verification/Directory_Properties.thy ===== *)
theory Directory_Properties
  imports Directory Node_Lifecycle
begin

text \<open>What a configuration file that passes its checks and a directory connector that was started guarantee.\<close>

section \<open>The connector\<close>

text \<open>A configured path: absolute, or below the directory of the configuration file.\<close>

definition located :: "string option \<Rightarrow> string \<Rightarrow> string \<Rightarrow> bool" where
  "located config_dir cpath path \<longleftrightarrow>
     (if starts_with ''/'' cpath then path = cpath else \<exists>dir. config_dir = Some dir \<and> path = path_join dir cpath)"

lemma resolved_located:
  "resolve_optional_path field (Some cpath) config_dir = Ok (Some path) \<Longrightarrow> located config_dir cpath path"
  by (auto simp: resolve_optional_path_def resolve_config_relative_path_def located_def split: if_splits option.splits)

lemma resolved_Some: "resolve_optional_path field v config_dir = Ok (Some path) \<Longrightarrow> \<exists>cpath. v = Some cpath"
  by (auto simp: resolve_optional_path_def split: option.splits)

lemma strip_suffix_eq: "strip_suffix suf s = Some r \<Longrightarrow> s = r @ suf"
  by (auto simp: strip_suffix_def strip_prefix_iff) (metis rev_append rev_rev_ident)

lemma token_of_content:
  assumes "strip_one_final_line_ending content = token"
  shows "content = token \<or> content = token @ [CHR 0x0A] \<or> content = token @ [CHR 0x0D, CHR 0x0A]"
  using assms by (auto simp: strip_one_final_line_ending_def dest: strip_suffix_eq split: option.splits)

text \<open>
  C21: When the server starts with an enabled directory connector, the component it runs was read from the configured
  path and has the configured SHA-256 digest, the token was read from the configured file, which holds it with at most
  one final line ending, the provider name of the connector is a canonical principal provider, and whatever the
  component asks for, a request that leaves the host goes to the configured origin with the scheme of that origin,
  carries that token as its only authorization and no other header that is kept from connectors, stays within the
  limits on headers and body, and ends within what is left of the time of the call.
\<close>

theorem directory_connector_confined:
  assumes "validate_directory_startup se cf config_dir = Ok ()" and "cf_auth cf = Some au" and "cfg_directory au = Some d" and "dc_enabled d"
  shows "\<exists>origin token_file token_path content token component_file component_path bytes policy wc info.
    dc_base_origin d = Some origin
    \<and> dc_api_token_file d = Some token_file \<and> located config_dir token_file token_path \<and> se_read_to_string se token_path = Ok content
    \<and> (content = token \<or> content = token @ [CHR 0x0A] \<or> content = token @ [CHR 0x0D, CHR 0x0A]) \<and> token \<noteq> [] \<and> \<not> has_whitespace token
    \<and> dc_component_path d = Some component_file \<and> located config_dir component_file component_path \<and> se_read se component_path = Ok bytes
    \<and> dc_component_sha256 d = Some (''sha256:'' @ se_sha256_hex se bytes) \<and> wr_component (se_runtime se) bytes = Ok (wc_component wc)
    \<and> for_connector_origin (se_http se) origin token = Ok policy \<and> wc_http_policy wc = policy
    \<and> connector_info_call (se_runtime se) wc = Ok info \<and> provider_id_new (ci_provider info) = Ok (ci_provider info)
    \<and> (\<forall>timeout elapsed request cfg request' cfg'.
         prepare_request (se_http se) \<lparr>hh_policy = wc_http_policy wc, hh_call_timeout = timeout\<rparr> elapsed request cfg = Ok (request', cfg') \<longrightarrow>
         confined (se_http se) origin token (timeout - elapsed) request' cfg' \<and> gr_uri request' = gr_uri request)"
proof -
  obtain resolved token policy bytes wc info where r: "from_directory d config_dir = Ok resolved"
    and t: "read_api_token_file se (rd_api_token_file resolved) = Ok token"
    and p: "for_connector_origin (se_http se) (rd_base_origin resolved) token = Ok policy"
    and c: "read_config_file se ''auth.directory.component_path'' (rd_component_path resolved) ''read configured WASM component'' = Ok bytes"
    and b: "validate_component_digest se bytes (rd_component_sha256 resolved) = Ok ()"
    and w: "from_binary_with_http_policy (se_runtime se) bytes (startup_limits d) policy = Ok wc"
    and i: "connector_info_call (se_runtime se) wc = Ok info" and v: "validate_connector_info se info = Ok ()"
    using assms by (auto simp: validate_directory_startup_def validate_auth_directory_startup_def)
  have sha: "rd_component_sha256 resolved = ''sha256:'' @ se_sha256_hex se bytes"
    using b by (simp add: validate_component_digest_def sha256_digest_def Let_def split: if_splits)
  have pol: "wc_http_policy wc = policy" and comp: "wr_component (se_runtime se) bytes = Ok (wc_component wc)"
    using w by (auto simp: from_binary_with_http_policy_def split: if_splits)
  with prepare_request_confined [OF p] have out: "\<forall>timeout elapsed request cfg request' cfg'.
      prepare_request (se_http se) \<lparr>hh_policy = wc_http_policy wc, hh_call_timeout = timeout\<rparr> elapsed request cfg = Ok (request', cfg') \<longrightarrow>
      confined (se_http se) (rd_base_origin resolved) token (timeout - elapsed) request' cfg' \<and> gr_uri request' = gr_uri request"
    by simp
  have cfg: "dc_base_origin d = Some (rd_base_origin resolved)" "dc_component_sha256 d = Some (rd_component_sha256 resolved)"
    and paths: "resolve_optional_path ''auth.directory.component_path'' (dc_component_path d) config_dir = Ok (Some (rd_component_path resolved))"
      "resolve_optional_path ''auth.directory.api_token_file'' (dc_api_token_file d) config_dir = Ok (Some (rd_api_token_file resolved))"
    using r by (auto simp: from_directory_def resolve_component_path_def resolve_api_token_file_def required_resolved_path_def)
  obtain component_file token_file where files: "dc_component_path d = Some component_file" "dc_api_token_file d = Some token_file"
    using resolved_Some [OF paths(1)] resolved_Some [OF paths(2)] by blast
  have loc: "located config_dir component_file (rd_component_path resolved)" "located config_dir token_file (rd_api_token_file resolved)"
    using paths by (simp_all add: files resolved_located)
  have read: "se_read se (rd_component_path resolved) = Ok bytes" using c by (cases "se_read se (rd_component_path resolved)") (simp_all add: read_config_file_def)
  obtain content where content: "se_read_to_string se (rd_api_token_file resolved) = Ok content" "strip_one_final_line_ending content = token"
    "token \<noteq> []" "\<not> has_whitespace token"
    using t by (auto simp: read_api_token_file_def Let_def split: sum.splits if_splits)
  have "provider_id_new (ci_provider info) = Ok (ci_provider info)"
    using v by (auto simp: validate_connector_info_def split: if_splits sum.splits)
  then show ?thesis
    by (intro exI conjI) (rule cfg(1) cfg(2) [unfolded sha] files loc content read comp p pol i out token_of_content [OF content(2)] | assumption)+
qed

definition sample_uri :: uri where
  "sample_uri = \<lparr>uri_scheme = Some ''https'', uri_authority = Some ''idm'', uri_path_and_query = None\<rparr>"

definition sample_startup :: "unit startup_env" where
  "sample_startup =
     \<lparr>se_http = \<lparr>hl_uri = \<lambda>_. Ok sample_uri, hl_value_ok = \<lambda>_. True, hl_to_str = Some, hl_same_authority = eq_ignore_ascii_case, hl_forbidden = [''connection'']\<rparr>,
      se_runtime = \<lparr>wr_engine = Ok (), wr_component = \<lambda>_. Ok (), wr_link_wasi = Ok (), wr_link_http = Ok (), wr_slot = \<lambda>_. SlotAfter 0,
        wr_instantiate = \<lambda>_ _ _. Ok (),
        wr_connector_info = \<lambda>_ _ _. Some (Ok \<lparr>ci_name = ''fake'', ci_version = ''1'', ci_provider = ''oidc'', ci_abi_version = ''1''\<rparr>)\<rparr>,
      se_read = \<lambda>_. Ok ''wasm'', se_read_to_string = \<lambda>_. Ok ''secret'', se_sha256_hex = \<lambda>_. ''00'', se_pem_items = \<lambda>_. [], se_abi_version = ''1''\<rparr>"

definition sample_directory :: directory_config where
  "sample_directory =
     \<lparr>dc_enabled = True, dc_component_path = Some ''/c.wasm'', dc_component_sha256 = Some ''sha256:00'', dc_base_origin = Some ''https://idm'',
      dc_api_token_file = Some ''/token'', dc_tls_ca_file = None, dc_tls_insecure_skip_verify = False, dc_timeout_ms = None,
      dc_max_concurrent_calls = None, dc_memory_limit_bytes = None\<rparr>"

definition sample_auth :: auth_section where
  "sample_auth =
     \<lparr>cfg_provider_name = ''oidc'', cfg_issuer_url = ''i'', cfg_issuer_internal_url = None, cfg_issuer_internal_urls = [], cfg_jwks_urls = [],
      cfg_client_id = ''c'', cfg_token_endpoint_url = ''t'', cfg_redirect_uri = ''r'', cfg_logout_url = None, cfg_jwks_cache_s3_key = ''k'',
      cfg_jwks_max_stale_seconds = 60, cfg_policy_sets = [\<lparr>cps_id = ''p'', cps_name = ''P'', cps_enabled = True, cps_cedar_text = ''x''\<rparr>],
      cfg_group_claim = ''groups'', cfg_access_token_audience = None, cfg_client_secret = ''s'', cfg_login_scopes = ''openid'',
      cfg_tls_insecure_skip_verify = False, cfg_jwks_refresh_seconds = 300, cfg_token_signing_keys = [''key''], cfg_session_encryption_key = ''0123456789abcdef0123456789abcdef'',
      cfg_cookie_secure_mode = CookieAuto, cfg_directory = Some sample_directory\<rparr>"

definition sample_config :: config where
  "sample_config = default_dev\<lparr>cf_auth := Some sample_auth\<rparr>"

lemma sample_token: "has_whitespace ''secret'' = False"
  by code_simp

lemma sample_resolved:
  "from_directory sample_directory None =
     Ok \<lparr>rd_component_path = ''/c.wasm'', rd_component_sha256 = ''sha256:00'', rd_base_origin = ''https://idm'', rd_api_token_file = ''/token'', rd_tls_ca_file = None\<rparr>"
proof -
  have "blank ''/c.wasm'' = False" "blank ''/token'' = False" by (simp_all add: blank_def trim_all_graphic is_graphic_def byte_def)
  then show ?thesis
    by (simp add: from_directory_def sample_directory_def resolve_component_path_def resolve_api_token_file_def resolve_tls_ca_file_def resolve_optional_path_def
        resolve_config_relative_path_def required_resolved_path_def starts_with_def ok_or_def)
qed

lemma sample_policy:
  "for_connector_origin (se_http sample_startup) ''https://idm'' ''secret'' =
     Ok \<lparr>hp_allowed_origin = Some \<lparr>ao_scheme = ''https'', ao_authority = ''idm''\<rparr>, hp_authorization = Some ''Bearer secret'',
        hp_header_limit_bytes = DIRECTORY_HTTP_HEADER_LIMIT_BYTES, hp_body_limit_bytes = DIRECTORY_HTTP_BODY_LIMIT_BYTES\<rparr>"
proof -
  have "trim ''https://idm'' = ''https://idm''" by (simp add: trim_all_graphic is_graphic_def byte_def)
  moreover have "after_str ''://'' ''https://idm'' = Some ''idm''" by code_simp
  ultimately show ?thesis
    by (simp add: for_connector_origin_def sample_startup_def sample_uri_def ok_or_def sample_token contains_char_def Let_def projected_authorized_header_bytes_def
        DIRECTORY_HTTP_HEADER_LIMIT_BYTES_def)
qed

lemma sample_token_read: "read_api_token_file sample_startup ''/token'' = Ok ''secret''"
proof -
  have "strip_one_final_line_ending ''secret'' = ''secret''" by code_simp
  moreover have "map to_ascii_lower ''secret'' = ''secret''" by code_simp
  ultimately show ?thesis by (simp add: read_api_token_file_def sample_startup_def sample_token starts_with_def Let_def)
qed

lemma sample_info: "validate_connector_info sample_startup \<lparr>ci_name = ''fake'', ci_version = ''1'', ci_provider = ''oidc'', ci_abi_version = ''1''\<rparr> = Ok ()"
proof -
  have t: "trim ''fake'' = ''fake''" "trim ''1'' = ''1''" "trim ''oidc'' = ''oidc''" by (simp_all add: trim_all_graphic is_graphic_def byte_def)
  then have "provider_id_new ''oidc'' = Ok ''oidc''"
    by (simp add: provider_id_new_def Let_def is_ascii_lowercase_def is_provider_byte_def byte_def)
  with t show ?thesis by (simp add: validate_connector_info_def blank_def sample_startup_def)
qed

lemma sample_starts: "validate_directory_startup sample_startup sample_config None = Ok ()"
proof -
  have d: "cf_auth sample_config = Some sample_auth" "cfg_directory sample_auth = Some sample_directory" "dc_enabled sample_directory"
    by (simp_all add: sample_config_def sample_auth_def sample_directory_def)
  have limits: "wl_memory_limit_bytes (startup_limits sample_directory) \<noteq> 0" "wl_max_concurrent_calls (startup_limits sample_directory) \<noteq> 0"
    by (simp_all add: startup_limits_def directory_memory_limit_bytes_def directory_max_concurrent_calls_def sample_directory_def)
  then have "from_binary_with_http_policy (se_runtime sample_startup) b (startup_limits sample_directory) p =
      Ok \<lparr>wc_component = (), wc_limits = startup_limits sample_directory, wc_http_policy = p\<rparr>" for b p
    by (simp add: from_binary_with_http_policy_def sample_startup_def)
  moreover have "connector_info_call (se_runtime sample_startup) wc = Ok \<lparr>ci_name = ''fake'', ci_version = ''1'', ci_provider = ''oidc'', ci_abi_version = ''1''\<rparr>" for wc
    by (simp add: connector_info_call_def with_deadline_def do_connector_info_def Let_def sample_startup_def)
  moreover have "read_config_file sample_startup f path act = Ok ''wasm''" "validate_component_digest sample_startup ''wasm'' ''sha256:00'' = Ok ()" for f path act
    by (simp_all add: read_config_file_def validate_component_digest_def sha256_digest_def sample_startup_def)
  ultimately show ?thesis
    by (simp add: validate_directory_startup_def validate_auth_directory_startup_def d sample_resolved sample_token_read sample_policy sample_info)
qed

text \<open>A request of the connector that is let through, after three of ten ticks.\<close>

definition sample_request :: guest_request where
  "sample_request = \<lparr>gr_method = ''GET'', gr_uri = sample_uri, gr_headers = [(''accept'', ''*'')], gr_body_limit = None\<rparr>"

definition sample_outgoing :: outgoing_config where
  "sample_outgoing = \<lparr>og_use_tls = True, og_connect_timeout = 20, og_first_byte_timeout = 5, og_between_bytes_timeout = 20\<rparr>"

lemma sample_prepared:
  assumes "for_connector_origin (se_http sample_startup) ''https://idm'' ''secret'' = Ok policy"
  shows "\<exists>request' cfg'. prepare_request (se_http sample_startup) \<lparr>hh_policy = policy, hh_call_timeout = 10\<rparr> 3 sample_request sample_outgoing = Ok (request', cfg')"
proof -
  have low: "map to_ascii_lower ''idm'' = ''idm''" by code_simp
  have lib: "is_forbidden_guest_header (se_http sample_startup) ''accept'' = False" "hl_same_authority (se_http sample_startup) = eq_ignore_ascii_case"
    by (simp_all add: is_forbidden_guest_header_def sample_startup_def starts_with_def)
  from assms have policy: "policy = \<lparr>hp_allowed_origin = Some \<lparr>ao_scheme = ''https'', ao_authority = ''idm''\<rparr>, hp_authorization = Some ''Bearer secret'',
        hp_header_limit_bytes = DIRECTORY_HTTP_HEADER_LIMIT_BYTES, hp_body_limit_bytes = DIRECTORY_HTTP_BODY_LIMIT_BYTES\<rparr>"
    by (simp add: sample_policy)
  show ?thesis
    unfolding policy
    by (simp add: low lib prepare_request_def validate_origin_def validate_content_length_def validate_headers_def sample_request_def sample_outgoing_def
        sample_uri_def hm_get_all_def header_bytes_def projected_authorized_header_bytes_def DIRECTORY_HTTP_HEADER_LIMIT_BYTES_def
        eq_ignore_ascii_case_def ok_or_def Let_def)
qed

theorem directory_connector_confined_witness:
  "\<exists>policy request' cfg'. prepare_request (se_http sample_startup) \<lparr>hh_policy = policy, hh_call_timeout = 10\<rparr> 3 sample_request sample_outgoing = Ok (request', cfg')
    \<and> confined (se_http sample_startup) ''https://idm'' ''secret'' 7 request' cfg'"
proof -
  have d: "cf_auth sample_config = Some sample_auth" "cfg_directory sample_auth = Some sample_directory" "dc_enabled sample_directory"
    by (simp_all add: sample_config_def sample_auth_def sample_directory_def)
  note all = directory_connector_confined [OF sample_starts d]
  from all obtain origin path content token policy and wc :: "unit wasm_connector" where
    o: "dc_base_origin sample_directory = Some origin" and c: "se_read_to_string sample_startup path = Ok content"
      "content = token \<or> content = token @ [CHR 0x0A] \<or> content = token @ [CHR 0x0D, CHR 0x0A]"
    and p: "for_connector_origin (se_http sample_startup) origin token = Ok policy" "wc_http_policy wc = policy"
    and out: "\<forall>timeout elapsed request cfg request' cfg'.
         prepare_request (se_http sample_startup) \<lparr>hh_policy = wc_http_policy wc, hh_call_timeout = timeout\<rparr> elapsed request cfg = Ok (request', cfg') \<longrightarrow>
         confined (se_http sample_startup) origin token (timeout - elapsed) request' cfg' \<and> gr_uri request' = gr_uri request"
    by (elim exE conjE) (rule that; assumption)
  have origin: "origin = ''https://idm''" using o by (simp add: sample_directory_def)
  have "content = ''secret''" using c(1) by (simp add: sample_startup_def)
  with c(2) have token: "token = ''secret''" by (auto dest: arg_cong [where f = rev])
  obtain request' cfg' where r: "prepare_request (se_http sample_startup) \<lparr>hh_policy = policy, hh_call_timeout = 10\<rparr> 3 sample_request sample_outgoing = Ok (request', cfg')"
    using sample_prepared p(1) origin token by blast
  have "confined (se_http sample_startup) ''https://idm'' ''secret'' (10 - 3) request' cfg'"
    using out r unfolding p(2) origin token by blast
  with r show ?thesis by auto
qed

section \<open>The configuration file\<close>

lemma directory_config_resolves:
  assumes "validate_directory_config lib d config_dir = Ok ()" and "dc_enabled d"
  shows "\<exists>resolved. from_directory d config_dir = Ok resolved \<and> dc_base_origin d = Some (rd_base_origin resolved)"
proof -
  obtain component sha origin token where f: "dc_component_path d = Some component" "dc_component_sha256 d = Some sha"
    "dc_base_origin d = Some origin" "dc_api_token_file d = Some token"
    and res: "in_sequence [resolve_component_path d config_dir, resolve_api_token_file d config_dir, resolve_tls_ca_file d config_dir] = Ok ()"
    using assms by (auto simp: validate_directory_config_def require_directory_field_def split: if_splits)
  have some: "resolve_optional_path field (Some v) config_dir = Ok r \<Longrightarrow> \<exists>path. r = Some path" for field v r
    by (auto simp: resolve_optional_path_def)
  from res obtain cp tf tls where r: "resolve_component_path d config_dir = Ok cp" "resolve_api_token_file d config_dir = Ok tf"
    "resolve_tls_ca_file d config_dir = Ok tls" by auto
  from some [OF r(1) [unfolded resolve_component_path_def f]] some [OF r(2) [unfolded resolve_api_token_file_def f]]
  obtain cp' tf' where "cp = Some cp'" "tf = Some tf'" by blast
  with r f show ?thesis by (simp add: from_directory_def required_resolved_path_def ok_or_def)
qed

text \<open>
  C22: A configuration that passes its checks can be used.  When both listeners are IPv4 socket addresses, they differ in
  the port, or in the address with neither of them being the unspecified one (listeners of another form are
  compared as text).  With authentication, the session key decodes to the 32 bytes of an AES-256 key, there is a signing
  key and all of them decode, every subject gets a user principal of the configured provider, and different subjects get
  different ones, the policies have distinct trimmed ids, names and texts that the policy validator accepts, and the
  settings of an enabled directory connector resolve to what its start needs.
\<close>

theorem accepted_config_usable:
  assumes "validate_with_config_dir lib cf config_dir = Ok ()"
  shows "(\<forall>a b c d p a' b' c' d' p'. a < 256 \<longrightarrow> b < 256 \<longrightarrow> c < 256 \<longrightarrow> d < 256 \<longrightarrow> p < 65536 \<longrightarrow>
        a' < 256 \<longrightarrow> b' < 256 \<longrightarrow> c' < 256 \<longrightarrow> d' < 256 \<longrightarrow> p' < 65536 \<longrightarrow>
        sv_listen (cf_server cf) = show_socket_v4 a b c d p \<longrightarrow> rf_listen (cf_raft cf) = show_socket_v4 a' b' c' d' p' \<longrightarrow>
        p \<noteq> p' \<or> ([a, b, c, d] \<noteq> [a', b', c', d'] \<and> [a, b, c, d] \<noteq> [0, 0, 0, 0] \<and> [a', b', c', d'] \<noteq> [0, 0, 0, 0]))
    \<and> (\<forall>au. cf_auth cf = Some au \<longrightarrow>
        (\<exists>key. cl_unbase64 lib (cfg_session_encryption_key au) = Ok key \<and> length key = 32)
        \<and> cfg_token_signing_keys au \<noteq> [] \<and> list_all (\<lambda>k. is_ok (cl_unbase64 lib k)) (cfg_token_signing_keys au)
        \<and> (\<forall>subject. subject \<noteq> [] \<longrightarrow> (\<exists>i. pq_new (cfg_provider_name au) PKUser subject = Ok i \<and> pq_kind i = Some PKUser
             \<and> pq_provider i = trim (cfg_provider_name au)
             \<and> (\<forall>other. pq_new (cfg_provider_name au) PKUser other = Ok i \<longrightarrow> other = subject)))
        \<and> distinct (map cps_id (cfg_policy_sets au)) \<and> list_all (policy_set_ok lib) (cfg_policy_sets au)
        \<and> (\<forall>d. cfg_directory au = Some d \<longrightarrow> dc_enabled d \<longrightarrow> (\<exists>resolved. from_directory d config_dir = Ok resolved
             \<and> dc_base_origin d = Some (rd_base_origin resolved))))"
proof (intro conjI allI impI)
  fix a b c d p a' b' c' d' p' :: nat
  assume bounds: "a < 256" "b < 256" "c < 256" "d < 256" "p < 65536" "a' < 256" "b' < 256" "c' < 256" "d' < 256" "p' < 65536"
    and listen: "sv_listen (cf_server cf) = show_socket_v4 a b c d p" "rf_listen (cf_raft cf) = show_socket_v4 a' b' c' d' p'"
  have "\<not> listeners_conflict (sv_listen (cf_server cf)) (rf_listen (cf_raft cf))"
    using assms by (auto simp: validate_with_config_dir_def)
  then show "p \<noteq> p' \<or> ([a, b, c, d] \<noteq> [a', b', c', d'] \<and> [a, b, c, d] \<noteq> [0, 0, 0, 0] \<and> [a', b', c', d'] \<noteq> [0, 0, 0, 0])"
    using bounds by (auto simp: listen listeners_conflict_def parse_show_socket_v4)
next
  fix au assume au: "cf_auth cf = Some au"
  with assms have ok: "validate_auth_config lib au config_dir = Ok ()" by (auto simp: validate_with_config_dir_def split: if_splits)
  show "\<exists>key. cl_unbase64 lib (cfg_session_encryption_key au) = Ok key \<and> length key = 32"
    "cfg_token_signing_keys au \<noteq> []" "list_all (\<lambda>k. is_ok (cl_unbase64 lib k)) (cfg_token_signing_keys au)"
    "distinct (map cps_id (cfg_policy_sets au))" "list_all (policy_set_ok lib) (cfg_policy_sets au)"
    using ok by (auto simp: validate_auth_config_def validate_signing_keys_Ok validate_policy_sets_Ok validate_session_key_def is_ok_def split: sum.splits if_splits)
  have provider: "is_ok (provider_id_new (cfg_provider_name au))"
    using ok by (auto simp: validate_auth_config_def is_ok_def split: sum.splits)
  fix subject :: string assume "subject \<noteq> []"
  with provider obtain i where i: "pq_new (cfg_provider_name au) PKUser subject = Ok i"
    by (auto simp: pq_new_def local_id_new_def is_ok_iff)
  have parts: "pq_kind i = Some PKUser" "pq_provider i = trim (cfg_provider_name au)"
    using pq_new_parts [OF i] by (simp_all add: pq_kind_def pq_provider_def pq_part_def kind_from_str_def)
  have "other = subject" if "pq_new (cfg_provider_name au) PKUser other = Ok i" for other
    using pq_new_parts(1) [OF i] pq_new_parts(1) [OF that] unescape_escape by (metis list.inject sum.inject(2))
  with i parts show "\<exists>i. pq_new (cfg_provider_name au) PKUser subject = Ok i \<and> pq_kind i = Some PKUser \<and> pq_provider i = trim (cfg_provider_name au)
      \<and> (\<forall>other. pq_new (cfg_provider_name au) PKUser other = Ok i \<longrightarrow> other = subject)" by blast
next
  fix au d assume au: "cf_auth cf = Some au" and d: "cfg_directory au = Some d" "dc_enabled d"
  with assms have "validate_directory_config lib d config_dir = Ok ()"
    by (auto simp: validate_with_config_dir_def validate_auth_config_def split: if_splits sum.splits)
  with directory_config_resolves d(2) show "\<exists>resolved. from_directory d config_dir = Ok resolved \<and> dc_base_origin d = Some (rd_base_origin resolved)" by blast
qed

definition sample_lib :: config_lib where
  "sample_lib = \<lparr>cl_unbase64 = Ok, cl_policy_text = \<lambda>_. Ok (), cl_uri = \<lambda>_. Ok sample_uri\<rparr>"

definition checked_config :: config where
  "checked_config = default_dev\<lparr>cf_auth := Some (sample_auth\<lparr>cfg_directory := None\<rparr>)\<rparr>"

lemma default_listeners: "\<not> listeners_conflict ''0.0.0.0:5050'' ''0.0.0.0:5051''"
proof -
  have "show_socket_v4 0 0 0 0 5050 = ''0.0.0.0:5050''" "show_socket_v4 0 0 0 0 5051 = ''0.0.0.0:5051''"
    by (simp_all add: show_socket_v4_def show_nat.simps char_of_def bit_0)
  with parse_show_socket_v4 [of 0 0 0 0 5050] parse_show_socket_v4 [of 0 0 0 0 5051] show ?thesis
    by (simp add: listeners_conflict_def)
qed

lemma sample_accepted: "validate_with_config_dir sample_lib checked_config None = Ok ()"
proof -
  have "trim s = s" if "list_all is_graphic s" for s using that by (rule trim_all_graphic)
  then have blank: "blank s \<longleftrightarrow> s = []" if "list_all is_graphic s" for s using that by (simp add: blank_def)
  have t: "trim ''oidc'' = ''oidc''" "trim ''p'' = ''p''" by (simp_all add: trim_all_graphic is_graphic_def byte_def)
  then have "provider_id_new ''oidc'' = Ok ''oidc''"
    by (simp add: provider_id_new_def Let_def is_ascii_lowercase_def is_provider_byte_def byte_def)
  moreover have "validate_policy_sets sample_lib 0 {} (cfg_policy_sets sample_auth) = Ok ()"
    by (simp add: sample_auth_def sample_lib_def blank is_graphic_def byte_def t)
  ultimately have "validate_auth_config sample_lib (sample_auth\<lparr>cfg_directory := None\<rparr>) None = Ok ()"
    by (simp add: validate_auth_config_def fail_if_def sample_auth_def blank is_graphic_def byte_def starts_with_def validate_session_key_def sample_lib_def)
  then show ?thesis
    by (simp add: validate_with_config_dir_def checked_config_def default_dev_def s3_redirect_config_default_def raft_kubernetes_config_default_def
        default_listen_def default_raft_listen_def default_listeners)
qed

theorem accepted_config_usable_witness:
  "(5050 :: nat) \<noteq> 5051 \<and> show_socket_v4 0 0 0 0 5050 = sv_listen (cf_server checked_config) \<and> show_socket_v4 0 0 0 0 5051 = rf_listen (cf_raft checked_config)
   \<and> distinct (map cps_id (cfg_policy_sets sample_auth)) \<and> (\<exists>i. pq_new ''oidc'' PKUser ''u-1'' = Ok i \<and> pq_kind i = Some PKUser)"
proof -
  have printed: "show_socket_v4 0 0 0 0 5050 = sv_listen (cf_server checked_config)" "show_socket_v4 0 0 0 0 5051 = rf_listen (cf_raft checked_config)"
    by (simp_all add: checked_config_def default_dev_def default_listen_def default_raft_listen_def show_socket_v4_def show_nat.simps char_of_def bit_0)
  have auth: "cf_auth checked_config = Some (sample_auth\<lparr>cfg_directory := None\<rparr>)" "cfg_provider_name sample_auth = ''oidc''"
    by (simp_all add: checked_config_def sample_auth_def)
  note all = accepted_config_usable [OF sample_accepted]
  from all [THEN conjunct1, rule_format, of 0 0 0 0 5050 0 0 0 0 5051] printed have "(5050 :: nat) \<noteq> 5051" by simp
  moreover have "distinct (map cps_id (cfg_policy_sets sample_auth))" using all auth(1) by simp
  moreover have "\<exists>i. pq_new ''oidc'' PKUser ''u-1'' = Ok i \<and> pq_kind i = Some PKUser"
    using all [THEN conjunct2, THEN spec, THEN mp, OF auth(1)] by (simp add: auth(2)) (metis list.distinct(1))
  ultimately show ?thesis using printed by blast
qed

section \<open>Pods and nodes\<close>

text \<open>
  C23: The pods of a StatefulSet with \<open>replicas\<close> replicas take exactly the node ids that the scale-down reconciler keeps
  as voters.
\<close>

theorem statefulset_voters_match:
  "{n. \<exists>i < unat replicas. resolve_node_id (Some (name @ ''-'' @ show_nat i)) = Ok n} = desired_voters_for_replicas replicas"
proof -
  have "unat replicas < 2 ^ 32" using unsigned_less [of replicas, where ?'a = nat] by simp
  then have "resolve_node_id (Some (name @ ''-'' @ show_nat i)) = Ok (of_nat (Suc i))" if "i < unat replicas" for i
    using that resolve_node_id_pod [of i name] by simp
  then have "{n. \<exists>i < unat replicas. resolve_node_id (Some (name @ ''-'' @ show_nat i)) = Ok n} = (\<lambda>i. of_nat (Suc i)) ` {..<unat replicas}"
    by (auto simp: image_iff)
  also have "\<dots> = of_nat ` {1..unat replicas}" unfolding image_image [symmetric, of of_nat Suc]
    by (simp add: image_Suc_lessThan)
  finally show ?thesis by (simp add: desired_voters_for_replicas_def)
qed

end
