(* ===== verification/Spec2Isabelle.thy ===== *)
theory Spec2Isabelle
  imports Registry_Properties Maintenance_Properties Consistency_Properties Format_Properties Service_Properties Mirror_Properties Access_Properties Account_Properties Scheduler_Properties Admin_Properties Dashboard_Properties Membership_Properties Lifecycle_Properties Directory_Properties
begin

text \<open>
  Layerhouse is an OCI registry: clients push and pull images over the distribution API, the metadata is a
  state machine replicated with Raft, the blobs are objects in S3, and a mirror manager copies repositories
  from and to other registries.  This library models the server crate
  \<^verbatim>\<open>crates/layerhouse-server/src\<close> and proves what makes its parts correct.  Paths below are relative to
  that directory.

  \<^bold>\<open>The parts and how they interact.\<close>  A request meets the routes, which call the authorizer, the metadata
  store and the blob store.  The metadata store (\<^verbatim>\<open>raft/router.rs\<close>) reads the local copy of the replicated
  state and sends writes through Raft; every replica applies the committed entries with
  \<^verbatim>\<open>raft/state_machine.rs\<close>.  The blob store (\<^verbatim>\<open>store/s3.rs\<close>) keeps blobs under their digests; the garbage
  collector (\<^verbatim>\<open>gc.rs\<close>) deletes the ones whose reference count, kept by the state machine, is zero.  The
  mirror manager (\<^verbatim>\<open>mirror\<close>) fills both stores from upstream registries.

  \<^bold>\<open>Vocabulary.\<close>  \<open>Prelude\<close> has machine integers, results, symbolic format strings and the operations of
  \<^verbatim>\<open>str\<close>; \<open>Ordered_Map\<close> is \<^verbatim>\<open>BTreeMap\<close>; \<open>Errors\<close> is \<^verbatim>\<open>error.rs\<close>; \<open>Numbers\<close> reads and prints integers;
  \<open>Effects\<close> has the two monads of effectful code: \<open>io\<close> for code that returns, \<open>pio\<close> for code with a loop
  that another service may keep going, where not returning is \<^const>\<open>None\<close>.  What is outside the sources (S3,
  OpenRaft, HTTP, the clock, JSON text, hashing) is a field of a record that the operations take, and what
  the code relies on is a named predicate about that record.

  \<^bold>\<open>Data.\<close>  \<open>Oci_Digest\<close>, \<open>Oci_Manifest\<close> (\<^verbatim>\<open>oci\<close>), \<open>Handles\<close> and \<open>Metadata_Types\<close>, \<open>Tag_Validations\<close>,
  \<open>Sync_Jobs\<close>, \<open>Index_Summaries\<close> (\<^verbatim>\<open>store/metadata\<close>), \<open>Permissions\<close>, \<open>Principals\<close>, \<open>Authorization\<close>
  (\<^verbatim>\<open>auth\<close>).

  \<^bold>\<open>The replicated state.\<close>  \<open>Raft_Types\<close> has the requests and the state, \<open>State_Machine\<close> one function per
  arm of \<^verbatim>\<open>apply_request\<close> and the application of log entries.  \<open>Replication\<close> is the contract of a replicated
  machine, \<open>Ref_Counts\<close>, \<open>Manifest_Index\<close>, \<open>Namespaces\<close> and \<open>Stores\<close> are its invariants, \<open>Queries\<close> the
  read side, \<open>Snapshots\<close> the snapshot format, \<open>Log_Store\<close> the redb log.

  \<^bold>\<open>Services.\<close>  \<open>Metadata_Store\<close> (\<^verbatim>\<open>raft/router.rs\<close>), \<open>Blob_Store\<close> and \<open>Blob_Integrity\<close> (\<^verbatim>\<open>store/s3.rs\<close>),
  \<open>Gc\<close> (\<^verbatim>\<open>gc.rs\<close>), \<open>Upstream_Client\<close>, \<open>Mirror_Rules\<close>, \<open>Mirror\<close>, \<open>Mirror_Pull\<close>, \<open>Scheduler\<close> (\<^verbatim>\<open>mirror\<close>).

  \<^bold>\<open>Authentication and authorization.\<close>  \<open>Tokens\<close> (\<^verbatim>\<open>auth/token.rs\<close>, \<^verbatim>\<open>auth/session.rs\<close>, \<^verbatim>\<open>config.rs\<close>), \<open>Jwks\<close>
  (\<^verbatim>\<open>auth/jwks.rs\<close>, \<^verbatim>\<open>auth/discovery.rs\<close>), \<open>Cedar_Authorizer\<close> (\<^verbatim>\<open>auth/cedar_authorizer.rs\<close>) and \<open>Auth_Service\<close>
  (\<^verbatim>\<open>auth/mod.rs\<close>) say what a credential stands for and whether an identity may act.  The Cedar engine is the
  record \<open>cedar_engine\<close>; \<open>Access_Control\<close> has the guards in front of it, \<open>Cedar_Permits\<close> reads the printed policy
  as permits and proves the decision equal to \<open>may_access\<close> under \<open>cedar_semantics\<close>, which speaks only of plain ids
  (graphic ASCII) and of entity sets that fit the schema; \<open>Cedar_Instance\<close>
  is an engine that satisfies it.

  \<^bold>\<open>Requests.\<close>  \<open>Request_Paths\<close> and \<open>Http\<close> (\<^verbatim>\<open>routes/mod.rs\<close>), \<open>Upload_Tracker\<close> (\<^verbatim>\<open>store/upload.rs\<close>), \<open>Middleware\<close>
  (\<^verbatim>\<open>auth/middleware.rs\<close>), \<open>Blob_Routes\<close> (\<^verbatim>\<open>routes/blobs.rs\<close>, \<^verbatim>\<open>routes/uploads.rs\<close>), \<open>Manifest_Routes\<close> (the other
  handlers of the distribution API, their dispatch and \<^verbatim>\<open>auth/token_endpoint.rs\<close>), \<open>Namespace_Routes\<close>
  (\<^verbatim>\<open>routes/namespaces\<close>), \<open>Account_Routes\<close> (\<^verbatim>\<open>routes/pat_api.rs\<close>), \<open>Login\<close> (\<^verbatim>\<open>routes/session_api.rs\<close>,
  \<^verbatim>\<open>auth/oauth2.rs\<close>), \<open>Admin_Routes\<close> (\<^verbatim>\<open>routes/admin.rs\<close>) and \<open>Dashboard_Routes\<close> (\<^verbatim>\<open>routes/dashboard_api.rs\<close>).
  \<open>Request_Guards\<close> composes middleware, handlers and state machine; \<open>Account_Guards\<close> does so for tokens,
  sessions and grants, \<open>Dashboard_Guards\<close> for the repositories and manifests of the dashboard.

  \<^bold>\<open>The cluster.\<close>  \<open>Membership\<close> (\<^verbatim>\<open>raft/membership\<close>, \<^verbatim>\<open>raft/kubernetes.rs\<close>): the status, join and leave handlers,
  the requests between nodes, the join loop, the verification after a restore, the scale-down reconciler and the
  cluster routes of the dashboard.  \<open>Node_Lifecycle\<close> (\<^verbatim>\<open>main.rs\<close>, \<^verbatim>\<open>raft/snapshot_s3.rs\<close>): the restore of a node from its
  snapshot in S3, the uploads of snapshots and the departure at shutdown.

  \<^bold>\<open>Configuration and connectors.\<close>  \<open>Configuration\<close> (\<^verbatim>\<open>config.rs\<close>, \<^verbatim>\<open>config/directory\<close>): the sections, the identity of a
  node and the checks of a file.  \<open>Directory\<close> (\<^verbatim>\<open>directory\<close>): the HTTP policy around a directory connector, its error
  messages and calls, and its checks at start.

  \<^bold>\<open>Properties.\<close>  \<open>Registry_Properties\<close>: tenancy of handles, exact reference counts, push, lookup and
  deletion of manifests.  \<open>Maintenance_Properties\<close>: garbage collection and snapshots.
  \<open>Consistency_Properties\<close>: replicas agree, jobs are claimed once, pages are complete, the log and the vote
  are durable.  \<open>Format_Properties\<close>: the string formats.  \<open>Service_Properties\<close>: what an acknowledgement of
  the stores means.  \<open>Mirror_Properties\<close>: matching and pulling from upstreams.
  \<open>Scheduler_Properties\<close>: claims and runs of the sync jobs, with the permits of the semaphore and the writes of a task.
  \<open>Access_Properties\<close>: who gets through to what, from the credential to the committed entry.
  \<open>Account_Properties\<close>: what a login, a created token and a caller of the grant API can do.
  \<open>Admin_Properties\<close>: which mirror rules are accepted.  \<open>Dashboard_Properties\<close>: what a request of the dashboard can
  change, the listing, the names.  \<open>Membership_Properties\<close>: the voters of the cluster.
  \<open>Lifecycle_Properties\<close>: what a restarted node gets back.  Snapshots are exact for the states of complete
  logs (\<open>log_complete\<close> in \<open>Snapshots\<close>), whose manifest puts carry sizes and times.  \<open>Directory_Properties\<close>: the confinement of a connector, accepted
  configurations, pods and node ids.  \<open>Scenario\<close>,
  \<open>Worlds\<close>, \<open>Mirror_Worlds\<close>, \<open>Access_Scenario\<close> and \<open>Account_Scenario\<close> hold the concrete states and services the witnesses use.

  \<^bold>\<open>Fuel and partiality.\<close>  Loops over data are structural recursion or have a termination proof.  The paging
  loop of the upstream client and the work list of an eager pull depend on what another registry answers;
  they are partial functions into \<open>option\<close>, with theorems that they return under stated conditions.  The join
  loop of a node runs until a peer takes it in; it is a partial function into \<open>option\<close>, and what holds when it
  returns is proved.  The loops of the garbage collector, the scheduler and the reconciler never return; one round
  of each is a function.

  \<^bold>\<open>Not modelled.\<close>  The axum route tables and extractors and the text that serde derives for a type are
  libraries at work.  OpenRaft, S3, HTTP, TLS, DNS, redb, Cedar, JWT and hashing are parameters, as said above.
  \<^verbatim>\<open>store/metadata/in_memory.rs\<close> is a double for the tests.  Of the directory connectors the WebAssembly runtime
  (wasmtime) is a parameter, and the API used only by tests is left out.  \<^verbatim>\<open>raft/network.rs\<close> beyond the forwarding of
  writes is transport.  Of the process, the wiring of the services, the listeners, signals and the time limits of the
  shutdown are left out.  The static assets of the dashboard and the command-line client (\<^verbatim>\<open>layerhouse-ctl\<close>) only serve
  files or call the HTTP interface that is modelled here.
\<close>

end
